(* ===== verification/Prelude.thy ===== *)
theory Prelude
  imports Main "HOL-Library.AList" "HOL-Library.Sublist"
begin

text \<open>
  What the component theories share: Go errors as values, the parts of the
  Go standard library the sources call (\<^verbatim>\<open>strings\<close>, \<^verbatim>\<open>strconv.Atoi\<close>,
  \<^verbatim>\<open>encoding/hex\<close>, decoded \<^verbatim>\<open>encoding/json\<close> values), the
  environment of an operation (clock and failing calls), tables as lists of
  rows, and sequences of operations with the two contracts the components
  instantiate: an invariant kept by every operation, and a token that is
  redeemed at most once.

  Strings are byte lists.  Case mapping and white space are those of ASCII:
  on text with bytes above 127 the Go functions fall back to Unicode tables,
  which are not modelled.
\<close>

section \<open>Collections of facts\<close>

named_theorems go_simps \<open>unfolding of the Go library functions\<close>
named_theorems frame_simps \<open>what an operation leaves unchanged\<close>

section \<open>Errors\<close>

text \<open>
  \<open>New\<close> is \<^verbatim>\<open>errors.New\<close> or \<^verbatim>\<open>fmt.Errorf\<close> without \<^verbatim>\<open>%w\<close>;
  \<open>Driver\<close> is the failure of a call that leaves the process (a database
  statement, the random source), named after that call; \<open>Wrap\<close> is
  \<^verbatim>\<open>fmt.Errorf("text: %w", err)\<close> and \<open>Note\<close> is \<^verbatim>\<open>fmt.Errorf("%wtext", err)\<close>.
\<close>

datatype go_error = New string | Driver string | Wrap string go_error | Note go_error string

type_synonym 'a result = "go_error + 'a"

fun errors_is :: "go_error \<Rightarrow> go_error \<Rightarrow> bool" where
  "errors_is (Wrap m e) t = (Wrap m e = t \<or> errors_is e t)"
| "errors_is (Note e m) t = (Note e m = t \<or> errors_is e t)"
| "errors_is e t = (e = t)"

fun Error :: "go_error \<Rightarrow> string" where
  "Error (New m) = m"
| "Error (Driver m) = m"
| "Error (Wrap m e) = m @ '': '' @ Error e"
| "Error (Note e m) = Error e @ m"

abbreviation ErrNoRows :: go_error where
  "ErrNoRows \<equiv> New ''no rows in result set''"

definition is_ok :: "'a result \<Rightarrow> bool" where
  "is_ok r = (case r of Inl _ \<Rightarrow> False | Inr _ \<Rightarrow> True)"

lemma is_ok_simps [simp]: "is_ok (Inr x) = True" "is_ok (Inl e) = False"
  by (simp_all add: is_ok_def)

lemma is_ok_conv: "is_ok r \<longleftrightarrow> (\<exists>x. r = Inr x)"
  by (cases r) auto

lemma map_sum_eq_Inr: "map_sum f g r = Inr y \<longleftrightarrow> (\<exists>x. r = Inr x \<and> y = g x)"
  by (cases r) auto

text \<open>\<open>and_then r f\<close> is \<^verbatim>\<open>x, err := r; if err != nil { return err }; f(x)\<close>,
  \<open>refuse_if b err\<close> is \<^verbatim>\<open>if b { return err }\<close>, \<open>wrapping m r\<close> adds the context
  \<open>m\<close> to an error of \<open>r\<close>.\<close>

definition and_then :: "'a result \<Rightarrow> ('a \<Rightarrow> 'b result) \<Rightarrow> 'b result" where
  "and_then r f = (case r of Inl err \<Rightarrow> Inl err | Inr x \<Rightarrow> f x)"

definition refuse_if :: "bool \<Rightarrow> go_error \<Rightarrow> unit result" where
  "refuse_if b err = (if b then Inl err else Inr ())"

definition wrapping :: "string \<Rightarrow> 'a result \<Rightarrow> 'a result" where
  "wrapping m r = (case r of Inl err \<Rightarrow> Inl (Wrap m err) | Inr x \<Rightarrow> Inr x)"

lemma and_then_simps [simp]: "and_then (Inl err) f = Inl err" "and_then (Inr x) f = f x"
  by (simp_all add: and_then_def)

lemma and_then_Inr: "and_then r f = Inr y \<longleftrightarrow> (\<exists>x. r = Inr x \<and> f x = Inr y)"
  by (cases r) auto

lemma refuse_if_Inr [simp]: "refuse_if b err = Inr u \<longleftrightarrow> \<not> b"
  by (simp add: refuse_if_def)

lemma refuse_if_Inl [simp]: "refuse_if b err = Inl x \<longleftrightarrow> b \<and> x = err"
  by (auto simp: refuse_if_def)

lemma wrapping_Inr [simp]: "wrapping m r = Inr x \<longleftrightarrow> r = Inr x"
  by (cases r) (auto simp: wrapping_def)

text \<open>What a handler writes: \<open>Reply\<close> a status with a payload, \<open>Refuse\<close> a status
  with \<^verbatim>\<open>{"error": text}\<close>.\<close>

datatype 'a response = Reply nat 'a | Refuse nat string

text \<open>The environment of one operation: the clock (nanoseconds since the
  epoch, UTC) and which of its external calls fail.\<close>

record env =
  now :: int
  fault :: "string \<Rightarrow> bool"

definition call :: "env \<Rightarrow> string \<Rightarrow> 'a \<Rightarrow> 'a result" where
  "call e label v = (if fault e label then Inl (Driver label) else Inr v)"

text \<open>An environment in which every call succeeds.\<close>

definition quiet :: "int \<Rightarrow> env" where
  "quiet t = \<lparr>now = t, fault = (\<lambda>_. False)\<rparr>"

lemma quiet_simps [simp]: "now (quiet t) = t" "fault (quiet t) l = False"
  by (simp_all add: quiet_def)

definition no_faults :: "env \<Rightarrow> bool" where
  "no_faults e = (\<forall>l. \<not> fault e l)"

lemma no_faults_quiet [simp]: "no_faults (quiet t)"
  by (simp add: no_faults_def)

lemma call_eq_Inr [simp]: "call e l v = Inr w \<longleftrightarrow> \<not> fault e l \<and> w = v"
  by (auto simp: call_def)

lemma call_eq_Inl [simp]: "call e l v = Inl x \<longleftrightarrow> fault e l \<and> x = Driver l"
  by (auto simp: call_def)

definition second :: int where "second = 1000000000"
definition minute :: int where "minute = 60 * second"
definition hour :: int where "hour = 60 * minute"

lemmas duration_defs = second_def minute_def hour_def

section \<open>Strings\<close>

definition byte :: "char \<Rightarrow> nat" where
  "byte c = of_char c"

definition is_space :: "char \<Rightarrow> bool" where
  "is_space c = ((9 \<le> byte c \<and> byte c \<le> 13) \<or> byte c = 32)"

definition is_digit :: "char \<Rightarrow> bool" where
  "is_digit c = (48 \<le> byte c \<and> byte c \<le> 57)"

definition is_upper :: "char \<Rightarrow> bool" where
  "is_upper c = (65 \<le> byte c \<and> byte c \<le> 90)"

definition is_lower :: "char \<Rightarrow> bool" where
  "is_lower c = (97 \<le> byte c \<and> byte c \<le> 122)"

definition lower_char :: "char \<Rightarrow> char" where
  "lower_char c = (if is_upper c then char_of (byte c + 32) else c)"

definition upper_char :: "char \<Rightarrow> char" where
  "upper_char c = (if is_lower c then char_of (byte c - 32) else c)"

definition to_lower :: "string \<Rightarrow> string" where
  "to_lower s = map lower_char s"

definition to_upper :: "string \<Rightarrow> string" where
  "to_upper s = map upper_char s"

definition equal_fold :: "string \<Rightarrow> string \<Rightarrow> bool" where
  "equal_fold a b = (to_lower a = to_lower b)"

definition trim_space :: "string \<Rightarrow> string" where
  "trim_space s = rev (dropWhile is_space (rev (dropWhile is_space s)))"

function Fields :: "string \<Rightarrow> string list" where
  "Fields [] = []"
| "Fields (c # cs) =
     (if is_space c then Fields cs
      else (c # takeWhile (\<lambda>x. \<not> is_space x) cs) # Fields (dropWhile (\<lambda>x. \<not> is_space x) cs))"
  by pat_completeness auto
termination
  by (relation "measure length") (auto simp: le_imp_less_Suc length_dropWhile_le)

fun split_on :: "char \<Rightarrow> string \<Rightarrow> string list" where
  "split_on d [] = [[]]"
| "split_on d (c # cs) =
     (if c = d then [] # split_on d cs
      else (case split_on d cs of [] \<Rightarrow> [[c]] | p # ps \<Rightarrow> (c # p) # ps))"

fun join :: "string \<Rightarrow> string list \<Rightarrow> string" where
  "join sep [] = []"
| "join sep [x] = x"
| "join sep (x # y # ys) = x @ sep @ join sep (y # ys)"

definition has_prefix :: "string \<Rightarrow> string \<Rightarrow> bool" where
  "has_prefix s p = (take (length p) s = p)"

definition has_suffix :: "string \<Rightarrow> string \<Rightarrow> bool" where
  "has_suffix s p = has_prefix (rev s) (rev p)"

definition trim_prefix :: "string \<Rightarrow> string \<Rightarrow> string" where
  "trim_prefix s p = (if has_prefix s p then drop (length p) s else s)"

definition trim_char :: "char \<Rightarrow> string \<Rightarrow> string" where
  "trim_char d s = rev (dropWhile (\<lambda>c. c = d) (rev (dropWhile (\<lambda>c. c = d) s)))"

text \<open>\<^verbatim>\<open>strings.Index\<close> for a one-byte separator: the text before and after
  its first occurrence.\<close>

definition cut_at :: "char \<Rightarrow> string \<Rightarrow> (string \<times> string) option" where
  "cut_at d s = (if d \<in> set s then Some (takeWhile (\<lambda>c. c \<noteq> d) s, tl (dropWhile (\<lambda>c. c \<noteq> d) s))
     else None)"

text \<open>\<^verbatim>\<open>strconv.Atoi\<close>: optional sign, decimal digits, range of a 64-bit int.\<close>

fun digits_value :: "int \<Rightarrow> string \<Rightarrow> int" where
  "digits_value acc [] = acc"
| "digits_value acc (c # cs) = digits_value (10 * acc + (int (byte c) - 48)) cs"

definition max_int :: int where "max_int = 9223372036854775807"
definition min_int :: int where "min_int = - 9223372036854775808"

definition wrap64 :: "int \<Rightarrow> int" where
  "wrap64 n = (n - min_int) mod 18446744073709551616 + min_int"

definition atoi :: "string \<Rightarrow> int option" where
  "atoi s =
     (let (sgn, ds) = (case s of [] \<Rightarrow> (1, [])
         | c # cs \<Rightarrow> if c = CHR ''-'' then (-1, cs) else if c = CHR ''+'' then (1, cs) else (1, s));
        n = sgn * digits_value 0 ds
      in if ds = [] \<or> \<not> list_all is_digit ds \<or> n < min_int \<or> max_int < n then None else Some n)"

lemmas int64_defs = max_int_def min_int_def wrap64_def

lemma wrap64_id: "min_int \<le> n \<Longrightarrow> n \<le> max_int \<Longrightarrow> wrap64 n = n"
  by (simp add: int64_defs)

lemma wrap64_range: "min_int \<le> wrap64 n \<and> wrap64 n \<le> max_int"
  by (simp add: int64_defs)

lemma wrap64_over: "max_int < n \<Longrightarrow> n \<le> max_int + 18446744073709551616 \<Longrightarrow>
  wrap64 n = n - 18446744073709551616"
proof -
  assume "max_int < n" and "n \<le> max_int + 18446744073709551616"
  then have "(n - min_int - 18446744073709551616) mod 18446744073709551616
      = n - min_int - 18446744073709551616"
    by (intro mod_pos_pos_trivial) (auto simp: int64_defs)
  then show ?thesis
    unfolding wrap64_def by (simp add: minus_mod_self2)
qed

lemma is_upper_lower_char [simp]: "\<not> is_upper (lower_char c)"
  by (simp add: lower_char_def is_upper_def byte_def)

lemma lower_char_idem [simp]: "lower_char (lower_char c) = lower_char c"
  using is_upper_lower_char [of c] by (simp add: lower_char_def)

lemma to_lower_idem [simp]: "to_lower (to_lower s) = to_lower s"
  by (simp add: to_lower_def)

lemma to_lower_append: "to_lower (a @ b) = to_lower a @ to_lower b"
  by (simp add: to_lower_def)

lemma lower_char_space [simp]: "is_space (lower_char c) = is_space c"
  by (auto simp: lower_char_def is_space_def is_upper_def byte_def)

text \<open>The classes of characters by their bits, with which concrete strings are evaluated.\<close>

lemma is_space_bits [code]:
  "is_space (Char b0 b1 b2 b3 b4 b5 b6 b7) =
     (\<not> b7 \<and> \<not> b6 \<and> (if b5 then \<not> (b0 \<or> b1 \<or> b2 \<or> b3 \<or> b4) else \<not> b4 \<and> b3 \<and> (if b2 then \<not> b1 else b0 \<or> b1)))"
  by (cases b0; cases b1; cases b2; cases b3; cases b4; cases b5; cases b6; cases b7) (simp_all add: is_space_def byte_def)

lemma is_digit_bits [code]:
  "is_digit (Char b0 b1 b2 b3 b4 b5 b6 b7) = (\<not> b7 \<and> \<not> b6 \<and> b5 \<and> b4 \<and> (\<not> b3 \<or> \<not> b2 \<and> \<not> b1))"
  by (cases b0; cases b1; cases b2; cases b3; cases b4; cases b5; cases b6; cases b7) (simp_all add: is_digit_def byte_def)

lemma is_upper_bits [code]:
  "is_upper (Char b0 b1 b2 b3 b4 b5 b6 b7) =
     (\<not> b7 \<and> b6 \<and> \<not> b5 \<and> (b0 \<or> b1 \<or> b2 \<or> b3 \<or> b4) \<and> \<not> (b4 \<and> b3 \<and> (b2 \<or> b1 \<and> b0)))"
  by (cases b0; cases b1; cases b2; cases b3; cases b4; cases b5; cases b6; cases b7) (simp_all add: is_upper_def byte_def)

lemma is_lower_bits [code]:
  "is_lower (Char b0 b1 b2 b3 b4 b5 b6 b7) =
     (\<not> b7 \<and> b6 \<and> b5 \<and> (b0 \<or> b1 \<or> b2 \<or> b3 \<or> b4) \<and> \<not> (b4 \<and> b3 \<and> (b2 \<or> b1 \<and> b0)))"
  by (cases b0; cases b1; cases b2; cases b3; cases b4; cases b5; cases b6; cases b7) (simp_all add: is_lower_def byte_def)

lemma lower_char_bits [code]:
  "lower_char (Char b0 b1 b2 b3 b4 b5 b6 b7) =
     Char b0 b1 b2 b3 b4 (if is_upper (Char b0 b1 b2 b3 b4 b5 b6 b7) then True else b5) b6 b7"
  by (cases b0; cases b1; cases b2; cases b3; cases b4; cases b5; cases b6; cases b7)
    (simp_all add: lower_char_def is_upper_bits byte_def char_of_def bit_0 bit_Suc)

lemma upper_char_bits [code]:
  "upper_char (Char b0 b1 b2 b3 b4 b5 b6 b7) =
     Char b0 b1 b2 b3 b4 (if is_lower (Char b0 b1 b2 b3 b4 b5 b6 b7) then False else b5) b6 b7"
  by (cases b0; cases b1; cases b2; cases b3; cases b4; cases b5; cases b6; cases b7)
    (simp_all add: upper_char_def is_lower_bits byte_def char_of_def bit_0 bit_Suc)

lemma fields_leading_space: "list_all is_space ws \<Longrightarrow> Fields (ws @ s) = Fields s"
  by (induction ws) auto

lemma fields_all_space: "list_all is_space s \<Longrightarrow> Fields s = []"
  by (induction s) auto

lemma fields_trailing_space: "list_all is_space ws \<Longrightarrow> Fields (s @ ws) = Fields s"
proof (induction s rule: Fields.induct)
  case 1
  then show ?case by (simp add: fields_all_space)
next
  case (2 c cs)
  show ?case
  proof (cases "list_all (\<lambda>x. \<not> is_space x) cs")
    case True
    then have cs: "takeWhile (\<lambda>x. \<not> is_space x) cs = cs" "dropWhile (\<lambda>x. \<not> is_space x) cs = []"
      by (auto simp: list_all_iff)
    from "2.prems" have ws: "takeWhile (\<lambda>x. \<not> is_space x) ws = []"
        "dropWhile (\<lambda>x. \<not> is_space x) ws = ws"
      by (cases ws; simp)+
    from True have "\<forall>x \<in> set cs. \<not> is_space x"
      by (simp add: list_all_iff)
    with 2 show ?thesis
      by (simp add: cs ws takeWhile_append dropWhile_append fields_all_space)
  next
    case False
    then show ?thesis
      using 2 by (auto simp: list_all_iff takeWhile_append dropWhile_append)
  qed
qed

text \<open>Decimal output (\<^verbatim>\<open>%d\<close>, \<^verbatim>\<open>strconv.Itoa\<close>).\<close>

fun dec_nat :: "nat \<Rightarrow> string" where
  "dec_nat n = (if n < 10 then [char_of (48 + n)] else dec_nat (n div 10) @ [char_of (48 + n mod 10)])"

declare dec_nat.simps [simp del]

definition dec :: "int \<Rightarrow> string" where
  "dec i = (if i < 0 then CHR ''-'' # dec_nat (nat (- i)) else dec_nat (nat i))"

lemma digits_value_append: "digits_value a (s @ t) = digits_value (digits_value a s) t"
  by (induction s arbitrary: a) auto

lemma digits_value_dec_nat: "digits_value 0 (dec_nat n) = int n"
proof (induction n rule: dec_nat.induct)
  case (1 n)
  show ?case
  proof (cases "n < 10")
    case True
    then show ?thesis by (simp add: dec_nat.simps [of n] byte_def)
  next
    case False
    then have "digits_value 0 (dec_nat n) = 10 * int (n div 10) + int (n mod 10)"
      using 1 by (simp add: dec_nat.simps [of n] digits_value_append byte_def)
    moreover have "int n = 10 * int (n div 10) + int (n mod 10)" by presburger
    ultimately show ?thesis by simp
  qed
qed

lemma dec_nat_inject [simp]: "dec_nat m = dec_nat n \<longleftrightarrow> m = n"
  by (metis digits_value_dec_nat of_nat_eq_iff)

lemma dec_nat_digits: "list_all is_digit (dec_nat n)"
proof (induction n rule: dec_nat.induct)
  case (1 n)
  have "is_digit (char_of (48 + n mod 10))" "n < 10 \<Longrightarrow> is_digit (char_of (48 + n))"
    by (auto simp: is_digit_def byte_def)
  with 1 show ?case by (subst dec_nat.simps) auto
qed

text \<open>The format \<^verbatim>\<open>%q\<close> on printable ASCII text.\<close>

definition quoted :: "string \<Rightarrow> string" where
  "quoted s = [char_of (34 :: nat)] @ concat (map (\<lambda>c. if byte c \<in> {34, 92} then [char_of (92 :: nat), c] else [c]) s)
     @ [char_of (34 :: nat)]"

text \<open>\<^verbatim>\<open>utf8.RuneCountInString\<close>: the width of the encoding at the head of a
  byte string, 1 for a byte that starts none, and the number of runes.\<close>

definition cont_byte :: "char \<Rightarrow> bool" where
  "cont_byte c = (128 \<le> byte c \<and> byte c \<le> 191)"

definition second_ok :: "nat \<Rightarrow> char \<Rightarrow> bool" where
  "second_ok b c =
     (if b = 224 then 160 \<le> byte c \<and> byte c \<le> 191
      else if b = 237 then 128 \<le> byte c \<and> byte c \<le> 159
      else if b = 240 then 144 \<le> byte c \<and> byte c \<le> 191
      else if b = 244 then 128 \<le> byte c \<and> byte c \<le> 143
      else cont_byte c)"

definition rune_width :: "string \<Rightarrow> nat" where
  "rune_width s =
     (case s of
        c1 # c2 # cs \<Rightarrow>
          (let b = byte c1
           in if 194 \<le> b \<and> b \<le> 223 \<and> second_ok b c2 then 2
              else if 224 \<le> b \<and> b \<le> 239 \<and> second_ok b c2 \<and> cs \<noteq> [] \<and> cont_byte (hd cs) then 3
              else if 240 \<le> b \<and> b \<le> 244 \<and> second_ok b c2 \<and> length cs \<ge> 2
                      \<and> cont_byte (cs ! 0) \<and> cont_byte (cs ! 1) then 4
              else 1)
      | _ \<Rightarrow> 1)"

function rune_count :: "string \<Rightarrow> nat" where
  "rune_count [] = 0"
| "rune_count (c # cs) = Suc (rune_count (drop (rune_width (c # cs)) (c # cs)))"
  by pat_completeness auto
termination
  by (relation "measure length") (auto simp: rune_width_def Let_def split: list.splits)

lemma rune_width_pos: "0 < rune_width s"
  by (auto simp: rune_width_def Let_def split: list.splits)

lemma rune_count_le_length: "rune_count s \<le> length s"
proof (induction s rule: rune_count.induct)
  case (2 c cs)
  then show ?case using rune_width_pos [of "c # cs"] by simp
qed simp

text \<open>\<^verbatim>\<open>unicode.IsControl\<close> somewhere in a string: the ASCII control characters, and
  U+0080 to U+009F, encoded as 0xC2 and a byte below 0xA0.\<close>

fun has_control :: "string \<Rightarrow> bool" where
  "has_control [] = False"
| "has_control (c # cs) = (byte c < 32 \<or> byte c = 127
     \<or> (byte c = 194 \<and> (case cs of [] \<Rightarrow> False | c2 # _ \<Rightarrow> 128 \<le> byte c2 \<and> byte c2 < 160))
     \<or> has_control cs)"

section \<open>Decoded JSON\<close>

text \<open>A number is kept as its text; an object is an association list, in
  which the first binding of a key is the one read.\<close>

datatype json = JNull | JBool bool | JNum string | JStr string
  | JArr "json list" | JObj "(string \<times> json) list"

section \<open>Tables\<close>

text \<open>A table is the list of its rows.  \<^verbatim>\<open>UPDATE ... WHERE\<close> maps over it,
  \<^verbatim>\<open>DELETE ... WHERE\<close> filters it, a query for one row takes the first match.\<close>

definition update_where :: "('r \<Rightarrow> bool) \<Rightarrow> ('r \<Rightarrow> 'r) \<Rightarrow> 'r list \<Rightarrow> 'r list" where
  "update_where p f t = map (\<lambda>r. if p r then f r else r) t"

definition delete_where :: "('r \<Rightarrow> bool) \<Rightarrow> 'r list \<Rightarrow> 'r list" where
  "delete_where p t = filter (\<lambda>r. \<not> p r) t"

definition rows_affected :: "('r \<Rightarrow> bool) \<Rightarrow> 'r list \<Rightarrow> nat" where
  "rows_affected p t = length (filter p t)"

lemma rows_affected_0 [simp]: "rows_affected p t = 0 \<longleftrightarrow> (\<forall>r \<in> set t. \<not> p r)"
  by (auto simp: rows_affected_def filter_empty_conv)

lemma set_update_where: "set (update_where p f t) = (\<lambda>r. if p r then f r else r) ` set t"
  by (simp add: update_where_def)

lemma set_delete_where: "set (delete_where p t) = {r \<in> set t. \<not> p r}"
  by (auto simp: delete_where_def)

lemma update_where_in: "r \<in> set t \<Longrightarrow> p r \<Longrightarrow> f r \<in> set (update_where p f t)"
  by (force simp: set_update_where)

lemma update_where_out: "r \<in> set t \<Longrightarrow> \<not> p r \<Longrightarrow> r \<in> set (update_where p f t)"
  by (force simp: set_update_where)

lemma update_where_all:
  "(\<And>r. r \<in> set t \<Longrightarrow> p r \<Longrightarrow> q (f r)) \<Longrightarrow> (\<And>r. r \<in> set t \<Longrightarrow> \<not> p r \<Longrightarrow> q r) \<Longrightarrow>
   r \<in> set (update_where p f t) \<Longrightarrow> q r"
  unfolding set_update_where by (erule imageE) simp

lemma update_where_id: "(\<And>r. r \<in> set t \<Longrightarrow> p r \<Longrightarrow> f r = r) \<Longrightarrow> update_where p f t = t"
  by (simp add: update_where_def map_idI)

lemma find_update_where:
  "(\<And>r. q (f r) = q r) \<Longrightarrow>
   List.find q (update_where p f t) = map_option (\<lambda>r. if p r then f r else r) (List.find q t)"
  by (induction t) (auto simp: update_where_def)

lemma find_update_same:
  "(\<And>r. q r \<Longrightarrow> q (f r)) \<Longrightarrow> List.find q (update_where q f t) = map_option f (List.find q t)"
  by (induction t) (auto simp: update_where_def)

lemma find_update_other:
  "(\<And>r. p r \<Longrightarrow> \<not> q r) \<Longrightarrow> (\<And>r. p r \<Longrightarrow> \<not> q (f r)) \<Longrightarrow> List.find q (update_where p f t) = List.find q t"
  by (induction t) (auto simp: update_where_def)

lemma find_append: "List.find q (t @ s) = (case List.find q t of None \<Rightarrow> List.find q s | Some r \<Rightarrow> Some r)"
  by (induction t) auto

lemma find_ex: "r \<in> set t \<Longrightarrow> q r \<Longrightarrow> \<exists>x. List.find q t = Some x \<and> q x"
  by (induction t) auto

lemma find_none: "(\<And>r. r \<in> set t \<Longrightarrow> \<not> q r) \<Longrightarrow> List.find q t = None"
  by (induction t) auto

lemma find_restrict: "(\<And>r. q r \<Longrightarrow> p r) \<Longrightarrow> List.find q t = List.find q (filter p t)"
  by (induction t) auto

lemma find_filter: "List.find p xs = List.find p (filter p xs)"
  by (induction xs) auto

lemma find_SomeD: "List.find p xs = Some x \<Longrightarrow> x \<in> set xs \<and> p x"
  by (auto simp: find_Some_iff)

lemma find_delete_where:
  "(\<And>r. q r \<Longrightarrow> \<not> p r) \<Longrightarrow> List.find q (delete_where p t) = List.find q t"
  by (induction t) (auto simp: delete_where_def)

text \<open>\<open>unique_on k t\<close> is a \<^verbatim>\<open>UNIQUE\<close> constraint on the column \<open>k\<close>.\<close>

definition unique_on :: "('r \<Rightarrow> 'k) \<Rightarrow> 'r list \<Rightarrow> bool" where
  "unique_on k t = distinct (map k t)"

lemma unique_on_find:
  "unique_on k t \<Longrightarrow> r \<in> set t \<Longrightarrow> List.find (\<lambda>x. k x = k r) t = Some r"
  by (induction t) (auto simp: unique_on_def)

lemma unique_on_eq:
  "unique_on k t \<Longrightarrow> r \<in> set t \<Longrightarrow> r' \<in> set t \<Longrightarrow> k r = k r' \<Longrightarrow> r = r'"
  unfolding unique_on_def distinct_map by (meson inj_on_def)

lemma unique_on_update_where:
  "(\<And>r. k (f r) = k r) \<Longrightarrow> unique_on k (update_where p f t) = unique_on k t"
  by (simp add: unique_on_def update_where_def comp_def if_distrib cong: if_cong)

lemma unique_on_append_row:
  "unique_on k (t @ [r]) \<longleftrightarrow> unique_on k t \<and> (\<forall>x \<in> set t. k x \<noteq> k r)"
  by (auto simp: unique_on_def image_iff)

lemma unique_on_delete_where: "unique_on k t \<Longrightarrow> unique_on k (delete_where p t)"
  by (simp add: unique_on_def delete_where_def distinct_map_filter)

section \<open>Sequences of operations\<close>

text \<open>\<open>trace_of step acts s\<close> runs the operations in order from \<open>s\<close> and pairs
  each with its answer; \<open>run_of\<close> is the state they end in.\<close>

fun trace_of :: "('act \<Rightarrow> 'st \<Rightarrow> 'res \<times> 'st) \<Rightarrow> 'act list \<Rightarrow> 'st \<Rightarrow> ('act \<times> 'res) list" where
  "trace_of step [] s = []"
| "trace_of step (a # as) s = (a, fst (step a s)) # trace_of step as (snd (step a s))"

fun run_of :: "('act \<Rightarrow> 'st \<Rightarrow> 'res \<times> 'st) \<Rightarrow> 'act list \<Rightarrow> 'st \<Rightarrow> 'st" where
  "run_of step [] s = s"
| "run_of step (a # as) s = run_of step as (snd (step a s))"

lemma run_of_append: "run_of step (as @ bs) s = run_of step bs (run_of step as s)"
  by (induction as arbitrary: s) auto

locale kept_invariant =
  fixes step :: "'act \<Rightarrow> 'st \<Rightarrow> 'res \<times> 'st"
    and inv :: "'st \<Rightarrow> bool"
  assumes inv_keeps: "inv s \<Longrightarrow> inv (snd (step a s))"
begin

lemma inv_run: "inv s \<Longrightarrow> inv (run_of step as s)"
  by (induction as arbitrary: s) (auto simp: inv_keeps)

end

text \<open>A single-use token: a redemption spends it, a spent token stays spent
  whatever else happens, and it cannot be redeemed again.\<close>

locale single_use = kept_invariant +
  fixes redeems :: "'act \<Rightarrow> 'res \<Rightarrow> 'tok \<Rightarrow> bool"
    and spent :: "'tok \<Rightarrow> 'st \<Rightarrow> bool"
  assumes spent_blocks: "inv s \<Longrightarrow> spent t s \<Longrightarrow> \<not> redeems a (fst (step a s)) t"
    and redeem_spends: "inv s \<Longrightarrow> redeems a (fst (step a s)) t \<Longrightarrow> spent t (snd (step a s))"
    and spent_keeps: "inv s \<Longrightarrow> spent t s \<Longrightarrow> spent t (snd (step a s))"
begin

lemma spent_never:
  "inv s \<Longrightarrow> spent t s \<Longrightarrow> filter (\<lambda>(a, r). redeems a r t) (trace_of step as s) = []"
  by (induction as arbitrary: s) (auto simp: spent_blocks spent_keeps inv_keeps)

lemma at_most_once:
  "inv s \<Longrightarrow> length (filter (\<lambda>(a, r). redeems a r t) (trace_of step as s)) \<le> 1"
proof (induction as arbitrary: s)
  case Nil
  then show ?case by simp
next
  case (Cons a as)
  show ?case
  proof (cases "redeems a (fst (step a s)) t")
    case True
    then have "filter (\<lambda>(a, r). redeems a r t) (trace_of step as (snd (step a s))) = []"
      using Cons.prems spent_never redeem_spends inv_keeps by blast
    with True show ?thesis by simp
  next
    case False
    then show ?thesis using Cons by (simp add: inv_keeps)
  qed
qed

end

text \<open>A queue of tasks with identities: an operation appends tasks or takes one that is
  pending, and the identity of a new task was never known before.  The pending tasks are
  those of the start and the appended ones, in that order, without the taken ones; each
  is taken at most once.\<close>

fun added_of :: "('act \<Rightarrow> 'st \<Rightarrow> 'res \<times> 'st) \<Rightarrow> ('act \<Rightarrow> 'st \<Rightarrow> 'i list) \<Rightarrow> 'act list \<Rightarrow> 'st \<Rightarrow> 'i list" where
  "added_of step adds [] s = []"
| "added_of step adds (a # as) s = adds a s @ added_of step adds as (snd (step a s))"

locale task_queue = kept_invariant +
  fixes pending :: "'st \<Rightarrow> 'i list"
    and known :: "'i \<Rightarrow> 'st \<Rightarrow> bool"
    and adds :: "'act \<Rightarrow> 'st \<Rightarrow> 'i list"
    and takes :: "'act \<Rightarrow> 'res \<Rightarrow> 'i \<Rightarrow> bool"
  assumes pending_step: "inv s \<Longrightarrow>
      pending (snd (step a s)) = filter (\<lambda>i. \<not> takes a (fst (step a s)) i) (pending s @ adds a s)"
    and pending_known: "inv s \<Longrightarrow> i \<in> set (pending s) \<Longrightarrow> known i s"
    and adds_fresh: "inv s \<Longrightarrow> i \<in> set (adds a s) \<Longrightarrow> \<not> known i s \<and> \<not> takes a (fst (step a s)) i"
    and known_keeps: "inv s \<Longrightarrow> known i s \<Longrightarrow> known i (snd (step a s))"
    and takes_pending: "inv s \<Longrightarrow> takes a (fst (step a s)) i \<Longrightarrow> i \<in> set (pending s)"
begin

lemma pending_run:
  "inv s \<Longrightarrow> pending (run_of step as s) =
    filter (\<lambda>i. \<forall>(a, r) \<in> set (trace_of step as s). \<not> takes a r i) (pending s @ added_of step adds as s)"
proof (induction as arbitrary: s)
  case Nil
  then show ?case by simp
next
  case (Cons a as)
  let ?s = "snd (step a s)"
  let ?q = "\<lambda>i. \<forall>(a, r) \<in> set (trace_of step as ?s). \<not> takes a r i"
  let ?t = "\<lambda>i. \<not> takes a (fst (step a s)) i"
  have fresh: "?t i" if i: "i \<in> set (added_of step adds as ?s)" for i
  proof (rule ccontr)
    assume "\<not> ?t i"
    then have "known i s" using Cons.prems takes_pending pending_known by blast
    then have k: "known i ?s" using Cons.prems known_keeps by blast
    have "i \<notin> set (added_of step adds bs u)" if "inv u" "known i u" for bs u
      using that by (induction bs arbitrary: u) (auto simp: inv_keeps known_keeps dest: adds_fresh)
    with k i Cons.prems inv_keeps show False by blast
  qed
  have "pending (run_of step (a # as) s) = filter ?q (pending ?s @ added_of step adds as ?s)"
    using Cons.IH [OF inv_keeps [OF Cons.prems]] by simp
  also have "pending ?s = filter ?t (pending s @ adds a s)" using Cons.prems by (rule pending_step)
  also have "filter ?q (filter ?t (pending s @ adds a s) @ added_of step adds as ?s)
      = filter (\<lambda>i. ?t i \<and> ?q i) (pending s @ adds a s @ added_of step adds as ?s)"
    using fresh by (auto simp: conj_commute intro!: filter_cong)
  also have "(\<lambda>i. ?t i \<and> ?q i) = (\<lambda>i. \<forall>(b, r) \<in> set (trace_of step (a # as) s). \<not> takes b r i)"
    by (auto simp: fun_eq_iff)
  finally show ?case by simp
qed

end

sublocale task_queue \<subseteq> served: single_use step inv takes "\<lambda>i s. known i s \<and> i \<notin> set (pending s)"
proof
  show "\<not> takes a (fst (step a s)) i" if "inv s" "known i s \<and> i \<notin> set (pending s)" for s i a
    using that takes_pending by blast
  show "known i (snd (step a s)) \<and> i \<notin> set (pending (snd (step a s)))"
    if "inv s" "takes a (fst (step a s)) i" for s i a
    using that takes_pending pending_known known_keeps pending_step by fastforce
  show "known i (snd (step a s)) \<and> i \<notin> set (pending (snd (step a s)))"
    if "inv s" "known i s \<and> i \<notin> set (pending s)" for s i a
    using that known_keeps adds_fresh pending_step by fastforce
qed

end
