(* ===== verification/Models.thy ===== *)
theory Models
  imports Complex_Main Prelude
begin

text \<open>
  \<^verbatim>\<open>internal/models\<close>: the role hierarchy, the structs the services
  exchange, the console allow-list, and the panel's PostgreSQL schema as the
  record \<open>db\<close> with one list of rows per table.  A row has the columns
  the modelled statements read or write; an SQL \<^verbatim>\<open>NULL\<close> is \<open>None\<close>,
  except in \<open>u_TOTPSecret\<close>, which every query reads through
  \<^verbatim>\<open>COALESCE(totp_secret, '')\<close>.  UUIDs are only compared, so they are
  numbers; \<^verbatim>\<open>uuid.Nil\<close> is 0.
\<close>

type_synonym uuid = nat
type_synonym time = int

section \<open>Roles\<close>

abbreviation RoleUser :: string where "RoleUser \<equiv> ''user''"
abbreviation RoleModerator :: string where "RoleModerator \<equiv> ''moderator''"
abbreviation RoleAdmin :: string where "RoleAdmin \<equiv> ''admin''"
abbreviation RoleOwner :: string where "RoleOwner \<equiv> ''owner''"

definition RoleWeight :: "string \<Rightarrow> nat" where
  "RoleWeight role =
     (if role = RoleOwner then 4
      else if role = RoleAdmin then 3
      else if role = RoleModerator then 2
      else if role = RoleUser then 1
      else 0)"

lemma RoleWeight_simps [simp]:
  "RoleWeight RoleOwner = 4" "RoleWeight RoleAdmin = 3"
  "RoleWeight RoleModerator = 2" "RoleWeight RoleUser = 1"
  by (simp_all add: RoleWeight_def)

lemma RoleWeight_le_4: "RoleWeight r \<le> 4"
  by (simp add: RoleWeight_def)

section \<open>Rows\<close>

record User =
  u_ID :: uuid
  u_Email :: string
  u_Username :: string
  u_PasswordHash :: string
  u_Role :: string
  u_TOTPSecret :: string
  u_TOTPEnabled :: bool
  u_CreatedAt :: time
  u_LastLoginAt :: "time option"
  u_IsActive :: bool

record Session =
  s_ID :: uuid
  s_UserID :: uuid
  s_TokenHash :: string
  s_IPAddress :: string
  s_UserAgent :: string
  s_CreatedAt :: time
  s_ExpiresAt :: time
  s_Revoked :: bool

record Node =
  n_ID :: uuid
  n_Name :: string
  n_FQDN :: string
  n_PublicAddress :: "string option"
  n_Port :: int
  n_TotalCPU :: int
  n_TotalRAMMB :: int
  n_TotalDiskMB :: int
  n_MaxServers :: int
  n_TokenHash :: string
  n_Status :: string
  n_Location :: "string option"
  n_CertThumbprint :: "string option"
  n_LastHeartbeat :: "time option"
  n_CreatedAt :: time
  n_MTLSEnabled :: bool
  n_CertSerial :: "string option"
  n_CertNotAfter :: "time option"

record Server =
  sv_ID :: uuid
  sv_Name :: string
  sv_NodeID :: uuid
  sv_OwnerID :: uuid
  sv_Status :: string
  sv_Port :: int
  sv_DataPath :: string
  sv_NetworkRole :: "string option"
  sv_RequireReferral :: bool
  sv_HytaleVersion :: string
  sv_CPULimit :: int
  sv_RAMLimitMB :: int
  sv_DiskLimitMB :: int
  sv_AutoRestart :: bool
  sv_CrashLimit :: int
  sv_CrashWindowS :: int
  sv_ActiveWorld :: string
  sv_CreatedAt :: time
  sv_UpdatedAt :: time
  sv_LaunchFlags :: "string list"
  sv_UseHytaleAccount :: bool
  sv_LastExitCode :: "int option"

record ServerMember =
  m_ServerID :: uuid
  m_UserID :: uuid
  m_Role :: string
  m_Permissions :: "json option"

record UserPermission =
  up_ID :: uuid
  up_UserID :: uuid
  up_PermKey :: string
  up_Granted :: bool

record Permission =
  p_Key :: string
  p_Description :: string
  p_Category :: string

record ServerInvitation =
  i_ID :: uuid
  i_ServerID :: uuid
  i_InviterID :: uuid
  i_InviteeEmail :: string
  i_Token :: string
  i_Role :: string
  i_Permissions :: "(string \<times> bool) list"
  i_Status :: string
  i_CreatedAt :: time
  i_ExpiresAt :: time

record Enrollment =
  e_ID :: uuid
  e_TokenHash :: string
  e_NodeName :: string
  e_TotalCPU :: "int option"
  e_TotalRAMMB :: "int option"
  e_TotalDiskMB :: "int option"
  e_MaxServers :: int
  e_CreatedBy :: "uuid option"
  e_CreatedAt :: time
  e_ExpiresAt :: time
  e_UsedAt :: "time option"
  e_NodeID :: "uuid option"

record NodeCommand =
  c_ID :: uuid
  c_NodeID :: uuid
  c_ServerID :: "uuid option"
  c_CommandType :: string
  c_Payload :: json
  c_Status :: string
  c_Result :: "json option"
  c_CreatedAt :: time
  c_AckedAt :: "time option"

record NodeMetric =
  nm_NodeID :: uuid
  nm_SampledAt :: time
  nm_CPUPct :: rat
  nm_RAMUsedMB :: int
  nm_DiskUsedMB :: int
  nm_ActiveServers :: int

record ServerLog =
  l_ID :: int
  l_ServerID :: uuid
  l_LoggedAt :: time
  l_Level :: string
  l_Message :: string

record Player =
  pl_ID :: uuid
  pl_ServerID :: uuid
  pl_HytaleUUID :: uuid
  pl_Username :: string
  pl_FirstSeen :: time
  pl_LastSeen :: "time option"
  pl_PlaytimeS :: int
  pl_IsWhitelisted :: bool
  pl_IsBanned :: bool
  pl_BanReason :: "string option"
  pl_BannedAt :: "time option"
  pl_BannedBy :: "uuid option"
  pl_IsOp :: bool
  pl_IsMuted :: bool

record PlayerSession =
  ps_ID :: uuid
  ps_PlayerID :: uuid
  ps_JoinedAt :: time
  ps_LeftAt :: "time option"
  ps_DurationS :: "int option"

record NetworkBan =
  nb_HytaleUUID :: uuid
  nb_UsernameAtBan :: "string option"
  nb_Reason :: "string option"
  nb_BannedBy :: "uuid option"
  nb_BannedAt :: time

record AlertRule =
  r_ID :: uuid
  r_ServerID :: "uuid option"
  r_UserID :: uuid
  r_Type :: string
  r_Threshold :: "rat option"
  r_Channels :: "string list"
  r_Enabled :: bool
  r_CreatedAt :: time
  r_WebhookURL :: string

record AlertEvent =
  ae_ID :: uuid
  ae_RuleID :: "uuid option"
  ae_ServerID :: "uuid option"
  ae_NodeID :: "uuid option"
  ae_Type :: string
  ae_Severity :: string
  ae_Title :: string
  ae_Resolved :: bool
  ae_ResolvedAt :: "time option"
  ae_CreatedAt :: time

record ActivityLog =
  a_ID :: uuid
  a_UserID :: "uuid option"
  a_ServerID :: "uuid option"
  a_Action :: string
  a_TargetType :: string
  a_TargetID :: "uuid option"
  a_IPAddress :: "string option"
  a_Payload :: json
  a_CreatedAt :: time

record Backup =
  b_ID :: uuid
  b_ServerID :: "uuid option"
  b_WorldName :: "string option"
  b_Type :: string
  b_Storage :: string
  b_StoragePath :: string
  b_SizeBytes :: "int option"
  b_Status :: string
  b_TriggeredBy :: string
  b_CreatedAt :: time
  b_CompletedAt :: "time option"
  b_Error :: "string option"
  b_DestinationID :: "uuid option"
  b_RemotePath :: "string option"
  b_UploadStatus :: "string option"
  b_UploadError :: "string option"
  b_LocalPresent :: bool
  b_EncKeyID :: "int option"

record BackupSchedule =
  bs_ID :: uuid
  bs_ServerID :: uuid
  bs_CronExpr :: string
  bs_Type :: string
  bs_Storage :: string
  bs_RetentionCount :: "int option"
  bs_RetentionDays :: "int option"
  bs_Enabled :: bool
  bs_LastRun :: "time option"
  bs_NextRun :: "time option"
  bs_CreatedAt :: time
  bs_DestinationID :: "uuid option"

record DestinationRow =
  bd_ID :: uuid
  bd_Name :: string
  bd_Provider :: string
  bd_BasePath :: string
  bd_Options :: "(string \<times> string) list"
  bd_Secrets :: string
  bd_KeepLocal :: bool
  bd_RetentionCount :: "int option"
  bd_CreatedBy :: "uuid option"
  bd_CreatedAt :: time
  bd_UpdatedAt :: time

record AppSetting =
  as_Key :: string
  as_Value :: string
  as_UpdatedAt :: time
  as_UpdatedBy :: "uuid option"

record GameCommand =
  g_ID :: uuid
  g_ServerID :: "uuid option"
  g_Category :: string
  g_Name :: string
  g_Description :: string
  g_CommandTemplate :: string
  g_Icon :: string
  g_Params :: json
  g_SortOrder :: int
  g_IsDefault :: bool
  g_MinRole :: string
  g_CreatedAt :: time
  g_Source :: "string option"
  g_SourcePlugin :: "string option"

record World =
  w_ID :: uuid
  w_ServerID :: uuid
  w_Name :: string
  w_Generator :: "string option"
  w_IsActive :: bool
  w_SizeBytes :: "int option"
  w_CreatedAt :: time
  w_UpdatedAt :: time
  w_Seed :: "int option"
  w_Thumbnail :: "string option"
  w_Metadata :: json

record ServerDatabase =
  sd_ID :: uuid
  sd_ServerID :: uuid
  sd_DBName :: string
  sd_DBUser :: string
  sd_DBPassword :: string
  sd_Host :: string
  sd_Port :: int
  sd_CreatedAt :: time

record ServerMod =
  sm_ID :: uuid
  sm_ServerID :: uuid
  sm_Filename :: string
  sm_DisplayName :: string
  sm_Version :: string
  sm_DownloadURL :: string
  sm_CFModID :: "int option"
  sm_CFFileID :: "int option"
  sm_InstalledAt :: time
  sm_Source :: string
  sm_PluginName :: "string option"
  sm_Author :: "string option"
  sm_Description :: "string option"
  sm_FileHash :: "string option"
  sm_LastScannedAt :: "time option"
  sm_IsPresent :: bool
  sm_ModDir :: string
  sm_DetectedCommands :: json
  sm_ConfigFiles :: json

record NotificationPref =
  np_UserID :: uuid
  np_AlertType :: string
  np_Email :: bool
  np_Discord :: bool
  np_Telegram :: bool

text \<open>The profile columns of a row of \<^verbatim>\<open>users\<close>, which only the profile statements use.\<close>

record Profile =
  pf_UserID :: uuid
  pf_DisplayName :: "string option"
  pf_AvatarURL :: "string option"
  pf_Language :: "string option"
  pf_Timezone :: "string option"

record NetworkSettings =
  ns_current :: string
  ns_previous :: string

record db =
  users :: "User list"
  sessions :: "Session list"
  nodes :: "Node list"
  servers :: "Server list"
  server_members :: "ServerMember list"
  permissions :: "Permission list"
  role_permissions :: "(string \<times> string) list"
  user_permissions :: "UserPermission list"
  server_invitations :: "ServerInvitation list"
  node_enrollments :: "Enrollment list"
  node_commands :: "NodeCommand list"
  activity_logs :: "ActivityLog list"
  network_settings :: "NetworkSettings option"
  node_metrics :: "NodeMetric list"
  server_logs :: "ServerLog list"
  players :: "Player list"
  player_sessions :: "PlayerSession list"
  network_bans :: "NetworkBan list"
  alert_rules :: "AlertRule list"
  alert_events :: "AlertEvent list"
  backups :: "Backup list"
  backup_schedules :: "BackupSchedule list"
  backup_destinations :: "DestinationRow list"
  app_settings :: "AppSetting list"
  game_commands :: "GameCommand list"
  worlds :: "World list"
  server_databases :: "ServerDatabase list"
  server_mods :: "ServerMod list"
  notification_prefs :: "NotificationPref list"
  profiles :: "Profile list"

definition empty_db :: db where
  "empty_db = \<lparr>users = [], sessions = [], nodes = [], servers = [], server_members = [],
     permissions = [], role_permissions = [], user_permissions = [], server_invitations = [],
     node_enrollments = [], node_commands = [], activity_logs = [], network_settings = None,
     node_metrics = [], server_logs = [], players = [], player_sessions = [], network_bans = [],
     alert_rules = [], alert_events = [], backups = [], backup_schedules = [], backup_destinations = [],
     app_settings = [], game_commands = [], worlds = [], server_databases = [], server_mods = [],
     notification_prefs = [], profiles = []\<rparr>"

definition find_user :: "db \<Rightarrow> uuid \<Rightarrow> User option" where
  "find_user d i = List.find (\<lambda>u. u_ID u = i) (users d)"

definition find_server :: "db \<Rightarrow> uuid \<Rightarrow> Server option" where
  "find_server d i = List.find (\<lambda>s. sv_ID s = i) (servers d)"

definition ExitCodeNeedsReinstall :: "int \<Rightarrow> bool" where
  "ExitCodeNeedsReinstall code = (code = 8 \<or> code = 11)"

section \<open>Console roles\<close>

definition moderatorConsoleVerbs :: "string list" where
  "moderatorConsoleVerbs =
     [''kick'', ''ban'', ''unban'', ''whitelist'', ''time'', ''weather'', ''teleport'', ''say'']"

definition ConsoleCommandMinRole :: "string \<Rightarrow> string" where
  "ConsoleCommandMinRole cmd =
     (case Fields (to_lower cmd) of
        [] \<Rightarrow> RoleAdmin
      | f # fs \<Rightarrow>
          (let verb = trim_prefix f ''/''
           in if verb = ''help'' then RoleUser
              else if verb = ''world'' \<and> fs \<noteq> [] \<and> hd fs = ''save'' then RoleUser
              else if verb \<in> set moderatorConsoleVerbs then RoleModerator
              else RoleAdmin))"

definition ConsoleRole :: "User \<Rightarrow> uuid \<Rightarrow> string" where
  "ConsoleRole user serverOwnerID =
     (if u_Role user = RoleOwner \<or> u_Role user = RoleAdmin \<or> u_ID user = serverOwnerID
      then RoleAdmin else u_Role user)"

definition CanRunConsoleCommand :: "string \<Rightarrow> string \<Rightarrow> bool" where
  "CanRunConsoleCommand role cmd = (RoleWeight role \<ge> RoleWeight (ConsoleCommandMinRole cmd))"

lemma ConsoleCommandMinRole_cases:
  "ConsoleCommandMinRole cmd \<in> {RoleUser, RoleModerator, RoleAdmin}"
  by (auto simp: ConsoleCommandMinRole_def Let_def split: list.splits)

end
