(* ===== verification/Permissions.thy ===== *)
theory Permissions
  imports Models
begin

text \<open>
  \<^verbatim>\<open>services/permission_service.go\<close> and the two gates of
  \<^verbatim>\<open>middleware/require_permission.go\<close>.  Every statement that can fail has
  a label; \<open>fault e label\<close> says whether it fails in this call.
\<close>

section \<open>Decoding the per-server override\<close>

text \<open>\<^verbatim>\<open>len(permJSON) > 2\<close> on the text of a \<^verbatim>\<open>jsonb\<close> value: only the empty
  object, the empty array, the empty string and numbers of at most two
  characters are shorter.\<close>

fun raw_longer_than_2 :: "json \<Rightarrow> bool" where
  "raw_longer_than_2 JNull = True"
| "raw_longer_than_2 (JBool b) = True"
| "raw_longer_than_2 (JNum s) = (2 < length s)"
| "raw_longer_than_2 (JStr s) = (s \<noteq> [])"
| "raw_longer_than_2 (JArr xs) = (xs \<noteq> [])"
| "raw_longer_than_2 (JObj kvs) = (kvs \<noteq> [])"

text \<open>\<^verbatim>\<open>json.Unmarshal\<close> into a \<^verbatim>\<open>map[string]bool\<close>: an object of booleans (a null
  member leaves the zero value), or a null, which gives the nil map.\<close>

fun unmarshal_bool_members :: "(string \<times> json) list \<Rightarrow> (string \<times> bool) list option" where
  "unmarshal_bool_members [] = Some []"
| "unmarshal_bool_members ((k, JBool b) # kvs) =
     map_option (\<lambda>m. (k, b) # m) (unmarshal_bool_members kvs)"
| "unmarshal_bool_members ((k, JNull) # kvs) =
     map_option (\<lambda>m. (k, False) # m) (unmarshal_bool_members kvs)"
| "unmarshal_bool_members _ = None"

fun unmarshal_bool_map :: "json \<Rightarrow> (string \<times> bool) list option" where
  "unmarshal_bool_map (JObj kvs) = unmarshal_bool_members kvs"
| "unmarshal_bool_map JNull = Some []"
| "unmarshal_bool_map _ = None"

definition marshal_bool_map :: "(string \<times> bool) list \<Rightarrow> json" where
  "marshal_bool_map m = JObj (map (\<lambda>(k, b). (k, JBool b)) m)"

lemma unmarshal_marshal_bool_map [simp]: "unmarshal_bool_map (marshal_bool_map m) = Some m"
  by (induction m) (auto simp: marshal_bool_map_def)

section \<open>PermissionService\<close>

definition HasPermission :: "env \<Rightarrow> db \<Rightarrow> User \<Rightarrow> string \<Rightarrow> bool result" where
  "HasPermission e d user perm =
     (if u_Role user = RoleOwner then Inr True
      else (case call e ''HasPermission.override''
                 (List.find (\<lambda>p. up_UserID p = u_ID user \<and> up_PermKey p = perm) (user_permissions d)) of
              Inr (Some p) \<Rightarrow> Inr (up_Granted p)
            | _ \<Rightarrow>
                (case call e ''HasPermission.role''
                        (length (filter (\<lambda>rp. rp = (u_Role user, perm)) (role_permissions d))) of
                   Inl err \<Rightarrow> Inl (Wrap ''checking role permission'' err)
                 | Inr count \<Rightarrow> Inr (count > 0))))"

text \<open>The explicit override of a member row, if it has one for \<open>perm\<close>.\<close>

definition member_override :: "json option \<Rightarrow> string \<Rightarrow> bool option" where
  "member_override permJSON perm =
     (case permJSON of None \<Rightarrow> None
      | Some j \<Rightarrow> if raw_longer_than_2 j
          then (case unmarshal_bool_map j of None \<Rightarrow> None | Some perms \<Rightarrow> map_of perms perm)
          else None)"

definition HasServerPermission :: "env \<Rightarrow> db \<Rightarrow> User \<Rightarrow> uuid \<Rightarrow> string \<Rightarrow> bool result" where
  "HasServerPermission e d user serverID perm =
     (if u_Role user = RoleOwner \<or> u_Role user = RoleAdmin then Inr True
      else (case call e ''HasServerPermission.owner''
                 (\<exists>s \<in> set (servers d). sv_ID s = serverID \<and> sv_OwnerID s = u_ID user) of
        Inl err \<Rightarrow> Inl (Wrap ''checking server ownership'' err)
      | Inr True \<Rightarrow> Inr True
      | Inr False \<Rightarrow>
          (case call e ''HasServerPermission.member''
                 (List.find (\<lambda>m. m_ServerID m = serverID \<and> m_UserID m = u_ID user) (server_members d)) of
             Inl err \<Rightarrow> Inl (Wrap ''checking server membership'' err)
           | Inr None \<Rightarrow> Inr False
           | Inr (Some m) \<Rightarrow>
               (case member_override (m_Permissions m) perm of
                  Some v \<Rightarrow> Inr v
                | None \<Rightarrow> HasPermission e d user perm))))"

text \<open>\<open>rank\<close> is the position of a string in the collation of the database,
  which the sources do not fix.\<close>

definition GetUserPermissions ::
  "(string \<Rightarrow> nat) \<Rightarrow> env \<Rightarrow> db \<Rightarrow> uuid \<Rightarrow> UserPermission list result" where
  "GetUserPermissions rank e d userID =
     (case call e ''GetUserPermissions''
          (sort_key (\<lambda>p. rank (up_PermKey p)) (filter (\<lambda>p. up_UserID p = userID) (user_permissions d))) of
        Inl err \<Rightarrow> Inl (Wrap ''querying user permissions'' err)
      | Inr perms \<Rightarrow> Inr perms)"

definition SetUserPermission ::
  "env \<Rightarrow> uuid \<Rightarrow> db \<Rightarrow> uuid \<Rightarrow> string \<Rightarrow> bool \<Rightarrow> unit result \<times> db" where
  "SetUserPermission e newID d userID permKey granted =
     (let p = (\<lambda>r. up_UserID r = userID \<and> up_PermKey r = permKey);
          fk_ok = (\<exists>u \<in> set (users d). u_ID u = userID) \<and> (\<exists>k \<in> set (permissions d). p_Key k = permKey)
      in if fault e ''SetUserPermission'' \<or> \<not> fk_ok
         then (Inl (Wrap ''setting user permission'' (Driver ''SetUserPermission'')), d)
         else if \<exists>r \<in> set (user_permissions d). p r
         then (Inr (), d\<lparr>user_permissions :=
                 update_where p (\<lambda>r. r\<lparr>up_Granted := granted\<rparr>) (user_permissions d)\<rparr>)
         else (Inr (), d\<lparr>user_permissions := user_permissions d @
                 [\<lparr>up_ID = newID, up_UserID = userID, up_PermKey = permKey, up_Granted = granted\<rparr>]\<rparr>))"

definition DeleteUserPermission :: "env \<Rightarrow> db \<Rightarrow> uuid \<Rightarrow> string \<Rightarrow> unit result \<times> db" where
  "DeleteUserPermission e d userID permKey =
     (if fault e ''DeleteUserPermission'' then (Inl (Driver ''DeleteUserPermission''), d)
      else (Inr (), d\<lparr>user_permissions :=
        delete_where (\<lambda>r. up_UserID r = userID \<and> up_PermKey r = permKey) (user_permissions d)\<rparr>))"

text \<open>A nil Go map (\<open>None\<close>) marshals to \<^verbatim>\<open>null\<close>.\<close>

definition SetServerMemberPermissions ::
  "env \<Rightarrow> db \<Rightarrow> uuid \<Rightarrow> uuid \<Rightarrow> (string \<times> bool) list option \<Rightarrow> unit result \<times> db" where
  "SetServerMemberPermissions e d serverID userID perms =
     (let permJSON = (case perms of None \<Rightarrow> JNull | Some m \<Rightarrow> marshal_bool_map m);
          p = (\<lambda>m. m_ServerID m = serverID \<and> m_UserID m = userID)
      in if fault e ''SetServerMemberPermissions''
         then (Inl (Wrap ''updating server member permissions'' (Driver ''SetServerMemberPermissions'')), d)
         else if rows_affected p (server_members d) = 0
         then (Inl (New ''server member not found''), d)
         else (Inr (), d\<lparr>server_members :=
                 update_where p (\<lambda>m. m\<lparr>m_Permissions := Some permJSON\<rparr>) (server_members d)\<rparr>))"

definition ListAllPermissions :: "(string \<Rightarrow> nat) \<Rightarrow> env \<Rightarrow> db \<Rightarrow> Permission list result" where
  "ListAllPermissions rank e d =
     (case call e ''ListAllPermissions''
          (sort_key (\<lambda>p. rank (p_Category p)) (sort_key (\<lambda>p. rank (p_Key p)) (permissions d))) of
        Inl err \<Rightarrow> Inl (Wrap ''querying permissions'' err)
      | Inr perms \<Rightarrow> Inr perms)"

section \<open>Per-server member roles\<close>

abbreviation ErrInvalidMemberRole :: go_error where
  "ErrInvalidMemberRole \<equiv> New ''role must be viewer, moderator or admin''"

definition ServerScopedPermissions :: "string list" where
  "ServerScopedPermissions =
    [''server.view'', ''server.manage'', ''server.start'', ''server.stop'',
     ''server.console'', ''server.files'', ''server.delete'',
     ''mod.install'', ''mod.remove'',
     ''backup.create'', ''backup.restore'',
     ''player.ban'', ''player.whitelist'',
     ''database.view'', ''database.reset'']"

definition serverMemberRoleGrants :: "(string \<times> string list) list" where
  "serverMemberRoleGrants =
    [(''viewer'', [''server.view'']),
     (''moderator'',
       [''server.view'', ''server.start'', ''server.stop'', ''server.console'',
        ''mod.install'', ''mod.remove'', ''backup.create'',
        ''player.ban'', ''player.whitelist'', ''database.view'']),
     (''admin'',
       [''server.view'', ''server.manage'', ''server.start'', ''server.stop'',
        ''server.console'', ''server.files'',
        ''mod.install'', ''mod.remove'', ''backup.create'', ''backup.restore'',
        ''player.ban'', ''player.whitelist'', ''database.view'', ''database.reset''])]"

text \<open>\<open>set_keys b keys m\<close> is the loop \<^verbatim>\<open>for _, key := range keys { m[key] = b }\<close>.\<close>

fun set_keys :: "bool \<Rightarrow> string list \<Rightarrow> (string \<times> bool) list \<Rightarrow> (string \<times> bool) list" where
  "set_keys b [] m = m"
| "set_keys b (k # ks) m = set_keys b ks (AList.update k b m)"

definition ServerMemberRolePermissions :: "string \<Rightarrow> (string \<times> bool) list result" where
  "ServerMemberRolePermissions role =
     (case map_of serverMemberRoleGrants role of
        None \<Rightarrow> Inl ErrInvalidMemberRole
      | Some grants \<Rightarrow> Inr (set_keys True grants (set_keys False ServerScopedPermissions [])))"

fun missing_keys ::
  "env \<Rightarrow> db \<Rightarrow> User \<Rightarrow> uuid \<Rightarrow> (string \<times> bool) list \<Rightarrow> string list \<Rightarrow> string list result" where
  "missing_keys e d user serverID perms [] = Inr []"
| "missing_keys e d user serverID perms (k # ks) =
     (if map_of perms k \<noteq> Some True then missing_keys e d user serverID perms ks
      else (case HasServerPermission e d user serverID k of
              Inl err \<Rightarrow> Inl err
            | Inr ok \<Rightarrow>
                (case missing_keys e d user serverID perms ks of
                   Inl err \<Rightarrow> Inl err
                 | Inr ms \<Rightarrow> Inr (if ok then ms else k # ms))))"

definition MissingServerPermissions ::
  "env \<Rightarrow> db \<Rightarrow> User \<Rightarrow> uuid \<Rightarrow> (string \<times> bool) list \<Rightarrow> string list result" where
  "MissingServerPermissions e d user serverID perms =
     missing_keys e d user serverID perms ServerScopedPermissions"

section \<open>The middleware gates\<close>

text \<open>A gate answers with a status and a message and stops the chain, or lets the
  next handler run.  \<open>parse\<close> is \<^verbatim>\<open>uuid.Parse\<close>.\<close>

datatype gate = Abort nat string | Next

definition RequirePermission :: "env \<Rightarrow> db \<Rightarrow> User option \<Rightarrow> string \<Rightarrow> gate" where
  "RequirePermission e d ctxUser perm =
     (case ctxUser of None \<Rightarrow> Abort 401 ''authentication required''
      | Some user \<Rightarrow>
          (case HasPermission e d user perm of
             Inl _ \<Rightarrow> Abort 500 ''permission check failed''
           | Inr has \<Rightarrow> if \<not> has then Abort 403 ''insufficient permissions'' else Next))"

definition RequireServerPermission ::
  "(string \<Rightarrow> uuid option) \<Rightarrow> env \<Rightarrow> db \<Rightarrow> User option \<Rightarrow> string \<Rightarrow> string \<Rightarrow> gate" where
  "RequireServerPermission parse e d ctxUser idParam perm =
     (case ctxUser of None \<Rightarrow> Abort 401 ''authentication required''
      | Some user \<Rightarrow>
          if idParam = '''' then Abort 400 ''missing server ID''
          else (case parse idParam of
             None \<Rightarrow> Abort 400 ''invalid server ID''
           | Some serverID \<Rightarrow>
               (case HasServerPermission e d user serverID perm of
                  Inl _ \<Rightarrow> Abort 500 ''permission check failed''
                | Inr has \<Rightarrow> if \<not> has then Abort 403 ''insufficient permissions'' else Next)))"

section \<open>Lemmas\<close>

definition is_staff :: "User \<Rightarrow> bool" where
  "is_staff u = (u_Role u = RoleOwner \<or> u_Role u = RoleAdmin)"

definition owns_server :: "db \<Rightarrow> User \<Rightarrow> uuid \<Rightarrow> bool" where
  "owns_server d u sid = (\<exists>s \<in> set (servers d). sv_ID s = sid \<and> sv_OwnerID s = u_ID u)"

definition member_row :: "db \<Rightarrow> User \<Rightarrow> uuid \<Rightarrow> ServerMember option" where
  "member_row d u sid = List.find (\<lambda>m. m_ServerID m = sid \<and> m_UserID m = u_ID u) (server_members d)"

text \<open>The decision table of \<open>HasServerPermission\<close>.\<close>

lemma HasServerPermission_staff: "is_staff u \<Longrightarrow> HasServerPermission e d u sid perm = Inr True"
  by (simp add: HasServerPermission_def is_staff_def)

lemma HasServerPermission_nonstaff:
  assumes "\<not> is_staff u"
  shows "HasServerPermission e d u sid perm =
    (if fault e ''HasServerPermission.owner''
     then Inl (Wrap ''checking server ownership'' (Driver ''HasServerPermission.owner''))
     else if owns_server d u sid then Inr True
     else if fault e ''HasServerPermission.member''
     then Inl (Wrap ''checking server membership'' (Driver ''HasServerPermission.member''))
     else (case member_row d u sid of None \<Rightarrow> Inr False
       | Some m \<Rightarrow> (case member_override (m_Permissions m) perm of
            Some v \<Rightarrow> Inr v | None \<Rightarrow> HasPermission e d u perm)))"
  using assms
  by (auto simp: HasServerPermission_def is_staff_def owns_server_def member_row_def call_def
      split: bool.split)

lemma HasPermission_no_faults:
  assumes "no_faults e"
  shows "HasPermission e d u perm = Inr (u_Role u = RoleOwner \<or>
     (case List.find (\<lambda>p. up_UserID p = u_ID u \<and> up_PermKey p = perm) (user_permissions d) of
        Some p \<Rightarrow> up_Granted p
      | None \<Rightarrow> (u_Role u, perm) \<in> set (role_permissions d)))"
  using assms
  by (auto simp: HasPermission_def call_def no_faults_def filter_empty_conv split: option.split)

lemma HasServerPermission_no_faults_ok:
  "no_faults e \<Longrightarrow> \<exists>b. HasServerPermission e d u sid perm = Inr b"
  by (cases "is_staff u")
    (auto simp: HasServerPermission_staff HasServerPermission_nonstaff no_faults_def
      HasPermission_no_faults split: option.split)

lemma map_of_set_keys: "map_of (set_keys b ks m) k = (if k \<in> set ks then Some b else map_of m k)"
  by (induction ks arbitrary: m) (auto simp: update_conv')

lemma ServerMemberRolePermissions_map:
  assumes "ServerMemberRolePermissions role = Inr perms"
  obtains grants where "map_of serverMemberRoleGrants role = Some grants"
    and "\<And>k. map_of perms k = (if k \<in> set grants then Some True
           else if k \<in> set ServerScopedPermissions then Some False else None)"
  using assms
  by (auto simp: ServerMemberRolePermissions_def map_of_set_keys split: option.splits)

lemma grants_server_scoped:
  "map_of serverMemberRoleGrants role = Some grants \<Longrightarrow> set grants \<subseteq> set ServerScopedPermissions"
  by (auto simp: serverMemberRoleGrants_def ServerScopedPermissions_def split: if_splits)

lemma grants_no_delete:
  "map_of serverMemberRoleGrants role = Some grants \<Longrightarrow> ''server.delete'' \<notin> set grants"
  by (auto simp: serverMemberRoleGrants_def split: if_splits)

lemma update_neq_Nil: "AList.update k v m \<noteq> []"
  by (cases m) auto

lemma set_keys_neq_Nil: "m \<noteq> [] \<or> ks \<noteq> [] \<Longrightarrow> set_keys b ks m \<noteq> []"
  by (induction ks arbitrary: m) (auto simp: update_neq_Nil)

lemma raw_longer_marshal: "raw_longer_than_2 (marshal_bool_map m) = (m \<noteq> [])"
  by (simp add: marshal_bool_map_def)

lemma member_override_marshal:
  "m \<noteq> [] \<Longrightarrow> member_override (Some (marshal_bool_map m)) k = map_of m k"
  by (simp add: member_override_def raw_longer_marshal)

lemma missing_keys_ConsE:
  assumes "missing_keys e d u sid perms (k # ks) = Inr ms"
  obtains (skip) "map_of perms k \<noteq> Some True" "missing_keys e d u sid perms ks = Inr ms"
  | (held) "map_of perms k = Some True" "HasServerPermission e d u sid k = Inr True"
      "missing_keys e d u sid perms ks = Inr ms"
  | (lacking) ms' where "map_of perms k = Some True" "HasServerPermission e d u sid k = Inr False"
      "missing_keys e d u sid perms ks = Inr ms'" "ms = k # ms'"
proof (cases "map_of perms k = Some True")
  case False
  then show ?thesis using assms skip by simp
next
  case True
  with assms obtain ok ms' where "HasServerPermission e d u sid k = Inr ok"
      "missing_keys e d u sid perms ks = Inr ms'" "ms = (if ok then ms' else k # ms')"
    by (auto split: sum.splits)
  then show ?thesis using True held lacking by (cases ok) auto
qed

lemma missing_keys_Inr:
  "missing_keys e d u sid perms ks = Inr ms \<Longrightarrow>
   set ms = {k \<in> set ks. map_of perms k = Some True \<and> HasServerPermission e d u sid k = Inr False}"
proof (induction ks arbitrary: ms)
  case (Cons k ks)
  from Cons.prems show ?case
    by (cases rule: missing_keys_ConsE) (use Cons.IH in force)+
qed simp

lemma missing_keys_checked:
  "missing_keys e d u sid perms ks = Inr ms \<Longrightarrow> k \<in> set ks \<Longrightarrow> map_of perms k = Some True \<Longrightarrow>
   \<exists>b. HasServerPermission e d u sid k = Inr b"
proof (induction ks arbitrary: ms)
  case (Cons k' ks)
  from Cons.prems(1) show ?case
    by (cases rule: missing_keys_ConsE) (use Cons.IH Cons.prems(2,3) in auto)
qed simp

lemma SetUserPermission_row:
  assumes "SetUserPermission e i d uid perm g = (Inr (), d')"
  shows "\<exists>p. List.find (\<lambda>p. up_UserID p = uid \<and> up_PermKey p = perm) (user_permissions d') = Some p
    \<and> up_Granted p = g"
proof -
  let ?q = "\<lambda>p. up_UserID p = uid \<and> up_PermKey p = perm"
  show ?thesis
  proof (cases "\<exists>r \<in> set (user_permissions d). ?q r")
    case True
    then obtain x where "List.find ?q (user_permissions d) = Some x"
      using find_ex [of _ "user_permissions d" ?q] by blast
    then have "List.find ?q (update_where ?q (\<lambda>r. r\<lparr>up_Granted := g\<rparr>) (user_permissions d))
        = Some (x\<lparr>up_Granted := g\<rparr>)"
      by (subst find_update_same) auto
    with True assms show ?thesis
      by (auto simp: SetUserPermission_def Let_def split: if_splits)
  next
    case False
    then have "List.find ?q (user_permissions d) = None"
      by (intro find_none) auto
    with False assms show ?thesis
      by (auto simp: SetUserPermission_def Let_def find_append split: if_splits)
  qed
qed

lemma HasPermission_after_set:
  assumes "SetUserPermission e' i d (u_ID u) perm g = (Inr (), d')"
    and "u_Role u \<noteq> RoleOwner" "\<not> fault e ''HasPermission.override''"
  shows "HasPermission e d' u perm = Inr g"
  using SetUserPermission_row [OF assms(1)] assms(2,3)
  by (auto simp: HasPermission_def call_def)

lemma find_user_permission_delete:
  "List.find (\<lambda>p. up_UserID p = uid \<and> up_PermKey p = perm)
     (delete_where (\<lambda>r. up_UserID r = uid \<and> up_PermKey r = perm) t) = None"
  by (auto simp: find_None_iff delete_where_def)

section \<open>Properties\<close>

text \<open>[C1] Tenant isolation: whatever the role defaults and overrides say and whichever
  statements fail, a request for a server passes the gate only if its user is cluster
  staff, owns that server, or has a member row for it.\<close>

theorem tenant_isolation:
  assumes "RequireServerPermission parse e d ctx idp perm = Next"
  shows "\<exists>u sid. ctx = Some u \<and> parse idp = Some sid \<and>
    (is_staff u \<or> owns_server d u sid \<or> member_row d u sid \<noteq> None)"
proof -
  from assms obtain u sid where u: "ctx = Some u" "parse idp = Some sid"
      and ok: "HasServerPermission e d u sid perm = Inr True"
    by (auto simp: RequireServerPermission_def split: option.splits sum.splits if_splits)
  from ok have "is_staff u \<or> owns_server d u sid \<or> member_row d u sid \<noteq> None"
    by (cases "is_staff u") (auto simp: HasServerPermission_nonstaff split: if_splits option.splits)
  with u show ?thesis by blast
qed

definition ex_user :: "uuid \<Rightarrow> string \<Rightarrow> User" where
  "ex_user i role = \<lparr>u_ID = i, u_Email = ''u@example.org'', u_Username = ''user'',
     u_PasswordHash = ''h'', u_Role = role, u_TOTPSecret = [], u_TOTPEnabled = False,
     u_CreatedAt = 0, u_LastLoginAt = None, u_IsActive = True\<rparr>"

definition ex_member :: "uuid \<Rightarrow> uuid \<Rightarrow> (string \<times> bool) list \<Rightarrow> ServerMember" where
  "ex_member sid uid m = \<lparr>m_ServerID = sid, m_UserID = uid, m_Role = ''viewer'',
     m_Permissions = Some (marshal_bool_map m)\<rparr>"

theorem tenant_isolation_witness:
  "\<exists>u sid. Some (ex_user 7 ''user'') = Some u \<and> (\<lambda>_. Some 1) ''x'' = Some sid \<and>
    (is_staff u \<or>
     owns_server (empty_db\<lparr>server_members := [ex_member 1 7 [(''server.view'', True)]]\<rparr>) u sid \<or>
     member_row (empty_db\<lparr>server_members := [ex_member 1 7 [(''server.view'', True)]]\<rparr>) u sid \<noteq> None)"
proof (rule tenant_isolation)
  show "RequireServerPermission (\<lambda>_. Some 1) (quiet 0)
      (empty_db\<lparr>server_members := [ex_member 1 7 [(''server.view'', True)]]\<rparr>)
      (Some (ex_user 7 ''user'')) ''x'' ''server.view'' = Next"
    by (simp add: RequireServerPermission_def HasServerPermission_def call_def empty_db_def
        ex_user_def ex_member_def member_override_marshal)
qed

text \<open>The member role decides: for a member whose row carries the map of a server
  role, each server-scoped permission is granted exactly when the table grants it to
  that role, whatever the user's global role or overrides give, and
  \<^verbatim>\<open>server.delete\<close> is never among them.\<close>

theorem member_role_decides:
  assumes "ServerMemberRolePermissions role = Inr perms"
    and "member_row d u sid = Some m" and "m_Permissions m = Some (marshal_bool_map perms)"
    and "\<not> is_staff u" and "\<not> owns_server d u sid"
    and "\<not> fault e ''HasServerPermission.owner''" and "\<not> fault e ''HasServerPermission.member''"
    and "perm \<in> set ServerScopedPermissions"
  shows "HasServerPermission e d u sid perm =
      Inr (\<exists>grants. map_of serverMemberRoleGrants role = Some grants \<and> perm \<in> set grants)
    \<and> HasServerPermission e d u sid ''server.delete'' = Inr False"
proof -
  obtain grants where g: "map_of serverMemberRoleGrants role = Some grants"
    and perms: "\<And>k. map_of perms k = (if k \<in> set grants then Some True
           else if k \<in> set ServerScopedPermissions then Some False else None)"
    using assms(1) by (rule ServerMemberRolePermissions_map) blast
  have "perms \<noteq> []"
    using perms [of perm] assms(8) by (auto split: if_splits)
  then have ovr: "member_override (Some (marshal_bool_map perms)) k = map_of perms k" for k
    by (simp add: member_override_marshal)
  have "''server.delete'' \<in> set ServerScopedPermissions"
    by (simp add: ServerScopedPermissions_def)
  with grants_no_delete [OF g] show ?thesis
    using assms g by (simp add: HasServerPermission_nonstaff ovr perms)
qed

definition ex_viewer_db :: db where
  "ex_viewer_db = empty_db\<lparr>server_members :=
     [ex_member 1 7 (projr (ServerMemberRolePermissions ''viewer''))],
     role_permissions := [(''user'', ''server.start'')]\<rparr>"

theorem member_role_decides_witness:
  "HasServerPermission (quiet 0) ex_viewer_db (ex_user 7 ''user'') 1 ''server.start'' =
      Inr (\<exists>grants. map_of serverMemberRoleGrants ''viewer'' = Some grants \<and> ''server.start'' \<in> set grants)
    \<and> HasServerPermission (quiet 0) ex_viewer_db (ex_user 7 ''user'') 1 ''server.delete'' = Inr False"
proof (rule member_role_decides [where m = "ex_member 1 7 (projr (ServerMemberRolePermissions ''viewer''))"])
  show "ServerMemberRolePermissions ''viewer'' = Inr (projr (ServerMemberRolePermissions ''viewer''))"
    by (simp add: ServerMemberRolePermissions_def serverMemberRoleGrants_def)
qed (simp_all add: ex_viewer_db_def member_row_def ex_member_def ex_user_def is_staff_def
    owns_server_def empty_db_def ServerScopedPermissions_def)

text \<open>The decision for one user on one server depends only on that server's rows,
  that user's membership and overrides, and the defaults of that user's role:
  whatever happens to other servers, members or users cannot change it.\<close>

theorem server_permission_local:
  assumes "filter (\<lambda>s. sv_ID s = sid) (servers d) = filter (\<lambda>s. sv_ID s = sid) (servers d')"
    and "filter (\<lambda>m. m_ServerID m = sid \<and> m_UserID m = u_ID u) (server_members d)
       = filter (\<lambda>m. m_ServerID m = sid \<and> m_UserID m = u_ID u) (server_members d')"
    and "filter (\<lambda>p. up_UserID p = u_ID u) (user_permissions d)
       = filter (\<lambda>p. up_UserID p = u_ID u) (user_permissions d')"
    and "filter (\<lambda>rp. fst rp = u_Role u) (role_permissions d)
       = filter (\<lambda>rp. fst rp = u_Role u) (role_permissions d')"
  shows "HasServerPermission e d u sid perm = HasServerPermission e d' u sid perm"
proof -
  have own: "owns_server d u sid = owns_server d' u sid"
  proof -
    have "owns_server x u sid = (\<exists>s \<in> set (filter (\<lambda>s. sv_ID s = sid) (servers x)). sv_OwnerID s = u_ID u)"
      for x by (auto simp: owns_server_def)
    then show ?thesis by (simp only: assms(1))
  qed
  have mem: "member_row d u sid = member_row d' u sid"
    unfolding member_row_def by (subst (1 2) find_filter) (simp add: assms(2))
  have ov: "List.find (\<lambda>p. up_UserID p = u_ID u \<and> up_PermKey p = perm) (user_permissions x)
      = List.find (\<lambda>p. up_UserID p = u_ID u \<and> up_PermKey p = perm)
          (filter (\<lambda>p. up_UserID p = u_ID u) (user_permissions x))" for x
    by (rule find_restrict) simp
  have rl: "filter (\<lambda>rp. rp = (u_Role u, perm)) (role_permissions x)
      = filter (\<lambda>rp. rp = (u_Role u, perm)) (filter (\<lambda>rp. fst rp = u_Role u) (role_permissions x))" for x
    by (auto simp: filter_filter intro!: filter_cong)
  have "HasPermission e d u perm = HasPermission e d' u perm"
    unfolding HasPermission_def ov [of d] ov [of d'] rl [of d] rl [of d'] assms(3,4) ..
  then show ?thesis
    by (cases "is_staff u")
      (simp_all add: HasServerPermission_staff HasServerPermission_nonstaff own mem split: option.split)
qed

theorem server_permission_local_witness:
  "HasServerPermission (quiet 0) ex_viewer_db (ex_user 7 ''user'') 1 ''server.view'' =
   HasServerPermission (quiet 0)
     (ex_viewer_db\<lparr>server_members := ex_member 2 7 [(''server.view'', False)] # server_members ex_viewer_db\<rparr>)
     (ex_user 7 ''user'') 1 ''server.view''"
  by (rule server_permission_local) (simp_all add: ex_viewer_db_def ex_member_def ex_user_def empty_db_def)

text \<open>An explicit override wins over the role default and removing it restores the
  default: after \<open>SetUserPermission\<close> a non-owner holds the permission exactly as set,
  after \<open>DeleteUserPermission\<close> exactly as the role table says.\<close>

theorem override_roundtrip:
  assumes "SetUserPermission e1 i d (u_ID u) perm g = (Inr (), d1)"
    and "DeleteUserPermission e2 d1 (u_ID u) perm = (Inr (), d2)"
    and "u_Role u \<noteq> RoleOwner" and "no_faults e"
  shows "HasPermission e d1 u perm = Inr g \<and>
    HasPermission e d2 u perm = Inr ((u_Role u, perm) \<in> set (role_permissions d))"
proof
  show "HasPermission e d1 u perm = Inr g"
    using HasPermission_after_set [OF assms(1,3)] assms(4) by (simp add: no_faults_def)
  have "role_permissions d2 = role_permissions d"
    using assms(1,2)
    by (auto simp: SetUserPermission_def DeleteUserPermission_def Let_def split: if_splits)
  moreover have "List.find (\<lambda>p. up_UserID p = u_ID u \<and> up_PermKey p = perm) (user_permissions d2) = None"
    using assms(2)
    by (auto simp: DeleteUserPermission_def find_user_permission_delete split: if_splits)
  ultimately show "HasPermission e d2 u perm = Inr ((u_Role u, perm) \<in> set (role_permissions d))"
    using assms(3,4) by (simp add: HasPermission_no_faults)
qed

definition ex_perm_db :: db where
  "ex_perm_db = empty_db\<lparr>users := [ex_user 7 ''user''],
     permissions := [\<lparr>p_Key = ''server.start'', p_Description = [], p_Category = []\<rparr>],
     role_permissions := [(''user'', ''server.start'')]\<rparr>"

theorem override_roundtrip_witness:
  "HasPermission (quiet 0) (snd (SetUserPermission (quiet 0) 9 ex_perm_db 7 ''server.start'' False))
     (ex_user 7 ''user'') ''server.start'' = Inr False
   \<and> HasPermission (quiet 0) ex_perm_db (ex_user 7 ''user'') ''server.start'' = Inr True"
proof -
  let ?d1 = "snd (SetUserPermission (quiet 0) 9 ex_perm_db 7 ''server.start'' False)"
  let ?d2 = "snd (DeleteUserPermission (quiet 0) ?d1 7 ''server.start'')"
  have d1: "?d1 = ex_perm_db\<lparr>user_permissions :=
      [\<lparr>up_ID = 9, up_UserID = 7, up_PermKey = ''server.start'', up_Granted = False\<rparr>]\<rparr>"
    by (simp add: SetUserPermission_def ex_perm_db_def ex_user_def empty_db_def)
  have "?d2 = ex_perm_db"
    by (simp add: d1 DeleteUserPermission_def delete_where_def) (simp add: ex_perm_db_def empty_db_def)
  then show ?thesis
    using override_roundtrip [of "quiet 0" 9 ex_perm_db "ex_user 7 ''user''" "''server.start''" False
        ?d1 "quiet 0" ?d2 "quiet 0"]
    by (simp add: SetUserPermission_def DeleteUserPermission_def ex_perm_db_def ex_user_def empty_db_def)
qed

text \<open>A failing override query is not an error: \<open>HasPermission\<close> drops the user's
  explicit deny and answers with the role default.\<close>

theorem override_dropped_on_fault:
  assumes "u_Role u \<noteq> RoleOwner"
    and "fault e ''HasPermission.override''" and "\<not> fault e ''HasPermission.role''"
    and "(u_Role u, perm) \<in> set (role_permissions d)"
  shows "HasPermission e d u perm = Inr True"
  using assms by (auto simp: HasPermission_def call_def filter_empty_conv)

theorem override_dropped_on_fault_witness:
  "HasPermission (quiet 0) (snd (SetUserPermission (quiet 0) 9 ex_perm_db 7 ''server.start'' False))
     (ex_user 7 ''user'') ''server.start'' = Inr False
   \<and> HasPermission ((quiet 0)\<lparr>fault := (\<lambda>l. l = ''HasPermission.override'')\<rparr>)
     (snd (SetUserPermission (quiet 0) 9 ex_perm_db 7 ''server.start'' False))
     (ex_user 7 ''user'') ''server.start'' = Inr True"
proof
  show "HasPermission (quiet 0) (snd (SetUserPermission (quiet 0) 9 ex_perm_db 7 ''server.start'' False))
     (ex_user 7 ''user'') ''server.start'' = Inr False"
    by (simp add: SetUserPermission_def HasPermission_def call_def ex_perm_db_def ex_user_def empty_db_def)
  show "HasPermission ((quiet 0)\<lparr>fault := (\<lambda>l. l = ''HasPermission.override'')\<rparr>)
     (snd (SetUserPermission (quiet 0) 9 ex_perm_db 7 ''server.start'' False))
     (ex_user 7 ''user'') ''server.start'' = Inr True"
    by (rule override_dropped_on_fault)
      (simp_all add: SetUserPermission_def ex_perm_db_def ex_user_def empty_db_def)
qed

end
