(* ===== verification/Invitations.thy ===== *)
theory Invitations
  imports Permissions
begin

text \<open>
  \<^verbatim>\<open>services/invitation_service.go\<close>: inviting a user to a server, and
  accepting, declining and revoking an invitation.  \<open>AcceptInvitation\<close> first
  reads (\<open>accept_check\<close>) and then commits one transaction (\<open>accept_commit\<close>);
  a concurrent request can run between the two, so the interleavings are the
  sequences of \<open>inv_act\<close> in which the snapshot a commit works with is arbitrary.
\<close>

section \<open>Errors\<close>

abbreviation ErrInvitationNotFound :: go_error where
  "ErrInvitationNotFound \<equiv> New ''invitation not found''"
abbreviation ErrInvitationExpired :: go_error where
  "ErrInvitationExpired \<equiv> New ''invitation has expired''"
abbreviation ErrInvitationUsed :: go_error where
  "ErrInvitationUsed \<equiv> New ''invitation already used or revoked''"
abbreviation ErrInvitationForbidden :: go_error where
  "ErrInvitationForbidden \<equiv> New ''invitation was issued to a different account''"
abbreviation ErrInvitationExceedsInviter :: go_error where
  "ErrInvitationExceedsInviter \<equiv> New ''you cannot grant permissions you do not have on this server''"

section \<open>Operations\<close>

definition invite_role :: "string \<Rightarrow> string" where
  "invite_role reqRole =
     (let role = to_lower (trim_space reqRole) in if role = '''' then ''viewer'' else role)"

text \<open>The inserted row gets the primary key \<open>newID\<close> and the random \<open>token\<close>; the
  statement fails on a duplicate key or token and on a missing server or inviter.\<close>

definition CreateInvitation ::
  "env \<Rightarrow> uuid \<Rightarrow> string \<Rightarrow> db \<Rightarrow> uuid \<Rightarrow> User \<Rightarrow> string \<Rightarrow> string \<Rightarrow> ServerInvitation result \<times> db" where
  "CreateInvitation e newID token d serverID inviter reqEmail reqRole =
     (let role = invite_role reqRole
      in case ServerMemberRolePermissions role of
           Inl err \<Rightarrow> (Inl err, d)
         | Inr perms \<Rightarrow>
             (case MissingServerPermissions e d inviter serverID perms of
                Inl err \<Rightarrow> (Inl (Wrap ''checking inviter permissions'' err), d)
              | Inr missing \<Rightarrow>
                  if missing \<noteq> []
                  then (Inl (Note ErrInvitationExceedsInviter ('' (missing: '' @ join '', '' missing @ '')'')), d)
                  else if fault e ''generateInviteToken''
                  then (Inl (Wrap ''generating invite token'' (Driver ''generateInviteToken'')), d)
                  else
                    (let invt = \<lparr>i_ID = newID, i_ServerID = serverID, i_InviterID = u_ID inviter,
                           i_InviteeEmail = trim_space reqEmail, i_Token = token, i_Role = role,
                           i_Permissions = perms, i_Status = ''pending'', i_CreatedAt = now e,
                           i_ExpiresAt = now e + 7 * 24 * hour\<rparr>;
                         violates = (\<exists>x \<in> set (server_invitations d). i_ID x = newID \<or> i_Token x = token)
                           \<or> find_server d serverID = None \<or> find_user d (u_ID inviter) = None
                     in if fault e ''CreateInvitation'' \<or> violates
                        then (Inl (Wrap ''creating invitation'' (Driver ''CreateInvitation'')), d)
                        else (Inr invt, d\<lparr>server_invitations := server_invitations d @ [invt]\<rparr>))))"

definition ListInvitations :: "env \<Rightarrow> db \<Rightarrow> uuid \<Rightarrow> ServerInvitation list result" where
  "ListInvitations e d serverID =
     (case call e ''ListInvitations''
          (sort_key (\<lambda>i. - i_CreatedAt i) (filter (\<lambda>i. i_ServerID i = serverID) (server_invitations d))) of
        Inl err \<Rightarrow> Inl (Wrap ''listing invitations'' err)
      | Inr invs \<Rightarrow> Inr invs)"

definition ListMyInvitations :: "env \<Rightarrow> db \<Rightarrow> string \<Rightarrow> ServerInvitation list result" where
  "ListMyInvitations e d email =
     (case call e ''ListMyInvitations''
          (sort_key (\<lambda>i. - i_CreatedAt i)
            (filter (\<lambda>i. i_InviteeEmail i = email \<and> i_Status i = ''pending'' \<and> i_ExpiresAt i > now e)
              (server_invitations d))) of
        Inl err \<Rightarrow> Inl (Wrap ''listing my invitations'' err)
      | Inr invs \<Rightarrow> Inr invs)"

definition findByToken :: "env \<Rightarrow> db \<Rightarrow> string \<Rightarrow> ServerInvitation result" where
  "findByToken e d token =
     (case call e ''findByToken'' (List.find (\<lambda>i. i_Token i = token) (server_invitations d)) of
        Inl err \<Rightarrow> Inl (Wrap ''finding invitation'' err)
      | Inr None \<Rightarrow> Inl ErrInvitationNotFound
      | Inr (Some invt) \<Rightarrow> Inr invt)"

text \<open>A Go map read yields the zero value for an absent key.\<close>

definition map_get :: "(string \<times> bool) list \<Rightarrow> string \<Rightarrow> bool" where
  "map_get m k = (map_of m k = Some True)"

text \<open>\<^verbatim>\<open>&models.User{ID: id, Role: role}\<close>: the other fields are zero.\<close>

definition bare_user :: "uuid \<Rightarrow> string \<Rightarrow> User" where
  "bare_user i role = \<lparr>u_ID = i, u_Email = [], u_Username = [], u_PasswordHash = [], u_Role = role,
     u_TOTPSecret = [], u_TOTPEnabled = False, u_CreatedAt = 0, u_LastLoginAt = None, u_IsActive = False\<rparr>"

definition grantedPermissions :: "env \<Rightarrow> db \<Rightarrow> ServerInvitation \<Rightarrow> (string \<times> bool) list result" where
  "grantedPermissions e d invt =
     (case ServerMemberRolePermissions (i_Role invt) of
        Inl err \<Rightarrow> Inl err
      | Inr rolePerms \<Rightarrow>
          (let perms = (if length (i_Permissions invt) > 0
             then map (\<lambda>(k, b). (k, map_get rolePerms k \<and> map_get (i_Permissions invt) k)) rolePerms
             else rolePerms)
           in case call e ''grantedPermissions.inviter'' (find_user d (i_InviterID invt)) of
                Inl err \<Rightarrow> Inl (Wrap ''loading inviter'' err)
              | Inr None \<Rightarrow> Inl (Wrap ''loading inviter'' (New ''no rows in result set''))
              | Inr (Some usr) \<Rightarrow>
                  (case MissingServerPermissions e d (bare_user (i_InviterID invt) (u_Role usr))
                         (i_ServerID invt) perms of
                     Inl err \<Rightarrow> Inl (Wrap ''checking inviter permissions'' err)
                   | Inr missing \<Rightarrow> Inr (set_keys False missing perms))))"

definition accept_check ::
  "env \<Rightarrow> db \<Rightarrow> string \<Rightarrow> string \<Rightarrow> (ServerInvitation \<times> (string \<times> bool) list) result" where
  "accept_check e d token userEmail =
     (case findByToken e d token of
        Inl err \<Rightarrow> Inl err
      | Inr invt \<Rightarrow>
          if \<not> equal_fold (trim_space (i_InviteeEmail invt)) (trim_space userEmail)
          then Inl ErrInvitationForbidden
          else if i_Status invt \<noteq> ''pending'' then Inl ErrInvitationUsed
          else if now e > i_ExpiresAt invt then Inl ErrInvitationExpired
          else (case grantedPermissions e d invt of
                  Inl err \<Rightarrow> Inl err
                | Inr perms \<Rightarrow> Inr (invt, perms)))"

definition upsert_member :: "uuid \<Rightarrow> uuid \<Rightarrow> string \<Rightarrow> json \<Rightarrow> ServerMember list \<Rightarrow> ServerMember list" where
  "upsert_member sid uid role permJSON t =
     (let p = (\<lambda>m. m_ServerID m = sid \<and> m_UserID m = uid)
      in if \<exists>m \<in> set t. p m
         then update_where p (\<lambda>m. m\<lparr>m_Role := role, m_Permissions := Some permJSON\<rparr>) t
         else t @ [\<lparr>m_ServerID = sid, m_UserID = uid, m_Role = role, m_Permissions = Some permJSON\<rparr>])"

definition accept_commit ::
  "env \<Rightarrow> db \<Rightarrow> uuid \<Rightarrow> ServerInvitation \<Rightarrow> (string \<times> bool) list \<Rightarrow> unit result \<times> db" where
  "accept_commit e d userID invt perms =
     (let p = (\<lambda>i. i_ID i = i_ID invt \<and> i_Status i = ''pending'');
          d' = d\<lparr>server_invitations :=
                   update_where p (\<lambda>i. i\<lparr>i_Status := ''accepted''\<rparr>) (server_invitations d),
                 server_members := upsert_member (i_ServerID invt) userID (i_Role invt)
                   (marshal_bool_map perms) (server_members d)\<rparr>
      in if fault e ''AcceptInvitation.begin'' then (Inl (Wrap ''begin tx'' (Driver ''AcceptInvitation.begin'')), d)
         else if fault e ''AcceptInvitation.update''
         then (Inl (Wrap ''updating invitation'' (Driver ''AcceptInvitation.update'')), d)
         else if rows_affected p (server_invitations d) = 0 then (Inl ErrInvitationUsed, d)
         else if fault e ''AcceptInvitation.member'' \<or> find_server d (i_ServerID invt) = None
             \<or> find_user d userID = None
         then (Inl (Wrap ''adding server member'' (Driver ''AcceptInvitation.member'')), d)
         else if fault e ''AcceptInvitation.commit'' then (Inl (Driver ''AcceptInvitation.commit''), d)
         else (Inr (), d'))"

definition AcceptInvitation :: "env \<Rightarrow> db \<Rightarrow> string \<Rightarrow> uuid \<Rightarrow> string \<Rightarrow> unit result \<times> db" where
  "AcceptInvitation e d token userID userEmail =
     (case accept_check e d token userEmail of
        Inl err \<Rightarrow> (Inl err, d)
      | Inr (invt, perms) \<Rightarrow> accept_commit e d userID invt perms)"

definition DeclineInvitation :: "env \<Rightarrow> db \<Rightarrow> string \<Rightarrow> unit result \<times> db" where
  "DeclineInvitation e d token =
     (let p = (\<lambda>i. i_Token i = token \<and> i_Status i = ''pending'')
      in if fault e ''DeclineInvitation''
         then (Inl (Wrap ''declining invitation'' (Driver ''DeclineInvitation'')), d)
         else if rows_affected p (server_invitations d) = 0 then (Inl ErrInvitationNotFound, d)
         else (Inr (), d\<lparr>server_invitations :=
                 update_where p (\<lambda>i. i\<lparr>i_Status := ''declined''\<rparr>) (server_invitations d)\<rparr>))"

definition RevokeInvitation :: "env \<Rightarrow> db \<Rightarrow> uuid \<Rightarrow> uuid \<Rightarrow> unit result \<times> db" where
  "RevokeInvitation e d serverID invitationID =
     (let p = (\<lambda>i. i_ID i = invitationID \<and> i_ServerID i = serverID \<and> i_Status i = ''pending'')
      in if fault e ''RevokeInvitation''
         then (Inl (Wrap ''revoking invitation'' (Driver ''RevokeInvitation'')), d)
         else if rows_affected p (server_invitations d) = 0 then (Inl ErrInvitationNotFound, d)
         else (Inr (), d\<lparr>server_invitations :=
                 update_where p (\<lambda>i. i\<lparr>i_Status := ''revoked''\<rparr>) (server_invitations d)\<rparr>))"

section \<open>Interleavings\<close>

text \<open>One step of the service; its answer is the invitation it created or accepted
  (0 where it names none).  \<open>Commit\<close> is the second half of an accept whose
  first half ran at any earlier moment.\<close>

datatype inv_act =
    Create env uuid string uuid User string string
  | Accept env string uuid string
  | Commit env uuid ServerInvitation "(string \<times> bool) list"
  | Decline env string
  | Revoke env uuid uuid

definition accepted_id :: "env \<Rightarrow> db \<Rightarrow> string \<Rightarrow> string \<Rightarrow> uuid" where
  "accepted_id e d tok em =
     (case accept_check e d tok em of Inl _ \<Rightarrow> 0 | Inr (invt, _) \<Rightarrow> i_ID invt)"

fun inv_step :: "inv_act \<Rightarrow> db \<Rightarrow> uuid result \<times> db" where
  "inv_step (Create e i tok sid u em role) d =
     map_prod (map_sum id i_ID) id (CreateInvitation e i tok d sid u em role)"
| "inv_step (Accept e tok uid em) d =
     map_prod (map_sum id (\<lambda>_. accepted_id e d tok em)) id (AcceptInvitation e d tok uid em)"
| "inv_step (Commit e uid invt perms) d =
     map_prod (map_sum id (\<lambda>_. i_ID invt)) id (accept_commit e d uid invt perms)"
| "inv_step (Decline e tok) d = map_prod (map_sum id (\<lambda>_. 0)) id (DeclineInvitation e d tok)"
| "inv_step (Revoke e sid iid) d = map_prod (map_sum id (\<lambda>_. iid)) id (RevokeInvitation e d sid iid)"

fun inv_accepts :: "inv_act \<Rightarrow> uuid result \<Rightarrow> uuid \<Rightarrow> bool" where
  "inv_accepts (Accept e tok uid em) r i = (r = Inr i)"
| "inv_accepts (Commit e uid invt perms) r i = (r = Inr i)"
| "inv_accepts _ r i = False"

definition inv_spent :: "uuid \<Rightarrow> db \<Rightarrow> bool" where
  "inv_spent i d = (\<exists>x \<in> set (server_invitations d). i_ID x = i \<and> i_Status x \<noteq> ''pending'')"

definition inv_keys :: "db \<Rightarrow> bool" where
  "inv_keys d = (unique_on i_ID (server_invitations d) \<and> unique_on i_Token (server_invitations d))"

section \<open>Lemmas\<close>

lemma accept_commit_Inr:
  "accept_commit e d uid invt perms = (Inr u, d') \<longleftrightarrow>
     u = () \<and> (\<exists>i \<in> set (server_invitations d). i_ID i = i_ID invt \<and> i_Status i = ''pending'') \<and>
     find_server d (i_ServerID invt) \<noteq> None \<and> find_user d uid \<noteq> None \<and>
     \<not> fault e ''AcceptInvitation.begin'' \<and> \<not> fault e ''AcceptInvitation.update'' \<and>
     \<not> fault e ''AcceptInvitation.member'' \<and> \<not> fault e ''AcceptInvitation.commit'' \<and>
     d' = d\<lparr>server_invitations := update_where (\<lambda>i. i_ID i = i_ID invt \<and> i_Status i = ''pending'')
              (\<lambda>i. i\<lparr>i_Status := ''accepted''\<rparr>) (server_invitations d),
            server_members := upsert_member (i_ServerID invt) uid (i_Role invt)
              (marshal_bool_map perms) (server_members d)\<rparr>"
  unfolding accept_commit_def Let_def by (auto split: if_splits)

lemma accept_commit_Inl: "accept_commit e d uid invt perms = (Inl err, d') \<Longrightarrow> d' = d"
  unfolding accept_commit_def Let_def by (auto split: if_splits)

text \<open>What each step does to the invitation table: it appends a row with a new key and
  token, or moves pending rows to another status.\<close>

inductive inv_change :: "ServerInvitation list \<Rightarrow> ServerInvitation list \<Rightarrow> bool" where
  unchanged: "inv_change t t"
| appended: "(\<And>x. x \<in> set t \<Longrightarrow> i_ID x \<noteq> i_ID r \<and> i_Token x \<noteq> i_Token r) \<Longrightarrow>
     inv_change t (t @ [r])"
| moved: "(\<And>i. p i \<Longrightarrow> i_Status i = ''pending'') \<Longrightarrow>
     inv_change t (update_where p (\<lambda>i. i\<lparr>i_Status := st\<rparr>) t)"

lemma CreateInvitation_Inl: "CreateInvitation e i tok d sid u em role = (Inl err, d') \<Longrightarrow> d' = d"
  unfolding CreateInvitation_def Let_def by (auto split: sum.splits if_splits)

lemma CreateInvitation_Inr:
  assumes "CreateInvitation e i tok d sid u em role = (Inr invt, d')"
  obtains perms where "ServerMemberRolePermissions (invite_role role) = Inr perms"
    and "MissingServerPermissions e d u sid perms = Inr []"
    and "invt = \<lparr>i_ID = i, i_ServerID = sid, i_InviterID = u_ID u,
           i_InviteeEmail = trim_space em, i_Token = tok, i_Role = invite_role role,
           i_Permissions = perms, i_Status = ''pending'', i_CreatedAt = now e,
           i_ExpiresAt = now e + 7 * 24 * hour\<rparr>"
    and "d' = d\<lparr>server_invitations := server_invitations d @ [invt]\<rparr>"
    and "\<And>x. x \<in> set (server_invitations d) \<Longrightarrow> i_ID x \<noteq> i \<and> i_Token x \<noteq> tok"
    and "find_server d sid \<noteq> None" and "find_user d (u_ID u) \<noteq> None"
  using assms unfolding CreateInvitation_def Let_def
  by (auto split: sum.splits if_splits)

lemma CreateInvitation_change:
  "inv_change (server_invitations d) (server_invitations (snd (CreateInvitation e i tok d sid u em role)))"
proof (cases "CreateInvitation e i tok d sid u em role")
  case (Pair r d')
  show ?thesis
  proof (cases r)
    case (Inl err)
    with Pair show ?thesis by (auto dest: CreateInvitation_Inl intro: inv_change.unchanged)
  next
    case (Inr invt)
    with Pair have c: "CreateInvitation e i tok d sid u em role = (Inr invt, d')" by simp
    then have "inv_change (server_invitations d) (server_invitations d')"
      by (rule CreateInvitation_Inr) (auto intro!: inv_change.appended)
    with c show ?thesis by simp
  qed
qed

lemma accept_commit_change:
  "inv_change (server_invitations d) (server_invitations (snd (accept_commit e d uid invt perms)))"
proof (cases "accept_commit e d uid invt perms")
  case (Pair r d')
  then have "inv_change (server_invitations d) (server_invitations d')"
    by (cases r) (auto simp: accept_commit_Inr dest: accept_commit_Inl
        intro: inv_change.unchanged intro!: inv_change.moved)
  with Pair show ?thesis by simp
qed

lemma AcceptInvitation_change:
  "inv_change (server_invitations d) (server_invitations (snd (AcceptInvitation e d tok uid em)))"
  by (auto simp: AcceptInvitation_def accept_commit_change split: sum.split intro: inv_change.unchanged)

lemma Decline_Revoke_change:
  "inv_change (server_invitations d) (server_invitations (snd (DeclineInvitation e d tok)))"
  "inv_change (server_invitations d) (server_invitations (snd (RevokeInvitation e d sid iid)))"
  by (auto simp: DeclineInvitation_def RevokeInvitation_def Let_def inv_change.unchanged
      intro!: inv_change.moved)

lemma inv_step_change: "inv_change (server_invitations d) (server_invitations (snd (inv_step a d)))"
  by (cases a) (simp_all add: CreateInvitation_change AcceptInvitation_change accept_commit_change
      Decline_Revoke_change)

lemma inv_change_unique:
  assumes "inv_change t t'" and "unique_on i_ID t" and "unique_on i_Token t"
  shows "unique_on i_ID t' \<and> unique_on i_Token t'"
  using assms
  by (cases rule: inv_change.cases) (auto simp: unique_on_append_row unique_on_update_where)

lemma inv_change_spent:
  assumes "inv_change t t'" and "x \<in> set t" "i_ID x = i" "i_Status x \<noteq> ''pending''"
  shows "\<exists>x' \<in> set t'. i_ID x' = i \<and> i_Status x' \<noteq> ''pending''"
  using assms(1)
proof (cases rule: inv_change.cases)
  case (moved p st)
  then have "\<not> p x" using assms(4) by auto
  then have "x \<in> set t'" using moved assms(2) by (simp add: update_where_out)
  then show ?thesis using assms by auto
qed (use assms in auto)

lemma accept_check_Inr:
  assumes "accept_check e d tok em = Inr (invt, perms)"
  shows "invt \<in> set (server_invitations d)" "i_Token invt = tok" "i_Status invt = ''pending''"
    "equal_fold (trim_space (i_InviteeEmail invt)) (trim_space em)" "now e \<le> i_ExpiresAt invt"
    "grantedPermissions e d invt = Inr perms"
  using assms
  by (auto simp: accept_check_def findByToken_def call_def split: sum.splits option.splits if_splits
      dest: find_SomeD)

lemma accept_commit_spends:
  assumes "accept_commit e d uid invt perms = (Inr u, d')"
  shows "inv_spent (i_ID invt) d'"
proof -
  from assms obtain x where "x \<in> set (server_invitations d)" "i_ID x = i_ID invt" "i_Status x = ''pending''"
    by (auto simp: accept_commit_Inr)
  then have "x\<lparr>i_Status := ''accepted''\<rparr> \<in> set (server_invitations d')"
    using assms update_where_in [of x "server_invitations d"] by (auto simp: accept_commit_Inr)
  with \<open>i_ID x = i_ID invt\<close> show ?thesis
    unfolding inv_spent_def by (intro bexI) auto
qed

lemma accept_commit_blocked:
  assumes "inv_keys d" and "inv_spent (i_ID invt) d"
  shows "\<not> is_ok (fst (accept_commit e d uid invt perms))"
proof
  assume "is_ok (fst (accept_commit e d uid invt perms))"
  then obtain u d' where "accept_commit e d uid invt perms = (Inr u, d')"
    by (cases "accept_commit e d uid invt perms") (auto simp: is_ok_conv)
  then obtain x where "x \<in> set (server_invitations d)" "i_ID x = i_ID invt" "i_Status x = ''pending''"
    by (auto simp: accept_commit_Inr)
  with assms show False
    by (auto simp: inv_keys_def inv_spent_def dest: unique_on_eq)
qed

lemma inv_accepts_commit:
  assumes "inv_accepts a (fst (inv_step a d)) i"
  obtains e uid invt perms d' where "accept_commit e d uid invt perms = (Inr (), d')"
    and "i = i_ID invt" and "snd (inv_step a d) = d'"
proof (cases a)
  case (Accept e tok uid em)
  with assms obtain invt perms where "accept_check e d tok em = Inr (invt, perms)"
    by (auto simp: AcceptInvitation_def split: sum.splits)
  with Accept assms that [of e uid invt perms] show ?thesis
    by (cases "accept_commit e d uid invt perms")
      (auto simp: AcceptInvitation_def accepted_id_def map_sum_eq_Inr)
next
  case (Commit e uid invt perms)
  with assms that [of e uid invt perms] show ?thesis
    by (cases "accept_commit e d uid invt perms") (auto simp: map_sum_eq_Inr)
qed (use assms in auto)

interpretation invites: single_use inv_step inv_keys inv_accepts inv_spent
proof
  fix d a i
  show "inv_keys d \<Longrightarrow> inv_keys (snd (inv_step a d))"
    using inv_change_unique [OF inv_step_change [of d a]] by (auto simp: inv_keys_def)
  show "inv_keys d \<Longrightarrow> inv_spent i d \<Longrightarrow> inv_spent i (snd (inv_step a d))"
    using inv_change_spent [OF inv_step_change [of d a]] by (auto simp: inv_spent_def)
  show "\<not> inv_accepts a (fst (inv_step a d)) i" if "inv_keys d" "inv_spent i d"
  proof
    assume "inv_accepts a (fst (inv_step a d)) i"
    then obtain e uid invt perms d' where "accept_commit e d uid invt perms = (Inr (), d')" "i = i_ID invt"
      by (rule inv_accepts_commit)
    with that accept_commit_blocked [of d invt e uid perms] show False by simp
  qed
  show "inv_spent i (snd (inv_step a d))" if "inv_keys d" "inv_accepts a (fst (inv_step a d)) i"
    using that by (auto elim!: inv_accepts_commit dest: accept_commit_spends)
qed

lemma HasServerPermission_cong:
  assumes "u_ID u = u_ID v" and "u_Role u = u_Role v"
  shows "HasServerPermission e d u sid k = HasServerPermission e d v sid k"
  unfolding HasServerPermission_def HasPermission_def assms ..

lemma map_of_narrowed:
  "map_of (map (\<lambda>(k, b). (k, f k)) m) k = (if map_of m k = None then None else Some (f k))"
  by (induction m) auto

lemma grantedPermissions_Inr:
  assumes "grantedPermissions e d invt = Inr perms"
  obtains rolePerms usr where "ServerMemberRolePermissions (i_Role invt) = Inr rolePerms"
    and "find_user d (i_InviterID invt) = Some usr"
    and "\<And>k. k \<in> set ServerScopedPermissions \<Longrightarrow> map_of perms k \<noteq> None"
    and "\<And>k. map_of perms k = Some True \<Longrightarrow> k \<in> set ServerScopedPermissions \<Longrightarrow>
           map_of rolePerms k = Some True \<and> (i_Permissions invt \<noteq> [] \<longrightarrow> map_get (i_Permissions invt) k)
           \<and> HasServerPermission e d usr (i_ServerID invt) k = Inr True"
proof -
  from assms obtain rolePerms usr missing where rp: "ServerMemberRolePermissions (i_Role invt) = Inr rolePerms"
      and usr: "find_user d (i_InviterID invt) = Some usr"
      and miss: "missing_keys e d (bare_user (i_InviterID invt) (u_Role usr)) (i_ServerID invt)
        (if length (i_Permissions invt) > 0
         then map (\<lambda>(k, b). (k, map_get rolePerms k \<and> map_get (i_Permissions invt) k)) rolePerms
         else rolePerms) ServerScopedPermissions = Inr missing"
      and perms: "perms = set_keys False missing (if length (i_Permissions invt) > 0
         then map (\<lambda>(k, b). (k, map_get rolePerms k \<and> map_get (i_Permissions invt) k)) rolePerms
         else rolePerms)"
    by (auto simp: grantedPermissions_def MissingServerPermissions_def Let_def
        split: sum.splits option.splits if_splits)
  let ?base = "if length (i_Permissions invt) > 0
         then map (\<lambda>(k, b). (k, map_get rolePerms k \<and> map_get (i_Permissions invt) k)) rolePerms
         else rolePerms"
  from rp have dom: "k \<in> set ServerScopedPermissions \<Longrightarrow> map_of rolePerms k \<noteq> None" for k
    by (rule ServerMemberRolePermissions_map) auto
  have same: "HasServerPermission e d (bare_user (i_InviterID invt) (u_Role usr)) (i_ServerID invt) k
      = HasServerPermission e d usr (i_ServerID invt) k" for k
    using usr by (intro HasServerPermission_cong) (auto simp: bare_user_def find_user_def dest: find_SomeD)
  show ?thesis
  proof (rule that [OF rp usr])
    fix k assume k: "k \<in> set ServerScopedPermissions"
    then show "map_of perms k \<noteq> None"
      using dom [OF k] by (auto simp: perms map_of_set_keys map_of_narrowed)
    assume t: "map_of perms k = Some True"
    then have nm: "k \<notin> set missing" and b: "map_of ?base k = Some True"
      by (auto simp: perms map_of_set_keys split: if_splits)
    have "HasServerPermission e d usr (i_ServerID invt) k = Inr True"
    proof -
      obtain ok where ok: "HasServerPermission e d usr (i_ServerID invt) k = Inr ok"
        using missing_keys_checked [OF miss k b] by (auto simp only: same)
      have "k \<in> set missing" if "ok = False"
        using ok that k b by (simp only: missing_keys_Inr [OF miss] same mem_Collect_eq simp_thms)
      with nm ok show ?thesis by (cases ok) auto
    qed
    moreover have "map_of rolePerms k = Some True \<and>
        (i_Permissions invt \<noteq> [] \<longrightarrow> map_get (i_Permissions invt) k)"
      using b by (auto simp: map_of_narrowed map_get_def split: if_splits)
    ultimately show "map_of rolePerms k = Some True \<and>
        (i_Permissions invt \<noteq> [] \<longrightarrow> map_get (i_Permissions invt) k) \<and>
        HasServerPermission e d usr (i_ServerID invt) k = Inr True" by blast
  qed
qed

lemma member_row_upsert:
  assumes "u_ID v = uid"
  shows "\<exists>m. member_row (d\<lparr>server_members := upsert_member sid uid role j (server_members d)\<rparr>) v sid = Some m
    \<and> m_Permissions m = Some j \<and> m_Role m = role"
proof -
  let ?q = "\<lambda>m. m_ServerID m = sid \<and> m_UserID m = uid"
  show ?thesis
  proof (cases "\<exists>m \<in> set (server_members d). ?q m")
    case True
    then obtain x where "List.find ?q (server_members d) = Some x"
      using find_ex [of _ "server_members d" ?q] by blast
    then have "List.find ?q (update_where ?q (\<lambda>m. m\<lparr>m_Role := role, m_Permissions := Some j\<rparr>) (server_members d))
        = Some (x\<lparr>m_Role := role, m_Permissions := Some j\<rparr>)"
      by (subst find_update_same) auto
    with True assms show ?thesis by (simp add: member_row_def upsert_member_def)
  next
    case False
    then have "List.find ?q (server_members d) = None" by (intro find_none) auto
    with False assms show ?thesis by (auto simp: member_row_def upsert_member_def Let_def find_append)
  qed
qed

lemma marshal_granted_override:
  assumes "\<And>k. k \<in> set ServerScopedPermissions \<Longrightarrow> map_of perms k \<noteq> None"
  shows "member_override (Some (marshal_bool_map perms)) k = map_of perms k"
proof -
  have "''server.view'' \<in> set ServerScopedPermissions" by (simp add: ServerScopedPermissions_def)
  then have "perms \<noteq> []" using assms by fastforce
  then show ?thesis by (rule member_override_marshal)
qed

section \<open>Properties\<close>

text \<open>[C2] An invitation is accepted at most once, in every sequence of creations,
  accepts, declines and revocations and in every interleaving of the two halves of
  concurrent accepts, whichever statements fail on the way.\<close>

theorem invitation_accepted_at_most_once:
  assumes "inv_keys d"
  shows "length (filter (\<lambda>(a, r). inv_accepts a r i) (trace_of inv_step acts d)) \<le> 1"
  using assms by (rule invites.at_most_once)

definition ex_server :: "uuid \<Rightarrow> uuid \<Rightarrow> Server" where
  "ex_server i owner = \<lparr>sv_ID = i, sv_Name = ''s'', sv_NodeID = 1, sv_OwnerID = owner,
     sv_Status = ''stopped'', sv_Port = 5520, sv_DataPath = ''/srv'', sv_NetworkRole = None,
     sv_RequireReferral = False, sv_HytaleVersion = ''latest'', sv_CPULimit = 0,
     sv_RAMLimitMB = 2048, sv_DiskLimitMB = 10240, sv_AutoRestart = True, sv_CrashLimit = 3,
     sv_CrashWindowS = 300, sv_ActiveWorld = '''', sv_CreatedAt = 0, sv_UpdatedAt = 0,
     sv_LaunchFlags = [], sv_UseHytaleAccount = False, sv_LastExitCode = None\<rparr>"

definition ex_invite_db :: db where
  "ex_invite_db = empty_db\<lparr>users := [ex_user 1 ''user'', ex_user 2 ''user''],
     servers := [ex_server 5 1]\<rparr>"

definition ex_invited_db :: db where
  "ex_invited_db = snd (CreateInvitation (quiet 0) 40 ''tok'' ex_invite_db 5 (ex_user 1 ''user'')
     ''u@example.org'' '' Admin'')"

theorem invitation_accepted_at_most_once_witness:
  "length (filter (\<lambda>(a, r). inv_accepts a r 40) (trace_of inv_step
     [Accept (quiet 1) ''tok'' 2 ''U@example.org'', Accept (quiet 2) ''tok'' 2 ''u@example.org'']
     ex_invited_db)) \<le> 1
   \<and> map snd (trace_of inv_step
     [Accept (quiet 1) ''tok'' 2 ''U@example.org'', Accept (quiet 2) ''tok'' 2 ''u@example.org'']
     ex_invited_db) = [Inr 40, Inl ErrInvitationUsed]"
proof
  have "inv_keys ex_invited_db"
    by code_simp
  then show "length (filter (\<lambda>(a, r). inv_accepts a r 40) (trace_of inv_step
     [Accept (quiet 1) ''tok'' 2 ''U@example.org'', Accept (quiet 2) ''tok'' 2 ''u@example.org'']
     ex_invited_db)) \<le> 1"
    by (rule invitation_accepted_at_most_once)
  show "map snd (trace_of inv_step
     [Accept (quiet 1) ''tok'' 2 ''U@example.org'', Accept (quiet 2) ''tok'' 2 ''u@example.org'']
     ex_invited_db) = [Inr 40, Inl ErrInvitationUsed]"
    by code_simp
qed

text \<open>[C3] No escalation: right after an accept, every server-scoped permission the new
  member holds through the membership is granted by the invited role and is one the
  inviter holds on that server at that moment.\<close>

theorem accept_within_inviter:
  assumes "AcceptInvitation e d tok uid em = (Inr (), d')"
    and "u_ID v = uid" and "\<not> is_staff v" and "k \<in> set ServerScopedPermissions"
  shows "\<exists>invt inviter. invt \<in> set (server_invitations d) \<and> i_Token invt = tok
    \<and> find_user d (i_InviterID invt) = Some inviter
    \<and> (HasServerPermission e' d' v (i_ServerID invt) k = Inr True \<longrightarrow>
        owns_server d v (i_ServerID invt) \<or>
        (HasServerPermission e d inviter (i_ServerID invt) k = Inr True \<and>
         (\<exists>rolePerms. ServerMemberRolePermissions (i_Role invt) = Inr rolePerms \<and>
            map_of rolePerms k = Some True)))"
proof -
  from assms(1) obtain invt perms where chk: "accept_check e d tok em = Inr (invt, perms)"
      and com: "accept_commit e d uid invt perms = (Inr (), d')"
    by (auto simp: AcceptInvitation_def split: sum.splits)
  note inv = accept_check_Inr [OF chk]
  from inv(6) obtain rolePerms usr where rp: "ServerMemberRolePermissions (i_Role invt) = Inr rolePerms"
      and usr: "find_user d (i_InviterID invt) = Some usr"
      and dom: "\<And>k. k \<in> set ServerScopedPermissions \<Longrightarrow> map_of perms k \<noteq> None"
      and gr: "\<And>k. map_of perms k = Some True \<Longrightarrow> k \<in> set ServerScopedPermissions \<Longrightarrow>
           map_of rolePerms k = Some True \<and> (i_Permissions invt \<noteq> [] \<longrightarrow> map_get (i_Permissions invt) k)
           \<and> HasServerPermission e d usr (i_ServerID invt) k = Inr True"
    by (rule grantedPermissions_Inr) blast
  let ?d = "d\<lparr>server_invitations := server_invitations d'\<rparr>"
  have d': "d' = ?d\<lparr>server_members := upsert_member (i_ServerID invt) uid (i_Role invt)
      (marshal_bool_map perms) (server_members ?d)\<rparr>"
    using com by (auto simp: accept_commit_Inr)
  from member_row_upsert [OF assms(2), where d = ?d and sid = "i_ServerID invt"
      and role = "i_Role invt" and j = "marshal_bool_map perms"]
  obtain m where m: "member_row d' v (i_ServerID invt) = Some m" "m_Permissions m = Some (marshal_bool_map perms)"
    using d' by auto
  have own: "owns_server d' v (i_ServerID invt) = owns_server d v (i_ServerID invt)"
    by (subst d') (simp add: owns_server_def)
  have "map_of perms k = Some True" if "HasServerPermission e' d' v (i_ServerID invt) k = Inr True"
      "\<not> owns_server d v (i_ServerID invt)"
    using that m assms(3) dom [OF assms(4)] marshal_granted_override [OF dom]
    by (auto simp: HasServerPermission_nonstaff own split: if_splits option.splits)
  with inv(1,2) usr rp gr [OF _ assms(4)] show ?thesis by blast
qed

theorem accept_within_inviter_witness:
  "\<exists>invt inviter. invt \<in> set (server_invitations ex_invited_db) \<and> i_Token invt = ''tok''
    \<and> find_user ex_invited_db (i_InviterID invt) = Some inviter
    \<and> (HasServerPermission (quiet 3)
          (snd (AcceptInvitation (quiet 1) ex_invited_db ''tok'' 2 ''u@example.org''))
          (ex_user 2 ''user'') (i_ServerID invt) ''server.files'' = Inr True \<longrightarrow>
        owns_server ex_invited_db (ex_user 2 ''user'') (i_ServerID invt) \<or>
        (HasServerPermission (quiet 1) ex_invited_db inviter (i_ServerID invt) ''server.files'' = Inr True \<and>
         (\<exists>rolePerms. ServerMemberRolePermissions (i_Role invt) = Inr rolePerms \<and>
            map_of rolePerms ''server.files'' = Some True)))"
proof (rule accept_within_inviter)
  have "fst (AcceptInvitation (quiet 1) ex_invited_db ''tok'' 2 ''u@example.org'') = Inr ()"
    by code_simp
  then show "AcceptInvitation (quiet 1) ex_invited_db ''tok'' 2 ''u@example.org'' =
      (Inr (), snd (AcceptInvitation (quiet 1) ex_invited_db ''tok'' 2 ''u@example.org''))"
    by (simp add: prod_eq_iff)
qed (simp_all add: ex_user_def is_staff_def ServerScopedPermissions_def)

text \<open>Only the addressee accepts: an accept succeeds only for an invitation that is
  pending, not expired and addressed (up to case and surrounding space) to the caller's
  email, and a failed accept changes nothing.\<close>

theorem accept_only_addressee:
  assumes "AcceptInvitation e d tok uid em = (r, d')"
  shows "(is_ok r \<longrightarrow> (\<exists>invt \<in> set (server_invitations d). i_Token invt = tok \<and> i_Status invt = ''pending''
            \<and> now e \<le> i_ExpiresAt invt
            \<and> equal_fold (trim_space (i_InviteeEmail invt)) (trim_space em)))
    \<and> (\<not> is_ok r \<longrightarrow> d' = d)"
proof (cases "accept_check e d tok em")
  case (Inl err)
  with assms show ?thesis by (auto simp: AcceptInvitation_def)
next
  case (Inr p)
  then obtain invt perms where p: "accept_check e d tok em = Inr (invt, perms)" by (cases p) auto
  with assms have "accept_commit e d uid invt perms = (r, d')" by (simp add: AcceptInvitation_def)
  then have "\<not> is_ok r \<longrightarrow> d' = d" by (cases r) (auto dest: accept_commit_Inl)
  with accept_check_Inr [OF p] show ?thesis by blast
qed

theorem accept_only_addressee_witness:
  "AcceptInvitation (quiet 1) ex_invited_db ''tok'' 2 ''eve@example.org''
     = (Inl ErrInvitationForbidden, ex_invited_db)"
proof -
  have "fst (AcceptInvitation (quiet 1) ex_invited_db ''tok'' 2 ''eve@example.org'')
      = Inl ErrInvitationForbidden"
    by code_simp
  with accept_only_addressee [OF prod.collapse [symmetric],
      of "quiet 1" ex_invited_db "''tok''" 2 "''eve@example.org''"]
  show ?thesis by (simp add: prod_eq_iff)
qed

end
