(* ===== verification/Crypto.thy ===== *)
theory Crypto
  imports Prelude
begin

text \<open>
  \<^verbatim>\<open>internal/crypto/crypto.go\<close> and the encodings around it: hexadecimal,
  base64, the AES-GCM envelope \<^verbatim>\<open>base64(nonce || ciphertext || tag)\<close>.  Byte
  slices are strings.  The cryptographic primitives themselves (SHA-256, AES-GCM,
  bcrypt, TOTP, JWT signatures) are fields of the record \<open>prims\<close>, an argument of
  everything that uses them.
\<close>

section \<open>Primitives\<close>

record prims =
  sha256 :: "string \<Rightarrow> string"
  gcm_seal :: "string \<Rightarrow> string \<Rightarrow> string \<Rightarrow> string"
  gcm_open :: "string \<Rightarrow> string \<Rightarrow> string \<Rightarrow> string option"
  bcrypt_compare :: "string \<Rightarrow> string \<Rightarrow> bool"
  bcrypt_generate :: "string \<Rightarrow> string option"
  totp_validate :: "int \<Rightarrow> string \<Rightarrow> string \<Rightarrow> bool"
  jwt_sign :: "string \<Rightarrow> (string \<times> json) list \<Rightarrow> string option"
  jwt_parse :: "int \<Rightarrow> string \<Rightarrow> string \<Rightarrow> (string \<times> json) list option"
  uuid_string :: "nat \<Rightarrow> string"
  uuid_parse :: "string \<Rightarrow> nat option"

text \<open>What \<^verbatim>\<open>cipher.AEAD\<close> documents: opening what was sealed under the same key and
  nonce gives the plaintext back.\<close>

definition gcm_correct :: "prims \<Rightarrow> bool" where
  "gcm_correct pr = (\<forall>k n p. gcm_open pr k n (gcm_seal pr k n p) = Some p)"

section \<open>Hexadecimal\<close>

definition hex_digit :: "nat \<Rightarrow> char" where
  "hex_digit n = (if n < 10 then char_of (48 + n) else char_of (87 + n))"

definition hex_value :: "char \<Rightarrow> nat option" where
  "hex_value c =
     (let b = byte c
      in if 48 \<le> b \<and> b \<le> 57 then Some (b - 48)
         else if 97 \<le> b \<and> b \<le> 102 then Some (b - 87)
         else if 65 \<le> b \<and> b \<le> 70 then Some (b - 55)
         else None)"

fun hex_encode :: "string \<Rightarrow> string" where
  "hex_encode [] = []"
| "hex_encode (c # cs) = hex_digit (byte c div 16) # hex_digit (byte c mod 16) # hex_encode cs"

fun hex_decode :: "string \<Rightarrow> string option" where
  "hex_decode [] = Some []"
| "hex_decode [_] = None"
| "hex_decode (a # b # cs) =
     (case (hex_value a, hex_value b, hex_decode cs) of
        (Some x, Some y, Some r) \<Rightarrow> Some (char_of (16 * x + y) # r)
      | _ \<Rightarrow> None)"

lemma byte_less [simp]: "byte c < 256"
  by (simp add: byte_def)

lemma byte_char_of [simp]: "n < 256 \<Longrightarrow> byte (char_of n) = n"
  by (simp add: byte_def)

lemma char_of_byte [simp]: "char_of (byte c) = c"
  by (simp add: byte_def)

lemma hex_value_digit [simp]: "n < 16 \<Longrightarrow> hex_value (hex_digit n) = Some n"
  by (auto simp: hex_digit_def hex_value_def Let_def)

lemma hex_decode_encode [simp]: "hex_decode (hex_encode s) = Some s"
proof (induction s)
  case (Cons c s)
  have "byte c div 16 < 16" using byte_less [of c] by linarith
  with Cons show ?case by simp
qed simp

lemma length_hex_encode [simp]: "length (hex_encode s) = 2 * length s"
  by (induction s) auto

lemma hex_encode_inject [simp]: "hex_encode a = hex_encode b \<longleftrightarrow> a = b"
  by (metis hex_decode_encode option.inject)

definition hashToken :: "prims \<Rightarrow> string \<Rightarrow> string" where
  "hashToken pr token = hex_encode (sha256 pr token)"

section \<open>Base64\<close>

definition b64_digit :: "nat \<Rightarrow> char" where
  "b64_digit n =
     (if n < 26 then char_of (65 + n)
      else if n < 52 then char_of (71 + n)
      else if n < 62 then char_of (n - 4)
      else if n = 62 then CHR ''+'' else CHR ''/'')"

definition b64_value :: "char \<Rightarrow> nat option" where
  "b64_value c =
     (let b = byte c
      in if 65 \<le> b \<and> b \<le> 90 then Some (b - 65)
         else if 97 \<le> b \<and> b \<le> 122 then Some (b - 71)
         else if 48 \<le> b \<and> b \<le> 57 then Some (b + 4)
         else if c = CHR ''+'' then Some 62
         else if c = CHR ''/'' then Some 63
         else None)"

fun b64_encode :: "string \<Rightarrow> string" where
  "b64_encode [] = []"
| "b64_encode [a] =
     [b64_digit (byte a div 4), b64_digit (byte a mod 4 * 16), CHR ''='', CHR ''='']"
| "b64_encode [a, b] =
     [b64_digit (byte a div 4), b64_digit (byte a mod 4 * 16 + byte b div 16),
      b64_digit (byte b mod 16 * 4), CHR ''='']"
| "b64_encode (a # b # c # cs) =
     b64_digit (byte a div 4) # b64_digit (byte a mod 4 * 16 + byte b div 16)
     # b64_digit (byte b mod 16 * 4 + byte c div 64) # b64_digit (byte c mod 64) # b64_encode cs"

text \<open>The decoder skips line breaks, then reads quanta of four; only the last may be
  padded, and the spare bits of a padded quantum are ignored.\<close>

fun b64_quanta :: "string \<Rightarrow> string option" where
  "b64_quanta [] = Some []"
| "b64_quanta (w # x # y # z # cs) =
     (if y = CHR ''='' then
        (if z = CHR ''='' \<and> cs = [] then
           (case (b64_value w, b64_value x) of
              (Some p, Some q) \<Rightarrow> Some [char_of (p * 4 + q div 16)]
            | _ \<Rightarrow> None)
         else None)
      else if z = CHR ''='' then
        (if cs = [] then
           (case (b64_value w, b64_value x, b64_value y) of
              (Some p, Some q, Some r) \<Rightarrow>
                Some [char_of (p * 4 + q div 16), char_of (q mod 16 * 16 + r div 4)]
            | _ \<Rightarrow> None)
         else None)
      else
        (case (b64_value w, b64_value x, b64_value y, b64_value z, b64_quanta cs) of
           (Some p, Some q, Some r, Some s, Some t) \<Rightarrow>
             Some (char_of (p * 4 + q div 16) # char_of (q mod 16 * 16 + r div 4)
               # char_of (r mod 4 * 64 + s) # t)
         | _ \<Rightarrow> None))"
| "b64_quanta _ = None"

definition b64_decode :: "string \<Rightarrow> string option" where
  "b64_decode s = b64_quanta (filter (\<lambda>c. byte c \<noteq> 10 \<and> byte c \<noteq> 13) s)"

lemma byte_b64_digit:
  "n < 64 \<Longrightarrow> byte (b64_digit n) =
     (if n < 26 then 65 + n else if n < 52 then 71 + n else if n < 62 then n - 4
      else if n = 62 then 43 else 47)"
  by (simp add: b64_digit_def) (simp add: byte_def)

lemma b64_ranges:
  fixes n :: nat
  assumes "n < 64"
  obtains "n < 26" | "26 \<le> n" "n < 52" | "52 \<le> n" "n < 62" | "n = 62" | "n = 63"
  using assms by linarith

lemma b64_value_digit [simp]:
  assumes "n < 64" shows "b64_value (b64_digit n) = Some n"
  using assms
proof (cases n rule: b64_ranges)
  case 3
  then have "byte (b64_digit n) = n - 4" "48 \<le> n - 4" "n - 4 \<le> 57" "n - 4 + 4 = n"
    by (auto simp: byte_b64_digit)
  then show ?thesis by (simp add: b64_value_def Let_def)
next
  case 4
  then show ?thesis by (simp add: b64_digit_def b64_value_def byte_def)
next
  case 5
  then show ?thesis by (simp add: b64_digit_def b64_value_def byte_def)
qed (auto simp: b64_value_def Let_def byte_b64_digit)

lemma byte_b64_digit_plain:
  assumes "n < 64"
  shows "byte (b64_digit n) \<noteq> 61 \<and> byte (b64_digit n) \<noteq> 10 \<and> byte (b64_digit n) \<noteq> 13"
  using assms by (cases n rule: b64_ranges) (auto simp: byte_b64_digit)

lemma b64_digit_plain [simp]:
  assumes "n < 64"
  shows "b64_digit n \<noteq> CHR ''=''" and "byte (b64_digit n) \<noteq> 10" and "byte (b64_digit n) \<noteq> 13"
proof -
  have "byte (CHR ''='') = 61" by (simp add: byte_def)
  with byte_b64_digit_plain [OF assms]
  show "b64_digit n \<noteq> CHR ''=''" "byte (b64_digit n) \<noteq> 10" "byte (b64_digit n) \<noteq> 13"
    by auto
qed

text \<open>How three bytes split into four sextets and come together again.\<close>

definition sext1 :: "nat \<Rightarrow> nat" where "sext1 a = a div 4"
definition sext2 :: "nat \<Rightarrow> nat \<Rightarrow> nat" where "sext2 a b = a mod 4 * 16 + b div 16"
definition sext3 :: "nat \<Rightarrow> nat \<Rightarrow> nat" where "sext3 b c = b mod 16 * 4 + c div 64"

lemmas sext_defs = sext1_def sext2_def sext3_def

lemma sext1_less: "a < 256 \<Longrightarrow> sext1 a < 64"
  unfolding sext1_def by linarith

lemma sext2_less: "b < 256 \<Longrightarrow> sext2 a b < 64"
proof -
  assume "b < 256"
  then have "b div 16 < 16" by linarith
  moreover have "a mod 4 < 4" by simp
  ultimately show ?thesis unfolding sext2_def by linarith
qed

lemma sext3_less: "c < 256 \<Longrightarrow> sext3 b c < 64"
proof -
  assume "c < 256"
  then have "c div 64 < 4" by linarith
  moreover have "b mod 16 < 16" by simp
  ultimately show ?thesis unfolding sext3_def by linarith
qed

lemma byte1_join: "b < 256 \<Longrightarrow> sext1 a * 4 + sext2 a b div 16 = a"
proof -
  assume "b < 256"
  then have "b div 16 < 16" by linarith
  then have "sext2 a b div 16 = a mod 4" by (simp add: sext2_def)
  then show ?thesis by (simp add: sext1_def)
qed

lemma byte2_join: "b < 256 \<Longrightarrow> c < 256 \<Longrightarrow> sext2 a b mod 16 * 16 + sext3 b c div 4 = b"
proof -
  assume "b < 256" "c < 256"
  then have "b div 16 < 16" "c div 64 < 4" by linarith+
  then have "sext2 a b mod 16 = b div 16" "sext3 b c div 4 = b mod 16"
    by (simp_all add: sext2_def sext3_def)
  then show ?thesis by simp
qed

lemma byte3_join: "c < 256 \<Longrightarrow> sext3 b c mod 4 * 64 + c mod 64 = c"
proof -
  assume "c < 256"
  then have "c div 64 < 4" by linarith
  then have "sext3 b c mod 4 = c div 64" by (simp add: sext3_def)
  then show ?thesis by simp
qed

lemma b64_encode_sext:
  "b64_encode [a] = [b64_digit (sext1 (byte a)), b64_digit (sext2 (byte a) 0), CHR ''='', CHR ''='']"
  "b64_encode [a, b] = [b64_digit (sext1 (byte a)), b64_digit (sext2 (byte a) (byte b)),
     b64_digit (sext3 (byte b) 0), CHR ''='']"
  "b64_encode (a # b # c # cs) = b64_digit (sext1 (byte a)) # b64_digit (sext2 (byte a) (byte b))
     # b64_digit (sext3 (byte b) (byte c)) # b64_digit (byte c mod 64) # b64_encode cs"
  by (simp_all add: sext_defs)

lemmas sext_simps = b64_encode_sext sext1_less sext2_less sext3_less byte1_join byte2_join byte3_join

lemma b64_quanta_encode: "b64_quanta (b64_encode s) = Some s"
  by (induction s rule: b64_encode.induct)
     (simp_all add: sext_simps del: b64_encode.simps(2-))

lemma b64_encode_no_breaks: "filter (\<lambda>c. byte c \<noteq> 10 \<and> byte c \<noteq> 13) (b64_encode s) = b64_encode s"
proof -
  have "byte (CHR ''='') = 61" by (simp add: byte_def)
  then show ?thesis
    by (induction s rule: b64_encode.induct)
       (simp_all add: sext_simps del: b64_encode.simps(2-))
qed

lemma b64_decode_encode [simp]: "b64_decode (b64_encode s) = Some s"
  by (simp add: b64_decode_def b64_encode_no_breaks b64_quanta_encode)

section \<open>The envelope\<close>

abbreviation ErrInvalidKey :: go_error where
  "ErrInvalidKey \<equiv> New ''key must be exactly 32 bytes for AES-256-GCM''"

definition nonce_size :: nat where "nonce_size = 12"

text \<open>\<^verbatim>\<open>aes.NewCipher\<close> and \<^verbatim>\<open>cipher.NewGCM\<close> cannot fail once the key has 32 bytes.\<close>

definition Encrypt :: "prims \<Rightarrow> env \<Rightarrow> string \<Rightarrow> string \<Rightarrow> string \<Rightarrow> string result" where
  "Encrypt pr e nonce key plaintext =
     (if length key \<noteq> 32 then Inl ErrInvalidKey
      else if fault e ''Encrypt.nonce'' then Inl (Wrap ''random nonce'' (Driver ''Encrypt.nonce''))
      else Inr (b64_encode (nonce @ gcm_seal pr key nonce plaintext)))"

definition Decrypt :: "prims \<Rightarrow> string \<Rightarrow> string \<Rightarrow> string result" where
  "Decrypt pr key envelope =
     (if length key \<noteq> 32 then Inl ErrInvalidKey
      else (case b64_decode envelope of
              None \<Rightarrow> Inl (Wrap ''base64'' (Driver ''base64.DecodeString''))
            | Some raw \<Rightarrow>
                if length raw < nonce_size then Inl (New ''ciphertext too short'')
                else (case gcm_open pr key (take nonce_size raw) (drop nonce_size raw) of
                        None \<Rightarrow> Inl (Wrap ''gcm.Open'' (Driver ''gcm.Open''))
                      | Some plaintext \<Rightarrow> Inr plaintext)))"

section \<open>Properties\<close>

text \<open>Decrypting an envelope with the key it was made with gives the plaintext, and
  making or opening one with a key of any other length than 32 bytes is refused.\<close>

theorem envelope_roundtrip:
  assumes "gcm_correct pr" and "length nonce = nonce_size" and "Encrypt pr e nonce key plaintext = Inr envelope"
  shows "Decrypt pr key envelope = Inr plaintext \<and> length key = 32"
  using assms by (auto simp: Encrypt_def Decrypt_def gcm_correct_def split: if_splits)

text \<open>Concrete primitives: a cipher that checks key and nonce and stores the text as it is,
  and tokens that spell out their key and claims.\<close>

fun plain_json :: "json \<Rightarrow> string" where
  "plain_json (JStr s) = CHR ''s'' # s"
| "plain_json (JNum s) = CHR ''n'' # s"
| "plain_json _ = ''?''"

definition plain_unjson :: "string \<Rightarrow> json" where
  "plain_unjson s = (case s of [] \<Rightarrow> JNull | c # cs \<Rightarrow> if c = CHR ''s'' then JStr cs else JNum cs)"

definition plain_token :: "string \<Rightarrow> (string \<times> json) list \<Rightarrow> string" where
  "plain_token k cl = join ''|'' (k # concat (map (\<lambda>(n, v). [n, plain_json v]) cl))"

fun plain_pairs :: "string list \<Rightarrow> (string \<times> json) list" where
  "plain_pairs (n # v # r) = (n, plain_unjson v) # plain_pairs r"
| "plain_pairs _ = []"

definition plain_parse :: "int \<Rightarrow> string \<Rightarrow> string \<Rightarrow> (string \<times> json) list option" where
  "plain_parse t k tok =
     (case split_on (CHR ''|'') tok of [] \<Rightarrow> None
      | k' # r \<Rightarrow>
          if k' \<noteq> k then None
          else (case map_of (plain_pairs r) ''exp'' of
                  Some (JNum x) \<Rightarrow> (case atoi x of None \<Rightarrow> None
                     | Some n \<Rightarrow> if t < n * second then Some (plain_pairs r) else None)
                | _ \<Rightarrow> Some (plain_pairs r)))"

definition plain_prims :: prims where
  "plain_prims = \<lparr>sha256 = (\<lambda>s. take 32 (s @ replicate 32 (CHR ''x''))),
     gcm_seal = (\<lambda>k n p. k @ n @ p),
     gcm_open = (\<lambda>k n c. if take (length k + length n) c = k @ n
        then Some (drop (length k + length n) c) else None),
     bcrypt_compare = (\<lambda>h p. h = CHR ''$'' # p),
     bcrypt_generate = (\<lambda>p. if length p \<le> 72 then Some (CHR ''$'' # p) else None),
     totp_validate = (\<lambda>t code secret. code = secret),
     jwt_sign = (\<lambda>k cl. Some (plain_token k cl)),
     jwt_parse = plain_parse,
     uuid_string = dec_nat, uuid_parse = (\<lambda>s. map_option nat (atoi s))\<rparr>"

theorem envelope_roundtrip_witness:
  "Decrypt plain_prims (replicate 32 (CHR ''k''))
     (b64_encode (replicate 12 (CHR ''n'') @ replicate 32 (CHR ''k'') @ replicate 12 (CHR ''n'') @ ''JBSW''))
   = Inr ''JBSW'' \<and> length (replicate 32 (CHR ''k'')) = 32"
proof (rule envelope_roundtrip)
  show "gcm_correct plain_prims"
    by (simp add: gcm_correct_def plain_prims_def)
  show "length (replicate 12 (CHR ''n'')) = nonce_size"
    by (simp add: nonce_size_def)
  show "Encrypt plain_prims (quiet 0) (replicate 12 (CHR ''n'')) (replicate 32 (CHR ''k'')) ''JBSW''
      = Inr (b64_encode (replicate 12 (CHR ''n'') @ replicate 32 (CHR ''k'') @ replicate 12 (CHR ''n'') @ ''JBSW''))"
    by (simp add: Encrypt_def plain_prims_def)
qed

end
