(* ===== verification/Accounts.thy ===== *)
theory Accounts
  imports Crypto Models
begin

text \<open>
  User accounts: the input checks of \<^verbatim>\<open>auth_service.go\<close>, registration, the
  administrator's operations on users and the handlers of \<^verbatim>\<open>handlers/admin.go\<close>
  that call them.  The checks of \<^verbatim>\<open>emailRegex\<close> and \<^verbatim>\<open>usernameRegex\<close> are
  executable scans; \<open>emailRegex_iff\<close> gives the expression as written.  The last
  part runs the operations in any order and shows that an installation with an active
  owner never loses its last one.
\<close>

section \<open>Input checks\<close>

definition is_alpha :: "char \<Rightarrow> bool" where
  "is_alpha c = (is_upper c \<or> is_lower c)"

definition is_alnum :: "char \<Rightarrow> bool" where
  "is_alnum c = (is_alpha c \<or> is_digit c)"

definition local_char :: "char \<Rightarrow> bool" where
  "local_char c = (is_alnum c \<or> c \<in> set ''._%+-'')"

definition domain_char :: "char \<Rightarrow> bool" where
  "domain_char c = (is_alnum c \<or> c \<in> set ''.-'')"

definition domain_ok :: "string \<Rightarrow> bool" where
  "domain_ok d =
     (let tld = takeWhile (\<lambda>c. c \<noteq> CHR ''.'') (rev d)
      in case dropWhile (\<lambda>c. c \<noteq> CHR ''.'') (rev d) of
           [] \<Rightarrow> False
         | _ # host \<Rightarrow> host \<noteq> [] \<and> list_all domain_char host \<and> 2 \<le> length tld \<and> list_all is_alpha tld)"

definition emailRegex :: "string \<Rightarrow> bool" where
  "emailRegex s =
     (case cut_at (CHR ''@'') s of
        None \<Rightarrow> False
      | Some (l, d) \<Rightarrow> l \<noteq> [] \<and> list_all local_char l \<and> domain_ok d)"

definition usernameRegex :: "string \<Rightarrow> bool" where
  "usernameRegex s =
     (list_all (\<lambda>c. is_alnum c \<or> c = CHR ''_'') s \<and> 3 \<le> length s \<and> length s \<le> 20)"

abbreviation ErrEmailTaken :: go_error where
  "ErrEmailTaken \<equiv> New ''email already in use''"
abbreviation ErrUsernameTaken :: go_error where
  "ErrUsernameTaken \<equiv> New ''username already in use''"
abbreviation ErrWeakPasswordForRole :: go_error where
  "ErrWeakPasswordForRole \<equiv> New ''owner and admin accounts require passwords of at least 12 characters including a digit and a symbol''"

text \<open>The loop over the runes of a password: every byte of a multi-byte rune is outside
  the ASCII letters and digits, so scanning bytes sets the same flags.\<close>

fun scan_password :: "bool \<Rightarrow> bool \<Rightarrow> string \<Rightarrow> bool \<times> bool" where
  "scan_password hasDigit hasSymbol [] = (hasDigit, hasSymbol)"
| "scan_password hasDigit hasSymbol (r # rs) =
     (if is_digit r then scan_password True hasSymbol rs
      else if is_alpha r then scan_password hasDigit hasSymbol rs
      else scan_password hasDigit True rs)"

definition validatePasswordForRole :: "string \<Rightarrow> string \<Rightarrow> unit result" where
  "validatePasswordForRole role password =
     (let privileged = (role = RoleOwner \<or> role = RoleAdmin);
          minLen = (if privileged then 12 else 8)
      in if rune_count password < minLen
         then Inl (New (if privileged then ''password must be at least 12 characters long''
                        else ''password must be at least 8 characters long''))
         else if \<not> privileged then Inr ()
         else (case scan_password False False password of
                 (hasDigit, hasSymbol) \<Rightarrow>
                   if \<not> hasDigit \<or> \<not> hasSymbol then Inl ErrWeakPasswordForRole else Inr ()))"

section \<open>The users table\<close>

text \<open>\<^verbatim>\<open>INSERT INTO users\<close> under the constraints of the schema: primary key, unique
  case-insensitive e-mail (\<^verbatim>\<open>CITEXT\<close>), unique username of 3 to 30 characters, an
  enumerated role.\<close>

definition db_username_ok :: "string \<Rightarrow> bool" where
  "db_username_ok s =
     (3 \<le> rune_count s \<and> rune_count s \<le> 30 \<and> list_all (\<lambda>c. is_alnum c \<or> c = CHR ''_'' \<or> c = CHR ''-'') s)"

definition insert_user :: "env \<Rightarrow> string \<Rightarrow> db \<Rightarrow> User \<Rightarrow> db result" where
  "insert_user e label d u =
     (if fault e label then Inl (Driver label)
      else if \<exists>v \<in> set (users d). u_ID v = u_ID u \<or> equal_fold (u_Email v) (u_Email u)
                  \<or> u_Username v = u_Username u
      then Inl (New ''duplicate key value violates unique constraint'')
      else if RoleWeight (u_Role u) = 0 \<or> \<not> db_username_ok (u_Username u)
      then Inl (New ''invalid input value'')
      else Inr (d\<lparr>users := users d @ [u]\<rparr>))"

definition new_user :: "env \<Rightarrow> uuid \<Rightarrow> string \<Rightarrow> string \<Rightarrow> string \<Rightarrow> string \<Rightarrow> User" where
  "new_user e newID email username hash role =
     \<lparr>u_ID = newID, u_Email = email, u_Username = username, u_PasswordHash = hash, u_Role = role,
      u_TOTPSecret = [], u_TOTPEnabled = False, u_CreatedAt = now e, u_LastLoginAt = None,
      u_IsActive = True\<rparr>"

definition email_count :: "db \<Rightarrow> string \<Rightarrow> nat" where
  "email_count d email = rows_affected (\<lambda>u. equal_fold (u_Email u) email) (users d)"

definition username_count :: "db \<Rightarrow> string \<Rightarrow> nat" where
  "username_count d username = rows_affected (\<lambda>u. to_lower (u_Username u) = to_lower username) (users d)"

section \<open>Registration\<close>

definition Register ::
  "prims \<Rightarrow> env \<Rightarrow> uuid \<Rightarrow> db \<Rightarrow> string \<Rightarrow> string \<Rightarrow> string \<Rightarrow> User result \<times> db" where
  "Register pr e newID d email0 username0 password =
     (let email = to_lower (trim_space email0); username = trim_space username0
      in if \<not> emailRegex email then (Inl (New ''invalid email format''), d)
         else if \<not> usernameRegex username
         then (Inl (New (''username must be 3'' @ [CHR 0xE2, CHR 0x80, CHR 0x93]
                 @ ''20 characters and contain only letters, numbers, and underscores'')), d)
         else (case validatePasswordForRole RoleUser password of
             Inl err \<Rightarrow> (Inl err, d)
           | Inr _ \<Rightarrow>
         (case call e ''Register.email'' (email_count d email) of
             Inl err \<Rightarrow> (Inl (Wrap ''checking email uniqueness'' err), d)
           | Inr emailCount \<Rightarrow>
         if emailCount > 0 then (Inl ErrEmailTaken, d)
         else (case call e ''Register.username'' (username_count d username) of
             Inl err \<Rightarrow> (Inl (Wrap ''checking username uniqueness'' err), d)
           | Inr usernameCount \<Rightarrow>
         if usernameCount > 0 then (Inl ErrUsernameTaken, d)
         else (case bcrypt_generate pr password of
             None \<Rightarrow> (Inl (Wrap ''hashing password'' (Driver ''bcrypt'')), d)
           | Some hash \<Rightarrow>
         (case insert_user e ''Register.insert'' d (new_user e newID email username hash RoleUser) of
             Inl err \<Rightarrow> (Inl (Wrap ''inserting user'' err), d)
           | Inr d' \<Rightarrow> (Inr (new_user e newID email username hash RoleUser), d')))))))"

text \<open>The two uniqueness queries of \<^verbatim>\<open>CreateUserByAdmin\<close> ignore their error; the
  count then keeps its initial value 0.\<close>

definition count_or_zero :: "env \<Rightarrow> string \<Rightarrow> nat \<Rightarrow> nat" where
  "count_or_zero e label n = (if fault e label then 0 else n)"

definition CreateUserByAdmin ::
  "prims \<Rightarrow> env \<Rightarrow> uuid \<Rightarrow> db \<Rightarrow> string \<Rightarrow> string \<Rightarrow> string \<Rightarrow> string \<Rightarrow> User result \<times> db" where
  "CreateUserByAdmin pr e newID d email0 username0 password role =
     (let email = to_lower (trim_space email0); username = trim_space username0
      in if \<not> emailRegex email then (Inl (New ''invalid email format''), d)
         else if \<not> usernameRegex username
         then (Inl (New ''username must be 3-20 characters and contain only letters, numbers, and underscores''), d)
         else if RoleWeight role = 0
         then (Inl (New ''invalid role: must be user, moderator, admin, or owner''), d)
         else (case validatePasswordForRole role password of
             Inl err \<Rightarrow> (Inl err, d)
           | Inr _ \<Rightarrow>
         if count_or_zero e ''CreateUserByAdmin.email'' (email_count d email) > 0 then (Inl ErrEmailTaken, d)
         else if count_or_zero e ''CreateUserByAdmin.username'' (username_count d username) > 0
         then (Inl ErrUsernameTaken, d)
         else (case bcrypt_generate pr password of
             None \<Rightarrow> (Inl (Wrap ''hashing password'' (Driver ''bcrypt'')), d)
           | Some hash \<Rightarrow>
         (case insert_user e ''CreateUserByAdmin.insert'' d (new_user e newID email username hash role) of
             Inl err \<Rightarrow> (Inl (Wrap ''inserting user'' err), d)
           | Inr d' \<Rightarrow> (Inr (new_user e newID email username hash role), d')))))"

definition ListUsers :: "env \<Rightarrow> db \<Rightarrow> User list result" where
  "ListUsers e d =
     (case call e ''ListUsers'' (sort_key u_CreatedAt (users d)) of
        Inl err \<Rightarrow> Inl (Wrap ''querying users'' err)
      | Inr us \<Rightarrow> Inr (map (\<lambda>u. u\<lparr>u_TOTPSecret := []\<rparr>) us))"

section \<open>Changing users\<close>

abbreviation ErrUserNotFound :: go_error where
  "ErrUserNotFound \<equiv> New ''user not found''"
abbreviation ErrOwnerProtected :: go_error where
  "ErrOwnerProtected \<equiv> New ''only owners can modify owner accounts''"
abbreviation ErrLastOwner :: go_error where
  "ErrLastOwner \<equiv> New ''cannot remove the last active owner''"

definition active_owner :: "User \<Rightarrow> bool" where
  "active_owner u = (u_Role u = RoleOwner \<and> u_IsActive u)"

text \<open>The transaction runs on the state \<open>d\<close> it sees after its row locks, and
  leaves it as it was unless it commits.\<close>

definition adminTargetChange ::
  "env \<Rightarrow> db \<Rightarrow> string \<Rightarrow> uuid \<Rightarrow> (string \<Rightarrow> bool \<Rightarrow> bool) \<Rightarrow> (db \<Rightarrow> db result) \<Rightarrow> unit result \<times> db" where
  "adminTargetChange e d callerRole targetID removesOwner fn =
     (if fault e ''adminTargetChange.begin''
      then (Inl (Wrap ''beginning transaction'' (Driver ''adminTargetChange.begin'')), d)
      else if fault e ''adminTargetChange.lock''
      then (Inl (Wrap ''locking owners'' (Driver ''adminTargetChange.lock'')), d)
      else (case call e ''adminTargetChange.target'' (find_user d targetID) of
          Inl err \<Rightarrow> (Inl (Wrap ''loading target user'' err), d)
        | Inr None \<Rightarrow> (Inl ErrUserNotFound, d)
        | Inr (Some t) \<Rightarrow>
      if u_Role t = RoleOwner \<and> callerRole \<noteq> RoleOwner then (Inl ErrOwnerProtected, d)
      else if removesOwner (u_Role t) (u_IsActive t) \<and> fault e ''adminTargetChange.count''
      then (Inl (Wrap ''counting owners'' (Driver ''adminTargetChange.count'')), d)
      else if removesOwner (u_Role t) (u_IsActive t)
        \<and> rows_affected (\<lambda>u. active_owner u \<and> u_ID u \<noteq> targetID) (users d) = 0
      then (Inl ErrLastOwner, d)
      else (case fn d of
          Inl err \<Rightarrow> (Inl err, d)
        | Inr d' \<Rightarrow>
            (case call e ''adminTargetChange.commit'' () of
               Inl err \<Rightarrow> (Inl err, d)
             | Inr _ \<Rightarrow> (Inr (), d')))))"

definition set_role :: "env \<Rightarrow> uuid \<Rightarrow> string \<Rightarrow> db \<Rightarrow> db result" where
  "set_role e targetID role d =
     (if fault e ''UpdateUserRole.update'' \<or> RoleWeight role = 0
      then Inl (Wrap ''updating user role'' (Driver ''UpdateUserRole.update''))
      else Inr (d\<lparr>users := update_where (\<lambda>u. u_ID u = targetID) (\<lambda>u. u\<lparr>u_Role := role\<rparr>) (users d)\<rparr>))"

definition UpdateUserRole :: "env \<Rightarrow> db \<Rightarrow> string \<Rightarrow> uuid \<Rightarrow> string \<Rightarrow> unit result \<times> db" where
  "UpdateUserRole e d callerRole targetID role =
     (if role = RoleOwner \<and> callerRole \<noteq> RoleOwner then (Inl ErrOwnerProtected, d)
      else adminTargetChange e d callerRole targetID
             (\<lambda>targetRole active. targetRole = RoleOwner \<and> active \<and> role \<noteq> RoleOwner)
             (set_role e targetID role))"

definition set_active :: "env \<Rightarrow> uuid \<Rightarrow> bool \<Rightarrow> db \<Rightarrow> db result" where
  "set_active e targetID active d =
     (if fault e ''SetUserActive.update''
      then Inl (Wrap ''updating user active status'' (Driver ''SetUserActive.update''))
      else Inr (d\<lparr>users := update_where (\<lambda>u. u_ID u = targetID) (\<lambda>u. u\<lparr>u_IsActive := active\<rparr>) (users d)\<rparr>))"

definition SetUserActive :: "env \<Rightarrow> db \<Rightarrow> string \<Rightarrow> uuid \<Rightarrow> bool \<Rightarrow> unit result \<times> db" where
  "SetUserActive e d callerRole targetID active =
     adminTargetChange e d callerRole targetID
       (\<lambda>targetRole wasActive. targetRole = RoleOwner \<and> wasActive \<and> \<not> active)
       (set_active e targetID active)"

text \<open>\<^verbatim>\<open>DELETE FROM users\<close> is refused while a server names the user as its owner
  (the foreign key has no \<^verbatim>\<open>ON DELETE\<close> action); sessions, memberships, overrides,
  sent invitations, created enrollments, alert rules and preferences go with the row; log entries,
  bans, destinations and settings lose their user.\<close>

definition delete_user_rows :: "env \<Rightarrow> uuid \<Rightarrow> db \<Rightarrow> db result" where
  "delete_user_rows e targetID d =
     (if fault e ''DeleteUser.sessions''
      then Inl (Wrap ''revoking sessions'' (Driver ''DeleteUser.sessions''))
      else if fault e ''DeleteUser.delete'' \<or> (\<exists>s \<in> set (servers d). sv_OwnerID s = targetID)
      then Inl (Wrap ''deleting user'' (Driver ''DeleteUser.delete''))
      else Inr (d\<lparr>users := delete_where (\<lambda>u. u_ID u = targetID) (users d),
          sessions := delete_where (\<lambda>s. s_UserID s = targetID) (sessions d),
          server_members := delete_where (\<lambda>m. m_UserID m = targetID) (server_members d),
          user_permissions := delete_where (\<lambda>p. up_UserID p = targetID) (user_permissions d),
          server_invitations := delete_where (\<lambda>i. i_InviterID i = targetID) (server_invitations d),
          node_enrollments := delete_where (\<lambda>n. e_CreatedBy n = Some targetID) (node_enrollments d),
          activity_logs := update_where (\<lambda>l. a_UserID l = Some targetID) (\<lambda>l. l\<lparr>a_UserID := None\<rparr>)
            (activity_logs d),
          players := update_where (\<lambda>p. pl_BannedBy p = Some targetID) (\<lambda>p. p\<lparr>pl_BannedBy := None\<rparr>) (players d),
          network_bans := update_where (\<lambda>b. nb_BannedBy b = Some targetID) (\<lambda>b. b\<lparr>nb_BannedBy := None\<rparr>)
            (network_bans d),
          alert_rules := delete_where (\<lambda>r. r_UserID r = targetID) (alert_rules d),
          alert_events := update_where
            (\<lambda>v. \<exists>r \<in> set (alert_rules d). ae_RuleID v = Some (r_ID r) \<and> r_UserID r = targetID)
            (\<lambda>v. v\<lparr>ae_RuleID := None\<rparr>) (alert_events d),
          backup_destinations := update_where (\<lambda>b. bd_CreatedBy b = Some targetID)
            (\<lambda>b. b\<lparr>bd_CreatedBy := None\<rparr>) (backup_destinations d),
          app_settings := update_where (\<lambda>s. as_UpdatedBy s = Some targetID)
            (\<lambda>s. s\<lparr>as_UpdatedBy := None\<rparr>) (app_settings d),
          notification_prefs := delete_where (\<lambda>p. np_UserID p = targetID) (notification_prefs d),
          profiles := delete_where (\<lambda>p. pf_UserID p = targetID) (profiles d)\<rparr>))"

definition DeleteUser :: "env \<Rightarrow> db \<Rightarrow> string \<Rightarrow> uuid \<Rightarrow> unit result \<times> db" where
  "DeleteUser e d callerRole targetID =
     adminTargetChange e d callerRole targetID
       (\<lambda>targetRole active. targetRole = RoleOwner \<and> active)
       (delete_user_rows e targetID)"

definition GetUserActivity :: "env \<Rightarrow> db \<Rightarrow> uuid \<Rightarrow> nat \<Rightarrow> ActivityLog list result" where
  "GetUserActivity e d userID limit =
     (case call e ''GetUserActivity''
          (take limit (sort_key (\<lambda>l. - a_CreatedAt l) (filter (\<lambda>l. a_UserID l = Some userID) (activity_logs d)))) of
        Inl err \<Rightarrow> Inl (Wrap ''querying user activity'' err)
      | Inr logs \<Rightarrow> Inr logs)"

definition GetActivityLogs :: "env \<Rightarrow> db \<Rightarrow> nat \<Rightarrow> ActivityLog list result" where
  "GetActivityLogs e d limit =
     (case call e ''GetActivityLogs'' (take limit (sort_key (\<lambda>l. - a_CreatedAt l) (activity_logs d))) of
        Inl err \<Rightarrow> Inl (Wrap ''querying activity logs'' err)
      | Inr logs \<Rightarrow> Inr logs)"

section \<open>Handlers\<close>

text \<open>The body as \<^verbatim>\<open>ShouldBindJSON\<close> returned it and the path parameter as
  \<^verbatim>\<open>uuid.Parse\<close> returned it are arguments.\<close>

record createUserRequest =
  cu_Email :: string
  cu_Username :: string
  cu_Password :: string
  cu_Role :: string

definition h_Register ::
  "prims \<Rightarrow> env \<Rightarrow> uuid \<Rightarrow> db \<Rightarrow> (string \<times> string \<times> string) result \<Rightarrow> User response \<times> db" where
  "h_Register pr e newID d req =
     (case req of Inl err \<Rightarrow> (Refuse 400 (Error err), d)
      | Inr (email, username, password) \<Rightarrow>
          (case Register pr e newID d email username password of
             (Inl err, d') \<Rightarrow>
               (if errors_is err ErrEmailTaken then Refuse 409 ''email already in use''
                else if errors_is err ErrUsernameTaken then Refuse 409 ''username already in use''
                else Refuse 400 (Error err), d')
           | (Inr user, d') \<Rightarrow> (Reply 201 user, d')))"

definition h_CreateUser ::
  "prims \<Rightarrow> env \<Rightarrow> uuid \<Rightarrow> db \<Rightarrow> User option \<Rightarrow> createUserRequest result \<Rightarrow> User response \<times> db" where
  "h_CreateUser pr e newID d caller req =
     (case req of Inl err \<Rightarrow> (Refuse 400 (Error err), d)
      | Inr r \<Rightarrow>
          if RoleWeight (cu_Role r) = 0
          then (Refuse 400 ''invalid role; must be user, moderator, admin, or owner'', d)
          else if cu_Role r = RoleOwner
            \<and> (case caller of None \<Rightarrow> True | Some c \<Rightarrow> u_Role c \<noteq> RoleOwner)
          then (Refuse 403 ''only owners can create owner accounts'', d)
          else (case CreateUserByAdmin pr e newID d (cu_Email r) (cu_Username r) (cu_Password r) (cu_Role r) of
                  (Inl err, d') \<Rightarrow> (Refuse 400 (Error err), d')
                | (Inr user, d') \<Rightarrow> (Reply 201 user, d')))"

definition h_ListUsers :: "env \<Rightarrow> db \<Rightarrow> User list response" where
  "h_ListUsers e d =
     (case ListUsers e d of
        Inl _ \<Rightarrow> Refuse 500 ''could not list users''
      | Inr us \<Rightarrow> Reply 200 us)"

definition respondUserChangeError :: "go_error \<Rightarrow> string response" where
  "respondUserChangeError err =
     (if errors_is err ErrUserNotFound then Refuse 404 (Error err)
      else if errors_is err ErrOwnerProtected then Refuse 403 (Error err)
      else if errors_is err ErrLastOwner then Refuse 409 (Error err)
      else Refuse 500 ''could not update user'')"

definition user_change :: "string \<Rightarrow> unit result \<times> db \<Rightarrow> string response \<times> db" where
  "user_change message r =
     (case r of (Inl err, d') \<Rightarrow> (respondUserChangeError err, d')
      | (Inr _, d') \<Rightarrow> (Reply 200 message, d'))"

definition h_UpdateUserRole ::
  "env \<Rightarrow> db \<Rightarrow> User option \<Rightarrow> uuid option \<Rightarrow> string result \<Rightarrow> string response \<times> db" where
  "h_UpdateUserRole e d caller target req =
     (case target of None \<Rightarrow> (Refuse 400 ''invalid ID format'', d)
      | Some targetID \<Rightarrow>
     (case req of Inl err \<Rightarrow> (Refuse 400 (Error err), d)
      | Inr role \<Rightarrow>
     if RoleWeight role = 0
     then (Refuse 400 ''invalid role; must be user, moderator, admin, or owner'', d)
     else (case caller of None \<Rightarrow> (Refuse 401 ''unauthorized'', d)
      | Some c \<Rightarrow>
     if u_ID c = targetID then (Refuse 400 ''cannot change your own role'', d)
     else if role = RoleOwner \<and> u_Role c \<noteq> RoleOwner
     then (Refuse 403 ''only owners can promote to owner'', d)
     else user_change ''role updated'' (UpdateUserRole e d (u_Role c) targetID role))))"

definition h_ToggleUserActive ::
  "env \<Rightarrow> db \<Rightarrow> User option \<Rightarrow> uuid option \<Rightarrow> bool result \<Rightarrow> string response \<times> db" where
  "h_ToggleUserActive e d caller target req =
     (case target of None \<Rightarrow> (Refuse 400 ''invalid ID format'', d)
      | Some targetID \<Rightarrow>
     (case req of Inl err \<Rightarrow> (Refuse 400 (Error err), d)
      | Inr active \<Rightarrow>
     (case caller of None \<Rightarrow> (Refuse 401 ''unauthorized'', d)
      | Some c \<Rightarrow>
     if u_ID c = targetID then (Refuse 400 ''cannot disable your own account'', d)
     else user_change ''user status updated'' (SetUserActive e d (u_Role c) targetID active))))"

definition h_DeleteUser ::
  "env \<Rightarrow> db \<Rightarrow> User option \<Rightarrow> uuid option \<Rightarrow> string response \<times> db" where
  "h_DeleteUser e d caller target =
     (case target of None \<Rightarrow> (Refuse 400 ''invalid ID format'', d)
      | Some targetID \<Rightarrow>
     (case caller of None \<Rightarrow> (Refuse 401 ''unauthorized'', d)
      | Some c \<Rightarrow>
     if u_ID c = targetID then (Refuse 400 ''cannot delete your own account'', d)
     else user_change ''user deleted'' (DeleteUser e d (u_Role c) targetID)))"

definition h_GetActivityLogs :: "env \<Rightarrow> db \<Rightarrow> ActivityLog list response" where
  "h_GetActivityLogs e d =
     (case GetActivityLogs e d 100 of
        Inl _ \<Rightarrow> Refuse 500 ''could not fetch activity logs''
      | Inr logs \<Rightarrow> Reply 200 logs)"

section \<open>The e-mail expression\<close>

definition email_shape :: "string \<Rightarrow> string \<Rightarrow> string \<Rightarrow> bool" where
  "email_shape l h t =
     (l \<noteq> [] \<and> list_all local_char l \<and> h \<noteq> [] \<and> list_all domain_char h \<and> 2 \<le> length t \<and> list_all is_alpha t)"

lemma cut_at_Some: "cut_at d s = Some (a, b) \<longleftrightarrow> s = a @ d # b \<and> d \<notin> set a"
proof
  assume "cut_at d s = Some (a, b)"
  then have d: "d \<in> set s" and a: "a = takeWhile (\<lambda>c. c \<noteq> d) s" and b: "b = tl (dropWhile (\<lambda>c. c \<noteq> d) s)"
    by (auto simp: cut_at_def split: if_splits)
  from d have "dropWhile (\<lambda>c. c \<noteq> d) s \<noteq> []" by auto
  then have "dropWhile (\<lambda>c. c \<noteq> d) s = d # b"
    using hd_dropWhile [of "\<lambda>c. c \<noteq> d" s] unfolding b by (cases "dropWhile (\<lambda>c. c \<noteq> d) s") auto
  then show "s = a @ d # b \<and> d \<notin> set a"
    using takeWhile_dropWhile_id [of "\<lambda>c. c \<noteq> d" s] a by (metis (full_types) set_takeWhileD)
next
  assume "s = a @ d # b \<and> d \<notin> set a"
  moreover from this have "takeWhile (\<lambda>c. c \<noteq> d) s = a" "dropWhile (\<lambda>c. c \<noteq> d) s = d # b"
    by (auto simp: takeWhile_append dropWhile_append)
  ultimately show "cut_at d s = Some (a, b)" by (simp add: cut_at_def)
qed

lemma cut_at_None: "cut_at d s = None \<longleftrightarrow> d \<notin> set s"
  by (simp add: cut_at_def)

lemma char_classes:
  "\<not> local_char (CHR ''@'')" "\<not> domain_char (CHR ''@'')" "\<not> is_alpha (CHR ''.'')" "\<not> is_alpha (CHR ''@'')"
  by (simp_all add: local_char_def domain_char_def is_alnum_def is_alpha_def is_upper_def is_lower_def
      is_digit_def byte_def)

lemma dropWhile_Cons_split:
  "dropWhile (\<lambda>c. c \<noteq> x) s = y # r \<Longrightarrow> y = x \<and> s = takeWhile (\<lambda>c. c \<noteq> x) s @ x # r"
  using hd_dropWhile [of "\<lambda>c. c \<noteq> x" s] takeWhile_dropWhile_id [of "\<lambda>c. c \<noteq> x" s] by auto

lemma domain_ok_iff:
  "domain_ok d \<longleftrightarrow> (\<exists>h t. d = h @ CHR ''.'' # t \<and> h \<noteq> [] \<and> list_all domain_char h
     \<and> 2 \<le> length t \<and> list_all is_alpha t)"
proof
  assume ok: "domain_ok d"
  let ?t = "takeWhile (\<lambda>c. c \<noteq> CHR ''.'') (rev d)"
  from ok obtain x r where r: "dropWhile (\<lambda>c. c \<noteq> CHR ''.'') (rev d) = x # r"
    unfolding domain_ok_def by (cases "dropWhile (\<lambda>c. c \<noteq> CHR ''.'') (rev d)") auto
  with ok have c: "r \<noteq> []" "list_all domain_char r" "2 \<le> length ?t" "list_all is_alpha ?t"
    by (auto simp: domain_ok_def Let_def)
  from r have "rev d = ?t @ CHR ''.'' # r" by (auto dest: dropWhile_Cons_split)
  then have "d = rev r @ CHR ''.'' # rev ?t"
    by (metis append.assoc append_Cons append_Nil rev_append rev_rev_ident rev.simps(2))
  with c show "\<exists>h t. d = h @ CHR ''.'' # t \<and> h \<noteq> [] \<and> list_all domain_char h
     \<and> 2 \<le> length t \<and> list_all is_alpha t"
    by (intro exI [of _ "rev r"] exI [of _ "rev ?t"]) auto
next
  assume "\<exists>h t. d = h @ CHR ''.'' # t \<and> h \<noteq> [] \<and> list_all domain_char h
     \<and> 2 \<le> length t \<and> list_all is_alpha t"
  then obtain h t where d: "d = h @ CHR ''.'' # t" and c: "h \<noteq> []" "list_all domain_char h"
      "2 \<le> length t" "list_all is_alpha t" by blast
  from c(4) have nd: "CHR ''.'' \<notin> set (rev t)"
    using char_classes(3) by (auto simp: list_all_iff)
  with d have "takeWhile (\<lambda>c. c \<noteq> CHR ''.'') (rev d) = rev t"
      "dropWhile (\<lambda>c. c \<noteq> CHR ''.'') (rev d) = CHR ''.'' # rev h"
    by (auto simp: takeWhile_append dropWhile_append)
  with c show "domain_ok d" by (simp add: domain_ok_def)
qed

section \<open>Lemmas on the operations\<close>

lemma scan_password_flags:
  "scan_password a b s = (a \<or> (\<exists>c \<in> set s. is_digit c), b \<or> (\<exists>c \<in> set s. \<not> is_alnum c))"
  by (induction s arbitrary: a b) (auto simp: is_alnum_def)

lemma validatePasswordForRole_ok:
  "validatePasswordForRole role p = Inr () \<longleftrightarrow>
     (if role = RoleOwner \<or> role = RoleAdmin
      then 12 \<le> rune_count p \<and> (\<exists>c \<in> set p. is_digit c) \<and> (\<exists>c \<in> set p. \<not> is_alnum c)
      else 8 \<le> rune_count p)"
  by (auto simp: validatePasswordForRole_def Let_def scan_password_flags)

lemma insert_user_Inr:
  "insert_user e l d u = Inr d' \<longleftrightarrow> \<not> fault e l \<and>
     (\<forall>v \<in> set (users d). u_ID v \<noteq> u_ID u \<and> \<not> equal_fold (u_Email v) (u_Email u) \<and> u_Username v \<noteq> u_Username u)
     \<and> RoleWeight (u_Role u) \<noteq> 0 \<and> db_username_ok (u_Username u) \<and> d' = d\<lparr>users := users d @ [u]\<rparr>"
  by (auto simp: insert_user_def)

lemma adminTargetChange_Inr:
  assumes "adminTargetChange e d cr t ro fn = (Inr u, d')"
  obtains x where "find_user d t = Some x" and "u_Role x = RoleOwner \<longrightarrow> cr = RoleOwner"
    and "ro (u_Role x) (u_IsActive x) \<longrightarrow> (\<exists>v \<in> set (users d). active_owner v \<and> u_ID v \<noteq> t)"
    and "fn d = Inr d'"
  using assms unfolding adminTargetChange_def
  by (auto split: sum.splits if_splits option.splits)

lemma adminTargetChange_Inl:
  "adminTargetChange e d cr t ro fn = (Inl err, d') \<Longrightarrow> d' = d"
  unfolding adminTargetChange_def by (auto split: sum.splits if_splits option.splits)

lemma Register_Inl: "Register pr e i d em un pw = (Inl err, d') \<Longrightarrow> d' = d"
  unfolding Register_def Let_def by (auto split: sum.splits if_splits option.splits)

lemma Register_Inr:
  assumes "Register pr e i d em un pw = (Inr u, d')"
  obtains hash where "bcrypt_generate pr pw = Some hash"
    and "u = new_user e i (to_lower (trim_space em)) (trim_space un) hash RoleUser"
    and "insert_user e ''Register.insert'' d u = Inr d'"
    and "emailRegex (u_Email u)" and "usernameRegex (u_Username u)"
    and "validatePasswordForRole RoleUser pw = Inr ()"
    and "username_count d (u_Username u) = 0"
  using assms unfolding Register_def Let_def
  by (auto simp: new_user_def split: sum.splits if_splits option.splits)

lemma CreateUserByAdmin_Inl: "CreateUserByAdmin pr e i d em un pw role = (Inl err, d') \<Longrightarrow> d' = d"
  unfolding CreateUserByAdmin_def Let_def by (auto split: sum.splits if_splits option.splits)

lemma CreateUserByAdmin_Inr:
  assumes "CreateUserByAdmin pr e i d em un pw role = (Inr u, d')"
  obtains hash where "bcrypt_generate pr pw = Some hash"
    and "u = new_user e i (to_lower (trim_space em)) (trim_space un) hash role"
    and "insert_user e ''CreateUserByAdmin.insert'' d u = Inr d'"
    and "emailRegex (u_Email u)" and "usernameRegex (u_Username u)"
    and "validatePasswordForRole role pw = Inr ()"
  using assms unfolding CreateUserByAdmin_def Let_def
  by (auto simp: new_user_def split: sum.splits if_splits option.splits)

section \<open>Sequences of account operations\<close>

datatype acc_act =
    ActRegister prims env uuid "(string \<times> string \<times> string) result"
  | ActCreateUser prims env uuid "User option" "createUserRequest result"
  | ActUpdateUserRole env "User option" "uuid option" "string result"
  | ActToggleUserActive env "User option" "uuid option" "bool result"
  | ActDeleteUser env "User option" "uuid option"

fun status :: "'a response \<Rightarrow> nat" where
  "status (Reply n _) = n"
| "status (Refuse n _) = n"

fun acc_step :: "acc_act \<Rightarrow> db \<Rightarrow> nat \<times> db" where
  "acc_step (ActRegister pr e i req) d = map_prod status id (h_Register pr e i d req)"
| "acc_step (ActCreateUser pr e i c req) d = map_prod status id (h_CreateUser pr e i d c req)"
| "acc_step (ActUpdateUserRole e c t req) d = map_prod status id (h_UpdateUserRole e d c t req)"
| "acc_step (ActToggleUserActive e c t req) d = map_prod status id (h_ToggleUserActive e d c t req)"
| "acc_step (ActDeleteUser e c t) d = map_prod status id (h_DeleteUser e d c t)"

text \<open>The caller a request was authenticated as; a registration has none.\<close>

fun acc_caller :: "acc_act \<Rightarrow> User option" where
  "acc_caller (ActRegister _ _ _ _) = None"
| "acc_caller (ActCreateUser _ _ _ c _) = c"
| "acc_caller (ActUpdateUserRole _ c _ _) = c"
| "acc_caller (ActToggleUserActive _ c _ _) = c"
| "acc_caller (ActDeleteUser _ c _) = c"

definition by_owner :: "acc_act \<Rightarrow> bool" where
  "by_owner a = (case acc_caller a of None \<Rightarrow> False | Some c \<Rightarrow> u_Role c = RoleOwner)"

text \<open>Every step leaves the tables alone or does one of four things to the users.\<close>

inductive user_change_rel :: "bool \<Rightarrow> db \<Rightarrow> db \<Rightarrow> bool" for own :: bool where
  same: "user_change_rel own d d"
| insert: "\<forall>v \<in> set (users d). u_ID v \<noteq> u_ID u \<and> \<not> equal_fold (u_Email v) (u_Email u)
      \<and> u_Username v \<noteq> u_Username u \<Longrightarrow>
    RoleWeight (u_Role u) \<noteq> 0 \<Longrightarrow> u_Role u = RoleOwner \<longrightarrow> own \<Longrightarrow>
    user_change_rel own d (d\<lparr>users := users d @ [u]\<rparr>)"
| role: "find_user d t = Some x \<Longrightarrow> u_Role x = RoleOwner \<or> role = RoleOwner \<longrightarrow> own \<Longrightarrow>
    active_owner x \<and> role \<noteq> RoleOwner \<longrightarrow> (\<exists>v \<in> set (users d). active_owner v \<and> u_ID v \<noteq> t) \<Longrightarrow>
    RoleWeight role \<noteq> 0 \<Longrightarrow>
    user_change_rel own d (d\<lparr>users := update_where (\<lambda>u. u_ID u = t) (\<lambda>u. u\<lparr>u_Role := role\<rparr>) (users d)\<rparr>)"
| active: "find_user d t = Some x \<Longrightarrow> u_Role x = RoleOwner \<longrightarrow> own \<Longrightarrow>
    active_owner x \<and> \<not> b \<longrightarrow> (\<exists>v \<in> set (users d). active_owner v \<and> u_ID v \<noteq> t) \<Longrightarrow>
    user_change_rel own d (d\<lparr>users := update_where (\<lambda>u. u_ID u = t) (\<lambda>u. u\<lparr>u_IsActive := b\<rparr>) (users d)\<rparr>)"
| delete: "find_user d t = Some x \<Longrightarrow> u_Role x = RoleOwner \<longrightarrow> own \<Longrightarrow>
    active_owner x \<longrightarrow> (\<exists>v \<in> set (users d). active_owner v \<and> u_ID v \<noteq> t) \<Longrightarrow>
    users d' = delete_where (\<lambda>u. u_ID u = t) (users d) \<Longrightarrow>
    user_change_rel own d d'"

lemma Register_rel: "user_change_rel own d (snd (Register pr e i d em un pw))"
proof (cases "Register pr e i d em un pw")
  case (Pair r d')
  show ?thesis
  proof (cases r)
    case (Inl err)
    with Pair show ?thesis by (auto dest: Register_Inl intro: same)
  next
    case (Inr u)
    with Pair have "Register pr e i d em un pw = (Inr u, d')" by simp
    then show ?thesis
      by (rule Register_Inr) (auto simp: Pair insert_user_Inr new_user_def intro!: user_change_rel.insert)
  qed
qed

lemma CreateUserByAdmin_rel:
  assumes "role = RoleOwner \<longrightarrow> own"
  shows "user_change_rel own d (snd (CreateUserByAdmin pr e i d em un pw role))"
proof (cases "CreateUserByAdmin pr e i d em un pw role")
  case (Pair r d')
  show ?thesis
  proof (cases r)
    case (Inl err)
    with Pair show ?thesis by (auto dest: CreateUserByAdmin_Inl intro: same)
  next
    case (Inr u)
    with Pair have "CreateUserByAdmin pr e i d em un pw role = (Inr u, d')" by simp
    then show ?thesis
      by (rule CreateUserByAdmin_Inr)
        (use assms in \<open>auto simp: Pair insert_user_Inr new_user_def intro!: user_change_rel.insert\<close>)
  qed
qed

lemma adminTargetChange_rel:
  assumes "\<And>x d'. find_user d t = Some x \<Longrightarrow> u_Role x = RoleOwner \<longrightarrow> cr = RoleOwner \<Longrightarrow>
      ro (u_Role x) (u_IsActive x) \<longrightarrow> (\<exists>v \<in> set (users d). active_owner v \<and> u_ID v \<noteq> t) \<Longrightarrow>
      fn d = Inr d' \<Longrightarrow> user_change_rel own d d'"
  shows "user_change_rel own d (snd (adminTargetChange e d cr t ro fn))"
proof (cases "adminTargetChange e d cr t ro fn")
  case (Pair r d')
  show ?thesis
  proof (cases r)
    case (Inl err)
    with Pair show ?thesis by (auto dest: adminTargetChange_Inl intro: same)
  next
    case (Inr u)
    with Pair have "adminTargetChange e d cr t ro fn = (Inr u, d')" by simp
    then show ?thesis by (rule adminTargetChange_Inr) (auto simp: Pair intro: assms)
  qed
qed

lemma UpdateUserRole_rel:
  "cr = RoleOwner \<longrightarrow> own \<Longrightarrow> user_change_rel own d (snd (UpdateUserRole e d cr t role))"
proof (cases "role = RoleOwner \<and> cr \<noteq> RoleOwner")
  case True
  then show ?thesis by (simp add: UpdateUserRole_def same)
next
  case False
  assume own: "cr = RoleOwner \<longrightarrow> own"
  have "user_change_rel own d (snd (adminTargetChange e d cr t
      (\<lambda>targetRole active. targetRole = RoleOwner \<and> active \<and> role \<noteq> RoleOwner) (set_role e t role)))"
  proof (rule adminTargetChange_rel)
    fix x d' assume "find_user d t = Some x" "u_Role x = RoleOwner \<longrightarrow> cr = RoleOwner"
      "u_Role x = RoleOwner \<and> u_IsActive x \<and> role \<noteq> RoleOwner
         \<longrightarrow> (\<exists>v \<in> set (users d). active_owner v \<and> u_ID v \<noteq> t)"
      and fn: "set_role e t role d = Inr d'"
    moreover from fn have "d' = d\<lparr>users := update_where (\<lambda>u. u_ID u = t) (\<lambda>u. u\<lparr>u_Role := role\<rparr>) (users d)\<rparr>"
        "RoleWeight role \<noteq> 0"
      by (auto simp: set_role_def split: if_splits)
    ultimately show "user_change_rel own d d'"
      using own False
      by (simp only:, intro user_change_rel.role [of d t x]) (auto simp: active_owner_def)
  qed
  with False show ?thesis by (auto simp: UpdateUserRole_def)
qed

lemma SetUserActive_rel:
  "cr = RoleOwner \<longrightarrow> own \<Longrightarrow> user_change_rel own d (snd (SetUserActive e d cr t b))"
  unfolding SetUserActive_def
proof (rule adminTargetChange_rel)
  fix x d' assume "cr = RoleOwner \<longrightarrow> own" "find_user d t = Some x" "u_Role x = RoleOwner \<longrightarrow> cr = RoleOwner"
    "u_Role x = RoleOwner \<and> u_IsActive x \<and> \<not> b \<longrightarrow> (\<exists>v \<in> set (users d). active_owner v \<and> u_ID v \<noteq> t)"
    and fn: "set_active e t b d = Inr d'"
  moreover from fn have "d' = d\<lparr>users := update_where (\<lambda>u. u_ID u = t) (\<lambda>u. u\<lparr>u_IsActive := b\<rparr>) (users d)\<rparr>"
    by (auto simp: set_active_def split: if_splits)
  ultimately show "user_change_rel own d d'"
    by (simp only:, intro user_change_rel.active [of d t x]) (auto simp: active_owner_def)
qed

lemma DeleteUser_rel:
  "cr = RoleOwner \<longrightarrow> own \<Longrightarrow> user_change_rel own d (snd (DeleteUser e d cr t))"
  unfolding DeleteUser_def
proof (rule adminTargetChange_rel)
  fix x d' assume "cr = RoleOwner \<longrightarrow> own" "find_user d t = Some x" "u_Role x = RoleOwner \<longrightarrow> cr = RoleOwner"
    "u_Role x = RoleOwner \<and> u_IsActive x \<longrightarrow> (\<exists>v \<in> set (users d). active_owner v \<and> u_ID v \<noteq> t)"
    "delete_user_rows e t d = Inr d'"
  then show "user_change_rel own d d'"
    by (intro user_change_rel.delete [of d t x])
      (auto simp: delete_user_rows_def active_owner_def split: if_splits)
qed

lemma snd_user_change [simp]: "snd (user_change m r) = snd r"
  by (auto simp: user_change_def split: prod.splits sum.splits)

lemma acc_step_rel: "user_change_rel (by_owner a) d (snd (acc_step a d))"
proof (cases a)
  case (ActRegister pr e i req)
  have "snd (h_Register pr e i d req) = (case req of Inl _ \<Rightarrow> d
      | Inr (em, un, pw) \<Rightarrow> snd (Register pr e i d em un pw))"
    by (auto simp: h_Register_def split: sum.splits prod.splits)
  with ActRegister show ?thesis by (auto simp: Register_rel same split: sum.split)
next
  case (ActCreateUser pr e i c req)
  then show ?thesis
    by (auto simp: h_CreateUser_def by_owner_def same split: sum.split prod.split option.split)
      (metis CreateUserByAdmin_rel snd_conv)+
next
  case (ActUpdateUserRole e c t req)
  then show ?thesis
    by (auto simp: h_UpdateUserRole_def by_owner_def same UpdateUserRole_rel split: sum.split option.split)
next
  case (ActToggleUserActive e c t req)
  then show ?thesis
    by (auto simp: h_ToggleUserActive_def by_owner_def same SetUserActive_rel split: sum.split option.split)
next
  case (ActDeleteUser e c t)
  then show ?thesis
    by (auto simp: h_DeleteUser_def by_owner_def same DeleteUser_rel split: option.split)
qed

section \<open>Invariants of the users table\<close>

definition users_wf :: "db \<Rightarrow> bool" where
  "users_wf d = (unique_on u_ID (users d) \<and> unique_on (\<lambda>u. to_lower (u_Email u)) (users d)
     \<and> unique_on u_Username (users d) \<and> (\<forall>u \<in> set (users d). RoleWeight (u_Role u) \<noteq> 0))"

definition owned :: "db \<Rightarrow> bool" where
  "owned d = (\<exists>u \<in> set (users d). active_owner u)"

definition accounts_inv :: "db \<Rightarrow> bool" where
  "accounts_inv d = (users_wf d \<and> owned d)"

lemma unique_update_fun:
  "(\<And>r. k (f r) = k r) \<Longrightarrow> unique_on k t \<Longrightarrow> unique_on k (update_where p f t)"
  by (simp add: unique_on_update_where)

lemma user_change_rel_wf: "user_change_rel own d d' \<Longrightarrow> users_wf d \<Longrightarrow> users_wf d'"
proof (induction rule: user_change_rel.induct)
  case (delete d t x d')
  then show ?case by (auto simp: users_wf_def unique_on_delete_where set_delete_where)
qed (auto simp: users_wf_def unique_on_append_row equal_fold_def set_update_where intro!: unique_update_fun)

lemma find_user_row:
  "unique_on u_ID (users d) \<Longrightarrow> find_user d t = Some x \<Longrightarrow> u \<in> set (users d) \<Longrightarrow> u_ID u = t \<Longrightarrow> u = x"
  by (auto simp: find_user_def dest!: find_SomeD dest: unique_on_eq)

lemma owned_update:
  assumes "unique_on u_ID (users d)" and "owned d" and "find_user d t = Some x"
    and "active_owner x \<and> \<not> active_owner (f x) \<longrightarrow> (\<exists>v \<in> set (users d). active_owner v \<and> u_ID v \<noteq> t)"
  shows "owned (d\<lparr>users := update_where (\<lambda>u. u_ID u = t) f (users d)\<rparr>)"
proof -
  from assms(2) obtain o' where o': "o' \<in> set (users d)" "active_owner o'" by (auto simp: owned_def)
  show ?thesis
  proof (cases "\<exists>v \<in> set (users d). active_owner v \<and> u_ID v \<noteq> t")
    case True
    then obtain v where "v \<in> set (users d)" "active_owner v" "u_ID v \<noteq> t" by blast
    then show ?thesis
      by (auto simp: owned_def intro!: bexI [of _ v] update_where_out)
  next
    case False
    with o' have "u_ID o' = t" by blast
    with o' assms(1,3) have "o' = x" by (auto dest: find_user_row)
    with False assms(4) o' have "active_owner (f x)" by blast
    moreover have "f x \<in> set (update_where (\<lambda>u. u_ID u = t) f (users d))"
      using o' \<open>o' = x\<close> \<open>u_ID o' = t\<close> by (intro update_where_in) auto
    ultimately show ?thesis by (auto simp: owned_def)
  qed
qed

lemma user_change_rel_owned: "user_change_rel own d d' \<Longrightarrow> users_wf d \<Longrightarrow> owned d \<Longrightarrow> owned d'"
proof (induction rule: user_change_rel.induct)
  case (role d t x r)
  then show ?case by (intro owned_update [of d t x]) (auto simp: users_wf_def active_owner_def)
next
  case (active d t x b)
  then show ?case by (intro owned_update [of d t x]) (auto simp: users_wf_def active_owner_def)
next
  case (delete d t x d')
  then obtain o' where o': "o' \<in> set (users d)" "active_owner o'" by (auto simp: owned_def)
  show ?case
  proof (cases "u_ID o' = t")
    case True
    with o' delete have "o' = x" by (auto simp: users_wf_def dest: find_user_row)
    with delete o' show ?thesis by (auto simp: owned_def delete_where_def)
  next
    case False
    with o' delete show ?thesis by (auto simp: owned_def delete_where_def)
  qed
qed (auto simp: owned_def)

interpretation accounts: kept_invariant acc_step accounts_inv
  by unfold_locales
    (auto simp: accounts_inv_def dest: user_change_rel_wf [OF acc_step_rel] user_change_rel_owned [OF acc_step_rel])

definition owners :: "db \<Rightarrow> User list" where
  "owners d = filter (\<lambda>u. u_Role u = RoleOwner) (users d)"

lemma filter_update_where:
  "(\<And>r. r \<in> set t \<Longrightarrow> p r \<Longrightarrow> \<not> q r \<and> \<not> q (f r)) \<Longrightarrow> filter q (update_where p f t) = filter q t"
  by (induction t) (auto simp: update_where_def)

lemma user_change_rel_owners:
  "user_change_rel own d d' \<Longrightarrow> \<not> own \<Longrightarrow> users_wf d \<Longrightarrow> owners d' = owners d"
proof (induction rule: user_change_rel.induct)
  case (role d t x r)
  then show ?case
    by (auto simp: owners_def users_wf_def dest: find_user_row intro!: filter_update_where)
next
  case (active d t x b)
  then show ?case
    by (auto simp: owners_def users_wf_def dest: find_user_row intro!: filter_update_where)
next
  case (delete d t x d')
  then have "filter (\<lambda>u. u_Role u = RoleOwner) (filter (\<lambda>u. u_ID u \<noteq> t) (users d))
      = filter (\<lambda>u. u_Role u = RoleOwner) (users d)"
    by (auto simp: users_wf_def dest: find_user_row intro!: filter_cong)
  with delete show ?case by (simp add: owners_def delete_where_def)
qed (auto simp: owners_def)

lemma owners_run:
  "users_wf d \<Longrightarrow> list_all (\<lambda>a. \<not> by_owner a) acts \<Longrightarrow> owners (run_of acc_step acts d) = owners d"
proof (induction acts arbitrary: d)
  case (Cons a acts)
  then have "users_wf (snd (acc_step a d))" "owners (snd (acc_step a d)) = owners d"
    using user_change_rel_wf [OF acc_step_rel] user_change_rel_owners [OF acc_step_rel] by auto
  with Cons show ?case by simp
qed simp

section \<open>Properties\<close>

text \<open>[C4] Once the installation has an active owner, it has one after every sequence of
  account operations, whoever the callers claim to be (a stale role included) and whichever
  statements fail; identifiers, e-mail addresses up to case and usernames stay unique and
  roles stay valid.\<close>

theorem active_owner_kept:
  assumes "users_wf d" and "owned d"
  shows "owned (run_of acc_step acts d) \<and> users_wf (run_of acc_step acts d)"
  using accounts.inv_run [of d acts] assms by (simp add: accounts_inv_def)

definition ex_account :: "uuid \<Rightarrow> string \<Rightarrow> string \<Rightarrow> User" where
  "ex_account i name role =
     \<lparr>u_ID = i, u_Email = name @ ''@example.org'', u_Username = name, u_PasswordHash = ''$secret'',
      u_Role = role, u_TOTPSecret = [], u_TOTPEnabled = False, u_CreatedAt = 0,
      u_LastLoginAt = None, u_IsActive = True\<rparr>"

definition ex_accounts_db :: db where
  "ex_accounts_db = empty_db\<lparr>users := [ex_account 1 ''alice'' RoleOwner, ex_account 2 ''bob'' RoleAdmin,
     ex_account 3 ''carol'' RoleOwner]\<rparr>"

lemma ex_accounts_wf: "users_wf ex_accounts_db" and ex_accounts_owned: "owned ex_accounts_db"
  by code_simp+

text \<open>Two owners demote each other, the second with the role it had when it was
  authenticated: the second demotion answers 409.\<close>

theorem active_owner_kept_witness:
  "map snd (trace_of acc_step
      [ActUpdateUserRole (quiet 0) (Some (ex_account 1 ''alice'' RoleOwner)) (Some 3) (Inr RoleUser),
       ActUpdateUserRole (quiet 0) (Some (ex_account 3 ''carol'' RoleOwner)) (Some 1) (Inr RoleUser)] ex_accounts_db)
     = [200, 409]
   \<and> owned (run_of acc_step
      [ActUpdateUserRole (quiet 0) (Some (ex_account 1 ''alice'' RoleOwner)) (Some 3) (Inr RoleUser),
       ActUpdateUserRole (quiet 0) (Some (ex_account 3 ''carol'' RoleOwner)) (Some 1) (Inr RoleUser)] ex_accounts_db)"
proof
  show "map snd (trace_of acc_step
      [ActUpdateUserRole (quiet 0) (Some (ex_account 1 ''alice'' RoleOwner)) (Some 3) (Inr RoleUser),
       ActUpdateUserRole (quiet 0) (Some (ex_account 3 ''carol'' RoleOwner)) (Some 1) (Inr RoleUser)] ex_accounts_db)
     = [200, 409]"
    by code_simp
qed (rule conjunct1 [OF active_owner_kept [OF ex_accounts_wf ex_accounts_owned]])

text \<open>[C5] Operations none of which was authenticated as an owner neither create an owner
  nor change, disable or delete one: the owner rows stay exactly as they were.\<close>

theorem owners_change_only_by_owners:
  assumes "users_wf d" and "list_all (\<lambda>a. \<not> by_owner a) acts"
  shows "owners (run_of acc_step acts d) = owners d"
  using assms by (rule owners_run)

theorem owners_change_only_by_owners_witness:
  "owners (run_of acc_step
      [ActDeleteUser (quiet 0) (Some (ex_account 2 ''bob'' RoleAdmin)) (Some 1),
       ActCreateUser plain_prims (quiet 0) 9 (Some (ex_account 2 ''bob'' RoleAdmin))
         (Inr \<lparr>cu_Email = ''m@example.org'', cu_Username = ''mallory'', cu_Password = ''abcdefgh-12345'',
               cu_Role = RoleOwner\<rparr>)] ex_accounts_db)
   = [ex_account 1 ''alice'' RoleOwner, ex_account 3 ''carol'' RoleOwner]"
proof -
  have "owners ex_accounts_db = [ex_account 1 ''alice'' RoleOwner, ex_account 3 ''carol'' RoleOwner]"
    by code_simp
  moreover have non: "list_all (\<lambda>a. \<not> by_owner a)
      [ActDeleteUser (quiet 0) (Some (ex_account 2 ''bob'' RoleAdmin)) (Some 1),
       ActCreateUser plain_prims (quiet 0) 9 (Some (ex_account 2 ''bob'' RoleAdmin))
         (Inr \<lparr>cu_Email = ''m@example.org'', cu_Username = ''mallory'', cu_Password = ''abcdefgh-12345'',
               cu_Role = RoleOwner\<rparr>)]"
    by (simp add: by_owner_def ex_account_def)
  ultimately show ?thesis
    using owners_change_only_by_owners [OF ex_accounts_wf non] by (simp only:)
qed

text \<open>\<^verbatim>\<open>emailRegex\<close> accepts exactly the strings of the form
  local-part, \<^verbatim>\<open>@\<close>, host, dot, top-level domain, with the character classes of the
  expression, a non-empty local part and host and at least two letters at the end.\<close>

theorem email_regex_language:
  "emailRegex s \<longleftrightarrow> (\<exists>l h t. s = l @ CHR ''@'' # h @ CHR ''.'' # t \<and> email_shape l h t)"
proof
  assume "emailRegex s"
  then obtain l d where "cut_at (CHR ''@'') s = Some (l, d)" and "l \<noteq> []" "list_all local_char l" "domain_ok d"
    by (auto simp: emailRegex_def split: option.splits)
  then show "\<exists>l h t. s = l @ CHR ''@'' # h @ CHR ''.'' # t \<and> email_shape l h t"
    by (auto simp: cut_at_Some domain_ok_iff email_shape_def)
next
  assume "\<exists>l h t. s = l @ CHR ''@'' # h @ CHR ''.'' # t \<and> email_shape l h t"
  then obtain l h t where s: "s = l @ CHR ''@'' # h @ CHR ''.'' # t" and sh: "email_shape l h t" by blast
  then have "cut_at (CHR ''@'') s = Some (l, h @ CHR ''.'' # t)"
    using char_classes(1) by (auto simp: cut_at_Some email_shape_def list_all_iff)
  moreover have "domain_ok (h @ CHR ''.'' # t)"
    using sh unfolding domain_ok_iff email_shape_def by blast
  ultimately show "emailRegex s" using sh by (simp add: emailRegex_def email_shape_def)
qed

text \<open>An account an administrator creates has the requested role, a normalised
  address that matches the expression, a username no other account has, and, when the role
  is owner or admin, a password of at least 12 characters with a digit and a symbol; its
  hash is the one of that password.  A refused creation changes nothing.\<close>

theorem admin_created_account:
  assumes "CreateUserByAdmin pr e i d email username password role = (r, d')"
  shows "case r of
      Inl _ \<Rightarrow> d' = d
    | Inr u \<Rightarrow> users d' = users d @ [u] \<and> u_Role u = role \<and> emailRegex (u_Email u)
        \<and> u_Email u = to_lower (trim_space email) \<and> u_Username u \<notin> u_Username ` set (users d)
        \<and> bcrypt_generate pr password = Some (u_PasswordHash u)
        \<and> (role \<in> {RoleOwner, RoleAdmin} \<longrightarrow> 12 \<le> rune_count password
            \<and> (\<exists>c \<in> set password. is_digit c) \<and> (\<exists>c \<in> set password. \<not> is_alnum c))
        \<and> 8 \<le> rune_count password"
proof (cases r)
  case (Inl err)
  with assms show ?thesis by (auto dest: CreateUserByAdmin_Inl)
next
  case (Inr u)
  with assms have "CreateUserByAdmin pr e i d email username password role = (Inr u, d')" by simp
  then show ?thesis unfolding Inr
    by (rule CreateUserByAdmin_Inr)
      (auto simp: insert_user_Inr new_user_def validatePasswordForRole_ok split: if_splits)
qed

theorem admin_created_account_witness:
  "case CreateUserByAdmin plain_prims (quiet 7) 9 ex_accounts_db '' Dan@Example.org '' ''dan_1'' ''correct-horse-4'' RoleAdmin of
     (Inl _, _) \<Rightarrow> False
   | (Inr u, d') \<Rightarrow> u_Email u = ''dan@example.org'' \<and> users d' = users ex_accounts_db @ [u] \<and> u_Role u = RoleAdmin"
proof -
  obtain r d' where c: "CreateUserByAdmin plain_prims (quiet 7) 9 ex_accounts_db '' Dan@Example.org '' ''dan_1''
      ''correct-horse-4'' RoleAdmin = (r, d')"
    by fastforce
  moreover have "is_ok (fst (CreateUserByAdmin plain_prims (quiet 7) 9 ex_accounts_db '' Dan@Example.org '' ''dan_1''
      ''correct-horse-4'' RoleAdmin))"
    by code_simp
  moreover have "to_lower (trim_space '' Dan@Example.org '') = ''dan@example.org''" by code_simp
  ultimately show ?thesis
    using admin_created_account [OF c] by (cases r) auto
qed

end
