(* ===== verification/Config.thy ===== *)
theory Config
  imports Crypto
begin

text \<open>
  \<^verbatim>\<open>internal/config/config.go\<close>: the configuration record and \<^verbatim>\<open>Load\<close>, as a
  function of the environment (\<^verbatim>\<open>os.Getenv\<close> answers the empty string for an unset
  variable).  Error texts end before the value a \<^verbatim>\<open>%d\<close> or \<^verbatim>\<open>%q\<close> would print.
\<close>

record Config =
  ServerPort :: int
  Env :: string
  LogLevel :: string
  AppVersion :: string
  DeploymentProfile :: string
  SetupCodeHash :: string
  DatabaseURL :: string
  RedisURL :: string
  JWTSecret :: string
  JWTRefreshSecret :: string
  TOTPEncKey :: string
  CORSOrigins :: "string list"
  TrustedProxies :: "string list"
  DaemonServersDir :: string
  CurseForgeAPIKey :: string
  CurseForgeGameID :: int
  MariaDBDSN :: string
  MariaDBHost :: string
  MariaDBPort :: int
  SMTPHost :: string
  SMTPPort :: int
  SMTPUser :: string
  SMTPPassword :: string
  SMTPFrom :: string
  SMTPTLSMode :: string

definition IsDevelopment :: "Config \<Rightarrow> bool" where
  "IsDevelopment c = (Env c = ''development'')"

definition isPlaceholderSecret :: "string \<Rightarrow> bool" where
  "isPlaceholderSecret v = (v = ''CHANGEME_GENERATED_BY_INSTALLER'' \<or> has_prefix v ''replace-with-'')"

definition or_default :: "string \<Rightarrow> string \<Rightarrow> string" where
  "or_default v dflt = (if v = '''' then dflt else v)"

text \<open>An optional integer variable: the default when unset, an error when it is not an
  integer.\<close>

definition load_int :: "string \<Rightarrow> int \<Rightarrow> string \<Rightarrow> int result" where
  "load_int v dflt msg =
     (if v = '''' then Inr dflt
      else (case atoi v of None \<Rightarrow> Inl (Wrap msg (Driver ''strconv.Atoi'')) | Some n \<Rightarrow> Inr n))"

definition load_secret :: "string \<Rightarrow> string \<Rightarrow> string result" where
  "load_secret name v =
     (if v = '''' then Inl (New (name @ '' is required''))
      else if isPlaceholderSecret v
      then Inl (New (name @ '' is still set to a placeholder value; run the installer or regenerate with `openssl rand -hex 32`''))
      else if length v < 32 then Inl (New (name @ '' must be at least 32 characters long''))
      else Inr v)"

definition load_totp_key :: "string \<Rightarrow> string result" where
  "load_totp_key v =
     (if v = '''' then Inl (New ''TOTP_ENC_KEY is required (generate with `openssl rand -hex 32`)'')
      else if isPlaceholderSecret v
      then Inl (New ''TOTP_ENC_KEY is still set to a placeholder value; run the installer or regenerate with `openssl rand -hex 32`'')
      else (case hex_decode v of
              None \<Rightarrow> Inl (Wrap ''TOTP_ENC_KEY must be hex-encoded'' (Driver ''hex.DecodeString''))
            | Some key \<Rightarrow> if length key \<noteq> 32 then Inl (New ''TOTP_ENC_KEY must decode to exactly 32 bytes'')
                else Inr key))"

definition load_list :: "string \<Rightarrow> string list" where
  "load_list raw =
     (if raw = '''' then [] else filter (\<lambda>p. p \<noteq> '''') (map trim_space (split_on (CHR '','') raw)))"

definition setup_hash_ok :: "string \<Rightarrow> bool" where
  "setup_hash_ok h = (h = '''' \<or> (case hex_decode h of None \<Rightarrow> False | Some b \<Rightarrow> length b = 32))"

definition load_profile :: "string \<Rightarrow> string" where
  "load_profile raw =
     (let p = to_lower (trim_space raw) in if p \<noteq> ''solo'' \<and> p \<noteq> ''hoster'' then ''solo'' else p)"

definition Load :: "(string \<Rightarrow> string) \<Rightarrow> Config result" where
  "Load getenv =
     and_then (load_int (getenv ''SERVER_PORT'') 8080 ''SERVER_PORT must be a valid integer'') (\<lambda>port.
     and_then (refuse_if (getenv ''SERVER_PORT'' \<noteq> '''' \<and> (port < 1 \<or> port > 65535))
       (New ''SERVER_PORT must be between 1 and 65535'')) (\<lambda>_.
     let envv = or_default (getenv ''ENV'') ''production'';
         logLevel = or_default (getenv ''LOG_LEVEL'') ''info'';
         appVersion = or_default (getenv ''APP_VERSION'') ''dev'';
         profile = load_profile (getenv ''DEPLOYMENT_PROFILE'');
         setupHash = to_lower (trim_space (getenv ''SETUP_CODE_HASH''))
     in
     and_then (refuse_if (envv \<noteq> ''development'' \<and> envv \<noteq> ''production'')
       (New (''ENV must be '' @ [CHR 0x27] @ ''development'' @ [CHR 0x27] @ '' or '' @ [CHR 0x27] @ ''production'' @ [CHR 0x27]))) (\<lambda>_.
     and_then (refuse_if (\<not> setup_hash_ok setupHash)
       (New ''SETUP_CODE_HASH must be a hex-encoded SHA-256 (64 hex chars)'')) (\<lambda>_.
     and_then (refuse_if (getenv ''DATABASE_URL'' = '''') (New ''DATABASE_URL is required'')) (\<lambda>_.
     and_then (refuse_if (getenv ''REDIS_URL'' = '''') (New ''REDIS_URL is required'')) (\<lambda>_.
     and_then (load_secret ''JWT_SECRET'' (getenv ''JWT_SECRET'')) (\<lambda>jwt.
     and_then (load_secret ''JWT_REFRESH_SECRET'' (getenv ''JWT_REFRESH_SECRET'')) (\<lambda>refresh.
     and_then (load_totp_key (getenv ''TOTP_ENC_KEY'')) (\<lambda>totpKey.
     and_then (load_int (getenv ''CURSEFORGE_GAME_ID'') 0 ''CURSEFORGE_GAME_ID must be an integer'') (\<lambda>gameID.
     and_then (load_int (getenv ''MARIADB_PORT'') 3306 ''MARIADB_PORT must be an integer'') (\<lambda>mariaPort.
     and_then (load_int (getenv ''SMTP_PORT'') 587 ''SMTP_PORT must be an integer'') (\<lambda>smtpPort.
     Inr \<lparr>ServerPort = port, Env = envv, LogLevel = logLevel, AppVersion = appVersion,
          DeploymentProfile = profile, SetupCodeHash = setupHash,
          DatabaseURL = getenv ''DATABASE_URL'', RedisURL = getenv ''REDIS_URL'',
          JWTSecret = jwt, JWTRefreshSecret = refresh, TOTPEncKey = totpKey,
          CORSOrigins = load_list (getenv ''CORS_ORIGINS''),
          TrustedProxies = load_list (getenv ''TRUSTED_PROXIES''),
          DaemonServersDir = or_default (getenv ''DAEMON_SERVERS_DIR'') ''/srv/taledaemon/servers'',
          CurseForgeAPIKey = getenv ''CURSEFORGE_API_KEY'', CurseForgeGameID = gameID,
          MariaDBDSN = getenv ''MARIADB_DSN'',
          MariaDBHost = or_default (getenv ''MARIADB_HOST'') ''mariadb'', MariaDBPort = mariaPort,
          SMTPHost = getenv ''SMTP_HOST'', SMTPPort = smtpPort, SMTPUser = getenv ''SMTP_USER'',
          SMTPPassword = getenv ''SMTP_PASSWORD'', SMTPFrom = getenv ''SMTP_FROM'',
          SMTPTLSMode = getenv ''SMTP_TLS_MODE''\<rparr>))))))))))))"

section \<open>Properties\<close>

lemma load_secret_Inr: "load_secret n v = Inr x \<longleftrightarrow> x = v \<and> v \<noteq> '''' \<and> \<not> isPlaceholderSecret v \<and> 32 \<le> length v"
  by (auto simp: load_secret_def)

lemma load_totp_key_Inr:
  "load_totp_key v = Inr k \<Longrightarrow> length k = 32 \<and> hex_decode v = Some k \<and> \<not> isPlaceholderSecret v"
  by (auto simp: load_totp_key_def split: if_splits option.splits)

lemma load_list_nonempty: "'''' \<notin> set (load_list raw)"
  by (simp add: load_list_def)

lemma load_int_Inr: "load_int v n m = Inr x \<Longrightarrow> v = '''' \<and> x = n \<or> v \<noteq> ''''"
  by (auto simp: load_int_def)

lemma Load_Inr:
  assumes "Load getenv = Inr cfg"
  shows "(getenv ''SERVER_PORT'' = '''' \<and> ServerPort cfg = 8080 \<or> 1 \<le> ServerPort cfg \<and> ServerPort cfg \<le> 65535)
    \<and> (Env cfg = ''development'' \<or> Env cfg = ''production'') \<and> setup_hash_ok (SetupCodeHash cfg)
    \<and> load_secret ''JWT_SECRET'' (getenv ''JWT_SECRET'') = Inr (JWTSecret cfg)
    \<and> load_secret ''JWT_REFRESH_SECRET'' (getenv ''JWT_REFRESH_SECRET'') = Inr (JWTRefreshSecret cfg)
    \<and> load_totp_key (getenv ''TOTP_ENC_KEY'') = Inr (TOTPEncKey cfg)
    \<and> CORSOrigins cfg = load_list (getenv ''CORS_ORIGINS'')
    \<and> TrustedProxies cfg = load_list (getenv ''TRUSTED_PROXIES'')"
  using assms unfolding Load_def and_then_Inr Let_def refuse_if_Inr sum.inject
  by - (elim exE conjE, hypsubst, simp only: Config.simps, drule load_int_Inr, auto)

text \<open>[C10] A configuration that loads has a port in range, one of the two environments,
  both JWT secrets at least 32 characters long and none of the shipped placeholders, a
  32-byte encryption key, and a setup-code hash that is empty or the hex form of 32 bytes.\<close>

theorem loaded_config_safe:
  assumes "Load getenv = Inr cfg"
  shows "1 \<le> ServerPort cfg \<and> ServerPort cfg \<le> 65535
    \<and> (Env cfg = ''development'' \<or> Env cfg = ''production'')
    \<and> 32 \<le> length (JWTSecret cfg) \<and> \<not> isPlaceholderSecret (JWTSecret cfg)
    \<and> 32 \<le> length (JWTRefreshSecret cfg) \<and> \<not> isPlaceholderSecret (JWTRefreshSecret cfg)
    \<and> length (TOTPEncKey cfg) = 32
    \<and> (SetupCodeHash cfg = '''' \<or> (\<exists>b. hex_decode (SetupCodeHash cfg) = Some b \<and> length b = 32))
    \<and> '''' \<notin> set (CORSOrigins cfg) \<and> '''' \<notin> set (TrustedProxies cfg)"
  using Load_Inr [OF assms] load_totp_key_Inr [of "getenv ''TOTP_ENC_KEY''" "TOTPEncKey cfg"]
  by (auto simp: load_secret_Inr setup_hash_ok_def load_list_nonempty split: option.splits)

definition ex_env :: "string \<Rightarrow> string" where
  "ex_env name =
     (if name = ''DATABASE_URL'' \<or> name = ''REDIS_URL'' then ''url''
      else if name = ''JWT_SECRET'' \<or> name = ''JWT_REFRESH_SECRET'' then replicate 32 (CHR ''s'')
      else if name = ''TOTP_ENC_KEY'' then replicate 64 (CHR ''a'')
      else if name = ''SERVER_PORT'' then ''8443''
      else '''')"

theorem loaded_config_safe_witness:
  "\<exists>cfg. Load ex_env = Inr cfg \<and> 1 \<le> ServerPort cfg \<and> length (TOTPEncKey cfg) = 32"
proof -
  have "is_ok (Load ex_env)" by code_simp
  then obtain cfg where "Load ex_env = Inr cfg" by (auto simp: is_ok_conv)
  with loaded_config_safe [OF this] show ?thesis by blast
qed

text \<open>The installer's sentinel is one character short of the minimum length: the length check
  alone would reject it too.\<close>

lemma sentinel_is_short:
  "isPlaceholderSecret ''CHANGEME_GENERATED_BY_INSTALLER'' \<and> length ''CHANGEME_GENERATED_BY_INSTALLER'' = 31"
  by (simp add: isPlaceholderSecret_def)

end
