(* ===== verification/Sessions.thy ===== *)
theory Sessions
  imports Accounts Config
begin

text \<open>
  Sign-in and sessions: the rest of \<^verbatim>\<open>auth_service.go\<close>, the middleware that admits
  requests (\<^verbatim>\<open>middleware/auth.go\<close>, \<^verbatim>\<open>daemon_auth.go\<close>) and the handlers of
  \<^verbatim>\<open>handlers/auth.go\<close>.  The state is the database and the Redis key-value store;
  fresh random values (session id, token identifier, random bytes) are arguments.
  A refresh is written as the statements the code runs, so that two refreshes can be
  interleaved: the lookup, the conditional \<^verbatim>\<open>UPDATE\<close> that claims the rotation, and
  the issue of new tokens.
\<close>

section \<open>State\<close>

record LoginResult =
  lr_AccessToken :: string
  lr_RefreshToken :: string
  lr_User :: "User option"
  lr_RequiresTOTP :: bool
  lr_PartialToken :: string

datatype kval = KText string | KResult LoginResult

type_synonym kv = "(string \<times> kval \<times> int option) list"

definition kv_get :: "int \<Rightarrow> kv \<Rightarrow> string \<Rightarrow> kval option" where
  "kv_get t m k =
     (case map_of m k of
        None \<Rightarrow> None
      | Some (v, None) \<Rightarrow> Some v
      | Some (v, Some x) \<Rightarrow> if t < x then Some v else None)"

text \<open>\<^verbatim>\<open>SET key value\<close>; a duration of 0 means no expiry.\<close>

definition kv_set :: "int \<Rightarrow> kv \<Rightarrow> string \<Rightarrow> kval \<Rightarrow> int \<Rightarrow> kv" where
  "kv_set t m k v ttl =
     (k, v, if ttl = 0 then None else Some (t + ttl)) # filter (\<lambda>(k', _). k' \<noteq> k) m"

record authst =
  adb :: db
  rdb :: kv

record fresh =
  f_sid :: uuid
  f_jti :: string
  f_rand :: string

abbreviation ErrInvalidCreds :: go_error where
  "ErrInvalidCreds \<equiv> New ''invalid email or password''"
abbreviation ErrUserInactive :: go_error where
  "ErrUserInactive \<equiv> New ''account is disabled''"
abbreviation ErrTOTPInvalid :: go_error where
  "ErrTOTPInvalid \<equiv> New ''invalid TOTP code''"
abbreviation ErrSessionExpired :: go_error where
  "ErrSessionExpired \<equiv> New ''session expired or revoked''"

definition accessTokenDuration :: int where "accessTokenDuration = 15 * minute"
definition refreshTokenDuration :: int where "refreshTokenDuration = 7 * 24 * hour"
definition refreshGracePeriod :: int where "refreshGracePeriod = 30 * second"

section \<open>Tokens\<close>

definition unix :: "int \<Rightarrow> int" where
  "unix t = t div second"

definition access_claims :: "prims \<Rightarrow> env \<Rightarrow> User \<Rightarrow> string \<Rightarrow> (string \<times> json) list" where
  "access_claims pr e user jti =
     [(''sub'', JStr (uuid_string pr (u_ID user))), (''role'', JStr (u_Role user)), (''jti'', JStr jti),
      (''iat'', JNum (dec (unix (now e)))), (''exp'', JNum (dec (unix (now e + accessTokenDuration))))]"

definition signAccessToken :: "prims \<Rightarrow> Config \<Rightarrow> env \<Rightarrow> User \<Rightarrow> string \<Rightarrow> string result" where
  "signAccessToken pr cfg e user jti =
     (case jwt_sign pr (JWTSecret cfg) (access_claims pr e user jti) of
        None \<Rightarrow> Inl (Driver ''jwt.SignedString'') | Some t \<Rightarrow> Inr t)"

definition partial_claims :: "prims \<Rightarrow> env \<Rightarrow> uuid \<Rightarrow> (string \<times> json) list" where
  "partial_claims pr e userID =
     [(''sub'', JStr (uuid_string pr userID)), (''type'', JStr ''totp_partial''),
      (''exp'', JNum (dec (unix (now e + 5 * minute))))]"

definition issuePartialToken :: "prims \<Rightarrow> Config \<Rightarrow> env \<Rightarrow> uuid \<Rightarrow> string result" where
  "issuePartialToken pr cfg e userID =
     (case jwt_sign pr (JWTRefreshSecret cfg) (partial_claims pr e userID) of
        None \<Rightarrow> Inl (Driver ''jwt.SignedString'') | Some t \<Rightarrow> Inr t)"

definition generateSecureToken :: "env \<Rightarrow> string \<Rightarrow> string result" where
  "generateSecureToken e rnd = and_then (call e ''rand.Read'' rnd) (\<lambda>b. Inr (hex_encode b))"

text \<open>\<^verbatim>\<open>INSERT INTO sessions\<close>: primary key, unique token hash, existing user.\<close>

definition insert_session :: "env \<Rightarrow> Session \<Rightarrow> db \<Rightarrow> db result" where
  "insert_session e s d =
     (if fault e ''issueFullTokens.insert'' \<or> find_user d (s_UserID s) = None
         \<or> (\<exists>r \<in> set (sessions d). s_ID r = s_ID s \<or> s_TokenHash r = s_TokenHash s)
      then Inl (Driver ''issueFullTokens.insert'')
      else Inr (d\<lparr>sessions := sessions d @ [s]\<rparr>))"

definition touch_login :: "env \<Rightarrow> uuid \<Rightarrow> db \<Rightarrow> db" where
  "touch_login e userID d =
     (if fault e ''issueFullTokens.last_login'' then d
      else d\<lparr>users := update_where (\<lambda>u. u_ID u = userID) (\<lambda>u. u\<lparr>u_LastLoginAt := Some (now e)\<rparr>) (users d)\<rparr>)"

definition issueFullTokens ::
  "prims \<Rightarrow> Config \<Rightarrow> env \<Rightarrow> fresh \<Rightarrow> db \<Rightarrow> User \<Rightarrow> string \<Rightarrow> string \<Rightarrow> LoginResult result \<times> db" where
  "issueFullTokens pr cfg e fr d user ip userAgent =
     (case signAccessToken pr cfg e user (f_jti fr) of
        Inl err \<Rightarrow> (Inl (Wrap ''signing access token'' err), d)
      | Inr accessToken \<Rightarrow>
     (case generateSecureToken e (f_rand fr) of
        Inl err \<Rightarrow> (Inl (Wrap ''generating refresh token'' err), d)
      | Inr refreshToken \<Rightarrow>
     (case insert_session e
            \<lparr>s_ID = f_sid fr, s_UserID = u_ID user, s_TokenHash = hashToken pr refreshToken,
             s_IPAddress = ip, s_UserAgent = userAgent, s_CreatedAt = now e,
             s_ExpiresAt = now e + refreshTokenDuration, s_Revoked = False\<rparr> d of
        Inl err \<Rightarrow> (Inl (Wrap ''creating session'' err), d)
      | Inr d' \<Rightarrow>
          (Inr \<lparr>lr_AccessToken = accessToken, lr_RefreshToken = refreshToken, lr_User = Some user,
                lr_RequiresTOTP = False, lr_PartialToken = []\<rparr>,
           touch_login e (u_ID user) d'))))"

section \<open>Loading users\<close>

definition hide_secret :: "User \<Rightarrow> User" where
  "hide_secret u = u\<lparr>u_TOTPSecret := []\<rparr>"

definition findUserByEmail :: "env \<Rightarrow> db \<Rightarrow> string \<Rightarrow> User result" where
  "findUserByEmail e d email =
     and_then (call e ''findUserByEmail'' (List.find (\<lambda>u. equal_fold (u_Email u) email) (users d)))
       (\<lambda>r. case r of None \<Rightarrow> Inl ErrNoRows | Some u \<Rightarrow> Inr (hide_secret u))"

definition findUserByID :: "prims \<Rightarrow> Config \<Rightarrow> env \<Rightarrow> db \<Rightarrow> uuid \<Rightarrow> User result" where
  "findUserByID pr cfg e d i =
     and_then (call e ''findUserByID'' (find_user d i))
       (\<lambda>r. case r of None \<Rightarrow> Inl ErrNoRows
        | Some user \<Rightarrow>
            if u_TOTPSecret user \<noteq> ''''
            then and_then (wrapping ''decrypting TOTP secret'' (Decrypt pr (TOTPEncKey cfg) (u_TOTPSecret user)))
                   (\<lambda>plain. Inr (user\<lparr>u_TOTPSecret := plain\<rparr>))
            else Inr user)"

definition GetMe :: "prims \<Rightarrow> Config \<Rightarrow> env \<Rightarrow> db \<Rightarrow> uuid \<Rightarrow> User result" where
  "GetMe pr cfg e d userID = findUserByID pr cfg e d userID"

section \<open>Login\<close>

definition Login ::
  "prims \<Rightarrow> Config \<Rightarrow> env \<Rightarrow> fresh \<Rightarrow> db \<Rightarrow> string \<Rightarrow> string \<Rightarrow> string \<Rightarrow> string \<Rightarrow> LoginResult result \<times> db" where
  "Login pr cfg e fr d email password ip userAgent =
     (case findUserByEmail e d (to_lower (trim_space email)) of
        Inl err \<Rightarrow>
          (Inl (if errors_is err ErrNoRows then ErrInvalidCreds else Wrap ''finding user'' err), d)
      | Inr user \<Rightarrow>
          if \<not> bcrypt_compare pr (u_PasswordHash user) password then (Inl ErrInvalidCreds, d)
          else if \<not> u_IsActive user then (Inl ErrUserInactive, d)
          else if u_TOTPEnabled user
          then (case issuePartialToken pr cfg e (u_ID user) of
                  Inl err \<Rightarrow> (Inl (Wrap ''issuing partial token'' err), d)
                | Inr partialToken \<Rightarrow>
                    (Inr \<lparr>lr_AccessToken = [], lr_RefreshToken = [], lr_User = None,
                          lr_RequiresTOTP = True, lr_PartialToken = partialToken\<rparr>, d))
          else issueFullTokens pr cfg e fr d user ip userAgent)"

section \<open>Refresh\<close>

definition refreshGraceKey :: "string \<Rightarrow> string" where
  "refreshGraceKey tokenHash = ''refresh_grace:'' @ tokenHash"

definition refreshRotatingKey :: "string \<Rightarrow> string" where
  "refreshRotatingKey tokenHash = ''refresh_rotating:'' @ tokenHash"

text \<open>\<^verbatim>\<open>json.Marshal\<close> drops the fields tagged \<^verbatim>\<open>json:"-"\<close>.\<close>

definition marshal_result :: "LoginResult \<Rightarrow> LoginResult" where
  "marshal_result r =
     r\<lparr>lr_User := map_option (\<lambda>u. u\<lparr>u_PasswordHash := [], u_TOTPSecret := []\<rparr>) (lr_User r)\<rparr>"

text \<open>One attempt of \<^verbatim>\<open>rotatedResult\<close>: an answer, or another attempt.\<close>

definition rotated_attempt :: "env \<Rightarrow> kv \<Rightarrow> string \<Rightarrow> LoginResult result option" where
  "rotated_attempt e m tokenHash =
     (if fault e ''rotatedResult.get'' then Some (Inl ErrSessionExpired)
      else (case kv_get (now e) m (refreshGraceKey tokenHash) of
          Some (KResult result) \<Rightarrow> Some (Inr result)
        | Some (KText _) \<Rightarrow> Some (Inl ErrSessionExpired)
        | None \<Rightarrow>
            if fault e ''rotatedResult.exists'' \<or> kv_get (now e) m (refreshRotatingKey tokenHash) = None
            then Some (Inl ErrSessionExpired)
            else if fault e ''ctx.Done'' then Some (Inl ErrSessionExpired)
            else None))"

text \<open>The loop runs 20 attempts; \<open>polls n\<close> is what attempt \<open>n\<close> sees, since other
  requests may run while it waits.\<close>

fun rotated_from :: "(nat \<Rightarrow> env \<times> kv) \<Rightarrow> string \<Rightarrow> nat \<Rightarrow> nat \<Rightarrow> LoginResult result" where
  "rotated_from polls tokenHash attempt 0 = Inl ErrSessionExpired"
| "rotated_from polls tokenHash attempt (Suc left) =
     (case rotated_attempt (fst (polls attempt)) (snd (polls attempt)) tokenHash of
        Some r \<Rightarrow> r
      | None \<Rightarrow> rotated_from polls tokenHash (Suc attempt) left)"

definition rotatedResult :: "(nat \<Rightarrow> env \<times> kv) \<Rightarrow> string \<Rightarrow> LoginResult result" where
  "rotatedResult polls tokenHash = rotated_from polls tokenHash 0 20"

datatype refresh_decision = Fail go_error | Rotated | Claim Session User

definition refresh_lookup :: "env \<Rightarrow> db \<Rightarrow> string \<Rightarrow> refresh_decision" where
  "refresh_lookup e d tokenHash =
     (if fault e ''RefreshToken.fetch'' then Fail (Wrap ''fetching session'' (Driver ''RefreshToken.fetch''))
      else (case List.find (\<lambda>s. s_TokenHash s = tokenHash \<and> find_user d (s_UserID s) \<noteq> None) (sessions d) of
          None \<Rightarrow> Fail ErrSessionExpired
        | Some session \<Rightarrow>
            (case find_user d (s_UserID session) of
               None \<Rightarrow> Fail ErrSessionExpired
             | Some user \<Rightarrow>
                 if now e > s_ExpiresAt session then Fail ErrSessionExpired
                 else if s_Revoked session then Rotated
                 else if \<not> u_IsActive user then Fail ErrUserInactive
                 else Claim session (hide_secret user))))"

text \<open>\<^verbatim>\<open>UPDATE sessions SET revoked = true WHERE id = $1 AND NOT revoked\<close>: whether a
  row was changed.\<close>

definition refresh_claim :: "env \<Rightarrow> db \<Rightarrow> uuid \<Rightarrow> bool result \<times> db" where
  "refresh_claim e d sessionID =
     (let p = (\<lambda>s. s_ID s = sessionID \<and> \<not> s_Revoked s)
      in if fault e ''RefreshToken.revoke''
         then (Inl (Wrap ''revoking old session'' (Driver ''RefreshToken.revoke'')), d)
         else (Inr (rows_affected p (sessions d) > 0),
               d\<lparr>sessions := update_where p (\<lambda>s. s\<lparr>s_Revoked := True\<rparr>) (sessions d)\<rparr>))"

definition refresh_issue ::
  "prims \<Rightarrow> Config \<Rightarrow> env \<Rightarrow> fresh \<Rightarrow> authst \<Rightarrow> string \<Rightarrow> User \<Rightarrow> string \<Rightarrow> string \<Rightarrow> LoginResult result \<times> authst" where
  "refresh_issue pr cfg e fr st tokenHash user ip userAgent =
     (let m = (if fault e ''RefreshToken.rotating'' then rdb st
               else kv_set (now e) (rdb st) (refreshRotatingKey tokenHash) (KText ''1'') (5 * second))
      in case issueFullTokens pr cfg e fr (adb st) user ip userAgent of
           (Inl err, d) \<Rightarrow> (Inl err, \<lparr>adb = d, rdb = m\<rparr>)
         | (Inr result, d) \<Rightarrow>
             (Inr result,
              \<lparr>adb = d,
               rdb = (if fault e ''RefreshToken.grace'' then m
                      else kv_set (now e) m (refreshGraceKey tokenHash) (KResult (marshal_result result))
                             refreshGracePeriod)\<rparr>))"

definition RefreshToken ::
  "prims \<Rightarrow> Config \<Rightarrow> env \<Rightarrow> fresh \<Rightarrow> (nat \<Rightarrow> env \<times> kv) \<Rightarrow> authst \<Rightarrow> string \<Rightarrow> string \<Rightarrow> string
     \<Rightarrow> LoginResult result \<times> authst" where
  "RefreshToken pr cfg e fr polls st refreshToken ip userAgent =
     (let tokenHash = hashToken pr refreshToken
      in case refresh_lookup e (adb st) tokenHash of
           Fail err \<Rightarrow> (Inl err, st)
         | Rotated \<Rightarrow> (rotatedResult polls tokenHash, st)
         | Claim session user \<Rightarrow>
             (case refresh_claim e (adb st) (s_ID session) of
                (Inl err, d) \<Rightarrow> (Inl err, st\<lparr>adb := d\<rparr>)
              | (Inr claimed, d) \<Rightarrow>
                  if \<not> claimed then (rotatedResult polls tokenHash, st\<lparr>adb := d\<rparr>)
                  else refresh_issue pr cfg e fr (st\<lparr>adb := d\<rparr>) tokenHash user ip userAgent))"

section \<open>Logout\<close>

definition blacklist_key :: "string \<Rightarrow> string" where
  "blacklist_key jti = ''blacklist:'' @ jti"

definition Logout :: "prims \<Rightarrow> env \<Rightarrow> authst \<Rightarrow> string \<Rightarrow> string \<Rightarrow> int \<Rightarrow> unit result \<times> authst" where
  "Logout pr e st jti refreshToken remainingTTL =
     (if jti \<noteq> '''' \<and> fault e ''Logout.blacklist''
      then (Inl (Wrap ''blacklisting jti'' (Driver ''Logout.blacklist'')), st)
      else let st1 = (if jti \<noteq> ''''
             then st\<lparr>rdb := kv_set (now e) (rdb st) (blacklist_key jti) (KText ''1'') remainingTTL\<rparr> else st)
        in if refreshToken = '''' then (Inr (), st1)
           else if fault e ''Logout.revoke''
           then (Inl (Wrap ''revoking refresh session'' (Driver ''Logout.revoke'')), st1)
           else (Inr (), st1\<lparr>adb := (adb st1)\<lparr>sessions :=
               update_where (\<lambda>s. s_TokenHash s = hashToken pr refreshToken) (\<lambda>s. s\<lparr>s_Revoked := True\<rparr>)
                 (sessions (adb st1))\<rparr>\<rparr>))"

section \<open>TOTP\<close>

text \<open>The generated secret and the nonce of its envelope are arguments; the rendering of the
  QR code, which comes after the secret is stored, may fail.\<close>

definition update_totp :: "uuid \<Rightarrow> (User \<Rightarrow> User) \<Rightarrow> db \<Rightarrow> db" where
  "update_totp userID f d = d\<lparr>users := update_where (\<lambda>u. u_ID u = userID) f (users d)\<rparr>"

definition SetupTOTP ::
  "prims \<Rightarrow> Config \<Rightarrow> env \<Rightarrow> string \<Rightarrow> string \<Rightarrow> db \<Rightarrow> uuid \<Rightarrow> string result \<times> db" where
  "SetupTOTP pr cfg e secret nonce d userID =
     (case findUserByID pr cfg e d userID of
        Inl err \<Rightarrow> (Inl (Wrap ''loading user'' err), d)
      | Inr user \<Rightarrow>
          if u_TOTPEnabled user then (Inl (New ''TOTP is already enabled; disable it first''), d)
          else if fault e ''totp.Generate''
          then (Inl (Wrap ''generating TOTP key'' (Driver ''totp.Generate'')), d)
          else (case Encrypt pr e nonce (TOTPEncKey cfg) secret of
                  Inl err \<Rightarrow> (Inl (Wrap ''encrypting TOTP secret'' err), d)
                | Inr encrypted \<Rightarrow>
                    if fault e ''SetupTOTP.update''
                    then (Inl (Wrap ''storing pending TOTP secret'' (Driver ''SetupTOTP.update'')), d)
                    else let d' = update_totp userID
                           (\<lambda>u. u\<lparr>u_TOTPSecret := encrypted, u_TOTPEnabled := False\<rparr>) d
                      in if fault e ''key.Image''
                         then (Inl (Wrap ''rendering QR image'' (Driver ''key.Image'')), d')
                         else if fault e ''png.Encode''
                         then (Inl (Wrap ''encoding QR PNG'' (Driver ''png.Encode'')), d')
                         else (Inr secret, d')))"

definition ConfirmTOTP :: "prims \<Rightarrow> Config \<Rightarrow> env \<Rightarrow> db \<Rightarrow> uuid \<Rightarrow> string \<Rightarrow> unit result \<times> db" where
  "ConfirmTOTP pr cfg e d userID code =
     (case findUserByID pr cfg e d userID of
        Inl err \<Rightarrow> (Inl (Wrap ''loading user'' err), d)
      | Inr user \<Rightarrow>
          if u_TOTPEnabled user then (Inl (New ''TOTP is already enabled''), d)
          else if u_TOTPSecret user = ''''
          then (Inl (New (''no pending TOTP setup '' @ [CHR 0xE2, CHR 0x80, CHR 0x94] @ '' call setup first'')), d)
          else if \<not> totp_validate pr (now e) code (u_TOTPSecret user) then (Inl ErrTOTPInvalid, d)
          else if fault e ''ConfirmTOTP.update'' then (Inl (Driver ''ConfirmTOTP.update''), d)
          else (Inr (), update_totp userID (\<lambda>u. u\<lparr>u_TOTPEnabled := True\<rparr>) d))"

definition DisableTOTP :: "prims \<Rightarrow> Config \<Rightarrow> env \<Rightarrow> db \<Rightarrow> uuid \<Rightarrow> string \<Rightarrow> unit result \<times> db" where
  "DisableTOTP pr cfg e d userID password =
     (case findUserByID pr cfg e d userID of
        Inl err \<Rightarrow> (Inl (Wrap ''loading user'' err), d)
      | Inr user \<Rightarrow>
          if \<not> bcrypt_compare pr (u_PasswordHash user) password then (Inl ErrInvalidCreds, d)
          else if fault e ''DisableTOTP.update'' then (Inl (Driver ''DisableTOTP.update''), d)
          else (Inr (), update_totp userID (\<lambda>u. u\<lparr>u_TOTPEnabled := False, u_TOTPSecret := []\<rparr>) d))"

text \<open>\<^verbatim>\<open>MapClaims.GetSubject\<close>: empty when absent, an error when it is no string.\<close>

definition get_subject :: "(string \<times> json) list \<Rightarrow> string option" where
  "get_subject cl = (case map_of cl ''sub'' of None \<Rightarrow> Some '''' | Some (JStr s) \<Rightarrow> Some s | Some _ \<Rightarrow> None)"

definition VerifyTOTP ::
  "prims \<Rightarrow> Config \<Rightarrow> env \<Rightarrow> fresh \<Rightarrow> db \<Rightarrow> string \<Rightarrow> string \<Rightarrow> string \<Rightarrow> string \<Rightarrow> LoginResult result \<times> db" where
  "VerifyTOTP pr cfg e fr d partialToken code ip userAgent =
     (case jwt_parse pr (now e) (JWTRefreshSecret cfg) partialToken of
        None \<Rightarrow> (Inl (New ''invalid or expired partial token''), d)
      | Some claims \<Rightarrow>
     if map_of claims ''type'' \<noteq> Some (JStr ''totp_partial'')
     then (Inl (New ''token is not a TOTP partial token''), d)
     else (case get_subject claims of
        None \<Rightarrow> (Inl (New ''invalid partial token subject''), d)
      | Some sub \<Rightarrow>
     (case uuid_parse pr sub of
        None \<Rightarrow> (Inl (New ''invalid user ID in partial token''), d)
      | Some userID \<Rightarrow>
     (case findUserByID pr cfg e d userID of
        Inl err \<Rightarrow> (Inl (Wrap ''loading user'' err), d)
      | Inr user \<Rightarrow>
          if \<not> u_IsActive user then (Inl ErrUserInactive, d)
          else if \<not> totp_validate pr (now e) code (u_TOTPSecret user) then (Inl ErrTOTPInvalid, d)
          else issueFullTokens pr cfg e fr d user ip userAgent))))"

section \<open>Passwords and sessions of a user\<close>

definition ChangePassword ::
  "prims \<Rightarrow> Config \<Rightarrow> env \<Rightarrow> db \<Rightarrow> uuid \<Rightarrow> string \<Rightarrow> string \<Rightarrow> unit result \<times> db" where
  "ChangePassword pr cfg e d userID oldPassword newPassword =
     (case findUserByID pr cfg e d userID of
        Inl err \<Rightarrow> (Inl err, d)
      | Inr user \<Rightarrow>
          if \<not> bcrypt_compare pr (u_PasswordHash user) oldPassword
          then (Inl (New ''current password is incorrect''), d)
          else (case validatePasswordForRole (u_Role user) newPassword of
                  Inl err \<Rightarrow> (Inl err, d)
                | Inr _ \<Rightarrow>
          (case bcrypt_generate pr newPassword of
             None \<Rightarrow> (Inl (Wrap ''hashing password'' (Driver ''bcrypt'')), d)
           | Some hash \<Rightarrow>
          if fault e ''ChangePassword.update'' then (Inl (Driver ''ChangePassword.update''), d)
          else let d1 = d\<lparr>users := update_where (\<lambda>u. u_ID u = userID) (\<lambda>u. u\<lparr>u_PasswordHash := hash\<rparr>) (users d)\<rparr>
               in (Inr (), if fault e ''ChangePassword.revoke'' then d1
                     else d1\<lparr>sessions := update_where (\<lambda>s. s_UserID s = userID)
                            (\<lambda>s. s\<lparr>s_Revoked := True\<rparr>) (sessions d1)\<rparr>))))"

definition GetUserSessions :: "env \<Rightarrow> db \<Rightarrow> uuid \<Rightarrow> Session list result" where
  "GetUserSessions e d userID =
     wrapping ''querying sessions'' (call e ''GetUserSessions''
       (map (\<lambda>s. s\<lparr>s_TokenHash := []\<rparr>) (sort_key (\<lambda>s. - s_CreatedAt s)
         (filter (\<lambda>s. s_UserID s = userID \<and> \<not> s_Revoked s \<and> s_ExpiresAt s > now e) (sessions d)))))"

definition RevokeSession :: "env \<Rightarrow> db \<Rightarrow> uuid \<Rightarrow> uuid \<Rightarrow> unit result \<times> db" where
  "RevokeSession e d userID sessionID =
     (let p = (\<lambda>s. s_ID s = sessionID \<and> s_UserID s = userID)
      in if fault e ''RevokeSession'' then (Inl (Wrap ''revoking session'' (Driver ''RevokeSession'')), d)
         else if rows_affected p (sessions d) = 0 then (Inl (New ''session not found''), d)
         else (Inr (), d\<lparr>sessions := update_where p (\<lambda>s. s\<lparr>s_Revoked := True\<rparr>) (sessions d)\<rparr>))"

text \<open>The worker of \<^verbatim>\<open>cmd/server/main.go\<close> deletes sessions that expired more than 30
  days ago.\<close>

definition cleanupOnce :: "env \<Rightarrow> db \<Rightarrow> db" where
  "cleanupOnce e d =
     (if fault e ''cleanupOnce'' then d
      else d\<lparr>sessions := delete_where (\<lambda>s. s_ExpiresAt s < now e - 30 * 24 * hour) (sessions d)\<rparr>)"

section \<open>Middleware\<close>

datatype authd = Denied nat string | Allowed User

definition loadUserByID :: "env \<Rightarrow> db \<Rightarrow> uuid \<Rightarrow> User result" where
  "loadUserByID e d i =
     and_then (call e ''loadUserByID'' (find_user d i))
       (\<lambda>r. case r of None \<Rightarrow> Inl ErrNoRows | Some u \<Rightarrow> Inr (hide_secret u))"

definition AuthRequired :: "prims \<Rightarrow> env \<Rightarrow> authst \<Rightarrow> string \<Rightarrow> string \<Rightarrow> authd" where
  "AuthRequired pr e st jwtSecret authHeader =
     (if authHeader = '''' then Denied 401 ''authorization header required''
      else (case cut_at (CHR '' '') authHeader of
          None \<Rightarrow> Denied 401 ''authorization header must be Bearer <token>''
        | Some (scheme, tokenStr) \<Rightarrow>
      if \<not> equal_fold scheme ''Bearer'' then Denied 401 ''authorization header must be Bearer <token>''
      else (case jwt_parse pr (now e) jwtSecret tokenStr of
          None \<Rightarrow> Denied 401 ''invalid or expired token''
        | Some claims \<Rightarrow>
      (case map_of claims ''jti'' of
          Some (JStr jti) \<Rightarrow>
            if jti = '''' then Denied 401 ''token missing jti claim''
            else if fault e ''AuthRequired.blacklist'' then Denied 500 ''could not validate token''
            else if kv_get (now e) (rdb st) (blacklist_key jti) \<noteq> None
            then Denied 401 ''token has been revoked''
            else (case get_subject claims of
                None \<Rightarrow> Denied 401 ''token missing sub claim''
              | Some sub \<Rightarrow>
            if sub = '''' then Denied 401 ''token missing sub claim''
            else (case uuid_parse pr sub of
                None \<Rightarrow> Denied 401 ''invalid user ID in token''
              | Some userID \<Rightarrow>
            (case loadUserByID e (adb st) userID of
                Inl err \<Rightarrow> if errors_is err ErrNoRows then Denied 401 ''user not found''
                  else Denied 500 ''could not load user''
              | Inr user \<Rightarrow>
                  if \<not> u_IsActive user then Denied 403 ''account is disabled'' else Allowed user)))
        | _ \<Rightarrow> Denied 401 ''token missing jti claim''))))"

definition RequireRole :: "string \<Rightarrow> User option \<Rightarrow> (nat \<times> string) option" where
  "RequireRole minRole ctxUser =
     (case ctxUser of None \<Rightarrow> Some (401, ''authentication required'')
      | Some user \<Rightarrow>
          if RoleWeight (u_Role user) < RoleWeight minRole then Some (403, ''insufficient permissions'')
          else None)"

definition DaemonNodeAuth :: "prims \<Rightarrow> env \<Rightarrow> db \<Rightarrow> string \<Rightarrow> uuid option" where
  "DaemonNodeAuth pr e d auth =
     (if \<not> has_prefix auth ''Bearer '' \<or> drop 7 auth = '''' \<or> fault e ''DaemonNodeAuth'' then None
      else map_option n_ID (List.find (\<lambda>n. n_TokenHash n = hashToken pr (drop 7 auth)) (nodes d)))"

section \<open>Handlers\<close>

text \<open>A handler's answer with what it does to the refresh cookie.\<close>

datatype cookie = NoCookie | SetCookie string | ClearCookie

definition h_Login ::
  "prims \<Rightarrow> Config \<Rightarrow> env \<Rightarrow> fresh \<Rightarrow> db \<Rightarrow> (string \<times> string) result \<Rightarrow> string \<Rightarrow> string
     \<Rightarrow> (LoginResult response \<times> cookie) \<times> db" where
  "h_Login pr cfg e fr d req ip ua =
     (case req of Inl err \<Rightarrow> ((Refuse 400 (Error err), NoCookie), d)
      | Inr (email, password) \<Rightarrow>
          (case Login pr cfg e fr d email password ip ua of
             (Inl err, d') \<Rightarrow>
               ((if errors_is err ErrInvalidCreds then Refuse 401 ''invalid email or password''
                 else if errors_is err ErrUserInactive then Refuse 403 ''account is disabled''
                 else Refuse 500 ''login failed'', NoCookie), d')
           | (Inr result, d') \<Rightarrow>
               if lr_RequiresTOTP result then ((Reply 200 result, NoCookie), d')
               else ((Reply 200 result, SetCookie (lr_RefreshToken result)), d')))"

definition h_Refresh ::
  "prims \<Rightarrow> Config \<Rightarrow> env \<Rightarrow> fresh \<Rightarrow> (nat \<Rightarrow> env \<times> kv) \<Rightarrow> authst \<Rightarrow> string option \<Rightarrow> string \<Rightarrow> string
     \<Rightarrow> (LoginResult response \<times> cookie) \<times> authst" where
  "h_Refresh pr cfg e fr polls st refreshCookie ip ua =
     (if refreshCookie = None \<or> refreshCookie = Some ''''
      then ((Refuse 401 ''missing refresh token'', NoCookie), st)
      else (case RefreshToken pr cfg e fr polls st (the refreshCookie) ip ua of
          (Inl err, st') \<Rightarrow>
            if errors_is err ErrSessionExpired
            then ((Refuse 401 ''session expired, please log in again'', ClearCookie), st')
            else ((Refuse 500 ''could not refresh token'', NoCookie), st')
        | (Inr result, st') \<Rightarrow> ((Reply 200 result, SetCookie (lr_RefreshToken result)), st')))"

text \<open>\<^verbatim>\<open>GetExpirationTime\<close> reads the numeric \<^verbatim>\<open>exp\<close> claim, in seconds.\<close>

definition get_exp :: "(string \<times> json) list \<Rightarrow> int option" where
  "get_exp cl = (case map_of cl ''exp'' of Some (JNum x) \<Rightarrow> map_option (\<lambda>n. n * second) (atoi x) | _ \<Rightarrow> None)"

definition extractJTI :: "prims \<Rightarrow> env \<Rightarrow> string \<Rightarrow> string \<Rightarrow> string \<times> int" where
  "extractJTI pr e jwtSecret authHeader =
     (if length authHeader < 8 then ('''', 0)
      else (case jwt_parse pr (now e) jwtSecret (drop 7 authHeader) of
          None \<Rightarrow> ('''', 0)
        | Some claims \<Rightarrow>
            (case map_of claims ''jti'' of Some (JStr jti) \<Rightarrow> jti | _ \<Rightarrow> '''',
             case get_exp claims of None \<Rightarrow> 0 | Some x \<Rightarrow> max 0 (x - now e))))"

definition h_Logout ::
  "prims \<Rightarrow> env \<Rightarrow> authst \<Rightarrow> string \<Rightarrow> string \<Rightarrow> string \<Rightarrow> (string response \<times> cookie) \<times> authst" where
  "h_Logout pr e st jwtSecret authHeader refreshToken =
     (case extractJTI pr e jwtSecret authHeader of
        (jti, remainingTTL) \<Rightarrow>
          ((Reply 200 ''logged out'', ClearCookie), snd (Logout pr e st jti refreshToken remainingTTL)))"

definition h_VerifyTOTP ::
  "prims \<Rightarrow> Config \<Rightarrow> env \<Rightarrow> fresh \<Rightarrow> db \<Rightarrow> (string \<times> string) result \<Rightarrow> string \<Rightarrow> string
     \<Rightarrow> (LoginResult response \<times> cookie) \<times> db" where
  "h_VerifyTOTP pr cfg e fr d req ip ua =
     (case req of Inl err \<Rightarrow> ((Refuse 400 (Error err), NoCookie), d)
      | Inr (code, partialToken) \<Rightarrow>
          (case VerifyTOTP pr cfg e fr d partialToken code ip ua of
             (Inl err, d') \<Rightarrow>
               ((if errors_is err ErrTOTPInvalid then Refuse 401 ''invalid TOTP code''
                 else Refuse 401 ''TOTP verification failed'', NoCookie), d')
           | (Inr result, d') \<Rightarrow> ((Reply 200 result, SetCookie (lr_RefreshToken result)), d')))"

definition h_ChangePassword ::
  "prims \<Rightarrow> Config \<Rightarrow> env \<Rightarrow> db \<Rightarrow> User option \<Rightarrow> (string \<times> string) result \<Rightarrow> string response \<times> db" where
  "h_ChangePassword pr cfg e d ctxUser req =
     (case ctxUser of None \<Rightarrow> (Refuse 401 ''not authenticated'', d)
      | Some user \<Rightarrow>
     (case req of Inl err \<Rightarrow> (Refuse 400 (Error err), d)
      | Inr (old, new) \<Rightarrow>
     (case ChangePassword pr cfg e d (u_ID user) old new of
        (Inl err, d') \<Rightarrow> (Refuse 400 (Error err), d')
      | (Inr _, d') \<Rightarrow> (Reply 200 ''password changed'', d'))))"

definition h_SetupTOTP ::
  "prims \<Rightarrow> Config \<Rightarrow> env \<Rightarrow> string \<Rightarrow> string \<Rightarrow> db \<Rightarrow> User option \<Rightarrow> string response \<times> db" where
  "h_SetupTOTP pr cfg e secret nonce d ctxUser =
     (case ctxUser of None \<Rightarrow> (Refuse 401 ''not authenticated'', d)
      | Some user \<Rightarrow>
     (case SetupTOTP pr cfg e secret nonce d (u_ID user) of
        (Inl err, d') \<Rightarrow> (Refuse 400 (Error err), d')
      | (Inr sec, d') \<Rightarrow> (Reply 200 sec, d')))"

definition h_ConfirmTOTP ::
  "prims \<Rightarrow> Config \<Rightarrow> env \<Rightarrow> db \<Rightarrow> User option \<Rightarrow> string result \<Rightarrow> string response \<times> db" where
  "h_ConfirmTOTP pr cfg e d ctxUser req =
     (case ctxUser of None \<Rightarrow> (Refuse 401 ''not authenticated'', d)
      | Some user \<Rightarrow>
     (case req of Inl err \<Rightarrow> (Refuse 400 (Error err), d)
      | Inr code \<Rightarrow>
     (case ConfirmTOTP pr cfg e d (u_ID user) code of
        (Inl err, d') \<Rightarrow>
          (if errors_is err ErrTOTPInvalid then Refuse 401 ''invalid TOTP code'' else Refuse 400 (Error err), d')
      | (Inr _, d') \<Rightarrow> (Reply 200 ''2FA enabled'', d'))))"

definition h_DisableTOTP ::
  "prims \<Rightarrow> Config \<Rightarrow> env \<Rightarrow> db \<Rightarrow> User option \<Rightarrow> string result \<Rightarrow> string response \<times> db" where
  "h_DisableTOTP pr cfg e d ctxUser req =
     (case ctxUser of None \<Rightarrow> (Refuse 401 ''not authenticated'', d)
      | Some user \<Rightarrow>
     (case req of Inl err \<Rightarrow> (Refuse 400 (Error err), d)
      | Inr password \<Rightarrow>
     (case DisableTOTP pr cfg e d (u_ID user) password of
        (Inl err, d') \<Rightarrow>
          (if errors_is err ErrInvalidCreds then Refuse 401 ''password incorrect''
           else Refuse 500 ''could not disable 2FA'', d')
      | (Inr _, d') \<Rightarrow> (Reply 200 ''2FA disabled'', d'))))"

definition h_Me :: "prims \<Rightarrow> Config \<Rightarrow> env \<Rightarrow> db \<Rightarrow> User option \<Rightarrow> User response" where
  "h_Me pr cfg e d ctxUser =
     (case ctxUser of None \<Rightarrow> Refuse 401 ''not authenticated''
      | Some user \<Rightarrow>
     (case GetMe pr cfg e d (u_ID user) of
        Inl _ \<Rightarrow> Refuse 500 ''could not load profile'' | Inr u \<Rightarrow> Reply 200 u))"

definition h_GetActivity :: "env \<Rightarrow> db \<Rightarrow> User option \<Rightarrow> ActivityLog list response" where
  "h_GetActivity e d ctxUser =
     (case ctxUser of None \<Rightarrow> Refuse 401 ''not authenticated''
      | Some user \<Rightarrow>
     (case GetUserActivity e d (u_ID user) 50 of
        Inl _ \<Rightarrow> Refuse 500 ''could not fetch activity'' | Inr logs \<Rightarrow> Reply 200 logs))"

definition h_GetSessions :: "env \<Rightarrow> db \<Rightarrow> User option \<Rightarrow> Session list response" where
  "h_GetSessions e d ctxUser =
     (case ctxUser of None \<Rightarrow> Refuse 401 ''not authenticated''
      | Some user \<Rightarrow>
     (case GetUserSessions e d (u_ID user) of
        Inl _ \<Rightarrow> Refuse 500 ''could not fetch sessions'' | Inr ss \<Rightarrow> Reply 200 ss))"

definition h_RevokeSession :: "env \<Rightarrow> db \<Rightarrow> User option \<Rightarrow> uuid option \<Rightarrow> string response \<times> db" where
  "h_RevokeSession e d ctxUser param =
     (case ctxUser of None \<Rightarrow> (Refuse 401 ''not authenticated'', d)
      | Some user \<Rightarrow>
     (case param of None \<Rightarrow> (Refuse 400 ''invalid ID format'', d)
      | Some sessionID \<Rightarrow>
     (case RevokeSession e d (u_ID user) sessionID of
        (Inl err, d') \<Rightarrow> (Refuse 400 (Error err), d')
      | (Inr _, d') \<Rightarrow> (Reply 200 ''session revoked'', d'))))"

section \<open>Interleavings\<close>

text \<open>The operations on sessions, a whole refresh and its single statements, so that
  a sequence of them is any interleaving of concurrent refreshes.  The answer recorded is
  the session whose rotation the step claimed.\<close>

datatype auth_act =
    DoLogin prims Config env fresh string string string string
  | DoRefresh prims Config env fresh "nat \<Rightarrow> env \<times> kv" string string string
  | DoClaim env uuid
  | DoIssue prims Config env fresh string User string string
  | DoLogout prims env string string int
  | DoVerifyTOTP prims Config env fresh string string string string
  | DoSetupTOTP prims Config env string string uuid
  | DoConfirmTOTP prims Config env uuid string
  | DoDisableTOTP prims Config env uuid string
  | DoChangePassword prims Config env uuid string string
  | DoRevokeSession env uuid uuid

definition claimed_by_refresh :: "prims \<Rightarrow> env \<Rightarrow> authst \<Rightarrow> string \<Rightarrow> uuid option" where
  "claimed_by_refresh pr e st token =
     (case refresh_lookup e (adb st) (hashToken pr token) of
        Claim s _ \<Rightarrow> if fst (refresh_claim e (adb st) (s_ID s)) = Inr True then Some (s_ID s) else None
      | _ \<Rightarrow> None)"

definition on_db :: "authst \<Rightarrow> 'a \<times> db \<Rightarrow> uuid option \<times> authst" where
  "on_db st r = (None, st\<lparr>adb := snd r\<rparr>)"

fun auth_step :: "auth_act \<Rightarrow> authst \<Rightarrow> uuid option \<times> authst" where
  "auth_step (DoLogin pr cfg e fr em pw ip ua) st = on_db st (Login pr cfg e fr (adb st) em pw ip ua)"
| "auth_step (DoRefresh pr cfg e fr polls tok ip ua) st =
     (claimed_by_refresh pr e st tok, snd (RefreshToken pr cfg e fr polls st tok ip ua))"
| "auth_step (DoClaim e i) st =
     (if fst (refresh_claim e (adb st) i) = Inr True then Some i else None,
      st\<lparr>adb := snd (refresh_claim e (adb st) i)\<rparr>)"
| "auth_step (DoIssue pr cfg e fr h u ip ua) st = (None, snd (refresh_issue pr cfg e fr st h u ip ua))"
| "auth_step (DoLogout pr e jti tok ttl) st = (None, snd (Logout pr e st jti tok ttl))"
| "auth_step (DoVerifyTOTP pr cfg e fr tok code ip ua) st =
     on_db st (VerifyTOTP pr cfg e fr (adb st) tok code ip ua)"
| "auth_step (DoSetupTOTP pr cfg e sec nonce i) st = on_db st (SetupTOTP pr cfg e sec nonce (adb st) i)"
| "auth_step (DoConfirmTOTP pr cfg e i code) st = on_db st (ConfirmTOTP pr cfg e (adb st) i code)"
| "auth_step (DoDisableTOTP pr cfg e i pw) st = on_db st (DisableTOTP pr cfg e (adb st) i pw)"
| "auth_step (DoChangePassword pr cfg e i old new) st = on_db st (ChangePassword pr cfg e (adb st) i old new)"
| "auth_step (DoRevokeSession e i sid) st = on_db st (RevokeSession e (adb st) i sid)"

definition claims_session :: "auth_act \<Rightarrow> uuid option \<Rightarrow> uuid \<Rightarrow> bool" where
  "claims_session a r i = (r = Some i)"

definition session_spent :: "uuid \<Rightarrow> authst \<Rightarrow> bool" where
  "session_spent i st = (\<exists>s \<in> set (sessions (adb st)). s_ID s = i \<and> s_Revoked s)"

definition session_keys :: "authst \<Rightarrow> bool" where
  "session_keys st = unique_on s_ID (sessions (adb st))"

inductive sess_rel :: "Session list \<Rightarrow> Session list \<Rightarrow> bool" where
  refl: "sess_rel t t"
| revoke: "sess_rel t (update_where p (\<lambda>s. s\<lparr>s_Revoked := True\<rparr>) t)"
| insert: "\<forall>r \<in> set t. s_ID r \<noteq> s_ID s \<Longrightarrow> sess_rel t (t @ [s])"
| trans: "sess_rel t u \<Longrightarrow> sess_rel u v \<Longrightarrow> sess_rel t v"

lemma sess_rel_unique: "sess_rel t t' \<Longrightarrow> unique_on s_ID t \<Longrightarrow> unique_on s_ID t'"
  by (induction rule: sess_rel.induct) (auto simp: unique_on_update_where unique_on_append_row)

lemma sess_rel_spent:
  "sess_rel t t' \<Longrightarrow> \<exists>s \<in> set t. s_ID s = i \<and> s_Revoked s \<Longrightarrow> \<exists>s \<in> set t'. s_ID s = i \<and> s_Revoked s"
proof (induction rule: sess_rel.induct)
  case (revoke t p)
  then obtain s where "s \<in> set t" "s_ID s = i" "s_Revoked s" by blast
  then show ?case by (cases "p s") (auto simp: set_update_where intro!: image_eqI [of _ _ s])
qed auto

lemma touch_login_sessions [simp]: "sessions (touch_login e i d) = sessions d"
  by (simp add: touch_login_def)

lemma update_totp_sessions [simp]: "sessions (update_totp i f d) = sessions d"
  by (simp add: update_totp_def)

lemma insert_session_Inr:
  "insert_session e s d = Inr d' \<longleftrightarrow> \<not> fault e ''issueFullTokens.insert'' \<and> find_user d (s_UserID s) \<noteq> None
     \<and> (\<forall>r \<in> set (sessions d). s_ID r \<noteq> s_ID s \<and> s_TokenHash r \<noteq> s_TokenHash s)
     \<and> d' = d\<lparr>sessions := sessions d @ [s]\<rparr>"
  by (auto simp: insert_session_def)

lemma issueFullTokens_rel: "sess_rel (sessions d) (sessions (snd (issueFullTokens pr cfg e fr d u ip ua)))"
  by (auto simp: issueFullTokens_def insert_session_Inr split: sum.split intro: refl sess_rel.insert)

lemma Login_rel: "sess_rel (sessions d) (sessions (snd (Login pr cfg e fr d em pw ip ua)))"
  by (auto simp: Login_def issueFullTokens_rel split: sum.split intro: refl)

lemma VerifyTOTP_rel: "sess_rel (sessions d) (sessions (snd (VerifyTOTP pr cfg e fr d tok code ip ua)))"
  by (auto simp: VerifyTOTP_def issueFullTokens_rel split: sum.split option.split intro: refl)

lemma totp_ops_sessions [simp]:
  "sessions (snd (SetupTOTP pr cfg e sec nonce d i)) = sessions d"
  "sessions (snd (ConfirmTOTP pr cfg e d i code)) = sessions d"
  "sessions (snd (DisableTOTP pr cfg e d i pw)) = sessions d"
  by (auto simp: SetupTOTP_def ConfirmTOTP_def DisableTOTP_def Let_def split: sum.split)

lemma ChangePassword_rel: "sess_rel (sessions d) (sessions (snd (ChangePassword pr cfg e d i old new)))"
  by (auto simp: ChangePassword_def Let_def split: sum.split option.split intro: refl revoke)

lemma RevokeSession_rel: "sess_rel (sessions d) (sessions (snd (RevokeSession e d i sid)))"
  by (auto simp: RevokeSession_def Let_def intro: refl revoke)

lemma refresh_claim_rel: "sess_rel (sessions d) (sessions (snd (refresh_claim e d i)))"
  by (auto simp: refresh_claim_def Let_def intro: refl revoke)

lemma Logout_rel: "sess_rel (sessions (adb st)) (sessions (adb (snd (Logout pr e st jti tok ttl))))"
  by (auto simp: Logout_def Let_def intro: refl revoke)

lemma refresh_issue_rel:
  "sess_rel (sessions (adb st)) (sessions (adb (snd (refresh_issue pr cfg e fr st h u ip ua))))"
  using issueFullTokens_rel [of "adb st" pr cfg e fr u ip ua]
  by (auto simp: refresh_issue_def Let_def split: prod.split sum.split)

lemma refresh_claim_Inl: "refresh_claim e d i = (Inl err, d') \<Longrightarrow> d' = d"
  by (auto simp: refresh_claim_def Let_def split: if_splits)

lemma RefreshToken_cases:
  obtains (fail) err where "refresh_lookup e (adb st) (hashToken pr tok) = Fail err"
      and "RefreshToken pr cfg e fr polls st tok ip ua = (Inl err, st)"
  | (rotated) "refresh_lookup e (adb st) (hashToken pr tok) = Rotated"
      and "RefreshToken pr cfg e fr polls st tok ip ua = (rotatedResult polls (hashToken pr tok), st)"
  | (claim_error) s u err where "refresh_lookup e (adb st) (hashToken pr tok) = Claim s u"
      and "refresh_claim e (adb st) (s_ID s) = (Inl err, adb st)"
      and "RefreshToken pr cfg e fr polls st tok ip ua = (Inl err, st)"
  | (lost) s u d where "refresh_lookup e (adb st) (hashToken pr tok) = Claim s u"
      and "refresh_claim e (adb st) (s_ID s) = (Inr False, d)"
      and "RefreshToken pr cfg e fr polls st tok ip ua = (rotatedResult polls (hashToken pr tok), st\<lparr>adb := d\<rparr>)"
  | (won) s u d where "refresh_lookup e (adb st) (hashToken pr tok) = Claim s u"
      and "refresh_claim e (adb st) (s_ID s) = (Inr True, d)"
      and "RefreshToken pr cfg e fr polls st tok ip ua
         = refresh_issue pr cfg e fr (st\<lparr>adb := d\<rparr>) (hashToken pr tok) u ip ua"
proof (cases "refresh_lookup e (adb st) (hashToken pr tok)")
  case (Claim s u)
  obtain r d where c: "refresh_claim e (adb st) (s_ID s) = (r, d)" by fastforce
  show ?thesis
  proof (cases r)
    case (Inl err)
    with c have "d = adb st" by (auto dest: refresh_claim_Inl)
    with Inl c Claim show ?thesis by (intro claim_error) (auto simp: RefreshToken_def)
  next
    case (Inr b)
    show ?thesis
    proof (cases b)
      case True
      with Inr c Claim show ?thesis by (intro won) (auto simp: RefreshToken_def)
    next
      case False
      with Inr c Claim show ?thesis by (intro lost) (auto simp: RefreshToken_def)
    qed
  qed
qed (auto simp: RefreshToken_def intro: fail rotated)

lemma RefreshToken_rel:
  "sess_rel (sessions (adb st)) (sessions (adb (snd (RefreshToken pr cfg e fr polls st tok ip ua))))"
proof (rule RefreshToken_cases [of e st pr tok cfg fr polls ip ua])
  fix s u d assume "refresh_claim e (adb st) (s_ID s) = (Inr True, d)"
    and r: "RefreshToken pr cfg e fr polls st tok ip ua
      = refresh_issue pr cfg e fr (st\<lparr>adb := d\<rparr>) (hashToken pr tok) u ip ua"
  then have "sess_rel (sessions (adb st)) (sessions d)"
    using refresh_claim_rel [of "adb st" e "s_ID s"] by simp
  moreover have "sess_rel (sessions d) (sessions (adb (snd (refresh_issue pr cfg e fr (st\<lparr>adb := d\<rparr>) (hashToken pr tok) u ip ua))))"
    using refresh_issue_rel [of "st\<lparr>adb := d\<rparr>"] by simp
  ultimately show ?thesis unfolding r by (rule trans)
next
  fix s u d assume "refresh_claim e (adb st) (s_ID s) = (Inr False, d)"
    and "RefreshToken pr cfg e fr polls st tok ip ua = (rotatedResult polls (hashToken pr tok), st\<lparr>adb := d\<rparr>)"
  then show ?thesis using refresh_claim_rel [of "adb st" e "s_ID s"] by simp
qed (simp_all add: refl)

lemma auth_step_rel: "sess_rel (sessions (adb st)) (sessions (adb (snd (auth_step a st))))"
  by (cases a) (simp_all add: on_db_def Login_rel RefreshToken_rel refresh_claim_rel refresh_issue_rel
      Logout_rel VerifyTOTP_rel ChangePassword_rel RevokeSession_rel refl)

lemma refresh_claim_won:
  "fst (refresh_claim e d i) = Inr True \<longleftrightarrow>
     \<not> fault e ''RefreshToken.revoke'' \<and> (\<exists>s \<in> set (sessions d). s_ID s = i \<and> \<not> s_Revoked s)"
  by (auto simp: refresh_claim_def Let_def neq0_conv [symmetric] simp del: neq0_conv)

lemma refresh_claim_spends:
  assumes "fst (refresh_claim e d i) = Inr True"
  shows "\<exists>s \<in> set (sessions (snd (refresh_claim e d i))). s_ID s = i \<and> s_Revoked s"
proof -
  from assms obtain s where "\<not> fault e ''RefreshToken.revoke''" "s \<in> set (sessions d)" "s_ID s = i" "\<not> s_Revoked s"
    by (auto simp: refresh_claim_won)
  then have "s\<lparr>s_Revoked := True\<rparr> \<in> set (sessions (snd (refresh_claim e d i)))"
    by (auto simp: refresh_claim_def Let_def intro!: update_where_in)
  with \<open>s_ID s = i\<close> show ?thesis by (intro bexI) auto
qed

lemma auth_step_claim:
  assumes "fst (auth_step a st) = Some i"
  obtains e where "fst (refresh_claim e (adb st) i) = Inr True"
    and "sess_rel (sessions (snd (refresh_claim e (adb st) i))) (sessions (adb (snd (auth_step a st))))"
proof (cases a)
  case (DoRefresh pr cfg e fr polls tok ip ua)
  from assms obtain s u where l: "refresh_lookup e (adb st) (hashToken pr tok) = Claim s u"
      and c: "fst (refresh_claim e (adb st) (s_ID s)) = Inr True" and i: "i = s_ID s"
    unfolding DoRefresh by (auto simp: claimed_by_refresh_def split: refresh_decision.splits if_splits)
  obtain d where d: "refresh_claim e (adb st) (s_ID s) = (Inr True, d)"
    using c by (cases "refresh_claim e (adb st) (s_ID s)") auto
  have "RefreshToken pr cfg e fr polls st tok ip ua
      = refresh_issue pr cfg e fr (st\<lparr>adb := d\<rparr>) (hashToken pr tok) u ip ua"
    by (simp add: RefreshToken_def l d)
  then have "sess_rel (sessions d) (sessions (adb (snd (auth_step a st))))"
    using refresh_issue_rel [of "st\<lparr>adb := d\<rparr>"] DoRefresh by simp
  with d i c show ?thesis by (intro that [of e]) auto
next
  case (DoClaim e j)
  with assms that [of e] show ?thesis by (auto intro: refl split: if_splits)
qed (use assms in \<open>auto simp: on_db_def\<close>)

interpretation rotations: single_use auth_step session_keys claims_session session_spent
proof
  fix st a i
  show "session_keys st \<Longrightarrow> session_keys (snd (auth_step a st))"
    using sess_rel_unique [OF auth_step_rel] by (simp add: session_keys_def)
  show "session_keys st \<Longrightarrow> session_spent i st \<Longrightarrow> session_spent i (snd (auth_step a st))"
    using sess_rel_spent [OF auth_step_rel] by (simp add: session_spent_def)
  show "\<not> claims_session a (fst (auth_step a st)) i" if "session_keys st" "session_spent i st"
  proof
    assume "claims_session a (fst (auth_step a st)) i"
    then have "fst (auth_step a st) = Some i" by (simp add: claims_session_def)
    then obtain e where "fst (refresh_claim e (adb st) i) = Inr True" by (rule auth_step_claim)
    with that show False
      by (auto simp: refresh_claim_won session_keys_def session_spent_def dest: unique_on_eq)
  qed
  show "session_spent i (snd (auth_step a st))" if "session_keys st" "claims_session a (fst (auth_step a st)) i"
  proof -
    from that have "fst (auth_step a st) = Some i" by (simp add: claims_session_def)
    then obtain e where "fst (refresh_claim e (adb st) i) = Inr True"
        "sess_rel (sessions (snd (refresh_claim e (adb st) i))) (sessions (adb (snd (auth_step a st))))"
      by (rule auth_step_claim)
    then show ?thesis
      using sess_rel_spent [OF _ refresh_claim_spends] unfolding session_spent_def by blast
  qed
qed

end
