(* ===== verification/SignIn.thy ===== *)
theory SignIn
  imports Sessions
begin

text \<open>
  What sign-in and sessions guarantee: rotation of refresh tokens, the gates of a login,
  what a password change and a logout end, and the second factor.
\<close>

section \<open>Properties\<close>

text \<open>[C6] A refresh token is rotated at most once: in every interleaving of sign-ins,
  refreshes (whole ones and their single statements), logouts, TOTP operations, password
  changes and revocations, at most one step claims a given session and goes on to issue
  new tokens for it.\<close>

theorem refresh_rotated_at_most_once:
  assumes "unique_on s_ID (sessions (adb st))"
  shows "length (filter (\<lambda>(a, r). r = Some i) (trace_of auth_step acts st)) \<le> 1"
  using rotations.at_most_once [of st i acts] assms
  by (simp add: session_keys_def claims_session_def)

definition ex_cfg :: Config where
  "ex_cfg = \<lparr>ServerPort = 8080, Env = ''production'', LogLevel = ''info'', AppVersion = ''dev'',
     DeploymentProfile = ''solo'', SetupCodeHash = '''', DatabaseURL = ''url'', RedisURL = ''url'',
     JWTSecret = replicate 32 (CHR ''a''), JWTRefreshSecret = replicate 32 (CHR ''b''),
     TOTPEncKey = replicate 32 (CHR ''c''), CORSOrigins = [], TrustedProxies = [],
     DaemonServersDir = ''/srv'', CurseForgeAPIKey = '''', CurseForgeGameID = 0, MariaDBDSN = '''',
     MariaDBHost = ''mariadb'', MariaDBPort = 3306, SMTPHost = '''', SMTPPort = 587, SMTPUser = '''',
     SMTPPassword = '''', SMTPFrom = '''', SMTPTLSMode = ''''\<rparr>"

definition ex_session :: Session where
  "ex_session = \<lparr>s_ID = 50, s_UserID = 1, s_TokenHash = hashToken plain_prims ''tok'', s_IPAddress = [],
     s_UserAgent = [], s_CreatedAt = 0, s_ExpiresAt = 100 * hour, s_Revoked = False\<rparr>"

definition ex_authst :: authst where
  "ex_authst = \<lparr>adb = ex_accounts_db\<lparr>sessions := [ex_session]\<rparr>, rdb = []\<rparr>"

text \<open>Two refreshes look the session up before either claims it: the second claim fails.\<close>

theorem refresh_rotated_at_most_once_witness:
  "map snd (trace_of auth_step [DoClaim (quiet 1) 50, DoClaim (quiet 1) 50] ex_authst) = [Some 50, None]
   \<and> length (filter (\<lambda>(a, r). r = Some 50)
       (trace_of auth_step [DoClaim (quiet 1) 50, DoClaim (quiet 1) 50] ex_authst)) \<le> 1"
proof
  have "unique_on s_ID (sessions (adb ex_authst))"
    by (simp add: ex_authst_def unique_on_def)
  then show "length (filter (\<lambda>(a, r). r = Some 50)
       (trace_of auth_step [DoClaim (quiet 1) 50, DoClaim (quiet 1) 50] ex_authst)) \<le> 1"
    by (rule refresh_rotated_at_most_once)
qed code_simp

lemma findUserByEmail_Inr:
  "findUserByEmail e d em = Inr u \<Longrightarrow> \<exists>v \<in> set (users d). equal_fold (u_Email v) em \<and> u = hide_secret v"
  by (auto simp: findUserByEmail_def and_then_Inr split: option.splits dest: find_SomeD)

lemma issueFullTokens_Inr:
  assumes "issueFullTokens pr cfg e fr d u ip ua = (Inr r, d')"
  shows "lr_User r = Some u \<and> \<not> lr_RequiresTOTP r \<and> lr_RefreshToken r = hex_encode (f_rand fr)
    \<and> jwt_sign pr (JWTSecret cfg) (access_claims pr e u (f_jti fr)) = Some (lr_AccessToken r)
    \<and> (\<exists>s. sessions d' = sessions d @ [s] \<and> s_UserID s = u_ID u \<and> \<not> s_Revoked s
         \<and> s_TokenHash s = hashToken pr (lr_RefreshToken r) \<and> s_ExpiresAt s = now e + refreshTokenDuration)"
  using assms by (auto simp: issueFullTokens_def insert_session_Inr signAccessToken_def generateSecureToken_def
      and_then_Inr split: sum.splits option.splits if_splits)

text \<open>[C7] A login hands out tokens only for an active account of the given address (up to
  case) whose password matches; tokens with a session exist only when the account has no
  second factor, and with one the answer carries nothing but the partial token and creates
  no session.  A wrong password and an unknown address get the same error, whether the
  account is disabled or not, and a failed login changes nothing.\<close>

theorem login_gates:
  assumes "Login pr cfg e fr d email password ip ua = (r, d')"
  shows "case r of
      Inr res \<Rightarrow> (\<exists>u \<in> set (users d). equal_fold (u_Email u) (to_lower (trim_space email))
          \<and> bcrypt_compare pr (u_PasswordHash u) password \<and> u_IsActive u
          \<and> (if u_TOTPEnabled u
             then lr_RequiresTOTP res \<and> lr_AccessToken res = [] \<and> lr_RefreshToken res = []
               \<and> jwt_sign pr (JWTRefreshSecret cfg) (partial_claims pr e (u_ID u)) = Some (lr_PartialToken res) \<and> d' = d
             else \<not> lr_RequiresTOTP res \<and> (\<exists>s. sessions d' = sessions d @ [s] \<and> s_UserID s = u_ID u
               \<and> s_TokenHash s = hashToken pr (lr_RefreshToken res) \<and> \<not> s_Revoked s)))
    | Inl err \<Rightarrow> d' = d \<and> (\<not> fault e ''findUserByEmail'' \<longrightarrow>
        (\<forall>u \<in> set (users d). equal_fold (u_Email u) (to_lower (trim_space email))
            \<longrightarrow> \<not> bcrypt_compare pr (u_PasswordHash u) password) \<longrightarrow> err = ErrInvalidCreds)"
proof (cases "findUserByEmail e d (to_lower (trim_space email))")
  case (Inl err)
  with assms have "d' = d" "r = Inl (if errors_is err ErrNoRows then ErrInvalidCreds else Wrap ''finding user'' err)"
    by (auto simp: Login_def)
  moreover have "\<not> fault e ''findUserByEmail'' \<longrightarrow> err = ErrNoRows"
    using Inl by (auto simp: findUserByEmail_def call_def split: option.splits if_splits)
  ultimately show ?thesis by auto
next
  case (Inr u)
  then obtain v where v: "v \<in> set (users d)" "equal_fold (u_Email v) (to_lower (trim_space email))"
      and u: "u = hide_secret v" by (auto dest: findUserByEmail_Inr)
  show ?thesis
  proof (cases "bcrypt_compare pr (u_PasswordHash u) password \<and> u_IsActive u \<and> \<not> u_TOTPEnabled u")
    case True
    with assms Inr have t: "issueFullTokens pr cfg e fr d u ip ua = (r, d')" by (simp add: Login_def)
    show ?thesis
    proof (cases r)
      case (Inl err)
      with t have "d' = d" by (auto simp: issueFullTokens_def split: sum.splits)
      with Inl v u True show ?thesis by (auto simp: hide_secret_def)
    next
      case (Inr res)
      with t issueFullTokens_Inr [of pr cfg e fr d u ip ua res d'] True v u show ?thesis
        by (auto simp: hide_secret_def intro!: bexI [of _ v])
    qed
  next
    case False
    with assms Inr v u show ?thesis
      by (cases "bcrypt_compare pr (u_PasswordHash u) password")
        (auto simp: Login_def issuePartialToken_def hide_secret_def split: sum.splits option.splits if_splits)
  qed
qed

definition ex_fresh :: fresh where
  "ex_fresh = \<lparr>f_sid = 60, f_jti = ''jti'', f_rand = ''random''\<rparr>"

theorem login_gates_witness:
  "case Login plain_prims ex_cfg (quiet 5) ex_fresh ex_accounts_db ''Alice@example.org'' ''secret'' '''' '''' of
     (Inr res, d') \<Rightarrow> lr_RefreshToken res = hex_encode ''random'' \<and> length (sessions d') = 1
   | (Inl _, _) \<Rightarrow> False"
proof -
  obtain r d' where l: "Login plain_prims ex_cfg (quiet 5) ex_fresh ex_accounts_db ''Alice@example.org'' ''secret'' '''' ''''
      = (r, d')" by fastforce
  have ok: "case Login plain_prims ex_cfg (quiet 5) ex_fresh ex_accounts_db ''Alice@example.org'' ''secret'' '''' '''' of
     (Inr res, d') \<Rightarrow> \<not> lr_RequiresTOTP res \<and> lr_RefreshToken res = hex_encode ''random'' | _ \<Rightarrow> False"
    by code_simp
  have "sessions ex_accounts_db = []" by code_simp
  with ok l login_gates [OF l] show ?thesis
    by (auto split: sum.splits if_splits)
qed

lemma find_user_update:
  "(\<And>u. u_ID (f u) = u_ID u) \<Longrightarrow>
   find_user (d\<lparr>users := update_where (\<lambda>u. u_ID u = i) f (users d)\<rparr>) j
     = map_option (\<lambda>u. if u_ID u = i then f u else u) (find_user d j)"
  by (simp add: find_user_def find_update_where)

lemma find_user_id: "find_user d i = Some u \<Longrightarrow> u_ID u = i"
  by (auto simp: find_user_def dest: find_SomeD)

lemma findUserByID_Inr:
  assumes "findUserByID pr cfg e d i = Inr u"
  obtains v where "find_user d i = Some v" and "u_PasswordHash u = u_PasswordHash v" and "u_Role u = u_Role v"
    and "u_TOTPEnabled u = u_TOTPEnabled v" and "u_ID u = i"
  using assms by (auto simp: findUserByID_def and_then_Inr split: option.splits if_splits dest: find_user_id)

lemma ChangePassword_Inr:
  assumes "ChangePassword pr cfg e d i old new = (Inr u, d')"
  obtains v w hash where "findUserByID pr cfg e d i = Inr w" and "find_user d i = Some v"
    and "bcrypt_compare pr (u_PasswordHash v) old" and "validatePasswordForRole (u_Role v) new = Inr ()"
    and "bcrypt_generate pr new = Some hash"
    and "users d' = update_where (\<lambda>u. u_ID u = i) (\<lambda>u. u\<lparr>u_PasswordHash := hash\<rparr>) (users d)"
    and "\<not> fault e ''ChangePassword.revoke'' \<longrightarrow>
      sessions d' = update_where (\<lambda>s. s_UserID s = i) (\<lambda>s. s\<lparr>s_Revoked := True\<rparr>) (sessions d)"
    and "fault e ''ChangePassword.revoke'' \<longrightarrow> sessions d' = sessions d"
proof -
  from assms obtain w hash where w: "findUserByID pr cfg e d i = Inr w"
      "bcrypt_compare pr (u_PasswordHash w) old" "validatePasswordForRole (u_Role w) new = Inr ()"
      "bcrypt_generate pr new = Some hash"
      "users d' = update_where (\<lambda>u. u_ID u = i) (\<lambda>u. u\<lparr>u_PasswordHash := hash\<rparr>) (users d)"
      "\<not> fault e ''ChangePassword.revoke'' \<longrightarrow>
      sessions d' = update_where (\<lambda>s. s_UserID s = i) (\<lambda>s. s\<lparr>s_Revoked := True\<rparr>) (sessions d)"
      "fault e ''ChangePassword.revoke'' \<longrightarrow> sessions d' = sessions d"
    unfolding ChangePassword_def Let_def
    by (auto split: sum.splits option.splits if_splits)
  from w(1) obtain v where "find_user d i = Some v" "u_PasswordHash w = u_PasswordHash v" "u_Role w = u_Role v"
    by (rule findUserByID_Inr)
  with w that show ?thesis by metis
qed

lemma refresh_lookup_Claim:
  assumes "refresh_lookup e d h = Claim s u"
  shows "s \<in> set (sessions d) \<and> s_TokenHash s = h \<and> \<not> s_Revoked s \<and> now e \<le> s_ExpiresAt s
    \<and> u_ID u = s_UserID s \<and> u_IsActive u"
  using assms by (auto simp: refresh_lookup_def hide_secret_def split: if_splits option.splits
      dest!: find_SomeD dest: find_user_id)

text \<open>A password change succeeds only with the current password and a new one that
  meets the policy of the account's role; from then on, when the revocation ran, every
  session of the user is revoked, so no refresh token of that user can be rotated, and
  the sessions of other users are untouched.\<close>

theorem password_change_ends_sessions:
  assumes "ChangePassword pr cfg e d i old new = (Inr (), d')" and "\<not> fault e ''ChangePassword.revoke''"
  shows "(\<exists>u. find_user d i = Some u \<and> bcrypt_compare pr (u_PasswordHash u) old
      \<and> validatePasswordForRole (u_Role u) new = Inr ())
    \<and> map_option u_PasswordHash (find_user d' i) = bcrypt_generate pr new
    \<and> (\<forall>e' h s u. refresh_lookup e' d' h = Claim s u \<longrightarrow> u_ID u \<noteq> i)
    \<and> filter (\<lambda>s. s_UserID s \<noteq> i) (sessions d') = filter (\<lambda>s. s_UserID s \<noteq> i) (sessions d)"
  using assms(1)
proof (rule ChangePassword_Inr)
  fix v w hash
  assume v: "find_user d i = Some v" "bcrypt_compare pr (u_PasswordHash v) old"
      "validatePasswordForRole (u_Role v) new = Inr ()" and hash: "bcrypt_generate pr new = Some hash"
    and us: "users d' = update_where (\<lambda>u. u_ID u = i) (\<lambda>u. u\<lparr>u_PasswordHash := hash\<rparr>) (users d)"
    and ss: "\<not> fault e ''ChangePassword.revoke'' \<longrightarrow>
      sessions d' = update_where (\<lambda>s. s_UserID s = i) (\<lambda>s. s\<lparr>s_Revoked := True\<rparr>) (sessions d)"
  have "find_user d' i = Some (v\<lparr>u_PasswordHash := hash\<rparr>)"
    using v find_user_id [OF v(1)] by (simp add: find_user_def us find_update_where)
  moreover have "u_ID u \<noteq> i" if "refresh_lookup e' d' h = Claim s u" for e' h s u
  proof -
    have "s_UserID s = i \<longrightarrow> s_Revoked s" if "s \<in> set (sessions d')" for s
      using that unfolding mp [OF ss assms(2)] by (rule update_where_all [rotated -1]) simp_all
    with refresh_lookup_Claim [OF that] show ?thesis by metis
  qed
  moreover have "filter (\<lambda>s. s_UserID s \<noteq> i) (sessions d') = filter (\<lambda>s. s_UserID s \<noteq> i) (sessions d)"
    using ss assms(2) by (simp add: filter_update_where)
  ultimately show ?thesis
    by (intro conjI) (simp_all add: v hash)
qed

lemma ex_change_ok:
  "fst (ChangePassword plain_prims ex_cfg (quiet 1) (adb ex_authst) 1 ''secret'' ''new-Passw0rd!x'') = Inr ()"
  by code_simp

theorem password_change_ends_sessions_witness:
  "refresh_lookup (quiet 2) (adb ex_authst) (hashToken plain_prims ''tok'')
     = Claim ex_session (ex_account 1 ''alice'' RoleOwner)
   \<and> refresh_lookup (quiet 2)
       (snd (ChangePassword plain_prims ex_cfg (quiet 1) (adb ex_authst) 1 ''secret'' ''new-Passw0rd!x''))
       (hashToken plain_prims ''tok'') \<noteq> Claim ex_session (ex_account 1 ''alice'' RoleOwner)"
proof
  let ?c = "ChangePassword plain_prims ex_cfg (quiet 1) (adb ex_authst) 1 ''secret'' ''new-Passw0rd!x''"
  have "?c = (Inr (), snd ?c)" using ex_change_ok by (metis prod.collapse)
  moreover have "\<not> fault (quiet 1) ''ChangePassword.revoke''" by simp
  ultimately have "\<forall>e' h s u. refresh_lookup e' (snd ?c) h = Claim s u \<longrightarrow> u_ID u \<noteq> 1"
    using password_change_ends_sessions by blast
  moreover have "u_ID (ex_account 1 ''alice'' RoleOwner) = 1" by (simp add: ex_account_def)
  ultimately show "refresh_lookup (quiet 2) (snd ?c) (hashToken plain_prims ''tok'')
      \<noteq> Claim ex_session (ex_account 1 ''alice'' RoleOwner)"
    by blast
qed code_simp

text \<open>The revocation has two gaps.  Its error is ignored, so the change reports success
  with every session left as it was; and a refresh that claimed its rotation before the change
  inserts its new session after it, and that session stays valid.\<close>

theorem sessions_that_survive_password_change:
  "(ChangePassword pr cfg e d i old new = (Inr (), d') \<and> fault e ''ChangePassword.revoke''
      \<longrightarrow> sessions d' = sessions d)
   \<and> (\<exists>s \<in> set (sessions (adb (run_of auth_step
        [DoClaim (quiet 1) 50,
         DoChangePassword plain_prims ex_cfg (quiet 2) 1 ''secret'' ''new-Passw0rd!x'',
         DoIssue plain_prims ex_cfg (quiet 3) ex_fresh (hashToken plain_prims ''tok'')
           (ex_account 1 ''alice'' RoleOwner) '''' ''''] ex_authst))).
      s_UserID s = 1 \<and> \<not> s_Revoked s)"
proof
  show "ChangePassword pr cfg e d i old new = (Inr (), d') \<and> fault e ''ChangePassword.revoke''
      \<longrightarrow> sessions d' = sessions d"
    by (auto elim: ChangePassword_Inr)
qed code_simp

theorem sessions_that_survive_password_change_witness:
  "\<exists>d'. ChangePassword plain_prims ex_cfg \<lparr>now = 1, fault = (\<lambda>l. l = ''ChangePassword.revoke'')\<rparr>
      (adb ex_authst) 1 ''secret'' ''new-Passw0rd!x'' = (Inr (), d') \<and> sessions d' = [ex_session]"
proof -
  let ?e = "\<lparr>now = 1, fault = (\<lambda>l. l = ''ChangePassword.revoke'')\<rparr>"
  have "fst (ChangePassword plain_prims ex_cfg ?e (adb ex_authst) 1 ''secret'' ''new-Passw0rd!x'') = Inr ()"
    by code_simp
  then obtain d' where c: "ChangePassword plain_prims ex_cfg ?e (adb ex_authst) 1 ''secret'' ''new-Passw0rd!x'' = (Inr (), d')"
    by (metis prod.collapse)
  with sessions_that_survive_password_change [of plain_prims ex_cfg ?e "adb ex_authst" 1 "''secret''"
      "''new-Passw0rd!x''" d']
  have "sessions d' = [ex_session]" by (simp add: ex_authst_def)
  with c show ?thesis by blast
qed

lemma AuthRequired_Allowed:
  assumes "AuthRequired pr e st secret h = Allowed u"
  obtains scheme tok cl jti where "cut_at (CHR '' '') h = Some (scheme, tok)" and "equal_fold scheme ''Bearer''"
    and "jwt_parse pr (now e) secret tok = Some cl" and "map_of cl ''jti'' = Some (JStr jti)" and "jti \<noteq> ''''"
    and "kv_get (now e) (rdb st) (blacklist_key jti) = None"
    and "\<exists>sub i v. get_subject cl = Some sub \<and> uuid_parse pr sub = Some i \<and> find_user (adb st) i = Some v
      \<and> u_IsActive v \<and> u = hide_secret v"
  using assms unfolding AuthRequired_def
  by (auto simp: loadUserByID_def and_then_Inr call_def hide_secret_def
      split: if_splits option.splits json.splits sum.splits)

lemma bearer_prefix:
  assumes "cut_at (CHR '' '') h = Some (scheme, tok)" and "equal_fold scheme ''Bearer''"
  shows "drop 7 h = tok" and "7 \<le> length h"
proof -
  have "length scheme = length ''Bearer''"
    using assms(2) unfolding equal_fold_def to_lower_def by (metis length_map)
  with assms(1) show "drop 7 h = tok" "7 \<le> length h" by (auto simp: cut_at_Some)
qed


definition ex_header :: string where
  "ex_header = ''Bearer '' @ plain_token (JWTSecret ex_cfg)
     [(''sub'', JStr ''1''), (''jti'', JStr ''j7''), (''exp'', JNum ''900'')]"

lemma ex_header_parse:
  "jwt_parse plain_prims t (JWTSecret ex_cfg) (drop 7 ex_header) =
     (if t < 900 * second then Some [(''sub'', JStr ''1''), (''jti'', JStr ''j7''), (''exp'', JNum ''900'')] else None)"
proof -
  have "split_on (CHR ''|'') (drop 7 ex_header)
      = [JWTSecret ex_cfg, ''sub'', ''s1'', ''jti'', ''sj7'', ''exp'', ''n900'']"
    by code_simp
  moreover have "plain_pairs [''sub'', ''s1'', ''jti'', ''sj7'', ''exp'', ''n900'']
      = [(''sub'', JStr ''1''), (''jti'', JStr ''j7''), (''exp'', JNum ''900'')]"
    by code_simp
  moreover have "atoi ''900'' = Some 900" by code_simp
  ultimately show ?thesis by (simp add: plain_prims_def plain_parse_def)
qed

lemma ex_header_exp: "get_exp [(''sub'', JStr ''1''), (''jti'', JStr ''j7''), (''exp'', JNum ''900'')] = Some (900 * second)"
proof -
  have "atoi ''900'' = Some 900" by code_simp
  then show ?thesis by (simp add: get_exp_def)
qed


text \<open>A partial token is no access token: whatever secret it is checked with, a request
  that carries it as Bearer token is refused, because it has no identifier, and it can only
  be exchanged by \<^verbatim>\<open>VerifyTOTP\<close> together with a valid code for an active account.\<close>

theorem partial_token_needs_code:
  assumes "issuePartialToken pr cfg e i = Inr tok"
    and parse: "\<And>t k cl. jwt_parse pr t k tok = Some cl \<Longrightarrow> cl = partial_claims pr e i"
    and "uuid_parse pr (uuid_string pr i) = Some i"
  shows "AuthRequired pr e2 st secret (''Bearer '' @ tok) \<noteq> Allowed u
    \<and> (VerifyTOTP pr cfg e2 fr d tok code ip ua = (Inr res, d') \<longrightarrow>
        (\<exists>v. findUserByID pr cfg e2 d i = Inr v \<and> u_IsActive v
          \<and> totp_validate pr (now e2) code (u_TOTPSecret v) \<and> lr_User res = Some v))"
proof (intro conjI impI notI)
  have cut: "cut_at (CHR '' '') (''Bearer '' @ tok) = Some (''Bearer'', tok)"
    by (simp add: cut_at_Some)
  assume "AuthRequired pr e2 st secret (''Bearer '' @ tok) = Allowed u"
  then show False
    by (rule AuthRequired_Allowed) (use cut in \<open>auto simp: partial_claims_def dest!: parse\<close>)
next
  assume v: "VerifyTOTP pr cfg e2 fr d tok code ip ua = (Inr res, d')"
  then obtain cl where "jwt_parse pr (now e2) (JWTRefreshSecret cfg) tok = Some cl"
    by (auto simp: VerifyTOTP_def split: option.splits)
  then have "jwt_parse pr (now e2) (JWTRefreshSecret cfg) tok = Some (partial_claims pr e i)"
    using parse by blast
  then have "(case findUserByID pr cfg e2 d i of
        Inl err \<Rightarrow> (Inl (Wrap ''loading user'' err), d)
      | Inr user \<Rightarrow>
          if \<not> u_IsActive user then (Inl ErrUserInactive, d)
          else if \<not> totp_validate pr (now e2) code (u_TOTPSecret user) then (Inl ErrTOTPInvalid, d)
          else issueFullTokens pr cfg e2 fr d user ip ua) = (Inr res, d')"
    using v assms(3) by (simp add: VerifyTOTP_def partial_claims_def get_subject_def)
  then show "\<exists>v. findUserByID pr cfg e2 d i = Inr v \<and> u_IsActive v
      \<and> totp_validate pr (now e2) code (u_TOTPSecret v) \<and> lr_User res = Some v"
    by (auto split: sum.splits if_splits dest: issueFullTokens_Inr)
qed

definition ex_partial :: string where
  "ex_partial = plain_token (JWTRefreshSecret ex_cfg) (partial_claims plain_prims (quiet 0) 1)"

lemma ex_partial_parse:
  "jwt_parse plain_prims t k ex_partial = Some cl \<Longrightarrow> cl = partial_claims plain_prims (quiet 0) 1"
proof -
  have "split_on (CHR ''|'') ex_partial
      = [JWTRefreshSecret ex_cfg, ''sub'', ''s1'', ''type'', ''stotp_partial'', ''exp'', ''n300'']"
    by code_simp
  moreover have "plain_pairs [''sub'', ''s1'', ''type'', ''stotp_partial'', ''exp'', ''n300'']
      = partial_claims plain_prims (quiet 0) 1"
    by code_simp
  moreover assume "jwt_parse plain_prims t k ex_partial = Some cl"
  ultimately show ?thesis
    by (auto simp: plain_prims_def plain_parse_def split: if_splits option.splits json.splits)
qed

theorem partial_token_needs_code_witness:
  "AuthRequired plain_prims (quiet 0) ex_authst (JWTRefreshSecret ex_cfg) (''Bearer '' @ ex_partial)
     \<noteq> Allowed (ex_account 1 ''alice'' RoleOwner)"
proof -
  have "issuePartialToken plain_prims ex_cfg (quiet 0) 1 = Inr ex_partial"
    by (simp add: issuePartialToken_def ex_partial_def plain_prims_def)
  moreover have "uuid_parse plain_prims (uuid_string plain_prims 1) = Some 1" by code_simp
  ultimately show ?thesis
    using partial_token_needs_code [of plain_prims ex_cfg "quiet 0" 1 ex_partial] ex_partial_parse by blast
qed

lemma findUserByID_stored:
  assumes "find_user d i = Some u" and "Decrypt pr (TOTPEncKey cfg) (u_TOTPSecret u) = Inr sec"
    and "u_TOTPSecret u \<noteq> ''''" and "\<not> fault e ''findUserByID''"
  shows "findUserByID pr cfg e d i = Inr (u\<lparr>u_TOTPSecret := sec\<rparr>)"
  using assms by (simp add: findUserByID_def call_def wrapping_def)

lemma b64_encode_nonempty: "b64_encode s = [] \<longleftrightarrow> s = []"
  by (cases s rule: b64_encode.cases) auto

text \<open>Enrolling a second factor: after \<^verbatim>\<open>SetupTOTP\<close> handed out a secret the
  account still signs in without a code; \<^verbatim>\<open>ConfirmTOTP\<close> accepts exactly the codes that
  are valid for that secret, read back through its encrypted envelope, and then the account
  is enabled with that secret.\<close>

theorem totp_enrollment:
  assumes "gcm_correct pr" and "length nonce = nonce_size"
    and "SetupTOTP pr cfg e secret nonce d i = (Inr sec, d1)"
    and "\<not> fault e2 ''findUserByID''" and "\<not> fault e2 ''ConfirmTOTP.update''" and "sec \<noteq> ''''"
  shows "sec = secret \<and> (\<exists>u. find_user d1 i = Some u \<and> \<not> u_TOTPEnabled u
    \<and> (if totp_validate pr (now e2) code sec
       then \<exists>d2. ConfirmTOTP pr cfg e2 d1 i code = (Inr (), d2)
         \<and> findUserByID pr cfg e2 d2 i = Inr (u\<lparr>u_TOTPEnabled := True, u_TOTPSecret := sec\<rparr>)
       else ConfirmTOTP pr cfg e2 d1 i code = (Inl ErrTOTPInvalid, d1)))"
proof -
  from assms(3) obtain env v where enc: "Encrypt pr e nonce (TOTPEncKey cfg) secret = Inr env"
      and v: "find_user d i = Some v" and sec: "sec = secret"
      and d1: "d1 = update_totp i (\<lambda>u. u\<lparr>u_TOTPSecret := env, u_TOTPEnabled := False\<rparr>) d"
    unfolding SetupTOTP_def Let_def
    by (auto split: sum.splits if_splits elim: findUserByID_Inr)
  let ?u = "v\<lparr>u_TOTPSecret := env, u_TOTPEnabled := False\<rparr>"
  have u: "find_user d1 i = Some ?u"
    using v find_user_id [OF v] by (simp add: d1 update_totp_def find_user_update)
  have dec: "Decrypt pr (TOTPEncKey cfg) env = Inr secret"
    using assms(1,2) enc by (auto simp: Encrypt_def Decrypt_def gcm_correct_def split: if_splits)
  have ne: "env \<noteq> ''''"
    using enc assms(2) by (auto simp: Encrypt_def b64_encode_nonempty nonce_size_def split: if_splits)
  have load: "findUserByID pr cfg e2 d1 i = Inr (?u\<lparr>u_TOTPSecret := secret\<rparr>)"
    using u dec ne assms(4) by (intro findUserByID_stored) auto
  let ?d2 = "update_totp i (\<lambda>u. u\<lparr>u_TOTPEnabled := True\<rparr>) d1"
  have "find_user ?d2 i = Some (?u\<lparr>u_TOTPEnabled := True\<rparr>)"
    using u find_user_id [OF u] by (simp add: update_totp_def find_user_update)
  then have "findUserByID pr cfg e2 ?d2 i = Inr (?u\<lparr>u_TOTPEnabled := True, u_TOTPSecret := secret\<rparr>)"
    using dec ne assms(4) findUserByID_stored [of ?d2 i "?u\<lparr>u_TOTPEnabled := True\<rparr>" pr cfg secret e2] by simp
  with load u sec assms(5,6) show ?thesis by (auto simp: ConfirmTOTP_def)
qed

theorem totp_enrollment_witness:
  "\<exists>d2. ConfirmTOTP plain_prims ex_cfg (quiet 9)
      (snd (SetupTOTP plain_prims ex_cfg (quiet 0) ''JBSWY3DP'' (replicate 12 (CHR ''n'')) ex_accounts_db 1)) 1 ''JBSWY3DP''
     = (Inr (), d2)"
proof -
  let ?s = "SetupTOTP plain_prims ex_cfg (quiet 0) ''JBSWY3DP'' (replicate 12 (CHR ''n'')) ex_accounts_db 1"
  have "fst ?s = Inr ''JBSWY3DP''" by code_simp
  then have s: "?s = (Inr ''JBSWY3DP'', snd ?s)" by (metis prod.collapse)
  have "gcm_correct plain_prims" by (simp add: gcm_correct_def plain_prims_def)
  moreover have "length (replicate 12 (CHR ''n'')) = nonce_size" by (simp add: nonce_size_def)
  moreover have "totp_validate plain_prims (now (quiet 9)) ''JBSWY3DP'' ''JBSWY3DP''" by (simp add: plain_prims_def)
  ultimately show ?thesis
    using totp_enrollment [OF _ _ s, of "quiet 9" "''JBSWY3DP''"] by (auto simp del: replicate.simps)
qed

end
