(* ===== verification/Setup.thy ===== *)
theory Setup
  imports SignIn
begin

text \<open>
  First-owner setup (\<^verbatim>\<open>setup_service.go\<close>, \<^verbatim>\<open>handlers/setup.go\<close>): the setup code and
  the transaction that creates the first owner.  \<open>setup_check\<close> is everything before the
  transaction, \<open>setup_tx\<close> the transaction under the table lock, so that several setups
  can be interleaved.
\<close>

section \<open>The setup code\<close>

abbreviation ErrSetupDisabled :: go_error where
  "ErrSetupDisabled \<equiv> New ''setup with a code is not enabled''"
abbreviation ErrSetupCodeInvalid :: go_error where
  "ErrSetupCodeInvalid \<equiv> New ''invalid setup code''"
abbreviation ErrSetupCompleted :: go_error where
  "ErrSetupCompleted \<equiv> New ''setup already completed''"
abbreviation ErrSetupLoginFailed :: go_error where
  "ErrSetupLoginFailed \<equiv> New ''account created but sign-in failed''"

text \<open>\<^verbatim>\<open>SetupInputError\<close> carries a message; it is marked by its context here.\<close>

definition SetupInputError :: "string \<Rightarrow> go_error" where
  "SetupInputError m = Wrap ''SetupInputError'' (New m)"

definition code_char :: "char \<Rightarrow> bool" where
  "code_char c = ((is_upper c \<and> c \<noteq> CHR ''I'' \<and> c \<noteq> CHR ''O'') \<or> (50 \<le> byte c \<and> byte c \<le> 57))"

definition setupCodeRegex :: "string \<Rightarrow> bool" where
  "setupCodeRegex s =
     (case split_on (CHR ''-'') s of
        [a, b, c] \<Rightarrow> list_all (\<lambda>p. length p = 4 \<and> list_all code_char p) [a, b, c]
      | _ \<Rightarrow> False)"

definition NormalizeSetupCode :: "string \<Rightarrow> string \<times> bool" where
  "NormalizeSetupCode code =
     (let normal = map upper_char (filter (\<lambda>c. \<not> is_space c) code) in (normal, setupCodeRegex normal))"

definition SetupCodeEnabled :: "Config option \<Rightarrow> bool" where
  "SetupCodeEnabled cfg = (case cfg of None \<Rightarrow> False | Some c \<Rightarrow> SetupCodeHash c \<noteq> '''')"

definition checkSetupCode :: "prims \<Rightarrow> Config \<Rightarrow> string \<Rightarrow> bool" where
  "checkSetupCode pr cfg code =
     (case hex_decode (SetupCodeHash cfg) of
        None \<Rightarrow> False
      | Some want \<Rightarrow>
          if length want \<noteq> 32 then False
          else (case NormalizeSetupCode code of (normal, ok) \<Rightarrow> sha256 pr normal = want \<and> ok))"

section \<open>Creating the first owner\<close>

definition setup_check ::
  "prims \<Rightarrow> Config \<Rightarrow> env \<Rightarrow> db \<Rightarrow> string \<Rightarrow> string \<Rightarrow> string \<Rightarrow> string \<Rightarrow> (string \<times> string \<times> string) result" where
  "setup_check pr cfg e d code email0 username0 password =
     and_then (refuse_if (\<not> SetupCodeEnabled (Some cfg)) ErrSetupDisabled) (\<lambda>_.
     and_then (wrapping ''checking users'' (call e ''CompleteSetup.exists'' (users d \<noteq> []))) (\<lambda>ex.
     and_then (refuse_if ex ErrSetupCompleted) (\<lambda>_.
     and_then (refuse_if (\<not> checkSetupCode pr cfg code) ErrSetupCodeInvalid) (\<lambda>_.
     let email = to_lower (trim_space email0); username = trim_space username0
     in
     and_then (refuse_if (\<not> emailRegex email) (SetupInputError ''invalid email format'')) (\<lambda>_.
     and_then (refuse_if (\<not> usernameRegex username)
       (SetupInputError ''username must be 3-20 characters and contain only letters, numbers, and underscores'')) (\<lambda>_.
     and_then (case validatePasswordForRole RoleOwner password of
                 Inl err \<Rightarrow> Inl (SetupInputError (Error err)) | Inr _ \<Rightarrow> Inr ()) (\<lambda>_.
     case bcrypt_generate pr password of
       None \<Rightarrow> Inl (Wrap ''hashing password'' (Driver ''bcrypt''))
     | Some hash \<Rightarrow> Inr (email, username, hash))))))))"

definition setup_tx ::
  "env \<Rightarrow> uuid \<Rightarrow> uuid \<Rightarrow> db \<Rightarrow> string \<Rightarrow> string \<Rightarrow> string \<Rightarrow> string \<Rightarrow> User result \<times> db" where
  "setup_tx e newID logID d email username hash ip =
     (if fault e ''CompleteSetup.begin'' then (Inl (Wrap ''begin'' (Driver ''CompleteSetup.begin'')), d)
      else if fault e ''CompleteSetup.lock''
      then (Inl (Wrap ''locking users'' (Driver ''CompleteSetup.lock'')), d)
      else if fault e ''CompleteSetup.recheck''
      then (Inl (Wrap ''checking users'' (Driver ''CompleteSetup.recheck'')), d)
      else if users d \<noteq> [] then (Inl ErrSetupCompleted, d)
      else (case insert_user e ''CompleteSetup.insert'' d (new_user e newID email username hash RoleOwner) of
          Inl err \<Rightarrow> (Inl (Wrap ''inserting user'' err), d)
        | Inr d1 \<Rightarrow>
            if fault e ''CompleteSetup.audit''
            then (Inl (Wrap ''writing audit log'' (Driver ''CompleteSetup.audit'')), d)
            else if fault e ''CompleteSetup.commit''
            then (Inl (Wrap ''commit'' (Driver ''CompleteSetup.commit'')), d)
            else (Inr (new_user e newID email username hash RoleOwner),
                  d1\<lparr>activity_logs := activity_logs d1 @
                    [\<lparr>a_ID = logID, a_UserID = Some newID, a_ServerID = None, a_Action = ''setup.complete'',
                      a_TargetType = ''users'', a_TargetID = Some newID,
                      a_IPAddress = (if ip = '''' then None else Some ip),
                      a_Payload = JObj [(''email'', JStr email), (''username'', JStr username)],
                      a_CreatedAt = now e\<rparr>]\<rparr>)))"

definition setup_login ::
  "prims \<Rightarrow> Config \<Rightarrow> env \<Rightarrow> fresh \<Rightarrow> db \<Rightarrow> User \<Rightarrow> string \<Rightarrow> string \<Rightarrow> LoginResult result \<times> db" where
  "setup_login pr cfg e fr d user ip userAgent =
     (case issueFullTokens pr cfg e fr d user ip userAgent of
        (Inl err, d') \<Rightarrow> (Inl (Note ErrSetupLoginFailed ('': '' @ Error err)), d')
      | (Inr result, d') \<Rightarrow> (Inr result, d'))"

definition CompleteSetup ::
  "prims \<Rightarrow> Config \<Rightarrow> env \<Rightarrow> fresh \<Rightarrow> uuid \<Rightarrow> uuid \<Rightarrow> db \<Rightarrow> string \<Rightarrow> string \<Rightarrow> string \<Rightarrow> string \<Rightarrow> string \<Rightarrow> string
     \<Rightarrow> LoginResult result \<times> db" where
  "CompleteSetup pr cfg e fr newID logID d code email username password ip userAgent =
     (case setup_check pr cfg e d code email username password of
        Inl err \<Rightarrow> (Inl err, d)
      | Inr (em, un, hash) \<Rightarrow>
          (case setup_tx e newID logID d em un hash ip of
             (Inl err, d') \<Rightarrow> (Inl err, d')
           | (Inr user, d') \<Rightarrow> setup_login pr cfg e fr d' user ip userAgent))"

definition h_CompleteSetup ::
  "prims \<Rightarrow> Config option \<Rightarrow> env \<Rightarrow> fresh \<Rightarrow> uuid \<Rightarrow> uuid \<Rightarrow> db
     \<Rightarrow> (string \<times> string \<times> string \<times> string) result \<Rightarrow> string \<Rightarrow> string \<Rightarrow> (LoginResult response \<times> cookie) \<times> db" where
  "h_CompleteSetup pr cfg e fr newID logID d req ip ua =
     (if \<not> SetupCodeEnabled cfg then ((Refuse 404 ''not found'', NoCookie), d)
      else (case req of
          Inl _ \<Rightarrow> ((Refuse 400 ''setup_code, email, username and password are required'', NoCookie), d)
        | Inr (code, email, username, password) \<Rightarrow>
            (case CompleteSetup pr (the cfg) e fr newID logID d code email username password ip ua of
               (Inl err, d') \<Rightarrow>
                 ((if errors_is err ErrSetupCodeInvalid then Refuse 403 ''invalid setup code''
                   else if errors_is err ErrSetupCompleted then Refuse 409 ''setup already completed''
                   else if (case err of Wrap m (New t) \<Rightarrow> m = ''SetupInputError'' | _ \<Rightarrow> False)
                   then Refuse 400 (case err of Wrap m (New t) \<Rightarrow> t | _ \<Rightarrow> '''')
                   else if errors_is err ErrSetupLoginFailed
                   then Refuse 500 ''your account was created, but signing in failed; please sign in''
                   else Refuse 500 ''setup failed'', NoCookie), d')
             | (Inr result, d') \<Rightarrow> ((Reply 200 result, SetCookie (lr_RefreshToken result)), d'))))"

section \<open>Interleavings\<close>

text \<open>A whole setup, a transaction and a sign-in of one in flight, and the account
  operations.  The answer records whether the step created the first owner.\<close>

datatype setup_act =
    DoSetup prims Config env fresh uuid uuid string string string string string string
  | DoSetupTx env uuid uuid string string string string
  | DoSetupLogin prims Config env fresh User string string
  | DoAccount acc_act

definition setup_created :: "db \<Rightarrow> db \<Rightarrow> bool" where
  "setup_created d d' = (users d = [] \<and> (\<exists>u \<in> set (users d'). u_Role u = RoleOwner))"

definition setup_res :: "db \<Rightarrow> 'a \<times> db \<Rightarrow> bool \<times> db" where
  "setup_res d r = (setup_created d (snd r), snd r)"

fun setup_step :: "setup_act \<Rightarrow> db \<Rightarrow> bool \<times> db" where
  "setup_step (DoSetup pr cfg e fr i l code em un pw ip ua) d =
     setup_res d (CompleteSetup pr cfg e fr i l d code em un pw ip ua)"
| "setup_step (DoSetupTx e i l em un hash ip) d = setup_res d (setup_tx e i l d em un hash ip)"
| "setup_step (DoSetupLogin pr cfg e fr u ip ua) d = setup_res d (setup_login pr cfg e fr d u ip ua)"
| "setup_step (DoAccount a) d = setup_res d (acc_step a d)"

lemma setup_tx_Inl: "setup_tx e i l d em un hash ip = (Inl err, d') \<Longrightarrow> d' = d"
  by (auto simp: setup_tx_def split: if_splits sum.splits)

lemma setup_tx_Inr:
  "setup_tx e i l d em un hash ip = (Inr u, d') \<Longrightarrow>
     users d = [] \<and> users d' = [u] \<and> u = new_user e i em un hash RoleOwner"
  by (auto simp: setup_tx_def insert_user_Inr split: if_splits sum.splits)

lemma touch_login_users:
  "users (touch_login e i d) = users d \<or> users (touch_login e i d)
     = update_where (\<lambda>u. u_ID u = i) (\<lambda>u. u\<lparr>u_LastLoginAt := Some (now e)\<rparr>) (users d)"
  by (simp add: touch_login_def)

lemma issueFullTokens_users:
  "users (snd (issueFullTokens pr cfg e fr d u ip ua)) = users d \<or>
   users (snd (issueFullTokens pr cfg e fr d u ip ua))
     = update_where (\<lambda>v. u_ID v = u_ID u) (\<lambda>u. u\<lparr>u_LastLoginAt := Some (now e)\<rparr>) (users d)"
  by (auto simp: issueFullTokens_def insert_session_Inr touch_login_def split: sum.split)

lemma users_wf_login:
  "users d' = update_where p (\<lambda>u. u\<lparr>u_LastLoginAt := t\<rparr>) (users d) \<Longrightarrow> users_wf d \<Longrightarrow> users_wf d'"
  by (auto simp: users_wf_def set_update_where unique_on_update_where)

lemma owned_login:
  assumes "users d' = update_where p (\<lambda>u. u\<lparr>u_LastLoginAt := t\<rparr>) (users d)" and "owned d"
  shows "owned d'"
proof -
  from assms(2) obtain u where u: "u \<in> set (users d)" "active_owner u" by (auto simp: owned_def)
  show ?thesis
  proof (cases "p u")
    case True
    with u assms(1) update_where_in [of u "users d" p] show ?thesis
      unfolding owned_def by (intro bexI [of _ "u\<lparr>u_LastLoginAt := t\<rparr>"]) (auto simp: active_owner_def)
  next
    case False
    with u assms(1) update_where_out [of u "users d" p] show ?thesis
      unfolding owned_def by (intro bexI [of _ u]) auto
  qed
qed

definition setup_inv :: "db \<Rightarrow> bool" where
  "setup_inv d = (users_wf d \<and> owned d)"

lemma setup_login_inv: "setup_inv d \<Longrightarrow> setup_inv (snd (setup_login pr cfg e fr d u ip ua))"
proof -
  assume i: "setup_inv d"
  have "snd (setup_login pr cfg e fr d u ip ua) = snd (issueFullTokens pr cfg e fr d u ip ua)"
    by (auto simp: setup_login_def split: prod.split sum.split)
  moreover have "setup_inv (snd (issueFullTokens pr cfg e fr d u ip ua))"
    using issueFullTokens_users [of pr cfg e fr d u ip ua]
  proof
    assume "users (snd (issueFullTokens pr cfg e fr d u ip ua)) = users d"
    with i show ?thesis by (simp add: setup_inv_def users_wf_def owned_def)
  next
    assume "users (snd (issueFullTokens pr cfg e fr d u ip ua))
      = update_where (\<lambda>v. u_ID v = u_ID u) (\<lambda>u. u\<lparr>u_LastLoginAt := Some (now e)\<rparr>) (users d)"
    with i show ?thesis unfolding setup_inv_def using users_wf_login owned_login by blast
  qed
  ultimately show ?thesis by simp
qed

lemma setup_tx_inv: "setup_inv d \<Longrightarrow> snd (setup_tx e i l d em un hash ip) = d"
  by (cases "setup_tx e i l d em un hash ip"; cases "fst (setup_tx e i l d em un hash ip)")
    (auto simp: setup_inv_def owned_def dest: setup_tx_Inl setup_tx_Inr)

lemma setup_check_empty: "setup_check pr cfg e d code em un pw = Inr r \<Longrightarrow> users d = []"
  by (auto simp: setup_check_def and_then_Inr)

lemma CompleteSetup_inv: "setup_inv d \<Longrightarrow> snd (CompleteSetup pr cfg e fr i l d code em un pw ip ua) = d"
proof (cases "setup_check pr cfg e d code em un pw")
  case (Inr r)
  moreover assume "setup_inv d"
  ultimately show ?thesis by (auto simp: setup_inv_def owned_def dest: setup_check_empty)
qed (simp add: CompleteSetup_def)

interpretation firstrun: kept_invariant setup_step setup_inv
proof
  fix d a assume i: "setup_inv d"
  show "setup_inv (snd (setup_step a d))"
  proof (cases a)
    case (DoAccount x)
    with i show ?thesis using accounts.inv_keeps [of d x]
      by (simp add: setup_res_def setup_inv_def accounts_inv_def)
  qed (simp_all add: setup_res_def i CompleteSetup_inv setup_tx_inv setup_login_inv)
qed

lemma setup_trace_quiet:
  "setup_inv d \<Longrightarrow> list_all (\<lambda>(a, created). \<not> created) (trace_of setup_step acts d)"
proof (induction acts arbitrary: d)
  case (Cons a acts)
  then have "users d \<noteq> []" by (auto simp: setup_inv_def owned_def)
  then have "\<not> fst (setup_step a d)"
    by (cases a) (simp_all add: setup_res_def setup_created_def)
  with Cons firstrun.inv_keeps show ?case by simp
qed simp

lemma setup_check_Inr:
  assumes "setup_check pr cfg e d code em un pw = Inr (a, b, hash)"
  shows "users d = [] \<and> checkSetupCode pr cfg code \<and> emailRegex a \<and> usernameRegex b
    \<and> validatePasswordForRole RoleOwner pw = Inr () \<and> bcrypt_generate pr pw = Some hash"
  using assms unfolding setup_check_def Let_def and_then_Inr
  by (auto split: sum.splits option.splits)

lemma single_user_wf: "users d = [u] \<Longrightarrow> RoleWeight (u_Role u) \<noteq> 0 \<Longrightarrow> users_wf d"
  by (simp add: users_wf_def unique_on_def)

section \<open>Properties\<close>


definition ex_setup_cfg :: Config where
  "ex_setup_cfg = ex_cfg\<lparr>SetupCodeHash := hashToken plain_prims ''ABCD-EFGH-JKLM''\<rparr>"


text \<open>A refused or failed setup changes nothing, unless the owner was created and only
  the sign-in after it failed, and then the error says so.\<close>

theorem failed_setup_atomic:
  assumes "CompleteSetup pr cfg e fr i l d code email username password ip ua = (Inl err, d')"
  shows "d' = d \<or> (errors_is err ErrSetupLoginFailed \<and> (\<exists>u. users d' = [u] \<and> active_owner u))"
proof (cases "setup_check pr cfg e d code email username password")
  case (Inl x)
  with assms show ?thesis by (simp add: CompleteSetup_def)
next
  case (Inr r)
  obtain em un hash where r: "r = (em, un, hash)" by (cases r) auto
  obtain x d1 where t: "setup_tx e i l d em un hash ip = (x, d1)" by fastforce
  show ?thesis
  proof (cases x)
    case (Inl y)
    with t have "d1 = d" by (auto dest: setup_tx_Inl)
    with Inl t r Inr assms show ?thesis by (simp add: CompleteSetup_def)
  next
    case (Inr u)
    with t have u: "users d1 = [u]" "u = new_user e i em un hash RoleOwner" by (auto dest: setup_tx_Inr)
    from assms t Inr r \<open>setup_check pr cfg e d code email username password = Inr r\<close>
    have "setup_login pr cfg e fr d1 u ip ua = (Inl err, d')" by (simp add: CompleteSetup_def)
    then have "errors_is err ErrSetupLoginFailed" "snd (issueFullTokens pr cfg e fr d1 u ip ua) = d'"
      by (auto simp: setup_login_def split: prod.splits sum.splits)
    with issueFullTokens_users [of pr cfg e fr d1 u ip ua] u show ?thesis
      by (auto simp: update_where_def new_user_def active_owner_def)
  qed
qed

theorem failed_setup_atomic_witness:
  "\<exists>err d'. CompleteSetup plain_prims ex_setup_cfg (quiet 0) ex_fresh 1 2 empty_db ''ABCD-EFGH-JKLN''
      ''Root@example.org'' ''root'' ''correct-horse-4'' '''' '''' = (Inl err, d') \<and> err = ErrSetupCodeInvalid \<and> d' = empty_db"
proof -
  let ?s = "CompleteSetup plain_prims ex_setup_cfg (quiet 0) ex_fresh 1 2 empty_db ''ABCD-EFGH-JKLN''
      ''Root@example.org'' ''root'' ''correct-horse-4'' '''' ''''"
  have "fst ?s = Inl ErrSetupCodeInvalid" by code_simp
  then have s: "?s = (Inl ErrSetupCodeInvalid, snd ?s)" by (metis prod.collapse)
  from failed_setup_atomic [OF s] have "snd ?s = empty_db" by auto
  with s show ?thesis by metis
qed

end
