(* ===== verification/Requests.thy ===== *)
theory Requests
  imports Models
begin

text \<open>
  The middleware every request passes: the per-IP rate limiter
  (\<^verbatim>\<open>middleware/ratelimit.go\<close>), the body caps (\<^verbatim>\<open>bodylimit.go\<close>), the audit log
  (\<^verbatim>\<open>audit.go\<close>), request identifiers and security headers (\<^verbatim>\<open>security.go\<close>).
  Redis counters are an association list from a key to its value and expiry.
\<close>

section \<open>Rate limiting\<close>

type_synonym counters = "(string \<times> int \<times> int) list"

definition localWhitelist :: "string list" where
  "localWhitelist = [''127.0.0.1'', ''::1'']"

definition counter_value :: "int \<Rightarrow> counters \<Rightarrow> string \<Rightarrow> int" where
  "counter_value t cs key =
     (case map_of cs key of None \<Rightarrow> 0 | Some (n, x) \<Rightarrow> if t < x then n else 0)"

text \<open>The pipeline \<^verbatim>\<open>INCR\<close>, \<^verbatim>\<open>EXPIRE\<close>.\<close>

definition incrementRateLimit :: "env \<Rightarrow> counters \<Rightarrow> string \<Rightarrow> int \<Rightarrow> int result \<times> counters" where
  "incrementRateLimit e cs key ttl =
     (if fault e ''incrementRateLimit''
      then (Inl (Wrap ''redis pipeline'' (Driver ''incrementRateLimit'')), cs)
      else let n = counter_value (now e) cs key + 1 in (Inr n, AList.update key (n, now e + ttl) cs))"

datatype limited =
    Exempt
  | FailOpen
  | Admit (limit: int) (remaining: int) (reset: int)
  | TooMany (limit: int) (reset: int) (retry_after: int)

definition window_minute :: "int \<Rightarrow> int" where
  "window_minute t = t div second div 60"

definition window_expiry :: "int \<Rightarrow> int" where
  "window_expiry t = (60 - t div second mod 60) * second"

definition rate_key :: "string \<Rightarrow> int \<Rightarrow> string" where
  "rate_key ip windowMinute = ''ratelimit:'' @ ip @ '':'' @ dec windowMinute"

definition RateLimit :: "int \<Rightarrow> bool \<Rightarrow> env \<Rightarrow> string \<Rightarrow> counters \<Rightarrow> limited \<times> counters" where
  "RateLimit requestsPerMin devMode e ip cs =
     (if devMode \<and> ip \<in> set localWhitelist then (Exempt, cs)
      else (case incrementRateLimit e cs (rate_key ip (window_minute (now e))) (window_expiry (now e)) of
          (Inl _, cs') \<Rightarrow> (FailOpen, cs')
        | (Inr count, cs') \<Rightarrow>
            if count > requestsPerMin
            then (TooMany requestsPerMin ((window_minute (now e) + 1) * 60) (window_expiry (now e) div second), cs')
            else (Admit requestsPerMin (requestsPerMin - count) ((window_minute (now e) + 1) * 60), cs')))"

fun admitted :: "limited \<Rightarrow> bool" where
  "admitted (TooMany _ _ _) = False"
| "admitted _ = True"

text \<open>A sequence of requests of one address; each names the limit of the route it is for.\<close>

fun limiter_run :: "bool \<Rightarrow> string \<Rightarrow> (env \<times> int) list \<Rightarrow> counters \<Rightarrow> limited list" where
  "limiter_run dev ip [] cs = []"
| "limiter_run dev ip ((e, n) # rs) cs =
     fst (RateLimit n dev e ip cs) # limiter_run dev ip rs (snd (RateLimit n dev e ip cs))"

section \<open>Body limits\<close>

definition DefaultBodyLimit :: int where "DefaultBodyLimit = 1048576"
definition DaemonBodyLimit :: int where "DaemonBodyLimit = 8388608"
definition FileContentBodyLimit :: int where "FileContentBodyLimit = 8388608"
definition ModUploadBodyLimit :: int where "ModUploadBodyLimit = 536870912"
definition NoBodyLimit :: int where "NoBodyLimit = - 1"

definition bodyLimitFor :: "string \<Rightarrow> int" where
  "bodyLimitFor fullPath =
     (if fullPath = ''/api/v1/servers/:id/files/upload'' then NoBodyLimit
      else if fullPath = ''/api/v1/servers/:id/mods/upload'' then ModUploadBodyLimit
      else if fullPath = ''/api/v1/servers/:id/files/content'' then FileContentBodyLimit
      else if fullPath \<in> {''/api/v1/nodes/:id/register'', ''/api/v1/nodes/:id/heartbeat'',
          ''/api/v1/nodes/:id/commands/:cmd_id/ack'', ''/api/v1/nodes/:id/ddos''} then DaemonBodyLimit
      else if has_prefix fullPath ''/api/v1/servers/:id/daemon/'' then DaemonBodyLimit
      else DefaultBodyLimit)"

text \<open>The body a handler can read: \<open>None\<close> when there is none, otherwise the bytes and the cap
  of the \<^verbatim>\<open>MaxBytesReader\<close> around them.  A declared length is -1 when unknown.\<close>

record body =
  b_bytes :: string
  b_cap :: "int option"

datatype admission = TooLarge | Proceed "body option"

definition BodyLimit :: "string \<Rightarrow> int \<Rightarrow> string option \<Rightarrow> admission" where
  "BodyLimit fullPath contentLength bodyBytes =
     (let bnd = bodyLimitFor fullPath
      in case bodyBytes of
           None \<Rightarrow> Proceed None
         | Some b \<Rightarrow>
             if bnd = NoBodyLimit then Proceed (Some \<lparr>b_bytes = b, b_cap = None\<rparr>)
             else if contentLength > bnd then TooLarge
             else Proceed (Some \<lparr>b_bytes = b, b_cap = Some bnd\<rparr>))"

text \<open>Reading a body to its end: an error past the cap.\<close>

definition read_body :: "body \<Rightarrow> string result" where
  "read_body b =
     (case b_cap b of
        Some n \<Rightarrow> if int (length (b_bytes b)) > n then Inl (New ''http: request body too large'') else Inr (b_bytes b)
      | None \<Rightarrow> Inr (b_bytes b))"

section \<open>Audit log\<close>

definition sensitiveFields :: "string list" where
  "sensitiveFields =
     [''password'', ''password_confirm'', ''new_password'', ''old_password'', ''totp_secret'', ''token'',
      ''refresh_token'', ''access_token'', ''secret'', ''setup_code'', ''api_key'', ''secrets'']"

text \<open>\<^verbatim>\<open>strings.ToValidUTF8\<close>: each run of bytes that start no rune becomes one
  replacement character.  \<open>bad\<close> says that the previous byte was such a byte.\<close>

abbreviation replacement :: string where
  "replacement \<equiv> [CHR 0xEF, CHR 0xBF, CHR 0xBD]"

function to_valid_utf8 :: "bool \<Rightarrow> string \<Rightarrow> string" where
  "to_valid_utf8 bad [] = []"
| "to_valid_utf8 bad (c # cs) =
     (if byte c < 128 then c # to_valid_utf8 False cs
      else if rune_width (c # cs) > 1
      then take (rune_width (c # cs)) (c # cs) @ to_valid_utf8 False (drop (rune_width (c # cs)) (c # cs))
      else (if bad then [] else replacement) @ to_valid_utf8 True cs)"
  by pat_completeness auto
termination
  by (relation "measure (\<lambda>(bad, s). length s)") auto

definition cleanPayloadString :: "string \<Rightarrow> string" where
  "cleanPayloadString s = filter (\<lambda>c. byte c \<noteq> 0) (to_valid_utf8 False s)"

fun cleanPayloadValue :: "json \<Rightarrow> json"
  and clean_members :: "(string \<times> json) list \<Rightarrow> (string \<times> json) list"
  and clean_list :: "json list \<Rightarrow> json list" where
  "cleanPayloadValue (JObj ms) = JObj (clean_members ms)"
| "cleanPayloadValue (JArr xs) = JArr (clean_list xs)"
| "cleanPayloadValue (JStr s) = JStr (cleanPayloadString s)"
| "cleanPayloadValue v = v"
| "clean_members [] = []"
| "clean_members ((k, v) # ms) =
     (let key = cleanPayloadString k
      in (key, if to_lower key \<in> set sensitiveFields then JStr ''[REDACTED]'' else cleanPayloadValue v)
         # clean_members ms)"
| "clean_list [] = []"
| "clean_list (x # xs) = cleanPayloadValue x # clean_list xs"

text \<open>\<^verbatim>\<open>json.Unmarshal\<close> into a map: \<open>unmarshal\<close> is the decoder; \<^verbatim>\<open>null\<close> leaves
  the map nil, which is cleaned to an empty object; any other value that is no object is an
  error.\<close>

definition sanitizePayload :: "(string \<Rightarrow> json option) \<Rightarrow> string \<Rightarrow> json" where
  "sanitizePayload unmarshal body =
     (if body = '''' then JNull
      else (case unmarshal body of
          Some (JObj ms) \<Rightarrow> cleanPayloadValue (JObj ms)
        | Some JNull \<Rightarrow> JObj []
        | _ \<Rightarrow> JNull))"

fun squeeze_slashes :: "string \<Rightarrow> string" where
  "squeeze_slashes (a # b # cs) =
     (if a = CHR ''/'' \<and> b = CHR ''/'' then squeeze_slashes (b # cs) else a # squeeze_slashes (b # cs))"
| "squeeze_slashes s = s"

definition toSnake :: "string \<Rightarrow> string" where
  "toSnake s =
     (let r = map (\<lambda>c. if c = CHR ''-'' \<or> c = CHR '' '' then CHR ''_'' else lower_char c)
            (filter (\<lambda>c. is_upper c \<or> is_lower c \<or> is_digit c \<or> c = CHR ''-'' \<or> c = CHR '' '') s)
      in if r = '''' then ''seg_'' @ s else r)"

definition buildActionName :: "(string \<Rightarrow> uuid option) \<Rightarrow> string \<Rightarrow> string \<Rightarrow> string" where
  "buildActionName parse method path =
     (let p = trim_char (CHR ''/'') (squeeze_slashes (trim_prefix path ''/api/v1''));
          parts = filter (\<lambda>x. x \<noteq> '''' \<and> parse x = None) (split_on (CHR ''/'') p)
      in join ''_'' (to_lower method # map toSnake parts))"

definition extractTargetType :: "(string \<Rightarrow> uuid option) \<Rightarrow> string \<Rightarrow> string" where
  "extractTargetType parse path =
     (case List.find (\<lambda>x. x \<noteq> '''' \<and> parse x = None)
         (split_on (CHR ''/'') (trim_char (CHR ''/'') (trim_prefix path ''/api/v1''))) of
        None \<Rightarrow> ''unknown'' | Some p \<Rightarrow> p)"

definition audit_cap :: nat where "audit_cap = 65536"

text \<open>The body the audit middleware buffers, and the body it hands on in its place.\<close>

definition audit_buffers :: "string \<Rightarrow> string \<Rightarrow> body option \<Rightarrow> bool" where
  "audit_buffers method contentType b =
     (method \<noteq> ''GET'' \<and> method \<noteq> ''HEAD'' \<and> b \<noteq> None \<and> \<not> has_prefix contentType ''multipart/'')"

definition audit_body :: "string \<Rightarrow> string \<Rightarrow> body option \<Rightarrow> string" where
  "audit_body method contentType b =
     (if audit_buffers method contentType b
      then take (case b_cap (the b) of None \<Rightarrow> audit_cap | Some n \<Rightarrow> min audit_cap (nat n)) (b_bytes (the b))
      else '''')"

definition handed_on :: "string \<Rightarrow> string \<Rightarrow> body option \<Rightarrow> body option" where
  "handed_on method contentType b =
     (if audit_buffers method contentType b
      then Some \<lparr>b_bytes = audit_body method contentType b, b_cap = None\<rparr> else b)"

text \<open>What runs after the handler: a row for every request that is not \<^verbatim>\<open>GET\<close> or
  \<^verbatim>\<open>HEAD\<close>, inserted a second time with an empty payload when the first insert fails.\<close>

definition audit_row ::
  "(string \<Rightarrow> uuid option) \<Rightarrow> env \<Rightarrow> uuid \<Rightarrow> string \<Rightarrow> string \<Rightarrow> string option \<Rightarrow> User option \<Rightarrow> json \<Rightarrow> ActivityLog" where
  "audit_row parse e i method path ip user payload =
     \<lparr>a_ID = i, a_UserID = map_option u_ID user, a_ServerID = None, a_Action = buildActionName parse method path,
      a_TargetType = extractTargetType parse path, a_TargetID = None, a_IPAddress = ip,
      a_Payload = payload, a_CreatedAt = now e\<rparr>"

definition AuditLog ::
  "(string \<Rightarrow> json option) \<Rightarrow> (string \<Rightarrow> uuid option) \<Rightarrow> env \<Rightarrow> uuid \<times> uuid \<Rightarrow> db \<Rightarrow> string \<Rightarrow> string \<Rightarrow> string option
     \<Rightarrow> User option \<Rightarrow> string \<Rightarrow> db" where
  "AuditLog unmarshal parse e ids d method path ip user bodyBytes =
     (if method = ''GET'' \<or> method = ''HEAD'' then d
      else let row = (\<lambda>i payload. audit_row parse e i method path ip user payload)
        in if \<not> fault e ''AuditLog.insert''
           then d\<lparr>activity_logs := activity_logs d @ [row (fst ids) (sanitizePayload unmarshal bodyBytes)]\<rparr>
           else if \<not> fault e ''AuditLog.retry''
           then d\<lparr>activity_logs := activity_logs d @ [row (snd ids) (JObj [])]\<rparr>
           else d)"

section \<open>Identifiers and headers\<close>

definition RequestID :: "string \<Rightarrow> string \<Rightarrow> string" where
  "RequestID fresh header = (if header = '''' then fresh else header)"

definition SecurityHeaders :: "bool \<Rightarrow> (string \<times> string) list" where
  "SecurityHeaders hsts =
     [(''X-Frame-Options'', ''DENY''), (''X-Content-Type-Options'', ''nosniff''),
      (''X-XSS-Protection'', ''1; mode=block''), (''Referrer-Policy'', ''strict-origin-when-cross-origin''),
      (''Content-Security-Policy'', ''default-src '' @ [CHR 0x27] @ ''self'' @ [CHR 0x27]),
      (''Permissions-Policy'', ''geolocation=(), microphone=(), camera=()'')]
     @ (if hsts then [(''Strict-Transport-Security'', ''max-age=31536000; includeSubDomains; preload'')] else [])"

section \<open>Counting requests\<close>

lemma second_pos: "0 < second" by (simp add: second_def)

lemma window_end:
  assumes "window_minute t = m"
  shows "t < (m + 1) * 60 * second" and "(m + 1) * 60 * second \<le> t + window_expiry t"
proof -
  have q: "t = second * (t div second) + t mod second" "0 \<le> t mod second" "t mod second < second"
    using second_pos by simp_all
  have m: "t div second = 60 * m + t div second mod 60"
    using assms unfolding window_minute_def by (metis mult_div_mod_eq)
  have "t div second mod 60 < 60" by simp
  with m have "t div second + 1 \<le> 60 * m + 60" by linarith
  then have "second * (t div second + 1) \<le> second * (60 * m + 60)"
    using second_pos by (intro mult_left_mono) auto
  then have "second * (t div second) + second \<le> second * (60 * m + 60)"
    by (simp only: distrib_left mult_1_right)
  moreover have e: "(m + 1) * 60 * second = second * (60 * m + 60)" by (simp add: algebra_simps)
  ultimately show "t < (m + 1) * 60 * second" using q by linarith
  have "second * (t div second) + window_expiry t = second * (60 * m + 60)"
    unfolding window_expiry_def by (subst m) (simp add: algebra_simps)
  then show "(m + 1) * 60 * second \<le> t + window_expiry t" using q e by linarith
qed

text \<open>The counter of a bucket during its minute: its value \<open>n\<close>, alive to the end of the
  minute, or no entry and \<open>n = 0\<close>.\<close>

definition bucket :: "string \<Rightarrow> int \<Rightarrow> counters \<Rightarrow> int \<Rightarrow> bool" where
  "bucket ip m cs n =
     (case map_of cs (rate_key ip m) of
        None \<Rightarrow> n = 0
      | Some (v, x) \<Rightarrow> v = n \<and> (m + 1) * 60 * second \<le> x)"

lemma bucket_value: "bucket ip m cs n \<Longrightarrow> window_minute t = m \<Longrightarrow> counter_value t cs (rate_key ip m) = n"
  using window_end(1) [of t m] by (auto simp: bucket_def counter_value_def split: option.splits)

definition plain_request :: "bool \<Rightarrow> string \<Rightarrow> int \<Rightarrow> env \<Rightarrow> bool" where
  "plain_request dev ip m e =
     (window_minute (now e) = m \<and> \<not> fault e ''incrementRateLimit'' \<and> \<not> (dev \<and> ip \<in> set localWhitelist))"

lemma RateLimit_step:
  assumes "bucket ip m cs n" and "plain_request dev ip m e"
  shows "bucket ip m (snd (RateLimit bnd dev e ip cs)) (n + 1)"
    and "admitted (fst (RateLimit bnd dev e ip cs)) \<longleftrightarrow> n + 1 \<le> bnd"
proof -
  have v: "counter_value (now e) cs (rate_key ip m) = n"
    using assms by (intro bucket_value) (auto simp: plain_request_def)
  show "bucket ip m (snd (RateLimit bnd dev e ip cs)) (n + 1)"
    using assms v window_end(2) [of "now e" m]
    by (auto simp: RateLimit_def incrementRateLimit_def plain_request_def bucket_def Let_def update_conv
        split: option.split)
  show "admitted (fst (RateLimit bnd dev e ip cs)) \<longleftrightarrow> n + 1 \<le> bnd"
    using assms v by (auto simp: RateLimit_def incrementRateLimit_def plain_request_def Let_def)
qed

lemma limiter_run_count:
  "bucket ip m cs n \<Longrightarrow> 0 \<le> n \<Longrightarrow> list_all (\<lambda>(e, l). plain_request dev ip m e \<and> l = bnd) rs \<Longrightarrow>
   int (length (filter admitted (limiter_run dev ip rs cs))) = max 0 (min (int (length rs)) (bnd - n))"
proof (induction rs arbitrary: cs n)
  case (Cons r rs)
  obtain e l where r: "r = (e, l)" by (cases r)
  with Cons.prems have p: "plain_request dev ip m e" "l = bnd" by auto
  note st = RateLimit_step [OF Cons.prems(1) p(1), of bnd]
  from Cons.IH [OF st(1)] Cons.prems st(2) p r show ?case by auto
qed simp

section \<open>Cleaned payloads\<close>

fun audit_safe :: "json \<Rightarrow> bool"
  and safe_members :: "(string \<times> json) list \<Rightarrow> bool"
  and safe_list :: "json list \<Rightarrow> bool" where
  "audit_safe (JObj ms) = safe_members ms"
| "audit_safe (JArr xs) = safe_list xs"
| "audit_safe (JStr s) = list_all (\<lambda>c. byte c \<noteq> 0) s"
| "audit_safe v = True"
| "safe_members [] = True"
| "safe_members ((k, v) # ms) =
     (list_all (\<lambda>c. byte c \<noteq> 0) k \<and> audit_safe v
      \<and> (to_lower k \<in> set sensitiveFields \<longrightarrow> v = JStr ''[REDACTED]'') \<and> safe_members ms)"
| "safe_list [] = True"
| "safe_list (x # xs) = (audit_safe x \<and> safe_list xs)"

lemma cleanPayloadString_safe: "list_all (\<lambda>c. 0 < byte c) (cleanPayloadString s)"
  by (simp add: cleanPayloadString_def list_all_iff)

lemma redacted_safe: "audit_safe (JStr ''[REDACTED]'')"
  by (simp add: byte_def)

lemma clean_safe:
  "audit_safe (cleanPayloadValue v)" "safe_members (clean_members ms)" "safe_list (clean_list xs)"
  by (induction v and ms and xs rule: cleanPayloadValue_clean_members_clean_list.induct)
    (use redacted_safe in \<open>simp_all add: cleanPayloadString_safe Let_def\<close>)

text \<open>Values with nothing to hide: no sensitive key, and strings that cleaning keeps.\<close>

fun harmless :: "json \<Rightarrow> bool"
  and harmless_members :: "(string \<times> json) list \<Rightarrow> bool"
  and harmless_list :: "json list \<Rightarrow> bool" where
  "harmless (JObj ms) = harmless_members ms"
| "harmless (JArr xs) = harmless_list xs"
| "harmless (JStr s) = (cleanPayloadString s = s)"
| "harmless v = True"
| "harmless_members [] = True"
| "harmless_members ((k, v) # ms) =
     (cleanPayloadString k = k \<and> to_lower k \<notin> set sensitiveFields \<and> harmless v \<and> harmless_members ms)"
| "harmless_list [] = True"
| "harmless_list (x # xs) = (harmless x \<and> harmless_list xs)"

lemma harmless_kept:
  "harmless v \<Longrightarrow> cleanPayloadValue v = v"
  "harmless_members ms \<Longrightarrow> clean_members ms = ms"
  "harmless_list xs \<Longrightarrow> clean_list xs = xs"
  by (induction v and ms and xs rule: cleanPayloadValue_clean_members_clean_list.induct) (simp_all add: Let_def)

lemma ascii_kept: "list_all (\<lambda>c. 0 < byte c \<and> byte c < 128) s \<Longrightarrow> cleanPayloadString s = s"
proof -
  have "to_valid_utf8 bad s = s" if "list_all (\<lambda>c. 0 < byte c \<and> byte c < 128) s" for bad
    using that by (induction s arbitrary: bad) auto
  moreover assume "list_all (\<lambda>c. 0 < byte c \<and> byte c < 128) s"
  ultimately show ?thesis by (auto simp: cleanPayloadString_def list_all_iff intro!: filter_True)
qed

lemma sanitizePayload_safe: "audit_safe (sanitizePayload unmarshal b)"
  by (auto simp: sanitizePayload_def clean_safe split: option.split json.split simp del: cleanPayloadValue.simps)

section \<open>Properties\<close>

text \<open>Within one clock minute a limiter admits exactly the first \<open>bnd\<close> requests of an
  address and refuses the rest, however they are spread over the minute.\<close>

theorem rate_limit_per_minute:
  assumes "map_of cs (rate_key ip m) = None"
    and "list_all (\<lambda>(e, l). plain_request dev ip m e \<and> l = bnd) rs" and "0 \<le> bnd"
  shows "int (length (filter admitted (limiter_run dev ip rs cs))) = min (int (length rs)) bnd"
  using limiter_run_count [of ip m cs 0 dev bnd rs] assms by (simp add: bucket_def)

theorem rate_limit_per_minute_witness:
  "int (length (filter admitted (limiter_run False ''192.0.2.7'' (replicate 50 (quiet 0, 30)) []))) = min 50 30"
proof -
  have "plain_request False ''192.0.2.7'' 0 (quiet 0)"
    by (simp add: plain_request_def window_minute_def)
  then have "list_all (\<lambda>(e, l). plain_request False ''192.0.2.7'' 0 e \<and> l = 30) (replicate 50 (quiet 0, 30))"
    by (simp add: list_all_length)
  from rate_limit_per_minute [OF _ this, of "[]"] show ?thesis by simp
qed

text \<open>The window is the clock minute, not a sliding one: twice the limit passes within
  one second around the turn of a minute.  And all limiters share one counter per address:
  31 requests to routes limited to 120 a minute exhaust the 30 of the sign-in routes.\<close>

theorem rate_limit_gaps:
  "list_all admitted (limiter_run False ''192.0.2.7''
      (replicate 30 (quiet (59 * second), 30) @ replicate 30 (quiet (60 * second), 30)) [])
   \<and> map admitted (limiter_run False ''192.0.2.7''
      (replicate 31 (quiet (5 * second), 120) @ [(quiet (6 * second), 30)]) []) = replicate 31 True @ [False]"
  by (intro conjI) code_simp+

text \<open>A body passes the audit middleware unchanged exactly when it is not buffered or
  has at most 64 KiB; a longer one reaches the handler cut off, also on the routes whose own
  cap is 8 MiB.\<close>

theorem audit_truncates_body:
  assumes "BodyLimit path (int (length bytes)) (Some bytes) = Proceed (Some b)"
  shows "(map_option b_bytes (handed_on method ctype (Some b)) = Some bytes
      \<longleftrightarrow> \<not> audit_buffers method ctype (Some b) \<or> length bytes \<le> audit_cap)
    \<and> (audit_buffers method ctype (Some b) \<and> audit_cap < length bytes \<longrightarrow>
        map_option read_body (handed_on method ctype (Some b)) = Some (Inr (take audit_cap bytes)))"
proof -
  have b: "b_bytes b = bytes" "b_cap b = None \<or> (\<exists>n. b_cap b = Some n \<and> int (length bytes) \<le> n)"
    using assms by (auto simp: BodyLimit_def Let_def split: if_splits)
  then have "take (case b_cap b of None \<Rightarrow> audit_cap | Some n \<Rightarrow> min audit_cap (nat n)) (b_bytes b) = take audit_cap bytes"
    by (auto simp: min_def)
  with b show ?thesis
    by (auto simp: handed_on_def audit_body_def read_body_def)
qed

theorem audit_truncates_body_witness:
  "bodyLimitFor ''/api/v1/servers/:id/files/content'' = 8388608
   \<and> map_option read_body (handed_on ''PUT'' ''application/json''
        (Some \<lparr>b_bytes = replicate 65537 (CHR ''x''), b_cap = Some 8388608\<rparr>))
      = Some (Inr (take audit_cap (replicate 65537 (CHR ''x''))))"
proof
  show l: "bodyLimitFor ''/api/v1/servers/:id/files/content'' = 8388608"
    by (simp add: bodyLimitFor_def FileContentBodyLimit_def)
  have "BodyLimit ''/api/v1/servers/:id/files/content'' (int (length (replicate 65537 (CHR ''x''))))
      (Some (replicate 65537 (CHR ''x''))) = Proceed (Some \<lparr>b_bytes = replicate 65537 (CHR ''x''), b_cap = Some 8388608\<rparr>)"
    unfolding BodyLimit_def l Let_def by (simp add: NoBodyLimit_def)
  moreover have "audit_buffers ''PUT'' ''application/json'' (Some \<lparr>b_bytes = replicate 65537 (CHR ''x''), b_cap = Some 8388608\<rparr>)"
    by (simp add: audit_buffers_def has_prefix_def)
  moreover have "audit_cap < length (replicate 65537 (CHR ''x''))"
    by (simp only: length_replicate audit_cap_def)
  ultimately show "map_option read_body (handed_on ''PUT'' ''application/json''
        (Some \<lparr>b_bytes = replicate 65537 (CHR ''x''), b_cap = Some 8388608\<rparr>))
      = Some (Inr (take audit_cap (replicate 65537 (CHR ''x''))))"
    using audit_truncates_body by blast
qed

text \<open>Every request that is not \<^verbatim>\<open>GET\<close> or \<^verbatim>\<open>HEAD\<close> leaves exactly one audit row of
  its user and action, unless both inserts fail; no value under a sensitive key, at any depth
  and in any case, and no zero byte reaches the row; what has nothing to hide is stored
  as it was sent.\<close>

theorem audit_row_written:
  assumes "method \<noteq> ''GET''" and "method \<noteq> ''HEAD''"
    and "\<not> (fault e ''AuditLog.insert'' \<and> fault e ''AuditLog.retry'')"
  shows "\<exists>row. activity_logs (AuditLog unmarshal parse e ids d method path ip user bytes) = activity_logs d @ [row]
    \<and> a_UserID row = map_option u_ID user \<and> a_Action row = buildActionName parse method path
    \<and> audit_safe (a_Payload row)
    \<and> (\<not> fault e ''AuditLog.insert'' \<and> bytes \<noteq> '''' \<and> unmarshal bytes = Some (JObj ms) \<and> harmless (JObj ms)
        \<longrightarrow> a_Payload row = JObj ms)"
  using assms sanitizePayload_safe [of unmarshal bytes] harmless_kept(1) [of "JObj ms"]
  by (auto simp: AuditLog_def Let_def audit_row_def sanitizePayload_def simp del: cleanPayloadValue.simps)

theorem audit_row_written_witness:
  "\<exists>row. activity_logs (AuditLog (\<lambda>s. Some (JObj [(''user'', JObj [(''PassWord'', JStr s)])])) (\<lambda>_. None)
      (quiet 0) (1, 2) empty_db ''POST'' ''/api/v1/auth/login'' None None ''hunter2'') = [row]
    \<and> audit_safe (a_Payload row) \<and> a_Payload row = JObj [(''user'', JObj [(''PassWord'', JStr ''[REDACTED]'')])]"
proof -
  obtain row where "activity_logs (AuditLog (\<lambda>s. Some (JObj [(''user'', JObj [(''PassWord'', JStr s)])])) (\<lambda>_. None)
      (quiet 0) (1, 2) empty_db ''POST'' ''/api/v1/auth/login'' None None ''hunter2'') = [row]" "audit_safe (a_Payload row)"
    using audit_row_written [of "''POST''" "quiet 0" "\<lambda>s. Some (JObj [(''user'', JObj [(''PassWord'', JStr s)])])"
        "\<lambda>_. None" "(1, 2)" empty_db "''/api/v1/auth/login''" None None "''hunter2''"]
    by (auto simp: empty_db_def)
  moreover have "map a_Payload (activity_logs (AuditLog (\<lambda>s. Some (JObj [(''user'', JObj [(''PassWord'', JStr s)])])) (\<lambda>_. None)
      (quiet 0) (1, 2) empty_db ''POST'' ''/api/v1/auth/login'' None None ''hunter2''))
      = [JObj [(''user'', JObj [(''PassWord'', JStr ''[REDACTED]'')])]]"
    by code_simp
  ultimately show ?thesis by auto
qed

end
