(* ===== verification/Router.thy ===== *)
theory Router
  imports Permissions Sessions Requests
begin

text \<open>
  \<^verbatim>\<open>router/router.go\<close>: the route table with the middleware of each route, in the
  order gin runs it, and the evaluation of such a chain on a request by the models of the
  single middlewares.  Every route below \<^verbatim>\<open>/api/v1\<close> is wrapped by the audit log.
\<close>

section \<open>Routes\<close>

datatype route_gate =
    GLimit int
  | GAuth
  | GRole string
  | GPerm string
  | GServerPerm string
  | GDaemon

record route =
  r_method :: string
  r_path :: string
  r_gates :: "route_gate list"

abbreviation generalLimiter :: route_gate where "generalLimiter \<equiv> GLimit 120"
abbreviation authLimiter :: route_gate where "authLimiter \<equiv> GLimit 30"

definition group :: "string \<Rightarrow> route_gate list \<Rightarrow> (string \<times> string \<times> route_gate list) list \<Rightarrow> route list" where
  "group pre gates rs =
     map (\<lambda>(m, p, gs). \<lparr>r_method = m, r_path = ''/api/v1'' @ pre @ p, r_gates = gates @ gs\<rparr>) rs"

definition healthGroup :: "route list" where
  "healthGroup = group ''/health'' []
     [(''GET'', '''', []),
      (''GET'', ''/ready'', []),
      (''GET'', ''/setup'', []),
      (''GET'', ''/config'', [])]"

definition setupGroup :: "route list" where
  "setupGroup = group ''/setup'' [authLimiter]
     [(''POST'', ''/complete'', [])]"

definition authGroup :: "route list" where
  "authGroup = group ''/auth'' [authLimiter]
     [(''POST'', ''/register'', []),
      (''POST'', ''/login'', []),
      (''POST'', ''/refresh'', []),
      (''POST'', ''/totp/verify'', [])]"

definition authProtected :: "route list" where
  "authProtected = group ''/auth'' [authLimiter, GAuth]
     [(''POST'', ''/logout'', []),
      (''GET'', ''/me'', []),
      (''PATCH'', ''/password'', []),
      (''POST'', ''/totp/setup'', []),
      (''POST'', ''/totp/confirm'', []),
      (''POST'', ''/totp/disable'', []),
      (''GET'', ''/profile'', []),
      (''PATCH'', ''/profile'', []),
      (''GET'', ''/profile/notifications'', []),
      (''PUT'', ''/profile/notifications'', []),
      (''GET'', ''/activity'', []),
      (''GET'', ''/sessions'', []),
      (''DELETE'', ''/sessions/:id'', [])]"

definition hytaleGroup :: "route list" where
  "hytaleGroup = group ''/hytale'' [GAuth, generalLimiter]
     [(''GET'', ''/versions'', [])]"

definition serverGroup :: "route list" where
  "serverGroup = group ''/servers'' [GAuth, generalLimiter]
     [(''GET'', '''', []),
      (''GET'', ''/activity'', []),
      (''POST'', '''', [GPerm ''server.create'']),
      (''GET'', ''/:id'', [GServerPerm ''server.view'']),
      (''PATCH'', ''/:id'', [GServerPerm ''server.manage'']),
      (''DELETE'', ''/:id'', [GServerPerm ''server.delete'']),
      (''POST'', ''/:id/start'', [GServerPerm ''server.start'']),
      (''POST'', ''/:id/stop'', [GServerPerm ''server.stop'']),
      (''POST'', ''/:id/restart'', [GServerPerm ''server.start'']),
      (''POST'', ''/:id/kill'', [GServerPerm ''server.stop'']),
      (''POST'', ''/:id/reinstall'', [GServerPerm ''server.manage'']),
      (''GET'', ''/:id/metrics'', [GServerPerm ''server.view'']),
      (''GET'', ''/:id/logs'', [GServerPerm ''server.view'']),
      (''POST'', ''/:id/console'', [GServerPerm ''server.console'']),
      (''POST'', ''/:id/migrate'', [GRole RoleAdmin, GServerPerm ''server.manage'']),
      (''GET'', ''/:id/files'', [GServerPerm ''server.files'']),
      (''GET'', ''/:id/files/content'', [GServerPerm ''server.files'']),
      (''PUT'', ''/:id/files/content'', [GServerPerm ''server.files'']),
      (''DELETE'', ''/:id/files'', [GServerPerm ''server.files'']),
      (''POST'', ''/:id/files/directory'', [GServerPerm ''server.files'']),
      (''POST'', ''/:id/files/rename'', [GServerPerm ''server.files'']),
      (''POST'', ''/:id/files/upload'', [GServerPerm ''server.files'']),
      (''GET'', ''/:id/files/download'', [GServerPerm ''server.files'']),
      (''POST'', ''/:id/files/extract'', [GServerPerm ''server.files'']),
      (''POST'', ''/:id/files/archive'', [GServerPerm ''server.files'']),
      (''GET'', ''/:id/mods'', [GServerPerm ''server.view'']),
      (''POST'', ''/:id/mods/upload'', [GServerPerm ''mod.install'']),
      (''POST'', ''/:id/mods'', [GServerPerm ''mod.install'']),
      (''DELETE'', ''/:id/mods/:filename'', [GServerPerm ''mod.remove'']),
      (''PATCH'', ''/:id/mods/:filename/toggle'', [GServerPerm ''mod.install'']),
      (''PATCH'', ''/:id/mods/:filename'', [GServerPerm ''mod.install'']),
      (''GET'', ''/:id/plugins'', [GServerPerm ''server.view'']),
      (''PATCH'', ''/:id/plugins/:filename/toggle'', [GServerPerm ''mod.install'']),
      (''GET'', ''/:id/game-commands'', [GServerPerm ''server.view'']),
      (''POST'', ''/:id/game-commands'', [GServerPerm ''server.console'']),
      (''POST'', ''/:id/game-commands/execute'', [GServerPerm ''server.console'']),
      (''DELETE'', ''/:id/game-commands/:cmdId'', [GServerPerm ''server.console'']),
      (''GET'', ''/:id/worlds'', [GServerPerm ''server.view'']),
      (''POST'', ''/:id/worlds'', [GServerPerm ''server.manage'']),
      (''POST'', ''/:id/worlds/:worldId/activate'', [GServerPerm ''server.manage'']),
      (''DELETE'', ''/:id/worlds/:worldId'', [GServerPerm ''server.manage'']),
      (''GET'', ''/:id/players'', [GServerPerm ''server.view'']),
      (''GET'', ''/:id/players/:playerId'', [GServerPerm ''server.view'']),
      (''GET'', ''/:id/players/:playerId/sessions'', [GServerPerm ''server.view'']),
      (''POST'', ''/:id/players/:playerId/ban'', [GServerPerm ''player.ban'']),
      (''POST'', ''/:id/players/:playerId/unban'', [GServerPerm ''player.ban'']),
      (''POST'', ''/:id/players/:playerId/kick'', [GServerPerm ''player.ban'']),
      (''PATCH'', ''/:id/players/:playerId/whitelist'', [GServerPerm ''player.whitelist'']),
      (''PATCH'', ''/:id/players/:playerId/op'', [GServerPerm ''player.ban'']),
      (''PATCH'', ''/:id/players/:playerId/mute'', [GServerPerm ''player.ban'']),
      (''GET'', ''/:id/backup-schedules'', [GServerPerm ''server.view'']),
      (''POST'', ''/:id/invitations'', [GServerPerm ''server.manage'']),
      (''GET'', ''/:id/invitations'', [GServerPerm ''server.manage'']),
      (''DELETE'', ''/:id/invitations/:invId'', [GServerPerm ''server.manage'']),
      (''GET'', ''/:id/database'', [GServerPerm ''database.view'']),
      (''POST'', ''/:id/database'', [GServerPerm ''database.reset'']),
      (''DELETE'', ''/:id/database'', [GServerPerm ''database.reset'']),
      (''POST'', ''/:id/database/reset-password'', [GServerPerm ''database.reset''])]"

definition invGroup :: "route list" where
  "invGroup = group ''/invitations'' [GAuth, generalLimiter]
     [(''GET'', ''/mine'', []),
      (''POST'', ''/:token/accept'', []),
      (''POST'', ''/:token/decline'', [])]"

definition cfGroup :: "route list" where
  "cfGroup = group ''/curseforge'' [GAuth, generalLimiter]
     [(''GET'', ''/search'', []),
      (''GET'', ''/mods/:mod_id/files'', [])]"

definition backupGroup :: "route list" where
  "backupGroup = group ''/backups'' [GAuth, generalLimiter]
     [(''GET'', '''', []),
      (''POST'', '''', []),
      (''DELETE'', ''/:backupId'', []),
      (''POST'', ''/:backupId/restore'', []),
      (''GET'', ''/:backupId/download'', []),
      (''POST'', ''/:backupId/upload'', [])]"

definition summaryRoute :: "route list" where
  "summaryRoute = group '''' []
     [(''GET'', ''/backup-destinations'', [GAuth, generalLimiter])]"

definition scheduleGroup :: "route list" where
  "scheduleGroup = group ''/backup-schedules'' [GAuth, generalLimiter]
     [(''POST'', '''', []),
      (''PATCH'', ''/:scheduleId'', []),
      (''DELETE'', ''/:scheduleId'', [])]"

definition alertGroup :: "route list" where
  "alertGroup = group ''/alerts'' [GAuth, generalLimiter]
     [(''GET'', ''/rules'', []),
      (''POST'', ''/rules'', []),
      (''PATCH'', ''/rules/:ruleId'', []),
      (''DELETE'', ''/rules/:ruleId'', []),
      (''GET'', ''/events'', []),
      (''POST'', ''/events/:eventId/resolve'', [])]"

definition adminGroup :: "route list" where
  "adminGroup = group ''/admin'' [GAuth, GRole RoleAdmin, generalLimiter]
     [(''POST'', ''/users'', []),
      (''GET'', ''/users'', []),
      (''PATCH'', ''/users/:id/role'', []),
      (''PATCH'', ''/users/:id/active'', []),
      (''DELETE'', ''/users/:id'', []),
      (''PATCH'', ''/nodes/:id/status'', []),
      (''GET'', ''/activity-logs'', []),
      (''GET'', ''/users/:id/permissions'', []),
      (''PUT'', ''/users/:id/permissions'', []),
      (''POST'', ''/nodes/enroll'', []),
      (''GET'', ''/update/check'', []),
      (''GET'', ''/integrations/curseforge'', []),
      (''PUT'', ''/integrations/curseforge'', []),
      (''GET'', ''/integrations/smtp'', []),
      (''PUT'', ''/integrations/smtp'', []),
      (''POST'', ''/integrations/smtp/test'', []),
      (''GET'', ''/backup-key'', []),
      (''GET'', ''/backup-key/export'', [GRole RoleOwner]),
      (''POST'', ''/backup-key/rotate'', [GRole RoleOwner]),
      (''GET'', ''/backup-destinations/providers'', []),
      (''GET'', ''/backup-destinations'', []),
      (''POST'', ''/backup-destinations'', []),
      (''PUT'', ''/backup-destinations/:id'', []),
      (''DELETE'', ''/backup-destinations/:id'', []),
      (''POST'', ''/backup-destinations/:id/test'', []),
      (''GET'', ''/hytale-auth'', []),
      (''POST'', ''/hytale-auth/device'', []),
      (''POST'', ''/hytale-auth/device/poll'', []),
      (''PUT'', ''/hytale-auth/profile'', []),
      (''DELETE'', ''/hytale-auth'', [])]"

definition enrollGroup :: "route list" where
  "enrollGroup = group ''/nodes'' [authLimiter]
     [(''POST'', ''/enroll'', [])]"

definition daemonGroup :: "route list" where
  "daemonGroup = group ''/servers'' [GDaemon]
     [(''POST'', ''/:id/daemon/status'', []),
      (''POST'', ''/:id/daemon/logs'', []),
      (''POST'', ''/:id/daemon/plugins'', []),
      (''POST'', ''/:id/daemon/players'', []),
      (''POST'', ''/:id/daemon/worlds'', []),
      (''POST'', ''/:id/daemon/game-session'', [])]"

definition networkGroup :: "route list" where
  "networkGroup = group ''/network'' [GAuth, generalLimiter]
     [(''GET'', ''/players'', []),
      (''POST'', ''/players/:hytaleUuid/ban'', [GPerm ''player.network_ban'']),
      (''POST'', ''/players/:hytaleUuid/unban'', [GPerm ''player.network_ban'']),
      (''POST'', ''/servers/:id/role'', [GPerm ''network.manage'']),
      (''POST'', ''/distribute'', [GPerm ''network.manage''])]"

definition nodeGroup :: "route list" where
  "nodeGroup = group ''/nodes'' [GAuth, GRole RoleAdmin, generalLimiter]
     [(''GET'', '''', []),
      (''POST'', '''', []),
      (''GET'', ''/cluster-stats'', []),
      (''GET'', ''/:id'', []),
      (''GET'', ''/:id/metrics'', []),
      (''GET'', ''/:id/network-stats'', []),
      (''PATCH'', ''/:id'', []),
      (''DELETE'', ''/:id'', [GRole RoleOwner])]"

definition daemonNodeGroup :: "route list" where
  "daemonNodeGroup = group ''/nodes'' [GDaemon]
     [(''POST'', ''/:id/register'', []),
      (''POST'', ''/:id/heartbeat'', []),
      (''POST'', ''/:id/csr'', []),
      (''GET'', ''/:id/commands/pending'', []),
      (''POST'', ''/:id/commands/:cmd_id/ack'', []),
      (''POST'', ''/:id/ddos'', [])]"

definition routes :: "route list" where
  "routes = healthGroup @ setupGroup @ authGroup @ authProtected @ hytaleGroup @ serverGroup @ invGroup
     @ cfGroup @ backupGroup @ summaryRoute @ scheduleGroup @ alertGroup @ adminGroup @ enrollGroup
     @ daemonGroup @ networkGroup @ nodeGroup @ daemonNodeGroup"

lemmas route_defs = healthGroup_def setupGroup_def authGroup_def authProtected_def hytaleGroup_def
  serverGroup_def invGroup_def cfGroup_def backupGroup_def summaryRoute_def scheduleGroup_def
  alertGroup_def adminGroup_def enrollGroup_def daemonGroup_def networkGroup_def nodeGroup_def
  daemonNodeGroup_def

section \<open>Running a chain\<close>

record request =
  q_id :: string
  q_auth :: string
  q_ip :: string

datatype verdict = Stopped nat string | Through "User option"

fun gate_verdict :: "gate \<Rightarrow> verdict \<Rightarrow> verdict" where
  "gate_verdict (Abort n m) v = Stopped n m"
| "gate_verdict Next v = v"

fun run_chain ::
  "prims \<Rightarrow> bool \<Rightarrow> env \<Rightarrow> authst \<Rightarrow> string \<Rightarrow> request \<Rightarrow> route_gate list \<Rightarrow> User option \<Rightarrow> counters \<Rightarrow> verdict" where
  "run_chain pr dev e st secret rq [] user cs = Through user"
| "run_chain pr dev e st secret rq (GLimit n # gs) user cs =
     (case RateLimit n dev e (q_ip rq) cs of
        (TooMany _ _ _, cs') \<Rightarrow> Stopped 429 ''rate limit exceeded''
      | (_, cs') \<Rightarrow> run_chain pr dev e st secret rq gs user cs')"
| "run_chain pr dev e st secret rq (GAuth # gs) user cs =
     (case AuthRequired pr e st secret (q_auth rq) of
        Denied n m \<Rightarrow> Stopped n m
      | Allowed u \<Rightarrow> run_chain pr dev e st secret rq gs (Some u) cs)"
| "run_chain pr dev e st secret rq (GRole r # gs) user cs =
     (case RequireRole r user of
        Some (n, m) \<Rightarrow> Stopped n m
      | None \<Rightarrow> run_chain pr dev e st secret rq gs user cs)"
| "run_chain pr dev e st secret rq (GPerm p # gs) user cs =
     gate_verdict (RequirePermission e (adb st) user p) (run_chain pr dev e st secret rq gs user cs)"
| "run_chain pr dev e st secret rq (GServerPerm p # gs) user cs =
     gate_verdict (RequireServerPermission (uuid_parse pr) e (adb st) user (q_id rq) p)
       (run_chain pr dev e st secret rq gs user cs)"
| "run_chain pr dev e st secret rq (GDaemon # gs) user cs =
     (case DaemonNodeAuth pr e (adb st) (q_auth rq) of
        None \<Rightarrow> Stopped 401 ''unauthorized''
      | Some _ \<Rightarrow> run_chain pr dev e st secret rq gs user cs)"

definition admits :: "prims \<Rightarrow> bool \<Rightarrow> env \<Rightarrow> authst \<Rightarrow> string \<Rightarrow> counters \<Rightarrow> request \<Rightarrow> route \<Rightarrow> User option \<Rightarrow> bool" where
  "admits pr dev e st secret cs rq r user =
     (run_chain pr dev e st secret rq (r_gates r) None cs = Through user)"

section \<open>Chains that authenticate first\<close>

fun is_limit :: "route_gate \<Rightarrow> bool" where
  "is_limit (GLimit _) = True"
| "is_limit _ = False"

definition auth_first :: "route_gate list \<Rightarrow> bool" where
  "auth_first gs = (case dropWhile is_limit gs of GAuth # rest \<Rightarrow> GAuth \<notin> set rest | _ \<Rightarrow> False)"

text \<open>What a chain that let a request through has checked about the user it ended with.\<close>

fun gate_ok :: "prims \<Rightarrow> env \<Rightarrow> authst \<Rightarrow> request \<Rightarrow> User option \<Rightarrow> route_gate \<Rightarrow> bool" where
  "gate_ok pr e st rq user (GRole r) = (RequireRole r user = None)"
| "gate_ok pr e st rq user (GPerm p) = (RequirePermission e (adb st) user p = Next)"
| "gate_ok pr e st rq user (GServerPerm p) =
     (RequireServerPermission (uuid_parse pr) e (adb st) user (q_id rq) p = Next)"
| "gate_ok pr e st rq user GDaemon = (DaemonNodeAuth pr e (adb st) (q_auth rq) \<noteq> None)"
| "gate_ok pr e st rq user _ = True"

definition checked :: "prims \<Rightarrow> env \<Rightarrow> authst \<Rightarrow> request \<Rightarrow> route_gate list \<Rightarrow> User option \<Rightarrow> bool" where
  "checked pr e st rq gs user = list_all (gate_ok pr e st rq user) gs"

lemma gate_verdict_Through: "gate_verdict g v = Through u \<longleftrightarrow> g = Next \<and> v = Through u"
  by (cases g) auto

lemma chain_keeps_user:
  "run_chain pr dev e st secret rq gs user cs = Through u \<Longrightarrow> GAuth \<notin> set gs \<Longrightarrow>
     u = user \<and> checked pr e st rq gs user"
proof (induction gs arbitrary: cs)
  case Nil
  then show ?case by (simp add: checked_def)
next
  case (Cons g gs)
  then show ?case
    by (cases g) (auto simp: checked_def gate_verdict_Through split: prod.splits limited.splits option.splits)
qed

lemma chain_auth_first:
  "run_chain pr dev e st secret rq gs user cs = Through u \<Longrightarrow> auth_first gs \<Longrightarrow>
     \<exists>v. u = Some v \<and> AuthRequired pr e st secret (q_auth rq) = Allowed v \<and> checked pr e st rq gs (Some v)"
proof (induction gs arbitrary: cs)
  case Nil
  then show ?case by (simp add: auth_first_def)
next
  case (Cons g gs)
  show ?case
  proof (cases g)
    case (GLimit n)
    with Cons.prems obtain cs' where "run_chain pr dev e st secret rq gs user cs' = Through u"
      by (auto split: prod.splits limited.splits)
    moreover from Cons.prems(2) GLimit have "auth_first gs" by (simp add: auth_first_def)
    ultimately show ?thesis using Cons.IH GLimit by (fastforce simp: checked_def)
  next
    case GAuth
    with Cons.prems obtain v where v: "AuthRequired pr e st secret (q_auth rq) = Allowed v"
        "run_chain pr dev e st secret rq gs (Some v) cs = Through u" "GAuth \<notin> set gs"
      by (auto simp: auth_first_def split: authd.splits)
    from chain_keeps_user [OF v(2,3)] v(1) GAuth show ?thesis by (simp add: checked_def)
  qed (use Cons.prems in \<open>simp_all add: auth_first_def\<close>)
qed

lemma admits_auth_first:
  "admits pr dev e st secret cs rq r u \<Longrightarrow> auth_first (r_gates r) \<Longrightarrow>
     \<exists>v. u = Some v \<and> AuthRequired pr e st secret (q_auth rq) = Allowed v \<and> checked pr e st rq (r_gates r) (Some v)"
  unfolding admits_def by (rule chain_auth_first)

lemma checked_gate:
  "checked pr e st rq gs u \<Longrightarrow> GRole r \<in> set gs \<Longrightarrow> RequireRole r u = None"
  "checked pr e st rq gs u \<Longrightarrow> GServerPerm p \<in> set gs \<Longrightarrow>
     RequireServerPermission (uuid_parse pr) e (adb st) u (q_id rq) p = Next"
  "checked pr e st rq gs u \<Longrightarrow> GDaemon \<in> set gs \<Longrightarrow> DaemonNodeAuth pr e (adb st) (q_auth rq) \<noteq> None"
  by (auto simp: checked_def list_all_iff)

lemma RequireServerPermission_Next:
  assumes "RequireServerPermission parse e d (Some u) idp perm = Next"
  obtains sid where "parse idp = Some sid" and "HasServerPermission e d u sid perm = Inr True"
    and "is_staff u \<or> owns_server d u sid \<or> member_row d u sid \<noteq> None"
proof -
  from assms obtain sid where s: "parse idp = Some sid" "HasServerPermission e d u sid perm = Inr True"
    by (auto simp: RequireServerPermission_def split: option.splits sum.splits if_splits)
  moreover have "is_staff u \<or> owns_server d u sid \<or> member_row d u sid \<noteq> None"
    using s(2) by (cases "is_staff u") (auto simp: HasServerPermission_nonstaff split: if_splits option.splits)
  ultimately show ?thesis by (rule that)
qed

section \<open>The shape of the table\<close>

fun server_perms :: "route_gate list \<Rightarrow> string list" where
  "server_perms [] = []"
| "server_perms (GServerPerm p # gs) = p # server_perms gs"
| "server_perms (_ # gs) = server_perms gs"

lemma server_perms_set: "p \<in> set (server_perms gs) \<longleftrightarrow> GServerPerm p \<in> set gs"
  by (induction gs rule: server_perms.induct) auto

definition of_server :: "route \<Rightarrow> bool" where
  "of_server r = (has_prefix (r_path r) ''/api/v1/servers/:id'' \<and> \<not> has_prefix (r_path r) ''/api/v1/servers/:id/daemon/'')"

lemma server_routes_shape:
  "list_all (\<lambda>r. of_server r \<longrightarrow> auth_first (r_gates r) \<and> server_perms (r_gates r) \<noteq> []) routes"
  by code_simp

definition of_admin :: "route \<Rightarrow> bool" where
  "of_admin r = has_prefix (r_path r) ''/api/v1/admin/''"

definition owner_only :: "route \<Rightarrow> bool" where
  "owner_only r = (r_path r \<in> {''/api/v1/admin/backup-key/export'', ''/api/v1/admin/backup-key/rotate''}
     \<or> (r_method r = ''DELETE'' \<and> r_path r = ''/api/v1/nodes/:id''))"

lemma admin_routes_shape:
  "list_all (\<lambda>r. (of_admin r \<or> owner_only r \<longrightarrow> auth_first (r_gates r) \<and> GRole RoleAdmin \<in> set (r_gates r))
     \<and> (owner_only r \<longrightarrow> GRole RoleOwner \<in> set (r_gates r))) routes"
  by code_simp

definition anonymous :: "(string \<times> string) list" where
  "anonymous =
     [(''GET'', ''/api/v1/health''), (''GET'', ''/api/v1/health/ready''), (''GET'', ''/api/v1/health/setup''),
      (''GET'', ''/api/v1/health/config''), (''POST'', ''/api/v1/setup/complete''),
      (''POST'', ''/api/v1/auth/register''), (''POST'', ''/api/v1/auth/login''), (''POST'', ''/api/v1/auth/refresh''),
      (''POST'', ''/api/v1/auth/totp/verify''), (''POST'', ''/api/v1/nodes/enroll'')]"

lemma routes_shape:
  "list_all (\<lambda>r. (r_method r, r_path r) \<in> set anonymous \<or> auth_first (r_gates r)
     \<or> (GDaemon \<in> set (r_gates r) \<and> GAuth \<notin> set (r_gates r))) routes"
  by code_simp

section \<open>Properties\<close>

text \<open>[C11] Every route of a server, the daemon callbacks apart, admits a request only with a
  valid access token of an active account that is cluster staff, owns the server named in
  the path or is a member of it, and holds the permission the route asks for.\<close>

theorem server_routes_isolated:
  assumes "r \<in> set routes" and "of_server r" and "admits pr dev e st secret cs rq r u"
  shows "\<exists>v sid p. u = Some v \<and> AuthRequired pr e st secret (q_auth rq) = Allowed v
    \<and> uuid_parse pr (q_id rq) = Some sid \<and> GServerPerm p \<in> set (r_gates r)
    \<and> HasServerPermission e (adb st) v sid p = Inr True
    \<and> (is_staff v \<or> owns_server (adb st) v sid \<or> member_row (adb st) v sid \<noteq> None)"
proof -
  from server_routes_shape assms(1,2) have sh: "auth_first (r_gates r)" "server_perms (r_gates r) \<noteq> []"
    by (auto simp: list_all_iff)
  then obtain p where p: "GServerPerm p \<in> set (r_gates r)"
    using server_perms_set by (metis last_in_set)
  from admits_auth_first [OF assms(3) sh(1)] obtain v where v: "u = Some v"
      "AuthRequired pr e st secret (q_auth rq) = Allowed v" "checked pr e st rq (r_gates r) (Some v)" by blast
  from checked_gate(2) [OF v(3) p] obtain sid where "uuid_parse pr (q_id rq) = Some sid"
      "HasServerPermission e (adb st) v sid p = Inr True"
      "is_staff v \<or> owns_server (adb st) v sid \<or> member_row (adb st) v sid \<noteq> None"
    by (rule RequireServerPermission_Next)
  with v p show ?thesis by blast
qed

definition ex_route_st :: authst where
  "ex_route_st = \<lparr>adb = empty_db\<lparr>users := [ex_account 1 ''alice'' RoleUser],
     server_members := [ex_member 9 1 [(''server.view'', True)]]\<rparr>, rdb = []\<rparr>"

definition ex_request :: request where
  "ex_request = \<lparr>q_id = ''9'',
     q_auth = ''Bearer '' @ plain_token ''key'' [(''sub'', JStr ''1''), (''jti'', JStr ''j'')],
     q_ip = ''192.0.2.7''\<rparr>"

definition ex_route :: route where
  "ex_route = \<lparr>r_method = ''GET'', r_path = ''/api/v1/servers/:id/logs'',
     r_gates = [GAuth, generalLimiter, GServerPerm ''server.view'']\<rparr>"

theorem server_routes_isolated_witness:
  "\<exists>v sid p. Some (ex_account 1 ''alice'' RoleUser) = Some v \<and> sid = 9
    \<and> GServerPerm p \<in> set (r_gates ex_route) \<and> HasServerPermission (quiet 0) (adb ex_route_st) v sid p = Inr True"
proof -
  have "ex_route \<in> set routes" "of_server ex_route" by code_simp+
  moreover have "admits plain_prims False (quiet 0) ex_route_st ''key'' [] ex_request ex_route
      (Some (ex_account 1 ''alice'' RoleUser))"
    by code_simp
  moreover have "uuid_parse plain_prims (q_id ex_request) = Some 9" by code_simp
  ultimately show ?thesis
    using server_routes_isolated [of ex_route plain_prims False "quiet 0" ex_route_st "''key''" "[]" ex_request
        "Some (ex_account 1 ''alice'' RoleUser)"] by auto
qed

text \<open>An administration route admits only administrators and owners, and exporting or
  rotating the backup key and deleting a node only owners.\<close>

theorem admin_routes_restricted:
  assumes "r \<in> set routes" and "of_admin r \<or> owner_only r" and "admits pr dev e st secret cs rq r u"
  shows "\<exists>v. u = Some v \<and> AuthRequired pr e st secret (q_auth rq) = Allowed v
    \<and> u_Role v \<in> {RoleAdmin, RoleOwner} \<and> (owner_only r \<longrightarrow> u_Role v = RoleOwner)"
proof -
  from admin_routes_shape assms(1,2) have sh: "auth_first (r_gates r)" "GRole RoleAdmin \<in> set (r_gates r)"
      "owner_only r \<longrightarrow> GRole RoleOwner \<in> set (r_gates r)"
    by (auto simp: list_all_iff)
  from admits_auth_first [OF assms(3) sh(1)] obtain v where v: "u = Some v"
      "AuthRequired pr e st secret (q_auth rq) = Allowed v" "checked pr e st rq (r_gates r) (Some v)" by blast
  have "u_Role v \<in> {RoleAdmin, RoleOwner}"
    using checked_gate(1) [OF v(3) sh(2)] by (auto simp: RequireRole_def RoleWeight_def split: if_splits)
  moreover have "u_Role v = RoleOwner" if "owner_only r"
    using checked_gate(1) [OF v(3) mp [OF sh(3) that]] by (auto simp: RequireRole_def RoleWeight_def split: if_splits)
  ultimately show ?thesis using v by blast
qed

definition ex_export :: route where
  "ex_export = \<lparr>r_method = ''GET'', r_path = ''/api/v1/admin/backup-key/export'',
     r_gates = [GAuth, GRole RoleAdmin, generalLimiter, GRole RoleOwner]\<rparr>"

theorem admin_routes_restricted_witness:
  "\<exists>v. Some (ex_account 1 ''alice'' RoleOwner) = Some v \<and> u_Role v = RoleOwner"
proof -
  have "ex_export \<in> set routes" "of_admin ex_export" "owner_only ex_export" by code_simp+
  moreover have "admits plain_prims False (quiet 0) \<lparr>adb = ex_accounts_db, rdb = []\<rparr> ''key'' [] ex_request ex_export
      (Some (ex_account 1 ''alice'' RoleOwner))"
    by code_simp
  ultimately show ?thesis
    using admin_routes_restricted [of ex_export plain_prims False "quiet 0" "\<lparr>adb = ex_accounts_db, rdb = []\<rparr>" "''key''" "[]"
        ex_request "Some (ex_account 1 ''alice'' RoleOwner)"] by auto
qed

text \<open>Apart from ten routes (health, first setup, sign-in, enrollment) every route admits
  a request only with a valid access token or a registered node token.\<close>

theorem other_routes_authenticated:
  assumes "r \<in> set routes" and "(r_method r, r_path r) \<notin> set anonymous"
    and "admits pr dev e st secret cs rq r u"
  shows "(\<exists>v. u = Some v \<and> AuthRequired pr e st secret (q_auth rq) = Allowed v)
    \<or> (\<exists>n \<in> set (nodes (adb st)). n_TokenHash n = hashToken pr (drop 7 (q_auth rq)))"
proof -
  from routes_shape assms(1,2) have "auth_first (r_gates r) \<or> GDaemon \<in> set (r_gates r) \<and> GAuth \<notin> set (r_gates r)"
    by (auto simp: list_all_iff)
  then show ?thesis
  proof
    assume "auth_first (r_gates r)"
    with assms(3) show ?thesis by (blast dest: admits_auth_first)
  next
    assume g: "GDaemon \<in> set (r_gates r) \<and> GAuth \<notin> set (r_gates r)"
    with assms(3) have "checked pr e st rq (r_gates r) None"
      unfolding admits_def by (blast dest: chain_keeps_user)
    with g checked_gate(3) have "DaemonNodeAuth pr e (adb st) (q_auth rq) \<noteq> None" by blast
    then show ?thesis
      by (auto simp: DaemonNodeAuth_def split: if_splits dest: find_SomeD)
  qed
qed

theorem other_routes_authenticated_witness:
  "\<exists>v. Some (ex_account 1 ''alice'' RoleUser) = Some v
     \<and> AuthRequired plain_prims (quiet 0) ex_route_st ''key'' (q_auth ex_request) = Allowed v"
proof -
  have "ex_route \<in> set routes" "(r_method ex_route, r_path ex_route) \<notin> set anonymous" by code_simp+
  moreover have "admits plain_prims False (quiet 0) ex_route_st ''key'' [] ex_request ex_route
      (Some (ex_account 1 ''alice'' RoleUser))"
    by code_simp
  moreover have "nodes (adb ex_route_st) = []" by (simp add: ex_route_st_def empty_db_def)
  ultimately show ?thesis
    using other_routes_authenticated [of ex_route plain_prims False "quiet 0" ex_route_st "''key''" "[]" ex_request
        "Some (ex_account 1 ''alice'' RoleUser)"] by auto
qed

text \<open>Exporting the backup key leaves no trace in the audit log: the route is a
  \<^verbatim>\<open>GET\<close>, and the audit middleware writes nothing for those.\<close>

theorem key_export_unaudited:
  "\<exists>r \<in> set routes. r_path r = ''/api/v1/admin/backup-key/export''
     \<and> AuditLog unmarshal parse e ids d (r_method r) (r_path r) ip user bytes = d"
proof -
  have "ex_export \<in> set routes" by code_simp
  then show ?thesis by (intro bexI [of _ ex_export]) (auto simp: ex_export_def AuditLog_def)
qed

end
