(* ===== verification/Cron.thy ===== *)
theory Cron
  imports Prelude "HOL-Library.While_Combinator"
begin

text \<open>
  \<^verbatim>\<open>services/cron.go\<close>: five-field cron expressions and the search for the next
  matching minute.  Go's \<^verbatim>\<open>int\<close> has 64 bits, so the counting loop of a field wraps
  around; the search is the loop of the source over whole minutes.  An instant is the
  number of nanoseconds since the epoch; the offset of the local time zone at an instant
  is the argument \<open>tz\<close>.  Error texts end before the value a \<^verbatim>\<open>%q\<close> or \<^verbatim>\<open>%d\<close>
  would print.
\<close>

section \<open>The calendar\<close>

definition days_of :: "(int \<Rightarrow> int) \<Rightarrow> int \<Rightarrow> int" where
  "days_of tz t = (t + tz t) div (24 * hour)"

definition hour_of :: "(int \<Rightarrow> int) \<Rightarrow> int \<Rightarrow> int" where
  "hour_of tz t = (t + tz t) mod (24 * hour) div hour"

definition minute_of :: "(int \<Rightarrow> int) \<Rightarrow> int \<Rightarrow> int" where
  "minute_of tz t = (t + tz t) mod hour div minute"

definition weekday_of :: "(int \<Rightarrow> int) \<Rightarrow> int \<Rightarrow> int" where
  "weekday_of tz t = (days_of tz t + 4) mod 7"

text \<open>The civil date of a day number, in eras of 400 years that start on the first of
  March.\<close>

definition civil :: "int \<Rightarrow> int \<times> int \<times> int" where
  "civil z =
     (let z' = z + 719468; era = z' div 146097; doe = z' mod 146097;
          yoe = (doe - doe div 1460 + doe div 36524 - doe div 146096) div 365;
          doy = doe - (365 * yoe + yoe div 4 - yoe div 100);
          mp = (5 * doy + 2) div 153;
          d = doy - (153 * mp + 2) div 5 + 1;
          m = (if mp < 10 then mp + 3 else mp - 9);
          y = yoe + era * 400 + (if m \<le> 2 then 1 else 0)
      in (y, m, d))"

definition month_of :: "(int \<Rightarrow> int) \<Rightarrow> int \<Rightarrow> int" where
  "month_of tz t = fst (snd (civil (days_of tz t)))"

definition day_of :: "(int \<Rightarrow> int) \<Rightarrow> int \<Rightarrow> int" where
  "day_of tz t = snd (snd (civil (days_of tz t)))"

section \<open>Fields\<close>

text \<open>\<^verbatim>\<open>for v := lo; v <= hi; v += step { out[v] = true }\<close>.  \<open>None\<close> would be a loop
  that does not end; \<open>cron_fill_terminates\<close> excludes it.\<close>

definition cron_fill :: "int \<Rightarrow> int \<Rightarrow> int \<Rightarrow> int list option" where
  "cron_fill lo hi step =
     map_option snd (while_option (\<lambda>(v, out). v \<le> hi) (\<lambda>(v, out). (wrap64 (v + step), v # out)) (lo, []))"

definition parse_step :: "string \<Rightarrow> (int \<times> string) result" where
  "parse_step part =
     (case cut_at (CHR ''/'') part of
        None \<Rightarrow> Inr (1, part)
      | Some (rangePart, s) \<Rightarrow>
          (case atoi s of
             None \<Rightarrow> Inl (New ''invalid step'')
           | Some n \<Rightarrow> if n < 1 then Inl (New ''invalid step'') else Inr (n, rangePart)))"

definition parse_range :: "string \<Rightarrow> int \<Rightarrow> int \<Rightarrow> (int \<times> int) result" where
  "parse_range rangePart mn mx =
     (if rangePart = ''*'' then Inr (mn, mx)
      else (case cut_at (CHR ''-'') rangePart of
          Some (a, b) \<Rightarrow>
            (case (atoi a, atoi b) of (Some x, Some y) \<Rightarrow> Inr (x, y) | _ \<Rightarrow> Inl (New ''invalid range''))
        | None \<Rightarrow> (case atoi rangePart of None \<Rightarrow> Inl (New ''invalid value'') | Some v \<Rightarrow> Inr (v, v))))"

definition parse_part :: "int \<Rightarrow> int \<Rightarrow> string \<Rightarrow> int list result" where
  "parse_part mn mx part =
     and_then (parse_step part) (\<lambda>(step, rangePart).
     and_then (parse_range rangePart mn mx) (\<lambda>(lo, hi).
     if lo < mn \<or> hi > mx \<or> lo > hi then Inl (New ''value out of range'')
     else (case cron_fill lo hi step of None \<Rightarrow> Inl (New ''no end'') | Some out \<Rightarrow> Inr out)))"

fun parse_parts :: "int \<Rightarrow> int \<Rightarrow> string list \<Rightarrow> int list result" where
  "parse_parts mn mx [] = Inr []"
| "parse_parts mn mx (p # ps) =
     and_then (parse_part mn mx p) (\<lambda>a. and_then (parse_parts mn mx ps) (\<lambda>b. Inr (a @ b)))"

definition parseCronField :: "string \<Rightarrow> int \<Rightarrow> int \<Rightarrow> int list result" where
  "parseCronField field mn mx = parse_parts mn mx (split_on (CHR '','') field)"

section \<open>The search\<close>

record cron =
  cr_minute :: "int list"
  cr_hour :: "int list"
  cr_dom :: "int list"
  cr_month :: "int list"
  cr_dow :: "int list"
  cr_domRestricted :: bool
  cr_dowRestricted :: bool

definition parse_cron :: "string \<Rightarrow> cron result" where
  "parse_cron expr =
     (case Fields expr of
        [f0, f1, f2, f3, f4] \<Rightarrow>
          and_then (wrapping ''minute'' (parseCronField f0 0 59)) (\<lambda>mi.
          and_then (wrapping ''hour'' (parseCronField f1 0 23)) (\<lambda>ho.
          and_then (wrapping ''day-of-month'' (parseCronField f2 1 31)) (\<lambda>dom.
          and_then (wrapping ''month'' (parseCronField f3 1 12)) (\<lambda>mo.
          and_then (wrapping ''day-of-week'' (parseCronField f4 0 7)) (\<lambda>dow.
          Inr \<lparr>cr_minute = mi, cr_hour = ho, cr_dom = dom, cr_month = mo,
               cr_dow = (if 7 \<in> set dow then 0 # dow else dow),
               cr_domRestricted = (f2 \<noteq> ''*''), cr_dowRestricted = (f4 \<noteq> ''*'')\<rparr>)))))
      | _ \<Rightarrow> Inl (New ''cron expression must have 5 fields''))"

definition dayMatches :: "cron \<Rightarrow> int \<Rightarrow> int \<Rightarrow> bool" where
  "dayMatches c day wday =
     (let dMatch = (day \<in> set (cr_dom c)); wMatch = (wday \<in> set (cr_dow c))
      in if cr_domRestricted c \<and> cr_dowRestricted c then dMatch \<or> wMatch
         else if cr_domRestricted c then dMatch
         else if cr_dowRestricted c then wMatch
         else True)"

definition cron_matches :: "(int \<Rightarrow> int) \<Rightarrow> cron \<Rightarrow> int \<Rightarrow> bool" where
  "cron_matches tz c t =
     (month_of tz t \<in> set (cr_month c) \<and> dayMatches c (day_of tz t) (weekday_of tz t)
      \<and> hour_of tz t \<in> set (cr_hour c) \<and> minute_of tz t \<in> set (cr_minute c))"

function cron_search :: "(int \<Rightarrow> int) \<Rightarrow> cron \<Rightarrow> int \<Rightarrow> int \<Rightarrow> int option" where
  "cron_search tz c limit t =
     (if t < limit
      then (if cron_matches tz c t then Some t else cron_search tz c limit (t + minute))
      else None)"
  by pat_completeness auto
termination
  by (relation "measure (\<lambda>(tz, c, limit, t). nat (limit - t))") (auto simp: duration_defs)

declare cron_search.simps [simp del]

definition nextCronTime :: "(int \<Rightarrow> int) \<Rightarrow> string \<Rightarrow> int \<Rightarrow> int result" where
  "nextCronTime tz expr after =
     and_then (parse_cron expr) (\<lambda>c.
     case cron_search tz c (after + 367 * 24 * hour) (after - after mod minute + minute) of
       Some t \<Rightarrow> Inr t
     | None \<Rightarrow> Inl (New ''no matching time within a year''))"

section \<open>The counting loop\<close>

text \<open>A step so large that the sum overflows takes the counter from \<open>v\<close> below zero and, with
  the next addition, to \<open>v - 2 * (2 ^ 63 - step)\<close>: it falls by at least two each time, until an
  addition no longer overflows and leaves the range.\<close>

definition fill_inv :: "int \<Rightarrow> int \<Rightarrow> bool" where
  "fill_inv step v = ((0 \<le> v \<and> v \<le> max_int) \<or> (v < 0 \<and> - 200 \<le> v) \<or>
     (v < - 200 \<and> min_int \<le> v \<and> v + step \<le> 98 \<and> - 200 \<le> v + step))"

definition fill_measure :: "int \<Rightarrow> int \<Rightarrow> int \<Rightarrow> nat" where
  "fill_measure hi step v =
     (if hi < v then 0
      else if step \<le> 1000 then nat (hi - v + 1)
      else if hi < wrap64 (v + step) then 1
      else if 0 \<le> v then nat (2 * (v + 500) + 4)
      else nat (2 * (v + step + 500) + 5))"

lemma wrap64_cases:
  assumes "min_int \<le> v" "v \<le> max_int" "1 \<le> step" "step \<le> max_int"
  shows "wrap64 (v + step) = (if v + step \<le> max_int then v + step else v + step - 18446744073709551616)"
  using assms wrap64_id [of "v + step"] wrap64_over [of "v + step"] by (auto simp: max_int_def min_int_def)

lemma fill_inv_range: "fill_inv step v \<Longrightarrow> min_int \<le> v \<and> v \<le> max_int"
  by (auto simp: fill_inv_def max_int_def min_int_def)

lemma fill_inv_step:
  assumes "fill_inv step v" and "v \<le> hi" and "hi \<le> 98" and "1 \<le> step" and "step \<le> max_int"
  shows "fill_inv step (wrap64 (v + step))"
proof (cases "v + step \<le> max_int")
  case True
  then have "wrap64 (v + step) = v + step"
    using assms fill_inv_range [of step v] by (simp add: wrap64_cases)
  with assms True show ?thesis by (auto simp: fill_inv_def)
next
  case False
  then have "wrap64 (v + step) = v + step - 18446744073709551616"
    using assms fill_inv_range [of step v] by (simp add: wrap64_cases)
  with assms False show ?thesis by (auto simp: fill_inv_def max_int_def min_int_def)
qed

lemma fill_measure_big:
  assumes "1000 < step" and "step \<le> max_int" and "fill_inv step v" and "v \<le> hi" and "0 \<le> hi" and "hi \<le> 98"
  shows "fill_measure hi step (wrap64 (v + step)) < fill_measure hi step v"
proof -
  let ?w = "wrap64 (v + step)"
  have w: "?w = (if v + step \<le> max_int then v + step else v + step - 18446744073709551616)"
    using assms fill_inv_range [of step v] by (intro wrap64_cases) auto
  show ?thesis
  proof (cases "hi < ?w")
    case True
    with assms show ?thesis by (simp add: fill_measure_def)
  next
    case False
    have v: "0 \<le> v \<and> max_int < v + step \<or> v < - 200"
      using False assms w by (auto simp: fill_inv_def split: if_splits)
    have w2: "wrap64 (?w + step) = (if ?w + step \<le> max_int then ?w + step else ?w + step - 18446744073709551616)"
      using assms wrap64_range [of "v + step"] by (intro wrap64_cases) auto
    from v show ?thesis
    proof
      assume "0 \<le> v \<and> max_int < v + step"
      then have n: "?w = v + step - 18446744073709551616" and "0 \<le> v" "?w < 0" "?w + step \<le> v - 2" "- 98 \<le> ?w + step"
        using w assms by (auto simp: max_int_def)
      then have "fill_measure hi step v = nat (2 * (v + 500) + 4)"
        using False assms by (simp add: fill_measure_def)
      moreover have "fill_measure hi step ?w \<le> nat (2 * (?w + step + 500) + 5)"
        using \<open>?w < 0\<close> \<open>- 98 \<le> ?w + step\<close> assms by (auto simp: fill_measure_def)
      ultimately show ?thesis using \<open>0 \<le> v\<close> \<open>?w + step \<le> v - 2\<close> \<open>- 98 \<le> ?w + step\<close> by simp
    next
      assume neg: "v < - 200"
      then have n: "?w = v + step" "- 200 \<le> ?w" "?w \<le> 98"
        using w assms by (auto simp: fill_inv_def max_int_def)
      have "fill_measure hi step v = nat (2 * (?w + 500) + 5)"
        using neg False assms n by (simp add: fill_measure_def)
      moreover have "fill_measure hi step ?w \<le> nat (2 * (?w + 500) + 4)"
      proof (cases "0 \<le> ?w")
        case True
        then show ?thesis using assms by (auto simp: fill_measure_def)
      next
        case neg2: False
        then have "hi < wrap64 (?w + step)" using w2 assms n by (auto simp: max_int_def)
        then show ?thesis using n assms(1) by (auto simp: fill_measure_def)
      qed
      ultimately show ?thesis using n by simp
    qed
  qed
qed

lemma fill_measure_less:
  assumes "fill_inv step v" and "v \<le> hi" and "0 \<le> hi" and "hi \<le> 98" and "1 \<le> step" and "step \<le> max_int"
  shows "fill_measure hi step (wrap64 (v + step)) < fill_measure hi step v"
proof (cases "step \<le> 1000")
  case True
  have "v + step \<le> max_int" using assms True by (simp add: max_int_def)
  then have "wrap64 (v + step) = v + step"
    using assms fill_inv_range [of step v] by (simp add: wrap64_cases)
  with assms True show ?thesis by (simp add: fill_measure_def)
next
  case False
  with assms show ?thesis by (intro fill_measure_big) auto
qed

lemma cron_fill_terminates:
  assumes "0 \<le> lo" and "lo \<le> hi" and "hi \<le> 98" and "1 \<le> step" and "step \<le> max_int"
  shows "\<exists>out. cron_fill lo hi step = Some out"
proof -
  let ?b = "\<lambda>(v :: int, out :: int list). v \<le> hi" and ?c = "\<lambda>(v, out). (wrap64 (v + step), v # out)"
  have "\<exists>t. while_option ?b ?c (lo, []) = Some t"
  proof (rule measure_while_option_Some [where P = "\<lambda>(v, out). fill_inv step v"
        and f = "\<lambda>(v, out). fill_measure hi step v"])
    fix s :: "int \<times> int list" assume "case s of (v, out) \<Rightarrow> fill_inv step v" "?b s"
    then show "(case ?c s of (v, out) \<Rightarrow> fill_inv step v)
        \<and> (case ?c s of (v, out) \<Rightarrow> fill_measure hi step v) < (case s of (v, out) \<Rightarrow> fill_measure hi step v)"
      using fill_inv_step fill_measure_less assms by (auto split: prod.splits)
  next
    show "case (lo, []) of (v, out) \<Rightarrow> fill_inv step v"
      using assms by (auto simp: fill_inv_def max_int_def)
  qed
  then show ?thesis by (auto simp: cron_fill_def)
qed

text \<open>With a step that cannot overflow the field holds exactly the multiples of the step
  from \<open>lo\<close> up to \<open>hi\<close>.\<close>

definition stepped :: "int \<Rightarrow> int \<Rightarrow> int \<Rightarrow> int set" where
  "stepped lo hi step = {v. lo \<le> v \<and> v \<le> hi \<and> (v - lo) mod step = 0}"

lemma cron_fill_set:
  assumes "0 \<le> lo" and "lo \<le> hi" and "hi \<le> 98" and "1 \<le> step" and "step + hi \<le> max_int"
    and "cron_fill lo hi step = Some out"
  shows "set out = stepped lo hi step"
proof -
  let ?b = "\<lambda>(v, out). v \<le> hi" and ?c = "\<lambda>(v, out). (wrap64 (v + step), v # out)"
  let ?P = "\<lambda>(v, out). lo \<le> v \<and> (v - lo) mod step = 0
      \<and> set out = {x. lo \<le> x \<and> x < v \<and> (x - lo) mod step = 0} \<and> (\<forall>x \<in> set out. x \<le> hi)"
  from assms(6) obtain v where t: "while_option ?b ?c (lo, []) = Some (v, out)"
    by (auto simp: cron_fill_def)
  have "?P (v, out)"
  proof (rule while_option_rule [OF _ t])
    show "?P (lo, [])" by auto
  next
    fix s assume P: "?P s" and b: "?b s"
    obtain x out where s: "s = (x, out)" by (cases s)
    with P b have x: "lo \<le> x" "x \<le> hi" "(x - lo) mod step = 0"
        "set out = {y. lo \<le> y \<and> y < x \<and> (y - lo) mod step = 0}" "\<forall>y \<in> set out. y \<le> hi" by auto
    have w: "wrap64 (x + step) = x + step"
      using x assms by (intro wrap64_id) (auto simp: min_int_def)
    have m: "(x + step - lo) mod step = 0" using x(3) by (metis add.commute add_diff_eq mod_add_self1)
    have "y = x" if "x \<le> y" "y < x + step" "(y - lo) mod step = 0" for y
    proof -
      have "(y - x) mod step = 0" using that x(3) by (metis diff_diff_eq2 diff_add_cancel mod_diff_eq mod_0 diff_self add_diff_cancel)
      moreover have "(y - x) mod step = y - x" using that by (intro mod_pos_pos_trivial) auto
      ultimately show ?thesis by simp
    qed
    then have "{y. lo \<le> y \<and> y < x + step \<and> (y - lo) mod step = 0}
        = insert x {y. lo \<le> y \<and> y < x \<and> (y - lo) mod step = 0}"
      using x(1,3) assms(4) by (intro set_eqI iffI) (auto intro: leI simp del: mod_0_imp_dvd)
    then have "insert x (set out) = {y. lo \<le> y \<and> y < x + step \<and> (y - lo) mod step = 0}"
      using x(4) by simp
    with x w m assms(4) show "?P (?c s)" by (auto simp: s)
  qed
  moreover have "\<not> v \<le> hi" using while_option_stop [OF t] by simp
  ultimately show ?thesis by (force simp: stepped_def)
qed

lemma atoi_range: "atoi s = Some n \<Longrightarrow> n \<le> max_int"
  by (auto simp: atoi_def Let_def split: list.splits if_splits)

lemma parse_step_Inr: "parse_step p = Inr (n, r) \<Longrightarrow> 1 \<le> n \<and> n \<le> max_int"
  by (auto simp: parse_step_def max_int_def split: option.splits if_splits prod.splits
      dest: atoi_range [unfolded max_int_def])

section \<open>The search\<close>

lemma minute_pos: "0 < minute"
  by (simp add: duration_defs)

lemma cron_search_Some:
  "cron_search tz c limit t = Some r \<Longrightarrow>
     r < limit \<and> cron_matches tz c r \<and> t \<le> r \<and> (r - t) mod minute = 0
     \<and> (\<forall>s. t \<le> s \<and> s < r \<and> (s - t) mod minute = 0 \<longrightarrow> \<not> cron_matches tz c s)"
proof (induction tz c limit t rule: cron_search.induct)
  case (1 tz c limit t)
  show ?case
  proof (cases "cron_matches tz c t")
    case True
    with "1.prems" have "t < limit" "r = t" by (auto simp: cron_search.simps [of _ _ _ t] split: if_splits)
    with True show ?thesis by auto
  next
    case False
    with "1.prems" have t: "t < limit" "cron_search tz c limit (t + minute) = Some r"
      by (auto simp: cron_search.simps [of _ _ _ t] split: if_splits)
    from "1.IH" [OF t(1) False t(2)] have ih: "r < limit" "cron_matches tz c r" "t + minute \<le> r"
        "(r - (t + minute)) mod minute = 0"
        "\<And>s. t + minute \<le> s \<Longrightarrow> s < r \<Longrightarrow> (s - (t + minute)) mod minute = 0 \<Longrightarrow> \<not> cron_matches tz c s" by auto
    have shift: "(x - (t + minute)) mod minute = (x - t) mod minute" for x
      by (metis diff_diff_eq minus_mod_self2)
    have "\<not> cron_matches tz c s" if "t \<le> s" "s < r" "(s - t) mod minute = 0" for s
    proof (cases "s < t + minute")
      case True
      with that have "(s - t) mod minute = s - t" by (intro mod_pos_pos_trivial) auto
      with that False show ?thesis by simp
    next
      case F: False
      with that ih(5) shift show ?thesis by simp
    qed
    with ih shift minute_pos show ?thesis by simp
  qed
qed

lemma cron_search_None:
  "cron_search tz c limit t = None \<Longrightarrow> t \<le> s \<Longrightarrow> s < limit \<Longrightarrow> (s - t) mod minute = 0 \<Longrightarrow> \<not> cron_matches tz c s"
proof (induction tz c limit t rule: cron_search.induct)
  case (1 tz c limit t)
  from "1.prems" have lt: "t < limit" by simp
  with "1.prems"(1) have t: "\<not> cron_matches tz c t" "cron_search tz c limit (t + minute) = None"
    by (auto simp: cron_search.simps [of _ _ _ t] split: if_splits)
  show ?case
  proof (cases "s < t + minute")
    case True
    with "1.prems" have "(s - t) mod minute = s - t" by (intro mod_pos_pos_trivial) auto
    with "1.prems" t(1) show ?thesis by simp
  next
    case False
    moreover have "(s - (t + minute)) mod minute = 0"
      using "1.prems"(4) by (metis diff_diff_eq minus_mod_self2)
    ultimately show ?thesis using "1.IH" [OF lt t(1) t(2)] "1.prems" by simp
  qed
qed

lemma first_minute:
  fixes after s :: int
  assumes "s mod minute = 0" and "after < s"
  shows "after - after mod minute + minute \<le> s \<and> (s - (after - after mod minute + minute)) mod minute = 0"
proof -
  have a: "after - after mod minute = minute * (after div minute)" by (simp add: minus_mod_eq_mult_div)
  have s: "s = minute * (s div minute)" using assms(1) by (metis add.right_neutral mult_div_mod_eq)
  have "after div minute < s div minute"
  proof (rule ccontr)
    assume "\<not> ?thesis"
    then have "minute * (s div minute) \<le> minute * (after div minute)"
      using minute_pos by (simp add: mult_le_cancel_left)
    also have "\<dots> \<le> after" using minute_pos by (metis a minus_mod_eq_mult_div pos_mod_sign diff_le_eq le_add_same_cancel1 add.commute)
    finally show False using s assms(2) by simp
  qed
  then have "minute * (after div minute + 1) \<le> minute * (s div minute)"
    using minute_pos by (intro mult_left_mono) auto
  moreover have "(s - (after - after mod minute + minute)) mod minute = 0"
    unfolding a by (metis a assms(1) diff_diff_eq minus_mod_self2 mod_diff_right_eq mod_mult_self1_is_0 diff_zero)
  ultimately show ?thesis using s a by (simp add: distrib_left)
qed

lemma start_after: "after < after - after mod minute + minute"
  using minute_pos pos_mod_bound [of minute after] by simp

lemma start_mod: "(after - after mod minute + minute) mod minute = (0 :: int)"
  by (simp add: minus_mod_eq_mult_div)

section \<open>Properties\<close>

text \<open>[C12] For a valid expression \<^verbatim>\<open>nextCronTime\<close> returns the first whole minute strictly
  after the given instant that matches, and an error exactly when no minute of the following
  367 days matches.\<close>

theorem next_cron_time_earliest:
  assumes "parse_cron expr = Inr c"
  shows "case nextCronTime tz expr after of
      Inr t \<Rightarrow> after < t \<and> t < after + 367 * 24 * hour \<and> t mod minute = 0 \<and> cron_matches tz c t
        \<and> (\<forall>s. after < s \<and> s < t \<and> s mod minute = 0 \<longrightarrow> \<not> cron_matches tz c s)
    | Inl _ \<Rightarrow> (\<forall>s. after < s \<and> s < after + 367 * 24 * hour \<and> s mod minute = 0 \<longrightarrow> \<not> cron_matches tz c s)"
proof (cases "cron_search tz c (after + 367 * 24 * hour) (after - after mod minute + minute)")
  case None
  then have "nextCronTime tz expr after = Inl (New ''no matching time within a year'')"
    by (simp add: nextCronTime_def assms)
  with None first_minute cron_search_None show ?thesis by auto
next
  case (Some t)
  then have n: "nextCronTime tz expr after = Inr t" by (simp add: nextCronTime_def assms)
  note t = cron_search_Some [OF Some]
  then have "t mod minute = 0"
    using start_mod [of after] by (metis diff_add_cancel mod_add_eq add_0 mod_0)
  with t n start_after [of after] first_minute show ?thesis by fastforce
qed

theorem next_cron_time_earliest_witness:
  "\<exists>c. parse_cron ''*/15 0 1 * *'' = Inr c
     \<and> nextCronTime (\<lambda>_. 0) ''*/15 0 1 * *'' 1740788000000000000 = Inr 1740788100000000000
     \<and> cron_matches (\<lambda>_. 0) c 1740788100000000000 \<and> \<not> cron_matches (\<lambda>_. 0) c 1740788040000000000"
proof -
  have "is_ok (parse_cron ''*/15 0 1 * *'')" by code_simp
  then obtain c where c: "parse_cron ''*/15 0 1 * *'' = Inr c" by (auto simp: is_ok_conv)
  have n: "nextCronTime (\<lambda>_. 0) ''*/15 0 1 * *'' 1740788000000000000 = Inr 1740788100000000000" by code_simp
  have "cron_matches (\<lambda>_. 0) c 1740788100000000000" "\<not> cron_matches (\<lambda>_. 0) c 1740788040000000000"
    using next_cron_time_earliest [OF c, where tz = "\<lambda>_. 0" and after = 1740788000000000000] n
    by (simp_all add: duration_defs)
  with c n show ?thesis by blast
qed

text \<open>[C13] One part of a field: a value, a range or a star with an optional step, within
  the bounds of the field, always parses (the counting loop ends even when it overflows), and
  unless the step overflows it selects exactly the values of the range that are a multiple of
  the step away from its start.\<close>

theorem cron_part_meaning:
  assumes "parse_step part = Inr (step, r)" and "parse_range r mn mx = Inr (lo, hi)"
    and "mn \<le> lo" and "lo \<le> hi" and "hi \<le> mx" and "0 \<le> mn" and "mx \<le> 59"
  shows "\<exists>out. parse_part mn mx part = Inr out \<and> (step + hi \<le> max_int \<longrightarrow> set out = stepped lo hi step)"
proof -
  note s = parse_step_Inr [OF assms(1)]
  then obtain out where out: "cron_fill lo hi step = Some out"
    using cron_fill_terminates [of lo hi step] assms by auto
  with assms have "parse_part mn mx part = Inr out" by (simp add: parse_part_def)
  moreover have "set out = stepped lo hi step" if "step + hi \<le> max_int"
    using cron_fill_set [OF _ _ _ _ that out] s assms by simp
  ultimately show ?thesis by blast
qed

theorem cron_part_meaning_witness:
  "\<exists>out. parse_part 0 59 ''10-30/10'' = Inr out \<and> set out = stepped 10 30 10"
proof -
  have "parse_step ''10-30/10'' = Inr (10, ''10-30'')" "parse_range ''10-30'' 0 59 = Inr (10, 30)"
    by code_simp+
  from cron_part_meaning [OF this] show ?thesis by (simp add: max_int_def)
qed

text \<open>A step near the largest 64-bit integer overflows the counter, and the field also
  matches values that are not in the range: the minute field \<^verbatim>\<open>5/9223372036854775807\<close>
  selects minute 3 and minute 1 besides minute 5.\<close>

theorem cron_step_overflow:
  "\<exists>out. parseCronField ''5/9223372036854775807'' 0 59 = Inr out \<and> {1, 3, 5} \<subseteq> set out
     \<and> stepped 5 5 9223372036854775807 = {5}"
proof -
  have "case parseCronField ''5/9223372036854775807'' 0 59 of Inr out \<Rightarrow> list_all (\<lambda>v. v \<in> set out) [1, 3, 5] | Inl _ \<Rightarrow> False"
    by code_simp
  then obtain out where "parseCronField ''5/9223372036854775807'' 0 59 = Inr out" "{1, 3, 5} \<subseteq> set out"
    by (cases "parseCronField ''5/9223372036854775807'' 0 59") auto
  moreover have "stepped 5 5 9223372036854775807 = {5}" by (auto simp: stepped_def)
  ultimately show ?thesis by blast
qed

definition leap_free :: "int \<Rightarrow> int \<Rightarrow> bool" where
  "leap_free a b = list_all (\<lambda>z. snd (civil z) \<noteq> (2, 29)) [a..b]"

lemma leap_free_spring: "leap_free 20148 20240" by code_simp
lemma leap_free_summer: "leap_free 20241 20330" by code_simp
lemma leap_free_autumn: "leap_free 20331 20420" by code_simp
lemma leap_free_winter: "leap_free 20421 20515" by code_simp

lemma leap_free_day: "leap_free a b \<Longrightarrow> a \<le> z \<Longrightarrow> z \<le> b \<Longrightarrow> snd (civil z) \<noteq> (2, 29)"
  by (simp add: leap_free_def list_all_iff)

lemma no_leap_day:
  assumes "20148 \<le> z" and "z \<le> 20515"
  shows "snd (civil z) \<noteq> (2, 29)"
proof -
  consider "z \<le> 20240" | "20241 \<le> z \<and> z \<le> 20330" | "20331 \<le> z \<and> z \<le> 20420" | "20421 \<le> z"
    by linarith
  then show ?thesis
    using assms leap_free_day [OF leap_free_spring] leap_free_day [OF leap_free_summer]
      leap_free_day [OF leap_free_autumn] leap_free_day [OF leap_free_winter] by cases blast+
qed

text \<open>The search stops after 367 days, so an expression that matches only on leap days
  is rejected in most years: on 1 March 2025 \<^verbatim>\<open>0 0 29 2 *\<close> is an error, although
  29 February 2028 matches.\<close>

theorem leap_day_rejected:
  "nextCronTime (\<lambda>_. 0) ''0 0 29 2 *'' (20148 * 24 * hour) = Inl (New ''no matching time within a year'')
   \<and> (\<exists>c. parse_cron ''0 0 29 2 *'' = Inr c \<and> cron_matches (\<lambda>_. 0) c (21243 * 24 * hour))"
proof
  let ?expr = "''0 0 29 2 *''"
  have parsed: "parse_cron ?expr = Inr \<lparr>cr_minute = [0], cr_hour = [0], cr_dom = [29], cr_month = [2],
      cr_dow = 0 # [7,6,5,4,3,2,1,0], cr_domRestricted = True, cr_dowRestricted = False\<rparr>" (is "_ = Inr ?c")
    by code_simp
  have "cron_matches (\<lambda>_. 0) ?c (21243 * 24 * hour)" by code_simp
  with parsed show "\<exists>c. parse_cron ?expr = Inr c \<and> cron_matches (\<lambda>_. 0) c (21243 * 24 * hour)" by blast
  have "\<not> cron_matches (\<lambda>_. 0) ?c t" if "20148 * 24 * hour < t" "t < 20148 * 24 * hour + 367 * 24 * hour" for t
  proof -
    have "20148 \<le> t div (24 * hour)" "t div (24 * hour) \<le> 20515"
      using that by (auto simp: duration_defs)
    then have "snd (civil (days_of (\<lambda>_. 0) t)) \<noteq> (2, 29)"
      using no_leap_day [of "t div (24 * hour)"] unfolding days_of_def by simp
    then show ?thesis
      by (auto simp: cron_matches_def dayMatches_def month_of_def day_of_def prod_eq_iff)
  qed
  then have "cron_search (\<lambda>_. 0) ?c (20148 * 24 * hour + 367 * 24 * hour)
      (20148 * 24 * hour - 20148 * 24 * hour mod minute + minute) = None" (is "?search = None")
    using start_after [of "20148 * 24 * hour"] cron_search_Some
    by (cases ?search) fastforce+
  then show "nextCronTime (\<lambda>_. 0) ?expr (20148 * 24 * hour) = Inl (New ''no matching time within a year'')"
    unfolding nextCronTime_def parsed by simp
qed

end
