(* ===== verification/Players.thy ===== *)
theory Players
  imports Models
begin

text \<open>
  \<^verbatim>\<open>services/player_service.go\<close> and \<^verbatim>\<open>services/network_player_service.go\<close>:
  players and their sessions, bans on one server and on the whole network, and
  the console lines these operations queue for the node daemons.  A statement
  of \<^verbatim>\<open>closeOpenSessions\<close> closes sessions and credits their duration in one
  step; \<open>RecordPlayerEvent\<close> is one transaction.  Ids the database draws are
  arguments.
\<close>

section \<open>Errors and names\<close>

abbreviation ErrPlayerNotFound :: go_error where
  "ErrPlayerNotFound \<equiv> New ''player not found''"
abbreviation ErrUnsafePlayerName :: go_error where
  "ErrUnsafePlayerName \<equiv> New ''player username contains unsafe characters''"

definition name_char :: "char \<Rightarrow> bool" where
  "name_char c = (is_upper c \<or> is_lower c \<or> is_digit c \<or> c = CHR ''_'')"

definition isSafePlayerName :: "string \<Rightarrow> bool" where
  "isSafePlayerName name = (1 \<le> length name \<and> length name \<le> 32 \<and> list_all name_char name)"

section \<open>The command queue\<close>

text \<open>The row an \<^verbatim>\<open>INSERT INTO node_commands\<close> adds; the statement fails on a
  duplicate id and on a node or server that does not exist.\<close>

definition new_command :: "env \<Rightarrow> uuid \<Rightarrow> uuid \<Rightarrow> uuid \<Rightarrow> string \<Rightarrow> json \<Rightarrow> NodeCommand" where
  "new_command e newID nodeID serverID ctype payload =
     \<lparr>c_ID = newID, c_NodeID = nodeID, c_ServerID = Some serverID, c_CommandType = ctype,
      c_Payload = payload, c_Status = ''pending'', c_Result = None, c_CreatedAt = now e,
      c_AckedAt = None\<rparr>"

definition insert_command ::
  "env \<Rightarrow> string \<Rightarrow> uuid \<Rightarrow> db \<Rightarrow> uuid \<Rightarrow> uuid \<Rightarrow> string \<Rightarrow> json \<Rightarrow> db result" where
  "insert_command e label newID d nodeID serverID ctype payload =
     (if fault e label \<or> (\<exists>c \<in> set (node_commands d). c_ID c = newID)
         \<or> (\<forall>n \<in> set (nodes d). n_ID n \<noteq> nodeID) \<or> find_server d serverID = None
      then Inl (Driver label)
      else Inr (d\<lparr>node_commands := node_commands d @ [new_command e newID nodeID serverID ctype payload]\<rparr>))"

definition cmd_payload :: "string \<Rightarrow> json" where
  "cmd_payload cmd = JObj [(''cmd'', JStr cmd)]"

text \<open>\<^verbatim>\<open>INSERT ... SELECT\<close> over the servers \<open>svs\<close>, the \<open>k\<close>-th row with id \<open>ids k\<close>.\<close>

definition insert_commands ::
  "env \<Rightarrow> string \<Rightarrow> (nat \<Rightarrow> uuid) \<Rightarrow> db \<Rightarrow> Server list \<Rightarrow> json \<Rightarrow> db result" where
  "insert_commands e label ids d svs payload =
     (let rows = map (\<lambda>(k, sv). new_command e (ids k) (sv_NodeID sv) (sv_ID sv) ''send_command'' payload)
            (zip [0..<length svs] svs)
      in if fault e label \<or> \<not> distinct (map c_ID (node_commands d @ rows))
         then Inl (Driver label)
         else Inr (d\<lparr>node_commands := node_commands d @ rows\<rparr>))"

definition enqueueConsoleCommand :: "env \<Rightarrow> uuid \<Rightarrow> db \<Rightarrow> uuid \<Rightarrow> uuid \<Rightarrow> string \<Rightarrow> db" where
  "enqueueConsoleCommand e newID d nodeID serverID cmd =
     (case insert_command e ''enqueueConsoleCommand'' newID d nodeID serverID ''send_command'' (cmd_payload cmd) of
        Inl _ \<Rightarrow> d
      | Inr d' \<Rightarrow> d')"

definition fanOutConsoleCommand :: "env \<Rightarrow> (nat \<Rightarrow> uuid) \<Rightarrow> db \<Rightarrow> string \<Rightarrow> db" where
  "fanOutConsoleCommand e ids d cmd =
     (case insert_commands e ''fanOutConsoleCommand'' ids d (servers d) (cmd_payload cmd) of
        Inl _ \<Rightarrow> d
      | Inr d' \<Rightarrow> d')"

section \<open>Sessions\<close>

text \<open>\<^verbatim>\<open>EXTRACT(EPOCH FROM NOW() - joined_at)::INT\<close>, rounded to whole seconds;
  the cast fails outside 32 bits.\<close>

definition session_length :: "env \<Rightarrow> PlayerSession \<Rightarrow> int" where
  "session_length e s = (now e - ps_JoinedAt s + second div 2) div second"

definition open_session :: "PlayerSession \<Rightarrow> bool" where
  "open_session s = (ps_LeftAt s = None)"

definition credited :: "env \<Rightarrow> PlayerSession \<Rightarrow> int" where
  "credited e s = max 0 (session_length e s)"

definition closeOpenSessions :: "env \<Rightarrow> string \<Rightarrow> (PlayerSession \<Rightarrow> bool) \<Rightarrow> db \<Rightarrow> db result" where
  "closeOpenSessions e label wh d =
     (let p = (\<lambda>s. open_session s \<and> wh s)
      in if fault e label \<or> (\<exists>s \<in> set (player_sessions d). p s \<and> \<bar>session_length e s\<bar> > 2147483647)
         then Inl (Wrap ''closing player sessions'' (Driver label))
         else Inr (d\<lparr>player_sessions :=
                update_where p (\<lambda>s. s\<lparr>ps_LeftAt := Some (now e), ps_DurationS := Some (credited e s)\<rparr>)
                  (player_sessions d),
              players := map (\<lambda>pl. case List.find (\<lambda>s. p s \<and> ps_PlayerID s = pl_ID pl) (player_sessions d) of
                  None \<Rightarrow> pl
                | Some s \<Rightarrow> pl\<lparr>pl_PlaytimeS := pl_PlaytimeS pl + credited e s\<rparr>) (players d)\<rparr>))"

definition find_player :: "db \<Rightarrow> uuid \<Rightarrow> uuid \<Rightarrow> Player option" where
  "find_player d serverID hytaleUUID =
     List.find (\<lambda>p. pl_ServerID p = serverID \<and> pl_HytaleUUID p = hytaleUUID) (players d)"

text \<open>The upsert of a join: \<open>newID\<close> is the id of a new row.\<close>

definition upsert_player :: "env \<Rightarrow> uuid \<Rightarrow> db \<Rightarrow> uuid \<Rightarrow> uuid \<Rightarrow> string \<Rightarrow> (uuid \<times> db) result" where
  "upsert_player e newID d serverID hytaleUUID username =
     (case find_player d serverID hytaleUUID of
        Some p \<Rightarrow> if fault e ''RecordPlayerEvent.join'' then Inl (Driver ''RecordPlayerEvent.join'')
          else Inr (pl_ID p, d\<lparr>players := update_where (\<lambda>q. pl_ServerID q = serverID \<and> pl_HytaleUUID q = hytaleUUID)
              (\<lambda>q. q\<lparr>pl_Username := username, pl_LastSeen := Some (now e)\<rparr>) (players d)\<rparr>)
      | None \<Rightarrow> if fault e ''RecordPlayerEvent.join'' \<or> find_server d serverID = None
            \<or> (\<exists>q \<in> set (players d). pl_ID q = newID)
          then Inl (Driver ''RecordPlayerEvent.join'')
          else Inr (newID, d\<lparr>players := players d @ [\<lparr>pl_ID = newID, pl_ServerID = serverID,
              pl_HytaleUUID = hytaleUUID, pl_Username = username, pl_FirstSeen = now e,
              pl_LastSeen = Some (now e), pl_PlaytimeS = 0, pl_IsWhitelisted = False,
              pl_IsBanned = False, pl_BanReason = None, pl_BannedAt = None, pl_BannedBy = None,
              pl_IsOp = False, pl_IsMuted = False\<rparr>]\<rparr>))"

text \<open>A new open session; the partial unique index admits one per player.\<close>

definition insert_player_session :: "env \<Rightarrow> uuid \<Rightarrow> db \<Rightarrow> uuid \<Rightarrow> db result" where
  "insert_player_session e newID d playerID =
     (if fault e ''RecordPlayerEvent.session'' \<or> (\<exists>s \<in> set (player_sessions d). ps_ID s = newID)
         \<or> (\<exists>s \<in> set (player_sessions d). open_session s \<and> ps_PlayerID s = playerID)
         \<or> (\<forall>p \<in> set (players d). pl_ID p \<noteq> playerID)
      then Inl (Driver ''RecordPlayerEvent.session'')
      else Inr (d\<lparr>player_sessions := player_sessions d @
        [\<lparr>ps_ID = newID, ps_PlayerID = playerID, ps_JoinedAt = now e, ps_LeftAt = None, ps_DurationS = None\<rparr>]\<rparr>))"

definition enforceNetworkBanOnJoin :: "env \<Rightarrow> uuid \<Rightarrow> db \<Rightarrow> uuid \<Rightarrow> uuid \<Rightarrow> string \<Rightarrow> db result" where
  "enforceNetworkBanOnJoin e newID d serverID hytaleUUID username =
     (if \<not> isSafePlayerName username then Inr d
      else (case insert_commands e ''enforceNetworkBanOnJoin'' (\<lambda>_. newID) d
               (if \<exists>b \<in> set (network_bans d). nb_HytaleUUID b = hytaleUUID
                then filter (\<lambda>sv. sv_ID sv = serverID) (servers d) else [])
               (cmd_payload (''kick '' @ username)) of
          Inl err \<Rightarrow> Inl (Wrap ''enforcing network ban on join'' err)
        | Inr d' \<Rightarrow> Inr d'))"

text \<open>The two branches inside the transaction.\<close>

record event_ids =
  ev_player :: uuid
  ev_session :: uuid
  ev_command :: uuid

definition record_join :: "env \<Rightarrow> event_ids \<Rightarrow> db \<Rightarrow> uuid \<Rightarrow> string \<Rightarrow> uuid \<Rightarrow> db result" where
  "record_join e ids d serverID username hytaleUUID =
     and_then (wrapping ''recording player join'' (upsert_player e (ev_player ids) d serverID hytaleUUID username))
       (\<lambda>(playerID, d1).
     and_then (closeOpenSessions e ''RecordPlayerEvent.close'' (\<lambda>s. ps_PlayerID s = playerID) d1) (\<lambda>d2.
     and_then (wrapping ''opening player session'' (insert_player_session e (ev_session ids) d2 playerID)) (\<lambda>d3.
     enforceNetworkBanOnJoin e (ev_command ids) d3 serverID hytaleUUID username)))"

definition record_leave :: "env \<Rightarrow> db \<Rightarrow> uuid \<Rightarrow> uuid \<Rightarrow> db result" where
  "record_leave e d serverID hytaleUUID =
     (case find_player d serverID hytaleUUID of
        None \<Rightarrow> if fault e ''RecordPlayerEvent.leave''
          then Inl (Wrap ''recording player leave'' (Driver ''RecordPlayerEvent.leave'')) else Inr d
      | Some p \<Rightarrow> if fault e ''RecordPlayerEvent.leave''
          then Inl (Wrap ''recording player leave'' (Driver ''RecordPlayerEvent.leave''))
          else closeOpenSessions e ''RecordPlayerEvent.close'' (\<lambda>s. ps_PlayerID s = pl_ID p)
            (d\<lparr>players := update_where (\<lambda>q. pl_ServerID q = serverID \<and> pl_HytaleUUID q = hytaleUUID)
              (\<lambda>q. q\<lparr>pl_LastSeen := Some (now e)\<rparr>) (players d)\<rparr>))"

definition RecordPlayerEvent ::
  "env \<Rightarrow> event_ids \<Rightarrow> db \<Rightarrow> uuid \<Rightarrow> string \<Rightarrow> string \<Rightarrow> uuid \<Rightarrow> unit result \<times> db" where
  "RecordPlayerEvent e ids d serverID action username hytaleUUID =
     (if action \<noteq> ''join'' \<and> action \<noteq> ''leave''
      then (Inl (New (''unknown player event action: '' @ quoted action)), d)
      else if fault e ''RecordPlayerEvent.begin''
      then (Inl (Wrap ''recording player event'' (Driver ''RecordPlayerEvent.begin'')), d)
      else (case (if action = ''join'' then record_join e ids d serverID username hytaleUUID
                  else record_leave e d serverID hytaleUUID) of
          Inl err \<Rightarrow> (Inl err, d)
        | Inr d' \<Rightarrow>
            if action = ''leave'' \<and> find_player d serverID hytaleUUID = None then (Inr (), d)
            else if fault e ''RecordPlayerEvent.commit''
            then (Inl (Wrap ''recording player event'' (Driver ''RecordPlayerEvent.commit'')), d)
            else (Inr (), d')))"

section \<open>Reading players\<close>

text \<open>\<^verbatim>\<open>ORDER BY t DESC NULLS LAST\<close>.\<close>

definition desc_nulls_last :: "('r \<Rightarrow> int option) \<Rightarrow> 'r list \<Rightarrow> 'r list" where
  "desc_nulls_last t rs = sort_key (\<lambda>r. - the (t r)) (filter (\<lambda>r. t r \<noteq> None) rs) @ filter (\<lambda>r. t r = None) rs"

definition ListPlayers :: "env \<Rightarrow> db \<Rightarrow> uuid \<Rightarrow> Player list result" where
  "ListPlayers e d serverID =
     wrapping ''querying players'' (call e ''ListPlayers''
       (desc_nulls_last pl_LastSeen (filter (\<lambda>p. pl_ServerID p = serverID) (players d))))"

definition GetPlayer :: "env \<Rightarrow> db \<Rightarrow> uuid \<Rightarrow> uuid \<Rightarrow> Player result" where
  "GetPlayer e d serverID playerID =
     (case call e ''GetPlayer'' (List.find (\<lambda>p. pl_ID p = playerID \<and> pl_ServerID p = serverID) (players d)) of
        Inl err \<Rightarrow> Inl (Wrap ''fetching player'' err)
      | Inr None \<Rightarrow> Inl ErrPlayerNotFound
      | Inr (Some p) \<Rightarrow> Inr p)"

definition GetPlayerSessions ::
  "env \<Rightarrow> db \<Rightarrow> uuid \<Rightarrow> uuid \<Rightarrow> (time \<times> time option \<times> int option) list result" where
  "GetPlayerSessions e d serverID playerID =
     and_then (wrapping ''verifying player ownership'' (call e ''GetPlayerSessions.exists''
       (\<exists>p \<in> set (players d). pl_ID p = playerID \<and> pl_ServerID p = serverID))) (\<lambda>found.
     and_then (refuse_if (\<not> found) ErrPlayerNotFound) (\<lambda>_.
     wrapping ''querying player sessions'' (call e ''GetPlayerSessions''
       (map (\<lambda>s. (ps_JoinedAt s, ps_LeftAt s, ps_DurationS s))
         (take 50 (sort_key (\<lambda>s. - ps_JoinedAt s)
           (filter (\<lambda>s. ps_PlayerID s = playerID) (player_sessions d))))))))"

record PlayerActivity =
  pa_OnlineByServer :: "(uuid \<times> int) list"
  pa_OnlinePlayers :: int
  pa_Last24h :: "(time \<times> int) list"

definition player_server :: "db \<Rightarrow> uuid \<Rightarrow> uuid option" where
  "player_server d playerID = map_option pl_ServerID (List.find (\<lambda>p. pl_ID p = playerID) (players d))"

definition PlayerActivity_q :: "env \<Rightarrow> db \<Rightarrow> uuid list \<Rightarrow> PlayerActivity result" where
  "PlayerActivity_q e d serverIDs =
     (let on = (\<lambda>sid. int (rows_affected (\<lambda>s. open_session s \<and> player_server d (ps_PlayerID s) = Some sid)
             (player_sessions d)));
          sids = filter (\<lambda>sid. on sid > 0) (remdups serverIDs);
          byServer = map (\<lambda>sid. (sid, on sid)) sids;
          top = now e - now e mod hour;
          bucket = (\<lambda>h. (h, int (length (remdups (map ps_PlayerID (filter (\<lambda>s. ps_JoinedAt s < h + hour
              \<and> (case ps_LeftAt s of None \<Rightarrow> now e | Some t \<Rightarrow> t) \<ge> h
              \<and> (\<exists>p \<in> set (players d). pl_ID p = ps_PlayerID s \<and> pl_ServerID p \<in> set serverIDs))
            (player_sessions d)))))))
      in and_then (wrapping ''querying online players'' (call e ''PlayerActivity.online'' ())) (\<lambda>_.
         and_then (wrapping ''querying hourly players'' (call e ''PlayerActivity.hourly'' ())) (\<lambda>_.
         Inr \<lparr>pa_OnlineByServer = byServer, pa_OnlinePlayers = sum_list (map snd byServer),
           pa_Last24h = map (\<lambda>k. bucket (top - (23 - int k) * hour)) [0..<24]\<rparr>)))"

section \<open>Moderation on one server\<close>

definition playerTarget :: "env \<Rightarrow> db \<Rightarrow> uuid \<Rightarrow> uuid \<Rightarrow> (string \<times> uuid) result" where
  "playerTarget e d serverID playerID =
     (case call e ''playerTarget'' (List.find (\<lambda>p. pl_ID p = playerID \<and> pl_ServerID p = serverID) (players d),
             find_server d serverID) of
        Inl err \<Rightarrow> Inl (Wrap ''fetching player'' err)
      | Inr (Some p, Some sv) \<Rightarrow>
          if \<not> isSafePlayerName (pl_Username p) then Inl ErrUnsafePlayerName
          else Inr (pl_Username p, sv_NodeID sv)
      | Inr _ \<Rightarrow> Inl ErrPlayerNotFound)"

text \<open>The shape shared by the operations that set a flag of one player and then
  queue a console line: \<open>what\<close> is the context of a failed update.\<close>

definition flag_and_command ::
  "env \<Rightarrow> uuid \<Rightarrow> db \<Rightarrow> uuid \<Rightarrow> uuid \<Rightarrow> string \<Rightarrow> (Player \<Rightarrow> Player) \<Rightarrow> (string \<Rightarrow> string) \<Rightarrow> unit result \<times> db" where
  "flag_and_command e newID d serverID playerID what upd line =
     (case playerTarget e d serverID playerID of
        Inl err \<Rightarrow> (Inl err, d)
      | Inr (username, nodeID) \<Rightarrow>
          (let p = (\<lambda>q. pl_ID q = playerID \<and> pl_ServerID q = serverID)
           in if fault e ''player.update'' then (Inl (Wrap what (Driver ''player.update'')), d)
              else if rows_affected p (players d) = 0 then (Inl ErrPlayerNotFound, d)
              else (Inr (), enqueueConsoleCommand e newID (d\<lparr>players := update_where p upd (players d)\<rparr>)
                     nodeID serverID (line username))))"

definition BanPlayer ::
  "env \<Rightarrow> uuid \<Rightarrow> db \<Rightarrow> uuid \<Rightarrow> uuid \<Rightarrow> uuid \<Rightarrow> string \<Rightarrow> unit result \<times> db" where
  "BanPlayer e newID d serverID playerID bannedBy reason =
     flag_and_command e newID d serverID playerID ''banning player''
       (\<lambda>p. p\<lparr>pl_IsBanned := True, pl_BanReason := Some reason, pl_BannedAt := Some (now e),
          pl_BannedBy := Some bannedBy\<rparr>)
       (\<lambda>u. ''ban '' @ u)"

definition UnbanPlayer :: "env \<Rightarrow> uuid \<Rightarrow> db \<Rightarrow> uuid \<Rightarrow> uuid \<Rightarrow> unit result \<times> db" where
  "UnbanPlayer e newID d serverID playerID =
     flag_and_command e newID d serverID playerID ''unbanning player''
       (\<lambda>p. p\<lparr>pl_IsBanned := False, pl_BanReason := None, pl_BannedAt := None, pl_BannedBy := None\<rparr>)
       (\<lambda>u. ''unban '' @ u)"

definition SetWhitelist :: "env \<Rightarrow> uuid \<Rightarrow> db \<Rightarrow> uuid \<Rightarrow> uuid \<Rightarrow> bool \<Rightarrow> unit result \<times> db" where
  "SetWhitelist e newID d serverID playerID whitelisted =
     flag_and_command e newID d serverID playerID ''updating whitelist''
       (\<lambda>p. p\<lparr>pl_IsWhitelisted := whitelisted\<rparr>)
       (\<lambda>u. (if whitelisted then ''whitelist add '' else ''whitelist remove '') @ u)"

definition SetOp :: "env \<Rightarrow> uuid \<Rightarrow> db \<Rightarrow> uuid \<Rightarrow> uuid \<Rightarrow> bool \<Rightarrow> unit result \<times> db" where
  "SetOp e newID d serverID playerID op =
     flag_and_command e newID d serverID playerID ''updating op status''
       (\<lambda>p. p\<lparr>pl_IsOp := op\<rparr>) (\<lambda>u. (if op then ''op add '' else ''op remove '') @ u)"

definition SetMute :: "env \<Rightarrow> uuid \<Rightarrow> db \<Rightarrow> uuid \<Rightarrow> uuid \<Rightarrow> bool \<Rightarrow> unit result \<times> db" where
  "SetMute e newID d serverID playerID muted =
     flag_and_command e newID d serverID playerID ''updating mute status''
       (\<lambda>p. p\<lparr>pl_IsMuted := muted\<rparr>) (\<lambda>u. (if muted then ''mute '' else ''unmute '') @ u)"

definition insert_activity ::
  "env \<Rightarrow> string \<Rightarrow> uuid \<Rightarrow> db \<Rightarrow> uuid option \<Rightarrow> uuid option \<Rightarrow> string \<Rightarrow> string \<Rightarrow> uuid \<Rightarrow> json \<Rightarrow> db" where
  "insert_activity e label logID d usr srv action ttype target payload =
     (if fault e label then d
      else d\<lparr>activity_logs := activity_logs d @
        [\<lparr>a_ID = logID, a_UserID = usr, a_ServerID = srv, a_Action = action, a_TargetType = ttype,
          a_TargetID = Some target, a_IPAddress = None, a_Payload = payload, a_CreatedAt = now e\<rparr>]\<rparr>)"

definition KickPlayer ::
  "(uuid \<Rightarrow> string) \<Rightarrow> env \<Rightarrow> uuid \<Rightarrow> uuid \<Rightarrow> db \<Rightarrow> uuid \<Rightarrow> uuid \<Rightarrow> string \<Rightarrow> string \<Rightarrow> unit result \<times> db" where
  "KickPlayer str e newID logID d serverID playerID reason actorName =
     (case playerTarget e d serverID playerID of
        Inl err \<Rightarrow> (Inl err, d)
      | Inr (username, nodeID) \<Rightarrow>
          (case insert_command e ''KickPlayer'' newID d nodeID serverID ''send_command''
                 (cmd_payload (''kick '' @ username)) of
             Inl err \<Rightarrow> (Inl (Wrap ''enqueuing kick command'' err), d)
           | Inr d' \<Rightarrow>
               (Inr (), insert_activity e ''KickPlayer.audit'' logID d' None (Some serverID) ''player.kick'' ''player''
                  playerID (JObj [(''actor'', JStr actorName), (''player_id'', JStr (str playerID)),
                    (''reason'', JStr reason), (''username'', JStr username)]))))"

section \<open>Network bans\<close>

definition latestUsername :: "env \<Rightarrow> db \<Rightarrow> uuid \<Rightarrow> string result" where
  "latestUsername e d hytaleUUID =
     (case call e ''latestUsername'' (desc_nulls_last pl_LastSeen (filter (\<lambda>p. pl_HytaleUUID p = hytaleUUID) (players d))) of
        Inl err \<Rightarrow> Inl (Wrap ''resolving player name'' err)
      | Inr [] \<Rightarrow> Inl ErrPlayerNotFound
      | Inr (p # _) \<Rightarrow> if isSafePlayerName (pl_Username p) then Inr (pl_Username p) else Inl ErrUnsafePlayerName)"

definition IsNetworkBanned :: "env \<Rightarrow> db \<Rightarrow> uuid \<Rightarrow> bool result" where
  "IsNetworkBanned e d hytaleUUID =
     wrapping ''checking network ban'' (call e ''IsNetworkBanned''
       (\<exists>b \<in> set (network_bans d). nb_HytaleUUID b = hytaleUUID))"

definition auditNetworkBan :: "env \<Rightarrow> uuid \<Rightarrow> db \<Rightarrow> string \<Rightarrow> uuid \<Rightarrow> uuid \<Rightarrow> json \<Rightarrow> db" where
  "auditNetworkBan e logID d action hytaleUUID actorID payload =
     insert_activity e ''auditNetworkBan'' logID d (Some actorID) None action ''player'' hytaleUUID payload"

definition upsert_ban :: "env \<Rightarrow> uuid \<Rightarrow> string \<Rightarrow> string \<Rightarrow> uuid \<Rightarrow> NetworkBan list \<Rightarrow> NetworkBan list" where
  "upsert_ban e hytaleUUID username reason bannedBy t =
     (if \<exists>b \<in> set t. nb_HytaleUUID b = hytaleUUID
      then update_where (\<lambda>b. nb_HytaleUUID b = hytaleUUID)
             (\<lambda>b. b\<lparr>nb_Reason := Some reason, nb_BannedBy := Some bannedBy, nb_BannedAt := now e\<rparr>) t
      else t @ [\<lparr>nb_HytaleUUID = hytaleUUID, nb_UsernameAtBan = Some username, nb_Reason = Some reason,
                 nb_BannedBy = Some bannedBy, nb_BannedAt = now e\<rparr>])"

definition BanNetworkPlayer ::
  "(uuid \<Rightarrow> string) \<Rightarrow> env \<Rightarrow> (nat \<Rightarrow> uuid) \<Rightarrow> uuid \<Rightarrow> db \<Rightarrow> uuid \<Rightarrow> uuid \<Rightarrow> string \<Rightarrow> unit result \<times> db" where
  "BanNetworkPlayer str e ids logID d hytaleUUID bannedBy reason =
     (case latestUsername e d hytaleUUID of
        Inl err \<Rightarrow> (Inl err, d)
      | Inr username \<Rightarrow>
          (let d1 = d\<lparr>network_bans := upsert_ban e hytaleUUID username reason bannedBy (network_bans d)\<rparr>;
               d2 = d1\<lparr>players := update_where (\<lambda>p. pl_HytaleUUID p = hytaleUUID)
                      (\<lambda>p. p\<lparr>pl_IsBanned := True, pl_BanReason := Some reason, pl_BannedAt := Some (now e),
                         pl_BannedBy := Some bannedBy\<rparr>) (players d1)\<rparr>;
               d3 = fanOutConsoleCommand e ids d2 (''ban '' @ username)
           in if fault e ''BanNetworkPlayer.insert'' \<or> find_user d bannedBy = None
              then (Inl (Wrap ''recording network ban'' (Driver ''BanNetworkPlayer.insert'')), d)
              else if fault e ''BanNetworkPlayer.mark''
              then (Inl (Wrap ''marking per-server bans'' (Driver ''BanNetworkPlayer.mark'')), d1)
              else (Inr (), auditNetworkBan e logID d3 ''player.network_ban'' hytaleUUID bannedBy
                      (JObj [(''hytale_uuid'', JStr (str hytaleUUID)), (''reason'', JStr reason),
                        (''username'', JStr username)]))))"

definition UnbanNetworkPlayer ::
  "(uuid \<Rightarrow> string) \<Rightarrow> env \<Rightarrow> (nat \<Rightarrow> uuid) \<Rightarrow> uuid \<Rightarrow> db \<Rightarrow> uuid \<Rightarrow> uuid \<Rightarrow> unit result \<times> db" where
  "UnbanNetworkPlayer str e ids logID d hytaleUUID actorID =
     (case call e ''UnbanNetworkPlayer.delete'' (List.find (\<lambda>b. nb_HytaleUUID b = hytaleUUID) (network_bans d)) of
        Inl err \<Rightarrow> (Inl (Wrap ''removing network ban'' err), d)
      | Inr None \<Rightarrow> (Inl ErrPlayerNotFound, d)
      | Inr (Some b) \<Rightarrow>
          (let d1 = d\<lparr>network_bans := delete_where (\<lambda>b. nb_HytaleUUID b = hytaleUUID) (network_bans d)\<rparr>;
               username = (case latestUsername e d1 hytaleUUID of
                   Inr current \<Rightarrow> current
                 | Inl _ \<Rightarrow> (case nb_UsernameAtBan b of None \<Rightarrow> '''' | Some u \<Rightarrow> u));
               d2 = (if isSafePlayerName username then fanOutConsoleCommand e ids d1 (''unban '' @ username) else d1)
           in if fault e ''UnbanNetworkPlayer.clear''
              then (Inl (Wrap ''clearing per-server bans'' (Driver ''UnbanNetworkPlayer.clear'')), d2)
              else (Inr (), auditNetworkBan e logID
                (d2\<lparr>players := update_where (\<lambda>p. pl_HytaleUUID p = hytaleUUID \<and> pl_IsBanned p)
                   (\<lambda>p. p\<lparr>pl_IsBanned := False, pl_BanReason := None, pl_BannedAt := None,
                      pl_BannedBy := None\<rparr>) (players d2)\<rparr>)
                ''player.network_unban'' hytaleUUID actorID
                (JObj [(''hytale_uuid'', JStr (str hytaleUUID)), (''username'', JStr username)]))))"

section \<open>The network player list\<close>

definition visible_server :: "db \<Rightarrow> uuid \<Rightarrow> string \<Rightarrow> uuid \<Rightarrow> bool" where
  "visible_server d userID role sid =
     (\<exists>sv \<in> set (servers d). sv_ID sv = sid \<and>
        (RoleWeight role \<ge> RoleWeight RoleAdmin \<or> sv_OwnerID sv = userID
         \<or> (\<exists>m \<in> set (server_members d). m_ServerID m = sid \<and> m_UserID m = userID)))"

record NetworkPlayer =
  np_HytaleUUID :: uuid
  np_Username :: string
  np_FirstSeen :: time
  np_LastSeen :: "time option"
  np_PlaytimeS :: int
  np_ServerIDs :: "uuid list"
  np_IsBanned :: bool
  np_BanReason :: "string option"
  np_BannedAt :: "time option"

definition max_option :: "int option list \<Rightarrow> int option" where
  "max_option xs = (case [x. Some x \<leftarrow> xs] of [] \<Rightarrow> None | y # ys \<Rightarrow> Some (fold max ys y))"

definition network_player :: "NetworkBan list \<Rightarrow> Player list \<Rightarrow> uuid \<Rightarrow> NetworkPlayer" where
  "network_player bans rows h =
     (let ps = filter (\<lambda>p. pl_HytaleUUID p = h) rows;
          b = List.find (\<lambda>b. nb_HytaleUUID b = h) bans
      in \<lparr>np_HytaleUUID = h, np_Username = pl_Username (hd (desc_nulls_last pl_LastSeen ps)),
          np_FirstSeen = fold min (map pl_FirstSeen (tl ps)) (pl_FirstSeen (hd ps)),
          np_LastSeen = max_option (map pl_LastSeen ps), np_PlaytimeS = sum_list (map pl_PlaytimeS ps),
          np_ServerIDs = map pl_ServerID ps, np_IsBanned = (list_ex pl_IsBanned ps \<or> b \<noteq> None),
          np_BanReason = Option.bind b nb_Reason, np_BannedAt = map_option nb_BannedAt b\<rparr>)"

definition ListNetworkPlayers :: "env \<Rightarrow> db \<Rightarrow> uuid \<Rightarrow> string \<Rightarrow> NetworkPlayer list result" where
  "ListNetworkPlayers e d userID role =
     (let rows = filter (\<lambda>p. visible_server d userID role (pl_ServerID p)) (players d)
      in wrapping ''listing network players'' (call e ''ListNetworkPlayers''
           (desc_nulls_last np_LastSeen
             (map (network_player (network_bans d) rows) (remdups (map pl_HytaleUUID rows))))))"

end
