(* ===== verification/Netip.thy ===== *)
theory Netip
  imports Prelude "HOL-Library.Word"
begin

text \<open>
  The parts of Go's \<^verbatim>\<open>net/netip\<close>, \<^verbatim>\<open>net\<close> and \<^verbatim>\<open>net/url\<close> that the
  sources call: IP addresses and their text, the address predicates, prefixes,
  and joining and splitting \<^verbatim>\<open>host:port\<close>.  An address is a 32-bit or a
  128-bit word; an IPv6 address has a zone, empty when there is none.  The
  parsers report only success or failure: no caller reads the error text.
\<close>

unbundle bit_operations_syntax

section \<open>Addresses\<close>

datatype Addr = ZeroAddr | V4 "32 word" | V6 "128 word" string

fun Zone :: "Addr \<Rightarrow> string" where
  "Zone (V6 _ z) = z"
| "Zone _ = []"

definition is_4in6 :: "128 word \<Rightarrow> bool" where
  "is_4in6 a = (drop_bit 32 a = 0xffff)"

fun Unmap :: "Addr \<Rightarrow> Addr" where
  "Unmap (V6 a z) = (if is_4in6 a then V4 (ucast a) else V6 a z)"
| "Unmap x = x"

definition v4 :: "32 word \<Rightarrow> nat \<Rightarrow> 8 word" where
  "v4 a i = ucast (drop_bit ((3 - i) * 8) a)"

definition v6 :: "128 word \<Rightarrow> nat \<Rightarrow> 8 word" where
  "v6 a i = ucast (drop_bit ((15 - i) * 8) a)"

definition v6u16 :: "128 word \<Rightarrow> nat \<Rightarrow> 16 word" where
  "v6u16 a i = ucast (drop_bit ((7 - i) * 16) a)"

section \<open>Predicates\<close>

text \<open>On an IPv4-mapped IPv6 address the Go methods first unmap; the sources
  call them on unmapped addresses only.\<close>

fun IsLoopback :: "Addr \<Rightarrow> bool" where
  "IsLoopback (V4 a) = (v4 a 0 = 127)"
| "IsLoopback (V6 a z) = (if is_4in6 a then v4 (ucast a) 0 = 127 else a = 1)"
| "IsLoopback ZeroAddr = False"

definition private4 :: "32 word \<Rightarrow> bool" where
  "private4 a = (v4 a 0 = 10 \<or> (v4 a 0 = 172 \<and> v4 a 1 AND 0xf0 = 16) \<or> (v4 a 0 = 192 \<and> v4 a 1 = 168))"

fun IsPrivate :: "Addr \<Rightarrow> bool" where
  "IsPrivate (V4 a) = private4 a"
| "IsPrivate (V6 a z) = (if is_4in6 a then private4 (ucast a) else v6 a 0 AND 0xfe = 0xfc)"
| "IsPrivate ZeroAddr = False"

fun IsLinkLocalUnicast :: "Addr \<Rightarrow> bool" where
  "IsLinkLocalUnicast (V4 a) = (v4 a 0 = 169 \<and> v4 a 1 = 254)"
| "IsLinkLocalUnicast (V6 a z) =
     (if is_4in6 a then v4 (ucast a) 0 = 169 \<and> v4 (ucast a) 1 = 254 else v6u16 a 0 AND 0xffc0 = 0xfe80)"
| "IsLinkLocalUnicast ZeroAddr = False"

fun IsLinkLocalMulticast :: "Addr \<Rightarrow> bool" where
  "IsLinkLocalMulticast (V4 a) = (v4 a 0 = 224 \<and> v4 a 1 = 0 \<and> v4 a 2 = 0)"
| "IsLinkLocalMulticast (V6 a z) =
     (if is_4in6 a then v4 (ucast a) 0 = 224 \<and> v4 (ucast a) 1 = 0 \<and> v4 (ucast a) 2 = 0
      else v6u16 a 0 AND 0xff0f = 0xff02)"
| "IsLinkLocalMulticast ZeroAddr = False"

fun IsInterfaceLocalMulticast :: "Addr \<Rightarrow> bool" where
  "IsInterfaceLocalMulticast (V6 a z) = (\<not> is_4in6 a \<and> v6u16 a 0 AND 0xff0f = 0xff01)"
| "IsInterfaceLocalMulticast _ = False"

fun IsMulticast :: "Addr \<Rightarrow> bool" where
  "IsMulticast (V4 a) = (v4 a 0 AND 0xf0 = 0xe0)"
| "IsMulticast (V6 a z) = (if is_4in6 a then v4 (ucast a) 0 AND 0xf0 = 0xe0 else v6 a 0 = 0xff)"
| "IsMulticast ZeroAddr = False"

text \<open>Addresses are compared with their zone.\<close>

definition IsUnspecified :: "Addr \<Rightarrow> bool" where
  "IsUnspecified x = (x = V4 0 \<or> x = V6 0 [])"

text \<open>A prefix is an address without a zone and a number of leading bits.\<close>

datatype Prefix = P4 "32 word" nat | P6 "128 word" nat

fun Contains :: "Prefix \<Rightarrow> Addr \<Rightarrow> bool" where
  "Contains (P4 p n) (V4 a) = (drop_bit (32 - n) (a XOR p) = 0)"
| "Contains (P6 p n) (V6 a z) = (z = [] \<and> drop_bit (128 - n) (a XOR p) = 0)"
| "Contains _ _ = False"

section \<open>Address text\<close>

definition is_hex :: "char \<Rightarrow> bool" where
  "is_hex c = (is_digit c \<or> (97 \<le> byte c \<and> byte c \<le> 102) \<or> (65 \<le> byte c \<and> byte c \<le> 70))"

definition nibble :: "char \<Rightarrow> nat" where
  "nibble c = (if is_digit c then byte c - 48 else if 97 \<le> byte c then byte c - 87 else byte c - 55)"

definition from_bytes :: "nat list \<Rightarrow> 'a::len word" where
  "from_bytes bs = of_nat (foldl (\<lambda>a b. 256 * a + b) 0 bs)"

text \<open>\<^verbatim>\<open>parseIPv4Fields\<close>: \<open>sep\<close> says that the next byte is the first one or
  follows a dot, \<open>val\<close> and \<open>digs\<close> are the field read so far.\<close>

fun v4_fields :: "bool \<Rightarrow> nat \<Rightarrow> nat \<Rightarrow> nat list \<Rightarrow> string \<Rightarrow> nat list option" where
  "v4_fields sep val digs fs [] = (if length fs < 3 then None else Some (fs @ [val]))"
| "v4_fields sep val digs fs (c # cs) =
     (if is_digit c then
        (let v = val * 10 + (byte c - 48)
         in if digs = 1 \<and> val = 0 then None
            else if v > 255 then None
            else v4_fields False v (digs + 1) fs cs)
      else if c = CHR ''.'' then
        (if sep \<or> cs = [] then None
         else if length fs = 3 then None
         else v4_fields True 0 0 (fs @ [val]) cs)
      else None)"

definition parse_ipv4 :: "string \<Rightarrow> Addr option" where
  "parse_ipv4 s = map_option (\<lambda>fs. V4 (from_bytes fs)) (v4_fields True 0 0 [] s)"

lemma dropWhile_Cons_length: "dropWhile p s = c # r \<Longrightarrow> length r < length s"
  using length_dropWhile_le [of p s] by simp

text \<open>The loop of \<^verbatim>\<open>parseIPv6\<close>: \<open>ip\<close> the bytes read so far, \<open>el\<close> the position of
  the ellipsis in them.\<close>

function v6_loop :: "string \<Rightarrow> nat list \<Rightarrow> nat option \<Rightarrow> (nat list \<times> nat option) option" where
  "v6_loop s ip el =
     (let grp = takeWhile is_hex s; rest = dropWhile is_hex s;
          acc = foldl (\<lambda>a c. 16 * a + nibble c) 0 grp;
          ip' = ip @ [acc div 256, acc mod 256]
      in if 16 \<le> length ip then (if s = [] then Some (ip, el) else None)
         else if grp = [] \<or> length grp > 4 then None
         else (case rest of
             [] \<Rightarrow> Some (ip', el)
           | c # r \<Rightarrow>
               if c = CHR ''.'' then
                 (if (el = None \<and> length ip \<noteq> 12) \<or> length ip + 4 > 16 then None
                  else map_option (\<lambda>fs. (ip @ fs, el)) (v4_fields True 0 0 [] s))
               else if c \<noteq> CHR '':'' then None
               else (case r of
                   [] \<Rightarrow> None
                 | c' # r' \<Rightarrow>
                     if c' = CHR '':'' then
                       (if el \<noteq> None then None
                        else if r' = [] then Some (ip', Some (length ip'))
                        else v6_loop r' ip' (Some (length ip')))
                     else v6_loop r ip' el)))"
  by pat_completeness auto
termination
proof (relation "measure (length \<circ> fst)", goal_cases)
  case 1
  then show ?case by simp
next
  case (2 s ip el grp rest acc ip' c r c' r')
  then have "length r < length s" by (intro dropWhile_Cons_length [of is_hex s c]) simp
  with 2 show ?case by simp
next
  case (3 s ip el grp rest acc ip' c r c' r')
  then have "length r < length s" by (intro dropWhile_Cons_length [of is_hex s c]) simp
  with 3 show ?case by simp
qed

declare v6_loop.simps [simp del]

definition expand_ellipsis :: "nat list \<times> nat option \<Rightarrow> nat list option" where
  "expand_ellipsis r =
     (let (ip, el) = r
      in case el of
           None \<Rightarrow> if length ip < 16 then None else Some ip
         | Some k \<Rightarrow> if length ip < 16 then Some (take k ip @ replicate (16 - length ip) 0 @ drop k ip)
             else None)"

definition parse_ipv6 :: "string \<Rightarrow> Addr option" where
  "parse_ipv6 s =
     (let (s0, zone) = (case cut_at (CHR ''%'') s of None \<Rightarrow> (s, []) | Some p \<Rightarrow> p)
      in if CHR ''%'' \<in> set s \<and> zone = [] then None
         else if s0 = ''::'' then Some (V6 0 zone)
         else (case (if has_prefix s0 ''::'' then v6_loop (drop 2 s0) [] (Some 0) else v6_loop s0 [] None) of
             None \<Rightarrow> None
           | Some r \<Rightarrow> map_option (\<lambda>ip. V6 (from_bytes ip) zone) (expand_ellipsis r)))"

definition ParseAddr :: "string \<Rightarrow> Addr option" where
  "ParseAddr s =
     (case dropWhile (\<lambda>c. c \<noteq> CHR ''.'' \<and> c \<noteq> CHR '':'' \<and> c \<noteq> CHR ''%'') s of
        [] \<Rightarrow> None
      | c # _ \<Rightarrow>
          if c = CHR ''.'' then parse_ipv4 s
          else if c = CHR '':'' then parse_ipv6 s
          else None)"

section \<open>Host and port\<close>

definition JoinHostPort :: "string \<Rightarrow> string \<Rightarrow> string" where
  "JoinHostPort host port =
     (if CHR '':'' \<in> set host then ''['' @ host @ '']:'' @ port else host @ '':'' @ port)"

text \<open>The text before and after the last \<open>d\<close>.\<close>

definition cut_last :: "char \<Rightarrow> string \<Rightarrow> (string \<times> string) option" where
  "cut_last d s = map_option (\<lambda>(a, b). (rev b, rev a)) (cut_at d (rev s))"

definition SplitHostPort :: "string \<Rightarrow> (string \<times> string) option" where
  "SplitHostPort hostport =
     (case cut_last (CHR '':'') hostport of
        None \<Rightarrow> None
      | Some (pre, port) \<Rightarrow>
          if has_prefix hostport ''['' then
            (case cut_at (CHR '']'') hostport of
               None \<Rightarrow> None
             | Some (b, rest) \<Rightarrow>
                 if length b + 1 \<noteq> length pre then None
                 else if CHR ''['' \<in> set (drop 1 hostport) \<or> CHR '']'' \<in> set rest then None
                 else Some (drop 1 b, port))
          else if CHR '':'' \<in> set pre then None
          else if CHR ''['' \<in> set hostport \<or> CHR '']'' \<in> set hostport then None
          else Some (pre, port))"

text \<open>\<^verbatim>\<open>escape\<close> in the mode \<^verbatim>\<open>encodeHost\<close>, and \<^verbatim>\<open>URL.String\<close> of a URL with
  a scheme and a host only.\<close>

definition host_char :: "char \<Rightarrow> bool" where
  "host_char c = (is_lower c \<or> is_upper c \<or> is_digit c \<or> c \<in> set ''-_.~!$&()*+,;=:[]<>'' \<or> byte c \<in> {34, 39})"

definition upper_hex :: "nat \<Rightarrow> char" where
  "upper_hex n = (if n < 10 then char_of (48 + n) else char_of (55 + n))"

definition escape_host :: "string \<Rightarrow> string" where
  "escape_host s = concat (map (\<lambda>c. if host_char c then [c]
     else [CHR ''%'', upper_hex (byte c div 16), upper_hex (byte c mod 16)]) s)"

definition url_string :: "string \<Rightarrow> string \<Rightarrow> string" where
  "url_string scheme host = scheme @ ''://'' @ escape_host host"

lemmas netip_eval = v6_loop.simps is_hex_def is_digit_def byte_def nibble_def from_bytes_def

section \<open>Fields of an address\<close>

lemma and_field: "(n::nat) AND push_bit k (mask j) = 2 ^ k * (n div 2 ^ k mod 2 ^ j)"
proof -
  have "n AND push_bit k (mask j) = push_bit k (take_bit j (drop_bit k n))"
    by (rule bit_eqI) (auto simp: bit_simps)
  then show ?thesis by (simp add: push_bit_eq_mult take_bit_eq_mod drop_bit_eq_div mult.commute)
qed

lemma unat_drop: "unat (drop_bit k w) = unat w div 2 ^ k" for w :: "'a::len word"
proof -
  have "unat (drop_bit k w) = drop_bit k (take_bit LENGTH('a) (unat w))"
    by (rule unsigned_drop_bit_eq)
  also have "take_bit LENGTH('a) (unat w) = unat w"
    by (rule take_bit_nat_eq_self) (rule unsigned_less)
  finally show ?thesis by (simp only: drop_bit_eq_div)
qed

lemma unat_v4: "unat (v4 a i) = unat a div 2 ^ ((3 - i) * 8) mod 256"
  by (simp add: v4_def unsigned_ucast_eq take_bit_eq_mod unat_drop del: drop_bit_eq_div)

lemma unat_v6: "unat (v6 a i) = unat a div 2 ^ ((15 - i) * 8) mod 256"
  by (simp add: v6_def unsigned_ucast_eq take_bit_eq_mod unat_drop del: drop_bit_eq_div)

lemma unat_v6u16: "unat (v6u16 a i) = unat a div 2 ^ ((7 - i) * 16) mod 65536"
  by (simp add: v6u16_def unsigned_ucast_eq take_bit_eq_mod unat_drop del: drop_bit_eq_div)

lemma xor_0_word: "a XOR p = 0 \<longleftrightarrow> a = p" for a p :: "'a::len word"
  by (auto simp: bit_eq_iff bit_simps)

lemma drop_bit_xor_0: "drop_bit k (a XOR p) = 0 \<longleftrightarrow> unat a div 2 ^ k = unat p div 2 ^ k" for a p :: "'a::len word"
  by (simp only: drop_bit_xor xor_0_word word_unat_eq_iff [of "drop_bit k a" "drop_bit k p"] unat_drop)

definition in_range :: "nat \<Rightarrow> nat \<times> nat \<Rightarrow> bool" where
  "in_range n r = (fst r \<le> n \<and> n \<le> snd r)"

lemma n4: "unat (a :: 32 word) < 4294967296"
  using unsigned_less [of a] by simp

lemma v4_0: "v4 a 0 = k \<longleftrightarrow> unat a div 16777216 = unat k"
  using n4 [of a] by (simp add: word_unat_eq_iff unat_v4)

lemma v4_1: "v4 a 1 = k \<longleftrightarrow> unat a div 65536 mod 256 = unat k"
  by (simp add: word_unat_eq_iff unat_v4)

lemma and_f0: "x AND 0xf0 = k \<longleftrightarrow> 16 * (unat x div 16) = unat k" for x :: "8 word"
proof -
  have "(240::nat) = push_bit 4 (mask 4)" by (simp add: mask_eq_exp_minus_1 push_bit_eq_mult)
  then have "unat (x AND 0xf0) = 16 * (unat x div 16 mod 16)"
    using and_field [of "unat x" 4 4] by (simp add: unsigned_and_eq)
  moreover have "unat x < 256" using unsigned_less [of x] by simp
  ultimately show ?thesis by (simp add: word_unat_eq_iff) 
qed


lemma div_in_range:
  assumes "0 < d"
  shows "n div d = q \<longleftrightarrow> in_range n (d * q, d * q + (d - 1))"
proof
  assume "n div d = q"
  then have "n = d * q + n mod d" by (metis mult_div_mod_eq)
  moreover have "n mod d < d" using assms by simp
  ultimately have "d * q \<le> n" "n < d * q + d" by linarith+
  then show "in_range n (d * q, d * q + (d - 1))" using assms by (simp add: in_range_def)
next
  assume "in_range n (d * q, d * q + (d - 1))"
  then have "d * q \<le> n" "n < d * Suc q" using assms by (auto simp: in_range_def)
  then show "n div d = q" by (rule div_nat_eqI)
qed

text \<open>Two adjacent fields of an address at once.\<close>

lemma div_mod_join: "0 < c \<Longrightarrow> k < c \<Longrightarrow> n div (d * c) = q \<and> n div d mod c = k \<longleftrightarrow> n div d = c * q + k" for n :: nat
  by (auto simp: div_mult2_eq)

lemma n6: "unat (a :: 128 word) < 340282366920938463463374607431768211456"
  using unsigned_less [of a] by simp

lemma v6_0: "v6 a 0 = k \<longleftrightarrow> unat a div 1329227995784915872903807060280344576 = unat k"
  using n6 [of a] by (simp add: word_unat_eq_iff unat_v6)

lemma and_fe: "x AND 0xfe = k \<longleftrightarrow> 2 * (unat x div 2) = unat k" for x :: "8 word"
proof -
  have "(254::nat) = push_bit 1 (mask 7)" by (simp add: mask_eq_exp_minus_1 push_bit_eq_mult)
  then have "unat (x AND 0xfe) = 2 * (unat x div 2 mod 128)"
    using and_field [of "unat x" 1 7] by (simp add: unsigned_and_eq)
  moreover have "unat x < 256" using unsigned_less [of x] by simp
  ultimately show ?thesis by (simp add: word_unat_eq_iff) 
qed

lemma and_ffc0: "x AND 0xffc0 = k \<longleftrightarrow> 64 * (unat x div 64) = unat k" for x :: "16 word"
proof -
  have "(65472::nat) = push_bit 6 (mask 10)" by (simp add: mask_eq_exp_minus_1 push_bit_eq_mult)
  then have "unat (x AND 0xffc0) = 64 * (unat x div 64 mod 1024)"
    using and_field [of "unat x" 6 10] by (simp add: unsigned_and_eq)
  moreover have "unat x < 65536" using unsigned_less [of x] by simp
  ultimately show ?thesis by (simp add: word_unat_eq_iff) 
qed

lemma and_ff0f: "x AND 0xff0f = k \<Longrightarrow> unat x div 256 = unat k div 256" for x :: "16 word"
proof -
  assume "x AND 0xff0f = k"
  then have "k AND 0xff00 = (x AND 0xff0f) AND 0xff00" by simp
  also have "\<dots> = x AND 0xff00" by (simp add: and.assoc)
  finally have "k AND 0xff00 = x AND 0xff00" .
  moreover have "(65280::nat) = push_bit 8 (mask 8)" by (simp add: mask_eq_exp_minus_1 push_bit_eq_mult)
  then have "unat (y AND 0xff00) = 256 * (unat y div 256 mod 256)" for y :: "16 word"
    using and_field [of "unat y" 8 8] by (simp add: unsigned_and_eq)
  moreover have "unat y div 256 mod 256 = unat y div 256" for y :: "16 word" using unsigned_less [where 'a = nat and w = y] by simp
  ultimately show ?thesis by (metis mult_cancel1 zero_neq_numeral)
qed

lemma v6u16_0: "unat (v6u16 a 0) = unat a div 5192296858534827628530496329220096"
  using n6 [of a] by (simp add: unat_v6u16)

lemma multicast6: "v6u16 a 0 AND 0xff0f = k \<Longrightarrow> unat k div 256 = 255 \<Longrightarrow> v6 a 0 = 0xff"
proof -
  assume "v6u16 a 0 AND 0xff0f = k" "unat k div 256 = 255"
  then have "unat a div 5192296858534827628530496329220096 div 256 = 255"
    using and_ff0f v6u16_0 by metis
  then show ?thesis by (simp add: v6_0 flip: div_mult2_eq)
qed

end
