(* ===== verification/Addresses.thy ===== *)
theory Addresses
  imports Netip
begin

text \<open>
  The addresses the panel connects to.  \<^verbatim>\<open>daemon/host.go\<close>: which node
  hosts and ports are accepted and the URL built from them.
  \<^verbatim>\<open>alerting/safehttp.go\<close>: which addresses an alert webhook may be
  delivered to; \<open>safeDialControl\<close> runs on every address that is dialled.
\<close>

section \<open>daemon/host.go\<close>

abbreviation ErrInvalidNodeAddress :: go_error where
  "ErrInvalidNodeAddress \<equiv> New ''invalid node address''"

definition label_char :: "char \<Rightarrow> bool" where
  "label_char r = (is_lower r \<or> is_upper r \<or> is_digit r \<or> r = CHR ''-'' \<or> r = CHR ''_'')"

definition valid_label :: "string \<Rightarrow> bool" where
  "valid_label label =
     (label \<noteq> [] \<and> length label \<le> 63 \<and> hd label \<noteq> CHR ''-'' \<and> last label \<noteq> CHR ''-''
      \<and> list_all label_char label)"

definition unbracket :: "string \<Rightarrow> string" where
  "unbracket host =
     (if has_prefix host ''['' \<and> has_suffix host '']'' then take (length host - 2) (drop 1 host) else host)"

definition ValidateNodeHost :: "string \<Rightarrow> unit result" where
  "ValidateNodeHost host =
     (if host = [] \<or> length host > 253 then Inl ErrInvalidNodeAddress
      else let h = unbracket host
      in case ParseAddr h of
           Some addr \<Rightarrow> if Zone addr \<noteq> [] then Inl ErrInvalidNodeAddress else Inr ()
         | None \<Rightarrow> if list_all valid_label (split_on (CHR ''.'') h) then Inr ()
             else Inl ErrInvalidNodeAddress)"

definition ValidateNodePort :: "int \<Rightarrow> unit result" where
  "ValidateNodePort port = (if port < 1 \<or> port > 65535 then Inl ErrInvalidNodeAddress else Inr ())"

definition trim_suffix :: "string \<Rightarrow> string \<Rightarrow> string" where
  "trim_suffix s p = (if has_suffix s p then take (length s - length p) s else s)"

definition baseURLWithScheme :: "string \<Rightarrow> string \<Rightarrow> int \<Rightarrow> string result" where
  "baseURLWithScheme scheme host port =
     and_then (ValidateNodeHost host) (\<lambda>_.
     and_then (ValidateNodePort port) (\<lambda>_.
     let h = trim_suffix (trim_prefix host ''['') '']''
     in Inr (url_string scheme (JoinHostPort h (dec port)))))"

definition BaseURL :: "string \<Rightarrow> int \<Rightarrow> string result" where
  "BaseURL host port = baseURLWithScheme ''http'' host port"

text \<open>\<^verbatim>\<open>path.Base\<close>: the last element without trailing slashes.\<close>

definition path_base :: "string \<Rightarrow> string" where
  "path_base p =
     (let q = rev (dropWhile (\<lambda>c. c = CHR ''/'') (rev p));
          b = rev (takeWhile (\<lambda>c. c \<noteq> CHR ''/'') (rev q))
      in if p = [] then ''.'' else if b = [] then ''/'' else b)"

definition SanitizeFilename :: "string \<Rightarrow> string" where
  "SanitizeFilename name =
     (let printable = filter (\<lambda>r. \<not> (byte r < 32 \<or> byte r = 127)) name;
          base = path_base (map (\<lambda>c. if byte c = 92 then CHR ''/'' else c) printable)
      in if base = ''.'' \<or> base = ''/'' \<or> base = ''..'' then [] else base)"

section \<open>alerting/safehttp.go\<close>

abbreviation cgnat :: Prefix where "cgnat \<equiv> P4 0x64400000 10"
abbreviation nat64 :: Prefix where "nat64 \<equiv> P6 0x0064ff9b000000000000000000000000 96"
abbreviation thisNet :: Prefix where "thisNet \<equiv> P4 0 8"
abbreviation benchmark :: Prefix where "benchmark \<equiv> P4 0xc6120000 15"
abbreviation reserved :: Prefix where "reserved \<equiv> P4 0xf0000000 4"
abbreviation ietf :: Prefix where "ietf \<equiv> P4 0xc0000000 24"

definition IsPublicAddr :: "Addr \<Rightarrow> bool" where
  "IsPublicAddr addr0 =
     (let addr = Unmap addr0
      in if addr = ZeroAddr \<or> IsLoopback addr \<or> IsPrivate addr \<or> IsLinkLocalUnicast addr
            \<or> IsLinkLocalMulticast addr \<or> IsInterfaceLocalMulticast addr \<or> IsMulticast addr
            \<or> IsUnspecified addr
         then False
         else if list_ex (\<lambda>p. Contains p addr) [cgnat, nat64, thisNet, benchmark, reserved, ietf]
         then False
         else if addr = V4 0xffffffff then False
         else True)"

definition safeDialControl :: "string \<Rightarrow> unit result" where
  "safeDialControl address =
     (case SplitHostPort address of
        None \<Rightarrow> Inl (Wrap ''webhook dial'' (New ''invalid address''))
      | Some (host, _) \<Rightarrow>
          (case ParseAddr host of
             None \<Rightarrow> Inl (New (''webhook dial: unparseable address '' @ host))
           | Some addr \<Rightarrow>
               if \<not> IsPublicAddr addr
               then Inl (New (''webhook dial: refusing non-public address '' @ host))
               else Inr ()))"

section \<open>The character set of accepted hosts\<close>

definition addr_char :: "char \<Rightarrow> bool" where
  "addr_char c = (is_hex c \<or> c = CHR ''.'' \<or> c = CHR '':'')"

lemma v4_fields_chars: "v4_fields sep val digs fs s = Some r \<Longrightarrow> list_all addr_char s"
  by (induction sep val digs fs s rule: v4_fields.induct)
     (auto simp: Let_def addr_char_def is_hex_def split: if_splits)

lemma takeWhile_hex_chars: "list_all addr_char (takeWhile is_hex s)"
  by (auto simp: list_all_iff addr_char_def dest: set_takeWhileD)

lemma v6_loop_SomeE:
  assumes "v6_loop s ip el = Some r"
  obtains "dropWhile is_hex s = []" | fs where "v4_fields True 0 0 [] s = Some fs"
    | rest ip' el' where "dropWhile is_hex s = CHR '':'' # rest" "v6_loop rest ip' el' = Some r"
    | "dropWhile is_hex s = ''::''"
    | rest ip' el' where "dropWhile is_hex s = CHR '':'' # CHR '':'' # rest" "v6_loop rest ip' el' = Some r"
proof (cases "dropWhile is_hex s")
  case Nil
  then show ?thesis by (rule that(1))
next
  case (Cons c q)
  note eq = assms [unfolded v6_loop.simps [of s ip el] Let_def Cons list.case]
  from Cons have "s \<noteq> []" by auto
  with eq have "\<not> 16 \<le> length ip" "\<not> (takeWhile is_hex s = [] \<or> 4 < length (takeWhile is_hex s))"
    by (auto split: if_splits)
  note eq = eq [unfolded if_not_P [OF this(1)] if_not_P [OF this(2)]]
  show ?thesis
  proof (cases "c = CHR ''.''")
    case True
    with eq that(2) show ?thesis by (auto split: if_splits)
  next
    case False
    with eq have c: "c = CHR '':''" by (auto split: if_splits)
    with eq obtain c' q' where q: "q = c' # q'" by (auto split: list.splits)
    show ?thesis
    proof (cases "c' = CHR '':''")
      case True
      with eq c q Cons that(4,5) show ?thesis by (auto split: if_splits)
    next
      case False
      with eq c q Cons that(3) show ?thesis by auto
    qed
  qed
qed

lemma v6_loop_chars: "v6_loop s ip el = Some r \<Longrightarrow> list_all addr_char s"
proof (induction "length s" arbitrary: s ip el rule: less_induct)
  case less
  have split: "list_all addr_char (dropWhile is_hex s) \<Longrightarrow> list_all addr_char s"
    using takeWhile_hex_chars [of s] by (metis list_all_append takeWhile_dropWhile_id)
  have colon: "addr_char CHR '':''" by (simp add: addr_char_def)
  from less.prems show ?case
  proof (cases rule: v6_loop_SomeE)
    case 1
    then show ?thesis using split by (simp only: list.pred_inject)
  next
    case 2
    then show ?thesis by (rule v4_fields_chars)
  next
    case 3
    then show ?thesis using split colon less.hyps dropWhile_Cons_length by fastforce
  next
    case 4
    then show ?thesis using split colon by simp
  next
    case (5 rest)
    have "length (CHR '':'' # rest) < length s" by (rule dropWhile_Cons_length [OF 5(1)])
    then have "list_all addr_char rest" using 5(2) by (intro less.hyps) simp_all
    then show ?thesis using 5(1) split colon by simp
  qed
qed

lemma takeWhile_neq_append: "d \<notin> set a \<Longrightarrow> takeWhile (\<lambda>c. c \<noteq> d) (a @ d # b) = a"
  by (induction a) auto

lemma dropWhile_neq_append: "d \<notin> set a \<Longrightarrow> dropWhile (\<lambda>c. c \<noteq> d) (a @ d # b) = d # b"
  by (induction a) auto

lemma cut_at_append: "d \<notin> set a \<Longrightarrow> cut_at d (a @ d # b) = Some (a, b)"
  by (simp add: cut_at_def takeWhile_neq_append dropWhile_neq_append)

lemma parse_ipv6_chars:
  assumes "parse_ipv6 s = Some a" "Zone a = []"
  shows "list_all addr_char s"
proof -
  have *: "list_all addr_char s" if "has_prefix s ''::''" "list_all addr_char (drop 2 s)"
  proof -
    from that(1) have "s = ''::'' @ drop 2 s"
      by (metis append_take_drop_id has_prefix_def length_Cons list.size(3) numeral_2_eq_2)
    with that(2) show ?thesis by (metis (full_types) addr_char_def list.pred_inject(2) append_Cons append_Nil)
  qed
  show ?thesis
  proof (cases "CHR ''%'' \<in> set s")
    case True
    then obtain s0 zone where c: "cut_at (CHR ''%'') s = Some (s0, zone)" by (simp add: cut_at_def)
    with assms True show ?thesis
      by (auto simp: parse_ipv6_def split: if_splits option.splits)
  next
    case False
    then have "cut_at (CHR ''%'') s = None" by (simp add: cut_at_def)
    with assms(1) False consider "s = ''::''" | r where "has_prefix s ''::''" "v6_loop (drop 2 s) [] (Some 0) = Some r"
      | r where "v6_loop s [] None = Some r"
      by (auto simp: parse_ipv6_def split: if_splits option.splits)
    then show ?thesis
      using * v6_loop_chars by cases (auto simp: addr_char_def)
  qed
qed

lemma ParseAddr_chars:
  assumes "ParseAddr s = Some a" "Zone a = []"
  shows "list_all addr_char s"
  using assms v4_fields_chars parse_ipv6_chars
  by (auto simp: ParseAddr_def parse_ipv4_def split: list.splits if_splits)

lemma split_on_chars: "set h \<subseteq> insert d (\<Union> (set ` set (split_on d h)))"
proof (induction h)
  case (Cons a h)
  then show ?case by (cases "split_on d h") auto
qed simp

lemma valid_labels_chars:
  "list_all valid_label (split_on d h) \<Longrightarrow> c \<in> set h \<Longrightarrow> c = d \<or> label_char c"
  using split_on_chars [of h d] by (fastforce simp: list_all_iff valid_label_def)

definition node_host_char :: "char \<Rightarrow> bool" where
  "node_host_char c = (label_char c \<or> c = CHR ''.'' \<or> c = CHR '':'')"

lemma addr_char_node_host: "addr_char c \<Longrightarrow> node_host_char c"
  by (auto simp: addr_char_def node_host_char_def label_char_def is_hex_def is_lower_def is_upper_def)

lemma ValidateNodeHost_chars:
  assumes "ValidateNodeHost host = Inr ()"
  shows "\<forall>c \<in> set (unbracket host). node_host_char c"
proof (cases "ParseAddr (unbracket host)")
  case None
  with assms have "list_all valid_label (split_on (CHR ''.'') (unbracket host))"
    by (auto simp: ValidateNodeHost_def Let_def split: if_splits)
  then show ?thesis by (auto simp: node_host_char_def dest: valid_labels_chars)
next
  case (Some a)
  with assms have "Zone a = []" by (auto simp: ValidateNodeHost_def Let_def split: if_splits)
  with Some ParseAddr_chars show ?thesis by (auto simp: list_all_iff addr_char_node_host)
qed

lemma node_host_char_facts:
  "node_host_char c \<Longrightarrow> host_char c"
  "\<not> node_host_char CHR ''[''" "\<not> node_host_char CHR '']''" "\<not> node_host_char CHR ''/''"
  "\<not> node_host_char CHR ''?''" "\<not> node_host_char CHR ''#''" "\<not> node_host_char CHR ''@''"
  "\<not> node_host_char CHR ''%''"
         apply (auto simp: node_host_char_def host_char_def label_char_def) [1]
        apply (simp_all add: node_host_char_def label_char_def is_digit_def is_lower_def is_upper_def byte_def)
  done

lemma not_has_prefix: "c \<notin> set s \<Longrightarrow> \<not> has_prefix s [c]"
  by (cases s) (auto simp: has_prefix_def)

lemma not_has_suffix: "c \<notin> set s \<Longrightarrow> \<not> has_suffix s [c]"
  using not_has_prefix [of c "rev s"] by (simp add: has_suffix_def)

text \<open>Trimming the brackets one by one agrees with \<open>unbracket\<close> on accepted hosts.\<close>

lemma trim_brackets:
  assumes "\<forall>c \<in> set (unbracket host). node_host_char c"
  shows "trim_suffix (trim_prefix host ''['') '']'' = unbracket host"
proof (cases "has_prefix host ''['' \<and> has_suffix host '']''")
  case True
  then obtain t where host: "host = CHR ''['' # t"
    by (cases host) (auto simp: has_prefix_def)
  with True obtain u where "t = u @ '']''"
    by (cases t rule: rev_cases) (auto simp: has_suffix_def has_prefix_def)
  with host show ?thesis
    by (simp add: unbracket_def has_prefix_def has_suffix_def trim_prefix_def trim_suffix_def)
next
  case False
  then have "unbracket host = host" by (auto simp: unbracket_def)
  with assms have "CHR ''['' \<notin> set host" "CHR '']'' \<notin> set host" "unbracket host = host"
    using node_host_char_facts by auto
  then show ?thesis
    by (simp add: trim_prefix_def trim_suffix_def not_has_prefix not_has_suffix)
qed

lemma escape_host_id: "\<forall>c \<in> set s. host_char c \<Longrightarrow> escape_host s = s"
  by (induction s) (auto simp: escape_host_def)

lemma cut_last_append: "d \<notin> set b \<Longrightarrow> cut_last d (a @ d # b) = Some (a, b)"
  using cut_at_append [of d "rev b" "rev a"] by (simp add: cut_last_def)

lemma split_join_host_port:
  assumes "CHR ''['' \<notin> set h" "CHR '']'' \<notin> set h" "CHR '':'' \<notin> set p" "CHR ''['' \<notin> set p" "CHR '']'' \<notin> set p"
  shows "SplitHostPort (JoinHostPort h p) = Some (h, p)"
proof (cases "CHR '':'' \<in> set h")
  case True
  have "cut_last (CHR '':'') ((''['' @ h @ '']'') @ CHR '':'' # p) = Some (''['' @ h @ '']'', p)"
    using assms by (intro cut_last_append) simp
  moreover have "cut_at (CHR '']'') ((''['' @ h) @ CHR '']'' # ('':'' @ p)) = Some (''['' @ h, '':'' @ p)"
    using assms by (intro cut_at_append) simp
  ultimately show ?thesis
    using True assms by (simp add: SplitHostPort_def JoinHostPort_def has_prefix_def)
next
  case False
  moreover have "cut_last (CHR '':'') (h @ CHR '':'' # p) = Some (h, p)"
    using assms by (intro cut_last_append) simp
  moreover have "\<not> has_prefix (h @ CHR '':'' # p) ''[''"
    using assms by (cases h) (auto simp: has_prefix_def)
  ultimately show ?thesis
    using assms by (simp add: SplitHostPort_def JoinHostPort_def)
qed

lemma dec_port_chars: "0 \<le> n \<Longrightarrow> c \<in> set (dec n) \<Longrightarrow> is_digit c"
  using dec_nat_digits [of "nat n"] by (auto simp: dec_def list_all_iff)

lemma digit_facts:
  "is_digit c \<Longrightarrow> host_char c" "\<not> is_digit CHR ''[''" "\<not> is_digit CHR '']''" "\<not> is_digit CHR '':''"
  "\<not> is_digit CHR ''/''" "\<not> is_digit CHR ''?''" "\<not> is_digit CHR ''#''" "\<not> is_digit CHR ''@''"
  "\<not> is_digit CHR ''%''"
  by (auto simp: host_char_def is_digit_def byte_def)

lemma bracket_host_char: "host_char CHR ''[''" "host_char CHR '']''" "host_char CHR '':''"
  by (simp_all add: host_char_def)

lemma BaseURL_Inr:
  assumes "BaseURL host port = Inr u"
  shows "\<forall>c \<in> set (unbracket host). node_host_char c" "1 \<le> port" "port \<le> 65535"
    "u = ''http://'' @ JoinHostPort (unbracket host) (dec port)"
proof -
  from assms have v: "ValidateNodeHost host = Inr ()" and pr: "1 \<le> port" "port \<le> 65535"
    and u: "u = url_string ''http'' (JoinHostPort (trim_suffix (trim_prefix host ''['') '']'') (dec port))"
    by (auto simp: BaseURL_def baseURLWithScheme_def and_then_Inr Let_def ValidateNodePort_def split: if_splits)
  show h: "\<forall>c \<in> set (unbracket host). node_host_char c" by (rule ValidateNodeHost_chars [OF v])
  have "\<forall>c \<in> set (JoinHostPort (unbracket host) (dec port)). host_char c"
    using h pr dec_port_chars [of port] node_host_char_facts(1) digit_facts(1) bracket_host_char
    by (auto simp: JoinHostPort_def)
  with u trim_brackets [OF h] show "u = ''http://'' @ JoinHostPort (unbracket host) (dec port)"
    by (simp add: url_string_def escape_host_id)
  show "1 \<le> port" "port \<le> 65535" by (fact pr)+
qed

text \<open>node_url_roundtrip: the base URL built for a node denotes exactly that node.
  Whenever the address passes validation, the URL is \<^verbatim>\<open>http://\<close> followed by an
  authority without path, query, fragment, user-info or escape characters, and
  splitting that authority gives back the node's host without its brackets and
  the decimal port.\<close>

theorem node_url_roundtrip:
  assumes "BaseURL host port = Inr u"
  shows "\<exists>hp. u = ''http://'' @ hp \<and> set hp \<inter> set ''/?#@%'' = {}
    \<and> SplitHostPort hp = Some (unbracket host, dec port)"
proof -
  note b = BaseURL_Inr [OF assms]
  from b(2) have "0 \<le> port" by linarith
  note d = dec_port_chars [OF this]
  have "\<forall>c \<in> set (unbracket host) \<union> set (dec port). c \<notin> set ''/?#@%[]''"
    using b(1) d node_host_char_facts digit_facts by auto
  then have "set (JoinHostPort (unbracket host) (dec port)) \<inter> set ''/?#@%'' = {}"
    by (auto simp: JoinHostPort_def)
  moreover have "SplitHostPort (JoinHostPort (unbracket host) (dec port)) = Some (unbracket host, dec port)"
    using b(1) d node_host_char_facts digit_facts by (intro split_join_host_port) blast+
  ultimately show ?thesis using b(4) by blast
qed

text \<open>The hypothesis holds of a bracketed IPv6 host.\<close>

theorem node_url_roundtrip_witness:
  "BaseURL ''[fd00::1]'' 8444 = Inr ''http://[fd00::1]:8444''
   \<and> (\<exists>hp. ''http://[fd00::1]:8444'' = ''http://'' @ hp \<and> set hp \<inter> set ''/?#@%'' = {}
      \<and> SplitHostPort hp = Some (unbracket ''[fd00::1]'', dec 8444))"
proof -
  have "\<exists>x. ParseAddr ''fd00::1'' = Some (V6 x [])"
    by (simp add: ParseAddr_def parse_ipv6_def cut_at_def has_prefix_def expand_ellipsis_def netip_eval)
  moreover have "dec 8444 = ''8444''" by (simp add: dec_def dec_nat.simps char_of_def bit_0)
  ultimately have "BaseURL ''[fd00::1]'' 8444 = Inr ''http://[fd00::1]:8444''"
    by (auto simp: BaseURL_def baseURLWithScheme_def ValidateNodeHost_def ValidateNodePort_def unbracket_def
        has_prefix_def has_suffix_def trim_prefix_def trim_suffix_def url_string_def escape_host_def
        JoinHostPort_def host_char_def is_lower_def is_upper_def netip_eval)
  with node_url_roundtrip [OF this] show ?thesis by blast
qed

section \<open>Public addresses\<close>

text \<open>The ranges of addresses that are not public: for IPv4; for IPv6 with or without
  a zone; and the two that are recognised only without a zone.\<close>

definition nonpublic4 :: "(nat \<times> nat) list" where
  "nonpublic4 =
   [(0, 0x00ffffff), (0x0a000000, 0x0affffff), (0x64400000, 0x647fffff), (0x7f000000, 0x7fffffff),
    (0xa9fe0000, 0xa9feffff), (0xac100000, 0xac1fffff), (0xc0000000, 0xc00000ff),
    (0xc0a80000, 0xc0a8ffff), (0xc6120000, 0xc613ffff), (0xe0000000, 0xffffffff)]"

definition nonpublic6 :: "(nat \<times> nat) list" where
  "nonpublic6 =
   [(1, 1),
    (0xfc000000000000000000000000000000, 0xfdffffffffffffffffffffffffffffff),
    (0xfe800000000000000000000000000000, 0xfebfffffffffffffffffffffffffffff),
    (0xff000000000000000000000000000000, 0xffffffffffffffffffffffffffffffff)]"

definition unzoned6 :: "(nat \<times> nat) list" where
  "unzoned6 = [(0, 0), (0x0064ff9b000000000000000000000000, 0x0064ff9b0000000000000000ffffffff)]"

definition outside :: "(nat \<times> nat) list \<Rightarrow> nat \<Rightarrow> bool" where
  "outside rs n = list_all (\<lambda>r. \<not> in_range n r) rs"

lemma in_range_single: "in_range n (k, k) \<longleftrightarrow> n = k"
  by (auto simp: in_range_def)

lemma is_4in6_range: "is_4in6 a \<longleftrightarrow> in_range (unat a) (0xffff00000000, 0xffffffffffff)"
proof -
  have "is_4in6 a \<longleftrightarrow> unat (drop_bit 32 a) = 0xffff"
    unfolding is_4in6_def by (simp add: word_unat_eq_iff)
  then show ?thesis
    using div_in_range [of 4294967296 "unat a" 65535] by (simp only: unat_drop) simp
qed

lemma unat_mapped: "unat (ucast a :: 32 word) = unat a mod 4294967296" for a :: "128 word"
  by (simp add: unsigned_ucast_eq take_bit_eq_mod)

lemma public4:
  fixes a :: "32 word"
  shows "IsPublicAddr (V4 a) = outside nonpublic4 (unat a)"
proof -
  define n where "n = unat a"
  have n: "n < 4294967296" using n4 by (simp add: n_def)
  have lo: "IsLoopback (V4 a) \<longleftrightarrow> in_range n (0x7f000000, 0x7fffffff)"
    using div_in_range [of 16777216 n 127] by (simp add: v4_0 flip: n_def)
  have p1: "n div 16777216 = 10 \<longleftrightarrow> in_range n (0x0a000000, 0x0affffff)"
    using div_in_range [of 16777216 n 10] by simp
  have "n div 65536 mod 256 div 16 = n div 1048576 mod 16"
    using mod_mult2_eq [of "n div 65536" 16 16] by (simp flip: div_mult2_eq)
  then have p2: "n div 16777216 = 172 \<and> n div 65536 mod 256 div 16 = 1 \<longleftrightarrow> in_range n (0xac100000, 0xac1fffff)"
    using div_mod_join [of 16 1 n 1048576 172] div_in_range [of 1048576 n 2753] by simp
  have p3: "n div 16777216 = 192 \<and> n div 65536 mod 256 = 168 \<longleftrightarrow> in_range n (0xc0a80000, 0xc0a8ffff)"
    using div_mod_join [of 256 168 n 65536 192] div_in_range [of 65536 n 49320] by simp
  have pr: "IsPrivate (V4 a) \<longleftrightarrow> in_range n (0x0a000000, 0x0affffff) \<or> in_range n (0xac100000, 0xac1fffff) \<or> in_range n (0xc0a80000, 0xc0a8ffff)"
    unfolding p1 [symmetric] p2 [symmetric] p3 [symmetric] by (simp add: private4_def v4_0 v4_1 [unfolded One_nat_def] and_f0 unat_v4 n_def)
  have ll: "IsLinkLocalUnicast (V4 a) \<longleftrightarrow> in_range n (0xa9fe0000, 0xa9feffff)"
    using div_mod_join [of 256 254 n 65536 169] div_in_range [of 65536 n 43518] by (simp add: v4_0 v4_1 [unfolded One_nat_def] flip: n_def)
  have "n div 16777216 mod 256 div 16 = n div 268435456 mod 16"
    using mod_mult2_eq [of "n div 16777216" 16 16] by (simp flip: div_mult2_eq)
  then have mc: "IsMulticast (V4 a) \<longleftrightarrow> in_range n (0xe0000000, 0xefffffff)"
    using n div_in_range [of 268435456 n 14] by (simp add: and_f0 unat_v4 flip: n_def)
  have llm: "IsLinkLocalMulticast (V4 a) \<Longrightarrow> IsMulticast (V4 a)"
    by simp
  have cg: "Contains cgnat (V4 a) \<longleftrightarrow> in_range n (0x64400000, 0x647fffff)"
    using div_in_range [of 4194304 n 401] unfolding Contains.simps drop_bit_xor_0 n_def by simp
  have tn: "Contains thisNet (V4 a) \<longleftrightarrow> in_range n (0, 0x00ffffff)"
    using div_in_range [of 16777216 n 0] unfolding Contains.simps drop_bit_xor_0 n_def by simp
  have bm: "Contains benchmark (V4 a) \<longleftrightarrow> in_range n (0xc6120000, 0xc613ffff)"
    using div_in_range [of 131072 n 25353] unfolding Contains.simps drop_bit_xor_0 n_def by simp
  have re: "Contains reserved (V4 a) \<longleftrightarrow> in_range n (0xf0000000, 0xffffffff)"
    using div_in_range [of 268435456 n 15] unfolding Contains.simps drop_bit_xor_0 n_def by simp
  have ie: "Contains ietf (V4 a) \<longleftrightarrow> in_range n (0xc0000000, 0xc00000ff)"
    using div_in_range [of 256 n 12582912] unfolding Contains.simps drop_bit_xor_0 n_def by simp
  have mr: "in_range n (0xe0000000, 0xefffffff) \<or> in_range n (0xf0000000, 0xffffffff) \<longleftrightarrow> in_range n (0xe0000000, 0xffffffff)"
    unfolding in_range_def fst_conv snd_conv by linarith
  have z: "a = 0 \<Longrightarrow> Contains thisNet (V4 a)" by simp
  have b: "a = 0xffffffff \<Longrightarrow> Contains reserved (V4 a)" by simp
  have "IsPublicAddr (V4 a) \<longleftrightarrow> \<not> (IsLoopback (V4 a) \<or> IsPrivate (V4 a) \<or> IsLinkLocalUnicast (V4 a)
      \<or> IsMulticast (V4 a) \<or> Contains cgnat (V4 a) \<or> Contains thisNet (V4 a) \<or> Contains benchmark (V4 a)
      \<or> Contains reserved (V4 a) \<or> Contains ietf (V4 a))"
    using llm z b unfolding IsPublicAddr_def Let_def Unmap.simps IsUnspecified_def by auto
  also have "\<dots> \<longleftrightarrow> outside nonpublic4 n"
    using mr unfolding lo pr ll mc cg tn bm re ie outside_def nonpublic4_def by (simp only: list.pred_inject) argo
  finally show ?thesis by (simp only: n_def)
qed

lemma public6:
  assumes "\<not> is_4in6 a"
  shows "IsPublicAddr (V6 a z) = outside (nonpublic6 @ (if z = [] then unzoned6 else [])) (unat a)"
proof -
  define n where "n = unat a"
  have lo: "a = 1 \<longleftrightarrow> n = 1" "a = 0 \<longleftrightarrow> n = 0" by (simp_all add: n_def word_unat_eq_iff)
  have "n div 1329227995784915872903807060280344576 mod 256 div 2 = n div 2658455991569831745807614120560689152"
    using n6 [of a] by (simp add: n_def flip: div_mult2_eq)
  then have pr: "v6 a 0 AND 0xfe = 0xfc \<longleftrightarrow> in_range n (0xfc000000000000000000000000000000, 0xfdffffffffffffffffffffffffffffff)"
    using div_in_range [of 2658455991569831745807614120560689152 n 126] by (simp add: and_fe unat_v6 flip: n_def)
  have ll: "v6u16 a 0 AND 0xffc0 = 0xfe80 \<longleftrightarrow> in_range n (0xfe800000000000000000000000000000, 0xfebfffffffffffffffffffffffffffff)"
    using div_in_range [of "64 * 5192296858534827628530496329220096" n 1018]
    by (simp add: and_ffc0 v6u16_0 flip: n_def div_mult2_eq)
  have mc: "v6 a 0 = 0xff \<longleftrightarrow> in_range n (0xff000000000000000000000000000000, 0xffffffffffffffffffffffffffffffff)"
    using div_in_range [of 1329227995784915872903807060280344576 n 255] by (simp add: v6_0 flip: n_def)
  have na: "Contains nat64 (V6 a z) \<longleftrightarrow> z = [] \<and> in_range n (0x0064ff9b000000000000000000000000, 0x0064ff9b0000000000000000ffffffff)"
    using div_in_range [of 4294967296 n "0x0064ff9b0000000000000000"]
    unfolding Contains.simps drop_bit_xor_0 n_def by simp
  have mm: "v6u16 a 0 AND 0xff0f = 0xff02 \<Longrightarrow> v6 a 0 = 0xff" "v6u16 a 0 AND 0xff0f = 0xff01 \<Longrightarrow> v6 a 0 = 0xff"
    using multicast6 by force+
  have "IsPublicAddr (V6 a z) \<longleftrightarrow> \<not> (a = 1 \<or> v6 a 0 AND 0xfe = 0xfc \<or> v6u16 a 0 AND 0xffc0 = 0xfe80 \<or> v6 a 0 = 0xff
     \<or> Contains nat64 (V6 a z) \<or> (a = 0 \<and> z = []))"
    using mm assms unfolding IsPublicAddr_def Let_def Unmap.simps IsUnspecified_def by auto
  also have "\<dots> \<longleftrightarrow> outside (nonpublic6 @ (if z = [] then unzoned6 else [])) n"
    unfolding lo pr ll mc na outside_def nonpublic6_def unzoned6_def in_range_single [symmetric]
    by (simp only: list.pred_inject append.simps split: if_split) argo
  finally show ?thesis by (simp only: n_def)
qed


text \<open>zone_hides_unspecified: the guard on dialled addresses lets the unspecified
  address through when it is written with a zone.  Without a zone it is refused,
  and so is every other spelling of the local host that the guard lists.\<close>

theorem zone_hides_unspecified:
  assumes "z \<noteq> []" "CHR ''['' \<notin> set z" "CHR '']'' \<notin> set z"
  shows "safeDialControl (JoinHostPort (''::%'' @ z) ''443'') = Inr ()
    \<and> \<not> is_ok (safeDialControl ''[::]:443'')"
proof -
  have "cut_at (CHR ''%'') (''::'' @ CHR ''%'' # z) = Some (''::'', z)"
    by (rule cut_at_append) simp
  with assms have "ParseAddr (''::%'' @ z) = Some (V6 0 z)"
    by (simp add: ParseAddr_def parse_ipv6_def)
  moreover have "SplitHostPort (JoinHostPort (''::%'' @ z) ''443'') = Some (''::%'' @ z, ''443'')"
    by (rule split_join_host_port) (use assms in auto)
  moreover have "IsPublicAddr (V6 0 z)"
    using assms public6 [of 0 z] by (simp add: is_4in6_def outside_def nonpublic6_def in_range_def)
  moreover have "SplitHostPort ''[::]:443'' = Some (''::'', ''443'')"
    using split_join_host_port [of "''::''" "''443''"] by (simp add: JoinHostPort_def)
  moreover have "ParseAddr ''::'' = Some (V6 0 [])"
    by (simp add: ParseAddr_def parse_ipv6_def cut_at_def)
  moreover have "\<not> IsPublicAddr (V6 0 [])"
    by (simp add: IsPublicAddr_def is_4in6_def IsUnspecified_def)
  ultimately show ?thesis by (simp add: safeDialControl_def)
qed

text \<open>The hypotheses hold of the zone \<^verbatim>\<open>x\<close>.\<close>

theorem zone_hides_unspecified_witness:
  "safeDialControl ''[::%x]:443'' = Inr () \<and> \<not> is_ok (safeDialControl ''[::]:443'')"
  using zone_hides_unspecified [of "''x''"] by (simp add: JoinHostPort_def)

end
