(* ===== verification/Nodes.thy ===== *)
theory Nodes
  imports Players Addresses Crypto
begin

text \<open>
  \<^verbatim>\<open>services/node_service.go\<close>, \<^verbatim>\<open>services/enrollment_service.go\<close>, the pool
  of daemon clients in \<^verbatim>\<open>daemon/client.go\<close> and the handlers in
  \<^verbatim>\<open>handlers/nodes.go\<close> and \<^verbatim>\<open>handlers/enrollment.go\<close>: registration and
  enrollment of nodes, heartbeats, and the queue of commands a node fetches and
  acknowledges.  Random bytes and new ids are arguments.  Rows with equal
  timestamps are listed in insertion order, which the database leaves open.
\<close>

section \<open>Errors and addresses\<close>

abbreviation ErrNodeNotFound :: go_error where
  "ErrNodeNotFound \<equiv> New ''node not found''"
abbreviation ErrEnrollmentNotFound :: go_error where
  "ErrEnrollmentNotFound \<equiv> New ''enrollment not found or already redeemed''"
abbreviation ErrEnrollmentExpired :: go_error where
  "ErrEnrollmentExpired \<equiv> New ''enrollment token expired''"

definition validateNodeAddress :: "string \<Rightarrow> int \<Rightarrow> string \<Rightarrow> unit result" where
  "validateNodeAddress fqdn port publicAddress =
     (if \<not> is_ok (ValidateNodeHost fqdn)
      then Inl (Note ErrInvalidNodeAddress '': fqdn must be a hostname or IP address'')
      else if \<not> is_ok (ValidateNodePort port)
      then Inl (Note ErrInvalidNodeAddress '': port must be between 1 and 65535'')
      else if publicAddress \<noteq> '''' \<and> \<not> is_ok (ValidateNodeHost publicAddress)
      then Inl (Note ErrInvalidNodeAddress '': public_address must be a hostname or IP address'')
      else Inr ())"

definition generateNodeToken :: "prims \<Rightarrow> string \<Rightarrow> string \<times> string" where
  "generateNodeToken pr buf = (let plain = hex_encode buf in (plain, hashToken pr plain))"

section \<open>The table of nodes\<close>

definition find_node :: "db \<Rightarrow> uuid \<Rightarrow> Node option" where
  "find_node d i = List.find (\<lambda>n. n_ID n = i) (nodes d)"

text \<open>\<^verbatim>\<open>INSERT INTO nodes\<close> with the constraints of the table.\<close>

definition insert_node :: "env \<Rightarrow> string \<Rightarrow> db \<Rightarrow> Node \<Rightarrow> db result" where
  "insert_node e label d n =
     (if fault e label \<or> (\<exists>x \<in> set (nodes d). n_ID x = n_ID n \<or> n_TokenHash x = n_TokenHash n)
         \<or> rune_count (n_Name n) < 1 \<or> rune_count (n_Name n) > 100
         \<or> n_Port n < 1 \<or> n_Port n > 65535 \<or> n_MaxServers n \<le> 0
      then Inl (Driver label)
      else Inr (d\<lparr>nodes := nodes d @ [n]\<rparr>))"

record RegisterNodeRequest =
  rn_Name :: string
  rn_FQDN :: string
  rn_Port :: int
  rn_Location :: string
  rn_CertThumbprint :: string
  rn_TotalCPU :: int
  rn_TotalRAMMB :: int
  rn_TotalDiskMB :: int
  rn_MaxServers :: int

definition ListNodes :: "env \<Rightarrow> db \<Rightarrow> (string \<Rightarrow> nat) \<Rightarrow> Node list result" where
  "ListNodes e d collation =
     wrapping ''querying nodes'' (call e ''ListNodes'' (sort_key (\<lambda>n. collation (n_Name n)) (nodes d)))"

definition GetNode :: "env \<Rightarrow> db \<Rightarrow> uuid \<Rightarrow> Node result" where
  "GetNode e d nodeID =
     (case call e ''GetNode'' (find_node d nodeID) of
        Inl err \<Rightarrow> Inl (Wrap ''fetching node'' err)
      | Inr None \<Rightarrow> Inl ErrNodeNotFound
      | Inr (Some n) \<Rightarrow> Inr n)"

definition RegisterNode ::
  "prims \<Rightarrow> env \<Rightarrow> uuid \<Rightarrow> string \<Rightarrow> db \<Rightarrow> RegisterNodeRequest \<Rightarrow> (Node \<times> string) result \<times> db" where
  "RegisterNode pr e newID buf d req =
     (case validateNodeAddress (rn_FQDN req) (rn_Port req) '''' of
        Inl err \<Rightarrow> (Inl err, d)
      | Inr _ \<Rightarrow>
          if fault e ''generateNodeToken''
          then (Inl (Wrap ''generating registration token'' (Driver ''generateNodeToken'')), d)
          else
            (let (plain, hash) = generateNodeToken pr buf;
                 n = \<lparr>n_ID = newID, n_Name = rn_Name req, n_FQDN = rn_FQDN req, n_PublicAddress = None,
                      n_Port = rn_Port req, n_TotalCPU = rn_TotalCPU req, n_TotalRAMMB = rn_TotalRAMMB req,
                      n_TotalDiskMB = rn_TotalDiskMB req, n_MaxServers = rn_MaxServers req,
                      n_TokenHash = hash, n_Status = ''offline'', n_Location = Some (rn_Location req),
                      n_CertThumbprint = Some (rn_CertThumbprint req), n_LastHeartbeat = None,
                      n_CreatedAt = now e, n_MTLSEnabled = False, n_CertSerial = None, n_CertNotAfter = None\<rparr>
             in case insert_node e ''RegisterNode'' d n of
                  Inl err \<Rightarrow> (Inl (Wrap ''inserting node'' err), d)
                | Inr d' \<Rightarrow> (Inr (n, plain), d')))"

section \<open>Daemon start and heartbeat\<close>

record DaemonSelfRegisterRequest =
  ds_CPUCores :: int
  ds_TotalRAMMB :: int
  ds_TotalDiskMB :: int

definition hosted_player :: "db \<Rightarrow> uuid \<Rightarrow> PlayerSession \<Rightarrow> bool" where
  "hosted_player d nodeID s =
     (\<exists>p \<in> set (players d). pl_ID p = ps_PlayerID s \<and>
        (\<exists>sv \<in> set (servers d). sv_ID sv = pl_ServerID p \<and> sv_NodeID sv = nodeID))"

text \<open>Three statements in a row; a failure leaves the effects of the earlier ones.  A
  trigger sets \<^verbatim>\<open>updated_at\<close> on every update of a server row.\<close>

definition DaemonSelfRegister ::
  "env \<Rightarrow> db \<Rightarrow> uuid \<Rightarrow> DaemonSelfRegisterRequest \<Rightarrow> unit result \<times> db" where
  "DaemonSelfRegister e d nodeID req =
     (let d1 = d\<lparr>nodes := update_where (\<lambda>n. n_ID n = nodeID)
            (\<lambda>n. n\<lparr>n_TotalCPU := ds_CPUCores req, n_TotalRAMMB := ds_TotalRAMMB req,
               n_TotalDiskMB := ds_TotalDiskMB req, n_Status := ''online'', n_LastHeartbeat := Some (now e)\<rparr>)
            (nodes d)\<rparr>;
          d2 = d1\<lparr>servers := update_where (\<lambda>s. sv_NodeID s = nodeID \<and> sv_Status s \<noteq> ''stopped'')
            (\<lambda>s. s\<lparr>sv_Status := ''stopped'', sv_UpdatedAt := now e\<rparr>) (servers d1)\<rparr>
      in if fault e ''DaemonSelfRegister.node''
         then (Inl (Wrap ''daemon self-register'' (Driver ''DaemonSelfRegister.node'')), d)
         else if fault e ''DaemonSelfRegister.servers''
         then (Inl (Wrap ''daemon self-register: reset server statuses'' (Driver ''DaemonSelfRegister.servers'')), d1)
         else (case closeOpenSessions e ''DaemonSelfRegister.sessions'' (hosted_player d2 nodeID) d2 of
             Inl err \<Rightarrow> (Inl (Wrap ''daemon self-register: close player sessions'' err), d2)
           | Inr d3 \<Rightarrow> (Inr (), d3)))"

record NodeHeartbeatRequest =
  hb_Status :: string
  hb_CPUPercent :: rat
  hb_RAMUsedMB :: nat
  hb_DiskUsedMB :: nat
  hb_MTLSReady :: bool
  hb_CertSerial :: string
  hb_CertNotAfter :: "time option"

definition node_status :: "string \<Rightarrow> bool" where
  "node_status s = (s \<in> {''online'', ''offline'', ''draining''})"

text \<open>\<^verbatim>\<open>COALESCE($4 AND cert_serial = NULLIF($5, ''), false)\<close>.\<close>

definition advert_accepted :: "NodeHeartbeatRequest \<Rightarrow> Node \<Rightarrow> bool" where
  "advert_accepted req n = (hb_MTLSReady req \<and> hb_CertSerial req \<noteq> '''' \<and> n_CertSerial n = Some (hb_CertSerial req))"

definition UpdateNodeHeartbeat :: "env \<Rightarrow> db \<Rightarrow> uuid \<Rightarrow> NodeHeartbeatRequest \<Rightarrow> bool result \<times> db" where
  "UpdateNodeHeartbeat e d nodeID req =
     (let status = (if hb_Status req = '''' then ''online'' else hb_Status req)
      in if fault e ''UpdateNodeHeartbeat'' \<or> \<not> node_status status
         then (Inl (Wrap ''updating node heartbeat'' (Driver ''UpdateNodeHeartbeat'')), d)
         else (case find_node d nodeID of
             None \<Rightarrow> (Inl ErrNodeNotFound, d)
           | Some n \<Rightarrow>
               (Inr (hb_MTLSReady req \<and> \<not> advert_accepted req n),
                d\<lparr>nodes := update_where (\<lambda>n. n_ID n = nodeID)
                  (\<lambda>n. n\<lparr>n_Status := status, n_LastHeartbeat := Some (now e),
                     n_MTLSEnabled := n_MTLSEnabled n \<or> advert_accepted req n,
                     n_CertNotAfter := (if advert_accepted req n then hb_CertNotAfter req else n_CertNotAfter n)\<rparr>)
                  (nodes d)\<rparr>)))"

definition SetNodeStatus :: "env \<Rightarrow> db \<Rightarrow> uuid \<Rightarrow> string \<Rightarrow> unit result \<times> db" where
  "SetNodeStatus e d nodeID status =
     (if fault e ''SetNodeStatus'' \<or> \<not> node_status status
      then (Inl (Wrap ''setting node status'' (Driver ''SetNodeStatus'')), d)
      else if rows_affected (\<lambda>n. n_ID n = nodeID) (nodes d) = 0 then (Inl ErrNodeNotFound, d)
      else (Inr (), d\<lparr>nodes := update_where (\<lambda>n. n_ID n = nodeID) (\<lambda>n. n\<lparr>n_Status := status\<rparr>) (nodes d)\<rparr>))"

text \<open>Servers that are down, \<^verbatim>\<open>status IN ('stopped', 'crashed')\<close>.\<close>

definition server_down :: "Server \<Rightarrow> bool" where
  "server_down s = (sv_Status s = ''stopped'' \<or> sv_Status s = ''crashed'')"

definition active_servers :: "db \<Rightarrow> uuid \<Rightarrow> nat" where
  "active_servers d nodeID = rows_affected (\<lambda>s. sv_NodeID s = nodeID \<and> \<not> server_down s) (servers d)"

text \<open>The row is referenced by \<^verbatim>\<open>servers.node_id\<close> (refused), by commands and metrics
  (deleted with it) and by enrollments and alert events (set to null).\<close>

definition delete_node_row :: "db \<Rightarrow> uuid \<Rightarrow> db" where
  "delete_node_row d nodeID =
     d\<lparr>nodes := delete_where (\<lambda>n. n_ID n = nodeID) (nodes d),
       node_commands := delete_where (\<lambda>c. c_NodeID c = nodeID) (node_commands d),
       node_metrics := delete_where (\<lambda>m. nm_NodeID m = nodeID) (node_metrics d),
       node_enrollments := update_where (\<lambda>r. e_NodeID r = Some nodeID) (\<lambda>r. r\<lparr>e_NodeID := None\<rparr>)
         (node_enrollments d),
       alert_events := update_where (\<lambda>v. ae_NodeID v = Some nodeID) (\<lambda>v. v\<lparr>ae_NodeID := None\<rparr>)
         (alert_events d)\<rparr>"

definition DeleteNode :: "env \<Rightarrow> db \<Rightarrow> uuid \<Rightarrow> unit result \<times> db" where
  "DeleteNode e d nodeID =
     (if fault e ''DeleteNode.count''
      then (Inl (Wrap ''checking active servers'' (Driver ''DeleteNode.count'')), d)
      else if active_servers d nodeID > 0
      then (Inl (New (''node still has '' @ dec_nat (active_servers d nodeID)
               @ '' active server(s); stop them before deleting the node'')), d)
      else if fault e ''DeleteNode'' \<or> (\<exists>s \<in> set (servers d). sv_NodeID s = nodeID)
      then (Inl (Wrap ''deleting node'' (Driver ''DeleteNode'')), d)
      else if rows_affected (\<lambda>n. n_ID n = nodeID) (nodes d) = 0 then (Inl ErrNodeNotFound, d)
      else (Inr (), delete_node_row d nodeID))"

section \<open>Commands\<close>

definition GetPendingCommands :: "env \<Rightarrow> db \<Rightarrow> uuid \<Rightarrow> NodeCommand list result" where
  "GetPendingCommands e d nodeID =
     wrapping ''querying pending commands'' (call e ''GetPendingCommands''
       (sort_key c_CreatedAt (filter (\<lambda>c. c_NodeID c = nodeID \<and> c_Status c = ''pending'') (node_commands d))))"

record CommandAckRequest =
  ack_Success :: bool
  ack_Output :: string
  ack_Error :: string

definition marshal_ack :: "CommandAckRequest \<Rightarrow> json" where
  "marshal_ack req =
     JObj ([(''success'', JBool (ack_Success req))]
       @ (if ack_Output req = '''' then [] else [(''output'', JStr (ack_Output req))])
       @ (if ack_Error req = '''' then [] else [(''error'', JStr (ack_Error req))]))"

definition AckCommand :: "env \<Rightarrow> db \<Rightarrow> uuid \<Rightarrow> uuid \<Rightarrow> CommandAckRequest \<Rightarrow> unit result \<times> db" where
  "AckCommand e d nodeID commandID req =
     (let p = (\<lambda>c. c_ID c = commandID \<and> c_NodeID c = nodeID \<and> c_Status c = ''pending'')
      in if fault e ''AckCommand'' then (Inl (Wrap ''acking command'' (Driver ''AckCommand'')), d)
         else if rows_affected p (node_commands d) = 0
         then (Inl (New ''command not found or already acked''), d)
         else (Inr (), d\<lparr>node_commands := update_where p
             (\<lambda>c. c\<lparr>c_Status := (if ack_Success req then ''acked'' else ''failed''),
                c_Result := Some (marshal_ack req), c_AckedAt := Some (now e)\<rparr>) (node_commands d)\<rparr>))"

section \<open>Metrics\<close>

definition RecordHeartbeatMetrics :: "env \<Rightarrow> db \<Rightarrow> uuid \<Rightarrow> NodeHeartbeatRequest \<Rightarrow> unit result \<times> db" where
  "RecordHeartbeatMetrics e d nodeID req =
     (if fault e ''RecordHeartbeatMetrics'' \<or> find_node d nodeID = None
      then (Inl (Wrap ''recording heartbeat metrics'' (Driver ''RecordHeartbeatMetrics'')), d)
      else (Inr (), d\<lparr>node_metrics := node_metrics d @
        [\<lparr>nm_NodeID = nodeID, nm_SampledAt = now e, nm_CPUPct = hb_CPUPercent req,
          nm_RAMUsedMB = int (hb_RAMUsedMB req), nm_DiskUsedMB = int (hb_DiskUsedMB req),
          nm_ActiveServers = int (active_servers d nodeID)\<rparr>]\<rparr>))"

definition GetNodeMetrics :: "env \<Rightarrow> db \<Rightarrow> uuid \<Rightarrow> int \<Rightarrow> NodeMetric list result" where
  "GetNodeMetrics e d nodeID hours =
     wrapping ''querying node metrics'' (call e ''GetNodeMetrics''
       (sort_key nm_SampledAt
         (filter (\<lambda>m. nm_NodeID m = nodeID \<and> nm_SampledAt m > now e - hours * hour) (node_metrics d))))"

text \<open>The most recent sample of a node, as \<^verbatim>\<open>ORDER BY sampled_at DESC LIMIT 1\<close>.\<close>

definition latest_metric :: "db \<Rightarrow> uuid \<Rightarrow> NodeMetric option" where
  "latest_metric d nodeID =
     (case sort_key (\<lambda>m. - nm_SampledAt m) (filter (\<lambda>m. nm_NodeID m = nodeID) (node_metrics d)) of
        [] \<Rightarrow> None | m # _ \<Rightarrow> Some m)"

record ClusterStats =
  cs_TotalNodes :: int
  cs_OnlineNodes :: int
  cs_TotalServers :: int
  cs_RunningServers :: int
  cs_AvgCPUPct :: rat
  cs_TotalRAMMB :: int
  cs_UsedRAMMB :: int
  cs_TotalDiskMB :: int
  cs_UsedDiskMB :: int

definition GetClusterStats :: "env \<Rightarrow> db \<Rightarrow> ClusterStats result" where
  "GetClusterStats e d =
     (let latest = [m. Some m \<leftarrow> map (latest_metric d) (remdups (map nm_NodeID (node_metrics d)))]
      in and_then (wrapping ''querying cluster node stats'' (call e ''GetClusterStats.nodes'' ())) (\<lambda>_.
         and_then (wrapping ''querying total servers'' (call e ''GetClusterStats.servers'' ())) (\<lambda>_.
         and_then (wrapping ''querying running servers'' (call e ''GetClusterStats.running'' ())) (\<lambda>_.
         and_then (wrapping ''querying cluster metric stats'' (call e ''GetClusterStats.metrics'' ())) (\<lambda>_.
         Inr \<lparr>cs_TotalNodes = int (length (nodes d)),
              cs_OnlineNodes = int (rows_affected (\<lambda>n. n_Status n = ''online'') (nodes d)),
              cs_TotalServers = int (length (servers d)),
              cs_RunningServers = int (rows_affected (\<lambda>s. sv_Status s = ''running'') (servers d)),
              cs_AvgCPUPct = (if latest = [] then 0 else sum_list (map nm_CPUPct latest) / of_nat (length latest)),
              cs_TotalRAMMB = sum_list (map n_TotalRAMMB (nodes d)),
              cs_UsedRAMMB = sum_list (map nm_RAMUsedMB latest),
              cs_TotalDiskMB = sum_list (map n_TotalDiskMB (nodes d)),
              cs_UsedDiskMB = sum_list (map nm_DiskUsedMB latest)\<rparr>)))))"

section \<open>Updating a node\<close>

record UpdateNodeRequest =
  un_Name :: "string option"
  un_Location :: "string option"
  un_MaxServers :: "int option"
  un_PublicAddress :: "string option"

text \<open>The columns a patch sets, and the constraints of the table on them.\<close>

definition patch_node :: "UpdateNodeRequest \<Rightarrow> Node \<Rightarrow> Node" where
  "patch_node req n =
     n\<lparr>n_Name := (case un_Name req of None \<Rightarrow> n_Name n | Some v \<Rightarrow> v),
       n_Location := (case un_Location req of None \<Rightarrow> n_Location n | Some v \<Rightarrow> Some v),
       n_MaxServers := (case un_MaxServers req of None \<Rightarrow> n_MaxServers n | Some v \<Rightarrow> v),
       n_PublicAddress := (case un_PublicAddress req of None \<Rightarrow> n_PublicAddress n
          | Some v \<Rightarrow> if v = '''' then None else Some v)\<rparr>"

definition patch_violates :: "UpdateNodeRequest \<Rightarrow> bool" where
  "patch_violates req =
     ((case un_Name req of None \<Rightarrow> False | Some v \<Rightarrow> rune_count v < 1 \<or> rune_count v > 100)
      \<or> (case un_MaxServers req of None \<Rightarrow> False | Some v \<Rightarrow> v \<le> 0))"

definition UpdateNode :: "env \<Rightarrow> db \<Rightarrow> uuid \<Rightarrow> UpdateNodeRequest \<Rightarrow> Node result \<times> db" where
  "UpdateNode e d nodeID req =
     (let p = (\<lambda>n. n_ID n = nodeID)
      in if un_Name req = None \<and> un_Location req = None \<and> un_MaxServers req = None \<and> un_PublicAddress req = None
         then (GetNode e d nodeID, d)
         else if (case un_PublicAddress req of None \<Rightarrow> False | Some v \<Rightarrow> v \<noteq> '''' \<and> \<not> is_ok (ValidateNodeHost v))
         then (Inl (Note ErrInvalidNodeAddress '': public_address must be a hostname or IP address''), d)
         else if fault e ''UpdateNode'' \<or> (rows_affected p (nodes d) > 0 \<and> patch_violates req)
         then (Inl (Wrap ''updating node'' (Driver ''UpdateNode'')), d)
         else (let d' = d\<lparr>nodes := update_where p (patch_node req) (nodes d)\<rparr> in (GetNode e d' nodeID, d')))"

section \<open>Enrollment\<close>

record CreateEnrollmentRequest =
  ce_NodeName :: string
  ce_TotalCPU :: int
  ce_TotalRAMMB :: int
  ce_TotalDiskMB :: int
  ce_MaxServers :: int
  ce_CreatedBy :: uuid
  ce_TTL :: int

definition nullableInt :: "int \<Rightarrow> int option" where
  "nullableInt v = (if v = 0 then None else Some v)"

definition enroll_create ::
  "prims \<Rightarrow> env \<Rightarrow> uuid \<Rightarrow> string \<Rightarrow> db \<Rightarrow> CreateEnrollmentRequest \<Rightarrow> (Enrollment \<times> string) result \<times> db" where
  "enroll_create pr e newID buf d req =
     (let maxServers = (if ce_MaxServers req \<le> 0 then 10 else ce_MaxServers req);
          ttl = (if ce_TTL req = 0 then 15 * minute else ce_TTL req);
          (plain, tokenHash) = generateNodeToken pr buf;
          createdBy = (if ce_CreatedBy req \<noteq> 0 then Some (ce_CreatedBy req) else None);
          enr = \<lparr>e_ID = newID, e_TokenHash = tokenHash, e_NodeName = ce_NodeName req,
                 e_TotalCPU = nullableInt (ce_TotalCPU req), e_TotalRAMMB = nullableInt (ce_TotalRAMMB req),
                 e_TotalDiskMB = nullableInt (ce_TotalDiskMB req), e_MaxServers = maxServers,
                 e_CreatedBy = createdBy, e_CreatedAt = now e, e_ExpiresAt = now e + ttl,
                 e_UsedAt = None, e_NodeID = None\<rparr>
      in if ce_NodeName req = '''' then (Inl (New ''node_name is required''), d)
         else if fault e ''enroll.random'' then (Inl (Wrap ''random token'' (Driver ''enroll.random'')), d)
         else if fault e ''enroll.insert''
           \<or> (\<exists>x \<in> set (node_enrollments d). e_ID x = newID \<or> e_TokenHash x = tokenHash)
           \<or> (case createdBy of None \<Rightarrow> False | Some u \<Rightarrow> find_user d u = None)
         then (Inl (Wrap ''insert enrollment'' (Driver ''enroll.insert'')), d)
         else (Inr (enr, plain), d\<lparr>node_enrollments := node_enrollments d @ [enr]\<rparr>))"

record RedeemPayload =
  rp_FQDN :: string
  rp_Port :: int
  rp_PublicAddress :: string

definition enrolled_node :: "env \<Rightarrow> uuid \<Rightarrow> string \<Rightarrow> Enrollment \<Rightarrow> RedeemPayload \<Rightarrow> Node" where
  "enrolled_node e newID hash enr payload =
     (let zero = (\<lambda>v. case v of None \<Rightarrow> 0 | Some n \<Rightarrow> n)
      in \<lparr>n_ID = newID, n_Name = e_NodeName enr, n_FQDN = rp_FQDN payload,
          n_PublicAddress = (if rp_PublicAddress payload \<noteq> '''' then Some (rp_PublicAddress payload) else None),
          n_Port = rp_Port payload, n_TotalCPU = zero (e_TotalCPU enr), n_TotalRAMMB = zero (e_TotalRAMMB enr),
          n_TotalDiskMB = zero (e_TotalDiskMB enr), n_MaxServers = e_MaxServers enr, n_TokenHash = hash,
          n_Status = ''offline'', n_Location = None, n_CertThumbprint = None, n_LastHeartbeat = None,
          n_CreatedAt = now e, n_MTLSEnabled = False, n_CertSerial = None, n_CertNotAfter = None\<rparr>)"

text \<open>The transaction; \<open>FOR UPDATE\<close> lets one redemption of a token run at a time.\<close>

definition redeem_tx ::
  "prims \<Rightarrow> env \<Rightarrow> uuid \<Rightarrow> string \<Rightarrow> db \<Rightarrow> string \<Rightarrow> RedeemPayload \<Rightarrow> ((Node \<times> string) \<times> db) result" where
  "redeem_tx pr e newID buf d plainToken payload =
     (if fault e ''Redeem.begin'' then Inl (Wrap ''begin'' (Driver ''Redeem.begin''))
      else (case call e ''Redeem.select''
                 (List.find (\<lambda>r. e_TokenHash r = hashToken pr plainToken) (node_enrollments d)) of
          Inl err \<Rightarrow> Inl (Wrap ''select enrollment'' err)
        | Inr None \<Rightarrow> Inl ErrEnrollmentNotFound
        | Inr (Some enr) \<Rightarrow>
            if e_UsedAt enr \<noteq> None then Inl ErrEnrollmentNotFound
            else if now e > e_ExpiresAt enr then Inl ErrEnrollmentExpired
            else if fault e ''Redeem.random'' then Inl (Wrap ''random node token'' (Driver ''Redeem.random''))
            else (let (plain, hash) = generateNodeToken pr buf; n = enrolled_node e newID hash enr payload
                  in case insert_node e ''Redeem.insert'' d n of
                       Inl err \<Rightarrow> Inl (Wrap ''insert node'' err)
                     | Inr d1 \<Rightarrow>
                         if fault e ''Redeem.mark'' then Inl (Wrap ''mark enrollment used'' (Driver ''Redeem.mark''))
                         else if fault e ''Redeem.commit'' then Inl (Wrap ''commit'' (Driver ''Redeem.commit''))
                         else Inr ((n, plain), d1\<lparr>node_enrollments := update_where (\<lambda>r. e_ID r = e_ID enr)
                            (\<lambda>r. r\<lparr>e_UsedAt := Some (now e), e_NodeID := Some newID\<rparr>) (node_enrollments d1)\<rparr>))))"

definition Redeem ::
  "prims \<Rightarrow> env \<Rightarrow> uuid \<Rightarrow> string \<Rightarrow> db \<Rightarrow> string \<Rightarrow> RedeemPayload \<Rightarrow> (Node \<times> string) result \<times> db" where
  "Redeem pr e newID buf d plainToken payload =
     (if rp_FQDN payload = '''' \<or> rp_Port payload = 0
      then (Inl (Note ErrInvalidNodeAddress '': fqdn and port are required''), d)
      else (case validateNodeAddress (rp_FQDN payload) (rp_Port payload) (rp_PublicAddress payload) of
          Inl err \<Rightarrow> (Inl err, d)
        | Inr _ \<Rightarrow> (case redeem_tx pr e newID buf d plainToken payload of
              Inl err \<Rightarrow> (Inl err, d)
            | Inr (r, d') \<Rightarrow> (Inr r, d'))))"

section \<open>The client pool\<close>

record Client =
  cl_baseURL :: string
  cl_nodeToken :: string
  cl_tls :: bool

text \<open>The TLS material and whether a configuration can be built from it for a common
  name is decided by \<^verbatim>\<open>crypto/tls\<close> and \<^verbatim>\<open>crypto/x509\<close>.\<close>

record ClientPool =
  cp_clients :: "(uuid \<times> Client) list"
  cp_material :: "string option"

definition pool_Register ::
  "(string \<Rightarrow> uuid \<Rightarrow> bool) \<Rightarrow> ClientPool \<Rightarrow> uuid \<Rightarrow> string \<Rightarrow> int \<Rightarrow> string \<Rightarrow> bool \<Rightarrow> unit result \<times> ClientPool" where
  "pool_Register tls_builds p nodeID fqdn port token mtls =
     (let useTLS = (mtls \<and> (case cp_material p of None \<Rightarrow> False | Some pem \<Rightarrow> tls_builds pem nodeID))
      in case baseURLWithScheme (if useTLS then ''https'' else ''http'') fqdn port of
           Inl err \<Rightarrow> (Inl err, p)
         | Inr baseURL \<Rightarrow>
             (Inr (), p\<lparr>cp_clients := AList.update nodeID
                \<lparr>cl_baseURL = baseURL, cl_nodeToken = token, cl_tls = useTLS\<rparr> (cp_clients p)\<rparr>))"

definition pool_Get :: "(uuid \<Rightarrow> string) \<Rightarrow> ClientPool \<Rightarrow> uuid \<Rightarrow> Client result" where
  "pool_Get str p nodeID =
     (case map_of (cp_clients p) nodeID of
        None \<Rightarrow> Inl (New (''no daemon client registered for node '' @ str nodeID))
      | Some c \<Rightarrow> Inr c)"

definition pool_Remove :: "ClientPool \<Rightarrow> uuid \<Rightarrow> ClientPool" where
  "pool_Remove p nodeID = p\<lparr>cp_clients := AList.delete nodeID (cp_clients p)\<rparr>"

end
