(* ===== verification/Servers.thy ===== *)
theory Servers
  imports Nodes
begin

text \<open>
  \<^verbatim>\<open>services/server_service.go\<close>: listing, creation on the least loaded node
  with the next free port, settings, status with the sessions of the players on the
  server, ingestion of log lines in chunks, console commands, and the two database
  steps of a migration.  Integer columns have 32 bits, and a trigger sets \<^verbatim>\<open>updated_at\<close> on every update.
\<close>

section \<open>Errors and settings\<close>

abbreviation ErrServerNotFound :: go_error where
  "ErrServerNotFound \<equiv> New ''server not found''"
abbreviation ErrServerForbidden :: go_error where
  "ErrServerForbidden \<equiv> New ''access denied''"
abbreviation ErrNoAvailableNode :: go_error where
  "ErrNoAvailableNode \<equiv> New ''no available node to host the server''"
abbreviation ErrInvalidServerSettings :: go_error where
  "ErrInvalidServerSettings \<equiv> New ''invalid server settings''"
abbreviation ErrInvalidConsoleCommand :: go_error where
  "ErrInvalidConsoleCommand \<equiv> New ''console command must not contain line breaks or control characters''"
abbreviation ErrMigrationTarget :: go_error where
  "ErrMigrationTarget \<equiv> New ''invalid migration target''"

abbreviation StatusInstalling :: string where "StatusInstalling \<equiv> ''installing''"
abbreviation StatusStopped :: string where "StatusStopped \<equiv> ''stopped''"
abbreviation StatusStarting :: string where "StatusStarting \<equiv> ''starting''"
abbreviation StatusRunning :: string where "StatusRunning \<equiv> ''running''"
abbreviation StatusStopping :: string where "StatusStopping \<equiv> ''stopping''"
abbreviation StatusCrashed :: string where "StatusCrashed \<equiv> ''crashed''"

text \<open>The enumeration \<^verbatim>\<open>server_status\<close> of the schema, and the range of \<^verbatim>\<open>INTEGER\<close>.\<close>

definition server_status :: "string \<Rightarrow> bool" where
  "server_status s = (s \<in> {StatusInstalling, StatusStopped, StatusStarting, StatusRunning, StatusStopping, StatusCrashed})"

definition int32 :: "int \<Rightarrow> bool" where
  "int32 n = (- 2147483648 \<le> n \<and> n \<le> 2147483647)"

definition MinServerRAMMB :: int where "MinServerRAMMB = 512"

definition AllowedLaunchFlags :: "string list" where
  "AllowedLaunchFlags = [''--accept-early-plugins'', ''--allow-op'', ''--disable-sentry'']"

definition AdminOnlyLaunchFlags :: "string list" where
  "AdminOnlyLaunchFlags = [''--allow-op'']"

fun normalize_flags :: "string list \<Rightarrow> string list \<Rightarrow> string list result" where
  "normalize_flags out [] = Inr out"
| "normalize_flags out (f0 # fs) =
     (let f = trim_space f0
      in if f \<notin> set AllowedLaunchFlags
         then Inl (Note ErrInvalidServerSettings ('': launch flag '' @ quoted f @ '' is not allowed (allowed: ''
                @ join '', '' AllowedLaunchFlags @ '')''))
         else normalize_flags (if f \<in> set out then out else out @ [f]) fs)"

definition normalizeLaunchFlags :: "string list \<Rightarrow> string list result" where
  "normalizeLaunchFlags flags = normalize_flags [] flags"

definition hytalePatchlines :: "string list" where
  "hytalePatchlines = [''release'', ''pre-release'']"

definition NormalizeHytaleVersion :: "string \<Rightarrow> string result" where
  "NormalizeHytaleVersion v0 =
     (let v = to_lower (trim_space v0)
      in if v = '''' \<or> v = ''latest'' then Inr ''latest''
         else if v \<in> set hytalePatchlines then Inr v
         else Inl (New ''hytale_version must be one of latest, release, pre-release''))"

section \<open>Reading servers\<close>

text \<open>A row as \<^verbatim>\<open>scanServers\<close> fills it: the columns it does not select are zero values.\<close>

definition scanned :: "Server \<Rightarrow> Server" where
  "scanned sv = sv\<lparr>sv_LaunchFlags := [], sv_UseHytaleAccount := False, sv_LastExitCode := None,
     sv_NetworkRole := None, sv_RequireReferral := False\<rparr>"

definition is_member :: "db \<Rightarrow> uuid \<Rightarrow> uuid \<Rightarrow> bool" where
  "is_member d serverID userID = (\<exists>m \<in> set (server_members d). m_ServerID m = serverID \<and> m_UserID m = userID)"

definition ListServers :: "env \<Rightarrow> db \<Rightarrow> uuid \<Rightarrow> string \<Rightarrow> Server list result" where
  "ListServers e d userID role =
     wrapping ''querying servers'' (call e ''ListServers''
       (map scanned (sort_key (\<lambda>s. - sv_CreatedAt s)
         (if RoleWeight role \<ge> RoleWeight RoleAdmin then servers d
          else filter (\<lambda>s. sv_OwnerID s = userID \<or> is_member d (sv_ID s) userID) (servers d)))))"

definition node_address :: "db \<Rightarrow> uuid \<Rightarrow> string" where
  "node_address d nodeID =
     (case find_node d nodeID of None \<Rightarrow> ''''
      | Some n \<Rightarrow> (case n_PublicAddress n of None \<Rightarrow> n_FQDN n | Some a \<Rightarrow> if a = '''' then n_FQDN n else a))"

text \<open>The row and the joined connect address.\<close>

definition GetServer :: "env \<Rightarrow> db \<Rightarrow> uuid \<Rightarrow> uuid \<Rightarrow> string \<Rightarrow> (Server \<times> string) result" where
  "GetServer e d serverID userID role =
     (case call e ''GetServer'' (find_server d serverID) of
        Inl err \<Rightarrow> Inl (Wrap ''fetching server'' err)
      | Inr None \<Rightarrow> Inl ErrServerNotFound
      | Inr (Some sv) \<Rightarrow>
          if RoleWeight role < RoleWeight RoleAdmin \<and> sv_OwnerID sv \<noteq> userID
             \<and> (fault e ''GetServer.member'' \<or> \<not> is_member d serverID userID)
          then Inl ErrServerForbidden
          else Inr (sv, node_address d (sv_NodeID sv)))"

section \<open>Creating a server\<close>

record CreateServerRequest =
  cs_Name :: string
  cs_HytaleVersion :: string
  cs_CPULimit :: int
  cs_RAMLimitMB :: int
  cs_DiskLimitMB :: int
  cs_AutoRestart :: bool
  cs_DataPath :: string

text \<open>The order in which nodes are preferred: the last reported CPU load, or ten per
  hosted server for a node without samples.\<close>

definition node_load :: "db \<Rightarrow> Node \<Rightarrow> rat" where
  "node_load d n =
     (case latest_metric d (n_ID n) of
        Some m \<Rightarrow> nm_CPUPct m
      | None \<Rightarrow> of_nat (rows_affected (\<lambda>s. sv_NodeID s = n_ID n) (servers d)) * 10)"

definition select_node :: "db \<Rightarrow> Node option" where
  "select_node d =
     (case sort_key (node_load d)
          (filter (\<lambda>n. n_Status n = ''online'' \<and> n_MaxServers n > int (active_servers d (n_ID n))) (nodes d)) of
        [] \<Rightarrow> None | n # _ \<Rightarrow> Some n)"

definition next_port :: "db \<Rightarrow> uuid \<Rightarrow> int" where
  "next_port d nodeID =
     fold max (map sv_Port (filter (\<lambda>s. sv_NodeID s = nodeID \<and> sv_Port s \<ge> 5520) (servers d))) 5519 + 1"

text \<open>\<^verbatim>\<open>INSERT INTO servers\<close> with the constraints of the table.\<close>

definition insert_server :: "env \<Rightarrow> db \<Rightarrow> Server \<Rightarrow> db result" where
  "insert_server e d sv =
     (if fault e ''CreateServer.insert'' \<or> find_server d (sv_ID sv) \<noteq> None
         \<or> find_node d (sv_NodeID sv) = None \<or> find_user d (sv_OwnerID sv) = None
         \<or> rune_count (sv_Name sv) < 1 \<or> rune_count (sv_Name sv) > 100
         \<or> sv_Port sv < 1024 \<or> sv_Port sv > 65535 \<or> sv_RAMLimitMB sv \<le> 0
         \<or> \<not> int32 (sv_CPULimit sv) \<or> \<not> int32 (sv_RAMLimitMB sv) \<or> \<not> int32 (sv_DiskLimitMB sv)
      then Inl (Driver ''CreateServer.insert'')
      else Inr (d\<lparr>servers := servers d @ [sv]\<rparr>))"

definition new_server :: "env \<Rightarrow> uuid \<Rightarrow> CreateServerRequest \<Rightarrow> string \<Rightarrow> string \<Rightarrow> uuid \<Rightarrow> uuid \<Rightarrow> int \<Rightarrow> Server" where
  "new_server e newID req name version nodeID ownerID port =
     \<lparr>sv_ID = newID, sv_Name = name, sv_NodeID = nodeID, sv_OwnerID = ownerID, sv_Status = StatusInstalling,
      sv_Port = port, sv_DataPath = cs_DataPath req, sv_NetworkRole = None, sv_RequireReferral = False,
      sv_HytaleVersion = version, sv_CPULimit = max 0 (cs_CPULimit req),
      sv_RAMLimitMB = (if cs_RAMLimitMB req \<le> 0 then 2048 else cs_RAMLimitMB req),
      sv_DiskLimitMB = (if cs_DiskLimitMB req \<le> 0 then 10240 else cs_DiskLimitMB req),
      sv_AutoRestart = cs_AutoRestart req, sv_CrashLimit = 3, sv_CrashWindowS = 300, sv_ActiveWorld = '''',
      sv_CreatedAt = now e, sv_UpdatedAt = now e, sv_LaunchFlags = [], sv_UseHytaleAccount = False,
      sv_LastExitCode = None\<rparr>"

definition CreateServer :: "env \<Rightarrow> uuid \<Rightarrow> db \<Rightarrow> CreateServerRequest \<Rightarrow> uuid \<Rightarrow> Server result \<times> db" where
  "CreateServer e newID d req ownerID =
     (let name = trim_space (cs_Name req)
      in if name = '''' then (Inl (New ''server name cannot be empty''), d)
         else (case NormalizeHytaleVersion (cs_HytaleVersion req) of
             Inl err \<Rightarrow> (Inl err, d)
           | Inr version \<Rightarrow>
               (case call e ''CreateServer.node'' (select_node d) of
                  Inl err \<Rightarrow> (Inl (Wrap ''selecting node'' err), d)
                | Inr None \<Rightarrow> (Inl ErrNoAvailableNode, d)
                | Inr (Some n) \<Rightarrow>
                    if fault e ''CreateServer.port''
                    then (Inl (Wrap ''allocating port'' (Driver ''CreateServer.port'')), d)
                    else (let sv = new_server e newID req name version (n_ID n) ownerID (next_port d (n_ID n))
                          in case insert_server e d sv of
                               Inl err \<Rightarrow> (Inl (Wrap ''inserting server'' err), d)
                             | Inr d' \<Rightarrow> (Inr sv, d')))))"

section \<open>Settings\<close>

record UpdateServerRequest =
  us_Name :: "string option"
  us_AutoRestart :: "bool option"
  us_CrashLimit :: "int option"
  us_RAMLimitMB :: "int option"
  us_LaunchFlags :: "string list option"
  us_UseHytaleAccount :: "bool option"

text \<open>The checks on each field, in the order of the code; an absent field passes.\<close>

definition set_name :: "string option \<Rightarrow> string option result" where
  "set_name v = (case v of None \<Rightarrow> Inr None
     | Some x \<Rightarrow> if trim_space x = '''' then Inl (Note ErrInvalidServerSettings '': server name cannot be empty'')
         else Inr (Some (trim_space x)))"

definition set_crash_limit :: "int option \<Rightarrow> unit result" where
  "set_crash_limit v = (case v of None \<Rightarrow> Inr ()
     | Some x \<Rightarrow> refuse_if (x < 0) (Note ErrInvalidServerSettings '': crash_limit cannot be negative''))"

definition set_ram :: "env \<Rightarrow> db \<Rightarrow> string \<Rightarrow> uuid \<Rightarrow> int option \<Rightarrow> unit result" where
  "set_ram e d role nodeID v = (case v of None \<Rightarrow> Inr ()
     | Some x \<Rightarrow>
         if RoleWeight role < RoleWeight RoleAdmin then Inl ErrServerForbidden
         else (case call e ''UpdateServer.node'' (find_node d nodeID) of
             Inl err \<Rightarrow> Inl (Wrap ''loading node capacity'' err)
           | Inr None \<Rightarrow> Inl (Wrap ''loading node capacity'' ErrNoRows)
           | Inr (Some n) \<Rightarrow>
               refuse_if (x < MinServerRAMMB \<or> x > n_TotalRAMMB n)
                 (Note ErrInvalidServerSettings ('': ram_limit_mb must be between '' @ dec MinServerRAMMB
                    @ '' and the node's '' @ dec (n_TotalRAMMB n) @ '' MB''))))"

definition set_flags :: "string \<Rightarrow> string list \<Rightarrow> string list option \<Rightarrow> string list option result" where
  "set_flags role current v = (case v of None \<Rightarrow> Inr None
     | Some x \<Rightarrow> and_then (normalizeLaunchFlags x) (\<lambda>flags.
         if RoleWeight role < RoleWeight RoleAdmin
         then (case List.find (\<lambda>f. (f \<in> set flags) \<noteq> (f \<in> set current)) AdminOnlyLaunchFlags of
             None \<Rightarrow> Inr (Some flags)
           | Some f \<Rightarrow> Inl (Note ErrServerForbidden ('': only an admin can change '' @ f)))
         else Inr (Some flags)))"

definition set_account :: "string \<Rightarrow> bool \<Rightarrow> bool option \<Rightarrow> unit result" where
  "set_account role current v =
     refuse_if (v = Some True \<and> \<not> current \<and> RoleWeight role < RoleWeight RoleAdmin)
       (Note ErrServerForbidden '': only an admin can let a server use the linked Hytale account'')"

text \<open>The columns the statement sets.\<close>

definition patch_server ::
  "env \<Rightarrow> UpdateServerRequest \<Rightarrow> string option \<Rightarrow> string list option \<Rightarrow> Server \<Rightarrow> Server" where
  "patch_server e req name flags sv =
     sv\<lparr>sv_UpdatedAt := now e,
        sv_Name := (case name of None \<Rightarrow> sv_Name sv | Some x \<Rightarrow> x),
        sv_AutoRestart := (case us_AutoRestart req of None \<Rightarrow> sv_AutoRestart sv | Some x \<Rightarrow> x),
        sv_CrashLimit := (case us_CrashLimit req of None \<Rightarrow> sv_CrashLimit sv | Some x \<Rightarrow> x),
        sv_RAMLimitMB := (case us_RAMLimitMB req of None \<Rightarrow> sv_RAMLimitMB sv | Some x \<Rightarrow> x),
        sv_LaunchFlags := (case flags of None \<Rightarrow> sv_LaunchFlags sv | Some x \<Rightarrow> x),
        sv_UseHytaleAccount := (case us_UseHytaleAccount req of None \<Rightarrow> sv_UseHytaleAccount sv | Some x \<Rightarrow> x)\<rparr>"

definition server_violates :: "Server \<Rightarrow> bool" where
  "server_violates sv = (rune_count (sv_Name sv) < 1 \<or> rune_count (sv_Name sv) > 100 \<or> sv_CrashLimit sv \<le> 0
     \<or> \<not> int32 (sv_CrashLimit sv) \<or> sv_RAMLimitMB sv \<le> 0 \<or> \<not> int32 (sv_RAMLimitMB sv))"

definition update_check ::
  "env \<Rightarrow> db \<Rightarrow> uuid \<Rightarrow> uuid \<Rightarrow> string \<Rightarrow> UpdateServerRequest \<Rightarrow> (string option \<times> string list option) result" where
  "update_check e d serverID userID role req =
     and_then (GetServer e d serverID userID role) (\<lambda>(sv, _).
     and_then (refuse_if (RoleWeight role < RoleWeight RoleAdmin \<and> sv_OwnerID sv \<noteq> userID) ErrServerForbidden) (\<lambda>_.
     and_then (set_name (us_Name req)) (\<lambda>name.
     and_then (set_crash_limit (us_CrashLimit req)) (\<lambda>_.
     and_then (set_ram e d role (sv_NodeID sv) (us_RAMLimitMB req)) (\<lambda>_.
     and_then (set_flags role (sv_LaunchFlags sv) (us_LaunchFlags req)) (\<lambda>flags.
     and_then (set_account role (sv_UseHytaleAccount sv) (us_UseHytaleAccount req)) (\<lambda>_.
     Inr (name, flags))))))))"

definition UpdateServer ::
  "env \<Rightarrow> db \<Rightarrow> uuid \<Rightarrow> uuid \<Rightarrow> string \<Rightarrow> UpdateServerRequest \<Rightarrow> (Server \<times> string) result \<times> db" where
  "UpdateServer e d serverID userID role req =
     (case update_check e d serverID userID role req of
        Inl err \<Rightarrow> (Inl err, d)
      | Inr (name, flags) \<Rightarrow>
          (let d' = d\<lparr>servers := update_where (\<lambda>s. sv_ID s = serverID) (patch_server e req name flags) (servers d)\<rparr>
           in if fault e ''UpdateServer''
                 \<or> (\<exists>s \<in> set (servers d). sv_ID s = serverID \<and> server_violates (patch_server e req name flags s))
              then (Inl (Wrap ''updating server'' (Driver ''UpdateServer'')), d)
              else (GetServer e d' serverID userID role, d')))"

definition UsesHytaleAccount :: "env \<Rightarrow> db \<Rightarrow> uuid \<Rightarrow> bool result" where
  "UsesHytaleAccount e d serverID =
     and_then (call e ''UsesHytaleAccount'' (find_server d serverID))
       (\<lambda>r. case r of None \<Rightarrow> Inl ErrNoRows | Some sv \<Rightarrow> Inr (sv_UseHytaleAccount sv))"

definition UpdateServerDataPath :: "env \<Rightarrow> db \<Rightarrow> uuid \<Rightarrow> string \<Rightarrow> unit result \<times> db" where
  "UpdateServerDataPath e d serverID dataPath =
     (if fault e ''UpdateServerDataPath'' then (Inl (Driver ''UpdateServerDataPath''), d)
      else (Inr (), d\<lparr>servers := update_where (\<lambda>s. sv_ID s = serverID)
        (\<lambda>s. s\<lparr>sv_DataPath := dataPath, sv_UpdatedAt := now e\<rparr>) (servers d)\<rparr>))"

section \<open>Status\<close>

definition on_server :: "db \<Rightarrow> uuid \<Rightarrow> PlayerSession \<Rightarrow> bool" where
  "on_server d serverID s = (\<exists>p \<in> set (players d). pl_ID p = ps_PlayerID s \<and> pl_ServerID p = serverID)"

definition UpdateServerStatus :: "env \<Rightarrow> db \<Rightarrow> uuid \<Rightarrow> string \<Rightarrow> unit result \<times> db" where
  "UpdateServerStatus e d serverID status =
     (let d1 = d\<lparr>servers := update_where (\<lambda>s. sv_ID s = serverID)
            (\<lambda>s. s\<lparr>sv_Status := status, sv_UpdatedAt := now e\<rparr>) (servers d)\<rparr>
      in if fault e ''UpdateServerStatus'' \<or> \<not> server_status status then (Inl (Driver ''UpdateServerStatus''), d)
         else if status = StatusStopped \<or> status = StatusCrashed
         then (case closeOpenSessions e ''UpdateServerStatus.sessions'' (on_server d1 serverID) d1 of
             Inl err \<Rightarrow> (Inl err, d1)
           | Inr d2 \<Rightarrow> (Inr (), d2))
         else (Inr (), d1))"

definition SetLastExitCode :: "env \<Rightarrow> db \<Rightarrow> uuid \<Rightarrow> int option \<Rightarrow> unit result \<times> db" where
  "SetLastExitCode e d serverID code =
     (if fault e ''SetLastExitCode'' \<or> (case code of None \<Rightarrow> False | Some c \<Rightarrow> \<not> int32 c)
      then (Inl (Driver ''SetLastExitCode''), d)
      else (Inr (), d\<lparr>servers := update_where (\<lambda>s. sv_ID s = serverID)
        (\<lambda>s. s\<lparr>sv_LastExitCode := code, sv_UpdatedAt := now e\<rparr>) (servers d)\<rparr>))"

definition GetServerStatus :: "env \<Rightarrow> db \<Rightarrow> uuid \<Rightarrow> string result" where
  "GetServerStatus e d serverID =
     and_then (call e ''GetServerStatus'' (find_server d serverID))
       (\<lambda>r. case r of None \<Rightarrow> Inl ErrNoRows | Some sv \<Rightarrow> Inr (sv_Status sv))"

definition ActiveWorld :: "env \<Rightarrow> db \<Rightarrow> uuid \<Rightarrow> string result" where
  "ActiveWorld e d serverID =
     (case call e ''ActiveWorld'' (find_server d serverID) of
        Inl err \<Rightarrow> Inl (Wrap ''fetching active world'' err)
      | Inr None \<Rightarrow> Inl ErrServerNotFound
      | Inr (Some sv) \<Rightarrow> Inr (sv_ActiveWorld sv))"

definition ServerBelongsToNode :: "env \<Rightarrow> db \<Rightarrow> uuid \<Rightarrow> uuid \<Rightarrow> bool result" where
  "ServerBelongsToNode e d serverID nodeID =
     wrapping ''checking server node ownership'' (call e ''ServerBelongsToNode''
       (\<exists>s \<in> set (servers d). sv_ID s = serverID \<and> sv_NodeID s = nodeID))"

section \<open>Log lines\<close>

record LogLineInput =
  li_Timestamp :: time
  li_Level :: string
  li_Message :: string

definition logInsertChunk :: nat where "logInsertChunk = 1000"

definition log_row :: "uuid \<Rightarrow> int \<Rightarrow> LogLineInput \<Rightarrow> ServerLog" where
  "log_row serverID i l =
     \<lparr>l_ID = i, l_ServerID = serverID, l_LoggedAt = li_Timestamp l,
      l_Level = (if li_Level l = '''' then ''INFO'' else li_Level l), l_Message = li_Message l\<rparr>"

text \<open>What the table refuses: a level of more than ten characters, and a zero byte in a
  text.\<close>

definition log_violates :: "LogLineInput \<Rightarrow> bool" where
  "log_violates l = (rune_count (li_Level l) > 10 \<or> CHR 0x00 \<in> set (li_Level l) \<or> CHR 0x00 \<in> set (li_Message l))"

text \<open>One statement; \<open>k\<close> is the position of its first line in the request and \<open>seq\<close> the
  sequence of the id column.\<close>

definition insertLogChunk ::
  "env \<Rightarrow> (nat \<Rightarrow> int) \<Rightarrow> nat \<Rightarrow> db \<Rightarrow> uuid \<Rightarrow> LogLineInput list \<Rightarrow> db result" where
  "insertLogChunk e seq k d serverID lines =
     (if fault e (''insertLogChunk'' @ dec_nat k) \<or> find_server d serverID = None \<or> list_ex log_violates lines
      then Inl (Wrap ''inserting log lines'' (Driver (''insertLogChunk'' @ dec_nat k)))
      else Inr (d\<lparr>server_logs := server_logs d @
        map (\<lambda>(i, l). log_row serverID (seq i) l) (zip [k..<k + length lines] lines)\<rparr>))"

function ingest_from ::
  "env \<Rightarrow> (nat \<Rightarrow> int) \<Rightarrow> nat \<Rightarrow> db \<Rightarrow> uuid \<Rightarrow> LogLineInput list \<Rightarrow> unit result \<times> db" where
  "ingest_from e seq k d serverID lines =
     (if k < length lines
      then (let fin = min (k + logInsertChunk) (length lines)
            in case insertLogChunk e seq k d serverID (take (fin - k) (drop k lines)) of
                 Inl err \<Rightarrow> (Inl err, d)
               | Inr d' \<Rightarrow> ingest_from e seq (k + logInsertChunk) d' serverID lines)
      else (Inr (), d))"
  by pat_completeness auto
termination
  by (relation "measure (\<lambda>(e, seq, k, d, sid, lines). length lines - k)") (auto simp: logInsertChunk_def)

declare ingest_from.simps [simp del]

definition IngestLogs :: "env \<Rightarrow> (nat \<Rightarrow> int) \<Rightarrow> db \<Rightarrow> uuid \<Rightarrow> LogLineInput list \<Rightarrow> unit result \<times> db" where
  "IngestLogs e seq d serverID lines = ingest_from e seq 0 d serverID lines"

definition by_time :: "ServerLog list \<Rightarrow> ServerLog list" where
  "by_time ls = sort_key l_LoggedAt (sort_key l_ID ls)"

definition GetLogs :: "env \<Rightarrow> db \<Rightarrow> uuid \<Rightarrow> int \<Rightarrow> ServerLog list result" where
  "GetLogs e d serverID limit0 =
     (let limit = (if limit0 \<le> 0 \<or> limit0 > 500 then 100 else limit0)
      in wrapping ''querying server logs'' (call e ''GetLogs''
           (by_time (take (nat limit) (rev (by_time (filter (\<lambda>l. l_ServerID l = serverID) (server_logs d))))))))"

section \<open>Deleting a server\<close>

text \<open>The references to the row: members, players with their sessions, commands, log
  lines, invitations, alert rules, backup schedules, game commands, worlds, the database
  record and mods go with it; events, audit rows and backups stay without it.\<close>

definition delete_server_row :: "db \<Rightarrow> uuid \<Rightarrow> db" where
  "delete_server_row d serverID =
     (let gone_player = (\<lambda>s. \<exists>p \<in> set (players d). pl_ID p = ps_PlayerID s \<and> pl_ServerID p = serverID);
          gone_rule = (\<lambda>v. \<exists>r \<in> set (alert_rules d). ae_RuleID v = Some (r_ID r) \<and> r_ServerID r = Some serverID)
      in d\<lparr>servers := delete_where (\<lambda>s. sv_ID s = serverID) (servers d),
           server_members := delete_where (\<lambda>m. m_ServerID m = serverID) (server_members d),
           players := delete_where (\<lambda>p. pl_ServerID p = serverID) (players d),
           player_sessions := delete_where gone_player (player_sessions d),
           node_commands := delete_where (\<lambda>c. c_ServerID c = Some serverID) (node_commands d),
           server_logs := delete_where (\<lambda>l. l_ServerID l = serverID) (server_logs d),
           server_invitations := delete_where (\<lambda>i. i_ServerID i = serverID) (server_invitations d),
           alert_rules := delete_where (\<lambda>r. r_ServerID r = Some serverID) (alert_rules d),
           alert_events := map (\<lambda>v. v\<lparr>ae_RuleID := (if gone_rule v then None else ae_RuleID v),
               ae_ServerID := (if ae_ServerID v = Some serverID then None else ae_ServerID v)\<rparr>) (alert_events d),
           activity_logs := update_where (\<lambda>a. a_ServerID a = Some serverID) (\<lambda>a. a\<lparr>a_ServerID := None\<rparr>)
             (activity_logs d),
           backups := update_where (\<lambda>b. b_ServerID b = Some serverID) (\<lambda>b. b\<lparr>b_ServerID := None\<rparr>) (backups d),
           backup_schedules := delete_where (\<lambda>s. bs_ServerID s = serverID) (backup_schedules d),
           game_commands := delete_where (\<lambda>g. g_ServerID g = Some serverID) (game_commands d),
           worlds := delete_where (\<lambda>w. w_ServerID w = serverID) (worlds d),
           server_databases := delete_where (\<lambda>s. sd_ServerID s = serverID) (server_databases d),
           server_mods := delete_where (\<lambda>m. sm_ServerID m = serverID) (server_mods d)\<rparr>)"

definition DeleteServer :: "env \<Rightarrow> db \<Rightarrow> uuid \<Rightarrow> uuid \<Rightarrow> string \<Rightarrow> unit result \<times> db" where
  "DeleteServer e d serverID userID role =
     (case GetServer e d serverID userID role of
        Inl err \<Rightarrow> (Inl err, d)
      | Inr (sv, _) \<Rightarrow>
          if RoleWeight role < RoleWeight RoleAdmin \<and> sv_OwnerID sv \<noteq> userID then (Inl ErrServerForbidden, d)
          else if fault e ''DeleteServer'' then (Inl (Wrap ''deleting server'' (Driver ''DeleteServer'')), d)
          else (Inr (), delete_server_row d serverID))"

section \<open>Console\<close>

definition SendConsoleCommand :: "env \<Rightarrow> uuid \<Rightarrow> db \<Rightarrow> uuid \<Rightarrow> string \<Rightarrow> unit result \<times> db" where
  "SendConsoleCommand e newID d serverID cmd =
     (if has_control cmd then (Inl ErrInvalidConsoleCommand, d)
      else (case call e ''SendConsoleCommand.node'' (find_server d serverID) of
          Inl err \<Rightarrow> (Inl (Wrap ''fetching server node'' err), d)
        | Inr None \<Rightarrow> (Inl ErrServerNotFound, d)
        | Inr (Some sv) \<Rightarrow>
            (case insert_command e ''SendConsoleCommand'' newID d (sv_NodeID sv) serverID ''send_command'' (cmd_payload cmd) of
               Inl err \<Rightarrow> (Inl (Wrap ''enqueuing send_command'' err), d)
             | Inr d' \<Rightarrow> (Inr (), d'))))"

section \<open>Migration\<close>

definition MigratePreflight :: "env \<Rightarrow> db \<Rightarrow> string \<Rightarrow> uuid \<Rightarrow> uuid \<Rightarrow> uuid result" where
  "MigratePreflight e d callerRole serverID target =
     (if RoleWeight callerRole < RoleWeight RoleAdmin then Inl ErrServerForbidden
      else (case call e ''MigratePreflight.server'' (find_server d serverID) of
          Inl err \<Rightarrow> Inl (Wrap ''fetching server'' err)
        | Inr None \<Rightarrow> Inl ErrServerNotFound
        | Inr (Some sv) \<Rightarrow>
            if sv_Status sv \<noteq> StatusStopped then Inl (New ''server must be stopped before migrating'')
            else if sv_NodeID sv = target then Inl (New ''server is already on the target node'')
            else (case call e ''MigratePreflight.node'' (find_node d target) of
                Inl err \<Rightarrow> Inl (Wrap ''checking target node'' err)
              | Inr None \<Rightarrow> Inl ErrNodeNotFound
              | Inr (Some n) \<Rightarrow>
                  if n_Status n \<noteq> ''online'' then Inl (Note ErrMigrationTarget '': target node is not online'')
                  else if int (rows_affected (\<lambda>s. sv_NodeID s = target) (servers d)) \<ge> n_MaxServers n
                  then Inl (Note ErrMigrationTarget ('': target node is at its server limit ('' @ dec (n_MaxServers n) @ '')''))
                  else if sv_RAMLimitMB sv > n_TotalRAMMB n \<or> sv_DiskLimitMB sv > n_TotalDiskMB n
                  then Inl (Note ErrMigrationTarget '': server limits exceed the target node's capacity'')
                  else Inr (sv_NodeID sv))))"

definition CompleteMigration :: "env \<Rightarrow> db \<Rightarrow> uuid \<Rightarrow> uuid \<Rightarrow> unit result \<times> db" where
  "CompleteMigration e d serverID target =
     (if fault e ''CompleteMigration''
         \<or> (find_node d target = None \<and> find_server d serverID \<noteq> None)
      then (Inl (Wrap ''updating server node'' (Driver ''CompleteMigration'')), d)
      else if rows_affected (\<lambda>s. sv_ID s = serverID) (servers d) = 0 then (Inl ErrServerNotFound, d)
      else (Inr (), d\<lparr>servers := update_where (\<lambda>s. sv_ID s = serverID)
        (\<lambda>s. s\<lparr>sv_NodeID := target, sv_UpdatedAt := now e\<rparr>) (servers d)\<rparr>))"

end
