(* ===== verification/ServerRules.thy ===== *)
theory ServerRules
  imports Servers
begin

text \<open>
  What the server service guarantees: who sees a server, who may change which
  setting, on which node and port a new server is placed, and what becomes of
  ingested log lines.
\<close>

section \<open>Visibility\<close>

definition may_see :: "db \<Rightarrow> uuid \<Rightarrow> string \<Rightarrow> Server \<Rightarrow> bool" where
  "may_see d userID role sv = (RoleWeight role \<ge> RoleWeight RoleAdmin \<or> sv_OwnerID sv = userID
     \<or> is_member d (sv_ID sv) userID)"

lemma find_server_SomeD: "find_server d i = Some sv \<Longrightarrow> sv \<in> set (servers d) \<and> sv_ID sv = i"
  by (auto simp: find_server_def dest: find_SomeD)

lemma find_server_unique:
  "unique_on sv_ID (servers d) \<Longrightarrow> sv \<in> set (servers d) \<Longrightarrow> find_server d (sv_ID sv) = Some sv"
  by (simp add: find_server_def unique_on_find)

lemma GetServer_Inr:
  "GetServer e d i userID role = Inr (sv, a) \<Longrightarrow>
   find_server d i = Some sv \<and> a = node_address d (sv_NodeID sv) \<and> may_see d userID role sv"
  by (auto simp: GetServer_def may_see_def split: sum.splits option.splits if_splits dest: find_server_SomeD)

lemma GetServer_ok:
  "no_faults e \<Longrightarrow> find_server d i = Some sv \<Longrightarrow> may_see d userID role sv \<Longrightarrow>
   GetServer e d i userID role = Inr (sv, node_address d (sv_NodeID sv))"
  using find_server_SomeD [of d i sv]
  by (auto simp: GetServer_def may_see_def no_faults_def call_def)

lemma ListServers_Inr:
  "ListServers e d userID role = Inr svs \<Longrightarrow>
   set svs = scanned ` {sv \<in> set (servers d). may_see d userID role sv}"
  by (auto simp: ListServers_def may_see_def image_iff)

lemma scanned_simps [simp]:
  "sv_ID (scanned sv) = sv_ID sv" "sv_OwnerID (scanned sv) = sv_OwnerID sv" "sv_NodeID (scanned sv) = sv_NodeID sv"
  by (simp_all add: scanned_def)

text \<open>[C15] The list of servers and the access check of a single server agree: when nothing
  fails, a user can open exactly the servers in the list, with the listed row; and
  whatever fails, a server that can be opened is one of the rows the user may see.\<close>

theorem server_visibility:
  assumes "unique_on sv_ID (servers d)" "ListServers (quiet t) d userID role = Inr svs"
  shows "((i \<in> sv_ID ` set svs) = is_ok (GetServer (quiet t) d i userID role))
    \<and> (\<forall>sv a. GetServer e d i userID role = Inr (sv, a) \<longrightarrow> scanned sv \<in> set svs \<and> sv_ID sv = i)"
proof (intro conjI allI impI)
  note svs = ListServers_Inr [OF assms(2)]
  show "(i \<in> sv_ID ` set svs) = is_ok (GetServer (quiet t) d i userID role)"
  proof
    assume "i \<in> sv_ID ` set svs"
    then obtain sv where sv: "sv \<in> set (servers d)" "may_see d userID role sv" "sv_ID sv = i"
      by (auto simp: svs)
    with find_server_unique [OF assms(1)] have "find_server d i = Some sv" by blast
    then show "is_ok (GetServer (quiet t) d i userID role)" using sv(2) by (simp add: GetServer_ok)
  next
    assume "is_ok (GetServer (quiet t) d i userID role)"
    then obtain sv a where "GetServer (quiet t) d i userID role = Inr (sv, a)"
      by (auto simp: is_ok_conv)
    then have "find_server d i = Some sv" "may_see d userID role sv" by (auto dest: GetServer_Inr)
    then show "i \<in> sv_ID ` set svs"
      unfolding svs using find_server_SomeD by (force simp: image_iff)
  qed
next
  fix sv a
  assume "GetServer e d i userID role = Inr (sv, a)"
  from GetServer_Inr [OF this] have "find_server d i = Some sv" "may_see d userID role sv" by auto
  then show "scanned sv \<in> set svs" "sv_ID sv = i"
    using ListServers_Inr [OF assms(2)] find_server_SomeD by auto
qed

section \<open>Settings\<close>

lemma normalize_flags_allowed:
  "normalize_flags out fs = Inr gs \<Longrightarrow> set out \<subseteq> set AllowedLaunchFlags \<Longrightarrow> set gs \<subseteq> set AllowedLaunchFlags"
  by (induction fs arbitrary: out) (auto simp: Let_def split: if_splits)

lemma normalize_flags_distinct:
  "normalize_flags out fs = Inr gs \<Longrightarrow> distinct out \<Longrightarrow> distinct gs"
  by (induction fs arbitrary: out) (auto simp: Let_def split: if_splits)

lemma normalizeLaunchFlags_Inr:
  "normalizeLaunchFlags fs = Inr gs \<Longrightarrow> distinct gs \<and> set gs \<subseteq> set AllowedLaunchFlags"
  using normalize_flags_allowed [of "[]" fs gs] normalize_flags_distinct [of "[]" fs gs]
  by (simp add: normalizeLaunchFlags_def)

lemma update_check_Inr:
  assumes "update_check e d i userID role req = Inr (name, flags)"
  obtains sv where "find_server d i = Some sv"
    "RoleWeight role \<ge> RoleWeight RoleAdmin \<or> sv_OwnerID sv = userID"
    "set_ram e d role (sv_NodeID sv) (us_RAMLimitMB req) = Inr ()"
    "set_flags role (sv_LaunchFlags sv) (us_LaunchFlags req) = Inr flags"
    "set_account role (sv_UseHytaleAccount sv) (us_UseHytaleAccount req) = Inr ()"
proof -
  from assms obtain sv a where g: "GetServer e d i userID role = Inr (sv, a)"
    and r: "\<not> (RoleWeight role < RoleWeight RoleAdmin \<and> sv_OwnerID sv \<noteq> userID)"
    and s: "set_ram e d role (sv_NodeID sv) (us_RAMLimitMB req) = Inr ()"
      "set_flags role (sv_LaunchFlags sv) (us_LaunchFlags req) = Inr flags"
      "set_account role (sv_UseHytaleAccount sv) (us_UseHytaleAccount req) = Inr ()"
    unfolding update_check_def and_then_Inr split_paired_Ex prod.case refuse_if_Inr by (auto simp: and_then_Inr)
  from r have "RoleWeight role \<ge> RoleWeight RoleAdmin \<or> sv_OwnerID sv = userID" by linarith
  with that g s show thesis by (blast dest: GetServer_Inr)
qed

lemma set_flags_Inr:
  assumes "set_flags role cur v = Inr (Some gs)"
  shows "distinct gs \<and> set gs \<subseteq> set AllowedLaunchFlags
    \<and> (RoleWeight role < RoleWeight RoleAdmin \<longrightarrow> (\<forall>f \<in> set AdminOnlyLaunchFlags. f \<in> set gs \<longleftrightarrow> f \<in> set cur))"
proof -
  from assms obtain x where v: "v = Some x" and n: "normalizeLaunchFlags x = Inr gs"
    by (auto simp: set_flags_def and_then_Inr split: option.splits if_splits)
  from assms v n have "RoleWeight role < RoleWeight RoleAdmin \<Longrightarrow>
      List.find (\<lambda>f. (f \<in> set gs) \<noteq> (f \<in> set cur)) AdminOnlyLaunchFlags = None"
    by (auto simp: set_flags_def split: option.splits)
  with normalizeLaunchFlags_Inr [OF n] show ?thesis by (auto simp: find_None_iff)
qed

text \<open>What a change of settings may do to one row for a caller below admin.\<close>

definition owner_change :: "uuid \<Rightarrow> uuid \<Rightarrow> Server \<Rightarrow> Server \<Rightarrow> bool" where
  "owner_change i userID s s' =
     (sv_ID s = i \<and> sv_OwnerID s = userID \<and> sv_ID s' = i \<and> sv_OwnerID s' = userID \<and> sv_NodeID s' = sv_NodeID s
      \<and> sv_Port s' = sv_Port s \<and> sv_Status s' = sv_Status s \<and> sv_DataPath s' = sv_DataPath s
      \<and> sv_RAMLimitMB s' = sv_RAMLimitMB s \<and> sv_CPULimit s' = sv_CPULimit s \<and> sv_DiskLimitMB s' = sv_DiskLimitMB s
      \<and> (sv_UseHytaleAccount s' \<longrightarrow> sv_UseHytaleAccount s)
      \<and> (\<forall>f \<in> set AdminOnlyLaunchFlags. f \<in> set (sv_LaunchFlags s') \<longleftrightarrow> f \<in> set (sv_LaunchFlags s))
      \<and> (sv_LaunchFlags s' = sv_LaunchFlags s \<or> set (sv_LaunchFlags s') \<subseteq> set AllowedLaunchFlags))"

lemma update_where_rel:
  "(\<And>r. r \<in> set t \<Longrightarrow> p r \<Longrightarrow> R r (f r)) \<Longrightarrow> list_all2 (\<lambda>r r'. r' = r \<or> R r r') t (update_where p f t)"
  by (induction t) (auto simp: update_where_def)

text \<open>[C16] A caller below admin changes at most the servers they own, and there neither the
  memory limit, the node, the port nor the owner; they cannot switch the linked Hytale
  account on, cannot add or remove the operator launch flag, and every flag they set is
  on the allow-list.\<close>

theorem settings_authority:
  assumes "UpdateServer e d i userID role req = (r, d')" "RoleWeight role < RoleWeight RoleAdmin"
    "unique_on sv_ID (servers d)"
  shows "list_all2 (\<lambda>s s'. s' = s \<or> owner_change i userID s s') (servers d) (servers d')"
proof (cases "servers d' = servers d")
  case True
  then show ?thesis by (simp add: list_all2_same)
next
  case False
  with assms(1) obtain name flags where c: "update_check e d i userID role req = Inr (name, flags)"
    and d': "servers d' = update_where (\<lambda>s. sv_ID s = i) (patch_server e req name flags) (servers d)"
    by (auto simp: UpdateServer_def Let_def split: sum.splits if_splits)
  from update_check_Inr [OF c] obtain sv where sv: "find_server d i = Some sv"
    "RoleWeight role \<ge> RoleWeight RoleAdmin \<or> sv_OwnerID sv = userID"
    "set_ram e d role (sv_NodeID sv) (us_RAMLimitMB req) = Inr ()"
    "set_flags role (sv_LaunchFlags sv) (us_LaunchFlags req) = Inr flags"
    "set_account role (sv_UseHytaleAccount sv) (us_UseHytaleAccount req) = Inr ()" by blast
  have ram: "us_RAMLimitMB req = None"
    using sv(3) assms(2) by (auto simp: set_ram_def split: option.splits)
  have acc: "us_UseHytaleAccount req = Some True \<Longrightarrow> sv_UseHytaleAccount sv"
    using sv(5) assms(2) by (auto simp: set_account_def)
  have fl: "flags = Some gs \<Longrightarrow> set gs \<subseteq> set AllowedLaunchFlags
      \<and> (\<forall>f \<in> set AdminOnlyLaunchFlags. f \<in> set gs \<longleftrightarrow> f \<in> set (sv_LaunchFlags sv))" for gs
    using set_flags_Inr sv(4) assms(2) by blast
  have "owner_change i userID s (patch_server e req name flags s)" if "s \<in> set (servers d)" "sv_ID s = i" for s
  proof -
    from that sv(1) find_server_unique [OF assms(3)] have s: "s = sv" by auto
    have "us_UseHytaleAccount req = Some x \<Longrightarrow> x \<Longrightarrow> sv_UseHytaleAccount sv" for x using acc by simp
    then show ?thesis
      using that sv(2) assms(2) ram fl unfolding s
      by (cases flags) (auto simp: owner_change_def patch_server_def split: option.splits)
  qed
  then show ?thesis unfolding d' by (rule update_where_rel)
qed

section \<open>Placement\<close>

lemma fold_max_base: "a \<le> fold max xs (a :: int)"
  by (induction xs arbitrary: a) (auto intro: order.trans [OF max.cobounded2])

lemma fold_max_elem: "x \<in> set xs \<Longrightarrow> x \<le> fold max xs (a :: int)"
  by (induction xs arbitrary: a) (auto intro: order.trans [OF max.cobounded1 fold_max_base])

lemma next_port_ge: "5520 \<le> next_port d n"
  using fold_max_base [of 5519] by (simp add: next_port_def)

lemma next_port_fresh:
  assumes "s \<in> set (servers d)" "sv_NodeID s = n"
  shows "sv_Port s < next_port d n"
proof (cases "sv_Port s \<ge> 5520")
  case True
  with assms have "sv_Port s \<le> fold max (map sv_Port (filter (\<lambda>s. sv_NodeID s = n \<and> sv_Port s \<ge> 5520) (servers d))) 5519"
    by (intro fold_max_elem) auto
  then show ?thesis by (simp add: next_port_def)
next
  case False
  with next_port_ge [of d n] show ?thesis by linarith
qed

lemma sort_key_hd:
  assumes "sort_key f xs = x # ys"
  shows "x \<in> set xs \<and> (\<forall>y \<in> set xs. f x \<le> f y)"
proof -
  have "set xs = set (x # ys)" using assms by (metis set_sort)
  moreover have "sorted (map f (x # ys))" using assms sorted_sort_key [of f xs] by metis
  ultimately show ?thesis by auto
qed

definition has_room :: "db \<Rightarrow> Node \<Rightarrow> bool" where
  "has_room d n = (n_Status n = ''online'' \<and> n_MaxServers n > int (active_servers d (n_ID n)))"

lemma select_node_Some:
  assumes "select_node d = Some n"
  shows "n \<in> set (nodes d) \<and> has_room d n \<and> (\<forall>m \<in> set (nodes d). has_room d m \<longrightarrow> node_load d n \<le> node_load d m)"
proof -
  have "has_room d = (\<lambda>n. n_Status n = ''online'' \<and> n_MaxServers n > int (active_servers d (n_ID n)))"
    by (simp add: has_room_def fun_eq_iff)
  with assms obtain ns where "sort_key (node_load d) (filter (has_room d) (nodes d)) = n # ns"
    by (auto simp: select_node_def split: list.splits)
  from sort_key_hd [OF this] show ?thesis by auto
qed

lemma CreateServer_Inr:
  assumes "CreateServer e newID d req ownerID = (Inr sv, d')"
  obtains n version where "select_node d = Some n" "NormalizeHytaleVersion (cs_HytaleVersion req) = Inr version"
    "sv = new_server e newID req (trim_space (cs_Name req)) version (n_ID n) ownerID (next_port d (n_ID n))"
    "d' = d\<lparr>servers := servers d @ [sv]\<rparr>" "find_server d newID = None" "sv_Port sv \<le> 65535"
    "find_user d ownerID \<noteq> None" "trim_space (cs_Name req) \<noteq> ''''"
  using assms
  by (auto simp: CreateServer_def insert_server_def Let_def new_server_def
      split: if_splits sum.splits option.splits)

lemma CreateServer_frame: "CreateServer e newID d req ownerID = (Inl err, d') \<Longrightarrow> d' = d"
  by (auto simp: CreateServer_def insert_server_def Let_def split: if_splits sum.splits option.splits)

text \<open>A created server is placed on an online node with a free slot, which it does not
  overfill, with the least load among those; its port lies between 5520 and 65535 and no
  server of that node has it; it belongs to the caller and starts in the state
  installing with a positive memory limit.  A refused creation changes nothing.\<close>

theorem server_placement:
  assumes "CreateServer e newID d req ownerID = (r, d')"
  shows "case r of Inl _ \<Rightarrow> d' = d
    | Inr sv \<Rightarrow> servers d' = servers d @ [sv] \<and> sv_OwnerID sv = ownerID \<and> sv_Status sv = StatusInstalling
        \<and> 0 < sv_RAMLimitMB sv \<and> sv_HytaleVersion sv \<in> {''latest'', ''release'', ''pre-release''}
        \<and> 5520 \<le> sv_Port sv \<and> sv_Port sv \<le> 65535
        \<and> (\<forall>s \<in> set (servers d). sv_NodeID s = sv_NodeID sv \<longrightarrow> sv_Port s < sv_Port sv)
        \<and> (\<exists>n \<in> set (nodes d). n_ID n = sv_NodeID sv \<and> n_Status n = ''online''
             \<and> int (active_servers d' (n_ID n)) \<le> n_MaxServers n
             \<and> (\<forall>m \<in> set (nodes d). has_room d m \<longrightarrow> node_load d n \<le> node_load d m))"
proof (cases r)
  case (Inl x)
  with assms show ?thesis by (auto dest: CreateServer_frame)
next
  case (Inr sv)
  with assms obtain n version where *: "select_node d = Some n"
    "NormalizeHytaleVersion (cs_HytaleVersion req) = Inr version"
    "sv = new_server e newID req (trim_space (cs_Name req)) version (n_ID n) ownerID (next_port d (n_ID n))"
    "d' = d\<lparr>servers := servers d @ [sv]\<rparr>" "sv_Port sv \<le> 65535"
    by (auto elim!: CreateServer_Inr)
  have "version \<in> {''latest'', ''release'', ''pre-release''}"
    using *(2) by (auto simp: NormalizeHytaleVersion_def Let_def hytalePatchlines_def split: if_splits)
  moreover have "int (active_servers d' (n_ID n)) \<le> n_MaxServers n"
    using select_node_Some [OF *(1)]
    by (simp add: has_room_def *(4) active_servers_def rows_affected_def)
  moreover have "\<forall>s \<in> set (servers d). sv_NodeID s = n_ID n \<longrightarrow> sv_Port s < next_port d (n_ID n)"
    by (simp add: next_port_fresh)
  ultimately show ?thesis
    using select_node_Some [OF *(1)] next_port_ge *(4,5)
    by (auto simp: Inr *(3) new_server_def has_room_def)
qed

section \<open>Ports\<close>

definition ports_free :: "db \<Rightarrow> bool" where
  "ports_free d = unique_on (\<lambda>s. (sv_NodeID s, sv_Port s)) (servers d)"

datatype server_act =
    SvCreate env uuid CreateServerRequest uuid
  | SvUpdate env uuid uuid string UpdateServerRequest
  | SvDataPath env uuid string
  | SvStatus env uuid string
  | SvExitCode env uuid "int option"
  | SvDelete env uuid uuid string
  | SvConsole env uuid uuid string
  | SvLogs env "nat \<Rightarrow> int" uuid "LogLineInput list"

fun server_step :: "server_act \<Rightarrow> db \<Rightarrow> unit result \<times> db" where
  "server_step (SvCreate e i req o1) d = (let (r, d') = CreateServer e i d req o1 in (map_sum id (\<lambda>_. ()) r, d'))"
| "server_step (SvUpdate e i u role req) d = (let (r, d') = UpdateServer e d i u role req in (map_sum id (\<lambda>_. ()) r, d'))"
| "server_step (SvDataPath e i p) d = UpdateServerDataPath e d i p"
| "server_step (SvStatus e i s) d = UpdateServerStatus e d i s"
| "server_step (SvExitCode e i c) d = SetLastExitCode e d i c"
| "server_step (SvDelete e i u role) d = DeleteServer e d i u role"
| "server_step (SvConsole e c i cmd) d = SendConsoleCommand e c d i cmd"
| "server_step (SvLogs e sq i ls) d = IngestLogs e sq d i ls"

lemma closeOpenSessions_servers: "closeOpenSessions e l wh d = Inr d' \<Longrightarrow> servers d' = servers d"
  by (auto simp: closeOpenSessions_def Let_def split: if_splits)

lemma insert_command_servers: "insert_command e l i d n s c p = Inr d' \<Longrightarrow> servers d' = servers d"
  by (auto simp: insert_command_def split: if_splits)

lemma ingest_servers: "servers (snd (ingest_from e sq k d i ls)) = servers d"
proof (induction e sq k d i ls rule: ingest_from.induct)
  case (1 e sq k d i ls)
  show ?case
  proof (cases "k < length ls")
    case True
    let ?c = "insertLogChunk e sq k d i (take (min (k + logInsertChunk) (length ls) - k) (drop k ls))"
    show ?thesis
    proof (cases ?c)
      case (Inl err)
      with True show ?thesis by (simp add: ingest_from.simps [of e sq k])
    next
      case (Inr d1)
      then have "servers d1 = servers d" by (auto simp: insertLogChunk_def split: if_splits)
      with 1 [OF True refl Inr] True Inr show ?thesis by (simp add: ingest_from.simps [of e sq k])
    qed
  qed (simp add: ingest_from.simps)
qed

lemma ports_free_update:
  "(\<And>s. sv_NodeID (f s) = sv_NodeID s) \<Longrightarrow> (\<And>s. sv_Port (f s) = sv_Port s) \<Longrightarrow>
   ports_free d \<Longrightarrow> servers d' = update_where p f (servers d) \<Longrightarrow> ports_free d'"
  by (simp add: ports_free_def unique_on_update_where)

lemma ports_free_frame: "ports_free d \<Longrightarrow> servers d' = servers d \<Longrightarrow> ports_free d'"
  by (simp add: ports_free_def)


lemma CreateServer_port:
  "CreateServer e i d req o1 = (Inr sv, d') \<Longrightarrow>
   sv_Port sv = next_port d (sv_NodeID sv) \<and> servers d' = servers d @ [sv]"
  by (auto simp: CreateServer_def insert_server_def Let_def new_server_def
      split: if_splits sum.splits option.splits)

lemma ports_free_create:
  assumes "ports_free d" "CreateServer e i d req o1 = (r, d')"
  shows "ports_free d'"
proof (cases r)
  case (Inl x)
  with assms show ?thesis by (auto dest: CreateServer_frame)
next
  case (Inr sv)
  with assms(2) have sv: "sv_Port sv = next_port d (sv_NodeID sv)" "servers d' = servers d @ [sv]"
    by (auto dest: CreateServer_port)
  have "\<forall>s \<in> set (servers d). (sv_NodeID s, sv_Port s) \<noteq> (sv_NodeID sv, sv_Port sv)"
    using next_port_fresh by (fastforce simp: sv(1))
  with assms(1) show ?thesis by (simp add: sv(2) ports_free_def unique_on_append_row)
qed

lemma UpdateServer_servers:
  "\<exists>name flags p. servers (snd (UpdateServer e d i u role req)) = update_where p (patch_server e req name flags) (servers d)"
proof (cases "servers (snd (UpdateServer e d i u role req)) = servers d")
  case True
  then show ?thesis using update_where_id [of "servers d" "\<lambda>_. False"] by metis
next
  case False
  then show ?thesis by (auto simp: UpdateServer_def Let_def split: sum.splits if_splits)
qed

lemma UpdateServerStatus_servers:
  "servers (snd (UpdateServerStatus e d i st)) = servers d \<or> servers (snd (UpdateServerStatus e d i st))
    = update_where (\<lambda>s. sv_ID s = i) (\<lambda>s. s\<lparr>sv_Status := st, sv_UpdatedAt := now e\<rparr>) (servers d)"
  by (auto simp: UpdateServerStatus_def Let_def split: sum.splits dest!: closeOpenSessions_servers)

lemma ports_free_step: "ports_free d \<Longrightarrow> ports_free (snd (server_step a d))"
proof (induction a d rule: server_step.induct)
  case (1 e i req o1 d)
  then show ?case
    using ports_free_create [of d e i req o1] by (cases "CreateServer e i d req o1") simp
next
  case (2 e i u role req d)
  obtain name flags p where
    "servers (snd (UpdateServer e d i u role req)) = update_where p (patch_server e req name flags) (servers d)"
    using UpdateServer_servers by blast
  then have "ports_free (snd (UpdateServer e d i u role req))"
    by (rule ports_free_update [OF _ _ 2, rotated 2]) (simp_all add: patch_server_def)
  then show ?case by (cases "UpdateServer e d i u role req") simp
next
  case (3 e i p d)
  then show ?case
    by (auto simp: UpdateServerDataPath_def elim!: ports_free_update [rotated 2] elim: ports_free_frame)
next
  case (4 e i s d)
  consider "servers (snd (UpdateServerStatus e d i s)) = servers d"
    | "servers (snd (UpdateServerStatus e d i s))
        = update_where (\<lambda>v. sv_ID v = i) (\<lambda>v. v\<lparr>sv_Status := s, sv_UpdatedAt := now e\<rparr>) (servers d)"
    using UpdateServerStatus_servers by blast
  then have "ports_free (snd (UpdateServerStatus e d i s))"
    by cases (simp add: ports_free_frame [OF 4], rule ports_free_update [OF _ _ 4, rotated 2], assumption, simp, simp)
  then show ?case by simp
next
  case (5 e i c d)
  then show ?case
    by (auto simp: SetLastExitCode_def elim!: ports_free_update [rotated 2] elim: ports_free_frame)
next
  case (6 e i u role d)
  then show ?case
    by (auto simp: DeleteServer_def delete_server_row_def Let_def ports_free_def unique_on_delete_where
        split: sum.splits)
next
  case (7 e c i cmd d)
  then show ?case
    by (auto simp: SendConsoleCommand_def split: sum.splits option.splits
        dest!: insert_command_servers elim!: ports_free_frame)
next
  case (8 e sq i ls d)
  then show ?case by (simp add: IngestLogs_def ports_free_frame ingest_servers)
qed

interpretation ports: kept_invariant server_step ports_free
  by unfold_locales (rule ports_free_step)

text \<open>No two servers of a node share a port, whatever sequence of operations creates,
  changes, reports on and deletes servers, as long as none is migrated.\<close>

theorem ports_stay_distinct:
  assumes "ports_free d" "s \<in> set (servers (run_of server_step acts d))"
    "s' \<in> set (servers (run_of server_step acts d))" "sv_NodeID s = sv_NodeID s'" "sv_Port s = sv_Port s'"
  shows "s = s'"
proof -
  from ports.inv_run [OF assms(1)] have "ports_free (run_of server_step acts d)" .
  then show ?thesis using assms unfolding ports_free_def by (elim unique_on_eq) auto
qed

section \<open>Log lines\<close>

abbreviation stored_lines :: "uuid \<Rightarrow> (nat \<Rightarrow> int) \<Rightarrow> nat \<Rightarrow> LogLineInput list \<Rightarrow> ServerLog list" where
  "stored_lines i sq k ls \<equiv> map (\<lambda>(j, l). log_row i (sq j) l) (zip [k..<k + length ls] ls)"

lemma stored_lines_append:
  "stored_lines i sq k (xs @ ys) = stored_lines i sq k xs @ stored_lines i sq (k + length xs) ys"
proof -
  have "[k..<k + length (xs @ ys)] = [k..<k + length xs] @ [k + length xs..<k + length xs + length ys]"
    by (metis add.assoc le_add1 length_append upt_add_eq_append)
  then show ?thesis by simp
qed

lemma insertLogChunk_Inr:
  "insertLogChunk e sq k d i ls = Inr d' \<longleftrightarrow>
    \<not> fault e (''insertLogChunk'' @ dec_nat k) \<and> find_server d i \<noteq> None \<and> \<not> list_ex log_violates ls
    \<and> d' = d\<lparr>server_logs := server_logs d @ stored_lines i sq k ls\<rparr>"
  by (auto simp: insertLogChunk_def)

lemma ingest_from_stores:
  assumes "k \<le> length ls" "logInsertChunk dvd k"
  shows "\<exists>m. k \<le> m \<and> m \<le> length ls \<and> (logInsertChunk dvd m \<or> m = length ls)
    \<and> snd (ingest_from e sq k d i ls) = d\<lparr>server_logs := server_logs d @ stored_lines i sq k (take (m - k) (drop k ls))\<rparr>
    \<and> (is_ok (fst (ingest_from e sq k d i ls)) \<longleftrightarrow> m = length ls)"
  using assms
proof (induction e sq k d i ls rule: ingest_from.induct)
  case (1 e sq k d i ls)
  let ?fin = "min (k + logInsertChunk) (length ls)"
  let ?chunk = "take (?fin - k) (drop k ls)"
  show ?case
  proof (cases "k < length ls")
    case False
    with 1 show ?thesis by (intro exI [of _ k]) (simp add: ingest_from.simps)
  next
    case k: True
    show ?thesis
    proof (cases "insertLogChunk e sq k d i ?chunk")
      case (Inl err)
      with k 1 show ?thesis by (intro exI [of _ k]) (simp add: ingest_from.simps [of e sq k])
    next
      case (Inr d1)
      then have d1: "d1 = d\<lparr>server_logs := server_logs d @ stored_lines i sq k ?chunk\<rparr>"
        by (simp add: insertLogChunk_Inr)
      from k Inr have step: "ingest_from e sq k d i ls = ingest_from e sq (k + logInsertChunk) d1 i ls"
        by (simp add: ingest_from.simps [of e sq k])
      show ?thesis
      proof (cases "k + logInsertChunk \<le> length ls")
        case False
        with k have "?chunk = drop k ls" by simp
        with False k d1 step show ?thesis
          by (intro exI [of _ "length ls"]) (simp add: ingest_from.simps [of e sq "k + logInsertChunk"])
      next
        case True
        from 1(1) [OF k refl Inr True] 1(3) obtain m where m: "k + logInsertChunk \<le> m" "m \<le> length ls"
          "logInsertChunk dvd m \<or> m = length ls"
          "snd (ingest_from e sq (k + logInsertChunk) d1 i ls) = d1\<lparr>server_logs := server_logs d1 @
             stored_lines i sq (k + logInsertChunk) (take (m - (k + logInsertChunk)) (drop (k + logInsertChunk) ls))\<rparr>"
          "is_ok (fst (ingest_from e sq (k + logInsertChunk) d1 i ls)) \<longleftrightarrow> m = length ls"
          by auto
        have "take (m - k) (drop k ls) = ?chunk @ take (m - (k + logInsertChunk)) (drop (k + logInsertChunk) ls)"
          using m(1) take_add [of logInsertChunk "m - (k + logInsertChunk)" "drop k ls"] True
          by (simp add: add.commute)
        moreover have "length ?chunk = logInsertChunk" using True by simp
        ultimately have "stored_lines i sq k (take (m - k) (drop k ls)) = stored_lines i sq k ?chunk @
            stored_lines i sq (k + logInsertChunk) (take (m - (k + logInsertChunk)) (drop (k + logInsertChunk) ls))"
          by (metis stored_lines_append)
        with m d1 step show ?thesis by (intro exI [of _ m]) simp
      qed
    qed
  qed
qed

lemma ingest_from_ok:
  "no_faults e \<Longrightarrow> find_server d i \<noteq> None \<Longrightarrow> \<not> list_ex log_violates ls \<Longrightarrow>
   fst (ingest_from e sq k d i ls) = Inr ()"
proof (induction e sq k d i ls rule: ingest_from.induct)
  case (1 e sq k d i ls)
  show ?case
  proof (cases "k < length ls")
    case True
    let ?chunk = "take (min (k + logInsertChunk) (length ls) - k) (drop k ls)"
    have "\<not> list_ex log_violates ?chunk"
      using "1.prems"(3) by (auto simp: list_ex_iff dest: in_set_takeD in_set_dropD)
    with "1.prems" have c: "insertLogChunk e sq k d i ?chunk
        = Inr (d\<lparr>server_logs := server_logs d @ stored_lines i sq k ?chunk\<rparr>)"
      by (simp only: insertLogChunk_Inr no_faults_def) blast
    show ?thesis
      using "1.IH" [OF True refl c] "1.prems" True c
      by (simp add: ingest_from.simps [of e sq k] find_server_def)
  qed (simp add: ingest_from.simps)
qed

text \<open>Ingesting log lines in chunks of 1000 stores them in order and changes nothing
  else: either every line is stored and the answer is a success, or an error is
  returned and exactly a prefix of whole chunks is stored.  When no statement fails, the
  server exists and no line is refused by the table, everything is stored, as one
  statement over all lines would do.\<close>

theorem log_ingestion:
  "(\<exists>m \<le> length ls. (logInsertChunk dvd m \<or> m = length ls)
      \<and> snd (IngestLogs e sq d i ls) = d\<lparr>server_logs := server_logs d @ stored_lines i sq 0 (take m ls)\<rparr>
      \<and> (is_ok (fst (IngestLogs e sq d i ls)) \<longleftrightarrow> m = length ls))
   \<and> (no_faults e \<and> find_server d i \<noteq> None \<and> \<not> list_ex log_violates ls \<longrightarrow>
      IngestLogs e sq d i ls = (Inr (), d\<lparr>server_logs := server_logs d @ stored_lines i sq 0 ls\<rparr>))"
proof -
  obtain m where m: "m \<le> length ls" "logInsertChunk dvd m \<or> m = length ls"
    "snd (IngestLogs e sq d i ls) = d\<lparr>server_logs := server_logs d @ stored_lines i sq 0 (take m ls)\<rparr>"
    "is_ok (fst (IngestLogs e sq d i ls)) \<longleftrightarrow> m = length ls"
    using ingest_from_stores [of 0 ls e sq d i] by (auto simp: IngestLogs_def)
  have "IngestLogs e sq d i ls = (Inr (), d\<lparr>server_logs := server_logs d @ stored_lines i sq 0 ls\<rparr>)"
    if "no_faults e" "find_server d i \<noteq> None" "\<not> list_ex log_violates ls"
  proof -
    from ingest_from_ok [OF that] have ok: "fst (IngestLogs e sq d i ls) = Inr ()" by (simp add: IngestLogs_def)
    with m(4) have "m = length ls" by simp
    with m(3) ok show ?thesis by (simp add: prod_eq_iff)
  qed
  with m show ?thesis by blast
qed

section \<open>Witnesses\<close>

definition ex_node :: "uuid \<Rightarrow> Node" where
  "ex_node i = \<lparr>n_ID = i, n_Name = ''n'', n_FQDN = ''node.example.org'', n_PublicAddress = None, n_Port = 8444,
     n_TotalCPU = 8, n_TotalRAMMB = 32768, n_TotalDiskMB = 500000, n_MaxServers = 2, n_TokenHash = dec_nat i,
     n_Status = ''online'', n_Location = None, n_CertThumbprint = None, n_LastHeartbeat = None, n_CreatedAt = 0,
     n_MTLSEnabled = False, n_CertSerial = None, n_CertNotAfter = None\<rparr>"

definition ex_game :: "uuid \<Rightarrow> uuid \<Rightarrow> int \<Rightarrow> Server" where
  "ex_game i node port = \<lparr>sv_ID = i, sv_Name = ''s'', sv_NodeID = node, sv_OwnerID = 1, sv_Status = StatusStopped,
     sv_Port = port, sv_DataPath = ''/srv/s'', sv_NetworkRole = None, sv_RequireReferral = False,
     sv_HytaleVersion = ''latest'', sv_CPULimit = 0, sv_RAMLimitMB = 2048, sv_DiskLimitMB = 10240,
     sv_AutoRestart = False, sv_CrashLimit = 3, sv_CrashWindowS = 300, sv_ActiveWorld = '''', sv_CreatedAt = 0,
     sv_UpdatedAt = 0, sv_LaunchFlags = [], sv_UseHytaleAccount = False, sv_LastExitCode = None\<rparr>"

definition ex_owner :: User where
  "ex_owner = \<lparr>u_ID = 1, u_Email = ''a@example.org'', u_Username = ''alice'', u_PasswordHash = ''x'', u_Role = RoleUser,
     u_TOTPSecret = '''', u_TOTPEnabled = False, u_CreatedAt = 0, u_LastLoginAt = None, u_IsActive = True\<rparr>"

definition ex_fleet :: db where
  "ex_fleet = empty_db\<lparr>users := [ex_owner], nodes := [ex_node 10, ex_node 11],
     servers := [ex_game 20 10 5520, ex_game 21 11 5520]\<rparr>"

definition ex_create :: CreateServerRequest where
  "ex_create = \<lparr>cs_Name = '' lobby '', cs_HytaleVersion = ''Release'', cs_CPULimit = -5, cs_RAMLimitMB = 0,
     cs_DiskLimitMB = 0, cs_AutoRestart = True, cs_DataPath = ''''\<rparr>"

lemmas ex_fleet_simps = ex_fleet_def ex_owner_def ex_node_def ex_game_def ex_create_def empty_db_def

theorem server_visibility_witness:
  "\<exists>svs. ListServers (quiet 0) ex_fleet 1 RoleUser = Inr svs
    \<and> (20 \<in> sv_ID ` set svs) = is_ok (GetServer (quiet 0) ex_fleet 20 1 RoleUser)"
proof -
  have "is_ok (ListServers (quiet 0) ex_fleet 1 RoleUser)"
    by (simp add: ListServers_def is_ok_def call_def wrapping_def)
  then obtain svs where svs: "ListServers (quiet 0) ex_fleet 1 RoleUser = Inr svs" by (auto simp: is_ok_conv)
  have "unique_on sv_ID (servers ex_fleet)" by (simp add: unique_on_def ex_fleet_simps)
  from server_visibility [OF this svs] svs show ?thesis by blast
qed

theorem settings_authority_witness:
  "\<exists>r d'. UpdateServer (quiet 0) ex_fleet 20 1 RoleUser
      \<lparr>us_Name = None, us_AutoRestart = Some True, us_CrashLimit = None, us_RAMLimitMB = None,
       us_LaunchFlags = Some ['' --disable-sentry''], us_UseHytaleAccount = None\<rparr> = (Inr r, d')
    \<and> list_all2 (\<lambda>s s'. s' = s \<or> owner_change 20 1 s s') (servers ex_fleet) (servers d')"
proof -
  let ?u = "UpdateServer (quiet 0) ex_fleet 20 1 RoleUser
      \<lparr>us_Name = None, us_AutoRestart = Some True, us_CrashLimit = None, us_RAMLimitMB = None,
       us_LaunchFlags = Some ['' --disable-sentry''], us_UseHytaleAccount = None\<rparr>"
  have "is_ok (fst ?u)" by code_simp
  then obtain r d' where u: "?u = (Inr r, d')" by (cases ?u) (auto simp: is_ok_conv)
  have "unique_on sv_ID (servers ex_fleet)" by (simp add: unique_on_def ex_fleet_simps)
  from settings_authority [OF u _ this] u show ?thesis by auto
qed

theorem server_placement_witness:
  "\<exists>sv d'. CreateServer (quiet 5) 30 ex_fleet ex_create 1 = (Inr sv, d') \<and> servers d' = servers ex_fleet @ [sv]
    \<and> 5520 \<le> sv_Port sv \<and> sv_Port sv \<le> 65535"
proof -
  let ?c = "CreateServer (quiet 5) 30 ex_fleet ex_create 1"
  have "is_ok (fst ?c)" by code_simp
  then obtain sv d' where c: "?c = (Inr sv, d')" by (cases ?c) (auto simp: is_ok_conv)
  from server_placement [OF c] c show ?thesis by simp
qed

theorem ports_stay_distinct_witness:
  "\<exists>s s'. s \<in> set (servers (run_of server_step [SvStatus (quiet 6) 20 StatusRunning] ex_fleet))
    \<and> s' \<in> set (servers (run_of server_step [SvStatus (quiet 6) 20 StatusRunning] ex_fleet))
    \<and> sv_NodeID s = sv_NodeID s' \<and> sv_Port s = sv_Port s' \<and> s = s'"
proof -
  let ?d = "run_of server_step [SvStatus (quiet 6) 20 StatusRunning] ex_fleet"
  have "servers ?d \<noteq> []" by code_simp
  then obtain s where s: "s \<in> set (servers ?d)" by (cases "servers ?d") auto
  have "ports_free ex_fleet" by (simp add: ports_free_def unique_on_def ex_fleet_simps)
  from ports_stay_distinct [OF this s s refl refl] s show ?thesis by blast
qed

theorem log_ingestion_witness:
  "IngestLogs (quiet 0) int ex_fleet 20 [\<lparr>li_Timestamp = 1, li_Level = '''', li_Message = ''ready''\<rparr>]
    = (Inr (), ex_fleet\<lparr>server_logs := [\<lparr>l_ID = 0, l_ServerID = 20, l_LoggedAt = 1, l_Level = ''INFO'', l_Message = ''ready''\<rparr>]\<rparr>)"
  using log_ingestion [of "[\<lparr>li_Timestamp = 1, li_Level = '''', li_Message = ''ready''\<rparr>]" "quiet 0" int ex_fleet 20]
  by (simp add: ex_fleet_simps find_server_def log_violates_def log_row_def)

text \<open>A migration keeps the port of the server: the preflight accepts a target node on
  which another server already has that port.\<close>

lemma migration_port_clash:
  "ports_free ex_fleet \<and> MigratePreflight (quiet 0) ex_fleet RoleAdmin 20 11 = Inr 10
    \<and> fst (CompleteMigration (quiet 1) ex_fleet 20 11) = Inr ()
    \<and> \<not> ports_free (snd (CompleteMigration (quiet 1) ex_fleet 20 11))"
  by (simp add: ports_free_def unique_on_def MigratePreflight_def CompleteMigration_def find_server_def find_node_def
      rows_affected_def update_where_def call_def ex_fleet_simps)

text \<open>One line with a zero byte makes its whole chunk fail.\<close>

lemma zero_byte_drops_chunk:
  assumes "l \<in> set ls" "CHR 0x00 \<in> set (li_Message l)" "length ls \<le> logInsertChunk"
  shows "\<exists>err. IngestLogs e sq d i ls = (Inl err, d)"
proof -
  have "list_ex log_violates ls" using assms(1,2) by (auto simp: list_ex_iff log_violates_def)
  moreover have "ls \<noteq> []" using assms(1) by auto
  ultimately show ?thesis
    using assms(3) by (simp add: IngestLogs_def ingest_from.simps insertLogChunk_def)
qed

text \<open>A crash limit of zero passes the check of the service and is refused by the table.\<close>

lemma crash_limit_zero:
  "UpdateServer (quiet 0) ex_fleet 20 1 RoleUser
      \<lparr>us_Name = None, us_AutoRestart = None, us_CrashLimit = Some 0, us_RAMLimitMB = None,
       us_LaunchFlags = None, us_UseHytaleAccount = None\<rparr>
    = (Inl (Wrap ''updating server'' (Driver ''UpdateServer'')), ex_fleet)"
  by code_simp

end
