(* ===== verification/Alerts.thy ===== *)
theory Alerts
  imports Nodes Permissions
begin

text \<open>
  \<^verbatim>\<open>services/alert_service.go\<close>, the URL check of \<^verbatim>\<open>alerting/safehttp.go\<close>,
  the fan-out of \<^verbatim>\<open>alerting/notifier.go\<close> and \<^verbatim>\<open>handlers/alerts.go\<close>: rules,
  their evaluation and the events they fire.  Metric values are the exact
  rational values of the floats.  The URL grammar of \<^verbatim>\<open>net/url\<close> is an argument;
  deliveries are recorded, sending them is network I/O.
\<close>

section \<open>Errors and catalogues\<close>

abbreviation ErrAlertRuleNotFound :: go_error where
  "ErrAlertRuleNotFound \<equiv> New ''alert rule not found''"
abbreviation ErrAlertEventNotFound :: go_error where
  "ErrAlertEventNotFound \<equiv> New ''alert event not found''"
abbreviation ErrAlertRuleInvalid :: go_error where
  "ErrAlertRuleInvalid \<equiv> New ''invalid alert rule''"
abbreviation ErrAlertRuleForbidden :: go_error where
  "ErrAlertRuleForbidden \<equiv>
     New ''only admins can create global or node alert rules; server rules require access to the server''"
abbreviation ErrInvalidWebhookURL :: go_error where
  "ErrInvalidWebhookURL \<equiv> New ''invalid webhook url''"

definition alertRuleTypes :: "string list" where
  "alertRuleTypes = [''cpu_high'', ''ram_high'', ''disk_high'', ''server_crashed'', ''node_offline'', ''ddos'']"

definition alertNodeRuleTypes :: "string list" where
  "alertNodeRuleTypes = [''cpu_high'', ''ram_high'', ''disk_high'', ''node_offline'', ''ddos'']"

definition alertChannels :: "string list" where
  "alertChannels = [''email'', ''webhook'', ''discord'']"

section \<open>The webhook URL\<close>

text \<open>What \<^verbatim>\<open>url.Parse\<close> yields of a URL: scheme, whether it has user info, the
  host without port and brackets, the port and the escaped path.\<close>

record URL =
  url_Scheme :: string
  url_HasUser :: bool
  url_Hostname :: string
  url_Port :: string
  url_EscapedPath :: string

definition discordWebhookHosts :: "string list" where
  "discordWebhookHosts = [''discord.com'', ''discordapp.com'', ''ptb.discord.com'', ''canary.discord.com'']"

definition ValidateWebhookURL :: "(string \<Rightarrow> URL option) \<Rightarrow> string \<Rightarrow> string list \<Rightarrow> unit result" where
  "ValidateWebhookURL parse raw channels =
     (let needsWebhook = ''webhook'' \<in> set channels; needsDiscord = ''discord'' \<in> set channels;
          bad = (\<lambda>t. Inl (Note ErrInvalidWebhookURL ('': '' @ t)))
      in if raw = ''''
         then (if needsWebhook \<or> needsDiscord then bad ''webhook_url is required for webhook/discord channels''
               else Inr ())
         else if length raw > 2048 then bad ''too long''
         else (case parse raw of
             None \<Rightarrow> bad ''unparseable''
           | Some u \<Rightarrow>
               let host = to_lower (url_Hostname u)
               in if url_Scheme u \<noteq> ''https'' then bad ''only https URLs are allowed''
                  else if url_HasUser u then bad ''credentials in URL are not allowed''
                  else if host = '''' then bad ''missing host''
                  else if url_Port u \<noteq> '''' \<and> url_Port u \<noteq> ''443''
                  then bad ''only the default https port is allowed''
                  else if (case ParseAddr host of
                       Some addr \<Rightarrow> \<not> IsPublicAddr addr
                     | None \<Rightarrow> False) then bad ''address is not public''
                  else if ParseAddr host = None \<and>
                       (host = ''localhost'' \<or> has_suffix host ''.localhost'' \<or> CHR ''.'' \<notin> set host)
                  then bad ''host is not public''
                  else if needsDiscord \<and> (host \<notin> set discordWebhookHosts
                       \<or> \<not> has_prefix (url_EscapedPath u) ''/api/webhooks/'')
                  then bad ''discord channel requires a https://discord.com/api/webhooks/... URL''
                  else Inr ()))"

section \<open>Rules\<close>

record CreateAlertRuleRequest =
  ar_ServerID :: "uuid option"
  ar_Type :: string
  ar_Threshold :: "rat option"
  ar_Channels :: "string list"
  ar_WebhookURL :: string

definition ListRules :: "env \<Rightarrow> db \<Rightarrow> uuid \<Rightarrow> AlertRule list result" where
  "ListRules e d userID =
     wrapping ''querying alert rules'' (call e ''ListRules''
       (sort_key (\<lambda>r. - r_CreatedAt r) (filter (\<lambda>r. r_UserID r = userID) (alert_rules d))))"

definition insert_rule :: "env \<Rightarrow> db \<Rightarrow> AlertRule \<Rightarrow> AlertRule result \<times> db" where
  "insert_rule e d r =
     (if fault e ''CreateRule'' \<or> (\<exists>x \<in> set (alert_rules d). r_ID x = r_ID r)
         \<or> (case r_ServerID r of None \<Rightarrow> False | Some s \<Rightarrow> find_server d s = None)
         \<or> find_user d (r_UserID r) = None
      then (Inl (Wrap ''creating alert rule'' (Driver ''CreateRule'')), d)
      else (Inr r, d\<lparr>alert_rules := alert_rules d @ [r]\<rparr>))"

definition CreateRule ::
  "(string \<Rightarrow> URL option) \<Rightarrow> env \<Rightarrow> uuid \<Rightarrow> db \<Rightarrow> User \<Rightarrow> CreateAlertRuleRequest \<Rightarrow> AlertRule result \<times> db" where
  "CreateRule parse e newID d caller req =
     (let r = \<lparr>r_ID = newID, r_ServerID = ar_ServerID req, r_UserID = u_ID caller, r_Type = ar_Type req,
              r_Threshold = ar_Threshold req, r_Channels = ar_Channels req, r_Enabled = True,
              r_CreatedAt = now e, r_WebhookURL = ar_WebhookURL req\<rparr>
      in if ar_Type req \<notin> set alertRuleTypes then (Inl (Note ErrAlertRuleInvalid '': unknown alert type''), d)
         else (case List.find (\<lambda>ch. ch \<notin> set alertChannels) (ar_Channels req) of
             Some ch \<Rightarrow> (Inl (Note ErrAlertRuleInvalid ('': unknown channel '' @ quoted ch)), d)
           | None \<Rightarrow>
         (case ValidateWebhookURL parse (ar_WebhookURL req) (ar_Channels req) of
             Inl err \<Rightarrow> (Inl (Note ErrAlertRuleInvalid ('': '' @ Error err)), d)
           | Inr _ \<Rightarrow>
               if RoleWeight (u_Role caller) \<ge> RoleWeight RoleAdmin then insert_rule e d r
               else if ar_Type req \<in> set alertNodeRuleTypes then (Inl ErrAlertRuleForbidden, d)
               else (case ar_ServerID req of
                   None \<Rightarrow> (Inl ErrAlertRuleForbidden, d)
                 | Some sid \<Rightarrow>
                     (case HasServerPermission e d caller sid ''server.view'' of
                        Inl err \<Rightarrow> (Inl (Wrap ''checking server permission'' err), d)
                      | Inr ok \<Rightarrow> if \<not> ok then (Inl ErrAlertRuleForbidden, d) else insert_rule e d r)))))"

definition ToggleRule :: "env \<Rightarrow> db \<Rightarrow> uuid \<Rightarrow> uuid \<Rightarrow> bool \<Rightarrow> unit result \<times> db" where
  "ToggleRule e d ruleID userID enabled =
     (let p = (\<lambda>r. r_ID r = ruleID \<and> r_UserID r = userID)
      in if fault e ''ToggleRule'' then (Inl (Wrap ''toggling rule'' (Driver ''ToggleRule'')), d)
         else if rows_affected p (alert_rules d) = 0 then (Inl ErrAlertRuleNotFound, d)
         else (Inr (), d\<lparr>alert_rules := update_where p (\<lambda>r. r\<lparr>r_Enabled := enabled\<rparr>) (alert_rules d)\<rparr>))"

text \<open>The events of a deleted rule keep no reference to it.\<close>

definition DeleteRule :: "env \<Rightarrow> db \<Rightarrow> uuid \<Rightarrow> uuid \<Rightarrow> unit result \<times> db" where
  "DeleteRule e d ruleID userID =
     (let p = (\<lambda>r. r_ID r = ruleID \<and> r_UserID r = userID)
      in if fault e ''DeleteRule'' then (Inl (Wrap ''deleting rule'' (Driver ''DeleteRule'')), d)
         else if rows_affected p (alert_rules d) = 0 then (Inl ErrAlertRuleNotFound, d)
         else (Inr (), d\<lparr>alert_rules := delete_where p (alert_rules d),
            alert_events := update_where (\<lambda>v. ae_RuleID v = Some ruleID) (\<lambda>v. v\<lparr>ae_RuleID := None\<rparr>)
              (alert_events d)\<rparr>))"

definition owns_rule :: "db \<Rightarrow> uuid \<Rightarrow> AlertEvent \<Rightarrow> bool" where
  "owns_rule d userID v = (\<exists>r \<in> set (alert_rules d). ae_RuleID v = Some (r_ID r) \<and> r_UserID r = userID)"

definition ListEvents :: "env \<Rightarrow> db \<Rightarrow> User \<Rightarrow> int \<Rightarrow> AlertEvent list result" where
  "ListEvents e d caller limit0 =
     (let limit = (if limit0 \<le> 0 \<or> limit0 > 200 then 50 else limit0);
          isStaff = (RoleWeight (u_Role caller) \<ge> RoleWeight RoleAdmin)
      in wrapping ''querying alert events'' (call e ''ListEvents''
           (take (nat limit) (sort_key (\<lambda>v. - ae_CreatedAt v)
             (filter (\<lambda>v. owns_rule d (u_ID caller) v \<or> (ae_RuleID v = None \<and> isStaff)) (alert_events d))))))"

definition ResolveEvent :: "env \<Rightarrow> db \<Rightarrow> User \<Rightarrow> uuid \<Rightarrow> unit result \<times> db" where
  "ResolveEvent e d caller eventID =
     (let isStaff = (RoleWeight (u_Role caller) \<ge> RoleWeight RoleAdmin);
          p = (\<lambda>v. ae_ID v = eventID \<and> (isStaff \<or> owns_rule d (u_ID caller) v))
      in if fault e ''ResolveEvent'' then (Inl (Wrap ''resolving event'' (Driver ''ResolveEvent'')), d)
         else if rows_affected p (alert_events d) = 0 then (Inl ErrAlertEventNotFound, d)
         else (Inr (), d\<lparr>alert_events := update_where p
            (\<lambda>v. v\<lparr>ae_Resolved := True, ae_ResolvedAt := Some (now e)\<rparr>) (alert_events d)\<rparr>))"

section \<open>Notifications\<close>

record NotificationPayload =
  nt_RuleType :: string
  nt_Severity :: string
  nt_Message :: string
  nt_FiredAt :: time
  nt_SubjectID :: uuid

datatype delivery = Mail NotificationPayload string | WebhookPost NotificationPayload string
  | DiscordPost NotificationPayload string

record MultiNotifier =
  mn_smtp :: bool
  mn_webhook :: bool
  mn_discord :: bool

definition Dispatch ::
  "MultiNotifier \<Rightarrow> NotificationPayload \<Rightarrow> string list \<Rightarrow> string \<Rightarrow> string \<Rightarrow> delivery list" where
  "Dispatch m payload channels targetEmail webhookURL =
     concat (map (\<lambda>ch.
       if ch = ''email'' then (if mn_smtp m \<and> targetEmail \<noteq> '''' then [Mail payload targetEmail] else [])
       else if ch = ''webhook'' then (if mn_webhook m \<and> webhookURL \<noteq> '''' then [WebhookPost payload webhookURL] else [])
       else if ch = ''discord'' then (if mn_discord m \<and> webhookURL \<noteq> '''' then [DiscordPost payload webhookURL] else [])
       else []) channels)"

section \<open>Evaluation\<close>

definition defaultThreshold :: "string \<Rightarrow> rat" where
  "defaultThreshold ruleType = (if ruleType \<in> {''cpu_high'', ''ram_high'', ''disk_high''} then 90 else 0)"

text \<open>The rules a subject can fire: global rules of staff, and rules for the server with
  that id whose owner is staff, owns the server or is a member.\<close>

definition rule_applies :: "db \<Rightarrow> string \<Rightarrow> uuid \<Rightarrow> AlertRule \<Rightarrow> bool" where
  "rule_applies d ruleType subjectID r =
     (r_Type r = ruleType \<and> r_Enabled r \<and>
      (\<exists>u \<in> set (users d). u_ID u = r_UserID r \<and>
        ((r_ServerID r = None \<and> u_Role u \<in> {RoleAdmin, RoleOwner})
         \<or> (r_ServerID r = Some subjectID \<and>
             (u_Role u \<in> {RoleAdmin, RoleOwner}
              \<or> (\<exists>s \<in> set (servers d). sv_ID s = subjectID \<and> sv_OwnerID s = u_ID u)
              \<or> (\<exists>m \<in> set (server_members d). m_ServerID m = subjectID \<and> m_UserID m = u_ID u))))))"

definition recent_event :: "env \<Rightarrow> db \<Rightarrow> uuid \<Rightarrow> bool" where
  "recent_event e d ruleID =
     (\<exists>v \<in> set (alert_events d). ae_RuleID v = Some ruleID \<and> \<not> ae_Resolved v \<and> ae_CreatedAt v > now e - 15 * minute)"

definition alert_event :: "env \<Rightarrow> uuid \<Rightarrow> uuid \<Rightarrow> string \<Rightarrow> uuid \<Rightarrow> AlertEvent" where
  "alert_event e newID ruleID ruleType subjectID =
     (let nodeSubject = (ruleType \<in> {''node_offline'', ''ddos''})
      in \<lparr>ae_ID = newID, ae_RuleID = Some ruleID,
          ae_ServerID = (if nodeSubject then None else Some subjectID),
          ae_NodeID = (if nodeSubject then Some subjectID else None), ae_Type = ruleType,
          ae_Severity = (if ruleType \<in> {''node_offline'', ''server_crashed'', ''ddos''} then ''critical'' else ''warning''),
          ae_Title = ''Alert: '' @ ruleType, ae_Resolved = False, ae_ResolvedAt = None, ae_CreatedAt = now e\<rparr>)"

text \<open>The foreign keys of \<^verbatim>\<open>alert_events\<close>.\<close>

definition event_violates :: "db \<Rightarrow> AlertEvent \<Rightarrow> bool" where
  "event_violates d v =
     ((\<exists>x \<in> set (alert_events d). ae_ID x = ae_ID v)
      \<or> (case ae_RuleID v of None \<Rightarrow> False | Some i \<Rightarrow> \<forall>r \<in> set (alert_rules d). r_ID r \<noteq> i)
      \<or> (case ae_ServerID v of None \<Rightarrow> False | Some i \<Rightarrow> find_server d i = None)
      \<or> (case ae_NodeID v of None \<Rightarrow> False | Some i \<Rightarrow> find_node d i = None))"

text \<open>The loop over the rules; the \<open>k\<close>-th iteration has its own statements and event id.\<close>

fun fire_rules ::
  "MultiNotifier option \<Rightarrow> env \<Rightarrow> (nat \<Rightarrow> uuid) \<Rightarrow> string \<Rightarrow> uuid \<Rightarrow> rat \<Rightarrow> nat \<Rightarrow> AlertRule list \<Rightarrow> db
     \<Rightarrow> db \<times> delivery list" where
  "fire_rules nf e ids ruleType subjectID val k [] d = (d, [])"
| "fire_rules nf e ids ruleType subjectID val k (rule # rules) d =
     (let threshold = (case r_Threshold rule of None \<Rightarrow> defaultThreshold ruleType | Some t \<Rightarrow> t);
          v = alert_event e (ids k) (r_ID rule) ruleType subjectID;
          email = (case find_user d (r_UserID rule) of None \<Rightarrow> '''' | Some u \<Rightarrow>
             if fault e (''alert.email'' @ dec_nat k) then '''' else u_Email u);
          payload = \<lparr>nt_RuleType = ruleType, nt_Severity = ae_Severity v, nt_Message = ae_Title v,
             nt_FiredAt = now e, nt_SubjectID = subjectID\<rparr>
      in if val < threshold \<or> fault e (''alert.dedup'' @ dec_nat k) \<or> recent_event e d (r_ID rule)
            \<or> fault e (''alert.insert'' @ dec_nat k) \<or> event_violates d v
         then fire_rules nf e ids ruleType subjectID val (Suc k) rules d
         else (let (d', out) = fire_rules nf e ids ruleType subjectID val (Suc k) rules
                      (d\<lparr>alert_events := alert_events d @ [v]\<rparr>)
               in (d', (case nf of None \<Rightarrow> [] | Some m \<Rightarrow>
                     Dispatch m payload (r_Channels rule) email (r_WebhookURL rule)) @ out)))"

definition EvaluateAndFire ::
  "MultiNotifier option \<Rightarrow> env \<Rightarrow> (nat \<Rightarrow> uuid) \<Rightarrow> db \<Rightarrow> string \<Rightarrow> uuid \<Rightarrow> rat
     \<Rightarrow> (unit result \<times> delivery list) \<times> db" where
  "EvaluateAndFire nf e ids d ruleType subjectID val =
     (if fault e ''EvaluateAndFire''
      then ((Inl (Wrap (''querying alert rules for type '' @ ruleType) (Driver ''EvaluateAndFire'')), []), d)
      else (let (d', out) = fire_rules nf e ids ruleType subjectID val 0
                   (filter (rule_applies d ruleType subjectID) (alert_rules d)) d
            in ((Inr (), out), d')))"

definition stale_nodes :: "env \<Rightarrow> db \<Rightarrow> Node list" where
  "stale_nodes e d = filter (\<lambda>n. n_Status n = ''online'' \<and>
     (case n_LastHeartbeat n of None \<Rightarrow> False | Some t \<Rightarrow> t < now e - 5 * minute)) (nodes d)"

fun fire_offline ::
  "MultiNotifier option \<Rightarrow> env \<Rightarrow> (nat \<Rightarrow> nat \<Rightarrow> uuid) \<Rightarrow> nat \<Rightarrow> Node list \<Rightarrow> db \<Rightarrow> db \<times> delivery list" where
  "fire_offline nf e ids k [] d = (d, [])"
| "fire_offline nf e ids k (n # ns) d =
     (let ((_, out), d1) = EvaluateAndFire nf e (ids k) d ''node_offline'' (n_ID n) 0;
          (d2, out') = fire_offline nf e ids (Suc k) ns d1
      in (d2, out @ out'))"

definition EvaluateNodeOffline ::
  "MultiNotifier option \<Rightarrow> env \<Rightarrow> (nat \<Rightarrow> nat \<Rightarrow> uuid) \<Rightarrow> db \<Rightarrow> (unit result \<times> delivery list) \<times> db" where
  "EvaluateNodeOffline nf e ids d =
     (if fault e ''EvaluateNodeOffline''
      then ((Inl (Wrap ''querying stale nodes'' (Driver ''EvaluateNodeOffline'')), []), d)
      else (let (d', out) = fire_offline nf e ids 0 (stale_nodes e d) d in ((Inr (), out), d')))"

section \<open>Handlers\<close>

definition h_ListRules :: "env \<Rightarrow> db \<Rightarrow> User option \<Rightarrow> AlertRule list response" where
  "h_ListRules e d ctxUser =
     (case ctxUser of None \<Rightarrow> Refuse 401 ''unauthorized''
      | Some caller \<Rightarrow> (case ListRules e d (u_ID caller) of
          Inl _ \<Rightarrow> Refuse 500 ''could not list alert rules'' | Inr rs \<Rightarrow> Reply 200 rs))"

definition h_CreateRule ::
  "(string \<Rightarrow> URL option) \<Rightarrow> env \<Rightarrow> uuid \<Rightarrow> db \<Rightarrow> User option \<Rightarrow> CreateAlertRuleRequest result
     \<Rightarrow> AlertRule response \<times> db" where
  "h_CreateRule parse e newID d ctxUser body =
     (case ctxUser of None \<Rightarrow> (Refuse 401 ''unauthorized'', d)
      | Some caller \<Rightarrow> (case body of Inl err \<Rightarrow> (Refuse 400 (Error err), d)
      | Inr req \<Rightarrow> (case CreateRule parse e newID d caller req of
          (Inl err, d') \<Rightarrow>
            (if errors_is err ErrAlertRuleForbidden then Refuse 403 (Error err)
             else if errors_is err ErrAlertRuleInvalid then Refuse 400 (Error err)
             else Refuse 500 ''could not create alert rule'', d')
        | (Inr r, d') \<Rightarrow> (Reply 201 r, d'))))"

definition h_ToggleRule :: "env \<Rightarrow> db \<Rightarrow> User option \<Rightarrow> uuid option \<Rightarrow> bool result \<Rightarrow> string response \<times> db" where
  "h_ToggleRule e d ctxUser param body =
     (case ctxUser of None \<Rightarrow> (Refuse 401 ''unauthorized'', d)
      | Some caller \<Rightarrow> (case param of None \<Rightarrow> (Refuse 400 ''invalid ID format'', d)
      | Some ruleID \<Rightarrow> (case body of Inl err \<Rightarrow> (Refuse 400 (Error err), d)
      | Inr enabled \<Rightarrow> (case ToggleRule e d ruleID (u_ID caller) enabled of
          (Inl err, d') \<Rightarrow> (Refuse 400 (Error err), d')
        | (Inr _, d') \<Rightarrow> (Reply 200 ''rule updated'', d')))))"

definition h_DeleteRule :: "env \<Rightarrow> db \<Rightarrow> User option \<Rightarrow> uuid option \<Rightarrow> string response \<times> db" where
  "h_DeleteRule e d ctxUser param =
     (case ctxUser of None \<Rightarrow> (Refuse 401 ''unauthorized'', d)
      | Some caller \<Rightarrow> (case param of None \<Rightarrow> (Refuse 400 ''invalid ID format'', d)
      | Some ruleID \<Rightarrow> (case DeleteRule e d ruleID (u_ID caller) of
          (Inl err, d') \<Rightarrow> (Refuse 400 (Error err), d')
        | (Inr _, d') \<Rightarrow> (Reply 200 ''rule deleted'', d'))))"

definition h_ListEvents :: "env \<Rightarrow> db \<Rightarrow> User option \<Rightarrow> AlertEvent list response" where
  "h_ListEvents e d ctxUser =
     (case ctxUser of None \<Rightarrow> Refuse 401 ''unauthorized''
      | Some caller \<Rightarrow> (case ListEvents e d caller 50 of
          Inl _ \<Rightarrow> Refuse 500 ''could not list alert events'' | Inr vs \<Rightarrow> Reply 200 vs))"

definition h_ResolveEvent :: "env \<Rightarrow> db \<Rightarrow> User option \<Rightarrow> uuid option \<Rightarrow> string response \<times> db" where
  "h_ResolveEvent e d ctxUser param =
     (case ctxUser of None \<Rightarrow> (Refuse 401 ''unauthorized'', d)
      | Some caller \<Rightarrow> (case param of None \<Rightarrow> (Refuse 400 ''invalid ID format'', d)
      | Some eventID \<Rightarrow> (case ResolveEvent e d caller eventID of
          (Inl err, d') \<Rightarrow>
            (if errors_is err ErrAlertEventNotFound then Refuse 404 (Error err)
             else Refuse 500 ''could not resolve alert event'', d')
        | (Inr _, d') \<Rightarrow> (Reply 200 ''event resolved'', d'))))"

end
