(* ===== verification/NodeHandlers.thy ===== *)
theory NodeHandlers
  imports Alerts
begin

text \<open>
  \<^verbatim>\<open>handlers/nodes.go\<close>, \<^verbatim>\<open>handlers/enrollment.go\<close> and \<^verbatim>\<open>handlers/node_csr.go\<close>.
  The state of these handlers is the database and the pool of daemon clients.  A
  path parameter is the parsed id or \<open>None\<close>, a body is the bound request or the
  binding error; \<open>authed\<close> is the node id that \<open>DaemonNodeAuth\<close> put into the context.
\<close>

record nodest =
  nd_db :: db
  nd_pool :: ClientPool

definition nodeError :: "go_error \<Rightarrow> 'a response" where
  "nodeError err =
     (if errors_is err ErrNodeNotFound then Refuse 404 ''node not found''
      else if errors_is err ErrInvalidNodeAddress then Refuse 400 (Error err)
      else Refuse 500 (Error err))"

definition h_ListNodes :: "env \<Rightarrow> db \<Rightarrow> (string \<Rightarrow> nat) \<Rightarrow> Node list response" where
  "h_ListNodes e d collation =
     (case ListNodes e d collation of Inl _ \<Rightarrow> Refuse 500 ''could not list nodes'' | Inr ns \<Rightarrow> Reply 200 ns)"

definition h_RegisterNode ::
  "prims \<Rightarrow> env \<Rightarrow> uuid \<Rightarrow> string \<Rightarrow> db \<Rightarrow> RegisterNodeRequest result \<Rightarrow> (Node \<times> string) response \<times> db" where
  "h_RegisterNode pr e newID buf d body =
     (case body of Inl err \<Rightarrow> (Refuse 400 (Error err), d)
      | Inr req \<Rightarrow> (case RegisterNode pr e newID buf d req of
          (Inl err, d') \<Rightarrow> (Refuse 400 (Error err), d')
        | (Inr r, d') \<Rightarrow> (Reply 201 r, d')))"

definition h_GetNode :: "env \<Rightarrow> db \<Rightarrow> uuid option \<Rightarrow> Node response" where
  "h_GetNode e d param =
     (case param of None \<Rightarrow> Refuse 400 ''invalid ID format''
      | Some nodeID \<Rightarrow> (case GetNode e d nodeID of Inl err \<Rightarrow> nodeError err | Inr n \<Rightarrow> Reply 200 n))"

definition h_DeleteNode :: "env \<Rightarrow> nodest \<Rightarrow> uuid option \<Rightarrow> string response \<times> nodest" where
  "h_DeleteNode e st param =
     (case param of None \<Rightarrow> (Refuse 400 ''invalid ID format'', st)
      | Some nodeID \<Rightarrow> (case DeleteNode e (nd_db st) nodeID of
          (Inl err, d') \<Rightarrow> (nodeError err, st\<lparr>nd_db := d'\<rparr>)
        | (Inr _, d') \<Rightarrow> (Reply 200 ''node deleted'',
             st\<lparr>nd_db := d', nd_pool := pool_Remove (nd_pool st) nodeID\<rparr>)))"

definition h_DaemonSelfRegister ::
  "bool \<Rightarrow> env \<Rightarrow> db \<Rightarrow> uuid option \<Rightarrow> uuid option \<Rightarrow> DaemonSelfRegisterRequest result \<Rightarrow> string response \<times> db" where
  "h_DaemonSelfRegister devMode e d param authed body =
     (if \<not> devMode
      then (Refuse 410 ''static-token node registration is disabled in production; use POST /api/v1/nodes/enroll with an enrollment token'', d)
      else (case param of None \<Rightarrow> (Refuse 400 ''invalid ID format'', d)
      | Some nodeID \<Rightarrow>
          if authed \<noteq> Some nodeID then (Refuse 403 ''token does not match node'', d)
          else (case body of Inl err \<Rightarrow> (Refuse 400 (Error err), d)
          | Inr req \<Rightarrow> (case DaemonSelfRegister e d nodeID req of
              (Inl _, d') \<Rightarrow> (Refuse 500 ''failed to register daemon'', d')
            | (Inr _, d') \<Rightarrow> (Reply 200 ''daemon registered'', d')))))"

text \<open>The metrics are recorded by a goroutine; it only appends to its own table, so it
  is placed at its start.  The threshold alerts are evaluated after the pool entry
  was refreshed; \<open>ids\<close> numbers their events.\<close>

definition heartbeat_alerts ::
  "MultiNotifier option \<Rightarrow> env \<Rightarrow> (nat \<Rightarrow> nat \<Rightarrow> uuid) \<Rightarrow> db \<Rightarrow> uuid \<Rightarrow> Node \<Rightarrow> NodeHeartbeatRequest \<Rightarrow> db" where
  "heartbeat_alerts nf e ids d nodeID node req =
     (let d1 = (if hb_CPUPercent req > 0
                then snd (EvaluateAndFire nf e (ids 0) d ''cpu_high'' nodeID (hb_CPUPercent req)) else d);
          d2 = (if n_TotalRAMMB node > 0 \<and> hb_RAMUsedMB req > 0
                then snd (EvaluateAndFire nf e (ids 1) d1 ''ram_high'' nodeID
                  (of_nat (hb_RAMUsedMB req) / of_int (n_TotalRAMMB node) * 100)) else d1)
      in if n_TotalDiskMB node > 0 \<and> hb_DiskUsedMB req > 0
         then snd (EvaluateAndFire nf e (ids 2) d2 ''disk_high'' nodeID
           (of_nat (hb_DiskUsedMB req) / of_int (n_TotalDiskMB node) * 100)) else d2)"

definition h_NodeHeartbeat ::
  "(string \<Rightarrow> uuid \<Rightarrow> bool) \<Rightarrow> (uuid \<Rightarrow> string) \<Rightarrow> MultiNotifier option \<Rightarrow> bool \<Rightarrow> env \<Rightarrow> (nat \<Rightarrow> nat \<Rightarrow> uuid) \<Rightarrow> nodest
     \<Rightarrow> uuid option \<Rightarrow> uuid option \<Rightarrow> string \<Rightarrow> NodeHeartbeatRequest result \<Rightarrow> string response \<times> nodest" where
  "h_NodeHeartbeat tls_builds str nf alerts e ids st param authed authHeader body =
     (case param of None \<Rightarrow> (Refuse 400 ''invalid ID format'', st)
      | Some nodeID \<Rightarrow>
          if authed \<noteq> Some nodeID then (Refuse 403 ''token does not match node'', st)
          else (case body of Inl err \<Rightarrow> (Refuse 400 (Error err), st)
          | Inr req \<Rightarrow> (case UpdateNodeHeartbeat e (nd_db st) nodeID req of
              (Inl err, d1) \<Rightarrow> (nodeError err, st\<lparr>nd_db := d1\<rparr>)
            | (Inr _, d1) \<Rightarrow>
                (let d2 = snd (RecordHeartbeatMetrics e d1 nodeID req);
                     ok = Reply 200 (''heartbeat received from node '' @ str nodeID)
                 in case GetNode e d2 nodeID of
                      Inl _ \<Rightarrow> (ok, st\<lparr>nd_db := d2\<rparr>)
                    | Inr node \<Rightarrow>
                        (ok, \<lparr>nd_db = (if alerts then heartbeat_alerts nf e ids d2 nodeID node req else d2),
                          nd_pool = snd (pool_Register tls_builds (nd_pool st) nodeID (n_FQDN node) (n_Port node)
                             (trim_prefix authHeader ''Bearer '') (n_MTLSEnabled node))\<rparr>)))))"

definition h_ReportDDoS ::
  "MultiNotifier option \<Rightarrow> bool \<Rightarrow> env \<Rightarrow> (nat \<Rightarrow> uuid) \<Rightarrow> db \<Rightarrow> uuid option \<Rightarrow> uuid option \<Rightarrow> unit result
     \<Rightarrow> string response \<times> db" where
  "h_ReportDDoS nf alerts e ids d param authed body =
     (case param of None \<Rightarrow> (Refuse 400 ''invalid ID format'', d)
      | Some nodeID \<Rightarrow>
          if authed \<noteq> Some nodeID then (Refuse 403 ''token does not match node'', d)
          else (case body of Inl err \<Rightarrow> (Refuse 400 (Error err), d)
          | Inr _ \<Rightarrow> (Reply 200 ''ddos event recorded'',
              if alerts then snd (EvaluateAndFire nf e ids d ''ddos'' nodeID 0) else d)))"

definition h_GetPendingCommands :: "env \<Rightarrow> db \<Rightarrow> uuid option \<Rightarrow> uuid option \<Rightarrow> NodeCommand list response" where
  "h_GetPendingCommands e d param authed =
     (case param of None \<Rightarrow> Refuse 400 ''invalid ID format''
      | Some nodeID \<Rightarrow>
          if authed \<noteq> Some nodeID then Refuse 403 ''token does not match node''
          else (case GetPendingCommands e d nodeID of
              Inl _ \<Rightarrow> Refuse 500 ''could not fetch commands'' | Inr cs \<Rightarrow> Reply 200 cs))"

definition h_AckCommand ::
  "env \<Rightarrow> db \<Rightarrow> uuid option \<Rightarrow> uuid option \<Rightarrow> uuid option \<Rightarrow> CommandAckRequest result \<Rightarrow> string response \<times> db" where
  "h_AckCommand e d param cmdParam authed body =
     (case param of None \<Rightarrow> (Refuse 400 ''invalid ID format'', d)
      | Some nodeID \<Rightarrow> (case cmdParam of None \<Rightarrow> (Refuse 400 ''invalid ID format'', d)
      | Some cmdID \<Rightarrow>
          if authed \<noteq> Some nodeID then (Refuse 403 ''token does not match node'', d)
          else (case body of Inl err \<Rightarrow> (Refuse 400 (Error err), d)
          | Inr req \<Rightarrow> (case AckCommand e d nodeID cmdID req of
              (Inl err, d') \<Rightarrow> (Refuse 400 (Error err), d')
            | (Inr _, d') \<Rightarrow> (Reply 200 ''command acknowledged'', d')))))"

definition h_GetNodeMetrics :: "env \<Rightarrow> db \<Rightarrow> uuid option \<Rightarrow> string \<Rightarrow> NodeMetric list response" where
  "h_GetNodeMetrics e d param hStr =
     (case param of None \<Rightarrow> Refuse 400 ''invalid ID format''
      | Some nodeID \<Rightarrow>
          (let hours = (case atoi hStr of None \<Rightarrow> 24 | Some h2 \<Rightarrow> if h2 > 0 \<and> h2 \<le> 168 then h2 else 24)
           in case GetNodeMetrics e d nodeID hours of Inl err \<Rightarrow> nodeError err | Inr ms \<Rightarrow> Reply 200 ms))"

definition h_GetClusterStats :: "env \<Rightarrow> db \<Rightarrow> ClusterStats response" where
  "h_GetClusterStats e d =
     (case GetClusterStats e d of Inl _ \<Rightarrow> Refuse 500 ''could not compute cluster stats'' | Inr s \<Rightarrow> Reply 200 s)"

definition h_UpdateNode :: "env \<Rightarrow> db \<Rightarrow> uuid option \<Rightarrow> UpdateNodeRequest result \<Rightarrow> Node response \<times> db" where
  "h_UpdateNode e d param body =
     (case param of None \<Rightarrow> (Refuse 400 ''invalid ID format'', d)
      | Some nodeID \<Rightarrow> (case body of Inl err \<Rightarrow> (Refuse 400 (Error err), d)
      | Inr req \<Rightarrow> (case UpdateNode e d nodeID req of
          (Inl err, d') \<Rightarrow> (nodeError err, d')
        | (Inr n, d') \<Rightarrow> (Reply 200 n, d'))))"

section \<open>Enrollment\<close>

definition h_CreateEnrollment ::
  "prims \<Rightarrow> env \<Rightarrow> uuid \<Rightarrow> string \<Rightarrow> db \<Rightarrow> CreateEnrollmentRequest result \<Rightarrow> User option
     \<Rightarrow> (uuid \<times> string \<times> time) response \<times> db" where
  "h_CreateEnrollment pr e newID buf d body ctxUser =
     (case body of Inl err \<Rightarrow> (Refuse 400 (Error err), d)
      | Inr b \<Rightarrow> (case ctxUser of None \<Rightarrow> (Refuse 401 ''unauthenticated'', d)
      | Some caller \<Rightarrow>
          (case enroll_create pr e newID buf d (b\<lparr>ce_CreatedBy := u_ID caller, ce_TTL := 15 * minute\<rparr>) of
             (Inl _, d') \<Rightarrow> (Refuse 500 ''could not create enrollment'', d')
           | (Inr (enr, plain), d') \<Rightarrow> (Reply 201 (e_ID enr, plain, e_ExpiresAt enr), d'))))"

definition h_Redeem ::
  "prims \<Rightarrow> env \<Rightarrow> uuid \<Rightarrow> string \<Rightarrow> db \<Rightarrow> (string \<times> RedeemPayload) result \<Rightarrow> (Node \<times> string) response \<times> db" where
  "h_Redeem pr e newID buf d body =
     (case body of Inl err \<Rightarrow> (Refuse 400 (Error err), d)
      | Inr (token, payload) \<Rightarrow> (case Redeem pr e newID buf d token payload of
          (Inl err, d') \<Rightarrow>
            (if errors_is err ErrEnrollmentNotFound then Refuse 404 ''enrollment not found or already used''
             else if errors_is err ErrEnrollmentExpired then Refuse 410 ''enrollment token expired''
             else if errors_is err ErrInvalidNodeAddress then Refuse 400 (Error err)
             else Refuse 500 ''could not redeem enrollment'', d')
        | (Inr r, d') \<Rightarrow> (Reply 200 r, d')))"

section \<open>Certificates\<close>

text \<open>Parsing and signing a request are \<^verbatim>\<open>crypto/x509\<close>: \<open>csr_ok\<close> says that the request
  parses, \<open>sign\<close> yields certificate, serial and end of validity for a common name and
  subject names.\<close>

definition decodeCSRField :: "string \<Rightarrow> string" where
  "decodeCSRField s0 =
     (let s = trim_space s0
      in if has_prefix s ''-----BEGIN'' then s
         else (case b64_decode s of Some b \<Rightarrow> b | None \<Rightarrow> s))"

definition sanFromFQDN :: "string \<Rightarrow> string" where
  "sanFromFQDN fqdn = unbracket fqdn"

definition SignCSR ::
  "(string \<Rightarrow> bool) \<Rightarrow> (string \<Rightarrow> string \<Rightarrow> string list \<Rightarrow> int \<Rightarrow> (string \<times> string \<times> time) option)
     \<Rightarrow> (uuid \<Rightarrow> string) \<Rightarrow> string result \<Rightarrow> env \<Rightarrow> db \<Rightarrow> uuid option \<Rightarrow> uuid option \<Rightarrow> string result
     \<Rightarrow> (string \<times> string) response \<times> db" where
  "SignCSR csr_ok sign str ca e d param authed body =
     (case param of None \<Rightarrow> (Refuse 400 ''invalid ID format'', d)
      | Some nodeID \<Rightarrow>
          if authed \<noteq> Some nodeID then (Refuse 403 ''token does not match node'', d)
          else (case body of Inl _ \<Rightarrow> (Refuse 400 ''invalid request body'', d)
          | Inr field \<Rightarrow>
              (let csr = decodeCSRField field
               in if \<not> csr_ok csr then (Refuse 400 ''invalid CSR'', d)
                  else if fault e ''SignCSR.node'' then (Refuse 500 ''could not load node'', d)
                  else (case find_node d nodeID of
                      None \<Rightarrow> (Refuse 404 ''node not found'', d)
                    | Some n \<Rightarrow> (case ca of Inl _ \<Rightarrow> (Refuse 500 ''could not load CA'', d)
                    | Inr caCert \<Rightarrow>
                        (case sign csr (str nodeID) [sanFromFQDN (n_FQDN n)] (2 * 365 * 24 * hour) of
                           None \<Rightarrow> (Refuse 500 ''could not sign certificate'', d)
                         | Some (cert, serial, notAfter) \<Rightarrow>
                             if fault e ''SignCSR.record'' then (Refuse 500 ''could not record certificate'', d)
                             else (Reply 200 (caCert, cert),
                               d\<lparr>nodes := update_where (\<lambda>n. n_ID n = nodeID)
                                 (\<lambda>n. n\<lparr>n_CertSerial := Some serial, n_CertNotAfter := Some notAfter\<rparr>)
                                 (nodes d)\<rparr>)))))))"

end
