(* ===== verification/NodeRules.thy ===== *)
theory NodeRules
  imports ServerRules NodeHandlers
begin

text \<open>
  What holds of nodes over every sequence of operations: an enrollment token yields
  one node, and the commands queued for a node reach it in order and are acknowledged
  once, which is a refinement of a queue of tasks.
\<close>

section \<open>Enrollment tokens\<close>

datatype node_act =
    NdRegister env uuid string RegisterNodeRequest
  | NdEnroll env uuid string CreateEnrollmentRequest
  | NdRedeem env uuid string string RedeemPayload
  | NdHeartbeat env uuid NodeHeartbeatRequest
  | NdStatus env uuid string
  | NdUpdate env uuid UpdateNodeRequest
  | NdDelete env uuid

fun node_step :: "prims \<Rightarrow> node_act \<Rightarrow> db \<Rightarrow> unit result \<times> db" where
  "node_step pr (NdRegister e i buf req) d = (let (r, d') = RegisterNode pr e i buf d req in (map_sum id (\<lambda>_. ()) r, d'))"
| "node_step pr (NdEnroll e i buf req) d = (let (r, d') = enroll_create pr e i buf d req in (map_sum id (\<lambda>_. ()) r, d'))"
| "node_step pr (NdRedeem e i buf tok p) d = (let (r, d') = Redeem pr e i buf d tok p in (map_sum id (\<lambda>_. ()) r, d'))"
| "node_step pr (NdHeartbeat e n req) d = (let (r, d') = UpdateNodeHeartbeat e d n req in (map_sum id (\<lambda>_. ()) r, d'))"
| "node_step pr (NdStatus e n s) d = SetNodeStatus e d n s"
| "node_step pr (NdUpdate e n req) d = (let (r, d') = UpdateNode e d n req in (map_sum id (\<lambda>_. ()) r, d'))"
| "node_step pr (NdDelete e n) d = DeleteNode e d n"

definition redeems_token :: "prims \<Rightarrow> node_act \<Rightarrow> unit result \<Rightarrow> string \<Rightarrow> bool" where
  "redeems_token pr a r h = (is_ok r \<and> (case a of NdRedeem e i buf tok p \<Rightarrow> hashToken pr tok = h | _ \<Rightarrow> False))"

definition token_spent :: "string \<Rightarrow> db \<Rightarrow> bool" where
  "token_spent h d = (\<exists>r \<in> set (node_enrollments d). e_TokenHash r = h \<and> e_UsedAt r \<noteq> None)"

definition enrollments_ok :: "db \<Rightarrow> bool" where
  "enrollments_ok d = unique_on e_TokenHash (node_enrollments d)"

text \<open>What an operation does to the table of enrollments: nothing, one new unused row
  with a hash of its own, or changes of rows that keep the hash and never reset the use.\<close>

definition enrollment_change :: "Enrollment list \<Rightarrow> Enrollment list \<Rightarrow> bool" where
  "enrollment_change t t' =
     ((\<exists>r. t' = t @ [r] \<and> (\<forall>x \<in> set t. e_TokenHash x \<noteq> e_TokenHash r))
      \<or> list_all2 (\<lambda>r r'. e_TokenHash r' = e_TokenHash r \<and> (e_UsedAt r \<noteq> None \<longrightarrow> e_UsedAt r' \<noteq> None)) t t')"

lemma enrollment_change_refl: "enrollment_change t t"
  by (simp add: enrollment_change_def list_all2_same)

lemma enrollment_change_update:
  "(\<And>r. e_TokenHash (f r) = e_TokenHash r) \<Longrightarrow> (\<And>r. e_UsedAt r \<noteq> None \<Longrightarrow> e_UsedAt (f r) \<noteq> None) \<Longrightarrow>
   enrollment_change t (update_where p f t)"
  unfolding enrollment_change_def update_where_def
  by (rule disjI2) (auto simp: list_all2_conv_all_nth)

lemma insert_node_frame: "insert_node e l d n = Inr d' \<Longrightarrow> node_enrollments d' = node_enrollments d"
  by (auto simp: insert_node_def split: if_splits)

lemma redeem_tx_Inr:
  assumes "redeem_tx pr e i buf d tok p = Inr (r, d')"
  obtains enr where
    "List.find (\<lambda>x. e_TokenHash x = hashToken pr tok) (node_enrollments d) = Some enr" "e_UsedAt enr = None"
    "now e \<le> e_ExpiresAt enr" "nodes d' = nodes d @ [fst r]" "n_ID (fst r) = i" "n_TokenHash (fst r) = hashToken pr (snd r)"
    "node_enrollments d' = update_where (\<lambda>x. e_ID x = e_ID enr)
       (\<lambda>x. x\<lparr>e_UsedAt := Some (now e), e_NodeID := Some i\<rparr>) (node_enrollments d)"
  using assms
  by (auto simp: redeem_tx_def insert_node_def enrolled_node_def generateNodeToken_def Let_def
      split: if_splits sum.splits option.splits)

lemma Redeem_Inr:
  "Redeem pr e i buf d tok p = (Inr r, d') \<Longrightarrow> redeem_tx pr e i buf d tok p = Inr (r, d')"
  by (auto simp: Redeem_def split: if_splits sum.splits)

lemma Redeem_Inl: "Redeem pr e i buf d tok p = (Inl err, d') \<Longrightarrow> d' = d"
  by (auto simp: Redeem_def split: if_splits sum.splits)

lemma Redeem_change: "enrollment_change (node_enrollments d) (node_enrollments (snd (Redeem pr e i buf d tok p)))"
proof (cases "Redeem pr e i buf d tok p")
  case (Pair r d')
  show ?thesis
  proof (cases r)
    case (Inl err)
    with Pair show ?thesis by (auto dest: Redeem_Inl simp: enrollment_change_refl)
  next
    case (Inr x)
    with Pair have "redeem_tx pr e i buf d tok p = Inr (x, d')" by (simp add: Redeem_Inr)
    then show ?thesis
      using Pair by (elim redeem_tx_Inr) (auto intro!: enrollment_change_update)
  qed
qed

lemma enroll_create_change:
  "enrollment_change (node_enrollments d) (node_enrollments (snd (enroll_create pr e i buf d req)))"
  by (simp add: enroll_create_def Let_def enrollment_change_refl split: prod.splits)
    (auto simp: enrollment_change_def)

lemma other_enrollments:
  "node_enrollments (snd (RegisterNode pr e i buf d req)) = node_enrollments d"
  "node_enrollments (snd (UpdateNodeHeartbeat e d n hb)) = node_enrollments d"
  "node_enrollments (snd (SetNodeStatus e d n s)) = node_enrollments d"
  "node_enrollments (snd (UpdateNode e d n un)) = node_enrollments d"
  by (auto simp: RegisterNode_def UpdateNodeHeartbeat_def SetNodeStatus_def UpdateNode_def Let_def
      dest: insert_node_frame split: sum.splits prod.splits option.splits)

lemma DeleteNode_change: "enrollment_change (node_enrollments d) (node_enrollments (snd (DeleteNode e d n)))"
  by (auto simp: DeleteNode_def delete_node_row_def enrollment_change_refl intro: enrollment_change_update)

lemma node_step_change: "enrollment_change (node_enrollments d) (node_enrollments (snd (node_step pr a d)))"
  by (cases a) (simp_all add: split_beta other_enrollments enrollment_change_refl enroll_create_change
      Redeem_change DeleteNode_change)

lemma enrollment_change_unique:
  "enrollment_change t t' \<Longrightarrow> unique_on e_TokenHash t \<Longrightarrow> unique_on e_TokenHash t'"
proof (unfold enrollment_change_def, elim disjE exE conjE)
  assume "list_all2 (\<lambda>r r'. e_TokenHash r' = e_TokenHash r \<and> (e_UsedAt r \<noteq> None \<longrightarrow> e_UsedAt r' \<noteq> None)) t t'"
  then have "map e_TokenHash t' = map e_TokenHash t" by (induction rule: list_all2_induct) auto
  then show "unique_on e_TokenHash t \<Longrightarrow> unique_on e_TokenHash t'" by (simp add: unique_on_def)
qed (simp add: unique_on_append_row)

lemma enrollment_change_spent:
  assumes "enrollment_change t t'" "r \<in> set t" "e_UsedAt r \<noteq> None"
  shows "\<exists>r' \<in> set t'. e_TokenHash r' = e_TokenHash r \<and> e_UsedAt r' \<noteq> None"
proof -
  from assms(1) consider x where "t' = t @ [x]"
    | "list_all2 (\<lambda>r r'. e_TokenHash r' = e_TokenHash r \<and> (e_UsedAt r \<noteq> None \<longrightarrow> e_UsedAt r' \<noteq> None)) t t'"
    unfolding enrollment_change_def by blast
  then show ?thesis
  proof cases
    case 1
    with assms(2,3) show ?thesis by auto
  next
    case 2
    from assms(2) obtain j where "j < length t" "r = t ! j" by (auto simp: in_set_conv_nth)
    with 2 assms(3) show ?thesis by (intro bexI [of _ "t' ! j"]) (auto simp: list_all2_conv_all_nth)
  qed
qed

lemma redeems_token_E:
  assumes "redeems_token pr a (fst (node_step pr a d)) h"
  obtains e i buf tok p r d' where "a = NdRedeem e i buf tok p" "hashToken pr tok = h"
    "redeem_tx pr e i buf d tok p = Inr (r, d')" "snd (node_step pr a d) = d'"
proof -
  from assms obtain e i buf tok p r where a: "a = NdRedeem e i buf tok p" "hashToken pr tok = h"
    "fst (Redeem pr e i buf d tok p) = Inr r"
    by (cases a) (auto simp: redeems_token_def split_beta is_ok_conv map_sum_eq_Inr)
  then have "redeem_tx pr e i buf d tok p = Inr (r, snd (Redeem pr e i buf d tok p))"
    by (intro Redeem_Inr) (simp add: prod_eq_iff)
  with a that show thesis by (simp add: split_beta)
qed

interpretation enrollment: single_use "node_step pr" enrollments_ok "redeems_token pr" token_spent for pr
proof
  show "enrollments_ok (snd (node_step pr a d))" if "enrollments_ok d" for a d
    using that node_step_change enrollment_change_unique unfolding enrollments_ok_def by blast
  show "\<not> redeems_token pr a (fst (node_step pr a d)) h" if "enrollments_ok d" "token_spent h d" for h d a
  proof
    assume "redeems_token pr a (fst (node_step pr a d)) h"
    then obtain e i buf tok p r d' where
      "redeem_tx pr e i buf d tok p = Inr (r, d')" "hashToken pr tok = h" by (rule redeems_token_E)
    then obtain enr where "List.find (\<lambda>x. e_TokenHash x = h) (node_enrollments d) = Some enr" "e_UsedAt enr = None"
      by (metis redeem_tx_Inr)
    with that unique_on_find show False unfolding enrollments_ok_def token_spent_def by fastforce
  qed
  show "token_spent h (snd (node_step pr a d))"
    if "enrollments_ok d" "redeems_token pr a (fst (node_step pr a d)) h" for h d a
    using that(2)
  proof (rule redeems_token_E)
    fix e i buf tok p r d'
    assume *: "hashToken pr tok = h" "redeem_tx pr e i buf d tok p = Inr (r, d')" "snd (node_step pr a d) = d'"
    from *(2) obtain enr where enr: "List.find (\<lambda>x. e_TokenHash x = h) (node_enrollments d) = Some enr"
      "node_enrollments d' = update_where (\<lambda>x. e_ID x = e_ID enr)
         (\<lambda>x. x\<lparr>e_UsedAt := Some (now e), e_NodeID := Some i\<rparr>) (node_enrollments d)"
      by (rule redeem_tx_Inr) (simp add: *(1))
    then have "enr\<lparr>e_UsedAt := Some (now e), e_NodeID := Some i\<rparr> \<in> set (node_enrollments d')"
      by (auto dest: find_SomeD intro: update_where_in)
    with enr(1) show "token_spent h (snd (node_step pr a d))"
      unfolding token_spent_def *(3) by (rule_tac rev_bexI) (auto dest: find_SomeD)
  qed
  show "token_spent h (snd (node_step pr a d))" if "enrollments_ok d" "token_spent h d" for h d a
    using that(2) enrollment_change_spent [OF node_step_change] unfolding token_spent_def by metis
qed

text \<open>[C20] In every sequence of node operations an enrollment token is redeemed at most once;
  a redemption needs an enrollment with the hash of the token that was neither used
  before nor expired, and adds exactly one node, whose own token is the one answered.\<close>

theorem enrollment_redeemed_at_most_once:
  assumes "enrollments_ok d"
  shows "length (filter (\<lambda>(a, r). redeems_token pr a r h) (trace_of (node_step pr) acts d)) \<le> 1
    \<and> (\<forall>e i buf tok p n plain d'. Redeem pr e i buf d tok p = (Inr (n, plain), d') \<longrightarrow>
        (\<exists>enr \<in> set (node_enrollments d). e_TokenHash enr = hashToken pr tok \<and> e_UsedAt enr = None
          \<and> now e \<le> e_ExpiresAt enr) \<and> nodes d' = nodes d @ [n] \<and> n_TokenHash n = hashToken pr plain)"
proof (intro conjI allI impI)
  show "length (filter (\<lambda>(a, r). redeems_token pr a r h) (trace_of (node_step pr) acts d)) \<le> 1"
    using assms by (rule enrollment.at_most_once)
  fix e i buf tok p n plain d'
  assume "Redeem pr e i buf d tok p = (Inr (n, plain), d')"
  then have t: "redeem_tx pr e i buf d tok p = Inr ((n, plain), d')" by (rule Redeem_Inr)
  from t show "\<exists>enr \<in> set (node_enrollments d). e_TokenHash enr = hashToken pr tok \<and> e_UsedAt enr = None
      \<and> now e \<le> e_ExpiresAt enr" by (rule redeem_tx_Inr) (auto dest: find_SomeD)
  from t show "nodes d' = nodes d @ [n]" by (rule redeem_tx_Inr) simp
  from t show "n_TokenHash n = hashToken pr plain" by (rule redeem_tx_Inr) simp
qed

section \<open>The command queue\<close>

text \<open>The clock of the database never runs back: an operation happens \<open>delay\<close> nanoseconds
  after the one before.  The state is the database with the time of the last operation.\<close>

datatype cmd_op =
    CmConsole uuid uuid string
  | CmKick "uuid \<Rightarrow> string" uuid uuid uuid uuid string string
  | CmAck uuid uuid CommandAckRequest
  | CmPoll uuid

record cmd_act =
  cm_delay :: nat
  cm_fault :: "string \<Rightarrow> bool"
  cm_op :: cmd_op

definition cm_env :: "cmd_act \<Rightarrow> time \<Rightarrow> env" where
  "cm_env a t = \<lparr>now = t + int (cm_delay a), fault = cm_fault a\<rparr>"

fun op_step :: "env \<Rightarrow> cmd_op \<Rightarrow> db \<Rightarrow> unit result \<times> db" where
  "op_step e (CmConsole c sid cmd) d = SendConsoleCommand e c d sid cmd"
| "op_step e (CmKick str c l sid pid reason actor) d = KickPlayer str e c l d sid pid reason actor"
| "op_step e (CmAck n c req) d = AckCommand e d n c req"
| "op_step e (CmPoll n) d = (map_sum id (\<lambda>_. ()) (GetPendingCommands e d n), d)"

definition cmd_step :: "cmd_act \<Rightarrow> db \<times> time \<Rightarrow> unit result \<times> db \<times> time" where
  "cmd_step a s = (let (r, d') = op_step (cm_env a (snd s)) (cm_op a) (fst s) in (r, d', now (cm_env a (snd s))))"

text \<open>The queue a node fetches, and the commands an operation appends to it.\<close>

definition pending_for :: "uuid \<Rightarrow> NodeCommand \<Rightarrow> bool" where
  "pending_for n c = (c_NodeID c = n \<and> c_Status c = ''pending'')"

definition cmd_queue :: "uuid \<Rightarrow> db \<times> time \<Rightarrow> uuid list" where
  "cmd_queue n s = map c_ID (sort_key c_CreatedAt (filter (pending_for n) (node_commands (fst s))))"

definition cmd_known :: "uuid \<Rightarrow> db \<times> time \<Rightarrow> bool" where
  "cmd_known i s = (\<exists>c \<in> set (node_commands (fst s)). c_ID c = i)"

definition cmd_adds :: "uuid \<Rightarrow> cmd_act \<Rightarrow> db \<times> time \<Rightarrow> uuid list" where
  "cmd_adds n a s = (if \<not> is_ok (fst (cmd_step a s)) then []
     else case cm_op a of
       CmConsole c sid cmd \<Rightarrow> (if map_option sv_NodeID (find_server (fst s) sid) = Some n then [c] else [])
     | CmKick str c l sid pid reason actor \<Rightarrow>
         (if map_option sv_NodeID (find_server (fst s) sid) = Some n then [c] else [])
     | _ \<Rightarrow> [])"

definition cmd_takes :: "uuid \<Rightarrow> cmd_act \<Rightarrow> unit result \<Rightarrow> uuid \<Rightarrow> bool" where
  "cmd_takes n a r i = (is_ok r \<and> (case cm_op a of CmAck m c req \<Rightarrow> m = n \<and> c = i | _ \<Rightarrow> False))"

definition cmd_inv :: "db \<times> time \<Rightarrow> bool" where
  "cmd_inv s = (unique_on c_ID (node_commands (fst s)) \<and> sorted (map c_CreatedAt (node_commands (fst s)))
     \<and> (\<forall>c \<in> set (node_commands (fst s)). c_CreatedAt c \<le> snd s))"

lemma cmd_queue_order: "cmd_inv s \<Longrightarrow> cmd_queue n s = map c_ID (filter (pending_for n) (node_commands (fst s)))"
  by (simp add: cmd_queue_def cmd_inv_def sort_key_id_if_sorted sorted_filter)

lemma insert_command_Inr:
  "insert_command e l i d n sid ct pay = Inr d' \<longleftrightarrow> \<not> fault e l \<and> (\<forall>c \<in> set (node_commands d). c_ID c \<noteq> i)
    \<and> (\<exists>x \<in> set (nodes d). n_ID x = n) \<and> find_server d sid \<noteq> None
    \<and> d' = d\<lparr>node_commands := node_commands d @ [new_command e i n sid ct pay]\<rparr>"
  by (auto simp: insert_command_def)

text \<open>What one operation does to the table of commands.\<close>

datatype cmd_change = Same | Appended NodeCommand | Acked uuid uuid CommandAckRequest

fun apply_change :: "env \<Rightarrow> cmd_change \<Rightarrow> NodeCommand list \<Rightarrow> NodeCommand list" where
  "apply_change e Same t = t"
| "apply_change e (Appended c) t = t @ [c]"
| "apply_change e (Acked n i req) t = update_where (\<lambda>c. c_ID c = i \<and> c_NodeID c = n \<and> c_Status c = ''pending'')
     (\<lambda>c. c\<lparr>c_Status := (if ack_Success req then ''acked'' else ''failed''), c_Result := Some (marshal_ack req),
        c_AckedAt := Some (now e)\<rparr>) t"

definition change_of :: "env \<Rightarrow> cmd_op \<Rightarrow> unit result \<Rightarrow> db \<Rightarrow> cmd_change \<Rightarrow> bool" where
  "change_of e x r d ch =
     (case ch of
        Same \<Rightarrow> (\<not> is_ok r \<or> (\<exists>n. x = CmPoll n))
      | Appended c \<Rightarrow> is_ok r \<and> (\<forall>y \<in> set (node_commands d). c_ID y \<noteq> c_ID c) \<and> c_CreatedAt c = now e
          \<and> c_Status c = ''pending''
          \<and> (\<exists>sid. ((\<exists>cmd. x = CmConsole (c_ID c) sid cmd)
               \<or> (\<exists>str l pid reason actor. x = CmKick str (c_ID c) l sid pid reason actor))
             \<and> map_option sv_NodeID (find_server d sid) = Some (c_NodeID c))
      | Acked n i req \<Rightarrow> is_ok r \<and> x = CmAck n i req
          \<and> (\<exists>c \<in> set (node_commands d). c_ID c = i \<and> pending_for n c))"

lemma SendConsoleCommand_change:
  assumes "SendConsoleCommand e c d sid cmd = (r, d')"
  shows "\<exists>ch. change_of e (CmConsole c sid cmd) r d ch \<and> node_commands d' = apply_change e ch (node_commands d)"
proof (cases "is_ok r")
  case False
  with assms have "d' = d" by (auto simp: SendConsoleCommand_def split: if_splits sum.splits option.splits)
  with False show ?thesis by (intro exI [of _ Same]) (simp add: change_of_def)
next
  case True
  with assms obtain sv where sv: "find_server d sid = Some sv"
    "insert_command e ''SendConsoleCommand'' c d (sv_NodeID sv) sid ''send_command'' (cmd_payload cmd) = Inr d'"
    by (auto simp: SendConsoleCommand_def split: if_splits sum.splits option.splits)
  with True show ?thesis
    by (intro exI [of _ "Appended (new_command e c (sv_NodeID sv) sid ''send_command'' (cmd_payload cmd))"])
      (auto simp: change_of_def insert_command_Inr new_command_def)
qed

lemma playerTarget_Inr:
  "playerTarget e d sid pid = Inr (u, n) \<Longrightarrow> map_option sv_NodeID (find_server d sid) = Some n \<and> isSafePlayerName u"
  by (auto simp: playerTarget_def split: sum.splits option.splits if_splits)

lemma KickPlayer_change:
  assumes "KickPlayer str e c l d sid pid reason actor = (r, d')"
  shows "\<exists>ch. change_of e (CmKick str c l sid pid reason actor) r d ch \<and> node_commands d' = apply_change e ch (node_commands d)"
proof (cases "is_ok r")
  case False
  with assms have "d' = d" by (auto simp: KickPlayer_def split: if_splits sum.splits option.splits)
  with False show ?thesis by (intro exI [of _ Same]) (simp add: change_of_def)
next
  case True
  with assms obtain u n d1 where t: "playerTarget e d sid pid = Inr (u, n)"
    "insert_command e ''KickPlayer'' c d n sid ''send_command'' (cmd_payload (''kick '' @ u)) = Inr d1"
    "node_commands d' = node_commands d1"
    by (auto simp: KickPlayer_def insert_activity_def split: if_splits sum.splits)
  with True playerTarget_Inr [OF t(1)] show ?thesis
    by (intro exI [of _ "Appended (new_command e c n sid ''send_command'' (cmd_payload (''kick '' @ u)))"])
      (auto simp: change_of_def insert_command_Inr new_command_def)
qed

lemma AckCommand_change:
  assumes "AckCommand e d n c req = (r, d')"
  shows "\<exists>ch. change_of e (CmAck n c req) r d ch \<and> node_commands d' = apply_change e ch (node_commands d)"
proof (cases "is_ok r")
  case False
  with assms have "d' = d" by (auto simp: AckCommand_def Let_def split: if_splits)
  with False show ?thesis by (intro exI [of _ Same]) (simp add: change_of_def)
next
  case True
  with assms show ?thesis
    by (intro exI [of _ "Acked n c req"]) (auto simp: AckCommand_def Let_def change_of_def pending_for_def split: if_splits)
qed

lemma op_step_change:
  "\<exists>ch. change_of e x (fst (op_step e x d)) d ch
     \<and> node_commands (snd (op_step e x d)) = apply_change e ch (node_commands d)"
proof (cases x)
  case (CmConsole c sid cmd)
  then show ?thesis using SendConsoleCommand_change [of e c d sid cmd] by (simp add: prod_eq_iff)
next
  case (CmKick str c l sid pid reason actor)
  then show ?thesis using KickPlayer_change [of str e c l d sid pid reason actor] by (simp add: prod_eq_iff)
next
  case (CmAck n c req)
  then show ?thesis using AckCommand_change [of e d n c req] by (simp add: prod_eq_iff)
next
  case (CmPoll n)
  then show ?thesis by (intro exI [of _ Same]) (simp add: change_of_def)
qed

lemma cmd_step_change:
  obtains ch where "change_of (cm_env a (snd s)) (cm_op a) (fst (cmd_step a s)) (fst s) ch"
    "node_commands (fst (snd (cmd_step a s))) = apply_change (cm_env a (snd s)) ch (node_commands (fst s))"
  using op_step_change [of "cm_env a (snd s)" "cm_op a" "fst s"] by (auto simp: cmd_step_def split_beta Let_def)

lemma cmd_step_time: "snd (snd (cmd_step a s)) = snd s + int (cm_delay a)"
  by (simp add: cmd_step_def split_beta Let_def cm_env_def)

lemma apply_change_ids: "map c_ID (apply_change e (Acked n i req) t) = map c_ID t"
  "map c_CreatedAt (apply_change e (Acked n i req) t) = map c_CreatedAt t"
  by (simp_all add: update_where_def)

lemma apply_change_known: "c_ID ` set t \<subseteq> c_ID ` set (apply_change e ch t)"
proof (cases ch)
  case (Acked n i req)
  then show ?thesis using arg_cong [OF apply_change_ids(1) [of e n i req t], of set] by simp
qed auto

lemma cmd_inv_step:
  assumes "cmd_inv s"
  shows "cmd_inv (snd (cmd_step a s))"
proof (rule cmd_step_change [of a s])
  fix ch
  let ?t = "node_commands (fst s)" and ?e = "cm_env a (snd s)"
  assume ch: "change_of ?e (cm_op a) (fst (cmd_step a s)) (fst s) ch"
    "node_commands (fst (snd (cmd_step a s))) = apply_change ?e ch ?t"
  from assms have i: "unique_on c_ID ?t" "sorted (map c_CreatedAt ?t)" "\<forall>c \<in> set ?t. c_CreatedAt c \<le> snd s"
    by (auto simp: cmd_inv_def)
  have late: "c_CreatedAt c \<le> snd s + int (cm_delay a)" if "c \<in> set ?t" for c using i(3) that by force
  show ?thesis
  proof (cases ch)
    case Same
    with i late ch(2) show ?thesis by (simp add: cmd_inv_def cmd_step_time)
  next
    case (Appended c)
    with ch(1) have "\<forall>y \<in> set ?t. c_ID y \<noteq> c_ID c" "c_CreatedAt c = snd s + int (cm_delay a)"
      by (simp_all add: change_of_def cm_env_def)
    with Appended i late ch(2) show ?thesis
      by (simp add: cmd_inv_def cmd_step_time unique_on_append_row sorted_append)
  next
    case (Acked n j req)
    have "c_CreatedAt c \<le> snd s + int (cm_delay a)" if "c \<in> set (apply_change ?e (Acked n j req) ?t)" for c
      using that late by (auto simp: set_update_where)
    with Acked i ch(2) apply_change_ids [of ?e n j req ?t] show ?thesis
      by (simp only: cmd_inv_def cmd_step_time unique_on_def) blast
  qed
qed

lemma filter_pending_acked:
  "unique_on c_ID t \<Longrightarrow> map c_ID (filter (pending_for n) (apply_change e (Acked m i req) t)) =
    filter (\<lambda>j. \<not> (m = n \<and> j = i)) (map c_ID (filter (pending_for n) t))"
  by (induction t) (auto simp: update_where_def pending_for_def unique_on_def)

lemma cmd_queue_step:
  assumes "cmd_inv s"
  shows "cmd_queue n (snd (cmd_step a s)) =
    filter (\<lambda>i. \<not> cmd_takes n a (fst (cmd_step a s)) i) (cmd_queue n s @ cmd_adds n a s)"
proof (rule cmd_step_change [of a s])
  fix ch
  let ?t = "node_commands (fst s)" and ?e = "cm_env a (snd s)" and ?r = "fst (cmd_step a s)"
  assume ch: "change_of ?e (cm_op a) ?r (fst s) ch"
    "node_commands (fst (snd (cmd_step a s))) = apply_change ?e ch ?t"
  note q = cmd_queue_order [OF cmd_inv_step [OF assms], of n a] cmd_queue_order [OF assms, of n]
  show ?thesis
  proof (cases ch)
    case Same
    with ch(1) have "\<not> cmd_takes n a ?r i" "cmd_adds n a s = []" for i
      by (auto simp: change_of_def cmd_takes_def cmd_adds_def)
    with Same ch(2) show ?thesis by (simp add: q)
  next
    case (Appended c)
    with ch(1) have c: "is_ok ?r" "c_Status c = ''pending''"
      "cmd_adds n a s = (if c_NodeID c = n then [c_ID c] else [])" "\<not> cmd_takes n a ?r i" for i
      by (auto simp: change_of_def cmd_takes_def cmd_adds_def)
    with Appended ch(2) show ?thesis by (simp add: q pending_for_def)
  next
    case (Acked m j req)
    with ch(1) have "cmd_takes n a ?r i \<longleftrightarrow> m = n \<and> j = i" "cmd_adds n a s = []" for i
      by (auto simp: change_of_def cmd_takes_def cmd_adds_def)
    moreover have "unique_on c_ID ?t" using assms by (simp add: cmd_inv_def)
    ultimately show ?thesis
      using Acked ch(2) filter_pending_acked [of ?t n ?e m j req] by (auto simp: q intro!: filter_cong)
  qed
qed

interpretation commands: task_queue cmd_step cmd_inv "cmd_queue n" cmd_known "cmd_adds n" "cmd_takes n" for n
proof
  fix s a i
  assume inv: "cmd_inv s"
  show "cmd_inv (snd (cmd_step a s))" using inv by (rule cmd_inv_step)
  show "cmd_queue n (snd (cmd_step a s)) =
      filter (\<lambda>i. \<not> cmd_takes n a (fst (cmd_step a s)) i) (cmd_queue n s @ cmd_adds n a s)"
    using inv by (rule cmd_queue_step)
  show "cmd_known i s" if "i \<in> set (cmd_queue n s)"
    using that by (auto simp: cmd_queue_def cmd_known_def)
  obtain ch where ch: "change_of (cm_env a (snd s)) (cm_op a) (fst (cmd_step a s)) (fst s) ch"
    "node_commands (fst (snd (cmd_step a s))) = apply_change (cm_env a (snd s)) ch (node_commands (fst s))"
    by (rule cmd_step_change)
  show "\<not> cmd_known i s \<and> \<not> cmd_takes n a (fst (cmd_step a s)) i" if "i \<in> set (cmd_adds n a s)"
    using that ch(1)
    by (cases ch) (auto simp: change_of_def cmd_known_def cmd_takes_def cmd_adds_def split: if_splits cmd_op.splits)
  show "cmd_known i (snd (cmd_step a s))" if "cmd_known i s"
  proof -
    have "c_ID ` set (node_commands (fst s)) \<subseteq> c_ID ` set (node_commands (fst (snd (cmd_step a s))))"
      unfolding ch(2) by (rule apply_change_known)
    with that show ?thesis unfolding cmd_known_def by (metis image_iff subsetD)
  qed
  show "i \<in> set (cmd_queue n s)" if "cmd_takes n a (fst (cmd_step a s)) i"
    using that ch(1)
    by (cases ch) (auto simp: change_of_def cmd_takes_def cmd_queue_def split: cmd_op.splits)
qed


definition ex_ack :: CommandAckRequest where
  "ex_ack = \<lparr>ack_Success = True, ack_Output = '''', ack_Error = ''''\<rparr>"

abbreviation ex_cmds :: "cmd_act list" where
  "ex_cmds \<equiv> map (\<lambda>x. \<lparr>cm_delay = 1, cm_fault = (\<lambda>_. False), cm_op = x\<rparr>)
     [CmConsole 50 20 ''help'', CmConsole 51 20 ''say hi'', CmAck 10 50 ex_ack, CmAck 10 50 ex_ack]"


definition ex_enroll :: CreateEnrollmentRequest where
  "ex_enroll = \<lparr>ce_NodeName = ''edge'', ce_TotalCPU = 4, ce_TotalRAMMB = 0, ce_TotalDiskMB = 0, ce_MaxServers = 0,
     ce_CreatedBy = 0, ce_TTL = 0\<rparr>"

definition ex_payload :: RedeemPayload where
  "ex_payload = \<lparr>rp_FQDN = ''edge.example.org'', rp_Port = 8444, rp_PublicAddress = ''''\<rparr>"

abbreviation ex_redeems :: "node_act list" where
  "ex_redeems \<equiv> [NdEnroll (quiet 0) 60 ''ab'' ex_enroll, NdRedeem (quiet 1) 61 ''cd'' (hex_encode ''ab'') ex_payload,
     NdRedeem (quiet 2) 62 ''ef'' (hex_encode ''ab'') ex_payload]"

theorem enrollment_redeemed_at_most_once_witness:
  "length (filter (\<lambda>(a, r). redeems_token plain_prims a r (hashToken plain_prims (hex_encode ''ab'')))
     (trace_of (node_step plain_prims) ex_redeems empty_db)) \<le> 1"
proof -
  have "enrollments_ok empty_db" by (simp add: enrollments_ok_def unique_on_def empty_db_def)
  from enrollment_redeemed_at_most_once [OF this] show ?thesis by blast
qed

end
