(* ===== verification/AlertRules.thy ===== *)
theory AlertRules
  imports NodeRules
begin

text \<open>
  What the alert service fires: an event and its notifications only for rules that
  apply to the subject, whose threshold is reached and that have no recent open event;
  and which alerts the panel never raises.
\<close>

section \<open>Fired events\<close>

definition rule_threshold :: "AlertRule \<Rightarrow> string \<Rightarrow> rat" where
  "rule_threshold r ty = (case r_Threshold r of None \<Rightarrow> defaultThreshold ty | Some t \<Rightarrow> t)"

text \<open>A rule that may fire for a value, and a delivery that belongs to it.\<close>

definition may_fire :: "env \<Rightarrow> db \<Rightarrow> string \<Rightarrow> rat \<Rightarrow> AlertRule \<Rightarrow> bool" where
  "may_fire e d ty val r = (rule_threshold r ty \<le> val \<and> \<not> recent_event e d (r_ID r))"

definition delivered_for :: "db \<Rightarrow> AlertRule \<Rightarrow> uuid \<Rightarrow> delivery \<Rightarrow> bool" where
  "delivered_for d r subject x =
     (case x of
        Mail p addr \<Rightarrow> nt_SubjectID p = subject \<and> ''email'' \<in> set (r_Channels r)
          \<and> (\<exists>u \<in> set (users d). u_ID u = r_UserID r \<and> u_Email u = addr)
      | WebhookPost p url \<Rightarrow> nt_SubjectID p = subject \<and> ''webhook'' \<in> set (r_Channels r) \<and> url = r_WebhookURL r
      | DiscordPost p url \<Rightarrow> nt_SubjectID p = subject \<and> ''discord'' \<in> set (r_Channels r) \<and> url = r_WebhookURL r)"

lemma recent_event_append:
  "recent_event e d i \<Longrightarrow> recent_event e (d\<lparr>alert_events := alert_events d @ vs\<rparr>) i"
  by (auto simp: recent_event_def)

lemma Dispatch_delivered:
  assumes "x \<in> set (Dispatch m p (r_Channels r) addr (r_WebhookURL r))" "nt_SubjectID p = subject"
    "addr \<noteq> '''' \<Longrightarrow> \<exists>u \<in> set (users d). u_ID u = r_UserID r \<and> u_Email u = addr"
  shows "delivered_for d r subject x"
  using assms by (auto simp: Dispatch_def delivered_for_def split: if_splits)

lemma fire_rules_sound:
  assumes "fire_rules nf e ids ty subject val k rs d = (d', out)"
  shows "\<exists>vs. d' = d\<lparr>alert_events := alert_events d @ vs\<rparr>
    \<and> (\<forall>v \<in> set vs. \<exists>r \<in> set rs. \<exists>j. v = alert_event e (ids j) (r_ID r) ty subject \<and> may_fire e d ty val r
         \<and> \<not> event_violates d v)
    \<and> (\<forall>x \<in> set out. \<exists>r \<in> set rs. may_fire e d ty val r \<and> delivered_for d r subject x)
    \<and> distinct (map ae_RuleID vs)"
  using assms
proof (induction rs arbitrary: k d d' out)
  case Nil
  then show ?case by (intro exI [of _ "[]"]) simp
next
  case (Cons rule rs)
  let ?v = "alert_event e (ids k) (r_ID rule) ty subject"
  let ?d = "d\<lparr>alert_events := alert_events d @ [?v]\<rparr>"
  show ?case
  proof (cases "val < rule_threshold rule ty \<or> fault e (''alert.dedup'' @ dec_nat k) \<or> recent_event e d (r_ID rule)
            \<or> fault e (''alert.insert'' @ dec_nat k) \<or> event_violates d ?v")
    case True
    with Cons.prems have "fire_rules nf e ids ty subject val (Suc k) rs d = (d', out)"
      by (simp add: Let_def rule_threshold_def cong: if_cong)
    from Cons.IH [OF this] show ?thesis by (metis list.set_intros(2))
  next
    case False
    let ?addr = "case find_user d (r_UserID rule) of None \<Rightarrow> '''' | Some u \<Rightarrow>
        if fault e (''alert.email'' @ dec_nat k) then '''' else u_Email u"
    let ?p = "\<lparr>nt_RuleType = ty, nt_Severity = ae_Severity ?v, nt_Message = ae_Title ?v, nt_FiredAt = now e,
        nt_SubjectID = subject\<rparr>"
    obtain out' where
      rec: "fire_rules nf e ids ty subject val (Suc k) rs ?d = (d', out')"
      and out: "out = (case nf of None \<Rightarrow> [] | Some m \<Rightarrow> Dispatch m ?p (r_Channels rule) ?addr (r_WebhookURL rule)) @ out'"
      using Cons.prems False by (auto simp: Let_def rule_threshold_def split: prod.splits)
    have own: "may_fire e d ty val rule" "\<not> event_violates d ?v"
      using False by (auto simp: may_fire_def)
    have mono: "may_fire e ?d ty val r \<Longrightarrow> may_fire e d ty val r" for r
      using recent_event_append by (auto simp: may_fire_def)
    have other: "may_fire e ?d ty val r \<Longrightarrow> r_ID r \<noteq> r_ID rule" for r
      by (auto simp: may_fire_def recent_event_def alert_event_def Let_def duration_defs)
    have fresh: "\<not> event_violates ?d v \<Longrightarrow> \<not> event_violates d v" for v
      by (auto simp: event_violates_def find_server_def find_node_def split: option.splits)
    from Cons.IH [OF rec] obtain vs where vs: "d' = ?d\<lparr>alert_events := alert_events ?d @ vs\<rparr>"
      "\<forall>v \<in> set vs. \<exists>r \<in> set rs. \<exists>j. v = alert_event e (ids j) (r_ID r) ty subject \<and> may_fire e ?d ty val r
         \<and> \<not> event_violates ?d v"
      "\<forall>x \<in> set out'. \<exists>r \<in> set rs. may_fire e ?d ty val r \<and> delivered_for ?d r subject x"
      "distinct (map ae_RuleID vs)" by blast
    have del: "delivered_for d rule subject x"
      if "x \<in> set (Dispatch m ?p (r_Channels rule) ?addr (r_WebhookURL rule))" for x m
      using that by (rule Dispatch_delivered)
        (auto simp: find_user_def split: option.splits if_splits dest: find_SomeD)
    have same: "delivered_for ?d r subject x = delivered_for d r subject x" for r x
      by (simp add: delivered_for_def split: delivery.splits)
    show ?thesis
    proof (intro exI [of _ "?v # vs"] conjI ballI)
      show "d' = d\<lparr>alert_events := alert_events d @ (?v # vs)\<rparr>" using vs(1) by simp
      show "distinct (map ae_RuleID (?v # vs))"
        using vs(2,4) other by (fastforce simp: alert_event_def Let_def)
      show "\<exists>r \<in> set (rule # rs). \<exists>j. v = alert_event e (ids j) (r_ID r) ty subject \<and> may_fire e d ty val r
          \<and> \<not> event_violates d v" if "v \<in> set (?v # vs)" for v
        using that own vs(2) mono fresh by (auto; blast)
      show "\<exists>r \<in> set (rule # rs). may_fire e d ty val r \<and> delivered_for d r subject x" if "x \<in> set out" for x
        using that own(1) del vs(3) mono same by (auto simp: out split: option.splits)
    qed
  qed
qed

text \<open>An evaluation only appends events, at most one per rule.  Each belongs to an enabled
  rule of the given type whose owner is staff or has access to the server it watches,
  whose threshold is reached and which had no unresolved event in the last fifteen
  minutes; and each notification goes to the e-mail address of the owner of such a rule
  or to the webhook stored with it.\<close>

theorem alert_fired_for_rule:
  assumes "EvaluateAndFire nf e ids d ty subject val = ((res, out), d')"
  shows "\<exists>vs. d' = d\<lparr>alert_events := alert_events d @ vs\<rparr> \<and> distinct (map ae_RuleID vs)
    \<and> (\<forall>v \<in> set vs. \<exists>r \<in> set (alert_rules d). ae_RuleID v = Some (r_ID r) \<and> rule_applies d ty subject r
         \<and> rule_threshold r ty \<le> val \<and> \<not> recent_event e d (r_ID r))
    \<and> (\<forall>x \<in> set out. \<exists>r \<in> set (alert_rules d). rule_applies d ty subject r \<and> rule_threshold r ty \<le> val
         \<and> \<not> recent_event e d (r_ID r) \<and> delivered_for d r subject x)"
proof (cases "fault e ''EvaluateAndFire''")
  case True
  with assms show ?thesis by (intro exI [of _ "[]"]) (auto simp: EvaluateAndFire_def)
next
  case False
  with assms have f: "fire_rules nf e ids ty subject val 0 (filter (rule_applies d ty subject) (alert_rules d)) d = (d', out)"
    by (auto simp: EvaluateAndFire_def split: prod.splits)
  from fire_rules_sound [OF f] obtain vs where vs: "d' = d\<lparr>alert_events := alert_events d @ vs\<rparr>"
    "\<forall>v \<in> set vs. \<exists>r \<in> set (filter (rule_applies d ty subject) (alert_rules d)). \<exists>j.
       v = alert_event e (ids j) (r_ID r) ty subject \<and> may_fire e d ty val r \<and> \<not> event_violates d v"
    "\<forall>x \<in> set out. \<exists>r \<in> set (filter (rule_applies d ty subject) (alert_rules d)).
       may_fire e d ty val r \<and> delivered_for d r subject x"
    "distinct (map ae_RuleID vs)" by blast
  have "\<exists>r \<in> set (alert_rules d). ae_RuleID v = Some (r_ID r) \<and> rule_applies d ty subject r
      \<and> rule_threshold r ty \<le> val \<and> \<not> recent_event e d (r_ID r)" if "v \<in> set vs" for v
    using vs(2) that by (fastforce simp: may_fire_def alert_event_def Let_def)
  moreover have "\<exists>r \<in> set (alert_rules d). rule_applies d ty subject r \<and> rule_threshold r ty \<le> val
      \<and> \<not> recent_event e d (r_ID r) \<and> delivered_for d r subject x" if "x \<in> set out" for x
    using vs(3) that by (fastforce simp: may_fire_def)
  ultimately show ?thesis using vs(1,4) by blast
qed

section \<open>Metric alerts\<close>

lemma metric_event_violates:
  "ty \<in> {''cpu_high'', ''ram_high'', ''disk_high''} \<Longrightarrow> find_server d n = None \<Longrightarrow>
   event_violates d (alert_event e i r ty n)"
  by (auto simp: event_violates_def alert_event_def Let_def)

lemma metric_fire_rules:
  "ty \<in> {''cpu_high'', ''ram_high'', ''disk_high''} \<Longrightarrow> find_server d n = None \<Longrightarrow>
   fire_rules nf e ids ty n val k rs d = (d, [])"
  by (induction rs arbitrary: k) (simp_all add: Let_def metric_event_violates)

lemma metric_no_event:
  "ty \<in> {''cpu_high'', ''ram_high'', ''disk_high''} \<Longrightarrow> find_server d n = None \<Longrightarrow>
   snd (fst (EvaluateAndFire nf e ids d ty n val)) = [] \<and> snd (EvaluateAndFire nf e ids d ty n val) = d"
  by (simp add: EvaluateAndFire_def metric_fire_rules)

lemma heartbeat_db:
  assumes "h_NodeHeartbeat tls str nf alerts e ids st param authed hdr body = (resp, st')"
  shows "nd_db st' = nd_db st \<or> (\<exists>n req.
    let d1 = snd (UpdateNodeHeartbeat e (nd_db st) n req); d2 = snd (RecordHeartbeatMetrics e d1 n req)
    in nd_db st' = d1 \<or> nd_db st' = d2
      \<or> (\<exists>node. GetNode e d2 n = Inr node \<and> nd_db st' = heartbeat_alerts nf e ids d2 n node req))"
proof (cases "param = None \<or> authed \<noteq> param \<or> \<not> is_ok body")
  case True
  with assms show ?thesis by (auto simp: h_NodeHeartbeat_def is_ok_conv split: option.splits if_splits sum.splits)
next
  case False
  then obtain n req where n: "param = Some n" "authed = Some n" "body = Inr req" by (auto simp: is_ok_conv)
  obtain r d1 where u: "UpdateNodeHeartbeat e (nd_db st) n req = (r, d1)" by fastforce
  show ?thesis
  proof (cases r)
    case (Inl err)
    with assms n u have "nd_db st' = d1" by (auto simp: h_NodeHeartbeat_def)
    then show ?thesis by (intro disjI2 exI [of _ n] exI [of _ req]) (simp add: u Let_def)
  next
    case (Inr x)
    let ?d = "snd (RecordHeartbeatMetrics e d1 n req)"
    have "nd_db st' = ?d \<or> (\<exists>node. GetNode e ?d n = Inr node \<and> nd_db st' = heartbeat_alerts nf e ids ?d n node req)"
      using assms n u Inr by (cases "GetNode e ?d n") (auto simp: h_NodeHeartbeat_def Let_def split: if_splits)
    then show ?thesis by (intro disjI2 exI [of _ n] exI [of _ req]) (simp add: u Let_def)
  qed
qed


definition ex_rule :: "uuid \<Rightarrow> string \<Rightarrow> uuid option \<Rightarrow> AlertRule" where
  "ex_rule i ty srv = \<lparr>r_ID = i, r_ServerID = srv, r_UserID = 1, r_Type = ty, r_Threshold = None,
     r_Channels = [''email''], r_Enabled = True, r_CreatedAt = 0, r_WebhookURL = ''''\<rparr>"

definition ex_alerts :: db where
  "ex_alerts = ex_fleet\<lparr>users := [ex_owner\<lparr>u_Role := RoleOwner\<rparr>],
     alert_rules := [ex_rule 70 ''server_crashed'' (Some 20), ex_rule 71 ''cpu_high'' None, ex_rule 72 ''node_offline'' None]\<rparr>"

abbreviation ex_mailer :: "MultiNotifier option" where
  "ex_mailer \<equiv> Some \<lparr>mn_smtp = True, mn_webhook = True, mn_discord = True\<rparr>"

theorem alert_fired_for_rule_witness:
  "\<exists>out d'. EvaluateAndFire ex_mailer (quiet (20 * minute)) (\<lambda>k. 80 + k) ex_alerts ''server_crashed'' 20 0 = ((Inr (), out), d')
    \<and> out \<noteq> [] \<and> (\<forall>x \<in> set out. \<exists>r \<in> set (alert_rules ex_alerts). delivered_for ex_alerts r 20 x)"
proof -
  let ?f = "EvaluateAndFire ex_mailer (quiet (20 * minute)) (\<lambda>k. 80 + k) ex_alerts ''server_crashed'' 20 0"
  have "is_ok (fst (fst ?f)) \<and> length (snd (fst ?f)) = 1" by code_simp
  then obtain out d' where f: "?f = ((Inr (), out), d')" "out \<noteq> []"
    by (cases ?f) (force simp: is_ok_conv)
  from alert_fired_for_rule [OF f(1)] f show ?thesis by blast
qed

definition ex_heartbeat :: NodeHeartbeatRequest where
  "ex_heartbeat = \<lparr>hb_Status = '''', hb_CPUPercent = 99, hb_RAMUsedMB = 32000, hb_DiskUsedMB = 499999, hb_MTLSReady = False,
     hb_CertSerial = '''', hb_CertNotAfter = None\<rparr>"


text \<open>The check for a recent event looks at the rule alone: while the event of one offline
  node is open, a second node that goes offline raises nothing.\<close>

lemma second_offline_node_masked:
  "(let (r1, d1) = EvaluateAndFire ex_mailer (quiet (20 * minute)) (\<lambda>k. 80 + k) ex_alerts ''node_offline'' 10 0;
        (r2, d2) = EvaluateAndFire ex_mailer (quiet (21 * minute)) (\<lambda>k. 90 + k) d1 ''node_offline'' 11 0
    in map ae_NodeID (alert_events d2) = [Some 10] \<and> length (snd r1) = 1 \<and> snd r2 = [])"
  by code_simp

end
