(* ===== verification/Json.thy ===== *)
theory Json
  imports Crypto "HOL-Library.List_Lexorder" "HOL-Library.Char_ord"
begin

text \<open>
  \<^verbatim>\<open>encoding/json\<close> as far as the sources use it: the compact text \<^verbatim>\<open>json.Marshal\<close>
  writes, the reader behind \<^verbatim>\<open>json.Unmarshal\<close>, and the two on \<^verbatim>\<open>map[string]string\<close>.
  Bytes above 127 are copied, as Go does for valid UTF-8 (which also writes U+2028 and
  U+2029 as escapes); the depth limit of 10000 of the reader is not modelled.
\<close>

section \<open>Strings\<close>

definition u_escape :: "nat \<Rightarrow> string" where
  "u_escape n = [CHR 0x5C, CHR ''u''] @ [hex_digit (n div 4096 mod 16), hex_digit (n div 256 mod 16),
     hex_digit (n div 16 mod 16), hex_digit (n mod 16)]"

definition json_char :: "char \<Rightarrow> string" where
  "json_char c =
     (if c = CHR 0x22 then [CHR 0x5C, CHR 0x22]
      else if c = CHR 0x5C then [CHR 0x5C, CHR 0x5C]
      else if byte c = 8 then [CHR 0x5C, CHR ''b'']
      else if byte c = 12 then [CHR 0x5C, CHR ''f'']
      else if byte c = 10 then [CHR 0x5C, CHR ''n'']
      else if byte c = 13 then [CHR 0x5C, CHR ''r'']
      else if byte c = 9 then [CHR 0x5C, CHR ''t'']
      else if byte c < 32 \<or> c = CHR ''<'' \<or> c = CHR ''>'' \<or> c = CHR ''&'' then u_escape (byte c)
      else [c])"

definition json_string :: "string \<Rightarrow> string" where
  "json_string s = CHR 0x22 # concat (map json_char s) @ [CHR 0x22]"

text \<open>Reading \<^verbatim>\<open>\uXXXX\<close>: the UTF-8 bytes of a code point; a surrogate without its
  partner is U+FFFD.\<close>

definition utf8 :: "nat \<Rightarrow> string" where
  "utf8 n =
     (if n < 128 then [char_of n]
      else if n < 2048 then [char_of (192 + n div 64), char_of (128 + n mod 64)]
      else if n < 65536 then [char_of (224 + n div 4096), char_of (128 + n div 64 mod 64), char_of (128 + n mod 64)]
      else [char_of (240 + n div 262144), char_of (128 + n div 4096 mod 64), char_of (128 + n div 64 mod 64),
            char_of (128 + n mod 64)])"

fun hex4 :: "string \<Rightarrow> (nat \<times> string) option" where
  "hex4 (a # b # c # d # cs) =
     (case (hex_value a, hex_value b, hex_value c, hex_value d) of
        (Some w, Some x, Some y, Some z) \<Rightarrow> Some (4096 * w + 256 * x + 16 * y + z, cs)
      | _ \<Rightarrow> None)"
| "hex4 _ = None"

definition low_surrogate :: "string \<Rightarrow> (nat \<times> string) option" where
  "low_surrogate s =
     (case s of a # b # cs \<Rightarrow>
        (if a = CHR 0x5C \<and> b = CHR ''u'' then
           (case hex4 cs of Some (n, r) \<Rightarrow> if 56320 \<le> n \<and> n \<le> 57343 then Some (n, r) else None | None \<Rightarrow> None)
         else None)
      | _ \<Rightarrow> None)"

definition code_point :: "nat \<Rightarrow> string \<Rightarrow> nat \<times> string" where
  "code_point n s =
     (if 55296 \<le> n \<and> n \<le> 56319 then
        (case low_surrogate s of Some (m, r) \<Rightarrow> (65536 + 1024 * (n - 55296) + (m - 56320), r) | None \<Rightarrow> (65533, s))
      else if 56320 \<le> n \<and> n \<le> 57343 then (65533, s)
      else (n, s))"

definition simple_escape :: "char \<Rightarrow> char option" where
  "simple_escape c =
     (if c = CHR 0x22 \<or> c = CHR 0x5C \<or> c = CHR ''/'' then Some c
      else if c = CHR ''b'' then Some (char_of (8 :: nat))
      else if c = CHR ''f'' then Some (char_of (12 :: nat))
      else if c = CHR ''n'' then Some (char_of (10 :: nat))
      else if c = CHR ''r'' then Some (char_of (13 :: nat))
      else if c = CHR ''t'' then Some (char_of (9 :: nat))
      else None)"

lemma hex4_shorter: "hex4 s = Some (n, r) \<Longrightarrow> length r < length s"
  by (auto elim!: hex4.elims split: option.splits)

lemma low_surrogate_shorter: "low_surrogate s = Some (n, r) \<Longrightarrow> length r \<le> length s"
  by (auto simp: low_surrogate_def dest!: hex4_shorter split: list.splits if_splits option.splits)

lemma code_point_shorter: "code_point n s = (m, r) \<Longrightarrow> length r \<le> length s"
  by (auto simp: code_point_def dest!: low_surrogate_shorter split: if_splits option.splits)

text \<open>The rest of a string literal after its opening quote.\<close>

function json_read_string :: "string \<Rightarrow> (string \<times> string) option" where
  "json_read_string [] = None"
| "json_read_string (c # cs) =
     (if c = CHR 0x22 then Some ([], cs)
      else if byte c < 32 then None
      else if c = CHR 0x5C then
        (case cs of [] \<Rightarrow> None
         | x # r \<Rightarrow>
             (if x = CHR ''u'' then
                (case hex4 r of None \<Rightarrow> None
                 | Some (n, r1) \<Rightarrow>
                     (case code_point n r1 of (m, r2) \<Rightarrow>
                        map_option (\<lambda>(t, rest). (utf8 m @ t, rest)) (json_read_string r2)))
              else
                (case simple_escape x of None \<Rightarrow> None
                 | Some y \<Rightarrow> map_option (\<lambda>(t, rest). (y # t, rest)) (json_read_string r))))
      else map_option (\<lambda>(t, rest). (c # t, rest)) (json_read_string cs))"
  by pat_completeness auto
termination
  by (relation "measure length")
    (auto simp: less_Suc_eq_le dest!: hex4_shorter code_point_shorter [OF sym])

declare json_read_string.simps(2) [simp del]

lemma json_read_simple:
  "simple_escape x = Some y \<Longrightarrow> x \<noteq> CHR ''u'' \<Longrightarrow>
   json_read_string (CHR 0x5C # x # r) = map_option (\<lambda>(t, rest). (y # t, rest)) (json_read_string r)"
  by (subst json_read_string.simps) (simp add: byte_def)

lemma json_read_u_escape:
  "n < 128 \<Longrightarrow> json_read_string (u_escape n @ r) =
     map_option (\<lambda>(t, rest). (char_of n # t, rest)) (json_read_string r)"
  by (subst u_escape_def, simp, subst json_read_string.simps)
    (simp add: byte_def code_point_def utf8_def)

lemma json_read_plain:
  "c \<noteq> CHR 0x22 \<Longrightarrow> c \<noteq> CHR 0x5C \<Longrightarrow> \<not> byte c < 32 \<Longrightarrow>
   json_read_string (c # r) = map_option (\<lambda>(t, rest). (c # t, rest)) (json_read_string r)"
  by (subst json_read_string.simps) simp

lemma json_read_char:
  "json_read_string (json_char c @ r) = map_option (\<lambda>(t, rest). (c # t, rest)) (json_read_string r)"
proof -
  have ctl: "char_of n = c" if "byte c = n" for n using that by (auto simp: byte_def)
  consider "c = CHR 0x22 \<or> c = CHR 0x5C" | "byte c \<in> {8, 12, 10, 13, 9}"
    | "c \<noteq> CHR 0x22" "c \<noteq> CHR 0x5C" "byte c \<notin> {8, 12, 10, 13, 9}"
      "byte c < 32 \<or> c = CHR ''<'' \<or> c = CHR ''>'' \<or> c = CHR ''&''"
    | "c \<noteq> CHR 0x22" "c \<noteq> CHR 0x5C" "\<not> byte c < 32" "c \<notin> {CHR ''<'', CHR ''>'', CHR ''&''}"
    by (cases "c = CHR 0x22 \<or> c = CHR 0x5C"; cases "byte c \<in> {8, 12, 10, 13, 9}") auto
  then show ?thesis
  proof cases
    case 1
    then show ?thesis by (auto simp: json_char_def json_read_simple simple_escape_def)
  next
    case 2
    then have "c \<noteq> CHR 0x22" "c \<noteq> CHR 0x5C" by (auto simp: byte_def)
    with 2 show ?thesis
      by (auto simp: json_char_def json_read_simple simple_escape_def ctl)
  next
    case 3
    then have "byte c < 128" by (auto simp: byte_def)
    with 3 show ?thesis by (auto simp: json_char_def json_read_u_escape)
  next
    case 4
    then show ?thesis by (auto simp: json_char_def json_read_plain)
  qed
qed

lemma json_read_string_text: "json_read_string (concat (map json_char s) @ CHR 0x22 # r) = Some (s, r)"
  by (induction s) (simp_all add: json_read_char, simp add: json_read_string.simps)

section \<open>Values\<close>

definition num_char :: "char \<Rightarrow> bool" where
  "num_char c = (is_digit c \<or> c \<in> {CHR ''-'', CHR ''+'', CHR ''.'', CHR ''e'', CHR ''E''})"

text \<open>The grammar of a number: sign, integer part without leading zeros, fraction, exponent.\<close>

definition all_digits :: "string \<Rightarrow> bool" where
  "all_digits s = (s \<noteq> [] \<and> list_all is_digit s)"

definition exponent_ok :: "string \<Rightarrow> bool" where
  "exponent_ok s =
     (case s of [] \<Rightarrow> True
      | c # cs \<Rightarrow> (c = CHR ''e'' \<or> c = CHR ''E'') \<and>
          (case cs of [] \<Rightarrow> False
           | x # r \<Rightarrow> all_digits (if x = CHR ''+'' \<or> x = CHR ''-'' then r else cs)))"

definition fraction_ok :: "string \<Rightarrow> bool" where
  "fraction_ok s =
     (case s of [] \<Rightarrow> True
      | c # cs \<Rightarrow> if c = CHR ''.'' then takeWhile is_digit cs \<noteq> [] \<and> exponent_ok (dropWhile is_digit cs)
                  else exponent_ok s)"

definition json_number :: "string \<Rightarrow> bool" where
  "json_number s =
     (let t = (case s of c # cs \<Rightarrow> if c = CHR ''-'' then cs else s | [] \<Rightarrow> s); i = takeWhile is_digit t
      in i \<noteq> [] \<and> (hd i = CHR ''0'' \<longrightarrow> i = ''0'') \<and> fraction_ok (dropWhile is_digit t) \<and> list_all num_char s)"

definition skip_ws :: "string \<Rightarrow> string" where
  "skip_ws s = dropWhile (\<lambda>c. byte c \<in> {32, 9, 10, 13}) s"

definition json_literal :: "string \<Rightarrow> json \<Rightarrow> string \<Rightarrow> (json \<times> string) option" where
  "json_literal w v s = (if has_prefix s w then Some (v, drop (length w) s) else None)"

definition json_read_number :: "string \<Rightarrow> (json \<times> string) option" where
  "json_read_number s =
     (let t = takeWhile num_char s in if json_number t then Some (JNum t, dropWhile num_char s) else None)"

text \<open>The reader, with fuel for its nesting and the elements of a list: the length of the
  text is enough for everything the writer produces.\<close>

fun json_read :: "nat \<Rightarrow> string \<Rightarrow> (json \<times> string) option"
  and json_elems :: "nat \<Rightarrow> json list \<Rightarrow> string \<Rightarrow> (json \<times> string) option"
  and json_members :: "nat \<Rightarrow> (string \<times> json) list \<Rightarrow> string \<Rightarrow> (json \<times> string) option" where
  "json_read 0 s = None"
| "json_read (Suc n) s =
     (case skip_ws s of [] \<Rightarrow> None
      | c # cs \<Rightarrow>
          if c = CHR 0x22 then map_option (\<lambda>(t, r). (JStr t, r)) (json_read_string cs)
          else if c = CHR ''{'' then
            (if has_prefix (skip_ws cs) ''}'' then Some (JObj [], tl (skip_ws cs)) else json_members n [] cs)
          else if c = CHR ''['' then
            (if has_prefix (skip_ws cs) '']'' then Some (JArr [], tl (skip_ws cs)) else json_elems n [] cs)
          else if c = CHR ''t'' then json_literal ''true'' (JBool True) (c # cs)
          else if c = CHR ''f'' then json_literal ''false'' (JBool False) (c # cs)
          else if c = CHR ''n'' then json_literal ''null'' JNull (c # cs)
          else json_read_number (c # cs))"
| "json_elems 0 acc s = None"
| "json_elems (Suc n) acc s =
     (case json_read n s of None \<Rightarrow> None
      | Some (v, r) \<Rightarrow>
          (case skip_ws r of [] \<Rightarrow> None
           | c # r' \<Rightarrow>
               if c = CHR '','' then json_elems n (acc @ [v]) r'
               else if c = CHR '']'' then Some (JArr (acc @ [v]), r') else None))"
| "json_members 0 acc s = None"
| "json_members (Suc n) acc s =
     (case skip_ws s of [] \<Rightarrow> None
      | q # cs \<Rightarrow>
          if q \<noteq> CHR 0x22 then None
          else (case json_read_string cs of None \<Rightarrow> None
            | Some (k, r) \<Rightarrow>
                (case skip_ws r of [] \<Rightarrow> None
                 | col # r1 \<Rightarrow>
                     if col \<noteq> CHR '':'' then None
                     else (case json_read n r1 of None \<Rightarrow> None
                       | Some (v, r2) \<Rightarrow>
                           (case skip_ws r2 of [] \<Rightarrow> None
                            | c # r' \<Rightarrow>
                                if c = CHR '','' then json_members n (acc @ [(k, v)]) r'
                                else if c = CHR ''}'' then Some (JObj (acc @ [(k, v)]), r') else None)))))"

definition json_unmarshal :: "string \<Rightarrow> json option" where
  "json_unmarshal s =
     (case json_read (Suc (length s)) s of None \<Rightarrow> None
      | Some (v, r) \<Rightarrow> if skip_ws r = [] then Some v else None)"

fun json_text :: "json \<Rightarrow> string" where
  "json_text JNull = ''null''"
| "json_text (JBool b) = (if b then ''true'' else ''false'')"
| "json_text (JNum n) = n"
| "json_text (JStr s) = json_string s"
| "json_text (JArr vs) = ''['' @ join '','' (map json_text vs) @ '']''"
| "json_text (JObj ms) = ''{'' @ join '','' (map (\<lambda>(k, v). json_string k @ '':'' @ json_text v) ms) @ ''}''"

text \<open>Values whose numbers are numbers: those the program builds.\<close>

fun json_ok :: "json \<Rightarrow> bool" where
  "json_ok (JNum n) = json_number n"
| "json_ok (JArr vs) = list_all json_ok vs"
| "json_ok (JObj ms) = list_all (\<lambda>(k, v). json_ok v) ms"
| "json_ok _ = True"

definition ends_number :: "string \<Rightarrow> bool" where
  "ends_number r = (case r of [] \<Rightarrow> True | c # _ \<Rightarrow> \<not> num_char c)"

lemma ends_number_simps [simp]:
  "ends_number (CHR '','' # r)" "ends_number (CHR '']'' # r)" "ends_number (CHR ''}'' # r)" "ends_number []"
  by (simp_all add: ends_number_def num_char_def is_digit_def byte_def)

lemma json_number_chars: "json_number n \<Longrightarrow> n \<noteq> [] \<and> num_char (hd n) \<and> list_all num_char n"
  by (cases n) (auto simp: json_number_def Let_def)

lemma takeWhile_number:
  assumes "list_all num_char n" and "ends_number r"
  shows "takeWhile num_char (n @ r) = n" and "dropWhile num_char (n @ r) = r"
  using assms by (induction n; cases r; auto simp: ends_number_def)+

definition token_start :: "char \<Rightarrow> bool" where
  "token_start c = (byte c \<notin> {32, 9, 10, 13} \<and> c \<noteq> CHR '']'')"

lemma num_char_start: "num_char c \<Longrightarrow> token_start c \<and>
   c \<notin> {CHR 0x22, CHR ''{'', CHR ''['', CHR ''t'', CHR ''f'', CHR ''n''}"
  by (auto simp: num_char_def is_digit_def token_start_def byte_def)

lemma json_text_start: "json_ok j \<Longrightarrow> \<exists>c cs. json_text j = c # cs \<and> token_start c"
proof (cases j)
  case (JNum n)
  assume "json_ok j"
  with JNum json_number_chars [of n] num_char_start [of "hd n"] show ?thesis by (cases n) auto
qed (auto simp: json_string_def token_start_def byte_def)

lemma skip_ws_start [simp]: "token_start c \<Longrightarrow> skip_ws (c # cs) = c # cs"
  by (simp add: skip_ws_def token_start_def)

lemma token_start_simps [simp]:
  "token_start (CHR 0x22)" "token_start (CHR ''{'')" "token_start (CHR ''['')" "token_start (CHR '','')"
  "token_start (CHR ''}'')" "token_start (CHR '':'')" "token_start (CHR ''t'')" "token_start (CHR ''f'')"
  "token_start (CHR ''n'')"
  by (simp_all add: token_start_def byte_def)

lemma skip_ws_close [simp]: "skip_ws (CHR '']'' # cs) = CHR '']'' # cs"
  by (simp add: skip_ws_def byte_def)

lemma json_read_number_text:
  assumes "json_number n" and "ends_number r"
  shows "json_read (Suc k) (n @ r) = Some (JNum n, r)"
proof -
  from assms(1) obtain c cs where n: "n = c # cs" and c: "num_char c" and all: "list_all num_char n"
    using json_number_chars [of n] by (cases n) auto
  have "json_read_number (n @ r) = Some (JNum n, r)"
    using takeWhile_number [OF all assms(2)] assms(1) by (simp add: json_read_number_def Let_def)
  with n num_char_start [OF c] show ?thesis by simp
qed

lemma json_elems_text:
  assumes "\<And>v k r. v \<in> set vs \<Longrightarrow> ends_number r \<Longrightarrow> length (json_text v) \<le> k \<Longrightarrow>
      json_read k (json_text v @ r) = Some (v, r)"
    and "vs \<noteq> []" and "length (join '','' (map json_text vs)) < n"
  shows "json_elems n acc (join '','' (map json_text vs) @ CHR '']'' # rest) = Some (JArr (acc @ vs), rest)"
  using assms
proof (induction vs arbitrary: n acc)
  case (Cons v vs)
  from Cons.prems(3) obtain k where n: "n = Suc k" by (cases n) auto
  show ?case
  proof (cases vs)
    case Nil
    have "json_read k (json_text v @ CHR '']'' # rest) = Some (v, CHR '']'' # rest)"
      using Cons.prems n Nil by (intro Cons.prems(1)) auto
    with n Nil show ?thesis by simp
  next
    case (Cons w ws)
    let ?r = "join '','' (map json_text vs) @ CHR '']'' # rest"
    have "json_read k (json_text v @ CHR '','' # ?r) = Some (v, CHR '','' # ?r)"
      using Cons.prems n Cons by (intro Cons.prems(1)) auto
    moreover have "json_elems k (acc @ [v]) ?r = Some (JArr ((acc @ [v]) @ vs), rest)"
      using Cons.prems n Cons by (intro Cons.IH) auto
    ultimately show ?thesis using n Cons by simp
  qed
qed simp

definition member_text :: "string \<times> json \<Rightarrow> string" where
  "member_text m = json_string (fst m) @ '':'' @ json_text (snd m)"

lemma json_text_obj: "json_text (JObj ms) = ''{'' @ join '','' (map member_text ms) @ ''}''"
  by (simp add: member_text_def [abs_def] split_def)

lemma join_Cons: "xs \<noteq> [] \<Longrightarrow> join sep (x # xs) = x @ sep @ join sep xs"
  by (cases xs) auto

lemma json_members_text:
  assumes "\<And>m k r. m \<in> set ms \<Longrightarrow> ends_number r \<Longrightarrow> length (json_text (snd m)) \<le> k \<Longrightarrow>
      json_read k (json_text (snd m) @ r) = Some (snd m, r)"
    and "ms \<noteq> []" and "length (join '','' (map member_text ms)) < n"
  shows "json_members n acc (join '','' (map member_text ms) @ CHR ''}'' # rest) = Some (JObj (acc @ ms), rest)"
  using assms
proof (induction ms arbitrary: n acc)
  case (Cons m ms)
  obtain key v where m: "m = (key, v)" by (cases m)
  from Cons.prems(3) obtain k where n: "n = Suc k" by (cases n) auto
  have mt: "member_text m = CHR 0x22 # concat (map json_char key) @ CHR 0x22 # CHR '':'' # json_text v"
    using m by (simp add: member_text_def json_string_def)
  have read: "json_read k (json_text v @ r) = Some (v, r)" if "ends_number r" for r
    using Cons.prems(1) [of m r k] Cons.prems(3) n m mt that by (cases ms) auto
  show ?case
  proof (cases "ms = []")
    case True
    with n m mt read show ?thesis by (simp add: json_read_string_text)
  next
    case False
    let ?r = "join '','' (map member_text ms) @ CHR ''}'' # rest"
    have "json_members k (acc @ [(key, v)]) ?r = Some (JObj ((acc @ [(key, v)]) @ ms), rest)"
      using Cons.prems n False by (intro Cons.IH) (auto simp: join_Cons)
    with n m mt read False show ?thesis by (simp add: join_Cons json_read_string_text)
  qed
qed simp

lemma json_text_nonempty: "json_ok j \<Longrightarrow> 0 < length (json_text j)"
  using json_text_start [of j] by auto

lemma json_read_text:
  assumes "json_ok j" and "ends_number r" and "length (json_text j) \<le> k"
  shows "json_read k (json_text j @ r) = Some (j, r)"
  using assms
proof (induction j arbitrary: k r)
  case (JNum n)
  then show ?case
    using json_text_nonempty [of "JNum n"] by (cases k) (simp_all add: json_read_number_text del: json_read.simps(2))
next
  case (JArr vs)
  then obtain m where k: "k = Suc m" by (cases k) auto
  show ?case
  proof (cases "vs = []")
    case False
    have "json_elems m [] (join '','' (map json_text vs) @ CHR '']'' # r) = Some (JArr ([] @ vs), r)"
      using JArr False k by (intro json_elems_text) (auto simp: list_all_iff)
    moreover have "\<not> has_prefix (skip_ws (join '','' (map json_text vs) @ CHR '']'' # r)) '']''"
    proof -
      from False obtain v ws where vs: "vs = v # ws" by (cases vs) auto
      with JArr.prems have "json_ok v" by simp
      then obtain c cs where "json_text v = c # cs" "token_start c" using json_text_start by blast
      with vs show ?thesis by (cases ws) (auto simp: has_prefix_def token_start_def skip_ws_def)
    qed
    ultimately show ?thesis using k by simp
  qed (use k in \<open>simp add: has_prefix_def\<close>)
next
  case (JObj ms)
  then obtain m where k: "k = Suc m" by (cases k) auto
  show ?case
  proof (cases "ms = []")
    case False
    have sub: "json_read i (json_text (snd p) @ q) = Some (snd p, q)"
      if "p \<in> set ms" "ends_number q" "length (json_text (snd p)) \<le> i" for p i q
      using JObj.IH [of p "snd p"] JObj.prems(1) that
      by (cases p) (auto simp: list_all_iff snds.intros)
    have "json_members m [] (join '','' (map member_text ms) @ CHR ''}'' # r) = Some (JObj ([] @ ms), r)"
      using JObj.prems False k by (intro json_members_text sub) (auto simp: json_text_obj simp del: json_text.simps)
    moreover have "\<not> has_prefix (skip_ws (join '','' (map member_text ms) @ CHR ''}'' # r)) ''}''"
      using False by (cases ms; cases "tl ms") (auto simp: has_prefix_def member_text_def json_string_def)
    ultimately show ?thesis using k by (simp add: json_text_obj del: json_text.simps)
  qed (use k in \<open>simp add: has_prefix_def\<close>)
qed (auto simp: json_string_def json_literal_def has_prefix_def json_read_string_text dest!: Suc_le_D split: if_splits)

theorem json_roundtrip: "json_ok j \<Longrightarrow> json_unmarshal (json_text j) = Some j"
  using json_read_text [of j "[]" "Suc (length (json_text j))"]
  by (simp add: json_unmarshal_def skip_ws_def del: json_read.simps)


section \<open>Maps of strings\<close>

text \<open>A \<^verbatim>\<open>map[string]string\<close> is an association list with distinct keys; \<^verbatim>\<open>json.Marshal\<close>
  writes the keys in byte order.\<close>

type_synonym strmap = "(string \<times> string) list"

definition map_get :: "strmap \<Rightarrow> string \<Rightarrow> string" where
  "map_get m k = (case map_of m k of None \<Rightarrow> '''' | Some v \<Rightarrow> v)"

definition marshal_strmap :: "strmap \<Rightarrow> string" where
  "marshal_strmap m = json_text (JObj (map (\<lambda>(k, v). (k, JStr v)) (sort_key fst m)))"

fun strmap_of :: "(string \<times> json) list \<Rightarrow> strmap \<Rightarrow> strmap option" where
  "strmap_of [] acc = Some acc"
| "strmap_of ((k, JStr v) # ms) acc = strmap_of ms (AList.update k v acc)"
| "strmap_of ((k, JNull) # ms) acc = strmap_of ms (AList.update k '''' acc)"
| "strmap_of _ acc = None"

definition unmarshal_strmap :: "string \<Rightarrow> strmap option" where
  "unmarshal_strmap s =
     (case json_unmarshal s of
        Some (JObj ms) \<Rightarrow> strmap_of ms [] | Some JNull \<Rightarrow> Some [] | _ \<Rightarrow> None)"

lemma update_append: "k \<notin> fst ` set acc \<Longrightarrow> AList.update k v acc = acc @ [(k, v)]"
  by (induction acc) auto

lemma strmap_of_strings:
  "distinct (map fst (acc @ m)) \<Longrightarrow> strmap_of (map (\<lambda>(k, v). (k, JStr v)) m) acc = Some (acc @ m)"
  by (induction m arbitrary: acc) (auto simp: update_append)

theorem strmap_roundtrip:
  assumes "distinct (map fst m)"
  shows "unmarshal_strmap (marshal_strmap m) = Some (sort_key fst m)" and "map_of (sort_key fst m) = map_of m"
proof -
  have d: "distinct (map fst (sort_key fst m))" using assms by (simp add: distinct_map)
  have "json_ok (JObj (map (\<lambda>(k, v). (k, JStr v)) (sort_key fst m)))"
    by (auto simp: list_all_iff)
  from json_roundtrip [OF this] d
  show "unmarshal_strmap (marshal_strmap m) = Some (sort_key fst m)"
    using strmap_of_strings [of "[]" "sort_key fst m"]
    by (simp add: unmarshal_strmap_def marshal_strmap_def del: json_text.simps)
  show "map_of (sort_key fst m) = map_of m" using assms d by (subst map_of_inject_set) auto
qed

end
