(* ===== verification/Settings.thy ===== *)
theory Settings
  imports Json Models "HOL-Library.Word"
begin

text \<open>
  \<^verbatim>\<open>services/app_settings_service.go\<close> and what is kept in its table: the keyring of
  the backup encryption (\<^verbatim>\<open>backup_keyring.go\<close>, \<^verbatim>\<open>backup_key_store.go\<close>,
  \<^verbatim>\<open>handlers/backup_key.go\<close>), the certificate pairs of \<^verbatim>\<open>mtls_ca_store.go\<close>, the mail
  settings (\<^verbatim>\<open>smtp_settings.go\<close>, \<^verbatim>\<open>alerting/smtp.go\<close>, \<^verbatim>\<open>handlers/admin_smtp.go\<close>) and the
  CurseForge key (\<^verbatim>\<open>handlers/admin_integrations.go\<close>).  Nonces, key bytes and issued
  certificates are arguments.  The first argument of a statement is its label.
\<close>

section \<open>The table of settings\<close>

definition find_setting :: "db \<Rightarrow> string \<Rightarrow> AppSetting option" where
  "find_setting d key = List.find (\<lambda>s. as_Key s = key) (app_settings d)"

definition settings_Get :: "string \<Rightarrow> prims \<Rightarrow> string \<Rightarrow> env \<Rightarrow> db \<Rightarrow> string \<Rightarrow> string result" where
  "settings_Get lbl pr encKey e d key =
     (case call e lbl (find_setting d key) of
        Inl err \<Rightarrow> Inl (Wrap (''loading setting '' @ key) err)
      | Inr None \<Rightarrow> Inr ''''
      | Inr (Some s) \<Rightarrow> wrapping (''decrypting setting '' @ key) (Decrypt pr encKey (as_Value s)))"

definition settings_Set ::
  "string \<Rightarrow> prims \<Rightarrow> string \<Rightarrow> env \<Rightarrow> string \<Rightarrow> db \<Rightarrow> string \<Rightarrow> string \<Rightarrow> uuid option \<Rightarrow> unit result \<times> db" where
  "settings_Set lbl pr encKey e nonce d key value updatedBy =
     (if value = '''' then
        (if fault e lbl then (Inl (Driver lbl), d)
         else (Inr (), d\<lparr>app_settings := delete_where (\<lambda>s. as_Key s = key) (app_settings d)\<rparr>))
      else (case Encrypt pr e nonce encKey value of
          Inl err \<Rightarrow> (Inl (Wrap (''encrypting setting '' @ key) err), d)
        | Inr enc \<Rightarrow>
            if fault e lbl \<or> (case updatedBy of None \<Rightarrow> False | Some u \<Rightarrow> find_user d u = None)
            then (Inl (Driver lbl), d)
            else (let row = \<lparr>as_Key = key, as_Value = enc, as_UpdatedAt = now e, as_UpdatedBy = updatedBy\<rparr>
                  in (Inr (), d\<lparr>app_settings :=
                       (if find_setting d key = None then app_settings d @ [row]
                        else update_where (\<lambda>s. as_Key s = key) (\<lambda>_. row) (app_settings d))\<rparr>))))"

definition settings_SetIfAbsent ::
  "string \<Rightarrow> prims \<Rightarrow> string \<Rightarrow> env \<Rightarrow> string \<Rightarrow> db \<Rightarrow> string \<Rightarrow> string \<Rightarrow> bool result \<times> db" where
  "settings_SetIfAbsent lbl pr encKey e nonce d key value =
     (case Encrypt pr e nonce encKey value of
        Inl err \<Rightarrow> (Inl (Wrap (''encrypting setting '' @ key) err), d)
      | Inr enc \<Rightarrow>
          if fault e lbl then (Inl (Wrap (''storing setting '' @ key) (Driver lbl)), d)
          else if find_setting d key \<noteq> None then (Inr False, d)
          else (Inr True, d\<lparr>app_settings := app_settings d @
            [\<lparr>as_Key = key, as_Value = enc, as_UpdatedAt = now e, as_UpdatedBy = None\<rparr>]\<rparr>))"

section \<open>The keyring\<close>

record Keyring =
  kr_Active :: "8 word"
  kr_Keys :: strmap

definition generateKey :: "env \<Rightarrow> string \<Rightarrow> string result" where
  "generateKey e raw = wrapping ''generating backup key'' (call e ''generateKey'' (b64_encode raw))"

definition newKeyring :: "env \<Rightarrow> string \<Rightarrow> Keyring result" where
  "newKeyring e raw = and_then (generateKey e raw) (\<lambda>k. Inr \<lparr>kr_Active = 0, kr_Keys = [(''0'', k)]\<rparr>)"

definition KeyByID :: "Keyring \<Rightarrow> 8 word \<Rightarrow> string option" where
  "KeyByID kr i = map_of (kr_Keys kr) (dec (uint i))"

definition ActiveKey :: "Keyring \<Rightarrow> 8 word \<times> string option" where
  "ActiveKey kr = (kr_Active kr, map_of (kr_Keys kr) (dec (uint (kr_Active kr))))"

text \<open>The highest id in use: names that are no number from 0 to 255 do not count.\<close>

definition key_number :: "string \<Rightarrow> int option" where
  "key_number s = (case atoi s of None \<Rightarrow> None | Some i \<Rightarrow> if i < 0 \<or> i > 255 then None else Some i)"

definition highest_id :: "Keyring \<Rightarrow> int" where
  "highest_id kr = fold (\<lambda>(s, _) h. case key_number s of None \<Rightarrow> h | Some i \<Rightarrow> max h i) (kr_Keys kr) (- 1)"

definition kr_rotate :: "env \<Rightarrow> string \<Rightarrow> Keyring \<Rightarrow> (8 word \<times> Keyring) result" where
  "kr_rotate e raw kr =
     (let highest = highest_id kr
      in if highest \<ge> 255 then Inl (New ''backup keyring is full (255 keys)'')
         else (let next = word_of_int (highest + 1)
               in and_then (generateKey e raw) (\<lambda>nk.
                    Inr (next, kr\<lparr>kr_Keys := AList.update (dec (uint next)) nk (kr_Keys kr), kr_Active := next\<rparr>))))"

text \<open>The JSON of the struct.  Field names are matched without case, unknown fields are
  ignored, \<^verbatim>\<open>null\<close> leaves a number as it is and empties a map.\<close>

definition marshal_keyring :: "Keyring \<Rightarrow> string" where
  "marshal_keyring kr = json_text (JObj
     [(''active'', JNum (dec (uint (kr_Active kr)))),
      (''keys'', JObj (map (\<lambda>(k, v). (k, JStr v)) (sort_key fst (kr_Keys kr))))])"

fun keyring_fields :: "(string \<times> json) list \<Rightarrow> Keyring \<Rightarrow> Keyring option" where
  "keyring_fields [] kr = Some kr"
| "keyring_fields ((k, v) # ms) kr =
     (if equal_fold k ''active'' then
        (case v of
           JNum t \<Rightarrow> (case key_number t of None \<Rightarrow> None
             | Some i \<Rightarrow> if list_all is_digit t then keyring_fields ms (kr\<lparr>kr_Active := word_of_int i\<rparr>) else None)
         | JNull \<Rightarrow> keyring_fields ms kr
         | _ \<Rightarrow> None)
      else if equal_fold k ''keys'' then
        (case v of
           JObj kvs \<Rightarrow> (case strmap_of kvs (kr_Keys kr) of None \<Rightarrow> None
             | Some m \<Rightarrow> keyring_fields ms (kr\<lparr>kr_Keys := m\<rparr>))
         | JNull \<Rightarrow> keyring_fields ms (kr\<lparr>kr_Keys := []\<rparr>)
         | _ \<Rightarrow> None)
      else keyring_fields ms kr)"

definition unmarshal_keyring :: "string \<Rightarrow> Keyring option" where
  "unmarshal_keyring s =
     (case json_unmarshal s of
        Some (JObj ms) \<Rightarrow> keyring_fields ms \<lparr>kr_Active = 0, kr_Keys = []\<rparr>
      | Some JNull \<Rightarrow> Some \<lparr>kr_Active = 0, kr_Keys = []\<rparr>
      | _ \<Rightarrow> None)"

section \<open>The key store\<close>

abbreviation backupKeyringKey :: string where
  "backupKeyringKey \<equiv> ''backup_encryption_keyring''"

definition saveKeyring ::
  "prims \<Rightarrow> string \<Rightarrow> env \<Rightarrow> string \<Rightarrow> db \<Rightarrow> Keyring \<Rightarrow> uuid option \<Rightarrow> unit result \<times> db" where
  "saveKeyring pr encKey e nonce d kr by =
     settings_Set ''saveKeyring'' pr encKey e nonce d backupKeyringKey (marshal_keyring kr) by"

text \<open>The random data of an operation on the store.\<close>

record key_seed =
  ks_raw :: string
  ks_nonce :: string
  ks_raw2 :: string
  ks_nonce2 :: string

text \<open>What is stored, \<open>None\<close> when nothing is, and the keyring that is created then.\<close>

definition stored_keyring :: "prims \<Rightarrow> string \<Rightarrow> env \<Rightarrow> db \<Rightarrow> Keyring option result" where
  "stored_keyring pr encKey e d =
     and_then (settings_Get ''BackupKeyring'' pr encKey e d backupKeyringKey) (\<lambda>raw.
       if raw = '''' then Inr None
       else (case unmarshal_keyring raw of
           None \<Rightarrow> Inl (Wrap ''parsing backup keyring'' (Driver ''json.Unmarshal''))
         | Some kr \<Rightarrow> Inr (Some kr)))"

definition create_keyring :: "prims \<Rightarrow> string \<Rightarrow> env \<Rightarrow> key_seed \<Rightarrow> db \<Rightarrow> Keyring result \<times> db" where
  "create_keyring pr encKey e seed d =
     (case newKeyring e (ks_raw seed) of
        Inl err \<Rightarrow> (Inl err, d)
      | Inr kr \<Rightarrow> (case saveKeyring pr encKey e (ks_nonce seed) d kr None of
            (Inl err, d') \<Rightarrow> (Inl err, d')
          | (Inr _, d') \<Rightarrow> (Inr kr, d')))"

definition BackupKeyring :: "prims \<Rightarrow> string \<Rightarrow> env \<Rightarrow> key_seed \<Rightarrow> db \<Rightarrow> Keyring result \<times> db" where
  "BackupKeyring pr encKey e seed d =
     (case stored_keyring pr encKey e d of
        Inl err \<Rightarrow> (Inl err, d)
      | Inr None \<Rightarrow> create_keyring pr encKey e seed d
      | Inr (Some kr) \<Rightarrow> (Inr kr, d))"

definition RotateBackupKey ::
  "prims \<Rightarrow> string \<Rightarrow> env \<Rightarrow> key_seed \<Rightarrow> db \<Rightarrow> uuid option \<Rightarrow> (8 word) result \<times> db" where
  "RotateBackupKey pr encKey e seed d by =
     (case BackupKeyring pr encKey e seed d of
        (Inl err, d1) \<Rightarrow> (Inl err, d1)
      | (Inr kr, d1) \<Rightarrow>
          (case kr_rotate e (ks_raw2 seed) kr of
             Inl err \<Rightarrow> (Inl err, d1)
           | Inr (i, kr') \<Rightarrow> (case saveKeyring pr encKey e (ks_nonce2 seed) d1 kr' by of
                 (Inl err, d2) \<Rightarrow> (Inl err, d2)
               | (Inr _, d2) \<Rightarrow> (Inr i, d2))))"

definition ExportActiveBackupKey ::
  "prims \<Rightarrow> string \<Rightarrow> env \<Rightarrow> key_seed \<Rightarrow> db \<Rightarrow> (8 word \<times> string) result \<times> db" where
  "ExportActiveBackupKey pr encKey e seed d =
     (case BackupKeyring pr encKey e seed d of
        (Inl err, d1) \<Rightarrow> (Inl err, d1)
      | (Inr kr, d1) \<Rightarrow> (case ActiveKey kr of
            (_, None) \<Rightarrow> (Inl (New ''keyring has no active key''), d1)
          | (i, Some key) \<Rightarrow> (Inr (i, key), d1)))"

definition h_key_Status ::
  "prims \<Rightarrow> string \<Rightarrow> env \<Rightarrow> key_seed \<Rightarrow> db \<Rightarrow> (8 word) response \<times> db" where
  "h_key_Status pr encKey e seed d =
     (case ExportActiveBackupKey pr encKey e seed d of
        (Inl _, d') \<Rightarrow> (Refuse 500 ''could not load backup key status'', d')
      | (Inr (i, _), d') \<Rightarrow> (Reply 200 i, d'))"

definition h_key_Export ::
  "prims \<Rightarrow> string \<Rightarrow> env \<Rightarrow> key_seed \<Rightarrow> db \<Rightarrow> (8 word \<times> string) response \<times> db" where
  "h_key_Export pr encKey e seed d =
     (case ExportActiveBackupKey pr encKey e seed d of
        (Inl _, d') \<Rightarrow> (Refuse 500 ''could not export backup key'', d')
      | (Inr r, d') \<Rightarrow> (Reply 200 r, d'))"

definition h_key_Rotate ::
  "prims \<Rightarrow> string \<Rightarrow> env \<Rightarrow> key_seed \<Rightarrow> db \<Rightarrow> User option \<Rightarrow> (8 word) response \<times> db" where
  "h_key_Rotate pr encKey e seed d user =
     (case RotateBackupKey pr encKey e seed d (map_option u_ID user) of
        (Inl _, d') \<Rightarrow> (Refuse 500 ''could not rotate backup key'', d')
      | (Inr i, d') \<Rightarrow> (Reply 200 i, d'))"

section \<open>Certificate pairs\<close>

record pemPair =
  pp_CertPEM :: string
  pp_KeyPEM :: string

text \<open>Byte slices are base64 in JSON.\<close>

definition marshal_pair :: "pemPair \<Rightarrow> string" where
  "marshal_pair p = json_text (JObj [(''cert_pem'', JStr (b64_encode (pp_CertPEM p))),
     (''key_pem'', JStr (b64_encode (pp_KeyPEM p)))])"

definition json_bytes :: "json \<Rightarrow> string option" where
  "json_bytes v = (case v of JStr t \<Rightarrow> b64_decode t | JNull \<Rightarrow> Some '''' | _ \<Rightarrow> None)"

fun pair_fields :: "(string \<times> json) list \<Rightarrow> pemPair \<Rightarrow> pemPair option" where
  "pair_fields [] p = Some p"
| "pair_fields ((k, v) # ms) p =
     (if equal_fold k ''cert_pem'' then
        (case json_bytes v of None \<Rightarrow> None | Some b \<Rightarrow> pair_fields ms (p\<lparr>pp_CertPEM := b\<rparr>))
      else if equal_fold k ''key_pem'' then
        (case json_bytes v of None \<Rightarrow> None | Some b \<Rightarrow> pair_fields ms (p\<lparr>pp_KeyPEM := b\<rparr>))
      else pair_fields ms p)"

definition unmarshal_pair :: "string \<Rightarrow> pemPair option" where
  "unmarshal_pair s =
     (case json_unmarshal s of
        Some (JObj ms) \<Rightarrow> pair_fields ms \<lparr>pp_CertPEM = '''', pp_KeyPEM = ''''\<rparr>
      | Some JNull \<Rightarrow> Some \<lparr>pp_CertPEM = '''', pp_KeyPEM = ''''\<rparr>
      | _ \<Rightarrow> None)"

definition pair_read :: "string \<Rightarrow> prims \<Rightarrow> string \<Rightarrow> env \<Rightarrow> db \<Rightarrow> string \<Rightarrow> pemPair option result" where
  "pair_read lbl pr encKey e d key =
     and_then (settings_Get lbl pr encKey e d key) (\<lambda>raw.
       if raw = '''' then Inr None
       else (case unmarshal_pair raw of
           None \<Rightarrow> Inl (Wrap (''parsing '' @ key) (Driver ''json.Unmarshal''))
         | Some p \<Rightarrow> Inr (Some p)))"

text \<open>\<open>gen\<close> is what the generator returns, \<open>others\<close> what other requests do to the database
  between the first read and the insert.\<close>

definition loadOrCreatePair ::
  "prims \<Rightarrow> string \<Rightarrow> env \<Rightarrow> pemPair result \<Rightarrow> string \<Rightarrow> (db \<Rightarrow> db) \<Rightarrow> db \<Rightarrow> string \<Rightarrow> pemPair result \<times> db" where
  "loadOrCreatePair pr encKey e gen nonce others d key =
     (case pair_read ''pair.read'' pr encKey e d key of
        Inl err \<Rightarrow> (Inl err, d)
      | Inr (Some p) \<Rightarrow> (Inr p, d)
      | Inr None \<Rightarrow> (case gen of
          Inl err \<Rightarrow> (Inl err, d)
        | Inr fresh \<Rightarrow>
            (case settings_SetIfAbsent ''pair.store'' pr encKey e nonce (others d) key (marshal_pair fresh) of
               (Inl err, d1) \<Rightarrow> (Inl err, d1)
             | (Inr _, d1) \<Rightarrow>
                 (case pair_read ''pair.reread'' pr encKey e d1 key of
                    Inl err \<Rightarrow> (Inl err, d1)
                  | Inr None \<Rightarrow> (Inl (New (key @ '' missing after store'')), d1)
                  | Inr (Some p) \<Rightarrow> (Inr p, d1)))))"

abbreviation mtlsCAKey :: string where "mtlsCAKey \<equiv> ''daemon_mtls_ca''"
abbreviation mtlsPanelCertKey :: string where "mtlsPanelCertKey \<equiv> ''daemon_mtls_panel_cert''"

definition MTLSCA ::
  "prims \<Rightarrow> string \<Rightarrow> env \<Rightarrow> pemPair result \<Rightarrow> string \<Rightarrow> (db \<Rightarrow> db) \<Rightarrow> db \<Rightarrow> pemPair result \<times> db" where
  "MTLSCA pr encKey e genCA nonce others d = loadOrCreatePair pr encKey e genCA nonce others d mtlsCAKey"

definition CACertPEM ::
  "prims \<Rightarrow> string \<Rightarrow> env \<Rightarrow> pemPair result \<Rightarrow> string \<Rightarrow> (db \<Rightarrow> db) \<Rightarrow> db \<Rightarrow> string result \<times> db" where
  "CACertPEM pr encKey e genCA nonce others d =
     (case MTLSCA pr encKey e genCA nonce others d of
        (Inl err, d1) \<Rightarrow> (Inl err, d1) | (Inr ca, d1) \<Rightarrow> (Inr (pp_CertPEM ca), d1))"

text \<open>What the X.509 library does: \<open>issue\<close> is the client certificate a CA gives (the two
  draws of one call are \<open>issue ca 0\<close> and \<open>issue ca 1\<close>), \<open>verify\<close> the expiry of a certificate
  that chains to the CA for client authentication at a time.\<close>

record x509 =
  x_issue :: "pemPair \<Rightarrow> nat \<Rightarrow> pemPair result"
  x_verify :: "string \<Rightarrow> string \<Rightarrow> time \<Rightarrow> time option"

definition panelCertMinRemaining :: int where "panelCertMinRemaining = 30 * 24 * hour"

definition usablePanelCert :: "x509 \<Rightarrow> string \<Rightarrow> string \<Rightarrow> time \<Rightarrow> bool" where
  "usablePanelCert x caPEM certPEM t =
     (case x_verify x caPEM certPEM t of None \<Rightarrow> False | Some notAfter \<Rightarrow> notAfter - t \<ge> panelCertMinRemaining)"

definition PanelClientCert ::
  "x509 \<Rightarrow> prims \<Rightarrow> string \<Rightarrow> env \<Rightarrow> pemPair result \<Rightarrow> string \<Rightarrow> string \<Rightarrow> string \<Rightarrow> (db \<Rightarrow> db) \<Rightarrow> (db \<Rightarrow> db)
     \<Rightarrow> db \<Rightarrow> pemPair result \<times> db" where
  "PanelClientCert x pr encKey e genCA n1 n2 n3 others1 others2 d =
     (case MTLSCA pr encKey e genCA n1 others1 d of
        (Inl err, d1) \<Rightarrow> (Inl err, d1)
      | (Inr ca, d1) \<Rightarrow>
          (case loadOrCreatePair pr encKey e (x_issue x ca 0) n2 others2 d1 mtlsPanelCertKey of
             (Inl err, d2) \<Rightarrow> (Inl err, d2)
           | (Inr p, d2) \<Rightarrow>
               if usablePanelCert x (pp_CertPEM ca) (pp_CertPEM p) (now e) then (Inr p, d2)
               else (case x_issue x ca 1 of
                   Inl err \<Rightarrow> (Inl err, d2)
                 | Inr fresh \<Rightarrow>
                     (case settings_Set ''PanelClientCert'' pr encKey e n3 d2 mtlsPanelCertKey (marshal_pair fresh) None of
                        (Inl err, d3) \<Rightarrow> (Inl err, d3)
                      | (Inr _, d3) \<Rightarrow> (Inr fresh, d3)))))"

section \<open>Mail settings\<close>

record SMTPConfig =
  sc_Host :: string
  sc_Port :: int
  sc_Username :: string
  sc_Password :: string
  sc_From :: string
  sc_TLSMode :: string

abbreviation SMTPTLSStartTLS :: string where "SMTPTLSStartTLS \<equiv> ''starttls''"
abbreviation SMTPTLSImplicit :: string where "SMTPTLSImplicit \<equiv> ''tls''"
abbreviation SMTPTLSNone :: string where "SMTPTLSNone \<equiv> ''none''"

definition smtp_Enabled :: "SMTPConfig \<Rightarrow> bool" where
  "smtp_Enabled c = (sc_Host c \<noteq> '''')"

definition DefaultSMTPTLSMode :: "int \<Rightarrow> string" where
  "DefaultSMTPTLSMode port = (if port = 465 then SMTPTLSImplicit else SMTPTLSStartTLS)"

definition smtp_Normalize :: "SMTPConfig \<Rightarrow> SMTPConfig" where
  "smtp_Normalize c =
     (let port = (if sc_Port c = 0 then 587 else sc_Port c);
          mode = to_lower (trim_space (sc_TLSMode c));
          user = trim_space (sc_Username c)
      in \<lparr>sc_Host = trim_space (sc_Host c), sc_Port = port, sc_Username = user,
          sc_Password = (if user = '''' then '''' else sc_Password c), sc_From = trim_space (sc_From c),
          sc_TLSMode = (if mode = '''' then DefaultSMTPTLSMode port else mode)\<rparr>)"

definition contains_any :: "string \<Rightarrow> nat list \<Rightarrow> bool" where
  "contains_any s bs = (\<exists>c \<in> set s. byte c \<in> set bs)"

definition hasCRLF :: "string \<Rightarrow> bool" where
  "hasCRLF s = contains_any s [13, 10]"

text \<open>\<open>parse\<close> is \<^verbatim>\<open>net/mail.ParseAddress\<close>: display name and address.\<close>

definition parseFromAddress :: "(string \<Rightarrow> (string \<times> string) result) \<Rightarrow> string \<Rightarrow> (string \<times> string) result" where
  "parseFromAddress parse from =
     (if hasCRLF from then Inl (New ''from address must not contain line breaks'')
      else wrapping ''from address is invalid'' (parse from))"

definition smtp_Validate :: "(string \<Rightarrow> (string \<times> string) result) \<Rightarrow> SMTPConfig \<Rightarrow> unit result" where
  "smtp_Validate parse c =
     (if sc_Host c = '''' then Inl (New ''host is required'')
      else if length (sc_Host c) > 253 \<or> contains_any (sc_Host c) [32, 9, 13, 10, 47, 64, 58]
      then Inl (New ''host must be a plain hostname or IPv4 address (no scheme, port or spaces)'')
      else if sc_Port c < 1 \<or> sc_Port c > 65535 then Inl (New ''port must be between 1 and 65535'')
      else if sc_TLSMode c \<notin> {SMTPTLSStartTLS, SMTPTLSImplicit, SMTPTLSNone}
      then Inl (New (''tls_mode must be '' @ quoted SMTPTLSStartTLS @ '', '' @ quoted SMTPTLSImplicit @ '' or '' @ quoted SMTPTLSNone))
      else if hasCRLF (sc_Username c) \<or> hasCRLF (sc_Password c)
      then Inl (New ''username and password must not contain line breaks'')
      else and_then (parseFromAddress parse (sc_From c)) (\<lambda>_. Inr ()))"

text \<open>The stored document.\<close>

definition marshal_smtp :: "SMTPConfig \<Rightarrow> string" where
  "marshal_smtp c = json_text (JObj
     [(''host'', JStr (sc_Host c)), (''port'', JNum (dec (sc_Port c))), (''username'', JStr (sc_Username c)),
      (''password'', JStr (sc_Password c)), (''from'', JStr (sc_From c)), (''tls_mode'', JStr (sc_TLSMode c))])"

definition json_str_field :: "json \<Rightarrow> string \<Rightarrow> string option" where
  "json_str_field v old = (case v of JStr t \<Rightarrow> Some t | JNull \<Rightarrow> Some old | _ \<Rightarrow> None)"

definition json_int_field :: "json \<Rightarrow> int \<Rightarrow> int option" where
  "json_int_field v old = (case v of JNum t \<Rightarrow> atoi t | JNull \<Rightarrow> Some old | _ \<Rightarrow> None)"

fun smtp_fields :: "(string \<times> json) list \<Rightarrow> SMTPConfig \<Rightarrow> SMTPConfig option" where
  "smtp_fields [] c = Some c"
| "smtp_fields ((k, v) # ms) c =
     (case (if equal_fold k ''host'' then map_option (\<lambda>x. c\<lparr>sc_Host := x\<rparr>) (json_str_field v (sc_Host c))
            else if equal_fold k ''port'' then map_option (\<lambda>x. c\<lparr>sc_Port := x\<rparr>) (json_int_field v (sc_Port c))
            else if equal_fold k ''username'' then map_option (\<lambda>x. c\<lparr>sc_Username := x\<rparr>) (json_str_field v (sc_Username c))
            else if equal_fold k ''password'' then map_option (\<lambda>x. c\<lparr>sc_Password := x\<rparr>) (json_str_field v (sc_Password c))
            else if equal_fold k ''from'' then map_option (\<lambda>x. c\<lparr>sc_From := x\<rparr>) (json_str_field v (sc_From c))
            else if equal_fold k ''tls_mode'' then map_option (\<lambda>x. c\<lparr>sc_TLSMode := x\<rparr>) (json_str_field v (sc_TLSMode c))
            else Some c) of
        None \<Rightarrow> None | Some c' \<Rightarrow> smtp_fields ms c')"

definition empty_smtp :: SMTPConfig where
  "empty_smtp = \<lparr>sc_Host = '''', sc_Port = 0, sc_Username = '''', sc_Password = '''', sc_From = '''', sc_TLSMode = ''''\<rparr>"

definition unmarshal_smtp :: "string \<Rightarrow> SMTPConfig option" where
  "unmarshal_smtp s =
     (case json_unmarshal s of
        Some (JObj ms) \<Rightarrow> smtp_fields ms empty_smtp | Some JNull \<Rightarrow> Some empty_smtp | _ \<Rightarrow> None)"

abbreviation smtpSettingsKey :: string where "smtpSettingsKey \<equiv> ''smtp_config''"

definition GetSMTP :: "prims \<Rightarrow> string \<Rightarrow> env \<Rightarrow> db \<Rightarrow> SMTPConfig option result" where
  "GetSMTP pr encKey e d =
     and_then (settings_Get ''GetSMTP'' pr encKey e d smtpSettingsKey) (\<lambda>raw.
       if raw = '''' then Inr None
       else (case unmarshal_smtp raw of
           None \<Rightarrow> Inl (Wrap ''decoding smtp settings'' (Driver ''json.Unmarshal''))
         | Some cfg \<Rightarrow> Inr (Some (smtp_Normalize cfg))))"

definition SetSMTP ::
  "prims \<Rightarrow> string \<Rightarrow> env \<Rightarrow> string \<Rightarrow> db \<Rightarrow> SMTPConfig option \<Rightarrow> uuid option \<Rightarrow> unit result \<times> db" where
  "SetSMTP pr encKey e nonce d cfg updatedBy =
     settings_Set ''SetSMTP'' pr encKey e nonce d smtpSettingsKey
       (case cfg of None \<Rightarrow> '''' | Some c \<Rightarrow> marshal_smtp c) updatedBy"

text \<open>The handlers.  The active configuration of the notifier, which \<^verbatim>\<open>SetConfig\<close>
  normalizes, is part of the state.\<close>

record smtpSettingsResponse =
  sr_Source :: string
  sr_Configured :: bool
  sr_Host :: string
  sr_Port :: int
  sr_Username :: string
  sr_PasswordSet :: bool
  sr_From :: string
  sr_TLSMode :: string

definition smtp_status :: "prims \<Rightarrow> string \<Rightarrow> env \<Rightarrow> db \<Rightarrow> SMTPConfig \<Rightarrow> smtpSettingsResponse result" where
  "smtp_status pr encKey e d cfg =
     and_then (GetSMTP pr encKey e d) (\<lambda>stored.
       Inr \<lparr>sr_Source = (if stored \<noteq> None then ''panel'' else if smtp_Enabled cfg then ''env'' else ''none''),
            sr_Configured = smtp_Enabled cfg, sr_Host = sc_Host cfg, sr_Port = sc_Port cfg,
            sr_Username = sc_Username cfg, sr_PasswordSet = (sc_Password cfg \<noteq> ''''), sr_From = sc_From cfg,
            sr_TLSMode = sc_TLSMode cfg\<rparr>)"

definition h_GetSMTP :: "prims \<Rightarrow> string \<Rightarrow> env \<Rightarrow> db \<Rightarrow> SMTPConfig \<Rightarrow> smtpSettingsResponse response" where
  "h_GetSMTP pr encKey e d cfg =
     (case smtp_status pr encKey e d cfg of
        Inl _ \<Rightarrow> Refuse 500 ''failed to load email settings'' | Inr r \<Rightarrow> Reply 200 r)"

record updateSMTPRequest =
  uq_Host :: string
  uq_Port :: int
  uq_Username :: string
  uq_Password :: "string option"
  uq_From :: string
  uq_TLSMode :: string

definition smtp_of_request :: "updateSMTPRequest \<Rightarrow> SMTPConfig" where
  "smtp_of_request req = smtp_Normalize \<lparr>sc_Host = uq_Host req, sc_Port = uq_Port req, sc_Username = uq_Username req,
     sc_Password = '''', sc_From = uq_From req, sc_TLSMode = uq_TLSMode req\<rparr>"

definition h_UpdateSMTP ::
  "(string \<Rightarrow> (string \<times> string) result) \<Rightarrow> SMTPConfig \<Rightarrow> prims \<Rightarrow> string \<Rightarrow> env \<Rightarrow> string \<Rightarrow> db \<Rightarrow> SMTPConfig
     \<Rightarrow> User \<Rightarrow> updateSMTPRequest result \<Rightarrow> smtpSettingsResponse response \<times> SMTPConfig \<times> db" where
  "h_UpdateSMTP parse envCfg pr encKey e nonce d active user body =
     (case body of Inl _ \<Rightarrow> (Refuse 400 ''invalid request body'', active, d)
      | Inr req \<Rightarrow>
          (let cfg = smtp_of_request req
           in if sc_Host cfg = '''' then
                (case SetSMTP pr encKey e nonce d None (Some (u_ID user)) of
                   (Inl _, d') \<Rightarrow> (Refuse 500 ''failed to clear email settings'', active, d')
                 | (Inr _, d') \<Rightarrow> (h_GetSMTP pr encKey e d' (smtp_Normalize envCfg), smtp_Normalize envCfg, d'))
              else
                (let cfg' = smtp_Normalize (cfg\<lparr>sc_Password := (case uq_Password req of
                       Some p \<Rightarrow> if p \<noteq> '''' then p else sc_Password active | None \<Rightarrow> sc_Password active)\<rparr>)
                 in case smtp_Validate parse cfg' of
                      Inl err \<Rightarrow> (Refuse 400 (Error err), active, d)
                    | Inr _ \<Rightarrow> (case SetSMTP pr encKey e nonce d (Some cfg') (Some (u_ID user)) of
                        (Inl _, d') \<Rightarrow> (Refuse 500 ''failed to save email settings'', active, d')
                      | (Inr _, d') \<Rightarrow> (h_GetSMTP pr encKey e d' (smtp_Normalize cfg'), smtp_Normalize cfg', d')))))"

text \<open>\<open>send\<close> is the delivery itself.\<close>

definition h_TestSMTP :: "(SMTPConfig \<Rightarrow> string \<Rightarrow> unit result) \<Rightarrow> SMTPConfig \<Rightarrow> User \<Rightarrow> string response" where
  "h_TestSMTP send active user =
     (if u_Email user = '''' then Refuse 400 ''your account has no email address''
      else if \<not> smtp_Enabled active then Refuse 400 ''email is not configured yet - save the settings first''
      else (case send active (u_Email user) of
          Inl err \<Rightarrow> Refuse 422 (''sending failed: '' @ Error err)
        | Inr _ \<Rightarrow> Reply 200 (u_Email user)))"

text \<open>A header line: control characters become spaces, runs of spaces collapse, and at
  most 200 runes stay.\<close>

function take_runes :: "nat \<Rightarrow> string \<Rightarrow> string" where
  "take_runes n [] = []"
| "take_runes 0 (c # cs) = []"
| "take_runes (Suc n) (c # cs) =
     take (rune_width (c # cs)) (c # cs) @ take_runes n (drop (rune_width (c # cs)) (c # cs))"
  by pat_completeness auto
termination
  by (relation "measure fst") auto

definition sanitizeHeader :: "string \<Rightarrow> string" where
  "sanitizeHeader s =
     (let t = join '' '' (Fields (map (\<lambda>c. if byte c < 32 \<or> byte c = 127 then CHR '' '' else c) s))
      in if rune_count t > 200 then take_runes 200 t else t)"

section \<open>The CurseForge key\<close>

text \<open>The key in memory, the configured flag and the last four characters of the stored key.\<close>

definition h_GetCurseForge :: "prims \<Rightarrow> string \<Rightarrow> env \<Rightarrow> db \<Rightarrow> string \<Rightarrow> (bool \<times> string) response" where
  "h_GetCurseForge pr encKey e d apiKey =
     (case settings_Get ''GetCurseForge'' pr encKey e d ''curseforge_api_key'' of
        Inl err \<Rightarrow> Refuse 500 (Error err)
      | Inr key \<Rightarrow> Reply 200 (apiKey \<noteq> '''', if length key > 4 then drop (length key - 4) key else ''''))"

definition h_UpdateCurseForge ::
  "prims \<Rightarrow> string \<Rightarrow> env \<Rightarrow> string \<Rightarrow> db \<Rightarrow> string \<Rightarrow> User \<Rightarrow> string result \<Rightarrow> bool response \<times> string \<times> db" where
  "h_UpdateCurseForge pr encKey e nonce d apiKey user body =
     (case body of Inl _ \<Rightarrow> (Refuse 400 ''invalid request body'', apiKey, d)
      | Inr key \<Rightarrow>
          (case settings_Set ''UpdateCurseForge'' pr encKey e nonce d ''curseforge_api_key'' key (Some (u_ID user)) of
             (Inl err, d') \<Rightarrow> (Refuse 500 (Error err), apiKey, d')
           | (Inr _, d') \<Rightarrow> (Reply 200 (key \<noteq> ''''), key, d')))"

end
