(* ===== verification/Destinations.thy ===== *)
theory Destinations
  imports Settings Servers
begin

text \<open>
  \<^verbatim>\<open>services/backup_destination_providers.go\<close>, \<^verbatim>\<open>services/backup_destination_service.go\<close>,
  \<^verbatim>\<open>daemon/rclone.go\<close> and \<^verbatim>\<open>handlers/backup_destinations.go\<close>: the off-site destinations
  of backups, the options a destination may carry, and what a node is sent.  Fields of the
  provider table that only the web interface shows are left out.  A Go map is an
  association list in the order in which the loop happens to visit it; \<open>flt\<close> is how
  \<^verbatim>\<open>encoding/json\<close> reads a number as \<^verbatim>\<open>float64\<close> and writes it again.
\<close>

section \<open>Providers\<close>

record DestinationField =
  df_Key :: string
  df_Label :: string
  df_Secret :: bool
  df_Required :: bool
  df_Choices :: "string list"
  df_Default :: string
  df_obscure :: bool
  df_token :: bool
  df_pem :: bool

definition plain_field :: "string \<Rightarrow> string \<Rightarrow> DestinationField" where
  "plain_field k l = \<lparr>df_Key = k, df_Label = l, df_Secret = False, df_Required = False, df_Choices = [],
     df_Default = '''', df_obscure = False, df_token = False, df_pem = False\<rparr>"

definition token_field :: DestinationField where
  "token_field = (plain_field ''token'' ''Token from rclone authorize'')\<lparr>df_Secret := True, df_Required := True, df_token := True\<rparr>"

record DestinationProvider =
  dp_ID :: string
  dp_Label :: string
  dp_Backend :: string
  dp_Fields :: "DestinationField list"
  dp_fixed :: strmap

definition destinationProviders :: "DestinationProvider list" where
  "destinationProviders =
     [\<lparr>dp_ID = ''onedrive'', dp_Label = ''Microsoft OneDrive'', dp_Backend = ''onedrive'',
       dp_Fields = [token_field, plain_field ''drive_id'' ''Drive ID'',
         (plain_field ''drive_type'' ''Drive type'')\<lparr>df_Choices := [''personal'', ''business'', ''documentLibrary'']\<rparr>,
         (plain_field ''region'' ''Region'')\<lparr>df_Choices := [''global'', ''us'', ''de'', ''cn''], df_Default := ''global''\<rparr>],
       dp_fixed = []\<rparr>,
      \<lparr>dp_ID = ''gdrive'', dp_Label = ''Google Drive'', dp_Backend = ''drive'',
       dp_Fields = [token_field, plain_field ''root_folder_id'' ''Root folder ID'',
         plain_field ''team_drive'' ''Shared drive ID''],
       dp_fixed = [(''scope'', ''drive'')]\<rparr>,
      \<lparr>dp_ID = ''dropbox'', dp_Label = ''Dropbox'', dp_Backend = ''dropbox'', dp_Fields = [token_field], dp_fixed = []\<rparr>,
      \<lparr>dp_ID = ''s3'', dp_Label = ''S3-compatible (AWS, Wasabi, Cloudflare R2, ...)'', dp_Backend = ''s3'',
       dp_Fields = [(plain_field ''provider'' ''Provider'')\<lparr>df_Required := True,
           df_Choices := [''AWS'', ''Wasabi'', ''Cloudflare'', ''Other''], df_Default := ''AWS''\<rparr>,
         (plain_field ''access_key_id'' ''Access key ID'')\<lparr>df_Secret := True, df_Required := True\<rparr>,
         (plain_field ''secret_access_key'' ''Secret access key'')\<lparr>df_Secret := True, df_Required := True\<rparr>,
         plain_field ''region'' ''Region'', plain_field ''endpoint'' ''Endpoint''],
       dp_fixed = []\<rparr>,
      \<lparr>dp_ID = ''b2'', dp_Label = ''Backblaze B2'', dp_Backend = ''b2'',
       dp_Fields = [(plain_field ''account'' ''Application key ID'')\<lparr>df_Secret := True, df_Required := True\<rparr>,
         (plain_field ''key'' ''Application key'')\<lparr>df_Secret := True, df_Required := True\<rparr>],
       dp_fixed = []\<rparr>,
      \<lparr>dp_ID = ''sftp'', dp_Label = ''SFTP server'', dp_Backend = ''sftp'',
       dp_Fields = [(plain_field ''host'' ''Host'')\<lparr>df_Required := True\<rparr>,
         (plain_field ''port'' ''Port'')\<lparr>df_Default := ''22''\<rparr>,
         (plain_field ''user'' ''User'')\<lparr>df_Required := True\<rparr>,
         (plain_field ''pass'' ''Password'')\<lparr>df_Secret := True, df_obscure := True\<rparr>,
         (plain_field ''key_pem'' ''Private key (PEM)'')\<lparr>df_Secret := True, df_pem := True\<rparr>],
       dp_fixed = []\<rparr>,
      \<lparr>dp_ID = ''webdav'', dp_Label = ''WebDAV / Nextcloud / ownCloud'', dp_Backend = ''webdav'',
       dp_Fields = [(plain_field ''url'' ''WebDAV URL'')\<lparr>df_Required := True\<rparr>,
         (plain_field ''vendor'' ''Vendor'')\<lparr>df_Choices := [''nextcloud'', ''owncloud'', ''sharepoint'', ''other''],
           df_Default := ''nextcloud''\<rparr>,
         (plain_field ''user'' ''User'')\<lparr>df_Required := True\<rparr>,
         (plain_field ''pass'' ''Password'')\<lparr>df_Secret := True, df_Required := True, df_obscure := True\<rparr>],
       dp_fixed = []\<rparr>]"

definition findProvider :: "string \<Rightarrow> DestinationProvider option" where
  "findProvider i = List.find (\<lambda>p. dp_ID p = i) destinationProviders"

definition provider_field :: "DestinationProvider \<Rightarrow> string \<Rightarrow> DestinationField option" where
  "provider_field p key = List.find (\<lambda>f. df_Key f = key) (dp_Fields p)"

abbreviation ErrInvalidDestination :: go_error where
  "ErrInvalidDestination \<equiv> New ''invalid backup destination''"

definition invalidf :: "string \<Rightarrow> go_error" where
  "invalidf msg = Note ErrInvalidDestination ('': '' @ msg)"

definition maxOptionValueLen :: nat where "maxOptionValueLen = 16 * 1024"

section \<open>Validation\<close>

definition forbidden_char :: "char \<Rightarrow> bool" where
  "forbidden_char c = (byte c \<in> {92, 58, 42, 63, 34, 60, 62, 124})"

text \<open>The last message goes on with the character, which is left out here.\<close>

fun check_segments :: "string list \<Rightarrow> unit result" where
  "check_segments [] = Inr ()"
| "check_segments (seg # segs) =
     (if seg = '''' then Inl (invalidf ''base path must not contain empty segments or a trailing /'')
      else if seg = ''.'' \<or> seg = ''..'' then Inl (invalidf ''base path must not contain . or ..'')
      else if has_prefix seg ''-'' then Inl (invalidf ''base path segments must not start with -'')
      else if trim_space seg \<noteq> seg then Inl (invalidf ''base path segments must not start or end with spaces'')
      else if has_control seg \<or> list_ex forbidden_char seg
      then Inl (invalidf ''base path contains a forbidden character'')
      else check_segments segs)"

definition ValidateRemoteBasePath :: "string \<Rightarrow> unit result" where
  "ValidateRemoteBasePath p =
     (if p = '''' then Inl (invalidf ''base path is required'')
      else if length p > 512 then Inl (invalidf ''base path is too long'')
      else (let rest = trim_prefix p ''/''
            in if rest = '''' then Inl (invalidf ''base path must name a folder'')
               else check_segments (split_on (CHR ''/'') rest)))"

text \<open>The text from the first opening to the last closing brace.\<close>

definition braces_part :: "string \<Rightarrow> string option" where
  "braces_part raw =
     (let t = dropWhile (\<lambda>c. c \<noteq> CHR ''{'') raw; u = rev (dropWhile (\<lambda>c. c \<noteq> CHR ''}'') (rev t))
      in if u = [] then None else Some u)"

text \<open>A decoded value as it is encoded again: keys sorted, the last of equal keys, numbers
  as \<^verbatim>\<open>float64\<close>.\<close>

fun json_nums :: "json \<Rightarrow> string list" where
  "json_nums (JNum t) = [t]"
| "json_nums (JArr vs) = concat (map json_nums vs)"
| "json_nums (JObj ms) = concat (map (\<lambda>(k, v). json_nums v) ms)"
| "json_nums _ = []"

definition last_bindings :: "(string \<times> 'a) list \<Rightarrow> (string \<times> 'a) list" where
  "last_bindings ms = sort_key fst (fold (\<lambda>(k, v) m. AList.update k v m) ms [])"

fun json_canon :: "(string \<Rightarrow> string option) \<Rightarrow> json \<Rightarrow> json" where
  "json_canon flt (JNum t) = JNum (case flt t of None \<Rightarrow> t | Some s \<Rightarrow> s)"
| "json_canon flt (JArr vs) = JArr (map (json_canon flt) vs)"
| "json_canon flt (JObj ms) = JObj (last_bindings (map (\<lambda>(k, v). (k, json_canon flt v)) ms))"
| "json_canon flt j = j"

definition normalizeOAuthToken :: "(string \<Rightarrow> string option) \<Rightarrow> string \<Rightarrow> string result" where
  "normalizeOAuthToken flt raw =
     (case braces_part raw of
        None \<Rightarrow> Inl (invalidf (''token must be the JSON printed by rclone authorize (it starts with {''
                 @ quoted ''access_token'' @ '')''))
      | Some t \<Rightarrow> (case json_unmarshal t of
          Some (JObj ms) \<Rightarrow>
            if list_ex (\<lambda>n. flt n = None) (json_nums (JObj ms))
            then Inl (invalidf (''token is not valid JSON: '' @ Error (Driver ''json.Unmarshal'')))
            else (case map_of (last_bindings ms) ''access_token'' of
                Some (JStr tok) \<Rightarrow>
                  if tok = '''' then Inl (invalidf ''token JSON has no access_token'')
                  else Inr (json_text (json_canon flt (JObj ms)))
              | _ \<Rightarrow> Inl (invalidf ''token JSON has no access_token''))
        | _ \<Rightarrow> Inl (invalidf (''token is not valid JSON: '' @ Error (Driver ''json.Unmarshal'')))))"

fun crlf_to_lf :: "string \<Rightarrow> string" where
  "crlf_to_lf (a # b # cs) = (if byte a = 13 \<and> byte b = 10 then b # crlf_to_lf cs else a # crlf_to_lf (b # cs))"
| "crlf_to_lf cs = cs"

definition lf_escaped :: "string \<Rightarrow> string" where
  "lf_escaped s = concat (map (\<lambda>c. if byte c = 10 then [CHR 0x5C, CHR ''n''] else [c]) s)"

definition single_line :: "string \<Rightarrow> bool" where
  "single_line s = (\<not> contains_any s [13, 10, 0])"

definition valid_port :: "string \<Rightarrow> bool" where
  "valid_port v = (case atoi v of None \<Rightarrow> False | Some p \<Rightarrow> 1 \<le> p \<and> p \<le> 65535 \<and> dec p = v)"

definition normalizeOption :: "(string \<Rightarrow> string option) \<Rightarrow> DestinationField \<Rightarrow> string \<Rightarrow> string result" where
  "normalizeOption flt f value0 =
     (if df_token f then normalizeOAuthToken flt value0
      else (let value = (if df_pem f then lf_escaped (trim_space (crlf_to_lf value0)) else trim_space value0)
            in if length value > maxOptionValueLen then Inl (invalidf (df_Label f @ '' is too long''))
               else if \<not> single_line value then Inl (invalidf (df_Label f @ '' must be a single line''))
               else if df_Choices f \<noteq> [] \<and> value \<noteq> '''' \<and> value \<notin> set (df_Choices f)
               then Inl (invalidf (df_Label f @ '' must be one of '' @ join '', '' (df_Choices f)))
               else if df_Key f = ''port'' \<and> value \<noteq> '''' \<and> \<not> valid_port value
               then Inl (invalidf ''port must be a number between 1 and 65535'')
               else if (df_Key f = ''url'' \<or> df_Key f = ''endpoint'') \<and> value \<noteq> ''''
                 \<and> \<not> has_prefix value ''https://'' \<and> \<not> has_prefix value ''http://''
               then Inl (invalidf (df_Label f @ '' must start with https:// or http://''))
               else Inr value))"

text \<open>The loops of \<^verbatim>\<open>splitDestinationOptions\<close>.\<close>

fun split_plain :: "(string \<Rightarrow> string option) \<Rightarrow> DestinationProvider \<Rightarrow> strmap \<Rightarrow> strmap \<Rightarrow> strmap result" where
  "split_plain flt p [] plain = Inr plain"
| "split_plain flt p ((k, v) # opts) plain =
     (case provider_field p k of
        None \<Rightarrow> Inl (invalidf (''unknown option '' @ quoted k @ '' for '' @ dp_Label p))
      | Some f \<Rightarrow>
          if df_Secret f then Inl (invalidf (df_Label f @ '' must be sent as a secret''))
          else (case normalizeOption flt f v of
              Inl err \<Rightarrow> Inl err
            | Inr nv \<Rightarrow> split_plain flt p opts (if nv \<noteq> '''' then AList.update k nv plain else plain)))"

fun split_secret :: "(string \<Rightarrow> string option) \<Rightarrow> DestinationProvider \<Rightarrow> strmap \<Rightarrow> strmap \<Rightarrow> strmap result" where
  "split_secret flt p [] sec = Inr sec"
| "split_secret flt p ((k, v) # secs) sec =
     (case provider_field p k of
        None \<Rightarrow> Inl (invalidf (''unknown secret '' @ quoted k @ '' for '' @ dp_Label p))
      | Some f \<Rightarrow>
          if \<not> df_Secret f then Inl (invalidf (''unknown secret '' @ quoted k @ '' for '' @ dp_Label p))
          else if trim_space v = '''' then split_secret flt p secs sec
          else (case normalizeOption flt f v of
              Inl err \<Rightarrow> Inl err
            | Inr nv \<Rightarrow> split_secret flt p secs (AList.update k nv sec)))"

definition kept_secrets :: "DestinationProvider \<Rightarrow> strmap \<Rightarrow> strmap" where
  "kept_secrets p existing =
     filter (\<lambda>(k, v). case provider_field p k of None \<Rightarrow> False | Some f \<Rightarrow> df_Secret f) existing"

definition missing_field :: "DestinationProvider \<Rightarrow> strmap \<Rightarrow> strmap \<Rightarrow> DestinationField option" where
  "missing_field p plain sec =
     List.find (\<lambda>f. df_Required f \<and> (if df_Secret f then map_get sec (df_Key f) = ''''
        else map_get plain (df_Key f) = '''' \<and> df_Default f = '''')) (dp_Fields p)"

definition splitDestinationOptions ::
  "(string \<Rightarrow> string option) \<Rightarrow> DestinationProvider \<Rightarrow> strmap \<Rightarrow> strmap \<Rightarrow> strmap \<Rightarrow> (strmap \<times> strmap) result" where
  "splitDestinationOptions flt p options secrets existing =
     and_then (split_plain flt p options []) (\<lambda>plain.
     and_then (split_secret flt p secrets (kept_secrets p existing)) (\<lambda>sec.
       case missing_field p plain sec of
         Some f \<Rightarrow> Inl (invalidf (df_Label f @ '' is required''))
       | None \<Rightarrow>
           let prov = (if map_get plain ''provider'' = '''' then ''AWS'' else map_get plain ''provider'')
           in if dp_ID p = ''sftp'' \<and> map_get sec ''pass'' = '''' \<and> map_get sec ''key_pem'' = ''''
              then Inl (invalidf ''SFTP needs a password or a private key'')
              else if dp_ID p = ''s3'' \<and> prov \<noteq> ''AWS'' \<and> map_get plain ''endpoint'' = ''''
              then Inl (invalidf (''Endpoint is required for '' @ prov))
              else if dp_ID p = ''onedrive'' \<and> (map_get plain ''drive_id'' = '''') \<noteq> (map_get plain ''drive_type'' = '''')
              then Inl (invalidf ''Drive ID and Drive type must be set together (or both left empty)'')
              else Inr (plain, sec)))"

text \<open>What is sent to the node: every field with a value or a default, then the fixed options.\<close>

definition field_value :: "strmap \<Rightarrow> strmap \<Rightarrow> DestinationField \<Rightarrow> string" where
  "field_value plain secrets f =
     (let v = (if df_Secret f then map_get secrets (df_Key f) else map_get plain (df_Key f))
      in if v = '''' then df_Default f else v)"

definition rcloneOptions :: "DestinationProvider \<Rightarrow> strmap \<Rightarrow> strmap \<Rightarrow> strmap \<times> string list" where
  "rcloneOptions p plain secrets =
     (let used = filter (\<lambda>f. field_value plain secrets f \<noteq> '''') (dp_Fields p);
          out = fold (\<lambda>f m. AList.update (df_Key f) (field_value plain secrets f) m) used []
      in (fold (\<lambda>(k, v) m. AList.update k v m) (dp_fixed p) out, map df_Key (filter df_obscure used)))"

definition writableConfigKeys :: "string list" where
  "writableConfigKeys = [''token'', ''drive_id'', ''drive_type'']"

section \<open>The service\<close>

abbreviation ErrDestinationNotFound :: go_error where
  "ErrDestinationNotFound \<equiv> New ''backup destination not found''"
abbreviation ErrDestinationInUse :: go_error where
  "ErrDestinationInUse \<equiv>
     New ''backup destination still holds backups that exist only off-site; delete those backups first''"
abbreviation ErrNoNodeForTest :: go_error where
  "ErrNoNodeForTest \<equiv> New ''no online node is connected - a node is needed to run the connection test''"

text \<open>The client view: no secrets, only the names of those that are set.\<close>

record BackupDestination =
  d_ID :: uuid
  d_Name :: string
  d_Provider :: string
  d_BasePath :: string
  d_Options :: strmap
  d_SecretsSet :: "string list"
  d_KeepLocal :: bool
  d_RetentionCount :: "int option"
  d_CreatedAt :: time
  d_UpdatedAt :: time

record SaveDestinationRequest =
  sq_Name :: string
  sq_Provider :: string
  sq_BasePath :: string
  sq_Options :: strmap
  sq_Secrets :: strmap
  sq_KeepLocal :: "bool option"
  sq_RetentionCount :: "int option"

text \<open>A row with its secrets decrypted.\<close>

definition row_secrets :: "prims \<Rightarrow> string \<Rightarrow> DestinationRow \<Rightarrow> strmap result" where
  "row_secrets pr encKey r =
     (if bd_Secrets r = '''' then Inr []
      else and_then (wrapping ''decrypting destination secrets'' (Decrypt pr encKey (bd_Secrets r))) (\<lambda>plain.
        case unmarshal_strmap plain of
          None \<Rightarrow> Inl (Wrap ''decoding destination secrets'' (Driver ''json.Unmarshal''))
        | Some m \<Rightarrow> Inr m))"

definition dest_scan :: "prims \<Rightarrow> string \<Rightarrow> DestinationRow \<Rightarrow> (BackupDestination \<times> strmap) result" where
  "dest_scan pr encKey r =
     and_then (row_secrets pr encKey r) (\<lambda>secrets.
       Inr (\<lparr>d_ID = bd_ID r, d_Name = bd_Name r, d_Provider = bd_Provider r, d_BasePath = bd_BasePath r,
             d_Options = bd_Options r, d_SecretsSet = map fst (filter (\<lambda>(k, v). v \<noteq> '''') secrets),
             d_KeepLocal = bd_KeepLocal r, d_RetentionCount = bd_RetentionCount r,
             d_CreatedAt = bd_CreatedAt r, d_UpdatedAt = bd_UpdatedAt r\<rparr>, secrets))"

definition find_destination :: "db \<Rightarrow> uuid \<Rightarrow> DestinationRow option" where
  "find_destination d i = List.find (\<lambda>r. bd_ID r = i) (backup_destinations d)"

definition dest_get :: "string \<Rightarrow> prims \<Rightarrow> string \<Rightarrow> env \<Rightarrow> db \<Rightarrow> uuid \<Rightarrow> (BackupDestination \<times> strmap) result" where
  "dest_get lbl pr encKey e d i =
     (case call e lbl (find_destination d i) of
        Inl err \<Rightarrow> Inl err
      | Inr None \<Rightarrow> Inl ErrDestinationNotFound
      | Inr (Some r) \<Rightarrow> dest_scan pr encKey r)"

fun scan_all :: "prims \<Rightarrow> string \<Rightarrow> DestinationRow list \<Rightarrow> BackupDestination list result" where
  "scan_all pr encKey [] = Inr []"
| "scan_all pr encKey (r # rs) =
     and_then (dest_scan pr encKey r) (\<lambda>(v, _). and_then (scan_all pr encKey rs) (\<lambda>vs. Inr (v # vs)))"

definition dest_List :: "prims \<Rightarrow> string \<Rightarrow> env \<Rightarrow> db \<Rightarrow> (string \<Rightarrow> nat) \<Rightarrow> BackupDestination list result" where
  "dest_List pr encKey e d collation =
     and_then (wrapping ''querying backup destinations'' (call e ''dest.List'' ())) (\<lambda>_.
       scan_all pr encKey (sort_key (\<lambda>r. collation (bd_Name r)) (backup_destinations d)))"

record BackupDestinationSummary =
  dsm_ID :: uuid
  dsm_Name :: string
  dsm_Provider :: string
  dsm_KeepLocal :: bool

definition dest_ListSummaries :: "env \<Rightarrow> db \<Rightarrow> (string \<Rightarrow> nat) \<Rightarrow> BackupDestinationSummary list result" where
  "dest_ListSummaries e d collation =
     wrapping ''querying backup destinations'' (call e ''dest.ListSummaries''
       (map (\<lambda>r. \<lparr>dsm_ID = bd_ID r, dsm_Name = bd_Name r, dsm_Provider = bd_Provider r, dsm_KeepLocal = bd_KeepLocal r\<rparr>)
         (sort_key (\<lambda>r. collation (bd_Name r)) (backup_destinations d))))"

definition dest_Get :: "prims \<Rightarrow> string \<Rightarrow> env \<Rightarrow> db \<Rightarrow> uuid \<Rightarrow> BackupDestination result" where
  "dest_Get pr encKey e d i = and_then (dest_get ''dest.get'' pr encKey e d i) (\<lambda>(v, _). Inr v)"

definition dest_Exists :: "env \<Rightarrow> db \<Rightarrow> uuid \<Rightarrow> bool result" where
  "dest_Exists e d i = call e ''dest.Exists'' (find_destination d i \<noteq> None)"

definition encryptSecrets :: "prims \<Rightarrow> string \<Rightarrow> env \<Rightarrow> string \<Rightarrow> strmap \<Rightarrow> string result" where
  "encryptSecrets pr encKey e nonce sec =
     (if sec = [] then Inr '''' else Encrypt pr e nonce encKey (marshal_strmap sec))"

text \<open>The provider, and the request with its fields trimmed.\<close>

definition validateDestinationMeta ::
  "SaveDestinationRequest \<Rightarrow> (DestinationProvider \<times> SaveDestinationRequest) result" where
  "validateDestinationMeta req =
     (let name = trim_space (sq_Name req); base = trim_space (sq_BasePath req);
          keep = (case sq_RetentionCount req of Some n \<Rightarrow> if n \<le> 0 then None else Some n | None \<Rightarrow> None)
      in if name = '''' \<or> length name > 64 then Inl (invalidf ''name is required (at most 64 characters)'')
         else if \<not> single_line name then Inl (invalidf ''name must be a single line'')
         else (case findProvider (sq_Provider req) of
             None \<Rightarrow> Inl (invalidf (''unknown provider '' @ quoted (sq_Provider req)))
           | Some p \<Rightarrow> (case ValidateRemoteBasePath base of
                 Inl err \<Rightarrow> Inl err
               | Inr _ \<Rightarrow>
                   if (case keep of Some n \<Rightarrow> n > 10000 | None \<Rightarrow> False)
                   then Inl (invalidf ''retention must be at most 10000 backups'')
                   else Inr (p, req\<lparr>sq_Name := name, sq_BasePath := base, sq_RetentionCount := keep\<rparr>))))"

definition ErrNameTaken :: go_error where
  "ErrNameTaken = invalidf ''a destination with this name already exists''"

definition dest_Create ::
  "(string \<Rightarrow> string option) \<Rightarrow> prims \<Rightarrow> string \<Rightarrow> env \<Rightarrow> uuid \<Rightarrow> string \<Rightarrow> db \<Rightarrow> SaveDestinationRequest \<Rightarrow> uuid option
     \<Rightarrow> BackupDestination result \<times> db" where
  "dest_Create flt pr encKey e newID nonce d req0 createdBy =
     (case validateDestinationMeta req0 of
        Inl err \<Rightarrow> (Inl err, d)
      | Inr (p, req) \<Rightarrow> (case splitDestinationOptions flt p (sq_Options req) (sq_Secrets req) [] of
          Inl err \<Rightarrow> (Inl err, d)
        | Inr (plain, sec) \<Rightarrow> (case encryptSecrets pr encKey e nonce sec of
            Inl err \<Rightarrow> (Inl (Wrap ''encrypting destination secrets'' err), d)
          | Inr encSec \<Rightarrow>
              let r = \<lparr>bd_ID = newID, bd_Name = sq_Name req, bd_Provider = dp_ID p, bd_BasePath = sq_BasePath req,
                       bd_Options = plain, bd_Secrets = encSec,
                       bd_KeepLocal = (case sq_KeepLocal req of None \<Rightarrow> True | Some b \<Rightarrow> b),
                       bd_RetentionCount = sq_RetentionCount req, bd_CreatedBy = createdBy,
                       bd_CreatedAt = now e, bd_UpdatedAt = now e\<rparr>
              in if fault e ''dest.insert'' \<or> find_destination d newID \<noteq> None
                   \<or> (case createdBy of None \<Rightarrow> False | Some u \<Rightarrow> find_user d u = None)
                 then (Inl (Driver ''dest.insert''), d)
                 else if \<exists>x \<in> set (backup_destinations d). bd_Name x = sq_Name req then (Inl ErrNameTaken, d)
                 else (map_sum id fst (dest_scan pr encKey r),
                       d\<lparr>backup_destinations := backup_destinations d @ [r]\<rparr>))))"

text \<open>The transaction of an update returns the old database on an error.\<close>

definition dest_update_row ::
  "SaveDestinationRequest \<Rightarrow> DestinationProvider \<Rightarrow> strmap \<Rightarrow> string \<Rightarrow> bool \<Rightarrow> time \<Rightarrow> DestinationRow \<Rightarrow> DestinationRow" where
  "dest_update_row req p plain encSec keepLocal t r =
     r\<lparr>bd_Name := sq_Name req, bd_Provider := dp_ID p, bd_BasePath := sq_BasePath req, bd_Options := plain,
       bd_Secrets := encSec, bd_KeepLocal := keepLocal, bd_RetentionCount := sq_RetentionCount req, bd_UpdatedAt := t\<rparr>"

definition dest_update_stmt ::
  "prims \<Rightarrow> string \<Rightarrow> env \<Rightarrow> db \<Rightarrow> uuid \<Rightarrow> string \<Rightarrow> (DestinationRow \<Rightarrow> DestinationRow) \<Rightarrow> BackupDestination result \<times> db" where
  "dest_update_stmt pr encKey e d i name f =
     (let d' = d\<lparr>backup_destinations := update_where (\<lambda>r. bd_ID r = i) f (backup_destinations d)\<rparr>
      in if fault e ''dest.update'' then (Inl (Driver ''dest.update''), d)
         else if \<exists>x \<in> set (backup_destinations d). bd_ID x \<noteq> i \<and> bd_Name x = name then (Inl ErrNameTaken, d)
         else (case dest_get ''dest.returning'' pr encKey e d' i of
             Inl err \<Rightarrow> (Inl err, d)
           | Inr (v, _) \<Rightarrow> if fault e ''dest.commit'' then (Inl (Driver ''dest.commit''), d) else (Inr v, d')))"

definition dest_Update ::
  "(string \<Rightarrow> string option) \<Rightarrow> prims \<Rightarrow> string \<Rightarrow> env \<Rightarrow> string \<Rightarrow> db \<Rightarrow> uuid \<Rightarrow> SaveDestinationRequest
     \<Rightarrow> BackupDestination result \<times> db" where
  "dest_Update flt pr encKey e nonce d i req0 =
     (case validateDestinationMeta req0 of
        Inl err \<Rightarrow> (Inl err, d)
      | Inr (p, req) \<Rightarrow>
          if fault e ''dest.begin'' then (Inl (Driver ''dest.begin''), d)
          else (case dest_get ''dest.get'' pr encKey e d i of
              Inl err \<Rightarrow> (Inl err, d)
            | Inr (cur, secrets) \<Rightarrow>
                (case splitDestinationOptions flt p (sq_Options req) (sq_Secrets req)
                    (if d_Provider cur \<noteq> dp_ID p then [] else secrets) of
                  Inl err \<Rightarrow> (Inl err, d)
                | Inr (plain, sec) \<Rightarrow> (case encryptSecrets pr encKey e nonce sec of
                    Inl err \<Rightarrow> (Inl (Wrap ''encrypting destination secrets'' err), d)
                  | Inr encSec \<Rightarrow> dest_update_stmt pr encKey e d i (sq_Name req)
                      (dest_update_row req p plain encSec
                         (case sq_KeepLocal req of None \<Rightarrow> d_KeepLocal cur | Some b \<Rightarrow> b) (now e))))))"

definition remote_only :: "Backup \<Rightarrow> uuid \<Rightarrow> bool" where
  "remote_only b i = (b_DestinationID b = Some i \<and> \<not> b_LocalPresent b \<and> b_UploadStatus b = Some ''done'')"

text \<open>The references to the row are set to null.\<close>

definition delete_destination_row :: "db \<Rightarrow> uuid \<Rightarrow> db" where
  "delete_destination_row d i =
     d\<lparr>backup_destinations := delete_where (\<lambda>r. bd_ID r = i) (backup_destinations d),
       backups := update_where (\<lambda>b. b_DestinationID b = Some i) (\<lambda>b. b\<lparr>b_DestinationID := None\<rparr>) (backups d),
       backup_schedules := update_where (\<lambda>s. bs_DestinationID s = Some i) (\<lambda>s. s\<lparr>bs_DestinationID := None\<rparr>)
         (backup_schedules d)\<rparr>"

text \<open>The check and the deletion are two statements.\<close>

definition dest_usage_check :: "env \<Rightarrow> db \<Rightarrow> uuid \<Rightarrow> unit result" where
  "dest_usage_check e d i =
     (if fault e ''dest.usage'' then Inl (Wrap ''checking destination usage'' (Driver ''dest.usage''))
      else refuse_if (rows_affected (\<lambda>b. remote_only b i) (backups d) > 0) ErrDestinationInUse)"

definition dest_delete_stmt :: "env \<Rightarrow> db \<Rightarrow> uuid \<Rightarrow> unit result \<times> db" where
  "dest_delete_stmt e d i =
     (if fault e ''dest.delete'' then (Inl (Wrap ''deleting destination'' (Driver ''dest.delete'')), d)
      else if rows_affected (\<lambda>r. bd_ID r = i) (backup_destinations d) = 0 then (Inl ErrDestinationNotFound, d)
      else (Inr (), delete_destination_row d i))"

definition dest_Delete :: "env \<Rightarrow> db \<Rightarrow> uuid \<Rightarrow> unit result \<times> db" where
  "dest_Delete e d i =
     (case dest_usage_check e d i of Inl err \<Rightarrow> (Inl err, d) | Inr _ \<Rightarrow> dest_delete_stmt e d i)"

section \<open>Remote operations of a node\<close>

record RemoteSpec =
  rs_Backend :: string
  rs_Options :: strmap
  rs_Obscure :: "string list"
  rs_BasePath :: string

definition dest_RemoteSpec ::
  "prims \<Rightarrow> string \<Rightarrow> env \<Rightarrow> db \<Rightarrow> uuid \<Rightarrow> (RemoteSpec \<times> BackupDestination) result" where
  "dest_RemoteSpec pr encKey e d i =
     and_then (dest_get ''dest.spec'' pr encKey e d i) (\<lambda>(v, secrets).
       case findProvider (d_Provider v) of
         None \<Rightarrow> Inl (invalidf (''unknown provider '' @ quoted (d_Provider v)))
       | Some p \<Rightarrow> (case rcloneOptions p (d_Options v) secrets of (opts, obscure) \<Rightarrow>
           Inr (\<lparr>rs_Backend = dp_Backend p, rs_Options = opts, rs_Obscure = obscure, rs_BasePath = d_BasePath v\<rparr>, v)))"

text \<open>The answer of a node to an rclone request: a result, a \<^verbatim>\<open>RemoteError\<close> with what rclone
  changed, or a transport error.\<close>

datatype remote_answer =
    RemoteOK string strmap
  | RemoteErr string strmap
  | TransportErr go_error

record RemoteResult =
  rr_Success :: bool
  rr_Error :: string
  rr_RemotePath :: string
  rr_ConfigUpdates :: strmap

text \<open>Decoding goes on after a field of the wrong type and reports the error at the end; a
  map entry of the wrong type is the empty string.\<close>

fun strmap_lenient :: "(string \<times> json) list \<Rightarrow> strmap \<times> bool \<Rightarrow> strmap \<times> bool" where
  "strmap_lenient [] acc = acc"
| "strmap_lenient ((k, v) # ms) (m, ok) =
     (case v of
        JStr t \<Rightarrow> strmap_lenient ms (AList.update k t m, ok)
      | JNull \<Rightarrow> strmap_lenient ms (AList.update k '''' m, ok)
      | _ \<Rightarrow> strmap_lenient ms (AList.update k '''' m, False))"

fun result_fields :: "(string \<times> json) list \<Rightarrow> RemoteResult \<times> bool \<Rightarrow> RemoteResult \<times> bool" where
  "result_fields [] acc = acc"
| "result_fields ((k, v) # ms) (r, ok) =
     (if equal_fold k ''success'' then
        (case v of JBool b \<Rightarrow> result_fields ms (r\<lparr>rr_Success := b\<rparr>, ok)
         | JNull \<Rightarrow> result_fields ms (r, ok) | _ \<Rightarrow> result_fields ms (r, False))
      else if equal_fold k ''error'' then
        (case json_str_field v (rr_Error r) of Some t \<Rightarrow> result_fields ms (r\<lparr>rr_Error := t\<rparr>, ok)
         | None \<Rightarrow> result_fields ms (r, False))
      else if equal_fold k ''remote_path'' then
        (case json_str_field v (rr_RemotePath r) of Some t \<Rightarrow> result_fields ms (r\<lparr>rr_RemotePath := t\<rparr>, ok)
         | None \<Rightarrow> result_fields ms (r, False))
      else if equal_fold k ''config_updates'' then
        (case v of
           JObj kvs \<Rightarrow> (case strmap_lenient kvs (rr_ConfigUpdates r, ok) of
               (m, ok') \<Rightarrow> result_fields ms (r\<lparr>rr_ConfigUpdates := m\<rparr>, ok'))
         | JNull \<Rightarrow> result_fields ms (r\<lparr>rr_ConfigUpdates := []\<rparr>, ok)
         | _ \<Rightarrow> result_fields ms (r, False))
      else result_fields ms (r, ok))"

definition decode_result :: "string \<Rightarrow> RemoteResult \<times> bool" where
  "decode_result raw =
     (let zero = \<lparr>rr_Success = False, rr_Error = '''', rr_RemotePath = '''', rr_ConfigUpdates = []\<rparr>
      in case json_unmarshal raw of
           Some (JObj ms) \<Rightarrow> result_fields ms (zero, True)
         | Some JNull \<Rightarrow> (zero, True)
         | _ \<Rightarrow> (zero, False))"

text \<open>\<open>resp\<close> is what the HTTP client returns: status and body.  The request body always
  encodes, and building the request cannot fail for the paths the client uses.\<close>

definition postRemote :: "string \<Rightarrow> (nat \<times> string) result \<Rightarrow> remote_answer" where
  "postRemote path resp =
     (case resp of
        Inl err \<Rightarrow> TransportErr (Wrap (''daemon: POST '' @ path) err)
      | Inr (status, body) \<Rightarrow>
          (let raw = take 1048576 body; (out, ok) = decode_result raw
           in if status = 404 \<and> \<not> ok
              then RemoteErr (''this node's daemon does not support off-site backups yet '' @ [CHR 0xE2, CHR 0x80, CHR 0x94]
                     @ '' update the daemon on the node'') []
              else if status \<ge> 400 \<or> \<not> rr_Success out
              then RemoteErr (if rr_Error out = '''' then ''daemon returned '' @ dec_nat status @ '': '' @ trim_space raw
                     else rr_Error out) (rr_ConfigUpdates out)
              else if \<not> ok then TransportErr (Wrap (''daemon: decode '' @ path @ '' response'') (Driver ''json.Unmarshal''))
              else RemoteOK (rr_RemotePath out) (rr_ConfigUpdates out)))"

definition answer_error :: "remote_answer \<Rightarrow> go_error option" where
  "answer_error a = (case a of RemoteOK _ _ \<Rightarrow> None | RemoteErr m _ \<Rightarrow> Some (New m) | TransportErr err \<Rightarrow> Some err)"

definition answer_updates :: "remote_answer \<Rightarrow> strmap" where
  "answer_updates a = (case a of RemoteOK _ u \<Rightarrow> u | RemoteErr _ u \<Rightarrow> u | TransportErr _ \<Rightarrow> [])"

text \<open>Storing what rclone changed.  A token is normalized, other values are taken as they are.\<close>

definition accepted_update ::
  "(string \<Rightarrow> string option) \<Rightarrow> DestinationProvider \<Rightarrow> string \<Rightarrow> string \<Rightarrow> (DestinationField \<times> string) option" where
  "accepted_update flt p k v =
     (case provider_field p k of
        None \<Rightarrow> None
      | Some f \<Rightarrow>
          if k \<notin> set writableConfigKeys \<or> v = '''' \<or> length v > maxOptionValueLen \<or> \<not> single_line v then None
          else if df_token f then (case normalizeOAuthToken flt v of Inl _ \<Rightarrow> None | Inr nv \<Rightarrow> Some (f, nv))
          else Some (f, v))"

fun apply_updates ::
  "(string \<Rightarrow> string option) \<Rightarrow> DestinationProvider \<Rightarrow> strmap \<Rightarrow> strmap \<times> strmap \<times> bool \<Rightarrow> strmap \<times> strmap \<times> bool" where
  "apply_updates flt p [] acc = acc"
| "apply_updates flt p ((k, v) # us) (opts, secrets, changed) =
     (case accepted_update flt p k v of
        None \<Rightarrow> apply_updates flt p us (opts, secrets, changed)
      | Some (f, nv) \<Rightarrow>
          if df_Secret f then
            (if map_get secrets k \<noteq> nv then apply_updates flt p us (opts, AList.update k nv secrets, True)
             else apply_updates flt p us (opts, secrets, changed))
          else if map_get opts k \<noteq> nv then apply_updates flt p us (AList.update k nv opts, secrets, True)
          else apply_updates flt p us (opts, secrets, changed))"

definition applyConfigUpdates ::
  "(string \<Rightarrow> string option) \<Rightarrow> prims \<Rightarrow> string \<Rightarrow> env \<Rightarrow> string \<Rightarrow> db \<Rightarrow> uuid \<Rightarrow> strmap \<Rightarrow> unit result \<times> db" where
  "applyConfigUpdates flt pr encKey e nonce d i updates =
     (if fault e ''updates.begin'' then (Inl (Driver ''updates.begin''), d)
      else (case dest_get ''updates.get'' pr encKey e d i of
          Inl err \<Rightarrow> (Inl err, d)
        | Inr (v, secrets) \<Rightarrow> (case findProvider (d_Provider v) of
            None \<Rightarrow> (Inr (), d)
          | Some p \<Rightarrow> (case apply_updates flt p updates (d_Options v, secrets, False) of
              (opts, secs, changed) \<Rightarrow>
                if \<not> changed then (Inr (), d)
                else (case encryptSecrets pr encKey e nonce secs of
                    Inl err \<Rightarrow> (Inl err, d)
                  | Inr encSec \<Rightarrow>
                      if fault e ''updates.exec'' then (Inl (Driver ''updates.exec''), d)
                      else if fault e ''updates.commit'' then (Inl (Driver ''updates.commit''), d)
                      else (Inr (), d\<lparr>backup_destinations := update_where (\<lambda>r. bd_ID r = i)
                        (\<lambda>r. r\<lparr>bd_Options := opts, bd_Secrets := encSec, bd_UpdatedAt := now e\<rparr>)
                        (backup_destinations d)\<rparr>)))))) "

definition ApplyConfigUpdates ::
  "(string \<Rightarrow> string option) \<Rightarrow> prims \<Rightarrow> string \<Rightarrow> env \<Rightarrow> string \<Rightarrow> db \<Rightarrow> uuid \<Rightarrow> strmap \<Rightarrow> db" where
  "ApplyConfigUpdates flt pr encKey e nonce d i updates =
     (if updates = [] then d else snd (applyConfigUpdates flt pr encKey e nonce d i updates))"

text \<open>The updates of an answer, also of a failed run; a transport error carries none.\<close>

definition save_answer ::
  "(string \<Rightarrow> string option) \<Rightarrow> prims \<Rightarrow> string \<Rightarrow> env \<Rightarrow> string \<Rightarrow> db \<Rightarrow> uuid \<Rightarrow> remote_answer \<Rightarrow> db" where
  "save_answer flt pr encKey e nonce d i a = ApplyConfigUpdates flt pr encKey e nonce d i (answer_updates a)"

text \<open>\<^verbatim>\<open>ORDER BY last_heartbeat DESC NULLS LAST\<close>.\<close>

definition by_heartbeat :: "Node list \<Rightarrow> Node list" where
  "by_heartbeat ns =
     sort_key (\<lambda>n. - the (n_LastHeartbeat n)) (filter (\<lambda>n. n_LastHeartbeat n \<noteq> None) ns)
     @ filter (\<lambda>n. n_LastHeartbeat n = None) ns"

definition pickTestClient :: "(uuid \<Rightarrow> string) \<Rightarrow> env \<Rightarrow> ClientPool \<Rightarrow> db \<Rightarrow> uuid option \<Rightarrow> Client result" where
  "pickTestClient str e pool d nodeID =
     (case nodeID of
        Some n \<Rightarrow> (case pool_Get str pool n of Inl _ \<Rightarrow> Inl ErrNoNodeForTest | Inr c \<Rightarrow> Inr c)
      | None \<Rightarrow>
          if fault e ''pickTestClient'' then Inl (Wrap ''listing nodes'' (Driver ''pickTestClient''))
          else (case List.find (\<lambda>n. is_ok (pool_Get str pool (n_ID n)))
                   (by_heartbeat (filter (\<lambda>n. n_Status n = ''online'') (nodes d))) of
              None \<Rightarrow> Inl ErrNoNodeForTest
            | Some n \<Rightarrow> pool_Get str pool (n_ID n)))"

definition dest_Test ::
  "(string \<Rightarrow> string option) \<Rightarrow> (uuid \<Rightarrow> string) \<Rightarrow> prims \<Rightarrow> string \<Rightarrow> env \<Rightarrow> string \<Rightarrow> ClientPool
     \<Rightarrow> (Client \<Rightarrow> RemoteSpec \<Rightarrow> remote_answer) \<Rightarrow> db \<Rightarrow> uuid \<Rightarrow> uuid option \<Rightarrow> unit result \<times> db" where
  "dest_Test flt str pr encKey e nonce pool test d i nodeID =
     (case dest_RemoteSpec pr encKey e d i of
        Inl err \<Rightarrow> (Inl err, d)
      | Inr (spec, _) \<Rightarrow> (case pickTestClient str e pool d nodeID of
          Inl err \<Rightarrow> (Inl err, d)
        | Inr client \<Rightarrow>
            (let a = test client spec
             in (case answer_error a of None \<Rightarrow> Inr () | Some err \<Rightarrow> Inl err, save_answer flt pr encKey e nonce d i a))))"

section \<open>Handlers\<close>

definition dest_writeErr :: "go_error \<Rightarrow> 'a response" where
  "dest_writeErr err =
     (if errors_is err ErrDestinationNotFound then Refuse 404 (Error err)
      else if errors_is err ErrInvalidDestination \<or> errors_is err ErrDestinationInUse then Refuse 400 (Error err)
      else Refuse 500 ''backup destination operation failed'')"

definition dest_answer :: "nat \<Rightarrow> 'a result \<Rightarrow> 'a response" where
  "dest_answer code r = (case r of Inl err \<Rightarrow> dest_writeErr err | Inr v \<Rightarrow> Reply code v)"

definition h_dest_Providers :: "DestinationProvider list response" where
  "h_dest_Providers = Reply 200 destinationProviders"

definition h_dest_List :: "prims \<Rightarrow> string \<Rightarrow> env \<Rightarrow> db \<Rightarrow> (string \<Rightarrow> nat) \<Rightarrow> BackupDestination list response" where
  "h_dest_List pr encKey e d collation = dest_answer 200 (dest_List pr encKey e d collation)"

definition h_dest_ListSummaries :: "env \<Rightarrow> db \<Rightarrow> (string \<Rightarrow> nat) \<Rightarrow> BackupDestinationSummary list response" where
  "h_dest_ListSummaries e d collation = dest_answer 200 (dest_ListSummaries e d collation)"

definition h_dest_Create ::
  "(string \<Rightarrow> string option) \<Rightarrow> prims \<Rightarrow> string \<Rightarrow> env \<Rightarrow> uuid \<Rightarrow> string \<Rightarrow> db \<Rightarrow> User \<Rightarrow> SaveDestinationRequest result
     \<Rightarrow> BackupDestination response \<times> db" where
  "h_dest_Create flt pr encKey e newID nonce d user body =
     (case body of Inl _ \<Rightarrow> (Refuse 400 ''invalid request body'', d)
      | Inr req \<Rightarrow> (case dest_Create flt pr encKey e newID nonce d req (Some (u_ID user)) of
          (r, d') \<Rightarrow> (dest_answer 201 r, d')))"

definition h_dest_Update ::
  "(string \<Rightarrow> string option) \<Rightarrow> prims \<Rightarrow> string \<Rightarrow> env \<Rightarrow> string \<Rightarrow> db \<Rightarrow> uuid option \<Rightarrow> SaveDestinationRequest result
     \<Rightarrow> BackupDestination response \<times> db" where
  "h_dest_Update flt pr encKey e nonce d param body =
     (case param of None \<Rightarrow> (Refuse 400 ''invalid ID format'', d)
      | Some i \<Rightarrow> (case body of Inl _ \<Rightarrow> (Refuse 400 ''invalid request body'', d)
        | Inr req \<Rightarrow> (case dest_Update flt pr encKey e nonce d i req of (r, d') \<Rightarrow> (dest_answer 200 r, d'))))"

definition h_dest_Delete :: "env \<Rightarrow> db \<Rightarrow> uuid option \<Rightarrow> string response \<times> db" where
  "h_dest_Delete e d param =
     (case param of None \<Rightarrow> (Refuse 400 ''invalid ID format'', d)
      | Some i \<Rightarrow> (case dest_Delete e d i of
          (Inl err, d') \<Rightarrow> (dest_writeErr err, d') | (Inr _, d') \<Rightarrow> (Reply 200 ''destination deleted'', d')))"

text \<open>The flag and the text of the answer.\<close>

definition h_dest_Test ::
  "(string \<Rightarrow> string option) \<Rightarrow> (uuid \<Rightarrow> string) \<Rightarrow> prims \<Rightarrow> string \<Rightarrow> env \<Rightarrow> string \<Rightarrow> ClientPool
     \<Rightarrow> (Client \<Rightarrow> RemoteSpec \<Rightarrow> remote_answer) \<Rightarrow> db \<Rightarrow> uuid option \<Rightarrow> uuid option \<Rightarrow> (bool \<times> string) response \<times> db" where
  "h_dest_Test flt str pr encKey e nonce pool test d param nodeID =
     (case param of None \<Rightarrow> (Refuse 400 ''invalid ID format'', d)
      | Some i \<Rightarrow> (case dest_Test flt str pr encKey e nonce pool test d i nodeID of
          (Inr _, d') \<Rightarrow> (Reply 200 (True, ''''), d')
        | (Inl err, d') \<Rightarrow>
            (if errors_is err ErrDestinationNotFound \<or> errors_is err ErrInvalidDestination then dest_writeErr err
             else Reply 200 (False, Error err), d')))"

end
