(* ===== verification/Backups.thy ===== *)
theory Backups
  imports Destinations Cron Permissions
begin

text \<open>
  \<^verbatim>\<open>services/backup_service.go\<close> and \<^verbatim>\<open>handlers/backups.go\<close>: backup records, the archive,
  upload, restore and download of a backup on its node, retention, schedules and their runner,
  and the handlers.

  The work of a goroutine is a value of the type \<open>backup_job\<close> that the operation returns and
  a definition that runs it, so that operations can happen in between.  What a node answers is
  a parameter, a record with one function per call of the daemon client.  The service has
  its two collaborators (\<^verbatim>\<open>dests\<close>, \<^verbatim>\<open>settings\<close>), as the router builds it.  Time stamps of the
  database and of the process are the same clock, and the session of the database is in UTC.
\<close>

section \<open>State\<close>

abbreviation ErrBackupNotFound :: go_error where
  "ErrBackupNotFound \<equiv> New ''backup not found''"

abbreviation ErrScheduleNotFound :: go_error where
  "ErrScheduleNotFound \<equiv> New ''backup schedule not found''"

record CreateBackupRequest =
  cb_ServerID :: uuid
  cb_WorldName :: string
  cb_Type :: string
  cb_Storage :: string
  cb_DestinationID :: "uuid option"

record CreateScheduleRequest =
  cs_ServerID :: uuid
  cs_CronExpr :: string
  cs_Type :: string
  cs_Storage :: string
  cs_RetentionCount :: "int option"
  cs_RetentionDays :: "int option"
  cs_DestinationID :: "uuid option"

record EncKey =
  ek_Key :: string
  ek_KeyID :: "8 word"

record BackupNode =
  bn_CreateBackup :: "Client \<Rightarrow> uuid \<Rightarrow> uuid \<Rightarrow> EncKey option \<Rightarrow> (int \<times> string) result"
  bn_DeleteBackupArchive :: "Client \<Rightarrow> uuid \<Rightarrow> uuid \<Rightarrow> unit result"
  bn_UploadBackup :: "Client \<Rightarrow> uuid \<Rightarrow> uuid \<Rightarrow> RemoteSpec \<Rightarrow> remote_answer"
  bn_DeleteRemoteBackup :: "Client \<Rightarrow> uuid \<Rightarrow> uuid \<Rightarrow> RemoteSpec \<Rightarrow> remote_answer"
  bn_RestoreBackup :: "Client \<Rightarrow> uuid \<Rightarrow> uuid \<Rightarrow> EncKey option \<Rightarrow> unit result"
  bn_RestoreBackupFrom :: "Client \<Rightarrow> uuid \<Rightarrow> uuid \<Rightarrow> RemoteSpec \<Rightarrow> EncKey option \<Rightarrow> remote_answer"
  bn_DownloadBackup :: "Client \<Rightarrow> uuid \<Rightarrow> uuid \<Rightarrow> string result"
  bn_DownloadBackupFrom :: "Client \<Rightarrow> uuid \<Rightarrow> uuid \<Rightarrow> RemoteSpec option \<Rightarrow> EncKey option \<Rightarrow> string result"

text \<open>The goroutines: archive, upload, restore.\<close>

datatype backup_job =
    RunBackup uuid uuid uuid "uuid option" "EncKey option"
  | RunUpload uuid uuid uuid uuid
  | RunRestore uuid uuid uuid "uuid option" "RemoteSpec option" "EncKey option"

text \<open>What the service is built with: the parsing of numbers and the text of ids (see
  \<open>Destinations\<close>), the encryption primitives and key, the daemon clients.\<close>

record BackupService =
  bx_flt :: "string \<Rightarrow> string option"
  bx_str :: "uuid \<Rightarrow> string"
  bx_prims :: prims
  bx_encKey :: string
  bx_daemons :: ClientPool

section \<open>Keys\<close>

definition activeEncKey ::
  "BackupService \<Rightarrow> env \<Rightarrow> key_seed \<Rightarrow> db \<Rightarrow> (EncKey \<times> int) result \<times> db" where
  "activeEncKey s e seed d =
     (case BackupKeyring (bx_prims s) (bx_encKey s) e seed d of
        (Inl err, d') \<Rightarrow> (Inl err, d')
      | (Inr kr, d') \<Rightarrow> (case ActiveKey kr of
            (_, None) \<Rightarrow> (Inl (New ''backup keyring has no active key''), d')
          | (i, Some key) \<Rightarrow> (Inr (\<lparr>ek_Key = key, ek_KeyID = i\<rparr>, uint i), d')))"

definition find_backup :: "db \<Rightarrow> uuid \<Rightarrow> Backup option" where
  "find_backup d i = List.find (\<lambda>b. b_ID b = i) (backups d)"

definition encKeyForBackup ::
  "BackupService \<Rightarrow> env \<Rightarrow> key_seed \<Rightarrow> db \<Rightarrow> uuid \<Rightarrow> EncKey option result \<times> db" where
  "encKeyForBackup s e seed d backupID =
     (case call e ''encKeyForBackup'' (find_backup d backupID) of
        Inl err \<Rightarrow> (Inl (Wrap ''loading backup key id'' err), d)
      | Inr None \<Rightarrow> (Inl (Wrap ''loading backup key id'' ErrNoRows), d)
      | Inr (Some b) \<Rightarrow> (case b_EncKeyID b of
          None \<Rightarrow> (Inr None, d)
        | Some n \<Rightarrow> (case BackupKeyring (bx_prims s) (bx_encKey s) e seed d of
            (Inl err, d') \<Rightarrow> (Inl err, d')
          | (Inr kr, d') \<Rightarrow> (case KeyByID kr (word_of_int n) of
              None \<Rightarrow> (Inl (New (''the key that encrypted this backup (id '' @ dec n @ '') is missing from the keyring'')), d')
            | Some key \<Rightarrow> (Inr (Some \<lparr>ek_Key = key, ek_KeyID = word_of_int n\<rparr>), d')))))"

section \<open>Records\<close>

definition serverNode :: "env \<Rightarrow> db \<Rightarrow> uuid \<Rightarrow> uuid result" where
  "serverNode e d serverID =
     (case call e ''serverNode'' (find_server d serverID) of
        Inl err \<Rightarrow> Inl (Wrap ''resolving server node'' err)
      | Inr None \<Rightarrow> Inl ErrServerNotFound
      | Inr (Some sv) \<Rightarrow> Inr (sv_NodeID sv))"

text \<open>The columns of \<^verbatim>\<open>backupSelect\<close>: those of the row, with the name of the destination and
  whether a key id is recorded.\<close>

record BackupView =
  bv_row :: Backup
  bv_DestinationName :: "string option"
  bv_Encrypted :: bool

definition backup_view :: "db \<Rightarrow> Backup \<Rightarrow> BackupView" where
  "backup_view d b = \<lparr>bv_row = b,
     bv_DestinationName = Option.bind (b_DestinationID b) (\<lambda>i. map_option bd_Name (find_destination d i)),
     bv_Encrypted = (b_EncKeyID b \<noteq> None)\<rparr>"

definition newest_first :: "Backup list \<Rightarrow> Backup list" where
  "newest_first bs = sort_key (\<lambda>b. - b_CreatedAt b) bs"

definition ListBackups :: "env \<Rightarrow> db \<Rightarrow> uuid option \<Rightarrow> BackupView list result" where
  "ListBackups e d serverID =
     wrapping ''querying backups'' (call e ''ListBackups''
       (map (backup_view d) (take 100 (newest_first
          (filter (\<lambda>b. case serverID of None \<Rightarrow> True | Some i \<Rightarrow> b_ServerID b = Some i) (backups d))))))"

definition getBackup :: "env \<Rightarrow> db \<Rightarrow> uuid \<Rightarrow> BackupView result" where
  "getBackup e d backupID =
     (case call e ''getBackup'' (find_backup d backupID) of
        Inl err \<Rightarrow> Inl (Wrap ''fetching backup'' err)
      | Inr None \<Rightarrow> Inl ErrBackupNotFound
      | Inr (Some b) \<Rightarrow> Inr (backup_view d b))"

text \<open>A null server id is scanned as the nil id.\<close>

definition BackupServerID :: "env \<Rightarrow> db \<Rightarrow> uuid \<Rightarrow> uuid result" where
  "BackupServerID e d backupID =
     (case call e ''BackupServerID'' (find_backup d backupID) of
        Inl err \<Rightarrow> Inl err
      | Inr None \<Rightarrow> Inl ErrBackupNotFound
      | Inr (Some b) \<Rightarrow> Inr (case b_ServerID b of None \<Rightarrow> 0 | Some i \<Rightarrow> i))"

definition set_backup :: "db \<Rightarrow> uuid \<Rightarrow> (Backup \<Rightarrow> Backup) \<Rightarrow> db" where
  "set_backup d i f = d\<lparr>backups := update_where (\<lambda>b. b_ID b = i) f (backups d)\<rparr>"

text \<open>A statement whose error is ignored or only logged.\<close>

definition try_exec :: "env \<Rightarrow> string \<Rightarrow> db \<Rightarrow> db \<Rightarrow> db" where
  "try_exec e lbl d d' = (if fault e lbl then d else d')"

definition drop_backup :: "db \<Rightarrow> uuid \<Rightarrow> db" where
  "drop_backup d i = d\<lparr>backups := delete_where (\<lambda>b. b_ID b = i) (backups d)\<rparr>"

definition checkDestination :: "env \<Rightarrow> db \<Rightarrow> uuid option \<Rightarrow> unit result" where
  "checkDestination e d i =
     (case i of
        None \<Rightarrow> Inr ()
      | Some i \<Rightarrow> and_then (wrapping ''checking destination'' (dest_Exists e d i)) (\<lambda>ok.
          refuse_if (\<not> ok) ErrDestinationNotFound))"

section \<open>Creating a backup\<close>

definition backup_types :: "string list" where
  "backup_types = [''full'', ''world'', ''files'']"

definition new_backup ::
  "(uuid \<Rightarrow> string) \<Rightarrow> env \<Rightarrow> uuid \<Rightarrow> CreateBackupRequest \<Rightarrow> string \<Rightarrow> string \<Rightarrow> int \<Rightarrow> Backup" where
  "new_backup str e newID req typ triggeredBy keyID =
     \<lparr>b_ID = newID, b_ServerID = Some (cb_ServerID req), b_WorldName = Some (cb_WorldName req), b_Type = typ,
      b_Storage = ''local'', b_StoragePath = ''backups/'' @ str (cb_ServerID req), b_SizeBytes = None,
      b_Status = ''pending'', b_TriggeredBy = triggeredBy, b_CreatedAt = now e, b_CompletedAt = None, b_Error = None,
      b_DestinationID = cb_DestinationID req, b_RemotePath = None,
      b_UploadStatus = (if cb_DestinationID req = None then None else Some ''pending''), b_UploadError = None,
      b_LocalPresent = True, b_EncKeyID = Some keyID\<rparr>"

text \<open>The statement fails on a type outside the enumeration of the column and on an id in use.\<close>

definition createBackup ::
  "BackupService \<Rightarrow> env \<Rightarrow> uuid \<Rightarrow> key_seed \<Rightarrow> db \<Rightarrow> CreateBackupRequest \<Rightarrow> string
     \<Rightarrow> (BackupView \<times> backup_job) result \<times> db" where
  "createBackup s e newID seed d req triggeredBy =
     (let typ = (if cb_Type req = '''' then ''full'' else cb_Type req)
      in case checkDestination e d (cb_DestinationID req) of
        Inl err \<Rightarrow> (Inl err, d)
      | Inr _ \<Rightarrow> (case serverNode e d (cb_ServerID req) of
          Inl err \<Rightarrow> (Inl err, d)
        | Inr nodeID \<Rightarrow> (case activeEncKey s e seed d of
            (Inl err, d1) \<Rightarrow> (Inl err, d1)
          | (Inr (enc, keyID), d1) \<Rightarrow>
              if fault e ''createBackup.insert'' \<or> typ \<notin> set backup_types \<or> find_backup d1 newID \<noteq> None
              then (Inl (Wrap ''creating backup'' (Driver ''createBackup.insert'')), d1)
              else (let d2 = d1\<lparr>backups := backups d1 @ [new_backup (bx_str s) e newID req typ triggeredBy keyID]\<rparr>
                    in case getBackup e d2 newID of
                      Inl err \<Rightarrow> (Inl err, d2)
                    | Inr b \<Rightarrow> (Inr (b, RunBackup newID (cb_ServerID req) nodeID (cb_DestinationID req) (Some enc)), d2)))))"

definition CreateBackup ::
  "BackupService \<Rightarrow> env \<Rightarrow> uuid \<Rightarrow> key_seed \<Rightarrow> db \<Rightarrow> CreateBackupRequest \<Rightarrow> (BackupView \<times> backup_job) result \<times> db" where
  "CreateBackup s e newID seed d req = createBackup s e newID seed d req ''manual''"

definition failBackup :: "env \<Rightarrow> db \<Rightarrow> uuid \<Rightarrow> string \<Rightarrow> db" where
  "failBackup e d backupID msg =
     try_exec e ''failBackup'' d (set_backup d backupID (\<lambda>b. b\<lparr>b_Status := ''failed'', b_Error := Some msg,
       b_UploadError := (if b_UploadStatus b = None then None else Some ''backup archive failed''),
       b_UploadStatus := (if b_UploadStatus b = None then None else Some ''failed'')\<rparr>))"

definition maxUploadErrorLen :: nat where "maxUploadErrorLen = 2000"

definition truncateError :: "string \<Rightarrow> string" where
  "truncateError msg = (if length msg > maxUploadErrorLen then take maxUploadErrorLen msg @ ''...'' else msg)"

definition failUpload :: "env \<Rightarrow> db \<Rightarrow> uuid \<Rightarrow> string \<Rightarrow> db" where
  "failUpload e d backupID msg =
     try_exec e ''failUpload'' d (set_backup d backupID
       (\<lambda>b. b\<lparr>b_UploadStatus := Some ''failed'', b_UploadError := Some (truncateError msg)\<rparr>))"

section \<open>Uploads\<close>

text \<open>\<open>nonce\<close> gives the random draws of an operation in order.  A label with the id of a
  backup names the statement of that turn of a loop.\<close>

definition store_answer :: "BackupService \<Rightarrow> env \<Rightarrow> string \<Rightarrow> db \<Rightarrow> uuid \<Rightarrow> remote_answer \<Rightarrow> db" where
  "store_answer s e nonce d destinationID a =
     save_answer (bx_flt s) (bx_prims s) (bx_encKey s) e nonce d destinationID a"

definition forget_remote :: "env \<Rightarrow> db \<Rightarrow> uuid \<Rightarrow> bool \<Rightarrow> db" where
  "forget_remote e d i local =
     try_exec e (''pruneRemote.row'' @ dec_nat i) d
       (if local then set_backup d i (\<lambda>b. b\<lparr>b_UploadStatus := None, b_UploadError := None, b_RemotePath := None\<rparr>)
        else drop_backup d i)"

fun prune_remote_loop ::
  "BackupService \<Rightarrow> BackupNode \<Rightarrow> env \<Rightarrow> (nat \<Rightarrow> string) \<Rightarrow> nat \<Rightarrow> Client \<Rightarrow> RemoteSpec \<Rightarrow> uuid \<Rightarrow> uuid
     \<Rightarrow> (uuid \<times> bool) list \<Rightarrow> db \<Rightarrow> db" where
  "prune_remote_loop s bn e nonce k client spec serverID destinationID [] d = d"
| "prune_remote_loop s bn e nonce k client spec serverID destinationID ((i, local) # olds) d =
     (let a = bn_DeleteRemoteBackup bn client serverID i spec;
          d1 = store_answer s e (nonce k) d destinationID a
      in prune_remote_loop s bn e nonce (Suc k) client spec serverID destinationID olds
           (case answer_error a of Some _ \<Rightarrow> d1 | None \<Rightarrow> forget_remote e d1 i local))"

definition uploaded :: "db \<Rightarrow> uuid \<Rightarrow> uuid \<Rightarrow> Backup list" where
  "uploaded d serverID destinationID =
     filter (\<lambda>b. b_ServerID b = Some serverID \<and> b_DestinationID b = Some destinationID
       \<and> b_UploadStatus b = Some ''done'') (backups d)"

definition pruneRemote ::
  "BackupService \<Rightarrow> BackupNode \<Rightarrow> env \<Rightarrow> (nat \<Rightarrow> string) \<Rightarrow> nat \<Rightarrow> db \<Rightarrow> Client \<Rightarrow> RemoteSpec \<Rightarrow> uuid \<Rightarrow> uuid \<Rightarrow> int \<Rightarrow> db" where
  "pruneRemote s bn e nonce k d client spec serverID destinationID keep =
     (if fault e ''pruneRemote.query'' then d
      else prune_remote_loop s bn e nonce k client spec serverID destinationID
        (map (\<lambda>b. (b_ID b, b_LocalPresent b)) (drop (nat keep) (newest_first (uploaded d serverID destinationID)))) d)"

text \<open>The local archive is removed after an upload that is recorded, unless the destination
  keeps it.\<close>

definition drop_local :: "BackupNode \<Rightarrow> env \<Rightarrow> db \<Rightarrow> Client \<Rightarrow> uuid \<Rightarrow> uuid \<Rightarrow> bool \<Rightarrow> db" where
  "drop_local bn e d client serverID backupID keepLocal =
     (if keepLocal then d
      else (case bn_DeleteBackupArchive bn client serverID backupID of
          Inl _ \<Rightarrow> d
        | Inr _ \<Rightarrow> try_exec e ''upload.local'' d (set_backup d backupID (\<lambda>b. b\<lparr>b_LocalPresent := False\<rparr>))))"

definition upload_done ::
  "BackupService \<Rightarrow> BackupNode \<Rightarrow> env \<Rightarrow> (nat \<Rightarrow> string) \<Rightarrow> db \<Rightarrow> Client \<Rightarrow> RemoteSpec \<Rightarrow> BackupDestination
     \<Rightarrow> uuid \<Rightarrow> uuid \<Rightarrow> uuid \<Rightarrow> string \<Rightarrow> db" where
  "upload_done s bn e nonce d client spec dest backupID serverID destinationID remotePath =
     (if fault e ''upload.done'' then d
      else (let d1 = set_backup d backupID (\<lambda>b. b\<lparr>b_UploadStatus := Some ''done'', b_UploadError := None,
                       b_RemotePath := Some remotePath\<rparr>);
                d2 = drop_local bn e d1 client serverID backupID (d_KeepLocal dest)
            in case d_RetentionCount dest of
                 None \<Rightarrow> d2
               | Some keep \<Rightarrow> if keep > 0 then pruneRemote s bn e nonce 1 d2 client spec serverID destinationID keep else d2))"

definition uploadBackup ::
  "BackupService \<Rightarrow> BackupNode \<Rightarrow> env \<Rightarrow> (nat \<Rightarrow> string) \<Rightarrow> db \<Rightarrow> uuid \<Rightarrow> uuid \<Rightarrow> uuid \<Rightarrow> uuid \<Rightarrow> db" where
  "uploadBackup s bn e nonce d backupID serverID nodeID destinationID =
     (case dest_RemoteSpec (bx_prims s) (bx_encKey s) e d destinationID of
        Inl err \<Rightarrow> failUpload e d backupID (''backup destination is no longer available: '' @ Error err)
      | Inr (spec, dest) \<Rightarrow> (case pool_Get (bx_str s) (bx_daemons s) nodeID of
          Inl _ \<Rightarrow> failUpload e d backupID ''daemon not connected''
        | Inr client \<Rightarrow>
            (let d1 = try_exec e ''upload.start'' d (set_backup d backupID
                        (\<lambda>b. b\<lparr>b_UploadStatus := Some ''uploading'', b_UploadError := None\<rparr>));
                 a = bn_UploadBackup bn client serverID backupID spec;
                 d2 = store_answer s e (nonce 0) d1 destinationID a
             in case a of
                  RemoteOK remotePath _ \<Rightarrow>
                    upload_done s bn e nonce d2 client spec dest backupID serverID destinationID remotePath
                | RemoteErr m _ \<Rightarrow> failUpload e d2 backupID m
                | TransportErr err \<Rightarrow> failUpload e d2 backupID (Error err))))"

definition runBackup ::
  "BackupService \<Rightarrow> BackupNode \<Rightarrow> env \<Rightarrow> (nat \<Rightarrow> string) \<Rightarrow> db \<Rightarrow> uuid \<Rightarrow> uuid \<Rightarrow> uuid \<Rightarrow> uuid option \<Rightarrow> EncKey option \<Rightarrow> db" where
  "runBackup s bn e nonce d backupID serverID nodeID destinationID enc =
     (case pool_Get (bx_str s) (bx_daemons s) nodeID of
        Inl _ \<Rightarrow> failBackup e d backupID ''daemon not connected''
      | Inr client \<Rightarrow>
          (let d1 = try_exec e ''runBackup.running'' d (set_backup d backupID (\<lambda>b. b\<lparr>b_Status := ''running''\<rparr>))
           in case bn_CreateBackup bn client serverID backupID enc of
                Inl err \<Rightarrow> failBackup e d1 backupID (Error err)
              | Inr (sz, path) \<Rightarrow>
                  if fault e ''runBackup.completed'' then d1
                  else (let d2 = set_backup d1 backupID (\<lambda>b. b\<lparr>b_Status := ''completed'', b_SizeBytes := Some sz,
                                   b_StoragePath := path, b_CompletedAt := Some (now e), b_Error := None\<rparr>)
                        in case destinationID of
                             None \<Rightarrow> d2
                           | Some dst \<Rightarrow> uploadBackup s bn e nonce d2 backupID serverID nodeID dst)))"

definition RetryUpload ::
  "env \<Rightarrow> db \<Rightarrow> uuid \<Rightarrow> (BackupView \<times> backup_job) result \<times> db" where
  "RetryUpload e d backupID =
     (case getBackup e d backupID of
        Inl err \<Rightarrow> (Inl err, d)
      | Inr v \<Rightarrow>
          (let b = bv_row v
           in case (b_DestinationID b, b_ServerID b) of
                (Some dst, Some serverID) \<Rightarrow>
                  if b_Status b \<noteq> ''completed'' then (Inl (New ''backup has no off-site copy to upload''), d)
                  else if b_UploadStatus b = Some ''done'' \<or> b_UploadStatus b = Some ''uploading''
                  then (Inl (New (''upload is already '' @ the (b_UploadStatus b))), d)
                  else if \<not> b_LocalPresent b then (Inl (New ''the local archive is gone; nothing to upload''), d)
                  else (case serverNode e d serverID of
                      Inl err \<Rightarrow> (Inl err, d)
                    | Inr nodeID \<Rightarrow>
                        (Inr (v\<lparr>bv_row := b\<lparr>b_UploadStatus := Some ''pending'', b_UploadError := None\<rparr>\<rparr>,
                              RunUpload backupID serverID nodeID dst),
                         try_exec e ''RetryUpload'' d (set_backup d backupID
                           (\<lambda>b. b\<lparr>b_UploadStatus := Some ''pending'', b_UploadError := None\<rparr>))))
              | _ \<Rightarrow> (Inl (New ''backup has no off-site copy to upload''), d)))"

section \<open>Deletion, restore, download\<close>

text \<open>What removing the off-site copy before the record leads to: an error, or the database
  with what rclone changed.\<close>

definition delete_remote_copy ::
  "BackupService \<Rightarrow> BackupNode \<Rightarrow> env \<Rightarrow> string \<Rightarrow> db \<Rightarrow> Backup \<Rightarrow> uuid \<Rightarrow> Client option \<Rightarrow> unit result \<times> db" where
  "delete_remote_copy s bn e nonce d b serverID client =
     (case b_DestinationID b of
        None \<Rightarrow> (Inr (), d)
      | Some dst \<Rightarrow>
          if b_UploadStatus b \<noteq> Some ''done'' then (Inr (), d)
          else (case dest_RemoteSpec (bx_prims s) (bx_encKey s) e d dst of
              Inl err \<Rightarrow> if errors_is err ErrDestinationNotFound then (Inr (), d) else (Inl err, d)
            | Inr (spec, _) \<Rightarrow> (case client of
                None \<Rightarrow> (Inl (New ''daemon not connected; cannot delete the off-site copy''), d)
              | Some c \<Rightarrow>
                  (let a = bn_DeleteRemoteBackup bn c serverID (b_ID b) spec;
                       d1 = store_answer s e nonce d dst a
                   in case answer_error a of
                        Some err \<Rightarrow> (Inl (Wrap ''could not delete the off-site copy'' err), d1)
                      | None \<Rightarrow> (Inr (), d1)))))"

definition backup_client :: "BackupService \<Rightarrow> env \<Rightarrow> db \<Rightarrow> uuid \<Rightarrow> Client option" where
  "backup_client s e d serverID =
     (case serverNode e d serverID of
        Inl _ \<Rightarrow> None
      | Inr nodeID \<Rightarrow> (case pool_Get (bx_str s) (bx_daemons s) nodeID of Inl _ \<Rightarrow> None | Inr c \<Rightarrow> Some c))"

text \<open>Both copies of a backup of a server.  The calls to remove an archive on a node are part of
  the answer; their errors are only logged.\<close>

definition delete_copies ::
  "BackupService \<Rightarrow> BackupNode \<Rightarrow> env \<Rightarrow> string \<Rightarrow> db \<Rightarrow> Backup \<Rightarrow> (unit result \<times> (Client \<times> uuid \<times> uuid) list) \<times> db" where
  "delete_copies s bn e nonce d b =
     (case b_ServerID b of
        None \<Rightarrow> ((Inr (), []), d)
      | Some serverID \<Rightarrow>
          (let client = backup_client s e d serverID
           in case delete_remote_copy s bn e nonce d b serverID client of
                (Inl err, d1) \<Rightarrow> ((Inl err, []), d1)
              | (Inr _, d1) \<Rightarrow>
                  ((Inr (), (case client of None \<Rightarrow> []
                     | Some c \<Rightarrow> if b_LocalPresent b then [(c, serverID, b_ID b)] else [])), d1)))"

definition DeleteBackup ::
  "BackupService \<Rightarrow> BackupNode \<Rightarrow> env \<Rightarrow> string \<Rightarrow> db \<Rightarrow> uuid \<Rightarrow> (unit result \<times> (Client \<times> uuid \<times> uuid) list) \<times> db" where
  "DeleteBackup s bn e nonce d backupID =
     (case getBackup e d backupID of
        Inl err \<Rightarrow> ((Inl err, []), d)
      | Inr v \<Rightarrow> (case delete_copies s bn e nonce d (bv_row v) of
          ((Inl err, calls), d1) \<Rightarrow> ((Inl err, calls), d1)
        | ((Inr _, calls), d1) \<Rightarrow>
            if fault e ''DeleteBackup'' then ((Inl (Wrap ''deleting backup'' (Driver ''DeleteBackup'')), calls), d1)
            else if rows_affected (\<lambda>b. b_ID b = backupID) (backups d1) = 0
            then ((Inl ErrBackupNotFound, calls), d1)
            else ((Inr (), calls), drop_backup d1 backupID)))"

definition remoteSourceFor :: "BackupService \<Rightarrow> env \<Rightarrow> db \<Rightarrow> Backup \<Rightarrow> RemoteSpec option result" where
  "remoteSourceFor s e d b =
     (if b_LocalPresent b then Inr None
      else (case b_DestinationID b of
          None \<Rightarrow> Inl (New ''the local archive was removed and no off-site copy is available'')
        | Some dst \<Rightarrow>
            if b_UploadStatus b \<noteq> Some ''done''
            then Inl (New ''the local archive was removed and no off-site copy is available'')
            else and_then (wrapping ''off-site destination unavailable''
                   (dest_RemoteSpec (bx_prims s) (bx_encKey s) e d dst)) (\<lambda>(spec, _). Inr (Some spec))))"

text \<open>What restore and download have in common: the server, its node, the remote source and the
  key.  The key is read last, after the source.\<close>

definition restore_source ::
  "string \<Rightarrow> BackupService \<Rightarrow> env \<Rightarrow> key_seed \<Rightarrow> db \<Rightarrow> uuid
     \<Rightarrow> (BackupView \<times> uuid \<times> uuid \<times> RemoteSpec option \<times> EncKey option) result \<times> db" where
  "restore_source what s e seed d backupID =
     (case getBackup e d backupID of
        Inl err \<Rightarrow> (Inl err, d)
      | Inr v \<Rightarrow>
          (let b = bv_row v
           in if b_Status b \<noteq> ''completed''
              then (Inl (New (''backup is not '' @ what @ '' (status: '' @ b_Status b @ '')'')), d)
              else (case b_ServerID b of
                  None \<Rightarrow> (Inl (New ''backup has no associated server''), d)
                | Some serverID \<Rightarrow> (case serverNode e d serverID of
                    Inl err \<Rightarrow> (Inl err, d)
                  | Inr nodeID \<Rightarrow> (case remoteSourceFor s e d b of
                      Inl err \<Rightarrow> (Inl err, d)
                    | Inr remote \<Rightarrow> (case encKeyForBackup s e seed d backupID of
                        (Inl err, d') \<Rightarrow> (Inl err, d')
                      | (Inr enc, d') \<Rightarrow> (Inr (v, serverID, nodeID, remote, enc), d')))))))"

definition RestoreBackup ::
  "BackupService \<Rightarrow> env \<Rightarrow> key_seed \<Rightarrow> db \<Rightarrow> uuid \<Rightarrow> (BackupView \<times> backup_job) result \<times> db" where
  "RestoreBackup s e seed d backupID =
     (case restore_source ''restorable'' s e seed d backupID of
        (Inl err, d') \<Rightarrow> (Inl err, d')
      | (Inr (v, serverID, nodeID, remote, enc), d') \<Rightarrow>
          (Inr (v, RunRestore backupID serverID nodeID (b_DestinationID (bv_row v)) remote enc), d'))"

text \<open>The goroutine of a restore.  Only an off-site restore can change the database, by the
  settings an error of rclone carries.\<close>

definition run_restore ::
  "BackupService \<Rightarrow> BackupNode \<Rightarrow> env \<Rightarrow> string \<Rightarrow> db \<Rightarrow> uuid \<Rightarrow> uuid \<Rightarrow> uuid \<Rightarrow> uuid option \<Rightarrow> RemoteSpec option
     \<Rightarrow> EncKey option \<Rightarrow> unit result \<times> db" where
  "run_restore s bn e nonce d backupID serverID nodeID dst remote enc =
     (case pool_Get (bx_str s) (bx_daemons s) nodeID of
        Inl err \<Rightarrow> (Inl err, d)
      | Inr client \<Rightarrow> (case (remote, dst) of
            (Some spec, Some i) \<Rightarrow>
              (case bn_RestoreBackupFrom bn client serverID backupID spec enc of
                 RemoteOK _ _ \<Rightarrow> (Inr (), d)
               | RemoteErr m us \<Rightarrow> (Inl (New m), store_answer s e nonce d i (RemoteErr m us))
               | TransportErr err \<Rightarrow> (Inl err, d))
          | _ \<Rightarrow> (bn_RestoreBackup bn client serverID backupID enc, d)))"

definition DownloadBackup ::
  "BackupService \<Rightarrow> BackupNode \<Rightarrow> env \<Rightarrow> key_seed \<Rightarrow> db \<Rightarrow> uuid \<Rightarrow> (string \<times> string) result \<times> db" where
  "DownloadBackup s bn e seed d backupID =
     (case restore_source ''downloadable'' s e seed d backupID of
        (Inl err, d') \<Rightarrow> (Inl err, d')
      | (Inr (v, serverID, nodeID, remote, enc), d') \<Rightarrow>
          (case pool_Get (bx_str s) (bx_daemons s) nodeID of
             Inl _ \<Rightarrow> (Inl (New ''daemon not connected''), d')
           | Inr client \<Rightarrow>
               (and_then (if remote \<noteq> None \<or> enc \<noteq> None
                          then bn_DownloadBackupFrom bn client serverID backupID remote enc
                          else bn_DownloadBackup bn client serverID backupID)
                  (\<lambda>body. Inr (body, bx_str s backupID @ ''.zip'')), d')))"

fun run_job ::
  "BackupService \<Rightarrow> BackupNode \<Rightarrow> env \<Rightarrow> (nat \<Rightarrow> string) \<Rightarrow> db \<Rightarrow> backup_job \<Rightarrow> db" where
  "run_job s bn e nonce d (RunBackup i serverID nodeID dst enc) = runBackup s bn e nonce d i serverID nodeID dst enc"
| "run_job s bn e nonce d (RunUpload i serverID nodeID dst) = uploadBackup s bn e nonce d i serverID nodeID dst"
| "run_job s bn e nonce d (RunRestore i serverID nodeID dst remote enc) =
     snd (run_restore s bn e (nonce 0) d i serverID nodeID dst remote enc)"

section \<open>Schedules\<close>

definition find_schedule :: "db \<Rightarrow> uuid \<Rightarrow> BackupSchedule option" where
  "find_schedule d i = List.find (\<lambda>r. bs_ID r = i) (backup_schedules d)"

definition ScheduleServerID :: "env \<Rightarrow> db \<Rightarrow> uuid \<Rightarrow> uuid result" where
  "ScheduleServerID e d scheduleID =
     (case call e ''ScheduleServerID'' (find_schedule d scheduleID) of
        Inl err \<Rightarrow> Inl err
      | Inr None \<Rightarrow> Inl ErrBackupNotFound
      | Inr (Some r) \<Rightarrow> Inr (bs_ServerID r))"

definition ListSchedules :: "env \<Rightarrow> db \<Rightarrow> uuid \<Rightarrow> BackupSchedule list result" where
  "ListSchedules e d serverID =
     wrapping ''querying schedules'' (call e ''ListSchedules''
       (sort_key (\<lambda>r. - bs_CreatedAt r) (filter (\<lambda>r. bs_ServerID r = serverID) (backup_schedules d))))"

definition fits_int4 :: "int option \<Rightarrow> bool" where
  "fits_int4 n = (case n of None \<Rightarrow> True | Some i \<Rightarrow> - 2147483648 \<le> i \<and> i \<le> 2147483647)"

definition CreateSchedule ::
  "(int \<Rightarrow> int) \<Rightarrow> env \<Rightarrow> uuid \<Rightarrow> db \<Rightarrow> CreateScheduleRequest \<Rightarrow> BackupSchedule result \<times> db" where
  "CreateSchedule tz e newID d req =
     (let typ = (if cs_Type req = '''' then ''full'' else cs_Type req)
      in case checkDestination e d (cs_DestinationID req) of
        Inl err \<Rightarrow> (Inl err, d)
      | Inr _ \<Rightarrow> (case nextCronTime tz (cs_CronExpr req) (now e) of
          Inl err \<Rightarrow> (Inl (Wrap ''invalid cron expression'' err), d)
        | Inr t \<Rightarrow>
            if fault e ''CreateSchedule'' \<or> typ \<notin> set backup_types \<or> find_server d (cs_ServerID req) = None
              \<or> \<not> fits_int4 (cs_RetentionCount req) \<or> \<not> fits_int4 (cs_RetentionDays req) \<or> find_schedule d newID \<noteq> None
            then (Inl (Wrap ''creating schedule'' (Driver ''CreateSchedule'')), d)
            else (let r = \<lparr>bs_ID = newID, bs_ServerID = cs_ServerID req, bs_CronExpr = cs_CronExpr req, bs_Type = typ,
                           bs_Storage = ''local'', bs_RetentionCount = cs_RetentionCount req,
                           bs_RetentionDays = cs_RetentionDays req, bs_Enabled = True, bs_LastRun = None,
                           bs_NextRun = Some t, bs_CreatedAt = now e, bs_DestinationID = cs_DestinationID req\<rparr>
                  in (Inr r, d\<lparr>backup_schedules := backup_schedules d @ [r]\<rparr>))))"

definition set_schedule :: "db \<Rightarrow> uuid \<Rightarrow> (BackupSchedule \<Rightarrow> BackupSchedule) \<Rightarrow> db" where
  "set_schedule d i f = d\<lparr>backup_schedules := update_where (\<lambda>r. bs_ID r = i) f (backup_schedules d)\<rparr>"

definition ToggleSchedule :: "env \<Rightarrow> db \<Rightarrow> uuid \<Rightarrow> bool \<Rightarrow> unit result \<times> db" where
  "ToggleSchedule e d scheduleID enabled =
     (if fault e ''ToggleSchedule'' then (Inl (Wrap ''toggling schedule'' (Driver ''ToggleSchedule'')), d)
      else if rows_affected (\<lambda>r. bs_ID r = scheduleID) (backup_schedules d) = 0 then (Inl ErrScheduleNotFound, d)
      else (Inr (), set_schedule d scheduleID (\<lambda>r. r\<lparr>bs_Enabled := enabled\<rparr>)))"

definition DeleteSchedule :: "env \<Rightarrow> db \<Rightarrow> uuid \<Rightarrow> unit result \<times> db" where
  "DeleteSchedule e d scheduleID =
     (if fault e ''DeleteSchedule'' then (Inl (Wrap ''deleting schedule'' (Driver ''DeleteSchedule'')), d)
      else if rows_affected (\<lambda>r. bs_ID r = scheduleID) (backup_schedules d) = 0 then (Inl ErrScheduleNotFound, d)
      else (Inr (), d\<lparr>backup_schedules := delete_where (\<lambda>r. bs_ID r = scheduleID) (backup_schedules d)\<rparr>))"

section \<open>The schedule runner\<close>

text \<open>What the start of the runner does to the uploads a restart interrupted.  The dash of the
  text is three bytes of UTF-8.\<close>

definition interrupted_text :: string where
  "interrupted_text = ''interrupted: the panel restarted during the upload '' @ [CHR 0xE2, CHR 0x80, CHR 0x94] @ '' retry it''"

definition scheduler_reset :: "env \<Rightarrow> db \<Rightarrow> db" where
  "scheduler_reset e d =
     try_exec e ''scheduler.reset'' d (d\<lparr>backups := update_where
       (\<lambda>b. (b_UploadStatus b = Some ''pending'' \<or> b_UploadStatus b = Some ''uploading'')
          \<and> (b_Status b = ''completed'' \<or> b_Status b = ''failed''))
       (\<lambda>b. b\<lparr>b_UploadStatus := Some ''failed'', b_UploadError := Some interrupted_text\<rparr>) (backups d)\<rparr>)"

definition day :: int where "day = 24 * hour"

definition expired_ids :: "env \<Rightarrow> db \<Rightarrow> uuid \<Rightarrow> int option \<Rightarrow> uuid list" where
  "expired_ids e d serverID retentionDays =
     (case retentionDays of
        None \<Rightarrow> []
      | Some n \<Rightarrow>
          if n \<le> 0 \<or> fault e ''pruneBackups.days'' then []
          else map b_ID (filter (\<lambda>b. b_ServerID b = Some serverID \<and> b_CreatedAt b < now e - n * day) (backups d)))"

definition completed_of :: "db \<Rightarrow> uuid \<Rightarrow> Backup list" where
  "completed_of d serverID = filter (\<lambda>b. b_ServerID b = Some serverID \<and> b_Status b = ''completed'') (backups d)"

definition surplus_ids :: "env \<Rightarrow> db \<Rightarrow> uuid \<Rightarrow> int option \<Rightarrow> uuid list" where
  "surplus_ids e d serverID retentionCount =
     (case retentionCount of
        None \<Rightarrow> []
      | Some n \<Rightarrow>
          if n \<le> 0 \<or> fault e ''pruneBackups.count'' then []
          else map b_ID (drop (nat n) (newest_first (completed_of d serverID))))"

fun delete_all :: "BackupService \<Rightarrow> BackupNode \<Rightarrow> env \<Rightarrow> (nat \<Rightarrow> string) \<Rightarrow> nat \<Rightarrow> uuid list \<Rightarrow> db \<Rightarrow> db" where
  "delete_all s bn e nonce k [] d = d"
| "delete_all s bn e nonce k (i # ids) d =
     delete_all s bn e nonce (Suc k) ids (snd (DeleteBackup s bn e (nonce k) d i))"

definition pruneBackups ::
  "BackupService \<Rightarrow> BackupNode \<Rightarrow> env \<Rightarrow> (nat \<Rightarrow> string) \<Rightarrow> nat \<Rightarrow> db \<Rightarrow> uuid \<Rightarrow> int option \<Rightarrow> int option \<Rightarrow> db" where
  "pruneBackups s bn e nonce k d serverID retentionCount retentionDays =
     delete_all s bn e nonce k (expired_ids e d serverID retentionDays @ surplus_ids e d serverID retentionCount) d"

definition due_schedules :: "env \<Rightarrow> db \<Rightarrow> BackupSchedule list" where
  "due_schedules e d =
     (if fault e ''runDueSchedules'' then []
      else filter (\<lambda>r. bs_Enabled r \<and> (case bs_NextRun r of None \<Rightarrow> False | Some t \<Rightarrow> t \<le> now e)) (backup_schedules d))"

text \<open>One due schedule: its next time first, then the backup, then retention.  \<open>newID\<close>, \<open>seed\<close>
  and \<open>nonce\<close> give the draws of its turn.\<close>

definition run_schedule ::
  "(int \<Rightarrow> int) \<Rightarrow> BackupService \<Rightarrow> BackupNode \<Rightarrow> env \<Rightarrow> uuid \<Rightarrow> key_seed \<Rightarrow> (nat \<Rightarrow> string) \<Rightarrow> BackupSchedule \<Rightarrow> db
     \<Rightarrow> backup_job list \<times> db" where
  "run_schedule tz s bn e newID seed nonce r d =
     (case nextCronTime tz (bs_CronExpr r) (now e) of
        Inl _ \<Rightarrow> ([], try_exec e (''schedule.disable'' @ dec_nat (bs_ID r)) d
                     (set_schedule d (bs_ID r) (\<lambda>x. x\<lparr>bs_Enabled := False\<rparr>)))
      | Inr t \<Rightarrow>
          (let d1 = try_exec e (''schedule.next'' @ dec_nat (bs_ID r)) d
                      (set_schedule d (bs_ID r) (\<lambda>x. x\<lparr>bs_LastRun := Some (now e), bs_NextRun := Some t\<rparr>))
           in case createBackup s e newID seed d1
                   \<lparr>cb_ServerID = bs_ServerID r, cb_WorldName = '''', cb_Type = bs_Type r, cb_Storage = bs_Storage r,
                    cb_DestinationID = bs_DestinationID r\<rparr> ''schedule'' of
                (Inl _, d2) \<Rightarrow> ([], d2)
              | (Inr (_, job), d2) \<Rightarrow>
                  ([job], pruneBackups s bn e nonce 0 d2 (bs_ServerID r) (bs_RetentionCount r) (bs_RetentionDays r))))"

fun run_schedules ::
  "(int \<Rightarrow> int) \<Rightarrow> BackupService \<Rightarrow> BackupNode \<Rightarrow> env \<Rightarrow> (nat \<Rightarrow> uuid) \<Rightarrow> (nat \<Rightarrow> key_seed) \<Rightarrow> (nat \<Rightarrow> nat \<Rightarrow> string)
     \<Rightarrow> nat \<Rightarrow> BackupSchedule list \<Rightarrow> db \<Rightarrow> backup_job list \<times> db" where
  "run_schedules tz s bn e ids seeds nonces k [] d = ([], d)"
| "run_schedules tz s bn e ids seeds nonces k (r # rs) d =
     (case run_schedule tz s bn e (ids k) (seeds k) (nonces k) r d of
        (js, d1) \<Rightarrow> (case run_schedules tz s bn e ids seeds nonces (Suc k) rs d1 of (js', d2) \<Rightarrow> (js @ js', d2)))"

definition runDueSchedules ::
  "(int \<Rightarrow> int) \<Rightarrow> BackupService \<Rightarrow> BackupNode \<Rightarrow> env \<Rightarrow> (nat \<Rightarrow> uuid) \<Rightarrow> (nat \<Rightarrow> key_seed) \<Rightarrow> (nat \<Rightarrow> nat \<Rightarrow> string)
     \<Rightarrow> db \<Rightarrow> backup_job list \<times> db" where
  "runDueSchedules tz s bn e ids seeds nonces d =
     run_schedules tz s bn e ids seeds nonces 0 (due_schedules e d) d"

section \<open>Handlers\<close>

definition requireServerPerm :: "env \<Rightarrow> db \<Rightarrow> User \<Rightarrow> uuid \<Rightarrow> string \<Rightarrow> (nat \<times> string) option" where
  "requireServerPerm e d user serverID perm =
     (case HasServerPermission e d user serverID perm of
        Inl _ \<Rightarrow> Some (500, ''permission check failed'')
      | Inr False \<Rightarrow> Some (403, ''insufficient permissions'')
      | Inr True \<Rightarrow> None)"

definition guarded :: "env \<Rightarrow> db \<Rightarrow> User \<Rightarrow> uuid \<Rightarrow> string \<Rightarrow> 'a response \<times> db \<Rightarrow> 'a response \<times> db" where
  "guarded e d user serverID perm k =
     (case requireServerPerm e d user serverID perm of Some (code, msg) \<Rightarrow> (Refuse code msg, d) | None \<Rightarrow> k)"

text \<open>The routes with the id of a backup or a schedule find the owning server first.\<close>

definition with_backup ::
  "env \<Rightarrow> db \<Rightarrow> User \<Rightarrow> uuid option \<Rightarrow> string \<Rightarrow> (uuid \<Rightarrow> 'a response \<times> db) \<Rightarrow> 'a response \<times> db" where
  "with_backup e d user param perm k =
     (case param of
        None \<Rightarrow> (Refuse 400 ''invalid ID format'', d)
      | Some i \<Rightarrow> (case BackupServerID e d i of
          Inl _ \<Rightarrow> (Refuse 404 ''backup not found'', d)
        | Inr serverID \<Rightarrow> guarded e d user serverID perm (k i)))"

definition with_schedule ::
  "env \<Rightarrow> db \<Rightarrow> User \<Rightarrow> uuid option \<Rightarrow> string \<Rightarrow> (uuid \<Rightarrow> 'a response \<times> db) \<Rightarrow> 'a response \<times> db" where
  "with_schedule e d user param perm k =
     (case param of
        None \<Rightarrow> (Refuse 400 ''invalid ID format'', d)
      | Some i \<Rightarrow> (case ScheduleServerID e d i of
          Inl _ \<Rightarrow> (Refuse 404 ''schedule not found'', d)
        | Inr serverID \<Rightarrow> guarded e d user serverID perm (k i)))"

definition h_ListBackups :: "(string \<Rightarrow> uuid option) \<Rightarrow> env \<Rightarrow> db \<Rightarrow> User \<Rightarrow> string \<Rightarrow> BackupView list response" where
  "h_ListBackups parse e d user sid =
     (if sid = '''' then Refuse 400 ''server_id is required''
      else (case parse sid of
          None \<Rightarrow> Refuse 400 ''invalid server_id''
        | Some serverID \<Rightarrow> fst (guarded e d user serverID ''server.view''
            (case ListBackups e d (Some serverID) of
               Inl _ \<Rightarrow> Refuse 500 ''could not list backups'' | Inr bs \<Rightarrow> Reply 200 bs, d))))"

text \<open>A started goroutine is part of the answer.\<close>

definition job_answer :: "nat \<Rightarrow> (BackupView \<times> backup_job) result \<times> db \<Rightarrow> (BackupView \<times> backup_job) response \<times> db" where
  "job_answer code r = (case r of (Inl err, d') \<Rightarrow> (Refuse 400 (Error err), d') | (Inr b, d') \<Rightarrow> (Reply code b, d'))"

definition h_CreateBackup ::
  "BackupService \<Rightarrow> env \<Rightarrow> uuid \<Rightarrow> key_seed \<Rightarrow> db \<Rightarrow> User \<Rightarrow> CreateBackupRequest result
     \<Rightarrow> (BackupView \<times> backup_job) response \<times> db" where
  "h_CreateBackup s e newID seed d user body =
     (case body of
        Inl err \<Rightarrow> (Refuse 400 (Error err), d)
      | Inr req \<Rightarrow> guarded e d user (cb_ServerID req) ''backup.create''
          (job_answer 201 (CreateBackup s e newID seed d req)))"

definition h_DeleteBackup ::
  "BackupService \<Rightarrow> BackupNode \<Rightarrow> env \<Rightarrow> string \<Rightarrow> db \<Rightarrow> User \<Rightarrow> uuid option \<Rightarrow> string response \<times> db" where
  "h_DeleteBackup s bn e nonce d user param =
     with_backup e d user param ''backup.create'' (\<lambda>i.
       case DeleteBackup s bn e nonce d i of
         ((Inl err, _), d') \<Rightarrow> (Refuse 400 (Error err), d')
       | ((Inr _, _), d') \<Rightarrow> (Reply 200 ''backup deleted'', d'))"

definition h_RestoreBackup ::
  "BackupService \<Rightarrow> env \<Rightarrow> key_seed \<Rightarrow> db \<Rightarrow> User \<Rightarrow> uuid option \<Rightarrow> (BackupView \<times> backup_job) response \<times> db" where
  "h_RestoreBackup s e seed d user param =
     with_backup e d user param ''backup.restore'' (\<lambda>i. job_answer 200 (RestoreBackup s e seed d i))"

definition h_RetryUpload ::
  "env \<Rightarrow> db \<Rightarrow> User \<Rightarrow> uuid option \<Rightarrow> (BackupView \<times> backup_job) response \<times> db" where
  "h_RetryUpload e d user param =
     with_backup e d user param ''backup.create'' (\<lambda>i. job_answer 200 (RetryUpload e d i))"

definition h_DownloadBackup ::
  "BackupService \<Rightarrow> BackupNode \<Rightarrow> env \<Rightarrow> key_seed \<Rightarrow> db \<Rightarrow> User \<Rightarrow> uuid option \<Rightarrow> (string \<times> string) response \<times> db" where
  "h_DownloadBackup s bn e seed d user param =
     with_backup e d user param ''server.view'' (\<lambda>i.
       case DownloadBackup s bn e seed d i of
         (Inl _, d') \<Rightarrow> (Refuse 502 ''could not download backup'', d')
       | (Inr r, d') \<Rightarrow> (Reply 200 r, d'))"

text \<open>The route of the list is guarded by the router.\<close>

definition h_ListSchedules :: "env \<Rightarrow> db \<Rightarrow> uuid option \<Rightarrow> BackupSchedule list response" where
  "h_ListSchedules e d param =
     (case param of
        None \<Rightarrow> Refuse 400 ''invalid ID format''
      | Some serverID \<Rightarrow> (case ListSchedules e d serverID of
          Inl _ \<Rightarrow> Refuse 500 ''could not list schedules'' | Inr rs \<Rightarrow> Reply 200 rs))"

definition h_CreateSchedule ::
  "(int \<Rightarrow> int) \<Rightarrow> env \<Rightarrow> uuid \<Rightarrow> db \<Rightarrow> User \<Rightarrow> CreateScheduleRequest result \<Rightarrow> BackupSchedule response \<times> db" where
  "h_CreateSchedule tz e newID d user body =
     (case body of
        Inl err \<Rightarrow> (Refuse 400 (Error err), d)
      | Inr req \<Rightarrow> guarded e d user (cs_ServerID req) ''backup.create''
          (case CreateSchedule tz e newID d req of
             (Inl err, d') \<Rightarrow> (Refuse 400 (Error err), d')
           | (Inr r, d') \<Rightarrow> (Reply 201 r, d')))"

definition h_ToggleSchedule :: "env \<Rightarrow> db \<Rightarrow> User \<Rightarrow> uuid option \<Rightarrow> bool result \<Rightarrow> string response \<times> db" where
  "h_ToggleSchedule e d user param body =
     with_schedule e d user param ''backup.create'' (\<lambda>i.
       case body of
         Inl err \<Rightarrow> (Refuse 400 (Error err), d)
       | Inr enabled \<Rightarrow> (case ToggleSchedule e d i enabled of
           (Inl err, d') \<Rightarrow> (Refuse 400 (Error err), d')
         | (Inr _, d') \<Rightarrow> (Reply 200 ''schedule updated'', d')))"

definition h_DeleteSchedule :: "env \<Rightarrow> db \<Rightarrow> User \<Rightarrow> uuid option \<Rightarrow> string response \<times> db" where
  "h_DeleteSchedule e d user param =
     with_schedule e d user param ''backup.create'' (\<lambda>i.
       case DeleteSchedule e d i of
         (Inl err, d') \<Rightarrow> (Refuse 400 (Error err), d')
       | (Inr _, d') \<Rightarrow> (Reply 200 ''schedule deleted'', d'))"

end
