(* ===== verification/SettingsRules.thy ===== *)
theory SettingsRules
  imports Settings
begin

text \<open>
  What \<open>Settings\<close> promises: a rotation keeps every key under its id, also through the
  encrypted table; the keyring holds 256 keys; values read back as written; pairs created
  by concurrent first users converge, the keyring does not.
\<close>

section \<open>Key ids\<close>

lemma atoi_dec_nat: "int n \<le> max_int \<Longrightarrow> atoi (dec_nat n) = Some (int n)"
proof -
  assume n: "int n \<le> max_int"
  have "dec_nat n \<noteq> []" by (subst dec_nat.simps) simp
  then obtain c cs where cs: "dec_nat n = c # cs" by (cases "dec_nat n") auto
  with dec_nat_digits [of n] have "is_digit c" by simp
  then have "c \<noteq> CHR ''-''" "c \<noteq> CHR ''+''" by (auto simp: is_digit_def byte_def)
  with cs n dec_nat_digits [of n] digits_value_dec_nat [of n] show ?thesis
    by (simp add: atoi_def int64_defs)
qed

lemma key_number_dec: "0 \<le> i \<Longrightarrow> i \<le> 255 \<Longrightarrow> key_number (dec i) = Some i"
  using atoi_dec_nat [of "nat i"] by (simp add: key_number_def dec_def max_int_def)

lemma uint8_range: "0 \<le> uint (w :: 8 word) \<and> uint w \<le> 255"
  using uint_lt2p [of w] by simp

lemma uint_word8: "0 \<le> i \<Longrightarrow> i \<le> 255 \<Longrightarrow> uint (word_of_int i :: 8 word) = i"
  by (simp add: uint_word_of_int)

lemma dec_uint8_inject: "dec (uint (a :: 8 word)) = dec (uint b) \<longleftrightarrow> a = b"
  using key_number_dec [of "uint a"] key_number_dec [of "uint b"] uint8_range [of a] uint8_range [of b]
  by (metis option.inject word_eq_iff_unsigned)

lemma key_number_range: "key_number s = Some i \<Longrightarrow> 0 \<le> i \<and> i \<le> 255"
  by (auto simp: key_number_def split: option.splits if_splits)

definition note_id :: "string \<times> string \<Rightarrow> int \<Rightarrow> int" where
  "note_id = (\<lambda>(s, _) h. case key_number s of None \<Rightarrow> h | Some i \<Rightarrow> max h i)"

lemma highest_id_fold: "highest_id kr = fold note_id (kr_Keys kr) (- 1)"
  by (simp add: highest_id_def note_id_def)

lemma fold_note_id_ge: "h \<le> fold note_id ks h"
proof (induction ks arbitrary: h)
  case (Cons p ks)
  have "h \<le> note_id p h" by (cases p) (auto simp: note_id_def split: option.splits)
  also have "\<dots> \<le> fold note_id ks (note_id p h)" by (rule Cons.IH)
  finally show ?case by simp
qed simp

lemma fold_note_id_upper: "(s, v) \<in> set ks \<Longrightarrow> key_number s = Some i \<Longrightarrow> i \<le> fold note_id ks h"
proof (induction ks arbitrary: h)
  case (Cons p ks)
  show ?case
  proof (cases "p = (s, v)")
    case True
    then have "i \<le> note_id p h" using Cons.prems by (simp add: note_id_def)
    also have "\<dots> \<le> fold note_id ks (note_id p h)" by (rule fold_note_id_ge)
    finally show ?thesis by simp
  next
    case False
    then show ?thesis using Cons by simp
  qed
qed simp

lemma highest_id_upper: "(s, v) \<in> set (kr_Keys kr) \<Longrightarrow> key_number s = Some i \<Longrightarrow> i \<le> highest_id kr"
  by (simp add: highest_id_fold fold_note_id_upper)

lemma highest_id_ge: "- 1 \<le> highest_id kr"
  by (simp add: highest_id_fold fold_note_id_ge)

text \<open>Every key keeps its id when a new one becomes active.\<close>

lemma rotate_keys:
  assumes "kr_rotate e raw kr = Inr (i, kr')"
  shows "KeyByID kr i = None" and "kr_Active kr' = i"
    and "KeyByID kr' j = (if j = i then Some (b64_encode raw) else KeyByID kr j)"
proof -
  let ?n = "highest_id kr + 1"
  from assms have h: "highest_id kr < 255" and i: "i = word_of_int ?n"
    and kr': "kr' = kr\<lparr>kr_Keys := AList.update (dec (uint i)) (b64_encode raw) (kr_Keys kr), kr_Active := i\<rparr>"
    by (auto simp: kr_rotate_def Let_def and_then_Inr generateKey_def split: if_splits)
  have ui: "uint i = ?n" unfolding i using h highest_id_ge [of kr] by (intro uint_word8) auto
  have "map_of (kr_Keys kr) (dec ?n) = None"
  proof (rule ccontr)
    assume "map_of (kr_Keys kr) (dec ?n) \<noteq> None"
    then obtain v where "(dec ?n, v) \<in> set (kr_Keys kr)" by (auto dest: map_of_SomeD)
    moreover have "key_number (dec ?n) = Some ?n" using h highest_id_ge [of kr] by (simp add: key_number_dec)
    ultimately show False using highest_id_upper by fastforce
  qed
  then show "KeyByID kr i = None" by (simp add: KeyByID_def ui)
  show "kr_Active kr' = i" using kr' by simp
  show "KeyByID kr' j = (if j = i then Some (b64_encode raw) else KeyByID kr j)"
    using kr' by (simp add: KeyByID_def update_conv' dec_uint8_inject)
qed

section \<open>Capacity\<close>

fun rotations :: "env \<Rightarrow> string list \<Rightarrow> Keyring \<Rightarrow> Keyring result" where
  "rotations e [] kr = Inr kr"
| "rotations e (raw # raws) kr = and_then (kr_rotate e raw kr) (\<lambda>(_, kr'). rotations e raws kr')"

lemma rotations_snoc:
  "rotations e (raws @ [raw]) kr = and_then (rotations e raws kr) (\<lambda>k. map_sum id snd (kr_rotate e raw k))"
proof (induction raws arbitrary: kr)
  case Nil
  show ?case by (cases "kr_rotate e raw kr") (auto split: prod.splits)
next
  case (Cons r raws)
  then show ?case by (cases "kr_rotate e r kr") (auto split: prod.splits)
qed

definition numbered :: "string list \<Rightarrow> strmap" where
  "numbered ks = map (\<lambda>i. (dec_nat i, ks ! i)) [0..<length ks]"

lemma fold_note_numbered: "n \<le> 256 \<Longrightarrow> fold note_id (map (\<lambda>i. (dec_nat i, f i)) [0..<n]) (- 1) = int n - 1"
proof (induction n)
  case (Suc n)
  have "key_number (dec_nat n) = Some (int n)"
    using key_number_dec [of "int n"] Suc.prems by (simp add: dec_def)
  with Suc show ?case by (simp add: note_id_def)
qed simp

lemma highest_numbered: "length ks \<le> 256 \<Longrightarrow> highest_id \<lparr>kr_Active = a, kr_Keys = numbered ks\<rparr> = int (length ks) - 1"
  by (simp add: highest_id_fold numbered_def fold_note_numbered)

lemma numbered_snoc: "numbered (ks @ [k]) = numbered ks @ [(dec_nat (length ks), k)]"
  by (auto simp: numbered_def nth_append)

lemma numbered_get: "i < length ks \<Longrightarrow> map_of (numbered ks) (dec_nat i) = Some (ks ! i)"
  unfolding numbered_def by (subst map_of_eq_Some_iff) (auto simp: distinct_map inj_on_def comp_def)

lemma rotate_numbered:
  assumes "\<not> fault e ''generateKey''" and "length ks \<le> 255"
  shows "kr_rotate e raw \<lparr>kr_Active = a, kr_Keys = numbered ks\<rparr>
    = Inr (of_nat (length ks), \<lparr>kr_Active = of_nat (length ks), kr_Keys = numbered (ks @ [b64_encode raw])\<rparr>)"
proof -
  have u: "unat (of_nat (length ks) :: 8 word) = length ks"
    using assms(2) by (simp add: unat_of_nat)
  have "dec_nat (length ks) \<notin> fst ` set (numbered ks)"
    by (auto simp: numbered_def)
  then show ?thesis
    using assms highest_numbered [of ks a]
    by (simp add: kr_rotate_def Let_def generateKey_def wrapping_def call_def u dec_def update_append numbered_snoc)
qed

lemma rotations_numbered:
  assumes "\<not> fault e ''generateKey''" and "length raws \<le> 255"
  shows "rotations e raws \<lparr>kr_Active = 0, kr_Keys = [(''0'', b64_encode raw)]\<rparr>
    = Inr \<lparr>kr_Active = of_nat (length raws), kr_Keys = numbered (map b64_encode (raw # raws))\<rparr>"
  using assms(2)
proof (induction raws rule: rev_induct)
  case Nil
  have "char_of (48 :: nat) = CHR ''0''" by (simp add: char_of_eq_iff)
  then show ?case by (simp add: numbered_def dec_nat.simps [of 0])
next
  case (snoc r raws)
  then show ?case
    using rotate_numbered [OF assms(1), of "map b64_encode (raw # raws)" r] by (simp add: rotations_snoc)
qed

lemma rotations_fail: "rotations e raws kr = Inl err \<Longrightarrow> rotations e (raws @ rest) kr = Inl err"
proof (induction raws arbitrary: kr)
  case (Cons r raws)
  then show ?case by (cases "kr_rotate e r kr") (auto split: prod.splits)
qed simp

text \<open>[C29] A keyring takes exactly 255 rotations.  After any number of them up to that the
  active id is that number and every key generated so far is found under the id it was
  generated for; the next rotation is refused as full, whatever follows.\<close>

theorem keyring_capacity:
  assumes "newKeyring e raw = Inr kr0"
  shows "(length raws \<le> 255 \<longrightarrow> (\<exists>kr. rotations e raws kr0 = Inr kr \<and> kr_Active kr = of_nat (length raws)
            \<and> (\<forall>i \<le> length raws. KeyByID kr (of_nat i) = Some (b64_encode ((raw # raws) ! i)))))
    \<and> (length raws > 255 \<longrightarrow> rotations e raws kr0 = Inl (New ''backup keyring is full (255 keys)''))"
proof -
  from assms have nf: "\<not> fault e ''generateKey''" and kr0: "kr0 = \<lparr>kr_Active = 0, kr_Keys = [(''0'', b64_encode raw)]\<rparr>"
    by (auto simp: newKeyring_def and_then_Inr generateKey_def)
  have get: "KeyByID \<lparr>kr_Active = a, kr_Keys = numbered (map b64_encode (raw # raws))\<rparr> (of_nat i)
      = Some (b64_encode ((raw # raws) ! i))" if "i \<le> length raws" "length raws \<le> 255" for i a
    using that uint_word8 [of "int i"] numbered_get [of i "map b64_encode (raw # raws)"]
    by (simp add: KeyByID_def dec_def nth_Cons split: nat.splits)
  have full: "rotations e raws kr0 = Inl (New ''backup keyring is full (255 keys)'')" if len: "length raws > 255"
  proof -
    let ?pre = "take 255 raws"
    have pre: "rotations e ?pre kr0 = Inr \<lparr>kr_Active = 255, kr_Keys = numbered (map b64_encode (raw # ?pre))\<rparr>"
      using rotations_numbered [OF nf, of ?pre raw] len kr0 by simp
    have "kr_rotate e (raws ! 255) \<lparr>kr_Active = 255, kr_Keys = numbered (map b64_encode (raw # ?pre))\<rparr>
        = Inl (New ''backup keyring is full (255 keys)'')"
      using highest_numbered [of "map b64_encode (raw # ?pre)" 255] len by (simp add: kr_rotate_def)
    with pre have "rotations e (?pre @ [raws ! 255]) kr0 = Inl (New ''backup keyring is full (255 keys)'')"
      by (simp add: rotations_snoc)
    then have "rotations e ((?pre @ [raws ! 255]) @ drop 256 raws) kr0 = Inl (New ''backup keyring is full (255 keys)'')"
      by (rule rotations_fail)
    then show ?thesis using id_take_nth_drop [OF len] by simp
  qed
  show ?thesis using rotations_numbered [OF nf, of raws raw] get full kr0 by auto
qed

text \<open>A keyring made with key zero and rotated twice.\<close>

theorem keyring_capacity_witness:
  "(length [''b'', ''c''] \<le> 255 \<and> (\<exists>kr. rotations (quiet 0) [''b'', ''c''] \<lparr>kr_Active = 0, kr_Keys = [(''0'', b64_encode ''a'')]\<rparr> = Inr kr
      \<and> kr_Active kr = of_nat (length [''b'', ''c''])
      \<and> KeyByID kr 0 = Some (b64_encode ''a'') \<and> KeyByID kr 2 = Some (b64_encode ''c'')))
    \<and> rotations (quiet 0) (replicate 256 ''z'') \<lparr>kr_Active = 0, kr_Keys = [(''0'', b64_encode ''a'')]\<rparr>
      = Inl (New ''backup keyring is full (255 keys)'')"
proof -
  have new: "newKeyring (quiet 0) ''a'' = Inr \<lparr>kr_Active = 0, kr_Keys = [(''0'', b64_encode ''a'')]\<rparr>"
    by (simp add: newKeyring_def and_then_Inr generateKey_def)
  have "length [''b'', ''c''] \<le> 255" "length (replicate 256 ''z'') > 255" by simp_all
  with keyring_capacity [OF new, of "[''b'', ''c'']"] keyring_capacity [OF new, of "replicate 256 ''z''"]
  show ?thesis by (force simp: numeral_2_eq_2 dest: spec [of _ 0] spec [of _ "2 :: nat"])
qed

section \<open>Reading back\<close>

lemma settings_Set_Get:
  assumes "gcm_correct pr" and "length nonce = nonce_size" and "value \<noteq> ''''"
    and "settings_Set lbl pr encKey e nonce d key value who = (Inr u, d')" and "\<not> fault e' lbl'"
  shows "settings_Get lbl' pr encKey e' d' key = Inr value"
proof -
  from assms(3,4) obtain enc where enc: "Encrypt pr e nonce encKey value = Inr enc"
    by (auto simp: settings_Set_def split: sum.splits)
  have dec: "Decrypt pr encKey enc = Inr value"
    using assms(1,2) enc by (auto simp: Encrypt_def Decrypt_def gcm_correct_def split: if_splits)
  let ?row = "\<lparr>as_Key = key, as_Value = enc, as_UpdatedAt = now e, as_UpdatedBy = who\<rparr>"
  from assms(3,4) enc have "d' = d\<lparr>app_settings := (if find_setting d key = None then app_settings d @ [?row]
      else update_where (\<lambda>s. as_Key s = key) (\<lambda>_. ?row) (app_settings d))\<rparr>"
    by (auto simp: settings_Set_def Let_def split: if_splits)
  then have "find_setting d' key = Some ?row"
    by (auto simp: find_setting_def find_append find_update_same)
  with dec assms(5) show ?thesis by (simp add: settings_Get_def call_def)
qed

lemma find_setting_Set:
  "settings_Set lbl pr encKey e nonce d key value who = (r, d') \<Longrightarrow> key' \<noteq> key \<Longrightarrow>
   find_setting d' key' = find_setting d key'"
  by (auto simp: settings_Set_def Let_def find_setting_def find_append find_update_other find_delete_where
      split: if_splits sum.splits option.splits)

lemma find_setting_Set_error:
  "settings_Set lbl pr encKey e nonce d key value who = (Inl err, d') \<Longrightarrow> d' = d"
  by (auto simp: settings_Set_def Let_def split: if_splits sum.splits)

lemma find_setting_SetIfAbsent:
  "settings_SetIfAbsent lbl pr encKey e nonce d key value = (r, d') \<Longrightarrow> find_setting d key' = Some s \<Longrightarrow>
   find_setting d' key' = Some s"
  by (auto simp: settings_SetIfAbsent_def find_setting_def find_append split: if_splits sum.splits)

lemma stored_keyring_cong:
  "find_setting d backupKeyringKey = find_setting d' backupKeyringKey \<Longrightarrow>
   stored_keyring pr encKey e d = stored_keyring pr encKey e d'"
  by (simp add: stored_keyring_def settings_Get_def)

section \<open>The keyring as JSON\<close>

lemma dec_nat_lead: "0 < n \<Longrightarrow> hd (dec_nat n) \<noteq> CHR ''0''"
proof (induction n rule: dec_nat.induct)
  case (1 n)
  have ne: "dec_nat m \<noteq> []" for m by (subst dec_nat.simps) simp
  show ?case
  proof (cases "n < 10")
    case True
    have zero: "CHR ''0'' = char_of (48 :: nat)" by (rule sym) (simp add: char_of_eq_iff)
    from True 1 show ?thesis unfolding zero by (subst dec_nat.simps) (simp add: char_of_eq_iff take_bit_eq_mod)
  next
    case False
    then have "hd (dec_nat n) = hd (dec_nat (n div 10))"
      using ne by (subst dec_nat.simps) (simp add: hd_append)
    with False 1 show ?thesis by simp
  qed
qed

lemma json_number_dec_nat: "json_number (dec_nat n)"
proof -
  have ne: "dec_nat n \<noteq> []" by (subst dec_nat.simps) simp
  then obtain c cs where cs: "dec_nat n = c # cs" by (cases "dec_nat n") auto
  have ds: "list_all is_digit (c # cs)" using dec_nat_digits [of n] cs by simp
  then have minus: "c \<noteq> CHR ''-''" by (auto simp: is_digit_def byte_def)
  have all: "takeWhile is_digit (c # cs) = c # cs" "dropWhile is_digit (c # cs) = []"
    using ds by (auto simp: list_all_iff takeWhile_eq_all_conv dropWhile_eq_Nil_conv)
  have zero: "c = CHR ''0'' \<longrightarrow> c # cs = ''0''"
  proof
    assume "c = CHR ''0''"
    with dec_nat_lead [of n] cs have "n = 0" by (cases n) auto
    moreover have "char_of (48 :: nat) = CHR ''0''" by (simp add: char_of_eq_iff)
    ultimately show "c # cs = ''0''" using cs by (simp add: dec_nat.simps [of 0])
  qed
  have "list_all num_char (c # cs)" using ds by (auto simp: list_all_iff num_char_def)
  with cs all zero minus show ?thesis by (simp add: json_number_def fraction_ok_def)
qed

definition sorted_keys :: "Keyring \<Rightarrow> Keyring" where
  "sorted_keys kr = kr\<lparr>kr_Keys := sort_key fst (kr_Keys kr)\<rparr>"

lemma keyring_json: "distinct (map fst (kr_Keys kr)) \<Longrightarrow> unmarshal_keyring (marshal_keyring kr) = Some (sorted_keys kr)"
proof -
  assume d: "distinct (map fst (kr_Keys kr))"
  let ?ms = "[(''active'', JNum (dec (uint (kr_Active kr)))),
      (''keys'', JObj (map (\<lambda>(k, v). (k, JStr v)) (sort_key fst (kr_Keys kr))))]"
  have num: "dec (uint (kr_Active kr)) = dec_nat (unat (kr_Active kr))" by (simp add: dec_def)
  have "json_ok (JObj ?ms)"
    by (auto simp: num json_number_dec_nat list_all_iff)
  then have "json_unmarshal (marshal_keyring kr) = Some (JObj ?ms)"
    unfolding marshal_keyring_def by (rule json_roundtrip)
  moreover have "key_number (dec (uint (kr_Active kr))) = Some (uint (kr_Active kr))"
    using uint8_range [of "kr_Active kr"] by (simp add: key_number_dec)
  moreover have "strmap_of (map (\<lambda>(k, v). (k, JStr v)) (sort_key fst (kr_Keys kr))) [] = Some (sort_key fst (kr_Keys kr))"
    using strmap_of_strings [of "[]" "sort_key fst (kr_Keys kr)"] d by (simp add: distinct_map)
  moreover have "equal_fold ''active'' ''active''" "equal_fold ''keys'' ''keys''" "\<not> equal_fold ''keys'' ''active''"
    by (simp_all add: equal_fold_def to_lower_def lower_char_def is_upper_def byte_def)
  ultimately show ?thesis
    by (simp add: unmarshal_keyring_def sorted_keys_def num dec_nat_digits)
qed

lemma KeyByID_sorted: "distinct (map fst (kr_Keys kr)) \<Longrightarrow> KeyByID (sorted_keys kr) j = KeyByID kr j"
  by (simp add: KeyByID_def sorted_keys_def strmap_roundtrip(2))

lemma strmap_of_distinct: "strmap_of ms acc = Some m \<Longrightarrow> distinct (map fst acc) \<Longrightarrow> distinct (map fst m)"
  by (induction ms acc rule: strmap_of.induct) (auto simp: distinct_update)

lemma keyring_fields_distinct:
  "keyring_fields ms kr = Some kr' \<Longrightarrow> distinct (map fst (kr_Keys kr)) \<Longrightarrow> distinct (map fst (kr_Keys kr'))"
proof (induction ms arbitrary: kr)
  case (Cons m ms)
  obtain k v where m: "m = (k, v)" by (cases m)
  show ?case
    using Cons.prems m by (auto split: if_splits json.splits option.splits dest!: Cons.IH dest: strmap_of_distinct)
qed simp

lemma stored_keyring_distinct: "stored_keyring pr encKey e d = Inr (Some kr) \<Longrightarrow> distinct (map fst (kr_Keys kr))"
  by (auto simp: stored_keyring_def and_then_Inr unmarshal_keyring_def dest: keyring_fields_distinct
      split: if_splits option.splits json.splits)

section \<open>Keys survive\<close>

text \<open>The operations on the table: the key store, and settings under other names.\<close>

datatype key_op =
    OpKeyring env key_seed
  | OpRotate env key_seed "uuid option"
  | OpExport env key_seed
  | OpSet env string string string "uuid option"
  | OpSetIfAbsent env string string string

fun key_step :: "prims \<Rightarrow> string \<Rightarrow> key_op \<Rightarrow> db \<Rightarrow> db" where
  "key_step pr ek (OpKeyring e seed) d = snd (BackupKeyring pr ek e seed d)"
| "key_step pr ek (OpRotate e seed who) d = snd (RotateBackupKey pr ek e seed d who)"
| "key_step pr ek (OpExport e seed) d = snd (ExportActiveBackupKey pr ek e seed d)"
| "key_step pr ek (OpSet e nonce key value who) d = snd (settings_Set ''Set'' pr ek e nonce d key value who)"
| "key_step pr ek (OpSetIfAbsent e nonce key value) d = snd (settings_SetIfAbsent ''Set'' pr ek e nonce d key value)"

text \<open>Nonces have the size \<^verbatim>\<open>gcm.NonceSize()\<close>, and no other setting has the keyring's name.\<close>

fun key_op_ok :: "key_op \<Rightarrow> bool" where
  "key_op_ok (OpKeyring e seed) = (length (ks_nonce seed) = nonce_size)"
| "key_op_ok (OpRotate e seed who) = (length (ks_nonce seed) = nonce_size \<and> length (ks_nonce2 seed) = nonce_size)"
| "key_op_ok (OpExport e seed) = (length (ks_nonce seed) = nonce_size)"
| "key_op_ok (OpSet e nonce key value who) = (key \<noteq> backupKeyringKey)"
| "key_op_ok (OpSetIfAbsent e nonce key value) = True"

definition key_stored :: "prims \<Rightarrow> string \<Rightarrow> db \<Rightarrow> 8 word \<Rightarrow> string \<Rightarrow> bool" where
  "key_stored pr ek d j k = (\<exists>kr. stored_keyring pr ek (quiet 0) d = Inr (Some kr) \<and> KeyByID kr j = Some k)"

lemma settings_Get_quiet:
  "settings_Get lbl pr ek e d key = Inr r \<Longrightarrow> settings_Get lbl' pr ek (quiet t) d key = Inr r"
  by (cases "find_setting d key"; cases "fault e lbl") (simp_all add: settings_Get_def call_def)

lemma stored_keyring_quiet: "stored_keyring pr ek e d = Inr x \<Longrightarrow> stored_keyring pr ek (quiet t) d = Inr x"
  unfolding stored_keyring_def and_then_Inr by (blast intro: settings_Get_quiet)

lemma BackupKeyring_stored:
  assumes "stored_keyring pr ek (quiet 0) d = Inr (Some kr)"
  shows "snd (BackupKeyring pr ek e seed d) = d"
    and "BackupKeyring pr ek e seed d = (Inr kr', d') \<Longrightarrow> kr' = kr \<and> d' = d"
proof -
  consider err where "stored_keyring pr ek e d = Inl err" | "stored_keyring pr ek e d = Inr (Some kr)"
    using stored_keyring_quiet [of pr ek e d _ 0] assms by (cases "stored_keyring pr ek e d") auto
  then show "snd (BackupKeyring pr ek e seed d) = d"
    and "BackupKeyring pr ek e seed d = (Inr kr', d') \<Longrightarrow> kr' = kr \<and> d' = d"
    by (cases; simp add: BackupKeyring_def)+
qed

lemma marshal_keyring_nonempty: "marshal_keyring kr \<noteq> ''''"
  by (simp add: marshal_keyring_def)

lemma saveKeyring_stored:
  assumes "gcm_correct pr" and "length nonce = nonce_size" and "distinct (map fst (kr_Keys kr))"
    and "saveKeyring pr ek e nonce d kr who = (Inr u, d')"
  shows "stored_keyring pr ek (quiet 0) d' = Inr (Some (sorted_keys kr))"
proof -
  have "settings_Get ''BackupKeyring'' pr ek (quiet 0) d' backupKeyringKey = Inr (marshal_keyring kr)"
    using assms(1,2,4) unfolding saveKeyring_def
    by (intro settings_Set_Get [OF _ _ marshal_keyring_nonempty]) auto
  with keyring_json [OF assms(3)] show ?thesis
    by (simp add: stored_keyring_def marshal_keyring_nonempty)
qed

lemma rotate_distinct: "kr_rotate e raw kr = Inr (i, kr') \<Longrightarrow> distinct (map fst (kr_Keys kr)) \<Longrightarrow> distinct (map fst (kr_Keys kr'))"
  by (auto simp: kr_rotate_def Let_def and_then_Inr distinct_update split: if_splits)

lemma RotateBackupKey_stored:
  assumes "gcm_correct pr" and "length (ks_nonce2 seed) = nonce_size"
    and "stored_keyring pr ek (quiet 0) d = Inr (Some kr)"
  shows "(\<exists>err. fst (RotateBackupKey pr ek e seed d who) = Inl err \<and> snd (RotateBackupKey pr ek e seed d who) = d)
    \<or> (\<exists>i kr'. fst (RotateBackupKey pr ek e seed d who) = Inr i \<and> kr_rotate e (ks_raw2 seed) kr = Inr (i, kr')
        \<and> stored_keyring pr ek (quiet 0) (snd (RotateBackupKey pr ek e seed d who)) = Inr (Some (sorted_keys kr')))"
proof (cases "BackupKeyring pr ek e seed d")
  case (Pair r d1)
  show ?thesis
  proof (cases r)
    case (Inl err)
    then show ?thesis using Pair BackupKeyring_stored(1) [OF assms(3), of e seed] by (simp add: RotateBackupKey_def)
  next
    case (Inr k)
    then have k: "k = kr" "d1 = d" using Pair BackupKeyring_stored(2) [OF assms(3)] by blast+
    show ?thesis
    proof (cases "kr_rotate e (ks_raw2 seed) kr")
      case (Inl err)
      then show ?thesis using Pair Inr k by (simp add: RotateBackupKey_def)
    next
      case rot: (Inr p)
      obtain i kr' where p: "p = (i, kr')" by (cases p)
      have d': "distinct (map fst (kr_Keys kr'))"
        using rotate_distinct rot p stored_keyring_distinct [OF assms(3)] by blast
      show ?thesis
      proof (cases "saveKeyring pr ek e (ks_nonce2 seed) d kr' who")
        case save: (Pair s d2)
        then show ?thesis
        proof (cases s)
          case (Inl err)
          with save have "d2 = d" by (auto simp: saveKeyring_def dest: find_setting_Set_error)
          with save Inl show ?thesis using Pair Inr k rot p by (simp add: RotateBackupKey_def)
        next
          case (Inr u)
          with save saveKeyring_stored [OF assms(1,2) d', of ek e d who u d2]
          show ?thesis using Pair \<open>r = Inr k\<close> k rot p by (simp add: RotateBackupKey_def)
        qed
      qed
    qed
  qed
qed

lemma key_step_keeps:
  assumes "gcm_correct pr" and "key_op_ok op" and "key_stored pr ek d j k"
  shows "key_stored pr ek (key_step pr ek op d) j k"
proof -
  from assms(3) obtain kr where kr: "stored_keyring pr ek (quiet 0) d = Inr (Some kr)" and k: "KeyByID kr j = Some k"
    by (auto simp: key_stored_def)
  have found: "\<exists>s. find_setting d backupKeyringKey = Some s"
    using kr by (cases "find_setting d backupKeyringKey") (auto simp: stored_keyring_def settings_Get_def call_def)
  show ?thesis
  proof (cases op)
    case (OpKeyring e seed)
    with kr k show ?thesis by (simp add: key_stored_def BackupKeyring_stored(1))
  next
    case (OpExport e seed)
    have "snd (ExportActiveBackupKey pr ek e seed d) = snd (BackupKeyring pr ek e seed d)"
      by (auto simp: ExportActiveBackupKey_def split: prod.splits sum.splits option.splits)
    with OpExport kr k show ?thesis by (simp add: key_stored_def BackupKeyring_stored(1))
  next
    case (OpRotate e seed who)
    from RotateBackupKey_stored [OF assms(1) _ kr, of seed e who] assms(2) OpRotate
    consider "snd (RotateBackupKey pr ek e seed d who) = d"
      | i kr' where "kr_rotate e (ks_raw2 seed) kr = Inr (i, kr')"
        "stored_keyring pr ek (quiet 0) (snd (RotateBackupKey pr ek e seed d who)) = Inr (Some (sorted_keys kr'))"
      by auto
    then show ?thesis
    proof cases
      case 2
      have "j \<noteq> i" using rotate_keys(1) [OF 2(1)] k by auto
      then have "KeyByID (sorted_keys kr') j = Some k"
        using rotate_keys(3) [OF 2(1), of j] k rotate_distinct [OF 2(1) stored_keyring_distinct [OF kr]]
        by (simp add: KeyByID_sorted)
      with 2(2) OpRotate show ?thesis by (auto simp: key_stored_def)
    qed (use OpRotate assms(3) in simp)
  next
    case (OpSet e nonce key val who)
    have "find_setting (key_step pr ek op d) backupKeyringKey = find_setting d backupKeyringKey"
      using OpSet assms(2) find_setting_Set [OF surjective_pairing] by simp
    from stored_keyring_cong [OF this] kr k show ?thesis by (simp add: key_stored_def)
  next
    case (OpSetIfAbsent e nonce key val)
    have "find_setting (key_step pr ek op d) backupKeyringKey = find_setting d backupKeyringKey"
      using OpSetIfAbsent found find_setting_SetIfAbsent [OF surjective_pairing] by auto
    from stored_keyring_cong [OF this] kr k show ?thesis by (simp add: key_stored_def)
  qed
qed

text \<open>A backup key that is stored stays stored under its id: whatever sequence of
  reads, exports, rotations (also failing ones) and writes of other settings follows, the
  keyring read from the encrypted table has the same key for that id.\<close>

theorem backup_keys_survive:
  assumes "gcm_correct pr" and "list_all key_op_ok ops" and "key_stored pr ek d j k"
  shows "key_stored pr ek (fold (key_step pr ek) ops d) j k"
  using assms(2,3) by (induction ops arbitrary: d) (auto simp: key_step_keeps [OF assms(1)])

definition ex_key32 :: string where "ex_key32 = replicate 32 (CHR ''k'')"
definition ex_nonce :: string where "ex_nonce = replicate 12 (CHR ''n'')"

definition ex_seed :: key_seed where
  "ex_seed = \<lparr>ks_raw = ''a'', ks_nonce = ex_nonce, ks_raw2 = ''b'', ks_nonce2 = ex_nonce\<rparr>"

definition ex_keyring_db :: db where
  "ex_keyring_db = snd (create_keyring plain_prims ex_key32 (quiet 0) ex_seed empty_db)"

lemma plain_prims_gcm: "gcm_correct plain_prims"
  by (simp add: gcm_correct_def plain_prims_def)

theorem backup_keys_survive_witness:
  "key_stored plain_prims ex_key32
     (fold (key_step plain_prims ex_key32)
        [OpRotate (quiet 1) ex_seed None, OpSet (quiet 2) ex_nonce ''smtp_config'' ''x'' None, OpExport (quiet 3) ex_seed]
        ex_keyring_db) 0 (b64_encode ''a'')"
proof (rule backup_keys_survive [OF plain_prims_gcm])
  show "list_all key_op_ok
      [OpRotate (quiet 1) ex_seed None, OpSet (quiet 2) ex_nonce ''smtp_config'' ''x'' None, OpExport (quiet 3) ex_seed]"
    by (simp add: ex_seed_def ex_nonce_def nonce_size_def)
  have save: "saveKeyring plain_prims ex_key32 (quiet 0) ex_nonce empty_db \<lparr>kr_Active = 0, kr_Keys = [(''0'', b64_encode ''a'')]\<rparr> None
      = (Inr (), ex_keyring_db)"
    by (simp add: ex_keyring_db_def create_keyring_def newKeyring_def generateKey_def wrapping_def call_def ex_seed_def
        saveKeyring_def settings_Set_def marshal_keyring_nonempty Encrypt_def ex_key32_def Let_def)
  have "stored_keyring plain_prims ex_key32 (quiet 0) ex_keyring_db
      = Inr (Some (sorted_keys \<lparr>kr_Active = 0, kr_Keys = [(''0'', b64_encode ''a'')]\<rparr>))"
    by (rule saveKeyring_stored [OF plain_prims_gcm _ _ save]) (simp_all add: ex_nonce_def nonce_size_def)
  moreover have "dec 0 = ''0''" by (simp add: dec_def dec_nat.simps [of 0] char_of_eq_iff)
  ultimately show "key_stored plain_prims ex_key32 ex_keyring_db 0 (b64_encode ''a'')"
    by (simp add: key_stored_def KeyByID_def sorted_keys_def)
qed

text \<open>Two first uses at once: each finds nothing stored and stores a keyring of its own, and
  the key the first one goes on to encrypt with under id 0 is not the one kept under id 0.\<close>

theorem keyring_first_use_race:
  assumes "gcm_correct pr" and "length (ks_nonce s2) = nonce_size" and "ks_raw s1 \<noteq> ks_raw s2"
    and "create_keyring pr ek e1 s1 d = (Inr kr1, d1)" and "create_keyring pr ek e2 s2 d1 = (Inr kr2, d2)"
  shows "\<exists>k. KeyByID kr1 0 = Some (b64_encode (ks_raw s1)) \<and> key_stored pr ek d2 0 k \<and> k \<noteq> b64_encode (ks_raw s1)"
proof -
  have zero: "dec 0 = ''0''" by (simp add: dec_def dec_nat.simps [of 0] char_of_eq_iff)
  from assms(4) have k1: "kr1 = \<lparr>kr_Active = 0, kr_Keys = [(''0'', b64_encode (ks_raw s1))]\<rparr>"
    by (auto simp: create_keyring_def newKeyring_def and_then_Inr generateKey_def split: sum.splits prod.splits)
  from assms(5) have k2: "kr2 = \<lparr>kr_Active = 0, kr_Keys = [(''0'', b64_encode (ks_raw s2))]\<rparr>"
    and save: "saveKeyring pr ek e2 (ks_nonce s2) d1 kr2 None = (Inr (), d2)"
    by (auto simp: create_keyring_def newKeyring_def and_then_Inr generateKey_def split: sum.splits prod.splits)
  have "stored_keyring pr ek (quiet 0) d2 = Inr (Some (sorted_keys kr2))"
    using saveKeyring_stored [OF assms(1,2) _ save] k2 by simp
  then have "key_stored pr ek d2 0 (b64_encode (ks_raw s2))"
    using k2 zero by (simp add: key_stored_def KeyByID_def sorted_keys_def)
  moreover have "b64_encode (ks_raw s2) \<noteq> b64_encode (ks_raw s1)"
    using assms(3) by (metis b64_decode_encode option.inject)
  ultimately show ?thesis using k1 zero by (auto simp: KeyByID_def)
qed

section \<open>Pairs converge\<close>

lemma pair_json: "unmarshal_pair (marshal_pair p) = Some p"
proof -
  have "json_unmarshal (marshal_pair p) = Some (JObj [(''cert_pem'', JStr (b64_encode (pp_CertPEM p))),
     (''key_pem'', JStr (b64_encode (pp_KeyPEM p)))])"
    unfolding marshal_pair_def by (rule json_roundtrip) simp
  moreover have "equal_fold s s" for s by (simp add: equal_fold_def)
  moreover have "\<not> equal_fold ''key_pem'' ''cert_pem''" by code_simp
  ultimately show ?thesis by (simp add: unmarshal_pair_def json_bytes_def)
qed

lemma pair_read_cong:
  "find_setting d key = find_setting d' key \<Longrightarrow> pair_read lbl pr ek e d key = pair_read lbl pr ek e d' key"
  by (simp add: pair_read_def settings_Get_def)

lemma pair_read_quiet: "pair_read lbl pr ek e d key = Inr x \<Longrightarrow> pair_read lbl' pr ek (quiet t) d key = Inr x"
  unfolding pair_read_def and_then_Inr by (blast intro: settings_Get_quiet)

lemma pair_read_found: "pair_read lbl pr ek e d key = Inr (Some p) \<Longrightarrow> \<exists>s. find_setting d key = Some s"
  by (cases "find_setting d key") (auto simp: pair_read_def settings_Get_def and_then_Inr call_def split: if_splits)

lemma SetIfAbsent_keeps_pair:
  assumes "pair_read lbl pr ek e d key = Inr (Some p)"
  shows "pair_read lbl pr ek e (snd (settings_SetIfAbsent l pr ek e' nonce d key' v)) key = Inr (Some p)"
proof -
  obtain s where s: "find_setting d key = Some s" using pair_read_found [OF assms] by blast
  then have "find_setting (snd (settings_SetIfAbsent l pr ek e' nonce d key' v)) key = find_setting d key"
    using find_setting_SetIfAbsent [OF surjective_pairing] by metis
  from pair_read_cong [OF this] assms show ?thesis by simp
qed

text \<open>Callers that create a certificate pair at the same time converge: the pair a call
  returns is the one stored; a call that finds nothing, and meanwhile another call stored a
  pair, returns that one (or fails) and leaves it in place; and once a pair is stored every
  later call returns it or fails, without changing the table.\<close>

theorem mtls_pair_converges:
  shows "loadOrCreatePair pr ek e gen nonce others d key = (Inr p, d') \<Longrightarrow>
      pair_read ''pair.read'' pr ek (quiet 0) d' key = Inr (Some p)
      \<and> (\<forall>e2 gen2 nonce2 others2. loadOrCreatePair pr ek e2 gen2 nonce2 others2 d' key = (Inr p, d')
           \<or> (\<exists>err. loadOrCreatePair pr ek e2 gen2 nonce2 others2 d' key = (Inl err, d')))
      \<and> (\<forall>q. pair_read ''pair.read'' pr ek (quiet 0) d key = Inr None \<and>
             pair_read ''pair.read'' pr ek (quiet 0) (others d) key = Inr (Some q) \<longrightarrow> p = q)"
proof -
  assume run: "loadOrCreatePair pr ek e gen nonce others d key = (Inr p, d')"
  then obtain lbl where "pair_read lbl pr ek e d' key = Inr (Some p)"
    by (auto simp: loadOrCreatePair_def split: sum.splits option.splits prod.splits)
  then have stored: "pair_read l pr ek (quiet 0) d' key = Inr (Some p)" for l by (rule pair_read_quiet)
  have later: "loadOrCreatePair pr ek e2 gen2 nonce2 others2 d' key = (Inr p, d')
      \<or> (\<exists>err. loadOrCreatePair pr ek e2 gen2 nonce2 others2 d' key = (Inl err, d'))" for e2 gen2 nonce2 others2
  proof (cases "pair_read ''pair.read'' pr ek e2 d' key")
    case (Inr x)
    then have "x = Some p" using pair_read_quiet [OF Inr, of "''pair.read''" 0] stored by simp
    with Inr show ?thesis by (simp add: loadOrCreatePair_def)
  qed (simp add: loadOrCreatePair_def)
  have "p = q" if none: "pair_read ''pair.read'' pr ek (quiet 0) d key = Inr None"
    and other: "pair_read ''pair.read'' pr ek (quiet 0) (others d) key = Inr (Some q)" for q
  proof -
    have first: "pair_read ''pair.read'' pr ek e d key = Inr None"
      using run none pair_read_quiet [of "''pair.read''" pr ek e d key _ "''pair.read''" 0]
      by (cases "pair_read ''pair.read'' pr ek e d key") (auto simp: loadOrCreatePair_def)
    from run first obtain fresh u where
      "settings_SetIfAbsent ''pair.store'' pr ek e nonce (others d) key (marshal_pair fresh) = (Inr u, d')"
      by (auto simp: loadOrCreatePair_def split: sum.splits option.splits prod.splits)
    then have "pair_read ''pair.read'' pr ek (quiet 0) d' key = Inr (Some q)"
      using SetIfAbsent_keeps_pair [OF other, of "''pair.store''" e nonce key "marshal_pair fresh"] by simp
    with stored show "p = q" by simp
  qed
  with stored later show ?thesis by blast
qed

definition ex_pair :: "string \<Rightarrow> pemPair" where
  "ex_pair s = \<lparr>pp_CertPEM = s, pp_KeyPEM = s @ s\<rparr>"

definition ex_pair_db :: db where
  "ex_pair_db = snd (settings_SetIfAbsent ''pair.store'' plain_prims ex_key32 (quiet 0) ex_nonce empty_db mtlsCAKey
     (marshal_pair (ex_pair ''A'')))"

lemma SetIfAbsent_pair:
  assumes "gcm_correct pr" and "length nonce = nonce_size"
    and "settings_SetIfAbsent lbl pr ek e nonce d key (marshal_pair p) = (Inr True, d')"
  shows "pair_read lbl' pr ek (quiet t) d' key = Inr (Some p)"
proof -
  from assms(3) obtain enc where enc: "Encrypt pr e nonce ek (marshal_pair p) = Inr enc"
    and none: "find_setting d key = None"
    and d': "d' = d\<lparr>app_settings := app_settings d @
      [\<lparr>as_Key = key, as_Value = enc, as_UpdatedAt = now e, as_UpdatedBy = None\<rparr>]\<rparr>"
    by (auto simp: settings_SetIfAbsent_def split: sum.splits if_splits)
  have "Decrypt pr ek enc = Inr (marshal_pair p)"
    using assms(1,2) enc by (auto simp: Encrypt_def Decrypt_def gcm_correct_def split: if_splits)
  moreover have "find_setting d' key = Some \<lparr>as_Key = key, as_Value = enc, as_UpdatedAt = now e, as_UpdatedBy = None\<rparr>"
    using none d' by (simp add: find_setting_def find_append)
  moreover have "marshal_pair p \<noteq> ''''" by (simp add: marshal_pair_def)
  ultimately show ?thesis by (simp add: pair_read_def settings_Get_def call_def wrapping_def pair_json)
qed

theorem mtls_pair_converges_witness:
  "loadOrCreatePair plain_prims ex_key32 (quiet 1) (Inr (ex_pair ''B'')) ex_nonce (\<lambda>_. ex_pair_db) empty_db mtlsCAKey
     = (Inr (ex_pair ''A''), ex_pair_db)
   \<and> pair_read ''pair.read'' plain_prims ex_key32 (quiet 0) ex_pair_db mtlsCAKey = Inr (Some (ex_pair ''A''))"
proof -
  have len: "length ex_key32 = 32" "length ex_nonce = nonce_size"
    by (simp_all add: ex_key32_def ex_nonce_def nonce_size_def)
  have "settings_SetIfAbsent ''pair.store'' plain_prims ex_key32 (quiet 0) ex_nonce empty_db mtlsCAKey
      (marshal_pair (ex_pair ''A'')) = (Inr True, ex_pair_db)"
    by (simp add: ex_pair_db_def settings_SetIfAbsent_def Encrypt_def len find_setting_def empty_db_def)
  then have stored: "pair_read l plain_prims ex_key32 (quiet t) ex_pair_db mtlsCAKey = Inr (Some (ex_pair ''A''))" for l t
    by (rule SetIfAbsent_pair [OF plain_prims_gcm len(2)])
  then obtain s where "find_setting ex_pair_db mtlsCAKey = Some s" using pair_read_found by blast
  then have "settings_SetIfAbsent ''pair.store'' plain_prims ex_key32 (quiet 1) ex_nonce ex_pair_db mtlsCAKey
      (marshal_pair (ex_pair ''B'')) = (Inr False, ex_pair_db)"
    by (simp add: settings_SetIfAbsent_def Encrypt_def len)
  moreover have "pair_read ''pair.read'' plain_prims ex_key32 (quiet 1) empty_db mtlsCAKey = Inr None"
    by (simp add: pair_read_def settings_Get_def find_setting_def empty_db_def call_def)
  ultimately have run: "loadOrCreatePair plain_prims ex_key32 (quiet 1) (Inr (ex_pair ''B'')) ex_nonce (\<lambda>_. ex_pair_db)
      empty_db mtlsCAKey = (Inr (ex_pair ''A''), ex_pair_db)"
    using stored by (simp add: loadOrCreatePair_def)
  from run mtls_pair_converges [OF run] show ?thesis by blast
qed

section \<open>Mail settings\<close>

lemma smtp_fields_step:
  "smtp_fields ((''host'', v) # ms) c = (case json_str_field v (sc_Host c) of None \<Rightarrow> None | Some x \<Rightarrow> smtp_fields ms (c\<lparr>sc_Host := x\<rparr>))"
  "smtp_fields ((''port'', v) # ms) c = (case json_int_field v (sc_Port c) of None \<Rightarrow> None | Some x \<Rightarrow> smtp_fields ms (c\<lparr>sc_Port := x\<rparr>))"
  "smtp_fields ((''username'', v) # ms) c = (case json_str_field v (sc_Username c) of None \<Rightarrow> None | Some x \<Rightarrow> smtp_fields ms (c\<lparr>sc_Username := x\<rparr>))"
  "smtp_fields ((''password'', v) # ms) c = (case json_str_field v (sc_Password c) of None \<Rightarrow> None | Some x \<Rightarrow> smtp_fields ms (c\<lparr>sc_Password := x\<rparr>))"
  "smtp_fields ((''from'', v) # ms) c = (case json_str_field v (sc_From c) of None \<Rightarrow> None | Some x \<Rightarrow> smtp_fields ms (c\<lparr>sc_From := x\<rparr>))"
  "smtp_fields ((''tls_mode'', v) # ms) c = (case json_str_field v (sc_TLSMode c) of None \<Rightarrow> None | Some x \<Rightarrow> smtp_fields ms (c\<lparr>sc_TLSMode := x\<rparr>))"
  by (auto simp: equal_fold_def to_lower_def lower_char_def is_upper_def byte_def split: option.splits)

lemma smtp_json:
  assumes "0 \<le> sc_Port c" and "sc_Port c \<le> max_int"
  shows "unmarshal_smtp (marshal_smtp c) = Some c"
proof -
  have port: "dec (sc_Port c) = dec_nat (nat (sc_Port c))" using assms(1) by (simp add: dec_def)
  have "json_unmarshal (marshal_smtp c) = Some (JObj
     [(''host'', JStr (sc_Host c)), (''port'', JNum (dec (sc_Port c))), (''username'', JStr (sc_Username c)),
      (''password'', JStr (sc_Password c)), (''from'', JStr (sc_From c)), (''tls_mode'', JStr (sc_TLSMode c))])"
    unfolding marshal_smtp_def by (rule json_roundtrip) (simp add: port json_number_dec_nat)
  then show ?thesis
    using assms atoi_dec_nat [of "nat (sc_Port c)"]
    by (simp add: unmarshal_smtp_def smtp_fields_step json_str_field_def json_int_field_def port empty_smtp_def
        del: smtp_fields.simps(2))
qed

lemma trim_space_idem [simp]: "trim_space (trim_space s) = trim_space s"
proof -
  have drop: "dropWhile is_space (dropWhile is_space t) = dropWhile is_space t" for t by (rule dropWhile_idem)
  let ?u = "dropWhile is_space s"
  let ?v = "rev (dropWhile is_space (rev ?u))"
  have "dropWhile is_space ?v = ?v"
  proof (cases ?v)
    case (Cons c cs)
    have "\<exists>zs. ?u = ?v @ zs" using takeWhile_dropWhile_id [of is_space "rev ?u"]
      by (metis rev_append rev_rev_ident)
    then have "hd ?u = c" "?u \<noteq> []" using Cons by (metis append_Cons list.sel(1), metis append_Cons list.distinct(1))
    then have "\<not> is_space c" using hd_dropWhile [of is_space s] by metis
    with Cons show ?thesis by simp
  next
    case Nil
    show ?thesis unfolding Nil by simp
  qed
  then show ?thesis by (simp add: trim_space_def drop)
qed

lemma trim_space_to_lower [simp]: "trim_space (to_lower s) = to_lower (trim_space s)"
proof -
  have dw: "dropWhile is_space (map lower_char t) = map lower_char (dropWhile is_space t)" for t
    by (induction t) auto
  show ?thesis by (simp add: trim_space_def to_lower_def dw rev_map)
qed

lemma smtp_Normalize_idem [simp]: "smtp_Normalize (smtp_Normalize c) = smtp_Normalize c"
proof -
  have "trim_space ''starttls'' = ''starttls''" "trim_space ''tls'' = ''tls''"
    "to_lower ''starttls'' = ''starttls''" "to_lower ''tls'' = ''tls''"
    by code_simp+
  then show ?thesis
    by (simp add: smtp_Normalize_def Let_def DefaultSMTPTLSMode_def)
qed

lemma GetSMTP_after_Set:
  assumes "gcm_correct pr" and "length nonce = nonce_size" and "0 \<le> sc_Port c" and "sc_Port c \<le> max_int"
    and "SetSMTP pr ek e nonce d (Some c) who = (Inr u, d')"
  shows "GetSMTP pr ek (quiet 0) d' = Inr (Some (smtp_Normalize c))"
proof -
  have ne: "marshal_smtp c \<noteq> ''''" by (simp add: marshal_smtp_def)
  have "settings_Get ''GetSMTP'' pr ek (quiet 0) d' smtpSettingsKey = Inr (marshal_smtp c)"
    using assms(1,2,5) unfolding SetSMTP_def by (intro settings_Set_Get [OF _ _ ne]) auto
  with smtp_json [OF assms(3,4)] ne show ?thesis by (simp add: GetSMTP_def)
qed

lemma GetSMTP_after_clear:
  assumes "SetSMTP pr ek e nonce d None who = (Inr u, d')"
  shows "GetSMTP pr ek (quiet 0) d' = Inr None"
proof -
  from assms have "d' = d\<lparr>app_settings := delete_where (\<lambda>s. as_Key s = smtpSettingsKey) (app_settings d)\<rparr>"
    by (auto simp: SetSMTP_def settings_Set_def split: if_splits)
  then have "find_setting d' smtpSettingsKey = None"
    unfolding find_setting_def by (intro find_none) (auto simp: set_delete_where)
  then show ?thesis by (simp add: GetSMTP_def settings_Get_def call_def)
qed

text \<open>An update of the mail settings that is answered with the new settings leaves the
  running notifier and the stored document in agreement: with a host the stored document
  is the notifier's configuration, which can be used as it is; without one nothing is stored
  and the notifier is back on the environment's configuration.\<close>

theorem smtp_update_consistent:
  assumes "gcm_correct pr" and "length nonce = nonce_size"
    and "h_UpdateSMTP parse envCfg pr ek e nonce d active user (Inr req) = (Reply 200 r, active', d')"
  shows "(trim_space (uq_Host req) \<noteq> '''' \<longrightarrow>
      GetSMTP pr ek (quiet 0) d' = Inr (Some active') \<and> is_ok (smtp_Validate parse active') \<and> smtp_Normalize active' = active')
    \<and> (trim_space (uq_Host req) = '''' \<longrightarrow> GetSMTP pr ek (quiet 0) d' = Inr None \<and> active' = smtp_Normalize envCfg)"
proof -
  let ?c = "smtp_of_request req"
  let ?c' = "smtp_Normalize (?c\<lparr>sc_Password := (case uq_Password req of
      Some p \<Rightarrow> if p \<noteq> '''' then p else sc_Password active | None \<Rightarrow> sc_Password active)\<rparr>)"
  have host: "sc_Host ?c = trim_space (uq_Host req)"
    by (simp add: smtp_of_request_def smtp_Normalize_def Let_def)
  show ?thesis
  proof (cases "sc_Host ?c = ''''")
    case True
    with assms(3) obtain u where "SetSMTP pr ek e nonce d None (Some (u_ID user)) = (Inr u, d')"
      and "active' = smtp_Normalize envCfg"
      by (auto simp: h_UpdateSMTP_def Let_def split: prod.splits sum.splits)
    with True host GetSMTP_after_clear show ?thesis by metis
  next
    case False
    with assms(3) obtain u where val: "smtp_Validate parse ?c' = Inr u"
      and set: "\<exists>u. SetSMTP pr ek e nonce d (Some ?c') (Some (u_ID user)) = (Inr u, d')"
      and act: "active' = ?c'"
      by (auto simp: h_UpdateSMTP_def Let_def split: prod.splits sum.splits)
    have "0 \<le> sc_Port ?c'" "sc_Port ?c' \<le> max_int"
      using val by (auto simp: smtp_Validate_def max_int_def split: if_splits)
    with set act GetSMTP_after_Set [OF assms(1,2)] have "GetSMTP pr ek (quiet 0) d' = Inr (Some active')"
      by fastforce
    with False host val act show ?thesis by simp
  qed
qed

lemma join_Fields_printable:
  "(\<And>c. c \<in> set s \<Longrightarrow> P c) \<Longrightarrow> P (CHR '' '') \<Longrightarrow> c \<in> set (join '' '' (Fields s)) \<Longrightarrow> P c"
proof -
  assume s: "\<And>c. c \<in> set s \<Longrightarrow> P c" and sp: "P (CHR '' '')" and c: "c \<in> set (join '' '' (Fields s))"
  have sub: "w \<in> set (Fields s) \<Longrightarrow> x \<in> set w \<Longrightarrow> x \<in> set s" for w x
    by (induction s rule: Fields.induct) (auto split: if_splits dest: set_takeWhileD set_dropWhileD)
  have "c \<in> set (join '' '' ws) \<Longrightarrow> c = CHR '' '' \<or> (\<exists>w \<in> set ws. c \<in> set w)" for ws
    by (induction "'' ''" ws rule: join.induct) auto
  with c sub s sp show "P c" by blast
qed

lemma set_take_runes: "set (take_runes n s) \<subseteq> set s"
proof (induction n s rule: take_runes.induct)
  case (3 n c cs)
  then have "set (take_runes n (drop (rune_width (c # cs)) (c # cs))) \<subseteq> set (c # cs)"
    using set_drop_subset by (rule subset_trans)
  then show ?case by (auto dest: in_set_takeD simp del: set_simps)
qed simp_all

text \<open>A sanitized header is a single line: it has no control characters.\<close>

theorem header_single_line: "c \<in> set (sanitizeHeader s) \<Longrightarrow> byte c \<ge> 32 \<and> byte c \<noteq> 127"
proof -
  let ?f = "\<lambda>c. if byte c < 32 \<or> byte c = 127 then CHR '' '' else c"
  have sp: "byte (CHR '' '') = 32" by (simp add: byte_def)
  have "c \<in> set (join '' '' (Fields (map ?f s))) \<Longrightarrow> byte c \<ge> 32 \<and> byte c \<noteq> 127"
    by (rule join_Fields_printable [where s = "map ?f s"]) (auto simp: sp)
  moreover assume "c \<in> set (sanitizeHeader s)"
  ultimately show ?thesis
    using set_take_runes by (auto simp: sanitizeHeader_def Let_def split: if_splits)
qed

end
