(* ===== verification/DestinationRules.thy ===== *)
theory DestinationRules
  imports Destinations SettingsRules
begin

text \<open>
  What the destinations promise: whatever users and nodes send, a node is only ever given
  options of the provider's table, each value on a single line, and a base path that stays
  below its folder; secrets left empty on an update keep their stored value.
\<close>

section \<open>Values on a single line\<close>

text \<open>What \<^verbatim>\<open>encoding/json\<close> writes for a \<^verbatim>\<open>float64\<close> is a number.\<close>

definition float_text :: "(string \<Rightarrow> string option) \<Rightarrow> bool" where
  "float_text flt = (\<forall>t s. flt t = Some s \<longrightarrow> json_number s)"

definition printable :: "string \<Rightarrow> bool" where
  "printable s = (\<forall>c \<in> set s. 32 \<le> byte c)"

lemma printable_append [simp]: "printable (a @ b) \<longleftrightarrow> printable a \<and> printable b"
  by (auto simp: printable_def)

lemma printable_Cons [simp]: "printable (c # b) \<longleftrightarrow> 32 \<le> byte c \<and> printable b"
  by (auto simp: printable_def)

lemma printable_Nil [simp]: "printable []"
  by (simp add: printable_def)

lemma printable_concat: "(\<And>x. x \<in> set xs \<Longrightarrow> printable x) \<Longrightarrow> printable (concat xs)"
  by (auto simp: printable_def)

lemma printable_join: "printable sep \<Longrightarrow> (\<And>x. x \<in> set xs \<Longrightarrow> printable x) \<Longrightarrow> printable (join sep xs)"
  by (induction sep xs rule: join.induct) auto

lemma printable_single_line: "printable s \<Longrightarrow> single_line s"
  by (auto simp: printable_def single_line_def contains_any_def)

lemma printable_json_char: "printable (json_char c)"
proof -
  have hex: "32 \<le> byte (hex_digit n)" if "n < 16" for n
    using that by (auto simp: hex_digit_def)
  have lit: "32 \<le> byte (CHR 0x5C)" "32 \<le> byte (CHR 0x22)" "32 \<le> byte (CHR ''b'')" "32 \<le> byte (CHR ''f'')"
    "32 \<le> byte (CHR ''n'')" "32 \<le> byte (CHR ''r'')" "32 \<le> byte (CHR ''t'')" "32 \<le> byte (CHR ''u'')"
    by (simp_all add: byte_def)
  show ?thesis by (auto simp: json_char_def u_escape_def hex lit)
qed

lemma printable_json_string: "printable (json_string s)"
proof -
  have "printable (concat (map json_char s))" by (rule printable_concat) (auto simp: printable_json_char)
  then show ?thesis by (simp add: json_string_def byte_def)
qed

lemma num_char_printable: "num_char c \<Longrightarrow> 32 \<le> byte c"
  by (auto simp: num_char_def is_digit_def byte_def)

lemma printable_number: "json_number n \<Longrightarrow> printable n"
  by (auto simp: printable_def list_all_iff num_char_printable dest!: json_number_chars)

lemma printable_json_text: "json_ok j \<Longrightarrow> printable (json_text j)"
proof (induction j)
  case (JArr vs)
  then have "printable (join '','' (map json_text vs))"
    by (intro printable_join) (auto simp: byte_def list_all_iff)
  then show ?case by (simp add: byte_def)
next
  case (JObj ms)
  have "printable (member_text m)" if "m \<in> set ms" for m
    using JObj that by (cases m) (auto simp: member_text_def printable_json_string byte_def list_all_iff snds.intros)
  then have "printable (join '','' (map member_text ms))"
    by (intro printable_join) (auto simp: byte_def)
  then show ?case unfolding json_text_obj by (simp add: byte_def)
qed (auto simp: printable_json_string printable_number byte_def)

lemma set_alist_update: "set (AList.update k v m) \<subseteq> insert (k, v) (set m)"
  by (induction m) auto

lemma set_fold_update: "set (fold (\<lambda>(k, v) m. AList.update k v m) ms acc) \<subseteq> set ms \<union> set acc"
proof (induction ms arbitrary: acc)
  case (Cons p ms)
  obtain k v where p: "p = (k, v)" by (cases p)
  have "set (fold (\<lambda>(k, v) m. AList.update k v m) ms (AList.update k v acc)) \<subseteq> set ms \<union> set (AList.update k v acc)"
    by (rule Cons.IH)
  with p set_alist_update [of k v acc] show ?case by auto
qed simp

lemma set_last_bindings: "set (last_bindings ms) \<subseteq> set ms"
  using set_fold_update [of ms "[]"] by (simp add: last_bindings_def)

lemma json_ok_canon:
  assumes "float_text flt" and "\<forall>n \<in> set (json_nums j). flt n \<noteq> None"
  shows "json_ok (json_canon flt j)"
  using assms(2)
proof (induction j)
  case (JNum t)
  with assms(1) show ?case by (auto simp: float_text_def split: option.splits)
next
  case (JObj ms)
  have "json_ok v" if "(k, v) \<in> set (last_bindings (map (\<lambda>(k, v). (k, json_canon flt v)) ms))" for k v
  proof -
    from that set_last_bindings obtain w where "(k, w) \<in> set ms" "v = json_canon flt w" by fastforce
    with JObj show ?thesis by (force simp: snds.intros)
  qed
  then show ?case by (auto simp: list_all_iff)
qed (auto simp: list_all_iff)

lemma oauth_single_line:
  assumes "float_text flt" and "normalizeOAuthToken flt raw = Inr t"
  shows "single_line t"
proof -
  from assms(2) obtain ms where t: "t = json_text (json_canon flt (JObj ms))"
    and nums: "\<not> list_ex (\<lambda>n. flt n = None) (json_nums (JObj ms))"
    by (auto simp: normalizeOAuthToken_def simp del: json_text.simps json_canon.simps json_nums.simps
        split: option.splits json.splits if_splits)
  from nums have "\<forall>n \<in> set (json_nums (JObj ms)). flt n \<noteq> None" by (auto simp: list_ex_iff)
  with assms(1) t show ?thesis by (metis json_ok_canon printable_json_text printable_single_line)
qed

lemma normalizeOption_single_line:
  "float_text flt \<Longrightarrow> normalizeOption flt f v = Inr nv \<Longrightarrow> single_line nv"
  by (auto simp: normalizeOption_def Let_def dest: oauth_single_line split: if_splits)

section \<open>What is stored\<close>

definition lines_ok :: "strmap \<Rightarrow> bool" where
  "lines_ok m = (\<forall>(k, v) \<in> set m. single_line v)"

lemma lines_ok_update: "lines_ok m \<Longrightarrow> single_line v \<Longrightarrow> lines_ok (AList.update k v m)"
  using set_alist_update [of k v m] by (auto simp: lines_ok_def)

lemma split_plain_ok:
  "split_plain flt p opts acc = Inr plain \<Longrightarrow> float_text flt \<Longrightarrow> lines_ok acc \<Longrightarrow> lines_ok plain"
proof (induction opts arbitrary: acc)
  case (Cons o' opts)
  obtain k v where o': "o' = (k, v)" by (cases o')
  from Cons.prems(1) o' obtain f nv where "normalizeOption flt f v = Inr nv"
    and "split_plain flt p opts (if nv \<noteq> '''' then AList.update k nv acc else acc) = Inr plain"
    by (auto split: option.splits sum.splits if_splits)
  with Cons.IH Cons.prems(2,3) normalizeOption_single_line show ?case
    by (metis lines_ok_update)
qed simp

lemma split_secret_ok:
  "split_secret flt p secs acc = Inr sec \<Longrightarrow> float_text flt \<Longrightarrow> lines_ok acc \<Longrightarrow> lines_ok sec"
proof (induction secs arbitrary: acc)
  case (Cons o' secs)
  obtain k v where o': "o' = (k, v)" by (cases o')
  show ?case
  proof (cases "trim_space v = ''''")
    case True
    with Cons o' show ?thesis by (auto split: option.splits if_splits)
  next
    case False
    with Cons.prems(1) o' obtain f nv where "normalizeOption flt f v = Inr nv"
      and "split_secret flt p secs (AList.update k nv acc) = Inr sec"
      by (auto split: option.splits sum.splits if_splits)
    with Cons.IH Cons.prems(2,3) normalizeOption_single_line lines_ok_update show ?thesis by metis
  qed
qed simp

lemma lines_ok_kept: "lines_ok m \<Longrightarrow> lines_ok (kept_secrets p m)"
  by (auto simp: lines_ok_def kept_secrets_def)

lemma splitD:
  "splitDestinationOptions flt p opts secs ex = Inr (plain, sec) \<Longrightarrow>
   split_plain flt p opts [] = Inr plain \<and> split_secret flt p secs (kept_secrets p ex) = Inr sec
   \<and> missing_field p plain sec = None"
  by (auto simp: splitDestinationOptions_def and_then_Inr Let_def split: option.splits if_splits)

lemma split_ok:
  assumes "splitDestinationOptions flt p opts secs ex = Inr (plain, sec)" and "float_text flt" and "lines_ok ex"
  shows "lines_ok plain" and "lines_ok sec"
proof -
  have "lines_ok []" by (simp add: lines_ok_def)
  then show "lines_ok plain" using splitD [OF assms(1)] assms(2) split_plain_ok by blast
  show "lines_ok sec" using splitD [OF assms(1)] assms(2) lines_ok_kept [OF assms(3)] split_secret_ok by blast
qed

lemma apply_updates_ok:
  "apply_updates flt p us (opts, secs, ch) = (opts', secs', ch') \<Longrightarrow> float_text flt \<Longrightarrow> lines_ok opts \<Longrightarrow> lines_ok secs \<Longrightarrow>
   lines_ok opts' \<and> lines_ok secs'"
proof (induction us arbitrary: opts secs ch)
  case (Cons u us)
  obtain k v where u: "u = (k, v)" by (cases u)
  have acc: "single_line nv" if "accepted_update flt p k v = Some (f, nv)" for f nv
    using that Cons.prems(2) by (auto simp: accepted_update_def dest: oauth_single_line split: option.splits if_splits sum.splits)
  show ?case
    using Cons.prems u by (auto split: option.splits if_splits dest!: Cons.IH simp: lines_ok_update acc)
qed simp

section \<open>The invariant of the stored destinations\<close>

definition clean_row :: "prims \<Rightarrow> string \<Rightarrow> DestinationRow \<Rightarrow> bool" where
  "clean_row pr ek r = (findProvider (bd_Provider r) \<noteq> None \<and> is_ok (ValidateRemoteBasePath (bd_BasePath r))
     \<and> lines_ok (bd_Options r) \<and> (\<forall>m. row_secrets pr ek r = Inr m \<longrightarrow> lines_ok m))"

definition destinations_clean :: "prims \<Rightarrow> string \<Rightarrow> db \<Rightarrow> bool" where
  "destinations_clean pr ek d = (\<forall>r \<in> set (backup_destinations d). clean_row pr ek r)"

lemma unmarshal_distinct: "unmarshal_strmap s = Some m \<Longrightarrow> distinct (map fst m)"
  by (auto simp: unmarshal_strmap_def dest: strmap_of_distinct split: option.splits json.splits)

lemma row_secrets_distinct: "row_secrets pr ek r = Inr m \<Longrightarrow> distinct (map fst m)"
  by (auto simp: row_secrets_def and_then_Inr dest: unmarshal_distinct split: if_splits option.splits)

lemma split_secret_distinct:
  "split_secret flt p secs acc = Inr sec \<Longrightarrow> distinct (map fst acc) \<Longrightarrow> distinct (map fst sec)"
  by (induction flt p secs acc rule: split_secret.induct)
    (auto split: option.splits if_splits sum.splits simp: distinct_update)

lemma kept_distinct: "distinct (map fst m) \<Longrightarrow> distinct (map fst (kept_secrets p m))"
  by (simp add: kept_secrets_def distinct_map_filter)

lemma split_distinct:
  "splitDestinationOptions flt p opts secs ex = Inr (plain, sec) \<Longrightarrow> distinct (map fst ex) \<Longrightarrow> distinct (map fst sec)"
  using splitD split_secret_distinct kept_distinct by blast

lemma apply_updates_distinct:
  "apply_updates flt p us (opts, secs, ch) = (opts', secs', ch') \<Longrightarrow> distinct (map fst secs) \<Longrightarrow> distinct (map fst secs')"
proof (induction us arbitrary: opts secs ch)
  case (Cons u us)
  obtain k v where u: "u = (k, v)" by (cases u)
  show ?case using Cons.prems u by (auto split: option.splits if_splits dest!: Cons.IH simp: distinct_update)
qed simp

lemma encrypted_secrets:
  assumes "gcm_correct pr" and "length nonce = nonce_size" and "encryptSecrets pr ek e nonce sec = Inr s"
    and "distinct (map fst sec)" and "bd_Secrets r = s"
  shows "row_secrets pr ek r = Inr (sort_key fst sec)"
proof (cases "sec = []")
  case True
  with assms(3,5) show ?thesis by (simp add: encryptSecrets_def row_secrets_def)
next
  case False
  with assms(3) have enc: "Encrypt pr e nonce ek (marshal_strmap sec) = Inr s"
    by (simp add: encryptSecrets_def)
  have ne: "s \<noteq> ''''"
    using enc assms(2) by (cases nonce rule: b64_encode.cases)
      (auto simp: Encrypt_def nonce_size_def split: if_splits)
  have "Decrypt pr ek s = Inr (marshal_strmap sec)"
    using assms(1,2) enc by (auto simp: Encrypt_def Decrypt_def gcm_correct_def split: if_splits)
  with ne assms(5) strmap_roundtrip(1) [OF assms(4)] show ?thesis
    by (simp add: row_secrets_def wrapping_def)
qed

lemma lines_ok_sort: "lines_ok (sort_key fst m) = lines_ok m"
  by (simp add: lines_ok_def)

lemma findProvider_ID: "findProvider i = Some p \<Longrightarrow> dp_ID p = i \<and> p \<in> set destinationProviders"
  unfolding findProvider_def by (auto dest: find_SomeD)

lemma metaD:
  assumes "validateDestinationMeta req = Inr (p, req')"
  shows "findProvider (sq_Provider req) = Some p" and "findProvider (dp_ID p) = Some p"
    and "is_ok (ValidateRemoteBasePath (sq_BasePath req'))" and "sq_Options req' = sq_Options req"
    and "sq_Secrets req' = sq_Secrets req" and "sq_KeepLocal req' = sq_KeepLocal req"
proof -
  show prov: "findProvider (sq_Provider req) = Some p"
    using assms by (auto simp: validateDestinationMeta_def Let_def split: if_splits option.splits sum.splits)
  with findProvider_ID [OF prov] show "findProvider (dp_ID p) = Some p" by simp
  show "is_ok (ValidateRemoteBasePath (sq_BasePath req'))" "sq_Options req' = sq_Options req"
    "sq_Secrets req' = sq_Secrets req" "sq_KeepLocal req' = sq_KeepLocal req"
    using assms by (auto simp: validateDestinationMeta_def Let_def split: if_splits option.splits sum.splits)
qed

lemma dest_getD: "dest_get lbl pr ek e d i = Inr (v, secs) \<Longrightarrow>
   \<exists>r. find_destination d i = Some r \<and> r \<in> set (backup_destinations d) \<and> row_secrets pr ek r = Inr secs
     \<and> d_ID v = i \<and> d_Options v = bd_Options r \<and> d_Provider v = bd_Provider r \<and> d_BasePath v = bd_BasePath r
     \<and> d_KeepLocal v = bd_KeepLocal r \<and> d_RetentionCount v = bd_RetentionCount r"
  by (auto simp: dest_get_def dest_scan_def and_then_Inr find_destination_def dest: find_SomeD
      split: sum.splits option.splits)

lemma clean_update:
  assumes "destinations_clean pr ek d" and "\<And>r. r \<in> set (backup_destinations d) \<Longrightarrow> bd_ID r = i \<Longrightarrow> clean_row pr ek (f r)"
  shows "destinations_clean pr ek (d\<lparr>backup_destinations := update_where (\<lambda>r. bd_ID r = i) f (backup_destinations d)\<rparr>)"
  using assms by (auto simp: destinations_clean_def set_update_where)

lemma create_clean:
  assumes "gcm_correct pr" and "float_text flt" and "length nonce = nonce_size" and "destinations_clean pr ek d"
  shows "destinations_clean pr ek (snd (dest_Create flt pr ek e newID nonce d req who))"
proof (cases "snd (dest_Create flt pr ek e newID nonce d req who) = d")
  case False
  then obtain p req' plain sec s r where meta: "validateDestinationMeta req = Inr (p, req')"
    and split: "splitDestinationOptions flt p (sq_Options req') (sq_Secrets req') [] = Inr (plain, sec)"
    and enc: "encryptSecrets pr ek e nonce sec = Inr s"
    and d': "snd (dest_Create flt pr ek e newID nonce d req who) = d\<lparr>backup_destinations := backup_destinations d @ [r]\<rparr>"
    and r: "bd_Provider r = dp_ID p" "bd_BasePath r = sq_BasePath req'" "bd_Options r = plain" "bd_Secrets r = s"
    by (auto simp: dest_Create_def Let_def split: sum.splits prod.splits if_splits)
  have "lines_ok plain" "lines_ok sec" using split_ok [OF split assms(2)] by (simp_all add: lines_ok_def)
  moreover have "row_secrets pr ek r = Inr (sort_key fst sec)"
    using split_distinct [OF split] by (intro encrypted_secrets [OF assms(1,3) enc _ r(4)]) simp
  ultimately have "clean_row pr ek r"
    using metaD [OF meta] r by (simp add: clean_row_def lines_ok_sort)
  with d' assms(4) show ?thesis by (simp add: destinations_clean_def)
qed (simp add: assms(4))

lemma dest_Update_result:
  "snd (dest_Update flt pr ek e nonce d i req) = d \<or>
   (\<exists>p req' cur secs plain sec s keep. validateDestinationMeta req = Inr (p, req')
     \<and> dest_get ''dest.get'' pr ek e d i = Inr (cur, secs)
     \<and> splitDestinationOptions flt p (sq_Options req') (sq_Secrets req')
         (if d_Provider cur \<noteq> dp_ID p then [] else secs) = Inr (plain, sec)
     \<and> encryptSecrets pr ek e nonce sec = Inr s
     \<and> keep = (case sq_KeepLocal req' of None \<Rightarrow> d_KeepLocal cur | Some b \<Rightarrow> b)
     \<and> snd (dest_Update flt pr ek e nonce d i req) = d\<lparr>backup_destinations :=
         update_where (\<lambda>r. bd_ID r = i) (dest_update_row req' p plain s keep (now e)) (backup_destinations d)\<rparr>)"
proof (cases "validateDestinationMeta req")
  case (Inr x)
  obtain p req' where x: "x = (p, req')" by (cases x)
  show ?thesis
  proof (cases "dest_get ''dest.get'' pr ek e d i")
    case get: (Inr y)
    obtain cur secs where y: "y = (cur, secs)" by (cases y)
    let ?split = "splitDestinationOptions flt p (sq_Options req') (sq_Secrets req')
         (if d_Provider cur \<noteq> dp_ID p then [] else secs)"
    show ?thesis
    proof (cases ?split)
      case split: (Inr z)
      obtain plain sec where z: "z = (plain, sec)" by (cases z)
      show ?thesis
      proof (cases "encryptSecrets pr ek e nonce sec")
        case enc: (Inr s)
        have "snd (dest_update_stmt pr ek e d i n f) \<in> {d, d\<lparr>backup_destinations :=
            update_where (\<lambda>r. bd_ID r = i) f (backup_destinations d)\<rparr>}" for n f
          by (auto simp: dest_update_stmt_def Let_def split: sum.splits prod.splits)
        with Inr x get y split z enc show ?thesis by (simp add: dest_Update_def)
      qed (use Inr x get y split z in \<open>simp add: dest_Update_def\<close>)
    qed (use Inr x get y in \<open>simp add: dest_Update_def\<close>)
  qed (use Inr x in \<open>simp add: dest_Update_def\<close>)
qed (simp add: dest_Update_def)

lemma config_updates_result:
  "ApplyConfigUpdates flt pr ek e nonce d i us = d \<or>
   (\<exists>v secs p opts' secs' ch s. dest_get ''updates.get'' pr ek e d i = Inr (v, secs)
     \<and> apply_updates flt p us (d_Options v, secs, False) = (opts', secs', ch)
     \<and> encryptSecrets pr ek e nonce secs' = Inr s
     \<and> ApplyConfigUpdates flt pr ek e nonce d i us = d\<lparr>backup_destinations := update_where (\<lambda>r. bd_ID r = i)
         (\<lambda>r. r\<lparr>bd_Options := opts', bd_Secrets := s, bd_UpdatedAt := now e\<rparr>) (backup_destinations d)\<rparr>)"
proof (cases "dest_get ''updates.get'' pr ek e d i")
  case (Inr x)
  obtain v secs where x: "x = (v, secs)" by (cases x)
  show ?thesis
  proof (cases "findProvider (d_Provider v)")
    case (Some p)
    obtain opts' secs' ch where app: "apply_updates flt p us (d_Options v, secs, False) = (opts', secs', ch)"
      by (cases "apply_updates flt p us (d_Options v, secs, False)")
    show ?thesis
    proof (cases "encryptSecrets pr ek e nonce secs'")
      case enc: (Inr s)
      with Inr x Some app show ?thesis
        by (simp add: ApplyConfigUpdates_def applyConfigUpdates_def) blast
    qed (use Inr x Some app in \<open>simp add: ApplyConfigUpdates_def applyConfigUpdates_def\<close>)
  qed (use Inr x in \<open>simp add: ApplyConfigUpdates_def applyConfigUpdates_def\<close>)
qed (simp add: ApplyConfigUpdates_def applyConfigUpdates_def)

lemma update_clean:
  assumes "gcm_correct pr" and "float_text flt" and "length nonce = nonce_size" and "destinations_clean pr ek d"
  shows "destinations_clean pr ek (snd (dest_Update flt pr ek e nonce d i req))"
proof (cases "snd (dest_Update flt pr ek e nonce d i req) = d")
  case False
  then obtain p req' cur secs plain sec s keep where meta: "validateDestinationMeta req = Inr (p, req')"
    and get: "dest_get ''dest.get'' pr ek e d i = Inr (cur, secs)"
    and split: "splitDestinationOptions flt p (sq_Options req') (sq_Secrets req')
        (if d_Provider cur \<noteq> dp_ID p then [] else secs) = Inr (plain, sec)"
    and enc: "encryptSecrets pr ek e nonce sec = Inr s"
    and d': "snd (dest_Update flt pr ek e nonce d i req) = d\<lparr>backup_destinations :=
        update_where (\<lambda>r. bd_ID r = i) (dest_update_row req' p plain s keep (now e)) (backup_destinations d)\<rparr>"
    using dest_Update_result [of flt pr ek e nonce d i req] by blast
  from dest_getD [OF get] assms(4) have secs: "lines_ok secs" "distinct (map fst secs)"
    by (auto simp: destinations_clean_def clean_row_def row_secrets_distinct)
  then have "lines_ok (if d_Provider cur \<noteq> dp_ID p then [] else secs)" by (simp add: lines_ok_def)
  then have ok: "lines_ok plain" "lines_ok sec" using split_ok [OF split assms(2)] by blast+
  have dist: "distinct (map fst sec)" using split_distinct [OF split] secs(2) by simp
  have "clean_row pr ek (dest_update_row req' p plain s keep (now e) r)" for r
    using metaD [OF meta] ok encrypted_secrets [OF assms(1,3) enc dist, of "dest_update_row req' p plain s keep (now e) r"]
    by (simp add: clean_row_def dest_update_row_def lines_ok_sort)
  with clean_update assms(4) d' show ?thesis by simp
qed (simp add: assms(4))

lemma config_updates_clean:
  assumes "gcm_correct pr" and "float_text flt" and "length nonce = nonce_size" and "destinations_clean pr ek d"
  shows "destinations_clean pr ek (ApplyConfigUpdates flt pr ek e nonce d i us)"
proof (cases "ApplyConfigUpdates flt pr ek e nonce d i us = d")
  case False
  then obtain v secs p opts' secs' ch s where get: "dest_get ''updates.get'' pr ek e d i = Inr (v, secs)"
    and app: "apply_updates flt p us (d_Options v, secs, False) = (opts', secs', ch)"
    and enc: "encryptSecrets pr ek e nonce secs' = Inr s"
    and d': "ApplyConfigUpdates flt pr ek e nonce d i us = d\<lparr>backup_destinations := update_where (\<lambda>r. bd_ID r = i)
        (\<lambda>r. r\<lparr>bd_Options := opts', bd_Secrets := s, bd_UpdatedAt := now e\<rparr>) (backup_destinations d)\<rparr>"
    using config_updates_result [of flt pr ek e nonce d i us] by blast
  from dest_getD [OF get] assms(4) have ok: "lines_ok (d_Options v)" "lines_ok secs" "distinct (map fst secs)"
    by (auto simp: destinations_clean_def clean_row_def row_secrets_distinct)
  have ok': "lines_ok opts'" "lines_ok secs'" using apply_updates_ok [OF app assms(2) ok(1,2)] by simp_all
  have dist: "distinct (map fst secs')" by (rule apply_updates_distinct [OF app ok(3)])
  have "clean_row pr ek (r\<lparr>bd_Options := opts', bd_Secrets := s, bd_UpdatedAt := now e\<rparr>)"
    if "r \<in> set (backup_destinations d)" for r
    using that assms(4) ok' encrypted_secrets [OF assms(1,3) enc dist, of "r\<lparr>bd_Options := opts', bd_Secrets := s, bd_UpdatedAt := now e\<rparr>"]
    by (auto simp: destinations_clean_def clean_row_def lines_ok_sort)
  with clean_update assms(4) d' show ?thesis by simp
qed (simp add: assms(4))

section \<open>What a node is sent\<close>

text \<open>The operations on destinations.  A draw has the size \<^verbatim>\<open>gcm.NonceSize()\<close>; the step of
  an operation with another one is not taken.\<close>

datatype dest_act =
    DCreate env uuid string SaveDestinationRequest "uuid option"
  | DUpdate env string uuid SaveDestinationRequest
  | DDelete env uuid
  | DAnswer env string uuid remote_answer

fun dest_step :: "(string \<Rightarrow> string option) \<Rightarrow> prims \<Rightarrow> string \<Rightarrow> dest_act \<Rightarrow> db \<Rightarrow> unit \<times> db" where
  "dest_step flt pr ek (DCreate e newID nonce req who) d =
     ((), if length nonce = nonce_size then snd (dest_Create flt pr ek e newID nonce d req who) else d)"
| "dest_step flt pr ek (DUpdate e nonce i req) d =
     ((), if length nonce = nonce_size then snd (dest_Update flt pr ek e nonce d i req) else d)"
| "dest_step flt pr ek (DDelete e i) d = ((), snd (dest_Delete e d i))"
| "dest_step flt pr ek (DAnswer e nonce i a) d =
     ((), if length nonce = nonce_size then save_answer flt pr ek e nonce d i a else d)"

definition dest_inv :: "(string \<Rightarrow> string option) \<Rightarrow> prims \<Rightarrow> string \<Rightarrow> db \<Rightarrow> bool" where
  "dest_inv flt pr ek d = (float_text flt \<and> gcm_correct pr \<and> destinations_clean pr ek d)"

lemma delete_clean: "destinations_clean pr ek d \<Longrightarrow> destinations_clean pr ek (snd (dest_Delete e d i))"
  by (auto simp: dest_Delete_def dest_delete_stmt_def delete_destination_row_def destinations_clean_def set_delete_where
      split: sum.splits)

interpretation dests: kept_invariant "dest_step flt pr ek" "dest_inv flt pr ek" for flt pr ek
proof
  show "dest_inv flt pr ek (snd (dest_step flt pr ek a s))" if "dest_inv flt pr ek s" for s a
    using that
    by (cases a) (auto simp: dest_inv_def create_clean update_clean delete_clean config_updates_clean save_answer_def)
qed

lemma map_get_line: "lines_ok m \<Longrightarrow> single_line (map_get m k)"
proof (cases "map_of m k")
  case None
  then show ?thesis by (simp add: map_get_def single_line_def contains_any_def)
next
  case (Some v)
  moreover assume "lines_ok m"
  ultimately show ?thesis using map_of_SomeD [OF Some] by (auto simp: map_get_def lines_ok_def)
qed

lemma provider_table:
  "p \<in> set destinationProviders \<Longrightarrow> (\<forall>f \<in> set (dp_Fields p). single_line (df_Default f))
     \<and> (\<forall>(k, v) \<in> set (dp_fixed p). single_line v \<and> v \<noteq> '''') \<and> distinct (map fst (dp_fixed p))"
proof -
  have "\<forall>p \<in> set destinationProviders. (\<forall>f \<in> set (dp_Fields p). single_line (df_Default f))
     \<and> (\<forall>(k, v) \<in> set (dp_fixed p). single_line v \<and> v \<noteq> '''') \<and> distinct (map fst (dp_fixed p))"
    by code_simp
  then show "p \<in> set destinationProviders \<Longrightarrow> ?thesis" by blast
qed

lemma field_value_line:
  "p \<in> set destinationProviders \<Longrightarrow> f \<in> set (dp_Fields p) \<Longrightarrow> lines_ok plain \<Longrightarrow> lines_ok secrets \<Longrightarrow>
   single_line (field_value plain secrets f)"
  using provider_table [of p] by (simp add: field_value_def Let_def map_get_line)

lemma set_fold_fields:
  "set (fold (\<lambda>f m. AList.update (df_Key f) (g f) m) fs acc) \<subseteq> (\<lambda>f. (df_Key f, g f)) ` set fs \<union> set acc"
proof (induction fs arbitrary: acc)
  case (Cons f fs)
  have "set (fold (\<lambda>f m. AList.update (df_Key f) (g f) m) fs (AList.update (df_Key f) (g f) acc))
      \<subseteq> (\<lambda>f. (df_Key f, g f)) ` set fs \<union> set (AList.update (df_Key f) (g f) acc)" by (rule Cons.IH)
  with set_alist_update [of "df_Key f" "g f" acc] show ?case by auto
qed simp

lemma rclone_options_set:
  "set (fst (rcloneOptions p plain secrets)) \<subseteq>
     (\<lambda>f. (df_Key f, field_value plain secrets f)) ` {f \<in> set (dp_Fields p). field_value plain secrets f \<noteq> ''''}
     \<union> set (dp_fixed p)"
  using set_fold_update [of "dp_fixed p"
      "fold (\<lambda>f m. AList.update (df_Key f) (field_value plain secrets f) m)
         (filter (\<lambda>f. field_value plain secrets f \<noteq> '''') (dp_Fields p)) []"]
    set_fold_fields [of "field_value plain secrets" "filter (\<lambda>f. field_value plain secrets f \<noteq> '''') (dp_Fields p)" "[]"]
  by (auto simp: rcloneOptions_def Let_def)

lemma fold_update_get:
  "distinct (map fst kvs) \<Longrightarrow> (k, v) \<in> set kvs \<Longrightarrow> map_of (fold (\<lambda>(k, v) m. AList.update k v m) kvs acc) k = Some v"
proof (induction kvs arbitrary: acc)
  case (Cons p kvs)
  obtain k' v' where p: "p = (k', v')" by (cases p)
  have keep: "k \<notin> fst ` set ms \<Longrightarrow> map_of (fold (\<lambda>(k, v) m. AList.update k v m) ms acc) k = map_of acc k" for ms acc
    by (induction ms arbitrary: acc) (auto simp: update_conv')
  show ?case
  proof (cases "(k, v) = p")
    case True
    with Cons.prems(1) p have "k \<notin> fst ` set kvs" by auto
    with True p keep [of kvs "AList.update k v acc"] show ?thesis by (simp add: update_conv')
  next
    case False
    with Cons p show ?thesis by auto
  qed
qed simp

lemma remote_specD:
  assumes "dest_RemoteSpec pr ek e d i = Inr (spec, v)"
  obtains w secrets p where "dest_get ''dest.spec'' pr ek e d i = Inr (w, secrets)"
    and "findProvider (d_Provider w) = Some p"
    and "spec = \<lparr>rs_Backend = dp_Backend p, rs_Options = fst (rcloneOptions p (d_Options w) secrets),
        rs_Obscure = snd (rcloneOptions p (d_Options w) secrets), rs_BasePath = d_BasePath w\<rparr>"
proof -
  from assms obtain w secrets where get: "dest_get ''dest.spec'' pr ek e d i = Inr (w, secrets)"
    unfolding dest_RemoteSpec_def and_then_Inr split_paired_Ex prod.case by blast
  show ?thesis
  proof (cases "findProvider (d_Provider w)")
    case None
    with assms get show ?thesis by (simp add: dest_RemoteSpec_def)
  next
    case (Some p)
    with assms get that [OF get Some] show ?thesis by (auto simp: dest_RemoteSpec_def split: prod.splits)
  qed
qed

text \<open>[C28] Whatever sequence of saved, updated and deleted destinations and of answers of
  nodes (with the settings rclone changed) precedes, what a node is given for a destination
  is built from the provider's table alone: its backend, only options of its table or its
  fixed ones, every value non-empty and on a single line, the fixed options with their fixed
  values, and a base path that passed validation.\<close>

theorem remote_spec_confined:
  assumes "float_text flt" and "gcm_correct pr" and "destinations_clean pr ek d"
    and "dest_RemoteSpec pr ek e (run_of (dest_step flt pr ek) acts d) i = Inr (spec, v)"
  shows "\<exists>p \<in> set destinationProviders. rs_Backend spec = dp_Backend p
     \<and> fst ` set (rs_Options spec) \<subseteq> df_Key ` set (dp_Fields p) \<union> fst ` set (dp_fixed p)
     \<and> (\<forall>(k, x) \<in> set (rs_Options spec). x \<noteq> '''' \<and> single_line x)
     \<and> (\<forall>(k, x) \<in> set (dp_fixed p). map_of (rs_Options spec) k = Some x)
     \<and> set (rs_Obscure spec) \<subseteq> df_Key ` {f \<in> set (dp_Fields p). df_obscure f}
     \<and> is_ok (ValidateRemoteBasePath (rs_BasePath spec))"
proof -
  let ?d = "run_of (dest_step flt pr ek) acts d"
  have "dest_inv flt pr ek d" using assms(1-3) by (simp add: dest_inv_def)
  then have clean: "destinations_clean pr ek ?d" using dests.inv_run by (auto simp: dest_inv_def)
  from assms(4) obtain w secrets p where get: "dest_get ''dest.spec'' pr ek e ?d i = Inr (w, secrets)"
    and p: "findProvider (d_Provider w) = Some p"
    and spec: "spec = \<lparr>rs_Backend = dp_Backend p, rs_Options = fst (rcloneOptions p (d_Options w) secrets),
        rs_Obscure = snd (rcloneOptions p (d_Options w) secrets), rs_BasePath = d_BasePath w\<rparr>"
    using remote_specD by blast
  from dest_getD [OF get] clean have ok: "lines_ok (d_Options w)" "lines_ok secrets"
      "is_ok (ValidateRemoteBasePath (d_BasePath w))"
    by (auto simp: destinations_clean_def clean_row_def)
  have mem: "p \<in> set destinationProviders" using findProvider_ID [OF p] by simp
  have opts: "set (rs_Options spec) \<subseteq> (\<lambda>f. (df_Key f, field_value (d_Options w) secrets f)) `
      {f \<in> set (dp_Fields p). field_value (d_Options w) secrets f \<noteq> ''''} \<union> set (dp_fixed p)"
    using rclone_options_set [of p "d_Options w" secrets] spec by simp
  have "x \<noteq> '''' \<and> single_line x" if "(k, x) \<in> set (rs_Options spec)" for k x
  proof -
    from subsetD [OF opts that] consider f where "f \<in> set (dp_Fields p)"
        "(k, x) = (df_Key f, field_value (d_Options w) secrets f)" "field_value (d_Options w) secrets f \<noteq> ''''"
      | "(k, x) \<in> set (dp_fixed p)" by (elim UnE imageE CollectE conjE)
    then show ?thesis
    proof cases
      case 1
      then show ?thesis using field_value_line [OF mem _ ok(1,2)] by simp
    next
      case 2
      then show ?thesis using provider_table [OF mem] by blast
    qed
  qed
  moreover have "map_of (rs_Options spec) k = Some x" if "(k, x) \<in> set (dp_fixed p)" for k x
    using that provider_table [OF mem] spec by (simp add: rcloneOptions_def Let_def fold_update_get)
  moreover have "fst ` set (rs_Options spec) \<subseteq> df_Key ` set (dp_Fields p) \<union> fst ` set (dp_fixed p)"
    using opts by force
  moreover have "set (rs_Obscure spec) \<subseteq> df_Key ` {f \<in> set (dp_Fields p). df_obscure f}"
    using spec by (auto simp: rcloneOptions_def Let_def)
  moreover have "rs_Backend spec = dp_Backend p" "is_ok (ValidateRemoteBasePath (rs_BasePath spec))"
    using spec ok(3) by simp_all
  ultimately show ?thesis by (intro bexI [OF _ mem] conjI) blast+
qed

definition ex_destination :: DestinationRow where
  "ex_destination = \<lparr>bd_ID = 5, bd_Name = ''offsite'', bd_Provider = ''s3'', bd_BasePath = ''tale/backups'',
     bd_Options = [(''provider'', ''AWS''), (''access_key_id'', ''AK''), (''region'', ''eu'')], bd_Secrets = '''',
     bd_KeepLocal = True, bd_RetentionCount = None, bd_CreatedBy = None, bd_CreatedAt = 0, bd_UpdatedAt = 0\<rparr>"

definition ex_dest_db :: db where
  "ex_dest_db = empty_db\<lparr>backup_destinations := [ex_destination]\<rparr>"

theorem remote_spec_confined_witness:
  "case dest_RemoteSpec plain_prims ''key'' (quiet 0)
      (run_of (dest_step (\<lambda>s. Some ''1'') plain_prims ''key'') [DDelete (quiet 0) 2] ex_dest_db) 5 of
     Inl _ \<Rightarrow> False
   | Inr (spec, v) \<Rightarrow> rs_Options spec \<noteq> [] \<and> (\<exists>p \<in> set destinationProviders. rs_Backend spec = dp_Backend p
     \<and> fst ` set (rs_Options spec) \<subseteq> df_Key ` set (dp_Fields p) \<union> fst ` set (dp_fixed p)
     \<and> (\<forall>(k, x) \<in> set (rs_Options spec). x \<noteq> '''' \<and> single_line x)
     \<and> (\<forall>(k, x) \<in> set (dp_fixed p). map_of (rs_Options spec) k = Some x)
     \<and> set (rs_Obscure spec) \<subseteq> df_Key ` {f \<in> set (dp_Fields p). df_obscure f}
     \<and> is_ok (ValidateRemoteBasePath (rs_BasePath spec)))"
proof -
  let ?r = "dest_RemoteSpec plain_prims ''key'' (quiet 0)
      (run_of (dest_step (\<lambda>s. Some ''1'') plain_prims ''key'') [DDelete (quiet 0) 2] ex_dest_db) 5"
  have ok: "case ?r of Inl _ \<Rightarrow> False | Inr (spec, v) \<Rightarrow> rs_Options spec \<noteq> []" by code_simp
  have "json_number ''1''" by code_simp
  then have "float_text (\<lambda>s. Some ''1'')" by (simp add: float_text_def)
  moreover have "destinations_clean plain_prims ''key'' ex_dest_db"
  proof -
    have "lines_ok (bd_Options ex_destination)" "is_ok (ValidateRemoteBasePath (bd_BasePath ex_destination))"
        "findProvider (bd_Provider ex_destination) \<noteq> None"
      by (unfold lines_ok_def) code_simp+
    moreover have "row_secrets plain_prims ''key'' ex_destination = Inr []"
      by (simp add: row_secrets_def ex_destination_def)
    ultimately show ?thesis by (simp add: destinations_clean_def clean_row_def ex_dest_db_def lines_ok_def)
  qed
  ultimately show ?thesis
    using ok remote_spec_confined [of "\<lambda>s. Some ''1''" plain_prims "''key''" ex_dest_db "quiet 0" "[DDelete (quiet 0) 2]" 5]
      plain_prims_gcm
    by (cases ?r) (auto split: prod.splits)
qed

end
