(* ===== verification/BackupRules.thy ===== *)
theory BackupRules
  imports Backups DestinationRules
begin

text \<open>
  Theorems on backups: a record whose archive left the node always names an off-site copy, over
  every interleaving of requests and jobs in which an upload is not retried while one of the
  same backup is outstanding, and the run that loses a copy otherwise; the key of a backup is
  found again after any rotation; retention keeps the newest; a run of the scheduler leaves no
  schedule due; a handler acts only for a caller with the permission on the owning server.
\<close>

section \<open>Every record keeps a copy\<close>

text \<open>A record whose archive was removed from the node names a finished upload and a
  destination that exists; an outstanding archive or upload job is one of a record with its
  archive on the node, and of that record's destination unless it was deleted.\<close>

definition dest_ids :: "db \<Rightarrow> uuid set" where
  "dest_ids d = bd_ID ` set (backup_destinations d)"

definition row_ok :: "uuid set \<Rightarrow> Backup \<Rightarrow> bool" where
  "row_ok D b = ((\<forall>i. b_DestinationID b = Some i \<longrightarrow> i \<in> D)
     \<and> (\<not> b_LocalPresent b \<longrightarrow> b_UploadStatus b = Some ''done'' \<and> b_DestinationID b \<noteq> None))"

definition rows_ok :: "db \<Rightarrow> bool" where
  "rows_ok d = (\<forall>b \<in> set (backups d). row_ok (dest_ids d) b)"

text \<open>What an operation may do to the records: drop some, keep the destination of each, and
  the local flag of those outside \<open>I\<close>.\<close>

definition evolves :: "uuid set \<Rightarrow> db \<Rightarrow> db \<Rightarrow> bool" where
  "evolves I d d' = (dest_ids d' = dest_ids d \<and> (unique_on b_ID (backups d) \<longrightarrow> unique_on b_ID (backups d'))
     \<and> (\<forall>b' \<in> set (backups d'). \<exists>b \<in> set (backups d). b_ID b' = b_ID b \<and> b_DestinationID b' = b_DestinationID b
          \<and> (b_ID b \<notin> I \<longrightarrow> b_LocalPresent b' = b_LocalPresent b)))"

lemma evolvesD:
  assumes "evolves I d d'" and "b' \<in> set (backups d')"
  obtains b where "b \<in> set (backups d)" and "b_ID b = b_ID b'" and "b_DestinationID b = b_DestinationID b'"
    and "b_ID b \<notin> I \<Longrightarrow> b_LocalPresent b = b_LocalPresent b'"
  using assms unfolding evolves_def by metis

lemma evolves_refl [simp]: "evolves I d d"
  by (auto simp: evolves_def)

lemma evolves_trans: "evolves I d d1 \<Longrightarrow> evolves I d1 d2 \<Longrightarrow> evolves I d d2"
  unfolding evolves_def by (metis (no_types, lifting))

lemma evolves_mono: "evolves I d d' \<Longrightarrow> I \<subseteq> J \<Longrightarrow> evolves J d d'"
  unfolding evolves_def by blast

lemma evolves_same: "backups d' = backups d \<Longrightarrow> dest_ids d' = dest_ids d \<Longrightarrow> evolves I d d'"
  by (auto simp: evolves_def)

lemma rows_ok_same: "backups d' = backups d \<Longrightarrow> dest_ids d' = dest_ids d \<Longrightarrow> rows_ok d' = rows_ok d"
  by (simp add: rows_ok_def)

lemma set_backup_dests [simp]: "dest_ids (set_backup d i f) = dest_ids d" "dest_ids (drop_backup d i) = dest_ids d"
  by (simp_all add: set_backup_def drop_backup_def dest_ids_def)

lemma set_backup_rows: "set (backups (set_backup d i f)) = (\<lambda>b. if b_ID b = i then f b else b) ` set (backups d)"
  by (simp add: set_backup_def set_update_where)

lemma drop_backup_rows: "set (backups (drop_backup d i)) = {b \<in> set (backups d). b_ID b \<noteq> i}"
  by (simp add: drop_backup_def set_delete_where)

lemma set_backup_evolves:
  assumes "\<And>b. b_ID (f b) = b_ID b" and "\<And>b. b_DestinationID (f b) = b_DestinationID b"
    and "i \<notin> I \<Longrightarrow> \<forall>b. b_LocalPresent (f b) = b_LocalPresent b"
  shows "evolves I d (set_backup d i f)"
  using assms by (auto simp: evolves_def set_backup_rows) (auto simp: set_backup_def unique_on_update_where)

lemma drop_backup_evolves: "evolves I d (drop_backup d i)"
  by (auto simp: evolves_def drop_backup_rows) (auto simp: drop_backup_def unique_on_delete_where)

lemma set_backup_ok:
  assumes "rows_ok d" and "\<And>b. b \<in> set (backups d) \<Longrightarrow> b_ID b = i \<Longrightarrow> row_ok (dest_ids d) b \<Longrightarrow> row_ok (dest_ids d) (f b)"
  shows "rows_ok (set_backup d i f)"
  using assms by (auto simp: rows_ok_def set_backup_rows)

lemma drop_backup_ok: "rows_ok d \<Longrightarrow> rows_ok (drop_backup d i)"
  by (auto simp: rows_ok_def drop_backup_rows)

lemma try_exec_cases: "(P d \<Longrightarrow> P d' \<Longrightarrow> P (try_exec e l d d'))"
  by (simp add: try_exec_def)

lemma image_update_where: "(\<And>r. k (f r) = k r) \<Longrightarrow> k ` set (update_where p f t) = k ` set t"
  unfolding set_update_where image_image by (rule image_cong) auto

text \<open>The settings rclone changed touch no record and no id.\<close>

lemma config_updates_same:
  "backups (ApplyConfigUpdates flt pr ek e nonce d i us) = backups d
   \<and> dest_ids (ApplyConfigUpdates flt pr ek e nonce d i us) = dest_ids d"
proof (cases "ApplyConfigUpdates flt pr ek e nonce d i us = d")
  case False
  then obtain opts s where "ApplyConfigUpdates flt pr ek e nonce d i us =
      d\<lparr>backup_destinations := update_where (\<lambda>r. bd_ID r = i)
        (\<lambda>r. r\<lparr>bd_Options := opts, bd_Secrets := s, bd_UpdatedAt := now e\<rparr>) (backup_destinations d)\<rparr>"
    using config_updates_result [of flt pr ek e nonce d i us] by blast
  then show ?thesis by (simp add: dest_ids_def image_update_where)
qed simp

lemma store_answer_same [simp]:
  "backups (store_answer s e nonce d i a) = backups d" "dest_ids (store_answer s e nonce d i a) = dest_ids d"
  by (simp_all add: store_answer_def save_answer_def config_updates_same)

lemma store_answer_evolves [simp]: "evolves I d (store_answer s e nonce d i a)"
  by (simp add: evolves_same)

lemma store_answer_ok [simp]: "rows_ok (store_answer s e nonce d i a) = rows_ok d"
  by (rule rows_ok_same) simp_all

definition local_row :: "uuid \<Rightarrow> db \<Rightarrow> bool" where
  "local_row i d = (\<forall>b \<in> set (backups d). b_ID b = i \<longrightarrow> b_LocalPresent b)"

lemma local_row_evolves: "evolves I d d' \<Longrightarrow> i \<notin> I \<Longrightarrow> local_row i d \<Longrightarrow> local_row i d'"
  unfolding local_row_def by (auto elim!: evolvesD)

section \<open>Steps of the jobs\<close>

lemma failUpload_keeps:
  "rows_ok d \<Longrightarrow> local_row i d \<Longrightarrow> evolves {} d (failUpload e d i m) \<and> rows_ok (failUpload e d i m)"
  by (auto simp: failUpload_def try_exec_def row_ok_def local_row_def intro!: set_backup_evolves set_backup_ok)

lemma failBackup_keeps:
  "rows_ok d \<Longrightarrow> local_row i d \<Longrightarrow> evolves {} d (failBackup e d i m) \<and> rows_ok (failBackup e d i m)"
  by (auto simp: failBackup_def try_exec_def row_ok_def local_row_def intro!: set_backup_evolves set_backup_ok)

lemma forget_remote_keeps:
  assumes "rows_ok d" and "local \<Longrightarrow> local_row i d"
  shows "evolves {} d (forget_remote e d i local) \<and> rows_ok (forget_remote e d i local)"
  using assms
  by (auto simp: forget_remote_def try_exec_def row_ok_def local_row_def drop_backup_evolves drop_backup_ok
      intro!: set_backup_evolves set_backup_ok)

lemma prune_loop_keeps:
  assumes "rows_ok d" and "\<And>j. (j, True) \<in> set olds \<Longrightarrow> local_row j d"
  shows "evolves {} d (prune_remote_loop s bn e nonce k c spec sid dst olds d)
     \<and> rows_ok (prune_remote_loop s bn e nonce k c spec sid dst olds d)"
  using assms
proof (induction olds arbitrary: k d)
  case (Cons o' olds)
  obtain i l where o: "o' = (i, l)" by (cases o')
  define a where "a = bn_DeleteRemoteBackup bn c sid i spec"
  define d1 where "d1 = store_answer s e (nonce k) d dst a"
  define d2 where "d2 = (case answer_error a of Some _ \<Rightarrow> d1 | None \<Rightarrow> forget_remote e d1 i l)"
  have d1: "rows_ok d1" "evolves {} d d1" using Cons.prems(1) by (simp_all add: d1_def)
  have "l \<Longrightarrow> local_row i d1" using Cons.prems(2) [of i] o by (simp add: d1_def local_row_def)
  with forget_remote_keeps [OF d1(1)] d1 have d2: "evolves {} d d2" "rows_ok d2"
    by (auto simp: d2_def split: option.splits intro: evolves_trans)
  have "\<And>j. (j, True) \<in> set olds \<Longrightarrow> local_row j d2"
    using Cons.prems(2) o local_row_evolves [OF d2(1)] by auto
  moreover have "prune_remote_loop s bn e nonce k c spec sid dst (o' # olds) d =
      prune_remote_loop s bn e nonce (Suc k) c spec sid dst olds d2"
    by (simp add: o Let_def d2_def d1_def a_def split: option.split)
  ultimately show ?case using Cons.IH [OF d2(2)] d2(1) evolves_trans by metis
qed simp

lemma pruneRemote_keeps:
  assumes "rows_ok d" and "unique_on b_ID (backups d)"
  shows "evolves {} d (pruneRemote s bn e nonce k d c spec sid dst n) \<and> rows_ok (pruneRemote s bn e nonce k d c spec sid dst n)"
proof -
  let ?olds = "map (\<lambda>b. (b_ID b, b_LocalPresent b)) (drop (nat n) (newest_first (uploaded d sid dst)))"
  have "local_row j d" if "(j, True) \<in> set ?olds" for j
  proof -
    from that obtain b where b: "b \<in> set (newest_first (uploaded d sid dst))" "b_ID b = j" "b_LocalPresent b"
      by (auto dest: in_set_dropD)
    then have "b \<in> set (backups d)" by (simp add: newest_first_def uploaded_def)
    with b show ?thesis using unique_on_eq [OF assms(2)] by (fastforce simp: local_row_def)
  qed
  then have "\<And>j. (j, True) \<in> set ?olds \<Longrightarrow> local_row j d" .
  from prune_loop_keeps [OF assms(1), of ?olds, OF this] assms(1) show ?thesis by (simp add: pruneRemote_def)
qed

lemma remote_spec_dest:
  assumes "dest_RemoteSpec pr ek e d i = Inr r"
  shows "i \<in> dest_ids d"
proof -
  obtain spec v where "r = (spec, v)" by (cases r)
  with assms obtain w secrets where "dest_get ''dest.spec'' pr ek e d i = Inr (w, secrets)"
    using remote_specD [of pr ek e d i spec v] by blast
  from dest_getD [OF this] obtain x where "find_destination d i = Some x" by blast
  then show ?thesis unfolding find_destination_def dest_ids_def by (auto dest: find_SomeD)
qed

lemma set_backup_hit:
  assumes "b \<in> set (backups (set_backup d i f))" and "b_ID b = i" and "\<And>x. b_ID (f x) = b_ID x"
  shows "\<exists>b0 \<in> set (backups d). b_ID b0 = i \<and> b = f b0"
proof -
  from assms(1) obtain b0 where "b0 \<in> set (backups d)" "b = (if b_ID b0 = i then f b0 else b0)"
    unfolding set_backup_rows by blast
  with assms(2,3) show ?thesis by (cases "b_ID b0 = i") auto
qed

lemma drop_local_keeps:
  assumes "rows_ok d" and "\<And>b. b \<in> set (backups d) \<Longrightarrow> b_ID b = i \<Longrightarrow> b_UploadStatus b = Some ''done'' \<and> b_DestinationID b \<noteq> None"
  shows "evolves {i} d (drop_local bn e d c sid i keep) \<and> rows_ok (drop_local bn e d c sid i keep)"
  using assms
  by (auto simp: drop_local_def try_exec_def row_ok_def split: sum.splits intro!: set_backup_evolves set_backup_ok)

lemma upload_done_keeps:
  assumes "rows_ok d" and "unique_on b_ID (backups d)" and "local_row i d"
    and "\<And>b. b \<in> set (backups d) \<Longrightarrow> b_ID b = i \<Longrightarrow> b_DestinationID b \<noteq> None"
  shows "evolves {i} d (upload_done s bn e nonce d c spec dest i sid dst path)
    \<and> rows_ok (upload_done s bn e nonce d c spec dest i sid dst path)"
proof (cases "fault e ''upload.done''")
  case False
  define d1 where "d1 = set_backup d i (\<lambda>b. b\<lparr>b_UploadStatus := Some ''done'', b_UploadError := None, b_RemotePath := Some path\<rparr>)"
  define d2 where "d2 = drop_local bn e d1 c sid i (d_KeepLocal dest)"
  have d1: "evolves {i} d d1" "rows_ok d1"
    unfolding d1_def using assms(1,3) by (auto simp: row_ok_def local_row_def intro!: set_backup_evolves set_backup_ok)
  have "b_UploadStatus b = Some ''done'' \<and> b_DestinationID b \<noteq> None" if "b \<in> set (backups d1)" "b_ID b = i" for b
    using set_backup_hit [OF that [unfolded d1_def]] assms(4) by auto
  from drop_local_keeps [OF d1(2) this] have d2: "evolves {i} d1 d2" "rows_ok d2"
    unfolding d2_def by blast+
  have u: "evolves {i} d d2" using evolves_trans [OF d1(1) d2(1)] .
  then have "unique_on b_ID (backups d2)" using assms(2) by (simp add: evolves_def)
  note prune = pruneRemote_keeps [OF d2(2) this, of s bn e nonce 1 c spec sid dst]
  have "upload_done s bn e nonce d c spec dest i sid dst path =
      (case d_RetentionCount dest of None \<Rightarrow> d2
         | Some keep \<Rightarrow> if keep > 0 then pruneRemote s bn e nonce 1 d2 c spec sid dst keep else d2)"
    using False by (simp add: upload_done_def Let_def d1_def d2_def split: option.split)
  then show ?thesis
    using u d2(2) prune evolves_trans [OF u evolves_mono [of "{}"]] by (auto split: option.splits)
qed (simp add: upload_done_def assms(1))

lemma uploadBackup_keeps:
  assumes "rows_ok d" and "unique_on b_ID (backups d)" and "local_row i d"
    and "\<And>b. b \<in> set (backups d) \<Longrightarrow> b_ID b = i \<Longrightarrow> dst \<in> dest_ids d \<Longrightarrow> b_DestinationID b = Some dst"
  shows "evolves {i} d (uploadBackup s bn e nonce d i sid n dst) \<and> rows_ok (uploadBackup s bn e nonce d i sid n dst)"
proof (cases "dest_RemoteSpec (bx_prims s) (bx_encKey s) e d dst")
  case (Inl err)
  with failUpload_keeps [OF assms(1,3)] show ?thesis by (auto simp: uploadBackup_def intro: evolves_mono)
next
  case (Inr r)
  obtain spec v where r: "r = (spec, v)" by (cases r)
  show ?thesis
  proof (cases "pool_Get (bx_str s) (bx_daemons s) n")
    case (Inl err)
    with Inr r failUpload_keeps [OF assms(1,3)] show ?thesis by (auto simp: uploadBackup_def intro: evolves_mono)
  next
    case C: (Inr c)
    define d1 where "d1 = try_exec e ''upload.start'' d (set_backup d i
                        (\<lambda>b. b\<lparr>b_UploadStatus := Some ''uploading'', b_UploadError := None\<rparr>))"
    define a where "a = bn_UploadBackup bn c sid i spec"
    define d2 where "d2 = store_answer s e (nonce 0) d1 dst a"
    have d1: "evolves {} d d1 \<and> rows_ok d1"
      unfolding d1_def try_exec_def using assms(1,3)
      by (auto simp: row_ok_def local_row_def intro!: set_backup_evolves set_backup_ok)
    have d2: "evolves {} d d2" "rows_ok d2"
      using d1 evolves_trans [OF _ store_answer_evolves] by (auto simp: d2_def)
    have loc: "local_row i d2" using local_row_evolves [OF d2(1)] assms(3) by simp
    have uni: "unique_on b_ID (backups d2)" using d2(1) assms(2) by (simp add: evolves_def)
    have "b_DestinationID b \<noteq> None" if "b \<in> set (backups d2)" "b_ID b = i" for b
      using evolvesD [OF d2(1) that(1)] that(2) assms(4) remote_spec_dest [OF Inr] by (metis option.distinct(1))
    note don = upload_done_keeps [OF d2(2) uni loc this, of s bn e nonce c spec v sid dst]
    have ev: "evolves {i} d x" if "evolves {i} d2 x" for x
      by (rule evolves_trans [OF evolves_mono [OF d2(1)] that]) simp
    have "uploadBackup s bn e nonce d i sid n dst = (case a of
          RemoteOK path _ \<Rightarrow> upload_done s bn e nonce d2 c spec v i sid dst path
        | RemoteErr m _ \<Rightarrow> failUpload e d2 i m
        | TransportErr err \<Rightarrow> failUpload e d2 i (Error err))"
      using Inr C r by (simp add: uploadBackup_def Let_def d1_def d2_def a_def split: remote_answer.split)
    then show ?thesis
      using ev don failUpload_keeps [OF d2(2) loc] evolves_mono [of "{}" d2 _ "{i}"]
      by (cases a) auto
  qed
qed

lemma runBackup_keeps:
  assumes "rows_ok d" and "unique_on b_ID (backups d)" and "local_row i d"
    and "\<And>b x. b \<in> set (backups d) \<Longrightarrow> b_ID b = i \<Longrightarrow> dst = Some x \<Longrightarrow> x \<in> dest_ids d \<Longrightarrow> b_DestinationID b = Some x"
  shows "evolves {i} d (runBackup s bn e nonce d i sid n dst enc) \<and> rows_ok (runBackup s bn e nonce d i sid n dst enc)"
proof (cases "pool_Get (bx_str s) (bx_daemons s) n")
  case (Inl err)
  with failBackup_keeps [OF assms(1,3)] show ?thesis by (auto simp: runBackup_def intro: evolves_mono)
next
  case (Inr c)
  define d1 where "d1 = try_exec e ''runBackup.running'' d (set_backup d i (\<lambda>b. b\<lparr>b_Status := ''running''\<rparr>))"
  have d1: "evolves {} d d1" "rows_ok d1"
    unfolding d1_def try_exec_def using assms(1) by (auto simp: row_ok_def intro!: set_backup_evolves set_backup_ok)
  have ev: "evolves {i} d x" if "evolves {i} d1 x" for x
    by (rule evolves_trans [OF evolves_mono [OF d1(1)] that]) simp
  have loc: "local_row i d1" using local_row_evolves [OF d1(1)] assms(3) by simp
  show ?thesis
  proof (cases "bn_CreateBackup bn c sid i enc")
    case (Inl err)
    with Inr failBackup_keeps [OF d1(2) loc] ev evolves_mono [of "{}" d1 _ "{i}"] show ?thesis
      by (simp add: runBackup_def Let_def d1_def)
  next
    case R: (Inr r)
    obtain sz path where r: "r = (sz, path)" by (cases r)
    define d2 where "d2 = set_backup d1 i (\<lambda>b. b\<lparr>b_Status := ''completed'', b_SizeBytes := Some sz,
       b_StoragePath := path, b_CompletedAt := Some (now e), b_Error := None\<rparr>)"
    have d2: "evolves {} d1 d2" "rows_ok d2"
      unfolding d2_def using d1(2) by (auto simp: row_ok_def intro!: set_backup_evolves set_backup_ok)
    have all: "evolves {} d d2" by (rule evolves_trans [OF d1(1) d2(1)])
    have loc2: "local_row i d2" using local_row_evolves [OF all] assms(3) by simp
    have uni: "unique_on b_ID (backups d2)" using all assms(2) by (simp add: evolves_def)
    have dst: "b_DestinationID b = Some x" if "b \<in> set (backups d2)" "b_ID b = i" "dst = Some x" "x \<in> dest_ids d2" for b x
      using evolvesD [OF all that(1)] that all assms(4) unfolding evolves_def by metis
    have up: "evolves {i} d2 (uploadBackup s bn e nonce d2 i sid n x) \<and> rows_ok (uploadBackup s bn e nonce d2 i sid n x)"
      if "dst = Some x" for x
      by (rule uploadBackup_keeps [OF d2(2) uni loc2]) (use dst that in blast)
    have "runBackup s bn e nonce d i sid n dst enc =
        (if fault e ''runBackup.completed'' then d1
         else case dst of None \<Rightarrow> d2 | Some x \<Rightarrow> uploadBackup s bn e nonce d2 i sid n x)"
      using Inr R r by (simp add: runBackup_def Let_def d1_def d2_def split: option.split)
    then show ?thesis
      using d1 d2 ev all evolves_mono [of "{}" d d1 "{i}"] evolves_mono [of "{}" d d2 "{i}"] up
        evolves_trans [of "{i}" d d2]
      by (auto split: option.split)
  qed
qed

section \<open>Operations\<close>

text \<open>What the key store changes: settings only.\<close>

definition only_settings :: "db \<Rightarrow> db \<Rightarrow> bool" where
  "only_settings d d' = (\<exists>t. d' = d\<lparr>app_settings := t\<rparr>)"

lemma only_settings_refl [simp]: "only_settings d d"
  by (auto simp: only_settings_def intro: exI [of _ "app_settings d"])

lemma settings_Set_only: "only_settings d (snd (settings_Set lbl pr ek e nonce d key val who))"
  by (auto simp: settings_Set_def Let_def only_settings_def split: sum.split intro: exI [of _ "app_settings d"])

lemma BackupKeyring_only: "only_settings d (snd (BackupKeyring pr ek e seed d))"
proof (cases "stored_keyring pr ek e d")
  case (Inr o')
  show ?thesis
  proof (cases o')
    case None
    show ?thesis
    proof (cases "newKeyring e (ks_raw seed)")
      case I: (Inr kr)
      obtain r d' where s: "saveKeyring pr ek e (ks_nonce seed) d kr None = (r, d')" by fastforce
      then have "only_settings d d'" using settings_Set_only by (metis saveKeyring_def snd_conv)
      with s I Inr None show ?thesis by (simp add: BackupKeyring_def create_keyring_def split: sum.split)
    qed (use Inr None in \<open>simp add: BackupKeyring_def create_keyring_def\<close>)
  qed (use Inr in \<open>simp add: BackupKeyring_def\<close>)
qed (simp add: BackupKeyring_def)

lemma activeEncKey_snd: "snd (activeEncKey s e seed d) = snd (BackupKeyring (bx_prims s) (bx_encKey s) e seed d)"
  by (auto simp: activeEncKey_def split: prod.split sum.split option.split)

lemma activeEncKey_only: "only_settings d (snd (activeEncKey s e seed d))"
  by (simp add: activeEncKey_snd BackupKeyring_only)

lemma encKeyForBackup_only: "only_settings d (snd (encKeyForBackup s e seed d i))"
proof -
  have "snd (encKeyForBackup s e seed d i) = d \<or>
      snd (encKeyForBackup s e seed d i) = snd (BackupKeyring (bx_prims s) (bx_encKey s) e seed d)"
    by (auto simp: encKeyForBackup_def split: prod.split sum.split option.split)
  then show ?thesis using BackupKeyring_only by auto
qed

lemma only_settings_rows:
  "only_settings d d' \<Longrightarrow> backups d' = backups d \<and> backup_destinations d' = backup_destinations d
     \<and> backup_schedules d' = backup_schedules d \<and> servers d' = servers d"
  by (auto simp: only_settings_def)

lemma only_settings_evolves: "only_settings d d' \<Longrightarrow> evolves I d d' \<and> rows_ok d' = rows_ok d"
  using only_settings_rows [of d d'] by (auto simp: dest_ids_def intro!: evolves_same rows_ok_same)

lemma checkDestination_ok: "checkDestination e d (Some i) = Inr () \<Longrightarrow> i \<in> dest_ids d"
  by (auto simp: checkDestination_def and_then_Inr dest_Exists_def find_destination_def dest_ids_def dest: find_SomeD)

text \<open>A backup is a new row with its job, or nothing but a keyring.\<close>

lemma createBackup_result:
  assumes "createBackup s e newID seed d req by' = (r, d')"
  obtains (none) "only_settings d d'" and "\<not> is_ok r"
  | (row) d1 b where "only_settings d d1" and "find_backup d newID = None" and "checkDestination e d (cb_DestinationID req) = Inr ()"
    and "d' = d1\<lparr>backups := backups d1 @ [b]\<rparr>"
    and "b_ID b = newID" and "b_ServerID b = Some (cb_ServerID req)" and "b_DestinationID b = cb_DestinationID req"
    and "b_LocalPresent b" and "b_Status b = ''pending''" and "b_CreatedAt b = now e"
    and "\<And>v j. r = Inr (v, j) \<Longrightarrow>
      \<exists>n enc k. j = RunBackup newID (cb_ServerID req) n (cb_DestinationID req) (Some enc) \<and> activeEncKey s e seed d = (Inr (enc, k), d1)
        \<and> b_EncKeyID b = Some k \<and> serverNode e d (cb_ServerID req) = Inr n"
proof (cases "checkDestination e d (cb_DestinationID req)")
  case (Inl err)
  with assms show ?thesis by (intro none) (auto simp: createBackup_def Let_def)
next
  case C: (Inr u)
  show ?thesis
  proof (cases "serverNode e d (cb_ServerID req)")
    case (Inl err)
    with C assms show ?thesis by (intro none) (auto simp: createBackup_def Let_def)
  next
    case N: (Inr n)
    obtain q d1 where q: "activeEncKey s e seed d = (q, d1)" by fastforce
    then have only: "only_settings d d1" using activeEncKey_only by (metis snd_conv)
    then have fb: "find_backup d1 newID = find_backup d newID" using only_settings_rows by (metis find_backup_def)
    show ?thesis
    proof (cases q)
      case (Inl err)
      with C N q only assms show ?thesis by (intro none) (auto simp: createBackup_def Let_def)
    next
      case (Inr x)
      obtain enc k where x: "x = (enc, k)" by (cases x)
      define ty where "ty = (if cb_Type req = '''' then ''full'' else cb_Type req)"
      define b where "b = new_backup (bx_str s) e newID req ty by' k"
      show ?thesis
      proof (cases "fault e ''createBackup.insert'' \<or> ty \<notin> set backup_types \<or> find_backup d1 newID \<noteq> None")
        case True
        with C N q Inr x only assms show ?thesis by (intro none) (auto simp: createBackup_def Let_def ty_def)
      next
        case False
        have eq: "(case getBackup e (d1\<lparr>backups := backups d1 @ [b]\<rparr>) newID of
              Inl err \<Rightarrow> (Inl err, d1\<lparr>backups := backups d1 @ [b]\<rparr>)
            | Inr v \<Rightarrow> (Inr (v, RunBackup newID (cb_ServerID req) n (cb_DestinationID req) (Some enc)),
                d1\<lparr>backups := backups d1 @ [b]\<rparr>)) = (r, d')"
          using assms unfolding createBackup_def Let_def ty_def [symmetric]
          by (simp only: C N q Inr x sum.case prod.case False if_False b_def [symmetric])
        then have d': "d' = d1\<lparr>backups := backups d1 @ [b]\<rparr>" by (auto split: sum.splits)
        show ?thesis
        proof (rule row [OF only _ _ d'])
          show "find_backup d newID = None" using False fb by simp
          show "checkDestination e d (cb_DestinationID req) = Inr ()" using C by simp
        next
          fix v j assume "r = Inr (v, j)"
          with eq show "\<exists>n enc k. j = RunBackup newID (cb_ServerID req) n (cb_DestinationID req) (Some enc)
              \<and> activeEncKey s e seed d = (Inr (enc, k), d1) \<and> b_EncKeyID b = Some k \<and> serverNode e d (cb_ServerID req) = Inr n"
            using q Inr x N by (auto simp: b_def new_backup_def split: sum.splits)
        qed (simp_all add: b_def new_backup_def)
      qed
    qed
  qed
qed

lemma remote_copy_db:
  "backups (snd (delete_remote_copy s bn e nonce d b sid c)) = backups d
   \<and> dest_ids (snd (delete_remote_copy s bn e nonce d b sid c)) = dest_ids d"
proof (cases "b_DestinationID b")
  case (Some dst)
  then show ?thesis
    by (cases "dest_RemoteSpec (bx_prims s) (bx_encKey s) e d dst"; cases c)
      (simp_all add: delete_remote_copy_def Let_def split: option.split prod.split)
qed (simp add: delete_remote_copy_def)

lemma delete_copies_db:
  "backups (snd (delete_copies s bn e nonce d b)) = backups d \<and> dest_ids (snd (delete_copies s bn e nonce d b)) = dest_ids d"
proof (cases "b_ServerID b")
  case (Some sid)
  obtain q d1 where "delete_remote_copy s bn e nonce d b sid (backup_client s e d sid) = (q, d1)" by fastforce
  with Some remote_copy_db [of s bn e nonce d b sid "backup_client s e d sid"] show ?thesis
    by (cases q) (auto simp: delete_copies_def Let_def)
qed (simp add: delete_copies_def)

lemma DeleteBackup_rows:
  "\<exists>d1. evolves {} d d1 \<and> backups d1 = backups d \<and> (snd (DeleteBackup s bn e nonce d i) = d1
     \<or> (\<exists>v. getBackup e d i = Inr v) \<and> snd (DeleteBackup s bn e nonce d i) = drop_backup d1 i)"
proof (cases "getBackup e d i")
  case (Inr v)
  obtain q calls d1 where q: "delete_copies s bn e nonce d (bv_row v) = ((q, calls), d1)"
    by (metis surj_pair)
  then have "evolves {} d d1" "backups d1 = backups d"
    using delete_copies_db [of s bn e nonce d "bv_row v"] by (auto simp: evolves_same)
  moreover have "snd (DeleteBackup s bn e nonce d i) = d1 \<or> snd (DeleteBackup s bn e nonce d i) = drop_backup d1 i"
    using Inr q by (auto simp: DeleteBackup_def split: sum.split)
  ultimately show ?thesis using Inr by blast
qed (auto simp: DeleteBackup_def intro: exI [of _ d])

lemma DeleteBackup_keeps:
  assumes "rows_ok d"
  shows "evolves {} d (snd (DeleteBackup s bn e nonce d i)) \<and> rows_ok (snd (DeleteBackup s bn e nonce d i))"
proof -
  obtain d1 where d1: "evolves {} d d1" "backups d1 = backups d"
    and r: "snd (DeleteBackup s bn e nonce d i) = d1 \<or> snd (DeleteBackup s bn e nonce d i) = drop_backup d1 i"
    using DeleteBackup_rows [of d s bn e nonce i] by blast
  have "rows_ok d1" using assms d1 by (simp add: rows_ok_def evolves_def)
  with r d1 show ?thesis using drop_backup_evolves drop_backup_ok evolves_trans by metis
qed

lemma delete_all_keeps:
  "rows_ok d \<Longrightarrow> evolves {} d (delete_all s bn e nonce k ids d) \<and> rows_ok (delete_all s bn e nonce k ids d)"
proof (induction ids arbitrary: k d)
  case (Cons i ids)
  from DeleteBackup_keeps [OF Cons.prems, of s bn e "nonce k" i] Cons.IH evolves_trans show ?case
    by (metis delete_all.simps(2))
qed simp

section \<open>Requests and jobs in any order\<close>

text \<open>The state is the database and the outstanding goroutines.  An id that is drawn is not
  one an outstanding job names, and an upload is retried only when no archive or upload job of
  that backup is outstanding; a step that breaks this is not taken.  A restart loses the
  outstanding jobs.\<close>

datatype bk_act =
    BCreate env uuid key_seed CreateBackupRequest string
  | BRetry env uuid
  | BRestore env key_seed uuid
  | BJob BackupNode env "nat \<Rightarrow> string" nat
  | BDelete BackupNode env string uuid
  | BTick "int \<Rightarrow> int" BackupNode env "nat \<Rightarrow> uuid" "nat \<Rightarrow> key_seed" "nat \<Rightarrow> nat \<Rightarrow> string"
  | BRestart env
  | BDest dest_act
  | BServerGone env uuid uuid string

fun writes_row :: "backup_job \<Rightarrow> uuid option" where
  "writes_row (RunBackup i _ _ _ _) = Some i"
| "writes_row (RunUpload i _ _ _) = Some i"
| "writes_row (RunRestore i _ _ _ _ _) = None"

fun job_dest :: "backup_job \<Rightarrow> uuid option" where
  "job_dest (RunBackup _ _ _ dst _) = dst"
| "job_dest (RunUpload _ _ _ dst) = Some dst"
| "job_dest (RunRestore _ _ _ dst _ _) = dst"

definition job_rows :: "backup_job list \<Rightarrow> uuid list" where
  "job_rows js = List.map_filter writes_row js"

definition added_job :: "('v \<times> backup_job) result \<Rightarrow> backup_job list" where
  "added_job r = (case r of Inr (_, j) \<Rightarrow> [j] | Inl _ \<Rightarrow> [])"

fun fresh_dest :: "dest_act \<Rightarrow> backup_job list \<Rightarrow> bool" where
  "fresh_dest (DCreate _ newID _ _ _) js = (\<forall>j \<in> set js. job_dest j \<noteq> Some newID)"
| "fresh_dest _ js = True"

definition fresh_ids :: "(nat \<Rightarrow> uuid) \<Rightarrow> nat \<Rightarrow> backup_job list \<Rightarrow> bool" where
  "fresh_ids ids n js = (distinct (map ids [0..<n]) \<and> (\<forall>k < n. ids k \<notin> set (job_rows js)))"

fun bk_step :: "BackupService \<Rightarrow> bk_act \<Rightarrow> db \<times> backup_job list \<Rightarrow> unit \<times> db \<times> backup_job list" where
  "bk_step s (BCreate e newID seed req by') (d, js) =
     ((), if newID \<in> set (job_rows js) then (d, js)
          else (case createBackup s e newID seed d req by' of (r, d') \<Rightarrow> (d', js @ added_job r)))"
| "bk_step s (BRetry e i) (d, js) =
     ((), if i \<in> set (job_rows js) then (d, js)
          else (case RetryUpload e d i of (r, d') \<Rightarrow> (d', js @ added_job r)))"
| "bk_step s (BRestore e seed i) (d, js) =
     ((), case RestoreBackup s e seed d i of (r, d') \<Rightarrow> (d', js @ added_job r))"
| "bk_step s (BJob bn e nonce k) (d, js) =
     ((), if k < length js then (run_job s bn e nonce d (js ! k), take k js @ drop (Suc k) js) else (d, js))"
| "bk_step s (BDelete bn e nonce i) (d, js) = ((), snd (DeleteBackup s bn e nonce d i), js)"
| "bk_step s (BTick tz bn e ids seeds nonces) (d, js) =
     ((), if fresh_ids ids (length (due_schedules e d)) js
          then (case runDueSchedules tz s bn e ids seeds nonces d of (js', d') \<Rightarrow> (d', js @ js')) else (d, js))"
| "bk_step s (BRestart e) (d, js) = ((), scheduler_reset e d, [])"
| "bk_step s (BDest a) (d, js) =
     ((), if fresh_dest a js then snd (dest_step (bx_flt s) (bx_prims s) (bx_encKey s) a d) else d, js)"
| "bk_step s (BServerGone e i u role) (d, js) = ((), snd (DeleteServer e d i u role), js)"

definition job_ok :: "db \<Rightarrow> backup_job \<Rightarrow> bool" where
  "job_ok d j = (case writes_row j of
       None \<Rightarrow> True
     | Some i \<Rightarrow> local_row i d \<and> (\<forall>b \<in> set (backups d). \<forall>x. b_ID b = i \<longrightarrow> job_dest j = Some x \<longrightarrow> x \<in> dest_ids d
         \<longrightarrow> b_DestinationID b = Some x))"

definition bk_inv :: "db \<times> backup_job list \<Rightarrow> bool" where
  "bk_inv s = (case s of (d, js) \<Rightarrow> unique_on b_ID (backups d) \<and> rows_ok d \<and> (\<forall>j \<in> set js. job_ok d j)
     \<and> distinct (job_rows js))"

lemma job_rows_simps [simp]:
  "job_rows [] = []" "job_rows (a @ b) = job_rows a @ job_rows b"
  "job_rows (j # js) = (case writes_row j of None \<Rightarrow> job_rows js | Some i \<Rightarrow> i # job_rows js)"
  by (simp_all add: job_rows_def List.map_filter_def split: option.split)

lemma job_rows_mem: "j \<in> set js \<Longrightarrow> writes_row j = Some i \<Longrightarrow> i \<in> set (job_rows js)"
  by (induction js) (auto split: option.split)

lemma job_ok_evolves:
  assumes "evolves I d d'" and "job_ok d j" and "\<And>i. writes_row j = Some i \<Longrightarrow> i \<notin> I"
  shows "job_ok d' j"
proof (cases "writes_row j")
  case (Some i)
  with assms have loc: "local_row i d'" by (auto simp: job_ok_def intro: local_row_evolves)
  have "b_DestinationID b = Some x" if b: "b \<in> set (backups d')" "b_ID b = i" "job_dest j = Some x" "x \<in> dest_ids d'" for b x
  proof -
    obtain b0 where "b0 \<in> set (backups d)" "b_ID b0 = i" "b_DestinationID b0 = b_DestinationID b"
      using evolvesD [OF assms(1) b(1)] b(2) by metis
    moreover have "x \<in> dest_ids d" using b(4) assms(1) by (simp add: evolves_def)
    ultimately show ?thesis using assms(2) Some b(3) by (auto simp: job_ok_def)
  qed
  with loc Some show ?thesis by (auto simp: job_ok_def)
qed (simp add: job_ok_def)

lemma bk_inv_evolves:
  assumes "bk_inv (d, js)" and "evolves I d d'" and "rows_ok d'" and "set js' \<subseteq> set js" and "distinct (job_rows js')"
    and "\<And>i. i \<in> set (job_rows js') \<Longrightarrow> i \<notin> I"
  shows "bk_inv (d', js')"
proof -
  have "job_ok d' j" if "j \<in> set js'" for j
    using job_ok_evolves [OF assms(2)] assms(1,4,6) that job_rows_mem [OF that] by (auto simp: bk_inv_def)
  with assms show ?thesis by (auto simp: bk_inv_def evolves_def)
qed

lemma bk_inv_quiet:
  assumes "bk_inv (d, js)" and "evolves {} d d'" and "rows_ok d'"
  shows "bk_inv (d', js)"
proof (rule bk_inv_evolves [OF assms])
  show "distinct (job_rows js)" using assms(1) by (simp add: bk_inv_def)
qed simp_all

lemma bk_inv_job:
  assumes "bk_inv (d, js)" and "k < length js"
  shows "bk_inv (run_job s bn e nonce d (js ! k), take k js @ drop (Suc k) js)"
proof -
  let ?js = "take k js @ drop (Suc k) js"
  have js: "js = take k js @ js ! k # drop (Suc k) js" using assms(2) by (simp add: id_take_nth_drop)
  have sub: "set ?js \<subseteq> set js" by (auto dest: in_set_takeD in_set_dropD)
  have split: "distinct (job_rows (take k js @ js ! k # drop (Suc k) js))" using assms(1) js by (simp add: bk_inv_def)
  have dist: "distinct (job_rows ?js)" and row: "writes_row (js ! k) = Some i \<Longrightarrow> i \<notin> set (job_rows ?js)" for i
    using split by (auto split: option.splits)
  have jk: "job_ok d (js ! k)" "rows_ok d" "unique_on b_ID (backups d)" using assms by (auto simp: bk_inv_def)
  show ?thesis
  proof (cases "js ! k")
    case (RunBackup i sid n dst enc)
    with jk(1) have "local_row i d" and "\<And>b x. b \<in> set (backups d) \<Longrightarrow> b_ID b = i \<Longrightarrow> dst = Some x \<Longrightarrow> x \<in> dest_ids d \<Longrightarrow> b_DestinationID b = Some x"
      by (auto simp: job_ok_def)
    from runBackup_keeps [OF jk(2,3) this] have "evolves {i} d (run_job s bn e nonce d (js ! k))"
        "rows_ok (run_job s bn e nonce d (js ! k))" using RunBackup by auto
    then show ?thesis using bk_inv_evolves [OF assms(1) _ _ sub dist] row RunBackup by fastforce
  next
    case (RunUpload i sid n dst)
    with jk(1) have "local_row i d" and "\<And>b. b \<in> set (backups d) \<Longrightarrow> b_ID b = i \<Longrightarrow> dst \<in> dest_ids d \<Longrightarrow> b_DestinationID b = Some dst"
      by (auto simp: job_ok_def)
    from uploadBackup_keeps [OF jk(2,3) this] have "evolves {i} d (run_job s bn e nonce d (js ! k))"
        "rows_ok (run_job s bn e nonce d (js ! k))" using RunUpload by auto
    then show ?thesis using bk_inv_evolves [OF assms(1) _ _ sub dist] row RunUpload by fastforce
  next
    case (RunRestore i sid n dst remote enc)
    have "\<exists>m x a. run_job s bn e nonce d (js ! k) = d \<or> run_job s bn e nonce d (js ! k) = store_answer s e m d x a"
      unfolding RunRestore by (auto simp: run_restore_def split: sum.split option.split remote_answer.split)
    then have "evolves {} d (run_job s bn e nonce d (js ! k))" "rows_ok (run_job s bn e nonce d (js ! k))"
      using jk(2) by (metis evolves_refl store_answer_evolves, metis store_answer_ok)
    then show ?thesis using bk_inv_evolves [OF assms(1) _ _ sub dist] by fastforce
  qed
qed

lemma bk_inv_create:
  assumes "bk_inv (d, js)" and "newID \<notin> set (job_rows js)"
    and "createBackup s e newID seed d req by' = (r, d')"
  shows "bk_inv (d', js @ added_job r)"
  using assms(3)
proof (cases rule: createBackup_result)
  case none
  then have "bk_inv (d', js)"
    using bk_inv_quiet [OF assms(1)] only_settings_evolves [OF none(1)] assms(1) by (auto simp: bk_inv_def)
  moreover have "added_job r = []" using none(2) by (auto simp: added_job_def is_ok_conv split: sum.splits)
  ultimately show ?thesis by simp
next
  case (row d1 b)
  have inv1: "bk_inv (d1, js)"
    using bk_inv_quiet [OF assms(1)] only_settings_evolves [OF row(1)] assms(1) by (auto simp: bk_inv_def)
  have same: "backups d1 = backups d" "dest_ids d1 = dest_ids d" using only_settings_rows [OF row(1)] by (auto simp: dest_ids_def)
  have new: "x \<in> set (backups d) \<Longrightarrow> b_ID x \<noteq> newID" for x
    using row(2) find_ex [of x "backups d" "\<lambda>b. b_ID b = newID"] by (auto simp: find_backup_def)
  have ids: "dest_ids d' = dest_ids d" using row(4) same(2) by (simp add: dest_ids_def)
  have rok: "row_ok (dest_ids d) b"
    using row(3,7,8) checkDestination_ok [of e d] by (auto simp: row_ok_def)
  have old: "job_ok d' j" if "j \<in> set js" for j
  proof (cases "writes_row j")
    case (Some i)
    then have "i \<noteq> newID" using assms(2) job_rows_mem [OF that] by auto
    moreover have "job_ok d1 j" using inv1 that by (simp add: bk_inv_def)
    ultimately show ?thesis using Some row(4,5) ids same by (auto simp: job_ok_def local_row_def)
  qed (simp add: job_ok_def)
  have added: "added_job r = [] \<or> (\<exists>n enc. added_job r = [RunBackup newID (cb_ServerID req) n (cb_DestinationID req) (Some enc)])"
    using row(11) by (cases r) (auto simp: added_job_def)
  have job: "job_ok d' (RunBackup newID (cb_ServerID req) n (cb_DestinationID req) enc)" for n enc
    using new row(4,5,7,8) same by (auto simp: job_ok_def local_row_def)
  have "rows_ok d'" using inv1 rok row(4) ids same by (auto simp: rows_ok_def bk_inv_def)
  moreover have "unique_on b_ID (backups d')" using inv1 row(4,5) new same by (auto simp: bk_inv_def unique_on_append_row)
  ultimately show ?thesis using added old job inv1 assms(2) by (auto simp: bk_inv_def)
qed

lemma getBackup_row: "getBackup e d i = Inr v \<Longrightarrow> bv_row v \<in> set (backups d) \<and> b_ID (bv_row v) = i"
  by (auto simp: getBackup_def find_backup_def backup_view_def dest: find_SomeD split: sum.splits option.splits)

lemma RetryUpload_result:
  assumes "RetryUpload e d i = (r, d')"
  shows "\<not> is_ok r \<and> d' = d \<or> (\<exists>b sid n dst v. b \<in> set (backups d) \<and> b_ID b = i \<and> b_DestinationID b = Some dst
     \<and> b_LocalPresent b \<and> r = Inr (v, RunUpload i sid n dst)
     \<and> d' = try_exec e ''RetryUpload'' d (set_backup d i (\<lambda>b. b\<lparr>b_UploadStatus := Some ''pending'', b_UploadError := None\<rparr>)))"
proof (cases "getBackup e d i")
  case (Inl err)
  with assms show ?thesis by (auto simp: RetryUpload_def)
next
  case (Inr v)
  define b where "b = bv_row v"
  have b: "b \<in> set (backups d)" "b_ID b = i" using getBackup_row [OF Inr] by (auto simp: b_def)
  show ?thesis
  proof (cases "b_DestinationID b"; cases "b_ServerID b")
    fix dst sid assume ds: "b_DestinationID b = Some dst" "b_ServerID b = Some sid"
    show ?thesis
    proof (cases "serverNode e d sid")
      case N: (Inr n)
      with ds b Inr assms show ?thesis
        unfolding RetryUpload_def Let_def b_def [symmetric] by (auto simp: b_def [symmetric] split: if_splits)
    qed (use ds b Inr assms in \<open>auto simp: RetryUpload_def Let_def b_def [symmetric] split: if_splits\<close>)
  qed (use Inr assms in \<open>auto simp: RetryUpload_def Let_def b_def [symmetric]\<close>)
qed

lemma bk_inv_retry:
  assumes "bk_inv (d, js)" and "i \<notin> set (job_rows js)" and "RetryUpload e d i = (r, d')"
  shows "bk_inv (d', js @ added_job r)"
proof (cases "is_ok r")
  case False
  then have "added_job r = []" by (cases r) (auto simp: added_job_def)
  moreover have "d' = d" using RetryUpload_result [OF assms(3)] False by (auto simp: is_ok_def)
  ultimately show ?thesis using assms(1) by simp
next
  case True
  with RetryUpload_result [OF assms(3)] obtain b sid n dst v where b: "b \<in> set (backups d)" "b_ID b = i"
      "b_DestinationID b = Some dst" "b_LocalPresent b" and r: "r = Inr (v, RunUpload i sid n dst)"
    and d': "d' = try_exec e ''RetryUpload'' d (set_backup d i (\<lambda>b. b\<lparr>b_UploadStatus := Some ''pending'', b_UploadError := None\<rparr>))"
    by blast
  have uni: "unique_on b_ID (backups d)" and ok: "rows_ok d" using assms(1) by (auto simp: bk_inv_def)
  have same: "x = b" if "x \<in> set (backups d)" "b_ID x = i" for x using unique_on_eq [OF uni that(1) b(1)] that b(2) by simp
  then have loc: "local_row i d" using b(4) by (auto simp: local_row_def)
  have "evolves {} d d' \<and> rows_ok d'"
    unfolding d' try_exec_def using ok loc by (auto simp: row_ok_def local_row_def intro!: set_backup_evolves set_backup_ok)
  then have ev: "evolves {} d d'" "rows_ok d'" by auto
  have "job_ok d (RunUpload i sid n dst)" using loc same b(3) by (auto simp: job_ok_def)
  then have "job_ok d' (RunUpload i sid n dst)" by (rule job_ok_evolves [OF ev(1)]) simp
  then show ?thesis using bk_inv_quiet [OF assms(1) ev] assms(2) r by (auto simp: bk_inv_def added_job_def)
qed

lemma restore_source_only: "only_settings d (snd (restore_source what s e seed d i))"
proof (cases "getBackup e d i")
  case (Inr v)
  then have "snd (restore_source what s e seed d i) = d
      \<or> snd (restore_source what s e seed d i) = snd (encKeyForBackup s e seed d i)"
    by (auto simp: restore_source_def Let_def split: option.split sum.split prod.split)
  with encKeyForBackup_only show ?thesis by (auto simp del: split_paired_All)
qed (simp add: restore_source_def)

lemma bk_inv_restore:
  assumes "bk_inv (d, js)" and "RestoreBackup s e seed d i = (r, d')"
  shows "bk_inv (d', js @ added_job r)"
proof -
  have "d' = snd (restore_source ''restorable'' s e seed d i)"
    using assms(2) by (auto simp: RestoreBackup_def split: prod.splits sum.splits)
  then have "only_settings d d'" using restore_source_only by simp
  then have inv: "bk_inv (d', js)"
    using bk_inv_quiet [OF assms(1)] only_settings_evolves [of d d'] assms(1) by (auto simp: bk_inv_def)
  have "added_job r = [] \<or> (\<exists>a b c x y z. added_job r = [RunRestore a b c x y z])"
    using assms(2) by (auto simp: RestoreBackup_def added_job_def split: prod.splits sum.splits)
  with inv show ?thesis by (auto simp: bk_inv_def job_ok_def)
qed

lemma bk_inv_prune:
  assumes "bk_inv (d, js)"
  shows "bk_inv (pruneBackups s bn e nonce k d sid cnt days, js)"
proof -
  have "rows_ok d" using assms by (simp add: bk_inv_def)
  from delete_all_keeps [OF this] show ?thesis
    unfolding pruneBackups_def by (intro bk_inv_quiet [OF assms]) blast+
qed

lemma bk_inv_schedule_rows:
  assumes "bk_inv (d, js)"
  shows "bk_inv (try_exec e l d (set_schedule d i f), js)"
proof -
  have "backups (set_schedule d i f) = backups d" "dest_ids (set_schedule d i f) = dest_ids d"
    by (simp_all add: set_schedule_def dest_ids_def)
  then have "evolves {} d (set_schedule d i f)" "rows_ok (set_schedule d i f) = rows_ok d"
    by (rule evolves_same, rule rows_ok_same)
  with assms bk_inv_quiet [OF assms, of "set_schedule d i f"] show ?thesis by (auto simp: try_exec_def bk_inv_def)
qed

lemma createBackup_job:
  assumes "createBackup s e newID seed d req by' = (Inr (v, j), d')"
  shows "writes_row j = Some newID"
  using assms by (cases rule: createBackup_result) auto

lemma run_schedule_jobs:
  assumes "run_schedule tz s bn e newID seed nonce r d = (js', d')"
  shows "set (job_rows js') \<subseteq> {newID}"
proof (cases "nextCronTime tz (bs_CronExpr r) (now e)")
  case (Inl err)
  with assms show ?thesis by (auto simp: run_schedule_def)
next
  case (Inr t)
  with assms show ?thesis
    by (auto simp: run_schedule_def Let_def dest: createBackup_job split: sum.splits prod.splits)
qed

lemma bk_inv_schedule:
  assumes "bk_inv (d, js)" and "newID \<notin> set (job_rows js)"
    and "run_schedule tz s bn e newID seed nonce r d = (js', d')"
  shows "bk_inv (d', js @ js')"
proof (cases "nextCronTime tz (bs_CronExpr r) (now e)")
  case (Inl err)
  with assms bk_inv_schedule_rows [OF assms(1)] show ?thesis by (auto simp: run_schedule_def)
next
  case (Inr t)
  define d1 where "d1 = try_exec e (''schedule.next'' @ dec_nat (bs_ID r)) d
     (set_schedule d (bs_ID r) (\<lambda>x. x\<lparr>bs_LastRun := Some (now e), bs_NextRun := Some t\<rparr>))"
  obtain q d2 where c: "createBackup s e newID seed d1 \<lparr>cb_ServerID = bs_ServerID r, cb_WorldName = '''', cb_Type = bs_Type r,
      cb_Storage = bs_Storage r, cb_DestinationID = bs_DestinationID r\<rparr> ''schedule'' = (q, d2)"
    by fastforce
  have "bk_inv (d1, js)" unfolding d1_def by (rule bk_inv_schedule_rows [OF assms(1)])
  from bk_inv_create [OF this assms(2) c] have inv2: "bk_inv (d2, js @ added_job q)" .
  show ?thesis
  proof (cases q)
    case (Inl err)
    with assms(3) Inr c inv2 show ?thesis by (simp add: run_schedule_def Let_def d1_def added_job_def)
  next
    case Q: (Inr x)
    obtain v j where "x = (v, j)" by (cases x)
    with assms(3) Inr c Q have "js' = added_job q"
        "d' = pruneBackups s bn e nonce 0 d2 (bs_ServerID r) (bs_RetentionCount r) (bs_RetentionDays r)"
      by (auto simp: run_schedule_def Let_def d1_def added_job_def)
    with bk_inv_prune [OF inv2] show ?thesis by simp
  qed
qed

lemma bk_inv_schedules:
  assumes "bk_inv (d, js)" and "distinct (map ids [k..<k + length rs])"
    and "\<And>m. k \<le> m \<Longrightarrow> m < k + length rs \<Longrightarrow> ids m \<notin> set (job_rows js)"
    and "run_schedules tz s bn e ids seeds nonces k rs d = (js', d')"
  shows "bk_inv (d', js @ js')"
  using assms
proof (induction rs arbitrary: k d js js' d')
  case (Cons r rs)
  obtain js1 d1 where one: "run_schedule tz s bn e (ids k) (seeds k) (nonces k) r d = (js1, d1)" by fastforce
  obtain js2 d2 where rest: "run_schedules tz s bn e ids seeds nonces (Suc k) rs d1 = (js2, d2)" by fastforce
  have "ids k \<notin> set (job_rows js)" using Cons.prems(3) [of k] by simp
  then have inv: "bk_inv (d1, js @ js1)" using bk_inv_schedule [OF Cons.prems(1) _ one] by simp
  have up: "[k..<k + length (r # rs)] = k # [Suc k..<Suc k + length rs]" using upt_conv_Cons [of k "k + length (r # rs)"] by simp
  have "ids m \<notin> set (job_rows (js @ js1))" if "Suc k \<le> m" "m < Suc k + length rs" for m
  proof -
    have "ids m \<in> set (map ids [Suc k..<Suc k + length rs])" using that unfolding set_map set_upt by (intro imageI) simp
    then have "ids m \<noteq> ids k" using Cons.prems(2) unfolding up list.map distinct.simps by metis
    with run_schedule_jobs [OF one] Cons.prems(3) [of m] that show ?thesis by auto
  qed
  from Cons.IH [OF inv _ this rest] Cons.prems(2) have "bk_inv (d2, (js @ js1) @ js2)" unfolding up by simp
  with one rest Cons.prems(4) show ?case by simp
qed simp

lemma bk_inv_reset: "bk_inv (d, js) \<Longrightarrow> bk_inv (scheduler_reset e d, [])"
proof -
  assume inv: "bk_inv (d, js)"
  have "evolves {} d (scheduler_reset e d)" "rows_ok (scheduler_reset e d)"
    using inv by (auto simp: scheduler_reset_def try_exec_def evolves_def rows_ok_def dest_ids_def set_update_where
        row_ok_def bk_inv_def unique_on_update_where)
  then show ?thesis using bk_inv_evolves [OF inv, of "{}" "scheduler_reset e d" "[]"] by simp
qed

lemma bk_inv_server: "bk_inv (d, js) \<Longrightarrow> bk_inv (snd (DeleteServer e d i u role), js)"
proof -
  assume inv: "bk_inv (d, js)"
  have "evolves {} d (delete_server_row d i) \<and> rows_ok (delete_server_row d i)"
    using inv by (auto simp: delete_server_row_def Let_def evolves_def rows_ok_def dest_ids_def set_update_where
        row_ok_def bk_inv_def unique_on_update_where)
  moreover have "snd (DeleteServer e d i u role) = d \<or> snd (DeleteServer e d i u role) = delete_server_row d i"
    by (auto simp: DeleteServer_def split: sum.split prod.split)
  ultimately show ?thesis using bk_inv_quiet [OF inv] inv by metis
qed

lemma dest_Create_rows:
  "\<exists>r. bd_ID r = newID \<and> (snd (dest_Create flt pr ek e newID nonce d req who) = d
     \<or> snd (dest_Create flt pr ek e newID nonce d req who) = d\<lparr>backup_destinations := backup_destinations d @ [r]\<rparr>)"
proof (cases "validateDestinationMeta req")
  case (Inr x)
  obtain p req' where x: "x = (p, req')" by (cases x)
  show ?thesis
  proof (cases "splitDestinationOptions flt p (sq_Options req') (sq_Secrets req') []")
    case S: (Inr y)
    obtain plain sec where y: "y = (plain, sec)" by (cases y)
    show ?thesis
    proof (cases "encryptSecrets pr ek e nonce sec")
      case (Inl err)
      with Inr x S y show ?thesis by (auto simp: dest_Create_def intro: exI [of _ "undefined\<lparr>bd_ID := newID\<rparr>"])
    next
      case E: (Inr s)
      let ?r = "\<lparr>bd_ID = newID, bd_Name = sq_Name req', bd_Provider = dp_ID p, bd_BasePath = sq_BasePath req',
         bd_Options = plain, bd_Secrets = s, bd_KeepLocal = (case sq_KeepLocal req' of None \<Rightarrow> True | Some b \<Rightarrow> b),
         bd_RetentionCount = sq_RetentionCount req', bd_CreatedBy = who, bd_CreatedAt = now e, bd_UpdatedAt = now e\<rparr>"
      from Inr x S y E have "snd (dest_Create flt pr ek e newID nonce d req who) = d
         \<or> snd (dest_Create flt pr ek e newID nonce d req who) = d\<lparr>backup_destinations := backup_destinations d @ [?r]\<rparr>"
        by (simp add: dest_Create_def Let_def)
      then show ?thesis by (intro exI [of _ ?r]) simp
    qed
  qed (use Inr x in \<open>auto simp: dest_Create_def intro: exI [of _ "undefined\<lparr>bd_ID := newID\<rparr>"]\<close>)
qed (auto simp: dest_Create_def intro: exI [of _ "undefined\<lparr>bd_ID := newID\<rparr>"])

lemma dest_Update_same:
  "backups (snd (dest_Update flt pr ek e nonce d i req)) = backups d \<and> dest_ids (snd (dest_Update flt pr ek e nonce d i req)) = dest_ids d"
proof (cases "snd (dest_Update flt pr ek e nonce d i req) = d")
  case False
  then obtain p req' plain s keep where "snd (dest_Update flt pr ek e nonce d i req) = d\<lparr>backup_destinations :=
         update_where (\<lambda>r. bd_ID r = i) (dest_update_row req' p plain s keep (now e)) (backup_destinations d)\<rparr>"
    using dest_Update_result [of flt pr ek e nonce d i req] by blast
  then show ?thesis by (simp add: dest_ids_def image_update_where dest_update_row_def)
qed simp

lemma dest_same_inv:
  assumes "bk_inv (d, js)" and "backups d' = backups d" and "dest_ids d' = dest_ids d"
  shows "bk_inv (d', js)"
proof (rule bk_inv_quiet [OF assms(1) evolves_same [OF assms(2,3)]])
  show "rows_ok d'" using assms(1) rows_ok_same [OF assms(2,3)] by (simp add: bk_inv_def)
qed

text \<open>A destination that holds the only copy of a backup cannot be deleted; deleting any
  other one leaves records with their archive on the node.\<close>

lemma bk_inv_dest_delete:
  assumes "bk_inv (d, js)"
  shows "bk_inv (snd (dest_Delete e d i), js)"
proof (cases "snd (dest_Delete e d i) = d")
  case False
  then have d': "snd (dest_Delete e d i) = delete_destination_row d i" and none: "\<forall>b \<in> set (backups d). \<not> remote_only b i"
    by (auto simp: dest_Delete_def dest_delete_stmt_def dest_usage_check_def refuse_if_def rows_affected_def
        filter_empty_conv split: if_splits)
  define f where "f = (\<lambda>b. if b_DestinationID b = Some i then b\<lparr>b_DestinationID := None\<rparr> else b :: Backup)"
  have rows: "set (backups (delete_destination_row d i)) = f ` set (backups d)"
    by (simp add: delete_destination_row_def set_update_where f_def)
  have ids: "dest_ids (delete_destination_row d i) = dest_ids d - {i}"
    by (auto simp: delete_destination_row_def dest_ids_def set_delete_where)
  have fixed: "b_ID (f b) = b_ID b" "b_LocalPresent (f b) = b_LocalPresent b" for b by (simp_all add: f_def)
  have "row_ok (dest_ids d - {i}) (f b)" if "b \<in> set (backups d)" for b
  proof -
    have "row_ok (dest_ids d) b" using assms that by (auto simp: bk_inv_def rows_ok_def)
    with none that show ?thesis by (auto simp: row_ok_def remote_only_def f_def)
  qed
  then have "rows_ok (delete_destination_row d i)" unfolding rows_ok_def rows ids by blast
  moreover have "unique_on b_ID (backups (delete_destination_row d i))"
    using assms by (simp add: delete_destination_row_def unique_on_update_where bk_inv_def)
  moreover have "job_ok (delete_destination_row d i) j" if "j \<in> set js" for j
  proof (cases "writes_row j")
    case (Some n)
    have ok: "job_ok d j" using assms that by (simp add: bk_inv_def)
    have "local_row n (delete_destination_row d i)" using ok Some fixed unfolding local_row_def rows job_ok_def by auto
    moreover have "b_DestinationID (f b) = Some x"
      if "b \<in> set (backups d)" "b_ID (f b) = n" "job_dest j = Some x" "x \<in> dest_ids d - {i}" for b x
      using ok Some that fixed(1) [of b] by (auto simp: job_ok_def f_def)
    ultimately show ?thesis unfolding job_ok_def Some rows ids by auto
  qed (simp add: job_ok_def)
  ultimately show ?thesis using d' assms by (simp add: bk_inv_def)
qed (use assms in simp)

lemma bk_inv_dest_create:
  assumes "bk_inv (d, js)" and "\<forall>j \<in> set js. job_dest j \<noteq> Some newID"
  shows "bk_inv (snd (dest_Create flt pr ek e newID nonce d req who), js)"
proof (cases "snd (dest_Create flt pr ek e newID nonce d req who) = d")
  case False
  then obtain r where r: "bd_ID r = newID"
    "snd (dest_Create flt pr ek e newID nonce d req who) = d\<lparr>backup_destinations := backup_destinations d @ [r]\<rparr>"
    using dest_Create_rows [of newID flt pr ek e nonce d req who] by blast
  let ?d = "d\<lparr>backup_destinations := backup_destinations d @ [r]\<rparr>"
  have ids: "dest_ids ?d = insert newID (dest_ids d)" using r(1) by (simp add: dest_ids_def)
  have "job_ok ?d j" if "j \<in> set js" for j
  proof -
    have "job_ok d j" "job_dest j \<noteq> Some newID" using assms that by (auto simp: bk_inv_def)
    then show ?thesis unfolding job_ok_def ids local_row_def by (auto split: option.split)
  qed
  moreover have "rows_ok ?d" using assms(1) unfolding rows_ok_def ids by (auto simp: bk_inv_def rows_ok_def row_ok_def)
  ultimately show ?thesis using assms(1) r(2) by (simp add: bk_inv_def)
qed (use assms in simp)

lemma bk_inv_dest:
  assumes "bk_inv (d, js)" and "fresh_dest a js"
  shows "bk_inv (snd (dest_step flt pr ek a d), js)"
proof (cases a)
  case (DCreate e newID nonce req who)
  with bk_inv_dest_create [OF assms(1)] assms show ?thesis by simp
next
  case (DUpdate e nonce i req)
  with dest_same_inv [OF assms(1)] dest_Update_same assms(1) show ?thesis by simp
next
  case (DDelete e i)
  with bk_inv_dest_delete [OF assms(1)] show ?thesis by simp
next
  case (DAnswer e nonce i a)
  with dest_same_inv [OF assms(1)] config_updates_same assms(1) show ?thesis by (simp add: save_answer_def)
qed

interpretation bk: kept_invariant "bk_step s" bk_inv for s
proof
  show "bk_inv (snd (bk_step s a st))" if inv: "bk_inv st" for st a
  proof -
    obtain d js where st: "st = (d, js)" by (cases st)
    note inv' = inv [unfolded st]
    show ?thesis
    proof (cases a)
      case (BCreate e newID seed req by')
      then show ?thesis using inv' bk_inv_create [OF inv'] by (auto simp: st split: prod.split)
    next
      case (BRetry e i)
      then show ?thesis using inv' bk_inv_retry [OF inv'] by (auto simp: st split: prod.split)
    next
      case (BRestore e seed i)
      then show ?thesis using bk_inv_restore [OF inv'] by (auto simp: st split: prod.split)
    next
      case (BJob bn e nonce k)
      then show ?thesis using inv' bk_inv_job [OF inv'] by (auto simp: st)
    next
      case (BDelete bn e nonce i)
      have "rows_ok d" using inv' by (simp add: bk_inv_def)
      with BDelete DeleteBackup_keeps bk_inv_quiet [OF inv'] show ?thesis by (simp add: st)
    next
      case (BTick tz bn e ids seeds nonces)
      then show ?thesis using inv' bk_inv_schedules [OF inv', of ids 0 "due_schedules e d"]
        by (auto simp: st runDueSchedules_def fresh_ids_def split: prod.split)
    next
      case (BRestart e)
      then show ?thesis using bk_inv_reset [OF inv'] by (simp add: st)
    next
      case (BDest b)
      then show ?thesis using inv' bk_inv_dest [OF inv'] by (simp add: st)
    next
      case (BServerGone e i u role)
      then show ?thesis using bk_inv_server [OF inv'] by (simp add: st)
    qed
  qed
qed


definition ex_bk_server :: Server where
  "ex_bk_server = \<lparr>sv_ID = 1, sv_Name = ''s'', sv_NodeID = 2, sv_OwnerID = 3, sv_Status = ''running'', sv_Port = 5520,
     sv_DataPath = ''/srv'', sv_NetworkRole = None, sv_RequireReferral = False, sv_HytaleVersion = ''latest'', sv_CPULimit = 0,
     sv_RAMLimitMB = 2048, sv_DiskLimitMB = 10240, sv_AutoRestart = True, sv_CrashLimit = 3, sv_CrashWindowS = 300,
     sv_ActiveWorld = '''', sv_CreatedAt = 0, sv_UpdatedAt = 0, sv_LaunchFlags = [], sv_UseHytaleAccount = False,
     sv_LastExitCode = None\<rparr>"

definition ex_backup :: "uuid \<Rightarrow> time \<Rightarrow> Backup" where
  "ex_backup i t = \<lparr>b_ID = i, b_ServerID = Some 1, b_WorldName = None, b_Type = ''full'', b_Storage = ''local'',
     b_StoragePath = ''p'', b_SizeBytes = Some 1, b_Status = ''completed'', b_TriggeredBy = ''manual'', b_CreatedAt = t,
     b_CompletedAt = Some t, b_Error = None, b_DestinationID = Some 5, b_RemotePath = None, b_UploadStatus = Some ''failed'',
     b_UploadError = None, b_LocalPresent = True, b_EncKeyID = None\<rparr>"

definition ex_bk_db :: db where
  "ex_bk_db = empty_db\<lparr>servers := [ex_bk_server], backup_destinations := [ex_destination\<lparr>bd_KeepLocal := False\<rparr>],
     backups := [ex_backup 9 0]\<rparr>"

definition ex_bk_service :: BackupService where
  "ex_bk_service = \<lparr>bx_flt = (\<lambda>_. None), bx_str = dec_nat, bx_prims = plain_prims, bx_encKey = ''key'',
     bx_daemons = \<lparr>cp_clients = [(2, \<lparr>cl_baseURL = ''http://n'', cl_nodeToken = ''t'', cl_tls = False\<rparr>)], cp_material = None\<rparr>\<rparr>"

text \<open>A node that uploads and deletes, and one whose archive is gone.\<close>

definition ex_bk_node :: "remote_answer \<Rightarrow> BackupNode" where
  "ex_bk_node a = \<lparr>bn_CreateBackup = (\<lambda>_ _ _ _. Inr (1, ''p'')), bn_DeleteBackupArchive = (\<lambda>_ _ _. Inr ()),
     bn_UploadBackup = (\<lambda>_ _ _ _. a), bn_DeleteRemoteBackup = (\<lambda>_ _ _ _. RemoteOK '''' []),
     bn_RestoreBackup = (\<lambda>_ _ _ _. Inr ()), bn_RestoreBackupFrom = (\<lambda>_ _ _ _ _. RemoteOK '''' []),
     bn_DownloadBackup = (\<lambda>_ _ _. Inr ''''), bn_DownloadBackupFrom = (\<lambda>_ _ _ _ _. Inr '''')\<rparr>"

definition ex_bk_run :: "bk_act list" where
  "ex_bk_run = [BRetry (quiet 1) 9, BJob (ex_bk_node (RemoteOK ''r'' [])) (quiet 2) (\<lambda>_. '''') 0, BDest (DDelete (quiet 3) 5)]"


text \<open>Two retries before the first one's upload ran: the second upload finds no archive, and its
  failure overwrites the record of the copy the first one made.\<close>

theorem double_retry_loses_copy:
  "case RetryUpload (quiet 1) ex_bk_db 9 of (r1, d1) \<Rightarrow> (case RetryUpload (quiet 2) d1 9 of (r2, d2) \<Rightarrow>
     (case (r1, r2) of (Inr (_, j1), Inr (_, j2)) \<Rightarrow>
        (let d3 = run_job ex_bk_service (ex_bk_node (RemoteOK ''r'' [])) (quiet 3) (\<lambda>_. '''') d2 j1;
             d4 = run_job ex_bk_service (ex_bk_node (RemoteErr ''backup archive not found'' [])) (quiet 4) (\<lambda>_. '''') d3 j2
         in \<exists>b \<in> set (backups d3). is_ok (remoteSourceFor ex_bk_service (quiet 5) d3 b)
              \<and> (\<exists>b' \<in> set (backups d4). b_ID b' = b_ID b \<and> remoteSourceFor ex_bk_service (quiet 5) d4 b'
                    = Inl (New ''the local archive was removed and no off-site copy is available'')))
      | _ \<Rightarrow> False))"
  by code_simp

section \<open>The key of a backup\<close>

lemma only_settings_trans: "only_settings d d1 \<Longrightarrow> only_settings d1 d2 \<Longrightarrow> only_settings d d2"
  by (auto simp: only_settings_def)

lemma key_step_only: "only_settings d (key_step pr ek op d)"
proof (cases op)
  case (OpRotate e seed who)
  obtain q d1 where b: "BackupKeyring pr ek e seed d = (q, d1)" by fastforce
  then have o1: "only_settings d d1" using BackupKeyring_only by (metis snd_conv)
  show ?thesis
  proof (cases "\<exists>kr i kr'. q = Inr kr \<and> kr_rotate e (ks_raw2 seed) kr = Inr (i, kr')")
    case True
    then obtain kr i kr' where q: "q = Inr kr" "kr_rotate e (ks_raw2 seed) kr = Inr (i, kr')" by blast
    obtain r d2 where s: "saveKeyring pr ek e (ks_nonce2 seed) d1 kr' who = (r, d2)" by fastforce
    then have "only_settings d1 d2" using settings_Set_only by (metis saveKeyring_def snd_conv)
    with o1 have "only_settings d d2" by (rule only_settings_trans)
    with OpRotate b q s show ?thesis by (simp add: RotateBackupKey_def split: sum.split)
  next
    case False
    then show ?thesis
      using OpRotate b o1 by (cases q; cases "kr_rotate e (ks_raw2 seed) (projr q)") (auto simp: RotateBackupKey_def)
  qed
next
  case (OpExport e seed)
  have "snd (ExportActiveBackupKey pr ek e seed d) = snd (BackupKeyring pr ek e seed d)"
    by (auto simp: ExportActiveBackupKey_def split: prod.splits sum.splits option.splits)
  with OpExport BackupKeyring_only show ?thesis by simp
next
  case (OpSetIfAbsent e nonce key val)
  then show ?thesis
    by (auto simp: settings_SetIfAbsent_def only_settings_def split: sum.split intro: exI [of _ "app_settings d"])
qed (simp_all add: BackupKeyring_only settings_Set_only)

lemma key_steps_only: "only_settings d (fold (key_step pr ek) ops d)"
  by (induction ops arbitrary: d) (auto intro: only_settings_trans key_step_only)

text \<open>The key of the keyring an operation works with is stored when the operation is done.\<close>

lemma BackupKeyring_key:
  assumes "gcm_correct pr" and "length (ks_nonce seed) = nonce_size"
    and "BackupKeyring pr ek e seed d = (Inr kr, d')" and "KeyByID kr j = Some k"
  shows "key_stored pr ek d' j k"
proof (cases "stored_keyring pr ek e d")
  case (Inr x)
  show ?thesis
  proof (cases x)
    case None
    with Inr assms(3) have c: "create_keyring pr ek e seed d = (Inr kr, d')" by (simp add: BackupKeyring_def)
    then have k: "kr = \<lparr>kr_Active = 0, kr_Keys = [(''0'', b64_encode (ks_raw seed))]\<rparr>"
      and save: "saveKeyring pr ek e (ks_nonce seed) d kr None = (Inr (), d')"
      by (auto simp: create_keyring_def newKeyring_def and_then_Inr generateKey_def split: sum.splits prod.splits)
    then have "stored_keyring pr ek (quiet 0) d' = Inr (Some (sorted_keys kr))"
      using saveKeyring_stored [OF assms(1,2) _ save] by simp
    moreover have "KeyByID (sorted_keys kr) j = Some k" using assms(4) k by (simp add: KeyByID_sorted)
    ultimately show ?thesis by (auto simp: key_stored_def)
  next
    case (Some kr0)
    with Inr assms(3) have "kr0 = kr" "d' = d" by (simp_all add: BackupKeyring_def)
    with Inr Some stored_keyring_quiet [of pr ek e d _ 0] assms(4) show ?thesis by (auto simp: key_stored_def)
  qed
qed (use assms(3) in \<open>simp add: BackupKeyring_def\<close>)

text \<open>[C25] The key a new backup is encrypted with is the key a later restore decrypts it with:
  the id that is recorded leads back to it through the encrypted settings table, whatever
  sequence of key rotations, exports and other settings (also failing ones) comes in between.\<close>

theorem backup_key_recovered:
  assumes "gcm_correct (bx_prims s)" and "length (ks_nonce seed) = nonce_size"
    and "createBackup s e newID seed d req by' = (Inr (v, RunBackup i sid n dst (Some enc)), d')"
    and "list_all key_op_ok ops"
  shows "encKeyForBackup s (quiet t) seed' (fold (key_step (bx_prims s) (bx_encKey s)) ops d') newID
    = (Inr (Some enc), fold (key_step (bx_prims s) (bx_encKey s)) ops d')"
  using assms(3)
proof (cases rule: createBackup_result)
  case (row d1 b)
  let ?pr = "bx_prims s" and ?ek = "bx_encKey s"
  let ?d = "fold (key_step ?pr ?ek) ops d'"
  from row(11) [OF refl] obtain k where act: "activeEncKey s e seed d = (Inr (enc, k), d1)" and key: "b_EncKeyID b = Some k"
    by auto
  then obtain kr w key where kr: "BackupKeyring ?pr ?ek e seed d = (Inr kr, d1)" "ActiveKey kr = (w, Some key)"
    and enc: "enc = \<lparr>ek_Key = key, ek_KeyID = w\<rparr>" "k = uint w"
    by (auto simp: activeEncKey_def split: prod.splits sum.splits option.splits)
  have "KeyByID kr w = Some key" using kr(2) by (auto simp: ActiveKey_def KeyByID_def)
  then have "key_stored ?pr ?ek d1 w key" by (rule BackupKeyring_key [OF assms(1,2) kr(1)])
  moreover have "find_setting d' backupKeyringKey = find_setting d1 backupKeyringKey" using row(4) by (simp add: find_setting_def)
  ultimately have "key_stored ?pr ?ek d' w key"
    using stored_keyring_cong [of d' d1 ?pr ?ek "quiet 0"] by (simp add: key_stored_def)
  then have "key_stored ?pr ?ek ?d w key" using backup_keys_survive [OF assms(1,4)] by simp
  then obtain kr' where kr': "stored_keyring ?pr ?ek (quiet 0) ?d = Inr (Some kr')" "KeyByID kr' w = Some key"
    by (auto simp: key_stored_def)
  then have "BackupKeyring ?pr ?ek (quiet t) seed' ?d = (Inr kr', ?d)"
    using stored_keyring_quiet [of ?pr ?ek "quiet 0" ?d _ t] by (simp add: BackupKeyring_def)
  moreover have "find_backup ?d newID = Some b"
  proof -
    have "backups ?d = backups d @ [b]"
      using only_settings_rows [OF key_steps_only [of d' ?pr ?ek ops]] only_settings_rows [OF row(1)] row(4) by simp
    with row(2,5) show ?thesis by (simp add: find_backup_def find_append)
  qed
  ultimately show ?thesis using key enc kr'(2) by (simp add: encKeyForBackup_def call_def)
qed simp

definition ex_bk_request :: CreateBackupRequest where
  "ex_bk_request = \<lparr>cb_ServerID = 1, cb_WorldName = '''', cb_Type = '''', cb_Storage = '''', cb_DestinationID = None\<rparr>"

definition ex_key_service :: BackupService where
  "ex_key_service = ex_bk_service\<lparr>bx_encKey := ex_key32\<rparr>"

theorem backup_key_recovered_witness:
  "\<exists>v j d'. createBackup ex_key_service (quiet 1) 10 ex_seed (ex_keyring_db\<lparr>servers := [ex_bk_server]\<rparr>) ex_bk_request ''manual'' = (Inr (v, j), d')
     \<and> j = RunBackup 10 1 2 None (Some \<lparr>ek_Key = b64_encode ''a'', ek_KeyID = 0\<rparr>)
     \<and> fst (encKeyForBackup ex_key_service (quiet 3) ex_seed
         (fold (key_step plain_prims ex_key32) [OpRotate (quiet 2) ex_seed None] d') 10)
       = Inr (Some \<lparr>ek_Key = b64_encode ''a'', ek_KeyID = 0\<rparr>)"
proof -
  let ?d = "ex_keyring_db\<lparr>servers := [ex_bk_server]\<rparr>"
  let ?kr = "\<lparr>kr_Active = 0 :: 8 word, kr_Keys = [(''0'', b64_encode ''a'')]\<rparr>"
  let ?enc = "\<lparr>ek_Key = b64_encode ''a'', ek_KeyID = 0\<rparr>"
  have save: "saveKeyring plain_prims ex_key32 (quiet 0) ex_nonce empty_db ?kr None = (Inr (), ex_keyring_db)"
    by (simp add: ex_keyring_db_def create_keyring_def newKeyring_def generateKey_def wrapping_def call_def ex_seed_def
        saveKeyring_def settings_Set_def marshal_keyring_nonempty Encrypt_def ex_key32_def Let_def)
  have "stored_keyring plain_prims ex_key32 (quiet 0) ex_keyring_db = Inr (Some (sorted_keys ?kr))"
    by (rule saveKeyring_stored [OF plain_prims_gcm _ _ save]) (simp_all add: ex_nonce_def nonce_size_def)
  from stored_keyring_quiet [OF this, of 1] have "stored_keyring plain_prims ex_key32 (quiet 1) ex_keyring_db = Inr (Some ?kr)"
    by (simp add: sorted_keys_def)
  then have "stored_keyring plain_prims ex_key32 (quiet 1) ?d = Inr (Some ?kr)"
    using stored_keyring_cong [of ?d ex_keyring_db plain_prims ex_key32 "quiet 1"] by (simp add: find_setting_def)
  moreover have "dec 0 = ''0''" by (simp add: dec_def dec_nat.simps [of 0] char_of_eq_iff)
  ultimately have act: "activeEncKey ex_key_service (quiet 1) ex_seed ?d = (Inr (?enc, 0), ?d)"
    by (simp add: activeEncKey_def BackupKeyring_def ActiveKey_def ex_key_service_def ex_bk_service_def)
  have "only_settings empty_db ex_keyring_db"
    using settings_Set_only [of empty_db "''saveKeyring''" plain_prims ex_key32 "quiet 0" ex_nonce backupKeyringKey "marshal_keyring ?kr" None]
      save by (simp add: saveKeyring_def)
  from only_settings_rows [OF this] have none: "backups ?d = []" by (simp add: empty_db_def)
  obtain v d' where c: "createBackup ex_key_service (quiet 1) 10 ex_seed ?d ex_bk_request ''manual''
      = (Inr (v, RunBackup 10 1 2 None (Some ?enc)), d')"
    using act none by (simp add: createBackup_def Let_def ex_bk_request_def checkDestination_def serverNode_def call_def
        find_server_def ex_bk_server_def backup_types_def find_backup_def getBackup_def new_backup_def)
  have "encKeyForBackup ex_key_service (quiet 3) ex_seed
      (fold (key_step (bx_prims ex_key_service) (bx_encKey ex_key_service)) [OpRotate (quiet 2) ex_seed None] d') 10
      = (Inr (Some ?enc), fold (key_step (bx_prims ex_key_service) (bx_encKey ex_key_service)) [OpRotate (quiet 2) ex_seed None] d')"
    by (rule backup_key_recovered [OF _ _ c])
      (simp_all add: ex_key_service_def ex_bk_service_def plain_prims_gcm ex_seed_def ex_nonce_def nonce_size_def)
  then show ?thesis using c by (auto simp: ex_key_service_def ex_bk_service_def)
qed

section \<open>Retention\<close>

lemma DeleteBackup_set:
  "set (backups (snd (DeleteBackup s bn e nonce d i))) = set (backups d)
   \<or> set (backups (snd (DeleteBackup s bn e nonce d i))) = {b \<in> set (backups d). b_ID b \<noteq> i}"
proof -
  obtain d1 where "backups d1 = backups d"
    and "snd (DeleteBackup s bn e nonce d i) = d1 \<or> snd (DeleteBackup s bn e nonce d i) = drop_backup d1 i"
    using DeleteBackup_rows [of d s bn e nonce i] by blast
  then show ?thesis by (elim disjE) (simp_all add: drop_backup_rows)
qed

lemma delete_all_set:
  "set (backups (delete_all s bn e nonce k ids d)) \<subseteq> set (backups d)
   \<and> {b \<in> set (backups d). b_ID b \<notin> set ids} \<subseteq> set (backups (delete_all s bn e nonce k ids d))"
proof (induction ids arbitrary: k d)
  case (Cons i ids)
  from Cons.IH [of "Suc k" "snd (DeleteBackup s bn e (nonce k) d i)"] DeleteBackup_set [of s bn e "nonce k" d i]
  show ?case by (auto simp del: split_paired_All)
qed simp

text \<open>A backup without an off-site copy is deleted when the statements succeed.\<close>

lemma DeleteBackup_local:
  assumes "no_faults e" and "b \<in> set (backups d)" and "b_ID b = i" and "unique_on b_ID (backups d)"
    and "b_UploadStatus b \<noteq> Some ''done''"
  shows "set (backups (snd (DeleteBackup s bn e nonce d i))) = {b \<in> set (backups d). b_ID b \<noteq> i}"
proof -
  have "find_backup d i = Some b" using unique_on_find [OF assms(4,2)] assms(3) by (simp add: find_backup_def)
  then have get: "getBackup e d i = Inr (backup_view d b)" using assms(1) by (simp add: getBackup_def call_def no_faults_def)
  have rc: "delete_remote_copy s bn e nonce d b sid c = (Inr (), d)" for sid c
    using assms(5) by (simp add: delete_remote_copy_def split: option.split)
  obtain calls where copies: "delete_copies s bn e nonce d b = ((Inr (), calls), d)"
    by (cases "b_ServerID b") (auto simp: delete_copies_def Let_def rc)
  have "rows_affected (\<lambda>b. b_ID b = i) (backups d) \<noteq> 0" using assms(2,3) by auto
  with get copies assms(1) have "snd (DeleteBackup s bn e nonce d i) = drop_backup d i"
    by (auto simp: DeleteBackup_def backup_view_def no_faults_def)
  then show ?thesis by (simp add: drop_backup_rows)
qed

lemma DeleteBackup_unique: "unique_on b_ID (backups d) \<Longrightarrow> unique_on b_ID (backups (snd (DeleteBackup s bn e nonce d i)))"
proof -
  assume u: "unique_on b_ID (backups d)"
  obtain d1 where "backups d1 = backups d"
    and "snd (DeleteBackup s bn e nonce d i) = d1 \<or> snd (DeleteBackup s bn e nonce d i) = drop_backup d1 i"
    using DeleteBackup_rows [of d s bn e nonce i] by blast
  with u show ?thesis by (auto simp: drop_backup_def unique_on_delete_where)
qed

lemma delete_all_local:
  assumes "no_faults e" and "unique_on b_ID (backups d)" and "distinct ids"
    and "\<And>i. i \<in> set ids \<Longrightarrow> \<exists>b \<in> set (backups d). b_ID b = i \<and> b_UploadStatus b \<noteq> Some ''done''"
  shows "set (backups (delete_all s bn e nonce k ids d)) = {b \<in> set (backups d). b_ID b \<notin> set ids}"
  using assms(2-)
proof (induction ids arbitrary: k d)
  case (Cons i ids)
  let ?d = "snd (DeleteBackup s bn e (nonce k) d i)"
  from Cons.prems(3) [of i] obtain b where "b \<in> set (backups d)" "b_ID b = i" "b_UploadStatus b \<noteq> Some ''done''" by auto
  from DeleteBackup_local [OF assms(1) this(1,2) Cons.prems(1) this(3)]
  have one: "set (backups ?d) = {b \<in> set (backups d). b_ID b \<noteq> i}" .
  have "\<exists>b \<in> set (backups ?d). b_ID b = j \<and> b_UploadStatus b \<noteq> Some ''done''" if "j \<in> set ids" for j
    using Cons.prems(2) Cons.prems(3) [of j] that unfolding one by auto
  from Cons.IH [OF DeleteBackup_unique [OF Cons.prems(1)] _ this] Cons.prems(2)
  have "set (backups (delete_all s bn e nonce (Suc k) ids ?d)) = {b \<in> set (backups ?d). b_ID b \<notin> set ids}" by simp
  then show ?case unfolding one by auto
qed simp

lemma newest_first_mem: "set (newest_first bs) = set bs" "unique_on b_ID (newest_first bs) = unique_on b_ID bs"
proof -
  show "set (newest_first bs) = set bs" by (simp add: newest_first_def)
  show "unique_on b_ID (newest_first bs) = unique_on b_ID bs" by (simp add: newest_first_def unique_on_def distinct_map)
qed

lemma newest_first_order:
  "x \<in> set (take n (newest_first bs)) \<Longrightarrow> y \<in> set (drop n (newest_first bs)) \<Longrightarrow> b_CreatedAt y \<le> b_CreatedAt x"
proof -
  assume x: "x \<in> set (take n (newest_first bs))" and y: "y \<in> set (drop n (newest_first bs))"
  have "sorted (map (\<lambda>b. - b_CreatedAt b) (take n (newest_first bs) @ drop n (newest_first bs)))"
    by (simp add: newest_first_def)
  then show ?thesis using x y unfolding map_append sorted_append by fastforce
qed

lemma unique_on_filter: "unique_on k t \<Longrightarrow> unique_on k (filter p t)"
  by (simp add: unique_on_def distinct_map_filter)

lemma take_drop_disjoint:
  assumes "unique_on k t" and "x \<in> set (take n t)" and "y \<in> set (drop n t)"
  shows "k x \<noteq> k y"
proof -
  have "distinct (map k (take n t) @ map k (drop n t))" using assms(1) unfolding unique_on_def map_append [symmetric] by simp
  with assms(2,3) show ?thesis by auto
qed


definition ex_retention_db :: db where
  "ex_retention_db = ex_bk_db\<lparr>backups := [ex_backup 9 0, ex_backup 10 20, ex_backup 11 10]\<rparr>"


section \<open>The scheduler\<close>

lemma config_updates_schedules: "backup_schedules (ApplyConfigUpdates flt pr ek e nonce d i us) = backup_schedules d"
proof (cases "ApplyConfigUpdates flt pr ek e nonce d i us = d")
  case False
  then obtain opts s where "ApplyConfigUpdates flt pr ek e nonce d i us =
      d\<lparr>backup_destinations := update_where (\<lambda>r. bd_ID r = i)
        (\<lambda>r. r\<lparr>bd_Options := opts, bd_Secrets := s, bd_UpdatedAt := now e\<rparr>) (backup_destinations d)\<rparr>"
    using config_updates_result [of flt pr ek e nonce d i us] by blast
  then show ?thesis by simp
qed simp

lemma store_answer_schedules [simp]: "backup_schedules (store_answer s e nonce d i a) = backup_schedules d"
  by (simp add: store_answer_def save_answer_def config_updates_schedules)

lemma delete_copies_schedules: "backup_schedules (snd (delete_copies s bn e nonce d b)) = backup_schedules d"
proof -
  have rc: "backup_schedules (snd (delete_remote_copy s bn e nonce d b sid c)) = backup_schedules d" for sid c
  proof (cases "b_DestinationID b")
    case (Some dst)
    then show ?thesis
      by (cases "dest_RemoteSpec (bx_prims s) (bx_encKey s) e d dst"; cases c)
        (simp_all add: delete_remote_copy_def Let_def split: option.split prod.split)
  qed (simp add: delete_remote_copy_def)
  show ?thesis
  proof (cases "b_ServerID b")
    case (Some sid)
    obtain q d1 where "delete_remote_copy s bn e nonce d b sid (backup_client s e d sid) = (q, d1)" by fastforce
    with Some rc [of sid "backup_client s e d sid"] show ?thesis by (cases q) (auto simp: delete_copies_def Let_def)
  qed (simp add: delete_copies_def)
qed

lemma DeleteBackup_schedules: "backup_schedules (snd (DeleteBackup s bn e nonce d i)) = backup_schedules d"
proof (cases "getBackup e d i")
  case (Inr v)
  obtain q calls d1 where q: "delete_copies s bn e nonce d (bv_row v) = ((q, calls), d1)" by (metis surj_pair)
  with delete_copies_schedules [of s bn e nonce d "bv_row v"] have "backup_schedules d1 = backup_schedules d" by simp
  with Inr q show ?thesis by (auto simp: DeleteBackup_def drop_backup_def split: sum.split)
qed (simp add: DeleteBackup_def)

lemma pruneBackups_schedules: "backup_schedules (pruneBackups s bn e nonce k d sid cnt days) = backup_schedules d"
proof -
  have "backup_schedules (delete_all s bn e nonce k ids d) = backup_schedules d" for ids
    by (induction ids arbitrary: k d) (simp_all add: DeleteBackup_schedules)
  then show ?thesis by (simp add: pruneBackups_def)
qed

lemma createBackup_schedules:
  assumes "createBackup s e newID seed d req by' = (r, d')"
  shows "backup_schedules d' = backup_schedules d"
  using assms by (cases rule: createBackup_result) (auto dest: only_settings_rows)

definition is_due :: "env \<Rightarrow> BackupSchedule \<Rightarrow> bool" where
  "is_due e r = (bs_Enabled r \<and> (case bs_NextRun r of None \<Rightarrow> False | Some t \<Rightarrow> t \<le> now e))"

lemma due_schedules_set: "no_faults e \<Longrightarrow> set (due_schedules e d) = {r \<in> set (backup_schedules d). is_due e r}"
  by (auto simp: due_schedules_def no_faults_def is_due_def)

lemma next_time_later:
  assumes "nextCronTime tz expr t0 = Inr t"
  shows "t0 < t"
proof -
  from assms obtain c where "cron_search tz c (t0 + 367 * 24 * hour) (t0 - t0 mod minute + minute) = Some t"
    unfolding nextCronTime_def and_then_Inr by (auto split: option.splits)
  from cron_search_Some [OF this] start_after [of t0] show ?thesis by linarith
qed

text \<open>One turn moves the schedule out of the way, whatever becomes of the backup.\<close>

lemma run_schedule_rows:
  assumes "no_faults e" and "run_schedule tz s bn e newID seed nonce r d = (js, d')"
  obtains g where "backup_schedules d' = update_where (\<lambda>x. bs_ID x = bs_ID r) g (backup_schedules d)"
    and "\<And>x. bs_ID (g x) = bs_ID x" and "\<And>x. \<not> is_due e (g x)" and "length js \<le> 1"
proof (cases "nextCronTime tz (bs_CronExpr r) (now e)")
  case (Inl err)
  with assms show ?thesis
    by (intro that [of "\<lambda>x. x\<lparr>bs_Enabled := False\<rparr>"])
      (auto simp: run_schedule_def try_exec_def no_faults_def set_schedule_def is_due_def)
next
  case (Inr t)
  define g where "g = (\<lambda>x :: BackupSchedule. x\<lparr>bs_LastRun := Some (now e), bs_NextRun := Some t\<rparr>)"
  obtain q d2 where c: "createBackup s e newID seed (set_schedule d (bs_ID r) g) \<lparr>cb_ServerID = bs_ServerID r, cb_WorldName = '''', cb_Type = bs_Type r,
      cb_Storage = bs_Storage r, cb_DestinationID = bs_DestinationID r\<rparr> ''schedule'' = (q, d2)"
    by fastforce
  have run: "run_schedule tz s bn e newID seed nonce r d = (case q of Inl _ \<Rightarrow> ([], d2)
      | Inr (_, job) \<Rightarrow> ([job], pruneBackups s bn e nonce 0 d2 (bs_ServerID r) (bs_RetentionCount r) (bs_RetentionDays r)))"
    using Inr assms(1) c by (simp add: run_schedule_def Let_def try_exec_def no_faults_def g_def split: sum.split)
  have "backup_schedules d' = backup_schedules d2" "length js \<le> 1"
    using run assms(2) pruneBackups_schedules by (auto split: sum.splits prod.splits)
  moreover have "backup_schedules d2 = update_where (\<lambda>x. bs_ID x = bs_ID r) g (backup_schedules d)"
    using createBackup_schedules [OF c] by (simp add: set_schedule_def)
  moreover have "\<not> is_due e (g x)" for x using next_time_later [OF Inr] by (simp add: is_due_def g_def)
  ultimately show ?thesis by (intro that [of g]) (auto simp: g_def)
qed

lemma run_schedules_rows:
  assumes "no_faults e" and "run_schedules tz s bn e ids seeds nonces k rs d = (js, d')"
  shows "length js \<le> length rs
    \<and> (\<forall>x \<in> set (backup_schedules d'). x \<in> set (backup_schedules d) \<and> bs_ID x \<notin> bs_ID ` set rs \<or> \<not> is_due e x)
    \<and> (\<forall>x \<in> set (backup_schedules d). bs_ID x \<notin> bs_ID ` set rs \<longrightarrow> x \<in> set (backup_schedules d'))"
  using assms(2)
proof (induction rs arbitrary: k d js d')
  case (Cons r rs)
  obtain js1 d1 where one: "run_schedule tz s bn e (ids k) (seeds k) (nonces k) r d = (js1, d1)" by fastforce
  obtain js2 d2 where rest: "run_schedules tz s bn e ids seeds nonces (Suc k) rs d1 = (js2, d2)" by fastforce
  have eq: "js = js1 @ js2" "d' = d2" using Cons.prems one rest by simp_all
  obtain g where g: "backup_schedules d1 = update_where (\<lambda>x. bs_ID x = bs_ID r) g (backup_schedules d)"
      "\<And>x. bs_ID (g x) = bs_ID x" "\<And>x. \<not> is_due e (g x)" "length js1 \<le> 1"
    using run_schedule_rows [OF assms(1) one] by blast
  note IH = Cons.IH [OF rest]
  have "x \<in> set (backup_schedules d) \<and> bs_ID x \<notin> bs_ID ` set (r # rs) \<or> \<not> is_due e x" if "x \<in> set (backup_schedules d2)" for x
  proof (cases "is_due e x")
    case True
    with IH that have x: "x \<in> set (backup_schedules d1)" "bs_ID x \<notin> bs_ID ` set rs" by auto
    then obtain y where "y \<in> set (backup_schedules d)" "x = (if bs_ID y = bs_ID r then g y else y)"
      unfolding g(1) set_update_where by blast
    with True g(3) x(2) show ?thesis by (cases "bs_ID y = bs_ID r") auto
  qed simp
  moreover have "x \<in> set (backup_schedules d2)" if "x \<in> set (backup_schedules d)" "bs_ID x \<notin> bs_ID ` set (r # rs)" for x
  proof -
    have "x \<in> set (backup_schedules d1)" unfolding g(1) using update_where_out [OF that(1)] that(2) by simp
    with IH that(2) show ?thesis by auto
  qed
  ultimately show ?case using g(4) IH unfolding eq by auto
qed simp

text \<open>A run of the scheduler in which no statement fails leaves no schedule due, whatever
  becomes of the backups it starts: each due schedule is moved to a later time or switched off,
  starts at most one backup, and the schedules that were not due stay as they are.\<close>

theorem no_schedule_left_due:
  assumes "no_faults e" and "unique_on bs_ID (backup_schedules d)"
    and "runDueSchedules tz s bn e ids seeds nonces d = (js, d')"
  shows "due_schedules e d' = [] \<and> length js \<le> length (due_schedules e d)
    \<and> (\<forall>r \<in> set (backup_schedules d). r \<notin> set (due_schedules e d) \<longrightarrow> r \<in> set (backup_schedules d'))"
proof -
  note run = run_schedules_rows [OF assms(1) assms(3) [unfolded runDueSchedules_def]]
  have "\<not> is_due e x" if "x \<in> set (backup_schedules d')" for x
  proof
    assume due: "is_due e x"
    with run that have x: "x \<in> set (backup_schedules d)" "bs_ID x \<notin> bs_ID ` set (due_schedules e d)" by auto
    with due have "x \<in> set (due_schedules e d)" using due_schedules_set [OF assms(1), of d] by simp
    with x(2) show False by blast
  qed
  then have "due_schedules e d' = []"
    using due_schedules_set [OF assms(1), of d'] by (metis (mono_tags, lifting) empty_Collect_eq set_empty)
  moreover have "r \<in> set (backup_schedules d')" if r: "r \<in> set (backup_schedules d)" "r \<notin> set (due_schedules e d)" for r
  proof -
    have "bs_ID r \<notin> bs_ID ` set (due_schedules e d)"
    proof
      assume "bs_ID r \<in> bs_ID ` set (due_schedules e d)"
      then obtain x where x: "x \<in> set (due_schedules e d)" "bs_ID r = bs_ID x" by blast
      then have "x \<in> set (backup_schedules d)" using due_schedules_set [OF assms(1), of d] by simp
      from unique_on_eq [OF assms(2) r(1) this x(2)] x(1) r(2) show False by simp
    qed
    with run r(1) show ?thesis by blast
  qed
  ultimately show ?thesis using run by blast
qed

definition ex_schedule :: "uuid \<Rightarrow> string \<Rightarrow> time \<Rightarrow> BackupSchedule" where
  "ex_schedule i cron t = \<lparr>bs_ID = i, bs_ServerID = 1, bs_CronExpr = cron, bs_Type = ''full'', bs_Storage = ''local'',
     bs_RetentionCount = Some 1, bs_RetentionDays = None, bs_Enabled = True, bs_LastRun = None, bs_NextRun = Some t,
     bs_CreatedAt = 0, bs_DestinationID = Some 77\<rparr>"

definition ex_schedule_db :: db where
  "ex_schedule_db = ex_bk_db\<lparr>backup_schedules := [ex_schedule 1 ''*/15 * * * *'' 5, ex_schedule 2 ''nonsense'' 6,
     ex_schedule 3 ''0 0 * * *'' 1000]\<rparr>"

theorem no_schedule_left_due_witness:
  "length (due_schedules (quiet 100) ex_schedule_db) = 2
   \<and> due_schedules (quiet 100) (snd (runDueSchedules (\<lambda>_. 0) ex_bk_service (ex_bk_node (RemoteOK '''' [])) (quiet 100)
       (\<lambda>k. k) (\<lambda>_. ex_seed) (\<lambda>_ _. '''') ex_schedule_db)) = []"
proof -
  let ?run = "runDueSchedules (\<lambda>_. 0) ex_bk_service (ex_bk_node (RemoteOK '''' [])) (quiet 100) (\<lambda>k. k) (\<lambda>_. ex_seed)
      (\<lambda>_ _. '''') ex_schedule_db"
  have "unique_on bs_ID (backup_schedules ex_schedule_db)" by (simp add: unique_on_def ex_schedule_db_def ex_schedule_def)
  from no_schedule_left_due [OF no_faults_quiet this surjective_pairing [of ?run]]
  have "due_schedules (quiet 100) (snd ?run) = []" by blast
  moreover have "length (due_schedules (quiet 100) ex_schedule_db) = 2"
    by (simp add: due_schedules_def ex_schedule_db_def ex_schedule_def)
  ultimately show ?thesis by blast
qed

section \<open>Requests of one user\<close>

datatype bk_request =
    QCreate uuid key_seed "CreateBackupRequest result"
  | QDelete BackupNode string "uuid option"
  | QRestore key_seed "uuid option"
  | QRetry "uuid option"
  | QDownload BackupNode key_seed "uuid option"
  | QCreateSchedule "int \<Rightarrow> int" uuid "CreateScheduleRequest result"
  | QToggleSchedule "uuid option" "bool result"
  | QDeleteSchedule "uuid option"

fun bk_serve :: "BackupService \<Rightarrow> env \<Rightarrow> User \<Rightarrow> bk_request \<Rightarrow> db \<Rightarrow> db" where
  "bk_serve s e user (QCreate newID seed body) d = snd (h_CreateBackup s e newID seed d user body)"
| "bk_serve s e user (QDelete bn nonce param) d = snd (h_DeleteBackup s bn e nonce d user param)"
| "bk_serve s e user (QRestore seed param) d = snd (h_RestoreBackup s e seed d user param)"
| "bk_serve s e user (QRetry param) d = snd (h_RetryUpload e d user param)"
| "bk_serve s e user (QDownload bn seed param) d = snd (h_DownloadBackup s bn e seed d user param)"
| "bk_serve s e user (QCreateSchedule tz newID body) d = snd (h_CreateSchedule tz e newID d user body)"
| "bk_serve s e user (QToggleSchedule param body) d = snd (h_ToggleSchedule e d user param body)"
| "bk_serve s e user (QDeleteSchedule param) d = snd (h_DeleteSchedule e d user param)"

definition backups_of :: "db \<Rightarrow> uuid \<Rightarrow> Backup list" where
  "backups_of d sid = filter (\<lambda>b. b_ServerID b = Some sid) (backups d)"

definition schedules_of :: "db \<Rightarrow> uuid \<Rightarrow> BackupSchedule list" where
  "schedules_of d sid = filter (\<lambda>r. bs_ServerID r = sid) (backup_schedules d)"

definition same_for :: "uuid \<Rightarrow> db \<Rightarrow> db \<Rightarrow> bool" where
  "same_for sid d d' = (backups_of d' sid = backups_of d sid \<and> schedules_of d' sid = schedules_of d sid)"

lemma same_for_tables: "backups d' = backups d \<Longrightarrow> backup_schedules d' = backup_schedules d \<Longrightarrow> same_for sid d d'"
  by (simp add: same_for_def backups_of_def schedules_of_def)

lemma same_for_settings: "only_settings d d' \<Longrightarrow> same_for sid d d'"
  using only_settings_rows [of d d'] by (simp add: same_for_tables)

lemma guarded_same:
  assumes "HasServerPermission e d user sid perm = Inr True \<Longrightarrow> same_for x d (snd k)"
  shows "same_for x d (snd (guarded e d user sid perm k))"
proof (cases "HasServerPermission e d user sid perm")
  case (Inr b)
  with assms show ?thesis by (cases b) (simp_all add: guarded_def requireServerPerm_def same_for_tables)
qed (simp add: guarded_def requireServerPerm_def same_for_tables)

lemma with_backup_same:
  assumes "\<And>i sid. BackupServerID e d i = Inr sid \<Longrightarrow> HasServerPermission e d user sid perm = Inr True \<Longrightarrow> same_for x d (snd (k i))"
  shows "same_for x d (snd (with_backup e d user param perm k))"
proof (cases param)
  case (Some i)
  with assms [of i] show ?thesis
    by (cases "BackupServerID e d i") (auto simp: with_backup_def same_for_tables intro!: guarded_same)
qed (simp add: with_backup_def same_for_tables)

lemma with_schedule_same:
  assumes "\<And>i sid. ScheduleServerID e d i = Inr sid \<Longrightarrow> HasServerPermission e d user sid perm = Inr True \<Longrightarrow> same_for x d (snd (k i))"
  shows "same_for x d (snd (with_schedule e d user param perm k))"
proof (cases param)
  case (Some i)
  with assms [of i] show ?thesis
    by (cases "ScheduleServerID e d i") (auto simp: with_schedule_def same_for_tables intro!: guarded_same)
qed (simp add: with_schedule_def same_for_tables)

lemma job_answer_snd [simp]: "snd (job_answer code r) = snd r"
  by (cases r; cases "fst r") (auto simp: job_answer_def)

lemma backup_elsewhere:
  assumes "unique_on b_ID (backups d)" and "BackupServerID e d i = Inr sid" and "sid \<noteq> x"
    and "b \<in> set (backups d)" and "b_ID b = i"
  shows "b_ServerID b \<noteq> Some x"
proof -
  have "find_backup d i = Some b" using unique_on_find [OF assms(1,4)] assms(5) by (simp add: find_backup_def)
  with assms(2,3) show ?thesis by (auto simp: BackupServerID_def split: sum.splits)
qed

lemma schedule_elsewhere:
  assumes "unique_on bs_ID (backup_schedules d)" and "ScheduleServerID e d i = Inr sid" and "sid \<noteq> x"
    and "b \<in> set (backup_schedules d)" and "bs_ID b = i"
  shows "bs_ServerID b \<noteq> x"
proof -
  have "find_schedule d i = Some b" using unique_on_find [OF assms(1,4)] assms(5) by (simp add: find_schedule_def)
  with assms(2,3) show ?thesis by (auto simp: ScheduleServerID_def split: sum.splits)
qed

lemma filter_update_other:
  "(\<And>r. r \<in> set t \<Longrightarrow> p r \<Longrightarrow> \<not> q r \<and> \<not> q (f r)) \<Longrightarrow> filter q (update_where p f t) = filter q t"
  by (induction t) (auto simp: update_where_def)

lemma filter_delete_other:
  "(\<And>r. r \<in> set t \<Longrightarrow> p r \<Longrightarrow> \<not> q r) \<Longrightarrow> filter q (delete_where p t) = filter q t"
  by (induction t) (auto simp: delete_where_def)

lemma delete_elsewhere:
  assumes "unique_on b_ID (backups d)" and "BackupServerID e d i = Inr sid" and "sid \<noteq> x"
  shows "same_for x d (snd (DeleteBackup s bn e nonce d i))"
proof -
  obtain d1 where d1: "backups d1 = backups d"
    and r: "snd (DeleteBackup s bn e nonce d i) = d1 \<or> snd (DeleteBackup s bn e nonce d i) = drop_backup d1 i"
    using DeleteBackup_rows [of d s bn e nonce i] by blast
  have "filter (\<lambda>b. b_ServerID b = Some x) (delete_where (\<lambda>b. b_ID b = i) (backups d)) = filter (\<lambda>b. b_ServerID b = Some x) (backups d)"
    by (rule filter_delete_other) (use backup_elsewhere [OF assms] in blast)
  with r d1 have "backups_of (snd (DeleteBackup s bn e nonce d i)) x = backups_of d x"
    by (elim disjE) (simp_all add: backups_of_def drop_backup_def)
  then show ?thesis using DeleteBackup_schedules [of s bn e nonce d i] by (simp add: same_for_def schedules_of_def)
qed

lemma retry_elsewhere:
  assumes "unique_on b_ID (backups d)" and "BackupServerID e d i = Inr sid" and "sid \<noteq> x"
  shows "same_for x d (snd (RetryUpload e d i))"
proof -
  let ?f = "\<lambda>b :: Backup. b\<lparr>b_UploadStatus := Some ''pending'', b_UploadError := None\<rparr>"
  have "filter (\<lambda>b. b_ServerID b = Some x) (update_where (\<lambda>b. b_ID b = i) ?f (backups d)) = filter (\<lambda>b. b_ServerID b = Some x) (backups d)"
    by (rule filter_update_other) (use backup_elsewhere [OF assms] in auto)
  then have "same_for x d (set_backup d i ?f)" by (simp add: same_for_def backups_of_def schedules_of_def set_backup_def)
  moreover have "snd (RetryUpload e d i) = d \<or> snd (RetryUpload e d i) = set_backup d i ?f"
    using RetryUpload_result [OF surjective_pairing [of "RetryUpload e d i"]] unfolding try_exec_def by metis
  ultimately show ?thesis by (metis same_for_tables)
qed

lemma create_elsewhere:
  assumes "cb_ServerID req \<noteq> x"
  shows "same_for x d (snd (CreateBackup s e newID seed d req))"
proof -
  obtain r d' where c: "createBackup s e newID seed d req ''manual'' = (r, d')" by fastforce
  from c have "same_for x d d'"
  proof (cases rule: createBackup_result)
    case none
    then show ?thesis by (simp add: same_for_settings)
  next
    case (row d1 b)
    with assms only_settings_rows [OF row(1)] show ?thesis by (simp add: same_for_def backups_of_def schedules_of_def)
  qed
  with c show ?thesis by (simp add: CreateBackup_def)
qed

lemma CreateSchedule_elsewhere:
  assumes "cs_ServerID req \<noteq> x"
  shows "same_for x d (snd (CreateSchedule tz e newID d req))"
proof (cases "checkDestination e d (cs_DestinationID req)")
  case (Inr u)
  then show ?thesis using assms
    by (cases "nextCronTime tz (cs_CronExpr req) (now e)")
      (simp_all add: CreateSchedule_def Let_def same_for_def backups_of_def schedules_of_def)
qed (simp add: CreateSchedule_def Let_def same_for_tables)

lemma schedule_ops_elsewhere:
  assumes "unique_on bs_ID (backup_schedules d)" and "ScheduleServerID e d i = Inr sid" and "sid \<noteq> x"
  shows "same_for x d (snd (ToggleSchedule e d i b))" and "same_for x d (snd (DeleteSchedule e d i))"
proof -
  have "filter (\<lambda>r. bs_ServerID r = x) (update_where (\<lambda>r. bs_ID r = i) (\<lambda>r. r\<lparr>bs_Enabled := b\<rparr>) (backup_schedules d))
      = filter (\<lambda>r. bs_ServerID r = x) (backup_schedules d)"
    by (rule filter_update_other) (use schedule_elsewhere [OF assms] in auto)
  then show "same_for x d (snd (ToggleSchedule e d i b))"
    by (simp add: ToggleSchedule_def same_for_def backups_of_def schedules_of_def set_schedule_def)
  have "filter (\<lambda>r. bs_ServerID r = x) (delete_where (\<lambda>r. bs_ID r = i) (backup_schedules d))
      = filter (\<lambda>r. bs_ServerID r = x) (backup_schedules d)"
    by (rule filter_delete_other) (use schedule_elsewhere [OF assms] in auto)
  then show "same_for x d (snd (DeleteSchedule e d i))"
    by (simp add: DeleteSchedule_def same_for_def backups_of_def schedules_of_def)
qed

lemma restore_download_same:
  "same_for x d (snd (RestoreBackup s e seed d i))" "same_for x d (snd (DownloadBackup s bn e seed d i))"
proof -
  have "snd (RestoreBackup s e seed d i) = snd (restore_source ''restorable'' s e seed d i)"
    by (auto simp: RestoreBackup_def split: prod.split sum.split)
  then show "same_for x d (snd (RestoreBackup s e seed d i))" using same_for_settings restore_source_only by simp
  have "snd (DownloadBackup s bn e seed d i) = snd (restore_source ''downloadable'' s e seed d i)"
    by (auto simp: DownloadBackup_def split: prod.split sum.split)
  then show "same_for x d (snd (DownloadBackup s bn e seed d i))" using same_for_settings restore_source_only by simp
qed

lemma handlers_same:
  assumes "unique_on b_ID (backups d)" and "HasServerPermission e d user x ''backup.create'' \<noteq> Inr True"
  shows "same_for x d (snd (h_CreateBackup s e newID seed d user body))"
    and "same_for x d (snd (h_DeleteBackup s bn e nonce d user param))"
    and "same_for x d (snd (h_RestoreBackup s e seed d user param))"
    and "same_for x d (snd (h_RetryUpload e d user param))"
    and "same_for x d (snd (h_DownloadBackup s bn e seed d user param))"
proof -
  have other: "sid \<noteq> x" if "HasServerPermission e d user sid ''backup.create'' = Inr True" for sid
    using that assms(2) by auto
  show "same_for x d (snd (h_CreateBackup s e newID seed d user body))"
    using other create_elsewhere by (cases body) (auto simp: h_CreateBackup_def same_for_tables intro!: guarded_same)
  have "same_for x d (snd (case DeleteBackup s bn e nonce d i of ((Inl err, _), d') \<Rightarrow> (Refuse 400 (Error err), d')
       | ((Inr _, _), d') \<Rightarrow> (Reply 200 ''backup deleted'', d')))"
    if "BackupServerID e d i = Inr sid" "sid \<noteq> x" for i sid
  proof -
    obtain r calls d' where "DeleteBackup s bn e nonce d i = ((r, calls), d')" by (metis surj_pair)
    with delete_elsewhere [OF assms(1) that, of s bn nonce] show ?thesis by (cases r) simp_all
  qed
  then show "same_for x d (snd (h_DeleteBackup s bn e nonce d user param))"
    unfolding h_DeleteBackup_def using other by (intro with_backup_same) blast
  show "same_for x d (snd (h_RestoreBackup s e seed d user param))"
    unfolding h_RestoreBackup_def by (rule with_backup_same) (simp add: restore_download_same)
  show "same_for x d (snd (h_RetryUpload e d user param))"
    unfolding h_RetryUpload_def by (rule with_backup_same) (simp add: retry_elsewhere [OF assms(1)] other)
  have "same_for x d (snd (case DownloadBackup s bn e seed d i of (Inl _, d') \<Rightarrow> (Refuse 502 ''could not download backup'', d')
       | (Inr r, d') \<Rightarrow> (Reply 200 r, d')))" for i
  proof -
    obtain r d' where "DownloadBackup s bn e seed d i = (r, d')" by fastforce
    with restore_download_same(2) [of x d s bn e seed i] show ?thesis by (cases r) simp_all
  qed
  then show "same_for x d (snd (h_DownloadBackup s bn e seed d user param))"
    unfolding h_DownloadBackup_def by (rule with_backup_same)
qed

lemma schedule_handlers_same:
  assumes "unique_on bs_ID (backup_schedules d)" and "HasServerPermission e d user x ''backup.create'' \<noteq> Inr True"
  shows "same_for x d (snd (h_CreateSchedule tz e newID d user body))"
    and "same_for x d (snd (h_ToggleSchedule e d user param flag))"
    and "same_for x d (snd (h_DeleteSchedule e d user param))"
proof -
  have other: "sid \<noteq> x" if "HasServerPermission e d user sid ''backup.create'' = Inr True" for sid
    using that assms(2) by auto
  show "same_for x d (snd (h_CreateSchedule tz e newID d user body))"
  proof (cases body)
    case (Inr req)
    obtain r d' where c: "CreateSchedule tz e newID d req = (r, d')" by fastforce
    have "same_for x d d'" if "cs_ServerID req \<noteq> x" using CreateSchedule_elsewhere [OF that, of d tz e newID] c by simp
    with other Inr c show ?thesis by (cases r) (auto simp: h_CreateSchedule_def intro!: guarded_same)
  qed (simp add: h_CreateSchedule_def same_for_tables)
  show "same_for x d (snd (h_ToggleSchedule e d user param flag))"
    unfolding h_ToggleSchedule_def
  proof (rule with_schedule_same)
    fix i sid assume "ScheduleServerID e d i = Inr sid" "HasServerPermission e d user sid ''backup.create'' = Inr True"
    then have "same_for x d (snd (ToggleSchedule e d i b))" for b using schedule_ops_elsewhere(1) [OF assms(1)] other by blast
    then show "same_for x d (snd (case flag of Inl err \<Rightarrow> (Refuse 400 (Error err), d) | Inr enabled \<Rightarrow> (case ToggleSchedule e d i enabled of
       (Inl err, d') \<Rightarrow> (Refuse 400 (Error err), d') | (Inr _, d') \<Rightarrow> (Reply 200 ''schedule updated'', d'))))"
      by (cases flag; cases "ToggleSchedule e d i (projr flag)"; cases "fst (ToggleSchedule e d i (projr flag))")
        (auto simp: same_for_tables dest: spec [of _ "projr flag"], metis snd_conv, metis snd_conv)
  qed
  show "same_for x d (snd (h_DeleteSchedule e d user param))"
    unfolding h_DeleteSchedule_def
  proof (rule with_schedule_same)
    fix i sid assume "ScheduleServerID e d i = Inr sid" "HasServerPermission e d user sid ''backup.create'' = Inr True"
    then have "same_for x d (snd (DeleteSchedule e d i))" using schedule_ops_elsewhere(2) [OF assms(1)] other by blast
    then show "same_for x d (snd (case DeleteSchedule e d i of (Inl err, d') \<Rightarrow> (Refuse 400 (Error err), d')
       | (Inr _, d') \<Rightarrow> (Reply 200 ''schedule deleted'', d')))"
      by (cases "DeleteSchedule e d i"; cases "fst (DeleteSchedule e d i)") auto
  qed
qed

text \<open>[C27] A user without the permission \<^verbatim>\<open>backup.create\<close> on a server cannot, by any request of the
  backup routes, which name a backup or a schedule and not its server, change, add or remove a
  backup or a schedule of that server.\<close>

theorem backup_requests_isolated:
  assumes "unique_on b_ID (backups d)" and "unique_on bs_ID (backup_schedules d)"
    and "HasServerPermission e d user x ''backup.create'' \<noteq> Inr True"
  shows "backups_of (bk_serve s e user q d) x = backups_of d x \<and> schedules_of (bk_serve s e user q d) x = schedules_of d x"
proof -
  have "same_for x d (bk_serve s e user q d)"
    by (cases q) (simp_all add: handlers_same [OF assms(1,3)] schedule_handlers_same [OF assms(2,3)])
  then show ?thesis by (simp add: same_for_def)
qed

definition ex_stranger :: User where
  "ex_stranger = (ex_user 8 ''user'')"

theorem backup_requests_isolated_witness:
  "backups_of (bk_serve ex_bk_service (quiet 1) ex_stranger (QDelete (ex_bk_node (RemoteOK '''' [])) '''' (Some 9)) ex_bk_db) 1
     = [ex_backup 9 0]"
proof -
  have u: "unique_on b_ID (backups ex_bk_db)" "unique_on bs_ID (backup_schedules ex_bk_db)"
    by (simp_all add: unique_on_def ex_bk_db_def empty_db_def)
  have p: "HasServerPermission (quiet 1) ex_bk_db ex_stranger 1 ''backup.create'' \<noteq> Inr True" by code_simp
  have "backups_of ex_bk_db 1 = [ex_backup 9 0]" by (simp add: backups_of_def ex_bk_db_def ex_backup_def)
  with backup_requests_isolated [OF u p] show ?thesis by metis
qed

end
