(* ===== verification/ServerHandlers.thy ===== *)
theory ServerHandlers
  imports ServerRules Alerts
begin

text \<open>
  \<^verbatim>\<open>handlers/servers.go\<close>: the server requests of users, the power actions with the
  goroutines they start, the callbacks of node daemons, the file requests and the
  migration.  The state is the database and the pool of daemon clients.  A goroutine a
  handler starts is a \<open>task\<close>, carried out by the \<open>dispatch\<close> operations; a call to a node
  daemon is recorded, and \<open>fault\<close> says which of them fail.  \<open>str\<close> is the text of an id;
  a path parameter is the parsed id or \<open>None\<close>, a body is the bound request or the
  binding error.
\<close>

section \<open>Daemon calls and tasks\<close>

record ServerConfig =
  sc_ServerID :: uuid
  sc_Name :: string
  sc_DataPath :: string
  sc_Port :: "16 word"
  sc_RAMLimitMB :: "32 word"
  sc_CPULimit :: int
  sc_AutoRestart :: bool
  sc_CrashLimit :: "32 word"
  sc_CrashWindowS :: "32 word"
  sc_LaunchFlags :: "string list"

datatype daemon_call =
    DcProvision uuid uuid string string
  | DcReinstall uuid uuid string string
  | DcStart uuid ServerConfig
  | DcStop uuid uuid
  | DcRestart uuid uuid
  | DcKill uuid uuid
  | DcDeleteData uuid uuid
  | DcCreateBackup uuid uuid uuid
  | DcDownloadBackup uuid uuid uuid
  | DcImport uuid uuid
  | DcDeleteArchive uuid uuid uuid

datatype task = TStart Server | TStop uuid uuid | TRestart Server | TKill uuid uuid
  | TProvision Server | TReinstall Server

definition serverError :: "go_error \<Rightarrow> 'a response" where
  "serverError err =
     (if errors_is err ErrServerNotFound then Refuse 404 ''server not found''
      else if errors_is err ErrServerForbidden then Refuse 403 ''access denied''
      else if errors_is err ErrInvalidServerSettings \<or> errors_is err ErrInvalidConsoleCommand
      then Refuse 400 (Error err)
      else Refuse 500 ''internal server error'')"

section \<open>Requests for servers\<close>

definition h_ListServers :: "env \<Rightarrow> db \<Rightarrow> User \<Rightarrow> Server list response" where
  "h_ListServers e d user =
     (case ListServers e d (u_ID user) (u_Role user) of
        Inl _ \<Rightarrow> Refuse 500 ''could not list servers'' | Inr svs \<Rightarrow> Reply 200 svs)"

definition h_CreateServer ::
  "(uuid \<Rightarrow> string) \<Rightarrow> string \<Rightarrow> env \<Rightarrow> uuid \<Rightarrow> db \<Rightarrow> User \<Rightarrow> CreateServerRequest result
     \<Rightarrow> Server response \<times> task list \<times> db" where
  "h_CreateServer str serversBaseDir e newID d user body =
     (case body of Inl err \<Rightarrow> (Refuse 400 (Error err), [], d)
      | Inr req \<Rightarrow> (case CreateServer e newID d (req\<lparr>cs_DataPath := ''''\<rparr>) (u_ID user) of
          (Inl err, d1) \<Rightarrow>
            (if errors_is err ErrNoAvailableNode then Refuse 503 ''no available node to host the server''
             else Refuse 400 (Error err), [], d1)
        | (Inr server, d1) \<Rightarrow>
            (let dataPath = serversBaseDir @ ''/'' @ str (sv_ID server)
             in case UpdateServerDataPath e d1 (sv_ID server) dataPath of
                  (Inl _, d2) \<Rightarrow> (Reply 201 server, [TProvision server], d2)
                | (Inr _, d2) \<Rightarrow> (let server' = server\<lparr>sv_DataPath := dataPath\<rparr>
                     in (Reply 201 server', [TProvision server'], d2)))))"

definition h_GetServer :: "env \<Rightarrow> db \<Rightarrow> User \<Rightarrow> uuid option \<Rightarrow> (Server \<times> string) response" where
  "h_GetServer e d user param =
     (case param of None \<Rightarrow> Refuse 400 ''invalid ID format''
      | Some serverID \<Rightarrow> (case GetServer e d serverID (u_ID user) (u_Role user) of
          Inl err \<Rightarrow> serverError err | Inr sv \<Rightarrow> Reply 200 sv))"

definition h_UpdateServer ::
  "env \<Rightarrow> db \<Rightarrow> User \<Rightarrow> uuid option \<Rightarrow> UpdateServerRequest result \<Rightarrow> (Server \<times> string) response \<times> db" where
  "h_UpdateServer e d user param body =
     (case param of None \<Rightarrow> (Refuse 400 ''invalid ID format'', d)
      | Some serverID \<Rightarrow> (case body of Inl err \<Rightarrow> (Refuse 400 (Error err), d)
      | Inr req \<Rightarrow> (case UpdateServer e d serverID (u_ID user) (u_Role user) req of
          (Inl err, d') \<Rightarrow> (serverError err, d')
        | (Inr sv, d') \<Rightarrow> (Reply 200 sv, d'))))"

text \<open>The data directory is removed first, then the row.  The answer carries the warning.\<close>

definition h_DeleteServer ::
  "(uuid \<Rightarrow> string) \<Rightarrow> env \<Rightarrow> ClientPool \<Rightarrow> db \<Rightarrow> User \<Rightarrow> uuid option \<Rightarrow> string response \<times> daemon_call list \<times> db" where
  "h_DeleteServer str e pool d user param =
     (case param of None \<Rightarrow> (Refuse 400 ''invalid ID format'', [], d)
      | Some serverID \<Rightarrow> (case GetServer e d serverID (u_ID user) (u_Role user) of
          Inl err \<Rightarrow> (serverError err, [], d)
        | Inr (server, _) \<Rightarrow>
            (let (warning, calls) = (case pool_Get str pool (sv_NodeID server) of
                    Inr _ \<Rightarrow> (if fault e ''daemon.DeleteServerData''
                        then ''daemon cleanup failed; '' @ sv_DataPath server @ '' may still exist on disk'' else '''',
                      [DcDeleteData (sv_NodeID server) serverID])
                  | Inl _ \<Rightarrow> (''daemon offline; '' @ sv_DataPath server @ '' will be left on disk'', []))
             in case DeleteServer e d serverID (u_ID user) (u_Role user) of
                  (Inl err, d') \<Rightarrow> (serverError err, calls, d')
                | (Inr _, d') \<Rightarrow> (Reply 200 warning, calls, d'))))"

section \<open>Power actions\<close>

text \<open>The common start of these handlers: the id and the access check.\<close>

definition with_server ::
  "env \<Rightarrow> db \<Rightarrow> User \<Rightarrow> uuid option \<Rightarrow> (Server \<Rightarrow> 'a response \<times> 'b list \<times> db) \<Rightarrow> 'a response \<times> 'b list \<times> db" where
  "with_server e d user param f =
     (case param of None \<Rightarrow> (Refuse 400 ''invalid ID format'', [], d)
      | Some serverID \<Rightarrow> (case GetServer e d serverID (u_ID user) (u_Role user) of
          Inl err \<Rightarrow> (serverError err, [], d)
        | Inr (server, _) \<Rightarrow> f server))"

definition h_StartServer :: "env \<Rightarrow> db \<Rightarrow> User \<Rightarrow> uuid option \<Rightarrow> string response \<times> task list \<times> db" where
  "h_StartServer e d user param = with_server e d user param (\<lambda>server.
     if sv_Status server = StatusRunning \<or> sv_Status server = StatusStarting
     then (Refuse 409 ''server is already running or starting'', [], d)
     else (case UpdateServerStatus e d (sv_ID server) StatusStarting of
         (Inl _, d') \<Rightarrow> (Refuse 500 ''failed to update status'', [], d')
       | (Inr _, d') \<Rightarrow> (Reply 202 ''start dispatched'', [TStart server], d')))"

definition h_StopServer :: "env \<Rightarrow> db \<Rightarrow> User \<Rightarrow> uuid option \<Rightarrow> string response \<times> task list \<times> db" where
  "h_StopServer e d user param = with_server e d user param (\<lambda>server.
     (Reply 202 ''stop dispatched'', [TStop (sv_NodeID server) (sv_ID server)],
      snd (UpdateServerStatus e d (sv_ID server) StatusStopping)))"

definition h_RestartServer :: "env \<Rightarrow> db \<Rightarrow> User \<Rightarrow> uuid option \<Rightarrow> string response \<times> task list \<times> db" where
  "h_RestartServer e d user param = with_server e d user param (\<lambda>server.
     (Reply 202 ''restart dispatched'', [TRestart server],
      snd (UpdateServerStatus e d (sv_ID server) StatusStopping)))"

definition h_KillServer :: "env \<Rightarrow> db \<Rightarrow> User \<Rightarrow> uuid option \<Rightarrow> string response \<times> task list \<times> db" where
  "h_KillServer e d user param = with_server e d user param (\<lambda>server.
     (Reply 202 ''kill dispatched'', [TKill (sv_NodeID server) (sv_ID server)],
      snd (UpdateServerStatus e d (sv_ID server) StatusStopped)))"

definition h_ReinstallServer :: "env \<Rightarrow> db \<Rightarrow> User \<Rightarrow> uuid option \<Rightarrow> string response \<times> task list \<times> db" where
  "h_ReinstallServer e d user param = with_server e d user param (\<lambda>server.
     if sv_Status server \<noteq> StatusStopped \<and> sv_Status server \<noteq> StatusCrashed
     then (Refuse 409 ''stop the server before reinstalling'', [], d)
     else (case UpdateServerStatus e d (sv_ID server) StatusInstalling of
         (Inl _, d') \<Rightarrow> (Refuse 500 ''failed to update status'', [], d')
       | (Inr _, d') \<Rightarrow> (Reply 202 ''reinstall dispatched'', [TReinstall server], d')))"

section \<open>Carrying out power actions\<close>

text \<open>The results of status updates in these goroutines are ignored.\<close>

definition set_status :: "env \<Rightarrow> db \<Rightarrow> uuid \<Rightarrow> string \<Rightarrow> db" where
  "set_status e d serverID status = snd (UpdateServerStatus e d serverID status)"

definition start_config :: "Server \<Rightarrow> ServerConfig" where
  "start_config server =
     \<lparr>sc_ServerID = sv_ID server, sc_Name = sv_Name server, sc_DataPath = sv_DataPath server,
      sc_Port = word_of_int (sv_Port server), sc_RAMLimitMB = word_of_int (sv_RAMLimitMB server),
      sc_CPULimit = max (sv_CPULimit server) 0, sc_AutoRestart = sv_AutoRestart server,
      sc_CrashLimit = word_of_int (max (sv_CrashLimit server) 0),
      sc_CrashWindowS = word_of_int (max (sv_CrashWindowS server) 0), sc_LaunchFlags = sv_LaunchFlags server\<rparr>"

text \<open>\<^verbatim>\<open>dispatchStart\<close> in three parts.  First the request to provision the files; the
  answer says whether the goroutine goes on to wait.\<close>

definition start_provision ::
  "(uuid \<Rightarrow> string) \<Rightarrow> env \<Rightarrow> ClientPool \<Rightarrow> Server \<Rightarrow> db \<Rightarrow> bool \<times> daemon_call list \<times> db" where
  "start_provision str e pool server d =
     (case pool_Get str pool (sv_NodeID server) of
        Inl _ \<Rightarrow> (False, [], set_status e d (sv_ID server) StatusCrashed)
      | Inr _ \<Rightarrow>
          (let d1 = set_status e d (sv_ID server) StatusInstalling;
               calls = [DcProvision (sv_NodeID server) (sv_ID server) (sv_HytaleVersion server) (sv_DataPath server)]
           in if fault e ''daemon.ProvisionServer'' then (False, calls, set_status e d1 (sv_ID server) StatusCrashed)
              else (True, calls, d1)))"

text \<open>Then the wait: a ticker every three seconds and a timer of ten minutes, so the timer
  is due with the 200th tick.  An entry of the schedule is what happened to the database
  since the last tick and the environment of this one; \<open>late\<close> chooses the tick over
  the timer when both are due.  \<open>None\<close> is a goroutine still waiting.\<close>

definition provision_ticks :: nat where "provision_ticks = 200"

fun start_wait ::
  "bool \<Rightarrow> uuid \<Rightarrow> nat \<Rightarrow> ((db \<Rightarrow> db) \<times> env) list \<Rightarrow> db \<Rightarrow> (bool \<times> db) option" where
  "start_wait late serverID k [] d = None"
| "start_wait late serverID k ((others, e) # sched) d =
     (let d1 = others d
      in if Suc k > provision_ticks \<or> (Suc k = provision_ticks \<and> \<not> late)
         then Some (False, set_status e d1 serverID StatusCrashed)
         else (case GetServerStatus e d1 serverID of
             Inl _ \<Rightarrow> start_wait late serverID (Suc k) sched d1
           | Inr status \<Rightarrow>
               if status = StatusCrashed then Some (False, d1)
               else if status = StatusStopped then Some (True, d1)
               else start_wait late serverID (Suc k) sched d1))"

text \<open>Last, the start of the process.\<close>

definition start_launch :: "env \<Rightarrow> Server \<Rightarrow> db \<Rightarrow> daemon_call list \<times> db" where
  "start_launch e server d =
     (let d1 = set_status e d (sv_ID server) StatusStarting
      in ([DcStart (sv_NodeID server) (start_config server)],
          if fault e ''daemon.StartServer'' then set_status e d1 (sv_ID server) StatusCrashed else d1))"

definition dispatchStart ::
  "(uuid \<Rightarrow> string) \<Rightarrow> env \<Rightarrow> env \<Rightarrow> bool \<Rightarrow> ((db \<Rightarrow> db) \<times> env) list \<Rightarrow> ClientPool \<Rightarrow> Server \<Rightarrow> db
     \<Rightarrow> (daemon_call list \<times> db) option" where
  "dispatchStart str e e' late sched pool server d =
     (case start_provision str e pool server d of
        (False, calls, d1) \<Rightarrow> Some (calls, d1)
      | (True, calls, d1) \<Rightarrow>
          (case start_wait late (sv_ID server) 0 sched d1 of
             None \<Rightarrow> None
           | Some (False, d2) \<Rightarrow> Some (calls, d2)
           | Some (True, d2) \<Rightarrow> (let (calls', d3) = start_launch e' server d2 in Some (calls @ calls', d3))))"

definition dispatchStop :: "(uuid \<Rightarrow> string) \<Rightarrow> ClientPool \<Rightarrow> uuid \<Rightarrow> uuid \<Rightarrow> daemon_call list" where
  "dispatchStop str pool nodeID serverID =
     (case pool_Get str pool nodeID of Inl _ \<Rightarrow> [] | Inr _ \<Rightarrow> [DcStop nodeID serverID])"

definition dispatchKill :: "(uuid \<Rightarrow> string) \<Rightarrow> ClientPool \<Rightarrow> uuid \<Rightarrow> uuid \<Rightarrow> daemon_call list" where
  "dispatchKill str pool nodeID serverID =
     (case pool_Get str pool nodeID of Inl _ \<Rightarrow> [] | Inr _ \<Rightarrow> [DcKill nodeID serverID])"

definition dispatchRestart ::
  "(uuid \<Rightarrow> string) \<Rightarrow> env \<Rightarrow> ClientPool \<Rightarrow> Server \<Rightarrow> db \<Rightarrow> daemon_call list \<times> db" where
  "dispatchRestart str e pool server d =
     (case pool_Get str pool (sv_NodeID server) of
        Inl _ \<Rightarrow> ([], d)
      | Inr _ \<Rightarrow> ([DcRestart (sv_NodeID server) (sv_ID server)],
          if fault e ''daemon.RestartServer'' then set_status e d (sv_ID server) StatusCrashed else d))"

definition dispatchProvision ::
  "(uuid \<Rightarrow> string) \<Rightarrow> env \<Rightarrow> ClientPool \<Rightarrow> Server \<Rightarrow> db \<Rightarrow> daemon_call list \<times> db" where
  "dispatchProvision str e pool server d =
     (case pool_Get str pool (sv_NodeID server) of
        Inl _ \<Rightarrow> ([], set_status e d (sv_ID server) StatusCrashed)
      | Inr _ \<Rightarrow> ([DcProvision (sv_NodeID server) (sv_ID server) (sv_HytaleVersion server) (sv_DataPath server)],
          if fault e ''daemon.ProvisionServer'' then set_status e d (sv_ID server) StatusCrashed else d))"

definition dispatchReinstall ::
  "(uuid \<Rightarrow> string) \<Rightarrow> env \<Rightarrow> ClientPool \<Rightarrow> Server \<Rightarrow> db \<Rightarrow> daemon_call list \<times> db" where
  "dispatchReinstall str e pool server d =
     (case pool_Get str pool (sv_NodeID server) of
        Inl _ \<Rightarrow> ([], set_status e d (sv_ID server) StatusCrashed)
      | Inr _ \<Rightarrow> ([DcReinstall (sv_NodeID server) (sv_ID server) (sv_HytaleVersion server) (sv_DataPath server)],
          if fault e ''daemon.ReinstallServer'' then set_status e d (sv_ID server) StatusCrashed else d))"

section \<open>Console and metrics\<close>

definition h_SendConsoleCommand ::
  "env \<Rightarrow> uuid \<Rightarrow> db \<Rightarrow> User \<Rightarrow> uuid option \<Rightarrow> string result \<Rightarrow> string response \<times> db" where
  "h_SendConsoleCommand e newID d user param body =
     (case param of None \<Rightarrow> (Refuse 400 ''invalid ID format'', d)
      | Some serverID \<Rightarrow> (case GetServer e d serverID (u_ID user) (u_Role user) of
          Inl err \<Rightarrow> (serverError err, d)
        | Inr (server, _) \<Rightarrow> (case body of Inl err \<Rightarrow> (Refuse 400 (Error err), d)
        | Inr cmd \<Rightarrow>
            if \<not> CanRunConsoleCommand (ConsoleRole user (sv_OwnerID server)) cmd
            then (Refuse 403 (''this command needs the '' @ ConsoleCommandMinRole cmd @ '' role''), d)
            else (case SendConsoleCommand e newID d serverID cmd of
                (Inl err, d') \<Rightarrow> (serverError err, d')
              | (Inr _, d') \<Rightarrow> (Reply 202 ''command queued'', d')))))"

record metrics_view =
  mv_CPU :: rat
  mv_UsedMB :: nat
  mv_LimitMB :: int
  mv_UptimeS :: nat
  mv_Note :: string

definition h_GetMetrics ::
  "(uuid \<Rightarrow> string) \<Rightarrow> env \<Rightarrow> ClientPool \<Rightarrow> (rat \<times> nat \<times> nat) result \<Rightarrow> db \<Rightarrow> User \<Rightarrow> uuid option \<Rightarrow> metrics_view response" where
  "h_GetMetrics str e pool answer d user param =
     (case param of None \<Rightarrow> Refuse 400 ''invalid ID format''
      | Some serverID \<Rightarrow> (case GetServer e d serverID (u_ID user) (u_Role user) of
          Inl err \<Rightarrow> serverError err
        | Inr (server, _) \<Rightarrow>
            (let zeroed = (\<lambda>note. Reply 200 \<lparr>mv_CPU = 0, mv_UsedMB = 0, mv_LimitMB = sv_RAMLimitMB server,
                   mv_UptimeS = 0, mv_Note = note\<rparr>)
             in case pool_Get str pool (sv_NodeID server) of
                  Inl _ \<Rightarrow> zeroed ''daemon not connected''
                | Inr _ \<Rightarrow> (case answer of
                      Inl _ \<Rightarrow> zeroed ''daemon unreachable''
                    | Inr (cpu, ram, uptime) \<Rightarrow> Reply 200 \<lparr>mv_CPU = cpu, mv_UsedMB = ram,
                        mv_LimitMB = sv_RAMLimitMB server, mv_UptimeS = uptime, mv_Note = ''''\<rparr>))))"

section \<open>Daemon callbacks\<close>

text \<open>\<open>Inl\<close> is the response with which the request ends; \<open>authed\<close> is the node the
  middleware identified.\<close>

definition daemonOwnsServer :: "env \<Rightarrow> db \<Rightarrow> uuid option \<Rightarrow> uuid \<Rightarrow> (nat \<times> string) + unit" where
  "daemonOwnsServer e d authed serverID =
     (case authed of None \<Rightarrow> Inl (401, ''node authentication required'')
      | Some nodeID \<Rightarrow> (case ServerBelongsToNode e d serverID nodeID of
          Inl _ \<Rightarrow> Inl (500, ''ownership check failed'')
        | Inr owns \<Rightarrow> if owns then Inr () else Inl (403, ''server not hosted on this node'')))"

definition daemon_callback ::
  "env \<Rightarrow> db \<Rightarrow> uuid option \<Rightarrow> uuid option \<Rightarrow> (uuid \<Rightarrow> 'a response \<times> db) \<Rightarrow> 'a response \<times> db" where
  "daemon_callback e d authed param f =
     (case param of None \<Rightarrow> (Refuse 400 ''invalid ID format'', d)
      | Some serverID \<Rightarrow> (case daemonOwnsServer e d authed serverID of
          Inl (code, msg) \<Rightarrow> (Refuse code msg, d)
        | Inr _ \<Rightarrow> f serverID))"

definition h_DaemonStatusUpdate ::
  "MultiNotifier option \<Rightarrow> bool \<Rightarrow> env \<Rightarrow> (nat \<Rightarrow> uuid) \<Rightarrow> db \<Rightarrow> uuid option \<Rightarrow> uuid option
     \<Rightarrow> (string \<times> int option) result \<Rightarrow> string response \<times> db" where
  "h_DaemonStatusUpdate nf alerts e ids d authed param body =
     daemon_callback e d authed param (\<lambda>serverID.
       case body of Inl err \<Rightarrow> (Refuse 400 (Error err), d)
       | Inr (status, exitCode) \<Rightarrow>
           if \<not> server_status status then (Refuse 400 ''unknown status value'', d)
           else (case UpdateServerStatus e d serverID status of
               (Inl _, d1) \<Rightarrow> (Refuse 500 ''failed to update status'', d1)
             | (Inr _, d1) \<Rightarrow>
                 (let d2 = (if status = StatusCrashed
                            then (if exitCode \<noteq> None then snd (SetLastExitCode e d1 serverID exitCode) else d1)
                            else if status \<in> {StatusStarting, StatusRunning, StatusStopped}
                            then snd (SetLastExitCode e d1 serverID None) else d1);
                      d3 = (if status = StatusCrashed \<and> alerts
                            then snd (EvaluateAndFire nf e ids d2 ''server_crashed'' serverID 0) else d2)
                  in (Reply 200 ''status updated'', d3))))"

definition maxLogLinesPerPush :: nat where "maxLogLinesPerPush = 5000"

text \<open>The count in the answer is the number of lines of the request.\<close>

definition h_DaemonLogsIngest ::
  "env \<Rightarrow> (nat \<Rightarrow> int) \<Rightarrow> db \<Rightarrow> uuid option \<Rightarrow> uuid option \<Rightarrow> LogLineInput list result \<Rightarrow> nat response \<times> db" where
  "h_DaemonLogsIngest e sq d authed param body =
     daemon_callback e d authed param (\<lambda>serverID.
       case body of Inl err \<Rightarrow> (Refuse 400 (Error err), d)
       | Inr lines \<Rightarrow>
           if length lines > maxLogLinesPerPush then (Refuse 413 ''too many log lines in one push'', d)
           else if lines = [] then (Reply 200 0, d)
           else (Reply 200 (length lines), snd (IngestLogs e sq d serverID lines)))"

definition h_GetLogs :: "env \<Rightarrow> db \<Rightarrow> User \<Rightarrow> uuid option \<Rightarrow> ServerLog list response" where
  "h_GetLogs e d user param =
     (case param of None \<Rightarrow> Refuse 400 ''invalid ID format''
      | Some serverID \<Rightarrow> (case GetServer e d serverID (u_ID user) (u_Role user) of
          Inl err \<Rightarrow> serverError err
        | Inr _ \<Rightarrow> (case GetLogs e d serverID 200 of
            Inl _ \<Rightarrow> Refuse 500 ''could not fetch logs'' | Inr ls \<Rightarrow> Reply 200 ls)))"

section \<open>Game sessions\<close>

text \<open>The map of the last sessions; entries older than the interval are dropped.\<close>

definition gameSessionInterval :: int where "gameSessionInterval = 10 * second"

definition allowGameSession :: "env \<Rightarrow> (uuid \<times> time) list \<Rightarrow> uuid \<Rightarrow> bool \<times> (uuid \<times> time) list" where
  "allowGameSession e lastSessions serverID =
     (case map_of lastSessions serverID of
        Some t \<Rightarrow> if now e - t < gameSessionInterval then (False, lastSessions)
          else (True, AList.update serverID (now e) (filter (\<lambda>(_, t). now e - t < gameSessionInterval) lastSessions))
      | None \<Rightarrow> (True, AList.update serverID (now e) (filter (\<lambda>(_, t). now e - t < gameSessionInterval) lastSessions)))"

text \<open>\<open>auth\<close> is the account service, absent when none is configured: \<open>Inl None\<close> that no
  account is linked, \<open>Inl (Some err)\<close> another failure, \<open>Inr\<close> a session.\<close>

definition h_DaemonGameSession ::
  "(go_error option + 'a) option \<Rightarrow> env \<Rightarrow> db \<Rightarrow> (uuid \<times> time) list \<Rightarrow> uuid option \<Rightarrow> uuid option
     \<Rightarrow> 'a option response \<times> (uuid \<times> time) list" where
  "h_DaemonGameSession auth e d lastSessions authed param =
     (case param of None \<Rightarrow> (Refuse 400 ''invalid ID format'', lastSessions)
      | Some serverID \<Rightarrow> (case daemonOwnsServer e d authed serverID of
          Inl (code, msg) \<Rightarrow> (Refuse code msg, lastSessions)
        | Inr _ \<Rightarrow> (case auth of None \<Rightarrow> (Reply 204 None, lastSessions)
        | Some answer \<Rightarrow> (case UsesHytaleAccount e d serverID of
            Inl _ \<Rightarrow> (Refuse 500 ''loading server settings failed'', lastSessions)
          | Inr use \<Rightarrow>
              if \<not> use then (Reply 204 None, lastSessions)
              else (let (ok, ls) = allowGameSession e lastSessions serverID
                    in if \<not> ok then (Refuse 429 ''game session requested too often'', ls)
                       else (case answer of
                           Inl None \<Rightarrow> (Reply 204 None, ls)
                         | Inl (Some err) \<Rightarrow> (Refuse 502 (Error err), ls)
                         | Inr session \<Rightarrow> (Reply 200 (Some session), ls)))))))"

section \<open>Files\<close>

datatype file_op = FList string | FRead string | FWrite string string | FDelete string | FMkdir string
  | FRename string string | FUpload string string | FDownload string | FExtract string | FArchive string

text \<open>The common course of the file requests: access to the server, the client of its
  node, the parameters of the request, and the call, answered by \<open>daemon\<close>.\<close>

definition file_request ::
  "(uuid \<Rightarrow> string) \<Rightarrow> (Client \<Rightarrow> uuid \<Rightarrow> file_op \<Rightarrow> 'a result) \<Rightarrow> env \<Rightarrow> ClientPool \<Rightarrow> db \<Rightarrow> User \<Rightarrow> uuid option
     \<Rightarrow> file_op result \<Rightarrow> string \<Rightarrow> ('a \<Rightarrow> 'b response) \<Rightarrow> 'b response" where
  "file_request str daemon e pool d user param op failure ok =
     (case param of None \<Rightarrow> Refuse 400 ''invalid ID format''
      | Some serverID \<Rightarrow> (case GetServer e d serverID (u_ID user) (u_Role user) of
          Inl err \<Rightarrow> serverError err
        | Inr (server, _) \<Rightarrow> (case pool_Get str pool (sv_NodeID server) of
            Inl _ \<Rightarrow> Refuse 502 ''daemon not connected''
          | Inr client \<Rightarrow> (case op of
              Inl err \<Rightarrow> Refuse 400 (Error err)
            | Inr x \<Rightarrow> (case daemon client serverID x of Inl _ \<Rightarrow> Refuse 502 failure | Inr r \<Rightarrow> ok r)))))"

definition query_path :: "string \<Rightarrow> string result" where
  "query_path path = (if path = '''' then Inl (New ''path query parameter is required'') else Inr path)"

definition h_ListFiles where
  "h_ListFiles str daemon e pool d user param path =
     file_request str daemon e pool d user param (Inr (FList (case path of None \<Rightarrow> ''/'' | Some p \<Rightarrow> p)))
       ''failed to list files from daemon'' (Reply 200)"

definition h_GetFileContent where
  "h_GetFileContent str daemon e pool d user param path =
     file_request str daemon e pool d user param (map_sum id FRead (query_path path))
       ''failed to read file from daemon'' (Reply 200)"

definition h_WriteFileContent where
  "h_WriteFileContent str daemon e pool d user param body =
     file_request str daemon e pool d user param (map_sum id (\<lambda>(path, content). FWrite path content) body)
       ''failed to write file to daemon'' (\<lambda>_. Reply 200 ''file written'')"

definition h_DeleteFile where
  "h_DeleteFile str daemon e pool d user param path =
     file_request str daemon e pool d user param (map_sum id FDelete (query_path path))
       ''failed to delete file on daemon'' (\<lambda>_. Reply 200 ''file deleted'')"

definition h_CreateDirectory where
  "h_CreateDirectory str daemon e pool d user param body =
     file_request str daemon e pool d user param (map_sum id FMkdir body)
       ''failed to create directory on daemon'' (\<lambda>_. Reply 201 ''directory created'')"

definition h_RenameFile where
  "h_RenameFile str daemon e pool d user param body =
     file_request str daemon e pool d user param (map_sum id (\<lambda>(path, newName). FRename path newName) body)
       ''failed to rename file on daemon'' (\<lambda>_. Reply 200 ''file renamed'')"

definition h_UploadFile where
  "h_UploadFile str daemon e pool d user param contentType path =
     file_request str daemon e pool d user param
       (if has_prefix contentType ''multipart/''
        then Inr (FUpload (case path of None \<Rightarrow> ''/'' | Some p \<Rightarrow> p) contentType)
        else Inl (New ''multipart/form-data body required''))
       ''failed to upload file to daemon'' (\<lambda>_. Reply 200 ''file uploaded'')"

definition h_DownloadFile where
  "h_DownloadFile str daemon e pool d user param path =
     file_request str daemon e pool d user param (map_sum id FDownload (query_path path))
       ''failed to download file from daemon'' (Reply 200)"

definition h_ExtractArchive where
  "h_ExtractArchive str daemon e pool d user param body =
     file_request str daemon e pool d user param (map_sum id FExtract body)
       ''failed to extract archive'' (\<lambda>_. Reply 200 ''archive extracted'')"

definition h_CreateArchive where
  "h_CreateArchive str daemon e pool d user param body =
     file_request str daemon e pool d user param (map_sum id FArchive body)
       ''failed to create archive'' (\<lambda>_. Reply 200 ''archive created'')"

section \<open>Migration\<close>

definition migrate_error :: "go_error \<Rightarrow> 'a response" where
  "migrate_error err =
     (if errors_is err ErrServerForbidden then Refuse 403 ''only administrators can migrate servers''
      else if errors_is err ErrServerNotFound then Refuse 404 ''server not found''
      else if errors_is err ErrNodeNotFound then Refuse 422 ''target node not found''
      else if errors_is err ErrMigrationTarget then Refuse 422 (Error err)
      else Refuse 400 (Error err))"

text \<open>The transfer may take half an hour; \<open>meanwhile\<close> is what other requests do to the
  database from the preflight until the row is changed.\<close>

definition h_MigrateServer ::
  "(uuid \<Rightarrow> string) \<Rightarrow> env \<Rightarrow> ClientPool \<Rightarrow> uuid \<Rightarrow> (db \<Rightarrow> db) \<Rightarrow> db \<Rightarrow> User option \<Rightarrow> uuid option \<Rightarrow> uuid result
     \<Rightarrow> string response \<times> daemon_call list \<times> db" where
  "h_MigrateServer str e pool migrationID meanwhile d caller param body =
     (case param of None \<Rightarrow> (Refuse 400 ''invalid ID format'', [], d)
      | Some serverID \<Rightarrow> (case body of Inl err \<Rightarrow> (Refuse 400 (Error err), [], d)
      | Inr target \<Rightarrow> (case caller of None \<Rightarrow> (Refuse 401 ''unauthorized'', [], d)
      | Some user \<Rightarrow> (case MigratePreflight e d (u_Role user) serverID target of
          Inl err \<Rightarrow> (migrate_error err, [], d)
        | Inr source \<Rightarrow>
            if \<not> is_ok (pool_Get str pool source) then (Refuse 502 ''source node is not reachable'', [], d)
            else if \<not> is_ok (pool_Get str pool target) then (Refuse 502 ''target node is not reachable'', [], d)
            else
              (let made = [DcCreateBackup source serverID migrationID]; clean = [DcDeleteArchive source serverID migrationID];
                   down = [DcDownloadBackup source serverID migrationID]; imp = [DcImport target serverID];
                   d1 = meanwhile d
               in if fault e ''daemon.CreateBackup''
                  then (Refuse 502 ''failed to archive server on source node'', made, d1)
                  else if fault e ''daemon.DownloadBackup''
                  then (Refuse 502 ''failed to read archive from source node'', made @ down @ clean, d1)
                  else if fault e ''daemon.ImportServer''
                  then (Refuse 502 ''failed to transfer server to target node'', made @ down @ imp @ clean, d1)
                  else (case CompleteMigration e d1 serverID target of
                      (Inl _, d2) \<Rightarrow> (Refuse 500 ''transfer succeeded but re-pointing the server failed'',
                        made @ down @ imp @ clean, d2)
                    | (Inr _, d2) \<Rightarrow> (Reply 200 ''server migrated'', made @ down @ imp @ clean, d2)))))))"

end
