(* ===== verification/ServerFlows.thy ===== *)
theory ServerFlows
  imports ServerHandlers
begin

text \<open>
  What the server requests guarantee: console lines, the callbacks of daemons, the end
  of a start, and when a migration changes the row.
\<close>

section \<open>Console\<close>

lemma has_control_chars: "\<not> has_control s \<Longrightarrow> c \<in> set s \<Longrightarrow> 32 \<le> byte c \<and> byte c \<noteq> 127"
  by (induction s) auto

lemma SendConsoleCommand_cases:
  assumes "SendConsoleCommand e i d sid cmd = (r, d')"
  shows "(\<exists>err. r = Inl err \<and> d' = d) \<or> (r = Inr () \<and> \<not> has_control cmd \<and> (\<exists>sv. find_server d sid = Some sv
    \<and> d' = d\<lparr>node_commands := node_commands d @ [new_command e i (sv_NodeID sv) sid ''send_command'' (cmd_payload cmd)]\<rparr>))"
  using assms
  by (auto simp: SendConsoleCommand_def insert_command_def split: if_splits sum.splits option.splits)

text \<open>[C17] A typed console command is queued only for a server the user may see, only when the
  user's role on that server allows its verb, and only as a single line: it has no line
  break and no other control character.  A refused command queues nothing.\<close>

theorem console_command_authorized:
  assumes "h_SendConsoleCommand e i d user param body = (resp, d')"
  shows "d' = d \<or> (\<exists>sid cmd sv. param = Some sid \<and> body = Inr cmd \<and> find_server d sid = Some sv
    \<and> may_see d (u_ID user) (u_Role user) sv
    \<and> RoleWeight (ConsoleCommandMinRole cmd) \<le> RoleWeight (ConsoleRole user (sv_OwnerID sv))
    \<and> (\<forall>c \<in> set cmd. 32 \<le> byte c \<and> byte c \<noteq> 127)
    \<and> node_commands d' = node_commands d @ [new_command e i (sv_NodeID sv) sid ''send_command'' (cmd_payload cmd)])"
proof (cases "d' = d")
  case False
  with assms obtain sid cmd sv a r where *: "param = Some sid" "body = Inr cmd"
    "GetServer e d sid (u_ID user) (u_Role user) = Inr (sv, a)"
    "CanRunConsoleCommand (ConsoleRole user (sv_OwnerID sv)) cmd" "SendConsoleCommand e i d sid cmd = (r, d')"
    by (auto simp: h_SendConsoleCommand_def split: option.splits sum.splits prod.splits if_splits)
  from SendConsoleCommand_cases [OF *(5)] GetServer_Inr [OF *(3)] False
  have s: "\<not> has_control cmd" "find_server d sid = Some sv" "may_see d (u_ID user) (u_Role user) sv"
    "node_commands d' = node_commands d @ [new_command e i (sv_NodeID sv) sid ''send_command'' (cmd_payload cmd)]"
    by auto
  with * has_control_chars [OF s(1)] show ?thesis by (auto simp: CanRunConsoleCommand_def)
qed simp

section \<open>Daemon callbacks\<close>

text \<open>Rows other than those of one server are untouched.\<close>

definition only_server :: "uuid \<Rightarrow> db \<Rightarrow> db \<Rightarrow> bool" where
  "only_server i d d' = (filter (\<lambda>s. sv_ID s \<noteq> i) (servers d') = filter (\<lambda>s. sv_ID s \<noteq> i) (servers d)
     \<and> filter (\<lambda>l. l_ServerID l \<noteq> i) (server_logs d') = filter (\<lambda>l. l_ServerID l \<noteq> i) (server_logs d)
     \<and> nodes d' = nodes d \<and> users d' = users d \<and> node_commands d' = node_commands d)"

lemma only_server_refl: "only_server i d d"
  by (simp add: only_server_def)

lemma only_server_trans: "only_server i d d' \<Longrightarrow> only_server i d' d'' \<Longrightarrow> only_server i d d''"
  by (simp add: only_server_def)

lemma filter_other_servers:
  "(\<And>s. sv_ID (f s) = sv_ID s) \<Longrightarrow>
   filter (\<lambda>s. sv_ID s \<noteq> i) (update_where (\<lambda>s. sv_ID s = i) f t) = filter (\<lambda>s. sv_ID s \<noteq> i) t"
  by (induction t) (auto simp: update_where_def)

lemma closeOpenSessions_only:
  "closeOpenSessions e l wh d = Inr d' \<Longrightarrow> only_server i d d'"
  by (auto simp: closeOpenSessions_def only_server_def Let_def split: if_splits)

lemma UpdateServerStatus_only: "only_server i d (snd (UpdateServerStatus e d i st))"
proof -
  have "only_server i d (d\<lparr>servers := update_where (\<lambda>s. sv_ID s = i)
      (\<lambda>s. s\<lparr>sv_Status := st, sv_UpdatedAt := now e\<rparr>) (servers d)\<rparr>)"
    by (simp add: only_server_def filter_other_servers)
  then show ?thesis
    by (auto simp: UpdateServerStatus_def Let_def only_server_refl split: sum.splits
        dest: closeOpenSessions_only intro: only_server_trans)
qed

lemma SetLastExitCode_only: "only_server i d (snd (SetLastExitCode e d i c))"
  by (simp add: SetLastExitCode_def only_server_def filter_other_servers)

lemma fire_rules_only: "only_server i d (fst (fire_rules nf e ids ty sub val k rs d))"
proof (induction rs arbitrary: k d)
  case (Cons r rs)
  show ?case
    using Cons.IH [of d "Suc k"]
      Cons.IH [of "d\<lparr>alert_events := alert_events d @ [alert_event e (ids k) (r_ID r) ty sub]\<rparr>" "Suc k"]
    by (auto simp: Let_def split_beta only_server_def)
qed (simp add: only_server_refl)

lemma EvaluateAndFire_only: "only_server i d (snd (EvaluateAndFire nf e ids d ty sub val))"
  using fire_rules_only [of i d nf e ids ty sub val 0] by (simp add: EvaluateAndFire_def split_beta only_server_refl)

lemma ingest_only: "only_server i d (snd (IngestLogs e sq d i ls))"
proof -
  have f: "filter (\<lambda>l. l_ServerID l \<noteq> i) (stored_lines i sq k xs) = []" for k xs
    by (auto simp: filter_empty_conv log_row_def set_zip)
  obtain m where "snd (IngestLogs e sq d i ls) = d\<lparr>server_logs := server_logs d @ stored_lines i sq 0 (take m ls)\<rparr>"
    using ingest_from_stores [of 0 ls e sq d i] by (auto simp: IngestLogs_def)
  with f [of 0 "take m ls"] show ?thesis by (simp add: only_server_def del: upt_Suc)
qed

lemma daemon_callback_cases:
  assumes "daemon_callback e d authed param f = (resp, d')"
  shows "d' = d \<or> (\<exists>i n. param = Some i \<and> authed = Some n \<and> (\<exists>s \<in> set (servers d). sv_ID s = i \<and> sv_NodeID s = n)
    \<and> f i = (resp, d'))"
  using assms
  by (auto simp: daemon_callback_def daemonOwnsServer_def ServerBelongsToNode_def call_def wrapping_def
      split: option.splits sum.splits prod.splits if_splits)

lemma status_update_only:
  assumes "h_DaemonStatusUpdate nf alerts e ids d authed param body = (resp, d')" "d' \<noteq> d"
  shows "\<exists>i n. param = Some i \<and> authed = Some n \<and> (\<exists>s \<in> set (servers d). sv_ID s = i \<and> sv_NodeID s = n)
    \<and> only_server i d d'"
proof -
  from daemon_callback_cases [OF assms(1) [unfolded h_DaemonStatusUpdate_def]] assms(2) obtain i n where
    i: "param = Some i" "authed = Some n" "\<exists>s \<in> set (servers d). sv_ID s = i \<and> sv_NodeID s = n"
    and f: "(case body of Inl err \<Rightarrow> (Refuse 400 (Error err), d)
       | Inr (status, exitCode) \<Rightarrow>
           if \<not> server_status status then (Refuse 400 ''unknown status value'', d)
           else (case UpdateServerStatus e d i status of
               (Inl _, d1) \<Rightarrow> (Refuse 500 ''failed to update status'', d1)
             | (Inr _, d1) \<Rightarrow>
                 (let d2 = (if status = StatusCrashed
                            then (if exitCode \<noteq> None then snd (SetLastExitCode e d1 i exitCode) else d1)
                            else if status \<in> {StatusStarting, StatusRunning, StatusStopped}
                            then snd (SetLastExitCode e d1 i None) else d1);
                      d3 = (if status = StatusCrashed \<and> alerts
                            then snd (EvaluateAndFire nf e ids d2 ''server_crashed'' i 0) else d2)
                  in (Reply 200 ''status updated'', d3)))) = (resp, d')" by blast
  have u: "UpdateServerStatus e d i st = (r, d1) \<Longrightarrow> only_server i d d1" for st r d1
    using UpdateServerStatus_only [of i d e st] by simp
  have x: "only_server i d d1 \<Longrightarrow> only_server i d (snd (SetLastExitCode e d1 i c))" for d1 c
    using SetLastExitCode_only only_server_trans by blast
  have v: "only_server i d d1 \<Longrightarrow> only_server i d (snd (EvaluateAndFire nf e ids d1 ty i 0))" for d1 ty
    using EvaluateAndFire_only only_server_trans by blast
  have "only_server i d d'"
    using f u x v by (auto simp: Let_def only_server_refl split: sum.splits prod.splits if_splits)
  with i show ?thesis by blast
qed

text \<open>A node daemon reports only on servers it hosts: whatever it sends to the status and
  log callbacks, either nothing changes, or the server of the request runs on the
  authenticated node and no row of another server, no node, user or command is touched.\<close>

theorem daemon_callbacks_confined:
  assumes "h_DaemonStatusUpdate nf alerts e ids d authed param body = (resp, d')
    \<or> h_DaemonLogsIngest e sq d authed param lines = (resp', d')"
  shows "d' = d \<or> (\<exists>i n. param = Some i \<and> authed = Some n
    \<and> (\<exists>s \<in> set (servers d). sv_ID s = i \<and> sv_NodeID s = n) \<and> only_server i d d')"
  using assms
proof
  assume "h_DaemonStatusUpdate nf alerts e ids d authed param body = (resp, d')"
  then show ?thesis using status_update_only by blast
next
  assume "h_DaemonLogsIngest e sq d authed param lines = (resp', d')"
  from daemon_callback_cases [OF this [unfolded h_DaemonLogsIngest_def]] show ?thesis
  proof (elim disjE exE conjE)
    fix i n
    assume i: "param = Some i" "authed = Some n" "\<exists>s \<in> set (servers d). sv_ID s = i \<and> sv_NodeID s = n"
      and f: "(case lines of Inl err \<Rightarrow> (Refuse 400 (Error err), d)
       | Inr ls \<Rightarrow> if length ls > maxLogLinesPerPush then (Refuse 413 ''too many log lines in one push'', d)
           else if ls = [] then (Reply 200 0, d)
           else (Reply 200 (length ls), snd (IngestLogs e sq d i ls))) = (resp', d')"
    from f have "d' = d \<or> (\<exists>ls. d' = snd (IngestLogs e sq d i ls))"
      by (auto split: sum.splits if_splits)
    with ingest_only have "only_server i d d'" using only_server_refl by blast
    with i show ?thesis by blast
  qed simp
qed

section \<open>The end of a start\<close>

definition status_of :: "db \<Rightarrow> uuid \<Rightarrow> string option" where
  "status_of d i = map_option sv_Status (find_server d i)"

text \<open>The statements of the goroutine on the table of servers succeed.\<close>

definition status_ok :: "env \<Rightarrow> bool" where
  "status_ok e = (\<not> fault e ''UpdateServerStatus'' \<and> \<not> fault e ''GetServerStatus'')"

lemma closeOpenSessions_find: "closeOpenSessions e l wh d = Inr d' \<Longrightarrow> find_server d' i = find_server d i"
  by (simp add: find_server_def closeOpenSessions_servers)

lemma set_status_of:
  assumes "status_ok e" "server_status st"
  shows "status_of (set_status e d i st) i = map_option (\<lambda>_. st) (find_server d i)"
proof -
  have "find_server (d\<lparr>servers := update_where (\<lambda>s. sv_ID s = i)
      (\<lambda>s. s\<lparr>sv_Status := st, sv_UpdatedAt := now e\<rparr>) (servers d)\<rparr>) i
    = map_option (\<lambda>s. s\<lparr>sv_Status := st, sv_UpdatedAt := now e\<rparr>) (find_server d i)"
    by (simp add: find_server_def find_update_same)
  moreover have "find_server (set_status e d i st) i = find_server (d\<lparr>servers := update_where (\<lambda>s. sv_ID s = i)
      (\<lambda>s. s\<lparr>sv_Status := st, sv_UpdatedAt := now e\<rparr>) (servers d)\<rparr>) i"
    using assms closeOpenSessions_find
    by (auto simp: set_status_def UpdateServerStatus_def status_ok_def Let_def split: sum.splits)
  ultimately show ?thesis by (simp add: status_of_def option.map_comp comp_def)
qed

lemma server_status_names [simp]:
  "server_status StatusCrashed" "server_status StatusStarting" "server_status StatusStopped"
  "server_status StatusInstalling" "server_status StatusStopping" "server_status StatusRunning"
  by (simp_all add: server_status_def)

lemma start_wait_ends:
  "provision_ticks < k + length sched \<Longrightarrow> k \<le> provision_ticks \<Longrightarrow> start_wait late i k sched d \<noteq> None"
proof (induction late i k sched d rule: start_wait.induct)
  case (2 late i k others e sched d)
  then show ?case by (auto simp: Let_def split: sum.splits)
qed simp

lemma start_wait_given_up:
  assumes "start_wait late i k sched d = Some (False, d')" "list_all (\<lambda>(others, e). status_ok e) sched"
  shows "status_of d' i \<in> {None, Some StatusCrashed}"
  using assms
proof (induction late i k sched d rule: start_wait.induct)
  case (2 late i k others e sched d)
  let ?d = "others d"
  show ?case
  proof (cases "Suc k > provision_ticks \<or> (Suc k = provision_ticks \<and> \<not> late)")
    case True
    with "2.prems" have "d' = set_status e ?d i StatusCrashed" "status_ok e" by (auto simp: Let_def)
    then show ?thesis by (simp add: set_status_of) (cases "find_server ?d i"; simp)
  next
    case False
    show ?thesis
    proof (cases "GetServerStatus e ?d i")
      case (Inl err)
      with False 2 show ?thesis by (auto simp: Let_def)
    next
      case (Inr st)
      then have "status_of ?d i = Some st"
        by (auto simp: GetServerStatus_def status_of_def and_then_Inr split: option.splits)
      with Inr False 2 show ?thesis by (auto simp: Let_def split: if_splits)
    qed
  qed
qed simp


section \<open>Migration\<close>

lemma CompleteMigration_Inl: "CompleteMigration e d i target = (Inl err, d') \<Longrightarrow> d' = d"
  by (auto simp: CompleteMigration_def split: if_splits)

text \<open>[C19] A migration moves the server row only after the target node has taken over the
  data: in every other case the table of servers is left as the other requests made it.
  A caller who moves a server is an administrator, the target is another node that was
  online, below its server limit and large enough, and the server was stopped when the
  migration began.\<close>

theorem migration_moves_after_import:
  assumes "h_MigrateServer str e pool m meanwhile d caller param body = (resp, calls, d')"
  shows "d' = d \<or> d' = meanwhile d
    \<or> (\<exists>user sid target sv n. caller = Some user \<and> param = Some sid \<and> body = Inr target
        \<and> RoleWeight RoleAdmin \<le> RoleWeight (u_Role user)
        \<and> find_server d sid = Some sv \<and> sv_Status sv = StatusStopped \<and> sv_NodeID sv \<noteq> target
        \<and> find_node d target = Some n \<and> n_Status n = ''online''
        \<and> int (rows_affected (\<lambda>s. sv_NodeID s = target) (servers d)) < n_MaxServers n
        \<and> sv_RAMLimitMB sv \<le> n_TotalRAMMB n \<and> sv_DiskLimitMB sv \<le> n_TotalDiskMB n
        \<and> DcImport target sid \<in> set calls \<and> \<not> fault e ''daemon.ImportServer''
        \<and> CompleteMigration e (meanwhile d) sid target = (Inr (), d'))"
proof (cases "d' = d \<or> d' = meanwhile d")
  case False
  with assms obtain user sid target source where
    c: "caller = Some user" "param = Some sid" "body = Inr target"
    and pf: "MigratePreflight e d (u_Role user) sid target = Inr source"
    and cm: "CompleteMigration e (meanwhile d) sid target = (Inr (), d')"
      "DcImport target sid \<in> set calls" "\<not> fault e ''daemon.ImportServer''"
    by (auto simp: h_MigrateServer_def Let_def split: option.splits sum.splits prod.splits if_splits
        dest: CompleteMigration_Inl)
  from pf obtain sv n where "find_server d sid = Some sv" "sv_Status sv = StatusStopped" "sv_NodeID sv \<noteq> target"
    "find_node d target = Some n" "n_Status n = ''online''" "RoleWeight RoleAdmin \<le> RoleWeight (u_Role user)"
    "int (rows_affected (\<lambda>s. sv_NodeID s = target) (servers d)) < n_MaxServers n"
    "sv_RAMLimitMB sv \<le> n_TotalRAMMB n" "sv_DiskLimitMB sv \<le> n_TotalDiskMB n"
    by (auto simp: MigratePreflight_def split: if_splits sum.splits option.splits)
  with c cm show ?thesis by blast
qed blast

section \<open>Witnesses and races\<close>

definition ex_pool :: ClientPool where
  "ex_pool = \<lparr>cp_clients = map (\<lambda>i. (i, \<lparr>cl_baseURL = ''http://node.example.org:8444'', cl_nodeToken = ''t'', cl_tls = False\<rparr>)) [10, 11],
     cp_material = None\<rparr>"

definition ex_admin :: User where
  "ex_admin = ex_owner\<lparr>u_ID := 2, u_Role := RoleAdmin\<rparr>"

lemmas ex_flow_simps = ex_fleet_simps ex_pool_def ex_admin_def

theorem console_command_authorized_witness:
  "\<exists>resp d'. h_SendConsoleCommand (quiet 0) 50 ex_fleet ex_owner (Some 20) (Inr ''op add steve'') = (resp, d')
    \<and> d' \<noteq> ex_fleet \<and> (\<exists>sv. find_server ex_fleet 20 = Some sv \<and> may_see ex_fleet 1 RoleUser sv)"
proof -
  let ?h = "h_SendConsoleCommand (quiet 0) 50 ex_fleet ex_owner (Some 20) (Inr ''op add steve'')"
  obtain resp d' where h: "?h = (resp, d')" by fastforce
  have "length (node_commands (snd ?h)) = 1 \<and> length (node_commands ex_fleet) = 0" by code_simp
  then have "d' \<noteq> ex_fleet" by (auto simp: h)
  with console_command_authorized [OF h] h show ?thesis by (auto simp: ex_owner_def)
qed

theorem daemon_callbacks_confined_witness:
  "\<exists>resp d'. h_DaemonStatusUpdate None True (quiet 0) (\<lambda>k. 80 + k) ex_fleet (Some 10) (Some 20) (Inr (StatusCrashed, Some 8)) = (resp, d')
    \<and> only_server 20 ex_fleet d'"
proof -
  obtain resp d' where h: "h_DaemonStatusUpdate None True (quiet 0) (\<lambda>k. 80 + k) ex_fleet (Some 10) (Some 20)
      (Inr (StatusCrashed, Some 8)) = (resp, d')" by fastforce
  from daemon_callbacks_confined [of None True "quiet 0" "\<lambda>k. 80 + k" ex_fleet "Some 10" "Some 20"
      "Inr (StatusCrashed, Some 8)" resp d' int "Inr []" "Reply 200 0"] h
  show ?thesis by (auto simp: only_server_refl)
qed


theorem migration_moves_after_import_witness:
  "\<exists>resp calls d'. h_MigrateServer dec_nat (quiet 0) ex_pool 90 id ex_fleet (Some ex_admin) (Some 20) (Inr 11) = (resp, calls, d')
    \<and> DcImport 11 20 \<in> set calls \<and> (\<exists>sv. find_server ex_fleet 20 = Some sv \<and> sv_Status sv = StatusStopped)"
proof -
  let ?m = "h_MigrateServer dec_nat (quiet 0) ex_pool 90 id ex_fleet (Some ex_admin) (Some 20) (Inr 11)"
  obtain resp calls d' where m: "?m = (resp, calls, d')" by (metis prod_cases3)
  have "map sv_NodeID (servers (snd (snd ?m))) = [11, 11] \<and> map sv_NodeID (servers ex_fleet) = [10, 11]" by code_simp
  then have "d' \<noteq> ex_fleet" "d' \<noteq> id ex_fleet" by (auto simp: m)
  with migration_moves_after_import [OF m] m show ?thesis by auto
qed

text \<open>A kill while the files of a starting server are provisioned marks it as stopped; the
  goroutine of the start takes that for the end of the provisioning and starts it.\<close>

lemma kill_while_provisioning_starts:
  "(case dispatchStart dec_nat (quiet 0) (quiet 9) True
      [(\<lambda>d. snd (snd (h_KillServer (quiet 4) d ex_owner (Some 20))), quiet 5)] ex_pool (ex_game 20 10 5520) ex_fleet of
     None \<Rightarrow> False
   | Some (calls, d') \<Rightarrow> list_ex (\<lambda>c. case c of DcStart n cfg \<Rightarrow> n = 10 | _ \<Rightarrow> False) calls
       \<and> status_of d' 20 = Some StatusStarting)"
  by code_simp

text \<open>A server that is started while its data is transferred is moved while it runs on the
  node it came from.\<close>

lemma running_server_migrated:
  "(case h_MigrateServer dec_nat (quiet 9) ex_pool 90
        (\<lambda>d. snd (UpdateServerStatus (quiet 5) d 20 StatusRunning)) ex_fleet (Some ex_admin) (Some 20) (Inr 11) of
     (resp, calls, d') \<Rightarrow> resp = Reply 200 ''server migrated'' \<and> status_of d' 20 = Some StatusRunning
       \<and> map_option sv_NodeID (find_server d' 20) = Some 11)"
  by code_simp

text \<open>A member of a server who is not its owner and reaches the handler is refused, but
  only after the node was told to delete the data.\<close>

lemma refused_deletion_wipes_data:
  "(case h_DeleteServer dec_nat (quiet 9) ex_pool
        (ex_fleet\<lparr>server_members := [\<lparr>m_ServerID = 20, m_UserID = 3, m_Role = ''admin'', m_Permissions = None\<rparr>]\<rparr>)
        (ex_owner\<lparr>u_ID := 3\<rparr>) (Some 20) of
     (resp, calls, d') \<Rightarrow> resp = Refuse 403 ''access denied'' \<and> list_ex (\<lambda>c. case c of DcDeleteData n i \<Rightarrow> i = 20 | _ \<Rightarrow> False) calls
       \<and> find_server d' 20 \<noteq> None)"
  by code_simp

text \<open>The log callback reports all lines as ingested when their statement failed.\<close>

lemma failed_ingest_reported_as_done:
  "h_DaemonLogsIngest (quiet 0) int ex_fleet (Some 10) (Some 20)
     (Inr [\<lparr>li_Timestamp = 0, li_Level = ''INFO'', li_Message = ''ok''\<rparr>, \<lparr>li_Timestamp = 1, li_Level = '''', li_Message = [CHR 0x00]\<rparr>])
   = (Reply 200 2, ex_fleet)"
  by (simp add: h_DaemonLogsIngest_def daemon_callback_def daemonOwnsServer_def ServerBelongsToNode_def IngestLogs_def
      ingest_from.simps insertLogChunk_def log_violates_def maxLogLinesPerPush_def logInsertChunk_def call_def wrapping_def
      ex_fleet_simps)

end
