(* ===== verification/GameCommands.thy ===== *)
theory GameCommands
  imports ServerFlows
begin

text \<open>
  \<^verbatim>\<open>services/game_command_service.go\<close> and \<^verbatim>\<open>handlers/game_commands.go\<close>: the command
  templates of servers, the built-in ones that are seeded on first access, the filling of
  a template, and its execution on the console of a server.
\<close>

section \<open>Rows\<close>

abbreviation ErrGameCommandNotFound :: go_error where
  "ErrGameCommandNotFound \<equiv> New ''game command not found''"

text \<open>A \<^verbatim>\<open>VARCHAR(n)\<close> column: a longer text is refused, unless what exceeds it is spaces.\<close>

function varchar :: "nat \<Rightarrow> string \<Rightarrow> string option" where
  "varchar n s = (if rune_count s \<le> n then Some s
     else if last s = CHR '' '' then varchar n (butlast s) else None)"
  by pat_completeness auto
termination
proof (relation "measure (length \<circ> snd)")
  fix n s
  assume "\<not> rune_count s \<le> n"
  then have "s \<noteq> []" by auto
  then show "((n, butlast s), n, s) \<in> measure (length \<circ> snd)" by simp
qed simp

declare varchar.simps [simp del]

text \<open>The columns an \<^verbatim>\<open>INSERT INTO game_commands\<close> gives, with the limits of the schema; the
  source columns have their defaults.\<close>

definition command_row :: "env \<Rightarrow> uuid \<Rightarrow> GameCommand \<Rightarrow> GameCommand option" where
  "command_row e newID cmd =
     (case (varchar 100 (g_Category cmd), varchar 100 (g_Name cmd), varchar 500 (g_CommandTemplate cmd),
            varchar 50 (g_Icon cmd), varchar 20 (g_MinRole cmd)) of
        (Some cat, Some nm, Some tmpl, Some ic, Some role) \<Rightarrow>
          if int32 (g_SortOrder cmd)
          then Some \<lparr>g_ID = newID, g_ServerID = g_ServerID cmd, g_Category = cat, g_Name = nm,
                 g_Description = g_Description cmd, g_CommandTemplate = tmpl, g_Icon = ic, g_Params = g_Params cmd,
                 g_SortOrder = g_SortOrder cmd, g_IsDefault = g_IsDefault cmd, g_MinRole = role,
                 g_CreatedAt = now e, g_Source = Some ''built-in'', g_SourcePlugin = None\<rparr>
          else None
      | _ \<Rightarrow> None)"

definition insert_game_command :: "env \<Rightarrow> string \<Rightarrow> db \<Rightarrow> GameCommand option \<Rightarrow> db result" where
  "insert_game_command e label d row =
     (case row of None \<Rightarrow> Inl (Driver label)
      | Some g \<Rightarrow>
          if fault e label \<or> (\<exists>x \<in> set (game_commands d). g_ID x = g_ID g)
             \<or> (case g_ServerID g of None \<Rightarrow> False | Some i \<Rightarrow> find_server d i = None)
          then Inl (Driver label)
          else Inr (d\<lparr>game_commands := game_commands d @ [g]\<rparr>))"

text \<open>A row as the \<^verbatim>\<open>SELECT\<close> lists read it.\<close>

definition read_command :: "GameCommand \<Rightarrow> GameCommand" where
  "read_command g = g\<lparr>g_Source := Some (case g_Source g of None \<Rightarrow> ''built-in'' | Some s \<Rightarrow> s)\<rparr>"

section \<open>Service\<close>

text \<open>\<open>collation\<close> is the position of a text in the collation of the database.  Sorting is stable, so
  the three sorts give the order by category, then sort order, then name.\<close>

definition ListForServer :: "(string \<Rightarrow> nat) \<Rightarrow> env \<Rightarrow> db \<Rightarrow> uuid \<Rightarrow> GameCommand list result" where
  "ListForServer collation e d serverID =
     (let own = map g_CommandTemplate (filter (\<lambda>g. g_ServerID g = Some serverID) (game_commands d));
          visible = filter (\<lambda>g. g_ServerID g = Some serverID
            \<or> (g_ServerID g = None \<and> g_CommandTemplate g \<notin> set own)) (game_commands d)
      in call e ''ListForServer'' (map read_command
           (sort_key (\<lambda>g. collation (g_Category g)) (sort_key g_SortOrder
             (sort_key (\<lambda>g. collation (g_Name g)) visible)))))"

definition find_command :: "db \<Rightarrow> uuid \<Rightarrow> GameCommand option" where
  "find_command d i = List.find (\<lambda>g. g_ID g = i) (game_commands d)"

definition GetCommand :: "env \<Rightarrow> db \<Rightarrow> uuid \<Rightarrow> GameCommand result" where
  "GetCommand e d i =
     and_then (call e ''GetCommand'' (find_command d i))
       (\<lambda>r. case r of None \<Rightarrow> Inl ErrNoRows | Some g \<Rightarrow> Inr (read_command g))"

text \<open>The command with the id and the time the statement returns; \<open>label\<close> names the statement,
  which seeding runs many times.\<close>

definition CreateCommand :: "string \<Rightarrow> env \<Rightarrow> uuid \<Rightarrow> db \<Rightarrow> GameCommand \<Rightarrow> GameCommand result \<times> db" where
  "CreateCommand label e newID d cmd =
     (let cmd' = (if g_MinRole cmd = '''' then cmd\<lparr>g_MinRole := RoleUser\<rparr> else cmd)
      in case insert_game_command e label d (command_row e newID cmd') of
           Inl err \<Rightarrow> (Inl err, d)
         | Inr d' \<Rightarrow> (Inr (cmd'\<lparr>g_ID := newID, g_CreatedAt := now e\<rparr>), d'))"

definition DeleteCommand :: "env \<Rightarrow> db \<Rightarrow> uuid \<Rightarrow> uuid \<Rightarrow> unit result \<times> db" where
  "DeleteCommand e d serverID i =
     (let p = (\<lambda>g. g_ID g = i \<and> g_ServerID g = Some serverID)
      in if fault e ''DeleteCommand'' then (Inl (Driver ''DeleteCommand''), d)
         else if rows_affected p (game_commands d) = 0 then (Inl ErrGameCommandNotFound, d)
         else (Inr (), d\<lparr>game_commands := delete_where p (game_commands d)\<rparr>))"

section \<open>Built-in commands\<close>

record CommandParam =
  cp_Name :: string
  cp_Type :: string
  cp_Required :: bool
  cp_Placeholder :: string

definition paramJSON :: "CommandParam list \<Rightarrow> json" where
  "paramJSON ps = JArr (map (\<lambda>p. JObj [(''name'', JStr (cp_Name p)), (''type'', JStr (cp_Type p)),
     (''required'', JBool (cp_Required p)), (''placeholder'', JStr (cp_Placeholder p))]) ps)"

definition cmd_param :: "string \<Rightarrow> string \<Rightarrow> bool \<Rightarrow> string \<Rightarrow> CommandParam" where
  "cmd_param nm ty req ph = \<lparr>cp_Name = nm, cp_Type = ty, cp_Required = req, cp_Placeholder = ph\<rparr>"

definition builtin ::
  "uuid \<Rightarrow> string \<Rightarrow> string \<Rightarrow> string \<Rightarrow> string \<Rightarrow> string \<Rightarrow> int \<Rightarrow> string \<Rightarrow> CommandParam list \<Rightarrow> GameCommand" where
  "builtin sid cat nm desc tmpl ic ord role ps =
     \<lparr>g_ID = 0, g_ServerID = Some sid, g_Category = cat, g_Name = nm, g_Description = desc,
      g_CommandTemplate = tmpl, g_Icon = ic, g_Params = paramJSON ps, g_SortOrder = ord, g_IsDefault = True,
      g_MinRole = role, g_CreatedAt = 0, g_Source = Some '''', g_SourcePlugin = None\<rparr>"

definition player_param :: CommandParam where
  "player_param = cmd_param ''player'' ''string'' True ''Player name''"

definition defaultHytaleCommands :: "uuid \<Rightarrow> GameCommand list" where
  "defaultHytaleCommands sid =
    [builtin sid ''Server Management'' ''Save World'' ''Force-save all world data to disk''
       ''world save --confirm --all'' ''save'' 1 RoleUser [],
     builtin sid ''Server Management'' ''Stop Server'' ''Gracefully shut down the server''
       ''stop'' ''power'' 2 RoleAdmin [],
     builtin sid ''Player Management'' ''Kick Player'' ''Remove a player from the server''
       ''kick {player}'' ''user-x'' 1 RoleModerator [player_param],
     builtin sid ''Player Management'' ''Ban Player'' ''Permanently ban a player''
       ''ban {player}'' ''shield-off'' 2 RoleModerator [player_param],
     builtin sid ''Player Management'' ''Unban Player'' (''Remove a player'' @ [CHR 0x27] @ ''s ban'')
       ''unban {player}'' ''shield'' 3 RoleModerator [player_param],
     builtin sid ''Player Management'' ''Whitelist Add'' ''Add a player to the whitelist''
       ''whitelist add {player}'' ''user-plus'' 4 RoleModerator [player_param],
     builtin sid ''Player Management'' ''Whitelist Remove'' ''Remove a player from the whitelist''
       ''whitelist remove {player}'' ''user-minus'' 5 RoleModerator [player_param],
     builtin sid ''Player Management'' ''Op Player'' ''Grant operator privileges''
       ''op add {player}'' ''star'' 6 RoleAdmin [player_param],
     builtin sid ''Player Management'' ''Deop Player'' ''Revoke operator privileges''
       ''op remove {player}'' ''star-off'' 7 RoleAdmin [player_param],
     builtin sid ''Player Management'' ''Give Item'' ''Give an item to a player''
       ''give {player} {item} --quantity {count}'' ''package'' 8 RoleAdmin
       [player_param, cmd_param ''item'' ''string'' True ''item id'', cmd_param ''count'' ''number'' False ''1''],
     builtin sid ''World Management'' ''Set Time Day'' ''Set world time to day''
       ''time set day --world {world}'' ''sun'' 1 RoleModerator [],
     builtin sid ''World Management'' ''Set Time Night'' ''Set world time to night''
       ''time set night --world {world}'' ''moon'' 2 RoleModerator [],
     builtin sid ''World Management'' ''Teleport Player'' ''Teleport a player to coordinates''
       ''teleport {player} {x} {y} {z}'' ''navigation'' 5 RoleModerator
       [player_param, cmd_param ''x'' ''number'' True ''X'', cmd_param ''y'' ''number'' True ''Y'', cmd_param ''z'' ''number'' True ''Z''],
     builtin sid ''World Management'' ''Set Gamemode'' (''Change a player'' @ [CHR 0x27] @ ''s gamemode'')
       ''gamemode {mode} {player}'' ''gamepad-2'' 6 RoleAdmin
       [cmd_param ''mode'' ''string'' True ''survival|creative|adventure|spectator'', player_param],
     builtin sid ''Chat & Communication'' ''Broadcast'' ''Send a message to all players''
       ''say {message}'' ''megaphone'' 1 RoleModerator [cmd_param ''message'' ''string'' True ''Message to broadcast'']]"

text \<open>The inserts are separate statements: those before a failing one stay.  \<open>ids k\<close> is the id
  of the \<open>k\<close>-th one.\<close>

fun seed_loop :: "env \<Rightarrow> (nat \<Rightarrow> uuid) \<Rightarrow> nat \<Rightarrow> GameCommand list \<Rightarrow> db \<Rightarrow> unit result \<times> db" where
  "seed_loop e ids k [] d = (Inr (), d)"
| "seed_loop e ids k (cmd # cmds) d =
     (case CreateCommand (''SeedDefaults.'' @ dec_nat k) e (ids k) d cmd of
        (Inl err, d') \<Rightarrow> (Inl err, d')
      | (Inr _, d') \<Rightarrow> seed_loop e ids (Suc k) cmds d')"

definition SeedDefaults :: "env \<Rightarrow> (nat \<Rightarrow> uuid) \<Rightarrow> db \<Rightarrow> uuid \<Rightarrow> unit result \<times> db" where
  "SeedDefaults e ids d serverID =
     (case call e ''SeedDefaults.count'' (rows_affected (\<lambda>g. g_ServerID g = Some serverID) (game_commands d)) of
        Inl err \<Rightarrow> (Inl err, d)
      | Inr n \<Rightarrow> if n > 0 then (Inr (), d) else seed_loop e ids 0 (defaultHytaleCommands serverID) d)"

section \<open>Filling a template\<close>

definition freeTextParams :: "string list" where
  "freeTextParams = [''message'', ''reason'']"

definition checkCommandValue :: "string \<Rightarrow> string \<Rightarrow> bool \<Rightarrow> string result" where
  "checkCommandValue name v0 freeText =
     (if has_control v0 then Inl (New (''parameter '' @ quoted name @ '' contains control characters''))
      else (let v = trim_space v0
            in if \<not> freeText \<and> (list_ex is_space v \<or> has_prefix v ''--'')
               then Inl (New (''parameter '' @ quoted name @ '' must be a single word''))
               else Inr v))"

text \<open>A Go map of strings is an association list without repeated keys, in the order the
  iteration over the map takes; a missing key reads as the empty string.\<close>

definition value_of :: "(string \<times> string) list \<Rightarrow> string \<Rightarrow> string" where
  "value_of values k = (case map_of values k of None \<Rightarrow> '''' | Some v \<Rightarrow> v)"

function fillPlaceholders :: "(string \<times> string) list \<Rightarrow> string \<Rightarrow> string" where
  "fillPlaceholders values tok =
     (case cut_at (CHR ''{'') tok of
        None \<Rightarrow> tok
      | Some (pre, rest) \<Rightarrow>
          (case cut_at (CHR ''}'') rest of
             None \<Rightarrow> tok
           | Some (name, post) \<Rightarrow> pre @ value_of values name @ fillPlaceholders values post))"
  by pat_completeness auto

lemma cut_at_SomeD: "cut_at c s = Some (a, b) \<Longrightarrow> s = a @ c # b \<and> c \<notin> set a"
proof -
  assume "cut_at c s = Some (a, b)"
  then have c: "c \<in> set s" "a = takeWhile (\<lambda>x. x \<noteq> c) s" "b = tl (dropWhile (\<lambda>x. x \<noteq> c) s)"
    by (auto simp: cut_at_def split: if_splits)
  then have "dropWhile (\<lambda>x. x \<noteq> c) s \<noteq> []" "hd (dropWhile (\<lambda>x. x \<noteq> c) s) = c"
    using hd_dropWhile [of "\<lambda>x. x \<noteq> c" s] by (auto simp: dropWhile_eq_Nil_conv)
  then have "dropWhile (\<lambda>x. x \<noteq> c) s = c # b" using c by (metis list.collapse)
  then show ?thesis using c takeWhile_dropWhile_id [of "\<lambda>x. x \<noteq> c" s] set_takeWhileD by force
qed

termination fillPlaceholders
  by (relation "measure (length \<circ> snd)") (auto dest!: cut_at_SomeD)

declare fillPlaceholders.simps [simp del]

fun fill_tokens :: "(string \<times> string) list \<Rightarrow> string list \<Rightarrow> string list" where
  "fill_tokens values [] = []"
| "fill_tokens values [tok] = (let v = fillPlaceholders values tok in if v \<noteq> '''' then [v] else [])"
| "fill_tokens values (tok # nxt # toks) =
     (if has_prefix tok ''--'' \<and> CHR ''{'' \<in> set nxt
      then (let v = fillPlaceholders values nxt in (if v \<noteq> '''' then [tok, v] else []) @ fill_tokens values toks)
      else (let v = fillPlaceholders values tok in (if v \<noteq> '''' then [v] else []) @ fill_tokens values (nxt # toks)))"

fun check_values :: "(string \<times> string) list \<Rightarrow> (string \<times> string) list result" where
  "check_values [] = Inr []"
| "check_values ((k, v) # ps) =
     and_then (checkCommandValue k v (k \<in> set freeTextParams)) (\<lambda>v'.
     and_then (check_values ps) (\<lambda>vs. Inr ((k, v') # vs)))"

definition resolveCommandTemplate :: "string \<Rightarrow> (string \<times> string) list \<Rightarrow> string \<Rightarrow> string result" where
  "resolveCommandTemplate template params world =
     and_then (check_values params) (\<lambda>values.
     and_then (checkCommandValue ''world'' world False) (\<lambda>w.
     Inr (join '' '' (fill_tokens (AList.update ''world'' w values) (Fields template)))))"

section \<open>Requests\<close>

definition h_ListGameCommands ::
  "(string \<Rightarrow> nat) \<Rightarrow> env \<Rightarrow> (nat \<Rightarrow> uuid) \<Rightarrow> db \<Rightarrow> uuid option \<Rightarrow> GameCommand list response \<times> db" where
  "h_ListGameCommands collation e ids d sid =
     (case sid of None \<Rightarrow> (Refuse 400 ''invalid ID format'', d)
      | Some serverID \<Rightarrow>
          (let (_, d') = SeedDefaults e ids d serverID
           in case ListForServer collation e d' serverID of
                Inl _ \<Rightarrow> (Refuse 500 ''failed to list commands'', d')
              | Inr cmds \<Rightarrow> (Reply 200 cmds, d')))"

text \<open>The body is the parsed \<^verbatim>\<open>command_id\<close>, if it is one, and the parameters.\<close>

definition h_ExecuteGameCommand ::
  "env \<Rightarrow> uuid \<Rightarrow> db \<Rightarrow> User option \<Rightarrow> uuid option \<Rightarrow> (uuid option \<times> (string \<times> string) list) result
     \<Rightarrow> string response \<times> db" where
  "h_ExecuteGameCommand e newID d caller sid body =
     (case sid of None \<Rightarrow> (Refuse 400 ''invalid ID format'', d)
      | Some serverID \<Rightarrow> (case body of Inl _ \<Rightarrow> (Refuse 400 ''invalid request body'', d)
      | Inr (None, _) \<Rightarrow> (Refuse 400 ''invalid command_id'', d)
      | Inr (Some cmdID, params) \<Rightarrow> (case GetCommand e d cmdID of
          Inl _ \<Rightarrow> (Refuse 404 ''command not found'', d)
        | Inr cmd \<Rightarrow>
            if g_ServerID cmd \<noteq> None \<and> g_ServerID cmd \<noteq> Some serverID then (Refuse 404 ''command not found'', d)
            else (case caller of None \<Rightarrow> (Refuse 401 ''authentication required'', d)
            | Some user \<Rightarrow> (case GetServer e d serverID (u_ID user) (u_Role user) of
                Inl err \<Rightarrow> (serverError err, d)
              | Inr (server, _) \<Rightarrow>
                  (let role = ConsoleRole user (sv_OwnerID server)
                   in if RoleWeight role < RoleWeight (g_MinRole cmd)
                      then (Refuse 403 ''insufficient permissions for this command'', d)
                      else (let world = (if sublist ''{world}'' (g_CommandTemplate cmd)
                              then (case ActiveWorld e d serverID of Inl _ \<Rightarrow> '''' | Inr aw \<Rightarrow> aw) else '''')
                        in case resolveCommandTemplate (g_CommandTemplate cmd) params world of
                             Inl err \<Rightarrow> (Refuse 400 (Error err), d)
                           | Inr resolved \<Rightarrow>
                               if resolved = '''' then (Refuse 400 ''resolved command is empty'', d)
                               else if \<not> CanRunConsoleCommand role resolved
                               then (Refuse 403 ''insufficient permissions for this command'', d)
                               else (case SendConsoleCommand e newID d serverID resolved of
                                   (Inl _, d') \<Rightarrow> (Refuse 500 ''failed to send command'', d')
                                 | (Inr _, d') \<Rightarrow> (Reply 200 resolved, d')))))))))"

definition h_CreateGameCommand ::
  "env \<Rightarrow> uuid \<Rightarrow> db \<Rightarrow> uuid option \<Rightarrow> GameCommand result \<Rightarrow> GameCommand response \<times> db" where
  "h_CreateGameCommand e newID d sid body =
     (case sid of None \<Rightarrow> (Refuse 400 ''invalid ID format'', d)
      | Some serverID \<Rightarrow> (case body of Inl _ \<Rightarrow> (Refuse 400 ''invalid request body'', d)
      | Inr cmd0 \<Rightarrow>
          (let cmd1 = cmd0\<lparr>g_ServerID := Some serverID, g_IsDefault := False\<rparr>;
               need = ConsoleCommandMinRole (g_CommandTemplate cmd1);
               cmd = (if RoleWeight (g_MinRole cmd1) < RoleWeight need then cmd1\<lparr>g_MinRole := need\<rparr> else cmd1)
           in case CreateCommand ''CreateCommand'' e newID d cmd of
                (Inl _, d') \<Rightarrow> (Refuse 500 ''failed to create command'', d')
              | (Inr cmd', d') \<Rightarrow> (Reply 201 cmd', d'))))"

definition h_DeleteGameCommand :: "env \<Rightarrow> db \<Rightarrow> uuid option \<Rightarrow> uuid option \<Rightarrow> string response \<times> db" where
  "h_DeleteGameCommand e d sid cid =
     (case sid of None \<Rightarrow> (Refuse 400 ''invalid ID format'', d)
      | Some serverID \<Rightarrow> (case cid of None \<Rightarrow> (Refuse 400 ''invalid ID format'', d)
      | Some cmdID \<Rightarrow> (case DeleteCommand e d serverID cmdID of
          (Inl err, d') \<Rightarrow>
            (if errors_is err ErrGameCommandNotFound then Refuse 404 ''command not found''
             else Refuse 500 ''failed to delete command'', d')
        | (Inr _, d') \<Rightarrow> (Reply 200 ''command deleted'', d'))))"

end
