(* ===== verification/CommandRules.thy ===== *)
theory CommandRules
  imports GameCommands
begin

text \<open>
  What game commands guarantee: parameters cannot add words or flags to a stored template,
  and what is executed is a stored command the caller may run on that server.
\<close>

section \<open>Words of a line\<close>

lemma span_all: "\<forall>x \<in> set xs. P x \<Longrightarrow> takeWhile P xs = xs" "\<forall>x \<in> set xs. P x \<Longrightarrow> dropWhile P xs = []"
  by auto

lemma Fields_append_space: "is_space c \<Longrightarrow> Fields (a @ c # b) = Fields a @ Fields b"
proof (induction a rule: Fields.induct)
  case (2 x xs)
  let ?w = "\<lambda>y. \<not> is_space y"
  show ?case
  proof (cases "\<forall>y \<in> set xs. ?w y")
    case True
    then have "takeWhile ?w (xs @ c # b) = xs" "dropWhile ?w (xs @ c # b) = c # b"
      using "2.prems" by (auto simp: takeWhile_append dropWhile_append)
    then show ?thesis using 2 by (simp add: span_all [OF True])
  next
    case False
    then have "takeWhile ?w (xs @ c # b) = takeWhile ?w xs" "dropWhile ?w (xs @ c # b) = dropWhile ?w xs @ c # b"
      by (auto simp: takeWhile_append dropWhile_append)
    then show ?thesis using 2 by auto
  qed
qed simp

lemma Fields_join: "Fields (join '' '' ws) = concat (map Fields ws)"
proof (induction ws rule: induct_list012)
  case (3 x y ys)
  have "Fields (x @ CHR '' '' # join '' '' (y # ys)) = Fields x @ Fields (join '' '' (y # ys))"
    by (rule Fields_append_space) (simp add: is_space_def byte_def)
  with 3 show ?case by simp
qed simp_all

lemma Fields_word: "s \<noteq> [] \<Longrightarrow> \<forall>c \<in> set s. \<not> is_space c \<Longrightarrow> Fields s = [s]"
proof (cases s)
  case (Cons c cs)
  assume "\<forall>c \<in> set s. \<not> is_space c"
  with Cons have c: "\<not> is_space c" and cs: "\<forall>x \<in> set cs. \<not> is_space x" by simp_all
  from c show ?thesis unfolding Cons Fields.simps span_all [OF cs] by simp
qed simp

lemma Fields_words: "w \<in> set (Fields s) \<Longrightarrow> w \<noteq> [] \<and> (\<forall>c \<in> set w. \<not> is_space c)"
proof (induction s rule: Fields.induct)
  case (2 c cs)
  show ?case
  proof (cases "is_space c")
    case True
    with "2.prems" have "w \<in> set (Fields cs)" by simp
    then show ?thesis by (rule "2.IH" (1) [OF True])
  next
    case False
    then have "w = c # takeWhile (\<lambda>x. \<not> is_space x) cs \<or> w \<in> set (Fields (dropWhile (\<lambda>x. \<not> is_space x) cs))"
      using "2.prems" by simp
    then show ?thesis
    proof
      assume w: "w = c # takeWhile (\<lambda>x. \<not> is_space x) cs"
      have "\<not> is_space x" if "x \<in> set (takeWhile (\<lambda>x. \<not> is_space x) cs)" for x
        using set_takeWhileD [OF that] by simp
      with False w show ?thesis by simp
    qed (rule "2.IH" (2) [OF False])
  qed
qed simp

section \<open>Filled templates\<close>

text \<open>The names a token asks for, in the order of the scan.\<close>

function slots :: "string \<Rightarrow> string list" where
  "slots tok =
     (case cut_at (CHR ''{'') tok of
        None \<Rightarrow> []
      | Some (pre, rest) \<Rightarrow>
          (case cut_at (CHR ''}'') rest of None \<Rightarrow> [] | Some (name, post) \<Rightarrow> name # slots post))"
  by pat_completeness auto
termination
  by (relation "measure length") (auto dest!: cut_at_SomeD)

declare slots.simps [simp del]

text \<open>A template whose placeholders are all single words, and one in which a placeholder is
  a token of its own.\<close>

definition no_free_text :: "string \<Rightarrow> bool" where
  "no_free_text tmpl = list_all (\<lambda>tok. list_all (\<lambda>n. n \<notin> set freeTextParams) (slots tok)) (Fields tmpl)"

definition standalone :: "string \<Rightarrow> bool" where
  "standalone tmpl = list_all (\<lambda>tok. CHR ''{'' \<notin> set tok \<or> (hd tok = CHR ''{'' \<and> last tok = CHR ''}''
     \<and> length (filter (\<lambda>c. c = CHR ''{'' \<or> c = CHR ''}'') tok) = 2)) (Fields tmpl)"

definition one_word :: "string \<Rightarrow> bool" where
  "one_word v = ((\<forall>c \<in> set v. \<not> is_space c) \<and> \<not> has_prefix v ''--'')"

lemma checkCommandValue_word: "checkCommandValue k v0 False = Inr v \<Longrightarrow> one_word v"
  by (auto simp: checkCommandValue_def one_word_def Let_def list_ex_iff split: if_splits)

lemma check_values_word:
  "check_values ps = Inr vs \<Longrightarrow> k \<notin> set freeTextParams \<Longrightarrow> map_of vs k = Some v \<Longrightarrow> one_word v"
proof (induction ps arbitrary: vs)
  case (Cons p ps)
  obtain k' v0 where p: "p = (k', v0)" by (cases p)
  with Cons.prems(1) obtain v' vs' where r: "checkCommandValue k' v0 (k' \<in> set freeTextParams) = Inr v'"
    "check_values ps = Inr vs'" "vs = (k', v') # vs'"
    by (auto simp: and_then_Inr)
  show ?case
  proof (cases "k = k'")
    case True
    then have "checkCommandValue k' v0 False = Inr v'" using r(1) Cons.prems(2) by simp
    then have "one_word v'" by (rule checkCommandValue_word)
    then show ?thesis using True Cons.prems(3) r(3) by simp
  next
    case False
    then show ?thesis using Cons.IH [OF r(2) Cons.prems(2)] Cons.prems(3) r(3) by simp
  qed
qed simp

lemma resolve_result:
  assumes "resolveCommandTemplate tmpl params world = Inr line"
  obtains vals where "line = join '' '' (fill_tokens vals (Fields tmpl))"
    "\<And>k. k \<notin> set freeTextParams \<Longrightarrow> one_word (value_of vals k)"
proof -
  from assms obtain vs w where r: "check_values params = Inr vs" "checkCommandValue ''world'' world False = Inr w"
    "line = join '' '' (fill_tokens (AList.update ''world'' w vs) (Fields tmpl))"
    by (auto simp: resolveCommandTemplate_def and_then_Inr)
  have "one_word (value_of (AList.update ''world'' w vs) k)" if "k \<notin> set freeTextParams" for k
    using checkCommandValue_word [OF r(2)] check_values_word [OF r(1) that]
    by (auto simp: value_of_def update_conv one_word_def has_prefix_def split: option.split)
  with r(3) that show ?thesis by blast
qed

lemma fill_plain: "CHR ''{'' \<notin> set tok \<Longrightarrow> fillPlaceholders vals tok = tok"
  by (simp add: fillPlaceholders.simps cut_at_def)

lemma fill_no_space:
  "\<forall>c \<in> set tok. \<not> is_space c \<Longrightarrow> \<forall>n \<in> set (slots tok). one_word (value_of vals n) \<Longrightarrow>
   \<forall>c \<in> set (fillPlaceholders vals tok). \<not> is_space c"
proof (induction vals tok rule: fillPlaceholders.induct)
  case (1 vals tok)
  show ?case
  proof (cases "\<exists>pre rest name post. cut_at (CHR ''{'') tok = Some (pre, rest) \<and> cut_at (CHR ''}'') rest = Some (name, post)")
    case False
    then have "fillPlaceholders vals tok = tok"
      by (subst fillPlaceholders.simps) (auto split: option.splits prod.splits)
    then show ?thesis using "1.prems" by simp
  next
    case True
    then obtain pre rest name post where c: "cut_at (CHR ''{'') tok = Some (pre, rest)" "cut_at (CHR ''}'') rest = Some (name, post)"
      by blast
    have t: "tok = pre @ CHR ''{'' # name @ CHR ''}'' # post"
      using cut_at_SomeD [OF c(1)] cut_at_SomeD [OF c(2)] by simp
    have f: "fillPlaceholders vals tok = pre @ value_of vals name @ fillPlaceholders vals post"
      "slots tok = name # slots post"
      by (subst fillPlaceholders.simps, simp add: c) (subst slots.simps, simp add: c)
    have "\<forall>c \<in> set (fillPlaceholders vals post). \<not> is_space c"
      using "1.IH" [OF c(1) refl c(2) refl] "1.prems" t f(2) by simp
    then show ?thesis using "1.prems" t f by (auto simp: one_word_def)
  qed
qed

lemma cut_at_first: "c \<notin> set a \<Longrightarrow> cut_at c (a @ c # b) = Some (a, b)"
  by (induction a) (auto simp: cut_at_def)

lemma fill_slot:
  assumes "CHR ''{'' \<notin> set nm" "CHR ''}'' \<notin> set nm"
  shows "fillPlaceholders vals (CHR ''{'' # nm @ [CHR ''}'']) = value_of vals nm"
    and "slots (CHR ''{'' # nm @ [CHR ''}'']) = [nm]"
proof -
  have c: "cut_at (CHR ''{'') (CHR ''{'' # nm @ [CHR ''}'']) = Some ([], nm @ [CHR ''}''])"
    "cut_at (CHR ''}'') (nm @ [CHR ''}'']) = Some (nm, [])" "cut_at (CHR ''{'') [] = None"
    using cut_at_first [of "CHR ''{''" "[]"] cut_at_first [of "CHR ''}''" nm "[]"] assms by (simp_all add: cut_at_def)
  show "fillPlaceholders vals (CHR ''{'' # nm @ [CHR ''}'']) = value_of vals nm"
    by (simp add: c fillPlaceholders.simps)
  show "slots (CHR ''{'' # nm @ [CHR ''}'']) = [nm]" by (simp add: c slots.simps)
qed

lemma standalone_cases:
  assumes "standalone tmpl" "tok \<in> set (Fields tmpl)"
  obtains "CHR ''{'' \<notin> set tok"
    | nm where "tok = CHR ''{'' # nm @ [CHR ''}'']" "CHR ''{'' \<notin> set nm" "CHR ''}'' \<notin> set nm"
proof (cases "CHR ''{'' \<in> set tok")
  case True
  then have t: "hd tok = CHR ''{''" "last tok = CHR ''}''" "length (filter (\<lambda>c. c = CHR ''{'' \<or> c = CHR ''}'') tok) = 2"
    using assms by (auto simp: standalone_def list_all_iff)
  from True t(1) obtain rest where r: "tok = CHR ''{'' # rest" by (cases tok) auto
  with t(2) have "rest \<noteq> []" by auto
  then obtain nm where "rest = nm @ [last rest]" by (metis append_butlast_last_id)
  with r t(2) have tok: "tok = CHR ''{'' # nm @ [CHR ''}'']" by (metis \<open>rest \<noteq> []\<close> last_ConsR)
  with t(3) have "filter (\<lambda>c. c = CHR ''{'' \<or> c = CHR ''}'') nm = []" by simp
  with tok that(2) show ?thesis by (auto simp: filter_empty_conv)
qed (use that(1) in blast)

lemma fill_tokens_length: "length (fill_tokens vals toks) \<le> length toks"
  by (induction vals toks rule: fill_tokens.induct) (auto simp: Let_def)

lemma fill_tokens_cases:
  "w \<in> set (fill_tokens vals toks) \<Longrightarrow> w \<in> set toks \<or> (\<exists>tok \<in> set toks. w = fillPlaceholders vals tok \<and> w \<noteq> '''')"
  by (induction vals toks rule: fill_tokens.induct) (auto simp: Let_def split: if_splits)

lemma fill_tokens_words:
  assumes "\<And>k. k \<notin> set freeTextParams \<Longrightarrow> one_word (value_of vals k)" "no_free_text tmpl"
    "w \<in> set (fill_tokens vals (Fields tmpl))"
  shows "w \<noteq> [] \<and> (\<forall>c \<in> set w. \<not> is_space c)"
  using fill_tokens_cases [OF assms(3)]
proof
  assume "w \<in> set (Fields tmpl)"
  then show ?thesis by (rule Fields_words)
next
  assume "\<exists>tok \<in> set (Fields tmpl). w = fillPlaceholders vals tok \<and> w \<noteq> ''''"
  then obtain tok where t: "tok \<in> set (Fields tmpl)" "w = fillPlaceholders vals tok" "w \<noteq> ''''" by blast
  have "\<forall>n \<in> set (slots tok). one_word (value_of vals n)"
    using assms(1,2) t(1) by (auto simp: no_free_text_def list_all_iff)
  moreover have "\<forall>c \<in> set tok. \<not> is_space c" using Fields_words [OF t(1)] by blast
  ultimately show ?thesis using fill_no_space [of tok vals] t(2,3) by blast
qed

lemma concat_words: "(\<And>w. w \<in> set ws \<Longrightarrow> w \<noteq> [] \<and> (\<forall>c \<in> set w. \<not> is_space c)) \<Longrightarrow> concat (map Fields ws) = ws"
proof (induction ws)
  case (Cons w ws)
  then have "Fields w = [w]" by (intro Fields_word) auto
  moreover have "concat (map Fields ws) = ws" by (rule Cons.IH, rule Cons.prems, simp)
  ultimately show ?case by simp
qed simp

lemma resolve_words:
  assumes "resolveCommandTemplate tmpl params world = Inr line" "no_free_text tmpl"
  obtains vals where "Fields line = fill_tokens vals (Fields tmpl)"
    "\<And>k. k \<notin> set freeTextParams \<Longrightarrow> one_word (value_of vals k)"
proof -
  obtain vals where v: "line = join '' '' (fill_tokens vals (Fields tmpl))"
    "\<And>k. k \<notin> set freeTextParams \<Longrightarrow> one_word (value_of vals k)"
    using resolve_result [OF assms(1)] by blast
  have "concat (map Fields (fill_tokens vals (Fields tmpl))) = fill_tokens vals (Fields tmpl)"
    using fill_tokens_words [OF v(2) assms(2)] by (intro concat_words) blast
  with v that show ?thesis by (simp add: Fields_join)
qed

lemma flag_of_template:
  assumes "\<And>k. k \<notin> set freeTextParams \<Longrightarrow> one_word (value_of vals k)" "no_free_text tmpl" "standalone tmpl"
    "w \<in> set (fill_tokens vals (Fields tmpl))" "has_prefix w ''--''"
  shows "w \<in> set (Fields tmpl)"
  using fill_tokens_cases [OF assms(4)]
proof
  assume "\<exists>tok \<in> set (Fields tmpl). w = fillPlaceholders vals tok \<and> w \<noteq> ''''"
  then obtain tok where t: "tok \<in> set (Fields tmpl)" "w = fillPlaceholders vals tok" by blast
  from assms(3) t(1) show ?thesis
  proof (cases rule: standalone_cases)
    case 1
    with t show ?thesis by (simp add: fill_plain)
  next
    case (2 nm)
    then have "slots tok = [nm]" "w = value_of vals nm" using t(2) fill_slot by simp_all
    then have "one_word w" using assms(1,2) t(1) by (auto simp: no_free_text_def list_all_iff)
    with assms(5) show ?thesis by (simp add: one_word_def)
  qed
qed

lemma fill_tokens_hd:
  assumes "toks \<noteq> []" "CHR ''{'' \<notin> set (hd toks)" "\<not> has_prefix (hd toks) ''--''" "hd toks \<noteq> ''''"
  obtains ws where "fill_tokens vals toks = hd toks # ws"
  using assms by (cases toks rule: remdups_adj.cases) (auto simp: fill_plain)

text \<open>[C31] The parameters of a game command fill the stored template and add nothing to it.  Whatever
  the caller sends, a verb that is written out stays the first word of the line.  Where the template
  has no free text parameter, the line has at most as many words as the template; where moreover each
  placeholder is a token of its own, every flag of the line is one the template has.\<close>

theorem template_shape_kept:
  assumes "resolveCommandTemplate tmpl params world = Inr line"
  shows "(Fields tmpl \<noteq> [] \<and> CHR ''{'' \<notin> set (hd (Fields tmpl)) \<and> \<not> has_prefix (hd (Fields tmpl)) ''--''
      \<longrightarrow> Fields line \<noteq> [] \<and> hd (Fields line) = hd (Fields tmpl))
    \<and> (no_free_text tmpl \<longrightarrow> length (Fields line) \<le> length (Fields tmpl))
    \<and> (no_free_text tmpl \<and> standalone tmpl
      \<longrightarrow> {w \<in> set (Fields line). has_prefix w ''--''} \<subseteq> set (Fields tmpl))"
proof (intro conjI impI)
  assume h: "Fields tmpl \<noteq> [] \<and> CHR ''{'' \<notin> set (hd (Fields tmpl)) \<and> \<not> has_prefix (hd (Fields tmpl)) ''--''"
  then have n: "hd (Fields tmpl) \<noteq> '''' \<and> (\<forall>c \<in> set (hd (Fields tmpl)). \<not> is_space c)"
    by (intro Fields_words [of _ tmpl]) simp
  obtain vals where v: "line = join '' '' (fill_tokens vals (Fields tmpl))"
    using resolve_result [OF assms] by blast
  obtain ws where w: "fill_tokens vals (Fields tmpl) = hd (Fields tmpl) # ws"
    using h n fill_tokens_hd by metis
  have "Fields line = concat (map Fields (hd (Fields tmpl) # ws))" by (simp only: v w Fields_join)
  moreover have "Fields (hd (Fields tmpl)) = [hd (Fields tmpl)]" using n by (intro Fields_word) blast+
  ultimately have "Fields line = hd (Fields tmpl) # concat (map Fields ws)" by simp
  then show "Fields line \<noteq> []" "hd (Fields line) = hd (Fields tmpl)" by simp_all
next
  assume "no_free_text tmpl"
  then obtain vals where "Fields line = fill_tokens vals (Fields tmpl)" using resolve_words [OF assms] by blast
  then show "length (Fields line) \<le> length (Fields tmpl)" by (simp add: fill_tokens_length)
next
  assume s: "no_free_text tmpl \<and> standalone tmpl"
  then obtain vals where "Fields line = fill_tokens vals (Fields tmpl)"
    "\<And>k. k \<notin> set freeTextParams \<Longrightarrow> one_word (value_of vals k)"
    using resolve_words [OF assms] by blast
  with s flag_of_template [of vals tmpl]
  show "{w \<in> set (Fields line). has_prefix w ''--''} \<subseteq> set (Fields tmpl)" by auto
qed

theorem template_shape_kept_witness:
  "\<exists>line. resolveCommandTemplate ''give {player} {item} --quantity {count}''
      [(''player'', ''steve''), (''item'', ''stone''), (''count'', '''')] '''' = Inr line
    \<and> line = ''give steve stone''
    \<and> hd (Fields line) = ''give'' \<and> length (Fields line) \<le> 5
    \<and> {w \<in> set (Fields line). has_prefix w ''--''} \<subseteq> {''give'', ''{player}'', ''{item}'', ''--quantity'', ''{count}''}"
proof -
  let ?t = "''give {player} {item} --quantity {count}''"
  let ?r = "resolveCommandTemplate ?t [(''player'', ''steve''), (''item'', ''stone''), (''count'', '''')] ''''"
  have r: "?r = Inr ''give steve stone''" by code_simp
  have f: "Fields ?t = [''give'', ''{player}'', ''{item}'', ''--quantity'', ''{count}'']" by code_simp
  have "no_free_text ?t" "standalone ?t" "\<not> has_prefix ''give'' ''--''" by code_simp+
  with template_shape_kept [OF r] r f show ?thesis by simp
qed

section \<open>Execution\<close>

lemma GetCommand_Inr:
  "GetCommand e d i = Inr cmd \<Longrightarrow> \<exists>g \<in> set (game_commands d). g_ID g = i \<and> g_ServerID cmd = g_ServerID g
     \<and> g_MinRole cmd = g_MinRole g \<and> g_CommandTemplate cmd = g_CommandTemplate g"
  by (auto simp: GetCommand_def and_then_Inr find_command_def read_command_def split: option.splits dest!: find_SomeD)

lemma ExecuteGameCommand_result:
  assumes "h_ExecuteGameCommand e i d caller sid body = (resp, d')" "d' \<noteq> d"
  obtains serverID cmdID params user cmd sv a world line r where "sid = Some serverID" "body = Inr (Some cmdID, params)"
    "caller = Some user" "GetCommand e d cmdID = Inr cmd" "g_ServerID cmd = None \<or> g_ServerID cmd = Some serverID"
    "GetServer e d serverID (u_ID user) (u_Role user) = Inr (sv, a)"
    "RoleWeight (g_MinRole cmd) \<le> RoleWeight (ConsoleRole user (sv_OwnerID sv))"
    "resolveCommandTemplate (g_CommandTemplate cmd) params world = Inr line" "line \<noteq> ''''"
    "CanRunConsoleCommand (ConsoleRole user (sv_OwnerID sv)) line"
    "SendConsoleCommand e i d serverID line = (r, d')"
    "resp = (case r of Inl _ \<Rightarrow> Refuse 500 ''failed to send command'' | Inr _ \<Rightarrow> Reply 200 line)"
  using assms unfolding h_ExecuteGameCommand_def Let_def
  by (auto split: option.splits sum.splits prod.splits if_splits)

text \<open>[C30] A game command reaches a console only for a server the caller may see, and only as a stored
  command: one of that server or a global one, which the caller's role on the server admits.
  What is queued is the stored template filled with the parameters, the caller's role admits
  its verb as well, and it is one line without control characters.  The answer shows that line.\<close>

theorem game_command_confined:
  assumes "h_ExecuteGameCommand e i d caller sid body = (resp, d')"
  shows "d' = d \<or> (\<exists>serverID cmdID params user g sv world line.
      sid = Some serverID \<and> body = Inr (Some cmdID, params) \<and> caller = Some user
    \<and> find_server d serverID = Some sv \<and> may_see d (u_ID user) (u_Role user) sv
    \<and> g \<in> set (game_commands d) \<and> g_ID g = cmdID \<and> (g_ServerID g = None \<or> g_ServerID g = Some serverID)
    \<and> RoleWeight (g_MinRole g) \<le> RoleWeight (ConsoleRole user (sv_OwnerID sv))
    \<and> resolveCommandTemplate (g_CommandTemplate g) params world = Inr line
    \<and> RoleWeight (ConsoleCommandMinRole line) \<le> RoleWeight (ConsoleRole user (sv_OwnerID sv))
    \<and> (\<forall>c \<in> set line. 32 \<le> byte c \<and> byte c \<noteq> 127) \<and> resp = Reply 200 line
    \<and> d' = d\<lparr>node_commands := node_commands d @ [new_command e i (sv_NodeID sv) serverID ''send_command'' (cmd_payload line)]\<rparr>)"
proof (cases "d' = d")
  case False
  from assms False obtain serverID cmdID params user cmd sv a world line r where
    *: "sid = Some serverID" "body = Inr (Some cmdID, params)" "caller = Some user"
    "g_ServerID cmd = None \<or> g_ServerID cmd = Some serverID"
    "RoleWeight (g_MinRole cmd) \<le> RoleWeight (ConsoleRole user (sv_OwnerID sv))"
    "resolveCommandTemplate (g_CommandTemplate cmd) params world = Inr line"
    "CanRunConsoleCommand (ConsoleRole user (sv_OwnerID sv)) line"
    "resp = (case r of Inl _ \<Rightarrow> Refuse 500 ''failed to send command'' | Inr _ \<Rightarrow> Reply 200 line)"
    and cmd: "GetCommand e d cmdID = Inr cmd"
    and sv: "GetServer e d serverID (u_ID user) (u_Role user) = Inr (sv, a)"
    and s: "SendConsoleCommand e i d serverID line = (r, d')"
    by (rule ExecuteGameCommand_result) blast
  from GetServer_Inr [OF sv] have sv': "find_server d serverID = Some sv" "may_see d (u_ID user) (u_Role user) sv" by auto
  from SendConsoleCommand_cases [OF s] False sv'(1) have s': "r = Inr ()" "\<not> has_control line"
    "d' = d\<lparr>node_commands := node_commands d @ [new_command e i (sv_NodeID sv) serverID ''send_command'' (cmd_payload line)]\<rparr>"
    by auto
  from GetCommand_Inr [OF cmd] obtain g where g: "g \<in> set (game_commands d)" "g_ID g = cmdID"
    "g_ServerID cmd = g_ServerID g" "g_MinRole cmd = g_MinRole g" "g_CommandTemplate cmd = g_CommandTemplate g" by blast
  have "resp = Reply 200 line" using *(8) s'(1) by simp
  moreover have "\<forall>c \<in> set line. 32 \<le> byte c \<and> byte c \<noteq> 127" using has_control_chars [OF s'(2)] by blast
  moreover have "RoleWeight (ConsoleCommandMinRole line) \<le> RoleWeight (ConsoleRole user (sv_OwnerID sv))"
    using *(7) by (simp add: CanRunConsoleCommand_def)
  ultimately show ?thesis using *(1-6) sv' g s'(3) by - (rule disjI2, intro exI conjI, simp_all)
qed simp

definition ex_commands :: db where
  "ex_commands = ex_fleet\<lparr>game_commands := [(defaultHytaleCommands 20 ! 7)\<lparr>g_ID := 90\<rparr>]\<rparr>"

theorem game_command_confined_witness:
  "\<exists>resp d'. h_ExecuteGameCommand (quiet 0) 50 ex_commands (Some ex_owner) (Some 20) (Inr (Some 90, [(''player'', '' steve'')]))
      = (resp, d') \<and> d' \<noteq> ex_commands \<and> resp = Reply 200 ''op add steve''"
proof -
  let ?h = "h_ExecuteGameCommand (quiet 0) 50 ex_commands (Some ex_owner) (Some 20) (Inr (Some 90, [(''player'', '' steve'')]))"
  obtain resp d' where h: "?h = (resp, d')" by fastforce
  have "length (node_commands (snd ?h)) = 1 \<and> length (node_commands ex_commands) = 0 \<and> fst ?h = Reply 200 ''op add steve''"
    by code_simp
  then have "d' \<noteq> ex_commands" "resp = Reply 200 ''op add steve''" by (auto simp: h)
  with game_command_confined [OF h] h show ?thesis by blast
qed

end
