(* ===== verification/Worlds.thy ===== *)
theory Worlds
  imports CommandRules
begin

text \<open>
  \<^verbatim>\<open>services/world_service.go\<close> and \<^verbatim>\<open>handlers/worlds.go\<close>: the worlds a node reports, the
  switch to another world and the deletion of one.  Both queue a command for the node in the
  transaction that changes the rows.
\<close>

section \<open>Service\<close>

abbreviation ErrWorldNotFound :: go_error where
  "ErrWorldNotFound \<equiv> New ''world not found''"
abbreviation ErrWorldActive :: go_error where
  "ErrWorldActive \<equiv> New ''cannot delete the active world; activate another world first''"
abbreviation ErrUnsafeWorldName :: go_error where
  "ErrUnsafeWorldName \<equiv> New ''unsafe world name''"

text \<open>The expression \<^verbatim>\<open>^[A-Za-z0-9_-]{1,64}$\<close>.\<close>

definition world_char :: "char \<Rightarrow> bool" where
  "world_char c = (is_upper c \<or> is_lower c \<or> is_digit c \<or> c = CHR ''_'' \<or> c = CHR ''-'')"

definition isSafeWorldName :: "string \<Rightarrow> bool" where
  "isSafeWorldName name = (1 \<le> length name \<and> length name \<le> 64 \<and> list_all world_char name)"

definition server_node :: "string \<Rightarrow> env \<Rightarrow> db \<Rightarrow> uuid \<Rightarrow> (uuid \<times> string) result" where
  "server_node label e d serverID =
     (case call e label (find_server d serverID) of
        Inl err \<Rightarrow> Inl (Wrap ''fetching server'' err)
      | Inr None \<Rightarrow> Inl ErrServerNotFound
      | Inr (Some sv) \<Rightarrow> Inr (sv_NodeID sv, sv_DataPath sv))"

record ScannedWorld =
  sw_Name :: string
  sw_SizeBytes :: int

definition world_key :: "World \<Rightarrow> uuid \<times> string" where
  "world_key w = (w_ServerID w, w_Name w)"

definition new_world :: "env \<Rightarrow> uuid \<Rightarrow> uuid \<Rightarrow> ScannedWorld \<Rightarrow> bool \<Rightarrow> World" where
  "new_world e newID serverID s active =
     \<lparr>w_ID = newID, w_ServerID = serverID, w_Name = sw_Name s, w_Generator = Some ''imported'', w_IsActive = active,
      w_SizeBytes = Some (sw_SizeBytes s), w_CreatedAt = now e, w_UpdatedAt = now e, w_Seed = None,
      w_Thumbnail = None, w_Metadata = JObj []\<rparr>"

text \<open>\<^verbatim>\<open>INSERT ... ON CONFLICT (server_id, name) DO UPDATE\<close>; \<open>active\<close> is absent in the statement
  that leaves the flag alone.\<close>

definition upsert_world ::
  "env \<Rightarrow> string \<Rightarrow> uuid \<Rightarrow> db \<Rightarrow> uuid \<Rightarrow> ScannedWorld \<Rightarrow> bool option \<Rightarrow> db result" where
  "upsert_world e label newID d serverID s active =
     (let k = (\<lambda>w. world_key w = (serverID, sw_Name s))
      in if fault e label \<or> find_server d serverID = None then Inl (Driver label)
         else if \<exists>w \<in> set (worlds d). k w
         then Inr (d\<lparr>worlds := update_where k (\<lambda>w. w\<lparr>w_SizeBytes := Some (sw_SizeBytes s),
                w_IsActive := (case active of None \<Rightarrow> w_IsActive w | Some a \<Rightarrow> a), w_UpdatedAt := now e\<rparr>) (worlds d)\<rparr>)
         else if \<exists>w \<in> set (worlds d). w_ID w = newID then Inl (Driver label)
         else Inr (d\<lparr>worlds := worlds d @ [new_world e newID serverID s (active = Some True)]\<rparr>))"

text \<open>The rows before a failing statement stay: the loop is no transaction.\<close>

fun sync_loop :: "env \<Rightarrow> (nat \<Rightarrow> uuid) \<Rightarrow> nat \<Rightarrow> uuid \<Rightarrow> string \<Rightarrow> ScannedWorld list \<Rightarrow> db \<Rightarrow> unit result \<times> db" where
  "sync_loop e ids k serverID active [] d = (Inr (), d)"
| "sync_loop e ids k serverID active (w # ws) d =
     (if \<not> isSafeWorldName (sw_Name w) then sync_loop e ids (Suc k) serverID active ws d
      else (case upsert_world e (''SyncWorlds.'' @ dec_nat k) (ids k) d serverID w
              (if active \<noteq> '''' then Some (sw_Name w = active) else None) of
          Inl err \<Rightarrow> (Inl (Wrap (''syncing world '' @ quoted (sw_Name w)) err), d)
        | Inr d' \<Rightarrow> sync_loop e ids (Suc k) serverID active ws d'))"

definition set_active_name :: "env \<Rightarrow> uuid \<Rightarrow> string \<Rightarrow> db \<Rightarrow> db" where
  "set_active_name e serverID name d =
     d\<lparr>servers := update_where (\<lambda>s. sv_ID s = serverID)
         (\<lambda>s. s\<lparr>sv_ActiveWorld := name, sv_UpdatedAt := now e\<rparr>) (servers d)\<rparr>"

definition SyncWorlds ::
  "env \<Rightarrow> (nat \<Rightarrow> uuid) \<Rightarrow> db \<Rightarrow> uuid \<Rightarrow> ScannedWorld list \<Rightarrow> string \<Rightarrow> unit result \<times> db" where
  "SyncWorlds e ids d serverID ws activeWorld =
     (let active = (if isSafeWorldName activeWorld then activeWorld else '''')
      in case sync_loop e ids 0 serverID active ws d of
           (Inl err, d') \<Rightarrow> (Inl err, d')
         | (Inr _, d') \<Rightarrow> (Inr (), if active \<noteq> '''' \<and> \<not> fault e ''SyncWorlds.server''
                              then set_active_name e serverID active d' else d'))"

definition ListWorlds :: "env \<Rightarrow> db \<Rightarrow> uuid \<Rightarrow> World list result" where
  "ListWorlds e d serverID =
     wrapping ''querying worlds'' (call e ''ListWorlds''
       (sort_key (\<lambda>w. - w_CreatedAt w) (filter (\<lambda>w. w_ServerID w = serverID) (worlds d))))"

definition find_world :: "db \<Rightarrow> uuid \<Rightarrow> uuid \<Rightarrow> World option" where
  "find_world d serverID worldID = List.find (\<lambda>w. w_ID w = worldID \<and> w_ServerID w = serverID) (worlds d)"

definition world_payload :: "string \<Rightarrow> string \<Rightarrow> json" where
  "world_payload dataPath world = JObj [(''data_path'', JStr dataPath), (''world'', JStr world)]"

definition activate_world :: "env \<Rightarrow> uuid \<Rightarrow> uuid \<Rightarrow> db \<Rightarrow> db" where
  "activate_world e serverID worldID d =
     (let off = update_where (\<lambda>w. w_ServerID w = serverID) (\<lambda>w. w\<lparr>w_IsActive := False, w_UpdatedAt := now e\<rparr>) (worlds d)
      in d\<lparr>worlds := update_where (\<lambda>w. w_ID w = worldID \<and> w_ServerID w = serverID)
             (\<lambda>w. w\<lparr>w_IsActive := True, w_UpdatedAt := now e\<rparr>) off\<rparr>)"

text \<open>Whatever fails inside the transaction, the old database is returned.\<close>

definition SetActiveWorld :: "env \<Rightarrow> uuid \<Rightarrow> db \<Rightarrow> uuid \<Rightarrow> uuid \<Rightarrow> unit result \<times> db" where
  "SetActiveWorld e newID d serverID worldID =
     (case server_node ''SetActiveWorld.server'' e d serverID of Inl err \<Rightarrow> (Inl err, d)
      | Inr (nodeID, dataPath) \<Rightarrow>
          if fault e ''SetActiveWorld.begin'' then (Inl (Wrap ''begin tx'' (Driver ''SetActiveWorld.begin'')), d)
          else (case call e ''SetActiveWorld.world'' (find_world d serverID worldID) of
              Inl err \<Rightarrow> (Inl (Wrap ''fetching world name'' err), d)
            | Inr None \<Rightarrow> (Inl ErrWorldNotFound, d)
            | Inr (Some w) \<Rightarrow>
                if \<not> isSafeWorldName (w_Name w) then (Inl (Note ErrUnsafeWorldName ('': '' @ quoted (w_Name w))), d)
                else if fault e ''SetActiveWorld.off'' then (Inl (Wrap ''deactivating worlds'' (Driver ''SetActiveWorld.off'')), d)
                else if fault e ''SetActiveWorld.on'' then (Inl (Wrap ''activating world'' (Driver ''SetActiveWorld.on'')), d)
                else if fault e ''SetActiveWorld.name''
                then (Inl (Wrap ''updating server active_world'' (Driver ''SetActiveWorld.name'')), d)
                else (case insert_command e ''SetActiveWorld.command'' newID
                          (set_active_name e serverID (w_Name w) (activate_world e serverID worldID d))
                          nodeID serverID ''set_active_world'' (world_payload dataPath (w_Name w)) of
                    Inl err \<Rightarrow> (Inl (Wrap ''enqueuing set_active_world'' err), d)
                  | Inr d' \<Rightarrow> if fault e ''SetActiveWorld.commit'' then (Inl (Driver ''SetActiveWorld.commit''), d)
                       else (Inr (), d'))))"

definition DeleteWorld :: "env \<Rightarrow> uuid \<Rightarrow> db \<Rightarrow> uuid \<Rightarrow> uuid \<Rightarrow> unit result \<times> db" where
  "DeleteWorld e newID d serverID worldID =
     (case server_node ''DeleteWorld.server'' e d serverID of Inl err \<Rightarrow> (Inl err, d)
      | Inr (nodeID, dataPath) \<Rightarrow>
          if fault e ''DeleteWorld.begin'' then (Inl (Wrap ''begin tx'' (Driver ''DeleteWorld.begin'')), d)
          else (case call e ''DeleteWorld.world'' (find_world d serverID worldID) of
              Inl err \<Rightarrow> (Inl (Wrap ''fetching world'' err), d)
            | Inr None \<Rightarrow> (Inl ErrWorldNotFound, d)
            | Inr (Some w) \<Rightarrow>
                if w_IsActive w then (Inl ErrWorldActive, d)
                else if \<not> isSafeWorldName (w_Name w) then (Inl (Note ErrUnsafeWorldName ('': '' @ quoted (w_Name w))), d)
                else if fault e ''DeleteWorld.row'' then (Inl (Wrap ''deleting world'' (Driver ''DeleteWorld.row'')), d)
                else (case insert_command e ''DeleteWorld.command'' newID
                          (d\<lparr>worlds := delete_where (\<lambda>w. w_ID w = worldID \<and> w_ServerID w = serverID) (worlds d)\<rparr>)
                          nodeID serverID ''delete_world'' (world_payload dataPath (w_Name w)) of
                    Inl err \<Rightarrow> (Inl (Wrap ''enqueuing delete_world'' err), d)
                  | Inr d' \<Rightarrow> if fault e ''DeleteWorld.commit'' then (Inl (Driver ''DeleteWorld.commit''), d)
                       else (Inr (), d'))))"

section \<open>Requests\<close>

definition h_DaemonWorldReport ::
  "env \<Rightarrow> (nat \<Rightarrow> uuid) \<Rightarrow> db \<Rightarrow> uuid option \<Rightarrow> uuid option \<Rightarrow> (ScannedWorld list \<times> string) result
     \<Rightarrow> unit response \<times> db" where
  "h_DaemonWorldReport e ids d authed param body =
     daemon_callback e d authed param (\<lambda>serverID.
       case body of Inl err \<Rightarrow> (Refuse 400 (Error err), d)
       | Inr (ws, active) \<Rightarrow> (case SyncWorlds e ids d serverID ws active of
           (Inl _, d') \<Rightarrow> (Refuse 500 ''could not sync worlds'', d')
         | (Inr _, d') \<Rightarrow> (Reply 204 (), d')))"

definition h_ListWorlds :: "env \<Rightarrow> db \<Rightarrow> uuid option \<Rightarrow> World list response" where
  "h_ListWorlds e d param =
     (case param of None \<Rightarrow> Refuse 400 ''invalid ID format''
      | Some serverID \<Rightarrow> (case ListWorlds e d serverID of
          Inl _ \<Rightarrow> Refuse 500 ''could not list worlds'' | Inr ws \<Rightarrow> Reply 200 ws))"

definition h_CreateWorld :: "unit response" where
  "h_CreateWorld = Refuse 501 (''TalePanel cannot create Hytale worlds. Worlds are generated by the Hytale ''
     @ ''server itself under universe/worlds and appear here automatically once the daemon ''
     @ ''finds them on disk.'')"

definition h_SetActiveWorld :: "env \<Rightarrow> uuid \<Rightarrow> db \<Rightarrow> uuid option \<Rightarrow> uuid option \<Rightarrow> string response \<times> db" where
  "h_SetActiveWorld e newID d param wparam =
     (case param of None \<Rightarrow> (Refuse 400 ''invalid ID format'', d)
      | Some serverID \<Rightarrow> (case wparam of None \<Rightarrow> (Refuse 400 ''invalid ID format'', d)
      | Some worldID \<Rightarrow> (case SetActiveWorld e newID d serverID worldID of
          (Inl err, d') \<Rightarrow>
            (if errors_is err ErrWorldNotFound then Refuse 404 ''world not found''
             else if errors_is err ErrServerNotFound then Refuse 404 ''server not found''
             else if errors_is err ErrUnsafeWorldName then Refuse 400 (Error err)
             else Refuse 500 ''could not set active world'', d')
        | (Inr _, d') \<Rightarrow> (Reply 200 ''Active world updated. Restart the server to load it.'', d'))))"

definition h_DeleteWorld :: "env \<Rightarrow> uuid \<Rightarrow> db \<Rightarrow> uuid option \<Rightarrow> uuid option \<Rightarrow> string response \<times> db" where
  "h_DeleteWorld e newID d param wparam =
     (case param of None \<Rightarrow> (Refuse 400 ''invalid ID format'', d)
      | Some serverID \<Rightarrow> (case wparam of None \<Rightarrow> (Refuse 400 ''invalid ID format'', d)
      | Some worldID \<Rightarrow> (case DeleteWorld e newID d serverID worldID of
          (Inl err, d') \<Rightarrow>
            (if errors_is err ErrWorldNotFound then Refuse 404 ''world not found''
             else if errors_is err ErrServerNotFound then Refuse 404 ''server not found''
             else if errors_is err ErrWorldActive then Refuse 409 (Error err)
             else if errors_is err ErrUnsafeWorldName then Refuse 400 (Error err)
             else Refuse 500 ''could not delete world'', d')
        | (Inr _, d') \<Rightarrow> (Reply 200 ''World deleted from the panel and from disk.'', d'))))"

end
