(* ===== verification/WorldRules.thy ===== *)
theory WorldRules
  imports Worlds
begin

text \<open>
  What the world operations guarantee: stored names are path components and console words,
  and a change of the rows goes together with the command that carries it out.
\<close>

section \<open>The invariant\<close>

definition worlds_inv :: "db \<Rightarrow> bool" where
  "worlds_inv d = ((\<forall>w \<in> set (worlds d). isSafeWorldName (w_Name w)) \<and> unique_on world_key (worlds d)
     \<and> unique_on w_ID (worlds d) \<and> (\<forall>s \<in> set (servers d). sv_ActiveWorld s = '''' \<or> isSafeWorldName (sv_ActiveWorld s)))"

text \<open>A change of rows that keeps ids, servers and names.\<close>

lemma worlds_inv_update:
  assumes "worlds_inv d" "\<And>w. w_ID (f w) = w_ID w" "\<And>w. w_ServerID (f w) = w_ServerID w" "\<And>w. w_Name (f w) = w_Name w"
  shows "worlds_inv (d\<lparr>worlds := update_where p f (worlds d)\<rparr>)"
  using assms by (auto simp: worlds_inv_def set_update_where unique_on_update_where world_key_def)

lemma worlds_inv_set_active_name:
  "worlds_inv d \<Longrightarrow> isSafeWorldName name \<Longrightarrow> worlds_inv (set_active_name e sid name d)"
  by (auto simp: worlds_inv_def set_active_name_def set_update_where)

lemma worlds_inv_commands: "worlds_inv (d\<lparr>node_commands := cs\<rparr>) = worlds_inv d"
  by (simp add: worlds_inv_def)

lemma worlds_inv_upsert:
  assumes "worlds_inv d" "isSafeWorldName (sw_Name s)" "upsert_world e l i d sid s a = Inr d'"
  shows "worlds_inv d'"
proof (cases "\<exists>w \<in> set (worlds d). world_key w = (sid, sw_Name s)")
  case True
  with assms(3) have "d' = d\<lparr>worlds := update_where (\<lambda>w. world_key w = (sid, sw_Name s)) (\<lambda>w. w\<lparr>w_SizeBytes := Some (sw_SizeBytes s),
      w_IsActive := (case a of None \<Rightarrow> w_IsActive w | Some b \<Rightarrow> b), w_UpdatedAt := now e\<rparr>) (worlds d)\<rparr>"
    by (auto simp: upsert_world_def Let_def split: if_splits)
  then show ?thesis using worlds_inv_update [OF assms(1)] by simp
next
  case False
  with assms(3) have d': "d' = d\<lparr>worlds := worlds d @ [new_world e i sid s (a = Some True)]\<rparr>"
    and fresh: "\<forall>w \<in> set (worlds d). w_ID w \<noteq> i" "\<forall>w \<in> set (worlds d). world_key w \<noteq> (sid, sw_Name s)"
    by (auto simp: upsert_world_def Let_def split: if_splits)
  have "world_key (new_world e i sid s b) = (sid, sw_Name s)" "w_ID (new_world e i sid s b) = i"
    "w_Name (new_world e i sid s b) = sw_Name s" for b
    by (simp_all add: new_world_def world_key_def)
  with assms(1,2) fresh show ?thesis by (auto simp: d' worlds_inv_def unique_on_append_row)
qed

lemma worlds_inv_sync_loop:
  "worlds_inv d \<Longrightarrow> worlds_inv (snd (sync_loop e ids k sid active ws d))"
proof (induction ws arbitrary: k d)
  case (Cons w ws)
  show ?case
  proof (cases "isSafeWorldName (sw_Name w)")
    case True
    show ?thesis
    proof (cases "upsert_world e (''SyncWorlds.'' @ dec_nat k) (ids k) d sid w (if active \<noteq> '''' then Some (sw_Name w = active) else None)")
      case (Inr d1)
      then have "worlds_inv d1" using worlds_inv_upsert [OF Cons.prems True] by blast
      with Inr True Cons.IH show ?thesis by simp
    qed (use True Cons.prems in simp)
  qed (use Cons in simp)
qed simp

lemma worlds_inv_SyncWorlds:
  assumes "worlds_inv d"
  shows "worlds_inv (snd (SyncWorlds e ids d sid ws active))"
proof -
  define a where "a = (if isSafeWorldName active then active else '''')"
  obtain r d1 where s: "sync_loop e ids 0 sid a ws d = (r, d1)" by fastforce
  then have "worlds_inv d1" using worlds_inv_sync_loop [OF assms, of e ids 0 sid a ws] by simp
  moreover have "a \<noteq> '''' \<Longrightarrow> isSafeWorldName a" by (auto simp: a_def split: if_splits)
  ultimately show ?thesis using s worlds_inv_set_active_name
    unfolding SyncWorlds_def Let_def a_def [symmetric] by (cases r) auto
qed

section \<open>Switching and deleting\<close>

lemma server_node_Inr:
  "server_node l e d sid = Inr (n, p) \<Longrightarrow> \<exists>sv. find_server d sid = Some sv \<and> n = sv_NodeID sv \<and> p = sv_DataPath sv"
  by (auto simp: server_node_def split: sum.splits option.splits)

lemma find_world_Some: "find_world d sid wid = Some w \<Longrightarrow> w \<in> set (worlds d) \<and> w_ID w = wid \<and> w_ServerID w = sid"
  by (auto simp: find_world_def dest!: find_SomeD)

lemma SetActiveWorld_result:
  assumes "SetActiveWorld e i d sid wid = (r, d')"
  shows "(\<exists>err. r = Inl err) \<and> d' = d \<or> r = Inr () \<and> (\<exists>sv w. find_server d sid = Some sv \<and> find_world d sid wid = Some w
    \<and> isSafeWorldName (w_Name w) \<and> d' = (set_active_name e sid (w_Name w) (activate_world e sid wid d))\<lparr>node_commands :=
        node_commands d @ [new_command e i (sv_NodeID sv) sid ''set_active_world'' (world_payload (sv_DataPath sv) (w_Name w))]\<rparr>)"
  using assms unfolding SetActiveWorld_def
  by (auto simp: insert_command_def set_active_name_def activate_world_def Let_def
      split: sum.splits option.splits if_splits prod.splits dest!: server_node_Inr)

lemma DeleteWorld_result:
  assumes "DeleteWorld e i d sid wid = (r, d')"
  shows "(\<exists>err. r = Inl err) \<and> d' = d \<or> r = Inr () \<and> (\<exists>sv w. find_server d sid = Some sv \<and> find_world d sid wid = Some w
    \<and> \<not> w_IsActive w \<and> isSafeWorldName (w_Name w)
    \<and> d' = d\<lparr>worlds := delete_where (\<lambda>w. w_ID w = wid \<and> w_ServerID w = sid) (worlds d), node_commands :=
        node_commands d @ [new_command e i (sv_NodeID sv) sid ''delete_world'' (world_payload (sv_DataPath sv) (w_Name w))]\<rparr>)"
  using assms unfolding DeleteWorld_def
  by (auto simp: insert_command_def split: sum.splits option.splits if_splits prod.splits dest!: server_node_Inr)

lemma worlds_inv_SetActiveWorld:
  assumes "worlds_inv d"
  shows "worlds_inv (snd (SetActiveWorld e i d sid wid))"
proof -
  have "worlds_inv (activate_world e sid wid d)"
    using worlds_inv_update [OF worlds_inv_update [OF assms, of "\<lambda>w. w\<lparr>w_IsActive := False, w_UpdatedAt := now e\<rparr>"
      "\<lambda>w. w_ServerID w = sid"], of "\<lambda>w. w\<lparr>w_IsActive := True, w_UpdatedAt := now e\<rparr>" "\<lambda>w. w_ID w = wid \<and> w_ServerID w = sid"]
    by (simp add: activate_world_def Let_def)
  with SetActiveWorld_result [of e i d sid wid] assms show ?thesis
    by (cases "SetActiveWorld e i d sid wid") (auto simp: worlds_inv_commands worlds_inv_set_active_name)
qed

lemma worlds_inv_DeleteWorld:
  assumes "worlds_inv d"
  shows "worlds_inv (snd (DeleteWorld e i d sid wid))"
proof -
  have "worlds_inv (d\<lparr>worlds := delete_where p (worlds d), node_commands := cs\<rparr>)" for p cs
    using assms by (auto simp: worlds_inv_def set_delete_where unique_on_delete_where)
  with DeleteWorld_result [of e i d sid wid] assms show ?thesis
    by (cases "DeleteWorld e i d sid wid") auto
qed

datatype world_op =
    WReport env "nat \<Rightarrow> uuid" "uuid option" "uuid option" "(ScannedWorld list \<times> string) result"
  | WActivate env uuid "uuid option" "uuid option"
  | WDelete env uuid "uuid option" "uuid option"

fun world_step :: "world_op \<Rightarrow> db \<Rightarrow> unit \<times> db" where
  "world_step (WReport e ids n p b) d = ((), snd (h_DaemonWorldReport e ids d n p b))"
| "world_step (WActivate e i p w) d = ((), snd (h_SetActiveWorld e i d p w))"
| "world_step (WDelete e i p w) d = ((), snd (h_DeleteWorld e i d p w))"

lemma h_DaemonWorldReport_db:
  "snd (h_DaemonWorldReport e ids d n p b) = d \<or>
   (\<exists>sid ws a. b = Inr (ws, a) \<and> snd (h_DaemonWorldReport e ids d n p b) = snd (SyncWorlds e ids d sid ws a))"
proof (cases "\<exists>sid. p = Some sid \<and> (\<exists>u. daemonOwnsServer e d n sid = Inr u)")
  case True
  then obtain sid u where s: "p = Some sid" "daemonOwnsServer e d n sid = Inr u" by blast
  show ?thesis
  proof (cases b)
    case (Inr x)
    obtain ws a where x: "x = (ws, a)" by fastforce
    obtain r d' where y: "SyncWorlds e ids d sid ws a = (r, d')" by fastforce
    show ?thesis using s Inr x y by (cases r) (auto simp: h_DaemonWorldReport_def daemon_callback_def intro: exI [of _ sid])
  qed (use s in \<open>simp add: h_DaemonWorldReport_def daemon_callback_def\<close>)
next
  case False
  then show ?thesis
    by (auto simp: h_DaemonWorldReport_def daemon_callback_def split: option.splits sum.splits prod.splits)
qed

lemma h_SetActiveWorld_db:
  "snd (h_SetActiveWorld e i d p w) = (case (p, w) of (Some sid, Some wid) \<Rightarrow> snd (SetActiveWorld e i d sid wid) | _ \<Rightarrow> d)"
  by (auto simp: h_SetActiveWorld_def split: option.splits prod.splits sum.splits)

lemma h_DeleteWorld_db:
  "snd (h_DeleteWorld e i d p w) = (case (p, w) of (Some sid, Some wid) \<Rightarrow> snd (DeleteWorld e i d sid wid) | _ \<Rightarrow> d)"
  by (auto simp: h_DeleteWorld_def split: option.splits prod.splits sum.splits)

interpretation wd: kept_invariant world_step worlds_inv
proof
  fix d a
  assume d: "worlds_inv d"
  show "worlds_inv (snd (world_step a d))"
  proof (cases a)
    case (WReport e ids n p b)
    with d h_DaemonWorldReport_db [of e ids d n p b] worlds_inv_SyncWorlds [OF d] show ?thesis by auto
  next
    case (WActivate e i p w)
    with d worlds_inv_SetActiveWorld [OF d] show ?thesis by (simp add: h_SetActiveWorld_db split: option.split)
  next
    case (WDelete e i p w)
    with d worlds_inv_DeleteWorld [OF d] show ?thesis by (simp add: h_DeleteWorld_db split: option.split)
  qed
qed

section \<open>Names\<close>

lemma world_char_facts:
  assumes "world_char c"
  shows "\<not> is_space c \<and> 32 \<le> byte c \<and> byte c < 127 \<and> c \<noteq> CHR ''/'' \<and> c \<noteq> CHR 0x5C \<and> c \<noteq> CHR ''.'' \<and> c \<noteq> CHR ''{''"
  using assms
  by (auto simp: world_char_def is_space_def is_upper_def is_lower_def is_digit_def byte_def)

lemma no_control: "(\<And>c. c \<in> set s \<Longrightarrow> 32 \<le> byte c \<and> byte c < 127) \<Longrightarrow> \<not> has_control s"
  by (induction s) fastforce+

lemma trim_no_space: "(\<And>c. c \<in> set s \<Longrightarrow> \<not> is_space c) \<Longrightarrow> trim_space s = s"
proof -
  assume a: "\<And>c. c \<in> set s \<Longrightarrow> \<not> is_space c"
  have "dropWhile is_space t = t" if "set t = set s" for t
    using a that by (cases t) auto
  then show ?thesis by (simp add: trim_space_def)
qed

lemma safe_world_value:
  assumes "isSafeWorldName name \<or> name = ''''" "\<not> has_prefix name ''--''"
  shows "checkCommandValue k name False = Inr name"
proof -
  have c: "\<not> is_space c \<and> 32 \<le> byte c \<and> byte c < 127" if "c \<in> set name" for c
    using assms(1) that world_char_facts by (auto simp: isSafeWorldName_def list_all_iff)
  then have "\<not> has_control name" "trim_space name = name" "\<not> list_ex is_space name"
    using no_control trim_no_space by (auto simp: list_ex_iff)
  with assms(2) show ?thesis by (simp add: checkCommandValue_def)
qed

text \<open>[C33] Names of worlds come from nodes.  Whatever nodes report and users switch to or delete, in any
  order and with any failures, every stored name is a single path component, within the 100
  characters of the column and unique on its server; and the active world of a server is put
  verbatim into a console command, unless it starts with two dashes.\<close>

theorem world_names_safe:
  assumes "worlds_inv d" "d' = run_of world_step ops d"
  shows "(\<forall>w \<in> set (worlds d'). w_Name w \<noteq> '''' \<and> length (w_Name w) \<le> 100
      \<and> set (w_Name w) \<inter> {CHR ''/'', CHR 0x5C, CHR ''.''} = {})
    \<and> unique_on world_key (worlds d')
    \<and> (\<forall>sv \<in> set (servers d'). \<not> has_prefix (sv_ActiveWorld sv) ''--''
        \<longrightarrow> checkCommandValue ''world'' (sv_ActiveWorld sv) False = Inr (sv_ActiveWorld sv))"
proof -
  have inv: "worlds_inv d'" using wd.inv_run [OF assms(1)] assms(2) by simp
  have "w_Name w \<noteq> '''' \<and> length (w_Name w) \<le> 100 \<and> set (w_Name w) \<inter> {CHR ''/'', CHR 0x5C, CHR ''.''} = {}"
    if "w \<in> set (worlds d')" for w
  proof -
    have s: "isSafeWorldName (w_Name w)" using inv that by (simp add: worlds_inv_def)
    then have "c \<noteq> CHR ''/'' \<and> c \<noteq> CHR 0x5C \<and> c \<noteq> CHR ''.''" if "c \<in> set (w_Name w)" for c
      using that world_char_facts [of c] by (simp add: isSafeWorldName_def list_all_iff)
    with s show ?thesis by (auto simp: isSafeWorldName_def)
  qed
  moreover have "checkCommandValue ''world'' (sv_ActiveWorld sv) False = Inr (sv_ActiveWorld sv)"
    if "sv \<in> set (servers d')" "\<not> has_prefix (sv_ActiveWorld sv) ''--''" for sv
    using inv that by (intro safe_world_value) (auto simp: worlds_inv_def)
  ultimately show ?thesis using inv by (simp add: worlds_inv_def)
qed

section \<open>Switches and deletions\<close>

definition activated :: "env \<Rightarrow> uuid \<Rightarrow> uuid \<Rightarrow> World \<Rightarrow> World" where
  "activated e sid wid w = (if w_ServerID w = sid then w\<lparr>w_IsActive := (w_ID w = wid), w_UpdatedAt := now e\<rparr> else w)"

lemma activate_world_map: "worlds (activate_world e sid wid d) = map (activated e sid wid) (worlds d)"
  by (simp add: activate_world_def Let_def update_where_def activated_def)

lemma activated_simps: "w_ServerID (activated e sid wid w) = w_ServerID w" "w_ID (activated e sid wid w) = w_ID w"
  "w_ServerID w = sid \<Longrightarrow> w_IsActive (activated e sid wid w) = (w_ID w = wid)"
  "w_ServerID w \<noteq> sid \<Longrightarrow> activated e sid wid w = w"
  by (simp_all add: activated_def)

lemma activated_others:
  "filter (\<lambda>x. w_ServerID x \<noteq> sid) (map (activated e sid wid) ws) = filter (\<lambda>x. w_ServerID x \<noteq> sid) ws"
  by (induction ws) (auto simp: activated_simps)

lemma SetActiveWorld_ok:
  assumes "SetActiveWorld e i d sid wid = (r, d')" "is_ok r"
  shows "\<exists>sv w. find_server d sid = Some sv \<and> find_world d sid wid = Some w \<and> isSafeWorldName (w_Name w)
      \<and> (\<forall>x \<in> set (worlds d'). w_ServerID x = sid \<longrightarrow> (w_IsActive x \<longleftrightarrow> w_ID x = wid))
      \<and> find_server d' sid = Some (sv\<lparr>sv_ActiveWorld := w_Name w, sv_UpdatedAt := now e\<rparr>)
      \<and> filter (\<lambda>x. w_ServerID x \<noteq> sid) (worlds d') = filter (\<lambda>x. w_ServerID x \<noteq> sid) (worlds d)
      \<and> node_commands d' = node_commands d
          @ [new_command e i (sv_NodeID sv) sid ''set_active_world'' (world_payload (sv_DataPath sv) (w_Name w))]"
proof -
  from SetActiveWorld_result [OF assms(1)] assms(2) obtain sv w where s: "find_server d sid = Some sv" "find_world d sid wid = Some w"
    "isSafeWorldName (w_Name w)" and d': "d' = (set_active_name e sid (w_Name w) (activate_world e sid wid d))\<lparr>node_commands :=
        node_commands d @ [new_command e i (sv_NodeID sv) sid ''set_active_world'' (world_payload (sv_DataPath sv) (w_Name w))]\<rparr>"
    by auto
  have w: "worlds d' = map (activated e sid wid) (worlds d)" by (simp add: d' set_active_name_def activate_world_map)
  have "find_server d' sid = Some (sv\<lparr>sv_ActiveWorld := w_Name w, sv_UpdatedAt := now e\<rparr>)"
    using s(1) by (simp add: d' set_active_name_def activate_world_def find_server_def Let_def find_update_same)
  moreover have "\<forall>x \<in> set (worlds d'). w_ServerID x = sid \<longrightarrow> (w_IsActive x \<longleftrightarrow> w_ID x = wid)"
    by (auto simp: w activated_simps)
  ultimately show ?thesis using s d' activated_others [of sid e wid "worlds d"]
    unfolding w by (intro exI [of _ sv] exI [of _ w]) simp
qed

lemma DeleteWorld_ok:
  assumes "unique_on w_ID (worlds d)" "DeleteWorld e j d sid wid = (r, d')" "is_ok r"
  shows "\<exists>sv w. find_server d sid = Some sv \<and> find_world d sid wid = Some w \<and> isSafeWorldName (w_Name w)
      \<and> \<not> w_IsActive w \<and> worlds d' = filter (\<lambda>x. x \<noteq> w) (worlds d)
      \<and> node_commands d' = node_commands d
          @ [new_command e j (sv_NodeID sv) sid ''delete_world'' (world_payload (sv_DataPath sv) (w_Name w))]"
proof -
  from DeleteWorld_result [OF assms(2)] assms(3) obtain sv w where s: "find_server d sid = Some sv" "find_world d sid wid = Some w"
    "\<not> w_IsActive w" "isSafeWorldName (w_Name w)"
    and d': "d' = d\<lparr>worlds := delete_where (\<lambda>w. w_ID w = wid \<and> w_ServerID w = sid) (worlds d), node_commands :=
        node_commands d @ [new_command e j (sv_NodeID sv) sid ''delete_world'' (world_payload (sv_DataPath sv) (w_Name w))]\<rparr>"
    by auto
  have "x = w \<longleftrightarrow> w_ID x = wid \<and> w_ServerID x = sid" if "x \<in> set (worlds d)" for x
    using that find_world_Some [OF s(2)] unique_on_eq [OF assms(1), of x w] by auto
  then have "worlds d' = filter (\<lambda>x. x \<noteq> w) (worlds d)" by (auto simp: d' delete_where_def intro!: filter_cong)
  with s d' show ?thesis by auto
qed

text \<open>A world is switched or deleted only together with the command that makes the node do it.  A
  switch leaves exactly the chosen world of that server active, named on the server, and every
  world of other servers as it was; a deletion removes exactly that row, which was not the active
  one.  The queued command goes to the node of the server, with the data path of the server and a
  safe name.  In every other case nothing changes and the answer is an error.\<close>

theorem world_changes_dispatched:
  assumes "unique_on w_ID (worlds d)" "SetActiveWorld e i d sid wid = (r, d')" "DeleteWorld e2 j d sid wid = (r2, d2)"
  shows "(if is_ok r then \<exists>sv w. find_server d sid = Some sv \<and> find_world d sid wid = Some w \<and> isSafeWorldName (w_Name w)
      \<and> (\<forall>x \<in> set (worlds d'). w_ServerID x = sid \<longrightarrow> (w_IsActive x \<longleftrightarrow> w_ID x = wid))
      \<and> find_server d' sid = Some (sv\<lparr>sv_ActiveWorld := w_Name w, sv_UpdatedAt := now e\<rparr>)
      \<and> filter (\<lambda>x. w_ServerID x \<noteq> sid) (worlds d') = filter (\<lambda>x. w_ServerID x \<noteq> sid) (worlds d)
      \<and> node_commands d' = node_commands d
          @ [new_command e i (sv_NodeID sv) sid ''set_active_world'' (world_payload (sv_DataPath sv) (w_Name w))]
    else d' = d)
   \<and> (if is_ok r2 then \<exists>sv w. find_server d sid = Some sv \<and> find_world d sid wid = Some w \<and> isSafeWorldName (w_Name w)
      \<and> \<not> w_IsActive w \<and> worlds d2 = filter (\<lambda>x. x \<noteq> w) (worlds d)
      \<and> node_commands d2 = node_commands d
          @ [new_command e2 j (sv_NodeID sv) sid ''delete_world'' (world_payload (sv_DataPath sv) (w_Name w))]
    else d2 = d)"
proof -
  have rest: "\<not> is_ok r \<Longrightarrow> d' = d" "\<not> is_ok r2 \<Longrightarrow> d2 = d"
    using SetActiveWorld_result [OF assms(2)] DeleteWorld_result [OF assms(3)] by (metis is_ok_simps(1))+
  show ?thesis
    by (intro conjI; split if_split; intro conjI impI)
      (rule SetActiveWorld_ok [OF assms(2)] rest DeleteWorld_ok [OF assms(1,3)], assumption)+
qed

section \<open>Witnesses\<close>

definition ex_worlds :: db where
  "ex_worlds = run_of world_step
     [WReport (quiet 1) (\<lambda>k. 70 + k) (Some 10) (Some 20)
        (Inr ([\<lparr>sw_Name = ''Orbis'', sw_SizeBytes = 5\<rparr>, \<lparr>sw_Name = ''../etc'', sw_SizeBytes = 1\<rparr>,
               \<lparr>sw_Name = ''arena_2'', sw_SizeBytes = 7\<rparr>], ''Orbis''))] ex_fleet"

theorem world_names_safe_witness:
  "worlds_inv ex_fleet \<and> map w_Name (worlds ex_worlds) = [''Orbis'', ''arena_2''] \<and> unique_on world_key (worlds ex_worlds)"
proof -
  have i: "worlds_inv ex_fleet" by (simp add: worlds_inv_def ex_fleet_simps unique_on_def)
  have "map w_Name (worlds ex_worlds) = [''Orbis'', ''arena_2'']" by code_simp
  with i world_names_safe [OF i ex_worlds_def] show ?thesis by blast
qed

theorem world_changes_dispatched_witness:
  "is_ok (fst (SetActiveWorld (quiet 2) 50 ex_worlds 20 72)) \<and> is_ok (fst (DeleteWorld (quiet 2) 51 ex_worlds 20 72))
    \<and> (\<exists>w. find_world ex_worlds 20 72 = Some w
        \<and> worlds (snd (DeleteWorld (quiet 2) 51 ex_worlds 20 72)) = filter (\<lambda>x. x \<noteq> w) (worlds ex_worlds))"
proof -
  let ?s = "SetActiveWorld (quiet 2) 50 ex_worlds 20 72" and ?t = "DeleteWorld (quiet 2) 51 ex_worlds 20 72"
  have u: "unique_on w_ID (worlds ex_worlds)" by code_simp
  have ok: "is_ok (fst ?s)" "is_ok (fst ?t)" by code_simp+
  obtain r d' r2 d2 where e: "?s = (r, d')" "?t = (r2, d2)" by fastforce
  from world_changes_dispatched [OF u e] ok e show ?thesis by auto
qed

text \<open>A report that names another active world leaves the flag of a world it does not list: both
  rows are then active.\<close>

lemma stale_active_world:
  "map (\<lambda>w. (w_Name w, w_IsActive w)) (worlds (snd (world_step (WReport (quiet 3) (\<lambda>k. 80 + k) (Some 10) (Some 20)
     (Inr ([\<lparr>sw_Name = ''arena_2'', sw_SizeBytes = 7\<rparr>], ''arena_2''))) ex_worlds)))
   = [(''Orbis'', True), (''arena_2'', True)]"
  by code_simp

end
