(* ===== verification/Mods.thy ===== *)
theory Mods
  imports WorldRules
begin

text \<open>
  \<^verbatim>\<open>services/mod_service.go\<close>, \<^verbatim>\<open>handlers/mods.go\<close> (without the CurseForge proxy) and
  \<^verbatim>\<open>handlers/plugins.go\<close>: the mod files of servers, their installation, removal, switching on and
  off, upload, and the reports of the plugin scanner of a node.
\<close>

section \<open>Download addresses\<close>

abbreviation ErrModNotFound :: go_error where
  "ErrModNotFound \<equiv> New ''mod not found''"
abbreviation ErrModURLNotAllowed :: go_error where
  "ErrModURLNotAllowed \<equiv> New ''mod download URL not allowed''"

text \<open>The grammar of \<^verbatim>\<open>net/url\<close> is an argument, as for webhooks; a download also reads the host
  with its port and the decoded path.\<close>

record DownloadURL = URL +
  url_Host :: string
  url_Path :: string

definition curseForgeCDNHosts :: "string list" where
  "curseForgeCDNHosts = [''edge.forgecdn.net'', ''mediafilez.forgecdn.net'', ''media.forgecdn.net'']"

definition ValidateModDownloadURL :: "(string \<Rightarrow> DownloadURL option) \<Rightarrow> string \<Rightarrow> string \<Rightarrow> unit result" where
  "ValidateModDownloadURL parse raw callerRole =
     (case parse raw of
        None \<Rightarrow> Inl (Note ErrModURLNotAllowed '': must be an https URL'')
      | Some u \<Rightarrow>
          if url_Scheme u \<noteq> ''https'' \<or> url_Host u = '''' \<or> url_HasUser u
          then Inl (Note ErrModURLNotAllowed '': must be an https URL'')
          else if RoleWeight callerRole \<ge> RoleWeight RoleAdmin then Inr ()
          else if url_Port u \<noteq> '''' \<and> url_Port u \<noteq> ''443''
          then Inl (Note ErrModURLNotAllowed '': only CurseForge downloads are allowed'')
          else if to_lower (url_Hostname u) \<notin> set curseForgeCDNHosts
          then Inl (Note ErrModURLNotAllowed '': only CurseForge downloads (forgecdn.net) are allowed'')
          else Inr ())"

section \<open>Rows\<close>

text \<open>\<^verbatim>\<open>nil\<close> slices, which marshal to \<^verbatim>\<open>null\<close>, are \<open>None\<close>.\<close>

record DetectedPlugin =
  dp_Filename :: string
  dp_PluginName :: string
  dp_Version :: string
  dp_Author :: string
  dp_Description :: string
  dp_Commands :: "string list option"
  dp_ConfigFiles :: "string list option"
  dp_FileHash :: string
  dp_Enabled :: bool
  dp_SourceDir :: string

definition modDirs :: "string list" where
  "modDirs = [''mods'', ''plugins'']"

definition normalizeModDir :: "string \<Rightarrow> string" where
  "normalizeModDir dir = (if dir \<in> set modDirs then dir else ''mods'')"

record InstallModRequest =
  im_Filename :: string
  im_DisplayName :: string
  im_Version :: string
  im_DownloadURL :: string
  im_CFModID :: "int option"
  im_CFFileID :: "int option"

definition mod_key :: "ServerMod \<Rightarrow> uuid \<times> string \<times> string" where
  "mod_key m = (sm_ServerID m, sm_ModDir m, sm_Filename m)"

text \<open>A row with the defaults of the columns an \<^verbatim>\<open>INSERT\<close> does not name.\<close>

definition new_mod :: "env \<Rightarrow> uuid \<Rightarrow> uuid \<Rightarrow> string \<Rightarrow> string \<Rightarrow> ServerMod" where
  "new_mod e newID serverID dir filename =
     \<lparr>sm_ID = newID, sm_ServerID = serverID, sm_Filename = filename, sm_DisplayName = '''', sm_Version = '''',
      sm_DownloadURL = '''', sm_CFModID = None, sm_CFFileID = None, sm_InstalledAt = now e, sm_Source = ''manual'',
      sm_PluginName = None, sm_Author = None, sm_Description = None, sm_FileHash = None, sm_LastScannedAt = None,
      sm_IsPresent = True, sm_ModDir = dir, sm_DetectedCommands = JArr [], sm_ConfigFiles = JArr []\<rparr>"

text \<open>\<^verbatim>\<open>INSERT INTO server_mods ... ON CONFLICT (server_id, mod_dir, filename) DO UPDATE\<close>: \<open>upd\<close> gives
  the updated columns, \<open>None\<close> is the statement without the conflict clause.  The row is returned.\<close>

definition upsert_mod ::
  "env \<Rightarrow> string \<Rightarrow> db \<Rightarrow> ServerMod \<Rightarrow> (ServerMod \<Rightarrow> ServerMod) option \<Rightarrow> (ServerMod \<times> db) result" where
  "upsert_mod e label d m upd =
     (if fault e label \<or> find_server d (sm_ServerID m) = None \<or> sm_ModDir m \<notin> set modDirs
         \<or> (case sm_CFModID m of None \<Rightarrow> False | Some i \<Rightarrow> \<not> int32 i)
         \<or> (case sm_CFFileID m of None \<Rightarrow> False | Some i \<Rightarrow> \<not> int32 i)
      then Inl (Driver label)
      else (case (List.find (\<lambda>x. mod_key x = mod_key m) (server_mods d), upd) of
          (Some old, Some f) \<Rightarrow>
            Inr (f old, d\<lparr>server_mods := update_where (\<lambda>x. mod_key x = mod_key m) f (server_mods d)\<rparr>)
        | (Some _, None) \<Rightarrow> Inl (Driver label)
        | (None, _) \<Rightarrow> if \<exists>x \<in> set (server_mods d). sm_ID x = sm_ID m then Inl (Driver label)
            else Inr (m, d\<lparr>server_mods := server_mods d @ [m]\<rparr>)))"

section \<open>Service\<close>

definition ListMods :: "env \<Rightarrow> db \<Rightarrow> uuid \<Rightarrow> ServerMod list result" where
  "ListMods e d serverID =
     wrapping ''querying mods'' (call e ''ListMods''
       (sort_key (\<lambda>m. - sm_InstalledAt m) (filter (\<lambda>m. sm_ServerID m = serverID) (server_mods d))))"

definition install_payload :: "string \<Rightarrow> string \<Rightarrow> string \<Rightarrow> json" where
  "install_payload dataPath filename url =
     JObj [(''data_path'', JStr dataPath), (''download_url'', JStr url), (''filename'', JStr filename)]"

definition remove_payload :: "string \<Rightarrow> string \<Rightarrow> json" where
  "remove_payload dataPath filename = JObj [(''data_path'', JStr dataPath), (''filename'', JStr filename)]"

definition InstallMod ::
  "(string \<Rightarrow> DownloadURL option) \<Rightarrow> env \<Rightarrow> uuid \<Rightarrow> uuid \<Rightarrow> db \<Rightarrow> string \<Rightarrow> uuid \<Rightarrow> InstallModRequest
     \<Rightarrow> ServerMod result \<times> db" where
  "InstallMod parse e modID cmdID d callerRole serverID req =
     (case ValidateModDownloadURL parse (im_DownloadURL req) callerRole of Inl err \<Rightarrow> (Inl err, d)
      | Inr _ \<Rightarrow> (case server_node ''InstallMod.server'' e d serverID of Inl err \<Rightarrow> (Inl err, d)
      | Inr (nodeID, dataPath) \<Rightarrow>
          (let m = (new_mod e modID serverID ''mods'' (im_Filename req))\<lparr>sm_DisplayName := im_DisplayName req,
                 sm_Version := im_Version req, sm_DownloadURL := im_DownloadURL req, sm_CFModID := im_CFModID req,
                 sm_CFFileID := im_CFFileID req\<rparr>;
               upd = (\<lambda>x. x\<lparr>sm_DisplayName := im_DisplayName req, sm_Version := im_Version req,
                 sm_DownloadURL := im_DownloadURL req, sm_CFModID := im_CFModID req, sm_CFFileID := im_CFFileID req,
                 sm_InstalledAt := now e\<rparr>)
           in case upsert_mod e ''InstallMod.row'' d m (Some upd) of
                Inl err \<Rightarrow> (Inl (Wrap ''inserting mod'' err), d)
              | Inr (row, d1) \<Rightarrow>
                  (case insert_command e ''InstallMod.command'' cmdID d1 nodeID serverID ''install_mod''
                      (install_payload dataPath (im_Filename req) (im_DownloadURL req)) of
                     Inl err \<Rightarrow> (Inl (Wrap ''enqueuing install command'' err), d1)
                   | Inr d2 \<Rightarrow> (Inr (row\<lparr>sm_Source := '''', sm_PluginName := None, sm_Author := None,
                       sm_Description := None, sm_FileHash := None, sm_LastScannedAt := None, sm_IsPresent := False,
                       sm_ModDir := '''', sm_DetectedCommands := JNull, sm_ConfigFiles := JNull\<rparr>), d2)))))"

definition RemoveMod :: "env \<Rightarrow> uuid \<Rightarrow> db \<Rightarrow> uuid \<Rightarrow> string \<Rightarrow> unit result \<times> db" where
  "RemoveMod e cmdID d serverID filename =
     (case server_node ''RemoveMod.server'' e d serverID of Inl err \<Rightarrow> (Inl err, d)
      | Inr (nodeID, dataPath) \<Rightarrow>
          (let p = (\<lambda>m. sm_ServerID m = serverID \<and> sm_Filename m = filename)
           in if fault e ''RemoveMod.row'' then (Inl (Wrap ''deleting mod'' (Driver ''RemoveMod.row'')), d)
              else if rows_affected p (server_mods d) = 0 then (Inl ErrModNotFound, d)
              else (let d1 = d\<lparr>server_mods := delete_where p (server_mods d)\<rparr>
                    in case insert_command e ''RemoveMod.command'' cmdID d1 nodeID serverID ''remove_mod''
                         (remove_payload dataPath filename) of
                         Inl err \<Rightarrow> (Inl (Wrap ''enqueuing remove command'' err), d1)
                       | Inr d2 \<Rightarrow> (Inr (), d2))))"

text \<open>\<^verbatim>\<open>UPDATE ... RETURNING\<close>: every matching row is set, the directory of the first is read.\<close>

definition ToggleMod :: "env \<Rightarrow> uuid \<Rightarrow> db \<Rightarrow> uuid \<Rightarrow> string \<Rightarrow> bool \<Rightarrow> unit result \<times> db" where
  "ToggleMod e cmdID d serverID filename enabled =
     (case server_node ''ToggleMod.server'' e d serverID of
        Inl err \<Rightarrow> (Inl (if err = ErrServerNotFound then err
           else Wrap ''toggle mod: fetch server'' (Driver ''ToggleMod.server'')), d)
      | Inr (nodeID, dataPath) \<Rightarrow>
          (let p = (\<lambda>m. sm_ServerID m = serverID \<and> sm_Filename m = filename)
           in if fault e ''ToggleMod.row'' then (Inl (Wrap ''toggle mod: update'' (Driver ''ToggleMod.row'')), d)
              else (case List.find p (server_mods d) of None \<Rightarrow> (Inl ErrModNotFound, d)
              | Some m \<Rightarrow>
                  (let d1 = d\<lparr>server_mods := update_where p (\<lambda>m. m\<lparr>sm_IsPresent := enabled\<rparr>) (server_mods d)\<rparr>;
                       cmdType = (if enabled then ''enable_mod'' else ''disable_mod'')
                   in case insert_command e ''ToggleMod.command'' cmdID d1 nodeID serverID cmdType
                        (JObj [(''data_path'', JStr dataPath), (''dir'', JStr (normalizeModDir (sm_ModDir m))),
                               (''filename'', JStr filename)]) of
                        Inl err \<Rightarrow> (Inl (Wrap (''toggle mod: enqueue '' @ cmdType) err), d1)
                      | Inr d2 \<Rightarrow> (Inr (), d2)))))"

record ModVersionSwitchRequest =
  vs_FileID :: int
  vs_FileURL :: string
  vs_DisplayName :: string
  vs_Version :: string

definition SwitchModVersion ::
  "(string \<Rightarrow> DownloadURL option) \<Rightarrow> env \<Rightarrow> uuid \<Rightarrow> uuid \<Rightarrow> uuid \<Rightarrow> db \<Rightarrow> string \<Rightarrow> uuid \<Rightarrow> string \<Rightarrow> ModVersionSwitchRequest
     \<Rightarrow> unit result \<times> db" where
  "SwitchModVersion parse e modID cmdID1 cmdID2 d callerRole serverID oldFilename req =
     (case ValidateModDownloadURL parse (vs_FileURL req) callerRole of Inl err \<Rightarrow> (Inl err, d)
      | Inr _ \<Rightarrow> (case call e ''SwitchModVersion.server'' (find_server d serverID) of
          Inl err \<Rightarrow> (Inl (Wrap ''switch mod version: fetch server'' err), d)
        | Inr None \<Rightarrow> (Inl (Wrap ''switch mod version: fetch server'' ErrNoRows), d)
        | Inr (Some sv) \<Rightarrow>
            if fault e ''SwitchModVersion.begin''
            then (Inl (Wrap ''switch mod version: begin tx'' (Driver ''SwitchModVersion.begin'')), d)
            else if fault e ''SwitchModVersion.delete''
            then (Inl (Wrap ''switch mod version: delete old'' (Driver ''SwitchModVersion.delete'')), d)
            else
              (let d1 = d\<lparr>server_mods := delete_where (\<lambda>m. sm_ServerID m = serverID \<and> sm_Filename m = oldFilename) (server_mods d)\<rparr>;
                   newFilename = path_base (case parse (vs_FileURL req) of None \<Rightarrow> '''' | Some u \<Rightarrow> url_Path u);
                   m = (new_mod e modID serverID ''mods'' newFilename)\<lparr>sm_DisplayName := vs_DisplayName req,
                     sm_Version := vs_Version req, sm_DownloadURL := vs_FileURL req, sm_CFFileID := Some (vs_FileID req),
                     sm_Source := ''curseforge''\<rparr>
               in case insert_command e ''SwitchModVersion.remove'' cmdID1 d1 (sv_NodeID sv) serverID ''remove_mod''
                      (remove_payload (sv_DataPath sv) oldFilename) of
                    Inl err \<Rightarrow> (Inl (Wrap ''switch mod version: enqueue remove'' err), d)
                  | Inr d2 \<Rightarrow> (case upsert_mod e ''SwitchModVersion.row'' d2 m None of
                      Inl err \<Rightarrow> (Inl (Wrap ''switch mod version: insert new mod'' err), d)
                    | Inr (_, d3) \<Rightarrow>
                        (case insert_command e ''SwitchModVersion.install'' cmdID2 d3 (sv_NodeID sv) serverID ''install_mod''
                            (install_payload (sv_DataPath sv) newFilename (vs_FileURL req)) of
                           Inl err \<Rightarrow> (Inl (Wrap ''switch mod version: enqueue install'' err), d)
                         | Inr d4 \<Rightarrow> if fault e ''SwitchModVersion.commit'' then (Inl (Driver ''SwitchModVersion.commit''), d)
                             else (Inr (), d4))))))"

definition ServerNode :: "env \<Rightarrow> db \<Rightarrow> uuid \<Rightarrow> uuid result" where
  "ServerNode e d serverID =
     (case call e ''ServerNode'' (find_server d serverID) of
        Inl err \<Rightarrow> Inl (Wrap ''fetching server node'' err)
      | Inr None \<Rightarrow> Inl ErrServerNotFound
      | Inr (Some sv) \<Rightarrow> Inr (sv_NodeID sv))"

definition RecordUpload :: "env \<Rightarrow> uuid \<Rightarrow> db \<Rightarrow> uuid \<Rightarrow> string \<Rightarrow> string \<Rightarrow> unit result \<times> db" where
  "RecordUpload e modID d serverID filename displayName =
     (case upsert_mod e ''RecordUpload'' d
         ((new_mod e modID serverID ''mods'' filename)\<lparr>sm_DisplayName := displayName, sm_Source := ''custom''\<rparr>)
         (Some (\<lambda>x. x\<lparr>sm_DisplayName := displayName, sm_Source := ''custom'', sm_IsPresent := True, sm_InstalledAt := now e\<rparr>)) of
        Inl err \<Rightarrow> (Inl (Wrap ''upload mod: insert record'' err), d)
      | Inr (_, d') \<Rightarrow> (Inr (), d'))"

section \<open>Detected plugins\<close>

definition strings_json :: "string list option \<Rightarrow> json" where
  "strings_json v = (case v of None \<Rightarrow> JNull | Some ss \<Rightarrow> JArr (map JStr ss))"

definition detected :: "env \<Rightarrow> DetectedPlugin \<Rightarrow> ServerMod \<Rightarrow> ServerMod" where
  "detected e p m = m\<lparr>sm_DisplayName := dp_PluginName p, sm_Version := dp_Version p, sm_Source := ''detected'',
     sm_PluginName := Some (dp_PluginName p), sm_Author := Some (dp_Author p), sm_Description := Some (dp_Description p),
     sm_DetectedCommands := strings_json (dp_Commands p), sm_ConfigFiles := strings_json (dp_ConfigFiles p),
     sm_FileHash := Some (dp_FileHash p), sm_LastScannedAt := Some (now e), sm_IsPresent := dp_Enabled p,
     sm_ModDir := normalizeModDir (dp_SourceDir p)\<rparr>"

text \<open>The \<^verbatim>\<open>game_commands\<close> row of a plugin command.  \<^verbatim>\<open>ON CONFLICT DO NOTHING\<close> only skips a row
  that violates a unique index, and the table has none but the primary key.\<close>

definition plugin_command :: "env \<Rightarrow> uuid \<Rightarrow> uuid \<Rightarrow> string \<Rightarrow> string \<Rightarrow> GameCommand option" where
  "plugin_command e newID serverID plugin cmd =
     (case (varchar 100 cmd, varchar 500 cmd) of
        (Some nm, Some tmpl) \<Rightarrow> Some \<lparr>g_ID = newID, g_ServerID = Some serverID, g_Category = ''Plugin Commands'',
          g_Name = nm, g_Description = ''Command from '' @ plugin, g_CommandTemplate = tmpl, g_Icon = ''plug'',
          g_Params = JArr [], g_SortOrder = 99, g_IsDefault = False, g_MinRole = RoleModerator, g_CreatedAt = now e,
          g_Source = Some ''plugin'', g_SourcePlugin = Some plugin\<rparr>
      | _ \<Rightarrow> None)"

fun add_commands :: "env \<Rightarrow> string \<Rightarrow> (nat \<Rightarrow> uuid) \<Rightarrow> nat \<Rightarrow> uuid \<Rightarrow> string \<Rightarrow> string list \<Rightarrow> db \<Rightarrow> db" where
  "add_commands e label ids k serverID plugin [] d = d"
| "add_commands e label ids k serverID plugin (cmd # cmds) d =
     add_commands e label ids (Suc k) serverID plugin cmds
       (case insert_game_command e (label @ dec_nat k) d (plugin_command e (ids k) serverID plugin cmd) of
          Inl _ \<Rightarrow> d | Inr d' \<Rightarrow> d')"

text \<open>\<open>modIDs k\<close> is the id of a new row for the \<open>k\<close>-th plugin, \<open>cmdIDs k j\<close> of its \<open>j\<close>-th command.\<close>

fun plugin_loop ::
  "env \<Rightarrow> (nat \<Rightarrow> uuid) \<Rightarrow> (nat \<Rightarrow> nat \<Rightarrow> uuid) \<Rightarrow> nat \<Rightarrow> uuid \<Rightarrow> DetectedPlugin list \<Rightarrow> db \<Rightarrow> unit result \<times> db" where
  "plugin_loop e modIDs cmdIDs k serverID [] d = (Inr (), d)"
| "plugin_loop e modIDs cmdIDs k serverID (p # ps) d =
     (let dir = normalizeModDir (dp_SourceDir p);
          m = detected e p (new_mod e (modIDs k) serverID dir (dp_Filename p))
      in case upsert_mod e (''SyncDetectedPlugins.'' @ dec_nat k) d m (Some (detected e p)) of
           Inl err \<Rightarrow> (Inl (Wrap (''upserting plugin '' @ dp_Filename p) err), d)
         | Inr (_, d1) \<Rightarrow>
             plugin_loop e modIDs cmdIDs (Suc k) serverID ps
               (add_commands e (''SyncDetectedPlugins.'' @ dec_nat k @ ''.'') (cmdIDs k) 0 serverID (dp_PluginName p)
                  (case dp_Commands p of None \<Rightarrow> [] | Some cs \<Rightarrow> cs) d1))"

definition SyncDetectedPlugins ::
  "env \<Rightarrow> (nat \<Rightarrow> uuid) \<Rightarrow> (nat \<Rightarrow> nat \<Rightarrow> uuid) \<Rightarrow> db \<Rightarrow> uuid \<Rightarrow> DetectedPlugin list \<Rightarrow> unit result \<times> db" where
  "SyncDetectedPlugins e modIDs cmdIDs d serverID plugins =
     (if fault e ''SyncDetectedPlugins.absent''
      then (Inl (Wrap ''marking plugins absent'' (Driver ''SyncDetectedPlugins.absent'')), d)
      else plugin_loop e modIDs cmdIDs 0 serverID plugins
        (d\<lparr>server_mods := update_where (\<lambda>m. sm_ServerID m = serverID \<and> sm_Source m = ''detected'')
             (\<lambda>m. m\<lparr>sm_IsPresent := False\<rparr>) (server_mods d)\<rparr>))"

section \<open>Requests\<close>

definition h_ListMods :: "env \<Rightarrow> db \<Rightarrow> uuid option \<Rightarrow> ServerMod list response" where
  "h_ListMods e d param =
     (case param of None \<Rightarrow> Refuse 400 ''invalid ID format''
      | Some serverID \<Rightarrow> (case ListMods e d serverID of
          Inl _ \<Rightarrow> Refuse 500 ''could not list mods'' | Inr ms \<Rightarrow> Reply 200 ms))"

definition h_InstallMod ::
  "(string \<Rightarrow> DownloadURL option) \<Rightarrow> env \<Rightarrow> uuid \<Rightarrow> uuid \<Rightarrow> db \<Rightarrow> User \<Rightarrow> uuid option \<Rightarrow> InstallModRequest result
     \<Rightarrow> ServerMod response \<times> db" where
  "h_InstallMod parse e modID cmdID d caller param body =
     (case param of None \<Rightarrow> (Refuse 400 ''invalid ID format'', d)
      | Some serverID \<Rightarrow> (case body of Inl err \<Rightarrow> (Refuse 400 (Error err), d)
      | Inr req \<Rightarrow> (case InstallMod parse e modID cmdID d (u_Role caller) serverID req of
          (Inl err, d') \<Rightarrow>
            (if errors_is err ErrModURLNotAllowed then Refuse 400 (Error err)
             else if errors_is err ErrServerNotFound then Refuse 404 ''server not found''
             else Refuse 500 (Error err), d')
        | (Inr m, d') \<Rightarrow> (Reply 201 m, d'))))"

definition h_RemoveMod :: "env \<Rightarrow> uuid \<Rightarrow> db \<Rightarrow> uuid option \<Rightarrow> string \<Rightarrow> string response \<times> db" where
  "h_RemoveMod e cmdID d param filename =
     (case param of None \<Rightarrow> (Refuse 400 ''invalid ID format'', d)
      | Some serverID \<Rightarrow>
          if filename = '''' then (Refuse 400 ''filename is required'', d)
          else (case RemoveMod e cmdID d serverID filename of
              (Inl err, d') \<Rightarrow>
                (if errors_is err ErrModNotFound then Refuse 404 ''mod not found''
                 else if errors_is err ErrServerNotFound then Refuse 404 ''server not found''
                 else Refuse 500 (Error err), d')
            | (Inr _, d') \<Rightarrow> (Reply 200 ''mod removed'', d')))"

definition toggle_request ::
  "string \<Rightarrow> env \<Rightarrow> uuid \<Rightarrow> db \<Rightarrow> uuid option \<Rightarrow> string \<Rightarrow> bool result \<Rightarrow> unit response \<times> db" where
  "toggle_request what e cmdID d param filename body =
     (case param of None \<Rightarrow> (Refuse 400 ''invalid ID format'', d)
      | Some serverID \<Rightarrow>
          if filename = '''' then (Refuse 400 ''filename required'', d)
          else (case body of Inl err \<Rightarrow> (Refuse 400 (Error err), d)
          | Inr enabled \<Rightarrow> (case ToggleMod e cmdID d serverID filename enabled of
              (Inl err, d') \<Rightarrow>
                (if errors_is err ErrModNotFound then Refuse 404 (what @ '' not found'')
                 else if errors_is err ErrServerNotFound then Refuse 404 ''server not found''
                 else Refuse 500 ''toggle failed'', d')
            | (Inr _, d') \<Rightarrow> (Reply 204 (), d'))))"

definition h_ToggleMod where "h_ToggleMod = toggle_request ''mod''"

definition h_TogglePlugin where "h_TogglePlugin = toggle_request ''plugin''"

definition h_SwitchModVersion ::
  "(string \<Rightarrow> DownloadURL option) \<Rightarrow> env \<Rightarrow> uuid \<Rightarrow> uuid \<Rightarrow> uuid \<Rightarrow> db \<Rightarrow> User \<Rightarrow> uuid option \<Rightarrow> string
     \<Rightarrow> ModVersionSwitchRequest result \<Rightarrow> unit response \<times> db" where
  "h_SwitchModVersion parse e modID cmdID1 cmdID2 d caller param filename body =
     (case param of None \<Rightarrow> (Refuse 400 ''invalid ID format'', d)
      | Some serverID \<Rightarrow> (case body of Inl err \<Rightarrow> (Refuse 400 (Error err), d)
      | Inr req \<Rightarrow>
          if vs_FileURL req = '''' then (Refuse 400 ''file_url required'', d)
          else (case SwitchModVersion parse e modID cmdID1 cmdID2 d (u_Role caller) serverID filename req of
              (Inl err, d') \<Rightarrow>
                (if errors_is err ErrModURLNotAllowed then Refuse 400 (Error err) else Refuse 500 ''switch failed'', d')
            | (Inr _, d') \<Rightarrow> (Reply 204 (), d'))))"

text \<open>The form is the file name of the upload, if it has one, and the display name.  The answer has
  the file name and the display name that were recorded; the calls to the node are listed.\<close>

datatype upload_call = UcMkdir uuid uuid string | UcUpload uuid uuid string string

definition h_UploadMod ::
  "(uuid \<Rightarrow> string) \<Rightarrow> env \<Rightarrow> ClientPool \<Rightarrow> uuid \<Rightarrow> db \<Rightarrow> uuid option \<Rightarrow> string option \<Rightarrow> string
     \<Rightarrow> (string \<times> string) response \<times> upload_call list \<times> db" where
  "h_UploadMod str e pool modID d param header display =
     (case param of None \<Rightarrow> (Refuse 400 ''invalid ID format'', [], d)
      | Some serverID \<Rightarrow> (case header of None \<Rightarrow> (Refuse 400 ''file field is required'', [], d)
      | Some raw \<Rightarrow>
          (let filename = path_base raw; displayName = (if display = '''' then filename else display)
           in if filename = '''' \<or> filename = ''.'' \<or> filename = ''..'' then (Refuse 400 ''invalid filename'', [], d)
              else (case ServerNode e d serverID of
                  Inl err \<Rightarrow> (if errors_is err ErrServerNotFound then Refuse 404 ''server not found''
                       else Refuse 500 ''upload failed'', [], d)
                | Inr nodeID \<Rightarrow> (case pool_Get str pool nodeID of
                    Inl _ \<Rightarrow> (Refuse 502 ''daemon not connected'', [], d)
                  | Inr _ \<Rightarrow>
                      (let calls = [UcMkdir nodeID serverID ''mods'', UcUpload nodeID serverID ''mods'' filename]
                       in if fault e ''daemon.UploadFile'' then (Refuse 502 ''failed to upload mod to daemon'', calls, d)
                          else (case RecordUpload e modID d serverID filename displayName of
                              (Inl _, d') \<Rightarrow> (Refuse 500 ''upload failed'', calls, d')
                            | (Inr _, d') \<Rightarrow> (Reply 201 (filename, displayName), calls, d'))))))))"

definition h_DaemonPluginReport ::
  "env \<Rightarrow> (nat \<Rightarrow> uuid) \<Rightarrow> (nat \<Rightarrow> nat \<Rightarrow> uuid) \<Rightarrow> db \<Rightarrow> uuid option \<Rightarrow> uuid option \<Rightarrow> DetectedPlugin list result
     \<Rightarrow> nat response \<times> db" where
  "h_DaemonPluginReport e modIDs cmdIDs d authed param body =
     daemon_callback e d authed param (\<lambda>serverID.
       case body of Inl err \<Rightarrow> (Refuse 400 (Error err), d)
       | Inr plugins \<Rightarrow> (case SyncDetectedPlugins e modIDs cmdIDs d serverID plugins of
           (Inl _, d') \<Rightarrow> (Refuse 500 ''failed to sync plugins'', d')
         | (Inr _, d') \<Rightarrow> (Reply 200 (length plugins), d')))"

definition h_ListPlugins :: "env \<Rightarrow> db \<Rightarrow> uuid option \<Rightarrow> ServerMod list response" where
  "h_ListPlugins e d param =
     (case param of None \<Rightarrow> Refuse 400 ''invalid ID format''
      | Some serverID \<Rightarrow> (case ListMods e d serverID of
          Inl _ \<Rightarrow> Refuse 500 ''could not list plugins''
        | Inr ms \<Rightarrow> Reply 200 (filter (\<lambda>m. sm_ModDir m = ''plugins'') ms)))"

end
