(* ===== verification/ModRules.thy ===== *)
theory ModRules
  imports Mods
begin

text \<open>
  What mods and plugin reports guarantee: what a node is told to download, the version switch as
  one step, and the roles of game commands over all requests that change them.
\<close>

section \<open>Downloads\<close>

text \<open>What a caller may make a node download.\<close>

definition may_download :: "(string \<Rightarrow> DownloadURL option) \<Rightarrow> string \<Rightarrow> string \<Rightarrow> bool" where
  "may_download parse role raw = (case parse raw of None \<Rightarrow> False
     | Some u \<Rightarrow> url_Scheme u = ''https'' \<and> url_Host u \<noteq> '''' \<and> \<not> url_HasUser u
         \<and> (RoleWeight role < RoleWeight RoleAdmin \<longrightarrow> url_Port u \<in> {'''', ''443''}
              \<and> to_lower (url_Hostname u) \<in> set curseForgeCDNHosts))"

lemma ValidateModDownloadURL_iff: "ValidateModDownloadURL parse raw role = Inr () \<longleftrightarrow> may_download parse role raw"
  by (auto simp: ValidateModDownloadURL_def may_download_def split: option.split)

lemma queued_command_Inr:
  "insert_command e l i d n sid t p = Inr d' \<Longrightarrow> d' = d\<lparr>node_commands := node_commands d @ [new_command e i n sid t p]\<rparr>"
  by (auto simp: insert_command_def split: if_splits)

lemma upsert_mod_Inr:
  "upsert_mod e l d m u = Inr (row, d') \<Longrightarrow> node_commands d' = node_commands d \<and> d' = d\<lparr>server_mods := server_mods d'\<rparr>
    \<and> find_server d (sm_ServerID m) \<noteq> None"
  by (auto simp: upsert_mod_def split: if_splits option.splits)

lemma InstallMod_result:
  assumes "InstallMod parse e i j d role sid req = (r, d')"
  shows "node_commands d' = node_commands d \<or> may_download parse role (im_DownloadURL req) \<and> (\<exists>sv. find_server d sid = Some sv
    \<and> node_commands d' = node_commands d @ [new_command e j (sv_NodeID sv) sid ''install_mod''
         (install_payload (sv_DataPath sv) (im_Filename req) (im_DownloadURL req))])"
proof (cases "ValidateModDownloadURL parse (im_DownloadURL req) role")
  case (Inr u)
  then have v: "may_download parse role (im_DownloadURL req)" using ValidateModDownloadURL_iff by simp
  show ?thesis
  proof (cases "server_node ''InstallMod.server'' e d sid")
    case s: (Inr np)
    obtain n p where np: "np = (n, p)" by fastforce
    from server_node_Inr [OF s [unfolded np]] obtain sv where sv: "find_server d sid = Some sv" "n = sv_NodeID sv" "p = sv_DataPath sv"
      by blast
    show ?thesis using assms v sv upsert_mod_Inr queued_command_Inr unfolding InstallMod_def Inr s np Let_def
      by (fastforce split: sum.splits prod.splits)
  qed (use assms Inr in \<open>simp add: InstallMod_def\<close>)
qed (use assms in \<open>simp add: InstallMod_def\<close>)

lemma SwitchModVersion_result:
  assumes "SwitchModVersion parse e i j k d role sid old req = (r, d')"
  shows "(\<exists>err. r = Inl err) \<and> d' = d \<or> r = Inr () \<and> may_download parse role (vs_FileURL req) \<and> (\<exists>sv u m row d1 d3.
      find_server d sid = Some sv \<and> parse (vs_FileURL req) = Some u \<and> sm_Filename m = path_base (url_Path u)
    \<and> sm_DownloadURL m = vs_FileURL req \<and> sm_ServerID m = sid
    \<and> d1 = d\<lparr>server_mods := delete_where (\<lambda>m. sm_ServerID m = sid \<and> sm_Filename m = old) (server_mods d),
         node_commands := node_commands d @ [new_command e j (sv_NodeID sv) sid ''remove_mod'' (remove_payload (sv_DataPath sv) old)]\<rparr>
    \<and> upsert_mod e ''SwitchModVersion.row'' d1 m None = Inr (row, d3)
    \<and> d' = d3\<lparr>node_commands := node_commands d1
         @ [new_command e k (sv_NodeID sv) sid ''install_mod'' (install_payload (sv_DataPath sv) (sm_Filename m) (vs_FileURL req))]\<rparr>)"
proof (cases "r")
  case (Inl err)
  then show ?thesis using assms unfolding SwitchModVersion_def Let_def
    by (auto split: sum.splits option.splits if_splits prod.splits)
next
  case (Inr x)
  from assms Inr have v: "may_download parse role (vs_FileURL req)"
    using ValidateModDownloadURL_iff unfolding SwitchModVersion_def by (auto split: sum.splits)
  then obtain u where u: "parse (vs_FileURL req) = Some u" by (auto simp: may_download_def split: option.splits)
  show ?thesis using assms v u unfolding Inr SwitchModVersion_def Let_def
    by (auto split: sum.splits option.splits if_splits prod.splits dest!: queued_command_Inr)
      (force simp: new_mod_def dest: upsert_mod_Inr)
qed

lemma upsert_mod_insert:
  "upsert_mod e l d m None = Inr (row, d') \<Longrightarrow>
   row = m \<and> d' = d\<lparr>server_mods := server_mods d @ [m]\<rparr> \<and> (\<forall>x \<in> set (server_mods d). mod_key x \<noteq> mod_key m)"
  by (auto simp: upsert_mod_def find_None_iff split: if_splits option.splits)

text \<open>[C34] What a node is told to download is what the caller may have downloaded: an https address
  without credentials, and for everyone below an administrator a file of the CurseForge hosts on
  the default port.  This holds for every command that an installation or a version switch
  adds to the queue, and the commands that were there stay.\<close>

theorem mod_downloads_confined:
  assumes "h_InstallMod parse e i j d caller param body = (resp, d')"
    and "h_SwitchModVersion parse e2 i2 j2 k2 d caller param2 old body2 = (resp2, d2)"
    and "new = node_commands d' \<or> new = node_commands d2"
  shows "take (length (node_commands d)) new = node_commands d
    \<and> (\<forall>c \<in> set (drop (length (node_commands d)) new). c_CommandType c = ''install_mod'' \<longrightarrow>
        (\<exists>path file raw. c_Payload c = install_payload path file raw \<and> may_download parse (u_Role caller) raw))"
proof -
  have inst: "\<exists>cs. node_commands d' = node_commands d @ cs \<and> (\<forall>c \<in> set cs. c_CommandType c = ''install_mod'' \<longrightarrow>
      (\<exists>path file raw. c_Payload c = install_payload path file raw \<and> may_download parse (u_Role caller) raw))"
  proof (cases "node_commands d' = node_commands d")
    case False
    with assms(1) obtain sid req r where r: "InstallMod parse e i j d (u_Role caller) sid req = (r, d')"
      by (auto simp: h_InstallMod_def split: option.splits sum.splits prod.splits)
    from InstallMod_result [OF r] False show ?thesis by (auto simp: new_command_def) blast
  qed simp
  have sw: "\<exists>cs. node_commands d2 = node_commands d @ cs \<and> (\<forall>c \<in> set cs. c_CommandType c = ''install_mod'' \<longrightarrow>
      (\<exists>path file raw. c_Payload c = install_payload path file raw \<and> may_download parse (u_Role caller) raw))"
  proof (cases "node_commands d2 = node_commands d")
    case False
    with assms(2) obtain sid req r where r: "SwitchModVersion parse e2 i2 j2 k2 d (u_Role caller) sid old req = (r, d2)"
      by (auto simp: h_SwitchModVersion_def split: option.splits sum.splits prod.splits if_splits)
    from SwitchModVersion_result [OF r] False show ?thesis by (auto simp: new_command_def) blast
  qed simp
  from assms(3) inst sw show ?thesis by (elim disjE exE conjE) simp_all
qed

text \<open>A version switch is one step.  Either nothing changes and the answer is an error, or the rows
  of the old file are gone, the new file has one row, named after the path of the address, and the
  node is told to remove the old file first and to install the new one second.\<close>

theorem mod_switch_atomic:
  assumes "SwitchModVersion parse e i j k d role sid old req = (r, d')"
  shows "(if is_ok r then \<exists>sv u m. find_server d sid = Some sv \<and> parse (vs_FileURL req) = Some u
      \<and> sm_Filename m = path_base (url_Path u) \<and> sm_ServerID m = sid \<and> sm_DownloadURL m = vs_FileURL req
      \<and> server_mods d' = filter (\<lambda>x. \<not> (sm_ServerID x = sid \<and> sm_Filename x = old)) (server_mods d) @ [m]
      \<and> (\<forall>x \<in> set (server_mods d). mod_key x = mod_key m \<longrightarrow> sm_Filename x = old)
      \<and> node_commands d' = node_commands d
          @ [new_command e j (sv_NodeID sv) sid ''remove_mod'' (remove_payload (sv_DataPath sv) old),
             new_command e k (sv_NodeID sv) sid ''install_mod'' (install_payload (sv_DataPath sv) (sm_Filename m) (vs_FileURL req))]
    else d' = d)"
proof (cases "is_ok r")
  case True
  with SwitchModVersion_result [OF assms] obtain sv u m row d1 d3 where
    s: "find_server d sid = Some sv" "parse (vs_FileURL req) = Some u" "sm_Filename m = path_base (url_Path u)"
    "sm_DownloadURL m = vs_FileURL req" "sm_ServerID m = sid"
    and d1: "d1 = d\<lparr>server_mods := delete_where (\<lambda>m. sm_ServerID m = sid \<and> sm_Filename m = old) (server_mods d),
         node_commands := node_commands d @ [new_command e j (sv_NodeID sv) sid ''remove_mod'' (remove_payload (sv_DataPath sv) old)]\<rparr>"
    and d3: "upsert_mod e ''SwitchModVersion.row'' d1 m None = Inr (row, d3)"
    and d': "d' = d3\<lparr>node_commands := node_commands d1
         @ [new_command e k (sv_NodeID sv) sid ''install_mod'' (install_payload (sv_DataPath sv) (sm_Filename m) (vs_FileURL req))]\<rparr>"
    by auto
  note u = upsert_mod_insert [OF d3]
  have "server_mods d' = filter (\<lambda>x. \<not> (sm_ServerID x = sid \<and> sm_Filename x = old)) (server_mods d) @ [m]"
    using u by (simp add: d' d1 delete_where_def)
  moreover have "sm_Filename x = old" if "x \<in> set (server_mods d)" "mod_key x = mod_key m" for x
  proof (rule ccontr)
    assume "sm_Filename x \<noteq> old"
    then have "x \<in> set (server_mods d1)" using that(1) by (simp add: d1 set_delete_where)
    with u that(2) show False by blast
  qed
  ultimately show ?thesis using True s d' d1 by auto
next
  case False
  with SwitchModVersion_result [OF assms] have "d' = d" by (metis is_ok_simps(1))
  with False show ?thesis by simp
qed

section \<open>Roles of game commands\<close>

definition cmd_roles_ok :: "db \<Rightarrow> bool" where
  "cmd_roles_ok d = (\<forall>g \<in> set (game_commands d). g_Source g = Some ''plugin''
     \<or> RoleWeight (ConsoleCommandMinRole (g_CommandTemplate g)) \<le> RoleWeight (g_MinRole g))"

lemma varchar_Some: "varchar n s = Some t \<Longrightarrow> \<exists>k. s = t @ replicate k (CHR '' '')"
proof (induction n s rule: varchar.induct)
  case (1 n s)
  show ?case
  proof (cases "rune_count s \<le> n")
    case True
    with "1.prems" show ?thesis by (simp add: varchar.simps [of n s] exI [of _ 0])
  next
    case False
    with "1.prems" have l: "last s = CHR '' ''" "varchar n (butlast s) = Some t"
      by (simp_all add: varchar.simps [of n s] split: if_splits)
    from False have "s \<noteq> []" by auto
    from "1.IH" [OF False l] obtain k where "butlast s = t @ replicate k (CHR '' '')" by blast
    with \<open>s \<noteq> []\<close> l(1) have "s = t @ replicate (Suc k) (CHR '' '')"
      by (metis append.assoc append_butlast_last_id replicate_append_same replicate_Suc)
    then show ?thesis by blast
  qed
qed

lemma MinRole_varchar: "varchar n s = Some t \<Longrightarrow> ConsoleCommandMinRole t = ConsoleCommandMinRole s"
proof -
  assume "varchar n s = Some t"
  then obtain k where s: "s = t @ replicate k (CHR '' '')" using varchar_Some by blast
  have "list_all is_space (to_lower (replicate k (CHR '' '')))"
    by (simp add: list_all_iff to_lower_def) (simp add: is_space_def byte_def)
  then have "Fields (to_lower s) = Fields (to_lower t)" by (simp add: s to_lower_append fields_trailing_space)
  then show ?thesis by (simp add: ConsoleCommandMinRole_def)
qed

lemma RoleWeight_pos: "0 < RoleWeight r \<Longrightarrow> r \<in> {RoleUser, RoleModerator, RoleAdmin, RoleOwner}"
  by (auto simp: RoleWeight_def split: if_splits)

lemma varchar_role:
  assumes "0 < RoleWeight r"
  shows "varchar 20 r = Some r"
proof -
  have "varchar 20 RoleUser = Some RoleUser" "varchar 20 RoleModerator = Some RoleModerator"
    "varchar 20 RoleAdmin = Some RoleAdmin" "varchar 20 RoleOwner = Some RoleOwner"
    by code_simp+
  with RoleWeight_pos [OF assms] show ?thesis by auto
qed

lemma MinRole_pos: "0 < RoleWeight (ConsoleCommandMinRole c)"
  using ConsoleCommandMinRole_cases [of c] by auto

lemma CreateCommand_roles:
  assumes "cmd_roles_ok d" "RoleWeight (ConsoleCommandMinRole (g_CommandTemplate cmd)) \<le> RoleWeight (g_MinRole cmd)"
  shows "cmd_roles_ok (snd (CreateCommand l e i d cmd))"
proof (cases "command_row e i cmd")
  case None
  have "g_MinRole cmd \<noteq> ''''" using assms(2) MinRole_pos [of "g_CommandTemplate cmd"] by (auto simp: RoleWeight_def)
  with None assms(1) show ?thesis by (simp add: CreateCommand_def insert_game_command_def)
next
  case (Some g)
  have pos: "0 < RoleWeight (g_MinRole cmd)" using assms(2) MinRole_pos [of "g_CommandTemplate cmd"] by linarith
  then have ne: "g_MinRole cmd \<noteq> ''''" by (auto simp: RoleWeight_def)
  from Some have "varchar 500 (g_CommandTemplate cmd) = Some (g_CommandTemplate g)" "g_MinRole g = g_MinRole cmd"
    using varchar_role [OF pos] by (auto simp: command_row_def split: option.splits if_splits)
  with assms(2) have "RoleWeight (ConsoleCommandMinRole (g_CommandTemplate g)) \<le> RoleWeight (g_MinRole g)"
    using MinRole_varchar by metis
  with assms(1) ne Some show ?thesis
    by (auto simp: CreateCommand_def insert_game_command_def cmd_roles_ok_def split: if_splits)
qed

lemma defaults_roles:
  "cmd \<in> set (defaultHytaleCommands sid) \<Longrightarrow>
   RoleWeight (ConsoleCommandMinRole (g_CommandTemplate cmd)) \<le> RoleWeight (g_MinRole cmd)"
proof -
  have "list_all (\<lambda>(t, r). RoleWeight (ConsoleCommandMinRole t) \<le> RoleWeight r)
      (map (\<lambda>c. (g_CommandTemplate c, g_MinRole c)) (defaultHytaleCommands 0))"
    unfolding defaultHytaleCommands_def builtin_def list.map GameCommand.select_convs by code_simp
  moreover have "map (\<lambda>c. (g_CommandTemplate c, g_MinRole c)) (defaultHytaleCommands 0)
      = map (\<lambda>c. (g_CommandTemplate c, g_MinRole c)) (defaultHytaleCommands sid)"
    by (simp add: defaultHytaleCommands_def builtin_def)
  ultimately show "cmd \<in> set (defaultHytaleCommands sid) \<Longrightarrow> ?thesis" by (auto simp: list_all_iff)
qed

lemma seed_loop_roles:
  "cmd_roles_ok d \<Longrightarrow> (\<And>c. c \<in> set cmds \<Longrightarrow> RoleWeight (ConsoleCommandMinRole (g_CommandTemplate c)) \<le> RoleWeight (g_MinRole c))
   \<Longrightarrow> cmd_roles_ok (snd (seed_loop e ids k cmds d))"
proof (induction cmds arbitrary: k d)
  case (Cons c cmds)
  let ?c = "CreateCommand (''SeedDefaults.'' @ dec_nat k) e (ids k) d c"
  have "cmd_roles_ok (snd ?c)" using Cons.prems by (intro CreateCommand_roles) auto
  with Cons show ?case by (cases ?c; cases "fst ?c") auto
qed simp

lemma SeedDefaults_roles: "cmd_roles_ok d \<Longrightarrow> cmd_roles_ok (snd (SeedDefaults e ids d sid))"
  using seed_loop_roles [OF _ defaults_roles] by (auto simp: SeedDefaults_def split: sum.split)

lemma insert_plugin_roles:
  assumes "cmd_roles_ok d" "insert_game_command e l d (plugin_command e2 i sid p c) = Inr d'"
  shows "cmd_roles_ok d'"
proof -
  from assms(2) obtain g where g: "plugin_command e2 i sid p c = Some g" "d' = d\<lparr>game_commands := game_commands d @ [g]\<rparr>"
    by (auto simp: insert_game_command_def split: option.splits if_splits)
  then have "g_Source g = Some ''plugin''" by (auto simp: plugin_command_def split: option.splits)
  with assms(1) g(2) show ?thesis by (simp add: cmd_roles_ok_def)
qed

lemma add_commands_roles: "cmd_roles_ok d \<Longrightarrow> cmd_roles_ok (add_commands e l ids k sid p cs d)"
proof (induction cs arbitrary: k d)
  case (Cons c cs)
  then show ?case using insert_plugin_roles [OF Cons.prems] by (auto split: sum.split)
qed simp

lemma upsert_mod_roles: "upsert_mod e l d m u = Inr (row, d') \<Longrightarrow> cmd_roles_ok d' = cmd_roles_ok d"
  by (auto simp: upsert_mod_def cmd_roles_ok_def split: if_splits option.splits)

lemma plugin_loop_roles: "cmd_roles_ok d \<Longrightarrow> cmd_roles_ok (snd (plugin_loop e mi ci k sid ps d))"
proof (induction ps arbitrary: k d)
  case (Cons p ps)
  let ?m = "detected e p (new_mod e (mi k) sid (normalizeModDir (dp_SourceDir p)) (dp_Filename p))"
  show ?case
  proof (cases "upsert_mod e (''SyncDetectedPlugins.'' @ dec_nat k) d ?m (Some (detected e p))")
    case (Inr x)
    obtain row d1 where x: "x = (row, d1)" by fastforce
    then have "cmd_roles_ok d1" using Inr upsert_mod_roles Cons.prems by blast
    then show ?thesis using Inr x by (auto simp: Let_def intro!: Cons.IH add_commands_roles)
  qed (use Cons.prems in \<open>simp add: Let_def\<close>)
qed simp

lemma SyncDetectedPlugins_roles:
  assumes "cmd_roles_ok d"
  shows "cmd_roles_ok (snd (SyncDetectedPlugins e mi ci d sid ps))"
proof -
  have "cmd_roles_ok (d\<lparr>server_mods := ms\<rparr>)" for ms using assms by (simp add: cmd_roles_ok_def)
  then show ?thesis using plugin_loop_roles assms by (simp add: SyncDetectedPlugins_def)
qed

datatype command_op =
    CoList "string \<Rightarrow> nat" env "nat \<Rightarrow> uuid" "uuid option"
  | CoCreate env uuid "uuid option" "GameCommand result"
  | CoDelete env "uuid option" "uuid option"
  | CoExecute env uuid "User option" "uuid option" "(uuid option \<times> (string \<times> string) list) result"
  | CoReport env "nat \<Rightarrow> uuid" "nat \<Rightarrow> nat \<Rightarrow> uuid" "uuid option" "uuid option" "DetectedPlugin list result"

fun command_step :: "command_op \<Rightarrow> db \<Rightarrow> unit \<times> db" where
  "command_step (CoList coll e ids p) d = ((), snd (h_ListGameCommands coll e ids d p))"
| "command_step (CoCreate e i p b) d = ((), snd (h_CreateGameCommand e i d p b))"
| "command_step (CoDelete e p c) d = ((), snd (h_DeleteGameCommand e d p c))"
| "command_step (CoExecute e i u p b) d = ((), snd (h_ExecuteGameCommand e i d u p b))"
| "command_step (CoReport e mi ci n p b) d = ((), snd (h_DaemonPluginReport e mi ci d n p b))"

lemma list_roles: "cmd_roles_ok d \<Longrightarrow> cmd_roles_ok (snd (h_ListGameCommands coll e ids d p))"
  using SeedDefaults_roles by (auto simp: h_ListGameCommands_def split: option.split prod.split sum.split)
    (metis snd_conv)+

lemma create_roles:
  assumes "cmd_roles_ok d"
  shows "cmd_roles_ok (snd (h_CreateGameCommand e i d p b))"
proof (cases "\<exists>sid cmd. p = Some sid \<and> b = Inr cmd")
  case True
  then obtain sid cmd0 where pb: "p = Some sid" "b = Inr cmd0" by blast
  define cmd1 where "cmd1 = cmd0\<lparr>g_ServerID := Some sid, g_IsDefault := False\<rparr>"
  define need where "need = ConsoleCommandMinRole (g_CommandTemplate cmd1)"
  define cmd where "cmd = (if RoleWeight (g_MinRole cmd1) < RoleWeight need then cmd1\<lparr>g_MinRole := need\<rparr> else cmd1)"
  have "RoleWeight (ConsoleCommandMinRole (g_CommandTemplate cmd)) \<le> RoleWeight (g_MinRole cmd)"
    by (simp add: cmd_def need_def)
  then have "cmd_roles_ok (snd (CreateCommand ''CreateCommand'' e i d cmd))" by (rule CreateCommand_roles [OF assms])
  moreover have "snd (h_CreateGameCommand e i d p b) = snd (CreateCommand ''CreateCommand'' e i d cmd)"
    unfolding h_CreateGameCommand_def pb Let_def option.case sum.case cmd1_def [symmetric] need_def [symmetric] cmd_def [symmetric]
    by (auto split: prod.split sum.split)
  ultimately show ?thesis by simp
next
  case False
  then show ?thesis using assms by (auto simp: h_CreateGameCommand_def split: option.splits sum.splits)
qed

lemma delete_roles: "cmd_roles_ok d \<Longrightarrow> cmd_roles_ok (snd (h_DeleteGameCommand e d p c))"
  by (auto simp: h_DeleteGameCommand_def DeleteCommand_def cmd_roles_ok_def Let_def set_delete_where split: option.split)

lemma execute_roles:
  assumes "cmd_roles_ok d"
  shows "cmd_roles_ok (snd (h_ExecuteGameCommand e i d u p b))"
proof -
  obtain resp d' where h: "h_ExecuteGameCommand e i d u p b = (resp, d')" by fastforce
  have "game_commands d' = game_commands d"
  proof (cases "d' = d")
    case False
    from h False show ?thesis
      by (rule ExecuteGameCommand_result) (auto dest!: SendConsoleCommand_cases)
  qed simp
  with h assms show ?thesis by (simp add: cmd_roles_ok_def)
qed

lemma report_roles:
  assumes "cmd_roles_ok d"
  shows "cmd_roles_ok (snd (h_DaemonPluginReport e mi ci d n p b))"
proof -
  have "cmd_roles_ok (snd (case b of Inl err \<Rightarrow> (Refuse 400 (Error err), d)
     | Inr ps \<Rightarrow> (case SyncDetectedPlugins e mi ci d sid ps of
         (Inl _, d') \<Rightarrow> (Refuse 500 ''failed to sync plugins'', d') | (Inr _, d') \<Rightarrow> (Reply 200 (length ps), d'))))" for sid
    using assms SyncDetectedPlugins_roles [OF assms, of e mi ci sid] by (auto split: sum.split prod.split) (metis snd_conv)+
  with assms show ?thesis
    by (auto simp: h_DaemonPluginReport_def daemon_callback_def split: option.split sum.split)
qed

interpretation gc: kept_invariant command_step cmd_roles_ok
proof
  fix d a
  assume "cmd_roles_ok d"
  then show "cmd_roles_ok (snd (command_step a d))"
    by (cases a) (simp_all add: list_roles create_roles delete_roles execute_roles report_roles)
qed

text \<open>[C32] No stored game command is open to a lower role than the console command it wraps.  In every
  sequence of listings with their seeding, creations, deletions, executions and plugin reports, with
  any failures, a command that did not come from a plugin report asks for at least the role that
  its text needs on the console.  Plugin commands are left to the check at execution.\<close>

theorem command_roles_kept:
  assumes "cmd_roles_ok d" "g \<in> set (game_commands (run_of command_step ops d))" "g_Source g \<noteq> Some ''plugin''"
  shows "RoleWeight (ConsoleCommandMinRole (g_CommandTemplate g)) \<le> RoleWeight (g_MinRole g)"
  using gc.inv_run [OF assms(1), of ops] assms(2,3) by (auto simp: cmd_roles_ok_def)

section \<open>Witnesses\<close>

definition ex_url :: "string \<Rightarrow> DownloadURL option" where
  "ex_url s = (if s = ''https://edge.forgecdn.net/files/1/a.jar''
     then Some \<lparr>url_Scheme = ''https'', url_HasUser = False, url_Hostname = ''edge.forgecdn.net'', url_Port = '''',
       url_EscapedPath = ''/files/1/a.jar'', url_Host = ''edge.forgecdn.net'', url_Path = ''/files/1/a.jar''\<rparr>
     else if s = ''https://evil.example.org/a.jar''
     then Some \<lparr>url_Scheme = ''https'', url_HasUser = False, url_Hostname = ''evil.example.org'', url_Port = '''',
       url_EscapedPath = ''/a.jar'', url_Host = ''evil.example.org'', url_Path = ''/a.jar''\<rparr>
     else None)"

definition ex_install :: "string \<Rightarrow> InstallModRequest" where
  "ex_install u = \<lparr>im_Filename = ''a.jar'', im_DisplayName = ''A'', im_Version = ''1'', im_DownloadURL = u,
     im_CFModID = Some 7, im_CFFileID = Some 8\<rparr>"

definition ex_switch :: ModVersionSwitchRequest where
  "ex_switch = \<lparr>vs_FileID = 9, vs_FileURL = ''https://edge.forgecdn.net/files/1/a.jar'', vs_DisplayName = ''A'', vs_Version = ''2''\<rparr>"

theorem mod_downloads_confined_witness:
  "fst (h_InstallMod ex_url (quiet 1) 60 61 ex_fleet ex_owner (Some 20) (Inr (ex_install ''https://evil.example.org/a.jar'')))
     = Refuse 400 ''mod download URL not allowed: only CurseForge downloads (forgecdn.net) are allowed''
   \<and> (\<exists>new. length new = 1
        \<and> new = node_commands (snd (h_InstallMod ex_url (quiet 1) 60 61 ex_fleet ex_owner (Some 20)
             (Inr (ex_install ''https://edge.forgecdn.net/files/1/a.jar''))))
        \<and> list_all (\<lambda>c. c_CommandType c \<noteq> ''install_mod''
             \<or> (\<exists>path file raw. c_Payload c = install_payload path file raw \<and> may_download ex_url RoleUser raw)) new)"
proof -
  let ?h = "h_InstallMod ex_url (quiet 1) 60 61 ex_fleet ex_owner (Some 20) (Inr (ex_install ''https://edge.forgecdn.net/files/1/a.jar''))"
  let ?s = "h_SwitchModVersion ex_url (quiet 1) 60 61 62 ex_fleet ex_owner (Some 20) ''b.jar'' (Inr ex_switch)"
  have r: "fst (h_InstallMod ex_url (quiet 1) 60 61 ex_fleet ex_owner (Some 20) (Inr (ex_install ''https://evil.example.org/a.jar'')))
     = Refuse 400 ''mod download URL not allowed: only CurseForge downloads (forgecdn.net) are allowed''" by code_simp
  have l: "length (node_commands (snd ?h)) = 1" "length (node_commands ex_fleet) = 0" by code_simp+
  obtain resp d' resp2 d2 where h: "?h = (resp, d')" "?s = (resp2, d2)" by fastforce
  have "u_Role ex_owner = RoleUser" by (simp add: ex_owner_def)
  with mod_downloads_confined [OF h disjI1 [OF refl]] l(2)
  have "list_all (\<lambda>c. c_CommandType c \<noteq> ''install_mod''
      \<or> (\<exists>path file raw. c_Payload c = install_payload path file raw \<and> may_download ex_url RoleUser raw)) (node_commands d')"
    by (auto simp: list_all_iff)
  with r l(1) h(1) show ?thesis by (intro conjI exI [of _ "node_commands d'"]) simp_all
qed

theorem mod_switch_atomic_witness:
  "\<exists>r d'. SwitchModVersion ex_url (quiet 1) 60 61 62 ex_fleet RoleUser 20 ''b.jar'' ex_switch = (r, d') \<and> is_ok r
    \<and> (\<exists>m. server_mods d' = server_mods ex_fleet @ [m] \<and> sm_Filename m = ''a.jar'')"
proof -
  let ?s = "SwitchModVersion ex_url (quiet 1) 60 61 62 ex_fleet RoleUser 20 ''b.jar'' ex_switch"
  obtain r d' where s: "?s = (r, d')" by fastforce
  have "is_ok (fst ?s)" "server_mods ex_fleet = []" "path_base ''/files/1/a.jar'' = ''a.jar''" by code_simp+
  moreover have "ex_url (vs_FileURL ex_switch) = Some u \<Longrightarrow> url_Path u = ''/files/1/a.jar''" for u
    by (auto simp: ex_url_def ex_switch_def)
  ultimately show ?thesis using mod_switch_atomic [OF s] s by auto
qed

theorem command_roles_kept_witness:
  "\<exists>g. game_commands (run_of command_step [CoCreate (quiet 1) 90 (Some 20)
        (Inr ((builtin 0 ''c'' ''n'' '''' ''op add {player}'' '''' 1 RoleUser []))) ] ex_fleet) = [g]
     \<and> RoleWeight (ConsoleCommandMinRole (g_CommandTemplate g)) \<le> RoleWeight (g_MinRole g) \<and> g_MinRole g = RoleAdmin"
proof -
  let ?ops = "[CoCreate (quiet 1) 90 (Some 20) (Inr ((builtin 0 ''c'' ''n'' '''' ''op add {player}'' '''' 1 RoleUser [])))]"
  have e: "map (\<lambda>g. (g_Source g, g_MinRole g)) (game_commands (run_of command_step ?ops ex_fleet)) = [(Some ''built-in'', RoleAdmin)]"
    by code_simp
  then obtain g where g: "game_commands (run_of command_step ?ops ex_fleet) = [g]" by auto
  have "cmd_roles_ok ex_fleet" by (simp add: cmd_roles_ok_def ex_fleet_simps)
  from command_roles_kept [OF this, of g ?ops] g e show ?thesis by simp
qed

section \<open>Repeated reports and equal names\<close>

definition ex_plugin :: "string \<Rightarrow> DetectedPlugin" where
  "ex_plugin dir = \<lparr>dp_Filename = ''eco.jar'', dp_PluginName = ''Eco'', dp_Version = ''1'', dp_Author = '''', dp_Description = '''',
     dp_Commands = Some [''balance''], dp_ConfigFiles = Some [], dp_FileHash = ''h'', dp_Enabled = True, dp_SourceDir = dir\<rparr>"

text \<open>Each report of a plugin adds its commands once more.\<close>

lemma plugin_commands_repeat:
  "map g_CommandTemplate (game_commands (run_of command_step
     (map (\<lambda>t. CoReport (quiet t) (\<lambda>k. 70 + k) (\<lambda>k j. 80 + nat t * 5 + k + j) (Some 10) (Some 20) (Inr [ex_plugin ''plugins''])) [1, 2, 3])
     ex_fleet)) = [''balance'', ''balance'', ''balance'']"
  by code_simp

text \<open>A file name that is both in \<^verbatim>\<open>mods\<close> and in \<^verbatim>\<open>plugins\<close>: both rows are switched off, one file is
  renamed.\<close>

definition ex_two_dirs :: db where
  "ex_two_dirs = snd (SyncDetectedPlugins (quiet 1) (\<lambda>k. 70 + k) (\<lambda>k j. 80 + 5 * k + j) ex_fleet 20 [ex_plugin ''mods'', ex_plugin ''plugins''])"

lemma toggle_both_rows:
  "(let d = snd (ToggleMod (quiet 2) 61 ex_two_dirs 20 ''eco.jar'' False)
    in (map (\<lambda>m. (sm_ModDir m, sm_IsPresent m)) (server_mods d), map c_CommandType (node_commands d), map c_Payload (node_commands d)))
   = ([(''mods'', False), (''plugins'', False)], [''disable_mod''],
      [JObj [(''data_path'', JStr ''/srv/s''), (''dir'', JStr ''mods''), (''filename'', JStr ''eco.jar'')]])"
  by code_simp

end
