(* ===== verification/PlayTime.thy ===== *)
theory PlayTime
  imports ServerRules
begin

text \<open>
  Accounting of play time and enforcement of network bans.  The invariant \<open>accounted\<close>: at most one session of a
  player is open, and a player's recorded play time is the sum of the durations of
  the closed sessions.  It is kept by closing sessions, by player events and by
  every moderation operation, by status changes and deletion of servers and by
  the restart of a daemon.
\<close>

definition session_seconds :: "PlayerSession \<Rightarrow> int" where
  "session_seconds s = (case ps_DurationS s of None \<Rightarrow> 0 | Some n \<Rightarrow> n)"

definition played :: "PlayerSession list \<Rightarrow> uuid \<Rightarrow> int" where
  "played ss i = sum_list (map session_seconds (filter (\<lambda>s. ps_PlayerID s = i) ss))"

definition open_players :: "PlayerSession list \<Rightarrow> uuid list" where
  "open_players ss = map ps_PlayerID (filter open_session ss)"

definition accounted :: "db \<Rightarrow> bool" where
  "accounted d = (unique_on pl_ID (players d) \<and> distinct (open_players (player_sessions d))
     \<and> (\<forall>s \<in> set (player_sessions d). open_session s \<longrightarrow> ps_DurationS s = None)
     \<and> (\<forall>s \<in> set (player_sessions d). ps_PlayerID s \<in> pl_ID ` set (players d))
     \<and> (\<forall>p \<in> set (players d). pl_PlaytimeS p = played (player_sessions d) (pl_ID p)))"

lemma played_simps [simp]:
  "played [] i = 0"
  "played (s # ss) i = (if ps_PlayerID s = i then session_seconds s else 0) + played ss i"
  "played (ss @ ts) i = played ss i + played ts i"
  by (simp_all add: played_def)

lemma open_players_simps [simp]:
  "open_players [] = []"
  "open_players (s # ss) = (if open_session s then ps_PlayerID s # open_players ss else open_players ss)"
  "open_players (ss @ ts) = open_players ss @ open_players ts"
  by (simp_all add: open_players_def)

lemma set_open_players: "i \<in> set (open_players ss) \<longleftrightarrow> (\<exists>s \<in> set ss. open_session s \<and> ps_PlayerID s = i)"
  by (auto simp: open_players_def)

section \<open>Closing sessions\<close>

abbreviation close_row :: "env \<Rightarrow> PlayerSession \<Rightarrow> PlayerSession" where
  "close_row e s \<equiv> s\<lparr>ps_LeftAt := Some (now e), ps_DurationS := Some (credited e s)\<rparr>"

lemma played_close:
  assumes "distinct (open_players ss)" "\<forall>s \<in> set ss. open_session s \<longrightarrow> ps_DurationS s = None"
  shows "played (update_where (\<lambda>s. open_session s \<and> wh s) (close_row e) ss) i =
    played ss i + (case List.find (\<lambda>s. (open_session s \<and> wh s) \<and> ps_PlayerID s = i) ss of
       None \<Rightarrow> 0 | Some s \<Rightarrow> credited e s)"
  using assms
proof (induction ss)
  case Nil
  then show ?case by (simp add: update_where_def)
next
  case (Cons s ss)
  have IH: "played (update_where (\<lambda>s. open_session s \<and> wh s) (close_row e) ss) i =
    played ss i + (case List.find (\<lambda>s. (open_session s \<and> wh s) \<and> ps_PlayerID s = i) ss of
       None \<Rightarrow> 0 | Some s \<Rightarrow> credited e s)"
    using Cons by (simp split: if_splits)
  show ?case
  proof (cases "open_session s \<and> wh s \<and> ps_PlayerID s = i")
    case True
    with Cons.prems(1) have "List.find (\<lambda>s. (open_session s \<and> wh s) \<and> ps_PlayerID s = i) ss = None"
      by (intro find_none) (auto simp: set_open_players)
    with True IH Cons.prems(2) show ?thesis
      by (simp add: update_where_def session_seconds_def)
  next
    case False
    with IH show ?thesis
      by (auto simp: update_where_def session_seconds_def)
  qed
qed

lemma open_players_close:
  "open_players (update_where (\<lambda>s. open_session s \<and> wh s) (close_row e) ss)
    = open_players (filter (\<lambda>s. \<not> wh s) ss)"
  by (induction ss) (auto simp: update_where_def open_session_def)

lemma distinct_open_filter: "distinct (open_players ss) \<Longrightarrow> distinct (open_players (filter q ss))"
  by (induction ss) (auto simp: set_open_players)

lemma closeOpenSessions_Inr:
  assumes "closeOpenSessions e label wh d = Inr d'"
  shows "d' = d\<lparr>player_sessions := update_where (\<lambda>s. open_session s \<and> wh s) (close_row e) (player_sessions d),
      players := map (\<lambda>pl. case List.find (\<lambda>s. (open_session s \<and> wh s) \<and> ps_PlayerID s = pl_ID pl)
          (player_sessions d) of None \<Rightarrow> pl | Some s \<Rightarrow> pl\<lparr>pl_PlaytimeS := pl_PlaytimeS pl + credited e s\<rparr>)
        (players d)\<rparr>"
  using assms by (auto simp: closeOpenSessions_def Let_def split: if_splits)

lemma pl_ID_credit: "pl_ID (case x of None \<Rightarrow> pl | Some s \<Rightarrow> pl\<lparr>pl_PlaytimeS := f s\<rparr>) = pl_ID pl"
  by (cases x) simp_all

lemma accounted_close:
  assumes "closeOpenSessions e label wh d = Inr d'" "accounted d"
  shows "accounted d'"
proof -
  note d' = closeOpenSessions_Inr [OF assms(1)]
  from assms(2) have a: "unique_on pl_ID (players d)" "distinct (open_players (player_sessions d))"
      "\<forall>s \<in> set (player_sessions d). open_session s \<longrightarrow> ps_DurationS s = None"
      "\<forall>s \<in> set (player_sessions d). ps_PlayerID s \<in> pl_ID ` set (players d)"
      "\<forall>p \<in> set (players d). pl_PlaytimeS p = played (player_sessions d) (pl_ID p)"
    by (auto simp: accounted_def)
  have ids: "map pl_ID (players d') = map pl_ID (players d)"
    by (simp add: d' pl_ID_credit)
  have set_ids: "pl_ID ` set (players d') = pl_ID ` set (players d)"
    using arg_cong [OF ids, of set] by simp
  have "unique_on pl_ID (players d')" using a(1) ids by (simp add: unique_on_def)
  moreover have "distinct (open_players (player_sessions d'))"
    using a(2) by (simp add: d' open_players_close distinct_open_filter)
  moreover have "\<forall>s \<in> set (player_sessions d'). open_session s \<longrightarrow> ps_DurationS s = None"
    using a(3) by (auto simp: d' set_update_where open_session_def)
  moreover have "\<forall>s \<in> set (player_sessions d'). ps_PlayerID s \<in> pl_ID ` set (players d')"
    unfolding set_ids using a(4) by (auto simp: d' set_update_where)
  moreover have "\<forall>p \<in> set (players d'). pl_PlaytimeS p = played (player_sessions d') (pl_ID p)"
    using a(5) by (auto simp: d' played_close [OF a(2,3)] split: option.splits)
  ultimately show ?thesis by (simp add: accounted_def)
qed

text \<open>Operations that touch neither sessions nor the identity and play time of players.\<close>

lemma accounted_update:
  assumes "accounted d" "player_sessions d' = player_sessions d"
    "players d' = update_where p f (players d)"
    "\<And>x. pl_ID (f x) = pl_ID x" "\<And>x. pl_PlaytimeS (f x) = pl_PlaytimeS x"
  shows "accounted d'"
proof -
  have ids: "map pl_ID (players d') = map pl_ID (players d)"
    by (simp add: assms(3,4) update_where_def)
  have set_ids: "pl_ID ` set (players d') = pl_ID ` set (players d)"
    by (metis ids set_map)
  have "\<forall>x \<in> set (players d'). pl_PlaytimeS x = played (player_sessions d) (pl_ID x)"
    using assms(1) by (auto simp: accounted_def assms(3,4,5) set_update_where)
  with ids set_ids assms(1,2) show ?thesis
    by (simp add: accounted_def unique_on_def)
qed

lemma accounted_frame:
  "accounted d \<Longrightarrow> player_sessions d' = player_sessions d \<Longrightarrow> players d' = players d \<Longrightarrow> accounted d'"
  by (simp add: accounted_def)

section \<open>Player events\<close>

lemma played_absent: "(\<And>s. s \<in> set ss \<Longrightarrow> ps_PlayerID s \<noteq> i) \<Longrightarrow> played ss i = 0"
  by (induction ss) auto

lemma upsert_player_accounted:
  assumes "upsert_player e newID d serverID h username = Inr (i, d')" "accounted d"
  shows "accounted d'"
proof (cases "find_player d serverID h")
  case None
  with assms(1) have fresh: "newID \<notin> pl_ID ` set (players d)"
    and d': "player_sessions d' = player_sessions d"
      "\<exists>p. players d' = players d @ [p] \<and> pl_ID p = newID \<and> pl_PlaytimeS p = 0"
    by (auto simp: upsert_player_def split: if_splits)
  from d'(2) obtain p where p: "players d' = players d @ [p]" "pl_ID p = newID" "pl_PlaytimeS p = 0"
    by blast
  from assms(2) fresh have "played (player_sessions d) newID = 0"
    by (intro played_absent) (auto simp: accounted_def)
  with assms(2) fresh p d'(1) show ?thesis
    by (auto simp: accounted_def unique_on_append_row image_iff)
next
  case (Some p)
  with assms(1) have "player_sessions d' = player_sessions d"
    "players d' = update_where (\<lambda>q. pl_ServerID q = serverID \<and> pl_HytaleUUID q = h)
       (\<lambda>q. q\<lparr>pl_Username := username, pl_LastSeen := Some (now e)\<rparr>) (players d)"
    by (auto simp: upsert_player_def split: if_splits)
  then show ?thesis by (rule accounted_update [OF assms(2)]) simp_all
qed

lemma insert_player_session_accounted:
  assumes "insert_player_session e newID d i = Inr d'" "accounted d"
  shows "accounted d'"
  using assms by (auto simp: insert_player_session_def accounted_def set_open_players open_session_def
      session_seconds_def split: if_splits)

lemma insert_commands_frame:
  "insert_commands e l ids d svs pay = Inr d' \<Longrightarrow> player_sessions d' = player_sessions d \<and> players d' = players d"
  by (auto simp: insert_commands_def Let_def split: if_splits)

lemma enforce_frame:
  "enforceNetworkBanOnJoin e i d sid h u = Inr d' \<Longrightarrow> player_sessions d' = player_sessions d \<and> players d' = players d"
  by (auto simp: enforceNetworkBanOnJoin_def split: if_splits sum.splits dest!: insert_commands_frame)

lemma record_join_accounted:
  assumes "record_join e ids d serverID username h = Inr d'" "accounted d"
  shows "accounted d'"
proof -
  from assms(1) obtain i d1 d2 d3 where
    "upsert_player e (ev_player ids) d serverID h username = Inr (i, d1)"
    "closeOpenSessions e ''RecordPlayerEvent.close'' (\<lambda>s. ps_PlayerID s = i) d1 = Inr d2"
    "insert_player_session e (ev_session ids) d2 i = Inr d3"
    "enforceNetworkBanOnJoin e (ev_command ids) d3 serverID h username = Inr d'"
    unfolding record_join_def and_then_Inr wrapping_Inr split_paired_Ex prod.case by blast
  then show ?thesis
    using assms(2) upsert_player_accounted accounted_close insert_player_session_accounted
      enforce_frame accounted_frame by metis
qed

lemma record_leave_accounted:
  assumes "record_leave e d serverID h = Inr d'" "accounted d"
  shows "accounted d'"
proof (cases "find_player d serverID h")
  case None
  with assms show ?thesis by (auto simp: record_leave_def split: if_splits)
next
  case (Some p)
  let ?d = "d\<lparr>players := update_where (\<lambda>q. pl_ServerID q = serverID \<and> pl_HytaleUUID q = h)
              (\<lambda>q. q\<lparr>pl_LastSeen := Some (now e)\<rparr>) (players d)\<rparr>"
  have "accounted ?d"
    by (rule accounted_update [OF assms(2)], simp, simp, simp_all)
  moreover from Some assms(1) have
    "closeOpenSessions e ''RecordPlayerEvent.close'' (\<lambda>s. ps_PlayerID s = pl_ID p) ?d = Inr d'"
    by (auto simp: record_leave_def split: if_splits)
  ultimately show ?thesis using accounted_close by blast
qed

lemma RecordPlayerEvent_accounted:
  "accounted d \<Longrightarrow> accounted (snd (RecordPlayerEvent e ids d serverID action username h))"
  by (auto simp: RecordPlayerEvent_def split: sum.splits if_splits
      dest: record_join_accounted record_leave_accounted)

section \<open>Moderation\<close>

lemma enqueue_frame [simp]:
  "player_sessions (enqueueConsoleCommand e i d n s c) = player_sessions d"
  "players (enqueueConsoleCommand e i d n s c) = players d"
  by (auto simp: enqueueConsoleCommand_def insert_command_def split: sum.splits)

lemma fanOut_frame [simp]:
  "player_sessions (fanOutConsoleCommand e ids d c) = player_sessions d"
  "players (fanOutConsoleCommand e ids d c) = players d"
  by (auto simp: fanOutConsoleCommand_def dest: insert_commands_frame split: sum.splits)

lemma insert_activity_frame [simp]:
  "player_sessions (insert_activity e l i d u s a t x p) = player_sessions d"
  "players (insert_activity e l i d u s a t x p) = players d"
  by (simp_all add: insert_activity_def)

lemma flag_and_command_accounted:
  assumes "accounted d" "\<And>x. pl_ID (upd x) = pl_ID x" "\<And>x. pl_PlaytimeS (upd x) = pl_PlaytimeS x"
  shows "accounted (snd (flag_and_command e i d sid pid what upd line))"
proof -
  have "accounted (enqueueConsoleCommand e i (d\<lparr>players := update_where p upd (players d)\<rparr>) n sid l)" for p n l
    by (rule accounted_update [OF assms(1) _ _ assms(2,3)]) simp_all
  with assms(1) show ?thesis
    by (simp add: flag_and_command_def Let_def split: sum.splits prod.splits)
qed

lemma moderation_accounted:
  assumes "accounted d"
  shows "accounted (snd (BanPlayer e i d sid pid by reason))"
    and "accounted (snd (UnbanPlayer e i d sid pid))"
    and "accounted (snd (SetWhitelist e i d sid pid w))"
    and "accounted (snd (SetOp e i d sid pid w))"
    and "accounted (snd (SetMute e i d sid pid w))"
  unfolding BanPlayer_def UnbanPlayer_def SetWhitelist_def SetOp_def SetMute_def
  by (rule flag_and_command_accounted [OF assms]; simp)+

lemma KickPlayer_accounted:
  "accounted d \<Longrightarrow> accounted (snd (KickPlayer str e i j d sid pid reason actor))"
  by (auto simp: KickPlayer_def insert_command_def split: sum.splits prod.splits if_splits
      elim!: accounted_frame)

lemma BanNetworkPlayer_accounted:
  assumes "accounted d"
  shows "accounted (snd (BanNetworkPlayer str e ids j d h by reason))"
proof (cases "latestUsername e d h")
  case (Inr username)
  have 1: "accounted (d\<lparr>network_bans := b\<rparr>)" for b
    using assms by (rule accounted_frame) simp_all
  have "accounted (auditNetworkBan e j (fanOutConsoleCommand e ids (d\<lparr>network_bans := b,
      players := update_where p (\<lambda>p. p\<lparr>pl_IsBanned := True, pl_BanReason := Some reason,
        pl_BannedAt := Some (now e), pl_BannedBy := Some by\<rparr>) (players d)\<rparr>) l) a h by x)" for b p l a x
    unfolding auditNetworkBan_def by (rule accounted_update [OF assms], simp, simp, simp_all)
  with 1 Inr assms show ?thesis
    by (simp add: BanNetworkPlayer_def Let_def)
qed (use assms in \<open>simp add: BanNetworkPlayer_def\<close>)

lemma UnbanNetworkPlayer_accounted:
  assumes "accounted d"
  shows "accounted (snd (UnbanNetworkPlayer str e ids j d h actor))"
proof -
  have 1: "accounted (d\<lparr>network_bans := b\<rparr>)" "accounted (fanOutConsoleCommand e ids (d\<lparr>network_bans := b\<rparr>) l)" for b l
    by (rule accounted_frame [OF assms]; simp)+
  have 2: "accounted (auditNetworkBan e j (x\<lparr>players := update_where p (\<lambda>p. p\<lparr>pl_IsBanned := False,
      pl_BanReason := None, pl_BannedAt := None, pl_BannedBy := None\<rparr>) (players x)\<rparr>) a h actor pay)"
    if "accounted x" for x p a pay
    unfolding auditNetworkBan_def by (rule accounted_update [OF that], simp, simp, simp_all)
  show ?thesis
    using assms 1 2 by (simp add: UnbanNetworkPlayer_def Let_def split: sum.splits option.splits)
qed

lemmas player_ops_accounted = RecordPlayerEvent_accounted moderation_accounted KickPlayer_accounted
  BanNetworkPlayer_accounted UnbanNetworkPlayer_accounted

section \<open>Servers and nodes\<close>

lemma UpdateServerStatus_accounted:
  assumes "accounted d"
  shows "accounted (snd (UpdateServerStatus e d i st))"
proof -
  have "accounted (d\<lparr>servers := x\<rparr>)" for x using assms by (rule accounted_frame) simp_all
  then show ?thesis
    using assms accounted_close by (fastforce simp: UpdateServerStatus_def Let_def split: sum.splits)
qed

lemma DaemonSelfRegister_accounted:
  assumes "accounted d"
  shows "accounted (snd (DaemonSelfRegister e d n req))"
proof -
  have "accounted (d\<lparr>nodes := x\<rparr>)" "accounted (d\<lparr>nodes := x, servers := y\<rparr>)" for x y
    by (rule accounted_frame [OF assms]; simp)+
  then show ?thesis
    using assms accounted_close by (fastforce simp: DaemonSelfRegister_def Let_def split: sum.splits)
qed

lemma played_delete:
  "(\<And>s. s \<in> set ss \<Longrightarrow> p s \<Longrightarrow> ps_PlayerID s \<noteq> i) \<Longrightarrow> played (delete_where p ss) i = played ss i"
  by (induction ss) (auto simp: delete_where_def)

lemma delete_server_accounted:
  assumes "accounted d"
  shows "accounted (delete_server_row d i)"
proof -
  let ?gone = "\<lambda>s. \<exists>p \<in> set (players d). pl_ID p = ps_PlayerID s \<and> pl_ServerID p = i"
  let ?d = "delete_server_row d i"
  have sel: "players ?d = delete_where (\<lambda>p. pl_ServerID p = i) (players d)"
    "player_sessions ?d = delete_where ?gone (player_sessions d)"
    by (simp_all add: delete_server_row_def Let_def)
  from assms have a: "unique_on pl_ID (players d)" "distinct (open_players (player_sessions d))"
      "\<forall>s \<in> set (player_sessions d). open_session s \<longrightarrow> ps_DurationS s = None"
      "\<forall>s \<in> set (player_sessions d). ps_PlayerID s \<in> pl_ID ` set (players d)"
      "\<forall>p \<in> set (players d). pl_PlaytimeS p = played (player_sessions d) (pl_ID p)"
    by (auto simp: accounted_def)
  have "distinct (open_players (player_sessions ?d))"
    unfolding sel delete_where_def by (rule distinct_open_filter [OF a(2)])
  moreover have "ps_PlayerID s \<in> pl_ID ` set (players ?d)" if "s \<in> set (player_sessions ?d)" for s
    using that a(4) by (force simp: sel set_delete_where)
  moreover have "pl_PlaytimeS p = played (player_sessions ?d) (pl_ID p)" if p: "p \<in> set (players ?d)" for p
  proof -
    from p have "p \<in> set (players d)" "pl_ServerID p \<noteq> i" by (auto simp: sel set_delete_where)
    moreover have "played (delete_where ?gone (player_sessions d)) (pl_ID p) = played (player_sessions d) (pl_ID p)"
      using calculation unique_on_eq [OF a(1)] by (intro played_delete) metis
    ultimately show ?thesis using a(5) by (simp add: sel)
  qed
  ultimately show ?thesis
    using a(1,3) by (auto simp: accounted_def sel set_delete_where unique_on_delete_where)
qed

lemma DeleteServer_accounted: "accounted d \<Longrightarrow> accounted (snd (DeleteServer e d i u role))"
  by (auto simp: DeleteServer_def delete_server_accounted split: sum.splits)

section \<open>All operations\<close>

datatype play_act =
    PlEvent env event_ids uuid string string uuid
  | PlBan env uuid uuid uuid uuid string
  | PlUnban env uuid uuid uuid
  | PlWhitelist env uuid uuid uuid bool
  | PlOp env uuid uuid uuid bool
  | PlMute env uuid uuid uuid bool
  | PlKick "uuid \<Rightarrow> string" env uuid uuid uuid uuid string string
  | PlNetworkBan "uuid \<Rightarrow> string" env "nat \<Rightarrow> uuid" uuid uuid uuid string
  | PlNetworkUnban "uuid \<Rightarrow> string" env "nat \<Rightarrow> uuid" uuid uuid uuid
  | PlServerStatus env uuid string
  | PlServerDelete env uuid uuid string
  | PlDaemonRegister env uuid DaemonSelfRegisterRequest

fun play_step :: "play_act \<Rightarrow> db \<Rightarrow> unit result \<times> db" where
  "play_step (PlEvent e ids sid a u h) d = RecordPlayerEvent e ids d sid a u h"
| "play_step (PlBan e c sid pid b r) d = BanPlayer e c d sid pid b r"
| "play_step (PlUnban e c sid pid) d = UnbanPlayer e c d sid pid"
| "play_step (PlWhitelist e c sid pid w) d = SetWhitelist e c d sid pid w"
| "play_step (PlOp e c sid pid w) d = SetOp e c d sid pid w"
| "play_step (PlMute e c sid pid w) d = SetMute e c d sid pid w"
| "play_step (PlKick str e c l sid pid r a) d = KickPlayer str e c l d sid pid r a"
| "play_step (PlNetworkBan str e ids l h b r) d = BanNetworkPlayer str e ids l d h b r"
| "play_step (PlNetworkUnban str e ids l h a) d = UnbanNetworkPlayer str e ids l d h a"
| "play_step (PlServerStatus e sid st) d = UpdateServerStatus e d sid st"
| "play_step (PlServerDelete e sid u role) d = DeleteServer e d sid u role"
| "play_step (PlDaemonRegister e n req) d = DaemonSelfRegister e d n req"

interpretation playtime: kept_invariant play_step accounted
proof
  show "accounted d \<Longrightarrow> accounted (snd (play_step a d))" for a d
    by (cases a) (simp_all add: player_ops_accounted UpdateServerStatus_accounted DeleteServer_accounted
        DaemonSelfRegister_accounted)
qed

text \<open>[C22] Whatever sequence of joins, leaves, bans, status changes, deletions and daemon
  restarts happens, with any of their statements failing, the play time of every player
  is exactly the sum of the durations of their closed sessions, and a player has at most
  one open session.\<close>

theorem playtime_accounted:
  assumes "accounted d" "p \<in> set (players (run_of play_step acts d))"
  shows "pl_PlaytimeS p = played (player_sessions (run_of play_step acts d)) (pl_ID p)
    \<and> length (filter (\<lambda>s. open_session s \<and> ps_PlayerID s = pl_ID p) (player_sessions (run_of play_step acts d))) \<le> 1"
proof -
  let ?d = "run_of play_step acts d"
  from playtime.inv_run [OF assms(1)] have "accounted ?d" .
  then have a: "distinct (open_players (player_sessions ?d))"
    "pl_PlaytimeS p = played (player_sessions ?d) (pl_ID p)"
    using assms(2) by (auto simp: accounted_def)
  have "length (filter (\<lambda>s. open_session s \<and> ps_PlayerID s = i) ss) \<le> 1"
    if "distinct (open_players ss)" for i ss
    using that by (induction ss) (auto simp: set_open_players filter_empty_conv split: if_splits)
  with a show ?thesis by blast
qed

definition ex_events :: "uuid \<Rightarrow> event_ids" where
  "ex_events k = \<lparr>ev_player = k, ev_session = k + 1, ev_command = k + 2\<rparr>"

abbreviation ex_play :: "play_act list" where
  "ex_play \<equiv> [PlEvent (quiet 0) (ex_events 40) 20 ''join'' ''steve'' 7,
     PlEvent (quiet (90 * second)) (ex_events 50) 20 ''join'' ''steve'' 7, PlServerStatus (quiet (120 * second)) 20 StatusCrashed]"

theorem playtime_accounted_witness:
  "\<exists>p. p \<in> set (players (run_of play_step ex_play ex_fleet))
    \<and> pl_PlaytimeS p = played (player_sessions (run_of play_step ex_play ex_fleet)) (pl_ID p) \<and> pl_PlaytimeS p = 120"
proof -
  let ?d = "run_of play_step ex_play ex_fleet"
  have "list_ex (\<lambda>p. pl_PlaytimeS p = 120) (players ?d)" by code_simp
  then obtain p where p: "p \<in> set (players ?d)" "pl_PlaytimeS p = 120" by (auto simp: list_ex_iff)
  have "accounted ex_fleet" by (simp add: accounted_def ex_fleet_simps unique_on_def)
  from playtime_accounted [OF this p(1)] p show ?thesis by blast
qed

section \<open>Network bans\<close>

lemma upsert_player_frame:
  "upsert_player e i d sid h u = Inr (pid, d') \<Longrightarrow>
   servers d' = servers d \<and> network_bans d' = network_bans d \<and> node_commands d' = node_commands d"
  by (auto simp: upsert_player_def split: option.splits if_splits)

lemma closeOpenSessions_frame:
  "closeOpenSessions e l wh d = Inr d' \<Longrightarrow>
   servers d' = servers d \<and> network_bans d' = network_bans d \<and> node_commands d' = node_commands d"
  by (auto dest: closeOpenSessions_Inr)

lemma insert_player_session_frame:
  "insert_player_session e i d pid = Inr d' \<Longrightarrow>
   servers d' = servers d \<and> network_bans d' = network_bans d \<and> node_commands d' = node_commands d"
  by (auto simp: insert_player_session_def split: if_splits)

lemma record_join_enforces:
  assumes "record_join e ids d sid u h = Inr d'"
  obtains d3 where "enforceNetworkBanOnJoin e (ev_command ids) d3 sid h u = Inr d'"
    "servers d3 = servers d" "network_bans d3 = network_bans d" "node_commands d3 = node_commands d"
proof -
  from assms obtain i d1 d2 d3 where
    "upsert_player e (ev_player ids) d sid h u = Inr (i, d1)"
    "closeOpenSessions e ''RecordPlayerEvent.close'' (\<lambda>s. ps_PlayerID s = i) d1 = Inr d2"
    "insert_player_session e (ev_session ids) d2 i = Inr d3"
    "enforceNetworkBanOnJoin e (ev_command ids) d3 sid h u = Inr d'"
    unfolding record_join_def and_then_Inr wrapping_Inr split_paired_Ex prod.case by blast
  then show thesis
    using that upsert_player_frame closeOpenSessions_frame insert_player_session_frame by metis
qed

lemma insert_commands_Inr:
  assumes "insert_commands e l ids d svs pay = Inr d'" "sv \<in> set svs"
  shows "\<exists>k. new_command e (ids k) (sv_NodeID sv) (sv_ID sv) ''send_command'' pay \<in> set (node_commands d')"
proof -
  from assms(2) obtain k where k: "k < length svs" "sv = svs ! k" by (auto simp: in_set_conv_nth)
  have "(k, sv) \<in> set (zip [0..<length svs] svs)"
    using k by (auto simp: set_zip intro!: exI [of _ k])
  with assms(1) show ?thesis by (force simp: insert_commands_def Let_def split: if_splits)
qed

lemma join_kicked:
  assumes "RecordPlayerEvent e ids d sid ''join'' u h = (r, d')" "find_server d sid = Some sv"
    "\<exists>b \<in> set (network_bans d). nb_HytaleUUID b = h" "isSafePlayerName u"
  shows "(is_ok r \<and> (\<exists>c \<in> set (node_commands d'). c_NodeID c = sv_NodeID sv \<and> c_ServerID c = Some sid
      \<and> c_Status c = ''pending'' \<and> c_Payload c = cmd_payload (''kick '' @ u)))
    \<or> (\<not> is_ok r \<and> d' = d)"
proof (cases r)
  case (Inl err)
  with assms(1) show ?thesis by (auto simp: RecordPlayerEvent_def split: if_splits sum.splits)
next
  case (Inr x)
  with assms(1) have "record_join e ids d sid u h = Inr d'"
    by (auto simp: RecordPlayerEvent_def split: if_splits sum.splits)
  then obtain d3 where d3: "enforceNetworkBanOnJoin e (ev_command ids) d3 sid h u = Inr d'"
    "servers d3 = servers d" "network_bans d3 = network_bans d" by (rule record_join_enforces)
  with assms(3,4) have ins: "insert_commands e ''enforceNetworkBanOnJoin'' (\<lambda>_. ev_command ids) d3
      (filter (\<lambda>s. sv_ID s = sid) (servers d)) (cmd_payload (''kick '' @ u)) = Inr d'"
    by (auto simp: enforceNetworkBanOnJoin_def split: if_splits sum.splits)
  from assms(2) have "sv \<in> set (filter (\<lambda>s. sv_ID s = sid) (servers d))" by (auto dest: find_server_SomeD)
  from insert_commands_Inr [OF ins this] have
    "new_command e (ev_command ids) (sv_NodeID sv) sid ''send_command'' (cmd_payload (''kick '' @ u)) \<in> set (node_commands d')"
    using assms(2) by (auto dest: find_server_SomeD)
  then have "\<exists>c \<in> set (node_commands d'). c_NodeID c = sv_NodeID sv \<and> c_ServerID c = Some sid
      \<and> c_Status c = ''pending'' \<and> c_Payload c = cmd_payload (''kick '' @ u)"
    by (rule rev_bexI) (simp add: new_command_def)
  with Inr show ?thesis by simp
qed

end
