(* ===== verification/PlayerHandlers.thy ===== *)
theory PlayerHandlers
  imports PlayTime ServerFlows
begin

text \<open>
  \<^verbatim>\<open>handlers/players.go\<close> and \<^verbatim>\<open>handlers/network_players.go\<close>: the report of a daemon
  on joins and leaves, the activity of the dashboard, and moderation.  A body whose
  decoding error is ignored is the reason it carried, empty when it carried none.
\<close>

section \<open>Reports of the daemon\<close>

fun name_loop :: "string \<Rightarrow> bool" where
  "name_loop [] = True"
| "name_loop (r # rs) =
     (if \<not> (is_lower r \<or> is_upper r \<or> is_digit r) \<and> r \<noteq> CHR ''_'' then False else name_loop rs)"

definition isValidHytaleUsername :: "string \<Rightarrow> bool" where
  "isValidHytaleUsername s = (if s = '''' \<or> length s > 32 then False else name_loop s)"

definition h_DaemonPlayerReport ::
  "env \<Rightarrow> event_ids \<Rightarrow> db \<Rightarrow> uuid option \<Rightarrow> uuid option \<Rightarrow> (string \<times> string \<times> uuid) result \<Rightarrow> unit response \<times> db" where
  "h_DaemonPlayerReport e ids d authed param body =
     daemon_callback e d authed param (\<lambda>serverID.
       case body of Inl err \<Rightarrow> (Refuse 400 (Error err), d)
       | Inr (action, username, hytaleUUID) \<Rightarrow>
           if \<not> isValidHytaleUsername username then (Refuse 400 ''invalid username'', d)
           else (case RecordPlayerEvent e ids d serverID action username hytaleUUID of
               (Inl _, d') \<Rightarrow> (Refuse 500 ''could not record player event'', d')
             | (Inr _, d') \<Rightarrow> (Reply 204 (), d')))"

section \<open>Reading\<close>

definition h_DashboardActivity :: "env \<Rightarrow> db \<Rightarrow> User \<Rightarrow> PlayerActivity response" where
  "h_DashboardActivity e d user =
     (case ListServers e d (u_ID user) (u_Role user) of
        Inl _ \<Rightarrow> Refuse 500 ''could not load activity''
      | Inr svs \<Rightarrow> (case PlayerActivity_q e d (map sv_ID svs) of
          Inl _ \<Rightarrow> Refuse 500 ''could not load activity'' | Inr a \<Rightarrow> Reply 200 a))"

definition h_ListPlayers :: "env \<Rightarrow> db \<Rightarrow> uuid option \<Rightarrow> Player list response" where
  "h_ListPlayers e d param =
     (case param of None \<Rightarrow> Refuse 400 ''invalid ID format''
      | Some serverID \<Rightarrow> (case ListPlayers e d serverID of
          Inl _ \<Rightarrow> Refuse 500 ''could not list players'' | Inr ps \<Rightarrow> Reply 200 ps))"

text \<open>The answer to an error of the player service.\<close>

definition player_error :: "string \<Rightarrow> go_error \<Rightarrow> 'a response" where
  "player_error other err =
     (if errors_is err ErrPlayerNotFound then Refuse 404 ''player not found''
      else if errors_is err ErrUnsafePlayerName then Refuse 422 (Error err)
      else Refuse 500 other)"

definition with_player ::
  "db \<Rightarrow> uuid option \<Rightarrow> uuid option \<Rightarrow> (uuid \<Rightarrow> uuid \<Rightarrow> 'a response \<times> db) \<Rightarrow> 'a response \<times> db" where
  "with_player d param playerParam f =
     (case param of None \<Rightarrow> (Refuse 400 ''invalid ID format'', d)
      | Some serverID \<Rightarrow> (case playerParam of None \<Rightarrow> (Refuse 400 ''invalid ID format'', d)
      | Some playerID \<Rightarrow> f serverID playerID))"

definition h_GetPlayer :: "env \<Rightarrow> db \<Rightarrow> uuid option \<Rightarrow> uuid option \<Rightarrow> Player response" where
  "h_GetPlayer e d param playerParam = fst (with_player d param playerParam (\<lambda>serverID playerID.
     (case GetPlayer e d serverID playerID of
        Inl err \<Rightarrow> player_error ''could not fetch player'' err | Inr p \<Rightarrow> Reply 200 p, d)))"

definition h_GetPlayerSessions ::
  "env \<Rightarrow> db \<Rightarrow> uuid option \<Rightarrow> uuid option \<Rightarrow> (time \<times> time option \<times> int option) list response" where
  "h_GetPlayerSessions e d param playerParam = fst (with_player d param playerParam (\<lambda>serverID playerID.
     (case GetPlayerSessions e d serverID playerID of
        Inl err \<Rightarrow> player_error ''could not fetch sessions'' err | Inr ss \<Rightarrow> Reply 200 ss, d)))"

section \<open>Moderation\<close>

definition answered :: "(go_error \<Rightarrow> 'a response) \<Rightarrow> 'a \<Rightarrow> unit result \<times> db \<Rightarrow> 'a response \<times> db" where
  "answered bad ok x = (case x of (Inl err, d') \<Rightarrow> (bad err, d') | (Inr _, d') \<Rightarrow> (Reply 200 ok, d'))"

abbreviation bad_request :: "go_error \<Rightarrow> 'a response" where
  "bad_request err \<equiv> Refuse 400 (Error err)"

definition h_BanPlayer ::
  "env \<Rightarrow> uuid \<Rightarrow> db \<Rightarrow> User option \<Rightarrow> uuid option \<Rightarrow> uuid option \<Rightarrow> string \<Rightarrow> string response \<times> db" where
  "h_BanPlayer e newID d caller param playerParam reason = with_player d param playerParam (\<lambda>serverID playerID.
     case caller of None \<Rightarrow> (Refuse 401 ''unauthorized'', d)
     | Some user \<Rightarrow> answered bad_request ''player banned'' (BanPlayer e newID d serverID playerID (u_ID user) reason))"

definition h_UnbanPlayer ::
  "env \<Rightarrow> uuid \<Rightarrow> db \<Rightarrow> uuid option \<Rightarrow> uuid option \<Rightarrow> string response \<times> db" where
  "h_UnbanPlayer e newID d param playerParam = with_player d param playerParam (\<lambda>serverID playerID.
     answered bad_request ''player unbanned'' (UnbanPlayer e newID d serverID playerID))"

definition h_SetWhitelist ::
  "env \<Rightarrow> uuid \<Rightarrow> db \<Rightarrow> uuid option \<Rightarrow> uuid option \<Rightarrow> bool result \<Rightarrow> string response \<times> db" where
  "h_SetWhitelist e newID d param playerParam body = with_player d param playerParam (\<lambda>serverID playerID.
     case body of Inl err \<Rightarrow> (bad_request err, d)
     | Inr w \<Rightarrow> answered bad_request ''whitelist updated'' (SetWhitelist e newID d serverID playerID w))"

definition h_KickPlayer ::
  "(uuid \<Rightarrow> string) \<Rightarrow> env \<Rightarrow> uuid \<Rightarrow> uuid \<Rightarrow> db \<Rightarrow> User option \<Rightarrow> uuid option \<Rightarrow> uuid option \<Rightarrow> string \<Rightarrow> string response \<times> db" where
  "h_KickPlayer str e newID logID d caller param playerParam reason = with_player d param playerParam (\<lambda>serverID playerID.
     answered (player_error ''could not kick player'') ''player kicked''
       (KickPlayer str e newID logID d serverID playerID reason (case caller of None \<Rightarrow> '''' | Some u \<Rightarrow> u_Username u)))"

text \<open>Granting operator status needs the role that may type the command.\<close>

definition h_SetOp ::
  "env \<Rightarrow> uuid \<Rightarrow> db \<Rightarrow> User \<Rightarrow> uuid option \<Rightarrow> uuid option \<Rightarrow> bool result \<Rightarrow> string response \<times> db" where
  "h_SetOp e newID d user param playerParam body = with_player d param playerParam (\<lambda>serverID playerID.
     case body of Inl err \<Rightarrow> (bad_request err, d)
     | Inr op \<Rightarrow> (case GetServer e d serverID (u_ID user) (u_Role user) of
         Inl err \<Rightarrow> (serverError err, d)
       | Inr (server, _) \<Rightarrow>
           if \<not> CanRunConsoleCommand (ConsoleRole user (sv_OwnerID server)) ''op''
           then (Refuse 403 ''changing op status needs the admin role'', d)
           else answered (player_error ''could not update op status'') ''op status updated''
             (SetOp e newID d serverID playerID op)))"

definition h_SetMute ::
  "env \<Rightarrow> uuid \<Rightarrow> db \<Rightarrow> uuid option \<Rightarrow> uuid option \<Rightarrow> bool result \<Rightarrow> string response \<times> db" where
  "h_SetMute e newID d param playerParam body = with_player d param playerParam (\<lambda>serverID playerID.
     case body of Inl err \<Rightarrow> (bad_request err, d)
     | Inr m \<Rightarrow> answered (player_error ''could not update mute status'') ''mute status updated''
         (SetMute e newID d serverID playerID m))"

section \<open>The network\<close>

definition h_ListNetworkPlayers :: "env \<Rightarrow> db \<Rightarrow> User option \<Rightarrow> NetworkPlayer list response" where
  "h_ListNetworkPlayers e d caller =
     (case caller of None \<Rightarrow> Refuse 401 ''unauthorized''
      | Some user \<Rightarrow> (case ListNetworkPlayers e d (u_ID user) (u_Role user) of
          Inl _ \<Rightarrow> Refuse 500 ''could not list players'' | Inr ps \<Rightarrow> Reply 200 ps))"

definition network_error :: "string \<Rightarrow> string \<Rightarrow> go_error \<Rightarrow> 'a response" where
  "network_error missing other err =
     (if errors_is err ErrPlayerNotFound then Refuse 404 missing else Refuse 500 other)"

definition h_BanNetworkPlayer ::
  "(uuid \<Rightarrow> string) \<Rightarrow> env \<Rightarrow> (nat \<Rightarrow> uuid) \<Rightarrow> uuid \<Rightarrow> db \<Rightarrow> User option \<Rightarrow> uuid option \<Rightarrow> string \<Rightarrow> string response \<times> db" where
  "h_BanNetworkPlayer str e ids logID d caller param reason =
     (case param of None \<Rightarrow> (Refuse 400 ''invalid player uuid'', d)
      | Some hytaleUUID \<Rightarrow> (case caller of None \<Rightarrow> (Refuse 401 ''unauthorized'', d)
      | Some user \<Rightarrow> answered (network_error ''player not found on any server'' ''could not ban player'')
          ''player banned across the network'' (BanNetworkPlayer str e ids logID d hytaleUUID (u_ID user) reason)))"

definition h_UnbanNetworkPlayer ::
  "(uuid \<Rightarrow> string) \<Rightarrow> env \<Rightarrow> (nat \<Rightarrow> uuid) \<Rightarrow> uuid \<Rightarrow> db \<Rightarrow> User option \<Rightarrow> uuid option \<Rightarrow> string response \<times> db" where
  "h_UnbanNetworkPlayer str e ids logID d caller param =
     (case param of None \<Rightarrow> (Refuse 400 ''invalid player uuid'', d)
      | Some hytaleUUID \<Rightarrow> (case caller of None \<Rightarrow> (Refuse 401 ''unauthorized'', d)
      | Some user \<Rightarrow> answered (network_error ''no network ban for this player'' ''could not unban player'')
          ''network ban lifted'' (UnbanNetworkPlayer str e ids logID d hytaleUUID (u_ID user))))"

section \<open>Names and bans\<close>

lemma name_loop_all: "name_loop s = list_all name_char s"
  by (induction s) (auto simp: name_char_def)

text \<open>The loop of the handler and the expression of the service accept the same names.\<close>

lemma isValidHytaleUsername_safe: "isValidHytaleUsername s = isSafePlayerName s"
  by (auto simp: isValidHytaleUsername_def isSafePlayerName_def name_loop_all Suc_le_eq)

lemma safe_name_char: "name_char c \<Longrightarrow> 48 \<le> byte c \<and> byte c \<le> 122"
  by (auto simp: name_char_def is_upper_def is_lower_def is_digit_def byte_def)

text \<open>A network ban is enforced at the next join.  When the daemon reports that a banned
  account joined, under whatever name, the report is either refused and changes nothing,
  or it is recorded together with a pending kick of that name for the node of the server;
  the name consists of letters, digits and underscores, so the kick is one console line.\<close>

theorem banned_join_kicked:
  assumes "h_DaemonPlayerReport e ids d authed param (Inr (''join'', u, h)) = (resp, d')"
    "\<exists>b \<in> set (network_bans d). nb_HytaleUUID b = h" "unique_on sv_ID (servers d)"
  shows "d' = d \<or> (\<exists>i n. param = Some i \<and> authed = Some n \<and> (\<forall>c \<in> set u. 48 \<le> byte c \<and> byte c \<le> 122)
    \<and> (\<exists>c \<in> set (node_commands d'). c_NodeID c = n \<and> c_ServerID c = Some i \<and> c_Status c = ''pending''
        \<and> c_Payload c = cmd_payload (''kick '' @ u)))"
proof (cases "d' = d")
  case False
  from daemon_callback_cases [OF assms(1) [unfolded h_DaemonPlayerReport_def]] False obtain i n s where
    i: "param = Some i" "authed = Some n" "s \<in> set (servers d)" "sv_ID s = i" "sv_NodeID s = n"
    and f: "(if \<not> isValidHytaleUsername u then (Refuse 400 ''invalid username'', d)
       else (case RecordPlayerEvent e ids d i ''join'' u h of
           (Inl _, d') \<Rightarrow> (Refuse 500 ''could not record player event'', d')
         | (Inr _, d') \<Rightarrow> (Reply 204 (), d'))) = (resp, d')"
    by auto
  from f False have v: "isSafePlayerName u" by (auto simp: isValidHytaleUsername_safe split: if_splits)
  from f v obtain r where r: "RecordPlayerEvent e ids d i ''join'' u h = (r, d')"
    by (auto simp: isValidHytaleUsername_safe split: prod.splits sum.splits)
  have "find_server d i = Some s" using find_server_unique [OF assms(3) i(3)] i(4) by simp
  from join_kicked [OF r this assms(2) v] False
  have "\<exists>c \<in> set (node_commands d'). c_NodeID c = n \<and> c_ServerID c = Some i \<and> c_Status c = ''pending''
      \<and> c_Payload c = cmd_payload (''kick '' @ u)" by (auto simp: i(5))
  moreover have "\<forall>c \<in> set u. 48 \<le> byte c \<and> byte c \<le> 122"
    using v safe_name_char by (auto simp: isSafePlayerName_def list_all_iff)
  ultimately show ?thesis using i by blast
qed simp

definition ex_banned :: db where
  "ex_banned = ex_fleet\<lparr>network_bans := [\<lparr>nb_HytaleUUID = 7, nb_UsernameAtBan = Some ''old'', nb_Reason = None,
     nb_BannedBy = None, nb_BannedAt = 0\<rparr>]\<rparr>"

theorem banned_join_kicked_witness:
  "\<exists>resp d'. h_DaemonPlayerReport (quiet 0) (ex_events 40) ex_banned (Some 10) (Some 20) (Inr (''join'', ''steve'', 7)) = (resp, d')
    \<and> d' \<noteq> ex_banned \<and> (\<exists>c \<in> set (node_commands d'). c_Payload c = cmd_payload ''kick steve'')"
proof -
  let ?h = "h_DaemonPlayerReport (quiet 0) (ex_events 40) ex_banned (Some 10) (Some 20) (Inr (''join'', ''steve'', 7))"
  obtain resp d' where h: "?h = (resp, d')" by fastforce
  have "length (players (snd ?h)) = 1 \<and> length (players ex_banned) = 0" by code_simp
  then have "d' \<noteq> ex_banned" by (auto simp: h)
  moreover have "\<exists>b \<in> set (network_bans ex_banned). nb_HytaleUUID b = 7" by (simp add: ex_banned_def)
  moreover have "unique_on sv_ID (servers ex_banned)" by (simp add: ex_banned_def unique_on_def ex_fleet_simps)
  ultimately show ?thesis using banned_join_kicked [OF h] h by auto
qed

section \<open>Operator status\<close>

text \<open>Operator status changes only for a caller who may type the command on that server.\<close>

lemma ConsoleCommandMinRole_op: "ConsoleCommandMinRole ''op'' = RoleAdmin"
  by code_simp

lemma op_status_needs_admin:
  assumes "h_SetOp e i d user param playerParam body = (resp, d')" "d' \<noteq> d"
  shows "u_Role user \<in> {RoleAdmin, RoleOwner} \<or> (\<exists>sid sv. param = Some sid \<and> find_server d sid = Some sv
    \<and> sv_OwnerID sv = u_ID user)"
proof -
  from assms obtain sid sv a where p: "param = Some sid" "GetServer e d sid (u_ID user) (u_Role user) = Inr (sv, a)"
    "CanRunConsoleCommand (ConsoleRole user (sv_OwnerID sv)) ''op''"
    by (auto simp: h_SetOp_def with_player_def split: option.splits sum.splits prod.splits if_splits)
  from p(3) have "u_Role user \<in> {RoleAdmin, RoleOwner} \<or> u_ID user = sv_OwnerID sv"
    by (auto simp: CanRunConsoleCommand_def ConsoleRole_def ConsoleCommandMinRole_op RoleWeight_def split: if_splits)
  with p(1) GetServer_Inr [OF p(2)] show ?thesis by auto
qed

end
