(* ===== verification/Routing.thy ===== *)
theory Routing
  imports PlayerHandlers
begin

text \<open>
  \<^verbatim>\<open>services/network_routing_service.go\<close> and \<^verbatim>\<open>handlers/network_routing.go\<close>: hubs and gamemodes, the keys
  of their tickets, and the configuration files that nodes write for them.  \<open>hmac\<close> is HMAC-SHA256 of a key
  and a text, \<open>str\<close> the text of an id, \<open>collation\<close> the position of a name in the collation of the
  database; \<open>fresh\<close> are the 32 bytes drawn for a new secret.
\<close>

section \<open>Secrets\<close>

text \<open>The two columns of the only row; a previous secret that is \<^verbatim>\<open>NULL\<close> is empty.\<close>

definition readSecrets :: "string \<Rightarrow> env \<Rightarrow> db \<Rightarrow> (string \<times> string) result" where
  "readSecrets label e d =
     and_then (call e label (network_settings d))
       (\<lambda>r. case r of None \<Rightarrow> Inl ErrNoRows | Some n \<Rightarrow> Inr (ns_current n, ns_previous n))"

text \<open>\<^verbatim>\<open>INSERT ... ON CONFLICT DO NOTHING\<close>; \<open>meanwhile\<close> is what other requests do between the read and
  the insert.\<close>

definition insert_secret :: "string \<Rightarrow> db \<Rightarrow> db" where
  "insert_secret fresh d =
     (case network_settings d of None \<Rightarrow> d\<lparr>network_settings := Some \<lparr>ns_current = fresh, ns_previous = ''''\<rparr>\<rparr> | Some _ \<Rightarrow> d)"

definition secret_texts :: "string \<times> string \<Rightarrow> string list" where
  "secret_texts = (\<lambda>(cur, prev). hex_encode cur # (if length prev > 0 then [hex_encode prev] else []))"

definition GetOrCreateSecrets ::
  "string \<Rightarrow> env \<Rightarrow> (db \<Rightarrow> db) \<Rightarrow> string \<Rightarrow> db \<Rightarrow> string list result \<times> db" where
  "GetOrCreateSecrets l e meanwhile fresh d =
     (case readSecrets (l @ ''.read'') e d of
        Inr cp \<Rightarrow> (Inr (secret_texts cp), d)
      | Inl err \<Rightarrow>
          if \<not> errors_is err ErrNoRows then (Inl (Wrap ''reading network secret'' err), d)
          else if fault e (l @ ''.random'') then (Inl (Wrap ''generating network secret'' (Driver (l @ ''.random''))), d)
          else (let d1 = meanwhile d
                in if fault e (l @ ''.insert'') then (Inl (Wrap ''persisting network secret'' (Driver (l @ ''.insert''))), d1)
                   else (let d2 = insert_secret fresh d1
                         in (map_sum (Wrap ''reading network secret'') secret_texts (readSecrets (l @ ''.reread'') e d2), d2))))"

definition serverKeyLabel :: string where "serverKeyLabel = ''talepanel-network-v2:''"

definition deriveServerKey :: "(string \<Rightarrow> string \<Rightarrow> string) \<Rightarrow> (uuid \<Rightarrow> string) \<Rightarrow> string \<Rightarrow> uuid \<Rightarrow> string" where
  "deriveServerKey hmac str master serverID = hmac master (serverKeyLabel @ str serverID)"

fun derive_keys :: "(string \<Rightarrow> string \<Rightarrow> string) \<Rightarrow> (uuid \<Rightarrow> string) \<Rightarrow> uuid \<Rightarrow> string list \<Rightarrow> string list result" where
  "derive_keys hmac str serverID [] = Inr []"
| "derive_keys hmac str serverID (m # ms) =
     (case hex_decode m of None \<Rightarrow> Inl (Wrap ''decoding network secret'' (New ''encoding/hex''))
      | Some raw \<Rightarrow> map_sum id (\<lambda>ks. hex_encode (deriveServerKey hmac str raw serverID) # ks) (derive_keys hmac str serverID ms))"

definition serverKeys ::
  "(string \<Rightarrow> string \<Rightarrow> string) \<Rightarrow> (uuid \<Rightarrow> string) \<Rightarrow> string \<Rightarrow> env \<Rightarrow> string \<Rightarrow> db \<Rightarrow> uuid \<Rightarrow> string list result \<times> db" where
  "serverKeys hmac str l e fresh d serverID =
     (case GetOrCreateSecrets l e id fresh d of
        (Inl err, d') \<Rightarrow> (Inl err, d') | (Inr masters, d') \<Rightarrow> (derive_keys hmac str serverID masters, d'))"

section \<open>Roles\<close>

abbreviation ErrInvalidNetworkRole :: go_error where
  "ErrInvalidNetworkRole \<equiv> New ''invalid network role''"

definition SetServerRole :: "env \<Rightarrow> db \<Rightarrow> uuid \<Rightarrow> string \<Rightarrow> unit result \<times> db" where
  "SetServerRole e d serverID role =
     (if role \<notin> {''hub'', ''gamemode'', ''none'', ''''} then (Inl ErrInvalidNetworkRole, d)
      else (let v = (if role \<in> {''hub'', ''gamemode''} then Some role else None)
            in if fault e ''SetServerRole'' then (Inl (Wrap ''setting network role'' (Driver ''SetServerRole'')), d)
               else if rows_affected (\<lambda>s. sv_ID s = serverID) (servers d) = 0 then (Inl ErrPlayerNotFound, d)
               else (Inr (), d\<lparr>servers := update_where (\<lambda>s. sv_ID s = serverID)
                      (\<lambda>s. s\<lparr>sv_NetworkRole := v, sv_UpdatedAt := now e\<rparr>) (servers d)\<rparr>)))"

section \<open>Configuration files\<close>

definition modConfigVersion :: int where "modConfigVersion = 2"

record ModGamemode =
  gm_ServerID :: uuid
  gm_Name :: string
  gm_Address :: string
  gm_Secret :: string

record ModNetworkConfig =
  nc_Version :: int
  nc_Role :: string
  nc_ServerID :: uuid
  nc_RequireReferral :: bool
  nc_Secrets :: "string list"
  nc_Gamemodes :: "ModGamemode list"

text \<open>A server joined with its node; the address is the public one, if there is one.\<close>

definition gamemode_row :: "db \<Rightarrow> Server \<Rightarrow> ModGamemode list" where
  "gamemode_row d sv =
     (case find_node d (sv_NodeID sv) of None \<Rightarrow> []
      | Some n \<Rightarrow> [\<lparr>gm_ServerID = sv_ID sv, gm_Name = sv_Name sv,
           gm_Address = (case n_PublicAddress n of None \<Rightarrow> n_FQDN n | Some a \<Rightarrow> a) @ '':'' @ dec (sv_Port sv), gm_Secret = ''''\<rparr>])"

definition listGamemodes ::
  "(string \<Rightarrow> string \<Rightarrow> string) \<Rightarrow> (uuid \<Rightarrow> string) \<Rightarrow> (string \<Rightarrow> nat) \<Rightarrow> string \<Rightarrow> env \<Rightarrow> string \<Rightarrow> db
     \<Rightarrow> ModGamemode list result \<times> db" where
  "listGamemodes hmac str collation l e fresh d =
     (if fault e (l @ ''.query'') then (Inl (Wrap ''listing gamemodes'' (Driver (l @ ''.query''))), d)
      else (let out = concat (map (gamemode_row d) (sort_key (\<lambda>s. collation (sv_Name s))
                   (filter (\<lambda>s. sv_NetworkRole s = Some ''gamemode'') (servers d))))
            in case GetOrCreateSecrets l e id fresh d of
                 (Inl err, d') \<Rightarrow> (Inl err, d')
               | (Inr masters, d') \<Rightarrow>
                   (case masters of [] \<Rightarrow> (Inl (New ''index out of range''), d')
                    | cur # _ \<Rightarrow>
                       (case hex_decode cur of None \<Rightarrow> (Inl (Wrap ''decoding network secret'' (New ''encoding/hex'')), d')
                        | Some raw \<Rightarrow>
                           (Inr (map (\<lambda>g. g\<lparr>gm_Secret := hex_encode (deriveServerKey hmac str raw (gm_ServerID g))\<rparr>) out), d')))))"

definition BuildServerConfig ::
  "(string \<Rightarrow> string \<Rightarrow> string) \<Rightarrow> (uuid \<Rightarrow> string) \<Rightarrow> (string \<Rightarrow> nat) \<Rightarrow> string \<Rightarrow> env \<Rightarrow> (nat \<Rightarrow> string) \<Rightarrow> db \<Rightarrow> uuid
     \<Rightarrow> ModNetworkConfig result \<times> db" where
  "BuildServerConfig hmac str collation l e fresh d serverID =
     (case call e (l @ ''.server'') (find_server d serverID) of
        Inl err \<Rightarrow> (Inl (Wrap ''loading server for config'' err), d)
      | Inr None \<Rightarrow> (Inl ErrPlayerNotFound, d)
      | Inr (Some sv) \<Rightarrow> (case sv_NetworkRole sv of None \<Rightarrow> (Inl ErrPlayerNotFound, d)
        | Some role \<Rightarrow> (case serverKeys hmac str (l @ ''.keys'') e (fresh 0) d serverID of
            (Inl err, d1) \<Rightarrow> (Inl err, d1)
          | (Inr secrets, d1) \<Rightarrow>
              (let cfg = \<lparr>nc_Version = modConfigVersion, nc_Role = role, nc_ServerID = serverID,
                     nc_RequireReferral = sv_RequireReferral sv, nc_Secrets = secrets, nc_Gamemodes = []\<rparr>
               in if role = ''hub''
                  then (case listGamemodes hmac str collation (l @ ''.gamemodes'') e (fresh 1) d1 of
                      (Inl err, d2) \<Rightarrow> (Inl err, d2)
                    | (Inr gms, d2) \<Rightarrow> (Inr (cfg\<lparr>nc_Gamemodes := gms\<rparr>), d2))
                  else (Inr cfg, d1)))))"

definition gamemode_json :: "(uuid \<Rightarrow> string) \<Rightarrow> ModGamemode \<Rightarrow> json" where
  "gamemode_json str g = JObj [(''server_id'', JStr (str (gm_ServerID g))), (''name'', JStr (gm_Name g)),
     (''address'', JStr (gm_Address g)), (''secret'', JStr (gm_Secret g))]"

definition config_json :: "(uuid \<Rightarrow> string) \<Rightarrow> ModNetworkConfig \<Rightarrow> json" where
  "config_json str c = JObj ([(''version'', JNum (dec (nc_Version c))), (''role'', JStr (nc_Role c)),
     (''server_id'', JStr (str (nc_ServerID c))), (''require_referral'', JBool (nc_RequireReferral c)),
     (''secrets'', JArr (map JStr (nc_Secrets c)))]
     @ (if nc_Gamemodes c = [] then [] else [(''gamemodes'', JArr (map (gamemode_json str) (nc_Gamemodes c)))]))"

definition prune_configs :: "uuid \<Rightarrow> db \<Rightarrow> db" where
  "prune_configs serverID d = d\<lparr>node_commands := delete_where (\<lambda>c. c_ServerID c = Some serverID
     \<and> c_CommandType c = ''write_mod_config'' \<and> c_Status c \<in> {''acked'', ''failed''}) (node_commands d)\<rparr>"

definition DistributeConfig ::
  "(string \<Rightarrow> string \<Rightarrow> string) \<Rightarrow> (uuid \<Rightarrow> string) \<Rightarrow> (string \<Rightarrow> nat) \<Rightarrow> string \<Rightarrow> env \<Rightarrow> (nat \<Rightarrow> string) \<Rightarrow> uuid \<Rightarrow> db \<Rightarrow> uuid
     \<Rightarrow> unit result \<times> db" where
  "DistributeConfig hmac str collation l e fresh newID d serverID =
     (case BuildServerConfig hmac str collation l e fresh d serverID of
        (Inl err, d1) \<Rightarrow> (Inl err, d1)
      | (Inr cfg, d1) \<Rightarrow>
          (case and_then (call e (l @ ''.node'') (find_server d1 serverID))
                 (\<lambda>r. case r of None \<Rightarrow> Inl ErrNoRows | Some sv \<Rightarrow> Inr sv) of
             Inl err \<Rightarrow> (Inl (Wrap ''loading server node for distribution'' err), d1)
           | Inr sv \<Rightarrow>
               if fault e (l @ ''.prune'')
               then (Inl (Wrap ''pruning delivered mod config commands'' (Driver (l @ ''.prune''))), d1)
               else (let d2 = prune_configs serverID d1
                     in case insert_command e (l @ ''.insert'') newID d2 (sv_NodeID sv) serverID ''write_mod_config''
                            (JObj [(''config'', config_json str cfg), (''data_path'', JStr (sv_DataPath sv))]) of
                          Inl err \<Rightarrow> (Inl (Wrap ''enqueuing mod config write'' err), d2)
                        | Inr d3 \<Rightarrow> (Inr (), d3))))"

text \<open>\<open>fresh k\<close> and \<open>ids k\<close> belong to the \<open>k\<close>-th server; its failure is logged and the loop goes on.\<close>

fun distribute_loop ::
  "(string \<Rightarrow> string \<Rightarrow> string) \<Rightarrow> (uuid \<Rightarrow> string) \<Rightarrow> (string \<Rightarrow> nat) \<Rightarrow> env \<Rightarrow> (nat \<Rightarrow> nat \<Rightarrow> string) \<Rightarrow> (nat \<Rightarrow> uuid) \<Rightarrow> nat
     \<Rightarrow> uuid list \<Rightarrow> db \<Rightarrow> db" where
  "distribute_loop hmac str collation e fresh ids k [] d = d"
| "distribute_loop hmac str collation e fresh ids k (i # is) d =
     distribute_loop hmac str collation e fresh ids (Suc k) is
       (snd (DistributeConfig hmac str collation (''Distribute.'' @ dec_nat k) e (fresh k) (ids k) d i))"

definition networked :: "db \<Rightarrow> uuid list" where
  "networked d = map sv_ID (filter (\<lambda>s. sv_NetworkRole s \<noteq> None) (servers d))"

definition DistributeAll ::
  "(string \<Rightarrow> string \<Rightarrow> string) \<Rightarrow> (uuid \<Rightarrow> string) \<Rightarrow> (string \<Rightarrow> nat) \<Rightarrow> env \<Rightarrow> (nat \<Rightarrow> nat \<Rightarrow> string) \<Rightarrow> (nat \<Rightarrow> uuid) \<Rightarrow> db
     \<Rightarrow> unit result \<times> db" where
  "DistributeAll hmac str collation e fresh ids d =
     (if fault e ''DistributeAll'' then (Inl (Wrap ''listing networked servers'' (Driver ''DistributeAll'')), d)
      else (Inr (), distribute_loop hmac str collation e fresh ids 0 (networked d) d))"

section \<open>Requests\<close>

definition h_SetServerRole ::
  "(string \<Rightarrow> string \<Rightarrow> string) \<Rightarrow> (uuid \<Rightarrow> string) \<Rightarrow> (string \<Rightarrow> nat) \<Rightarrow> env \<Rightarrow> (nat \<Rightarrow> nat \<Rightarrow> string) \<Rightarrow> (nat \<Rightarrow> uuid) \<Rightarrow> db
     \<Rightarrow> uuid option \<Rightarrow> string result \<Rightarrow> string response \<times> db" where
  "h_SetServerRole hmac str collation e fresh ids d param body =
     (case param of None \<Rightarrow> (Refuse 400 ''invalid server id'', d)
      | Some serverID \<Rightarrow> (case body of Inl _ \<Rightarrow> (Refuse 400 ''invalid body'', d)
      | Inr role \<Rightarrow> (case SetServerRole e d serverID role of
          (Inl err, d1) \<Rightarrow>
            (if errors_is err ErrInvalidNetworkRole then Refuse 400 ''role must be hub, gamemode or none''
             else if errors_is err ErrPlayerNotFound then Refuse 404 ''server not found''
             else Refuse 500 ''internal error'', d1)
        | (Inr _, d1) \<Rightarrow> (case DistributeAll hmac str collation e fresh ids d1 of
            (Inl _, d2) \<Rightarrow> (Refuse 500 ''role set but distribution failed'', d2)
          | (Inr _, d2) \<Rightarrow> (Reply 200 ''role updated and config distributed'', d2)))))"

definition h_Distribute ::
  "(string \<Rightarrow> string \<Rightarrow> string) \<Rightarrow> (uuid \<Rightarrow> string) \<Rightarrow> (string \<Rightarrow> nat) \<Rightarrow> env \<Rightarrow> (nat \<Rightarrow> nat \<Rightarrow> string) \<Rightarrow> (nat \<Rightarrow> uuid) \<Rightarrow> db
     \<Rightarrow> string response \<times> db" where
  "h_Distribute hmac str collation e fresh ids d =
     (case DistributeAll hmac str collation e fresh ids d of
        (Inl _, d') \<Rightarrow> (Refuse 500 ''distribution failed'', d') | (Inr _, d') \<Rightarrow> (Reply 200 ''config distributed'', d'))"

end
