(* ===== verification/RoutingRules.thy ===== *)
theory RoutingRules
  imports Routing
begin

text \<open>
  What the routing of the network guarantees: which keys a configuration holds, that the keys of a hub
  and of its gamemodes agree, and what a change of roles distributes.
\<close>

section \<open>The secret\<close>

definition masters :: "NetworkSettings \<Rightarrow> string list" where
  "masters ns = ns_current ns # (if ns_previous ns = '''' then [] else [ns_previous ns])"

lemma secret_texts_masters: "secret_texts (ns_current ns, ns_previous ns) = map hex_encode (masters ns)"
  by (simp add: secret_texts_def masters_def)

lemma readSecrets_Inr: "readSecrets l e d = Inr cp \<Longrightarrow> \<exists>ns. network_settings d = Some ns \<and> secret_texts cp = map hex_encode (masters ns)"
  by (auto simp: readSecrets_def and_then_Inr secret_texts_masters split: option.splits)

lemma insert_secret_db: "insert_secret f d = d\<lparr>network_settings := network_settings (insert_secret f d)\<rparr>"
  "network_settings (insert_secret f d) \<noteq> None" "network_settings d \<noteq> None \<Longrightarrow> insert_secret f d = d"
  by (auto simp: insert_secret_def split: option.split)

lemma GetOrCreateSecrets_Inr:
  assumes "GetOrCreateSecrets l e w f d = (Inr ms, d')"
  shows "\<exists>ns. network_settings d' = Some ns \<and> ms = map hex_encode (masters ns) \<and> (d' = d \<or> d' = insert_secret f (w d))"
proof (cases "readSecrets (l @ ''.read'') e d")
  case (Inr cp)
  with assms readSecrets_Inr [OF Inr] show ?thesis by (auto simp: GetOrCreateSecrets_def)
next
  case (Inl err)
  with assms have d': "d' = insert_secret f (w d)"
    and r: "map_sum (Wrap ''reading network secret'') secret_texts (readSecrets (l @ ''.reread'') e d') = Inr ms"
    by (auto simp: GetOrCreateSecrets_def Let_def split: if_splits)
  from r obtain cp where "readSecrets (l @ ''.reread'') e d' = Inr cp" "ms = secret_texts cp" by (auto simp: map_sum_eq_Inr)
  with readSecrets_Inr d' show ?thesis by blast
qed

lemma GetOrCreateSecrets_db:
  "snd (GetOrCreateSecrets l e id f d) = d \<or> snd (GetOrCreateSecrets l e id f d) = insert_secret f d"
  by (auto simp: GetOrCreateSecrets_def Let_def split: sum.split)

lemma GetOrCreateSecrets_ok:
  "no_faults e \<Longrightarrow> \<exists>ms. GetOrCreateSecrets l e id f d = (Inr ms, insert_secret f d)"
  using insert_secret_db [where d = d and f = f]
  by (auto simp: GetOrCreateSecrets_def readSecrets_def no_faults_def call_def Let_def insert_secret_def split: option.split)

section \<open>Configurations\<close>

text \<open>The keys of a server, and the configuration of a server in the present state.\<close>

definition keys_of :: "(string \<Rightarrow> string \<Rightarrow> string) \<Rightarrow> (uuid \<Rightarrow> string) \<Rightarrow> NetworkSettings \<Rightarrow> uuid \<Rightarrow> string list" where
  "keys_of hmac str ns i = map (\<lambda>m. hex_encode (deriveServerKey hmac str m i)) (masters ns)"

definition gamemodes_of ::
  "(string \<Rightarrow> string \<Rightarrow> string) \<Rightarrow> (uuid \<Rightarrow> string) \<Rightarrow> (string \<Rightarrow> nat) \<Rightarrow> NetworkSettings \<Rightarrow> db \<Rightarrow> ModGamemode list" where
  "gamemodes_of hmac str collation ns d =
     map (\<lambda>g. g\<lparr>gm_Secret := hd (keys_of hmac str ns (gm_ServerID g))\<rparr>)
       (concat (map (gamemode_row d) (sort_key (\<lambda>s. collation (sv_Name s))
          (filter (\<lambda>s. sv_NetworkRole s = Some ''gamemode'') (servers d)))))"

definition routing_config ::
  "(string \<Rightarrow> string \<Rightarrow> string) \<Rightarrow> (uuid \<Rightarrow> string) \<Rightarrow> (string \<Rightarrow> nat) \<Rightarrow> NetworkSettings \<Rightarrow> db \<Rightarrow> Server \<Rightarrow> ModNetworkConfig" where
  "routing_config hmac str collation ns d sv =
     \<lparr>nc_Version = modConfigVersion, nc_Role = the (sv_NetworkRole sv), nc_ServerID = sv_ID sv,
      nc_RequireReferral = sv_RequireReferral sv, nc_Secrets = keys_of hmac str ns (sv_ID sv),
      nc_Gamemodes = (if sv_NetworkRole sv = Some ''hub'' then gamemodes_of hmac str collation ns d else [])\<rparr>"

lemma derive_keys_masters:
  "derive_keys hmac str i (map hex_encode ms) = Inr (map (\<lambda>m. hex_encode (deriveServerKey hmac str m i)) ms)"
  by (induction ms) auto

lemma serverKeys_Inr:
  assumes "serverKeys hmac str l e f d i = (Inr ks, d')"
  shows "\<exists>ns. network_settings d' = Some ns \<and> ks = keys_of hmac str ns i \<and> (d' = d \<or> d' = insert_secret f d)"
proof -
  from assms obtain ms where m: "GetOrCreateSecrets l e id f d = (Inr ms, d')" "derive_keys hmac str i ms = Inr ks"
    by (auto simp: serverKeys_def split: sum.splits prod.splits)
  from GetOrCreateSecrets_Inr [OF m(1)] m(2) show ?thesis by (auto simp: derive_keys_masters keys_of_def)
qed

lemma gamemode_row_frame: "nodes d' = nodes d \<Longrightarrow> gamemode_row d' = gamemode_row d"
  by (rule ext) (simp add: gamemode_row_def find_node_def)

lemma listGamemodes_Inr:
  assumes "listGamemodes hmac str collation l e f d = (Inr gms, d')" "network_settings d = Some ns"
  shows "d' = d \<and> gms = gamemodes_of hmac str collation ns d"
proof -
  from assms obtain ms where m: "GetOrCreateSecrets l e id f d = (Inr ms, d')"
    by (auto simp: listGamemodes_def Let_def split: if_splits sum.splits prod.splits list.splits option.splits)
  from GetOrCreateSecrets_Inr [OF m] insert_secret_db(3) [of d f] assms(2) have e: "d' = d" "ms = map hex_encode (masters ns)" by auto
  then have "ms = hex_encode (ns_current ns) # tl ms" by (simp add: masters_def)
  moreover have "hd (keys_of hmac str ns i) = hex_encode (deriveServerKey hmac str (ns_current ns) i)" for i
    by (simp add: keys_of_def masters_def)
  ultimately show ?thesis using assms(1) m e(1)
    by (auto simp: listGamemodes_def Let_def gamemodes_of_def split: if_splits list.splits)
qed

lemma BuildServerConfig_Inr:
  assumes "BuildServerConfig hmac str collation l e fresh d i = (Inr cfg, d')"
  shows "\<exists>sv r ns. find_server d i = Some sv \<and> sv_NetworkRole sv = Some r \<and> network_settings d' = Some ns
    \<and> (d' = d \<or> d' = insert_secret (fresh 0) d) \<and> cfg = routing_config hmac str collation ns d' sv"
proof -
  from assms obtain sv r where sv: "find_server d i = Some sv" "sv_NetworkRole sv = Some r" "\<not> fault e (l @ ''.server'')"
    by (auto simp: BuildServerConfig_def split: sum.splits option.splits)
  have i: "sv_ID sv = i" using find_SomeD [of "\<lambda>s. sv_ID s = i" "servers d" sv] sv(1) by (simp add: find_server_def)
  from assms sv obtain ks d1 where k: "serverKeys hmac str (l @ ''.keys'') e (fresh 0) d i = (Inr ks, d1)"
    by (auto simp: BuildServerConfig_def call_def split: sum.splits prod.splits)
  from serverKeys_Inr [OF k] obtain ns where ns: "network_settings d1 = Some ns" "ks = keys_of hmac str ns i"
    "d1 = d \<or> d1 = insert_secret (fresh 0) d" by blast
  show ?thesis
  proof (cases "r = ''hub''")
    case True
    from assms sv k True obtain gms where g: "listGamemodes hmac str collation (l @ ''.gamemodes'') e (fresh 1) d1 = (Inr gms, d')"
      "cfg = \<lparr>nc_Version = modConfigVersion, nc_Role = r, nc_ServerID = i, nc_RequireReferral = sv_RequireReferral sv,
         nc_Secrets = ks, nc_Gamemodes = gms\<rparr>"
      by (auto simp: BuildServerConfig_def call_def Let_def split: sum.splits prod.splits)
    from listGamemodes_Inr [OF g(1) ns(1)] g(2) ns sv i True show ?thesis by (auto simp: routing_config_def)
  next
    case False
    with assms sv k have "d' = d1" "cfg = \<lparr>nc_Version = modConfigVersion, nc_Role = r, nc_ServerID = i,
        nc_RequireReferral = sv_RequireReferral sv, nc_Secrets = ks, nc_Gamemodes = []\<rparr>"
      by (auto simp: BuildServerConfig_def call_def Let_def)
    with ns sv i False show ?thesis by (auto simp: routing_config_def)
  qed
qed

text \<open>[C35] The configuration of a server holds the keys of tickets for that server alone, derived from the
  present and the previous secret, unless the server is a hub; and a hub has beside its own the present key of
  servers that are gamemodes.  So the owner of a gamemode learns no key of another server.  The
  secret is drawn once: building a configuration changes nothing when there is one.\<close>

theorem ticket_keys_confined:
  assumes "BuildServerConfig hmac str collation l e fresh d i = (Inr cfg, d')"
  shows "\<exists>sv ns. find_server d i = Some sv \<and> network_settings d' = Some ns \<and> (network_settings d \<noteq> None \<longrightarrow> d' = d)
    \<and> nc_ServerID cfg = i \<and> nc_Secrets cfg = map (\<lambda>m. hex_encode (hmac m (serverKeyLabel @ str i))) (masters ns)
    \<and> (sv_NetworkRole sv \<noteq> Some ''hub'' \<longrightarrow> nc_Gamemodes cfg = [])
    \<and> (\<forall>g \<in> set (nc_Gamemodes cfg). \<exists>sv' \<in> set (servers d). sv_NetworkRole sv' = Some ''gamemode''
        \<and> gm_ServerID g = sv_ID sv' \<and> gm_Secret g = hex_encode (hmac (ns_current ns) (serverKeyLabel @ str (sv_ID sv'))))"
proof -
  from BuildServerConfig_Inr [OF assms] obtain sv r ns where b: "find_server d i = Some sv" "network_settings d' = Some ns"
    "d' = d \<or> d' = insert_secret (fresh 0) d" "cfg = routing_config hmac str collation ns d' sv" by blast
  have i: "sv_ID sv = i" using find_SomeD [of "\<lambda>s. sv_ID s = i" "servers d" sv] b(1) by (simp add: find_server_def)
  have s: "servers d' = servers d" using b(3) by (auto simp: insert_secret_def split: option.splits)
  have "\<exists>sv' \<in> set (servers d). sv_NetworkRole sv' = Some ''gamemode'' \<and> gm_ServerID g = sv_ID sv'
      \<and> gm_Secret g = hex_encode (hmac (ns_current ns) (serverKeyLabel @ str (sv_ID sv')))" if "g \<in> set (nc_Gamemodes cfg)" for g
    using that s by (auto simp: b(4) routing_config_def gamemodes_of_def gamemode_row_def keys_of_def masters_def deriveServerKey_def
        split: if_splits option.splits)
  moreover have "network_settings d \<noteq> None \<longrightarrow> d' = d" using b(3) insert_secret_db(3) by blast
  ultimately show ?thesis using b i
    by (intro exI [of _ sv] exI [of _ ns]) (simp add: routing_config_def keys_of_def deriveServerKey_def)
qed

text \<open>What a hub signs, the gamemode accepts.  Where a hub's configuration is built and then that of a
  gamemode whose node is known, the hub lists the gamemode under its name, and the key it has for it is the
  first of the gamemode's own keys.\<close>

theorem hub_tickets_verify:
  assumes "BuildServerConfig hmac str collation l e fresh d h = (Inr hub, d1)"
    and "BuildServerConfig hmac str collation l' e' fresh' d1 g = (Inr gm, d2)"
    and "nc_Role hub = ''hub''" "find_server d g = Some sv" "sv_NetworkRole sv = Some ''gamemode''" "find_node d (sv_NodeID sv) = Some n"
  shows "d2 = d1 \<and> (\<exists>x \<in> set (nc_Gamemodes hub). gm_ServerID x = g \<and> gm_Name x = sv_Name sv \<and> gm_Secret x = hd (nc_Secrets gm))"
proof -
  from BuildServerConfig_Inr [OF assms(1)] obtain svh r ns where b: "sv_NetworkRole svh = Some r" "network_settings d1 = Some ns"
    "d1 = d \<or> d1 = insert_secret (fresh 0) d" "hub = routing_config hmac str collation ns d1 svh" by metis
  from BuildServerConfig_Inr [OF assms(2)] obtain sv2 ns2 where c: "find_server d1 g = Some sv2" "network_settings d2 = Some ns2"
    "d2 = d1 \<or> d2 = insert_secret (fresh' 0) d1" "gm = routing_config hmac str collation ns2 d2 sv2" by metis
  have e: "d2 = d1" using c(3) b(2) insert_secret_db(3) by auto
  have s: "servers d1 = servers d" "nodes d1 = nodes d" using b(3) by (auto simp: insert_secret_def split: option.splits)
  then have sv2: "sv2 = sv" using c(1) assms(4) by (simp add: find_server_def)
  have g: "sv_ID sv = g" "sv \<in> set (servers d1)" using find_SomeD [of "\<lambda>s. sv_ID s = g" "servers d" sv] assms(4) s
    by (simp_all add: find_server_def)
  have "find_node d1 (sv_NodeID sv) = Some n" using assms(6) s by (simp add: find_node_def)
  then obtain x where x: "gamemode_row d1 sv = [x]" "gm_ServerID x = g" "gm_Name x = sv_Name sv" using g by (simp add: gamemode_row_def)
  have "sv_NetworkRole svh = Some ''hub''" using assms(3) b(1,4) by (simp add: routing_config_def)
  moreover have "sv \<in> set (sort_key (\<lambda>s. collation (sv_Name s)) (filter (\<lambda>s. sv_NetworkRole s = Some ''gamemode'') (servers d1)))"
    using g assms(5) by simp
  ultimately have "x\<lparr>gm_Secret := hd (keys_of hmac str ns (gm_ServerID x))\<rparr> \<in> set (nc_Gamemodes hub)"
    using x(1) unfolding b(4) by (auto simp: routing_config_def gamemodes_of_def intro!: image_eqI [of _ _ x] bexI [of _ sv])
  moreover have "hd (nc_Secrets gm) = hd (keys_of hmac str ns g)" using c(2,4) b(2) e sv2 g by (simp add: routing_config_def)
  ultimately show ?thesis using e x
    by (intro conjI bexI [of _ "x\<lparr>gm_Secret := hd (keys_of hmac str ns (gm_ServerID x))\<rparr>"]) simp_all
qed

section \<open>Distribution\<close>

definition config_payload ::
  "(string \<Rightarrow> string \<Rightarrow> string) \<Rightarrow> (uuid \<Rightarrow> string) \<Rightarrow> (string \<Rightarrow> nat) \<Rightarrow> NetworkSettings \<Rightarrow> db \<Rightarrow> Server \<Rightarrow> json" where
  "config_payload hmac str collation ns d sv =
     JObj [(''config'', config_json str (routing_config hmac str collation ns d sv)), (''data_path'', JStr (sv_DataPath sv))]"

lemma BuildServerConfig_ok:
  assumes "no_faults e" "find_server d i = Some sv" "sv_NetworkRole sv = Some r"
  shows "\<exists>cfg. BuildServerConfig hmac str collation l e fresh d i = (Inr cfg, insert_secret (fresh 0) d)"
proof -
  define d1 where "d1 = insert_secret (fresh 0) d"
  from GetOrCreateSecrets_ok [OF assms(1)] obtain ms where m: "GetOrCreateSecrets (l @ ''.keys'') e id (fresh 0) d = (Inr ms, d1)"
    unfolding d1_def by blast
  from GetOrCreateSecrets_Inr [OF m] obtain ns where ns: "network_settings d1 = Some ns" "ms = map hex_encode (masters ns)" by blast
  have k: "serverKeys hmac str (l @ ''.keys'') e (fresh 0) d i = (Inr (keys_of hmac str ns i), d1)"
    using m ns by (simp add: serverKeys_def derive_keys_masters keys_of_def)
  have "insert_secret (fresh 1) d1 = d1" using insert_secret_db(3) ns(1) by simp
  then obtain ms2 where m2: "GetOrCreateSecrets (l @ ''.gamemodes'') e id (fresh 1) d1 = (Inr ms2, d1)"
    using GetOrCreateSecrets_ok [OF assms(1), of "l @ ''.gamemodes''" "fresh 1" d1] by auto
  from GetOrCreateSecrets_Inr [OF m2] ns(1) have "ms2 = hex_encode (ns_current ns) # tl ms2" by (auto simp: masters_def)
  then have "\<exists>gms. listGamemodes hmac str collation (l @ ''.gamemodes'') e (fresh 1) d1 = (Inr gms, d1)"
    using m2 assms(1) by (auto simp: listGamemodes_def no_faults_def Let_def split: list.split)
  then show ?thesis using assms k d1_def by (auto simp: BuildServerConfig_def no_faults_def call_def Let_def)
qed

lemma DistributeConfig_ok:
  assumes "no_faults e" "find_server d i = Some sv" "sv_NetworkRole sv = Some r" "find_node d (sv_NodeID sv) = Some n"
    "\<forall>c \<in> set (node_commands d). c_ID c \<noteq> newID" "ds = insert_secret (fresh 0) d" "network_settings ds = Some ns"
  shows "snd (DistributeConfig hmac str collation l e fresh newID d i) = (prune_configs i ds)\<lparr>node_commands :=
    node_commands (prune_configs i ds) @ [new_command e newID (sv_NodeID sv) i ''write_mod_config'' (config_payload hmac str collation ns ds sv)]\<rparr>"
proof -
  from BuildServerConfig_ok [OF assms(1-3)] obtain cfg where c: "BuildServerConfig hmac str collation l e fresh d i = (Inr cfg, ds)"
    unfolding assms(6) by blast
  with BuildServerConfig_Inr [OF c] assms(2,7) have cfg: "cfg = routing_config hmac str collation ns ds sv" by auto
  have s: "find_server ds i = Some sv" "find_server (prune_configs i ds) i = Some sv" "\<exists>x \<in> set (nodes (prune_configs i ds)). n_ID x = sv_NodeID sv"
    "\<forall>c \<in> set (node_commands (prune_configs i ds)). c_ID c \<noteq> newID"
    using assms(2,4,5) find_SomeD [of "\<lambda>x. n_ID x = sv_NodeID sv" "nodes d" n]
    by (auto simp: assms(6) insert_secret_def prune_configs_def find_server_def find_node_def set_delete_where split: option.split)
  have "insert_command e (l @ ''.insert'') newID (prune_configs i ds) (sv_NodeID sv) i ''write_mod_config'' p =
      Inr ((prune_configs i ds)\<lparr>node_commands := node_commands (prune_configs i ds) @ [new_command e newID (sv_NodeID sv) i ''write_mod_config'' p]\<rparr>)" for p
    using s assms(1) by (auto simp: insert_command_def no_faults_def)
  then show ?thesis using c s(1) assms(1) cfg
    by (simp add: DistributeConfig_def no_faults_def call_def Let_def config_payload_def)
qed

lemma config_payload_frame:
  assumes "servers d' = servers d" "nodes d' = nodes d"
  shows "config_payload hmac str collation ns d' = config_payload hmac str collation ns d"
  by (rule ext) (simp only: config_payload_def routing_config_def gamemodes_of_def assms(1) gamemode_row_frame [OF assms(2)])

text \<open>One server, in a state that has the secret.\<close>

lemma distribute_step:
  assumes "no_faults e" "network_settings d = Some ns" "find_server d i = Some sv" "sv_NetworkRole sv = Some r"
    "find_node d (sv_NodeID sv) = Some n" "\<forall>c \<in> set (node_commands d). c_ID c \<noteq> newID"
    "d1 = snd (DistributeConfig hmac str collation l e fresh newID d i)"
    "c0 = new_command e newID (sv_NodeID sv) i ''write_mod_config'' (config_payload hmac str collation ns d sv)"
  shows "servers d1 = servers d" "nodes d1 = nodes d" "network_settings d1 = Some ns"
    "set (node_commands d1) = {c \<in> set (node_commands d). \<not> (c_ServerID c = Some i \<and> c_CommandType c = ''write_mod_config''
        \<and> c_Status c \<in> {''acked'', ''failed''})} \<union> {c0}"
proof -
  have "insert_secret (fresh 0) d = d" using assms(2) insert_secret_db(3) by simp
  then have d1: "d1 = (prune_configs i d)\<lparr>node_commands := node_commands (prune_configs i d) @ [c0]\<rparr>"
    unfolding assms(7,8) using assms(1-6) by (intro DistributeConfig_ok) auto
  show "servers d1 = servers d" "nodes d1 = nodes d" "network_settings d1 = Some ns"
    "set (node_commands d1) = {c \<in> set (node_commands d). \<not> (c_ServerID c = Some i \<and> c_CommandType c = ''write_mod_config''
        \<and> c_Status c \<in> {''acked'', ''failed''})} \<union> {c0}"
    using assms(2) by (auto simp: d1 prune_configs_def set_delete_where)
qed

text \<open>The loop over the networked servers.\<close>

lemma distribute_loop_reaches:
  assumes "no_faults e" "network_settings d = Some ns"
    "\<And>i. i \<in> set is \<Longrightarrow> \<exists>sv n. find_server d i = Some sv \<and> sv_NetworkRole sv \<noteq> None \<and> find_node d (sv_NodeID sv) = Some n"
    "inj ids" "\<And>c j. c \<in> set (node_commands d) \<Longrightarrow> k \<le> j \<Longrightarrow> c_ID c \<noteq> ids j"
    "d' = distribute_loop hmac str collation e fresh ids k is d"
  shows "servers d' = servers d \<and> nodes d' = nodes d \<and> network_settings d' = Some ns
    \<and> (\<forall>c \<in> set (node_commands d). c_Status c = ''pending'' \<longrightarrow> c \<in> set (node_commands d'))
    \<and> (\<forall>i \<in> set is. \<exists>sv c. find_server d i = Some sv \<and> c \<in> set (node_commands d') \<and> c_ServerID c = Some i
        \<and> c_NodeID c = sv_NodeID sv \<and> c_CommandType c = ''write_mod_config'' \<and> c_Status c = ''pending''
        \<and> c_Payload c = config_payload hmac str collation ns d sv)
    \<and> (\<forall>c \<in> set (node_commands d'). c \<in> set (node_commands d) \<or> (\<exists>i \<in> set is. c_ServerID c = Some i))"
  using assms(2-6)
proof (induction "is" arbitrary: k d)
  case (Cons i "is")
  obtain sv r n where sv: "find_server d i = Some sv" "sv_NetworkRole sv = Some r" "find_node d (sv_NodeID sv) = Some n"
    using Cons.prems(2) [of i] by auto
  define c0 where "c0 = new_command e (ids k) (sv_NodeID sv) i ''write_mod_config'' (config_payload hmac str collation ns d sv)"
  define d1 where "d1 = snd (DistributeConfig hmac str collation (''Distribute.'' @ dec_nat k) e (fresh k) (ids k) d i)"
  have "\<forall>c \<in> set (node_commands d). c_ID c \<noteq> ids k" using Cons.prems(4) by blast
  note f = distribute_step [OF assms(1) Cons.prems(1) sv this d1_def c0_def]
  have fs: "find_server d1 j = find_server d j" "find_node d1 j = find_node d j" for j using f by (simp_all add: find_server_def find_node_def)
  note pl = config_payload_frame [OF f(1,2), of hmac str collation ns]
  have "d' = distribute_loop hmac str collation e fresh ids (Suc k) is d1" using Cons.prems(5) d1_def by simp
  moreover have "c_ID c \<noteq> ids j" if "c \<in> set (node_commands d1)" "Suc k \<le> j" for c j
    using that f(4) Cons.prems(4) [of c j] injD [OF Cons.prems(3), of k j] by (auto simp: c0_def new_command_def)
  ultimately have ih: "servers d' = servers d1 \<and> nodes d' = nodes d1 \<and> network_settings d' = Some ns
    \<and> (\<forall>c \<in> set (node_commands d1). c_Status c = ''pending'' \<longrightarrow> c \<in> set (node_commands d'))
    \<and> (\<forall>i \<in> set is. \<exists>sv c. find_server d1 i = Some sv \<and> c \<in> set (node_commands d') \<and> c_ServerID c = Some i
        \<and> c_NodeID c = sv_NodeID sv \<and> c_CommandType c = ''write_mod_config'' \<and> c_Status c = ''pending''
        \<and> c_Payload c = config_payload hmac str collation ns d1 sv)
    \<and> (\<forall>c \<in> set (node_commands d'). c \<in> set (node_commands d1) \<or> (\<exists>i \<in> set is. c_ServerID c = Some i))"
    using Cons.prems(2,3) by (intro Cons.IH f(3)) (auto simp: fs)
  have c0: "c0 \<in> set (node_commands d')" using ih f(4) by (auto simp: c0_def new_command_def)
  have c0f: "c_ServerID c0 = Some i" "c_NodeID c0 = sv_NodeID sv" "c_CommandType c0 = ''write_mod_config''" "c_Status c0 = ''pending''"
    "c_Payload c0 = config_payload hmac str collation ns d sv" by (simp_all add: c0_def new_command_def)
  have "\<exists>sv c. find_server d j = Some sv \<and> c \<in> set (node_commands d') \<and> c_ServerID c = Some j
        \<and> c_NodeID c = sv_NodeID sv \<and> c_CommandType c = ''write_mod_config'' \<and> c_Status c = ''pending''
        \<and> c_Payload c = config_payload hmac str collation ns d sv" if "j \<in> set (i # is)" for j
  proof (cases "j = i")
    case True
    with sv(1) c0 c0f show ?thesis by blast
  next
    case False
    with that ih show ?thesis unfolding fs pl by (meson set_ConsD)
  qed
  moreover have "c \<in> set (node_commands d) \<or> (\<exists>j \<in> set (i # is). c_ServerID c = Some j)" if "c \<in> set (node_commands d')" for c
  proof -
    have "c \<in> set (node_commands d1) \<or> (\<exists>i \<in> set is. c_ServerID c = Some i)" using ih that by blast
    then show ?thesis using f(4) c0f(1) by auto
  qed
  moreover have "c \<in> set (node_commands d')" if "c \<in> set (node_commands d)" "c_Status c = ''pending''" for c
    using ih that f(4) by auto
  ultimately show ?case using ih f by auto
qed simp

lemma insert_secret_idem: "insert_secret f (insert_secret g d) = insert_secret g d"
  by (simp add: insert_secret_def split: option.split)

lemma distribute_loop_secret:
  assumes "no_faults e" "find_server d i = Some sv" "sv_NetworkRole sv = Some r" "find_node d (sv_NodeID sv) = Some n"
    "\<forall>c \<in> set (node_commands d). c_ID c \<noteq> ids k"
  shows "distribute_loop hmac str collation e fresh ids k (i # is) d
    = distribute_loop hmac str collation e fresh ids k (i # is) (insert_secret (fresh k 0) d)"
proof -
  define d1 where "d1 = insert_secret (fresh k 0) d"
  obtain ns where ns: "network_settings d1 = Some ns" using insert_secret_db(2) d1_def by blast
  have s: "find_server d1 i = Some sv" "find_node d1 (sv_NodeID sv) = Some n" "node_commands d1 = node_commands d"
    using assms(2,4) by (auto simp: d1_def insert_secret_def find_server_def find_node_def split: option.split)
  have "snd (DistributeConfig hmac str collation l e (fresh k) (ids k) d i) = snd (DistributeConfig hmac str collation l e (fresh k) (ids k) d1 i)" for l
    using DistributeConfig_ok [where fresh = "fresh k", OF assms d1_def ns]
      DistributeConfig_ok [where fresh = "fresh k" and ds = d1 and ns = ns, OF assms(1) s(1) assms(3) s(2) assms(5) [folded s(3)]] ns
      insert_secret_idem [of "fresh k 0" "fresh k 0" d, folded d1_def] by simp
  then show ?thesis by (simp add: d1_def)
qed

lemma DistributeAll_reaches:
  assumes "no_faults e" "unique_on sv_ID (servers d)" "\<And>sv. sv \<in> set (servers d) \<Longrightarrow> \<exists>n. find_node d (sv_NodeID sv) = Some n"
    "inj ids" "\<And>c k. c \<in> set (node_commands d) \<Longrightarrow> c_ID c \<noteq> ids k"
    "DistributeAll hmac str collation e fresh ids d = (r, d')"
  shows "servers d' = servers d \<and> (\<forall>sv \<in> set (servers d). sv_NetworkRole sv \<noteq> None \<longrightarrow> (\<exists>ns c. network_settings d' = Some ns
        \<and> c \<in> set (node_commands d') \<and> c_ServerID c = Some (sv_ID sv) \<and> c_NodeID c = sv_NodeID sv
        \<and> c_CommandType c = ''write_mod_config'' \<and> c_Status c = ''pending'' \<and> c_Payload c = config_payload hmac str collation ns d' sv))
    \<and> (\<forall>c \<in> set (node_commands d'). c \<in> set (node_commands d) \<or> (\<exists>sv \<in> set (servers d). sv_NetworkRole sv \<noteq> None \<and> c_ServerID c = Some (sv_ID sv)))"
proof (cases "networked d")
  case Nil
  then have "sv_NetworkRole sv = None" if "sv \<in> set (servers d)" for sv using that by (auto simp: networked_def filter_empty_conv)
  with Nil assms(1,6) show ?thesis by (auto simp: DistributeAll_def no_faults_def)
next
  case (Cons i "is")
  have net: "\<exists>sv n. find_server d j = Some sv \<and> sv_NetworkRole sv \<noteq> None \<and> find_node d (sv_NodeID sv) = Some n
      \<and> sv \<in> set (servers d) \<and> sv_ID sv = j" if "j \<in> set (networked d)" for j
  proof -
    from that obtain sv where sv: "sv \<in> set (servers d)" "sv_NetworkRole sv \<noteq> None" "j = sv_ID sv" by (auto simp: networked_def)
    with find_server_unique [OF assms(2) sv(1)] assms(3) [OF sv(1)] show ?thesis by blast
  qed
  define d1 where "d1 = insert_secret (fresh 0 0) d"
  obtain ns where ns: "network_settings d1 = Some ns" using insert_secret_db(2) d1_def by blast
  have s: "servers d1 = servers d" "nodes d1 = nodes d" "node_commands d1 = node_commands d"
    by (auto simp: d1_def insert_secret_def split: option.split)
  then have fs: "find_server d1 j = find_server d j" "find_node d1 j = find_node d j" for j by (simp_all add: find_server_def find_node_def)
  from net [of i] Cons obtain sv r n where i: "find_server d i = Some sv" "sv_NetworkRole sv = Some r" "find_node d (sv_NodeID sv) = Some n" by auto
  have "\<forall>c \<in> set (node_commands d). c_ID c \<noteq> ids 0" using assms(5) by blast
  from distribute_loop_secret [where k = 0 and ids = ids, OF assms(1) i this] assms(1,6) Cons
  have d': "d' = distribute_loop hmac str collation e fresh ids 0 (networked d) d1"
    by (simp only: d1_def) (auto simp: DistributeAll_def no_faults_def)
  have l: "servers d' = servers d1 \<and> nodes d' = nodes d1 \<and> network_settings d' = Some ns
    \<and> (\<forall>c \<in> set (node_commands d1). c_Status c = ''pending'' \<longrightarrow> c \<in> set (node_commands d'))
    \<and> (\<forall>i \<in> set (networked d). \<exists>sv c. find_server d1 i = Some sv \<and> c \<in> set (node_commands d') \<and> c_ServerID c = Some i
        \<and> c_NodeID c = sv_NodeID sv \<and> c_CommandType c = ''write_mod_config'' \<and> c_Status c = ''pending''
        \<and> c_Payload c = config_payload hmac str collation ns d1 sv)
    \<and> (\<forall>c \<in> set (node_commands d'). c \<in> set (node_commands d1) \<or> (\<exists>i \<in> set (networked d). c_ServerID c = Some i))"
    using net assms(5) by (intro distribute_loop_reaches [OF assms(1) ns _ assms(4) _ d']) (force simp: fs s)+
  have pl: "config_payload hmac str collation ns d1 = config_payload hmac str collation ns d'"
    using l by (intro config_payload_frame) simp_all
  have "\<exists>ns c. network_settings d' = Some ns \<and> c \<in> set (node_commands d') \<and> c_ServerID c = Some (sv_ID sv) \<and> c_NodeID c = sv_NodeID sv
        \<and> c_CommandType c = ''write_mod_config'' \<and> c_Status c = ''pending'' \<and> c_Payload c = config_payload hmac str collation ns d' sv"
    if sv: "sv \<in> set (servers d)" "sv_NetworkRole sv \<noteq> None" for sv
  proof -
    have "sv_ID sv \<in> set (networked d)" using sv by (auto simp: networked_def)
    with l find_server_unique [OF assms(2) sv(1)] show ?thesis unfolding fs pl by force
  qed
  moreover have "c \<in> set (node_commands d) \<or> (\<exists>sv \<in> set (servers d). sv_NetworkRole sv \<noteq> None \<and> c_ServerID c = Some (sv_ID sv))"
    if "c \<in> set (node_commands d')" for c
  proof -
    have "c \<in> set (node_commands d) \<or> (\<exists>i \<in> set (networked d). c_ServerID c = Some i)" using l that s(3) by simp
    with net show ?thesis by metis
  qed
  ultimately show ?thesis using l s(1) by simp
qed

text \<open>A change of roles reaches the network.  Where no call fails, after an accepted change the server has the
  role that was asked for, and for every server of the network a configuration is waiting for its
  node: its keys under the secret, and for a hub the present list of gamemodes.  Configurations
  are queued for servers of the network alone, so for none that was just taken out of it.\<close>

theorem role_change_distributed:
  assumes "no_faults e" "unique_on sv_ID (servers d)" "\<And>sv. sv \<in> set (servers d) \<Longrightarrow> \<exists>n. find_node d (sv_NodeID sv) = Some n"
    "inj ids" "\<And>c k. c \<in> set (node_commands d) \<Longrightarrow> c_ID c \<noteq> ids k"
    "h_SetServerRole hmac str collation e fresh ids d (Some sid) (Inr role) = (Reply code msg, d')"
  shows "(\<exists>sv. find_server d' sid = Some sv \<and> sv_NetworkRole sv = (if role \<in> {''hub'', ''gamemode''} then Some role else None))
    \<and> (\<forall>sv \<in> set (servers d'). sv_NetworkRole sv \<noteq> None \<longrightarrow> (\<exists>ns c. network_settings d' = Some ns
        \<and> c \<in> set (node_commands d') \<and> c_ServerID c = Some (sv_ID sv) \<and> c_NodeID c = sv_NodeID sv
        \<and> c_CommandType c = ''write_mod_config'' \<and> c_Status c = ''pending'' \<and> c_Payload c = config_payload hmac str collation ns d' sv))
    \<and> (\<forall>c \<in> set (node_commands d'). c \<in> set (node_commands d) \<or> (\<exists>sv \<in> set (servers d'). sv_NetworkRole sv \<noteq> None \<and> c_ServerID c = Some (sv_ID sv)))"
proof -
  define f where "f = (\<lambda>s :: Server. s\<lparr>sv_NetworkRole := (if role \<in> {''hub'', ''gamemode''} then Some role else None), sv_UpdatedAt := now e\<rparr>)"
  define d1 where "d1 = d\<lparr>servers := update_where (\<lambda>s. sv_ID s = sid) f (servers d)\<rparr>"
  from assms(1,6) have r: "SetServerRole e d sid role = (Inr (), d1)" "\<exists>s \<in> set (servers d). sv_ID s = sid"
    "DistributeAll hmac str collation e fresh ids d1 = (Inr (), d')"
    by (auto simp: h_SetServerRole_def SetServerRole_def DistributeAll_def no_faults_def Let_def d1_def f_def split: if_splits)
  have fi: "sv_ID (f s) = sv_ID s" "sv_NodeID (f s) = sv_NodeID s" for s by (simp_all add: f_def)
  have u: "unique_on sv_ID (servers d1)" using assms(2) by (simp add: d1_def unique_on_update_where fi)
  have n: "\<exists>n. find_node d1 (sv_NodeID sv) = Some n" if "sv \<in> set (servers d1)" for sv
    using that assms(3) by (auto simp: d1_def set_update_where fi find_node_def)
  have i: "c_ID c \<noteq> ids k" if "c \<in> set (node_commands d1)" for c k using that assms(5) by (simp add: d1_def)
  note l = DistributeAll_reaches [OF assms(1) u n assms(4) i r(3)]
  from r(2) obtain s where "find_server d sid = Some s" using find_ex [of _ "servers d" "\<lambda>s. sv_ID s = sid"] by (auto simp: find_server_def)
  then have "find_server d1 sid = Some (f s)" by (simp add: d1_def find_server_def find_update_same fi)
  then have "find_server d' sid = Some (f s)" using l by (simp add: find_server_def)
  moreover have "sv_NetworkRole (f s) = (if role \<in> {''hub'', ''gamemode''} then Some role else None)" by (simp add: f_def)
  moreover have "node_commands d1 = node_commands d" by (simp add: d1_def)
  ultimately show ?thesis using l by simp
qed

section \<open>Witnesses\<close>

definition ex_network :: db where
  "ex_network = ex_fleet\<lparr>servers := [(ex_game 20 10 5520)\<lparr>sv_NetworkRole := Some ''hub''\<rparr>,
     (ex_game 21 11 5520)\<lparr>sv_NetworkRole := Some ''gamemode''\<rparr>]\<rparr>"

definition ex_hmac :: "string \<Rightarrow> string \<Rightarrow> string" where
  "ex_hmac k t = k @ t"

definition ex_build :: "uuid \<Rightarrow> db \<Rightarrow> ModNetworkConfig result \<times> db" where
  "ex_build i d = BuildServerConfig ex_hmac dec_nat length ''b'' (quiet 0) (\<lambda>_. ''k'') d i"

theorem ticket_keys_confined_witness:
  "\<exists>cfg d'. ex_build 21 ex_network = (Inr cfg, d') \<and> nc_Gamemodes cfg = [] \<and> length (nc_Secrets cfg) = 1"
proof -
  have l: "(case fst (ex_build 21 ex_network) of Inl _ \<Rightarrow> False | Inr c \<Rightarrow> length (nc_Secrets c) = 1)" by code_simp
  then obtain cfg d' where b: "ex_build 21 ex_network = (Inr cfg, d')" by (cases "ex_build 21 ex_network") (auto split: sum.splits)
  have "find_server ex_network 21 = Some ((ex_game 21 11 5520)\<lparr>sv_NetworkRole := Some ''gamemode''\<rparr>)"
    by (simp add: find_server_def ex_network_def ex_game_def)
  with ticket_keys_confined [OF b [unfolded ex_build_def]] l b show ?thesis by auto
qed

theorem hub_tickets_verify_witness:
  "\<exists>hub gm d1 d2. ex_build 20 ex_network = (Inr hub, d1) \<and> ex_build 21 d1 = (Inr gm, d2)
    \<and> list_ex (\<lambda>x. gm_ServerID x = 21 \<and> gm_Secret x = hd (nc_Secrets gm)) (nc_Gamemodes hub)"
proof -
  have f: "find_server ex_network 20 = Some ((ex_game 20 10 5520)\<lparr>sv_NetworkRole := Some ''hub''\<rparr>)"
    "find_server (insert_secret k ex_network) 21 = Some ((ex_game 21 11 5520)\<lparr>sv_NetworkRole := Some ''gamemode''\<rparr>)" for k
    by (simp_all add: find_server_def insert_secret_def ex_network_def ex_fleet_def empty_db_def ex_game_def)
  from BuildServerConfig_ok [OF no_faults_quiet f(1)] obtain hub where
    b1: "ex_build 20 ex_network = (Inr hub, insert_secret ''k'' ex_network)" unfolding ex_build_def by fastforce
  from BuildServerConfig_ok [OF no_faults_quiet f(2)] obtain gm where
    b2: "ex_build 21 (insert_secret ''k'' ex_network) = (Inr gm, insert_secret ''k'' ex_network)"
    unfolding ex_build_def insert_secret_idem by fastforce
  have "nc_Role hub = ''hub''" using BuildServerConfig_Inr [OF b1 [unfolded ex_build_def]] f(1) by (auto simp: routing_config_def)
  note b = b1 b2 this
  have s: "find_server ex_network 21 = Some ((ex_game 21 11 5520)\<lparr>sv_NetworkRole := Some ''gamemode''\<rparr>)"
    "find_node ex_network 11 = Some (ex_node 11)"
    by (simp_all add: find_server_def find_node_def ex_network_def ex_fleet_def ex_game_def ex_node_def)
  have n: "find_node ex_network (sv_NodeID ((ex_game 21 11 5520)\<lparr>sv_NetworkRole := Some ''gamemode''\<rparr>)) = Some (ex_node 11)"
    using s(2) by (simp add: ex_game_def)
  from hub_tickets_verify [OF b(1,2) [unfolded ex_build_def] b(3) s(1) _ n] b show ?thesis by (auto simp: list_ex_iff)
qed

theorem role_change_distributed_witness:
  "\<exists>d'. h_SetServerRole ex_hmac dec_nat length (quiet 0) (\<lambda>_ _. ''k'') (\<lambda>k. 60 + k) ex_network (Some 21) (Inr ''none'')
      = (Reply 200 ''role updated and config distributed'', d')
    \<and> list_all (\<lambda>c. c_ServerID c = Some 20) (node_commands d') \<and> length (node_commands d') = 1"
proof -
  let ?h = "h_SetServerRole ex_hmac dec_nat length (quiet 0) (\<lambda>_ _. ''k'') (\<lambda>k. 60 + k) ex_network (Some 21) (Inr ''none'')"
  have "(case ?h of (r, d) \<Rightarrow> (r, length (node_commands d), map (\<lambda>s. (sv_ID s, sv_NetworkRole s)) (servers d)))
      = (Reply 200 ''role updated and config distributed'', 1, [(20, Some ''hub''), (21, None)])" by code_simp
  then have l: "fst ?h = Reply 200 ''role updated and config distributed''" "length (node_commands (snd ?h)) = 1"
    "map (\<lambda>s. (sv_ID s, sv_NetworkRole s)) (servers (snd ?h)) = [(20, Some ''hub''), (21, None)]"
    by (simp_all add: split_beta)
  define d' where "d' = snd ?h"
  have h: "?h = (Reply 200 ''role updated and config distributed'', d')" using l(1) by (simp add: d'_def prod_eq_iff)
  have u: "unique_on sv_ID (servers ex_network)" by (simp add: ex_network_def ex_game_def unique_on_def)
  have n: "\<exists>n. find_node ex_network (sv_NodeID sv) = Some n" if "sv \<in> set (servers ex_network)" for sv
    using that by (auto simp: ex_network_def ex_fleet_def ex_game_def ex_node_def find_node_def)
  have e: "node_commands ex_network = []" by (simp add: ex_network_def ex_fleet_def empty_db_def)
  have i: "c_ID c \<noteq> 60 + k" if "c \<in> set (node_commands ex_network)" for c k using that e by simp
  have "\<forall>c \<in> set (node_commands d'). c \<in> set (node_commands ex_network)
      \<or> (\<exists>sv \<in> set (servers d'). sv_NetworkRole sv \<noteq> None \<and> c_ServerID c = Some (sv_ID sv))"
    using role_change_distributed [OF no_faults_quiet u n _ i h] by (simp add: inj_def)
  moreover have "sv_ID sv = 20" if "sv \<in> set (servers d')" "sv_NetworkRole sv \<noteq> None" for sv
  proof -
    have "(sv_ID sv, sv_NetworkRole sv) \<in> set (map (\<lambda>s. (sv_ID s, sv_NetworkRole s)) (servers d'))" using that(1) by simp
    then show ?thesis using that(2) unfolding d'_def l(3) by auto
  qed
  ultimately have "list_all (\<lambda>c. c_ServerID c = Some 20) (node_commands d')" using e by (auto simp: list_all_iff)
  with h l(2) show ?thesis unfolding d'_def [symmetric] by blast
qed

end
