(* ===== verification/Databases.thy ===== *)
theory Databases
  imports ServerHandlers
begin

text \<open>
  \<^verbatim>\<open>services/database_service.go\<close> and \<^verbatim>\<open>handlers/databases.go\<close>: one MariaDB database per server.
  MariaDB is another program: \<open>exec m sql\<close>, an argument, is its answer to one statement and its
  state after it.  \<open>str\<close> is the text of an id, \<open>rnd\<close> the sixteen bytes drawn for a password.
\<close>

section \<open>Names and passwords\<close>

abbreviation ErrDatabaseExists :: go_error where
  "ErrDatabaseExists \<equiv> New ''database already exists for this server''"
abbreviation ErrDatabaseNotFound :: go_error where
  "ErrDatabaseNotFound \<equiv> New ''database not found for this server''"

record DatabaseService =
  ds_mysqlDSN :: string
  ds_dbHost :: string
  ds_dbPort :: int

definition mysqlIdentForServer :: "(uuid \<Rightarrow> string) \<Rightarrow> uuid \<Rightarrow> string" where
  "mysqlIdentForServer str i = ''tp_'' @ take 29 (filter (\<lambda>c. c \<noteq> CHR ''-'') (str i))"

definition lower_hex :: "char \<Rightarrow> bool" where
  "lower_hex c = (is_digit c \<or> (97 \<le> byte c \<and> byte c \<le> 102))"

text \<open>The expressions \<^verbatim>\<open>^tp_[0-9a-f]{8,29}$\<close> and \<^verbatim>\<open>^[0-9a-f]{32}$\<close>.\<close>

definition mysqlIdentRe :: "string \<Rightarrow> bool" where
  "mysqlIdentRe s = (has_prefix s ''tp_'' \<and> list_all lower_hex (drop 3 s) \<and> 8 \<le> length (drop 3 s) \<and> length (drop 3 s) \<le> 29)"

definition mysqlPasswordRe :: "string \<Rightarrow> bool" where
  "mysqlPasswordRe s = (length s = 32 \<and> list_all lower_hex s)"

fun checkMySQLIdents :: "string list \<Rightarrow> unit result" where
  "checkMySQLIdents [] = Inr ()"
| "checkMySQLIdents (i # is) =
     (if mysqlIdentRe i then checkMySQLIdents is else Inl (New (''refusing unsafe MariaDB identifier '' @ quoted i)))"

definition checkMySQLPassword :: "string \<Rightarrow> unit result" where
  "checkMySQLPassword pw = refuse_if (\<not> mysqlPasswordRe pw) (New ''refusing MariaDB password outside the generated charset'')"

definition generateDBPassword :: "env \<Rightarrow> string \<Rightarrow> string \<Rightarrow> string result" where
  "generateDBPassword e label rnd = call e label (hex_encode rnd)"

section \<open>Statements\<close>

definition bq :: string where "bq = [CHR 0x60]"
definition sq :: string where "sq = [CHR 0x27]"

definition sql_user :: "string \<Rightarrow> string" where
  "sql_user u = sq @ u @ sq @ ''@'' @ sq @ ''%'' @ sq"

definition sql_create_database :: "string \<Rightarrow> string" where
  "sql_create_database n = ''CREATE DATABASE '' @ bq @ n @ bq"

definition sql_create_user :: "string \<Rightarrow> string \<Rightarrow> string" where
  "sql_create_user u pw = ''CREATE USER '' @ sql_user u @ '' IDENTIFIED BY '' @ sq @ pw @ sq"

definition sql_grant :: "string \<Rightarrow> string \<Rightarrow> string" where
  "sql_grant n u = ''GRANT ALL PRIVILEGES ON '' @ bq @ n @ bq @ ''.* TO '' @ sql_user u"

definition sql_flush :: string where "sql_flush = ''FLUSH PRIVILEGES''"

definition sql_alter :: "string \<Rightarrow> string \<Rightarrow> string" where
  "sql_alter u pw = ''ALTER USER '' @ sql_user u @ '' IDENTIFIED BY '' @ sq @ pw @ sq"

definition sql_drop_database :: "string \<Rightarrow> string" where
  "sql_drop_database n = ''DROP DATABASE IF EXISTS '' @ bq @ n @ bq"

definition sql_drop_user :: "string \<Rightarrow> string" where
  "sql_drop_user u = ''DROP USER IF EXISTS '' @ sql_user u"

text \<open>The loop over the statements: it ends with the first error.\<close>

fun run_statements ::
  "('m \<Rightarrow> string \<Rightarrow> unit result \<times> 'm) \<Rightarrow> (string \<times> string) list \<Rightarrow> 'm \<Rightarrow> unit result \<times> 'm" where
  "run_statements exec [] m = (Inr (), m)"
| "run_statements exec ((desc, sql) # stmts) m =
     (case exec m sql of (Inl err, m') \<Rightarrow> (Inl (Wrap desc err), m') | (Inr _, m') \<Rightarrow> run_statements exec stmts m')"

definition provisionMySQL ::
  "DatabaseService \<Rightarrow> ('m \<Rightarrow> string \<Rightarrow> unit result \<times> 'm) \<Rightarrow> env \<Rightarrow> 'm \<Rightarrow> string \<Rightarrow> string \<Rightarrow> string \<Rightarrow> unit result \<times> 'm" where
  "provisionMySQL s exec e m dbName dbUser dbPassword =
     (if ds_mysqlDSN s = '''' then (Inl (New ''MariaDB not configured''), m)
      else (case checkMySQLIdents [dbName, dbUser] of Inl err \<Rightarrow> (Inl err, m)
      | Inr _ \<Rightarrow> (case checkMySQLPassword dbPassword of Inl err \<Rightarrow> (Inl err, m)
      | Inr _ \<Rightarrow>
          if fault e ''mysql.open'' then (Inl (Wrap ''connecting to MariaDB'' (Driver ''mysql.open'')), m)
          else run_statements exec
            [(''creating database'', sql_create_database dbName),
             (''creating user'', sql_create_user dbUser dbPassword),
             (''granting privileges'', sql_grant dbName dbUser),
             (''flushing privileges'', sql_flush)] m)))"

definition resetMySQLPassword ::
  "DatabaseService \<Rightarrow> ('m \<Rightarrow> string \<Rightarrow> unit result \<times> 'm) \<Rightarrow> env \<Rightarrow> 'm \<Rightarrow> string \<Rightarrow> string \<Rightarrow> unit result \<times> 'm" where
  "resetMySQLPassword s exec e m dbUser newPassword =
     (if ds_mysqlDSN s = '''' then (Inl (New ''MariaDB not configured''), m)
      else (case checkMySQLIdents [dbUser] of Inl err \<Rightarrow> (Inl err, m)
      | Inr _ \<Rightarrow> (case checkMySQLPassword newPassword of Inl err \<Rightarrow> (Inl err, m)
      | Inr _ \<Rightarrow>
          if fault e ''mysql.open'' then (Inl (Wrap ''connecting to MariaDB'' (Driver ''mysql.open'')), m)
          else (case exec m (sql_alter dbUser newPassword) of
              (Inl err, m') \<Rightarrow> (Inl (Wrap ''altering user password'' err), m')
            | (Inr _, m') \<Rightarrow> (Inr (), snd (exec m' sql_flush))))))"

definition dropMySQL ::
  "DatabaseService \<Rightarrow> ('m \<Rightarrow> string \<Rightarrow> unit result \<times> 'm) \<Rightarrow> env \<Rightarrow> 'm \<Rightarrow> string \<Rightarrow> string \<Rightarrow> unit result \<times> 'm" where
  "dropMySQL s exec e m dbName dbUser =
     (if ds_mysqlDSN s = '''' then (Inr (), m)
      else (case checkMySQLIdents [dbName, dbUser] of Inl err \<Rightarrow> (Inl err, m)
      | Inr _ \<Rightarrow>
          if fault e ''mysql.open'' then (Inl (Driver ''mysql.open''), m)
          else (let m1 = snd (exec m (sql_drop_database dbName)) in (Inr (), snd (exec m1 (sql_drop_user dbUser))))))"

section \<open>Service\<close>

definition find_database :: "db \<Rightarrow> uuid \<Rightarrow> ServerDatabase option" where
  "find_database d serverID = List.find (\<lambda>s. sd_ServerID s = serverID) (server_databases d)"

definition insert_database :: "env \<Rightarrow> db \<Rightarrow> ServerDatabase \<Rightarrow> db result" where
  "insert_database e d s =
     (if fault e ''CreateDatabase.insert'' \<or> find_database d (sd_ServerID s) \<noteq> None
         \<or> find_server d (sd_ServerID s) = None \<or> (\<exists>x \<in> set (server_databases d). sd_ID x = sd_ID s) \<or> \<not> int32 (sd_Port s)
      then Inl (Driver ''CreateDatabase.insert'')
      else Inr (d\<lparr>server_databases := server_databases d @ [s]\<rparr>))"

definition CreateDatabase ::
  "(uuid \<Rightarrow> string) \<Rightarrow> DatabaseService \<Rightarrow> ('m \<Rightarrow> string \<Rightarrow> unit result \<times> 'm) \<Rightarrow> env \<Rightarrow> uuid \<Rightarrow> string \<Rightarrow> db \<Rightarrow> 'm \<Rightarrow> uuid
     \<Rightarrow> ServerDatabase result \<times> db \<times> 'm" where
  "CreateDatabase str s exec e newID rnd d m serverID =
     (case call e ''CreateDatabase.count'' (rows_affected (\<lambda>x. sd_ServerID x = serverID) (server_databases d)) of
        Inl err \<Rightarrow> (Inl (Wrap ''checking existing database'' err), d, m)
      | Inr n \<Rightarrow>
          if n > 0 then (Inl ErrDatabaseExists, d, m)
          else (let dbName = mysqlIdentForServer str serverID; dbUser = dbName
                in case generateDBPassword e ''CreateDatabase.random'' rnd of
                     Inl err \<Rightarrow> (Inl (Wrap ''generating password'' err), d, m)
                   | Inr pw \<Rightarrow> (case provisionMySQL s exec e m dbName dbUser pw of
                       (Inl err, m') \<Rightarrow> (Inl (Wrap ''provisioning MySQL database'' err), d, m')
                     | (Inr _, m') \<Rightarrow>
                         (let sdb = \<lparr>sd_ID = newID, sd_ServerID = serverID, sd_DBName = dbName, sd_DBUser = dbUser,
                                sd_DBPassword = pw, sd_Host = ds_dbHost s, sd_Port = ds_dbPort s, sd_CreatedAt = now e\<rparr>
                          in case insert_database e d sdb of
                               Inl err \<Rightarrow> (Inl (Wrap ''recording database'' err), d, m')
                             | Inr d' \<Rightarrow> (Inr sdb, d', m')))))"

definition GetCredentials :: "env \<Rightarrow> db \<Rightarrow> uuid \<Rightarrow> ServerDatabase result" where
  "GetCredentials e d serverID =
     (case call e ''GetCredentials'' (find_database d serverID) of
        Inl err \<Rightarrow> Inl (Wrap ''fetching database credentials'' err)
      | Inr None \<Rightarrow> Inl ErrDatabaseNotFound
      | Inr (Some s) \<Rightarrow> Inr s)"

definition ds_ResetPassword ::
  "DatabaseService \<Rightarrow> ('m \<Rightarrow> string \<Rightarrow> unit result \<times> 'm) \<Rightarrow> env \<Rightarrow> string \<Rightarrow> db \<Rightarrow> 'm \<Rightarrow> uuid
     \<Rightarrow> ServerDatabase result \<times> db \<times> 'm" where
  "ds_ResetPassword s exec e rnd d m serverID =
     (case GetCredentials e d serverID of Inl err \<Rightarrow> (Inl err, d, m)
      | Inr sdb \<Rightarrow> (case generateDBPassword e ''ResetPassword.random'' rnd of
          Inl err \<Rightarrow> (Inl (Wrap ''generating new password'' err), d, m)
        | Inr pw \<Rightarrow> (case resetMySQLPassword s exec e m (sd_DBUser sdb) pw of
            (Inl err, m') \<Rightarrow> (Inl (Wrap ''resetting MySQL password'' err), d, m')
          | (Inr _, m') \<Rightarrow>
              if fault e ''ResetPassword.update''
              then (Inl (Wrap ''updating password in DB'' (Driver ''ResetPassword.update'')), d, m')
              else (Inr (sdb\<lparr>sd_DBPassword := pw\<rparr>), d\<lparr>server_databases := update_where (\<lambda>x. sd_ServerID x = serverID)
                     (\<lambda>x. x\<lparr>sd_DBPassword := pw\<rparr>) (server_databases d)\<rparr>, m'))))"

definition DeleteDatabase ::
  "DatabaseService \<Rightarrow> ('m \<Rightarrow> string \<Rightarrow> unit result \<times> 'm) \<Rightarrow> env \<Rightarrow> db \<Rightarrow> 'm \<Rightarrow> uuid \<Rightarrow> unit result \<times> db \<times> 'm" where
  "DeleteDatabase s exec e d m serverID =
     (case GetCredentials e d serverID of Inl err \<Rightarrow> (Inl err, d, m)
      | Inr sdb \<Rightarrow>
          (let m' = snd (dropMySQL s exec e m (sd_DBName sdb) (sd_DBUser sdb))
           in if fault e ''DeleteDatabase'' then (Inl (Wrap ''deleting database record'' (Driver ''DeleteDatabase'')), d, m')
              else (Inr (), d\<lparr>server_databases := delete_where (\<lambda>x. sd_ServerID x = serverID) (server_databases d)\<rparr>, m')))"

section \<open>Requests\<close>

definition h_GetDatabase :: "env \<Rightarrow> db \<Rightarrow> uuid option \<Rightarrow> ServerDatabase response" where
  "h_GetDatabase e d param =
     (case param of None \<Rightarrow> Refuse 400 ''invalid ID format''
      | Some serverID \<Rightarrow> (case GetCredentials e d serverID of
          Inl err \<Rightarrow> if errors_is err ErrDatabaseNotFound then Refuse 404 ''no database provisioned for this server''
            else Refuse 500 ''could not fetch database''
        | Inr s \<Rightarrow> Reply 200 s))"

definition h_CreateDatabase where
  "h_CreateDatabase str s exec e newID rnd d m param =
     (case param of None \<Rightarrow> (Refuse 400 ''invalid ID format'', d, m)
      | Some serverID \<Rightarrow> (case CreateDatabase str s exec e newID rnd d m serverID of
          (Inl err, d', m') \<Rightarrow>
            (if errors_is err ErrDatabaseExists then Refuse 409 ''database already exists for this server''
             else Refuse 500 (Error err), d', m')
        | (Inr sdb, d', m') \<Rightarrow> (Reply 201 sdb, d', m')))"

definition h_DeleteDatabase where
  "h_DeleteDatabase s exec e d m param =
     (case param of None \<Rightarrow> (Refuse 400 ''invalid ID format'', d, m)
      | Some serverID \<Rightarrow> (case DeleteDatabase s exec e d m serverID of
          (Inl err, d', m') \<Rightarrow>
            (if errors_is err ErrDatabaseNotFound then Refuse 404 ''no database found for this server''
             else Refuse 500 ''could not delete database'', d', m')
        | (Inr _, d', m') \<Rightarrow> (Reply 200 ''database deleted'', d', m')))"

definition h_ResetPassword where
  "h_ResetPassword s exec e rnd d m param =
     (case param of None \<Rightarrow> (Refuse 400 ''invalid ID format'', d, m)
      | Some serverID \<Rightarrow> (case ds_ResetPassword s exec e rnd d m serverID of
          (Inl err, d', m') \<Rightarrow>
            (if errors_is err ErrDatabaseNotFound then Refuse 404 ''no database found for this server''
             else Refuse 500 ''could not reset password'', d', m')
        | (Inr sdb, d', m') \<Rightarrow> (Reply 200 sdb, d', m')))"

end
