(* ===== verification/DatabaseRules.thy ===== *)
theory DatabaseRules
  imports Databases
begin

text \<open>
  What the database requests guarantee: the statements that reach MariaDB, and what is left of a
  creation that fails half way.
\<close>

section \<open>What is sent to MariaDB\<close>

text \<open>Statements whose names and passwords cannot end a quotation.\<close>

definition ident_ok :: "string \<Rightarrow> bool" where
  "ident_ok n = (length n \<le> 32 \<and> list_all (\<lambda>c. lower_hex c \<or> c \<in> {CHR ''t'', CHR ''p'', CHR ''_''}) n)"

definition password_ok :: "string \<Rightarrow> bool" where
  "password_ok p = (length p = 32 \<and> list_all lower_hex p)"

inductive safe_sql :: "string \<Rightarrow> bool" where
  safe_create: "ident_ok n \<Longrightarrow> safe_sql (sql_create_database n)"
| safe_user: "ident_ok u \<Longrightarrow> password_ok p \<Longrightarrow> safe_sql (sql_create_user u p)"
| safe_grant: "ident_ok n \<Longrightarrow> ident_ok u \<Longrightarrow> safe_sql (sql_grant n u)"
| safe_flush: "safe_sql sql_flush"
| safe_alter: "ident_ok u \<Longrightarrow> password_ok p \<Longrightarrow> safe_sql (sql_alter u p)"
| safe_drop: "ident_ok n \<Longrightarrow> safe_sql (sql_drop_database n)"
| safe_drop_user: "ident_ok u \<Longrightarrow> safe_sql (sql_drop_user u)"

lemma ident_checked: "mysqlIdentRe n \<Longrightarrow> ident_ok n"
proof -
  assume n: "mysqlIdentRe n"
  then have "take 3 n = ''tp_''" by (simp add: mysqlIdentRe_def has_prefix_def numeral_3_eq_3)
  then have e: "n = ''tp_'' @ drop 3 n" using append_take_drop_id [of 3 n] by simp
  have "list_all lower_hex (drop 3 n)" "length (drop 3 n) \<le> 29" using n by (simp_all add: mysqlIdentRe_def)
  then have "length n \<le> 32" "list_all (\<lambda>c. lower_hex c \<or> c \<in> {CHR ''t'', CHR ''p'', CHR ''_''}) (''tp_'' @ drop 3 n)"
    by (auto simp: list_all_iff)
  with e show ?thesis by (simp add: ident_ok_def)
qed

lemma idents_checked: "checkMySQLIdents is = Inr v \<Longrightarrow> i \<in> set is \<Longrightarrow> ident_ok i"
  by (induction "is" rule: checkMySQLIdents.induct) (auto split: if_splits intro: ident_checked)

lemma password_checked: "checkMySQLPassword p = Inr v \<Longrightarrow> password_ok p"
  by (simp add: checkMySQLPassword_def mysqlPasswordRe_def password_ok_def)

text \<open>What safe statements keep, the operations keep.\<close>

locale statements_keep =
  fixes exec :: "'m \<Rightarrow> string \<Rightarrow> unit result \<times> 'm" and P :: "'m \<Rightarrow> bool"
  assumes exec_keeps: "safe_sql sql \<Longrightarrow> P m \<Longrightarrow> P (snd (exec m sql))"
begin

lemma run_keeps: "(\<And>x. x \<in> set stmts \<Longrightarrow> safe_sql (snd x)) \<Longrightarrow> P m \<Longrightarrow> P (snd (run_statements exec stmts m))"
proof (induction stmts arbitrary: m)
  case (Cons x stmts)
  obtain desc sql where x: "x = (desc, sql)" by fastforce
  obtain r m' where e: "exec m sql = (r, m')" by fastforce
  have "safe_sql sql" using Cons.prems(1) [of x] x by simp
  then have "P m'" using exec_keeps [of sql m] Cons.prems(2) e by simp
  then show ?case using Cons x e by (cases r) auto
qed simp

lemma provision_keeps: "P m \<Longrightarrow> P (snd (provisionMySQL s exec e m n u p))"
proof -
  assume m: "P m"
  show ?thesis
  proof (cases "\<exists>v w. checkMySQLIdents [n, u] = Inr v \<and> checkMySQLPassword p = Inr w")
    case True
    then obtain v w where c: "checkMySQLIdents [n, u] = Inr v" "checkMySQLPassword p = Inr w" by blast
    have ok: "ident_ok n" "ident_ok u" "password_ok p" using idents_checked [OF c(1)] password_checked [OF c(2)] by simp_all
    have "P (snd (run_statements exec [(''creating database'', sql_create_database n), (''creating user'', sql_create_user u p),
             (''granting privileges'', sql_grant n u), (''flushing privileges'', sql_flush)] m))"
      using ok m by (intro run_keeps) (auto intro: safe_sql.intros)
    with m c show ?thesis by (simp only: provisionMySQL_def sum.case split: if_split) simp
  next
    case False
    with m show ?thesis by (auto simp: provisionMySQL_def simp del: checkMySQLIdents.simps split: sum.split)
  qed
qed

lemma reset_keeps: "P m \<Longrightarrow> P (snd (resetMySQLPassword s exec e m u p))"
proof -
  assume m: "P m"
  obtain r m' where x: "exec m (sql_alter u p) = (r, m')" by fastforce
  have "P m' \<and> P (snd (exec m' sql_flush))" if "checkMySQLIdents [u] = Inr v" "checkMySQLPassword p = Inr w" for v w
  proof -
    have "safe_sql (sql_alter u p)" using idents_checked [OF that(1)] password_checked [OF that(2)] by (auto intro: safe_alter)
    then have "P m'" using exec_keeps [of "sql_alter u p" m] m x by simp
    then show ?thesis using exec_keeps [OF safe_flush] by simp
  qed
  with m x show ?thesis by (cases r) (auto simp: resetMySQLPassword_def simp del: checkMySQLIdents.simps split: sum.split)
qed

lemma drop_keeps: "P m \<Longrightarrow> P (snd (dropMySQL s exec e m n u))"
proof -
  assume m: "P m"
  have "P (snd (exec (snd (exec m (sql_drop_database n))) (sql_drop_user u)))" if "checkMySQLIdents [n, u] = Inr v" for v
    using idents_checked [OF that] m by (auto intro!: exec_keeps safe_drop safe_drop_user)
  with m show ?thesis by (auto simp: dropMySQL_def Let_def simp del: checkMySQLIdents.simps split: sum.split)
qed

lemma create_keeps: "P m \<Longrightarrow> P (snd (snd (CreateDatabase str s exec e i rnd d m sid)))"
proof -
  assume "P m"
  then have "P (snd (provisionMySQL s exec e m n n p))" for n p by (rule provision_keeps)
  then show ?thesis using \<open>P m\<close>
    by (auto simp: CreateDatabase_def Let_def split: sum.split prod.split) (metis snd_conv)+
qed

lemma delete_keeps: "P m \<Longrightarrow> P (snd (snd (DeleteDatabase s exec e d m sid)))"
  using drop_keeps by (auto simp: DeleteDatabase_def Let_def split: sum.split)

lemma reset_password_keeps: "P m \<Longrightarrow> P (snd (snd (ds_ResetPassword s exec e rnd d m sid)))"
proof -
  assume "P m"
  then have "P (snd (resetMySQLPassword s exec e m u p))" for u p by (rule reset_keeps)
  then show ?thesis using \<open>P m\<close>
    by (auto simp: ds_ResetPassword_def split: sum.split prod.split) (metis snd_conv)+
qed

end

text \<open>MariaDB together with the list of what it was sent.\<close>

definition logged :: "('m \<Rightarrow> string \<Rightarrow> unit result \<times> 'm) \<Rightarrow> string list \<times> 'm \<Rightarrow> string \<Rightarrow> unit result \<times> string list \<times> 'm" where
  "logged exec st sql = (let (r, m') = exec (snd st) sql in (r, fst st @ [sql], m'))"

interpretation sent: statements_keep "logged exec" "\<lambda>st. list_all safe_sql (fst st)" for exec
  by unfold_locales (simp add: logged_def split: prod.split)

text \<open>[C37] No text from outside becomes part of a statement.  Whatever ids, random bytes and rows there are, and
  whichever statements and calls fail, everything that creating, resetting and deleting a database send
  to MariaDB is one of seven fixed statements, around names of at most 32 characters out of
  the letters t and p, the underscore and hexadecimal digits, and passwords of 32 hexadecimal digits.\<close>

theorem mysql_statements_safe:
  assumes "st' \<in> {snd (snd (h_CreateDatabase str s (logged exec) e i rnd d ([], m) p)),
      snd (snd (h_ResetPassword s (logged exec) e rnd d ([], m) p)),
      snd (snd (h_DeleteDatabase s (logged exec) e d ([], m) p))}"
  shows "\<forall>sql \<in> set (fst st'). safe_sql sql"
proof -
  have m: "list_all safe_sql (fst ([], m))" by simp
  have c: "snd (snd (h_CreateDatabase str s (logged exec) e i rnd d st p)) = (case p of None \<Rightarrow> st
      | Some sid \<Rightarrow> snd (snd (CreateDatabase str s (logged exec) e i rnd d st sid)))" for st
    by (auto simp: h_CreateDatabase_def split: option.split prod.split sum.split)
  have r: "snd (snd (h_ResetPassword s (logged exec) e rnd d st p)) = (case p of None \<Rightarrow> st
      | Some sid \<Rightarrow> snd (snd (ds_ResetPassword s (logged exec) e rnd d st sid)))" for st
    by (auto simp: h_ResetPassword_def split: option.split prod.split sum.split)
  have x: "snd (snd (h_DeleteDatabase s (logged exec) e d st p)) = (case p of None \<Rightarrow> st
      | Some sid \<Rightarrow> snd (snd (DeleteDatabase s (logged exec) e d st sid)))" for st
    by (auto simp: h_DeleteDatabase_def split: option.split prod.split sum.split)
  from assms have "list_all safe_sql (fst st')"
    using sent.create_keeps [OF m] sent.reset_password_keeps [OF m] sent.delete_keeps [OF m] m
    unfolding c r x insert_iff empty_iff by (elim disjE) (simp_all split: option.split)
  then show ?thesis by (simp add: list_all_iff)
qed

section \<open>Databases without a row\<close>

text \<open>A creation that stops half way cannot be repeated.  When MariaDB holds the database of a server
  for which there is no row, because a later statement of its creation failed, every further creation
  fails, whatever else succeeds, and a deletion finds nothing to delete: neither the row nor
  MariaDB changes.  The hypothesis on MariaDB is that it refuses to create a database that exists.\<close>

theorem orphan_database_blocks:
  assumes "\<And>m n. n \<in> dbs m \<Longrightarrow> \<exists>err. exec m (sql_create_database n) = (Inl err, m)"
    and "mysqlIdentForServer str sid \<in> dbs m" "find_database d sid = None"
  shows "\<not> is_ok (fst (CreateDatabase str s exec e i rnd d m sid))
    \<and> snd (CreateDatabase str s exec e i rnd d m sid) = (d, m)
    \<and> \<not> is_ok (fst (DeleteDatabase s exec e2 d m sid)) \<and> snd (DeleteDatabase s exec e2 d m sid) = (d, m)"
proof -
  let ?n = "mysqlIdentForServer str sid"
  obtain err where x: "exec m (sql_create_database ?n) = (Inl err, m)" using assms(1,2) by blast
  have "(\<exists>er. fst (provisionMySQL s exec e m ?n ?n p) = Inl er) \<and> snd (provisionMySQL s exec e m ?n ?n p) = m" for p
    using x by (auto simp: provisionMySQL_def simp del: checkMySQLIdents.simps split: sum.split)
  then have "\<forall>p. \<exists>er. provisionMySQL s exec e m ?n ?n p = (Inl er, m)" by (metis prod.collapse)
  then obtain er where p: "\<And>p. provisionMySQL s exec e m ?n ?n p = (Inl (er p), m)" by metis
  have "\<not> is_ok (fst (CreateDatabase str s exec e i rnd d m sid)) \<and> snd (CreateDatabase str s exec e i rnd d m sid) = (d, m)"
    using p by (auto simp: CreateDatabase_def Let_def split: sum.split prod.split)
  moreover have "\<not> is_ok (fst (DeleteDatabase s exec e2 d m sid)) \<and> snd (DeleteDatabase s exec e2 d m sid) = (d, m)"
    using assms(3) by (auto simp: DeleteDatabase_def GetCredentials_def call_def split: sum.split)
  ultimately show ?thesis by blast
qed

section \<open>Witnesses\<close>

text \<open>A MariaDB that keeps the statements of the databases it created.\<close>

definition ex_mariadb :: "string list \<Rightarrow> string \<Rightarrow> unit result \<times> string list" where
  "ex_mariadb m sql = (if has_prefix sql ''CREATE DATABASE'' then if sql \<in> set m then (Inl (New ''exists''), m) else (Inr (), m @ [sql])
     else (Inr (), m))"

definition ex_dbs :: DatabaseService where
  "ex_dbs = \<lparr>ds_mysqlDSN = ''root@tcp(mariadb:3306)/'', ds_dbHost = ''mariadb'', ds_dbPort = 3306\<rparr>"

definition ex_uuid_text :: "uuid \<Rightarrow> string" where
  "ex_uuid_text i = ''12345678-9abc-def0-1234-56789abcdef'' @ [hex_digit (i mod 16)]"

theorem mysql_statements_safe_witness:
  "\<exists>st'. st' = snd (snd (h_CreateDatabase ex_uuid_text ex_dbs (logged ex_mariadb) (quiet 0) 70 ''0123456789abcdef'' ex_fleet ([], []) (Some 20)))
    \<and> length (fst st') = 4 \<and> list_all safe_sql (fst st')"
proof -
  let ?st = "snd (snd (h_CreateDatabase ex_uuid_text ex_dbs (logged ex_mariadb) (quiet 0) 70 ''0123456789abcdef'' ex_fleet ([], []) (Some 20)))"
  have "length (fst ?st) = 4" by code_simp
  moreover have "list_all safe_sql (fst ?st)"
    using mysql_statements_safe [of ?st ex_uuid_text ex_dbs ex_mariadb "quiet 0" 70 "''0123456789abcdef''" ex_fleet "[]" "Some 20"]
    by (simp add: list_all_iff)
  ultimately show ?thesis by blast
qed

text \<open>The first creation is stopped by the statement that records it, the second by MariaDB.\<close>

theorem orphan_database_blocks_witness:
  "\<exists>m. m = snd (snd (CreateDatabase ex_uuid_text ex_dbs ex_mariadb ((quiet 0)\<lparr>fault := (\<lambda>l. l = ''CreateDatabase.insert'')\<rparr>)
          70 ''0123456789abcdef'' ex_fleet [] 20))
     \<and> \<not> is_ok (fst (CreateDatabase ex_uuid_text ex_dbs ex_mariadb (quiet 1) 71 ''0123456789abcdef'' ex_fleet m 20))
     \<and> \<not> is_ok (fst (DeleteDatabase ex_dbs ex_mariadb (quiet 1) ex_fleet m 20))"
proof -
  let ?m = "snd (snd (CreateDatabase ex_uuid_text ex_dbs ex_mariadb ((quiet 0)\<lparr>fault := (\<lambda>l. l = ''CreateDatabase.insert'')\<rparr>)
          70 ''0123456789abcdef'' ex_fleet [] 20))"
  let ?dbs = "\<lambda>m. {n. sql_create_database n \<in> set m}"
  have law: "\<exists>err. ex_mariadb m (sql_create_database n) = (Inl err, m)" if "n \<in> ?dbs m" for m n
    using that by (simp add: ex_mariadb_def sql_create_database_def has_prefix_def)
  have "sql_create_database (mysqlIdentForServer ex_uuid_text 20) \<in> set ?m \<and> find_database ex_fleet 20 = None" by code_simp
  then have o: "mysqlIdentForServer ex_uuid_text 20 \<in> ?dbs ?m" "find_database ex_fleet 20 = None" by simp_all
  from orphan_database_blocks [where dbs = ?dbs and exec = ex_mariadb, OF law o] show ?thesis by blast
qed

end
