(* ===== verification/Http.thy ===== *)
theory Http
  imports Settings Cron
begin

text \<open>
  What the services that talk to other services use of \<^verbatim>\<open>net/http\<close>, \<^verbatim>\<open>net/url\<close>,
  \<^verbatim>\<open>encoding/json\<close> and \<^verbatim>\<open>time\<close>.  The other side is a function of its state and the request;
  its error covers everything that goes wrong before an answer is there.  The body of an answer
  is what could be read of it.
\<close>

section \<open>Requests and answers\<close>

record HttpRequest =
  rq_Method :: string
  rq_URL :: string
  rq_Header :: "(string \<times> string) list"
  rq_Body :: string

record HttpResponse =
  rs_StatusCode :: int
  rs_Body :: string

type_synonym 'p http = "'p \<Rightarrow> HttpRequest \<Rightarrow> HttpResponse result \<times> 'p"

text \<open>\<^verbatim>\<open>io.ReadAll(io.LimitReader(resp.Body, 1<<20))\<close>.\<close>

definition read_limited :: "string \<Rightarrow> string" where
  "read_limited s = take 1048576 s"

definition status_texts :: "(int \<times> string) list" where
  "status_texts =
     [(300, ''Multiple Choices''), (301, ''Moved Permanently''), (302, ''Found''), (303, ''See Other''),
      (304, ''Not Modified''), (305, ''Use Proxy''), (307, ''Temporary Redirect''), (308, ''Permanent Redirect''),
      (400, ''Bad Request''), (401, ''Unauthorized''), (402, ''Payment Required''), (403, ''Forbidden''),
      (404, ''Not Found''), (405, ''Method Not Allowed''), (406, ''Not Acceptable''),
      (407, ''Proxy Authentication Required''), (408, ''Request Timeout''), (409, ''Conflict''), (410, ''Gone''),
      (411, ''Length Required''), (412, ''Precondition Failed''), (413, ''Request Entity Too Large''),
      (414, ''Request URI Too Long''), (415, ''Unsupported Media Type''), (416, ''Requested Range Not Satisfiable''),
      (417, ''Expectation Failed''), (418, ''I'' @ [CHR 0x27] @ ''m a teapot''), (421, ''Misdirected Request''),
      (422, ''Unprocessable Entity''), (423, ''Locked''), (424, ''Failed Dependency''), (425, ''Too Early''),
      (426, ''Upgrade Required''), (428, ''Precondition Required''), (429, ''Too Many Requests''),
      (431, ''Request Header Fields Too Large''), (451, ''Unavailable For Legal Reasons''),
      (500, ''Internal Server Error''), (501, ''Not Implemented''), (502, ''Bad Gateway''),
      (503, ''Service Unavailable''), (504, ''Gateway Timeout''), (505, ''HTTP Version Not Supported''),
      (506, ''Variant Also Negotiates''), (507, ''Insufficient Storage''), (508, ''Loop Detected''),
      (510, ''Not Extended''), (511, ''Network Authentication Required'')]"

text \<open>\<^verbatim>\<open>http.StatusText\<close> from 300 on; empty for a code that has no name.\<close>

definition StatusText :: "int \<Rightarrow> string" where
  "StatusText code = (case map_of status_texts code of None \<Rightarrow> '''' | Some t \<Rightarrow> t)"

section \<open>Forms\<close>

definition percent_digit :: "nat \<Rightarrow> char" where
  "percent_digit n = upper_char (hex_digit n)"

definition escape_char :: "char \<Rightarrow> string" where
  "escape_char c =
     (if is_digit c \<or> is_upper c \<or> is_lower c \<or> c \<in> set ''-_.~'' then [c]
      else if c = CHR '' '' then ''+''
      else [CHR ''%'', percent_digit (byte c div 16), percent_digit (byte c mod 16)])"

definition QueryEscape :: "string \<Rightarrow> string" where
  "QueryEscape s = concat (map escape_char s)"

text \<open>\<^verbatim>\<open>url.Values.Encode\<close> of a form with one value per key: sorted by key.\<close>

definition form_encode :: "(string \<times> string) list \<Rightarrow> string" where
  "form_encode kvs = join ''&'' (map (\<lambda>(k, v). QueryEscape k @ ''='' @ QueryEscape v) (sort_key fst kvs))"

section \<open>Decoding into a struct\<close>

text \<open>\<^verbatim>\<open>json.Unmarshal\<close> into a struct: \<open>set\<close> stores one member, \<open>None\<close> for a value of the wrong
  type.  Go goes on after such a value and returns the error at the end; the flag says that
  there was none.\<close>

definition decode_members ::
  "(string \<Rightarrow> json \<Rightarrow> 'r \<Rightarrow> 'r option) \<Rightarrow> (string \<times> json) list \<Rightarrow> 'r \<Rightarrow> 'r \<times> bool" where
  "decode_members setter ms r =
     fold (\<lambda>(k, v) (r, ok). case setter k v r of None \<Rightarrow> (r, False) | Some r' \<Rightarrow> (r', ok)) ms (r, True)"

definition decode_value :: "(string \<Rightarrow> json \<Rightarrow> 'r \<Rightarrow> 'r option) \<Rightarrow> json \<Rightarrow> 'r \<Rightarrow> 'r \<times> bool" where
  "decode_value setter j r = (case j of JObj ms \<Rightarrow> decode_members setter ms r | JNull \<Rightarrow> (r, True) | _ \<Rightarrow> (r, False))"

definition decode_struct :: "(string \<Rightarrow> json \<Rightarrow> 'r \<Rightarrow> 'r option) \<Rightarrow> 'r \<Rightarrow> string \<Rightarrow> 'r \<times> bool" where
  "decode_struct setter r s = (case json_unmarshal s of None \<Rightarrow> (r, False) | Some j \<Rightarrow> decode_value setter j r)"

definition decoded :: "'r \<times> bool \<Rightarrow> 'r result" where
  "decoded x = (if snd x then Inr (fst x) else Inl (New ''json''))"

text \<open>A member that is a list of structs: \<^verbatim>\<open>null\<close> empties it.\<close>

fun decode_all :: "(string \<Rightarrow> json \<Rightarrow> 'r \<Rightarrow> 'r option) \<Rightarrow> 'r \<Rightarrow> json list \<Rightarrow> 'r list option" where
  "decode_all setter zero [] = Some []"
| "decode_all setter zero (j # js) =
     (case decode_value setter j zero of
        (r, ok) \<Rightarrow> if ok then map_option (\<lambda>rs. r # rs) (decode_all setter zero js) else None)"

definition json_list_field :: "(string \<Rightarrow> json \<Rightarrow> 'r \<Rightarrow> 'r option) \<Rightarrow> 'r \<Rightarrow> json \<Rightarrow> 'r list option" where
  "json_list_field setter zero j =
     (case j of JNull \<Rightarrow> Some [] | JArr js \<Rightarrow> decode_all setter zero js | _ \<Rightarrow> None)"

text \<open>\<^verbatim>\<open>json.NewDecoder(r).Decode(&v)\<close> reads the first value and leaves the rest.\<close>

definition decode_first :: "(string \<Rightarrow> json \<Rightarrow> 'r \<Rightarrow> 'r option) \<Rightarrow> 'r \<Rightarrow> string \<Rightarrow> 'r result" where
  "decode_first setter r s =
     (case json_read (Suc (length s)) s of None \<Rightarrow> Inl (New ''json'') | Some (j, _) \<Rightarrow> decoded (decode_value setter j r))"

section \<open>Dates\<close>

text \<open>\<^verbatim>\<open>t.UTC().Format(time.RFC3339)\<close>, of a time from the year 0 to the year 9999.\<close>

definition pad :: "nat \<Rightarrow> int \<Rightarrow> string" where
  "pad w n = (let s = dec n in replicate (w - length s) (CHR ''0'') @ s)"

definition RFC3339 :: "time \<Rightarrow> string" where
  "RFC3339 t =
     (let z = (\<lambda>_. 0); (y, m, d) = civil (days_of z t)
      in pad 4 y @ ''-'' @ pad 2 m @ ''-'' @ pad 2 d @ ''T'' @ pad 2 (hour_of z t) @ '':'' @ pad 2 (minute_of z t) @ '':''
         @ pad 2 (t div second mod 60) @ ''Z'')"

text \<open>A cached value and the time until which it is kept.\<close>

type_synonym 'a cache_entry = "('a \<times> time) option"

definition cache_get :: "env \<Rightarrow> string \<Rightarrow> 'a cache_entry \<Rightarrow> 'a option" where
  "cache_get e lbl c = (case c of Some (v, until) \<Rightarrow> if fault e lbl \<or> until \<le> now e then None else Some v | None \<Rightarrow> None)"

definition cache_set :: "env \<Rightarrow> string \<Rightarrow> 'a \<Rightarrow> int \<Rightarrow> 'a cache_entry \<Rightarrow> 'a cache_entry" where
  "cache_set e lbl v ttl c = (if fault e lbl then c else Some (v, now e + ttl))"

section \<open>Lemmas\<close>

lemma read_limited_short [simp]: "length s \<le> 1048576 \<Longrightarrow> read_limited s = s"
  by (simp add: read_limited_def)

lemma decode_members_Nil [simp]: "decode_members setter [] r = (r, True)"
  by (simp add: decode_members_def)

lemma decode_members_Cons [simp]:
  "setter k v r = Some r' \<Longrightarrow> decode_members setter ((k, v) # ms) r = decode_members setter ms r'"
  by (simp add: decode_members_def)

lemma decode_value_simps [simp]:
  "decode_value setter (JObj ms) r = decode_members setter ms r"
  "decode_value setter JNull r = (r, True)"
  by (simp_all add: decode_value_def)

lemma decode_struct_text:
  "json_ok j \<Longrightarrow> decode_struct setter r (json_text j) = decode_value setter j r"
  by (simp add: decode_struct_def json_roundtrip)

end
