(* ===== verification/HytaleAuth.thy ===== *)
theory HytaleAuth
  imports Http
begin

text \<open>
  \<^verbatim>\<open>services/hytale_auth_service.go\<close> and \<^verbatim>\<open>handlers/hytale.go\<close>: the Hytale account of the panel.
  An operator links it once with the OAuth device flow; the refresh token, which the provider
  replaces with every use, is kept in the settings and access tokens in memory.  The state of an
  operation is the service (what its mutex guards), the other side and the database.  What the mutex
  covers is one step.  A nil pointer dereference is an error of its own.
\<close>

section \<open>Data\<close>

record HytaleAuthEndpoints =
  ep_OAuth :: string
  ep_AccountData :: string
  ep_Sessions :: string

definition DefaultHytaleAuthEndpoints :: HytaleAuthEndpoints where
  "DefaultHytaleAuthEndpoints = \<lparr>ep_OAuth = ''https://oauth.accounts.hytale.com'',
     ep_AccountData = ''https://account-data.hytale.com'', ep_Sessions = ''https://sessions.hytale.com''\<rparr>"

definition hytaleClientID :: string where "hytaleClientID = ''hytale-server''"
definition hytaleScopes :: string where "hytaleScopes = ''openid offline auth:server''"

abbreviation hytaleRefreshTokenKey :: string where "hytaleRefreshTokenKey \<equiv> ''hytale_refresh_token''"
abbreviation hytaleProfileKey :: string where "hytaleProfileKey \<equiv> ''hytale_profile_uuid''"
abbreviation hytaleProfilesKey :: string where "hytaleProfilesKey \<equiv> ''hytale_profiles''"
abbreviation hytaleLinkedAtKey :: string where "hytaleLinkedAtKey \<equiv> ''hytale_linked_at''"

definition hytaleAuthKeys :: "string list" where
  "hytaleAuthKeys = [hytaleRefreshTokenKey, hytaleProfileKey, hytaleProfilesKey, hytaleLinkedAtKey]"

abbreviation ErrHytaleNotLinked :: go_error where
  "ErrHytaleNotLinked \<equiv> New ''no Hytale account linked''"
abbreviation ErrHytaleRelinkRequired :: go_error where
  "ErrHytaleRelinkRequired \<equiv> New ''Hytale login expired; link the account again''"
abbreviation ErrNoDeviceLogin :: go_error where
  "ErrNoDeviceLogin \<equiv> New ''no Hytale device login in progress''"

definition nil_dereference :: go_error where
  "nil_dereference = New ''invalid memory address or nil pointer dereference''"

datatype DeviceLoginState = DeviceLoginPending | DeviceLoginLinked | DeviceLoginExpired | DeviceLoginDenied

record DeviceLogin =
  dl_UserCode :: string
  dl_VerificationURI :: string
  dl_VerificationURIComplete :: string
  dl_ExpiresIn :: int
  dl_Interval :: int

record HytaleProfile =
  hp_UUID :: string
  hp_Username :: string

record HytaleAuthStatus =
  st_Linked :: bool
  st_ProfileUUID :: string
  st_ProfileName :: string
  st_Profiles :: "HytaleProfile list"
  st_LinkedAt :: string
  st_LoginPending :: bool

record GameSession =
  gs_SessionToken :: string
  gs_IdentityToken :: string
  gs_OwnerUUID :: string
  gs_ExpiresAt :: string

record pendingDevice =
  pd_code :: string
  pd_expires :: time

record HytaleAuthService =
  ha_accessToken :: string
  ha_accessExp :: time
  ha_device :: "pendingDevice option"

definition zero_time :: time where "zero_time = - 62135596800 * second"

definition NewHytaleAuthService :: HytaleAuthService where
  "NewHytaleAuthService = \<lparr>ha_accessToken = '''', ha_accessExp = zero_time, ha_device = None\<rparr>"

record oauthToken =
  ot_AccessToken :: string
  ot_RefreshToken :: string
  ot_ExpiresIn :: int

section \<open>JSON\<close>

definition set_token :: "string \<Rightarrow> json \<Rightarrow> oauthToken \<Rightarrow> oauthToken option" where
  "set_token k v t =
     (if equal_fold k ''access_token'' then map_option (\<lambda>x. t\<lparr>ot_AccessToken := x\<rparr>) (json_str_field v (ot_AccessToken t))
      else if equal_fold k ''refresh_token'' then map_option (\<lambda>x. t\<lparr>ot_RefreshToken := x\<rparr>) (json_str_field v (ot_RefreshToken t))
      else if equal_fold k ''expires_in'' then map_option (\<lambda>x. t\<lparr>ot_ExpiresIn := x\<rparr>) (json_int_field v (ot_ExpiresIn t))
      else Some t)"

definition decode_token :: "string \<Rightarrow> oauthToken result" where
  "decode_token s = decoded (decode_struct set_token \<lparr>ot_AccessToken = '''', ot_RefreshToken = '''', ot_ExpiresIn = 0\<rparr> s)"

definition set_device :: "string \<Rightarrow> json \<Rightarrow> string \<times> DeviceLogin \<Rightarrow> (string \<times> DeviceLogin) option" where
  "set_device k v = (\<lambda>(code, l).
     (if equal_fold k ''device_code'' then map_option (\<lambda>x. (x, l)) (json_str_field v code)
      else map_option (Pair code)
       (if equal_fold k ''user_code'' then map_option (\<lambda>x. l\<lparr>dl_UserCode := x\<rparr>) (json_str_field v (dl_UserCode l))
        else if equal_fold k ''verification_uri'' then map_option (\<lambda>x. l\<lparr>dl_VerificationURI := x\<rparr>) (json_str_field v (dl_VerificationURI l))
        else if equal_fold k ''verification_uri_complete''
        then map_option (\<lambda>x. l\<lparr>dl_VerificationURIComplete := x\<rparr>) (json_str_field v (dl_VerificationURIComplete l))
        else if equal_fold k ''expires_in'' then map_option (\<lambda>x. l\<lparr>dl_ExpiresIn := x\<rparr>) (json_int_field v (dl_ExpiresIn l))
        else if equal_fold k ''interval'' then map_option (\<lambda>x. l\<lparr>dl_Interval := x\<rparr>) (json_int_field v (dl_Interval l))
        else Some l)))"

definition decode_device :: "string \<Rightarrow> (string \<times> DeviceLogin) result" where
  "decode_device s = decoded (decode_struct set_device
     ('''', \<lparr>dl_UserCode = '''', dl_VerificationURI = '''', dl_VerificationURIComplete = '''', dl_ExpiresIn = 0, dl_Interval = 0\<rparr>) s)"

definition empty_profile :: HytaleProfile where
  "empty_profile = \<lparr>hp_UUID = '''', hp_Username = ''''\<rparr>"

definition set_profile :: "string \<Rightarrow> json \<Rightarrow> HytaleProfile \<Rightarrow> HytaleProfile option" where
  "set_profile k v p =
     (if equal_fold k ''uuid'' then map_option (\<lambda>x. p\<lparr>hp_UUID := x\<rparr>) (json_str_field v (hp_UUID p))
      else if equal_fold k ''username'' then map_option (\<lambda>x. p\<lparr>hp_Username := x\<rparr>) (json_str_field v (hp_Username p))
      else Some p)"

definition marshal_profiles :: "HytaleProfile list \<Rightarrow> string" where
  "marshal_profiles ps = json_text (JArr (map (\<lambda>p. JObj [(''uuid'', JStr (hp_UUID p)), (''username'', JStr (hp_Username p))]) ps))"

definition unmarshal_profiles :: "string \<Rightarrow> HytaleProfile list option" where
  "unmarshal_profiles s =
     (case json_unmarshal s of None \<Rightarrow> None | Some j \<Rightarrow> json_list_field set_profile empty_profile j)"

definition set_profiles_answer :: "string \<Rightarrow> json \<Rightarrow> HytaleProfile list \<Rightarrow> HytaleProfile list option" where
  "set_profiles_answer k v ps =
     (if equal_fold k ''profiles'' then json_list_field set_profile empty_profile v else Some ps)"

definition set_session :: "string \<Rightarrow> json \<Rightarrow> GameSession \<Rightarrow> GameSession option" where
  "set_session k v g =
     (if equal_fold k ''sessionToken'' then map_option (\<lambda>x. g\<lparr>gs_SessionToken := x\<rparr>) (json_str_field v (gs_SessionToken g))
      else if equal_fold k ''identityToken'' then map_option (\<lambda>x. g\<lparr>gs_IdentityToken := x\<rparr>) (json_str_field v (gs_IdentityToken g))
      else if equal_fold k ''expiresAt'' then map_option (\<lambda>x. g\<lparr>gs_ExpiresAt := x\<rparr>) (json_str_field v (gs_ExpiresAt g))
      else Some g)"

definition set_error :: "string \<Rightarrow> json \<Rightarrow> string \<Rightarrow> string option" where
  "set_error k v s = (if equal_fold k ''error'' then json_str_field v s else Some s)"

section \<open>Requests\<close>

definition form_request :: "string \<Rightarrow> (string \<times> string) list \<Rightarrow> HttpRequest" where
  "form_request endpoint form = \<lparr>rq_Method = ''POST'', rq_URL = endpoint,
     rq_Header = [(''Content-Type'', ''application/x-www-form-urlencoded'')], rq_Body = form_encode form\<rparr>"

text \<open>\<^verbatim>\<open>*oauthError\<close> is told apart from other errors.\<close>

datatype post_error = OAuthError string int | Other go_error

fun post_error_text :: "post_error \<Rightarrow> go_error" where
  "post_error_text (OAuthError code status) = New (''HTTP '' @ dec status @ '': '' @ code)"
| "post_error_text (Other err) = err"

definition oauth_code :: "HttpResponse \<Rightarrow> string" where
  "oauth_code rs =
     (let code = fst (decode_struct set_error '''' (read_limited (rs_Body rs)))
      in if code = '''' then StatusText (rs_StatusCode rs) else code)"

definition postForm ::
  "'p http \<Rightarrow> 'p \<Rightarrow> string \<Rightarrow> (string \<times> string) list \<Rightarrow> (string \<Rightarrow> 'a result) \<Rightarrow> (int \<times> (post_error + 'a)) \<times> 'p" where
  "postForm http p endpoint form decode =
     (case http p (form_request endpoint form) of
        (Inl err, p') \<Rightarrow> ((0, Inl (Other err)), p')
      | (Inr rs, p') \<Rightarrow>
          ((rs_StatusCode rs,
            if rs_StatusCode rs \<ge> 300 then Inl (OAuthError (oauth_code rs) (rs_StatusCode rs))
            else map_sum Other id (decode (read_limited (rs_Body rs)))), p'))"

definition doJSON :: "'p http \<Rightarrow> 'p \<Rightarrow> HttpRequest \<Rightarrow> (string \<Rightarrow> 'a result) \<Rightarrow> 'a result \<times> 'p" where
  "doJSON http p rq decode =
     (case http p rq of
        (Inl err, p') \<Rightarrow> (Inl err, p')
      | (Inr rs, p') \<Rightarrow>
          (if rs_StatusCode rs \<ge> 300
           then Inl (New (''HTTP '' @ dec (rs_StatusCode rs) @ '': '' @ trim_space (read_limited (rs_Body rs))))
           else decode (read_limited (rs_Body rs)), p'))"

text \<open>The token and the OAuth error code.  The token is absent with every error, also when the
  code is empty.\<close>

definition tokenRequest ::
  "HytaleAuthEndpoints \<Rightarrow> 'p http \<Rightarrow> 'p \<Rightarrow> (string \<times> string) list \<Rightarrow> (oauthToken option \<times> string) result \<times> 'p" where
  "tokenRequest ep http p form =
     (case postForm http p (ep_OAuth ep @ ''/oauth2/token'') form decode_token of
        ((status, Inl (OAuthError code st)), p') \<Rightarrow>
          (if status \<ge> 400 \<and> status < 500 then Inr (None, code)
           else Inl (Wrap ''Hytale token request'' (post_error_text (OAuthError code st))), p')
      | ((status, Inl (Other err)), p') \<Rightarrow> (Inl (Wrap ''Hytale token request'' err), p')
      | ((status, Inr tok), p') \<Rightarrow> (Inr (Some tok, ''''), p'))"

definition profiles_request :: "HytaleAuthEndpoints \<Rightarrow> string \<Rightarrow> HttpRequest" where
  "profiles_request ep access = \<lparr>rq_Method = ''GET'', rq_URL = ep_AccountData ep @ ''/my-account/get-profiles'',
     rq_Header = [(''Authorization'', ''Bearer '' @ access)], rq_Body = ''''\<rparr>"

definition fetchProfiles :: "HytaleAuthEndpoints \<Rightarrow> 'p http \<Rightarrow> 'p \<Rightarrow> string \<Rightarrow> HytaleProfile list result \<times> 'p" where
  "fetchProfiles ep http p access =
     (case doJSON http p (profiles_request ep access) (\<lambda>s. decoded (decode_struct set_profiles_answer [] s)) of
        (r, p') \<Rightarrow> (wrapping ''fetching Hytale profiles'' r, p'))"

definition session_request :: "HytaleAuthEndpoints \<Rightarrow> string \<Rightarrow> string \<Rightarrow> HttpRequest" where
  "session_request ep access profile = \<lparr>rq_Method = ''POST'', rq_URL = ep_Sessions ep @ ''/game-session/new'',
     rq_Header = [(''Authorization'', ''Bearer '' @ access), (''Content-Type'', ''application/json'')],
     rq_Body = json_text (JObj [(''uuid'', JStr profile)])\<rparr>"

definition refresh_form :: "string \<Rightarrow> (string \<times> string) list" where
  "refresh_form refresh = [(''client_id'', hytaleClientID), (''grant_type'', ''refresh_token''), (''refresh_token'', refresh)]"

definition device_form :: "string \<Rightarrow> (string \<times> string) list" where
  "device_form code = [(''client_id'', hytaleClientID),
     (''grant_type'', ''urn:ietf:params:oauth:grant-type:device_code''), (''device_code'', code)]"

section \<open>Operations\<close>

definition setAccessToken :: "env \<Rightarrow> HytaleAuthService \<Rightarrow> oauthToken \<Rightarrow> HytaleAuthService" where
  "setAccessToken e s tok = s\<lparr>ha_accessToken := ot_AccessToken tok,
     ha_accessExp := now e + wrap64 (wrap64 (ot_ExpiresIn tok * second) - minute)\<rparr>"

definition StartDeviceLogin ::
  "HytaleAuthEndpoints \<Rightarrow> 'p http \<Rightarrow> env \<Rightarrow> HytaleAuthService \<times> 'p \<Rightarrow> DeviceLogin result \<times> HytaleAuthService \<times> 'p" where
  "StartDeviceLogin ep http e = (\<lambda>(s, p).
     case postForm http p (ep_OAuth ep @ ''/oauth2/device/auth'') [(''client_id'', hytaleClientID), (''scope'', hytaleScopes)] decode_device of
       ((_, Inl err), p') \<Rightarrow> (Inl (Wrap ''starting Hytale device login'' (post_error_text err)), s, p')
     | ((_, Inr (code, login)), p') \<Rightarrow>
         if code = '''' then (Inl (New ''starting Hytale device login: no device code returned''), s, p')
         else (Inr login, s\<lparr>ha_device := Some \<lparr>pd_code = code,
                 pd_expires = now e + wrap64 (dl_ExpiresIn login * second)\<rparr>\<rparr>, p'))"

fun store_settings ::
  "string \<Rightarrow> prims \<Rightarrow> string \<Rightarrow> env \<Rightarrow> (nat \<Rightarrow> string) \<Rightarrow> nat \<Rightarrow> (string \<times> string) list \<Rightarrow> uuid option \<Rightarrow> db \<Rightarrow> unit result \<times> db" where
  "store_settings lbl pr ek e nonces k [] who d = (Inr (), d)"
| "store_settings lbl pr ek e nonces k ((key, v) # kvs) who d =
     (case settings_Set (lbl @ key) pr ek e (nonces k) d key v who of
        (Inl err, d') \<Rightarrow> (Inl err, d')
      | (Inr _, d') \<Rightarrow> store_settings lbl pr ek e nonces (Suc k) kvs who d')"

text \<open>The end of a device login that was granted.\<close>

definition finish_link ::
  "HytaleAuthEndpoints \<Rightarrow> prims \<Rightarrow> string \<Rightarrow> 'p http \<Rightarrow> env \<Rightarrow> (nat \<Rightarrow> string) \<Rightarrow> uuid option \<Rightarrow> oauthToken
     \<Rightarrow> HytaleAuthService \<times> 'p \<times> db \<Rightarrow> DeviceLoginState result \<times> HytaleAuthService \<times> 'p \<times> db" where
  "finish_link ep pr ek http e nonces who tok = (\<lambda>(s, p, d).
     case fetchProfiles ep http p (ot_AccessToken tok) of
       (Inl err, p') \<Rightarrow> (Inl err, s, p', d)
     | (Inr [], p') \<Rightarrow> (Inl (New ''the Hytale account has no game profile''), s, p', d)
     | (Inr (pf # pfs), p') \<Rightarrow>
         if ot_RefreshToken tok = '''' then (Inl (New ''the Hytale login returned no refresh token''), s, p', d)
         else (case store_settings ''PollDeviceLogin.'' pr ek e nonces 0
                 [(hytaleProfileKey, hp_UUID pf), (hytaleProfilesKey, marshal_profiles (pf # pfs)),
                  (hytaleLinkedAtKey, RFC3339 (now e)), (hytaleRefreshTokenKey, ot_RefreshToken tok)] who d of
             (Inl err, d') \<Rightarrow> (Inl (Wrap ''storing Hytale login'' err), s, p', d')
           | (Inr _, d') \<Rightarrow> (Inr DeviceLoginLinked, setAccessToken e (s\<lparr>ha_device := None\<rparr>) tok, p', d')))"

definition PollDeviceLogin ::
  "HytaleAuthEndpoints \<Rightarrow> prims \<Rightarrow> string \<Rightarrow> 'p http \<Rightarrow> env \<Rightarrow> (nat \<Rightarrow> string) \<Rightarrow> uuid option
     \<Rightarrow> HytaleAuthService \<times> 'p \<times> db \<Rightarrow> DeviceLoginState result \<times> HytaleAuthService \<times> 'p \<times> db" where
  "PollDeviceLogin ep pr ek http e nonces who = (\<lambda>(s, p, d).
     case ha_device s of None \<Rightarrow> (Inl ErrNoDeviceLogin, s, p, d)
     | Some dev \<Rightarrow>
         if now e > pd_expires dev then (Inr DeviceLoginExpired, s\<lparr>ha_device := None\<rparr>, p, d)
         else (case tokenRequest ep http p (device_form (pd_code dev)) of
             (Inl err, p') \<Rightarrow> (Inl err, s, p', d)
           | (Inr (tok, code), p') \<Rightarrow>
               if code = '''' then
                 (case tok of None \<Rightarrow> (Inl nil_dereference, s, p', d)
                  | Some t \<Rightarrow> finish_link ep pr ek http e nonces who t (s, p', d))
               else if code \<in> {''authorization_pending'', ''slow_down''} then (Inr DeviceLoginPending, s, p', d)
               else if code \<in> {''expired_token'', ''invalid_grant''} then (Inr DeviceLoginExpired, s\<lparr>ha_device := None\<rparr>, p', d)
               else if code = ''access_denied'' then (Inr DeviceLoginDenied, s\<lparr>ha_device := None\<rparr>, p', d)
               else (Inl (New (''Hytale device login failed: '' @ code)), s, p', d)))"

definition stored_profiles :: "string \<Rightarrow> prims \<Rightarrow> string \<Rightarrow> env \<Rightarrow> db \<Rightarrow> HytaleProfile list result" where
  "stored_profiles lbl pr ek e d =
     and_then (settings_Get lbl pr ek e d hytaleProfilesKey) (\<lambda>raw.
       if raw = '''' then Inr []
       else (case unmarshal_profiles raw of
           None \<Rightarrow> Inl (Wrap ''decoding stored Hytale profiles'' (New ''json''))
         | Some ps \<Rightarrow> Inr ps))"

definition Status :: "prims \<Rightarrow> string \<Rightarrow> env \<Rightarrow> HytaleAuthService \<Rightarrow> db \<Rightarrow> HytaleAuthStatus result" where
  "Status pr ek e s d =
     and_then (settings_Get ''Status.refresh'' pr ek e d hytaleRefreshTokenKey) (\<lambda>refresh.
       let st = \<lparr>st_Linked = (refresh \<noteq> ''''), st_ProfileUUID = '''', st_ProfileName = '''', st_Profiles = [], st_LinkedAt = '''',
                 st_LoginPending = (case ha_device s of None \<Rightarrow> False | Some dev \<Rightarrow> now e < pd_expires dev)\<rparr>
       in if \<not> st_Linked st then Inr st
          else and_then (stored_profiles ''Status.profiles'' pr ek e d) (\<lambda>ps.
               and_then (settings_Get ''Status.profile'' pr ek e d hytaleProfileKey) (\<lambda>profile.
               and_then (settings_Get ''Status.linkedAt'' pr ek e d hytaleLinkedAtKey) (\<lambda>linked.
                 Inr (st\<lparr>st_Profiles := ps, st_ProfileUUID := profile,
                   st_ProfileName := fold (\<lambda>p n. if hp_UUID p = profile then hp_Username p else n) ps '''',
                   st_LinkedAt := linked\<rparr>)))))"

definition SelectProfile :: "prims \<Rightarrow> string \<Rightarrow> env \<Rightarrow> string \<Rightarrow> string \<Rightarrow> db \<Rightarrow> unit result \<times> db" where
  "SelectProfile pr ek e nonce profileUUID d =
     (case stored_profiles ''SelectProfile.profiles'' pr ek e d of Inl err \<Rightarrow> (Inl err, d)
      | Inr ps \<Rightarrow>
          if list_ex (\<lambda>p. hp_UUID p = profileUUID) ps
          then settings_Set ''SelectProfile'' pr ek e nonce d hytaleProfileKey profileUUID None
          else (Inl (New (''the linked Hytale account has no profile '' @ profileUUID)), d))"

definition Unlink :: "prims \<Rightarrow> string \<Rightarrow> env \<Rightarrow> HytaleAuthService \<times> db \<Rightarrow> unit result \<times> HytaleAuthService \<times> db" where
  "Unlink pr ek e = (\<lambda>(s, d).
     case store_settings ''Unlink.'' pr ek e (\<lambda>_. '''') 0 (map (\<lambda>k. (k, '''')) hytaleAuthKeys) None d of
       (Inl err, d') \<Rightarrow> (Inl err, s, d')
     | (Inr _, d') \<Rightarrow> (Inr (), NewHytaleAuthService, d'))"

definition currentAccessToken ::
  "HytaleAuthEndpoints \<Rightarrow> prims \<Rightarrow> string \<Rightarrow> 'p http \<Rightarrow> env \<Rightarrow> string
     \<Rightarrow> HytaleAuthService \<times> 'p \<times> db \<Rightarrow> string result \<times> HytaleAuthService \<times> 'p \<times> db" where
  "currentAccessToken ep pr ek http e nonce = (\<lambda>(s, p, d).
     if ha_accessToken s \<noteq> '''' \<and> now e < ha_accessExp s then (Inr (ha_accessToken s), s, p, d)
     else (case settings_Get ''currentAccessToken.get'' pr ek e d hytaleRefreshTokenKey of
         Inl err \<Rightarrow> (Inl err, s, p, d)
       | Inr refresh \<Rightarrow>
           if refresh = '''' then (Inl ErrHytaleNotLinked, s, p, d)
           else (case tokenRequest ep http p (refresh_form refresh) of
               (Inl err, p') \<Rightarrow> (Inl err, s, p', d)
             | (Inr (tok, code), p') \<Rightarrow>
                 if code = ''invalid_grant'' then (Inl ErrHytaleRelinkRequired, s, p', d)
                 else if code \<noteq> '''' then (Inl (New (''refreshing Hytale login: '' @ code)), s, p', d)
                 else (case tok of None \<Rightarrow> (Inl nil_dereference, s, p', d)
                   | Some t \<Rightarrow>
                       if ot_RefreshToken t = '''' then (Inr (ot_AccessToken t), setAccessToken e s t, p', d)
                       else (case settings_Set ''currentAccessToken.set'' pr ek e nonce d hytaleRefreshTokenKey (ot_RefreshToken t) None of
                           (Inl err, d') \<Rightarrow> (Inl (Wrap ''storing rotated Hytale refresh token'' err), s, p', d')
                         | (Inr _, d') \<Rightarrow> (Inr (ot_AccessToken t), setAccessToken e s t, p', d'))))))"

definition NewGameSession ::
  "HytaleAuthEndpoints \<Rightarrow> prims \<Rightarrow> string \<Rightarrow> 'p http \<Rightarrow> env \<Rightarrow> string
     \<Rightarrow> HytaleAuthService \<times> 'p \<times> db \<Rightarrow> GameSession result \<times> HytaleAuthService \<times> 'p \<times> db" where
  "NewGameSession ep pr ek http e nonce st =
     (case currentAccessToken ep pr ek http e nonce st of
        (Inl err, st') \<Rightarrow> (Inl err, st')
      | (Inr access, (s, p, d)) \<Rightarrow>
          (case settings_Get ''NewGameSession'' pr ek e d hytaleProfileKey of
             Inl err \<Rightarrow> (Inl err, s, p, d)
           | Inr profile \<Rightarrow>
               (case doJSON http p (session_request ep access profile) (\<lambda>b. decoded (decode_struct set_session
                   \<lparr>gs_SessionToken = '''', gs_IdentityToken = '''', gs_OwnerUUID = profile, gs_ExpiresAt = ''''\<rparr> b)) of
                  (r, p') \<Rightarrow> (wrapping ''creating Hytale game session'' r, s, p', d))))"

section \<open>Handlers\<close>

definition h_AuthStatus :: "prims \<Rightarrow> string \<Rightarrow> env \<Rightarrow> HytaleAuthService \<Rightarrow> db \<Rightarrow> HytaleAuthStatus response" where
  "h_AuthStatus pr ek e s d =
     (case Status pr ek e s d of Inl _ \<Rightarrow> Refuse 500 ''could not read Hytale login'' | Inr st \<Rightarrow> Reply 200 st)"

definition h_StartDeviceLogin ::
  "HytaleAuthEndpoints \<Rightarrow> 'p http \<Rightarrow> env \<Rightarrow> HytaleAuthService \<times> 'p \<Rightarrow> DeviceLogin response \<times> HytaleAuthService \<times> 'p" where
  "h_StartDeviceLogin ep http e st =
     (case StartDeviceLogin ep http e st of
        (Inl err, st') \<Rightarrow> (Refuse 502 (Error err), st') | (Inr login, st') \<Rightarrow> (Reply 200 login, st'))"

definition h_PollDeviceLogin ::
  "HytaleAuthEndpoints \<Rightarrow> prims \<Rightarrow> string \<Rightarrow> 'p http \<Rightarrow> env \<Rightarrow> (nat \<Rightarrow> string) \<Rightarrow> User option
     \<Rightarrow> HytaleAuthService \<times> 'p \<times> db \<Rightarrow> DeviceLoginState response \<times> HytaleAuthService \<times> 'p \<times> db" where
  "h_PollDeviceLogin ep pr ek http e nonces caller st =
     (case PollDeviceLogin ep pr ek http e nonces (map_option u_ID caller) st of
        (Inl err, st') \<Rightarrow>
          (if err = nil_dereference then Refuse 500 '''' else if errors_is err ErrNoDeviceLogin then Refuse 409 (Error err)
           else Refuse 502 (Error err), st')
      | (Inr state, st') \<Rightarrow> (Reply 200 state, st'))"

definition h_SelectProfile ::
  "prims \<Rightarrow> string \<Rightarrow> env \<Rightarrow> string \<Rightarrow> HytaleAuthService \<Rightarrow> db \<Rightarrow> string result \<Rightarrow> HytaleAuthStatus response \<times> db" where
  "h_SelectProfile pr ek e nonce s d body =
     (case body of Inl _ \<Rightarrow> (Refuse 400 ''profile_uuid is required'', d)
      | Inr profileUUID \<Rightarrow>
          if profileUUID = '''' then (Refuse 400 ''profile_uuid is required'', d)
          else (case SelectProfile pr ek e nonce profileUUID d of
              (Inl err, d') \<Rightarrow> (Refuse 400 (Error err), d')
            | (Inr _, d') \<Rightarrow> (h_AuthStatus pr ek e s d', d')))"

definition h_Unlink :: "prims \<Rightarrow> string \<Rightarrow> env \<Rightarrow> HytaleAuthService \<times> db \<Rightarrow> bool response \<times> HytaleAuthService \<times> db" where
  "h_Unlink pr ek e st =
     (case Unlink pr ek e st of (Inl _, st') \<Rightarrow> (Refuse 500 ''could not unlink'', st') | (Inr _, st') \<Rightarrow> (Reply 200 False, st'))"

end
