(* ===== verification/HytaleRules.thy ===== *)
theory HytaleRules
  imports HytaleAuth SettingsRules
begin

text \<open>
  Properties of the Hytale account: the stored refresh token stays one the provider accepts, and an
  unlinked account is forgotten.  What the provider is taken to do is \<open>rotating_provider\<close>.
\<close>

section \<open>The provider\<close>

definition refresh_request :: "HytaleAuthEndpoints \<Rightarrow> string \<Rightarrow> HttpRequest" where
  "refresh_request ep r = form_request (ep_OAuth ep @ ''/oauth2/token'') (refresh_form r)"

definition device_request :: "HytaleAuthEndpoints \<Rightarrow> string \<Rightarrow> HttpRequest" where
  "device_request ep code = form_request (ep_OAuth ep @ ''/oauth2/token'') (device_form code)"

definition granted :: "HttpResponse \<Rightarrow> oauthToken \<Rightarrow> bool" where
  "granted rs tok = (rs_StatusCode rs < 300 \<and> decode_token (read_limited (rs_Body rs)) = Inr tok)"

definition refresh_kept :: "HytaleAuthEndpoints \<Rightarrow> 'p http \<Rightarrow> ('p \<Rightarrow> string \<Rightarrow> bool) \<Rightarrow> 'p \<Rightarrow> string \<Rightarrow> bool" where
  "refresh_kept ep http accepts p r =
     (case http p (refresh_request ep r) of
        (Inl _, p') \<Rightarrow> accepts p' r
      | (Inr rs, p') \<Rightarrow>
          if rs_StatusCode rs \<ge> 300 then accepts p' r
          else (case decode_token (read_limited (rs_Body rs)) of Inl _ \<Rightarrow> False
            | Inr tok \<Rightarrow> accepts p' (if ot_RefreshToken tok = '''' then r else ot_RefreshToken tok)))"

definition rotating_provider :: "HytaleAuthEndpoints \<Rightarrow> 'p http \<Rightarrow> ('p \<Rightarrow> string \<Rightarrow> bool) \<Rightarrow> bool" where
  "rotating_provider ep http accepts =
     ((\<forall>p r rq. rq \<noteq> refresh_request ep r \<and> accepts p r \<longrightarrow> accepts (snd (http p rq)) r)
      \<and> (\<forall>p r. accepts p r \<longrightarrow> refresh_kept ep http accepts p r)
      \<and> (\<forall>p code rs p' tok. http p (device_request ep code) = (Inr rs, p') \<and> granted rs tok \<and> ot_RefreshToken tok \<noteq> ''''
           \<longrightarrow> accepts p' (ot_RefreshToken tok)))"

lemma sorted_forms [simp]:
  "sort_key fst (refresh_form r) = refresh_form r"
  "sort_key fst (device_form c) = [(''client_id'', hytaleClientID), (''device_code'', c),
     (''grant_type'', ''urn:ietf:params:oauth:grant-type:device_code'')]"
  by (simp_all add: refresh_form_def device_form_def)

lemma device_not_refresh: "device_request ep c \<noteq> refresh_request ep r"
proof -
  have "form_encode (device_form c) \<noteq> form_encode (refresh_form r)"
    by (simp add: form_encode_def) (simp add: refresh_form_def QueryEscape_def escape_char_def is_lower_def is_digit_def is_upper_def byte_def hytaleClientID_def)
  then show ?thesis by (simp add: device_request_def refresh_request_def form_request_def)
qed

lemma other_not_refresh:
  "profiles_request ep a \<noteq> refresh_request ep r"
  "session_request ep a pf \<noteq> refresh_request ep r"
  "form_request (ep_OAuth ep @ ''/oauth2/device/auth'') f \<noteq> refresh_request ep r"
  by (simp_all add: profiles_request_def session_request_def refresh_request_def form_request_def)
section \<open>The stored token\<close>

definition token_of :: "prims \<Rightarrow> string \<Rightarrow> db \<Rightarrow> string result" where
  "token_of pr ek d = settings_Get '''' pr ek (quiet 0) d hytaleRefreshTokenKey"

lemma token_of_other: "settings_Set l pr ek e n d key v who = (r, d') \<Longrightarrow> key \<noteq> hytaleRefreshTokenKey \<Longrightarrow> token_of pr ek d' = token_of pr ek d"
  by (simp add: token_of_def settings_Get_def find_setting_Set)

lemma token_of_set:
  assumes "gcm_correct pr" and "v = '''' \<or> length n = nonce_size"
    and "settings_Set l pr ek e n d hytaleRefreshTokenKey v who = (Inr u, d')"
  shows "token_of pr ek d' = Inr v"
proof (cases "v = ''''")
  case True
  with assms(3) have "find_setting d' hytaleRefreshTokenKey = None"
    by (auto simp: settings_Set_def find_setting_def delete_where_def find_None_iff split: if_splits)
  with True show ?thesis by (simp add: token_of_def settings_Get_def call_def)
next
  case False
  with assms show ?thesis unfolding token_of_def
    by (intro settings_Set_Get [where e = e and d = d and nonce = n and who = who and lbl = l]) auto
qed

lemma store_settings_token:
  assumes "gcm_correct pr" and "(\<forall>k. length (nonces k) = nonce_size) \<or> list_all (\<lambda>kv. snd kv = '''') kvs"
    and "store_settings l pr ek e nonces k kvs who d = (r, d')"
  shows "token_of pr ek d' = token_of pr ek d \<or> (\<exists>v. (hytaleRefreshTokenKey, v) \<in> set kvs \<and> token_of pr ek d' = Inr v)"
  using assms(2,3)
proof (induction kvs arbitrary: k d)
  case Nil
  then show ?case by simp
next
  case (Cons kv kvs)
  obtain key v where kv: "kv = (key, v)" by (cases kv)
  obtain r1 d1 where set: "settings_Set (l @ key) pr ek e (nonces k) d key v who = (r1, d1)" by fastforce
  have nonce: "v = '''' \<or> length (nonces k) = nonce_size" using Cons.prems(1) kv by auto
  show ?case
  proof (cases r1)
    case (Inl err)
    then have "d1 = d" using find_setting_Set_error set by blast
    then have "d' = d" using Cons.prems(2) kv set Inl by simp
    then show ?thesis by simp
  next
    case (Inr u)
    have "token_of pr ek d1 = token_of pr ek d \<or> (key = hytaleRefreshTokenKey \<and> token_of pr ek d1 = Inr v)"
      using token_of_other [OF set] token_of_set [OF assms(1) nonce] set Inr by blast
    moreover have "token_of pr ek d' = token_of pr ek d1 \<or> (\<exists>v. (hytaleRefreshTokenKey, v) \<in> set kvs \<and> token_of pr ek d' = Inr v)"
      using Cons.IH [of "Suc k" d1] Cons.prems kv set Inr by auto
    ultimately show ?thesis using kv by auto
  qed
qed

section \<open>Requests keep the token\<close>

lemma provider_other: "rotating_provider ep http accepts \<Longrightarrow> rq \<noteq> refresh_request ep r \<Longrightarrow> accepts p r \<Longrightarrow> accepts (snd (http p rq)) r"
  unfolding rotating_provider_def by blast

lemma postForm_snd: "snd (postForm http p url form f) = snd (http p (form_request url form))"
  by (auto simp: postForm_def split: prod.splits sum.splits)

lemma doJSON_snd: "snd (doJSON http p rq f) = snd (http p rq)"
  by (auto simp: doJSON_def split: prod.splits sum.splits)

lemma fetchProfiles_snd: "snd (fetchProfiles ep http p a) = snd (http p (profiles_request ep a))"
  by (simp add: fetchProfiles_def split_beta doJSON_snd)

lemma StartDeviceLogin_snd:
  "snd (snd (StartDeviceLogin ep http e (s, p)))
   = snd (http p (form_request (ep_OAuth ep @ ''/oauth2/device/auth'') [(''client_id'', hytaleClientID), (''scope'', hytaleScopes)]))"
proof -
  obtain c r p' where *: "postForm http p (ep_OAuth ep @ ''/oauth2/device/auth'') [(''client_id'', hytaleClientID), (''scope'', hytaleScopes)]
      decode_device = ((c, r), p')" by (metis prod.exhaust)
  show ?thesis using postForm_snd [of http p "ep_OAuth ep @ ''/oauth2/device/auth''" "[(''client_id'', hytaleClientID), (''scope'', hytaleScopes)]" decode_device]
    by (cases r) (simp_all add: StartDeviceLogin_def * split: prod.splits)
qed

text \<open>What a token request may answer.\<close>

lemma tokenRequest_cases:
  assumes "tokenRequest ep http p form = (r, p')"
  shows "(\<exists>err. http p (form_request (ep_OAuth ep @ ''/oauth2/token'') form) = (Inl err, p') \<and> \<not> is_ok r)
     \<or> (\<exists>rs. http p (form_request (ep_OAuth ep @ ''/oauth2/token'') form) = (Inr rs, p')
          \<and> (if rs_StatusCode rs \<ge> 300 then \<forall>tok c. r \<noteq> Inr (Some tok, c)
             else (case decode_token (read_limited (rs_Body rs)) of Inl _ \<Rightarrow> \<not> is_ok r | Inr tok \<Rightarrow> r = Inr (Some tok, ''''))))"
proof (cases "http p (form_request (ep_OAuth ep @ ''/oauth2/token'') form)")
  case (Pair a q)
  show ?thesis
  proof (cases a)
    case (Inl err)
    then show ?thesis using assms Pair by (auto simp: tokenRequest_def postForm_def)
  next
    case (Inr rs)
    then show ?thesis using assms Pair
      by (cases "decode_token (read_limited (rs_Body rs))") (auto simp: tokenRequest_def postForm_def split: if_splits)
  qed
qed
section \<open>Every operation keeps the stored token accepted\<close>

definition link_ok :: "('p \<Rightarrow> string \<Rightarrow> bool) \<Rightarrow> prims \<Rightarrow> string \<Rightarrow> HytaleAuthService \<times> 'p \<times> db \<Rightarrow> bool" where
  "link_ok accepts pr ek = (\<lambda>(s, p, d). case token_of pr ek d of Inl _ \<Rightarrow> True | Inr r \<Rightarrow> r = '''' \<or> accepts p r)"

datatype hytale_act = HStart env | HPoll env "nat \<Rightarrow> string" "uuid option" | HSelect env string string | HUnlink env
  | HSession env string | HRestart

fun hytale_step ::
  "HytaleAuthEndpoints \<Rightarrow> prims \<Rightarrow> string \<Rightarrow> 'p http \<Rightarrow> hytale_act \<Rightarrow> HytaleAuthService \<times> 'p \<times> db
     \<Rightarrow> bool \<times> HytaleAuthService \<times> 'p \<times> db" where
  "hytale_step ep pr ek http (HStart e) (s, p, d) =
     (case StartDeviceLogin ep http e (s, p) of (r, s', p') \<Rightarrow> (is_ok r, s', p', d))"
| "hytale_step ep pr ek http (HPoll e nonces who) st =
     (case PollDeviceLogin ep pr ek http e nonces who st of (r, st') \<Rightarrow> (is_ok r, st'))"
| "hytale_step ep pr ek http (HSelect e nonce profile) (s, p, d) =
     (case SelectProfile pr ek e nonce profile d of (r, d') \<Rightarrow> (is_ok r, s, p, d'))"
| "hytale_step ep pr ek http (HUnlink e) (s, p, d) =
     (case Unlink pr ek e (s, d) of (r, s', d') \<Rightarrow> (is_ok r, s', p, d'))"
| "hytale_step ep pr ek http (HSession e nonce) st =
     (case NewGameSession ep pr ek http e nonce st of (r, st') \<Rightarrow> (is_ok r, st'))"
| "hytale_step ep pr ek http HRestart (s, p, d) = (True, NewHytaleAuthService, p, d)"

fun hytale_act_ok :: "hytale_act \<Rightarrow> bool" where
  "hytale_act_ok (HPoll e nonces who) = (\<forall>k. length (nonces k) = nonce_size)"
| "hytale_act_ok (HSession e nonce) = (no_faults e \<and> length nonce = nonce_size)"
| "hytale_act_ok _ = True"

lemma link_ok_request:
  assumes "rotating_provider ep http accepts" and "link_ok accepts pr ek (s, p, d)" and "\<And>r. rq \<noteq> refresh_request ep r"
  shows "link_ok accepts pr ek (s', snd (http p rq), d)"
  using assms(2) provider_other [OF assms(1) assms(3)] by (auto simp: link_ok_def split: sum.splits)

lemma finish_link_ok:
  assumes prov: "rotating_provider ep http accepts" and gcm: "gcm_correct pr" and nonces: "\<And>k. length (nonces k) = nonce_size"
    and ok: "link_ok accepts pr ek (s, p, d)" and new: "ot_RefreshToken tok = '''' \<or> accepts p (ot_RefreshToken tok)"
  shows "link_ok accepts pr ek (snd (finish_link ep pr ek http e nonces who tok (s, p, d)))"
proof -
  obtain r p' where fetch: "fetchProfiles ep http p (ot_AccessToken tok) = (r, p')" by fastforce
  then have p': "p' = snd (http p (profiles_request ep (ot_AccessToken tok)))" using fetchProfiles_snd by (metis snd_conv)
  have kept: "link_ok accepts pr ek (s', p', d)" for s'
    using link_ok_request [OF prov ok other_not_refresh(1)] p' by simp
  show ?thesis
  proof (cases "\<exists>pf pfs. r = Inr (pf # pfs) \<and> ot_RefreshToken tok \<noteq> ''''")
    case False
    then show ?thesis using kept by (auto simp: finish_link_def fetch split: sum.splits list.splits)
  next
    case True
    then obtain pf pfs where r: "r = Inr (pf # pfs)" and t: "ot_RefreshToken tok \<noteq> ''''" by blast
    define kvs where "kvs = [(hytaleProfileKey, hp_UUID pf), (hytaleProfilesKey, marshal_profiles (pf # pfs)),
      (hytaleLinkedAtKey, RFC3339 (now e)), (hytaleRefreshTokenKey, ot_RefreshToken tok)]"
    obtain r2 d' where st: "store_settings ''PollDeviceLogin.'' pr ek e nonces 0 kvs who d = (r2, d')" by fastforce
    have "token_of pr ek d' = token_of pr ek d \<or> token_of pr ek d' = Inr (ot_RefreshToken tok)"
      using store_settings_token [OF gcm _ st] nonces by (auto simp: kvs_def)
    moreover have "accepts p' (ot_RefreshToken tok)"
      using provider_other [OF prov other_not_refresh(1)] new t p' by blast
    ultimately have "link_ok accepts pr ek (s', p', d')" for s'
      using kept by (auto simp: link_ok_def)
    then show ?thesis using st t by (cases r2) (simp_all add: finish_link_def fetch r kvs_def)
  qed
qed

lemma PollDeviceLogin_ok:
  assumes prov: "rotating_provider ep http accepts" and gcm: "gcm_correct pr" and nonces: "\<And>k. length (nonces k) = nonce_size"
    and ok: "link_ok accepts pr ek (s, p, d)"
  shows "link_ok accepts pr ek (snd (PollDeviceLogin ep pr ek http e nonces who (s, p, d)))"
proof (cases "\<exists>dev. ha_device s = Some dev \<and> \<not> now e > pd_expires dev")
  case False
  then show ?thesis using ok by (auto simp: PollDeviceLogin_def link_ok_def split: option.splits)
next
  case True
  then obtain dev where dev: "ha_device s = Some dev" "\<not> now e > pd_expires dev" by blast
  obtain r p' where tr: "tokenRequest ep http p (device_form (pd_code dev)) = (r, p')" by fastforce
  note cs = tokenRequest_cases [OF tr, folded device_request_def]
  have p': "p' = snd (http p (device_request ep (pd_code dev)))" using cs by auto
  have kept: "link_ok accepts pr ek (s', p', d)" for s'
    using link_ok_request [OF prov ok device_not_refresh] p' by simp
  have new: "ot_RefreshToken t = '''' \<or> accepts p' (ot_RefreshToken t)" if "r = Inr (Some t, c)" for t c
  proof -
    from cs that obtain rs where "http p (device_request ep (pd_code dev)) = (Inr rs, p')" and "granted rs t"
      by (auto simp: granted_def split: if_splits sum.splits)
    with prov show ?thesis unfolding rotating_provider_def by blast
  qed
  show ?thesis
  proof (cases r)
    case (Inl err)
    then show ?thesis using dev tr kept by (simp add: PollDeviceLogin_def)
  next
    case (Inr x)
    obtain tok code where x: "x = (tok, code)" by fastforce
    show ?thesis
      using finish_link_ok [OF prov gcm nonces kept] new kept
      by (cases tok) (simp_all add: PollDeviceLogin_def dev tr Inr x)
  qed
qed
lemma currentAccessToken_ok:
  assumes prov: "rotating_provider ep http accepts" and gcm: "gcm_correct pr" and nonce: "length nonce = nonce_size"
    and ek: "length ek = 32" and quiet: "no_faults e" and ok: "link_ok accepts pr ek (s, p, d)"
  shows "link_ok accepts pr ek (snd (currentAccessToken ep pr ek http e nonce (s, p, d)))"
proof (cases "(ha_accessToken s \<noteq> '''' \<and> now e < ha_accessExp s)
    \<or> (\<exists>err. settings_Get ''currentAccessToken.get'' pr ek e d hytaleRefreshTokenKey = Inl err)
    \<or> settings_Get ''currentAccessToken.get'' pr ek e d hytaleRefreshTokenKey = Inr ''''")
  case True
  then show ?thesis using ok by (auto simp: currentAccessToken_def)
next
  case False
  then obtain refresh where get: "settings_Get ''currentAccessToken.get'' pr ek e d hytaleRefreshTokenKey = Inr refresh"
    and r0: "refresh \<noteq> ''''" by (metis sumE)
  have stored: "token_of pr ek d = Inr refresh" using settings_Get_quiet [OF get] by (simp add: token_of_def)
  then have acc: "accepts p refresh" using ok r0 by (simp add: link_ok_def)
  obtain r p' where tr: "tokenRequest ep http p (refresh_form refresh) = (r, p')" by fastforce
  note cs = tokenRequest_cases [OF tr, folded refresh_request_def]
  have law: "refresh_kept ep http accepts p refresh"
    using prov acc unfolding rotating_provider_def by blast
  show ?thesis
  proof (cases "\<exists>t c. r = Inr (Some t, c)")
    case True
    then obtain t where r: "r = Inr (Some t, '''')"
      and acc': "accepts p' (if ot_RefreshToken t = '''' then refresh else ot_RefreshToken t)"
      using cs law by (auto simp: refresh_kept_def split: if_splits sum.splits)
    obtain r2 d2 where set: "settings_Set ''currentAccessToken.set'' pr ek e nonce d hytaleRefreshTokenKey (ot_RefreshToken t) None = (r2, d2)"
      by fastforce
    have "is_ok r2" if "ot_RefreshToken t \<noteq> ''''"
      using set that quiet ek by (auto simp: settings_Set_def Encrypt_def no_faults_def Let_def is_ok_def split: if_splits)
    then have "ot_RefreshToken t \<noteq> '''' \<Longrightarrow> \<exists>u. r2 = Inr u \<and> token_of pr ek d2 = Inr (ot_RefreshToken t)"
      using token_of_set [OF gcm] nonce set by (cases r2) auto
    with acc' stored False get show ?thesis
      by (cases "ot_RefreshToken t = ''''") (auto simp: currentAccessToken_def tr r link_ok_def set)
  next
    case False
    then have "accepts p' refresh" using cs law by (auto simp: refresh_kept_def split: if_splits sum.splits)
    then have kept: "link_ok accepts pr ek (s, p', d)" using stored by (simp add: link_ok_def)
    from False show ?thesis
      using kept \<open>\<not> (_ \<or> _)\<close> get r0 by (cases r) (auto simp: currentAccessToken_def tr split: option.splits)
  qed
qed

lemma NewGameSession_ok:
  assumes prov: "rotating_provider ep http accepts" and "gcm_correct pr" and "length nonce = nonce_size"
    and "length ek = 32" and "no_faults e" and "link_ok accepts pr ek (s, p, d)"
  shows "link_ok accepts pr ek (snd (NewGameSession ep pr ek http e nonce (s, p, d)))"
proof -
  obtain r s1 p1 d1 where cur: "currentAccessToken ep pr ek http e nonce (s, p, d) = (r, s1, p1, d1)" by (metis prod.exhaust)
  then have ok: "link_ok accepts pr ek (s1, p1, d1)" using currentAccessToken_ok [OF assms] by simp
  show ?thesis
  proof (cases "\<exists>a prof. r = Inr a \<and> settings_Get ''NewGameSession'' pr ek e d1 hytaleProfileKey = Inr prof")
    case True
    then show ?thesis using link_ok_request [OF prov ok other_not_refresh(2)]
      by (auto simp: NewGameSession_def cur split_beta doJSON_snd)
  next
    case False
    then show ?thesis using ok by (cases r; cases "settings_Get ''NewGameSession'' pr ek e d1 hytaleProfileKey")
        (auto simp: NewGameSession_def cur)
  qed
qed

lemma Unlink_ok:
  assumes "gcm_correct pr" and "link_ok accepts pr ek (s, p, d)"
  shows "link_ok accepts pr ek (s', p, snd (snd (Unlink pr ek e (s, d))))"
proof -
  obtain r d' where st: "store_settings ''Unlink.'' pr ek e (\<lambda>_. '''') 0 (map (\<lambda>k. (k, '''')) hytaleAuthKeys) None d = (r, d')"
    by fastforce
  have "list_all (\<lambda>kv. snd kv = '''') (map (\<lambda>k. (k, '''')) hytaleAuthKeys)" by (simp add: hytaleAuthKeys_def)
  then have "token_of pr ek d' = token_of pr ek d \<or> token_of pr ek d' = Inr ''''"
    using store_settings_token [OF assms(1) _ st] by auto
  then show ?thesis using assms(2) by (cases r) (auto simp: Unlink_def st link_ok_def)
qed

lemma SelectProfile_ok: "token_of pr ek (snd (SelectProfile pr ek e nonce profile d)) = token_of pr ek d"
proof -
  obtain r d' where set: "settings_Set ''SelectProfile'' pr ek e nonce d hytaleProfileKey profile None = (r, d')" by fastforce
  then show ?thesis using token_of_other [OF set] by (auto simp: SelectProfile_def split: sum.splits)
qed

lemma hytale_step_ok:
  assumes "rotating_provider ep http accepts" and "gcm_correct pr" and "length ek = 32"
    and "hytale_act_ok a" and "link_ok accepts pr ek st"
  shows "link_ok accepts pr ek (snd (hytale_step ep pr ek http a st))"
proof -
  obtain s p d where st: "st = (s, p, d)" by (metis prod.exhaust)
  have ok: "link_ok accepts pr ek (s', p, d)" for s' using assms(5) st by (simp add: link_ok_def)
  show ?thesis
  proof (cases a)
    case (HStart e)
    then show ?thesis using link_ok_request [OF assms(1) ok other_not_refresh(3)] StartDeviceLogin_snd [of ep http e s p]
      by (simp add: st split_beta)
  next
    case (HPoll e nonces who)
    then show ?thesis using PollDeviceLogin_ok [OF assms(1,2) _ ok] assms(4) by (simp add: st split_beta)
  next
    case (HSelect e nonce profile)
    then show ?thesis using ok by (auto simp: st split_beta link_ok_def SelectProfile_ok split: sum.splits)
  next
    case (HUnlink e)
    then show ?thesis using Unlink_ok [OF assms(2) ok] by (simp add: st split_beta)
  next
    case (HSession e nonce)
    then show ?thesis using NewGameSession_ok [OF assms(1,2) _ assms(3) _ ok] assms(4) by (simp add: st split_beta)
  qed (simp add: st ok)
qed

lemma hytale_run_ok:
  "rotating_provider ep http accepts \<Longrightarrow> gcm_correct pr \<Longrightarrow> length ek = 32 \<Longrightarrow> list_all hytale_act_ok acts \<Longrightarrow>
   link_ok accepts pr ek st \<Longrightarrow> link_ok accepts pr ek (run_of (hytale_step ep pr ek http) acts st)"
  by (induction acts arbitrary: st) (simp_all add: hytale_step_ok)
section \<open>Properties\<close>


text \<open>A provider with two tokens that alternate.\<close>

definition ex_token :: "bool \<Rightarrow> string" where "ex_token p = (if p then ''rt-a'' else ''rt-b'')"

definition ex_doc :: "bool \<Rightarrow> string" where
  "ex_doc p = json_text (JObj [(''access_token'', JStr ''at''), (''expires_in'', JNum ''3600''), (''refresh_token'', JStr (ex_token p))])"

definition ex_grant :: "bool \<Rightarrow> HttpResponse result" where
  "ex_grant p = Inr \<lparr>rs_StatusCode = 200, rs_Body = ex_doc p\<rparr>"

definition ex_http :: "bool http" where
  "ex_http p rq =
     (if rq = refresh_request DefaultHytaleAuthEndpoints (ex_token p) then (ex_grant (\<not> p), \<not> p)
      else if rq = device_request DefaultHytaleAuthEndpoints ''dev'' then (ex_grant p, p)
      else if rq_Method rq = ''GET''
      then (Inr \<lparr>rs_StatusCode = 200, rs_Body = json_text (JObj [(''profiles'', JArr [JObj [(''uuid'', JStr ''u1''), (''username'', JStr ''Ada'')]])])\<rparr>, p)
      else (Inr \<lparr>rs_StatusCode = 400, rs_Body = json_text (JObj [(''error'', JStr ''invalid_grant'')])\<rparr>, p))"

lemma ex_grant_decoded:
  "decode_token (read_limited (ex_doc p)) = Inr \<lparr>ot_AccessToken = ''at'', ot_RefreshToken = ex_token p, ot_ExpiresIn = 3600\<rparr>"
proof -
  let ?j = "JObj [(''access_token'', JStr ''at''), (''expires_in'', JNum ''3600''), (''refresh_token'', JStr (ex_token p))]"
  have "length (json_text ?j) \<le> 1048576"
    by (simp add: json_string_def json_char_def ex_token_def byte_def)
  moreover have "json_ok ?j" by code_simp
  moreover have "atoi ''3600'' = Some 3600" by code_simp
  ultimately show ?thesis
    unfolding ex_doc_def decode_token_def
    by (simp add: decode_struct_text decoded_def set_token_def equal_fold_def to_lower_def lower_char_def
        is_upper_def byte_def json_str_field_def json_int_field_def del: json_text.simps)
qed

lemma ex_rotating: "rotating_provider DefaultHytaleAuthEndpoints ex_http (\<lambda>p r. r = ex_token p)"
  unfolding rotating_provider_def
proof (intro conjI allI impI)
  fix p r rq assume "rq \<noteq> refresh_request DefaultHytaleAuthEndpoints r \<and> r = ex_token p"
  then show "r = ex_token (snd (ex_http p rq))" by (auto simp: ex_http_def)
next
  fix p r assume "r = ex_token p"
  then show "refresh_kept DefaultHytaleAuthEndpoints ex_http (\<lambda>p r. r = ex_token p) p r"
    by (cases p) (simp_all add: refresh_kept_def ex_http_def ex_grant_def ex_grant_decoded, simp_all add: ex_token_def)
next
  fix p code rs p' tok
  assume a: "ex_http p (device_request DefaultHytaleAuthEndpoints code) = (Inr rs, p') \<and> granted rs tok \<and> ot_RefreshToken tok \<noteq> ''''"
  then show "ot_RefreshToken tok = ex_token p'"
    using device_not_refresh [of DefaultHytaleAuthEndpoints code "ex_token p"]
    by (auto simp: ex_http_def ex_grant_def granted_def ex_grant_decoded device_request_def form_request_def split: if_splits)
qed

definition ex_link :: "HytaleAuthService \<times> bool \<times> db" where
  "ex_link = (NewHytaleAuthService\<lparr>ha_device := Some \<lparr>pd_code = ''dev'', pd_expires = hour\<rparr>\<rparr>, True,
     snd (settings_Set '''' plain_prims (replicate 32 (CHR ''k'')) (quiet 0) (replicate 12 (CHR ''n'')) empty_db hytaleRefreshTokenKey ''rt-a'' None))"

definition ex_link_acts :: "hytale_act list" where
  "ex_link_acts = [HSession (quiet 4) (replicate 12 (CHR ''m'')), HPoll (quiet 5) (\<lambda>_. replicate 12 (CHR ''n'')) None,
     HRestart, HSession (quiet 6) (replicate 12 (CHR ''n''))]"


section \<open>Unlinking\<close>

lemma Set_empty:
  "settings_Set l pr ek e n d key '''' who = (if fault e l then (Inl (Driver l), d)
     else (Inr (), d\<lparr>app_settings := delete_where (\<lambda>s. as_Key s = key) (app_settings d)\<rparr>))"
  by (simp add: settings_Set_def)

lemma find_setting_deleted:
  "find_setting (d\<lparr>app_settings := delete_where (\<lambda>s. as_Key s = key) (app_settings d)\<rparr>) key = None"
  "find_setting d key' = None \<Longrightarrow> find_setting (d\<lparr>app_settings := delete_where (\<lambda>s. as_Key s = key) (app_settings d)\<rparr>) key' = None"
  by (auto simp: find_setting_def delete_where_def find_None_iff)

lemma store_empty_clears:
  "store_settings l pr ek e n k (map (\<lambda>k. (k, '''')) keys) who d = (Inr u, d') \<Longrightarrow>
   key \<in> set keys \<or> find_setting d key = None \<Longrightarrow> find_setting d' key = None"
  by (induction keys arbitrary: k d) (auto simp: Set_empty find_setting_deleted split: if_splits)

lemma Unlink_clears:
  "Unlink pr ek e (s, d) = (Inr u, s', d') \<Longrightarrow> s' = NewHytaleAuthService \<and> (\<forall>k \<in> set hytaleAuthKeys. find_setting d' k = None)"
  by (auto simp: Unlink_def store_empty_clears split: prod.splits sum.splits)

text \<open>An unlinked account is gone: after a successful unlinking no setting of the account is left,
  the status says so, and a session request is answered by ErrHytaleNotLinked without any
  request to the provider.\<close>

theorem unlink_forgets:
  assumes "Unlink pr ek e (s, d) = (Inr u, s', d')" and "no_faults e'"
  shows "(\<forall>k \<in> set hytaleAuthKeys. find_setting d' k = None)
     \<and> NewGameSession ep pr ek http e' nonce (s', p, d') = (Inl ErrHytaleNotLinked, s', p, d')
     \<and> (\<exists>st. Status pr ek e' s' d' = Inr st \<and> \<not> st_Linked st \<and> \<not> st_LoginPending st)"
proof -
  have s': "s' = NewHytaleAuthService" and none: "\<And>k. k \<in> set hytaleAuthKeys \<Longrightarrow> find_setting d' k = None"
    using Unlink_clears [OF assms(1)] by auto
  have "settings_Get l pr ek e' d' hytaleRefreshTokenKey = Inr ''''" for l
    using none [of hytaleRefreshTokenKey] assms(2) by (simp add: settings_Get_def hytaleAuthKeys_def no_faults_def call_def)
  then show ?thesis using none
    by (simp add: NewGameSession_def currentAccessToken_def Status_def s' NewHytaleAuthService_def)
qed

text \<open>An unlinking that fails after its first deletion: no account is linked any more, but the
  access token in memory goes on minting sessions until it expires.\<close>

lemma failed_unlink_mints:
  assumes "fault e = (\<lambda>l. l = ''Unlink.hytale_profile_uuid'')" and "ha_accessToken s \<noteq> ''''" and "now e' < ha_accessExp s"
  shows "\<exists>err d'. Unlink pr ek e (s, d) = (Inl err, s, d') \<and> find_setting d' hytaleRefreshTokenKey = None
     \<and> currentAccessToken ep pr ek http e' nonce (s, p, d') = (Inr (ha_accessToken s), s, p, d')"
  using assms by (simp add: Unlink_def hytaleAuthKeys_def Set_empty currentAccessToken_def find_setting_deleted)

text \<open>A second link whose last write fails: the profile is that of the new account, the token that
  of the old one.\<close>

lemma relink_mixes_accounts:
  assumes ok: "fault e = (\<lambda>l. l = ''PollDeviceLogin.hytale_refresh_token'')" and "gcm_correct pr" and "length ek = 32"
    and "\<And>k. length (nonces k) = nonce_size" and "hp_UUID pf \<noteq> ''''" and "ot_RefreshToken tok \<noteq> ''''"
    and "fetchProfiles ep http p (ot_AccessToken tok) = (Inr (pf # pfs), p')"
  shows "\<exists>err d'. finish_link ep pr ek http e nonces None tok (s, p, d) = (Inl err, s, p', d')
     \<and> token_of pr ek d' = token_of pr ek d \<and> settings_Get l pr ek (quiet 0) d' hytaleProfileKey = Inr (hp_UUID pf)"
proof -
  have set: "\<exists>d'. settings_Set l pr ek e (nonces k) d key v None = (Inr (), d')" if "l \<noteq> ''PollDeviceLogin.hytale_refresh_token''" for l k d key v
    using that ok assms(3) by (auto simp: settings_Set_def Encrypt_def Let_def)
  obtain d1 where d1: "settings_Set ''PollDeviceLogin.hytale_profile_uuid'' pr ek e (nonces 0) d hytaleProfileKey (hp_UUID pf) None = (Inr (), d1)"
    using set [of "''PollDeviceLogin.hytale_profile_uuid''"] by fastforce
  obtain d2 where d2: "settings_Set ''PollDeviceLogin.hytale_profiles'' pr ek e (nonces 1) d1 hytaleProfilesKey (marshal_profiles (pf # pfs)) None = (Inr (), d2)"
    using set [of "''PollDeviceLogin.hytale_profiles''"] by fastforce
  obtain d3 where d3: "settings_Set ''PollDeviceLogin.hytale_linked_at'' pr ek e (nonces 2) d2 hytaleLinkedAtKey (RFC3339 (now e)) None = (Inr (), d3)"
    using set [of "''PollDeviceLogin.hytale_linked_at''"] by fastforce
  obtain err where d4: "settings_Set ''PollDeviceLogin.hytale_refresh_token'' pr ek e (nonces 3) d3 hytaleRefreshTokenKey (ot_RefreshToken tok) None = (Inl err, d3)"
    using ok assms(3,6) by (simp add: settings_Set_def Encrypt_def)
  have "settings_Get l pr ek (quiet 0) d1 hytaleProfileKey = Inr (hp_UUID pf)"
    using assms(2,4,5) d1 by (intro settings_Set_Get [where nonce = "nonces 0" and d = d and e = e and who = None]) auto
  then have "settings_Get l pr ek (quiet 0) d3 hytaleProfileKey = Inr (hp_UUID pf)"
    using find_setting_Set [OF d2, of hytaleProfileKey] find_setting_Set [OF d3, of hytaleProfileKey] by (simp add: settings_Get_def)
  moreover have "token_of pr ek d3 = token_of pr ek d"
    using token_of_other [OF d1] token_of_other [OF d2] token_of_other [OF d3] by simp
  ultimately show ?thesis
    using d1 d2 d3 d4 assms(6,7) by (simp add: finish_link_def numeral_3_eq_3 numeral_2_eq_2)
qed

text \<open>An answer with a status that has no name and no error code: the token is nil and its field is
  read.\<close>

lemma nameless_status_panics:
  assumes "http p (refresh_request ep r) = (Inr \<lparr>rs_StatusCode = 499, rs_Body = ''''\<rparr>, p')"
    and "settings_Get ''currentAccessToken.get'' pr ek e d hytaleRefreshTokenKey = Inr r" and "r \<noteq> ''''"
  shows "fst (currentAccessToken ep pr ek http e nonce (NewHytaleAuthService, p, d)) = Inl nil_dereference"
proof -
  have "oauth_code \<lparr>rs_StatusCode = 499, rs_Body = ''''\<rparr> = ''''"
  proof -
    have "json_unmarshal '''' = None" by code_simp
    then show ?thesis by (simp add: oauth_code_def decode_struct_def StatusText_def status_texts_def read_limited_def)
  qed
  then have "tokenRequest ep http p (refresh_form r) = (Inr (None, ''''), p')"
    using assms(1) by (simp add: tokenRequest_def postForm_def refresh_request_def)
  then show ?thesis using assms(2,3) by (simp add: currentAccessToken_def NewHytaleAuthService_def)
qed

end
