(* ===== verification/Upstream.thy ===== *)
theory Upstream
  imports Http Servers
begin

text \<open>
  The services that ask others for facts: \<^verbatim>\<open>services/curseforge_service.go\<close> with the two
  handlers of \<^verbatim>\<open>handlers/mods.go\<close> that use it, \<^verbatim>\<open>services/hytale_version_service.go\<close>,
  \<^verbatim>\<open>services/update_service.go\<close> and what \<^verbatim>\<open>handlers/health.go\<close> makes of it.
  A float is kept as the text of its number.  The reader of Maven's XML is an argument.  What is cached is
  kept decoded; \<open>None\<close> is a text that cannot be decoded.
\<close>

section \<open>CurseForge\<close>

definition curseForgeAPIBase :: string where "curseForgeAPIBase = ''https://api.curseforge.com/v1''"
definition hytaleSlug :: string where "hytaleSlug = ''hytale''"

datatype cf_error = CurseForgeError int | CFOther go_error

fun cf_text :: "cf_error \<Rightarrow> string" where
  "cf_text (CurseForgeError status) =
     (if status = 401 \<or> status = 403 then ''CurseForge API key is invalid or not configured''
      else if status = 404 then ''CurseForge rejected the game ID''
      else ''CurseForge returned HTTP '' @ dec status)"
| "cf_text (CFOther err) = Error err"

record CurseForgeService =
  cf_apiKey :: string
  cf_gameID :: int
  cf_resolvedID :: int

definition NewCurseForgeService :: "string \<Rightarrow> int \<Rightarrow> CurseForgeService" where
  "NewCurseForgeService apiKey gameID = \<lparr>cf_apiKey = apiKey, cf_gameID = gameID, cf_resolvedID = 0\<rparr>"

definition SetAPIKey :: "CurseForgeService \<Rightarrow> string \<Rightarrow> CurseForgeService" where
  "SetAPIKey s key = s\<lparr>cf_apiKey := key\<rparr>"

definition HasAPIKey :: "CurseForgeService \<Rightarrow> bool" where
  "HasAPIKey s = (cf_apiKey s \<noteq> '''')"

record CFPagination =
  pg_Index :: int
  pg_PageSize :: int
  pg_ResultCount :: int
  pg_TotalCount :: int

definition no_pages :: CFPagination where
  "no_pages = \<lparr>pg_Index = 0, pg_PageSize = 0, pg_ResultCount = 0, pg_TotalCount = 0\<rparr>"

definition set_pagination :: "string \<Rightarrow> json \<Rightarrow> CFPagination \<Rightarrow> CFPagination option" where
  "set_pagination k v p =
     (if equal_fold k ''index'' then map_option (\<lambda>x. p\<lparr>pg_Index := x\<rparr>) (json_int_field v (pg_Index p))
      else if equal_fold k ''pageSize'' then map_option (\<lambda>x. p\<lparr>pg_PageSize := x\<rparr>) (json_int_field v (pg_PageSize p))
      else if equal_fold k ''resultCount'' then map_option (\<lambda>x. p\<lparr>pg_ResultCount := x\<rparr>) (json_int_field v (pg_ResultCount p))
      else if equal_fold k ''totalCount'' then map_option (\<lambda>x. p\<lparr>pg_TotalCount := x\<rparr>) (json_int_field v (pg_TotalCount p))
      else Some p)"

text \<open>A member that is a struct.\<close>

definition json_struct_field :: "(string \<Rightarrow> json \<Rightarrow> 'r \<Rightarrow> 'r option) \<Rightarrow> json \<Rightarrow> 'r \<Rightarrow> 'r option" where
  "json_struct_field setter v r = (case decode_value setter v r of (r', ok) \<Rightarrow> if ok then Some r' else None)"

subsection \<open>The id of the game\<close>

record cfGame =
  cg_ID :: int
  cg_Slug :: string

definition set_game :: "string \<Rightarrow> json \<Rightarrow> cfGame \<Rightarrow> cfGame option" where
  "set_game k v g =
     (if equal_fold k ''id'' then map_option (\<lambda>x. g\<lparr>cg_ID := x\<rparr>) (json_int_field v (cg_ID g))
      else if equal_fold k ''slug'' then map_option (\<lambda>x. g\<lparr>cg_Slug := x\<rparr>) (json_str_field v (cg_Slug g))
      else Some g)"

record cfGamesResult =
  gr_Data :: "cfGame list"
  gr_Pagination :: CFPagination

definition set_games :: "string \<Rightarrow> json \<Rightarrow> cfGamesResult \<Rightarrow> cfGamesResult option" where
  "set_games k v r =
     (if equal_fold k ''data'' then map_option (\<lambda>x. r\<lparr>gr_Data := x\<rparr>) (json_list_field set_game \<lparr>cg_ID = 0, cg_Slug = ''''\<rparr> v)
      else if equal_fold k ''pagination'' then map_option (\<lambda>x. r\<lparr>gr_Pagination := x\<rparr>) (json_struct_field set_pagination v (gr_Pagination r))
      else Some r)"

definition cf_request :: "string \<Rightarrow> string \<Rightarrow> HttpRequest" where
  "cf_request key path = \<lparr>rq_Method = ''GET'', rq_URL = curseForgeAPIBase @ path,
     rq_Header = [(''x-api-key'', key), (''Accept'', ''application/json'')], rq_Body = ''''\<rparr>"

definition gamesPageSize :: int where "gamesPageSize = 50"

definition decode_games :: "string \<Rightarrow> cfGamesResult result" where
  "decode_games s = decode_first set_games \<lparr>gr_Data = [], gr_Pagination = no_pages\<rparr> s"

definition games_page :: "'p http \<Rightarrow> string \<Rightarrow> int \<Rightarrow> 'p \<Rightarrow> (cf_error + cfGamesResult) \<times> 'p" where
  "games_page http key index p =
     (case http p (cf_request key (''/games?'' @ form_encode [(''index'', dec index), (''pageSize'', dec gamesPageSize)])) of
        (Inl err, p') \<Rightarrow> (Inl (CFOther (Wrap ''curseforge games request'' err)), p')
      | (Inr rs, p') \<Rightarrow>
          (if rs_StatusCode rs \<noteq> 200 then Inl (CurseForgeError (rs_StatusCode rs))
           else map_sum (\<lambda>err. CFOther (Wrap ''decoding games response'' err)) id (decode_games (rs_Body rs)), p'))"

text \<open>The loop over the pages; \<open>None\<close> would be a loop that never ends.\<close>

partial_function (option) games_loop :: "'p http \<Rightarrow> string \<Rightarrow> int \<Rightarrow> 'p \<Rightarrow> ((cf_error + int option) \<times> 'p) option" where
  "games_loop http key index p =
     (case games_page http key index p of
        (Inl err, p') \<Rightarrow> Some (Inl err, p')
      | (Inr res, p') \<Rightarrow>
          (case List.find (\<lambda>g. equal_fold (cg_Slug g) hytaleSlug) (gr_Data res) of
             Some g \<Rightarrow> Some (Inr (Some (cg_ID g)), p')
           | None \<Rightarrow>
               if int (length (gr_Data res)) < gamesPageSize \<or> wrap64 (index + gamesPageSize) \<ge> pg_TotalCount (gr_Pagination res)
               then Some (Inr None, p')
               else games_loop http key (wrap64 (index + gamesPageSize)) p'))"

definition resolveGameID ::
  "'p http \<Rightarrow> CurseForgeService \<Rightarrow> 'p \<Rightarrow> ((cf_error + int) \<times> CurseForgeService \<times> 'p) option" where
  "resolveGameID http s p =
     (if cf_gameID s \<noteq> 0 then Some (Inr (cf_gameID s), s, p)
      else if cf_resolvedID s \<noteq> 0 then Some (Inr (cf_resolvedID s), s, p)
      else (case games_loop http (cf_apiKey s) 0 p of None \<Rightarrow> None
        | Some (Inl err, p') \<Rightarrow> Some (Inl err, s, p')
        | Some (Inr None, p') \<Rightarrow>
            Some (Inl (CFOther (New (''CurseForge does not list a game with slug '' @ quoted hytaleSlug))), s, p')
        | Some (Inr (Some i), p') \<Rightarrow> Some (Inr i, s\<lparr>cf_resolvedID := i\<rparr>, p')))"

subsection \<open>Mods and their files\<close>

record CFAsset =
  ca_ThumbnailURL :: string
  ca_URL :: string

record CFFile =
  ff_ID :: int
  ff_DisplayName :: string
  ff_FileName :: string
  ff_DownloadURL :: string
  ff_GameVersions :: "string list"
  ff_FileDate :: string

record CFMod =
  cm_ID :: int
  cm_Name :: string
  cm_Summary :: string
  cm_DownloadCount :: string
  cm_Logo :: "CFAsset option"
  cm_WebsiteURL :: string
  cm_LatestFiles :: "CFFile list"

record CFSearchResult =
  cs_Data :: "CFMod list"
  cs_Pagination :: CFPagination

definition set_asset :: "string \<Rightarrow> json \<Rightarrow> CFAsset \<Rightarrow> CFAsset option" where
  "set_asset k v a =
     (if equal_fold k ''thumbnailUrl'' then map_option (\<lambda>x. a\<lparr>ca_ThumbnailURL := x\<rparr>) (json_str_field v (ca_ThumbnailURL a))
      else if equal_fold k ''url'' then map_option (\<lambda>x. a\<lparr>ca_URL := x\<rparr>) (json_str_field v (ca_URL a))
      else Some a)"

definition set_links :: "string \<Rightarrow> json \<Rightarrow> string \<Rightarrow> string option" where
  "set_links k v s = (if equal_fold k ''websiteUrl'' then json_str_field v s else Some s)"

fun decode_strings :: "json list \<Rightarrow> string list option" where
  "decode_strings [] = Some []"
| "decode_strings (j # js) =
     (case json_str_field j '''' of None \<Rightarrow> None | Some s \<Rightarrow> map_option (Cons s) (decode_strings js))"

definition set_file :: "string \<Rightarrow> json \<Rightarrow> CFFile \<Rightarrow> CFFile option" where
  "set_file k v f =
     (if equal_fold k ''id'' then map_option (\<lambda>x. f\<lparr>ff_ID := x\<rparr>) (json_int_field v (ff_ID f))
      else if equal_fold k ''displayName'' then map_option (\<lambda>x. f\<lparr>ff_DisplayName := x\<rparr>) (json_str_field v (ff_DisplayName f))
      else if equal_fold k ''fileName'' then map_option (\<lambda>x. f\<lparr>ff_FileName := x\<rparr>) (json_str_field v (ff_FileName f))
      else if equal_fold k ''downloadUrl'' then map_option (\<lambda>x. f\<lparr>ff_DownloadURL := x\<rparr>) (json_str_field v (ff_DownloadURL f))
      else if equal_fold k ''gameVersions''
      then map_option (\<lambda>x. f\<lparr>ff_GameVersions := x\<rparr>) (case v of JNull \<Rightarrow> Some [] | JArr js \<Rightarrow> decode_strings js | _ \<Rightarrow> None)
      else if equal_fold k ''fileDate'' then map_option (\<lambda>x. f\<lparr>ff_FileDate := x\<rparr>) (json_str_field v (ff_FileDate f))
      else Some f)"

definition empty_file :: CFFile where
  "empty_file = \<lparr>ff_ID = 0, ff_DisplayName = '''', ff_FileName = '''', ff_DownloadURL = '''', ff_GameVersions = [], ff_FileDate = ''''\<rparr>"

definition set_mod :: "string \<Rightarrow> json \<Rightarrow> CFMod \<Rightarrow> CFMod option" where
  "set_mod k v m =
     (if equal_fold k ''id'' then map_option (\<lambda>x. m\<lparr>cm_ID := x\<rparr>) (json_int_field v (cm_ID m))
      else if equal_fold k ''name'' then map_option (\<lambda>x. m\<lparr>cm_Name := x\<rparr>) (json_str_field v (cm_Name m))
      else if equal_fold k ''summary'' then map_option (\<lambda>x. m\<lparr>cm_Summary := x\<rparr>) (json_str_field v (cm_Summary m))
      else if equal_fold k ''downloadCount''
      then (case v of JNum t \<Rightarrow> Some (m\<lparr>cm_DownloadCount := t\<rparr>) | JNull \<Rightarrow> Some m | _ \<Rightarrow> None)
      else if equal_fold k ''logo''
      then map_option (\<lambda>x. m\<lparr>cm_Logo := x\<rparr>) (case v of JNull \<Rightarrow> Some None
        | _ \<Rightarrow> map_option Some (json_struct_field set_asset v
             (case cm_Logo m of None \<Rightarrow> \<lparr>ca_ThumbnailURL = '''', ca_URL = ''''\<rparr> | Some a \<Rightarrow> a)))
      else if equal_fold k ''links'' then map_option (\<lambda>x. m\<lparr>cm_WebsiteURL := x\<rparr>) (json_struct_field set_links v (cm_WebsiteURL m))
      else if equal_fold k ''latestFiles'' then map_option (\<lambda>x. m\<lparr>cm_LatestFiles := x\<rparr>) (json_list_field set_file empty_file v)
      else Some m)"

definition empty_mod :: CFMod where
  "empty_mod = \<lparr>cm_ID = 0, cm_Name = '''', cm_Summary = '''', cm_DownloadCount = ''0'', cm_Logo = None, cm_WebsiteURL = '''',
     cm_LatestFiles = []\<rparr>"

definition set_search :: "string \<Rightarrow> json \<Rightarrow> CFSearchResult \<Rightarrow> CFSearchResult option" where
  "set_search k v r =
     (if equal_fold k ''data'' then map_option (\<lambda>x. r\<lparr>cs_Data := x\<rparr>) (json_list_field set_mod empty_mod v)
      else if equal_fold k ''pagination'' then map_option (\<lambda>x. r\<lparr>cs_Pagination := x\<rparr>) (json_struct_field set_pagination v (cs_Pagination r))
      else Some r)"

text \<open>Sending a request and reading the answer, as both calls below do.\<close>

definition cf_call :: "'p http \<Rightarrow> 'p \<Rightarrow> HttpRequest \<Rightarrow> (string \<Rightarrow> 'a result) \<Rightarrow> (cf_error + 'a) \<times> 'p" where
  "cf_call http p rq decode =
     (case http p rq of
        (Inl err, p') \<Rightarrow> (Inl (CFOther (Wrap ''curseforge request'' err)), p')
      | (Inr rs, p') \<Rightarrow>
          (if rs_StatusCode rs \<noteq> 200 then Inl (CurseForgeError (rs_StatusCode rs))
           else map_sum (\<lambda>err. CFOther (Wrap ''decoding response'' err)) id (decode (rs_Body rs)), p'))"

definition SearchMods ::
  "'p http \<Rightarrow> CurseForgeService \<Rightarrow> 'p \<Rightarrow> string \<Rightarrow> int \<Rightarrow> int \<Rightarrow> ((cf_error + CFSearchResult) \<times> CurseForgeService \<times> 'p) option" where
  "SearchMods http s p query page pageSize =
     (if cf_apiKey s = '''' then Some (Inl (CurseForgeError 403), s, p)
      else (case resolveGameID http s p of None \<Rightarrow> None
        | Some (Inl err, s', p') \<Rightarrow> Some (Inl err, s', p')
        | Some (Inr gameID, s', p') \<Rightarrow>
            (case cf_call http p' (cf_request (cf_apiKey s') (''/mods/search?'' @ form_encode
                 [(''gameId'', dec gameID), (''searchFilter'', query), (''index'', dec (wrap64 (page * pageSize))), (''pageSize'', dec pageSize)]))
                 (decode_first set_search \<lparr>cs_Data = [], cs_Pagination = no_pages\<rparr>) of
               (r, p'') \<Rightarrow> Some (r, s', p''))))"

definition set_files :: "string \<Rightarrow> json \<Rightarrow> CFFile list \<Rightarrow> CFFile list option" where
  "set_files k v fs = (if equal_fold k ''data'' then json_list_field set_file empty_file v else Some fs)"

definition GetModFiles :: "'p http \<Rightarrow> CurseForgeService \<Rightarrow> 'p \<Rightarrow> int \<Rightarrow> (cf_error + CFFile list) \<times> 'p" where
  "GetModFiles http s p modID =
     cf_call http p (cf_request (cf_apiKey s) (''/mods/'' @ dec modID @ ''/files'')) (decode_first set_files [])"

subsection \<open>Handlers\<close>

fun cfErrStatus :: "cf_error \<Rightarrow> nat" where
  "cfErrStatus (CurseForgeError status) = (if status = 401 \<or> status = 403 then 403 else if status = 404 then 404 else 502)"
| "cfErrStatus (CFOther err) = 502"

text \<open>\<^verbatim>\<open>n, _ := strconv.Atoi(s)\<close>: zero for what is no number, the nearest value for a number
  that does not fit.\<close>

definition atoi_lax :: "string \<Rightarrow> int" where
  "atoi_lax s =
     (let (sgn, ds) = (case s of [] \<Rightarrow> (1, [])
         | c # cs \<Rightarrow> if c = CHR ''-'' then (-1, cs) else if c = CHR ''+'' then (1, cs) else (1, s))
      in if ds = [] \<or> \<not> list_all is_digit ds then 0 else max min_int (min max_int (sgn * digits_value 0 ds)))"

definition h_SearchMods ::
  "'p http \<Rightarrow> CurseForgeService \<Rightarrow> 'p \<Rightarrow> string \<Rightarrow> string option \<Rightarrow> string option
     \<Rightarrow> (CFSearchResult response \<times> CurseForgeService \<times> 'p) option" where
  "h_SearchMods http s p q pageParam sizeParam =
     (let page = atoi_lax (case pageParam of None \<Rightarrow> ''0'' | Some x \<Rightarrow> x);
          size0 = atoi_lax (case sizeParam of None \<Rightarrow> ''20'' | Some x \<Rightarrow> x);
          pageSize = (if size0 < 1 \<or> size0 > 50 then 20 else size0)
      in case SearchMods http s p q page pageSize of None \<Rightarrow> None
         | Some (Inl err, st) \<Rightarrow> Some (Refuse (cfErrStatus err) (cf_text err), st)
         | Some (Inr res, st) \<Rightarrow> Some (Reply 200 res, st))"

definition h_GetModFiles :: "'p http \<Rightarrow> CurseForgeService \<Rightarrow> 'p \<Rightarrow> string \<Rightarrow> CFFile list response \<times> 'p" where
  "h_GetModFiles http s p param =
     (case atoi param of None \<Rightarrow> (Refuse 400 ''invalid mod_id'', p)
      | Some modID \<Rightarrow> (case GetModFiles http s p modID of
          (Inl err, p') \<Rightarrow> (Refuse (cfErrStatus err) (cf_text err), p')
        | (Inr fs, p') \<Rightarrow> (Reply 200 fs, p')))"

section \<open>Versions of the game\<close>

definition hytaleVersionsCacheTTL :: int where "hytaleVersionsCacheTTL = 6 * hour"

record HytalePatchline =
  hv_Patchline :: string
  hv_Latest :: string
  hv_UpdatedAt :: string

record HytaleVersions =
  hv_Patchlines :: "HytalePatchline list"
  hv_CheckedAt :: time

record mavenMetadata =
  mm_Latest :: string
  mm_Release :: string
  mm_LastUpdated :: string

text \<open>\<^verbatim>\<open>time.Parse("20060102150405", s)\<close> and its RFC 3339 form, which has the same digits; a
  fraction of a second may follow and is dropped.\<close>

definition days_in :: "int \<Rightarrow> int \<Rightarrow> int" where
  "days_in y m = (if m = 2 then (if y mod 4 = 0 \<and> (y mod 100 \<noteq> 0 \<or> y mod 400 = 0) then 29 else 28)
     else if m \<in> {4, 6, 9, 11} then 30 else 31)"

definition maven_date :: "string \<Rightarrow> string option" where
  "maven_date s =
     (let num = (\<lambda>i n. digits_value 0 (take n (drop i s))); part = (\<lambda>i n. take n (drop i s))
      in if length s < 14 \<or> \<not> list_all is_digit (take 14 s)
            \<or> \<not> (case drop 14 s of [] \<Rightarrow> True | c # cs \<Rightarrow> c \<in> {CHR ''.'', CHR '',''} \<and> cs \<noteq> [] \<and> list_all is_digit cs)
            \<or> num 4 2 < 1 \<or> num 4 2 > 12 \<or> num 6 2 < 1 \<or> num 6 2 > days_in (num 0 4) (num 4 2)
            \<or> num 8 2 > 23 \<or> num 10 2 > 59 \<or> num 12 2 > 59
         then None
         else Some (part 0 4 @ ''-'' @ part 4 2 @ ''-'' @ part 6 2 @ ''T'' @ part 8 2 @ '':'' @ part 10 2 @ '':'' @ part 12 2 @ ''Z''))"

definition maven_request :: "string \<Rightarrow> string \<Rightarrow> HttpRequest" where
  "maven_request baseURL patchline = \<lparr>rq_Method = ''GET'',
     rq_URL = baseURL @ ''/'' @ patchline @ ''/com/hypixel/hytale/Server/maven-metadata.xml'', rq_Header = [], rq_Body = ''''\<rparr>"

definition fetchLatest ::
  "(string \<Rightarrow> mavenMetadata result) \<Rightarrow> 'p http \<Rightarrow> string \<Rightarrow> 'p \<Rightarrow> string \<Rightarrow> (string \<times> string) result \<times> 'p" where
  "fetchLatest xml http baseURL p patchline =
     (case http p (maven_request baseURL patchline) of
        (Inl err, p') \<Rightarrow> (Inl err, p')
      | (Inr rs, p') \<Rightarrow>
          (if rs_StatusCode rs \<noteq> 200 then Inl (New (''maven returned '' @ dec (rs_StatusCode rs)))
           else and_then (wrapping ''parsing maven metadata'' (xml (read_limited (rs_Body rs)))) (\<lambda>meta.
             let latest = (if mm_Latest meta = '''' then mm_Release meta else mm_Latest meta)
             in if latest = '''' then Inl (New ''maven metadata has no latest version'')
                else Inr (latest, case maven_date (mm_LastUpdated meta) of None \<Rightarrow> '''' | Some t \<Rightarrow> t)), p'))"

text \<open>One pass over the patchlines: the entries, whether all were answered, and the other side.\<close>

fun fetch_all ::
  "(string \<Rightarrow> mavenMetadata result) \<Rightarrow> 'p http \<Rightarrow> string \<Rightarrow> 'p \<Rightarrow> string list \<Rightarrow> HytalePatchline list \<times> bool \<times> 'p" where
  "fetch_all xml http baseURL p [] = ([], True, p)"
| "fetch_all xml http baseURL p (l # ls) =
     (case fetchLatest xml http baseURL p l of (r, p1) \<Rightarrow>
        (case fetch_all xml http baseURL p1 ls of (es, full, p2) \<Rightarrow>
           (case r of
              Inl _ \<Rightarrow> (\<lparr>hv_Patchline = l, hv_Latest = '''', hv_UpdatedAt = ''''\<rparr> # es, False, p2)
            | Inr (latest, updated) \<Rightarrow> (\<lparr>hv_Patchline = l, hv_Latest = latest, hv_UpdatedAt = updated\<rparr> # es, full, p2))))"

definition Versions ::
  "(string \<Rightarrow> mavenMetadata result) \<Rightarrow> 'p http \<Rightarrow> string \<Rightarrow> env \<Rightarrow> HytaleVersions option cache_entry \<times> 'p
     \<Rightarrow> HytaleVersions \<times> HytaleVersions option cache_entry \<times> 'p" where
  "Versions xml http baseURL e = (\<lambda>(cache, p).
     case cache_get e ''versions.get'' cache of
       Some (Some v) \<Rightarrow> (v, cache, p)
     | _ \<Rightarrow>
         (case fetch_all xml http baseURL p hytalePatchlines of (es, full, p') \<Rightarrow>
            (let out = \<lparr>hv_Patchlines = es, hv_CheckedAt = now e\<rparr>
             in (out, if full then cache_set e ''versions.set'' (Some out) hytaleVersionsCacheTTL cache else cache, p'))))"

section \<open>Updates of the panel\<close>

definition updateCacheTTL :: int where "updateCacheTTL = 24 * hour"

record UpdateInfo =
  ui_CurrentVersion :: string
  ui_LatestVersion :: string
  ui_HasUpdate :: bool
  ui_ReleaseURL :: string
  ui_PublishedAt :: string

record githubRelease =
  gh_TagName :: string
  gh_HTMLURL :: string
  gh_PublishedAt :: string

definition set_release :: "string \<Rightarrow> json \<Rightarrow> githubRelease \<Rightarrow> githubRelease option" where
  "set_release k v r =
     (if equal_fold k ''tag_name'' then map_option (\<lambda>x. r\<lparr>gh_TagName := x\<rparr>) (json_str_field v (gh_TagName r))
      else if equal_fold k ''html_url'' then map_option (\<lambda>x. r\<lparr>gh_HTMLURL := x\<rparr>) (json_str_field v (gh_HTMLURL r))
      else if equal_fold k ''published_at'' then map_option (\<lambda>x. r\<lparr>gh_PublishedAt := x\<rparr>) (json_str_field v (gh_PublishedAt r))
      else Some r)"

definition github_request :: HttpRequest where
  "github_request = \<lparr>rq_Method = ''GET'', rq_URL = ''https://api.github.com/repos/BitaceS/talepanel/releases/latest'',
     rq_Header = [(''Accept'', ''application/vnd.github+json''), (''X-GitHub-Api-Version'', ''2022-11-28'')], rq_Body = ''''\<rparr>"

definition fetchFromGitHub :: "'p http \<Rightarrow> string \<Rightarrow> 'p \<Rightarrow> UpdateInfo result \<times> 'p" where
  "fetchFromGitHub http current p =
     (case http p github_request of
        (Inl err, p') \<Rightarrow> (Inl err, p')
      | (Inr rs, p') \<Rightarrow>
          (if rs_StatusCode rs \<noteq> 200 then Inl (New (''github API returned '' @ dec (rs_StatusCode rs)))
           else and_then (decoded (decode_struct set_release \<lparr>gh_TagName = '''', gh_HTMLURL = '''', gh_PublishedAt = ''''\<rparr> (rs_Body rs)))
             (\<lambda>rel. Inr \<lparr>ui_CurrentVersion = current, ui_LatestVersion = gh_TagName rel,
                ui_HasUpdate = (gh_TagName rel \<noteq> '''' \<and> gh_TagName rel \<noteq> current \<and> current \<noteq> ''dev''),
                ui_ReleaseURL = gh_HTMLURL rel, ui_PublishedAt = gh_PublishedAt rel\<rparr>), p'))"

definition CheckForUpdate ::
  "'p http \<Rightarrow> string \<Rightarrow> env \<Rightarrow> UpdateInfo option cache_entry \<times> 'p \<Rightarrow> UpdateInfo \<times> UpdateInfo option cache_entry \<times> 'p" where
  "CheckForUpdate http current e = (\<lambda>(cache, p).
     case cache_get e ''update.get'' cache of
       Some (Some info) \<Rightarrow> (info, cache, p)
     | _ \<Rightarrow>
         (case fetchFromGitHub http current p of
            (Inl _, p') \<Rightarrow> (\<lparr>ui_CurrentVersion = current, ui_LatestVersion = current, ui_HasUpdate = False,
               ui_ReleaseURL = '''', ui_PublishedAt = ''''\<rparr>, cache, p')
          | (Inr info, p') \<Rightarrow> (info, cache_set e ''update.set'' (Some info) updateCacheTTL cache, p')))"

section \<open>Health\<close>

record public_config =
  pc_deployment_profile :: string
  pc_version :: string
  pc_update :: "UpdateInfo option"

definition PublicConfig ::
  "string \<Rightarrow> string \<Rightarrow> bool \<Rightarrow> 'p http \<Rightarrow> env \<Rightarrow> UpdateInfo option cache_entry \<times> 'p
     \<Rightarrow> public_config response \<times> UpdateInfo option cache_entry \<times> 'p" where
  "PublicConfig profile version hasUpdateSvc http e st =
     (if hasUpdateSvc
      then (case CheckForUpdate http version e st of (info, st') \<Rightarrow>
        (Reply 200 \<lparr>pc_deployment_profile = profile, pc_version = version, pc_update = Some info\<rparr>, st'))
      else (Reply 200 \<lparr>pc_deployment_profile = profile, pc_version = version, pc_update = None\<rparr>, st))"

definition Liveness :: "env \<Rightarrow> (string \<times> string) response" where
  "Liveness e = Reply 200 (''ok'', RFC3339 (now e))"

text \<open>\<^verbatim>\<open>needs_setup\<close> and \<^verbatim>\<open>setup_code_required\<close>; both answers carry them.\<close>

definition SetupStatus :: "env \<Rightarrow> db \<Rightarrow> bool \<Rightarrow> nat \<times> bool \<times> bool" where
  "SetupStatus e d setupCodeRequired =
     (case call e ''SetupStatus'' (length (users d)) of
        Inl _ \<Rightarrow> (500, False, setupCodeRequired) | Inr n \<Rightarrow> (200, n = 0, setupCodeRequired))"

definition Readiness :: "env \<Rightarrow> string response" where
  "Readiness e = (if fault e ''db.Ping'' \<or> fault e ''redis.Ping'' then Refuse 503 ''degraded'' else Reply 200 ''ok'')"

section \<open>The search for the game ends\<close>

definition bounded_catalogue :: "int \<Rightarrow> 'p http \<Rightarrow> bool" where
  "bounded_catalogue N http = (\<forall>p rq. case http p rq of (Inl _, _) \<Rightarrow> True
     | (Inr rs, _) \<Rightarrow> (case decode_games (rs_Body rs) of Inl _ \<Rightarrow> True | Inr res \<Rightarrow> pg_TotalCount (gr_Pagination res) \<le> N))"

lemma games_page_total:
  assumes "bounded_catalogue N http"
    and "games_page http key index p = (Inr res, p')"
  shows "pg_TotalCount (gr_Pagination res) \<le> N"
proof -
  let ?rq = "cf_request key (''/games?'' @ form_encode [(''index'', dec index), (''pageSize'', dec gamesPageSize)])"
  obtain r q where h: "http p ?rq = (r, q)" by fastforce
  show ?thesis
  proof (cases r)
    case (Inl err)
    then show ?thesis using assms(2) h by (simp add: games_page_def)
  next
    case (Inr rs)
    have "case http p ?rq of (Inl _, _) \<Rightarrow> True
        | (Inr rs, _) \<Rightarrow> (case decode_games (rs_Body rs) of Inl _ \<Rightarrow> True | Inr res \<Rightarrow> pg_TotalCount (gr_Pagination res) \<le> N)"
      using assms(1) unfolding bounded_catalogue_def by (elim allE)
    with Inr show ?thesis using assms(2) h
      by (cases "decode_games (rs_Body rs)") (auto simp: games_page_def split: if_splits)
  qed
qed

lemma games_loop_ends:
  assumes bound: "bounded_catalogue N http"
    and "N \<le> max_int - 50" and "0 \<le> index"
  shows "index \<le> max 0 N \<Longrightarrow> \<exists>x. games_loop http key index p = Some x"
  using assms(3)
proof (induction "nat (N - index)" arbitrary: index p rule: less_induct)
  case less
  obtain r p' where page: "games_page http key index p = (r, p')" by fastforce
  have wrap: "wrap64 (index + gamesPageSize) = index + 50"
    using less.prems assms(2) by (simp add: wrap64_id gamesPageSize_def max_int_def min_int_def)
  show ?case
  proof (cases r)
    case (Inl err)
    then show ?thesis by (simp add: games_loop.simps page)
  next
    case (Inr res)
    have le: "pg_TotalCount (gr_Pagination res) \<le> N" using games_page_total [OF bound] page Inr by blast
    show ?thesis
    proof (cases "index + 50 < N")
      case True
      then have "\<exists>x. games_loop http key (index + 50) p' = Some x"
        using less.prems by (intro less.hyps) auto
      then show ?thesis unfolding games_loop.simps [of http key index p] page Inr
        by (auto simp: wrap split: option.splits)
    next
      case False
      then show ?thesis using le unfolding games_loop.simps [of http key index p] page Inr
        by (auto simp: wrap split: option.splits)
    qed
  qed
qed

text \<open>Finding the id of the game ends, and its answer is kept.  When no page of CurseForge's
  catalogue claims a total of more than \<open>N\<close> games, the walk over the pages ends with an answer or an
  error, whatever the pages hold; and an id that was found is given to every later caller without
  another request.\<close>

theorem game_id_resolved:
  assumes "bounded_catalogue N http"
    and "N \<le> max_int - 50"
  shows "\<exists>r s' p'. resolveGameID http s p = Some (r, s', p')
     \<and> (\<forall>i q. r = Inr i \<and> i \<noteq> 0 \<longrightarrow> resolveGameID http s' q = Some (Inr i, s', q))"
proof -
  obtain r p' where loop: "games_loop http (cf_apiKey s) 0 p = Some (r, p')"
    using games_loop_ends [OF assms order_refl, of "cf_apiKey s" p] by auto
  show ?thesis
    by (cases r) (auto simp: resolveGameID_def loop split: option.splits)
qed

definition ex_page :: string where
  "ex_page = json_text (JObj [(''data'', JArr [JObj [(''id'', JNum ''70216''), (''slug'', JStr ''Hytale'')]]),
     (''pagination'', JObj [(''totalCount'', JNum ''1'')])])"

definition ex_catalogue :: "nat http" where
  "ex_catalogue n rq = (Inr \<lparr>rs_StatusCode = 200, rs_Body = ex_page\<rparr>, Suc n)"

lemma ex_page_decoded:
  "decode_games ex_page = Inr \<lparr>gr_Data = [\<lparr>cg_ID = 70216, cg_Slug = ''Hytale''\<rparr>], gr_Pagination = no_pages\<lparr>pg_TotalCount := 1\<rparr>\<rparr>"
  unfolding ex_page_def by code_simp

lemma ex_catalogue_bounded: "bounded_catalogue 1 ex_catalogue"
  by (simp add: bounded_catalogue_def ex_catalogue_def ex_page_decoded)

text \<open>The walk in this catalogue takes one request, and none the next time.\<close>

theorem game_id_resolved_witness:
  "\<exists>r s' p'. resolveGameID ex_catalogue (NewCurseForgeService ''key'' 0) 0 = Some (r, s', p') \<and> r = Inr 70216 \<and> p' = 1
     \<and> resolveGameID ex_catalogue s' p' = Some (Inr 70216, s', p')"
proof -
  have "\<exists>r s' p'. resolveGameID ex_catalogue (NewCurseForgeService ''key'' 0) 0 = Some (r, s', p')
     \<and> (\<forall>i q. r = Inr i \<and> i \<noteq> 0 \<longrightarrow> resolveGameID ex_catalogue s' q = Some (Inr i, s', q))"
    by (rule game_id_resolved [where N = 1]) (simp_all add: ex_catalogue_bounded max_int_def)
  moreover have "games_loop ex_catalogue ''key'' 0 0 = Some (Inr (Some 70216), 1)"
  proof -
    have "equal_fold ''Hytale'' hytaleSlug" by code_simp
    then show ?thesis by (subst games_loop.simps) (simp add: games_page_def ex_page_decoded ex_catalogue_def)
  qed
  ultimately show ?thesis
    by (auto simp: resolveGameID_def NewCurseForgeService_def)
qed

section \<open>Only whole answers are cached\<close>

definition whole :: "HytaleVersions \<Rightarrow> bool" where
  "whole v = (map hv_Patchline (hv_Patchlines v) = hytalePatchlines \<and> list_all (\<lambda>l. hv_Latest l \<noteq> '''') (hv_Patchlines v))"

definition cache_whole :: "HytaleVersions option cache_entry \<Rightarrow> bool" where
  "cache_whole c = (case c of Some (Some v, _) \<Rightarrow> whole v | _ \<Rightarrow> True)"

lemma fetchLatest_nonempty: "fetchLatest xml http b p l = (Inr (latest, t), p') \<Longrightarrow> latest \<noteq> ''''"
  by (auto simp: fetchLatest_def Let_def and_then_Inr split: prod.splits sum.splits if_splits)

lemma fetch_all_lines:
  "fetch_all xml http b p ls = (es, full, p') \<Longrightarrow>
   map hv_Patchline es = ls \<and> (full \<longrightarrow> list_all (\<lambda>l. hv_Latest l \<noteq> '''') es)"
  by (induction ls arbitrary: p es full p')
    (auto split: prod.splits sum.splits dest: fetchLatest_nonempty)

text \<open>Every answer lists both patchlines, in order, also when Maven cannot be reached; what is
  cached has a version for each.\<close>

theorem versions_listed:
  assumes "cache_whole cache" and "Versions xml http baseURL e (cache, p) = (v, cache', p')"
  shows "map hv_Patchline (hv_Patchlines v) = hytalePatchlines \<and> cache_whole cache'"
proof (cases "\<exists>w. cache_get e ''versions.get'' cache = Some (Some w)")
  case True
  then show ?thesis using assms
    by (auto simp: Versions_def cache_get_def cache_whole_def whole_def split: option.splits if_splits)
next
  case False
  obtain es full q where fa: "fetch_all xml http baseURL p hytalePatchlines = (es, full, q)" by (metis prod.exhaust)
  have "v = \<lparr>hv_Patchlines = es, hv_CheckedAt = now e\<rparr>"
      "cache' = (if full then cache_set e ''versions.set'' (Some v) hytaleVersionsCacheTTL cache else cache)"
    using False assms(2) by (auto simp: Versions_def fa Let_def split: option.splits)
  then show ?thesis using fetch_all_lines [OF fa] assms(1) by (auto simp: cache_whole_def cache_set_def whole_def)
qed

text \<open>After an upgrade of the panel the cached answer of the old version is given for up to a day:
  it names the old version as the running one and offers the version that runs.\<close>

lemma stale_update_offered:
  "CheckForUpdate http ''v2'' (quiet 1) (Some (Some \<lparr>ui_CurrentVersion = ''v1'', ui_LatestVersion = ''v2'', ui_HasUpdate = True,
       ui_ReleaseURL = '''', ui_PublishedAt = ''''\<rparr>, updateCacheTTL), p)
   = (\<lparr>ui_CurrentVersion = ''v1'', ui_LatestVersion = ''v2'', ui_HasUpdate = True, ui_ReleaseURL = '''', ui_PublishedAt = ''''\<rparr>,
      Some (Some \<lparr>ui_CurrentVersion = ''v1'', ui_LatestVersion = ''v2'', ui_HasUpdate = True, ui_ReleaseURL = '''', ui_PublishedAt = ''''\<rparr>,
        updateCacheTTL), p)"
  by (simp add: CheckForUpdate_def cache_get_def updateCacheTTL_def hour_def minute_def second_def)

end
