(* ===== verification/AccountHandlers.thy ===== *)
theory AccountHandlers
  imports Invitations Nodes
begin

text \<open>
  The rest of what a user or an administrator does to accounts: profiles and notification
  preferences (\<^verbatim>\<open>services/profile_service.go\<close>, \<^verbatim>\<open>handlers/profile.go\<close>), the requests
  around invitations (\<^verbatim>\<open>handlers/invitations.go\<close>), and the requests of
  \<^verbatim>\<open>handlers/admin.go\<close> that set permissions and the status of a node.  The profile columns of
  \<^verbatim>\<open>users\<close> are rows of their own; a user without one has the defaults of the table.
\<close>

section \<open>Profiles\<close>

record UpdateProfileRequest =
  pr_DisplayName :: "string option"
  pr_AvatarURL :: "string option"
  pr_Language :: "string option"
  pr_Timezone :: "string option"

definition profile_of :: "db \<Rightarrow> uuid \<Rightarrow> Profile" where
  "profile_of d userID = (case List.find (\<lambda>p. pf_UserID p = userID) (profiles d) of
     Some p \<Rightarrow> p
   | None \<Rightarrow> \<lparr>pf_UserID = userID, pf_DisplayName = None, pf_AvatarURL = None, pf_Language = Some ''en'', pf_Timezone = Some ''UTC''\<rparr>)"

definition put_profile :: "db \<Rightarrow> Profile \<Rightarrow> db" where
  "put_profile d p = d\<lparr>profiles := p # delete_where (\<lambda>q. pf_UserID q = pf_UserID p) (profiles d)\<rparr>"

text \<open>What the request returns: the user without the TOTP secret, which is not selected, and the
  profile with the defaults for \<^verbatim>\<open>NULL\<close>.\<close>

definition GetProfile :: "env \<Rightarrow> db \<Rightarrow> uuid \<Rightarrow> (User \<times> Profile) result" where
  "GetProfile e d userID =
     (case call e ''GetProfile'' (find_user d userID) of
        Inl err \<Rightarrow> Inl (Wrap ''fetching profile'' err)
      | Inr None \<Rightarrow> Inl (Wrap ''fetching profile'' ErrNoRows)
      | Inr (Some u) \<Rightarrow>
          (let p = profile_of d userID
           in Inr (u\<lparr>u_TOTPSecret := ''''\<rparr>,
                p\<lparr>pf_Language := Some (case pf_Language p of None \<Rightarrow> ''en'' | Some l \<Rightarrow> l),
                  pf_Timezone := Some (case pf_Timezone p of None \<Rightarrow> ''UTC'' | Some t \<Rightarrow> t)\<rparr>)))"

definition or_else :: "'a option \<Rightarrow> 'a option \<Rightarrow> 'a option" where
  "or_else v old = (case v of None \<Rightarrow> old | Some x \<Rightarrow> Some x)"

definition has_nul :: "string option \<Rightarrow> bool" where
  "has_nul v = (case v of None \<Rightarrow> False | Some s \<Rightarrow> CHR 0x00 \<in> set s)"

text \<open>PostgreSQL refuses a zero byte in a text.\<close>

definition UpdateProfile :: "env \<Rightarrow> db \<Rightarrow> uuid \<Rightarrow> UpdateProfileRequest \<Rightarrow> (User \<times> Profile) result \<times> db" where
  "UpdateProfile e d userID req =
     (if pr_DisplayName req = None \<and> pr_AvatarURL req = None \<and> pr_Language req = None \<and> pr_Timezone req = None
      then (Inl (New ''no fields to update''), d)
      else if fault e ''UpdateProfile'' \<or> has_nul (pr_DisplayName req) \<or> has_nul (pr_AvatarURL req) \<or> has_nul (pr_Language req)
              \<or> has_nul (pr_Timezone req)
      then (Inl (Wrap ''updating profile'' (Driver ''UpdateProfile'')), d)
      else (let d' = (if find_user d userID = None then d
                      else put_profile d (let p = profile_of d userID
                        in p\<lparr>pf_DisplayName := or_else (pr_DisplayName req) (pf_DisplayName p),
                             pf_AvatarURL := or_else (pr_AvatarURL req) (pf_AvatarURL p),
                             pf_Language := or_else (pr_Language req) (pf_Language p),
                             pf_Timezone := or_else (pr_Timezone req) (pf_Timezone p)\<rparr>))
            in (GetProfile e d' userID, d')))"

definition h_GetProfile :: "env \<Rightarrow> db \<Rightarrow> User \<Rightarrow> (User \<times> Profile) response" where
  "h_GetProfile e d user =
     (case GetProfile e d (u_ID user) of Inl _ \<Rightarrow> Refuse 500 ''could not fetch profile'' | Inr p \<Rightarrow> Reply 200 p)"

definition h_UpdateProfile :: "env \<Rightarrow> db \<Rightarrow> User \<Rightarrow> UpdateProfileRequest result \<Rightarrow> (User \<times> Profile) response \<times> db" where
  "h_UpdateProfile e d user body =
     (case body of Inl err \<Rightarrow> (Refuse 400 (Error err), d)
      | Inr req \<Rightarrow> (case UpdateProfile e d (u_ID user) req of
          (Inl err, d') \<Rightarrow> (Refuse 400 (Error err), d') | (Inr p, d') \<Rightarrow> (Reply 200 p, d')))"

section \<open>Notification preferences\<close>

definition GetNotificationPrefs :: "(string \<Rightarrow> nat) \<Rightarrow> env \<Rightarrow> db \<Rightarrow> uuid \<Rightarrow> NotificationPref list result" where
  "GetNotificationPrefs collation e d userID =
     (case call e ''GetNotificationPrefs''
         (sort_key (\<lambda>p. collation (np_AlertType p)) (filter (\<lambda>p. np_UserID p = userID) (notification_prefs d))) of
        Inl err \<Rightarrow> Inl (Wrap ''querying notification prefs'' err) | Inr ps \<Rightarrow> Inr ps)"

text \<open>The upsert, on the unique pair of user and alert type.\<close>

definition SetNotificationPref :: "env \<Rightarrow> db \<Rightarrow> uuid \<Rightarrow> string \<Rightarrow> bool \<Rightarrow> bool \<Rightarrow> bool \<Rightarrow> unit result \<times> db" where
  "SetNotificationPref e d userID alertType email discord telegram =
     (let p = (\<lambda>n. np_UserID n = userID \<and> np_AlertType n = alertType);
          row = \<lparr>np_UserID = userID, np_AlertType = alertType, np_Email = email, np_Discord = discord, np_Telegram = telegram\<rparr>
      in if fault e ''SetNotificationPref'' \<or> find_user d userID = None \<or> CHR 0x00 \<in> set alertType
         then (Inl (Wrap ''setting notification pref'' (Driver ''SetNotificationPref'')), d)
         else (Inr (), d\<lparr>notification_prefs :=
           (if list_ex p (notification_prefs d) then update_where p (\<lambda>_. row) (notification_prefs d)
            else notification_prefs d @ [row])\<rparr>))"

definition h_GetNotificationPrefs :: "(string \<Rightarrow> nat) \<Rightarrow> env \<Rightarrow> db \<Rightarrow> User \<Rightarrow> NotificationPref list response" where
  "h_GetNotificationPrefs collation e d user =
     (case GetNotificationPrefs collation e d (u_ID user) of
        Inl _ \<Rightarrow> Refuse 500 ''could not fetch notification preferences'' | Inr ps \<Rightarrow> Reply 200 ps)"

text \<open>The body as bound: the alert type, which is required, and the three switches.\<close>

definition h_SetNotificationPrefs :: "env \<Rightarrow> db \<Rightarrow> User \<Rightarrow> (string \<times> bool \<times> bool \<times> bool) result \<Rightarrow> string response \<times> db" where
  "h_SetNotificationPrefs e d user body =
     (case body of Inl err \<Rightarrow> (Refuse 400 (Error err), d)
      | Inr (alertType, email, discord, telegram) \<Rightarrow>
          if alertType = '''' then (Refuse 400 ''alert_type is required'', d)
          else (case SetNotificationPref e d (u_ID user) alertType email discord telegram of
              (Inl _, d') \<Rightarrow> (Refuse 500 ''could not save notification preference'', d')
            | (Inr _, d') \<Rightarrow> (Reply 200 ''notification preference saved'', d')))"

section \<open>Invitations\<close>

definition h_CreateInvitation ::
  "env \<Rightarrow> uuid \<Rightarrow> string \<Rightarrow> db \<Rightarrow> User \<Rightarrow> uuid option \<Rightarrow> (string \<times> string) result \<Rightarrow> ServerInvitation response \<times> db" where
  "h_CreateInvitation e newID token d user param body =
     (case param of None \<Rightarrow> (Refuse 400 ''invalid ID format'', d)
      | Some serverID \<Rightarrow> (case body of Inl err \<Rightarrow> (Refuse 400 (Error err), d)
      | Inr (email, role) \<Rightarrow> (case CreateInvitation e newID token d serverID user email role of
          (Inl err, d') \<Rightarrow>
            (if errors_is err ErrInvalidMemberRole then Refuse 400 (Error err)
             else if errors_is err ErrInvitationExceedsInviter then Refuse 403 (Error err)
             else Refuse 500 ''could not create invitation'', d')
        | (Inr invt, d') \<Rightarrow> (Reply 201 invt, d'))))"

definition h_ListInvitations :: "env \<Rightarrow> db \<Rightarrow> uuid option \<Rightarrow> ServerInvitation list response" where
  "h_ListInvitations e d param =
     (case param of None \<Rightarrow> Refuse 400 ''invalid ID format''
      | Some serverID \<Rightarrow> (case ListInvitations e d serverID of
          Inl _ \<Rightarrow> Refuse 500 ''could not list invitations'' | Inr is \<Rightarrow> Reply 200 is))"

definition h_RevokeInvitation :: "env \<Rightarrow> db \<Rightarrow> uuid option \<Rightarrow> uuid option \<Rightarrow> string response \<times> db" where
  "h_RevokeInvitation e d param iparam =
     (case param of None \<Rightarrow> (Refuse 400 ''invalid ID format'', d)
      | Some serverID \<Rightarrow> (case iparam of None \<Rightarrow> (Refuse 400 ''invalid ID format'', d)
      | Some invID \<Rightarrow> (case RevokeInvitation e d serverID invID of
          (Inl err, d') \<Rightarrow>
            (if errors_is err ErrInvitationNotFound then Refuse 404 ''invitation not found''
             else Refuse 500 ''could not revoke invitation'', d')
        | (Inr _, d') \<Rightarrow> (Reply 200 ''invitation revoked'', d'))))"

definition accept_refusal :: "go_error \<Rightarrow> 'a response" where
  "accept_refusal err =
     (if errors_is err ErrInvitationNotFound then Refuse 404 ''invitation not found''
      else if errors_is err ErrInvitationForbidden then Refuse 403 ''invitation was issued to a different account''
      else if errors_is err ErrInvitationExpired then Refuse 410 ''invitation has expired''
      else if errors_is err ErrInvitationUsed then Refuse 409 ''invitation already used or revoked''
      else Refuse 500 ''could not accept invitation'')"

definition h_AcceptInvitation :: "env \<Rightarrow> db \<Rightarrow> User \<Rightarrow> string \<Rightarrow> string response \<times> db" where
  "h_AcceptInvitation e d user token =
     (case AcceptInvitation e d token (u_ID user) (u_Email user) of
        (Inl err, d') \<Rightarrow> (accept_refusal err, d')
      | (Inr _, d') \<Rightarrow> (Reply 200 ''invitation accepted'', d'))"

definition h_DeclineInvitation :: "env \<Rightarrow> db \<Rightarrow> string \<Rightarrow> string response \<times> db" where
  "h_DeclineInvitation e d token =
     (case DeclineInvitation e d token of
        (Inl err, d') \<Rightarrow>
          (if errors_is err ErrInvitationNotFound then Refuse 404 ''invitation not found''
           else Refuse 500 ''could not decline invitation'', d')
      | (Inr _, d') \<Rightarrow> (Reply 200 ''invitation declined'', d'))"

definition h_ListMyInvitations :: "env \<Rightarrow> db \<Rightarrow> User \<Rightarrow> ServerInvitation list response" where
  "h_ListMyInvitations e d user =
     (case ListMyInvitations e d (u_Email user) of Inl _ \<Rightarrow> Refuse 500 ''could not list invitations'' | Inr is \<Rightarrow> Reply 200 is)"

section \<open>Administration\<close>

definition h_UpdateNodeStatus :: "env \<Rightarrow> db \<Rightarrow> uuid option \<Rightarrow> string result \<Rightarrow> string response \<times> db" where
  "h_UpdateNodeStatus e d param body =
     (case param of None \<Rightarrow> (Refuse 400 ''invalid ID format'', d)
      | Some nodeID \<Rightarrow> (case body of Inl err \<Rightarrow> (Refuse 400 (Error err), d)
      | Inr status \<Rightarrow>
          if status \<notin> {''online'', ''offline'', ''draining''}
          then (Refuse 400 ''invalid status; must be online, offline, or draining'', d)
          else (case SetNodeStatus e d nodeID status of
              (Inl err, d') \<Rightarrow> (Refuse 400 (Error err), d')
            | (Inr _, d') \<Rightarrow> (Reply 200 ''node status updated'', d'))))"

definition h_GetUserPermissions :: "(string \<Rightarrow> nat) \<Rightarrow> env \<Rightarrow> db \<Rightarrow> uuid option \<Rightarrow> UserPermission list response" where
  "h_GetUserPermissions rank e d param =
     (case param of None \<Rightarrow> Refuse 400 ''invalid ID format''
      | Some targetID \<Rightarrow> (case GetUserPermissions rank e d targetID of
          Inl _ \<Rightarrow> Refuse 500 ''could not fetch permissions'' | Inr ps \<Rightarrow> Reply 200 ps))"

text \<open>The loop over the permissions of the request; each is a statement of its own.  (The tags of the
  elements are not checked: the list has no \<^verbatim>\<open>dive\<close>.)\<close>

fun set_permissions :: "(nat \<Rightarrow> env) \<Rightarrow> (nat \<Rightarrow> uuid) \<Rightarrow> nat \<Rightarrow> uuid \<Rightarrow> (string \<times> bool) list \<Rightarrow> db \<Rightarrow> unit result \<times> db" where
  "set_permissions es ids k targetID [] d = (Inr (), d)"
| "set_permissions es ids k targetID ((permKey, granted) # ps) d =
     (case SetUserPermission (es k) (ids k) d targetID permKey granted of
        (Inl err, d') \<Rightarrow> (Inl err, d')
      | (Inr _, d') \<Rightarrow> set_permissions es ids (Suc k) targetID ps d')"

definition h_SetUserPermissions ::
  "(nat \<Rightarrow> env) \<Rightarrow> (nat \<Rightarrow> uuid) \<Rightarrow> db \<Rightarrow> uuid option \<Rightarrow> (string \<times> bool) list result \<Rightarrow> string response \<times> db" where
  "h_SetUserPermissions es ids d param body =
     (case param of None \<Rightarrow> (Refuse 400 ''invalid ID format'', d)
      | Some targetID \<Rightarrow> (case body of Inl err \<Rightarrow> (Refuse 400 (Error err), d)
      | Inr ps \<Rightarrow>
          (case set_permissions es ids 0 targetID ps d of
              (Inl err, d') \<Rightarrow> (Refuse 400 (Error err), d')
            | (Inr _, d') \<Rightarrow> (Reply 200 ''permissions updated'', d'))))"

section \<open>Properties\<close>

lemma profile_of_put [simp]: "profile_of (put_profile d p) i = (if i = pf_UserID p then p else profile_of d i)"
proof -
  have "List.find (\<lambda>q. pf_UserID q = i) (delete_where (\<lambda>q. pf_UserID q = pf_UserID p) t) = List.find (\<lambda>q. pf_UserID q = i) t"
    if "i \<noteq> pf_UserID p" for t :: "Profile list"
    using that by (induction t) (simp_all add: delete_where_def)
  then show ?thesis by (cases "i = pf_UserID p") (simp_all add: profile_of_def put_profile_def)
qed

lemma profile_of_ID [simp]: "pf_UserID (profile_of d i) = i"
  by (auto simp: profile_of_def dest: find_SomeD split: option.splits)

text \<open>A profile update that succeeds is what the next read returns: the fields of the request, the
  others as they were, for this user only; the accounts themselves are not touched.\<close>

theorem profile_updated:
  assumes "UpdateProfile e d i req = (Inr r, d')"
  shows "users d' = users d
     \<and> (\<forall>j. j \<noteq> i \<longrightarrow> profile_of d' j = profile_of d j)
     \<and> pf_DisplayName (profile_of d' i) = or_else (pr_DisplayName req) (pf_DisplayName (profile_of d i))
     \<and> pf_AvatarURL (profile_of d' i) = or_else (pr_AvatarURL req) (pf_AvatarURL (profile_of d i))
     \<and> u_TOTPSecret (fst r) = ''''
     \<and> (\<forall>t. GetProfile (quiet t) d' i = Inr r)"
proof -
  have "GetProfile e d' i = Inr r" and d': "d' = (if find_user d i = None then d else put_profile d (let p = profile_of d i
       in p\<lparr>pf_DisplayName := or_else (pr_DisplayName req) (pf_DisplayName p), pf_AvatarURL := or_else (pr_AvatarURL req) (pf_AvatarURL p),
            pf_Language := or_else (pr_Language req) (pf_Language p), pf_Timezone := or_else (pr_Timezone req) (pf_Timezone p)\<rparr>))"
    using assms by (auto simp: UpdateProfile_def Let_def split: if_splits)
  then obtain u where u: "find_user d' i = Some u"
    and r: "GetProfile (quiet t) d' i = Inr r" "u_TOTPSecret (fst r) = ''''" for t
    by (cases "find_user d' i"; cases "fault e ''GetProfile''") (auto simp: GetProfile_def Let_def call_def)
  have "users d' = users d" by (simp add: d' put_profile_def Let_def)
  with u have "\<exists>u. find_user d i = Some u" by (simp add: find_user_def)
  then have "d' = put_profile d (let p = profile_of d i
       in p\<lparr>pf_DisplayName := or_else (pr_DisplayName req) (pf_DisplayName p), pf_AvatarURL := or_else (pr_AvatarURL req) (pf_AvatarURL p),
            pf_Language := or_else (pr_Language req) (pf_Language p), pf_Timezone := or_else (pr_Timezone req) (pf_Timezone p)\<rparr>)"
    using d' by auto
  then show ?thesis using r \<open>users d' = users d\<close> by (simp add: Let_def)
qed

text \<open>One row per user and alert type, and the last setting counts.\<close>

definition prefs_unique :: "db \<Rightarrow> bool" where
  "prefs_unique d = unique_on (\<lambda>p. (np_UserID p, np_AlertType p)) (notification_prefs d)"

theorem preference_stored:
  assumes "prefs_unique d" and "SetNotificationPref e d i a em di te = (Inr u, d')"
  shows "prefs_unique d' \<and> filter (\<lambda>p. np_UserID p = i \<and> np_AlertType p = a) (notification_prefs d')
     = [\<lparr>np_UserID = i, np_AlertType = a, np_Email = em, np_Discord = di, np_Telegram = te\<rparr>]"
proof -
  let ?p = "\<lambda>n. np_UserID n = i \<and> np_AlertType n = a"
  let ?row = "\<lparr>np_UserID = i, np_AlertType = a, np_Email = em, np_Discord = di, np_Telegram = te\<rparr>"
  have d': "notification_prefs d' = (if list_ex ?p (notification_prefs d) then update_where ?p (\<lambda>_. ?row) (notification_prefs d)
      else notification_prefs d @ [?row])"
    using assms(2) by (auto simp: SetNotificationPref_def Let_def split: if_splits)
  have one: "unique_on (\<lambda>p. (np_UserID p, np_AlertType p)) t \<Longrightarrow> list_ex ?p t \<Longrightarrow>
      unique_on (\<lambda>p. (np_UserID p, np_AlertType p)) (update_where ?p (\<lambda>_. ?row) t) \<and> filter ?p (update_where ?p (\<lambda>_. ?row) t) = [?row]" for t
  proof (induction t)
    case (Cons x t)
    have none: "\<not> list_ex ?p t \<Longrightarrow> update_where ?p (\<lambda>_. ?row) t = t \<and> filter ?p t = []"
      by (auto simp: list_ex_iff update_where_def filter_empty_conv intro!: map_idI)
    show ?case
    proof (cases "?p x")
      case True
      with Cons.prems(1) have "\<not> list_ex ?p t" by (force simp: unique_on_def list_ex_iff image_iff)
      with True none Cons.prems(1) show ?thesis by (auto simp: unique_on_def update_where_def)
    next
      case False
      moreover have "(np_UserID x, np_AlertType x) \<notin> set (map (\<lambda>p. (np_UserID p, np_AlertType p)) (update_where ?p (\<lambda>_. ?row) t))"
        using Cons.prems(1) False by (auto simp: unique_on_def update_where_def image_iff)
      ultimately show ?thesis using Cons by (auto simp: unique_on_def update_where_def)
    qed
  qed simp
  show ?thesis
  proof (cases "list_ex ?p (notification_prefs d)")
    case True
    then show ?thesis using one assms(1) by (simp add: prefs_unique_def d')
  next
    case False
    then show ?thesis using assms(1)
      by (auto simp: prefs_unique_def d' unique_on_append_row list_ex_iff filter_empty_conv)
  qed
qed

text \<open>The answers to an acceptance: 200 exactly when the account has become a member.\<close>

lemma accept_answers:
  "fst (h_AcceptInvitation e d user token) = Reply 200 ''invitation accepted''
   \<longleftrightarrow> is_ok (fst (AcceptInvitation e d token (u_ID user) (u_Email user)))"
  by (auto simp: h_AcceptInvitation_def accept_refusal_def split: prod.splits sum.splits)

end
