(* ===== verification/DaemonClient.thy ===== *)
theory DaemonClient
  imports Http Backups ServerHandlers
begin

text \<open>
  \<^verbatim>\<open>daemon/client.go\<close> and \<^verbatim>\<open>daemon/rclone.go\<close>: what the panel sends to the daemon of a node
  and what it makes of the answers.  A method takes the client, the other side and its
  arguments; a server id is its text.  A streamed body is its contents, and an error while it is read is an error
  of the request; multipart boundaries are arguments.  Floats are kept as the text of their number.
\<close>

section \<open>Requests\<close>

definition auth_header :: "Client \<Rightarrow> string \<times> string" where
  "auth_header c = (''Authorization'', ''Bearer '' @ cl_nodeToken c)"

definition json_header :: "string \<times> string" where
  "json_header = (''Content-Type'', ''application/json'')"

definition endpoint :: "Client \<Rightarrow> string \<Rightarrow> (string \<times> string) list \<Rightarrow> string" where
  "endpoint c path query = cl_baseURL c @ path @ (if query = [] then '''' else ''?'' @ form_encode query)"

text \<open>\<^verbatim>\<open>url.PathEscape\<close>.\<close>

definition path_char :: "char \<Rightarrow> string" where
  "path_char ch = (if is_digit ch \<or> is_upper ch \<or> is_lower ch \<or> ch \<in> set ''-_.~$&+:=@'' then [ch]
     else [CHR ''%'', percent_digit (byte ch div 16), percent_digit (byte ch mod 16)])"

definition PathEscape :: "string \<Rightarrow> string" where
  "PathEscape s = concat (map path_char s)"

text \<open>\<^verbatim>\<open>mime/multipart\<close> with one file.\<close>

definition quote_escape :: "string \<Rightarrow> string" where
  "quote_escape s = concat (map (\<lambda>ch. if ch = CHR 0x5C \<or> ch = CHR 0x22 then [CHR 0x5C, ch]
     else if ch = CHR 0x0D then ''%0D'' else if ch = CHR 0x0A then ''%0A'' else [ch]) s)"

definition crlf :: string where "crlf = [CHR 0x0D, CHR 0x0A]"

definition multipart_file :: "string \<Rightarrow> string \<Rightarrow> string \<Rightarrow> string" where
  "multipart_file boundary fileName data =
     ''--'' @ boundary @ crlf @ ''Content-Disposition: form-data; name='' @ [CHR 0x22] @ ''file'' @ [CHR 0x22] @ ''; filename=''
     @ [CHR 0x22] @ quote_escape fileName @ [CHR 0x22] @ crlf @ ''Content-Type: application/octet-stream'' @ crlf @ crlf
     @ data @ crlf @ ''--'' @ boundary @ ''--'' @ crlf"

definition multipart_header :: "string \<Rightarrow> string \<times> string" where
  "multipart_header boundary = (''Content-Type'', ''multipart/form-data; boundary='' @ boundary)"

section \<open>Answers\<close>

record ActionResponse =
  ar_Success :: bool
  ar_Message :: string

definition json_bool_field :: "json \<Rightarrow> bool \<Rightarrow> bool option" where
  "json_bool_field v old = (case v of JBool b \<Rightarrow> Some b | JNull \<Rightarrow> Some old | _ \<Rightarrow> None)"

definition set_action :: "string \<Rightarrow> json \<Rightarrow> ActionResponse \<Rightarrow> ActionResponse option" where
  "set_action k v a =
     (if equal_fold k ''success'' then map_option (\<lambda>x. a\<lparr>ar_Success := x\<rparr>) (json_bool_field v (ar_Success a))
      else if equal_fold k ''message'' then map_option (\<lambda>x. a\<lparr>ar_Message := x\<rparr>) (json_str_field v (ar_Message a))
      else Some a)"

definition decode_action :: "string \<Rightarrow> ActionResponse result" where
  "decode_action s = decode_first set_action \<lparr>ar_Success = False, ar_Message = ''''\<rparr> s"

record ServerStatus =
  ss_ServerID :: string
  ss_Status :: string

definition set_server_status :: "string \<Rightarrow> json \<Rightarrow> ServerStatus \<Rightarrow> ServerStatus option" where
  "set_server_status k v s =
     (if equal_fold k ''server_id'' then map_option (\<lambda>x. s\<lparr>ss_ServerID := x\<rparr>) (json_str_field v (ss_ServerID s))
      else if equal_fold k ''status'' then map_option (\<lambda>x. s\<lparr>ss_Status := x\<rparr>) (json_str_field v (ss_Status s))
      else Some s)"

definition json_float_field :: "json \<Rightarrow> string \<Rightarrow> string option" where
  "json_float_field v old = (case v of JNum t \<Rightarrow> Some t | JNull \<Rightarrow> Some old | _ \<Rightarrow> None)"

text \<open>An unsigned 64-bit member.\<close>

definition json_uint_field :: "json \<Rightarrow> 64 word \<Rightarrow> 64 word option" where
  "json_uint_field v old =
     (case v of
        JNum t \<Rightarrow> if t \<noteq> [] \<and> list_all is_digit t \<and> digits_value 0 t < 18446744073709551616
          then Some (word_of_int (digits_value 0 t)) else None
      | JNull \<Rightarrow> Some old | _ \<Rightarrow> None)"

record ServerMetrics =
  sx_ServerID :: string
  sx_CPUPercent :: string
  sx_RAMMB :: "64 word"
  sx_UptimeS :: "64 word"

definition set_server_metrics :: "string \<Rightarrow> json \<Rightarrow> ServerMetrics \<Rightarrow> ServerMetrics option" where
  "set_server_metrics k v s =
     (if equal_fold k ''server_id'' then map_option (\<lambda>x. s\<lparr>sx_ServerID := x\<rparr>) (json_str_field v (sx_ServerID s))
      else if equal_fold k ''cpu_percent'' then map_option (\<lambda>x. s\<lparr>sx_CPUPercent := x\<rparr>) (json_float_field v (sx_CPUPercent s))
      else if equal_fold k ''ram_mb'' then map_option (\<lambda>x. s\<lparr>sx_RAMMB := x\<rparr>) (json_uint_field v (sx_RAMMB s))
      else if equal_fold k ''uptime_s'' then map_option (\<lambda>x. s\<lparr>sx_UptimeS := x\<rparr>) (json_uint_field v (sx_UptimeS s))
      else Some s)"

record DaemonHealth =
  dh_Status :: string
  dh_Version :: string
  dh_NodeID :: string

definition set_health :: "string \<Rightarrow> json \<Rightarrow> DaemonHealth \<Rightarrow> DaemonHealth option" where
  "set_health k v s =
     (if equal_fold k ''status'' then map_option (\<lambda>x. s\<lparr>dh_Status := x\<rparr>) (json_str_field v (dh_Status s))
      else if equal_fold k ''version'' then map_option (\<lambda>x. s\<lparr>dh_Version := x\<rparr>) (json_str_field v (dh_Version s))
      else if equal_fold k ''node_id'' then map_option (\<lambda>x. s\<lparr>dh_NodeID := x\<rparr>) (json_str_field v (dh_NodeID s))
      else Some s)"

record FileEntry =
  fe_Name :: string
  fe_Size :: int
  fe_IsDir :: bool
  fe_Modified :: string

definition set_entry :: "string \<Rightarrow> json \<Rightarrow> FileEntry \<Rightarrow> FileEntry option" where
  "set_entry k v f =
     (if equal_fold k ''name'' then map_option (\<lambda>x. f\<lparr>fe_Name := x\<rparr>) (json_str_field v (fe_Name f))
      else if equal_fold k ''size'' then map_option (\<lambda>x. f\<lparr>fe_Size := x\<rparr>) (json_int_field v (fe_Size f))
      else if equal_fold k ''is_dir'' then map_option (\<lambda>x. f\<lparr>fe_IsDir := x\<rparr>) (json_bool_field v (fe_IsDir f))
      else if equal_fold k ''modified'' then map_option (\<lambda>x. f\<lparr>fe_Modified := x\<rparr>) (json_str_field v (fe_Modified f))
      else Some f)"

record FileListResponse =
  fl_Entries :: "FileEntry list"
  fl_Path :: string

definition set_file_list :: "string \<Rightarrow> json \<Rightarrow> FileListResponse \<Rightarrow> FileListResponse option" where
  "set_file_list k v r =
     (if equal_fold k ''entries''
      then map_option (\<lambda>x. r\<lparr>fl_Entries := x\<rparr>) (json_list_field set_entry \<lparr>fe_Name = '''', fe_Size = 0, fe_IsDir = False, fe_Modified = ''''\<rparr> v)
      else if equal_fold k ''path'' then map_option (\<lambda>x. r\<lparr>fl_Path := x\<rparr>) (json_str_field v (fl_Path r))
      else Some r)"

record FileContentResponse =
  fc_Content :: string
  fc_Path :: string

definition set_file_content :: "string \<Rightarrow> json \<Rightarrow> FileContentResponse \<Rightarrow> FileContentResponse option" where
  "set_file_content k v r =
     (if equal_fold k ''content'' then map_option (\<lambda>x. r\<lparr>fc_Content := x\<rparr>) (json_str_field v (fc_Content r))
      else if equal_fold k ''path'' then map_option (\<lambda>x. r\<lparr>fc_Path := x\<rparr>) (json_str_field v (fc_Path r))
      else Some r)"

record BackupCreatedResponse =
  bc_Success :: bool
  bc_SizeBytes :: int
  bc_StoragePath :: string

definition set_backup_created :: "string \<Rightarrow> json \<Rightarrow> BackupCreatedResponse \<Rightarrow> BackupCreatedResponse option" where
  "set_backup_created k v r =
     (if equal_fold k ''success'' then map_option (\<lambda>x. r\<lparr>bc_Success := x\<rparr>) (json_bool_field v (bc_Success r))
      else if equal_fold k ''size_bytes'' then map_option (\<lambda>x. r\<lparr>bc_SizeBytes := x\<rparr>) (json_int_field v (bc_SizeBytes r))
      else if equal_fold k ''storage_path'' then map_option (\<lambda>x. r\<lparr>bc_StoragePath := x\<rparr>) (json_str_field v (bc_StoragePath r))
      else Some r)"

section \<open>The helpers of the client\<close>

text \<open>\<^verbatim>\<open>doRequest\<close>, which expects the envelope of an action; \<^verbatim>\<open>postAction\<close> is its case
  of a POST without parameters.\<close>

definition doRequest ::
  "'p http \<Rightarrow> Client \<Rightarrow> 'p \<Rightarrow> string \<Rightarrow> string \<Rightarrow> (string \<times> string) list \<Rightarrow> json option \<Rightarrow> unit result \<times> 'p" where
  "doRequest http c p verb path query payload =
     (case http p \<lparr>rq_Method = verb, rq_URL = endpoint c path query, rq_Header = [json_header, auth_header c],
             rq_Body = (case payload of None \<Rightarrow> '''' | Some j \<Rightarrow> json_text j)\<rparr> of
        (Inl err, p') \<Rightarrow> (Inl (Wrap (''daemon: '' @ verb @ '' '' @ path) err), p')
      | (Inr rs, p') \<Rightarrow>
          (case decode_action (rs_Body rs) of
             Inl err \<Rightarrow> (Inl (Wrap ''daemon: decode response'' err), p')
           | Inr res \<Rightarrow>
               if \<not> ar_Success res \<or> rs_StatusCode rs \<ge> 400
               then (Inl (New (''daemon: '' @ path @ '' failed: '' @ ar_Message res)), p')
               else (Inr (), p')))"

definition postAction :: "'p http \<Rightarrow> Client \<Rightarrow> 'p \<Rightarrow> string \<Rightarrow> json option \<Rightarrow> unit result \<times> 'p" where
  "postAction http c p path payload = doRequest http c p ''POST'' path [] payload"

definition getWithQuery ::
  "'p http \<Rightarrow> Client \<Rightarrow> 'p \<Rightarrow> string \<Rightarrow> (string \<times> string) list \<Rightarrow> (string \<Rightarrow> 'a result) \<Rightarrow> 'a result \<times> 'p" where
  "getWithQuery http c p path query decode =
     (case http p \<lparr>rq_Method = ''GET'', rq_URL = endpoint c path query, rq_Header = [auth_header c], rq_Body = ''''\<rparr> of
        (Inl err, p') \<Rightarrow> (Inl (Wrap (''daemon: GET '' @ path) err), p')
      | (Inr rs, p') \<Rightarrow>
          (if rs_StatusCode rs \<ge> 400
           then Inl (New (''daemon: GET '' @ path @ '' returned '' @ dec (rs_StatusCode rs) @ '': '' @ rs_Body rs))
           else decode (rs_Body rs), p'))"

definition cl_get :: "'p http \<Rightarrow> Client \<Rightarrow> 'p \<Rightarrow> string \<Rightarrow> (string \<Rightarrow> 'a result) \<Rightarrow> 'a result \<times> 'p" where
  "cl_get http c p path decode = getWithQuery http c p path [] decode"

text \<open>The requests that stream a body or an answer and are written out in the source: the
  words for the transport and for a refusal differ.\<close>

definition transfer ::
  "'p http \<Rightarrow> Client \<Rightarrow> 'p \<Rightarrow> string \<Rightarrow> string \<Rightarrow> (string \<times> string) list \<Rightarrow> (string \<times> string) list \<Rightarrow> string \<Rightarrow> string
     \<Rightarrow> HttpResponse result \<times> 'p" where
  "transfer http c p verb path query header payload what =
     (case http p \<lparr>rq_Method = verb, rq_URL = endpoint c path query, rq_Header = header @ [auth_header c], rq_Body = payload\<rparr> of
        (Inl err, p') \<Rightarrow> (Inl (Wrap (''daemon: '' @ what) err), p')
      | (Inr rs, p') \<Rightarrow>
          (if rs_StatusCode rs \<ge> 400
           then Inl (New (''daemon: '' @ what @ '' failed ('' @ dec (rs_StatusCode rs) @ ''): '' @ rs_Body rs))
           else Inr rs, p'))"

section \<open>Power actions\<close>

definition config_body :: "(uuid \<Rightarrow> string) \<Rightarrow> ServerConfig \<Rightarrow> json" where
  "config_body str cfg = JObj [(''config'', JObj
     [(''server_id'', JStr (str (sc_ServerID cfg))), (''name'', JStr (sc_Name cfg)), (''data_path'', JStr (sc_DataPath cfg)),
      (''port'', JNum (dec (uint (ServerHandlers.ServerConfig.sc_Port cfg)))), (''ram_limit_mb'', JNum (dec (uint (sc_RAMLimitMB cfg)))),
      (''cpu_limit'', JNum (dec (sc_CPULimit cfg))), (''auto_restart'', JBool (sc_AutoRestart cfg)),
      (''crash_limit'', JNum (dec (uint (sc_CrashLimit cfg)))), (''crash_window_s'', JNum (dec (uint (sc_CrashWindowS cfg)))),
      (''launch_flags'', JArr (map JStr (sc_LaunchFlags cfg)))])]"

definition server_path :: "string \<Rightarrow> string \<Rightarrow> string" where
  "server_path serverID rest = ''/servers/'' @ serverID @ rest"

definition dc_StartServer :: "(uuid \<Rightarrow> string) \<Rightarrow> 'p http \<Rightarrow> Client \<Rightarrow> 'p \<Rightarrow> ServerConfig \<Rightarrow> unit result \<times> 'p" where
  "dc_StartServer str http c p cfg = postAction http c p (server_path (str (sc_ServerID cfg)) ''/start'') (Some (config_body str cfg))"

definition dc_StopServer :: "'p http \<Rightarrow> Client \<Rightarrow> 'p \<Rightarrow> string \<Rightarrow> unit result \<times> 'p" where
  "dc_StopServer http c p serverID = postAction http c p (server_path serverID ''/stop'') None"

definition dc_RestartServer :: "'p http \<Rightarrow> Client \<Rightarrow> 'p \<Rightarrow> string \<Rightarrow> unit result \<times> 'p" where
  "dc_RestartServer http c p serverID = postAction http c p (server_path serverID ''/restart'') None"

definition dc_KillServer :: "'p http \<Rightarrow> Client \<Rightarrow> 'p \<Rightarrow> string \<Rightarrow> unit result \<times> 'p" where
  "dc_KillServer http c p serverID = postAction http c p (server_path serverID ''/kill'') None"

definition dc_DeleteServerData :: "'p http \<Rightarrow> Client \<Rightarrow> 'p \<Rightarrow> string \<Rightarrow> unit result \<times> 'p" where
  "dc_DeleteServerData http c p serverID = doRequest http c p ''DELETE'' (server_path serverID '''') [] None"

definition dc_SendCommand :: "'p http \<Rightarrow> Client \<Rightarrow> 'p \<Rightarrow> string \<Rightarrow> string \<Rightarrow> unit result \<times> 'p" where
  "dc_SendCommand http c p serverID command =
     postAction http c p (server_path serverID ''/command'') (Some (JObj [(''command'', JStr command)]))"

definition provision_body :: "string \<Rightarrow> string \<Rightarrow> bool \<Rightarrow> json" where
  "provision_body version dataPath reinstall =
     JObj ([(''version'', JStr version), (''data_path'', JStr dataPath)] @ (if reinstall then [(''reinstall'', JBool True)] else []))"

definition dc_ProvisionServer :: "'p http \<Rightarrow> Client \<Rightarrow> 'p \<Rightarrow> string \<Rightarrow> string \<Rightarrow> string \<Rightarrow> unit result \<times> 'p" where
  "dc_ProvisionServer http c p serverID version dataPath =
     postAction http c p (server_path serverID ''/provision'') (Some (provision_body version dataPath False))"

definition dc_ReinstallServer :: "'p http \<Rightarrow> Client \<Rightarrow> 'p \<Rightarrow> string \<Rightarrow> string \<Rightarrow> string \<Rightarrow> unit result \<times> 'p" where
  "dc_ReinstallServer http c p serverID version dataPath =
     postAction http c p (server_path serverID ''/provision'') (Some (provision_body version dataPath True))"

section \<open>Status\<close>

definition dc_GetServerStatus :: "'p http \<Rightarrow> Client \<Rightarrow> 'p \<Rightarrow> string \<Rightarrow> ServerStatus result \<times> 'p" where
  "dc_GetServerStatus http c p serverID =
     cl_get http c p (server_path serverID ''/status'') (decode_first set_server_status \<lparr>ss_ServerID = '''', ss_Status = ''''\<rparr>)"

definition dc_GetServerMetrics :: "'p http \<Rightarrow> Client \<Rightarrow> 'p \<Rightarrow> string \<Rightarrow> ServerMetrics result \<times> 'p" where
  "dc_GetServerMetrics http c p serverID =
     cl_get http c p (server_path serverID ''/metrics'')
       (decode_first set_server_metrics \<lparr>sx_ServerID = '''', sx_CPUPercent = ''0'', sx_RAMMB = 0, sx_UptimeS = 0\<rparr>)"

text \<open>The raw JSON of the node.\<close>

definition dc_GetNetworkStats :: "'p http \<Rightarrow> Client \<Rightarrow> 'p \<Rightarrow> json result \<times> 'p" where
  "dc_GetNetworkStats http c p =
     cl_get http c p ''/network-stats'' (\<lambda>s. case json_read (Suc (length s)) s of None \<Rightarrow> Inl (New ''json'') | Some (j, _) \<Rightarrow> Inr j)"

definition dc_Health :: "'p http \<Rightarrow> Client \<Rightarrow> 'p \<Rightarrow> DaemonHealth result \<times> 'p" where
  "dc_Health http c p =
     cl_get http c p ''/health'' (decode_first set_health \<lparr>dh_Status = '''', dh_Version = '''', dh_NodeID = ''''\<rparr>)"

section \<open>Files\<close>

definition dc_ListFiles :: "'p http \<Rightarrow> Client \<Rightarrow> 'p \<Rightarrow> string \<Rightarrow> string \<Rightarrow> FileListResponse result \<times> 'p" where
  "dc_ListFiles http c p serverID path =
     getWithQuery http c p (server_path serverID ''/files'') [(''path'', path)] (decode_first set_file_list \<lparr>fl_Entries = [], fl_Path = ''''\<rparr>)"

definition dc_GetFileContent :: "'p http \<Rightarrow> Client \<Rightarrow> 'p \<Rightarrow> string \<Rightarrow> string \<Rightarrow> FileContentResponse result \<times> 'p" where
  "dc_GetFileContent http c p serverID path =
     getWithQuery http c p (server_path serverID ''/files/content'') [(''path'', path)]
       (decode_first set_file_content \<lparr>fc_Content = '''', fc_Path = ''''\<rparr>)"

definition dc_WriteFileContent :: "'p http \<Rightarrow> Client \<Rightarrow> 'p \<Rightarrow> string \<Rightarrow> string \<Rightarrow> string \<Rightarrow> unit result \<times> 'p" where
  "dc_WriteFileContent http c p serverID path content =
     doRequest http c p ''PUT'' (server_path serverID ''/files/content'') [] (Some (JObj [(''content'', JStr content), (''path'', JStr path)]))"

definition dc_DeleteFile :: "'p http \<Rightarrow> Client \<Rightarrow> 'p \<Rightarrow> string \<Rightarrow> string \<Rightarrow> unit result \<times> 'p" where
  "dc_DeleteFile http c p serverID path = doRequest http c p ''DELETE'' (server_path serverID ''/files'') [(''path'', path)] None"

definition dc_CreateDirectory :: "'p http \<Rightarrow> Client \<Rightarrow> 'p \<Rightarrow> string \<Rightarrow> string \<Rightarrow> unit result \<times> 'p" where
  "dc_CreateDirectory http c p serverID path =
     doRequest http c p ''POST'' (server_path serverID ''/files/directory'') [] (Some (JObj [(''path'', JStr path)]))"

definition dc_RenameFile :: "'p http \<Rightarrow> Client \<Rightarrow> 'p \<Rightarrow> string \<Rightarrow> string \<Rightarrow> string \<Rightarrow> unit result \<times> 'p" where
  "dc_RenameFile http c p serverID path newName =
     doRequest http c p ''POST'' (server_path serverID ''/files/rename'') [] (Some (JObj [(''new_name'', JStr newName), (''path'', JStr path)]))"

definition dc_UploadFile :: "'p http \<Rightarrow> Client \<Rightarrow> 'p \<Rightarrow> string \<Rightarrow> string \<Rightarrow> string \<Rightarrow> string \<Rightarrow> string \<Rightarrow> unit result \<times> 'p" where
  "dc_UploadFile http c p boundary serverID dir fileName data =
     (case transfer http c p ''POST'' (server_path (PathEscape serverID) ''/files/upload'') [(''path'', dir)] [multipart_header boundary]
        (multipart_file boundary fileName data) ''upload'' of (r, p') \<Rightarrow> (map_sum id (\<lambda>_. ()) r, p'))"

definition dc_UploadStream :: "'p http \<Rightarrow> Client \<Rightarrow> 'p \<Rightarrow> string \<Rightarrow> string \<Rightarrow> string \<Rightarrow> string \<Rightarrow> unit result \<times> 'p" where
  "dc_UploadStream http c p serverID dir contentType payload =
     (case transfer http c p ''POST'' (server_path (PathEscape serverID) ''/files/upload'') [(''path'', dir)] [(''Content-Type'', contentType)]
        payload ''upload'' of (r, p') \<Rightarrow> (map_sum id (\<lambda>_. ()) r, p'))"

text \<open>\<open>disposition\<close> is the \<^verbatim>\<open>filename\<close> parameter of the answer's Content-Disposition as
  \<^verbatim>\<open>mime.ParseMediaType\<close> reads it, \<open>None\<close> when it cannot be read.\<close>

definition filenameFromDisposition :: "string option \<Rightarrow> string \<Rightarrow> string" where
  "filenameFromDisposition disposition fallback =
     (case disposition of None \<Rightarrow> fallback
      | Some name \<Rightarrow> if SanitizeFilename name = '''' then fallback else SanitizeFilename name)"

definition dc_DownloadFile ::
  "(HttpResponse \<Rightarrow> string option) \<Rightarrow> 'p http \<Rightarrow> Client \<Rightarrow> 'p \<Rightarrow> string \<Rightarrow> string \<Rightarrow> (string \<times> string) result \<times> 'p" where
  "dc_DownloadFile disposition http c p serverID path =
     (case transfer http c p ''GET'' (server_path (PathEscape serverID) ''/files/download'') [(''path'', path)] [] '''' ''download'' of
        (r, p') \<Rightarrow> (map_sum id (\<lambda>rs. (rs_Body rs, filenameFromDisposition (disposition rs) ''download'')) r, p'))"

definition dc_ExtractArchive :: "'p http \<Rightarrow> Client \<Rightarrow> 'p \<Rightarrow> string \<Rightarrow> string \<Rightarrow> unit result \<times> 'p" where
  "dc_ExtractArchive http c p serverID path =
     doRequest http c p ''POST'' (server_path serverID ''/files/extract'') [] (Some (JObj [(''path'', JStr path)]))"

definition dc_CreateArchive :: "'p http \<Rightarrow> Client \<Rightarrow> 'p \<Rightarrow> string \<Rightarrow> string \<Rightarrow> unit result \<times> 'p" where
  "dc_CreateArchive http c p serverID path =
     doRequest http c p ''POST'' (server_path serverID ''/files/archive'') [] (Some (JObj [(''path'', JStr path)]))"

section \<open>Backups\<close>

definition backupBody :: "string \<Rightarrow> EncKey option \<Rightarrow> string" where
  "backupBody backupID enc = json_text (JObj ([(''backup_id'', JStr backupID)]
     @ (case enc of None \<Rightarrow> [] | Some k \<Rightarrow> [(''encryption_key'', JStr (ek_Key k)), (''key_id'', JNum (dec (uint (ek_KeyID k))))])))"

definition dc_CreateBackup ::
  "'p http \<Rightarrow> Client \<Rightarrow> 'p \<Rightarrow> string \<Rightarrow> string \<Rightarrow> EncKey option \<Rightarrow> BackupCreatedResponse result \<times> 'p" where
  "dc_CreateBackup http c p serverID backupID enc =
     (case transfer http c p ''POST'' (server_path (PathEscape serverID) ''/backup'') [] [json_header] (backupBody backupID enc) ''create backup'' of
        (r, p') \<Rightarrow> (and_then r (\<lambda>rs. wrapping ''daemon: decode backup response''
          (decode_first set_backup_created \<lparr>bc_Success = False, bc_SizeBytes = 0, bc_StoragePath = ''''\<rparr> (rs_Body rs))), p'))"

definition dc_RestoreBackup :: "'p http \<Rightarrow> Client \<Rightarrow> 'p \<Rightarrow> string \<Rightarrow> string \<Rightarrow> EncKey option \<Rightarrow> unit result \<times> 'p" where
  "dc_RestoreBackup http c p serverID backupID enc =
     (case transfer http c p ''POST'' (server_path (PathEscape serverID) ''/backup/restore'') [] [json_header] (backupBody backupID enc)
        ''restore backup'' of (r, p') \<Rightarrow> (map_sum id (\<lambda>_. ()) r, p'))"

definition dc_DownloadBackup :: "'p http \<Rightarrow> Client \<Rightarrow> 'p \<Rightarrow> string \<Rightarrow> string \<Rightarrow> string result \<times> 'p" where
  "dc_DownloadBackup http c p serverID backupID =
     (case transfer http c p ''GET'' (server_path (PathEscape serverID) ''/backup/download'') [(''backup_id'', backupID)] [] ''''
        ''download backup'' of (r, p') \<Rightarrow> (map_sum id rs_Body r, p'))"

definition dc_DeleteBackupArchive :: "'p http \<Rightarrow> Client \<Rightarrow> 'p \<Rightarrow> string \<Rightarrow> string \<Rightarrow> unit result \<times> 'p" where
  "dc_DeleteBackupArchive http c p serverID backupID =
     doRequest http c p ''DELETE'' (server_path serverID ''/backup'') [(''backup_id'', backupID)] None"

definition dc_ImportServer :: "'p http \<Rightarrow> Client \<Rightarrow> 'p \<Rightarrow> string \<Rightarrow> string \<Rightarrow> string \<Rightarrow> unit result \<times> 'p" where
  "dc_ImportServer http c p boundary serverID data =
     (case transfer http c p ''POST'' (server_path (PathEscape serverID) ''/import'') [] [multipart_header boundary]
        (multipart_file boundary (serverID @ ''.zip'') data) ''import server'' of (r, p') \<Rightarrow> (map_sum id (\<lambda>_. ()) r, p'))"

section \<open>Off-site backups\<close>

definition spec_json :: "RemoteSpec \<Rightarrow> json" where
  "spec_json r = JObj [(''backend'', JStr (rs_Backend r)), (''options'', JObj (map (\<lambda>(k, v). (k, JStr v)) (sort_key fst (rs_Options r)))),
     (''obscure'', JArr (map JStr (rs_Obscure r))), (''base_path'', JStr (rs_BasePath r))]"

text \<open>\<^verbatim>\<open>remoteBackupRequest\<close> with \<^verbatim>\<open>withEnc\<close>; absent and empty members are left out.\<close>

definition remote_body :: "string \<Rightarrow> RemoteSpec option \<Rightarrow> EncKey option \<Rightarrow> json" where
  "remote_body backupID remote enc = JObj ([(''backup_id'', JStr backupID)]
     @ (case remote of None \<Rightarrow> [] | Some r \<Rightarrow> [(''remote'', spec_json r)])
     @ (case enc of None \<Rightarrow> []
        | Some k \<Rightarrow> (if ek_Key k = '''' then [] else [(''encryption_key'', JStr (ek_Key k))]) @ [(''key_id'', JNum (dec (uint (ek_KeyID k))))]))"

definition dc_postRemote :: "'p http \<Rightarrow> Client \<Rightarrow> 'p \<Rightarrow> string \<Rightarrow> json \<Rightarrow> remote_answer \<times> 'p" where
  "dc_postRemote http c p path payload =
     (case http p \<lparr>rq_Method = ''POST'', rq_URL = endpoint c path [], rq_Header = [json_header, auth_header c], rq_Body = json_text payload\<rparr> of
        (r, p') \<Rightarrow> (postRemote path (map_sum id (\<lambda>rs. (nat (rs_StatusCode rs), rs_Body rs)) r), p'))"

definition dc_UploadBackup :: "'p http \<Rightarrow> Client \<Rightarrow> 'p \<Rightarrow> string \<Rightarrow> string \<Rightarrow> RemoteSpec \<Rightarrow> remote_answer \<times> 'p" where
  "dc_UploadBackup http c p serverID backupID remote =
     dc_postRemote http c p (server_path (PathEscape serverID) ''/backup/upload'') (remote_body backupID (Some remote) None)"

definition dc_DeleteRemoteBackup :: "'p http \<Rightarrow> Client \<Rightarrow> 'p \<Rightarrow> string \<Rightarrow> string \<Rightarrow> RemoteSpec \<Rightarrow> remote_answer \<times> 'p" where
  "dc_DeleteRemoteBackup http c p serverID backupID remote =
     dc_postRemote http c p (server_path (PathEscape serverID) ''/backup/remote-delete'') (remote_body backupID (Some remote) None)"

definition dc_TestRemote :: "'p http \<Rightarrow> Client \<Rightarrow> 'p \<Rightarrow> RemoteSpec \<Rightarrow> remote_answer \<times> 'p" where
  "dc_TestRemote http c p remote = dc_postRemote http c p ''/rclone/test'' (JObj [(''remote'', spec_json remote)])"

definition dc_RestoreBackupFrom ::
  "'p http \<Rightarrow> Client \<Rightarrow> 'p \<Rightarrow> string \<Rightarrow> string \<Rightarrow> RemoteSpec option \<Rightarrow> EncKey option \<Rightarrow> remote_answer \<times> 'p" where
  "dc_RestoreBackupFrom http c p serverID backupID remote enc =
     dc_postRemote http c p (server_path (PathEscape serverID) ''/backup/restore'') (remote_body backupID remote enc)"

text \<open>At most 64 KiB of the text of a refusal are read.\<close>

definition dc_DownloadBackupFrom ::
  "'p http \<Rightarrow> Client \<Rightarrow> 'p \<Rightarrow> string \<Rightarrow> string \<Rightarrow> RemoteSpec option \<Rightarrow> EncKey option \<Rightarrow> string result \<times> 'p" where
  "dc_DownloadBackupFrom http c p serverID backupID remote enc =
     (case http p \<lparr>rq_Method = ''POST'', rq_URL = endpoint c (server_path (PathEscape serverID) ''/backup/download'') [],
             rq_Header = [json_header, auth_header c], rq_Body = json_text (remote_body backupID remote enc)\<rparr> of
        (Inl err, p') \<Rightarrow> (Inl (Wrap ''daemon: download backup'' err), p')
      | (Inr rs, p') \<Rightarrow>
          (if rs_StatusCode rs \<ge> 400
           then Inl (New (''daemon: download backup failed ('' @ dec (rs_StatusCode rs) @ ''): '' @ take 65536 (rs_Body rs)))
           else Inr (rs_Body rs), p'))"

section \<open>Pinning the certificate of a node\<close>

text \<open>The certificates are values of \<^verbatim>\<open>crypto/x509\<close>: \<open>chain leaf intermediates\<close> is its verification
  against the panel's CA, for the current time and the use as a server.\<close>

definition verifyNodeCert :: "('c \<Rightarrow> 'c list \<Rightarrow> unit result) \<Rightarrow> ('c \<Rightarrow> string) \<Rightarrow> 'c list \<Rightarrow> string \<Rightarrow> unit result" where
  "verifyNodeCert chain common_name certs expectedCN =
     (case certs of [] \<Rightarrow> Inl (New ''daemon tls: no peer certificate'')
      | leaf # intermediates \<Rightarrow>
          and_then (wrapping ''daemon tls: peer certificate rejected'' (chain leaf intermediates)) (\<lambda>_.
            refuse_if (common_name leaf \<noteq> expectedCN)
              (New (''daemon tls: peer certificate CN '' @ quoted (common_name leaf) @ '' does not match node '' @ quoted expectedCN))))"

text \<open>The material is usable when the CA and the key pair can be read; then connections are accepted
  by \<open>verifyNodeCert\<close>.\<close>

definition BuildPanelTLSConfig ::
  "(string \<Rightarrow> ('c \<Rightarrow> 'c list \<Rightarrow> unit result) option) \<Rightarrow> ('c \<Rightarrow> string) \<Rightarrow> (string \<Rightarrow> string \<Rightarrow> unit result) \<Rightarrow> string \<Rightarrow> string \<Rightarrow> string \<Rightarrow> string
     \<Rightarrow> ('c list \<Rightarrow> unit result) result" where
  "BuildPanelTLSConfig roots common_name key_pair caCertPEM panelCertPEM panelKeyPEM expectedCN =
     (if expectedCN = '''' then Inl (New ''daemon tls: empty expected node CN'')
      else (case roots caCertPEM of None \<Rightarrow> Inl (New ''daemon tls: no valid CA certificate'')
      | Some chain \<Rightarrow>
          and_then (wrapping ''daemon tls: panel client certificate'' (key_pair panelCertPEM panelKeyPEM)) (\<lambda>_.
            Inr (\<lambda>certs. verifyNodeCert chain common_name certs expectedCN))))"

definition pool_SetTLSMaterial :: "(string \<Rightarrow> bool) \<Rightarrow> ClientPool \<Rightarrow> string \<Rightarrow> bool \<times> ClientPool" where
  "pool_SetTLSMaterial builds pool material =
     (if builds material then (True, pool\<lparr>cp_material := Some material\<rparr>) else (False, pool))"

end
