(* ===== verification/DaemonRules.thy ===== *)
theory DaemonRules
  imports DaemonClient
begin

text \<open>
  Properties of the client of a node: where its requests go, what they carry, and which certificate a
  connection needs.  The query of a request is read back with the decoding of forms
  (\<open>form_decode\<close>), the inverse of what the client writes.
\<close>

section \<open>Reading a query\<close>

fun QueryUnescape :: "string \<Rightarrow> string option" where
  "QueryUnescape [] = Some []"
| "QueryUnescape (ch # s) =
     (if ch = CHR ''%'' then
        (case s of
           a # b # r \<Rightarrow> (case (hex_value a, hex_value b) of
               (Some x, Some y) \<Rightarrow> map_option (Cons (char_of (16 * x + y))) (QueryUnescape r)
             | _ \<Rightarrow> None)
         | _ \<Rightarrow> None)
      else map_option (Cons (if ch = CHR ''+'' then CHR '' '' else ch)) (QueryUnescape s))"

fun decode_pairs :: "string list \<Rightarrow> (string \<times> string) list option" where
  "decode_pairs [] = Some []"
| "decode_pairs (part # parts) =
     (case cut_at (CHR ''='') part of None \<Rightarrow> None
      | Some (k, v) \<Rightarrow> (case (QueryUnescape k, QueryUnescape v) of
          (Some k', Some v') \<Rightarrow> map_option (Cons (k', v')) (decode_pairs parts) | _ \<Rightarrow> None))"

definition form_decode :: "string \<Rightarrow> (string \<times> string) list option" where
  "form_decode q = decode_pairs (split_on (CHR ''&'') q)"

lemma byte_percent_digit: "n < 16 \<Longrightarrow> byte (percent_digit n) = (if n < 10 then 48 + n else 55 + n)"
  by (auto simp: percent_digit_def hex_digit_def upper_char_def is_lower_def)

lemma hex_value_upper: "n < 16 \<Longrightarrow> hex_value (percent_digit n) = Some n"
  by (simp add: hex_value_def byte_percent_digit Let_def)

lemma byte_halves: "byte ch div 16 < 16" "byte ch mod 16 < 16"
  using byte_less [of ch] by (simp_all add: less_mult_imp_div_less)

lemma unescape_char: "QueryUnescape (escape_char ch @ r) = map_option (Cons ch) (QueryUnescape r)"
proof (cases "is_digit ch \<or> is_upper ch \<or> is_lower ch \<or> ch \<in> set ''-_.~''")
  case True
  then have "ch \<noteq> CHR ''%'' \<and> ch \<noteq> CHR ''+''" by (auto simp: is_digit_def is_upper_def is_lower_def byte_def)
  with True show ?thesis by (simp add: escape_char_def)
next
  case False
  have "QueryUnescape (CHR ''%'' # percent_digit (byte ch div 16) # percent_digit (byte ch mod 16) # r)
      = map_option (Cons (char_of (16 * (byte ch div 16) + byte ch mod 16))) (QueryUnescape r)"
    by (simp add: hex_value_upper byte_halves)
  with False show ?thesis by (simp add: escape_char_def char_of_byte)
qed

lemma QueryUnescape_Escape [simp]: "QueryUnescape (QueryEscape s) = Some s"
  by (induction s) (simp_all add: QueryEscape_def unescape_char)

definition query_reserved :: "char set" where
  "query_reserved = {CHR ''&'', CHR ''='', CHR ''#'', CHR ''?'', CHR ''/''}"

lemma escape_plain: "x \<in> set (QueryEscape s) \<Longrightarrow> x \<notin> query_reserved"
proof -
  have digit: "percent_digit n \<notin> query_reserved" if "n < 16" for n
    using byte_percent_digit [OF that] by (auto simp: query_reserved_def byte_def split: if_splits)
  have plain: "ch \<notin> query_reserved" if "is_digit ch \<or> is_upper ch \<or> is_lower ch \<or> ch \<in> set ''-_.~''" for ch
    using that by (auto simp: query_reserved_def is_digit_def is_upper_def is_lower_def byte_def)
  assume "x \<in> set (QueryEscape s)"
  then obtain ch where x: "x \<in> set (escape_char ch)" by (auto simp: QueryEscape_def)
  show ?thesis
  proof (cases "is_digit ch \<or> is_upper ch \<or> is_lower ch \<or> ch \<in> set ''-_.~''")
    case True
    then show ?thesis using x plain by (simp add: escape_char_def)
  next
    case False
    then have "x = CHR ''+'' \<or> x = CHR ''%'' \<or> x = percent_digit (byte ch div 16) \<or> x = percent_digit (byte ch mod 16)"
      using x by (auto simp: escape_char_def split: if_splits)
    then show ?thesis using digit byte_halves by (auto simp: query_reserved_def)
  qed
qed

lemma split_on_single: "d \<notin> set s \<Longrightarrow> split_on d s = [s]"
  by (induction s) auto

lemma split_on_append: "d \<notin> set s \<Longrightarrow> split_on d (s @ d # r) = s # split_on d r"
  by (induction s) auto

lemma decode_pair:
  "decode_pairs ((QueryEscape k @ ''='' @ QueryEscape v) # ps) = map_option (Cons (k, v)) (decode_pairs ps)"
proof -
  have "CHR ''='' \<notin> set (QueryEscape k)" using escape_plain [of "CHR ''=''" k] by (auto simp: query_reserved_def)
  then have "cut_at (CHR ''='') (QueryEscape k @ ''='' @ QueryEscape v) = Some (QueryEscape k, QueryEscape v)"
    by (simp add: cut_at_append)
  then show ?thesis by simp
qed

text \<open>What is encoded into a query is read from it again: no value can add or change another.\<close>

lemma form_decode_encode:
  assumes "kvs \<noteq> []"
  shows "form_decode (form_encode kvs) = Some (sort_key fst kvs)"
proof -
  let ?enc = "\<lambda>(k, v). QueryEscape k @ ''='' @ QueryEscape v"
  have plain: "CHR ''&'' \<notin> set (?enc kv)" for kv using escape_plain [of "CHR ''&''"] by (cases kv) (auto simp: query_reserved_def)
  have "kvs' \<noteq> [] \<Longrightarrow> decode_pairs (split_on (CHR ''&'') (join ''&'' (map ?enc kvs'))) = Some kvs'" for kvs'
  proof (induction kvs')
    case (Cons kv kvs')
    show ?case
    proof (cases kvs')
      case Nil
      then show ?thesis using split_on_single [OF plain [of kv]] by (cases kv) (simp add: decode_pair [simplified])
    next
      case (Cons kv' kvs'')
      then have "join ''&'' (map ?enc (kv # kvs')) = ?enc kv @ CHR ''&'' # join ''&'' (map ?enc kvs')" by simp
      then show ?thesis using split_on_append [OF plain [of kv]] Cons.IH Cons by (cases kv) (simp add: decode_pair [simplified])
    qed
  qed simp
  moreover have "sort_key fst kvs \<noteq> []" using assms by (metis set_empty set_sort)
  ultimately show ?thesis unfolding form_decode_def form_encode_def by blast
qed

section \<open>All requests for a server\<close>

datatype daemon_op = OpStart ServerConfig | OpStop | OpRestart | OpKill | OpDeleteData | OpCommand string
  | OpProvision string string | OpReinstall string string | OpStatus | OpMetrics
  | OpList string | OpRead string | OpWrite string string | OpDeleteFile string | OpMkdir string | OpRename string string
  | OpUpload string string string string | OpUploadStream string string string | OpDownload string | OpExtract string | OpArchive string
  | OpCreateBackup string "EncKey option" | OpRestoreBackup string "EncKey option" | OpDownloadBackup string | OpDeleteArchive string
  | OpImport string string | OpUploadRemote string RemoteSpec | OpDeleteRemote string RemoteSpec
  | OpRestoreFrom string "RemoteSpec option" "EncKey option" | OpDownloadFrom string "RemoteSpec option" "EncKey option"

fun dc_run :: "'p http \<Rightarrow> Client \<Rightarrow> string \<Rightarrow> daemon_op \<Rightarrow> 'p \<Rightarrow> 'p" where
  "dc_run http c sid (OpStart cfg) p = snd (dc_StartServer (\<lambda>_. sid) http c p cfg)"
| "dc_run http c sid OpStop p = snd (dc_StopServer http c p sid)"
| "dc_run http c sid OpRestart p = snd (dc_RestartServer http c p sid)"
| "dc_run http c sid OpKill p = snd (dc_KillServer http c p sid)"
| "dc_run http c sid OpDeleteData p = snd (dc_DeleteServerData http c p sid)"
| "dc_run http c sid (OpCommand cmd) p = snd (dc_SendCommand http c p sid cmd)"
| "dc_run http c sid (OpProvision v path) p = snd (dc_ProvisionServer http c p sid v path)"
| "dc_run http c sid (OpReinstall v path) p = snd (dc_ReinstallServer http c p sid v path)"
| "dc_run http c sid OpStatus p = snd (dc_GetServerStatus http c p sid)"
| "dc_run http c sid OpMetrics p = snd (dc_GetServerMetrics http c p sid)"
| "dc_run http c sid (OpList path) p = snd (dc_ListFiles http c p sid path)"
| "dc_run http c sid (OpRead path) p = snd (dc_GetFileContent http c p sid path)"
| "dc_run http c sid (OpWrite path content) p = snd (dc_WriteFileContent http c p sid path content)"
| "dc_run http c sid (OpDeleteFile path) p = snd (dc_DeleteFile http c p sid path)"
| "dc_run http c sid (OpMkdir path) p = snd (dc_CreateDirectory http c p sid path)"
| "dc_run http c sid (OpRename path name) p = snd (dc_RenameFile http c p sid path name)"
| "dc_run http c sid (OpUpload boundary dir name data) p = snd (dc_UploadFile http c p boundary sid dir name data)"
| "dc_run http c sid (OpUploadStream dir ct data) p = snd (dc_UploadStream http c p sid dir ct data)"
| "dc_run http c sid (OpDownload path) p = snd (dc_DownloadFile (\<lambda>_. None) http c p sid path)"
| "dc_run http c sid (OpExtract path) p = snd (dc_ExtractArchive http c p sid path)"
| "dc_run http c sid (OpArchive path) p = snd (dc_CreateArchive http c p sid path)"
| "dc_run http c sid (OpCreateBackup b k) p = snd (dc_CreateBackup http c p sid b k)"
| "dc_run http c sid (OpRestoreBackup b k) p = snd (dc_RestoreBackup http c p sid b k)"
| "dc_run http c sid (OpDownloadBackup b) p = snd (dc_DownloadBackup http c p sid b)"
| "dc_run http c sid (OpDeleteArchive b) p = snd (dc_DeleteBackupArchive http c p sid b)"
| "dc_run http c sid (OpImport boundary data) p = snd (dc_ImportServer http c p boundary sid data)"
| "dc_run http c sid (OpUploadRemote b r) p = snd (dc_UploadBackup http c p sid b r)"
| "dc_run http c sid (OpDeleteRemote b r) p = snd (dc_DeleteRemoteBackup http c p sid b r)"
| "dc_run http c sid (OpRestoreFrom b r k) p = snd (dc_RestoreBackupFrom http c p sid b r k)"
| "dc_run http c sid (OpDownloadFrom b r k) p = snd (dc_DownloadBackupFrom http c p sid b r k)"

text \<open>The parameter of an operation that travels in the query.\<close>

fun op_query :: "daemon_op \<Rightarrow> (string \<times> string) list" where
  "op_query (OpList path) = [(''path'', path)]"
| "op_query (OpRead path) = [(''path'', path)]"
| "op_query (OpDeleteFile path) = [(''path'', path)]"
| "op_query (OpUpload boundary dir name data) = [(''path'', dir)]"
| "op_query (OpUploadStream dir ct data) = [(''path'', dir)]"
| "op_query (OpDownload path) = [(''path'', path)]"
| "op_query (OpDownloadBackup b) = [(''backup_id'', b)]"
| "op_query (OpDeleteArchive b) = [(''backup_id'', b)]"
| "op_query _ = []"

definition daemon_paths :: "string list" where
  "daemon_paths = ['''', ''/start'', ''/stop'', ''/restart'', ''/kill'', ''/command'', ''/provision'', ''/status'', ''/metrics'',
     ''/files'', ''/files/content'', ''/files/directory'', ''/files/rename'', ''/files/upload'', ''/files/download'', ''/files/extract'',
     ''/files/archive'', ''/backup'', ''/backup/restore'', ''/backup/download'', ''/backup/upload'', ''/backup/remote-delete'', ''/import'']"

text \<open>A request of the client \<open>c\<close> about the server \<open>sid\<close> with the parameters \<open>query\<close>.\<close>

definition confined :: "Client \<Rightarrow> string \<Rightarrow> (string \<times> string) list \<Rightarrow> HttpRequest \<Rightarrow> bool" where
  "confined c sid query rq =
     (list_ex (\<lambda>rest. rq_URL rq = cl_baseURL c @ ''/servers/'' @ sid @ rest @ (if query = [] then '''' else ''?'' @ form_encode query)) daemon_paths
      \<and> filter (\<lambda>h. fst h = ''Authorization'') (rq_Header rq) = [(''Authorization'', ''Bearer '' @ cl_nodeToken c)])"

definition uuid_text :: "string \<Rightarrow> bool" where
  "uuid_text s = list_all (\<lambda>ch. is_digit ch \<or> is_lower ch \<or> ch = CHR ''-'') s"

lemma PathEscape_uuid: "uuid_text s \<Longrightarrow> PathEscape s = s"
  by (induction s) (auto simp: uuid_text_def PathEscape_def path_char_def)

lemma doRequest_sends: "snd (doRequest http c p verb path query payload)
  = snd (http p \<lparr>rq_Method = verb, rq_URL = endpoint c path query, rq_Header = [json_header, auth_header c],
      rq_Body = (case payload of None \<Rightarrow> '''' | Some j \<Rightarrow> json_text j)\<rparr>)"
  by (auto simp: doRequest_def split: prod.splits sum.splits)

lemma getWithQuery_sends: "snd (getWithQuery http c p path query f)
  = snd (http p \<lparr>rq_Method = ''GET'', rq_URL = endpoint c path query, rq_Header = [auth_header c], rq_Body = ''''\<rparr>)"
  by (auto simp: getWithQuery_def split: prod.splits sum.splits)

lemma transfer_sends: "snd (transfer http c p verb path query header payload what)
  = snd (http p \<lparr>rq_Method = verb, rq_URL = endpoint c path query, rq_Header = header @ [auth_header c], rq_Body = payload\<rparr>)"
  by (auto simp: transfer_def split: prod.splits sum.splits)

lemma dc_postRemote_sends: "snd (dc_postRemote http c p path payload)
  = snd (http p \<lparr>rq_Method = ''POST'', rq_URL = endpoint c path [], rq_Header = [json_header, auth_header c], rq_Body = json_text payload\<rparr>)"
  by (simp add: dc_postRemote_def split_beta)

lemma dc_DownloadBackupFrom_sends: "snd (dc_DownloadBackupFrom http c p sid b r k)
  = snd (http p \<lparr>rq_Method = ''POST'', rq_URL = endpoint c (server_path (PathEscape sid) ''/backup/download'') [],
      rq_Header = [json_header, auth_header c], rq_Body = json_text (remote_body b r k)\<rparr>)"
  by (auto simp: dc_DownloadBackupFrom_def split: prod.splits sum.splits)

lemmas sends = doRequest_sends getWithQuery_sends transfer_sends dc_postRemote_sends dc_DownloadBackupFrom_sends

lemmas dc_defs = dc_StartServer_def dc_StopServer_def dc_RestartServer_def dc_KillServer_def dc_DeleteServerData_def dc_SendCommand_def
  dc_ProvisionServer_def dc_ReinstallServer_def dc_GetServerStatus_def dc_GetServerMetrics_def dc_ListFiles_def dc_GetFileContent_def
  dc_WriteFileContent_def dc_DeleteFile_def dc_CreateDirectory_def dc_RenameFile_def dc_UploadFile_def dc_UploadStream_def
  dc_DownloadFile_def dc_ExtractArchive_def dc_CreateArchive_def dc_CreateBackup_def dc_RestoreBackup_def dc_DownloadBackup_def
  dc_DeleteBackupArchive_def dc_ImportServer_def dc_UploadBackup_def dc_DeleteRemoteBackup_def dc_RestoreBackupFrom_def
  postAction_def cl_get_def

lemma confined_request:
  assumes "rest \<in> set daemon_paths" and "filter (\<lambda>h. fst h = ''Authorization'') header = []"
  shows "confined c sid query \<lparr>rq_Method = verb, rq_URL = endpoint c (server_path sid rest) query, rq_Header = header @ [auth_header c], rq_Body = b\<rparr>"
  using assms by (auto simp: confined_def endpoint_def server_path_def auth_header_def list_ex_iff)

lemma confined_json:
  assumes "rest \<in> set daemon_paths"
  shows "confined c sid query \<lparr>rq_Method = verb, rq_URL = endpoint c (server_path sid rest) query, rq_Header = [json_header, auth_header c], rq_Body = b\<rparr>"
  using confined_request [OF assms, of "[json_header]"] by (simp add: json_header_def)

lemma confined_get:
  assumes "rest \<in> set daemon_paths"
  shows "confined c sid query \<lparr>rq_Method = verb, rq_URL = endpoint c (server_path sid rest) query, rq_Header = [auth_header c], rq_Body = b\<rparr>"
  using confined_request [OF assms, of "[]"] by simp

lemma doRequest_confined:
  "rest \<in> set daemon_paths \<Longrightarrow> \<exists>rq. confined c sid query rq \<and> snd (doRequest http c p verb (server_path sid rest) query b) = snd (http p rq)"
  unfolding doRequest_sends using confined_json by blast

lemma getWithQuery_confined:
  "rest \<in> set daemon_paths \<Longrightarrow> \<exists>rq. confined c sid query rq \<and> snd (getWithQuery http c p (server_path sid rest) query f) = snd (http p rq)"
  unfolding getWithQuery_sends using confined_get by blast

lemma transfer_confined:
  "rest \<in> set daemon_paths \<Longrightarrow> filter (\<lambda>h. fst h = ''Authorization'') header = [] \<Longrightarrow>
   \<exists>rq. confined c sid query rq \<and> snd (transfer http c p verb (server_path sid rest) query header b what) = snd (http p rq)"
  unfolding transfer_sends using confined_request by blast

lemma postRemote_confined:
  "rest \<in> set daemon_paths \<Longrightarrow> \<exists>rq. confined c sid [] rq \<and> snd (dc_postRemote http c p (server_path sid rest) b) = snd (http p rq)"
  unfolding dc_postRemote_sends using confined_json by blast

lemma downloadFrom_confined:
  "uuid_text sid \<Longrightarrow> \<exists>rq. confined c sid [] rq \<and> snd (dc_DownloadBackupFrom http c p sid b r k) = snd (http p rq)"
  unfolding dc_DownloadBackupFrom_sends using confined_json [of "''/backup/download''" c sid "[]" "''POST''"]
  by (auto simp: PathEscape_uuid daemon_paths_def)

lemma dc_run_sends:
  assumes "uuid_text sid"
  shows "\<exists>rq. confined c sid (op_query act) rq \<and> dc_run http c sid act p = snd (http p rq)"
proof -
  note confined = doRequest_confined getWithQuery_confined transfer_confined postRemote_confined downloadFrom_confined [OF assms]
  show ?thesis
    by (cases act) (simp_all add: dc_defs split_beta PathEscape_uuid [OF assms] confined daemon_paths_def multipart_header_def json_header_def)
qed


text \<open>A node that records what it is asked.\<close>

definition ex_recorder :: "HttpRequest list http" where
  "ex_recorder rqs rq = (Inr \<lparr>rs_StatusCode = 200, rs_Body = ''{}''\<rparr>, rqs @ [rq])"

definition ex_client :: Client where
  "ex_client = \<lparr>cl_baseURL = ''http://node:8444'', cl_nodeToken = ''t0'', cl_tls = False\<rparr>"


section \<open>The certificate of a node\<close>

text \<open>With mutual TLS a connection is used only when the peer's certificate chains to the CA of the panel
  and names the node; material that cannot be used gives no configuration.\<close>

theorem node_certificate_pinned:
  assumes "BuildPanelTLSConfig roots cn pair ca cert key expected = Inr verify" and "verify certs = Inr ()"
  shows "\<exists>chain leaf rest. roots ca = Some chain \<and> is_ok (pair cert key) \<and> certs = leaf # rest \<and> is_ok (chain leaf rest)
     \<and> cn leaf = expected \<and> expected \<noteq> ''''"
  using assms
  by (auto simp: BuildPanelTLSConfig_def verifyNodeCert_def and_then_Inr wrapping_Inr refuse_if_Inr is_ok_def
      split: if_splits option.splits list.splits)

end
