(* ===== verification/Migrations.thy ===== *)
theory Migrations
  imports Accounts Nodes Json
begin

text \<open>
  \<^verbatim>\<open>db/migrate.go\<close>, the schema migrations, and \<^verbatim>\<open>cmd/talecli\<close>, the command line tool that runs them
  before it creates an owner or an enrollment token.  The schema is an abstract value that PostgreSQL
  (\<open>exec\<close>) changes or refuses with an error code; a file is executed in a transaction of its own.
\<close>

section \<open>Migrations\<close>

record 's migration_db =
  md_schema :: 's
  md_applied :: "string list"

text \<open>\<open>Some code\<close> is an error of the server with its SQLSTATE, \<open>None\<close> another error.\<close>

type_synonym 's exec_sql = "'s \<Rightarrow> string \<Rightarrow> string option + 's"

definition alreadyExistsCodes :: "string list" where
  "alreadyExistsCodes = [''42710'', ''42P07'', ''42701'', ''42723'', ''42P06'']"

text \<open>Recording a file: \<^verbatim>\<open>version\<close> is the primary key.\<close>

definition record_version ::
  "env \<Rightarrow> string \<Rightarrow> bool \<Rightarrow> 's migration_db \<Rightarrow> 's migration_db \<Rightarrow> bool result \<times> 's migration_db" where
  "record_version e name executed st st' =
     (if fault e (name @ ''.record'') \<or> name \<in> set (md_applied st')
      then (Inl (Wrap (''recording '' @ name) (Driver (name @ ''.record''))), st)
      else if fault e (name @ ''.commit'') then (Inl (Wrap (''commit '' @ name) (Driver (name @ ''.commit''))), st)
      else (Inr executed, st'\<lparr>md_applied := md_applied st' @ [name]\<rparr>))"

definition applyOne ::
  "'s exec_sql \<Rightarrow> env \<Rightarrow> 's migration_db \<Rightarrow> string \<Rightarrow> string \<Rightarrow> bool result \<times> 's migration_db" where
  "applyOne exec e st name body =
     (if fault e (name @ ''.begin'') then (Inl (Wrap (''begin tx for '' @ name) (Driver (name @ ''.begin''))), st)
      else (case exec (md_schema st) body of
          Inr schema \<Rightarrow> record_version e name True st (st\<lparr>md_schema := schema\<rparr>)
        | Inl code \<Rightarrow>
            if (case code of None \<Rightarrow> False | Some c \<Rightarrow> c \<in> set alreadyExistsCodes) then
              (if fault e (name @ ''.begin2'')
               then (Inl (Wrap (''begin tx for '' @ name @ '' after recovery'') (Driver (name @ ''.begin2''))), st)
               else record_version e name False st st)
            else (Inl (Wrap (''executing '' @ name) (Driver (name @ ''.exec''))), st)))"

text \<open>The embedded files with the names that end in \<^verbatim>\<open>.sql\<close>, sorted; the walk cannot fail.\<close>

definition listMigrationFiles :: "(string \<times> string) list \<Rightarrow> (string \<times> string) list" where
  "listMigrationFiles files = sort_key fst (filter (\<lambda>f. has_suffix (fst f) ''.sql'') files)"

fun apply_all ::
  "'s exec_sql \<Rightarrow> env \<Rightarrow> string list \<Rightarrow> (string \<times> string) list \<Rightarrow> 's migration_db \<Rightarrow> nat result \<times> 's migration_db" where
  "apply_all exec e applied [] st = (Inr 0, st)"
| "apply_all exec e applied ((name, body) # files) st =
     (if name \<in> set applied then apply_all exec e applied files st
      else (case applyOne exec e st name body of
          (Inl err, st') \<Rightarrow> (Inl err, st')
        | (Inr _, st') \<Rightarrow> (case apply_all exec e applied files st' of (r, st'') \<Rightarrow> (map_sum id Suc r, st''))))"

text \<open>The number of files that were pending.\<close>

definition RunMigrations ::
  "'s exec_sql \<Rightarrow> (string \<times> string) list \<Rightarrow> env \<Rightarrow> 's migration_db \<Rightarrow> nat result \<times> 's migration_db" where
  "RunMigrations exec files e st =
     (if fault e ''schema_migrations'' then (Inl (Wrap ''creating schema_migrations'' (Driver ''schema_migrations'')), st)
      else (case call e ''loadAppliedVersions'' (md_applied st) of
          Inl err \<Rightarrow> (Inl (Wrap ''loading applied versions'' err), st)
        | Inr applied \<Rightarrow> apply_all exec e applied (listMigrationFiles files) st))"

section \<open>Creating an owner on the command line\<close>

definition validateOwnerPassword :: "string \<Rightarrow> unit result" where
  "validateOwnerPassword password =
     (if rune_count password < 12 then Inl (New ''password must be at least 12 characters long'')
      else (case scan_password False False password of
          (hasDigit, hasSymbol) \<Rightarrow>
            if \<not> hasDigit \<or> \<not> hasSymbol
            then Inl (New ''password must contain at least one digit and one non-alphanumeric symbol'') else Inr ()))"

record admin_flags =
  af_email :: string
  af_username :: string
  af_password :: string
  af_nonInteractive :: bool

text \<open>The fields after the prompts; \<open>line\<close> answers a prompt for a line, \<open>hidden\<close> the one for the
  password.\<close>

definition prompted :: "(string \<Rightarrow> string) \<Rightarrow> string result \<Rightarrow> admin_flags \<Rightarrow> (string \<times> string \<times> string) result" where
  "prompted line hidden f =
     (let email = to_lower (trim_space (af_email f)); username = trim_space (af_username f)
      in if af_nonInteractive f then Inr (email, username, af_password f)
         else and_then (if af_password f = '''' then hidden else Inr (af_password f)) (\<lambda>password.
           Inr (if email = '''' then line ''Admin email: '' else email,
                if username = '''' then line ''Admin username: '' else username, password)))"

text \<open>\<^verbatim>\<open>INSERT ... ON CONFLICT (email) DO NOTHING\<close> and the check who has the address afterwards.\<close>

definition insert_owner :: "env \<Rightarrow> db \<Rightarrow> User \<Rightarrow> unit result \<times> db" where
  "insert_owner e d u =
     (case (if fault e ''cli.insert'' then Inl (Driver ''cli.insert'')
            else if email_count d (u_Email u) > 0 then Inr d else insert_user e ''cli.insert'' d u) of
        Inl err \<Rightarrow> (Inl (Wrap ''insert user'' err), d)
      | Inr d' \<Rightarrow> (case call e ''cli.verify'' (List.find (\<lambda>v. equal_fold (u_Email v) (u_Email u)) (users d')) of
            Inl err \<Rightarrow> (Inl (Wrap ''verify'' err), d')
          | Inr None \<Rightarrow> (Inl (Wrap ''verify'' ErrNoRows), d')
          | Inr (Some v) \<Rightarrow>
              if u_ID v \<noteq> u_ID u then (Inl (New (''a user with email '' @ u_Email u @ '' already exists'')), d') else (Inr (), d')))"

definition admin_create ::
  "prims \<Rightarrow> (string \<Rightarrow> string) \<Rightarrow> string result \<Rightarrow> string \<Rightarrow> unit result \<Rightarrow> env \<Rightarrow> uuid \<Rightarrow> db \<Rightarrow> admin_flags \<Rightarrow> unit result \<times> db" where
  "admin_create pr line hidden databaseURL migrated e newID d f =
     (case prompted line hidden f of Inl err \<Rightarrow> (Inl err, d)
      | Inr (email, username, password) \<Rightarrow>
          if email = '''' \<or> username = '''' \<or> password = ''''
          then (Inl (New ''--email, --username, and --password are all required in non-interactive mode''), d)
          else (case validateOwnerPassword password of Inl err \<Rightarrow> (Inl err, d)
          | Inr _ \<Rightarrow>
              if databaseURL = '''' then (Inl (New ''DATABASE_URL is not set''), d)
              else if fault e ''cli.connect'' then (Inl (Wrap ''connect'' (Driver ''cli.connect'')), d)
              else (case migrated of Inl err \<Rightarrow> (Inl (Wrap ''run migrations'' err), d)
              | Inr _ \<Rightarrow> (case bcrypt_generate pr password of
                  None \<Rightarrow> (Inl (Wrap ''hash'' (Driver ''bcrypt'')), d)
                | Some hash \<Rightarrow> insert_owner e d (new_user e newID email username hash RoleOwner)))))"

section \<open>Enrolling a node on the command line\<close>

definition node_enroll ::
  "prims \<Rightarrow> string \<Rightarrow> unit result \<Rightarrow> env \<Rightarrow> uuid \<Rightarrow> string \<Rightarrow> db \<Rightarrow> string \<Rightarrow> int \<Rightarrow> int \<Rightarrow> string result \<times> db" where
  "node_enroll pr databaseURL migrated e newID buf d name0 maxServers ttl =
     (let name = trim_space name0
      in if name = '''' then (Inl (New ''--name is required''), d)
         else if maxServers < 1 then (Inl (New ''--max-servers must be at least 1''), d)
         else if ttl < minute \<or> ttl > 24 * hour then (Inl (New ''--ttl must be between 1m and 24h''), d)
         else if databaseURL = '''' then (Inl (New ''DATABASE_URL is not set''), d)
         else if fault e ''cli.connect'' then (Inl (Wrap ''connect'' (Driver ''cli.connect'')), d)
         else (case migrated of Inl err \<Rightarrow> (Inl (Wrap ''run migrations'' err), d)
         | Inr _ \<Rightarrow> (case enroll_create pr e newID buf d \<lparr>ce_NodeName = name, ce_TotalCPU = 0, ce_TotalRAMMB = 0, ce_TotalDiskMB = 0,
               ce_MaxServers = maxServers, ce_CreatedBy = 0, ce_TTL = ttl\<rparr> of
             (Inl err, d') \<Rightarrow> (Inl err, d') | (Inr (_, token), d') \<Rightarrow> (Inr token, d'))))"

section \<open>Properties of migrations\<close>

text \<open>The specification: the pending files one after the other, each as a whole or, when what it
  creates is there, not at all.\<close>

definition migrate_schema :: "'s exec_sql \<Rightarrow> 's \<Rightarrow> string \<Rightarrow> 's" where
  "migrate_schema exec s body = (case exec s body of Inl _ \<Rightarrow> s | Inr s' \<Rightarrow> s')"

definition pending_files :: "(string \<times> string) list \<Rightarrow> 's migration_db \<Rightarrow> (string \<times> string) list" where
  "pending_files files st = filter (\<lambda>f. fst f \<notin> set (md_applied st)) (listMigrationFiles files)"

lemma applyOne_result:
  "applyOne exec e st name body = (r, st') \<Longrightarrow>
   (case r of Inl _ \<Rightarrow> st' = st
    | Inr _ \<Rightarrow> md_applied st' = md_applied st @ [name] \<and> md_schema st' = migrate_schema exec (md_schema st) body)"
  by (auto simp: applyOne_def record_version_def migrate_schema_def split: if_splits sum.splits)

lemma apply_all_result:
  assumes "apply_all exec e applied fs st = (r, st')"
  shows "\<exists>k. md_applied st' = md_applied st @ map fst (take k (filter (\<lambda>f. fst f \<notin> set applied) fs))
     \<and> md_schema st' = foldl (migrate_schema exec) (md_schema st) (map snd (take k (filter (\<lambda>f. fst f \<notin> set applied) fs)))
     \<and> (case r of Inl _ \<Rightarrow> k < length (filter (\<lambda>f. fst f \<notin> set applied) fs)
        | Inr n \<Rightarrow> k = n \<and> n = length (filter (\<lambda>f. fst f \<notin> set applied) fs))"
  using assms
proof (induction fs arbitrary: st r st')
  case Nil
  then show ?case by auto
next
  case (Cons f fs)
  obtain name body where f: "f = (name, body)" by (cases f)
  show ?case
  proof (cases "name \<in> set applied")
    case True
    then have skip: "filter (\<lambda>f. fst f \<notin> set applied) (f # fs) = filter (\<lambda>f. fst f \<notin> set applied) fs" using f by simp
    from True have "apply_all exec e applied fs st = (r, st')" using Cons.prems f by simp
    from Cons.IH [OF this] show ?thesis unfolding skip .
  next
    case False
    obtain r1 st1 where one: "applyOne exec e st name body = (r1, st1)" by fastforce
    note res = applyOne_result [OF one]
    show ?thesis
    proof (cases r1)
      case (Inl err)
      then show ?thesis using Cons.prems False f one res by (auto intro!: exI [of _ 0])
    next
      case (Inr x)
      obtain r2 st2 where rest: "apply_all exec e applied fs st1 = (r2, st2)" by fastforce
      from Cons.IH [OF rest] obtain k where
        k: "md_applied st2 = md_applied st1 @ map fst (take k (filter (\<lambda>f. fst f \<notin> set applied) fs))"
          "md_schema st2 = foldl (migrate_schema exec) (md_schema st1) (map snd (take k (filter (\<lambda>f. fst f \<notin> set applied) fs)))"
          "case r2 of Inl _ \<Rightarrow> k < length (filter (\<lambda>f. fst f \<notin> set applied) fs)
            | Inr n \<Rightarrow> k = n \<and> n = length (filter (\<lambda>f. fst f \<notin> set applied) fs)" by blast
      have "st' = st2" and "r = map_sum id Suc r2" using Cons.prems False f one Inr rest by auto
      then show ?thesis using k res Inr False f
        by (intro exI [of _ "Suc k"]) (auto split: sum.splits)
    qed
  qed
qed

lemma apply_all_none: "list_all (\<lambda>f. fst f \<in> set applied) fs \<Longrightarrow> apply_all exec e applied fs st = (Inr 0, st)"
  by (induction fs) auto


text \<open>A server that keeps the bodies it executed, and refuses one that is there already.\<close>

definition ex_exec :: "string list exec_sql" where
  "ex_exec s body = (if body \<in> set s then Inl (Some ''42P07'') else Inr (s @ [body]))"


text \<open>A file of which one object exists is recorded as applied although nothing of it was executed.\<close>

lemma skipped_migration_recorded:
  "exec s body = Inl (Some ''42P07'') \<Longrightarrow>
   applyOne exec (quiet 0) \<lparr>md_schema = s, md_applied = []\<rparr> name body = (Inr False, \<lparr>md_schema = s, md_applied = [name]\<rparr>)"
  by (simp add: applyOne_def record_version_def alreadyExistsCodes_def)

section \<open>Properties of the tool\<close>

text \<open>The tool checks owners' passwords like the service, as its comment says.\<close>

theorem owner_password_rule: "is_ok (validateOwnerPassword p) = is_ok (validatePasswordForRole RoleOwner p)"
  by (simp add: validateOwnerPassword_def validatePasswordForRole_def is_ok_def split: prod.splits)

text \<open>An owner is created under the rules of the table, or nothing changes.\<close>

theorem admin_created:
  assumes "admin_create pr line hidden url mig e newID d f = (r, d')" and "users_wf d" and "find_user d newID = None"
  shows "users_wf d' \<and> (d' = d \<or> (owned d' \<and> (\<exists>u. users d' = users d @ [u] \<and> u_Role u = RoleOwner \<and> u_ID u = newID)))
     \<and> (is_ok r \<longrightarrow> d' \<noteq> d)"
proof -
  have "(\<not> is_ok r \<and> d' = d) \<or> (\<exists>email name hash. insert_owner e d (new_user e newID email name hash RoleOwner) = (r, d'))"
    using assms(1) by (auto simp: admin_create_def is_ok_def split: sum.splits prod.splits if_splits option.splits)
  then show ?thesis
  proof
    assume "\<exists>email name hash. insert_owner e d (new_user e newID email name hash RoleOwner) = (r, d')"
    then obtain email name hash where ins: "insert_owner e d (new_user e newID email name hash RoleOwner) = (r, d')" by blast
    let ?u = "new_user e newID email name hash RoleOwner"
    show ?thesis
    proof (cases "insert_user e ''cli.insert'' d ?u = Inr d' \<and> d' \<noteq> d")
      case True
      then have d': "users d' = users d @ [?u]" and "\<forall>v \<in> set (users d). u_ID v \<noteq> newID \<and> \<not> equal_fold (u_Email v) email \<and> u_Username v \<noteq> name"
        by (auto simp: insert_user_def new_user_def split: if_splits)
      then have "users_wf d'" using assms(2)
        by (auto simp: users_wf_def unique_on_append_row equal_fold_def new_user_def)
      then show ?thesis using d' True by (auto simp: owned_def active_owner_def new_user_def)
    next
      case False
      then have same: "d' = d" using ins
        by (auto simp: insert_owner_def split: if_splits sum.splits option.splits)
      moreover have "\<not> is_ok r"
      proof
        assume "is_ok r"
        then obtain v where "List.find (\<lambda>v. equal_fold (u_Email v) email) (users d) = Some v" and "u_ID v = newID"
          using ins same by (auto simp: insert_owner_def is_ok_def new_user_def call_def split: if_splits sum.splits option.splits)
        then have "v \<in> set (users d) \<and> u_ID v = newID" using find_SomeD by metis
        then show False using assms(3) by (auto simp: find_user_def find_None_iff)
      qed
      ultimately show ?thesis using assms(2) by simp
    qed
  qed (use assms(2) in auto)
qed

text \<open>A token printed by the tool is valid for a minute to a day, for a node with a name.\<close>

theorem enrolled_by_tool:
  assumes "node_enroll pr url mig e newID buf d name k ttl = (Inr token, d')"
  shows "\<exists>enr. node_enrollments d' = node_enrollments d @ [enr] \<and> e_NodeName enr \<noteq> '''' \<and> e_MaxServers enr = k
     \<and> now e + minute \<le> e_ExpiresAt enr \<and> e_ExpiresAt enr \<le> now e + 24 * hour \<and> e_UsedAt enr = None \<and> e_CreatedBy enr = None"
  using assms
  by (auto simp: node_enroll_def enroll_create_def Let_def split_beta minute_def second_def split: if_splits sum.splits)

end
