(* ===== verification/Certificates.thy ===== *)
theory Certificates
  imports Settings NodeHandlers Netip
begin

text \<open>
  \<^verbatim>\<open>pki/pki.go\<close>: the certificate authority of the panel.  What \<^verbatim>\<open>crypto/x509\<close>, \<^verbatim>\<open>crypto/ecdsa\<close> and
  \<^verbatim>\<open>encoding/pem\<close> do is the record \<open>x509_lib\<close> of functions over abstract types of certificates, requests,
  private and public keys.  Keys and serial numbers that are drawn at random are arguments.  The theory
  ends with the certificates the handler of \<^verbatim>\<open>handlers/node_csr.go\<close> gives to daemons.
\<close>

section \<open>Data\<close>

definition caValidity :: int where "caValidity = 10 * 365 * 24 * hour"
definition leafValidity :: int where "leafValidity = 2 * 365 * 24 * hour"
definition clockSkew :: int where "clockSkew = 5 * minute"

record CA =
  ca_CertPEM :: string
  ca_KeyPEM :: string

text \<open>A template, with the fields the code sets; the key usages and extended usages are lists of their names.\<close>

record cert_template =
  ct_Serial :: int
  ct_CommonName :: string
  ct_Organization :: "string list"
  ct_DNSNames :: "string list"
  ct_IPAddresses :: "Addr list"
  ct_NotBefore :: time
  ct_NotAfter :: time
  ct_KeyUsage :: "string list"
  ct_ExtKeyUsage :: "string list"
  ct_BasicConstraintsValid :: bool
  ct_IsCA :: bool
  ct_MaxPathLenZero :: bool

text \<open>\<open>px_decode\<close> gives type and bytes of the first PEM block; \<open>px_ecdsa\<close> and \<open>px_p256\<close> are the type
  assertions of a private key and of a public key with its curve; \<open>px_create\<close> issues a certificate, which is
  self-signed when the parent is \<open>None\<close>.\<close>

record ('cert, 'csr, 'pub, 'key) x509_lib =
  px_decode :: "string \<Rightarrow> (string \<times> string) option"
  px_encode :: "string \<Rightarrow> string \<Rightarrow> string"
  px_parseCSR :: "string \<Rightarrow> 'csr result"
  px_checkSignature :: "'csr \<Rightarrow> unit result"
  px_csrKey :: "'csr \<Rightarrow> 'pub"
  px_p256 :: "'pub \<Rightarrow> bool"
  px_parseCert :: "string \<Rightarrow> 'cert result"
  px_parseKey :: "string \<Rightarrow> 'key result"
  px_ecdsa :: "'key \<Rightarrow> bool"
  px_public :: "'key \<Rightarrow> 'pub"
  px_marshalKey :: "'key \<Rightarrow> string result"
  px_create :: "cert_template \<Rightarrow> 'cert option \<Rightarrow> 'pub \<Rightarrow> 'key \<Rightarrow> string result"

section \<open>The authority\<close>

text \<open>The number drawn is below \<open>2 ^ 128\<close>.\<close>

definition randomSerial :: "env \<Rightarrow> int \<Rightarrow> int result" where
  "randomSerial e n = wrapping ''generating serial'' (call e ''rand.Int'' (n mod 2 ^ 128))"

definition encodeKey :: "('cert, 'csr, 'pub, 'key) x509_lib \<Rightarrow> 'key \<Rightarrow> string result" where
  "encodeKey px key =
     and_then (wrapping ''marshaling key'' (px_marshalKey px key)) (\<lambda>der. Inr (px_encode px ''PRIVATE KEY'' der))"

definition ca_template :: "env \<Rightarrow> int \<Rightarrow> int \<Rightarrow> cert_template" where
  "ca_template e serial validFor = \<lparr>ct_Serial = serial, ct_CommonName = ''TalePanel Root CA'', ct_Organization = [''TalePanel''],
     ct_DNSNames = [], ct_IPAddresses = [], ct_NotBefore = now e - clockSkew, ct_NotAfter = now e + validFor,
     ct_KeyUsage = [''CertSign'', ''CRLSign''], ct_ExtKeyUsage = [], ct_BasicConstraintsValid = True, ct_IsCA = True,
     ct_MaxPathLenZero = True\<rparr>"

definition generateCA :: "('cert, 'csr, 'pub, 'key) x509_lib \<Rightarrow> env \<Rightarrow> 'key \<Rightarrow> int \<Rightarrow> int \<Rightarrow> CA result" where
  "generateCA px e newKey n validFor =
     and_then (wrapping ''generating CA key'' (call e ''ca.key'' newKey)) (\<lambda>key.
     and_then (randomSerial e n) (\<lambda>serial.
     and_then (wrapping ''creating CA certificate'' (px_create px (ca_template e serial validFor) None (px_public px key) key)) (\<lambda>der.
     and_then (encodeKey px key) (\<lambda>keyPEM.
       Inr \<lparr>ca_CertPEM = px_encode px ''CERTIFICATE'' der, ca_KeyPEM = keyPEM\<rparr>))))"

definition GenerateCA :: "('cert, 'csr, 'pub, 'key) x509_lib \<Rightarrow> env \<Rightarrow> 'key \<Rightarrow> int \<Rightarrow> CA result" where
  "GenerateCA px e newKey n = generateCA px e newKey n caValidity"

definition ParseCSR :: "('cert, 'csr, 'pub, 'key) x509_lib \<Rightarrow> string \<Rightarrow> 'csr result" where
  "ParseCSR px pemBytes =
     (case px_decode px pemBytes of
        None \<Rightarrow> Inl (New ''no CERTIFICATE REQUEST PEM block'')
      | Some (typ, der) \<Rightarrow>
          if typ \<noteq> ''CERTIFICATE REQUEST'' then Inl (New ''no CERTIFICATE REQUEST PEM block'')
          else and_then (wrapping ''parsing CSR'' (px_parseCSR px der)) (\<lambda>csr.
               and_then (wrapping ''CSR signature invalid'' (px_checkSignature px csr)) (\<lambda>_. Inr csr)))"

definition ca_parse :: "('cert, 'csr, 'pub, 'key) x509_lib \<Rightarrow> CA \<Rightarrow> ('cert \<times> 'key) result" where
  "ca_parse px ca =
     (case px_decode px (ca_CertPEM ca) of
        None \<Rightarrow> Inl (New ''invalid CA certificate PEM'')
      | Some (_, cb) \<Rightarrow> and_then (wrapping ''parsing CA certificate'' (px_parseCert px cb)) (\<lambda>cert.
          case px_decode px (ca_KeyPEM ca) of
            None \<Rightarrow> Inl (New ''invalid CA key PEM'')
          | Some (_, kb) \<Rightarrow> and_then (wrapping ''parsing CA key'' (px_parseKey px kb)) (\<lambda>key.
              if \<not> px_ecdsa px key then Inl (New ''CA key is not ECDSA'') else Inr (cert, key))))"

section \<open>Leaf certificates\<close>

text \<open>\<^verbatim>\<open>net.ParseIP\<close> reads what \<^verbatim>\<open>netip.ParseAddr\<close> reads, without zones.\<close>

definition ParseIP :: "string \<Rightarrow> Addr option" where
  "ParseIP s = (case ParseAddr s of None \<Rightarrow> None | Some a \<Rightarrow> if Zone a = [] then Some a else None)"

fun split_sans :: "string list \<Rightarrow> string list \<times> Addr list" where
  "split_sans [] = ([], [])"
| "split_sans (san # sans) =
     (case split_sans sans of (dnsNames, ips) \<Rightarrow>
        (case ParseIP san of Some ip \<Rightarrow> (dnsNames, ip # ips) | None \<Rightarrow> (san # dnsNames, ips)))"

definition leaf_template :: "env \<Rightarrow> int \<Rightarrow> string \<Rightarrow> string list \<Rightarrow> int \<Rightarrow> cert_template" where
  "leaf_template e serial cn sans validFor = \<lparr>ct_Serial = serial, ct_CommonName = cn, ct_Organization = [],
     ct_DNSNames = fst (split_sans sans), ct_IPAddresses = snd (split_sans sans), ct_NotBefore = now e - clockSkew,
     ct_NotAfter = (now e + validFor) - (now e + validFor) mod second,
     ct_KeyUsage = [''DigitalSignature''], ct_ExtKeyUsage = [''ClientAuth'', ''ServerAuth''],
     ct_BasicConstraintsValid = True, ct_IsCA = False, ct_MaxPathLenZero = False\<rparr>"

text \<open>\<^verbatim>\<open>serial.Text(16)\<close>.\<close>

function hex_text :: "int \<Rightarrow> string" where
  "hex_text n = (if n < 16 then [hex_digit (nat n)] else hex_text (n div 16) @ [hex_digit (nat (n mod 16))])"
  by auto
termination by (relation "measure nat") auto

declare hex_text.simps [simp del]

definition ca_sign ::
  "('cert, 'csr, 'pub, 'key) x509_lib \<Rightarrow> env \<Rightarrow> int \<Rightarrow> CA \<Rightarrow> 'pub \<Rightarrow> string \<Rightarrow> string list \<Rightarrow> int
     \<Rightarrow> (string \<times> string \<times> time) result" where
  "ca_sign px e n ca pub cn sans validFor =
     and_then (ca_parse px ca) (\<lambda>(caCert, caKey).
     and_then (randomSerial e n) (\<lambda>serial.
       let tmpl = leaf_template e serial cn sans validFor
       in and_then (wrapping ''signing certificate'' (px_create px tmpl (Some caCert) pub caKey)) (\<lambda>der.
            Inr (px_encode px ''CERTIFICATE'' der, hex_text serial, ct_NotAfter tmpl))))"

definition ca_SignCSR ::
  "('cert, 'csr, 'pub, 'key) x509_lib \<Rightarrow> env \<Rightarrow> int \<Rightarrow> CA \<Rightarrow> string \<Rightarrow> string \<Rightarrow> string list \<Rightarrow> int
     \<Rightarrow> (string \<times> string \<times> time) result" where
  "ca_SignCSR px e n ca csrPEM cn sans validFor =
     (if cn = '''' then Inl (New ''empty certificate CN'')
      else if validFor \<le> 0 then Inl (New ''certificate validity must be positive'')
      else and_then (ParseCSR px csrPEM) (\<lambda>csr.
        if \<not> px_p256 px (px_csrKey px csr) then Inl (New ''CSR key must be ECDSA P-256'')
        else ca_sign px e n ca (px_csrKey px csr) cn sans validFor))"

definition IssueClientCert ::
  "('cert, 'csr, 'pub, 'key) x509_lib \<Rightarrow> env \<Rightarrow> 'key \<Rightarrow> int \<Rightarrow> CA \<Rightarrow> string \<Rightarrow> (string \<times> string) result" where
  "IssueClientCert px e newKey n ca cn =
     and_then (wrapping ''generating key'' (call e ''client.key'' newKey)) (\<lambda>key.
     and_then (ca_sign px e n ca (px_public px key) cn [] leafValidity) (\<lambda>(certPEM, _, _).
     and_then (encodeKey px key) (\<lambda>keyPEM. Inr (certPEM, keyPEM))))"

section \<open>Properties\<close>

text \<open>No authority signs with anything but its own key, and every name given to a leaf is among its subject
  names, once as a name or as an address.\<close>

lemma split_sans_filter:
  "fst (split_sans sans) = filter (\<lambda>s. ParseIP s = None) sans"
  "snd (split_sans sans) = List.map_filter ParseIP sans"
  by (induction sans) (auto simp: map_filter_def split: prod.splits option.splits)

lemma ca_sign_result:
  assumes "ca_sign px e n ca pub cn sans validFor = Inr (cert, serial, notAfter)"
  shows "\<exists>caCert caKey der. ca_parse px ca = Inr (caCert, caKey) \<and> cert = px_encode px ''CERTIFICATE'' der
     \<and> px_create px (leaf_template e (n mod 2 ^ 128) cn sans validFor) (Some caCert) pub caKey = Inr der
     \<and> serial = hex_text (n mod 2 ^ 128) \<and> notAfter = ct_NotAfter (leaf_template e (n mod 2 ^ 128) cn sans validFor)"
  using assms
  by (auto simp: ca_sign_def and_then_Inr randomSerial_def call_def Let_def split: if_splits)

lemma leaf_expiry:
  "ct_NotAfter (leaf_template e n cn sans v) \<le> now e + v \<and> now e + v < ct_NotAfter (leaf_template e n cn sans v) + second"
  by (simp add: leaf_template_def second_def)

text \<open>The handler with the authority: \<open>ca\<close> is the stored pair.\<close>

definition handled_CSR ::
  "('cert, 'csr, 'pub, 'key) x509_lib \<Rightarrow> int \<Rightarrow> (uuid \<Rightarrow> string) \<Rightarrow> CA result \<Rightarrow> env \<Rightarrow> db \<Rightarrow> uuid option \<Rightarrow> uuid option
     \<Rightarrow> string result \<Rightarrow> (string \<times> string) response \<times> db" where
  "handled_CSR px n str ca e d param authed body =
     SignCSR (\<lambda>pem. is_ok (ParseCSR px pem))
       (\<lambda>csr cn sans validFor. case ca of Inl _ \<Rightarrow> None
          | Inr c \<Rightarrow> (case ca_SignCSR px e n c csr cn sans validFor of Inl _ \<Rightarrow> None | Inr r \<Rightarrow> Some r))
       str (map_sum id ca_CertPEM ca) e d param authed body"

lemma ca_SignCSR_result:
  assumes "ca_SignCSR px e n ca csrPEM cn sans validFor = Inr (cert, serial, notAfter)"
  shows "\<exists>csr. ParseCSR px csrPEM = Inr csr \<and> px_p256 px (px_csrKey px csr)
     \<and> ca_sign px e n ca (px_csrKey px csr) cn sans validFor = Inr (cert, serial, notAfter)"
  using assms by (auto simp: ca_SignCSR_def and_then_Inr split: if_splits)

lemma handled_CSR_reply:
  assumes "handled_CSR px n str ca e d param authed body = (Reply 200 (caPEM, cert), d')"
  shows "\<exists>c nodeID node field serial notAfter. ca = Inr c \<and> caPEM = ca_CertPEM c \<and> param = Some nodeID \<and> authed = Some nodeID
     \<and> find_node d nodeID = Some node \<and> body = Inr field
     \<and> ca_SignCSR px e n c (decodeCSRField field) (str nodeID) [sanFromFQDN (n_FQDN node)] leafValidity = Inr (cert, serial, notAfter)
     \<and> d' = d\<lparr>nodes := update_where (\<lambda>n. n_ID n = nodeID) (\<lambda>n. n\<lparr>n_CertSerial := Some serial, n_CertNotAfter := Some notAfter\<rparr>) (nodes d)\<rparr>"
  using assms
  by (auto simp: handled_CSR_def SignCSR_def Let_def leafValidity_def split: if_splits option.splits sum.splits)

lemma ParseCSR_signed: "ParseCSR px pem = Inr csr \<Longrightarrow> px_checkSignature px csr = Inr ()"
  by (auto simp: ParseCSR_def and_then_Inr split: option.splits if_splits prod.splits)

lemma find_node_update:
  assumes "\<And>n. n_ID (f n) = n_ID n"
  shows "find_node (d\<lparr>nodes := update_where (\<lambda>n. n_ID n = i) f (nodes d)\<rparr>) j
     = (if j = i then map_option f (find_node d i) else find_node d j)"
proof -
  have "List.find (\<lambda>n. n_ID n = j) (update_where (\<lambda>n. n_ID n = i) f t)
      = (if j = i then map_option f (List.find (\<lambda>n. n_ID n = i) t) else List.find (\<lambda>n. n_ID n = j) t)" for t
    by (induction t) (auto simp add: update_where_def assms)
  then show ?thesis by (simp add: find_node_def)
qed

text \<open>[C40] What a daemon gets for a request is bound to its identity.  An answer of the signing handler is a
  certificate the stored authority made with its own key for the public key of the request, which is on P-256 and has
  signed the request; its common name is the id of the node whose token was sent, its only subject name the registered
  address of that node; it is no authority itself and expires within two years; and its serial and expiry are recorded
  with that node and no other.\<close>

theorem node_certificate_bound:
  assumes "handled_CSR px n str ca e d param authed body = (Reply 200 (caPEM, cert), d')"
  shows "\<exists>c caCert caKey nodeID node csr der tmpl. ca = Inr c \<and> ca_parse px c = Inr (caCert, caKey) \<and> caPEM = ca_CertPEM c
     \<and> authed = Some nodeID \<and> find_node d nodeID = Some node
     \<and> (\<exists>field. body = Inr field \<and> ParseCSR px (decodeCSRField field) = Inr csr) \<and> px_checkSignature px csr = Inr ()
     \<and> px_p256 px (px_csrKey px csr)
     \<and> px_create px tmpl (Some caCert) (px_csrKey px csr) caKey = Inr der \<and> cert = px_encode px ''CERTIFICATE'' der
     \<and> ct_CommonName tmpl = str nodeID \<and> \<not> ct_IsCA tmpl \<and> ''CertSign'' \<notin> set (ct_KeyUsage tmpl)
     \<and> (ct_DNSNames tmpl, ct_IPAddresses tmpl) = split_sans [sanFromFQDN (n_FQDN node)]
     \<and> ct_NotBefore tmpl < now e \<and> ct_NotAfter tmpl \<le> now e + 2 * 365 * 24 * hour
     \<and> (\<forall>id. find_node d' id = (if id = nodeID
          then Some (node\<lparr>n_CertSerial := Some (hex_text (ct_Serial tmpl)), n_CertNotAfter := Some (ct_NotAfter tmpl)\<rparr>)
          else find_node d id))"
proof -
  from handled_CSR_reply [OF assms] obtain c nodeID node field serial notAfter where
    a: "ca = Inr c" "caPEM = ca_CertPEM c" "authed = Some nodeID" "find_node d nodeID = Some node" "body = Inr field"
    and sign: "ca_SignCSR px e n c (decodeCSRField field) (str nodeID) [sanFromFQDN (n_FQDN node)] leafValidity
      = Inr (cert, serial, notAfter)"
    and d': "d' = d\<lparr>nodes := update_where (\<lambda>n. n_ID n = nodeID)
      (\<lambda>n. n\<lparr>n_CertSerial := Some serial, n_CertNotAfter := Some notAfter\<rparr>) (nodes d)\<rparr>" by blast
  from ca_SignCSR_result [OF sign] obtain csr where
    csr: "ParseCSR px (decodeCSRField field) = Inr csr" "px_p256 px (px_csrKey px csr)"
    and leaf: "ca_sign px e n c (px_csrKey px csr) (str nodeID) [sanFromFQDN (n_FQDN node)] leafValidity
      = Inr (cert, serial, notAfter)" by blast
  let ?t = "leaf_template e (n mod 2 ^ 128) (str nodeID) [sanFromFQDN (n_FQDN node)] leafValidity"
  from ca_sign_result [OF leaf] obtain caCert caKey der where
    s: "ca_parse px c = Inr (caCert, caKey)" "cert = px_encode px ''CERTIFICATE'' der"
      "px_create px ?t (Some caCert) (px_csrKey px csr) caKey = Inr der"
      "serial = hex_text (n mod 2 ^ 128)" "notAfter = ct_NotAfter ?t" by blast
  have t: "ct_CommonName ?t = str nodeID" "\<not> ct_IsCA ?t" "''CertSign'' \<notin> set (ct_KeyUsage ?t)"
      "(ct_DNSNames ?t, ct_IPAddresses ?t) = split_sans [sanFromFQDN (n_FQDN node)]" "ct_NotBefore ?t < now e"
      "ct_NotAfter ?t \<le> now e + 2 * 365 * 24 * hour" "ct_Serial ?t = n mod 2 ^ 128"
    using leaf_expiry [of e "n mod 2 ^ 128" "str nodeID" "[sanFromFQDN (n_FQDN node)]" leafValidity]
    by (simp_all add: leaf_template_def clockSkew_def leafValidity_def minute_def second_def)
  have rows: "find_node d' id = (if id = nodeID
      then Some (node\<lparr>n_CertSerial := Some serial, n_CertNotAfter := Some notAfter\<rparr>) else find_node d id)" for id
    using d' a(4) find_node_update by auto
  show ?thesis
    by (rule exI [of _ c], rule exI [of _ caCert], rule exI [of _ caKey], rule exI [of _ nodeID], rule exI [of _ node],
        rule exI [of _ csr], rule exI [of _ der], rule exI [of _ ?t])
      (use a csr s t rows ParseCSR_signed [OF csr(1)] in simp)
qed

text \<open>A library in which a PEM block is its type, a newline and its bytes, and a certificate names its template, its
  key and the key that signed it.\<close>

definition ex_decode :: "string \<Rightarrow> (string \<times> string) option" where
  "ex_decode s = (let t = takeWhile (\<lambda>c. c \<noteq> CHR 0x0A) s in if t = s then None else Some (t, drop (Suc (length t)) s))"

definition ex_x509 :: "(string, string, string, string) x509_lib" where
  "ex_x509 = \<lparr>px_decode = ex_decode, px_encode = (\<lambda>t b. t @ CHR 0x0A # b), px_parseCSR = Inr, px_checkSignature = (\<lambda>_. Inr ()),
     px_csrKey = id, px_p256 = (\<lambda>k. k \<noteq> ''rsa''), px_parseCert = Inr, px_parseKey = Inr, px_ecdsa = (\<lambda>_. True), px_public = id,
     px_marshalKey = Inr, px_create = (\<lambda>t c p k. Inr (ct_CommonName t @ '':'' @ p @ '':'' @ k))\<rparr>"

definition ex_ca :: CA where
  "ex_ca = \<lparr>ca_CertPEM = ''CERTIFICATE'' @ CHR 0x0A # ''root'', ca_KeyPEM = ''PRIVATE KEY'' @ CHR 0x0A # ''secret''\<rparr>"

definition ex_enrolled :: db where
  "ex_enrolled = empty_db\<lparr>nodes := [\<lparr>n_ID = 7, n_Name = ''edge'', n_FQDN = ''edge.example.org'', n_PublicAddress = None, n_Port = 8444,
     n_TotalCPU = 8, n_TotalRAMMB = 32768, n_TotalDiskMB = 500000, n_MaxServers = 2, n_TokenHash = ''h'', n_Status = ''online'',
     n_Location = None, n_CertThumbprint = None, n_LastHeartbeat = None, n_CreatedAt = 0, n_MTLSEnabled = False,
     n_CertSerial = None, n_CertNotAfter = None\<rparr>]\<rparr>"

definition ex_signed :: "(string \<times> string) response \<times> db" where
  "ex_signed = handled_CSR ex_x509 255 dec_nat (Inr ex_ca) (quiet 0) ex_enrolled (Some 7) (Some 7)
     (Inr (''CERTIFICATE REQUEST'' @ CHR 0x0A # ''key''))"

theorem node_certificate_bound_witness:
  "fst ex_signed = Reply 200 (''CERTIFICATE'' @ CHR 0x0A # ''root'', ''CERTIFICATE'' @ CHR 0x0A # ''7:key:secret'')
     \<and> (\<exists>csr. \<exists>tmpl :: cert_template. px_p256 ex_x509 (px_csrKey ex_x509 csr) \<and> ct_CommonName tmpl = ''7'' \<and> \<not> ct_IsCA tmpl
        \<and> (ct_DNSNames tmpl, ct_IPAddresses tmpl) = ([''edge.example.org''], [])
        \<and> find_node (snd ex_signed) 7 = Some ((hd (nodes ex_enrolled))\<lparr>n_CertSerial := Some (hex_text (ct_Serial tmpl)),
             n_CertNotAfter := Some (ct_NotAfter tmpl)\<rparr>))"
proof -
  have reply: "fst ex_signed = Reply 200 (''CERTIFICATE'' @ CHR 0x0A # ''root'', ''CERTIFICATE'' @ CHR 0x0A # ''7:key:secret'')"
    by code_simp
  then have "ex_signed = (Reply 200 (''CERTIFICATE'' @ CHR 0x0A # ''root'', ''CERTIFICATE'' @ CHR 0x0A # ''7:key:secret''), snd ex_signed)"
    by (metis prod.collapse)
  note bound = node_certificate_bound [OF this [unfolded ex_signed_def], folded ex_signed_def]
  have node: "find_node ex_enrolled 7 = Some (hd (nodes ex_enrolled))" by code_simp
  have san: "split_sans [sanFromFQDN (n_FQDN (hd (nodes ex_enrolled)))] = ([''edge.example.org''], [])" by code_simp
  have num: "dec_nat 7 = ''7''" by code_simp
  from bound obtain nodeID n csr and tmpl :: cert_template where b: "Some 7 = Some nodeID" "find_node ex_enrolled nodeID = Some n"
      "px_p256 ex_x509 (px_csrKey ex_x509 csr)" "ct_CommonName tmpl = dec_nat nodeID" "\<not> ct_IsCA tmpl"
      "(ct_DNSNames tmpl, ct_IPAddresses tmpl) = split_sans [sanFromFQDN (n_FQDN n)]"
      "\<forall>id. find_node (snd ex_signed) id = (if id = nodeID
         then Some (n\<lparr>n_CertSerial := Some (hex_text (ct_Serial tmpl)), n_CertNotAfter := Some (ct_NotAfter tmpl)\<rparr>)
         else find_node ex_enrolled id)"
    by blast
  then have "n = hd (nodes ex_enrolled)" using node by simp
  with b num san reply show ?thesis by (intro conjI exI [of _ csr] exI [of _ tmpl]) simp_all
qed

section \<open>The panel's own certificates\<close>

text \<open>PEM blocks, keys and certificates are read back, which is what the packages document.\<close>

definition x509_reads_back :: "('cert, 'csr, 'pub, 'key) x509_lib \<Rightarrow> bool" where
  "x509_reads_back px \<longleftrightarrow> (\<forall>t b. px_decode px (px_encode px t b) = Some (t, b))
     \<and> (\<forall>key der. px_marshalKey px key = Inr der \<longrightarrow> px_parseKey px der = Inr key)
     \<and> (\<forall>t c pub key der. px_create px t c pub key = Inr der \<longrightarrow> (\<exists>cert. px_parseCert px der = Inr cert))"

text \<open>An authority that was generated is one that can be loaded again and signs with the key it was generated with.\<close>

theorem generated_authority_loads:
  assumes "x509_reads_back px" and "px_ecdsa px key" and "GenerateCA px e key n = Inr ca"
  shows "\<exists>cert. ca_parse px ca = Inr (cert, key)"
proof -
  obtain der kder where created: "px_create px (ca_template e (n mod 2 ^ 128) caValidity) None (px_public px key) key = Inr der"
    and kder: "px_marshalKey px key = Inr kder"
    and ca: "ca = \<lparr>ca_CertPEM = px_encode px ''CERTIFICATE'' der, ca_KeyPEM = px_encode px ''PRIVATE KEY'' kder\<rparr>"
    using assms(3)
    by (auto simp: GenerateCA_def generateCA_def and_then_Inr randomSerial_def call_def encodeKey_def split: if_splits)
  from assms(1) created obtain cert where "px_parseCert px der = Inr cert" unfolding x509_reads_back_def by blast
  moreover have "px_parseKey px kder = Inr key" "px_decode px (ca_CertPEM ca) = Some (''CERTIFICATE'', der)"
      "px_decode px (ca_KeyPEM ca) = Some (''PRIVATE KEY'', kder)"
    using assms(1) kder ca unfolding x509_reads_back_def by auto
  ultimately show ?thesis using assms(2) by (simp add: ca_parse_def wrapping_def)
qed

text \<open>The certificate the panel shows to daemons has its fresh key, no subject names and two years.\<close>

theorem panel_certificate_issued:
  assumes "IssueClientCert px e key n ca cn = Inr (cert, keyPEM)"
  shows "\<exists>caCert caKey der. ca_parse px ca = Inr (caCert, caKey) \<and> encodeKey px key = Inr keyPEM
     \<and> px_create px (leaf_template e (n mod 2 ^ 128) cn [] leafValidity) (Some caCert) (px_public px key) caKey = Inr der
     \<and> cert = px_encode px ''CERTIFICATE'' der"
proof -
  from assms obtain serial notAfter where
    leaf: "ca_sign px e n ca (px_public px key) cn [] leafValidity = Inr (cert, serial, notAfter)"
    and "encodeKey px key = Inr keyPEM"
    by (auto simp: IssueClientCert_def and_then_Inr call_def split: if_splits)
  then show ?thesis using ca_sign_result [OF leaf] by blast
qed

end
