(* ===== verification/Delivery.thy ===== *)
theory Delivery
  imports Alerts Http SettingsRules
begin

text \<open>
  How a notification leaves the panel: \<^verbatim>\<open>alerting/notifier.go\<close>, the posts to webhooks and to Discord, and
  the mails of \<^verbatim>\<open>alerting/smtp.go\<close>.  The HTTP client and \<^verbatim>\<open>go-mail\<close> are parameters; \<open>tz\<close> is the offset of the
  local time zone and \<open>str\<close> the text of an id.  What the functions only log is a list of warnings.
\<close>

section \<open>Times as text\<close>

definition zone_text :: "(int \<Rightarrow> int) \<Rightarrow> time \<Rightarrow> string" where
  "zone_text tz t =
     (let off = tz t div minute
      in if off = 0 then ''Z''
         else (if off < 0 then ''-'' else ''+'') @ pad 2 (\<bar>off\<bar> div 60) @ '':'' @ pad 2 (\<bar>off\<bar> mod 60))"

definition local_seconds :: "(int \<Rightarrow> int) \<Rightarrow> time \<Rightarrow> string" where
  "local_seconds tz t =
     (case civil (days_of tz t) of (y, m, d) \<Rightarrow>
        pad 4 y @ ''-'' @ pad 2 m @ ''-'' @ pad 2 d @ ''T'' @ pad 2 (hour_of tz t) @ '':'' @ pad 2 (minute_of tz t) @ '':''
        @ pad 2 (t div second mod 60))"

text \<open>\<^verbatim>\<open>time.RFC3339\<close>, and \<^verbatim>\<open>time.RFC3339Nano\<close>, which \<^verbatim>\<open>encoding/json\<close> writes: the fraction without its
  trailing zeros.\<close>

definition local_RFC3339 :: "(int \<Rightarrow> int) \<Rightarrow> time \<Rightarrow> string" where
  "local_RFC3339 tz t = local_seconds tz t @ zone_text tz t"

definition local_RFC3339Nano :: "(int \<Rightarrow> int) \<Rightarrow> time \<Rightarrow> string" where
  "local_RFC3339Nano tz t =
     (let frac = rev (dropWhile (\<lambda>c. c = CHR ''0'') (rev (pad 9 (t mod second))))
      in local_seconds tz t @ (if frac = '''' then '''' else ''.'' @ frac) @ zone_text tz t)"

section \<open>Webhooks\<close>

text \<open>Every error of the client is a \<^verbatim>\<open>*url.Error\<close>.\<close>

record url_error =
  ue_Op :: string
  ue_URL :: string
  ue_Err :: go_error

definition url_error_text :: "url_error \<Rightarrow> string" where
  "url_error_text u = ue_Op u @ '' '' @ quoted (ue_URL u) @ '': '' @ Error (ue_Err u)"

definition redactURLError :: "url_error \<Rightarrow> go_error" where
  "redactURLError u = Wrap (ue_Op u) (ue_Err u)"

definition discord_body :: "(int \<Rightarrow> int) \<Rightarrow> (uuid \<Rightarrow> string) \<Rightarrow> NotificationPayload \<Rightarrow> json" where
  "discord_body tz str p =
     (let color = (if nt_Severity p = ''critical'' then 0xE74C3C else 0xE67E22);
          field = (\<lambda>name v. JObj [(''inline'', JBool True), (''name'', JStr name), (''value'', JStr v)])
      in JObj [(''embeds'', JArr [JObj
           [(''color'', JNum (dec color)), (''description'', JStr (nt_Message p)),
            (''fields'', JArr [field ''Subject'' (str (nt_SubjectID p)), field ''Fired at'' (local_RFC3339 tz (nt_FiredAt p))]),
            (''title'', JStr (''['' @ nt_Severity p @ ''] '' @ nt_RuleType p))]])])"

definition webhook_body :: "(int \<Rightarrow> int) \<Rightarrow> (uuid \<Rightarrow> string) \<Rightarrow> NotificationPayload \<Rightarrow> json" where
  "webhook_body tz str p = JObj
     [(''rule_type'', JStr (nt_RuleType p)), (''severity'', JStr (nt_Severity p)), (''message'', JStr (nt_Message p)),
      (''fired_at'', JStr (local_RFC3339Nano tz (nt_FiredAt p))), (''subject_id'', JStr (str (nt_SubjectID p)))]"

text \<open>The part both notifiers share; \<open>what\<close> is the word they log.  Creating the request fails for a URL that does
  not parse (\<open>url_ok\<close>).\<close>

type_synonym 'p client = "'p \<Rightarrow> HttpRequest \<Rightarrow> (url_error + HttpResponse) \<times> 'p"

definition post_json :: "string \<Rightarrow> (string \<Rightarrow> bool) \<Rightarrow> 'p client \<Rightarrow> json \<Rightarrow> string \<Rightarrow> 'p \<Rightarrow> string list \<times> 'p" where
  "post_json what url_ok client body url p =
     (if \<not> url_ok url then ([''alert '' @ what @ '': request creation failed''], p)
      else (case client p \<lparr>rq_Method = ''POST'', rq_URL = url, rq_Header = [(''Content-Type'', ''application/json'')],
               rq_Body = json_text body\<rparr> of
          (Inl u, p') \<Rightarrow> ([''alert '' @ what @ '': post failed: '' @ Error (redactURLError u)], p')
        | (Inr resp, p') \<Rightarrow>
            (if rs_StatusCode resp \<ge> 300 then [''alert '' @ what @ '': non-2xx response: '' @ dec (rs_StatusCode resp)] else [], p')))"

definition discord_Post where
  "discord_Post tz str url_ok client payload url p =
     post_json ''discord'' url_ok client (discord_body tz str payload) url p"

definition webhook_Post where
  "webhook_Post tz str url_ok client payload url p =
     post_json ''webhook'' url_ok client (webhook_body tz str payload) url p"

section \<open>Mail\<close>

datatype TLSPolicy = NoTLS | TLSMandatory

definition tlsSettings :: "string \<Rightarrow> (bool \<times> TLSPolicy) result" where
  "tlsSettings mode =
     (if mode = SMTPTLSImplicit then Inr (True, NoTLS)
      else if mode = SMTPTLSStartTLS then Inr (False, TLSMandatory)
      else if mode = SMTPTLSNone then Inr (False, NoTLS)
      else Inl (New (''unknown tls mode '' @ quoted mode)))"

datatype mail_option = WithPort int | WithTimeout int | WithTLSPolicy TLSPolicy | WithSSL
  | WithSMTPAuthAutoDiscover | WithUsername string | WithPassword string

definition smtpConnTimeout :: int where "smtpConnTimeout = 10 * second"

definition clientOptions :: "SMTPConfig \<Rightarrow> mail_option list result" where
  "clientOptions cfg =
     and_then (tlsSettings (sc_TLSMode cfg)) (\<lambda>(implicitTLS, policy).
       Inr ([WithPort (sc_Port cfg), WithTimeout smtpConnTimeout, WithTLSPolicy policy]
         @ (if implicitTLS then [WithSSL] else [])
         @ (if sc_Username cfg \<noteq> ''''
            then [WithSMTPAuthAutoDiscover, WithUsername (sc_Username cfg), WithPassword (sc_Password cfg)] else [])))"

record mail_msg =
  mm_FromName :: string
  mm_FromAddress :: string
  mm_To :: string
  mm_Subject :: string
  mm_Body :: string

text \<open>What \<^verbatim>\<open>net/mail\<close> and \<^verbatim>\<open>go-mail\<close> do: reading an address, the checks of sender, recipient and client,
  and the delivery.\<close>

record 'p mailer =
  ml_parse :: "string \<Rightarrow> (string \<times> string) result"
  ml_from :: "string \<Rightarrow> string \<Rightarrow> unit result"
  ml_to :: "string \<Rightarrow> unit result"
  ml_client :: "string \<Rightarrow> mail_option list \<Rightarrow> unit result"
  ml_deliver :: "'p \<Rightarrow> string \<Rightarrow> mail_option list \<Rightarrow> mail_msg \<Rightarrow> unit result \<times> 'p"

text \<open>Everything of \<^verbatim>\<open>send\<close> before the connection: host, options and message.\<close>

definition prepare_mail ::
  "'p mailer \<Rightarrow> SMTPConfig \<Rightarrow> string \<Rightarrow> string \<Rightarrow> string \<Rightarrow> (string \<times> mail_option list \<times> mail_msg) result" where
  "prepare_mail ml cfg to subject body =
     and_then (wrapping ''invalid smtp settings'' (smtp_Validate (ml_parse ml) cfg)) (\<lambda>_.
     and_then (parseFromAddress (ml_parse ml) (sc_From cfg)) (\<lambda>(name, address).
     and_then (refuse_if (hasCRLF to) (New ''recipient address must not contain line breaks'')) (\<lambda>_.
     and_then (wrapping ''invalid from address'' (ml_from ml (sanitizeHeader name) address)) (\<lambda>_.
     and_then (wrapping ''invalid recipient address'' (ml_to ml to)) (\<lambda>_.
     and_then (clientOptions cfg) (\<lambda>opts.
     and_then (wrapping ''smtp client'' (ml_client ml (sc_Host cfg) opts)) (\<lambda>_.
       Inr (sc_Host cfg, opts, \<lparr>mm_FromName = sanitizeHeader name, mm_FromAddress = address, mm_To = to,
         mm_Subject = sanitizeHeader subject, mm_Body = body\<rparr>))))))))"

definition smtp_send :: "'p mailer \<Rightarrow> SMTPConfig \<Rightarrow> string \<Rightarrow> string \<Rightarrow> string \<Rightarrow> 'p \<Rightarrow> unit result \<times> 'p" where
  "smtp_send ml cfg to subject body p =
     (case prepare_mail ml cfg to subject body of Inl err \<Rightarrow> (Inl err, p) | Inr (host, opts, m) \<Rightarrow> ml_deliver ml p host opts m)"

text \<open>The subject has a dash, three bytes in UTF-8.\<close>

definition em_dash :: string where "em_dash = [CHR 0xE2, CHR 0x80, CHR 0x94]"

definition smtp_Send ::
  "(int \<Rightarrow> int) \<Rightarrow> (uuid \<Rightarrow> string) \<Rightarrow> 'p mailer \<Rightarrow> SMTPConfig \<Rightarrow> NotificationPayload \<Rightarrow> string \<Rightarrow> 'p \<Rightarrow> string list \<times> 'p" where
  "smtp_Send tz str ml cfg payload to p =
     (if \<not> smtp_Enabled cfg then ([], p)
      else (let nl = [CHR 0x0A];
                subject = ''[TalePanel Alert] '' @ nt_Severity payload @ '' '' @ em_dash @ '' '' @ nt_RuleType payload;
                body = ''Alert: '' @ nt_RuleType payload @ nl @ ''Severity: '' @ nt_Severity payload @ nl @ ''Message: ''
                  @ nt_Message payload @ nl @ ''Fired at: '' @ local_RFC3339 tz (nt_FiredAt payload) @ nl @ ''Subject: ''
                  @ str (nt_SubjectID payload)
            in case smtp_send ml cfg to subject body p of
                 (Inl err, p') \<Rightarrow> ([''alert smtp: send failed: '' @ Error err], p') | (Inr _, p') \<Rightarrow> ([], p')))"

definition SendTest :: "'p mailer \<Rightarrow> SMTPConfig \<Rightarrow> string \<Rightarrow> 'p \<Rightarrow> unit result \<times> 'p" where
  "SendTest ml cfg to p =
     (if \<not> smtp_Enabled cfg then (Inl (New ''email is not configured''), p)
      else smtp_send ml cfg to ''[TalePanel] Test email''
        (''This is a test email from TalePanel.'' @ [CHR 0x0A, CHR 0x0A] @ ''If you can read this, email alerts are set up correctly.'') p)"

section \<open>Deliveries\<close>

text \<open>One goroutine of \<^verbatim>\<open>Dispatch\<close>.\<close>

fun deliver ::
  "(int \<Rightarrow> int) \<Rightarrow> (uuid \<Rightarrow> string) \<Rightarrow> (string \<Rightarrow> bool) \<Rightarrow> 'p client \<Rightarrow> 'p mailer \<Rightarrow> SMTPConfig \<Rightarrow> delivery \<Rightarrow> 'p \<Rightarrow> string list \<times> 'p" where
  "deliver tz str url_ok client ml cfg (Mail payload to) p = smtp_Send tz str ml cfg payload to p"
| "deliver tz str url_ok client ml cfg (WebhookPost payload url) p = webhook_Post tz str url_ok client payload url p"
| "deliver tz str url_ok client ml cfg (DiscordPost payload url) p = discord_Post tz str url_ok client payload url p"

section \<open>Properties\<close>

text \<open>What a webhook gets is the payload: a reader of the JSON text finds every field again, whatever the strings
  hold.\<close>

lemma webhook_body_read:
  "json_unmarshal (json_text (webhook_body tz str p)) = Some (webhook_body tz str p)"
  by (rule json_roundtrip) (simp add: webhook_body_def)

lemma discord_body_read:
  "json_unmarshal (json_text (discord_body tz str p)) = Some (discord_body tz str p)"
proof (rule json_roundtrip)
  have "json_number (dec n)" if "0 \<le> n" for n using that by (simp add: dec_def json_number_dec_nat)
  then show "json_ok (discord_body tz str p)" by (simp add: discord_body_def Let_def)
qed

text \<open>A mail that is handed over has single-line headers, goes to the configured port under the TLS mode of the
  settings, and carries credentials only with a user name.\<close>

lemma clientOptions_result:
  assumes "clientOptions cfg = Inr opts"
  shows "WithPort (sc_Port cfg) \<in> set opts
     \<and> (sc_TLSMode cfg = SMTPTLSStartTLS \<longleftrightarrow> WithTLSPolicy TLSMandatory \<in> set opts)
     \<and> (sc_TLSMode cfg = SMTPTLSImplicit \<longleftrightarrow> WithSSL \<in> set opts)
     \<and> (\<forall>w. WithPassword w \<in> set opts \<longrightarrow> w = sc_Password cfg \<and> sc_Username cfg \<noteq> '''')"
  using assms by (auto simp: clientOptions_def tlsSettings_def and_then_Inr split: if_splits)

lemma smtp_Validate_port: "smtp_Validate parse cfg = Inr () \<Longrightarrow> 1 \<le> sc_Port cfg \<and> sc_Port cfg \<le> 65535"
  by (simp add: smtp_Validate_def split: if_splits)

theorem mail_prepared:
  assumes "prepare_mail ml cfg to subject body = Inr (host, opts, m)"
  shows "host = sc_Host cfg \<and> WithPort (sc_Port cfg) \<in> set opts \<and> 1 \<le> sc_Port cfg \<and> sc_Port cfg \<le> 65535
     \<and> (sc_TLSMode cfg = SMTPTLSStartTLS \<longleftrightarrow> WithTLSPolicy TLSMandatory \<in> set opts)
     \<and> (sc_TLSMode cfg = SMTPTLSImplicit \<longleftrightarrow> WithSSL \<in> set opts)
     \<and> (\<forall>w. WithPassword w \<in> set opts \<longrightarrow> w = sc_Password cfg \<and> sc_Username cfg \<noteq> '''')
     \<and> (\<forall>c \<in> set (mm_Subject m @ mm_FromName m). byte c \<ge> 32 \<and> byte c \<noteq> 127) \<and> \<not> hasCRLF (mm_To m) \<and> mm_To m = to"
proof -
  from assms obtain name address where valid: "smtp_Validate (ml_parse ml) cfg = Inr ()" and "clientOptions cfg = Inr opts"
    and m: "host = sc_Host cfg" "\<not> hasCRLF to" "m = \<lparr>mm_FromName = sanitizeHeader name, mm_FromAddress = address, mm_To = to,
      mm_Subject = sanitizeHeader subject, mm_Body = body\<rparr>"
    by (auto simp: prepare_mail_def and_then_Inr refuse_if_def split: if_splits)
  moreover have "byte c \<ge> 32 \<and> byte c \<noteq> 127" if "c \<in> set (mm_Subject m @ mm_FromName m)" for c
    using that m(3) header_single_line [of c subject] header_single_line [of c name] by auto
  ultimately show ?thesis using clientOptions_result smtp_Validate_port [OF valid] by simp
qed

text \<open>The text logged for a failed post does not depend on the URL, whose path can be a secret.\<close>

theorem failed_post_redacted:
  assumes "\<And>p r. client p r = (Inl \<lparr>ue_Op = op, ue_URL = rq_URL r, ue_Err = err\<rparr>, p)" and "url_ok url" and "url_ok url'"
  shows "fst (post_json what url_ok client body url p) = fst (post_json what url_ok client body url' p)"
  using assms by (simp add: post_json_def redactURLError_def)

end
