(* ===== verification/Spec2Isabelle.thy ===== *)
theory Spec2Isabelle
  imports Invitations Setup Router Cron AlertRules BackupRules ModRules RoutingRules DatabaseRules HytaleRules Upstream AccountHandlers DaemonRules Migrations Certificates Delivery
begin

text \<open>
  Verification of the TalePanel API service, the Go program under \<^verbatim>\<open>services/api\<close>
  (paths below are relative to \<^verbatim>\<open>services/api/internal\<close>).

  \<^bold>\<open>The program.\<close>  TalePanel manages game servers on a fleet of nodes.  A request passes
  the router and its middleware (\<^verbatim>\<open>router\<close>, \<^verbatim>\<open>middleware\<close>), reaches a handler
  (\<^verbatim>\<open>handlers\<close>), which calls a service (\<^verbatim>\<open>services\<close>); services keep everything in
  PostgreSQL, short-lived session data in Redis, and talk to node daemons by queueing
  commands in a table and by HTTP calls (\<^verbatim>\<open>daemon\<close>).  Daemons call back with
  heartbeats, status changes, log lines and player events.

  \<^bold>\<open>How it is modelled.\<close>  The database is the record \<open>db\<close> of \<open>Models\<close>, one list of
  rows per table; a row has the columns the modelled statements use, and the checks,
  unique indexes, foreign keys, cascades and triggers of the migrations are written into
  the statements they affect.  Every operation is a function of an environment \<open>env\<close>
  (clock, and which external calls fail), the data it draws at random, the database and its
  arguments, and returns a result (\<open>go_error + 'a\<close>) and the new database; each fallible
  statement has a label, so every error branch of the source is a branch of the model.
  Handlers return a \<open>response\<close>.  A transaction is a function that returns the old
  database on an error; statements outside a transaction leave their effects behind when
  a later one fails.  Goroutines and transactions that other requests can interleave
  with are separate definitions or take what happens meanwhile as an argument.
  Cryptographic primitives, URL parsing, X.509 and the answers of daemons are arguments,
  with the laws they need as hypotheses where a property needs any.

  \<^bold>\<open>The theories.\<close>

  \<^item> \<open>Prelude\<close>: Go errors and results, strings, numbers, JSON values, tables, and the
    contracts the components instantiate: \<open>kept_invariant\<close>, \<open>single_use\<close> tokens and
    \<open>task_queue\<close>.  \<open>Models\<close>: \<^verbatim>\<open>models\<close>, roles, rows, the database, console roles.
  \<^item> \<open>Permissions\<close>: \<^verbatim>\<open>permission_service.go\<close>, \<^verbatim>\<open>require_permission.go\<close>; tenants are
    isolated, member roles decide.  \<open>Invitations\<close>: \<^verbatim>\<open>invitation_service.go\<close>;
    accepted at most once, only by the addressee, within the rights of the inviter.
  \<^item> \<open>Crypto\<close>, \<open>Config\<close>: \<^verbatim>\<open>crypto/crypto.go\<close>, \<^verbatim>\<open>config/config.go\<close>; envelopes are read
    back, a configuration that loads is safe.
  \<^item> \<open>Accounts\<close>, \<open>Sessions\<close>, \<open>SignIn\<close>, \<open>Setup\<close>: \<^verbatim>\<open>auth_service.go\<close>,
    \<^verbatim>\<open>setup_service.go\<close>, their handlers and middleware; an active owner remains,
    refresh tokens rotate once, logged out tokens are dead, the first owner is set up once.
  \<^item> \<open>Requests\<close>, \<open>Router\<close>: rate limits, body limits, audit log, and the table of routes
    with their chains; which routes admit whom.
  \<^item> \<open>Cron\<close>: \<^verbatim>\<open>cron.go\<close>; the next time is the earliest match.  \<open>Netip\<close>, \<open>Addresses\<close>:
    \<^verbatim>\<open>net/netip\<close> as far as used, \<^verbatim>\<open>daemon/host.go\<close>, the address guard of
    \<^verbatim>\<open>alerting/safehttp.go\<close>.
  \<^item> \<open>Players\<close>, \<open>PlayTime\<close>, \<open>PlayerHandlers\<close>: \<^verbatim>\<open>player_service.go\<close>,
    \<^verbatim>\<open>network_player_service.go\<close>, \<^verbatim>\<open>handlers/players.go\<close>,
    \<^verbatim>\<open>handlers/network_players.go\<close>; play time is accounted for, network bans are enforced.
  \<^item> \<open>Nodes\<close>, \<open>NodeHandlers\<close>, \<open>NodeRules\<close>: \<^verbatim>\<open>node_service.go\<close>,
    \<^verbatim>\<open>enrollment_service.go\<close>, the client pool of \<^verbatim>\<open>daemon/client.go\<close>,
    \<^verbatim>\<open>handlers/nodes.go\<close>, \<^verbatim>\<open>handlers/enrollment.go\<close>, \<^verbatim>\<open>handlers/node_csr.go\<close>; enrollment
    tokens are single use, the command table refines a queue of tasks.
  \<^item> \<open>Alerts\<close>, \<open>AlertRules\<close>: \<^verbatim>\<open>alert_service.go\<close>, \<^verbatim>\<open>alerting\<close>, \<^verbatim>\<open>handlers/alerts.go\<close>;
    what fires and what never does.  \<open>Delivery\<close>: the posts of \<^verbatim>\<open>alerting/notifier.go\<close> and the mails of
    \<^verbatim>\<open>alerting/smtp.go\<close>; headers are single lines, the TLS mode is the configured one.
  \<^item> \<open>Servers\<close>, \<open>ServerRules\<close>, \<open>ServerHandlers\<close>, \<open>ServerFlows\<close>: \<^verbatim>\<open>server_service.go\<close>
    and \<^verbatim>\<open>handlers/servers.go\<close>; visibility, settings, placement, ports, log ingestion,
    console, daemon callbacks, the goroutine of a start, migration.
  \<^item> \<open>Json\<close>: \<^verbatim>\<open>encoding/json\<close>, writer and reader with their round trip.  \<open>Settings\<close>,
    \<open>SettingsRules\<close>: the encrypted settings (\<^verbatim>\<open>app_settings_service.go\<close>), the backup keyring
    (\<^verbatim>\<open>backup_keyring.go\<close>, \<^verbatim>\<open>backup_key_store.go\<close>), the certificate store
    (\<^verbatim>\<open>mtls_ca_store.go\<close>), SMTP and integration settings with their handlers; keys survive
    rotations, the ring is bounded, concurrent first uses of the certificate store converge.
  \<^item> \<open>Destinations\<close>, \<open>DestinationRules\<close>: \<^verbatim>\<open>backup_destination_providers.go\<close>,
    \<^verbatim>\<open>backup_destination_service.go\<close>, \<^verbatim>\<open>daemon/rclone.go\<close>; what a node is sent stays within
    the table of providers.
  \<^item> \<open>Backups\<close>, \<open>BackupRules\<close>: \<^verbatim>\<open>backup_service.go\<close>, \<^verbatim>\<open>handlers/backups.go\<close>; copies are
    kept over all interleavings, keys are found again, retention, schedules, isolation.
  \<^item> \<open>GameCommands\<close>, \<open>CommandRules\<close>: \<^verbatim>\<open>game_command_service.go\<close>, \<^verbatim>\<open>handlers/game_commands.go\<close>; a
    command is a stored template, filled, on one line, for a role that may run it.  \<open>Worlds\<close>,
    \<open>WorldRules\<close>: \<^verbatim>\<open>world_service.go\<close>, \<^verbatim>\<open>handlers/worlds.go\<close>; world names are path components.
    \<open>Mods\<close>, \<open>ModRules\<close>: \<^verbatim>\<open>mod_service.go\<close>, \<^verbatim>\<open>handlers/mods.go\<close>; which downloads a node is told to make.
  \<^item> \<open>Databases\<close>, \<open>DatabaseRules\<close>: \<^verbatim>\<open>database_service.go\<close>, \<^verbatim>\<open>handlers/databases.go\<close>; the statements
    MariaDB gets.  \<open>Routing\<close>, \<open>RoutingRules\<close>: \<^verbatim>\<open>network_routing_service.go\<close> and its handlers; ticket keys
    stay with their servers, role changes reach the network.
  \<^item> \<open>Http\<close>: requests, answers, query encoding, struct decoding and the caches, shared by the clients.
    \<open>HytaleAuth\<close>, \<open>HytaleRules\<close>: \<^verbatim>\<open>hytale_auth_service.go\<close>, \<^verbatim>\<open>handlers/hytale.go\<close>; the stored token stays
    one the provider accepts.  \<open>Upstream\<close>: \<^verbatim>\<open>curseforge_service.go\<close>, \<^verbatim>\<open>hytale_version_service.go\<close>,
    \<^verbatim>\<open>update_service.go\<close>, \<^verbatim>\<open>handlers/health.go\<close>; the walk over the catalogue ends.
    \<open>DaemonClient\<close>, \<open>DaemonRules\<close>: the calls of \<^verbatim>\<open>daemon/client.go\<close>; paths, token and query of every request.
  \<^item> \<open>AccountHandlers\<close>: \<^verbatim>\<open>profile_service.go\<close>, \<^verbatim>\<open>handlers/profile.go\<close>, \<^verbatim>\<open>handlers/invitations.go\<close>, and
    the permissions of \<^verbatim>\<open>handlers/admin.go\<close>.  \<open>Migrations\<close>: \<^verbatim>\<open>db/migrate.go\<close>, which refines the plain
    sequence of its files, and \<^verbatim>\<open>cmd/talecli\<close>.  \<open>Certificates\<close>: \<^verbatim>\<open>pki/pki.go\<close>; what a daemon gets for
    a signing request is bound to its node.

  \<^bold>\<open>Interfaces.\<close>  \<open>kept_invariant\<close> is interpreted for accounts, setup, ports, play
  time, destinations, backups with their jobs, worlds and game commands; \<open>single_use\<close> for
  invitations, refresh tokens and enrollment tokens; \<open>task_queue\<close>, which gives \<open>single_use\<close> by a
  sublocale, for the command queue of every node; \<open>statements_keep\<close> for the sequences of statements
  sent to MariaDB.

  \<^bold>\<open>Parameters.\<close>  AES-GCM, bcrypt, HMAC and the hash of tokens, the URL grammar, X.509 with its keys,
  PostgreSQL where it executes a migration, MariaDB, the other side of an HTTP exchange (daemons,
  Hytale, CurseForge, GitHub, Maven), \<^verbatim>\<open>go-mail\<close> and the reader of Maven's XML are arguments.  Where a property
  needs a law of one of them (a cipher opens what it sealed, a provider rotates tokens, a catalogue is
  bounded) it is a hypothesis, and the witness has a concrete function that satisfies it.

  \<^bold>\<open>Bounds and loops.\<close>  Loops over lists are structural or have a measure: the chunked
  log insert, the cron search (bounded by 367 days of minutes), the field parser, numbers as text.
  The wait of a start is a recursion over its schedule, and it is proved that 201 rounds suffice (a
  tick every three seconds, a timer of ten minutes).  The walk over the pages of CurseForge, which
  the other side can prolong without end, is a partial function, proved to return when no page
  claims more than a bound of games.  Integers are unbounded where the
  code cannot leave its range, and wrap or are refused where it can: \<open>wrap64\<close> in the cron
  parser, 32-bit columns, words in addresses and in the start request.

  \<^bold>\<open>Not modelled.\<close>  Text is ASCII for case mapping and white space.  Rows with equal
  timestamps are listed in insertion order, which PostgreSQL leaves open.  The transport of HTTP
  and SMTP, TLS, WebSockets, logging, connection pools (\<^verbatim>\<open>db/postgres.go\<close>, \<^verbatim>\<open>db/redis.go\<close>) and the wiring
  in \<^verbatim>\<open>cmd/server/main.go\<close> are I/O.  The Rust daemon, the web interface, the game mod and the
  installer are separate programs.
\<close>

end
